(* ===== verification/Prelude.thy ===== *)
theory Prelude
  imports Main
    "HOL-Library.Word"
    "HOL-Library.Char_ord"
    "HOL-Library.List_Lexorder"
    "HOL-Library.Product_Lexorder"
begin

text \<open>
  The shared vocabulary of the development: the machine integers of the Rust crates, the
  \<open>Result\<close> type and its sequencing, the checked and saturating integer operations of the Rust
  standard library, and generic facts on lists that several components use.
  Rust strings are UTF-8 byte strings whose \<open>len\<close> counts bytes; an Isabelle \<open>string\<close> is a
  list of 8-bit characters, so \<open>length\<close> is the Rust \<open>len\<close> and the lexicographic order of
  \<open>HOL-Library.List_Lexorder\<close> over \<open>HOL-Library.Char_ord\<close> is Rust's byte order on strings.
\<close>

section \<open>Fact collections\<close>

named_theorems result_simps \<open>rewriting sequenced results\<close>
named_theorems checked_simps \<open>the unsigned reading of checked and saturating arithmetic\<close>

section \<open>Machine integers\<close>

type_synonym u8 = "8 word"
type_synonym u16 = "16 word"
type_synonym u32 = "32 word"
type_synonym u64 = "64 word"
type_synonym i32 = "32 word"
type_synonym i64 = "64 word"

definition checked_add :: "'a::len word \<Rightarrow> 'a word \<Rightarrow> 'a word option" where
  "checked_add a b = (if unat a + unat b < 2 ^ LENGTH('a) then Some (a + b) else None)"

definition checked_sub :: "'a::len word \<Rightarrow> 'a word \<Rightarrow> 'a word option" where
  "checked_sub a b = (if b \<le> a then Some (a - b) else None)"

definition checked_mul :: "'a::len word \<Rightarrow> 'a word \<Rightarrow> 'a word option" where
  "checked_mul a b = (if unat a * unat b < 2 ^ LENGTH('a) then Some (a * b) else None)"

definition saturating_sub :: "'a::len word \<Rightarrow> 'a word \<Rightarrow> 'a word" where
  "saturating_sub a b = (if b \<le> a then a - b else 0)"

definition saturating_add :: "'a::len word \<Rightarrow> 'a word \<Rightarrow> 'a word" where
  "saturating_add a b = (if unat a + unat b < 2 ^ LENGTH('a) then a + b else - 1)"

definition saturating_mul :: "'a::len word \<Rightarrow> 'a word \<Rightarrow> 'a word" where
  "saturating_mul a b = (if unat a * unat b < 2 ^ LENGTH('a) then a * b else - 1)"

lemma checked_add_Some_iff:
  "checked_add a b = Some c \<longleftrightarrow> unat a + unat b < 2 ^ LENGTH('a) \<and> c = a + b"
  for a b c :: "'a::len word"
  by (auto simp: checked_add_def)

lemma unat_checked_add [checked_simps]:
  "checked_add a b = Some c \<Longrightarrow> unat c = unat a + unat b" for a b c :: "'a::len word"
  by (auto simp: checked_add_def unat_word_ariths split: if_splits)

lemma unat_checked_sub [checked_simps]:
  "checked_sub a b = Some c \<Longrightarrow> unat b \<le> unat a \<and> unat c = unat a - unat b"
  for a b c :: "'a::len word"
  by (auto simp: checked_sub_def word_le_nat_alt unat_sub split: if_splits)

lemma unat_checked_mul [checked_simps]:
  "checked_mul a b = Some c \<Longrightarrow> unat c = unat a * unat b" for a b c :: "'a::len word"
  by (auto simp: checked_mul_def unat_word_ariths split: if_splits)

lemma unat_saturating_sub [checked_simps]:
  "unat (saturating_sub a b) = unat a - unat b" for a b :: "'a::len word"
  by (auto simp: saturating_sub_def word_le_nat_alt unat_sub)

lemma unat_minus_one_word_le: "unat a \<le> unat (- 1 :: 'a::len word)" for a :: "'a::len word"
  using word_le_nat_alt word_order.extremum by blast

lemma saturating_sub_le [simp]: "saturating_sub a b \<le> a" for a b :: "'a::len word"
  by (simp add: word_le_nat_alt unat_saturating_sub)

lemma checked_add_comm: "checked_add a b = checked_add b a" for a b :: "'a::len word"
  by (simp add: checked_add_def add.commute)

section \<open>Results\<close>

type_synonym ('e, 'a) result = "'e + 'a"

abbreviation Ok :: "'a \<Rightarrow> ('e, 'a) result" where "Ok \<equiv> Inr"
abbreviation Err :: "'e \<Rightarrow> ('e, 'a) result" where "Err \<equiv> Inl"

text \<open>\<open>rbind m f\<close> is Rust's \<open>let x = m?; f x\<close>: the first error is returned.\<close>

definition rbind :: "('e, 'a) result \<Rightarrow> ('a \<Rightarrow> ('e, 'b) result) \<Rightarrow> ('e, 'b) result" where
  "rbind m f = (case m of Inl e \<Rightarrow> Inl e | Inr x \<Rightarrow> f x)"

lemma rbind_Ok [simp, result_simps]: "rbind (Ok x) f = f x"
  by (simp add: rbind_def)

lemma rbind_Err [simp, result_simps]: "rbind (Err e) f = Err e"
  by (simp add: rbind_def)

lemma rbind_eq_Ok_iff [result_simps]:
  "rbind m f = Ok y \<longleftrightarrow> (\<exists>x. m = Ok x \<and> f x = Ok y)"
  by (cases m) auto

lemma rbind_eq_Err_iff:
  "rbind m f = Err e \<longleftrightarrow> m = Err e \<or> (\<exists>x. m = Ok x \<and> f x = Err e)"
  by (cases m) auto

lemma rbind_cong [fundef_cong]:
  "m = m' \<Longrightarrow> (\<And>x. m' = Ok x \<Longrightarrow> f x = f' x) \<Longrightarrow> rbind m f = rbind m' f'"
  by (cases m') auto

text \<open>\<open>guard_err b e\<close> is \<open>if b { return Err(e) }\<close>; \<open>ok_or o e\<close> is \<open>o.ok_or(e)?\<close>.\<close>

definition guard_err :: "bool \<Rightarrow> 'e \<Rightarrow> ('e, unit) result" where
  "guard_err b e = (if b then Err e else Ok ())"

definition ok_or :: "'a option \<Rightarrow> 'e \<Rightarrow> ('e, 'a) result" where
  "ok_or m e = (case m of None \<Rightarrow> Err e | Some x \<Rightarrow> Ok x)"

definition map_err :: "('e \<Rightarrow> 'f) \<Rightarrow> ('e, 'a) result \<Rightarrow> ('f, 'a) result" where
  "map_err f m = (case m of Inl e \<Rightarrow> Inl (f e) | Inr x \<Rightarrow> Inr x)"

definition is_ok :: "('e, 'a) result \<Rightarrow> bool" where
  "is_ok m = (case m of Inl _ \<Rightarrow> False | Inr _ \<Rightarrow> True)"

lemma is_ok_simps [simp]: "is_ok (Ok x)" "\<not> is_ok (Err e)"
  by (simp_all add: is_ok_def)

lemma is_ok_iff: "is_ok m \<longleftrightarrow> (\<exists>x. m = Ok x)"
  by (cases m) auto

lemma guard_err_simps [simp]: "guard_err True e = Err e" "guard_err False e = Ok ()"
  by (simp_all add: guard_err_def)

lemma guard_err_eq_Ok [simp, result_simps]: "guard_err b e = Ok u \<longleftrightarrow> \<not> b"
  by (simp add: guard_err_def)

lemma ok_or_simps [simp]: "ok_or None e = Err e" "ok_or (Some x) e = Ok x"
  by (simp_all add: ok_or_def)

lemma ok_or_eq_Ok [simp, result_simps]: "ok_or m e = Ok x \<longleftrightarrow> m = Some x"
  by (cases m) auto

lemma ok_or_eq_Err [simp, result_simps]: "ok_or m e = Err e' \<longleftrightarrow> m = None \<and> e' = e"
  by (cases m) auto

lemma map_err_simps [simp]: "map_err f (Ok x) = Ok x" "map_err f (Err e) = Err (f e)"
  by (simp_all add: map_err_def)

lemma map_err_eq_Ok [simp, result_simps]: "map_err f m = Ok x \<longleftrightarrow> m = Ok x"
  by (cases m) auto

section \<open>Lists\<close>

text \<open>\<open>Iterator::position\<close>, \<open>Iterator::try_fold\<close> and \<open>Vec::sort_by\<close> in descending order.\<close>

fun position :: "('a \<Rightarrow> bool) \<Rightarrow> 'a list \<Rightarrow> nat option" where
  "position P [] = None"
| "position P (x # xs) = (if P x then Some 0 else map_option Suc (position P xs))"

lemma position_Some_iff:
  "position P xs = Some i \<longleftrightarrow> i < length xs \<and> P (xs ! i) \<and> (\<forall>j<i. \<not> P (xs ! j))"
proof (induction xs arbitrary: i)
  case Nil
  then show ?case by simp
next
  case (Cons x xs)
  show ?case
    by (cases i) (auto simp: Cons.IH All_less_Suc2)
qed

lemma position_SomeD:
  assumes "position P xs = Some i"
  shows "i < length xs" and "P (xs ! i)"
  using assms by (simp_all add: position_Some_iff)

lemma position_None_iff: "position P xs = None \<longleftrightarrow> (\<forall>x\<in>set xs. \<not> P x)"
  by (induction xs) auto

lemma find_position: "List.find P xs = map_option (nth xs) (position P xs)"
  by (induction xs) (auto simp: option.map_comp comp_def)

lemma find_SomeD:
  assumes "List.find P xs = Some x"
  shows "x \<in> set xs" and "P x"
  using assms by (auto simp: find_Some_iff in_set_conv_nth)

fun try_fold_add :: "u64 \<Rightarrow> u64 list \<Rightarrow> u64 option" where
  "try_fold_add acc [] = Some acc"
| "try_fold_add acc (x # xs) =
     (case checked_add acc x of None \<Rightarrow> None | Some s \<Rightarrow> try_fold_add s xs)"

lemma try_fold_add_Some:
  "try_fold_add acc xs = Some s \<Longrightarrow> unat s = unat acc + sum_list (map unat xs)"
proof (induction acc xs rule: try_fold_add.induct)
  case (1 acc)
  then show ?case by simp
next
  case (2 acc x xs)
  then show ?case
    by (auto simp: unat_checked_add split: option.splits)
qed

lemma try_fold_add_exists:
  "unat acc + sum_list (map unat xs) < 2 ^ 64 \<Longrightarrow> \<exists>s. try_fold_add acc xs = Some s"
proof (induction acc xs rule: try_fold_add.induct)
  case (1 acc)
  then show ?case by simp
next
  case (2 acc x xs)
  have "checked_add acc x = Some (acc + x)"
    using "2.prems" by (simp add: checked_add_def)
  moreover have "unat (acc + x) = unat acc + unat x"
    using calculation by (rule unat_checked_add)
  ultimately show ?case
    using 2 by simp
qed

definition sort_desc :: "('a \<Rightarrow> 'k::linorder) \<Rightarrow> 'a list \<Rightarrow> 'a list" where
  "sort_desc k xs = rev (sort_key k (rev xs))"

lemma set_sort_desc [simp]: "set (sort_desc k xs) = set xs"
  by (simp add: sort_desc_def)

lemma length_sort_desc [simp]: "length (sort_desc k xs) = length xs"
  by (simp add: sort_desc_def)

lemma sorted_sort_desc: "sorted (rev (map k (sort_desc k xs)))"
  by (simp add: sort_desc_def rev_map)

lemma sum_list_filter_le: "sum_list (map f (filter P xs)) \<le> sum_list (map f xs)"
  for f :: "'a \<Rightarrow> nat"
  by (induction xs) auto

lemma sum_list_update_nat:
  fixes f :: "'a \<Rightarrow> nat"
  assumes "i < length xs"
  shows "sum_list (map f (xs[i := y])) + f (xs ! i) = sum_list (map f xs) + f y"
  using assms
proof (induction xs arbitrary: i)
  case Nil
  then show ?case by simp
next
  case (Cons x xs)
  then show ?case by (cases i) (auto simp: add.assoc)
qed

lemma map_list_update_same:
  assumes "f y = f (xs ! i)" shows "map f (xs[i := y]) = map f xs"
  using assms by (metis list_update_id map_update)

lemma filter_length_mono:
  "(\<And>x. x \<in> set xs \<Longrightarrow> P x \<Longrightarrow> Q x) \<Longrightarrow> length (filter P xs) \<le> length (filter Q xs)"
  by (induction xs) auto

lemma length_filter_update:
  assumes "i < length xs"
  shows "length (filter P (xs[i := y])) + (if P (xs ! i) then 1 else 0)
       = length (filter P xs) + (if P y then 1 else 0)"
  using assms
proof (induction xs arbitrary: i)
  case Nil
  then show ?case by simp
next
  case (Cons x xs)
  show ?case
  proof (cases i)
    case 0
    then show ?thesis by simp
  next
    case (Suc j)
    with Cons.IH[of j] Cons.prems show ?thesis by simp
  qed
qed

text \<open>Replacing or removing the element at an index of a list whose keys are distinct.\<close>

lemma nth_key_eq:
  assumes "distinct (map f xs)" and "i < length xs" and "x \<in> set xs" and "f x = f (xs ! i)"
  shows "x = xs ! i"
  using assms by (auto simp: in_set_conv_nth distinct_conv_nth)

lemma set_update_key:
  assumes "distinct (map f xs)" and "i < length xs"
  shows "set (xs[i := y]) = insert y {x \<in> set xs. f x \<noteq> f (xs ! i)}"
proof -
  have "set (xs[i := y]) = insert y (set xs - {xs ! i})"
    using assms by (simp add: distinct_map set_update_distinct)
  also have "set xs - {xs ! i} = {x \<in> set xs. f x \<noteq> f (xs ! i)}"
    using nth_key_eq[OF assms] by auto
  finally show ?thesis .
qed

lemma set_remove_key:
  assumes "distinct (map f xs)" and "i < length xs"
  shows "set (take i xs @ drop (Suc i) xs) = {x \<in> set xs. f x \<noteq> f (xs ! i)}"
proof -
  have d: "distinct (take i xs @ (xs ! i) # drop (Suc i) xs)"
    using assms by (simp add: id_take_nth_drop[symmetric] distinct_map)
  have "set xs = insert (xs ! i) (set (take i xs @ drop (Suc i) xs))"
    by (subst id_take_nth_drop[OF assms(2)]) auto
  then have "set (take i xs @ drop (Suc i) xs) = set xs - {xs ! i}"
    using d by auto
  also have "\<dots> = {x \<in> set xs. f x \<noteq> f (xs ! i)}"
    using nth_key_eq[OF assms] by auto
  finally show ?thesis .
qed

lemma distinct_map_remove:
  assumes "distinct (map f xs)"
  shows "distinct (map f (take i xs @ drop (Suc i) xs))"
proof (cases "i < length xs")
  case True
  then have "map f xs = map f (take i xs) @ f (xs ! i) # map f (drop (Suc i) xs)"
    by (subst id_take_nth_drop[OF True]) simp
  with assms show ?thesis by auto
next
  case False
  with assms show ?thesis by simp
qed

lemma distinct_map_update:
  assumes "distinct (map f xs)" and "f y = f (xs ! i)"
  shows "distinct (map f (xs[i := y]))"
  using assms by (simp add: map_list_update_same)

end
