(* ===== verification/Contract.thy ===== *)
theory Contract
  imports Prelude
begin

text \<open>
  The wire contract crate (\<open>rust/crates/contract/src\<close>): the enumerations of
  \<open>common.rs\<close>, identities, scalar values and public errors, the tool inputs an Automation may
  save (\<open>tools.rs\<close>) and the Automation definition itself (\<open>automation.rs\<close>). Enumerations and
  tagged unions are datatypes with the source's constructors (prefixed by their type where two
  types share a constructor name), structures are records. serde encodings are not modelled,
  except for the wire tokens the Runtime itself reads back.
\<close>

section \<open>Enumerations of common.rs\<close>

datatype mother_tool =
  ToolContext | ToolFilesystem | ToolCommand | ToolNetwork | ToolVisual | ToolAndroid
| ToolAutomation | ToolTaskControl

datatype capability_state = Available | Unavailable | Unknown

datatype runtime_readiness = Initializing | Ready | ReadinessUnavailable

datatype runtime_host = ApkRuntime | MagiskBackend

datatype execution_class = ClassApp | ClassAndroidFramework | ClassShizuku | ClassMagisk

datatype task_state =
  TaskCreated | TaskQueued | TaskRunning | TaskCompleted | TaskFailed | TaskCancelled
| TaskInterrupted

datatype automation_execution_state =
  AutoQueued | AutoRunning | AutoCompleted | AutoFailed | AutoCancelled | AutoInterrupted

datatype error_code =
  InvalidArgument | NotFound | AlreadyExists | PermissionDenied | CapabilityUnavailable
| Unsupported | StaleAuthority | StaleReference | RevisionConflict | Timeout | Cancelled
| IoError | ProtocolIncompatible | ResourceLimit | InternalError | NotEmpty | ArchiveCorrupt
| ArchiveEncrypted | RunAsUnavailable | ExecutionFailed | CancelFailed | CaptureFailed
| HostTransitionPending

fun error_code_token :: "error_code \<Rightarrow> string" where
  "error_code_token InvalidArgument = ''INVALID_ARGUMENT''"
| "error_code_token NotFound = ''NOT_FOUND''"
| "error_code_token AlreadyExists = ''ALREADY_EXISTS''"
| "error_code_token PermissionDenied = ''PERMISSION_DENIED''"
| "error_code_token CapabilityUnavailable = ''CAPABILITY_UNAVAILABLE''"
| "error_code_token Unsupported = ''UNSUPPORTED''"
| "error_code_token StaleAuthority = ''STALE_AUTHORITY''"
| "error_code_token StaleReference = ''STALE_REFERENCE''"
| "error_code_token RevisionConflict = ''REVISION_CONFLICT''"
| "error_code_token Timeout = ''TIMEOUT''"
| "error_code_token Cancelled = ''CANCELLED''"
| "error_code_token IoError = ''IO_ERROR''"
| "error_code_token ProtocolIncompatible = ''PROTOCOL_INCOMPATIBLE''"
| "error_code_token ResourceLimit = ''RESOURCE_LIMIT''"
| "error_code_token InternalError = ''INTERNAL_ERROR''"
| "error_code_token NotEmpty = ''NOT_EMPTY''"
| "error_code_token ArchiveCorrupt = ''ARCHIVE_CORRUPT''"
| "error_code_token ArchiveEncrypted = ''ARCHIVE_ENCRYPTED''"
| "error_code_token RunAsUnavailable = ''RUN_AS_UNAVAILABLE''"
| "error_code_token ExecutionFailed = ''EXECUTION_FAILED''"
| "error_code_token CancelFailed = ''CANCEL_FAILED''"
| "error_code_token CaptureFailed = ''CAPTURE_FAILED''"
| "error_code_token HostTransitionPending = ''HOST_TRANSITION_PENDING''"

fun mother_tool_token :: "mother_tool \<Rightarrow> string" where
  "mother_tool_token ToolContext = ''context''"
| "mother_tool_token ToolFilesystem = ''filesystem''"
| "mother_tool_token ToolCommand = ''command''"
| "mother_tool_token ToolNetwork = ''network''"
| "mother_tool_token ToolVisual = ''visual''"
| "mother_tool_token ToolAndroid = ''android''"
| "mother_tool_token ToolAutomation = ''automation''"
| "mother_tool_token ToolTaskControl = ''task_control''"

fun runtime_host_token :: "runtime_host \<Rightarrow> string" where
  "runtime_host_token ApkRuntime = ''apk_runtime''"
| "runtime_host_token MagiskBackend = ''magisk_backend''"

lemma error_code_token_inject [simp]: "error_code_token a = error_code_token b \<longleftrightarrow> a = b"
  by (cases a; cases b) simp_all

lemma mother_tool_token_inject [simp]: "mother_tool_token a = mother_tool_token b \<longleftrightarrow> a = b"
  by (cases a; cases b) simp_all

section \<open>Identities\<close>

text \<open>
  \<open>UuidV4\<close> is a newtype over the validated canonical text; the Runtime only compares it and
  orders it by that text.
\<close>

datatype uuid = UuidV4 (as_str: string)

instantiation uuid :: linorder
begin

definition less_eq_uuid :: "uuid \<Rightarrow> uuid \<Rightarrow> bool" where
  "less_eq_uuid a b \<longleftrightarrow> as_str a \<le> as_str b"

definition less_uuid :: "uuid \<Rightarrow> uuid \<Rightarrow> bool" where
  "less_uuid a b \<longleftrightarrow> as_str a < as_str b"

instance
  by standard (auto simp: less_eq_uuid_def less_uuid_def intro: uuid.expand)

end

lemma as_str_inject [simp]: "as_str a = as_str b \<longleftrightarrow> a = b"
  by (auto intro: uuid.expand)

type_synonym request_id = uuid
type_synonym task_id = uuid
type_synonym automation_id = uuid
type_synonym execution_id = uuid

section \<open>Scalars and public errors\<close>

datatype scalar_value = ScalarNull | ScalarBoolean bool | ScalarInteger i64 | ScalarString string

datatype error_detail_scalar =
  EdsNull | EdsBoolean bool | EdsSigned i64 | EdsUnsigned u64 | EdsString string

datatype error_detail_value =
  EdvNull | EdvBoolean bool | EdvSigned i64 | EdvUnsigned u64 | EdvString string
| EdvArray "error_detail_scalar list"

text \<open>
  A \<open>BTreeMap<String, V>\<close> is its entries in ascending key order; \<open>Ordered_Map\<close> holds its
  operations.
\<close>

type_synonym 'v btree_map = "(string \<times> 'v) list"

record public_error =
  pe_code :: error_code
  pe_operation :: string
  pe_retryable :: bool
  pe_message :: "string option"
  pe_capability :: "string option"
  pe_details :: "error_detail_value btree_map option"

record availability =
  av_state :: capability_state
  av_reason :: "string option"

record grant_facts =
  android_local_network :: availability
  android_notifications :: availability
  android_notification_listener :: availability
  automation_exact_alarm :: availability
  visual_accessibility :: availability
  visual_media_projection_session :: availability
  shizuku_shell :: availability
  magisk_module :: availability
  magisk_root :: availability
  magisk_framework :: availability
  magisk_launch :: availability
  magisk_clipboard :: availability
  magisk_notifications :: availability
  magisk_wake_alarm :: availability
  execution_app_guard :: availability
  execution_shell_guard :: availability
  execution_root_guard :: availability

record effective_capabilities =
  filesystem_privileged_path :: availability
  command_app :: availability
  command_shell :: availability
  command_root :: availability
  network_inspect :: availability
  network_internet :: availability
  network_local :: availability
  network_capture :: availability
  network_inject :: availability
  visual_image :: availability
  visual_hierarchy :: availability
  visual_coordinate_input :: availability
  visual_key_input :: availability
  visual_text_input :: availability
  automation_persistent_time :: availability
  android_notification_access :: availability

datatype file_target_type = TargetPath | TargetContentUri

record file_target =
  ft_target_type :: file_target_type
  ft_value :: string

record fence =
  fence_runtime_epoch :: uuid
  fence_host_generation :: u64
  fence_runtime_instance_id :: uuid

section \<open>Tool inputs an Automation may save (tools.rs)\<close>

datatype filesystem_manage_input =
  Mkdir file_target bool
| FsCopy file_target file_target bool bool
| FsMove file_target file_target bool bool
| FsDelete file_target bool

record filesystem_download_input =
  fd_url :: string
  fd_destination :: file_target
  fd_overwrite :: bool
  fd_timeout_ms :: u64

datatype run_as = RunAsApp | RunAsShell | RunAsRoot

record command_run_input =
  cr_command :: string
  cr_run_as :: run_as
  cr_cwd :: "string option"
  cr_stdin :: "string option"
  cr_timeout_ms :: u64
  cr_max_output_bytes :: u64
  cr_as_task :: bool

datatype dns_record_type = DnsA | DnsAaaa

datatype network_diagnose_input =
  Connectivity
| Dns string dns_record_type
| Tcp string u16 u64
| Tls string u16 "string option" u64
| NetworkRouteTest string

datatype point_target =
  NodeTarget string
| CoordinateTarget uuid u32 u32

datatype visual_interact_input =
  VisualTap point_target "uuid option"
| VisualLongPress point_target "uuid option"
| VisualSwipe uuid u32 u32 u32 u32 u64 "uuid option"
| VisualText string "string option" "uuid option" "uuid option"
| VisualKey i32 i32 "uuid option" "uuid option"

datatype android_launch_input =
  LaunchPackage string
| LaunchComponent string string

datatype android_clipboard_input = ClipboardRead | ClipboardWrite string | ClipboardClear

section \<open>Automation definitions (automation.rs)\<close>

datatype automation_trigger =
  TriggerAt string
| TriggerInterval u64
| TriggerRrule string string
| TriggerEvent string "scalar_value btree_map option"

datatype condition_source = SourceState | SourceTrigger | SourceResult

datatype condition_operator = OpEquals | OpNotEquals | OpGreaterThan | OpLessThan | OpExists

record automation_condition =
  ac_source :: condition_source
  ac_key :: string
  ac_operator :: condition_operator
  ac_value :: "scalar_value option"

datatype element_operation = ElementTap | ElementLongPress | ElementText

datatype element_match = MatchText | MatchTextContains | MatchDescription | MatchResourceId

record automation_element_input =
  ae_operation :: element_operation
  ae_by :: element_match
  ae_value :: string
  ae_text :: "string option"
  ae_wait_ms :: u64

datatype automation_filesystem_call =
  FsManage filesystem_manage_input | FsDownload filesystem_download_input

datatype automation_command_call = CommandRun command_run_input

datatype automation_network_call = NetDiagnose network_diagnose_input

datatype automation_visual_call =
  VisualInteract visual_interact_input | VisualElement automation_element_input

datatype automation_android_call =
  AndroidLaunch android_launch_input | AndroidClipboard android_clipboard_input

datatype automation_compatible_call =
  CallFilesystem automation_filesystem_call
| CallCommand automation_command_call
| CallNetwork automation_network_call
| CallVisual automation_visual_call
| CallAndroid automation_android_call

datatype automation_step_failure = StepStop | StepContinue

fun is_stop :: "automation_step_failure \<Rightarrow> bool" where
  "is_stop StepStop = True"
| "is_stop StepContinue = False"

datatype automation_action =
  Call automation_compatible_call automation_step_failure
| Sequence "automation_action list"
| Conditional automation_condition automation_action "automation_action option"
| Repeat u32 automation_action u64
| Delay u64
| SetState string scalar_value

record automation =
  au_automation_id :: automation_id
  au_name :: string
  au_enabled :: bool
  au_trigger :: automation_trigger
  au_action :: automation_action
  au_state :: "scalar_value btree_map"
  au_revision :: u64
  au_created_at :: string
  au_updated_at :: string

record automation_execution_summary =
  es_execution_id :: execution_id
  es_task_id :: task_id
  es_state :: automation_execution_state
  es_triggered_at :: string
  es_started_at :: "string option"
  es_ended_at :: "string option"
  es_error_code :: "string option"

record automation_task_result =
  atr_automation_id :: automation_id
  atr_execution_id :: execution_id

text \<open>
  A Task's terminal result. The Runtime core builds the Automation case itself and moves the
  results of the other tools without reading them, so those are the type parameter.
\<close>

datatype 'r task_terminal_result =
  ResultAutomation automation_task_result
| ResultTool 'r

section \<open>Domain errors (domain/src/error.rs)\<close>

record domain_error =
  de_code :: error_code
  de_reason :: string
  de_os_error :: "i32 option"
  de_peer_reason :: "string option"

type_synonym 'a res = "(domain_error, 'a) result"

definition domain_error_new :: "error_code \<Rightarrow> string \<Rightarrow> domain_error" where
  "domain_error_new code reason =
     \<lparr>de_code = code, de_reason = reason, de_os_error = None, de_peer_reason = None\<rparr>"

definition domain_error_invalid :: "string \<Rightarrow> domain_error" where
  "domain_error_invalid reason = domain_error_new InvalidArgument reason"

text \<open>
  \<open>linux\<close> is \<open>cfg!(any(target_os = "linux", target_os = "android"))\<close> and \<open>raw\<close> is what
  \<open>std::io::Error::raw_os_error\<close> reports.
\<close>

definition linux_resource_exhausted :: "i32 \<Rightarrow> bool" where
  "linux_resource_exhausted errno \<longleftrightarrow> errno \<in> {12, 23, 24, 28, 122}"

definition domain_error_os :: "bool \<Rightarrow> error_code \<Rightarrow> string \<Rightarrow> i32 option \<Rightarrow> domain_error" where
  "domain_error_os linux code reason raw =
     \<lparr>de_code = (if linux \<and> (case raw of None \<Rightarrow> False | Some e \<Rightarrow> linux_resource_exhausted e)
                 then ResourceLimit else code),
      de_reason = reason, de_os_error = raw, de_peer_reason = None\<rparr>"

lemma domain_error_code [simp]:
  "de_code (domain_error_new c r) = c"
  "de_code (domain_error_invalid r) = InvalidArgument"
  "de_reason (domain_error_new c r) = r"
  "de_reason (domain_error_invalid r) = r"
  by (simp_all add: domain_error_new_def domain_error_invalid_def)

abbreviation err :: "error_code \<Rightarrow> string \<Rightarrow> 'a res" where
  "err code reason \<equiv> Err (domain_error_new code reason)"

abbreviation err_invalid :: "string \<Rightarrow> 'a res" where
  "err_invalid reason \<equiv> Err (domain_error_invalid reason)"

end
