(* ===== verification/Capability.thy ===== *)
theory Capability
  imports Contract
begin

text \<open>
  Effective capabilities (\<open>rust/crates/domain/src/capability.rs\<close>): the three-valued combination
  of grant facts and the derivation of every public capability from them. Capability states are
  ordered Unavailable < Unknown < Available; the source's two combinators are the minimum and the
  maximum of that order, which makes the derivation monotone.
\<close>

section \<open>Three-valued combination\<close>

instantiation capability_state :: linorder
begin

fun certainty :: "capability_state \<Rightarrow> nat" where
  "certainty Unavailable = 0"
| "certainty Unknown = 1"
| "certainty Available = 2"

definition less_eq_capability_state :: "capability_state \<Rightarrow> capability_state \<Rightarrow> bool" where
  "less_eq_capability_state a b \<longleftrightarrow> certainty a \<le> certainty b"

definition less_capability_state :: "capability_state \<Rightarrow> capability_state \<Rightarrow> bool" where
  "less_capability_state a b \<longleftrightarrow> certainty a < certainty b"

lemma certainty_inject: "certainty a = certainty b \<Longrightarrow> a = b"
  by (cases a; cases b) simp_all

instance
  by standard
    (auto simp: less_eq_capability_state_def less_capability_state_def intro: certainty_inject)

end

lemmas capability_order = less_eq_capability_state_def less_capability_state_def

lemma capability_extremes [simp]:
  "Unavailable \<le> s" "s \<le> Available"
  "s \<le> Unavailable \<longleftrightarrow> s = Unavailable" "Available \<le> s \<longleftrightarrow> s = Available"
  by (cases s; simp add: capability_order)+

definition any_sufficient :: "capability_state list \<Rightarrow> capability_state" where
  "any_sufficient states =
     (if List.member states Available then Available
      else if list_all (\<lambda>s. s = Unavailable) states then Unavailable
      else Unknown)"

definition all_required :: "capability_state list \<Rightarrow> capability_state" where
  "all_required states =
     (if List.member states Unavailable then Unavailable
      else if list_all (\<lambda>s. s = Available) states then Available
      else Unknown)"

lemma all_required_fold: "all_required states = foldr min states Available"
proof (induction states)
  case Nil
  then show ?case by (simp add: all_required_def)
next
  case (Cons s states)
  have "all_required (s # states) = min s (all_required states)"
    by (cases s) (auto simp: all_required_def min_def capability_order list_all_iff)
  with Cons show ?case by simp
qed

lemma any_sufficient_fold: "any_sufficient states = foldr max states Unavailable"
proof (induction states)
  case Nil
  then show ?case by (simp add: any_sufficient_def)
next
  case (Cons s states)
  have "any_sufficient (s # states) = max s (any_sufficient states)"
    by (cases s) (auto simp: any_sufficient_def max_def capability_order list_all_iff)
  with Cons show ?case by simp
qed

lemmas capability_folds = all_required_fold any_sufficient_fold

section \<open>The derivation\<close>

record capability_context =
  cc_sdk_int :: u32
  cc_host :: runtime_host
  cc_readiness :: runtime_readiness
  cc_app_execution_surface :: capability_state

fun base :: "runtime_readiness \<Rightarrow> capability_state" where
  "base Ready = Available"
| "base ReadinessUnavailable = Unavailable"
| "base Initializing = Unknown"

lemma base_Available: "base r = Available \<longleftrightarrow> r = Ready"
  by (cases r) simp_all

definition output_av :: "capability_state \<Rightarrow> availability" where
  "output_av state = \<lparr>av_state = state, av_reason = None\<rparr>"

lemma av_state_output [simp]: "av_state (output_av s) = s"
  by (simp add: output_av_def)

definition derive_capabilities ::
  "grant_facts \<Rightarrow> capability_context \<Rightarrow> effective_capabilities res" where
  "derive_capabilities grants context =
     (if \<not> (33 \<le> cc_sdk_int context \<and> cc_sdk_int context \<le> 37)
      then err_invalid ''sdk_int is outside the supported range''
      else
        let runtime = base (cc_readiness context);
            gated = (\<lambda>state. output_av (all_required [runtime, state]));
            root = av_state (magisk_root grants);
            privileged_path = any_sufficient [root, av_state (shizuku_shell grants)];
            command_app' = all_required
              [cc_app_execution_surface context, av_state (execution_app_guard grants)];
            command_shell' = all_required
              [av_state (shizuku_shell grants), av_state (execution_shell_guard grants)];
            command_root' = all_required [root, av_state (execution_root_guard grants)];
            network_local' =
              (if cc_sdk_int context \<le> 36 then Available
               else any_sufficient [root, av_state (android_local_network grants)]);
            visual_base = any_sufficient
              [root, av_state (shizuku_shell grants), av_state (visual_accessibility grants)];
            visual_text = any_sufficient [root, av_state (visual_accessibility grants)];
            visual_image' = any_sufficient
              [root, av_state (shizuku_shell grants), av_state (visual_accessibility grants),
               av_state (visual_media_projection_session grants)];
            persistent_time =
              (case cc_host context of
                 MagiskBackend \<Rightarrow> av_state (magisk_wake_alarm grants)
               | ApkRuntime \<Rightarrow> av_state (automation_exact_alarm grants));
            notifications = any_sufficient
              [av_state (magisk_notifications grants),
               av_state (android_notification_listener grants)]
        in Ok \<lparr>filesystem_privileged_path = gated privileged_path,
               command_app = gated command_app',
               command_shell = gated command_shell',
               command_root = gated command_root',
               network_inspect = output_av runtime,
               network_internet = output_av runtime,
               network_local = gated network_local',
               network_capture = gated root,
               network_inject = gated root,
               visual_image = gated visual_image',
               visual_hierarchy = gated visual_base,
               visual_coordinate_input = gated visual_base,
               visual_key_input =
                 gated (any_sufficient [root, av_state (shizuku_shell grants)]),
               visual_text_input = gated visual_text,
               automation_persistent_time = gated persistent_time,
               android_notification_access = gated notifications\<rparr>)"

section \<open>What the derivation guarantees\<close>

definition grant_states :: "grant_facts \<Rightarrow> capability_state list" where
  "grant_states g = map av_state
     [android_local_network g, android_notifications g, android_notification_listener g,
      automation_exact_alarm g, visual_accessibility g, visual_media_projection_session g,
      shizuku_shell g, magisk_module g, magisk_root g, magisk_framework g, magisk_launch g,
      magisk_clipboard g, magisk_notifications g, magisk_wake_alarm g, execution_app_guard g,
      execution_shell_guard g, execution_root_guard g]"

definition effective_states :: "effective_capabilities \<Rightarrow> capability_state list" where
  "effective_states e = map av_state
     [filesystem_privileged_path e, command_app e, command_shell e, command_root e,
      network_inspect e, network_internet e, network_local e, network_capture e, network_inject e,
      visual_image e, visual_hierarchy e, visual_coordinate_input e, visual_key_input e,
      visual_text_input e, automation_persistent_time e, android_notification_access e]"

lemma derive_capabilities_Ok:
  "derive_capabilities g c = Ok e \<Longrightarrow> 33 \<le> cc_sdk_int c \<and> cc_sdk_int c \<le> 37"
  by (simp add: derive_capabilities_def split: if_splits)

text \<open>Both combinators are monotone, so the derivation is built from monotone pieces.\<close>

lemma all_required_mono: "list_all2 (\<le>) xs ys \<Longrightarrow> all_required xs \<le> all_required ys"
  unfolding capability_folds by (induction rule: list_all2_induct) (auto simp: min_le_iff_disj)

lemma any_sufficient_mono: "list_all2 (\<le>) xs ys \<Longrightarrow> any_sufficient xs \<le> any_sufficient ys"
  unfolding capability_folds by (induction rule: list_all2_induct) (auto simp: le_max_iff_disj)

lemma all_required_Available [simp]:
  "all_required xs = Available \<longleftrightarrow> (\<forall>x\<in>set xs. x = Available)"
  by (auto simp: all_required_def list_all_iff)

lemma any_sufficient_Available [simp]:
  "any_sufficient xs = Available \<longleftrightarrow> Available \<in> set xs"
  by (auto simp: any_sufficient_def)

lemma all_required_le: "x \<in> set xs \<Longrightarrow> all_required xs \<le> x"
  unfolding capability_folds by (induction xs) (auto simp: min_le_iff_disj)

lemma all_required_pair_le [simp]: "all_required [x, y] \<le> x" "all_required [x, y] \<le> y"
  by (simp_all add: all_required_le)

text \<open> granting more never revokes a capability: when every grant fact of one device is at least
  as certain as another's, in the same context, so is every effective capability derived from it.
\<close>

lemma derive_capabilities_monotone:
  assumes "derive_capabilities g c = Ok e" and "derive_capabilities g' c = Ok e'"
    and "list_all2 (\<le>) (grant_states g) (grant_states g')"
  shows "list_all2 (\<le>) (effective_states e) (effective_states e')"
proof -
  note sdk = derive_capabilities_Ok[OF assms(1)]
  show ?thesis
    using assms sdk
    by (cases "cc_host c")
      (auto simp: derive_capabilities_def Let_def effective_states_def grant_states_def
         intro!: all_required_mono any_sufficient_mono)
qed

text \<open> no effective capability is more certain than the Runtime's own readiness, raw capture and
  injection never exceed the Magisk root grant, and a command identity is available only when
  both its surface and its guard are.
\<close>

lemma derive_capabilities_gated:
  assumes "derive_capabilities g c = Ok e"
  shows "(\<forall>s\<in>set (effective_states e). s \<le> base (cc_readiness c))
    \<and> av_state (network_capture e) \<le> av_state (magisk_root g)
    \<and> av_state (network_inject e) \<le> av_state (magisk_root g)
    \<and> (av_state (command_app e) = Available \<longleftrightarrow> cc_readiness c = Ready \<and>
           cc_app_execution_surface c = Available \<and> av_state (execution_app_guard g) = Available)
    \<and> (av_state (command_shell e) = Available \<longleftrightarrow> cc_readiness c = Ready \<and>
           av_state (shizuku_shell g) = Available \<and> av_state (execution_shell_guard g) = Available)
    \<and> (av_state (command_root e) = Available \<longleftrightarrow> cc_readiness c = Ready \<and>
           av_state (magisk_root g) = Available \<and> av_state (execution_root_guard g) = Available)"
proof (intro conjI)
  note e = assms[unfolded derive_capabilities_def Let_def] derive_capabilities_Ok[OF assms]
  show "\<forall>s\<in>set (effective_states e). s \<le> base (cc_readiness c)"
    using e by (auto simp: effective_states_def)
  show "av_state (network_capture e) \<le> av_state (magisk_root g)"
    "av_state (network_inject e) \<le> av_state (magisk_root g)"
    using e by auto
  show "av_state (command_app e) = Available \<longleftrightarrow> cc_readiness c = Ready \<and>
           cc_app_execution_surface c = Available \<and> av_state (execution_app_guard g) = Available"
    "av_state (command_shell e) = Available \<longleftrightarrow> cc_readiness c = Ready \<and>
           av_state (shizuku_shell g) = Available \<and> av_state (execution_shell_guard g) = Available"
    "av_state (command_root e) = Available \<longleftrightarrow> cc_readiness c = Ready \<and>
           av_state (magisk_root g) = Available \<and> av_state (execution_root_guard g) = Available"
    using e by (auto simp: base_Available)
qed

section \<open>Witnesses\<close>

definition uniform_grants :: "capability_state \<Rightarrow> grant_facts" where
  "uniform_grants s =
     \<lparr>android_local_network = output_av s, android_notifications = output_av s,
      android_notification_listener = output_av s, automation_exact_alarm = output_av s,
      visual_accessibility = output_av s, visual_media_projection_session = output_av s,
      shizuku_shell = output_av s, magisk_module = output_av s, magisk_root = output_av s,
      magisk_framework = output_av s, magisk_launch = output_av s, magisk_clipboard = output_av s,
      magisk_notifications = output_av s, magisk_wake_alarm = output_av s,
      execution_app_guard = output_av s, execution_shell_guard = output_av s,
      execution_root_guard = output_av s\<rparr>"

definition sample_context :: capability_context where
  "sample_context = \<lparr>cc_sdk_int = 35, cc_host = MagiskBackend, cc_readiness = Ready,
                     cc_app_execution_surface = Unknown\<rparr>"

lemma derive_sample: "is_ok (derive_capabilities (uniform_grants s) sample_context)"
  by (simp add: derive_capabilities_def sample_context_def Let_def)

lemma derive_capabilities_monotone_witness:
  "\<exists>e e'. derive_capabilities (uniform_grants Unknown) sample_context = Ok e
     \<and> derive_capabilities (uniform_grants Available) sample_context = Ok e'
     \<and> list_all2 (\<le>) (effective_states e) (effective_states e')"
proof -
  obtain e e' where "derive_capabilities (uniform_grants Unknown) sample_context = Ok e"
    and "derive_capabilities (uniform_grants Available) sample_context = Ok e'"
    using derive_sample by (metis is_ok_iff)
  moreover have "list_all2 (\<le>) (grant_states (uniform_grants Unknown)) (grant_states (uniform_grants Available))"
    by (simp add: grant_states_def uniform_grants_def)
  ultimately show ?thesis using derive_capabilities_monotone by blast
qed

lemma derive_capabilities_gated_witness:
  "\<exists>e. derive_capabilities (uniform_grants Available) sample_context = Ok e
     \<and> av_state (command_app e) \<noteq> Available \<and> av_state (command_root e) = Available"
proof -
  obtain e where e: "derive_capabilities (uniform_grants Available) sample_context = Ok e"
    using derive_sample by (metis is_ok_iff)
  from derive_capabilities_gated[OF e] e show ?thesis
    by (simp add: sample_context_def uniform_grants_def)
qed

end
