(* ===== verification/Admission.thy ===== *)
theory Admission
  imports Capability
begin

text \<open>
  Executor resolution: the request routes, provider facts and preference tables of
  \<open>rust/crates/domain/src/admission.rs\<close>, with the Runtime's refinement of the App facts in
  \<open>rust/crates/runtime/src/execution.rs\<close> (\<open>resolve_execution\<close>) over the capability snapshot of
  \<open>ports.rs\<close>.
\<close>

section \<open>Providers and facts\<close>

datatype provider =
  AppNative | AppFramework | Shizuku | MagiskNative | MagiskFramework | Accessibility
| MediaProjection | NotificationListener

fun provider_execution_class :: "provider \<Rightarrow> execution_class" where
  "provider_execution_class AppNative = ClassApp"
| "provider_execution_class AppFramework = ClassAndroidFramework"
| "provider_execution_class Accessibility = ClassAndroidFramework"
| "provider_execution_class MediaProjection = ClassAndroidFramework"
| "provider_execution_class NotificationListener = ClassAndroidFramework"
| "provider_execution_class Shizuku = ClassShizuku"
| "provider_execution_class MagiskNative = ClassMagisk"
| "provider_execution_class MagiskFramework = ClassAndroidFramework"

record admission_fence =
  af_runtime_epoch :: uuid
  af_host_generation :: u64
  af_runtime_instance_id :: uuid

record admitted_executor =
  ae_host :: runtime_host
  ae_provider :: provider
  ae_execution_class :: execution_class
  ae_capability_generation :: u64
  ae_fence :: admission_fence

datatype preflight = Positive | Negative | PreflightUnknown

record provider_generations =
  gen_app_native :: u64
  gen_app_framework :: u64
  gen_shizuku :: u64
  gen_magisk_native :: u64
  gen_magisk_framework :: u64
  gen_accessibility :: u64
  gen_media_projection :: u64
  gen_notification_listener :: u64

record resolver_facts =
  rf_app_native :: capability_state
  rf_app_framework :: capability_state
  rf_shizuku :: capability_state
  rf_magisk_native :: capability_state
  rf_magisk_framework :: capability_state
  rf_magisk_launch :: capability_state
  rf_magisk_clipboard :: capability_state
  rf_magisk_notifications :: capability_state
  rf_accessibility :: capability_state
  rf_media_projection :: capability_state
  rf_notification_listener :: capability_state
  rf_generations :: provider_generations

fun for_provider :: "provider_generations \<Rightarrow> provider \<Rightarrow> u64" where
  "for_provider g AppNative = gen_app_native g"
| "for_provider g AppFramework = gen_app_framework g"
| "for_provider g Shizuku = gen_shizuku g"
| "for_provider g MagiskNative = gen_magisk_native g"
| "for_provider g MagiskFramework = gen_magisk_framework g"
| "for_provider g Accessibility = gen_accessibility g"
| "for_provider g MediaProjection = gen_media_projection g"
| "for_provider g NotificationListener = gen_notification_listener g"

section \<open>Requests\<close>

datatype network_route = InspectOrDiagnose | ReadOnlyRouteSupplement | Capture | Inject

datatype filesystem_route = InspectOrRead | Mutation

datatype visual_route =
  Display | Transform | Hierarchy | Image | CoordinateInput | KeyInput | FocusedText
| AccessibilityNode

datatype package_inspect_fact = ExactSuccess | VisibilityOrAbsent | PackageUnknown

datatype android_route =
  PackageInspect package_inspect_fact | PackageList | PackageForceStop | LaunchOrIntent
| Clipboard | Notification

datatype executor_request =
  RouteCommand run_as
| RouteFilesystem filesystem_route file_target_type preflight preflight
    \<comment> \<open>route, target type, App preflight, Shizuku preflight\<close>
| RouteNetwork network_route
| RouteVisual visual_route
| RouteAndroid android_route

section \<open>Resolution\<close>

definition available :: "capability_state \<Rightarrow> bool" where
  "available state \<longleftrightarrow> state = Available"

definition choose_executor ::
  "runtime_host \<Rightarrow> admission_fence \<Rightarrow> (capability_state \<times> provider) list \<Rightarrow>
   provider_generations \<Rightarrow> admitted_executor res" where
  "choose_executor host fence candidates generations =
     rbind (ok_or (map_option snd (List.find (\<lambda>(state, _). available state) candidates))
             (domain_error_new CapabilityUnavailable ''no authoritative provider is available''))
       (\<lambda>provider. Ok \<lparr>ae_host = host, ae_provider = provider,
                      ae_execution_class = provider_execution_class provider,
                      ae_capability_generation = for_provider generations provider,
                      ae_fence = fence\<rparr>)"

text \<open>The candidate list of each host and request, in the source's order of preference.\<close>

fun executor_candidates ::
  "runtime_host \<Rightarrow> resolver_facts \<Rightarrow> executor_request \<Rightarrow> (capability_state \<times> provider) list res" where
  "executor_candidates ApkRuntime facts (RouteCommand RunAsApp) =
     Ok [(rf_app_native facts, AppNative)]"
| "executor_candidates ApkRuntime facts (RouteCommand RunAsShell) =
     Ok [(rf_shizuku facts, Shizuku)]"
| "executor_candidates ApkRuntime facts (RouteCommand RunAsRoot) =
     err RunAsUnavailable ''root identity is unavailable on the APK surface''"
| "executor_candidates MagiskBackend facts (RouteCommand RunAsRoot) =
     Ok [(rf_magisk_native facts, MagiskNative)]"
| "executor_candidates MagiskBackend facts (RouteCommand RunAsApp) =
     err RunAsUnavailable ''only the root identity is available on the root host''"
| "executor_candidates MagiskBackend facts (RouteCommand RunAsShell) =
     err RunAsUnavailable ''only the root identity is available on the root host''"
| "executor_candidates MagiskBackend facts (RouteFilesystem _ TargetPath _ _) =
     Ok [(rf_magisk_native facts, MagiskNative)]"
| "executor_candidates _ facts (RouteFilesystem Mutation TargetContentUri _ _) =
     err Unsupported ''content URI mutation is unsupported in protocol v1''"
| "executor_candidates MagiskBackend facts (RouteFilesystem InspectOrRead TargetContentUri _ _) =
     Ok [(rf_magisk_native facts, MagiskNative)]"
| "executor_candidates ApkRuntime facts (RouteFilesystem InspectOrRead TargetContentUri _ _) =
     Ok [(rf_app_framework facts, AppFramework)]"
| "executor_candidates ApkRuntime facts
     (RouteFilesystem _ TargetPath app_preflight shizuku_preflight) =
     Ok [(if app_preflight = Positive then rf_app_native facts else Unavailable, AppNative),
         (if shizuku_preflight = Positive then rf_shizuku facts else Unavailable, Shizuku)]"
| "executor_candidates MagiskBackend facts (RouteNetwork _) =
     Ok [(rf_magisk_native facts, MagiskNative)]"
| "executor_candidates ApkRuntime facts (RouteNetwork InspectOrDiagnose) =
     Ok [(rf_app_native facts, AppNative)]"
| "executor_candidates ApkRuntime facts (RouteNetwork ReadOnlyRouteSupplement) =
     Ok [(rf_shizuku facts, Shizuku)]"
| "executor_candidates ApkRuntime facts (RouteNetwork Capture) =
     err CapabilityUnavailable ''raw network operations require the root edition''"
| "executor_candidates ApkRuntime facts (RouteNetwork Inject) =
     err CapabilityUnavailable ''raw network operations require the root edition''"
| "executor_candidates MagiskBackend facts (RouteVisual AccessibilityNode) = Ok []"
| "executor_candidates MagiskBackend facts (RouteVisual Transform) =
     Ok [(rf_magisk_native facts, MagiskNative)]"
| "executor_candidates MagiskBackend facts (RouteVisual _) =
     Ok [(rf_magisk_native facts, MagiskNative)]"
| "executor_candidates ApkRuntime facts (RouteVisual Display) =
     Ok [(rf_app_framework facts, AppFramework)]"
| "executor_candidates ApkRuntime facts (RouteVisual Transform) =
     Ok [(rf_app_framework facts, AppFramework)]"
| "executor_candidates ApkRuntime facts (RouteVisual Hierarchy) =
     Ok [(rf_accessibility facts, Accessibility), (rf_shizuku facts, Shizuku)]"
| "executor_candidates ApkRuntime facts (RouteVisual Image) =
     Ok [(rf_shizuku facts, Shizuku), (rf_accessibility facts, Accessibility),
         (rf_media_projection facts, MediaProjection)]"
| "executor_candidates ApkRuntime facts (RouteVisual CoordinateInput) =
     Ok [(rf_accessibility facts, Accessibility), (rf_shizuku facts, Shizuku)]"
| "executor_candidates ApkRuntime facts (RouteVisual FocusedText) =
     Ok [(rf_accessibility facts, Accessibility)]"
| "executor_candidates ApkRuntime facts (RouteVisual KeyInput) =
     Ok [(rf_shizuku facts, Shizuku)]"
| "executor_candidates ApkRuntime facts (RouteVisual AccessibilityNode) =
     Ok [(rf_accessibility facts, Accessibility)]"
| "executor_candidates MagiskBackend facts (RouteAndroid (PackageInspect _)) =
     Ok [(rf_magisk_native facts, MagiskNative)]"
| "executor_candidates MagiskBackend facts (RouteAndroid PackageList) =
     Ok [(rf_magisk_native facts, MagiskNative)]"
| "executor_candidates MagiskBackend facts (RouteAndroid PackageForceStop) =
     Ok [(rf_magisk_native facts, MagiskNative)]"
| "executor_candidates MagiskBackend facts (RouteAndroid LaunchOrIntent) =
     Ok [(rf_magisk_launch facts, MagiskFramework)]"
| "executor_candidates MagiskBackend facts (RouteAndroid Clipboard) =
     Ok [(rf_magisk_clipboard facts, MagiskFramework)]"
| "executor_candidates MagiskBackend facts (RouteAndroid Notification) =
     Ok [(rf_magisk_notifications facts, MagiskFramework)]"
| "executor_candidates ApkRuntime facts (RouteAndroid (PackageInspect ExactSuccess)) =
     Ok [(rf_app_framework facts, AppFramework)]"
| "executor_candidates ApkRuntime facts (RouteAndroid (PackageInspect VisibilityOrAbsent)) =
     Ok [(rf_shizuku facts, Shizuku)]"
| "executor_candidates ApkRuntime facts (RouteAndroid (PackageInspect PackageUnknown)) = Ok []"
| "executor_candidates ApkRuntime facts (RouteAndroid PackageList) =
     Ok [(rf_shizuku facts, Shizuku)]"
| "executor_candidates ApkRuntime facts (RouteAndroid PackageForceStop) =
     Ok [(rf_shizuku facts, Shizuku)]"
| "executor_candidates ApkRuntime facts (RouteAndroid LaunchOrIntent) =
     Ok [(rf_app_framework facts, AppFramework)]"
| "executor_candidates ApkRuntime facts (RouteAndroid Clipboard) =
     Ok [(rf_app_framework facts, AppFramework)]"
| "executor_candidates ApkRuntime facts (RouteAndroid Notification) =
     Ok [(rf_notification_listener facts, NotificationListener)]"

definition resolve_executor ::
  "runtime_host \<Rightarrow> admission_fence \<Rightarrow> resolver_facts \<Rightarrow> executor_request \<Rightarrow>
   admitted_executor res" where
  "resolve_executor host fence facts request =
     rbind (executor_candidates host facts request)
       (\<lambda>candidates. choose_executor host fence candidates (rf_generations facts))"

record capability_snapshot =
  cs_grants :: grant_facts
  cs_context :: capability_context
  cs_resolver_facts :: resolver_facts
  cs_fence :: admission_fence

text \<open>
  \<open>resolve_execution\<close>: filesystem and network inspection run in the Runtime's own App process,
  so the App fact and its generation are replaced by the execution surface and host generation.
\<close>

definition resolve_execution ::
  "capability_snapshot \<Rightarrow> executor_request \<Rightarrow> admitted_executor res" where
  "resolve_execution capability request =
     (let facts = cs_resolver_facts capability;
          facts = (case request of
              RouteFilesystem _ _ _ _ \<Rightarrow>
                facts\<lparr>rf_app_native := cc_app_execution_surface (cs_context capability),
                      rf_generations := (rf_generations facts)
                        \<lparr>gen_app_native := af_host_generation (cs_fence capability)\<rparr>\<rparr>
            | RouteNetwork InspectOrDiagnose \<Rightarrow>
                facts\<lparr>rf_app_native := cc_app_execution_surface (cs_context capability),
                      rf_generations := (rf_generations facts)
                        \<lparr>gen_app_native := af_host_generation (cs_fence capability)\<rparr>\<rparr>
            | _ \<Rightarrow> facts)
      in resolve_executor (cc_host (cs_context capability)) (cs_fence capability) facts request)"

section \<open>The host surfaces and the governing facts\<close>

text \<open>The fact that decides whether a provider may serve a request.\<close>

fun governing_fact :: "resolver_facts \<Rightarrow> executor_request \<Rightarrow> provider \<Rightarrow> capability_state" where
  "governing_fact facts _ AppNative = rf_app_native facts"
| "governing_fact facts _ AppFramework = rf_app_framework facts"
| "governing_fact facts _ Shizuku = rf_shizuku facts"
| "governing_fact facts _ MagiskNative = rf_magisk_native facts"
| "governing_fact facts (RouteAndroid LaunchOrIntent) MagiskFramework = rf_magisk_launch facts"
| "governing_fact facts (RouteAndroid Clipboard) MagiskFramework = rf_magisk_clipboard facts"
| "governing_fact facts (RouteAndroid Notification) MagiskFramework = rf_magisk_notifications facts"
| "governing_fact facts _ MagiskFramework = Unavailable"
| "governing_fact facts _ Accessibility = rf_accessibility facts"
| "governing_fact facts _ MediaProjection = rf_media_projection facts"
| "governing_fact facts _ NotificationListener = rf_notification_listener facts"

definition surface :: "runtime_host \<Rightarrow> provider set" where
  "surface host =
     (case host of MagiskBackend \<Rightarrow> {MagiskNative, MagiskFramework}
      | ApkRuntime \<Rightarrow> {AppNative, AppFramework, Shizuku, Accessibility, MediaProjection,
                       NotificationListener})"

definition preflight_allows :: "executor_request \<Rightarrow> provider \<Rightarrow> bool" where
  "preflight_allows request p =
     (case request of
        RouteFilesystem _ TargetPath app shizuku \<Rightarrow>
          (p = AppNative \<longrightarrow> app = Positive) \<and> (p = Shizuku \<longrightarrow> shizuku = Positive)
      | _ \<Rightarrow> True)"

lemma executor_candidates_sound:
  assumes "executor_candidates host facts request = Ok cs" and "(Available, p) \<in> set cs"
  shows "governing_fact facts request p = Available \<and> p \<in> surface host
       \<and> preflight_allows request p"
  using assms
  by (induction host facts request rule: executor_candidates.induct)
    (auto simp: surface_def preflight_allows_def split: if_splits)

lemma choose_executor_Ok:
  assumes "choose_executor host fence cs gens = Ok ex"
  shows "(Available, ae_provider ex) \<in> set cs
       \<and> ex = \<lparr>ae_host = host, ae_provider = ae_provider ex,
               ae_execution_class = provider_execution_class (ae_provider ex),
               ae_capability_generation = for_provider gens (ae_provider ex), ae_fence = fence\<rparr>"
proof -
  obtain c where c: "List.find (\<lambda>(state, _). available state) cs = Some c"
    and ex: "ex = \<lparr>ae_host = host, ae_provider = snd c,
               ae_execution_class = provider_execution_class (snd c),
               ae_capability_generation = for_provider gens (snd c), ae_fence = fence\<rparr>"
    using assms by (auto simp: choose_executor_def rbind_eq_Ok_iff)
  have "c = (Available, snd c)" using find_SomeD(2)[OF c] by (cases c) (simp add: available_def)
  with find_SomeD(1)[OF c] have "(Available, snd c) \<in> set cs" by metis
  with ex show ?thesis by simp
qed

lemma choose_executor_is_ok:
  "is_ok (choose_executor host fence cs gens) \<longleftrightarrow> (\<exists>p. (Available, p) \<in> set cs)"
proof (cases "List.find (\<lambda>(state, _). available state) cs")
  case None
  then have "\<not> is_ok (choose_executor host fence cs gens)" by (simp add: choose_executor_def)
  with None show ?thesis by (auto simp: find_None_iff available_def)
next
  case (Some c)
  then have "is_ok (choose_executor host fence cs gens)" by (simp add: choose_executor_def)
  moreover have "c \<in> set cs" "fst c = Available"
    using find_SomeD[OF Some] by (auto simp: available_def)
  ultimately show ?thesis by (cases c) auto
qed

definition facts_le :: "resolver_facts \<Rightarrow> resolver_facts \<Rightarrow> bool" where
  "facts_le f g \<longleftrightarrow> rf_app_native f \<le> rf_app_native g \<and> rf_app_framework f \<le> rf_app_framework g
     \<and> rf_shizuku f \<le> rf_shizuku g \<and> rf_magisk_native f \<le> rf_magisk_native g
     \<and> rf_magisk_framework f \<le> rf_magisk_framework g \<and> rf_magisk_launch f \<le> rf_magisk_launch g
     \<and> rf_magisk_clipboard f \<le> rf_magisk_clipboard g
     \<and> rf_magisk_notifications f \<le> rf_magisk_notifications g
     \<and> rf_accessibility f \<le> rf_accessibility g \<and> rf_media_projection f \<le> rf_media_projection g
     \<and> rf_notification_listener f \<le> rf_notification_listener g"

lemma executor_candidates_mono:
  assumes "executor_candidates host f request = Ok cs" and "facts_le f g"
    and "(Available, p) \<in> set cs"
  shows "\<exists>cs'. executor_candidates host g request = Ok cs' \<and> (Available, p) \<in> set cs'"
  using assms
  by (induction host f request rule: executor_candidates.induct)
    (auto simp: facts_le_def split: if_splits)

section \<open>Properties\<close>

text \<open> an admitted executor is authoritative: its provider belongs to the host's own surface, the
  fact that governs it is Available (Unknown is never enough), a path provider passed its
  preflight, and it carries the class, the generation and the fence of that admission.
\<close>

lemma resolve_executor_sound:
  assumes "resolve_executor host fence facts request = Ok ex"
  shows "governing_fact facts request (ae_provider ex) = Available
       \<and> ae_provider ex \<in> surface host
       \<and> preflight_allows request (ae_provider ex)
       \<and> ex = \<lparr>ae_host = host, ae_provider = ae_provider ex,
               ae_execution_class = provider_execution_class (ae_provider ex),
               ae_capability_generation = for_provider (rf_generations facts) (ae_provider ex),
               ae_fence = fence\<rparr>"
proof -
  obtain cs where "executor_candidates host facts request = Ok cs"
    and "choose_executor host fence cs (rf_generations facts) = Ok ex"
    using assms by (auto simp: resolve_executor_def rbind_eq_Ok_iff)
  then show ?thesis
    using executor_candidates_sound choose_executor_Ok by blast
qed

text \<open> resolution is monotone: a request that one set of facts admits is admitted under every set
  of facts that is at least as certain.
\<close>

lemma resolve_executor_monotone:
  assumes "is_ok (resolve_executor host fence f request)" and "facts_le f g"
  shows "is_ok (resolve_executor host fence g request)"
proof -
  obtain cs p where "executor_candidates host f request = Ok cs" "(Available, p) \<in> set cs"
    using assms(1) by (auto simp: resolve_executor_def is_ok_iff rbind_eq_Ok_iff dest: choose_executor_Ok)
  then obtain cs' where "executor_candidates host g request = Ok cs'" "(Available, p) \<in> set cs'"
    using executor_candidates_mono assms(2) by blast
  then show ?thesis
    by (auto simp: resolve_executor_def choose_executor_is_ok)
qed

section \<open>Witnesses\<close>

definition uniform_facts :: "capability_state \<Rightarrow> resolver_facts" where
  "uniform_facts s =
     \<lparr>rf_app_native = s, rf_app_framework = s, rf_shizuku = s, rf_magisk_native = s,
      rf_magisk_framework = s, rf_magisk_launch = s, rf_magisk_clipboard = s,
      rf_magisk_notifications = s, rf_accessibility = s, rf_media_projection = s,
      rf_notification_listener = s,
      rf_generations = \<lparr>gen_app_native = 1, gen_app_framework = 2, gen_shizuku = 3,
        gen_magisk_native = 4, gen_magisk_framework = 5, gen_accessibility = 6,
        gen_media_projection = 7, gen_notification_listener = 8\<rparr>\<rparr>"

definition sample_fence :: admission_fence where
  "sample_fence = \<lparr>af_runtime_epoch = UuidV4 ''e'', af_host_generation = 1,
                   af_runtime_instance_id = UuidV4 ''i''\<rparr>"

lemma resolve_sample:
  "resolve_executor ApkRuntime sample_fence (uniform_facts Available) (RouteVisual Image) =
   Ok \<lparr>ae_host = ApkRuntime, ae_provider = Shizuku, ae_execution_class = ClassShizuku,
       ae_capability_generation = 3, ae_fence = sample_fence\<rparr>"
  by (simp add: resolve_executor_def choose_executor_def available_def uniform_facts_def)

lemma resolve_executor_sound_witness:
  "governing_fact (uniform_facts Available) (RouteVisual Image) Shizuku = Available
   \<and> Shizuku \<in> surface ApkRuntime"
  using resolve_executor_sound[OF resolve_sample] by simp

lemma resolve_executor_monotone_witness:
  "is_ok (resolve_executor ApkRuntime sample_fence (uniform_facts Available) (RouteVisual Image))"
  by (rule resolve_executor_monotone[where f = "(uniform_facts Available)\<lparr>rf_shizuku := Unknown\<rparr>"])
    (simp_all add: resolve_executor_def choose_executor_def available_def uniform_facts_def
      facts_le_def)

end
