(* ===== verification/Dedup.thy ===== *)
theory Dedup
  imports Contract
begin

text \<open>
  The retained-request index (\<open>rust/crates/domain/src/dedup.rs\<close>): which request identities the
  Runtime has admitted, with the digest of their content, and until when an identity answers a
  repeated request with a replay. The locale \<open>replay_guard\<close> is the contract the Runtime core
  relies on; its lemmas show that an admitted identity is admitted only once for as long as it
  is retained, whatever other requests arrive.
\<close>

section \<open>The index\<close>

abbreviation MAX_RETAINED_REQUESTS :: nat where "MAX_RETAINED_REQUESTS \<equiv> 4096"
abbreviation REQUEST_RETENTION_MS :: u64 where "REQUEST_RETENTION_MS \<equiv> 86400000"

record retained_request =
  rr_request_id :: request_id
  rr_payload_sha256 :: string
  rr_expires_at_ms :: "u64 option"

datatype dedup_decision = Admit | Replay | BypassForTaskCancel

type_synonym dedup_index = "retained_request list"

definition hex_lower :: "char \<Rightarrow> bool" where
  "hex_lower c \<longleftrightarrow> (CHR ''0'' \<le> c \<and> c \<le> CHR ''9'') \<or> (CHR ''a'' \<le> c \<and> c \<le> CHR ''f'')"

definition sha256_hex :: "string \<Rightarrow> bool" where
  "sha256_hex s \<longleftrightarrow> length s = 64 \<and> list_all hex_lower s"

text \<open>\<open>entry.expires_at_ms.is_none_or(|expiry| expiry > now_ms)\<close>\<close>

definition unexpired :: "u64 \<Rightarrow> retained_request \<Rightarrow> bool" where
  "unexpired now e = (case rr_expires_at_ms e of None \<Rightarrow> True | Some expiry \<Rightarrow> expiry > now)"

definition decide_and_reserve ::
  "dedup_index \<Rightarrow> request_id \<Rightarrow> string \<Rightarrow> u64 \<Rightarrow> bool \<Rightarrow> dedup_index \<times> dedup_decision res" where
  "decide_and_reserve entries request_id payload_sha256 now_ms task_cancel =
     (if task_cancel then (entries, Ok BypassForTaskCancel)
      else if \<not> sha256_hex payload_sha256 then
        (entries, err_invalid ''payload_sha256 must be lowercase hexadecimal SHA-256'')
      else
        let entries = filter (unexpired now_ms) entries
        in case List.find (\<lambda>e. rr_request_id e = request_id) entries of
             Some existing \<Rightarrow>
               (entries,
                if rr_payload_sha256 existing = payload_sha256 then Ok Replay
                else err_invalid ''request_id was retained with different request content'')
           | None \<Rightarrow>
               if length entries = MAX_RETAINED_REQUESTS then
                 (entries, err ResourceLimit ''retained request capacity is full'')
               else
                 (entries @ [\<lparr>rr_request_id = request_id, rr_payload_sha256 = payload_sha256,
                              rr_expires_at_ms = None\<rparr>], Ok Admit))"

definition dedup_settle :: "dedup_index \<Rightarrow> request_id \<Rightarrow> u64 \<Rightarrow> (dedup_index \<times> u64) res" where
  "dedup_settle entries request_id terminal_at_ms =
     (case position (\<lambda>e. rr_request_id e = request_id) entries of
        None \<Rightarrow> err NotFound ''request_id is not retained''
      | Some i \<Rightarrow>
          (case rr_expires_at_ms (entries ! i) of
             Some expiry \<Rightarrow> Ok (entries, expiry)
           | None \<Rightarrow>
               (case checked_add terminal_at_ms REQUEST_RETENTION_MS of
                  None \<Rightarrow> err ResourceLimit ''retained request time exhausted''
                | Some expiry \<Rightarrow>
                    Ok (entries[i := (entries ! i)\<lparr>rr_expires_at_ms := Some expiry\<rparr>], expiry))))"

section \<open>What the Runtime core relies on\<close>

text \<open>
  \<open>known i r\<close> is what the index retains for the identity \<open>r\<close>: its digest and its expiry, which
  is open until the request settles.
\<close>

locale replay_guard =
  fixes decide :: "'i \<Rightarrow> request_id \<Rightarrow> string \<Rightarrow> u64 \<Rightarrow> bool \<Rightarrow> 'i \<times> dedup_decision res"
    and settle :: "'i \<Rightarrow> request_id \<Rightarrow> u64 \<Rightarrow> ('i \<times> u64) res"
    and known :: "'i \<Rightarrow> request_id \<Rightarrow> (string \<times> u64 option) option"
    and invar :: "'i \<Rightarrow> bool"
  assumes decide_invar: "invar i \<Longrightarrow> invar (fst (decide i r h now c))"
    and settle_invar: "invar i \<Longrightarrow> settle i r t = Ok (i', e) \<Longrightarrow> invar i'"
    and decide_admits: "invar i \<Longrightarrow> decide i r h now c = (i', Ok Admit) \<Longrightarrow> known i' r = Some (h, None)"
    and decide_keeps: "invar i \<Longrightarrow> known i r = Some (h, x) \<Longrightarrow> (\<forall>e. x = Some e \<longrightarrow> now < e)
                        \<Longrightarrow> known (fst (decide i r' h' now c)) r = Some (h, x)"
    and decide_known: "invar i \<Longrightarrow> known i r = Some (h, x) \<Longrightarrow> (\<forall>e. x = Some e \<longrightarrow> now < e)
                        \<Longrightarrow> sha256_hex h' \<Longrightarrow>
                        snd (decide i r h' now False) = (if h' = h then Ok Replay else
                          err_invalid ''request_id was retained with different request content'')"
    and settle_other: "settle i r t = Ok (i', e) \<Longrightarrow> r' \<noteq> r \<Longrightarrow> known i' r' = known i r'"
    and settle_open: "settle i r t = Ok (i', e) \<Longrightarrow> known i r = Some (h, None) \<Longrightarrow>
                        known i' r = Some (h, Some e) \<and> unat e = unat t + unat REQUEST_RETENTION_MS"
    and settle_closed: "settle i r t = Ok (i', e) \<Longrightarrow> known i r = Some (h, Some y) \<Longrightarrow>
                        known i' r = Some (h, Some y)"

datatype dedup_op = OpDecide request_id string u64 bool | OpSettle request_id u64

fun dedup_step ::
  "('i \<Rightarrow> request_id \<Rightarrow> string \<Rightarrow> u64 \<Rightarrow> bool \<Rightarrow> 'i \<times> dedup_decision res) \<Rightarrow>
   ('i \<Rightarrow> request_id \<Rightarrow> u64 \<Rightarrow> ('i \<times> u64) res) \<Rightarrow> dedup_op \<Rightarrow> 'i \<Rightarrow> 'i" where
  "dedup_step decide settle (OpDecide r h now c) i = fst (decide i r h now c)"
| "dedup_step decide settle (OpSettle r t) i =
     (case settle i r t of Inl _ \<Rightarrow> i | Inr (i', _) \<Rightarrow> i')"

text \<open>
  An operation stays before the horizon of the identity \<open>r\<close>: it asks about times before the
  horizon, and a settlement of \<open>r\<close> retains it at least up to the horizon.
\<close>

fun before_horizon :: "request_id \<Rightarrow> nat \<Rightarrow> dedup_op \<Rightarrow> bool" where
  "before_horizon r horizon (OpDecide _ _ now _) \<longleftrightarrow> unat now < horizon"
| "before_horizon r horizon (OpSettle r' t) \<longleftrightarrow>
     (r' = r \<longrightarrow> horizon \<le> unat t + unat REQUEST_RETENTION_MS)"

definition retained_until :: "(string \<times> u64 option) option \<Rightarrow> string \<Rightarrow> nat \<Rightarrow> bool" where
  "retained_until k h horizon \<longleftrightarrow>
     k = Some (h, None) \<or> (\<exists>e. k = Some (h, Some e) \<and> horizon \<le> unat e)"

context replay_guard
begin

lemma step_keeps:
  assumes "invar i" and "retained_until (known i r) h horizon" and "before_horizon r horizon op"
  shows "invar (dedup_step decide settle op i)
       \<and> retained_until (known (dedup_step decide settle op i) r) h horizon"
proof (cases op)
  case (OpDecide r' h' now c)
  obtain x where x: "known i r = Some (h, x)" "\<forall>e. x = Some e \<longrightarrow> horizon \<le> unat e"
    using assms(2) unfolding retained_until_def by blast
  have "\<forall>e. x = Some e \<longrightarrow> now < e"
    using x(2) assms(3) OpDecide by (auto simp: word_less_nat_alt)
  then have "known (fst (decide i r' h' now c)) r = Some (h, x)"
    by (rule decide_keeps[OF assms(1) x(1)])
  with x(2) OpDecide show ?thesis
    by (cases x) (simp_all add: retained_until_def decide_invar[OF assms(1)])
next
  case (OpSettle r' t)
  show ?thesis
  proof (cases "settle i r' t")
    case (Inl e)
    with OpSettle assms show ?thesis by simp
  next
    case (Inr p)
    obtain i' e where p: "p = (i', e)" by (cases p)
    have kept: "retained_until (known i' r) h horizon"
    proof (cases "r' = r")
      case True
      with Inr p have st: "settle i r t = Ok (i', e)" by simp
      from assms(2) consider "known i r = Some (h, None)"
        | y where "known i r = Some (h, Some y)" "horizon \<le> unat y"
        unfolding retained_until_def by blast
      then show ?thesis
      proof cases
        case 1
        from settle_open[OF st 1] assms(3) OpSettle True show ?thesis
          by (simp add: retained_until_def)
      next
        case 2
        from settle_closed[OF st 2(1)] 2(2) show ?thesis by (simp add: retained_until_def)
      qed
    next
      case False
      then have "known i' r = known i r"
        using settle_other[of i r' t i' e r] Inr p by metis
      with assms(2) show ?thesis by simp
    qed
    moreover have "invar i'"
      using assms(1) Inr p by (intro settle_invar[of i r' t i' e]) simp_all
    ultimately show ?thesis
      using OpSettle Inr p by simp
  qed
qed

lemma run_keeps:
  assumes "invar i" and "retained_until (known i r) h horizon"
    and "\<forall>op\<in>set ops. before_horizon r horizon op"
  shows "invar (fold (dedup_step decide settle) ops i)
       \<and> retained_until (known (fold (dedup_step decide settle) ops i) r) h horizon"
  using assms
proof (induction ops arbitrary: i)
  case Nil
  then show ?case by simp
next
  case (Cons op ops)
  then show ?case using step_keeps[of i r h horizon op] by simp
qed

lemma admitted_once:
  assumes "invar i" and "decide i r h now0 c = (i', Ok Admit)"
    and "\<forall>op\<in>set ops. before_horizon r horizon op"
    and "unat now < horizon" and "sha256_hex h'"
  shows "snd (decide (fold (dedup_step decide settle) ops i') r h' now False) =
         (if h' = h then Ok Replay
          else err_invalid ''request_id was retained with different request content'')"
proof -
  have i': "invar i'" "retained_until (known i' r) h horizon"
    using assms(1,2) decide_invar[of i r h now0 c] decide_admits
    by (auto simp: retained_until_def)
  let ?j = "fold (dedup_step decide settle) ops i'"
  have j: "invar ?j" "retained_until (known ?j r) h horizon"
    using run_keeps[OF i' assms(3)] by auto
  then obtain x where x: "known ?j r = Some (h, x)" "\<forall>e. x = Some e \<longrightarrow> horizon \<le> unat e"
    unfolding retained_until_def by blast
  have "\<forall>e. x = Some e \<longrightarrow> now < e"
    using x(2) assms(4) by (auto simp: word_less_nat_alt)
  then show ?thesis by (rule decide_known[OF j(1) x(1) _ assms(5)])
qed

end

section \<open>The index satisfies the contract\<close>

definition dedup_known :: "dedup_index \<Rightarrow> request_id \<Rightarrow> (string \<times> u64 option) option" where
  "dedup_known d r = map_option (\<lambda>e. (rr_payload_sha256 e, rr_expires_at_ms e))
     (List.find (\<lambda>e. rr_request_id e = r) d)"

definition dedup_invar :: "dedup_index \<Rightarrow> bool" where
  "dedup_invar d \<longleftrightarrow> distinct (map rr_request_id d) \<and> length d \<le> MAX_RETAINED_REQUESTS
     \<and> list_all (\<lambda>e. sha256_hex (rr_payload_sha256 e)) d"

lemma dedup_known_Some:
  assumes "distinct (map rr_request_id d)"
  shows "dedup_known d r = Some (h, x) \<longleftrightarrow>
         (\<exists>e\<in>set d. rr_request_id e = r \<and> rr_payload_sha256 e = h \<and> rr_expires_at_ms e = x)"
  using assms
proof (induction d)
  case Nil
  then show ?case by (simp add: dedup_known_def)
next
  case (Cons a d)
  show ?case
  proof (cases "rr_request_id a = r")
    case True
    have "\<forall>e\<in>set d. rr_request_id e \<noteq> r"
    proof
      fix e assume "e \<in> set d"
      then have "rr_request_id e \<in> rr_request_id ` set d" by (rule imageI)
      with Cons.prems True show "rr_request_id e \<noteq> r" by auto
    qed
    with True show ?thesis by (auto simp: dedup_known_def)
  next
    case False
    have "dedup_known (a # d) r = dedup_known d r" using False by (simp add: dedup_known_def)
    with Cons False show ?thesis by auto
  qed
qed

lemma find_None_known: "List.find (\<lambda>e. rr_request_id e = r) d = None \<longleftrightarrow> r \<notin> rr_request_id ` set d"
  by (auto simp: find_None_iff)

lemma dedup_invar_filter: "dedup_invar d \<Longrightarrow> dedup_invar (filter P d)"
  by (auto simp: dedup_invar_def distinct_map_filter list_all_iff
      intro: order.trans[OF length_filter_le])

lemma dedup_invar_empty: "dedup_invar []"
  by (simp add: dedup_invar_def)

lemma decide_and_reserve_invar:
  assumes "dedup_invar d"
  shows "dedup_invar (fst (decide_and_reserve d r h now c))"
proof -
  note f = dedup_invar_filter[OF assms, of "unexpired now"]
  let ?d = "filter (unexpired now) d"
  have "dedup_invar (?d @ [\<lparr>rr_request_id = r, rr_payload_sha256 = h, rr_expires_at_ms = None\<rparr>])"
    if "List.find (\<lambda>e. rr_request_id e = r) ?d = None" "length ?d \<noteq> MAX_RETAINED_REQUESTS" "sha256_hex h"
    using f that unfolding find_None_known by (auto simp: dedup_invar_def)
  with assms f show ?thesis
    by (auto simp: decide_and_reserve_def Let_def split: option.splits)
qed

lemma dedup_settle_cases:
  assumes "dedup_settle d r t = Ok (d', e)"
  obtains (closed) i where "i < length d" "rr_request_id (d ! i) = r"
      "rr_expires_at_ms (d ! i) = Some e" "d' = d"
  | (opened) i where "i < length d" "rr_request_id (d ! i) = r" "rr_expires_at_ms (d ! i) = None"
      "checked_add t REQUEST_RETENTION_MS = Some e"
      "d' = d[i := (d ! i)\<lparr>rr_expires_at_ms := Some e\<rparr>]"
proof -
  obtain i where i: "position (\<lambda>e. rr_request_id e = r) d = Some i"
    using assms by (auto simp: dedup_settle_def split: option.splits)
  show thesis
  proof (cases "rr_expires_at_ms (d ! i)")
    case None
    with i assms have "checked_add t REQUEST_RETENTION_MS = Some e"
      and "d' = d[i := (d ! i)\<lparr>rr_expires_at_ms := Some e\<rparr>]"
      by (simp_all add: dedup_settle_def split: option.splits)
    with None position_SomeD[OF i] show thesis by (intro opened)
  next
    case (Some x)
    with i assms have "rr_expires_at_ms (d ! i) = Some e" and "d' = d"
      by (simp_all add: dedup_settle_def)
    with position_SomeD[OF i] show thesis by (intro closed)
  qed
qed

lemma dedup_settle_ids:
  assumes "dedup_settle d r t = Ok (d', e)"
  shows "map rr_request_id d' = map rr_request_id d"
    and "map rr_payload_sha256 d' = map rr_payload_sha256 d"
proof -
  from assms show "map rr_request_id d' = map rr_request_id d"
    by (cases rule: dedup_settle_cases) (auto intro: map_list_update_same)
  from assms show "map rr_payload_sha256 d' = map rr_payload_sha256 d"
    by (cases rule: dedup_settle_cases) (auto intro: map_list_update_same)
qed

lemma dedup_settle_invar:
  assumes "dedup_invar d" and "dedup_settle d r t = Ok (d', e)"
  shows "dedup_invar d'"
proof -
  have "list_all sha256_hex (map rr_payload_sha256 d')"
    using assms unfolding dedup_settle_ids(2)[OF assms(2)]
    by (simp add: dedup_invar_def list_all_length)
  moreover have "length d' = length d"
    using dedup_settle_ids(1)[OF assms(2)] by (rule map_eq_imp_length_eq)
  ultimately show ?thesis
    using assms by (simp add: dedup_invar_def dedup_settle_ids(1) list_all_length)
qed

lemma dedup_known_append:
  "dedup_known (d @ [e]) r =
     (case dedup_known d r of Some k \<Rightarrow> Some k
      | None \<Rightarrow> if rr_request_id e = r then Some (rr_payload_sha256 e, rr_expires_at_ms e) else None)"
  by (induction d) (auto simp: dedup_known_def)

lemma dedup_known_filter:
  assumes "distinct (map rr_request_id d)" and "dedup_known d r = Some (h, x)"
    and "\<forall>e. x = Some e \<longrightarrow> now < e"
  shows "dedup_known (filter (unexpired now) d) r = Some (h, x)"
proof -
  obtain e where e: "e \<in> set d" "rr_request_id e = r" "rr_payload_sha256 e = h" "rr_expires_at_ms e = x"
    using assms(1,2) by (auto simp: dedup_known_Some)
  then have "unexpired now e" using assms(3) by (auto simp: unexpired_def split: option.splits)
  with e assms(1) show ?thesis by (auto simp: dedup_known_Some distinct_map_filter)
qed

lemma decide_and_reserve_admits:
  assumes "decide_and_reserve d r h now c = (d', Ok Admit)"
  shows "dedup_known d' r = Some (h, None)"
proof -
  have "List.find (\<lambda>e. rr_request_id e = r) (filter (unexpired now) d) = None"
    and "d' = filter (unexpired now) d @
           [\<lparr>rr_request_id = r, rr_payload_sha256 = h, rr_expires_at_ms = None\<rparr>]"
    using assms by (auto simp: decide_and_reserve_def Let_def split: if_splits option.splits)
  then show ?thesis by (simp add: dedup_known_append) (simp add: dedup_known_def)
qed

lemma decide_and_reserve_keeps:
  assumes "dedup_invar d" and k: "dedup_known d r = Some (h, x)" and "\<forall>e. x = Some e \<longrightarrow> now < e"
  shows "dedup_known (fst (decide_and_reserve d r' h' now c)) r = Some (h, x)"
proof -
  have "dedup_known (filter (unexpired now) d) r = Some (h, x)"
    using assms by (intro dedup_known_filter) (auto simp: dedup_invar_def)
  with k show ?thesis
    by (auto simp: decide_and_reserve_def Let_def dedup_known_append split: option.splits)
qed

lemma decide_and_reserve_known:
  assumes "dedup_invar d" and "dedup_known d r = Some (h, x)" and "\<forall>e. x = Some e \<longrightarrow> now < e"
    and "sha256_hex h'"
  shows "snd (decide_and_reserve d r h' now False) = (if h' = h then Ok Replay else
           err_invalid ''request_id was retained with different request content'')"
proof -
  have "dedup_known (filter (unexpired now) d) r = Some (h, x)"
    using assms by (intro dedup_known_filter) (auto simp: dedup_invar_def)
  then obtain e where "List.find (\<lambda>e. rr_request_id e = r) (filter (unexpired now) d) = Some e"
    and "rr_payload_sha256 e = h"
    by (auto simp: dedup_known_def)
  with assms(4) show ?thesis by (auto simp: decide_and_reserve_def Let_def)
qed

lemma dedup_known_update:
  assumes "i < length d" and "\<forall>j<i. rr_request_id (d ! j) \<noteq> rr_request_id (d ! i)"
    and "rr_request_id e = rr_request_id (d ! i)"
  shows "dedup_known (d[i := e]) r =
           (if r = rr_request_id (d ! i) then Some (rr_payload_sha256 e, rr_expires_at_ms e)
            else dedup_known d r)"
  using assms
proof (induction d arbitrary: i)
  case Nil
  then show ?case by simp
next
  case (Cons a d)
  show ?case
  proof (cases i)
    case 0
    with Cons.prems show ?thesis by (auto simp: dedup_known_def)
  next
    case (Suc j)
    have "rr_request_id a \<noteq> rr_request_id (d ! j)" using Cons.prems(2) Suc by fastforce
    moreover have "dedup_known (d[j := e]) r = (if r = rr_request_id (d ! j)
        then Some (rr_payload_sha256 e, rr_expires_at_ms e) else dedup_known d r)"
      using Cons.prems Suc by (intro Cons.IH) force+
    ultimately show ?thesis using Suc by (auto simp: dedup_known_def)
  qed
qed

lemma dedup_settle_known:
  assumes "dedup_settle d r t = Ok (d', e)"
  shows "dedup_known d' r' = (if r' = r then map_option (\<lambda>k. (fst k, Some e)) (dedup_known d r)
           else dedup_known d r')"
    and "dedup_known d r = Some (h, None) \<Longrightarrow> unat e = unat t + unat REQUEST_RETENTION_MS"
    and "dedup_known d r = Some (h, Some x) \<Longrightarrow> x = e"
proof -
  obtain i where p: "position (\<lambda>e. rr_request_id e = r) d = Some i"
    using assms by (auto simp: dedup_settle_def split: option.splits)
  note i = p[unfolded position_Some_iff]
  have k: "dedup_known d r = Some (rr_payload_sha256 (d ! i), rr_expires_at_ms (d ! i))"
    by (simp add: dedup_known_def find_position p)
  consider "rr_expires_at_ms (d ! i) = Some e" "d' = d"
    | "rr_expires_at_ms (d ! i) = None" "checked_add t REQUEST_RETENTION_MS = Some e"
      "d' = d[i := (d ! i)\<lparr>rr_expires_at_ms := Some e\<rparr>]"
    using assms p by (auto simp: dedup_settle_def split: option.splits)
  then show "dedup_known d' r' = (if r' = r then map_option (\<lambda>k. (fst k, Some e)) (dedup_known d r)
           else dedup_known d r')"
    and "dedup_known d r = Some (h, None) \<Longrightarrow> unat e = unat t + unat REQUEST_RETENTION_MS"
    and "dedup_known d r = Some (h, Some x) \<Longrightarrow> x = e"
    using k i by (cases; auto simp: dedup_known_update dest: unat_checked_add)+
qed

interpretation dedup: replay_guard decide_and_reserve dedup_settle dedup_known dedup_invar
proof unfold_locales
  fix i r' h' now c r h x
  assume "dedup_invar i" "dedup_known i r = Some (h, x)" "\<forall>e. x = Some e \<longrightarrow> now < e"
  then show "dedup_known (fst (decide_and_reserve i r' h' now c)) r = Some (h, x)"
    by (rule decide_and_reserve_keeps)
next
  fix i r t i' e h y
  assume "dedup_settle i r t = Ok (i', e)" "dedup_known i r = Some (h, Some y)"
  then show "dedup_known i' r = Some (h, Some y)"
    using dedup_settle_known(1,3) by fastforce
qed (simp_all add: decide_and_reserve_invar dedup_settle_invar decide_and_reserve_admits
      decide_and_reserve_known dedup_settle_known)

section \<open>Properties\<close>

lemma dedup_run_invar:
  "dedup_invar d \<Longrightarrow> dedup_invar (fold (dedup_step decide_and_reserve dedup_settle) ops d)"
proof (induction ops arbitrary: d)
  case Nil
  then show ?case by simp
next
  case (Cons op ops)
  have "dedup_invar (dedup_step decide_and_reserve dedup_settle op d)"
  proof (cases op)
    case (OpDecide r h now c)
    with Cons.prems show ?thesis by (simp add: decide_and_reserve_invar)
  next
    case (OpSettle r t)
    with Cons.prems show ?thesis
      by (cases "dedup_settle d r t") (auto intro: dedup_settle_invar)
  qed
  with Cons.IH show ?case by simp
qed

text \<open> the index holds at most 4096 requests, one per identity, each with a well-formed digest,
  after any sequence of admissions and settlements.
\<close>

lemma dedup_index_invariant:
  "dedup_invar (fold (dedup_step decide_and_reserve dedup_settle) ops [])"
  by (rule dedup_run_invar[OF dedup_invar_empty])

text \<open> an admitted request identity is admitted only once while it is retained: until its horizon
  (for a settled request, its settlement plus 24 hours), and whatever other requests are decided
  or settled in between, the same identity answers a replay for the same content and an invalid
  argument for different content.
\<close>

lemma dedup_admitted_once:
  assumes "dedup_invar d" and "decide_and_reserve d r h now0 c = (d', Ok Admit)"
    and "\<forall>op\<in>set ops. before_horizon r horizon op"
    and "unat now < horizon" and "sha256_hex h'"
  shows "snd (decide_and_reserve (fold (dedup_step decide_and_reserve dedup_settle) ops d')
           r h' now False) =
         (if h' = h then Ok Replay
          else err_invalid ''request_id was retained with different request content'')"
  using assms by (rule dedup.admitted_once)

definition sample_digest :: string where
  "sample_digest = replicate 64 (CHR ''a'')"

lemma dedup_admitted_once_witness:
  "snd (decide_and_reserve
     (fold (dedup_step decide_and_reserve dedup_settle) [OpSettle (UuidV4 ''r'') 7]
       [\<lparr>rr_request_id = UuidV4 ''r'', rr_payload_sha256 = sample_digest, rr_expires_at_ms = None\<rparr>])
     (UuidV4 ''r'') sample_digest 1000 False) = Ok Replay"
proof -
  have h: "sha256_hex sample_digest"
    by (simp add: sha256_hex_def sample_digest_def hex_lower_def less_eq_char_def list_all_iff)
  have d: "decide_and_reserve [] (UuidV4 ''r'') sample_digest 5 False =
      ([\<lparr>rr_request_id = UuidV4 ''r'', rr_payload_sha256 = sample_digest, rr_expires_at_ms = None\<rparr>], Ok Admit)"
    using h by (simp add: decide_and_reserve_def)
  from dedup_admitted_once[OF dedup_invar_empty d, of "[OpSettle (UuidV4 ''r'') 7]" 2000 1000 sample_digest] h
  show ?thesis by simp
qed

end
