(* ===== verification/Task_Lifecycle.thy ===== *)
theory Task_Lifecycle
  imports Contract
begin

text \<open>
  The Task state machine (\<open>rust/crates/domain/src/task.rs\<close>): the lifecycle record, its events
  and \<open>apply\<close>, the step relation of accepted events with its reachable states, and the locale
  \<open>settling_machine\<close> of machines whose settled states no event changes.
\<close>

section \<open>The machine\<close>

abbreviation MAX_RUNNING_TASKS :: nat where "MAX_RUNNING_TASKS \<equiv> 64"
abbreviation MAX_QUEUED_TASKS :: nat where "MAX_QUEUED_TASKS \<equiv> 256"

record task_lifecycle =
  tl_state :: task_state
  tl_cancel_requested :: bool

datatype task_event =
  EvQueue
| EvStart
| EvComplete bool bool \<comment> \<open>postcondition verified, cleanup verified\<close>
| EvFail bool
| EvRequestCancel
| EvSettleCancellation bool
| EvHostLost

definition lifecycle_new :: task_lifecycle where
  "lifecycle_new = \<lparr>tl_state = TaskCreated, tl_cancel_requested = False\<rparr>"

definition is_terminal_state :: "task_state \<Rightarrow> bool" where
  "is_terminal_state s \<longleftrightarrow> s \<in> {TaskCompleted, TaskFailed, TaskCancelled, TaskInterrupted}"

definition lifecycle_is_terminal :: "task_lifecycle \<Rightarrow> bool" where
  "lifecycle_is_terminal l = is_terminal_state (tl_state l)"

text \<open>
  \<open>apply\<close> mutates nothing on an error, and on success its returned state is \<open>tl_state\<close> of the
  lifecycle it leaves.
\<close>

fun lifecycle_apply :: "task_lifecycle \<Rightarrow> task_event \<Rightarrow> task_lifecycle res" where
  "lifecycle_apply l event =
     (if lifecycle_is_terminal l then
        (case event of
           EvRequestCancel \<Rightarrow> Ok l
         | _ \<Rightarrow> err_invalid ''terminal task transition'')
      else
        (case event of
           EvQueue \<Rightarrow>
             if tl_state l = TaskCreated then Ok (l\<lparr>tl_state := TaskQueued\<rparr>)
             else err_invalid ''invalid task transition''
         | EvStart \<Rightarrow>
             if tl_state l = TaskQueued then Ok (l\<lparr>tl_state := TaskRunning\<rparr>)
             else err_invalid ''invalid task transition''
         | EvComplete postcondition_verified cleanup_verified \<Rightarrow>
             if postcondition_verified \<and> cleanup_verified \<and> tl_state l = TaskRunning
             then Ok (l\<lparr>tl_state := TaskCompleted\<rparr>)
             else if postcondition_verified \<and> \<not> cleanup_verified \<and> tl_state l = TaskRunning
             then Ok (l\<lparr>tl_state := TaskInterrupted\<rparr>)
             else err_invalid
               ''completion requires running state and verified postcondition and cleanup''
         | EvFail cleanup_verified \<Rightarrow>
             if tl_state l \<in> {TaskCreated, TaskQueued, TaskRunning}
             then Ok (l\<lparr>tl_state := if cleanup_verified then TaskFailed else TaskInterrupted\<rparr>)
             else err_invalid ''invalid task transition''
         | EvRequestCancel \<Rightarrow> Ok (l\<lparr>tl_cancel_requested := True\<rparr>)
         | EvSettleCancellation cleanup_verified \<Rightarrow>
             if tl_cancel_requested l
             then Ok (l\<lparr>tl_state := if cleanup_verified then TaskCancelled else TaskInterrupted\<rparr>)
             else err CancelFailed ''cancellation was not requested''
         | EvHostLost \<Rightarrow> Ok (l\<lparr>tl_state := TaskInterrupted\<rparr>)))"

declare lifecycle_apply.simps [simp del]

lemma is_terminal_state_simps [simp]:
  "\<not> is_terminal_state TaskCreated" "\<not> is_terminal_state TaskQueued"
  "\<not> is_terminal_state TaskRunning" "is_terminal_state TaskCompleted"
  "is_terminal_state TaskFailed" "is_terminal_state TaskCancelled"
  "is_terminal_state TaskInterrupted"
  by (simp_all add: is_terminal_state_def)

lemma not_terminal_cases:
  "\<not> is_terminal_state s \<longleftrightarrow> s = TaskCreated \<or> s = TaskQueued \<or> s = TaskRunning"
  by (cases s) simp_all

lemma lifecycle_new_simps [simp]:
  "tl_state lifecycle_new = TaskCreated" "\<not> tl_cancel_requested lifecycle_new"
  "\<not> lifecycle_is_terminal lifecycle_new"
  by (simp_all add: lifecycle_new_def lifecycle_is_terminal_def)

lemmas lifecycle_apply_defs = lifecycle_apply.simps lifecycle_is_terminal_def

lemma apply_terminal:
  "lifecycle_is_terminal l \<Longrightarrow> lifecycle_apply l e = Ok l' \<Longrightarrow> l' = l \<and> e = EvRequestCancel"
  by (cases e) (simp_all add: lifecycle_apply.simps)

lemma apply_queue_new: "lifecycle_apply lifecycle_new EvQueue = Ok \<lparr>tl_state = TaskQueued, tl_cancel_requested = False\<rparr>"
  by (simp add: lifecycle_apply_defs lifecycle_new_def)

lemma apply_host_lost:
  "\<not> lifecycle_is_terminal l \<Longrightarrow> lifecycle_apply l EvHostLost = Ok (l\<lparr>tl_state := TaskInterrupted\<rparr>)"
  by (simp add: lifecycle_apply.simps)

lemma apply_settles:
  assumes "lifecycle_apply l e = Ok l'"
    and "e \<in> {EvComplete p c, EvFail c, EvSettleCancellation c, EvHostLost}"
  shows "lifecycle_is_terminal l'"
  using assms by (auto simp: lifecycle_apply_defs split: if_splits)

section \<open>Machines that settle\<close>

text \<open>
  \<open>run_events\<close> offers a list of events to a machine that refuses some of them; a refused
  event leaves the state as it was.
\<close>

fun run_events :: "('s \<Rightarrow> 'e \<Rightarrow> ('err, 's) result) \<Rightarrow> 's \<Rightarrow> 'e list \<Rightarrow> 's" where
  "run_events step s [] = s"
| "run_events step s (e # es) =
     run_events step (case step s e of Inl _ \<Rightarrow> s | Inr s' \<Rightarrow> s') es"

locale settling_machine =
  fixes step :: "'s \<Rightarrow> 'e \<Rightarrow> ('err, 's) result"
    and settled :: "'s \<Rightarrow> bool"
    and rank :: "'s \<Rightarrow> nat"
    and top :: nat
  assumes settled_step: "settled s \<Longrightarrow> step s e = Ok s' \<Longrightarrow> s' = s"
    and rank_step: "step s e = Ok s' \<Longrightarrow> s' \<noteq> s \<Longrightarrow> rank s < rank s'"
    and rank_top: "rank s \<le> top"
begin

lemma settled_run: "settled s \<Longrightarrow> run_events step s es = s"
proof (induction es)
  case Nil
  then show ?case by simp
next
  case (Cons e es)
  then show ?case by (cases "step s e") (auto dest: settled_step)
qed

lemma run_append: "run_events step s (es @ es') = run_events step (run_events step s es) es'"
  by (induction es arbitrary: s) auto

text \<open>A run passes through at most \<open>top\<close> distinct changes: each one raises the rank.\<close>

fun changes :: "'s \<Rightarrow> 'e list \<Rightarrow> nat" where
  "changes s [] = 0"
| "changes s (e # es) =
     (case step s e of Inl _ \<Rightarrow> changes s es
      | Inr s' \<Rightarrow> (if s' = s then 0 else 1) + changes s' es)"

lemma changes_rank: "rank s + changes s es \<le> rank (run_events step s es)"
proof (induction es arbitrary: s)
  case Nil
  then show ?case by simp
next
  case (Cons e es)
  show ?case
  proof (cases "step s e")
    case (Inl x)
    with Cons show ?thesis by simp
  next
    case (Inr s')
    with Cons[of s'] rank_step[OF Inr] show ?thesis by auto
  qed
qed

lemma changes_bounded: "changes s es \<le> top - rank s"
  using changes_rank[of s es] rank_top[of "run_events step s es"] by linarith

end

text \<open>Creation, queueing, running and settlement are four ranks; the cancel request counts one more.\<close>

definition lifecycle_rank :: "task_lifecycle \<Rightarrow> nat" where
  "lifecycle_rank l =
     (case tl_state l of TaskCreated \<Rightarrow> 0 | TaskQueued \<Rightarrow> 1 | TaskRunning \<Rightarrow> 2 | _ \<Rightarrow> 3)
     + (if tl_cancel_requested l then 1 else 0)"

lemma lifecycle_apply_rank:
  assumes "lifecycle_apply l e = Ok l'" and "l' \<noteq> l"
  shows "lifecycle_rank l < lifecycle_rank l'"
  using assms
  by (cases e; cases "tl_state l"; cases "tl_cancel_requested l")
    (auto simp: lifecycle_apply_defs lifecycle_rank_def split: if_splits)

interpretation lifecycle: settling_machine lifecycle_apply lifecycle_is_terminal lifecycle_rank 4
proof unfold_locales
  fix s s' e
  show "lifecycle_is_terminal s \<Longrightarrow> lifecycle_apply s e = Ok s' \<Longrightarrow> s' = s"
    by (simp add: apply_terminal)
  show "lifecycle_apply s e = Ok s' \<Longrightarrow> s' \<noteq> s \<Longrightarrow> lifecycle_rank s < lifecycle_rank s'"
    by (rule lifecycle_apply_rank)
  show "lifecycle_rank s \<le> 4"
    by (simp add: lifecycle_rank_def split: task_state.split)
qed

section \<open>Reachable lifecycles\<close>

inductive lifecycle_step :: "task_lifecycle \<Rightarrow> task_event \<Rightarrow> task_lifecycle \<Rightarrow> bool" where
  accepted: "lifecycle_apply l e = Ok l' \<Longrightarrow> lifecycle_step l e l'"

inductive_cases lifecycle_stepE: "lifecycle_step l e l'"
inductive_simps lifecycle_step_iff: "lifecycle_step l e l'"

inductive lifecycle_trace :: "task_lifecycle \<Rightarrow> task_event list \<Rightarrow> bool" where
  start: "lifecycle_trace lifecycle_new []"
| step: "lifecycle_trace l es \<Longrightarrow> lifecycle_step l e l' \<Longrightarrow> lifecycle_trace l' (es @ [e])"

text \<open>
  What the events a lifecycle accepted say about its state: it was queued before it started,
  completed only through a verified completion of a started Task, is cancelled only after a
  cancel request, and is failed or cancelled only with verified cleanup.
\<close>

definition lifecycle_history :: "task_lifecycle \<Rightarrow> task_event list \<Rightarrow> bool" where
  "lifecycle_history l es \<longleftrightarrow>
     (tl_state l = TaskCreated \<longrightarrow> EvQueue \<notin> set es \<and> EvStart \<notin> set es) \<and>
     (tl_state l = TaskQueued \<longrightarrow> EvQueue \<in> set es \<and> EvStart \<notin> set es) \<and>
     (tl_state l = TaskRunning \<longrightarrow> EvQueue \<in> set es \<and> EvStart \<in> set es) \<and>
     (tl_state l = TaskCompleted \<longrightarrow>
        EvQueue \<in> set es \<and> EvStart \<in> set es \<and> EvComplete True True \<in> set es) \<and>
     (tl_state l = TaskFailed \<longrightarrow> EvFail True \<in> set es) \<and>
     (tl_state l = TaskCancelled \<longrightarrow>
        tl_cancel_requested l \<and> EvSettleCancellation True \<in> set es) \<and>
     (tl_cancel_requested l \<longrightarrow> EvRequestCancel \<in> set es) \<and>
     (\<not> is_terminal_state (tl_state l) \<longrightarrow>
        (EvRequestCancel \<in> set es \<longrightarrow> tl_cancel_requested l) \<and>
        (\<forall>e\<in>set es. e = EvQueue \<or> e = EvStart \<or> e = EvRequestCancel))"

lemma lifecycle_history_new: "lifecycle_history lifecycle_new []"
  by (simp add: lifecycle_history_def)

lemma lifecycle_apply_cases:
  assumes "lifecycle_apply l e = Ok l'" and "\<not> lifecycle_is_terminal l"
  obtains (queue) "e = EvQueue" "tl_state l = TaskCreated" "l' = l\<lparr>tl_state := TaskQueued\<rparr>"
  | (start) "e = EvStart" "tl_state l = TaskQueued" "l' = l\<lparr>tl_state := TaskRunning\<rparr>"
  | (complete) c where "e = EvComplete True c" "tl_state l = TaskRunning"
      "l' = l\<lparr>tl_state := if c then TaskCompleted else TaskInterrupted\<rparr>"
  | (fail) c where "e = EvFail c" "l' = l\<lparr>tl_state := if c then TaskFailed else TaskInterrupted\<rparr>"
  | (cancel) "e = EvRequestCancel" "l' = l\<lparr>tl_cancel_requested := True\<rparr>"
  | (settle) c where "e = EvSettleCancellation c" "tl_cancel_requested l"
      "l' = l\<lparr>tl_state := if c then TaskCancelled else TaskInterrupted\<rparr>"
  | (lost) "e = EvHostLost" "l' = l\<lparr>tl_state := TaskInterrupted\<rparr>"
proof (cases e)
  case (EvComplete p c)
  with assms have "p" "tl_state l = TaskRunning"
    "l' = l\<lparr>tl_state := if c then TaskCompleted else TaskInterrupted\<rparr>"
    by (simp_all add: lifecycle_apply.simps split: if_splits)
  with EvComplete show thesis by (intro complete) simp_all
qed (use assms in \<open>simp_all add: lifecycle_apply.simps that split: if_splits\<close>)

lemma lifecycle_history_step:
  assumes "lifecycle_history l es" and "lifecycle_apply l e = Ok l'"
  shows "lifecycle_history l' (es @ [e])"
proof (cases "lifecycle_is_terminal l")
  case True
  with assms(2) have "l' = l" "e = EvRequestCancel" by (auto dest: apply_terminal)
  with assms(1) True show ?thesis
    by (cases "tl_state l") (simp_all add: lifecycle_history_def lifecycle_is_terminal_def)
next
  case False
  with assms(2) show ?thesis
  proof (cases rule: lifecycle_apply_cases)
    case cancel
    with False assms(1) show ?thesis
      by (cases "tl_state l") (simp_all add: lifecycle_history_def lifecycle_is_terminal_def)
  next
    case (complete c)
    with assms(1) show ?thesis by (cases c) (simp_all add: lifecycle_history_def)
  next
    case (fail c)
    with assms(1) show ?thesis by (cases c) (simp_all add: lifecycle_history_def)
  next
    case (settle c)
    with assms(1) show ?thesis by (cases c) (simp_all add: lifecycle_history_def)
  next
    case queue
    with assms(1) show ?thesis by (simp add: lifecycle_history_def)
  next
    case start
    with assms(1) show ?thesis by (simp add: lifecycle_history_def)
  next
    case lost
    with assms(1) show ?thesis by (simp add: lifecycle_history_def)
  qed
qed

lemma lifecycle_trace_history: "lifecycle_trace l es \<Longrightarrow> lifecycle_history l es"
  by (induction rule: lifecycle_trace.induct)
    (auto simp: lifecycle_history_new lifecycle_step_iff intro: lifecycle_history_step)

section \<open>Properties\<close>

text \<open> the events a Task accepted account for its state: it completed only after it was queued and
  started, with postcondition and cleanup verified; it failed or was cancelled only with cleanup
  verified, and cancelled only after a cancel request.
\<close>

lemma task_history:
  assumes "lifecycle_trace l es"
  shows "lifecycle_history l es"
  using assms by (rule lifecycle_trace_history)

text \<open> a settled Task never changes again, whatever events it is offered.\<close>

lemma task_settled:
  assumes "lifecycle_is_terminal l"
  shows "run_events lifecycle_apply l es = l"
  using assms by (rule lifecycle.settled_run)

lemma sample_trace:
  "lifecycle_trace \<lparr>tl_state = TaskCompleted, tl_cancel_requested = False\<rparr>
     [EvQueue, EvStart, EvComplete True True]"
proof -
  have "lifecycle_trace \<lparr>tl_state = TaskQueued, tl_cancel_requested = False\<rparr> ([] @ [EvQueue])"
    by (rule lifecycle_trace.step[OF lifecycle_trace.start])
      (simp add: lifecycle_step_iff lifecycle_new_def lifecycle_apply_defs)
  then have "lifecycle_trace \<lparr>tl_state = TaskRunning, tl_cancel_requested = False\<rparr>
      (([] @ [EvQueue]) @ [EvStart])"
    by (rule lifecycle_trace.step) (simp add: lifecycle_step_iff lifecycle_apply_defs)
  then have "lifecycle_trace \<lparr>tl_state = TaskCompleted, tl_cancel_requested = False\<rparr>
      ((([] @ [EvQueue]) @ [EvStart]) @ [EvComplete True True])"
    by (rule lifecycle_trace.step) (simp add: lifecycle_step_iff lifecycle_apply_defs)
  then show ?thesis by simp
qed

lemma task_history_witness:
  "lifecycle_history \<lparr>tl_state = TaskCompleted, tl_cancel_requested = False\<rparr>
     [EvQueue, EvStart, EvComplete True True]"
  by (rule task_history[OF sample_trace])

lemma task_settled_witness:
  "run_events lifecycle_apply \<lparr>tl_state = TaskFailed, tl_cancel_requested = False\<rparr>
     [EvStart, EvHostLost, EvRequestCancel] = \<lparr>tl_state = TaskFailed, tl_cancel_requested = False\<rparr>"
  by (rule task_settled) (simp add: lifecycle_is_terminal_def)

end
