(* ===== verification/Runtime_State.thy ===== *)
theory Runtime_State
  imports Admission Dedup Task_Lifecycle
begin

text \<open>
  The canonical Runtime state (\<open>rust/crates/runtime/src/state.rs\<close>), the public Task projections of
  \<open>contract/src/tools.rs\<close> and the execution outcomes of \<open>ports.rs\<close>. Values the Runtime moves
  without reading them are type parameters: \<open>'p\<close> is \<open>ExecutionPayload\<close>, \<open>'r\<close> the terminal result of
  a tool, \<open>'j\<close> a \<open>serde_json::Value\<close>.
\<close>

section \<open>Records\<close>

abbreviation STORE_LIMIT_BYTES :: u64 where "STORE_LIMIT_BYTES \<equiv> 8388608"
abbreviation RESERVE_FLOOR_BYTES :: u64 where "RESERVE_FLOOR_BYTES \<equiv> 16384"
abbreviation TASK_RECORD_BYTES :: u64 where "TASK_RECORD_BYTES \<equiv> 2048"
abbreviation SYNCHRONOUS_RECORD_BYTES :: u64 where "SYNCHRONOUS_RECORD_BYTES \<equiv> 2048"
abbreviation RETAINED_RESULT_LIMIT_BYTES :: u64 where "RETAINED_RESULT_LIMIT_BYTES \<equiv> 8192"
abbreviation RETAINED_MUTATION_RECORD_BYTES :: u64 where "RETAINED_MUTATION_RECORD_BYTES \<equiv> 1024"

datatype provider_token =
  TokenAppNative | TokenAppFramework | TokenShizuku | TokenMagiskNative | TokenMagiskFramework
| TokenAccessibility | TokenMediaProjection | TokenNotificationListener

fun provider_token_from :: "provider \<Rightarrow> provider_token" where
  "provider_token_from AppNative = TokenAppNative"
| "provider_token_from AppFramework = TokenAppFramework"
| "provider_token_from Shizuku = TokenShizuku"
| "provider_token_from MagiskNative = TokenMagiskNative"
| "provider_token_from MagiskFramework = TokenMagiskFramework"
| "provider_token_from Accessibility = TokenAccessibility"
| "provider_token_from MediaProjection = TokenMediaProjection"
| "provider_token_from NotificationListener = TokenNotificationListener"

record executor_record =
  er_host :: runtime_host
  er_provider :: provider_token
  er_execution_class :: execution_class
  er_capability_generation :: u64
  er_fence :: fence

definition fence_of :: "admission_fence \<Rightarrow> fence" where
  "fence_of f = \<lparr>fence_runtime_epoch = af_runtime_epoch f,
                 fence_host_generation = af_host_generation f,
                 fence_runtime_instance_id = af_runtime_instance_id f\<rparr>"

definition executor_record_from :: "admitted_executor \<Rightarrow> executor_record" where
  "executor_record_from e =
     \<lparr>er_host = ae_host e, er_provider = provider_token_from (ae_provider e),
      er_execution_class = ae_execution_class e,
      er_capability_generation = ae_capability_generation e, er_fence = fence_of (ae_fence e)\<rparr>"

datatype 'p task_origin =
  OriginRequest request_id executor_record executor_request 'p
| OriginAutomationExecution automation_id fence

record ('p, 'r) task_record =
  tk_task_id :: task_id
  tk_execution_id :: uuid
  tk_lifecycle :: task_lifecycle
  tk_tool :: mother_tool
  tk_action :: string
  tk_created_at :: string
  tk_started_at :: "string option"
  tk_ended_at :: "string option"
  tk_waiting_reason :: "string option"
  tk_origin :: "'p task_origin"
  tk_result :: "'r task_terminal_result option"
  tk_error :: "public_error option"
  tk_reserved_bytes :: u64

record 'r task_snapshot =
  ts_task_id :: task_id
  ts_state :: task_state
  ts_tool :: mother_tool
  ts_action :: string
  ts_created_at :: string
  ts_started_at :: "string option"
  ts_ended_at :: "string option"
  ts_cancel_requested :: bool
  ts_waiting_reason :: "string option"
  ts_execution_class :: "execution_class option"
  ts_result :: "'r task_terminal_result option"
  ts_error :: "public_error option"

record task_summary =
  tsu_task_id :: task_id
  tsu_state :: task_state
  tsu_tool :: mother_tool
  tsu_action :: string
  tsu_created_at :: string
  tsu_started_at :: "string option"
  tsu_ended_at :: "string option"
  tsu_waiting_reason :: "string option"

datatype synchronous_execution_state = SyncRunning | SyncCompleted | SyncFailed | SyncInterrupted

fun sync_is_terminal :: "synchronous_execution_state \<Rightarrow> bool" where
  "sync_is_terminal SyncRunning = False"
| "sync_is_terminal _ = True"

record ('p, 'j) synchronous_execution_record =
  sx_request_id :: request_id
  sx_execution_id :: uuid
  sx_operation :: string
  sx_state :: synchronous_execution_state
  sx_ended_at :: "string option"
  sx_executor :: executor_record
  sx_route :: executor_request
  sx_payload :: 'p
  sx_result :: "'j option"
  sx_error :: "public_error option"
  sx_reserved_bytes :: u64
  sx_terminal_bytes :: u64

record automation_record =
  ar_automation :: automation
  ar_next_due_at :: "string option"
  ar_deleted_at :: "string option"
  ar_active_execution_id :: "execution_id option"
  ar_run_requested_at :: "string option"

record automation_execution_record =
  xr_automation_id :: automation_id
  xr_summary :: automation_execution_summary

record 'j retained_mutation_record =
  rm_request_id :: request_id
  rm_result :: 'j

record ('p, 'r, 'j) runtime_state =
  rs_revision :: u64
  rs_used_bytes :: u64
  rs_reserved_bytes :: u64
  rs_tasks :: "('p, 'r) task_record list"
  rs_synchronous_executions :: "('p, 'j) synchronous_execution_record list"
  rs_dedup :: dedup_index
  rs_automations :: "automation_record list"
  rs_automation_executions :: "automation_execution_record list"
  rs_retained_mutations :: "'j retained_mutation_record list"

section \<open>Projections\<close>

definition tk_state :: "('p, 'r) task_record \<Rightarrow> task_state" where
  "tk_state t = tl_state (tk_lifecycle t)"

definition tk_request_id :: "('p, 'r) task_record \<Rightarrow> request_id option" where
  "tk_request_id t =
     (case tk_origin t of OriginRequest r _ _ _ \<Rightarrow> Some r | OriginAutomationExecution _ _ \<Rightarrow> None)"

definition tk_executor :: "('p, 'r) task_record \<Rightarrow> executor_record option" where
  "tk_executor t =
     (case tk_origin t of OriginRequest _ e _ _ \<Rightarrow> Some e | OriginAutomationExecution _ _ \<Rightarrow> None)"

definition tk_fence :: "('p, 'r) task_record \<Rightarrow> fence" where
  "tk_fence t =
     (case tk_origin t of OriginRequest _ e _ _ \<Rightarrow> er_fence e | OriginAutomationExecution _ f \<Rightarrow> f)"

definition tk_is_terminal :: "('p, 'r) task_record \<Rightarrow> bool" where
  "tk_is_terminal t = lifecycle_is_terminal (tk_lifecycle t)"

definition is_container :: "('p, 'r) task_record \<Rightarrow> bool" where
  "is_container t =
     (case tk_origin t of OriginRequest _ _ _ _ \<Rightarrow> False | OriginAutomationExecution _ _ \<Rightarrow> True)"

definition tk_execution_class :: "('p, 'r) task_record \<Rightarrow> execution_class option" where
  "tk_execution_class t = map_option er_execution_class (tk_executor t)"

definition task_summary_of :: "('p, 'r) task_record \<Rightarrow> task_summary" where
  "task_summary_of t =
     \<lparr>tsu_task_id = tk_task_id t, tsu_state = tk_state t, tsu_tool = tk_tool t,
      tsu_action = tk_action t, tsu_created_at = tk_created_at t,
      tsu_started_at = tk_started_at t, tsu_ended_at = tk_ended_at t,
      tsu_waiting_reason = tk_waiting_reason t\<rparr>"

definition snapshot :: "('p, 'r) task_record \<Rightarrow> 'r task_snapshot" where
  "snapshot t =
     \<lparr>ts_task_id = tk_task_id t, ts_state = tk_state t, ts_tool = tk_tool t,
      ts_action = tk_action t, ts_created_at = tk_created_at t,
      ts_started_at = tk_started_at t, ts_ended_at = tk_ended_at t,
      ts_cancel_requested = tl_cancel_requested (tk_lifecycle t),
      ts_waiting_reason = tk_waiting_reason t, ts_execution_class = tk_execution_class t,
      ts_result = tk_result t, ts_error = tk_error t\<rparr>"

fun auto_state_is_terminal :: "automation_execution_state \<Rightarrow> bool" where
  "auto_state_is_terminal AutoQueued = False"
| "auto_state_is_terminal AutoRunning = False"
| "auto_state_is_terminal _ = True"

definition xr_is_terminal :: "automation_execution_record \<Rightarrow> bool" where
  "xr_is_terminal x = auto_state_is_terminal (es_state (xr_summary x))"

definition find_task :: "('p, 'r, 'j) runtime_state \<Rightarrow> task_id \<Rightarrow> ('p, 'r) task_record option" where
  "find_task s task_id = List.find (\<lambda>t. tk_task_id t = task_id) (rs_tasks s)"

definition non_terminal_count :: "('p, 'r, 'j) runtime_state \<Rightarrow> nat" where
  "non_terminal_count s =
     length (filter (\<lambda>t. \<not> tk_is_terminal t) (rs_tasks s))
     + length (filter (\<lambda>x. \<not> sync_is_terminal (sx_state x)) (rs_synchronous_executions s))
     + length (filter (\<lambda>x. es_state (xr_summary x) \<in> {AutoQueued, AutoRunning})
         (rs_automation_executions s))"

definition total_committed_and_reserved :: "('p, 'r, 'j) runtime_state \<Rightarrow> u64 option" where
  "total_committed_and_reserved s = checked_add (rs_used_bytes s) (rs_reserved_bytes s)"

definition runtime_state_default :: "('p, 'r, 'j) runtime_state" where
  "runtime_state_default =
     \<lparr>rs_revision = 0, rs_used_bytes = 0, rs_reserved_bytes = 0, rs_tasks = [],
      rs_synchronous_executions = [], rs_dedup = [], rs_automations = [],
      rs_automation_executions = [], rs_retained_mutations = []\<rparr>"

section \<open>Execution outcomes (ports.rs)\<close>

record 'p admitted_execution =
  ax_execution_id :: uuid
  ax_task_id :: "uuid option"
  ax_executor :: executor_record
  ax_payload :: 'p

text \<open>The fence of the executor an execution was admitted with (command.rs).\<close>

definition execution_fence :: "'p admitted_execution \<Rightarrow> admission_fence" where
  "execution_fence execution =
     \<lparr>af_runtime_epoch = fence_runtime_epoch (er_fence (ax_executor execution)),
      af_host_generation = fence_host_generation (er_fence (ax_executor execution)),
      af_runtime_instance_id = fence_runtime_instance_id (er_fence (ax_executor execution))\<rparr>"

datatype ('r, 'j) execution_outcome =
  OutcomeCompleted "'r task_terminal_result" u64
| OutcomeSynchronousCompleted 'j u64
| OutcomeFailed public_error u64
| OutcomeCancelled public_error u64

record ('r, 'j) execution_completion =
  ec_fence :: admission_fence
  ec_capability_generation :: u64
  ec_outcome :: "('r, 'j) execution_outcome"
  ec_cleanup_verified :: bool

record execution_failure =
  ef_error :: domain_error
  ef_cleanup_verified :: bool

datatype execution_cancel_outcome = CancelCancelled bool | CancelCompletionWon

datatype recovery_proof = ProofClean | ProofCleanupUnverified

section \<open>Settlement reservations\<close>

text \<open>
  What the reserved bytes of the state are for: every Task that has not settled and every running
  synchronous execution holds its own reservation. The sum is taken over the naturals, so it says
  that the machine sum does not wrap either.
\<close>

definition task_reservation :: "('p, 'r) task_record \<Rightarrow> nat" where
  "task_reservation t = (if tk_is_terminal t then 0 else unat (tk_reserved_bytes t))"

definition sync_reservation :: "('p, 'j) synchronous_execution_record \<Rightarrow> nat" where
  "sync_reservation x = (if sync_is_terminal (sx_state x) then 0 else unat (sx_reserved_bytes x))"

definition reservations :: "('p, 'r, 'j) runtime_state \<Rightarrow> nat" where
  "reservations s = sum_list (map task_reservation (rs_tasks s))
     + sum_list (map sync_reservation (rs_synchronous_executions s))"

definition accounted :: "('p, 'r, 'j) runtime_state \<Rightarrow> bool" where
  "accounted s \<longleftrightarrow> unat (rs_reserved_bytes s) = reservations s"

lemma accounted_default: "accounted runtime_state_default"
  by (simp add: accounted_def reservations_def runtime_state_default_def)

lemma task_reservation_le:
  assumes "accounted s" and "i < length (rs_tasks s)"
  shows "task_reservation (rs_tasks s ! i) \<le> unat (rs_reserved_bytes s)"
  using assms member_le_sum_list[of "task_reservation (rs_tasks s ! i)" "map task_reservation (rs_tasks s)"]
  by (auto simp: accounted_def reservations_def)

lemma sync_reservation_le:
  assumes "accounted s" and "i < length (rs_synchronous_executions s)"
  shows "sync_reservation (rs_synchronous_executions s ! i) \<le> unat (rs_reserved_bytes s)"
  using assms member_le_sum_list[of "sync_reservation (rs_synchronous_executions s ! i)"
      "map sync_reservation (rs_synchronous_executions s)"]
  by (auto simp: accounted_def reservations_def)

text \<open>Replacing one Task moves the sum by the difference of the two reservations.\<close>

lemma reservations_update_task:
  assumes "i < length (rs_tasks s)"
  shows "reservations (s\<lparr>rs_tasks := (rs_tasks s)[i := t]\<rparr>) + task_reservation (rs_tasks s ! i)
       = reservations s + task_reservation t"
  using sum_list_update_nat[OF assms, of task_reservation t] by (simp add: reservations_def)

lemma reservations_update_sync:
  assumes "i < length (rs_synchronous_executions s)"
  shows "reservations (s\<lparr>rs_synchronous_executions := (rs_synchronous_executions s)[i := x]\<rparr>)
           + sync_reservation (rs_synchronous_executions s ! i)
       = reservations s + sync_reservation x"
  using sum_list_update_nat[OF assms, of sync_reservation x] by (simp add: reservations_def)

lemma sum_list_filter_zero:
  fixes f :: "'a \<Rightarrow> nat"
  assumes "\<And>x. x \<in> set xs \<Longrightarrow> \<not> P x \<Longrightarrow> f x = 0"
  shows "sum_list (map f (filter P xs)) = sum_list (map f xs)"
  using assms by (induction xs) auto

text \<open>Dropping settled records changes no reservation.\<close>

lemma reservations_filter:
  assumes "\<And>t. t \<in> set (rs_tasks s) \<Longrightarrow> \<not> P t \<Longrightarrow> tk_is_terminal t"
    and "\<And>x. x \<in> set (rs_synchronous_executions s) \<Longrightarrow> \<not> Q x \<Longrightarrow> sync_is_terminal (sx_state x)"
  shows "reservations (s\<lparr>rs_tasks := filter P (rs_tasks s),
           rs_synchronous_executions := filter Q (rs_synchronous_executions s)\<rparr>) = reservations s"
  using assms
  by (simp add: reservations_def sum_list_filter_zero task_reservation_def sync_reservation_def)

lemma tk_is_terminal_iff: "tk_is_terminal t \<longleftrightarrow> is_terminal_state (tk_state t)"
  by (simp add: tk_is_terminal_def tk_state_def lifecycle_is_terminal_def)

end
