(* ===== verification/Ordered_Map.thy ===== *)
theory Ordered_Map
  imports Prelude Contract
begin

text \<open>
  The \<open>std::collections::BTreeMap<String, V>\<close> operations the crates use: a map is the list of
  its entries in strictly ascending key order, so equality of maps is equality of lists, \<open>len\<close>
  is the length and iteration is the list itself. The locale \<open>ordered_map\<close> states what the
  clients (Automation state, trigger facts, error details) rely on.
\<close>

section \<open>The contract\<close>

locale ordered_map =
  fixes empty :: "'m"
    and insert :: "string \<Rightarrow> 'v \<Rightarrow> 'm \<Rightarrow> 'm"
    and lookup :: "'m \<Rightarrow> string \<Rightarrow> 'v option"
    and len :: "'m \<Rightarrow> nat"
    and invar :: "'m \<Rightarrow> bool"
  assumes invar_empty: "invar empty"
    and invar_insert: "invar m \<Longrightarrow> invar (insert k v m)"
    and lookup_empty: "lookup empty k = None"
    and lookup_insert: "invar m \<Longrightarrow> lookup (insert k v m) k' = (if k' = k then Some v else lookup m k')"
    and len_empty: "len empty = 0"
    and len_insert: "invar m \<Longrightarrow> len (insert k v m) = (if lookup m k = None then Suc (len m) else len m)"
begin

text \<open>Inserting only while there is room, or only over an existing key, keeps the map in bounds.\<close>

lemma bounded_insert:
  assumes "invar m" and "len m \<le> n" and "lookup m k = None \<longrightarrow> len m \<noteq> n"
  shows "len (insert k v m) \<le> n"
  using assms by (auto simp: len_insert)

lemma insert_commutes_on_lookup:
  assumes "invar m" and "k \<noteq> k'"
  shows "lookup (insert k v (insert k' v' m)) = lookup (insert k' v' (insert k v m))"
  using assms by (auto simp: lookup_insert invar_insert fun_eq_iff)

lemma lookup_overwrite:
  assumes "invar m"
  shows "lookup (insert k v (insert k v' m)) = lookup (insert k v m)"
  using assms by (auto simp: lookup_insert invar_insert fun_eq_iff)

end

section \<open>Ascending entry lists\<close>

fun bt_insert :: "string \<Rightarrow> 'v \<Rightarrow> 'v btree_map \<Rightarrow> 'v btree_map" where
  "bt_insert k v [] = [(k, v)]"
| "bt_insert k v ((k', v') # m) =
     (if k < k' then (k, v) # (k', v') # m
      else if k = k' then (k, v) # m
      else (k', v') # bt_insert k v m)"

definition bt_get :: "'v btree_map \<Rightarrow> string \<Rightarrow> 'v option" where
  "bt_get m k = map_of m k"

definition bt_contains :: "'v btree_map \<Rightarrow> string \<Rightarrow> bool" where
  "bt_contains m k \<longleftrightarrow> bt_get m k \<noteq> None"

definition bt_from :: "(string \<times> 'v) list \<Rightarrow> 'v btree_map" where
  "bt_from kvs = fold (\<lambda>(k, v) m. bt_insert k v m) kvs []"

definition bt_invar :: "'v btree_map \<Rightarrow> bool" where
  "bt_invar m \<longleftrightarrow> sorted_wrt (<) (map fst m)"

lemma bt_invar_simps [simp]:
  "bt_invar []"
  "bt_invar ((k, v) # m) \<longleftrightarrow> (\<forall>k'\<in>fst ` set m. k < k') \<and> bt_invar m"
  by (simp_all add: bt_invar_def)

lemma keys_bt_insert: "fst ` set (bt_insert k v m) = insert k (fst ` set m)"
  by (induction k v m rule: bt_insert.induct) auto

lemma bt_invar_insert: "bt_invar m \<Longrightarrow> bt_invar (bt_insert k v m)"
proof (induction k v m rule: bt_insert.induct)
  case (1 k v)
  then show ?case by simp
next
  case (2 k v k' v' m)
  show ?case
  proof (cases "k < k'")
    case True
    with 2(2) show ?thesis by force
  next
    case False
    show ?thesis
    proof (cases "k = k'")
      case True
      with 2(2) show ?thesis by auto
    next
      case neq: False
      with False have "k' < k" by simp
      with False neq 2 show ?thesis by (auto simp: keys_bt_insert)
    qed
  qed
qed

lemma bt_get_insert: "bt_get (bt_insert k v m) k' = (if k' = k then Some v else bt_get m k')"
  by (induction k v m rule: bt_insert.induct) (auto simp: bt_get_def)

lemma bt_get_None_iff: "bt_get m k = None \<longleftrightarrow> k \<notin> fst ` set m"
  by (simp add: bt_get_def map_of_eq_None_iff)

lemma length_bt_insert:
  "bt_invar m \<Longrightarrow> length (bt_insert k v m) = (if bt_get m k = None then Suc (length m) else length m)"
proof (induction k v m rule: bt_insert.induct)
  case (1 k v)
  then show ?case by (simp add: bt_get_def)
next
  case (2 k v k' v' m)
  then show ?case
    by (auto simp: bt_get_def map_of_eq_None_iff)
qed

interpretation btree: ordered_map "[]" bt_insert bt_get length bt_invar
  by unfold_locales (simp_all add: bt_invar_insert bt_get_insert length_bt_insert bt_get_None_iff)

definition bt_remove :: "string \<Rightarrow> 'v btree_map \<Rightarrow> 'v btree_map" where
  "bt_remove k m = filter (\<lambda>kv. fst kv \<noteq> k) m"

lemma bt_get_remove: "bt_get (bt_remove k m) k' = (if k' = k then None else bt_get m k')"
  by (induction m) (auto simp: bt_get_def bt_remove_def)

lemma bt_invar_remove: "bt_invar m \<Longrightarrow> bt_invar (bt_remove k m)"
  by (induction m) (auto simp: bt_remove_def)

lemma set_bt_remove: "set (bt_remove k m) = {kv \<in> set m. fst kv \<noteq> k}"
  by (auto simp: bt_remove_def)

lemma bt_get_Some_in: "bt_get m k = Some v \<Longrightarrow> (k, v) \<in> set m"
  by (simp add: bt_get_def map_of_SomeD)

lemma bt_get_in: "bt_invar m \<Longrightarrow> (k, v) \<in> set m \<Longrightarrow> bt_get m k = Some v"
  by (simp add: bt_get_def bt_invar_def strict_sorted_iff)

lemma length_bt_remove: "length (bt_remove k m) \<le> length m"
  by (simp add: bt_remove_def)

lemma length_bt_remove_less: "bt_get m k = Some v \<Longrightarrow> length (bt_remove k m) < length m"
  unfolding bt_remove_def by (rule length_filter_less[OF bt_get_Some_in]) simp_all

lemma bt_ext:
  assumes "bt_invar m" and "bt_invar n" and "bt_get m = bt_get n"
  shows "m = n"
proof -
  have "distinct (map fst m)" "distinct (map fst n)"
    using assms(1,2) by (simp_all add: bt_invar_def strict_sorted_iff)
  then have "set m = set n"
    using assms(3) by (metis bt_get_def map_of_inject_set ext)
  then have "set (map fst m) = set (map fst n)" by simp
  then have fst_eq: "map fst m = map fst n"
    using assms(1,2) strict_sorted_equal unfolding bt_invar_def by blast
  have "map snd m = map snd n"
  proof (rule nth_equalityI)
    show "length (map snd m) = length (map snd n)"
      using fst_eq map_eq_imp_length_eq by auto
  next
    fix i assume i: "i < length (map snd m)"
    then have "i < length n" using fst_eq map_eq_imp_length_eq by fastforce
    with i have "map_of m (fst (m ! i)) = Some (snd (m ! i))"
      and "map_of n (fst (n ! i)) = Some (snd (n ! i))"
      using \<open>distinct (map fst m)\<close> \<open>distinct (map fst n)\<close> by auto
    moreover have "fst (m ! i) = fst (n ! i)"
      using fst_eq i \<open>i < length n\<close> by (metis length_map nth_map)
    ultimately show "map snd m ! i = map snd n ! i"
      using assms(3) i \<open>i < length n\<close> by (simp add: bt_get_def fun_eq_iff)
  qed
  with fst_eq show ?thesis by (rule pair_list_eqI)
qed

end
