(* ===== verification/Automation_Validate.thy ===== *)
theory Automation_Validate
  imports Ordered_Map
begin

text \<open>
  Automation validation (\<open>rust/crates/domain/src/automation.rs\<close>, first half): the bounds of every
  saved call, the walk over the action tree that checks each node and computes its depth, node
  and visit counts with overflow-checked arithmetic, and condition evaluation.
\<close>

section \<open>Bounds\<close>

abbreviation MAX_AUTOMATION_DEPTH :: u32 where "MAX_AUTOMATION_DEPTH \<equiv> 16"
abbreviation MAX_AUTOMATION_NODES :: u32 where "MAX_AUTOMATION_NODES \<equiv> 512"
abbreviation MAX_EXPANDED_VISITS :: u64 where "MAX_EXPANDED_VISITS \<equiv> 10000"
abbreviation AUTOMATION_BUDGET_MS :: u64 where "AUTOMATION_BUDGET_MS \<equiv> 3600000"
abbreviation MAX_ELEMENT_WAIT_MS :: u64 where "MAX_ELEMENT_WAIT_MS \<equiv> 60000"

record automation_metrics =
  am_depth :: u32
  am_nodes :: u32
  am_expanded_visits :: u64

definition NUL :: char where "NUL = CHR 0x00"

definition bounded :: "string \<Rightarrow> nat \<Rightarrow> nat \<Rightarrow> string \<Rightarrow> unit res" where
  "bounded value lo hi reason =
     (if length value < lo \<or> length value > hi \<or> List.member value NUL
      then err_invalid reason else Ok ())"

fun scalar :: "scalar_value \<Rightarrow> unit res" where
  "scalar (ScalarString value) = bounded value 0 4096 ''Automation scalar string is out of bounds''"
| "scalar _ = Ok ()"

text \<open>\<open>for x in xs { f(x)?; }\<close>\<close>

fun each :: "('a \<Rightarrow> ('e, unit) result) \<Rightarrow> 'a list \<Rightarrow> ('e, unit) result" where
  "each f [] = Ok ()"
| "each f (x # xs) = rbind (f x) (\<lambda>_. each f xs)"

definition validate_state :: "scalar_value btree_map \<Rightarrow> unit res" where
  "validate_state state =
     (if length state > 64
      then err ResourceLimit ''Automation state contains more than 64 keys''
      else each (\<lambda>(key, value).
             rbind (bounded key 1 64 ''Automation state key is out of bounds'') (\<lambda>_. scalar value))
           state)"

definition validate_target :: "file_target \<Rightarrow> unit res" where
  "validate_target target = bounded (ft_value target) 1 4096 ''file target is out of bounds''"

definition validate_package :: "string \<Rightarrow> unit res" where
  "validate_package value = bounded value 1 255 ''package_name is out of bounds''"

definition validate_class :: "string \<Rightarrow> unit res" where
  "validate_class value = bounded value 1 512 ''class_name is out of bounds''"

fun validate_manage :: "filesystem_manage_input \<Rightarrow> unit res" where
  "validate_manage (Mkdir value _) = validate_target value"
| "validate_manage (FsDelete value _) = validate_target value"
| "validate_manage (FsCopy source destination _ _) =
     rbind (validate_target source) (\<lambda>_. validate_target destination)"
| "validate_manage (FsMove source destination _ _) =
     rbind (validate_target source) (\<lambda>_. validate_target destination)"

definition validate_download :: "filesystem_download_input \<Rightarrow> unit res" where
  "validate_download input =
     rbind (bounded (fd_url input) 1 4096 ''download URL is out of bounds'') (\<lambda>_.
     rbind (validate_target (fd_destination input)) (\<lambda>_.
     guard_err (\<not> (1000 \<le> fd_timeout_ms input \<and> fd_timeout_ms input \<le> 3600000))
       (domain_error_invalid ''download timeout is out of bounds'')))"

definition validate_command :: "command_run_input \<Rightarrow> unit res" where
  "validate_command input =
     rbind (bounded (cr_command input) 1 32768 ''command is out of bounds'') (\<lambda>_.
     rbind (case cr_cwd input of
              None \<Rightarrow> Ok ()
            | Some cwd \<Rightarrow>
                rbind (bounded cwd 1 4096 ''cwd is out of bounds'') (\<lambda>_.
                guard_err (take 1 cwd \<noteq> ''/'') (domain_error_invalid ''cwd must be absolute'')))
       (\<lambda>_.
     rbind (guard_err (case cr_stdin input of None \<Rightarrow> False | Some value \<Rightarrow> length value > 65536)
              (domain_error_invalid ''stdin is out of bounds'')) (\<lambda>_.
     let maximum_timeout =
           (case cr_run_as input of
              RunAsApp \<Rightarrow> 150000 | RunAsShell \<Rightarrow> 150000 | RunAsRoot \<Rightarrow> 3600000)
     in rbind (guard_err (\<not> (1000 \<le> cr_timeout_ms input \<and> cr_timeout_ms input \<le> maximum_timeout))
                 (domain_error_invalid ''command timeout is out of bounds'')) (\<lambda>_.
        guard_err (\<not> (1024 \<le> cr_max_output_bytes input \<and> cr_max_output_bytes input \<le> 1048576))
          (domain_error_invalid ''command output limit is out of bounds'')))))"

fun validate_network :: "network_diagnose_input \<Rightarrow> unit res" where
  "validate_network Connectivity = Ok ()"
| "validate_network (Dns name _) = bounded name 1 4096 ''DNS name is out of bounds''"
| "validate_network (Tcp host port timeout_ms) =
     rbind (bounded host 1 4096 ''TCP host is out of bounds'') (\<lambda>_.
     guard_err (port = 0 \<or> \<not> (100 \<le> timeout_ms \<and> timeout_ms \<le> 60000))
       (domain_error_invalid ''TCP parameters are out of bounds''))"
| "validate_network (Tls host port server_name timeout_ms) =
     rbind (bounded host 1 4096 ''TLS host is out of bounds'') (\<lambda>_.
     rbind (case server_name of
              None \<Rightarrow> Ok ()
            | Some name \<Rightarrow> bounded name 1 4096 ''TLS server_name is out of bounds'') (\<lambda>_.
     guard_err (port = 0 \<or> \<not> (100 \<le> timeout_ms \<and> timeout_ms \<le> 60000))
       (domain_error_invalid ''TLS parameters are out of bounds'')))"
| "validate_network (NetworkRouteTest destination_ip) =
     bounded destination_ip 1 64 ''route destination is out of bounds''"

fun validate_point :: "point_target \<Rightarrow> unit res" where
  "validate_point (NodeTarget node_ref) = bounded node_ref 1 4096 ''node_ref is out of bounds''"
| "validate_point (CoordinateTarget _ _ _) = Ok ()"

fun validate_visual :: "visual_interact_input \<Rightarrow> unit res" where
  "validate_visual (VisualTap target _) = validate_point target"
| "validate_visual (VisualLongPress target _) = validate_point target"
| "validate_visual (VisualSwipe _ _ _ _ _ duration_ms _) =
     guard_err (\<not> (1 \<le> duration_ms \<and> duration_ms \<le> 10000))
       (domain_error_invalid ''swipe duration is out of bounds'')"
| "validate_visual (VisualText text' node_ref _ _) =
     rbind (bounded text' 0 65536 ''visual text is out of bounds'') (\<lambda>_.
     case node_ref of
       None \<Rightarrow> Ok ()
     | Some node \<Rightarrow> bounded node 1 4096 ''node_ref is out of bounds'')"
| "validate_visual (VisualKey _ _ _ _) = Ok ()"

definition validate_element :: "automation_element_input \<Rightarrow> unit res" where
  "validate_element input =
     rbind (bounded (ae_value input) 1 1024 ''element match value is out of bounds'') (\<lambda>_.
     rbind (case (ae_operation input, ae_text input) of
              (ElementText, Some text') \<Rightarrow> bounded text' 0 65536 ''element text is out of bounds''
            | (ElementText, None) \<Rightarrow> err_invalid ''element text operation requires text''
            | (_, Some _) \<Rightarrow> err_invalid ''element text is accepted only for the text operation''
            | (_, None) \<Rightarrow> Ok ()) (\<lambda>_.
     guard_err (ae_wait_ms input > MAX_ELEMENT_WAIT_MS)
       (domain_error_invalid ''element wait is out of bounds'')))"

fun validate_launch :: "android_launch_input \<Rightarrow> unit res" where
  "validate_launch (LaunchPackage package_name) = validate_package package_name"
| "validate_launch (LaunchComponent package_name class_name) =
     rbind (validate_package package_name) (\<lambda>_. validate_class class_name)"

fun validate_clipboard :: "android_clipboard_input \<Rightarrow> unit res" where
  "validate_clipboard (ClipboardWrite text') =
     guard_err (length text' > 65536) (domain_error_invalid ''clipboard text is out of bounds'')"
| "validate_clipboard _ = Ok ()"

fun validate_call :: "automation_compatible_call \<Rightarrow> unit res" where
  "validate_call (CallFilesystem (FsManage input)) = validate_manage input"
| "validate_call (CallFilesystem (FsDownload input)) = validate_download input"
| "validate_call (CallCommand (CommandRun input)) = validate_command input"
| "validate_call (CallNetwork (NetDiagnose input)) = validate_network input"
| "validate_call (CallVisual (VisualInteract input)) = validate_visual input"
| "validate_call (CallVisual (VisualElement input)) = validate_element input"
| "validate_call (CallAndroid (AndroidLaunch input)) = validate_launch input"
| "validate_call (CallAndroid (AndroidClipboard input)) = validate_clipboard input"

definition validate_condition :: "automation_condition \<Rightarrow> unit res" where
  "validate_condition condition =
     rbind (bounded (ac_key condition) 1 64 ''Automation condition key is out of bounds'') (\<lambda>_.
     case (ac_operator condition, ac_value condition) of
       (OpExists, None) \<Rightarrow> Ok ()
     | (OpExists, Some _) \<Rightarrow> err_invalid ''exists condition must omit its value''
     | (_, Some value) \<Rightarrow> scalar value
     | (_, None) \<Rightarrow> err_invalid ''non-exists condition requires a value'')"

section \<open>The walk over the action tree\<close>

abbreviation leaf_metrics :: automation_metrics where
  "leaf_metrics \<equiv> \<lparr>am_depth = 1, am_nodes = 1, am_expanded_visits = 1\<rparr>"

definition depth_overflow :: domain_error where
  "depth_overflow = domain_error_invalid ''Automation depth arithmetic overflow''"

definition node_overflow :: domain_error where
  "node_overflow = domain_error_invalid ''Automation node arithmetic overflow''"

definition visit_overflow :: domain_error where
  "visit_overflow = domain_error_invalid ''Automation visit arithmetic overflow''"

definition structural_bounds :: "automation_metrics \<Rightarrow> automation_metrics res" where
  "structural_bounds metrics =
     (if am_depth metrics > MAX_AUTOMATION_DEPTH \<or> am_nodes metrics > MAX_AUTOMATION_NODES
         \<or> am_expanded_visits metrics > MAX_EXPANDED_VISITS
      then err_invalid ''Automation action tree exceeds structural bounds''
      else Ok metrics)"

fun walk :: "automation_action \<Rightarrow> automation_metrics res"
  and walk_children :: "automation_metrics \<Rightarrow> automation_action list \<Rightarrow> automation_metrics res"
where
  "walk (Call call _) =
     rbind (validate_call call) (\<lambda>_. structural_bounds leaf_metrics)"
| "walk (Delay duration_ms) =
     (if \<not> (1 \<le> duration_ms \<and> duration_ms \<le> 86400000)
      then err_invalid ''Automation delay is out of bounds''
      else structural_bounds leaf_metrics)"
| "walk (SetState key value) =
     rbind (bounded key 1 64 ''Automation state key is out of bounds'') (\<lambda>_.
     rbind (scalar value) (\<lambda>_. structural_bounds leaf_metrics))"
| "walk (Sequence children) =
     (if \<not> (1 \<le> length children \<and> length children \<le> 64)
      then err_invalid ''Automation sequence child count is out of bounds''
      else rbind (walk_children leaf_metrics children) structural_bounds)"
| "walk (Conditional condition then_action else_action) =
     rbind (validate_condition condition) (\<lambda>_.
     rbind (walk then_action) (\<lambda>then_metrics.
     rbind (case else_action of None \<Rightarrow> Ok leaf_metrics | Some action \<Rightarrow> walk action)
       (\<lambda>else_metrics.
     rbind (ok_or (checked_add 1 (max (am_depth then_metrics) (am_depth else_metrics)))
              depth_overflow) (\<lambda>depth.
     rbind (ok_or (Option.bind (checked_add 1 (am_nodes then_metrics)) (\<lambda>value.
              checked_add value (if else_action \<noteq> None then am_nodes else_metrics else 0)))
              node_overflow) (\<lambda>nodes.
     rbind (ok_or (checked_add 1 (max (am_expanded_visits then_metrics)
              (if else_action \<noteq> None then am_expanded_visits else_metrics else 0)))
              visit_overflow) (\<lambda>visits.
     structural_bounds
       \<lparr>am_depth = depth, am_nodes = nodes, am_expanded_visits = visits\<rparr>))))))"
| "walk (Repeat count action delay_ms) =
     (if \<not> (1 \<le> count \<and> count \<le> 1000) \<or> delay_ms > 86400000
      then err_invalid ''Automation repeat is out of bounds''
      else
        rbind (walk action) (\<lambda>child.
        rbind (ok_or (checked_add (am_depth child) 1) depth_overflow) (\<lambda>depth.
        rbind (ok_or (checked_add (am_nodes child) 1) node_overflow) (\<lambda>nodes.
        rbind (ok_or (Option.bind (checked_mul (am_expanded_visits child) (ucast count))
                 (\<lambda>value. checked_add value 1)) visit_overflow) (\<lambda>visits.
        structural_bounds
          \<lparr>am_depth = depth, am_nodes = nodes, am_expanded_visits = visits\<rparr>)))))"
| "walk_children result [] = Ok result"
| "walk_children result (action # children) =
     rbind (walk action) (\<lambda>child.
     rbind (ok_or (checked_add (am_depth child) 1) depth_overflow) (\<lambda>depth.
     rbind (ok_or (checked_add (am_nodes result) (am_nodes child)) node_overflow) (\<lambda>nodes.
     rbind (ok_or (checked_add (am_expanded_visits result) (am_expanded_visits child))
              visit_overflow) (\<lambda>visits.
     walk_children
       \<lparr>am_depth = max (am_depth result) depth, am_nodes = nodes, am_expanded_visits = visits\<rparr>
       children))))"

definition registered_event :: "string \<Rightarrow> bool" where
  "registered_event name \<longleftrightarrow> name = ''runtime.ready'' \<or> name = ''network.default_changed''"

fun validate_trigger :: "automation_trigger \<Rightarrow> unit res" where
  "validate_trigger (TriggerAt at) = bounded at 1 64 ''Automation at instant is out of bounds''"
| "validate_trigger (TriggerInterval every_ms) =
     guard_err (\<not> (60000 \<le> every_ms \<and> every_ms \<le> 2592000000))
       (domain_error_invalid ''Automation interval is out of bounds'')"
| "validate_trigger (TriggerRrule rrule timezone) =
     rbind (bounded rrule 1 4096 ''Automation RRULE is out of bounds'') (\<lambda>_.
     bounded timezone 1 255 ''Automation timezone is out of bounds'')"
| "validate_trigger (TriggerEvent name match) =
     (if \<not> registered_event name then err_invalid ''Automation event is not registered''
      else (case match of
              None \<Rightarrow> Ok ()
            | Some values \<Rightarrow>
                if length values > 32
                then err_invalid ''Automation event match contains more than 32 fields''
                else each (\<lambda>(key, value).
                       rbind (bounded key 1 64 ''Automation event key is out of bounds'')
                         (\<lambda>_. scalar value)) values))"

definition validate_automation :: "automation \<Rightarrow> automation_metrics res" where
  "validate_automation a =
     rbind (bounded (au_name a) 1 128 ''Automation name is out of bounds'') (\<lambda>_.
     rbind (guard_err (au_revision a = 0)
              (domain_error_invalid ''Automation revision must start at 1'')) (\<lambda>_.
     rbind (validate_state (au_state a)) (\<lambda>_.
     rbind (validate_trigger (au_trigger a)) (\<lambda>_.
     walk (au_action a)))))"

definition evaluate_condition :: "automation_condition \<Rightarrow> scalar_value btree_map \<Rightarrow> bool" where
  "evaluate_condition condition values =
     (let observed = bt_get values (ac_key condition)
      in case ac_operator condition of
           OpExists \<Rightarrow> observed \<noteq> None
         | OpEquals \<Rightarrow>
             (case (observed, ac_value condition) of
                (Some observed, Some expected) \<Rightarrow> observed = expected | _ \<Rightarrow> False)
         | OpNotEquals \<Rightarrow>
             (case (observed, ac_value condition) of
                (Some observed, Some expected) \<Rightarrow> observed \<noteq> expected | _ \<Rightarrow> False)
         | OpGreaterThan \<Rightarrow>
             (case (observed, ac_value condition) of
                (Some (ScalarInteger observed), Some (ScalarInteger expected)) \<Rightarrow>
                  sint observed > sint expected
              | _ \<Rightarrow> False)
         | OpLessThan \<Rightarrow>
             (case (observed, ac_value condition) of
                (Some (ScalarInteger observed), Some (ScalarInteger expected)) \<Rightarrow>
                  sint observed < sint expected
              | _ \<Rightarrow> False))"

section \<open>The tree measures\<close>

text \<open>
  What the three counts mean: the longest path, the number of nodes and the largest number of
  node visits one execution can make, over the unbounded naturals.
\<close>

fun tree_depth :: "automation_action \<Rightarrow> nat" where
  "tree_depth (Sequence children) = Suc (foldr max (map tree_depth children) 0)"
| "tree_depth (Conditional _ t e) =
     Suc (max (tree_depth t) (case e of None \<Rightarrow> 0 | Some a \<Rightarrow> tree_depth a))"
| "tree_depth (Repeat _ a _) = Suc (tree_depth a)"
| "tree_depth _ = 1"

fun tree_nodes :: "automation_action \<Rightarrow> nat" where
  "tree_nodes (Sequence children) = Suc (sum_list (map tree_nodes children))"
| "tree_nodes (Conditional _ t e) =
     Suc (tree_nodes t + (case e of None \<Rightarrow> 0 | Some a \<Rightarrow> tree_nodes a))"
| "tree_nodes (Repeat _ a _) = Suc (tree_nodes a)"
| "tree_nodes _ = 1"

fun tree_visits :: "automation_action \<Rightarrow> nat" where
  "tree_visits (Sequence children) = Suc (sum_list (map tree_visits children))"
| "tree_visits (Conditional _ t e) =
     Suc (max (tree_visits t) (case e of None \<Rightarrow> 0 | Some a \<Rightarrow> tree_visits a))"
| "tree_visits (Repeat count a _) = Suc (unat count * tree_visits a)"
| "tree_visits _ = 1"

text \<open>Every node of the tree satisfies its own local bounds.\<close>

fun nodes_valid :: "automation_action \<Rightarrow> bool" where
  "nodes_valid (Call call _) \<longleftrightarrow> is_ok (validate_call call)"
| "nodes_valid (Delay duration_ms) \<longleftrightarrow> 1 \<le> duration_ms \<and> duration_ms \<le> 86400000"
| "nodes_valid (SetState key value) \<longleftrightarrow> is_ok (bounded key 1 64 []) \<and> is_ok (scalar value)"
| "nodes_valid (Sequence children) \<longleftrightarrow>
     1 \<le> length children \<and> length children \<le> 64 \<and> list_all nodes_valid children"
| "nodes_valid (Conditional condition t e) \<longleftrightarrow> is_ok (validate_condition condition)
     \<and> nodes_valid t \<and> (case e of None \<Rightarrow> True | Some a \<Rightarrow> nodes_valid a)"
| "nodes_valid (Repeat count a delay_ms) \<longleftrightarrow>
     1 \<le> count \<and> count \<le> 1000 \<and> delay_ms \<le> 86400000 \<and> nodes_valid a"

definition tree_within :: "automation_action \<Rightarrow> bool" where
  "tree_within a \<longleftrightarrow> tree_depth a \<le> 16 \<and> tree_nodes a \<le> 512 \<and> tree_visits a \<le> 10000"

definition tree_metrics :: "automation_action \<Rightarrow> automation_metrics" where
  "tree_metrics a = \<lparr>am_depth = of_nat (tree_depth a), am_nodes = of_nat (tree_nodes a),
                     am_expanded_visits = of_nat (tree_visits a)\<rparr>"

section \<open>The walk computes the measures\<close>

definition metrics_of :: "nat \<Rightarrow> nat \<Rightarrow> nat \<Rightarrow> automation_metrics" where
  "metrics_of d n v = \<lparr>am_depth = of_nat d, am_nodes = of_nat n, am_expanded_visits = of_nat v\<rparr>"

lemma metrics_of_simps [simp]:
  "am_depth (metrics_of d n v) = of_nat d" "am_nodes (metrics_of d n v) = of_nat n"
  "am_expanded_visits (metrics_of d n v) = of_nat v"
  by (simp_all add: metrics_of_def)

lemma tree_metrics_of: "tree_metrics a = metrics_of (tree_depth a) (tree_nodes a) (tree_visits a)"
  by (simp add: tree_metrics_def metrics_of_def)

lemma leaf_metrics_of: "leaf_metrics = metrics_of 1 1 1"
  by (simp add: metrics_of_def)

lemma unat_of_nat_eq: "n < 2 ^ LENGTH('a) \<Longrightarrow> unat (of_nat n :: 'a::len word) = n"
  by (simp add: unat_of_nat take_bit_nat_eq_self)

lemma checked_add_of_nat:
  assumes "a + b < 2 ^ LENGTH('a)"
  shows "checked_add (of_nat a :: 'a::len word) (of_nat b) = Some (of_nat (a + b))"
  using assms by (simp add: checked_add_def unat_of_nat_eq)

lemma checked_mul_of_nat:
  assumes "a * unat b < 2 ^ LENGTH('a)" and "a < 2 ^ LENGTH('a)"
  shows "checked_mul (of_nat a :: 'a::len word) b = Some (of_nat (a * unat b))"
  using assms by (simp add: checked_mul_def unat_of_nat_eq)

lemma max_of_nat_word:
  assumes "a < 2 ^ LENGTH('a)" and "b < 2 ^ LENGTH('a)"
  shows "max (of_nat a :: 'a::len word) (of_nat b) = of_nat (max a b)"
  using assms by (auto simp: max_def word_le_nat_alt unat_of_nat_eq)

lemma structural_bounds_metrics:
  assumes "d < 2 ^ 32" and "n < 2 ^ 32" and "v < 2 ^ 64"
  shows "structural_bounds (metrics_of d n v) = Ok m \<longleftrightarrow>
           d \<le> 16 \<and> n \<le> 512 \<and> v \<le> 10000 \<and> m = metrics_of d n v"
  using assms
  by (auto simp: structural_bounds_def word_less_nat_alt unat_of_nat_eq)

lemma tree_positive: "0 < tree_depth a" "0 < tree_nodes a" "0 < tree_visits a"
  by (cases a; simp)+

lemma foldr_max_le: "foldr max xs (0::nat) \<le> k \<longleftrightarrow> (\<forall>x\<in>set xs. x \<le> k)"
  by (induction xs) auto

lemma within_children:
  assumes "tree_within (Sequence cs)" and "c \<in> set cs"
  shows "tree_within c"
proof -
  have "tree_nodes c \<le> sum_list (map tree_nodes cs)" "tree_visits c \<le> sum_list (map tree_visits cs)"
    using assms(2) by (auto intro: member_le_sum_list)
  moreover have "tree_depth c \<le> 16"
    using assms foldr_max_le[of "map tree_depth cs" 15] by (auto simp: tree_within_def)
  ultimately show ?thesis using assms(1) by (simp add: tree_within_def)
qed

lemma is_ok_bounded [simp]:
  "is_ok (bounded s lo hi r) \<longleftrightarrow> lo \<le> length s \<and> length s \<le> hi \<and> \<not> List.member s NUL"
  by (auto simp: bounded_def)

lemma unit_res_eq_Ok: "(m :: unit res) = Ok u \<longleftrightarrow> is_ok m"
  by (cases m) simp_all

definition walk_spec :: "automation_action \<Rightarrow> bool" where
  "walk_spec a \<longleftrightarrow>
     (\<forall>m. walk a = Ok m \<longleftrightarrow> nodes_valid a \<and> tree_within a \<and> m = tree_metrics a)"

lemma walk_spec_children:
  assumes "list_all walk_spec cs"
    and "d < 2 ^ 31" and "n + 512 * length cs < 2 ^ 32" and "v + 10000 * length cs < 2 ^ 64"
  shows "walk_children (metrics_of d n v) cs = Ok m \<longleftrightarrow>
           list_all (\<lambda>c. nodes_valid c \<and> tree_within c) cs \<and>
           m = metrics_of (foldr (\<lambda>c. max (Suc (tree_depth c))) cs d)
                 (n + sum_list (map tree_nodes cs)) (v + sum_list (map tree_visits cs))"
  using assms
proof (induction cs arbitrary: d n v)
  case Nil
  then show ?case by auto
next
  case (Cons c cs)
  show ?case
  proof (cases "nodes_valid c \<and> tree_within c")
    case True
    then have c: "walk c = Ok (tree_metrics c)" using Cons.prems(1) by (simp add: walk_spec_def)
    have w: "tree_depth c \<le> 16" "tree_nodes c \<le> 512" "tree_visits c \<le> 10000"
      using True by (simp_all add: tree_within_def)
    have d: "checked_add (of_nat (tree_depth c) :: u32) 1 = Some (of_nat (Suc (tree_depth c)))"
      using checked_add_of_nat[where 'a=32, of "tree_depth c" 1] w by simp
    have n: "checked_add (of_nat n :: u32) (of_nat (tree_nodes c)) = Some (of_nat (n + tree_nodes c))"
      using Cons.prems(3) w by (intro checked_add_of_nat) simp
    have v: "checked_add (of_nat v :: u64) (of_nat (tree_visits c)) = Some (of_nat (v + tree_visits c))"
      using Cons.prems(4) w by (intro checked_add_of_nat) simp
    have m: "max (of_nat d :: u32) (of_nat (Suc (tree_depth c))) = of_nat (max d (Suc (tree_depth c)))"
      using Cons.prems(2) w by (intro max_of_nat_word) simp_all
    have step: "walk_children (metrics_of d n v) (c # cs) =
        walk_children (metrics_of (max d (Suc (tree_depth c))) (n + tree_nodes c) (v + tree_visits c)) cs"
      unfolding walk_children.simps c tree_metrics_of
      by (simp add: d n v m metrics_of_def del: of_nat_Suc of_nat_add)
    have mx: "foldr (\<lambda>c. max (Suc (tree_depth c))) cs (max d k) =
                max k (foldr (\<lambda>c. max (Suc (tree_depth c))) cs d)" for k
      by (induction cs) (simp_all add: max.commute max.left_commute)
    have "walk_children (metrics_of (max d (Suc (tree_depth c))) (n + tree_nodes c) (v + tree_visits c)) cs = Ok m
      \<longleftrightarrow> list_all (\<lambda>c. nodes_valid c \<and> tree_within c) cs \<and>
           m = metrics_of (foldr (\<lambda>c. max (Suc (tree_depth c))) cs (max d (Suc (tree_depth c))))
                 (n + tree_nodes c + sum_list (map tree_nodes cs))
                 (v + tree_visits c + sum_list (map tree_visits cs))"
      using Cons.prems w by (intro Cons.IH) simp_all
    then show ?thesis
      unfolding step using True by (simp add: mx add.assoc)
  next
    case False
    then have "\<nexists>m'. walk c = Ok m'" using Cons.prems(1) by (auto simp: walk_spec_def)
    then obtain e where "walk c = Err e" by (cases "walk c") auto
    with False show ?thesis by auto
  qed
qed

lemma foldr_max_Suc: "foldr (\<lambda>c. max (Suc (f c))) cs (Suc 0) = Suc (foldr max (map f cs) 0)"
  by (induction cs) simp_all

lemma walk_spec_sequence: 
  assumes cs: "list_all walk_spec cs"
  shows "walk_spec (Sequence cs)"
proof (cases "1 \<le> length cs \<and> length cs \<le> 64")
    case True
    let ?d = "Suc (foldr max (map tree_depth cs) 0)"
      and ?n = "Suc (sum_list (map tree_nodes cs))" and ?v = "Suc (sum_list (map tree_visits cs))"
    have kids: "walk_children leaf_metrics cs = Ok m \<longleftrightarrow>
        list_all (\<lambda>c. nodes_valid c \<and> tree_within c) cs \<and> m = metrics_of ?d ?n ?v" for m
      using walk_spec_children[OF cs, of 1 1 1 m] True
      by (simp add: leaf_metrics_of foldr_max_Suc)
    have bounds: "structural_bounds (metrics_of ?d ?n ?v) = Ok m \<longleftrightarrow>
        ?d \<le> 16 \<and> ?n \<le> 512 \<and> ?v \<le> 10000 \<and> m = metrics_of ?d ?n ?v"
      if "list_all tree_within cs" for m
    proof (rule structural_bounds_metrics)
      have n: "sum_list (map tree_nodes cs) \<le> length cs * 512"
        and v: "sum_list (map tree_visits cs) \<le> length cs * 10000"
        using that sum_list_mono[of cs tree_nodes "\<lambda>_. 512"] sum_list_mono[of cs tree_visits "\<lambda>_. 10000"]
        by (auto simp: list_all_iff tree_within_def sum_list_triv)
      show "?n < 2 ^ 32" "?v < 2 ^ 64" using n v True by simp_all
      have "foldr max (map tree_depth cs) 0 \<le> 16"
        using that by (auto simp: foldr_max_le list_all_iff tree_within_def)
      then show "?d < 2 ^ 32" by simp
    qed
    have "walk (Sequence cs) = Ok m \<longleftrightarrow>
        nodes_valid (Sequence cs) \<and> tree_within (Sequence cs) \<and> m = tree_metrics (Sequence cs)" for m
    proof -
      have "list_all tree_within cs" if "tree_within (Sequence cs)"
        using within_children[OF that] by (auto simp: list_all_iff)
      moreover have "list_all (\<lambda>c. nodes_valid c \<and> tree_within c) cs \<longleftrightarrow>
          list_all nodes_valid cs \<and> list_all tree_within cs"
        by (auto simp: list_all_iff)
      ultimately show ?thesis
        using True kids bounds
        by (auto simp: rbind_eq_Ok_iff tree_within_def tree_metrics_of)
    qed
    then show ?thesis by (simp add: walk_spec_def)
next
  case False
  then show ?thesis by (auto simp: walk_spec_def)
qed

lemma walk_spec_leaf:
  "walk_spec (Call c f)" "walk_spec (Delay n)" "walk_spec (SetState k v)"
proof -
  have leaf: "structural_bounds leaf_metrics = Ok m \<longleftrightarrow> m = metrics_of 1 1 1" for m
    using structural_bounds_metrics[of 1 1 1 m] by (simp add: leaf_metrics_of)
  show "walk_spec (Call c f)"
    by (auto simp: walk_spec_def tree_within_def tree_metrics_of leaf rbind_eq_Ok_iff is_ok_iff)
  show "walk_spec (Delay n)"
    by (auto simp: walk_spec_def tree_within_def tree_metrics_of leaf)
  show "walk_spec (SetState k v)"
    by (auto simp: walk_spec_def tree_within_def tree_metrics_of leaf rbind_eq_Ok_iff unit_res_eq_Ok)
qed

lemma walk_specD:
  assumes "walk_spec a" and "walk a = Ok m"
  shows "nodes_valid a" "m = tree_metrics a" "tree_depth a \<le> 16" "tree_nodes a \<le> 512"
    "tree_visits a \<le> 10000"
  using assms by (auto simp: walk_spec_def tree_within_def)

lemma walk_spec_repeat:
  assumes a: "walk_spec a"
  shows "walk_spec (Repeat count a delay)"
proof (cases "(1 \<le> count \<and> count \<le> 1000) \<and> delay \<le> 86400000")
  case True
  then have count: "unat count \<le> 1000" by (simp add: word_le_nat_alt)
  have "walk (Repeat count a delay) = Ok m \<longleftrightarrow> nodes_valid a \<and>
      tree_within (Repeat count a delay) \<and> m = tree_metrics (Repeat count a delay)" for m
  proof (cases "walk a")
    case (Inl e)
    then have "\<not> (nodes_valid a \<and> tree_within a)" using a by (auto simp: walk_spec_def)
    moreover have "tree_within a" if "tree_within (Repeat count a delay)"
    proof -
      have "1 \<le> unat count" using True by (simp add: word_le_nat_alt)
      then have "1 * tree_visits a \<le> unat count * tree_visits a" by (rule mult_le_mono1)
      also have "\<dots> \<le> 10000" using that by (simp add: tree_within_def)
      finally show ?thesis using that by (simp add: tree_within_def)
    qed
    ultimately show ?thesis using Inl True by auto
  next
    case (Inr m')
    note w = walk_specD[OF a Inr]
    have visits: "tree_visits a * unat count \<le> 10000 * 1000"
      using w count by (intro mult_le_mono) simp_all
    have ops: "checked_add (of_nat (tree_depth a) :: u32) 1 = Some (of_nat (Suc (tree_depth a)))"
      "checked_add (of_nat (tree_nodes a) :: u32) 1 = Some (of_nat (Suc (tree_nodes a)))"
      using checked_add_of_nat[where 'a=32, of "tree_depth a" 1]
        checked_add_of_nat[where 'a=32, of "tree_nodes a" 1] w by simp_all
    have cast: "unat (ucast count :: u64) = unat count"
      using count by (simp add: unsigned_ucast_eq take_bit_nat_eq_self)
    have mul: "checked_mul (of_nat (tree_visits a) :: u64) (ucast count)
        = Some (of_nat (tree_visits a * unat count))"
      using checked_mul_of_nat[where 'a=64, of "tree_visits a" "ucast count"] visits w
      by (simp add: cast)
    have inc: "checked_add (of_nat (tree_visits a * unat count) :: u64) 1
        = Some (of_nat (Suc (tree_visits a * unat count)))"
      using checked_add_of_nat[where 'a=64, of "tree_visits a * unat count" 1] visits by simp
    have "walk (Repeat count a delay) = structural_bounds
        (metrics_of (Suc (tree_depth a)) (Suc (tree_nodes a)) (Suc (tree_visits a * unat count)))"
      using True leD[of delay 86400000] unfolding walk.simps Inr w(2) tree_metrics_of
      by (simp add: ops mul inc metrics_of_def del: of_nat_Suc of_nat_mult)
    moreover have "structural_bounds
        (metrics_of (Suc (tree_depth a)) (Suc (tree_nodes a)) (Suc (tree_visits a * unat count))) = Ok m
      \<longleftrightarrow> tree_within (Repeat count a delay) \<and> m = tree_metrics (Repeat count a delay)"
      using structural_bounds_metrics[of "Suc (tree_depth a)" "Suc (tree_nodes a)"
          "Suc (tree_visits a * unat count)" m] w visits
      by (auto simp: tree_within_def tree_metrics_of mult.commute)
    ultimately show ?thesis using w(1) by simp
  qed
  with True show ?thesis by (simp add: walk_spec_def)
next
  case False
  then show ?thesis by (auto simp: walk_spec_def)
qed

lemma walk_spec_conditional:
  assumes t: "walk_spec t" and e: "\<And>a. e = Some a \<Longrightarrow> walk_spec a"
  shows "walk_spec (Conditional c t e)"
proof (cases "is_ok (validate_condition c)")
  case True
  then obtain u where c: "validate_condition c = Ok u" by (auto simp: is_ok_iff)
  let ?ok = "\<lambda>a. nodes_valid a \<and> tree_within a"
  let ?d = "case e of None \<Rightarrow> 1 | Some a \<Rightarrow> tree_depth a"
    and ?n = "case e of None \<Rightarrow> 0 | Some a \<Rightarrow> tree_nodes a"
    and ?v = "case e of None \<Rightarrow> 0 | Some a \<Rightarrow> tree_visits a"
  have depth: "Suc (max (tree_depth t) ?d) = tree_depth (Conditional c t e)"
    using tree_positive(1)[of t] by (cases e) (simp_all add: max_def)
  have "walk (Conditional c t e) = Ok m \<longleftrightarrow> nodes_valid (Conditional c t e) \<and>
      tree_within (Conditional c t e) \<and> m = tree_metrics (Conditional c t e)" for m
  proof (cases "?ok t \<and> (\<forall>a. e = Some a \<longrightarrow> ?ok a)")
    case ok: True
    then have wt: "walk t = Ok (tree_metrics t)" using t by (simp add: walk_spec_def)
    have we: "(case e of None \<Rightarrow> Ok leaf_metrics | Some a \<Rightarrow> walk a)
        = Ok (metrics_of ?d (case e of None \<Rightarrow> 1 | Some a \<Rightarrow> tree_nodes a)
            (case e of None \<Rightarrow> 1 | Some a \<Rightarrow> tree_visits a))"
      using ok e by (cases e) (simp_all add: walk_spec_def tree_metrics_of leaf_metrics_of)
    have small: "tree_depth t \<le> 16" "?d \<le> 16" "tree_nodes t \<le> 512" "?n \<le> 512"
        "tree_visits t \<le> 10000" "?v \<le> 10000"
      using ok by (cases e; simp add: tree_within_def)+
    have en: "(if e \<noteq> None then of_nat (case e of None \<Rightarrow> 1 | Some a \<Rightarrow> tree_nodes a) else 0)
          = (of_nat ?n :: u32)"
      and ev: "(if e \<noteq> None then of_nat (case e of None \<Rightarrow> 1 | Some a \<Rightarrow> tree_visits a) else 0)
          = (of_nat ?v :: u64)"
      by (cases e; simp)+
    have mx: "max (of_nat (tree_depth t) :: u32) (of_nat ?d) = of_nat (max (tree_depth t) ?d)"
      "max (of_nat (tree_visits t) :: u64) (of_nat ?v) = of_nat (max (tree_visits t) ?v)"
      using small by (intro max_of_nat_word; simp)+
    have d: "checked_add 1 (of_nat (max (tree_depth t) ?d)) = Some (of_nat (Suc (max (tree_depth t) ?d)) :: u32)"
      using checked_add_of_nat[where 'a=32, of 1 "max (tree_depth t) ?d"] small by simp
    have n: "checked_add 1 (of_nat (tree_nodes t)) = Some (of_nat (Suc (tree_nodes t)) :: u32)"
      "checked_add (of_nat (Suc (tree_nodes t)) :: u32) (of_nat ?n) = Some (of_nat (Suc (tree_nodes t) + ?n))"
      using checked_add_of_nat[where 'a=32, of 1 "tree_nodes t"]
        checked_add_of_nat[where 'a=32, of "Suc (tree_nodes t)" ?n] small by simp_all
    have v: "checked_add 1 (of_nat (max (tree_visits t) ?v)) = Some (of_nat (Suc (max (tree_visits t) ?v)) :: u64)"
      using checked_add_of_nat[where 'a=64, of 1 "max (tree_visits t) ?v"] small by simp
    have "walk (Conditional c t e) = structural_bounds (metrics_of (Suc (max (tree_depth t) ?d))
        (Suc (tree_nodes t) + ?n) (Suc (max (tree_visits t) ?v)))"
      unfolding walk.simps c wt we tree_metrics_of rbind_Ok metrics_of_simps en ev mx d v
      by (simp only: n bind.bind_lunit ok_or_simps rbind_Ok metrics_of_def[symmetric])
    then have "walk (Conditional c t e) = structural_bounds (tree_metrics (Conditional c t e))"
      unfolding tree_metrics_of depth[symmetric] by (simp del: walk.simps)
    moreover have "nodes_valid (Conditional c t e)" using ok True by (cases e) simp_all
    moreover have "structural_bounds (tree_metrics (Conditional c t e)) = Ok m \<longleftrightarrow>
        tree_within (Conditional c t e) \<and> m = tree_metrics (Conditional c t e)"
      unfolding tree_metrics_of tree_within_def depth[symmetric]
      by (subst structural_bounds_metrics) (use small in simp_all)
    ultimately show ?thesis by simp
  next
    case False
    have "\<nexists>m. walk (Conditional c t e) = Ok m"
      using False t e c by (cases e) (auto simp: rbind_eq_Ok_iff walk_spec_def)
    moreover have "\<not> (nodes_valid (Conditional c t e) \<and> tree_within (Conditional c t e))"
      using False by (cases e) (auto simp: tree_within_def)
    ultimately show ?thesis by blast
  qed
  then show ?thesis by (simp add: walk_spec_def)
next
  case False
  then have "\<nexists>m. walk (Conditional c t e) = Ok m"
    by (auto simp: rbind_eq_Ok_iff is_ok_iff)
  with False show ?thesis by (simp add: walk_spec_def)
qed

lemma walk_spec_all: "walk_spec a"
proof (induction a)
  case (Sequence cs)
  then show ?case by (intro walk_spec_sequence) (simp add: list_all_iff)
next
  case (Conditional c t e)
  then show ?case by (intro walk_spec_conditional) auto
qed (simp_all add: walk_spec_leaf walk_spec_repeat)

lemma is_ok_each: "is_ok (each f xs) \<longleftrightarrow> list_all (\<lambda>x. is_ok (f x)) xs"
  by (induction xs) (auto simp: is_ok_iff rbind_eq_Ok_iff)

lemma is_ok_rbind_unit: "is_ok (rbind (m :: unit res) f) \<longleftrightarrow> is_ok m \<and> is_ok (f ())"
  by (cases m) simp_all

text \<open>What a valid Automation state is: at most 64 keys, each key and value within bounds.\<close>

lemma validate_state_iff:
  "is_ok (validate_state m) \<longleftrightarrow> length m \<le> 64 \<and>
     (\<forall>(k, v)\<in>set m. is_ok (bounded k 1 64 []) \<and> is_ok (scalar v))"
  by (auto simp: validate_state_def is_ok_each is_ok_rbind_unit list_all_iff split: prod.splits)

lemma validate_automation_parts:
  assumes "validate_automation a = Ok m"
  shows "is_ok (bounded (au_name a) 1 128 [])" "au_revision a \<noteq> 0" "is_ok (validate_state (au_state a))"
    "is_ok (validate_trigger (au_trigger a))" "walk (au_action a) = Ok m"
  using assms by (auto simp: validate_automation_def rbind_eq_Ok_iff unit_res_eq_Ok)

lemma is_ok_validate_automation:
  "is_ok (validate_automation a) \<longleftrightarrow> is_ok (bounded (au_name a) 1 128 []) \<and> au_revision a \<noteq> 0
     \<and> is_ok (validate_state (au_state a)) \<and> is_ok (validate_trigger (au_trigger a))
     \<and> is_ok (walk (au_action a))"
  by (auto simp: validate_automation_def is_ok_rbind_unit guard_err_def)

section \<open>Properties\<close>

text \<open>
  C32: the walk accepts exactly the trees whose every node is valid and whose depth, node count and
  worst-case visit count are within 16, 512 and 10000, and returns those counts; the machine
  arithmetic it uses never wraps and its overflow errors never hide an acceptable tree.
\<close>

theorem walk_correct:
  "walk a = Ok m \<longleftrightarrow> nodes_valid a \<and> tree_within a \<and> m = tree_metrics a"
  using walk_spec_all[of a] by (simp add: walk_spec_def)

end
