(* ===== verification/Automation_Slot.thy ===== *)
theory Automation_Slot
  imports Automation_Validate
begin

text \<open>
  The Automation slot (\<open>rust/crates/domain/src/automation.rs\<close>, second half): one Automation with
  its at most one active execution and its deletion tombstone, its operations, the step relation
  over them and the invariant of every reachable slot. An operation that fails leaves the slot as
  it was: each one checks before it mutates, so its model returns the error alone.
\<close>

section \<open>State and operations\<close>

record execution_snapshot =
  xs_automation_id :: automation_id
  xs_execution_id :: execution_id
  xs_task_id :: task_id
  xs_revision :: u64
  xs_trigger :: automation_trigger
  xs_action :: automation_action

datatype admission_decision = Admitted execution_snapshot | BusyDropped

datatype delete_disposition = RemovedImmediately | Tombstoned

datatype settlement_disposition = Retained | PurgedTombstone

record automation_slot =
  sl_record :: "automation option"
  sl_active :: "execution_snapshot option"
  sl_deleted_at :: "string option"

definition slot_new :: "automation \<Rightarrow> automation_slot res" where
  "slot_new a =
     rbind (validate_automation a)
       (\<lambda>_. Ok \<lparr>sl_record = Some a, sl_active = None, sl_deleted_at = None\<rparr>)"

definition slot_visible :: "automation_slot \<Rightarrow> automation option" where
  "slot_visible s = (if sl_deleted_at s \<noteq> None then None else sl_record s)"

definition slot_admit ::
  "automation_slot \<Rightarrow> execution_id \<Rightarrow> task_id \<Rightarrow> (automation_slot \<times> admission_decision) res" where
  "slot_admit s execution_id task_id =
     (if sl_deleted_at s \<noteq> None then err NotFound ''Automation is not visible''
      else case sl_record s of
        None \<Rightarrow> err NotFound ''Automation is not visible''
      | Some a \<Rightarrow>
          if sl_active s \<noteq> None then Ok (s, BusyDropped)
          else
            let snapshot = \<lparr>xs_automation_id = au_automation_id a, xs_execution_id = execution_id,
                            xs_task_id = task_id, xs_revision = au_revision a,
                            xs_trigger = au_trigger a, xs_action = au_action a\<rparr>
            in Ok (s\<lparr>sl_active := Some snapshot\<rparr>, Admitted snapshot))"

definition slot_update_definition ::
  "automation_slot \<Rightarrow> u64 \<Rightarrow> string \<Rightarrow> bool \<Rightarrow> automation_trigger \<Rightarrow> automation_action \<Rightarrow> string \<Rightarrow>
   (automation_slot \<times> u64) res" where
  "slot_update_definition s expected_revision name enabled trigger action updated_at =
     (if sl_deleted_at s \<noteq> None then err NotFound ''Automation is deleted''
      else
        rbind (ok_or (sl_record s) (domain_error_new NotFound ''Automation is removed'')) (\<lambda>current.
        if au_revision current \<noteq> expected_revision
        then err RevisionConflict ''Automation revision does not match''
        else
          rbind (ok_or (checked_add (au_revision current) 1)
                   (domain_error_new ResourceLimit ''revision exhausted'')) (\<lambda>revision.
          let candidate = \<lparr>au_automation_id = au_automation_id current, au_name = name,
                           au_enabled = enabled, au_trigger = trigger, au_action = action,
                           au_state = au_state current, au_revision = revision,
                           au_created_at = au_created_at current, au_updated_at = updated_at\<rparr>
          in rbind (validate_automation candidate)
               (\<lambda>_. Ok (s\<lparr>sl_record := Some candidate\<rparr>, revision)))))"

definition slot_set_enabled ::
  "automation_slot \<Rightarrow> u64 \<Rightarrow> bool \<Rightarrow> string \<Rightarrow> (automation_slot \<times> u64) res" where
  "slot_set_enabled s expected_revision enabled updated_at =
     rbind (ok_or (slot_visible s) (domain_error_new NotFound ''Automation is not visible''))
       (\<lambda>current. slot_update_definition s expected_revision (au_name current) enabled
                    (au_trigger current) (au_action current) updated_at)"

definition slot_set_state ::
  "automation_slot \<Rightarrow> automation_id \<Rightarrow> execution_id \<Rightarrow> string \<Rightarrow> scalar_value \<Rightarrow>
   automation_slot res" where
  "slot_set_state s automation_id execution_id key value =
     rbind (bounded key 1 64 ''Automation state key is out of bounds'') (\<lambda>_.
     rbind (scalar value) (\<lambda>_.
     rbind (ok_or (sl_active s) (domain_error_new StaleAuthority ''execution is not active''))
       (\<lambda>active.
     if xs_automation_id active \<noteq> automation_id \<or> xs_execution_id active \<noteq> execution_id
     then err StaleAuthority ''execution does not own this Automation state''
     else
       rbind (ok_or (sl_record s) (domain_error_new NotFound ''Automation is removed'')) (\<lambda>record.
       if \<not> bt_contains (au_state record) key \<and> length (au_state record) = 64
       then err ResourceLimit ''Automation state capacity is full''
       else Ok (s\<lparr>sl_record := Some (record\<lparr>au_state := bt_insert key value (au_state record)\<rparr>)\<rparr>)))))"

definition slot_delete ::
  "automation_slot \<Rightarrow> u64 \<Rightarrow> string \<Rightarrow> (automation_slot \<times> delete_disposition) res" where
  "slot_delete s expected_revision deleted_at =
     rbind (ok_or (slot_visible s) (domain_error_new NotFound ''Automation is not visible''))
       (\<lambda>record.
     if au_revision record \<noteq> expected_revision
     then err RevisionConflict ''Automation revision does not match''
     else
       rbind (ok_or (checked_add (au_revision record) 1)
                (domain_error_new ResourceLimit ''revision exhausted'')) (\<lambda>revision.
       if sl_active s \<noteq> None
       then Ok (s\<lparr>sl_record := Some (record\<lparr>au_revision := revision\<rparr>),
                  sl_deleted_at := Some deleted_at\<rparr>, Tombstoned)
       else Ok (s\<lparr>sl_record := None, sl_deleted_at := Some deleted_at\<rparr>, RemovedImmediately)))"

definition slot_settle ::
  "automation_slot \<Rightarrow> execution_id \<Rightarrow> (automation_slot \<times> settlement_disposition) res" where
  "slot_settle s execution_id =
     rbind (ok_or (sl_active s) (domain_error_new StaleAuthority ''execution is not active''))
       (\<lambda>active.
     if xs_execution_id active \<noteq> execution_id
     then err StaleAuthority ''execution identity does not match''
     else if sl_deleted_at s \<noteq> None
     then Ok (s\<lparr>sl_active := None, sl_record := None\<rparr>, PurgedTombstone)
     else Ok (s\<lparr>sl_active := None\<rparr>, Retained))"

section \<open>The slot as a state machine\<close>

datatype slot_op =
  SlotAdmit execution_id task_id
| SlotUpdate u64 string bool automation_trigger automation_action string
| SlotSetEnabled u64 bool string
| SlotSetState automation_id execution_id string scalar_value
| SlotDelete u64 string
| SlotSettle execution_id

fun slot_apply :: "automation_slot \<Rightarrow> slot_op \<Rightarrow> automation_slot res" where
  "slot_apply s (SlotAdmit e t) = rbind (slot_admit s e t) (\<lambda>(s', _). Ok s')"
| "slot_apply s (SlotUpdate r n b t a u) =
     rbind (slot_update_definition s r n b t a u) (\<lambda>(s', _). Ok s')"
| "slot_apply s (SlotSetEnabled r b u) = rbind (slot_set_enabled s r b u) (\<lambda>(s', _). Ok s')"
| "slot_apply s (SlotSetState a e k v) = slot_set_state s a e k v"
| "slot_apply s (SlotDelete r d) = rbind (slot_delete s r d) (\<lambda>(s', _). Ok s')"
| "slot_apply s (SlotSettle e) = rbind (slot_settle s e) (\<lambda>(s', _). Ok s')"

inductive slot_reachable :: "automation_slot \<Rightarrow> bool" where
  created: "slot_new a = Ok s \<Longrightarrow> bt_invar (au_state a) \<Longrightarrow> slot_reachable s"
| applied: "slot_reachable s \<Longrightarrow> slot_apply s op = Ok s' \<Longrightarrow> slot_reachable s'"

text \<open>
  The invariant: a held record is a valid Automation with an ordered state; a slot that was
  deleted holds its record exactly as long as an execution is active; and the active snapshot is
  of this Automation, taken at a revision not later than the record's.
\<close>

definition slot_invar :: "automation_slot \<Rightarrow> bool" where
  "slot_invar s \<longleftrightarrow>
     (\<forall>a. sl_record s = Some a \<longrightarrow> is_ok (validate_automation a) \<and> bt_invar (au_state a)) \<and>
     (sl_deleted_at s \<noteq> None \<longrightarrow> (sl_record s \<noteq> None \<longleftrightarrow> sl_active s \<noteq> None)) \<and>
     (sl_active s \<noteq> None \<longrightarrow> sl_record s \<noteq> None) \<and>
     (\<forall>a x. sl_record s = Some a \<longrightarrow> sl_active s = Some x \<longrightarrow>
        xs_automation_id x = au_automation_id a \<and> xs_revision x \<le> au_revision a)"

lemma checked_add_one_le: "checked_add r 1 = Some r' \<Longrightarrow> r \<le> r' \<and> r' \<noteq> 0" for r :: u64
  by (drule unat_checked_add) (auto simp: word_le_nat_alt)

lemma set_bt_insert: "set (bt_insert k v m) \<subseteq> insert (k, v) (set m)"
  by (induction k v m rule: bt_insert.induct) auto

lemma validate_state_insert:
  assumes "is_ok (validate_state m)" and "bt_invar m" and "is_ok (bounded k 1 64 r)" and "is_ok (scalar v)"
    and "bt_contains m k \<or> length m \<noteq> 64"
  shows "is_ok (validate_state (bt_insert k v m))"
proof -
  have "length (bt_insert k v m) \<le> 64"
    using assms by (intro btree.bounded_insert) (auto simp: validate_state_iff bt_contains_def)
  with assms set_bt_insert[of k v m] show ?thesis
    by (auto simp: validate_state_iff)
qed

lemma slot_admit_invar:
  assumes "slot_invar s" and "slot_admit s e t = Ok (s', d)"
  shows "slot_invar s'"
  using assms by (auto simp: slot_admit_def slot_invar_def Let_def split: if_splits option.splits)

lemma slot_update_invar:
  assumes "slot_invar s" and "slot_update_definition s r n b t a u = Ok (s', r')"
  shows "slot_invar s'"
proof -
  obtain current where c: "sl_record s = Some current" "sl_deleted_at s = None"
    "checked_add (au_revision current) 1 = Some r'"
    and s': "s' = s\<lparr>sl_record := Some \<lparr>au_automation_id = au_automation_id current, au_name = n,
        au_enabled = b, au_trigger = t, au_action = a, au_state = au_state current, au_revision = r',
        au_created_at = au_created_at current, au_updated_at = u\<rparr>\<rparr>"
    and v: "is_ok (validate_automation \<lparr>au_automation_id = au_automation_id current, au_name = n,
        au_enabled = b, au_trigger = t, au_action = a, au_state = au_state current, au_revision = r',
        au_created_at = au_created_at current, au_updated_at = u\<rparr>)"
    using assms(2)
    by (auto simp: slot_update_definition_def rbind_eq_Ok_iff Let_def is_ok_iff split: if_splits)
  show ?thesis
    using assms(1) c v checked_add_one_le[OF c(3)] by (auto simp: slot_invar_def s')
qed

lemma slot_set_state_invar:
  assumes "slot_invar s" and "slot_set_state s i e k v = Ok s'"
  shows "slot_invar s'"
proof -
  obtain a x where a: "sl_record s = Some a" "sl_active s = Some x"
    and room: "bt_contains (au_state a) k \<or> length (au_state a) \<noteq> 64"
    and kv: "is_ok (bounded k 1 64 [])" "is_ok (scalar v)"
    and s': "s' = s\<lparr>sl_record := Some (a\<lparr>au_state := bt_insert k v (au_state a)\<rparr>)\<rparr>"
    using assms(2) by (auto simp: slot_set_state_def rbind_eq_Ok_iff unit_res_eq_Ok split: if_splits)
  have "is_ok (validate_automation a)" "bt_invar (au_state a)"
    using assms(1) a by (auto simp: slot_invar_def)
  then have "is_ok (validate_automation (a\<lparr>au_state := bt_insert k v (au_state a)\<rparr>))"
    using validate_state_insert[OF _ _ kv room]
    by (auto simp: is_ok_validate_automation)
  then show ?thesis
    using assms(1) a by (auto simp: slot_invar_def s' bt_invar_insert)
qed

lemma slot_delete_Ok:
  assumes "slot_delete s r d = Ok (s', disp)"
  shows "\<exists>a r'. sl_deleted_at s = None \<and> sl_record s = Some a \<and> checked_add (au_revision a) 1 = Some r'
    \<and> s' = (if sl_active s \<noteq> None
      then s\<lparr>sl_record := Some (a\<lparr>au_revision := r'\<rparr>), sl_deleted_at := Some d\<rparr>
      else s\<lparr>sl_record := None, sl_deleted_at := Some d\<rparr>)"
  using assms
  by (cases "sl_active s"; cases "sl_deleted_at s")
    (auto simp: slot_delete_def slot_visible_def rbind_eq_Ok_iff split: if_splits)

lemma slot_delete_invar:
  assumes "slot_invar s" and "slot_delete s r d = Ok (s', disp)"
  shows "slot_invar s'"
proof -
  obtain a r' where a: "sl_deleted_at s = None" "sl_record s = Some a" "checked_add (au_revision a) 1 = Some r'"
    and s': "s' = (if sl_active s \<noteq> None
      then s\<lparr>sl_record := Some (a\<lparr>au_revision := r'\<rparr>), sl_deleted_at := Some d\<rparr>
      else s\<lparr>sl_record := None, sl_deleted_at := Some d\<rparr>)"
    using slot_delete_Ok[OF assms(2)] by blast
  have rec: "is_ok (validate_automation a)" "bt_invar (au_state a)"
    using assms(1) a by (auto simp: slot_invar_def)
  then have "is_ok (validate_automation (a\<lparr>au_revision := r'\<rparr>))"
    using checked_add_one_le[OF a(3)] by (simp add: is_ok_validate_automation)
  moreover have "xs_revision x \<le> r'" "xs_automation_id x = au_automation_id a"
    if "sl_active s = Some x" for x
    using assms(1) a that checked_add_one_le[OF a(3)] by (auto simp: slot_invar_def)
  ultimately show ?thesis
    using rec(2) by (cases "sl_active s") (simp_all add: slot_invar_def s')
qed

lemma slot_settle_invar:
  assumes "slot_invar s" and "slot_settle s e = Ok (s', disp)"
  shows "slot_invar s'"
  using assms by (auto simp: slot_settle_def slot_invar_def rbind_eq_Ok_iff split: if_splits)

lemma slot_set_enabled_cases:
  assumes "slot_set_enabled s r b u = Ok (s', r')"
  shows "\<exists>n t a. slot_update_definition s r n b t a u = Ok (s', r')"
  using assms by (auto simp: slot_set_enabled_def rbind_eq_Ok_iff)

lemma slot_apply_invar:
  assumes "slot_invar s" and "slot_apply s op = Ok s'"
  shows "slot_invar s'"
proof (cases op)
  case (SlotSetEnabled r b u)
  then show ?thesis
    using assms slot_update_invar[OF assms(1)]
    by (auto simp: rbind_eq_Ok_iff dest!: slot_set_enabled_cases)
qed (use assms in \<open>auto simp: rbind_eq_Ok_iff intro: slot_admit_invar slot_update_invar
      slot_set_state_invar slot_delete_invar slot_settle_invar\<close>)

lemma slot_reachable_invar: "slot_reachable s \<Longrightarrow> slot_invar s"
proof (induction rule: slot_reachable.induct)
  case (created a s)
  then show ?case by (auto simp: slot_new_def slot_invar_def rbind_eq_Ok_iff is_ok_iff)
next
  case (applied s op s')
  then show ?case by (blast intro: slot_apply_invar)
qed

section \<open>Deletion and the active execution\<close>

definition slot_deleted :: "automation_slot \<Rightarrow> bool" where
  "slot_deleted s \<longleftrightarrow> sl_deleted_at s \<noteq> None"

lemma slot_deleted_apply:
  assumes "slot_apply s op = Ok s'" and "slot_deleted s"
  shows "slot_deleted s'"
  using assms
  by (cases op) (auto simp: slot_deleted_def slot_admit_def slot_update_definition_def
      slot_set_enabled_def slot_set_state_def slot_delete_def slot_settle_def slot_visible_def
      rbind_eq_Ok_iff split: if_splits)

text \<open>What happens to the active execution: only its own settlement ends it.\<close>

lemma slot_active_apply:
  assumes "slot_apply s op = Ok s'" and "sl_active s = Some x"
    and "op \<noteq> SlotSettle (xs_execution_id x)"
  shows "sl_active s' = Some x"
  using assms
  by (cases op) (auto simp: slot_admit_def slot_update_definition_def slot_set_enabled_def
      slot_set_state_def slot_delete_def slot_settle_def slot_visible_def Let_def
      rbind_eq_Ok_iff split: if_splits option.splits)

fun slot_run :: "automation_slot \<Rightarrow> slot_op list \<Rightarrow> automation_slot" where
  "slot_run s [] = s"
| "slot_run s (op # ops) = slot_run (case slot_apply s op of Inl _ \<Rightarrow> s | Inr s' \<Rightarrow> s') ops"

lemma slot_run_deleted: "slot_deleted s \<Longrightarrow> slot_deleted (slot_run s ops)"
  by (induction ops arbitrary: s) (auto dest: slot_deleted_apply split: sum.split)

lemma slot_run_active:
  assumes "sl_active s = Some x" and "SlotSettle (xs_execution_id x) \<notin> set ops"
  shows "sl_active (slot_run s ops) = Some x"
  using assms
proof (induction ops arbitrary: s)
  case Nil
  then show ?case by simp
next
  case (Cons op ops)
  then show ?case using slot_active_apply[of s op _ x] by (cases "slot_apply s op") auto
qed

lemma slot_run_reachable: "slot_reachable s \<Longrightarrow> slot_reachable (slot_run s ops)"
  by (induction ops arbitrary: s) (auto intro: slot_reachable.applied split: sum.split)

lemma slot_run_invar:
  assumes "slot_reachable s" and "slot_apply s op = Ok s'"
  shows "slot_invar (slot_run s' ops)"
  using slot_reachable.applied[OF assms] slot_run_reachable slot_reachable_invar by blast

section \<open>Properties\<close>

text \<open> every reachable slot keeps its invariant: a held record is a valid Automation, a deleted
  slot keeps its record exactly as long as its execution is active, and the active execution is
  of this Automation at a revision not later than the record's.
\<close>

lemma slot_invariant:
  assumes "slot_reachable s"
  shows "slot_invar s"
  using assms by (rule slot_reachable_invar)

text \<open> an admitted execution owns its slot until it settles: whatever operations are attempted in
  between, its snapshot is unchanged (definition edits and deletion included), and admitting
  another execution is refused, as busy or, once the Automation is deleted, as not found.
\<close>

lemma slot_admission_exclusive:
  assumes "slot_reachable s" and "slot_admit s e t = Ok (s', Admitted x)"
    and "SlotSettle e \<notin> set ops"
  shows "sl_active (slot_run s' ops) = Some x
       \<and> slot_admit (slot_run s' ops) e' t' =
          (if slot_deleted (slot_run s' ops) then err NotFound ''Automation is not visible''
           else Ok (slot_run s' ops, BusyDropped))"
proof -
  have x: "sl_active s' = Some x" "xs_execution_id x = e"
    using assms(2) by (auto simp: slot_admit_def Let_def split: if_splits option.splits)
  have active: "sl_active (slot_run s' ops) = Some x"
    using slot_run_active[OF x(1)] x(2) assms(3) by simp
  have "slot_apply s (SlotAdmit e t) = Ok s'" using assms(2) by simp
  then have "slot_invar (slot_run s' ops)" by (rule slot_run_invar[OF assms(1)])
  with active show ?thesis
    by (auto simp: slot_admit_def slot_invar_def slot_deleted_def)
qed

text \<open> a deletion is final: once it succeeded the Automation is never visible or admitted again,
  and its tombstone is purged by the settlement of the execution that was active.
\<close>

lemma slot_delete_final:
  assumes "slot_reachable s" and "slot_delete s r d = Ok (s', disp)"
  shows "slot_visible (slot_run s' ops) = None
       \<and> slot_admit (slot_run s' ops) e t = err NotFound ''Automation is not visible''
       \<and> (sl_active (slot_run s' ops) = None \<longrightarrow> sl_record (slot_run s' ops) = None)"
proof -
  have "slot_deleted s'"
    using assms(2) by (auto simp: slot_delete_def slot_deleted_def rbind_eq_Ok_iff split: if_splits)
  then have del: "slot_deleted (slot_run s' ops)" by (rule slot_run_deleted)
  have "slot_apply s (SlotDelete r d) = Ok s'" using assms(2) by simp
  then have "slot_invar (slot_run s' ops)" by (rule slot_run_invar[OF assms(1)])
  with del show ?thesis
    by (auto simp: slot_invar_def slot_deleted_def slot_visible_def slot_admit_def)
qed

text \<open> only the owning execution writes Automation state: a successful write comes from the active
  execution of this Automation and changes the one key it names.
\<close>

lemma slot_set_state_owned:
  assumes "slot_reachable s" and "slot_set_state s i e k v = Ok s'"
  shows "\<exists>a a' x. sl_active s = Some x \<and> xs_execution_id x = e \<and> xs_automation_id x = i
       \<and> i = au_automation_id a \<and> sl_record s = Some a \<and> sl_record s' = Some a'
       \<and> bt_get (au_state a') = (bt_get (au_state a))(k \<mapsto> v)
       \<and> a' = a\<lparr>au_state := au_state a'\<rparr> \<and> sl_active s' = sl_active s
       \<and> sl_deleted_at s' = sl_deleted_at s"
proof -
  note inv = slot_reachable_invar[OF assms(1)]
  obtain a x where "sl_record s = Some a" "sl_active s = Some x" "xs_automation_id x = i"
    "xs_execution_id x = e"
    "s' = s\<lparr>sl_record := Some (a\<lparr>au_state := bt_insert k v (au_state a)\<rparr>)\<rparr>"
    using assms(2) by (auto simp: slot_set_state_def rbind_eq_Ok_iff split: if_splits)
  with inv show ?thesis
    by (auto simp: slot_invar_def bt_get_insert fun_eq_iff)
qed

section \<open>Witnesses\<close>

definition sample_automation :: automation where
  "sample_automation =
     \<lparr>au_automation_id = UuidV4 ''a'', au_name = ''morning'', au_enabled = True,
      au_trigger = TriggerInterval 60000, au_action = Sequence [Delay 5, SetState ''k'' ScalarNull],
      au_state = [], au_revision = 1, au_created_at = ''t0'', au_updated_at = ''t0''\<rparr>"

definition sample_slot :: automation_slot where
  "sample_slot = \<lparr>sl_record = Some sample_automation, sl_active = None, sl_deleted_at = None\<rparr>"

definition sample_execution :: execution_snapshot where
  "sample_execution =
     \<lparr>xs_automation_id = UuidV4 ''a'', xs_execution_id = UuidV4 ''e'', xs_task_id = UuidV4 ''t'',
      xs_revision = 1, xs_trigger = TriggerInterval 60000,
      xs_action = Sequence [Delay 5, SetState ''k'' ScalarNull]\<rparr>"

lemma walk_sample: "is_ok (walk (Sequence [Delay 5, SetState ''k'' ScalarNull]))"
proof -
  have "nodes_valid (Sequence [Delay 5, SetState ''k'' ScalarNull])"
    "tree_within (Sequence [Delay 5, SetState ''k'' ScalarNull])"
    by (simp_all add: tree_within_def NUL_def)
  with walk_spec_all show ?thesis unfolding walk_spec_def is_ok_iff by blast
qed

lemma sample_slot_reachable: "slot_reachable sample_slot"
proof (rule slot_reachable.created[of sample_automation])
  have "is_ok (validate_automation sample_automation)"
    using walk_sample
    by (simp add: is_ok_validate_automation validate_state_iff sample_automation_def NUL_def)
  then show "slot_new sample_automation = Ok sample_slot"
    by (auto simp: slot_new_def sample_slot_def is_ok_iff)
qed (simp add: sample_automation_def)

lemma sample_slot_admit:
  "slot_admit sample_slot (UuidV4 ''e'') (UuidV4 ''t'') =
     Ok (sample_slot\<lparr>sl_active := Some sample_execution\<rparr>, Admitted sample_execution)"
  by (simp add: slot_admit_def sample_slot_def sample_automation_def sample_execution_def Let_def)

lemma sample_slot_delete:
  "slot_delete sample_slot 1 ''t1'' =
     Ok (\<lparr>sl_record = None, sl_active = None, sl_deleted_at = Some ''t1''\<rparr>, RemovedImmediately)"
  by (simp add: slot_delete_def slot_visible_def sample_slot_def sample_automation_def checked_add_def)

lemma slot_invariant_witness: "slot_invar sample_slot"
  by (rule slot_invariant[OF sample_slot_reachable])

lemma slot_admission_exclusive_witness:
  "sl_active (slot_run (sample_slot\<lparr>sl_active := Some sample_execution\<rparr>)
     [SlotDelete 1 ''t1'', SlotSettle (UuidV4 ''f'')]) = Some sample_execution"
  using slot_admission_exclusive[OF sample_slot_reachable sample_slot_admit,
      of "[SlotDelete 1 ''t1'', SlotSettle (UuidV4 ''f'')]"]
  by simp

lemma slot_delete_final_witness:
  "slot_visible (slot_run \<lparr>sl_record = None, sl_active = None, sl_deleted_at = Some ''t1''\<rparr>
     [SlotAdmit (UuidV4 ''e'') (UuidV4 ''t'')]) = None"
  using slot_delete_final[OF sample_slot_reachable sample_slot_delete,
      of "[SlotAdmit (UuidV4 ''e'') (UuidV4 ''t'')]" "UuidV4 ''e''" "UuidV4 ''t''"]
  by simp

lemma slot_set_state_owned_witness:
  "\<exists>s'. slot_set_state (sample_slot\<lparr>sl_active := Some sample_execution\<rparr>) (UuidV4 ''a'') (UuidV4 ''e'')
      ''k'' ScalarNull = Ok s' \<and> sl_active s' = Some sample_execution"
proof -
  have r: "slot_reachable (sample_slot\<lparr>sl_active := Some sample_execution\<rparr>)"
    using slot_reachable.applied[OF sample_slot_reachable, of "SlotAdmit (UuidV4 ''e'') (UuidV4 ''t'')"]
    by (simp add: sample_slot_admit)
  obtain s' where s': "slot_set_state (sample_slot\<lparr>sl_active := Some sample_execution\<rparr>) (UuidV4 ''a'')
      (UuidV4 ''e'') ''k'' ScalarNull = Ok s'"
    by (simp add: slot_set_state_def bounded_def sample_execution_def sample_slot_def NUL_def
        sample_automation_def)
  from slot_set_state_owned[OF r s'] s' show ?thesis by auto
qed

end
