(* ===== verification/Automation_Exec.thy ===== *)
theory Automation_Exec
  imports Runtime_State Automation_Slot
begin

text \<open>
  AutomationExecution admission, start and settlement over the canonical state
  (\<open>rust/crates/runtime/src/automation_execution.rs\<close>): the functions the Runtime core applies
  inside one commit, so an execution and its container Task advance together. Wall-clock instants
  are integers (nanoseconds since the epoch); parsing and formatting them (chrono) and generating
  identities (uuid) are parameters.
\<close>

section \<open>Parameters\<close>

type_synonym instant = int

record clock_codec =
  ck_parse :: "string \<Rightarrow> instant option" \<comment> \<open>\<open>DateTime::parse_from_rfc3339\<close>\<close>
  ck_format :: "instant \<Rightarrow> string" \<comment> \<open>\<open>to_rfc3339_opts\<close>\<close>

abbreviation AUTOMATION_EXECUTION_ACTION :: string where
  "AUTOMATION_EXECUTION_ACTION \<equiv> ''execution''"
abbreviation RUNTIME_READY_EVENT :: string where "RUNTIME_READY_EVENT \<equiv> ''runtime.ready''"
abbreviation NETWORK_DEFAULT_CHANGED_EVENT :: string where
  "NETWORK_DEFAULT_CHANGED_EVENT \<equiv> ''network.default_changed''"
abbreviation MAX_NON_TERMINAL_AUTOMATION_EXECUTIONS :: nat where
  "MAX_NON_TERMINAL_AUTOMATION_EXECUTIONS \<equiv> 320"
abbreviation MAX_TERMINAL_EXECUTIONS_PER_AUTOMATION :: nat where
  "MAX_TERMINAL_EXECUTIONS_PER_AUTOMATION \<equiv> 100"
abbreviation MAX_TERMINAL_AUTOMATION_EXECUTIONS :: nat where
  "MAX_TERMINAL_AUTOMATION_EXECUTIONS \<equiv> 2000"
abbreviation AUTOMATION_EXECUTION_RECORD_BYTES :: u64 where
  "AUTOMATION_EXECUTION_RECORD_BYTES \<equiv> 1024"

record admitted_automation_execution =
  aae_automation_id :: automation_id
  aae_revision :: u64
  aae_summary :: automation_execution_summary
  aae_trigger :: automation_trigger
  aae_action :: automation_action
  aae_trigger_facts :: "scalar_value btree_map"

datatype automation_admission =
  AdmissionAdmitted admitted_automation_execution
| AdmissionBusyDropped
| AdmissionNotDue
| AdmissionRejected domain_error

datatype automation_execution_outcome =
  AutoOutcomeCompleted
| AutoOutcomeFailed public_error
| AutoOutcomeCancelled public_error
| AutoOutcomeInterrupted public_error

section \<open>Lookups and small updates\<close>

definition update_task ::
  "nat \<Rightarrow> (('p, 'r) task_record \<Rightarrow> ('p, 'r) task_record) \<Rightarrow> ('p, 'r, 'j) runtime_state \<Rightarrow>
   ('p, 'r, 'j) runtime_state" where
  "update_task i f s = s\<lparr>rs_tasks := (rs_tasks s)[i := f (rs_tasks s ! i)]\<rparr>"

definition update_automation ::
  "nat \<Rightarrow> (automation_record \<Rightarrow> automation_record) \<Rightarrow> ('p, 'r, 'j) runtime_state \<Rightarrow>
   ('p, 'r, 'j) runtime_state" where
  "update_automation i f s = s\<lparr>rs_automations := (rs_automations s)[i := f (rs_automations s ! i)]\<rparr>"

definition update_execution ::
  "nat \<Rightarrow> (automation_execution_summary \<Rightarrow> automation_execution_summary) \<Rightarrow>
   ('p, 'r, 'j) runtime_state \<Rightarrow> ('p, 'r, 'j) runtime_state" where
  "update_execution i f s =
     s\<lparr>rs_automation_executions := (rs_automation_executions s)
          [i := (rs_automation_executions s ! i)
             \<lparr>xr_summary := f (xr_summary (rs_automation_executions s ! i))\<rparr>]\<rparr>"

definition execution_index :: "('p, 'r, 'j) runtime_state \<Rightarrow> execution_id \<Rightarrow> nat res" where
  "execution_index s execution_id =
     ok_or (position (\<lambda>x. es_execution_id (xr_summary x) = execution_id) (rs_automation_executions s))
       (domain_error_new NotFound ''AutomationExecution not found'')"

definition container_task_index :: "('p, 'r, 'j) runtime_state \<Rightarrow> execution_id \<Rightarrow> nat res" where
  "container_task_index s execution_id =
     ok_or (position (\<lambda>t. tk_execution_id t = execution_id \<and> is_container t) (rs_tasks s))
       (domain_error_new IoError ''AutomationExecution has no container Task'')"

definition history_key :: "automation_execution_record \<Rightarrow> string \<times> string" where
  "history_key x = (es_triggered_at (xr_summary x), as_str (es_execution_id (xr_summary x)))"

definition release_execution_bytes ::
  "('p, 'r, 'j) runtime_state \<Rightarrow> nat \<Rightarrow> ('p, 'r, 'j) runtime_state" where
  "release_execution_bytes s before =
     (let removed = of_nat (before - length (rs_automation_executions s))
      in s\<lparr>rs_used_bytes := saturating_sub (rs_used_bytes s)
             (saturating_mul AUTOMATION_EXECUTION_RECORD_BYTES removed)\<rparr>)"

text \<open>\<open>prune_execution_history\<close>: the oldest keys beyond each bound.\<close>

definition pruned_executions :: "automation_execution_record list \<Rightarrow> automation_id \<Rightarrow> string list" where
  "pruned_executions xs automation_id =
     (let own = sort (map history_key
            (filter (\<lambda>x. xr_is_terminal x \<and> xr_automation_id x = automation_id) xs));
          removed = map snd (take (length own - MAX_TERMINAL_EXECUTIONS_PER_AUTOMATION) own);
          global = sort (filter (\<lambda>(_, key). key \<notin> set removed)
            (map history_key (filter xr_is_terminal xs)))
      in removed @ map snd (take (length global - MAX_TERMINAL_AUTOMATION_EXECUTIONS) global))"

definition prune_execution_history ::
  "('p, 'r, 'j) runtime_state \<Rightarrow> automation_id \<Rightarrow> ('p, 'r, 'j) runtime_state" where
  "prune_execution_history s automation_id =
     (let removed = pruned_executions (rs_automation_executions s) automation_id
      in if removed = [] then s
         else
           let before = length (rs_automation_executions s);
               s = s\<lparr>rs_automation_executions :=
                 filter (\<lambda>x. as_str (es_execution_id (xr_summary x)) \<notin> set removed)
                   (rs_automation_executions s)\<rparr>
           in release_execution_bytes s before)"

section \<open>Settlement\<close>

fun auto_outcome_state :: "automation_execution_outcome \<Rightarrow> automation_execution_state" where
  "auto_outcome_state AutoOutcomeCompleted = AutoCompleted"
| "auto_outcome_state (AutoOutcomeFailed _) = AutoFailed"
| "auto_outcome_state (AutoOutcomeCancelled _) = AutoCancelled"
| "auto_outcome_state (AutoOutcomeInterrupted _) = AutoInterrupted"

fun auto_outcome_error :: "automation_execution_outcome \<Rightarrow> public_error option" where
  "auto_outcome_error AutoOutcomeCompleted = None"
| "auto_outcome_error (AutoOutcomeFailed e) = Some e"
| "auto_outcome_error (AutoOutcomeCancelled e) = Some e"
| "auto_outcome_error (AutoOutcomeInterrupted e) = Some e"

fun auto_outcome_event :: "automation_execution_outcome \<Rightarrow> task_event" where
  "auto_outcome_event AutoOutcomeCompleted = EvComplete True True"
| "auto_outcome_event (AutoOutcomeFailed _) = EvFail True"
| "auto_outcome_event (AutoOutcomeCancelled _) = EvSettleCancellation True"
| "auto_outcome_event (AutoOutcomeInterrupted _) = EvHostLost"

definition auto_outcome_result ::
  "automation_execution_outcome \<Rightarrow> automation_id \<Rightarrow> execution_id \<Rightarrow> 'r task_terminal_result option" where
  "auto_outcome_result outcome automation_id execution_id =
     (case outcome of
        AutoOutcomeCompleted \<Rightarrow> Some (ResultAutomation
          \<lparr>atr_automation_id = automation_id, atr_execution_id = execution_id\<rparr>)
      | _ \<Rightarrow> None)"

definition settle_lifecycle :: "task_lifecycle \<Rightarrow> automation_execution_outcome \<Rightarrow> task_lifecycle res" where
  "settle_lifecycle l outcome =
     (case auto_outcome_event outcome of
        EvSettleCancellation c \<Rightarrow>
          rbind (lifecycle_apply l EvRequestCancel) (\<lambda>l. lifecycle_apply l (EvSettleCancellation c))
      | event \<Rightarrow> lifecycle_apply l event)"

text \<open>The end of \<open>settle_automation_in_state\<close>: releasing the record that owned the execution.\<close>

definition release_ownership ::
  "('p, 'r, 'j) runtime_state \<Rightarrow> automation_id \<Rightarrow> execution_id \<Rightarrow> ('p, 'r, 'j) runtime_state res" where
  "release_ownership s automation_id execution_id =
     rbind (ok_or (position (\<lambda>r. au_automation_id (ar_automation r) = automation_id) (rs_automations s))
              (domain_error_new IoError ''AutomationExecution names no canonical Automation''))
       (\<lambda>i.
     if ar_active_execution_id (rs_automations s ! i) \<noteq> Some execution_id
     then err IoError ''AutomationExecution does not own its Automation''
     else if ar_deleted_at (rs_automations s ! i) \<noteq> None
     then
       let before = length (rs_automation_executions s);
           s = s\<lparr>rs_automations := take i (rs_automations s) @ drop (Suc i) (rs_automations s),
                 rs_automation_executions :=
                   filter (\<lambda>x. xr_automation_id x \<noteq> automation_id) (rs_automation_executions s)\<rparr>
       in Ok (release_execution_bytes s before)
     else
       Ok (prune_execution_history
            (update_automation i (\<lambda>r. r\<lparr>ar_active_execution_id := None\<rparr>) s) automation_id))"

definition settle_automation_in_state ::
  "('p, 'r, 'j) runtime_state \<Rightarrow> execution_id \<Rightarrow> automation_execution_outcome \<Rightarrow> string \<Rightarrow>
   (('p, 'r, 'j) runtime_state \<times> automation_execution_summary) res" where
  "settle_automation_in_state s execution_id outcome timestamp =
     rbind (execution_index s execution_id) (\<lambda>xi.
     if xr_is_terminal (rs_automation_executions s ! xi)
     then err StaleAuthority ''AutomationExecution is already terminal''
     else
       let automation_id = xr_automation_id (rs_automation_executions s ! xi);
           error = auto_outcome_error outcome;
           error_code = map_option (\<lambda>e. error_code_token (pe_code e)) error
       in
       rbind (container_task_index s execution_id) (\<lambda>ti.
       rbind (settle_lifecycle (tk_lifecycle (rs_tasks s ! ti)) outcome) (\<lambda>lifecycle.
       let s = update_task ti (\<lambda>t. t\<lparr>tk_lifecycle := lifecycle, tk_ended_at := Some timestamp,
                 tk_result := auto_outcome_result outcome automation_id execution_id,
                 tk_error := error\<rparr>) s;
           reservation = tk_reserved_bytes (rs_tasks s ! ti)
       in
       rbind (ok_or (checked_sub (rs_reserved_bytes s) reservation)
                (domain_error_new InternalError ''reservation underflow'')) (\<lambda>reserved.
       rbind (ok_or (checked_add (rs_used_bytes s) (min RESERVE_FLOOR_BYTES reservation))
                (domain_error_new ResourceLimit ''store size overflow'')) (\<lambda>used.
       let s = update_execution xi (\<lambda>x. x\<lparr>es_state := auto_outcome_state outcome,
                 es_ended_at := Some timestamp, es_error_code := error_code\<rparr>)
                 (s\<lparr>rs_reserved_bytes := reserved, rs_used_bytes := used\<rparr>);
           summary = xr_summary (rs_automation_executions s ! xi)
       in rbind (release_ownership s automation_id execution_id) (\<lambda>s. Ok (s, summary)))))))"

section \<open>Recovery of a prior instance\<close>

definition old_instance_executions :: "('p, 'r, 'j) runtime_state \<Rightarrow> uuid \<Rightarrow> uuid list" where
  "old_instance_executions s old_instance_id =
     map tk_execution_id (filter (\<lambda>t. \<not> tk_is_terminal t \<and> is_container t
       \<and> fence_runtime_instance_id (tk_fence t) = old_instance_id) (rs_tasks s))"

definition host_lost_error :: public_error where
  "host_lost_error = \<lparr>pe_code = IoError, pe_operation = ''automation.execution'',
     pe_retryable = False, pe_message = None, pe_capability = None, pe_details = None\<rparr>"

fun interrupt_executions ::
  "('p, 'r, 'j) runtime_state \<Rightarrow> execution_id list \<Rightarrow> string \<Rightarrow> ('p, 'r, 'j) runtime_state res" where
  "interrupt_executions s [] timestamp = Ok s"
| "interrupt_executions s (e # es) timestamp =
     rbind (settle_automation_in_state s e (AutoOutcomeInterrupted host_lost_error) timestamp)
       (\<lambda>(s, _). interrupt_executions s es timestamp)"

definition interrupt_old_instance_automation_executions ::
  "('p, 'r, 'j) runtime_state \<Rightarrow> uuid \<Rightarrow> string \<Rightarrow> (('p, 'r, 'j) runtime_state \<times> nat) res" where
  "interrupt_old_instance_automation_executions s old_instance_id timestamp =
     (let execution_ids = old_instance_executions s old_instance_id
      in rbind (interrupt_executions s execution_ids timestamp)
           (\<lambda>s. Ok (s, length execution_ids)))"

section \<open>Admission\<close>

definition reserve_admission_capacity ::
  "('p, 'r, 'j) runtime_state \<Rightarrow> ('p, 'r, 'j) runtime_state res" where
  "reserve_admission_capacity s =
     (let queued = length (filter (\<lambda>t. tk_state t \<in> {TaskCreated, TaskQueued}) (rs_tasks s));
          non_terminal = length (filter (\<lambda>x. \<not> xr_is_terminal x) (rs_automation_executions s))
      in if queued \<ge> MAX_QUEUED_TASKS \<or> non_terminal \<ge> MAX_NON_TERMINAL_AUTOMATION_EXECUTIONS
         then err ResourceLimit ''Automation admission capacity is full''
         else
           let growth = TASK_RECORD_BYTES + AUTOMATION_EXECUTION_RECORD_BYTES
           in rbind (ok_or
                (Option.bind (Option.bind (total_committed_and_reserved s)
                   (\<lambda>value. checked_add value growth))
                   (\<lambda>value. checked_add value RESERVE_FLOOR_BYTES))
                (domain_error_new ResourceLimit ''store capacity overflow'')) (\<lambda>total.
              if total > STORE_LIMIT_BYTES
              then err ResourceLimit ''store settlement capacity is full''
              else Ok (s\<lparr>rs_used_bytes := rs_used_bytes s + growth,
                         rs_reserved_bytes := rs_reserved_bytes s + RESERVE_FLOOR_BYTES\<rparr>)))"

text \<open>
  \<open>create_execution\<close>; \<open>ids\<close> are the two identities the uuid crate generates, \<open>None\<close> where its
  text would not parse.
\<close>

definition new_uuid :: "uuid option \<Rightarrow> uuid res" where
  "new_uuid generated = ok_or generated (domain_error_new InternalError ''UUID generation failed'')"

definition create_execution ::
  "('p, 'r, 'j) runtime_state \<Rightarrow> capability_snapshot \<Rightarrow> uuid option \<times> uuid option \<Rightarrow> nat \<Rightarrow> string \<Rightarrow>
   string \<Rightarrow> scalar_value btree_map \<Rightarrow>
   (('p, 'r, 'j) runtime_state \<times> admitted_automation_execution) res" where
  "create_execution s capability ids index triggered_at timestamp trigger_facts =
     (if cc_readiness (cs_context capability) \<noteq> Ready
      then err CapabilityUnavailable ''Runtime is not ready for Automation admission''
      else
        let automation = ar_automation (rs_automations s ! index)
        in
        rbind (reserve_admission_capacity s) (\<lambda>s.
        rbind (new_uuid (fst ids)) (\<lambda>execution_id.
        rbind (new_uuid (snd ids)) (\<lambda>task_id.
        let summary = \<lparr>es_execution_id = execution_id, es_task_id = task_id, es_state = AutoQueued,
              es_triggered_at = triggered_at, es_started_at = None, es_ended_at = None,
              es_error_code = None\<rparr>
        in
        rbind (lifecycle_apply lifecycle_new EvQueue) (\<lambda>lifecycle.
        let task = \<lparr>tk_task_id = task_id, tk_execution_id = execution_id, tk_lifecycle = lifecycle,
              tk_tool = ToolAutomation, tk_action = AUTOMATION_EXECUTION_ACTION,
              tk_created_at = timestamp, tk_started_at = None, tk_ended_at = None,
              tk_waiting_reason = None,
              tk_origin = OriginAutomationExecution (au_automation_id automation)
                (fence_of (cs_fence capability)),
              tk_result = None, tk_error = None, tk_reserved_bytes = RESERVE_FLOOR_BYTES\<rparr>;
            s = s\<lparr>rs_tasks := rs_tasks s @ [task],
                  rs_automation_executions := rs_automation_executions s @
                    [\<lparr>xr_automation_id = au_automation_id automation, xr_summary = summary\<rparr>]\<rparr>;
            s = update_automation index
                  (\<lambda>r. r\<lparr>ar_active_execution_id := Some execution_id\<rparr>) s
        in Ok (s, \<lparr>aae_automation_id = au_automation_id automation,
                   aae_revision = au_revision automation, aae_summary = summary,
                   aae_trigger = au_trigger automation, aae_action = au_action automation,
                   aae_trigger_facts = trigger_facts\<rparr>))))))"

definition admission_rejection :: "domain_error \<Rightarrow> bool" where
  "admission_rejection e \<longleftrightarrow> de_code e \<in> {ResourceLimit, CapabilityUnavailable}"

definition accepts_event :: "automation_record \<Rightarrow> string \<Rightarrow> scalar_value btree_map \<Rightarrow> bool" where
  "accepts_event r event facts \<longleftrightarrow>
     ar_deleted_at r = None \<and> au_enabled (ar_automation r)
     \<and> (case au_trigger (ar_automation r) of
          TriggerEvent name match \<Rightarrow> name = event
            \<and> (case match of None \<Rightarrow> True
               | Some matches \<Rightarrow> list_all (\<lambda>(key, value). bt_get facts key = Some value) matches)
        | _ \<Rightarrow> False)"

fun is_event_trigger :: "automation_trigger \<Rightarrow> bool" where
  "is_event_trigger (TriggerEvent _ _) = True"
| "is_event_trigger _ = False"

definition timestamp_instant :: "clock_codec \<Rightarrow> string \<Rightarrow> instant res" where
  "timestamp_instant ck timestamp =
     ok_or (ck_parse ck timestamp) (domain_error_new InternalError ''wall-clock instant is invalid'')"

definition stored_instant :: "clock_codec \<Rightarrow> string \<Rightarrow> instant res" where
  "stored_instant ck value =
     ok_or (ck_parse ck value) (domain_error_new IoError ''persisted Automation due is invalid'')"

text \<open>
  \<open>admit_due\<close>; \<open>next_due\<close> is \<open>next_due_after_admission\<close> of \<open>automation_tool.rs\<close>. Each admission
  answers the state, the decision and whether the caller must commit; a failed
  \<open>create_execution\<close> leaves the state it was given.
\<close>

definition admit_due ::
  "clock_codec \<Rightarrow> (automation_trigger \<Rightarrow> instant \<Rightarrow> instant \<Rightarrow> instant option res) \<Rightarrow>
   ('p, 'r, 'j) runtime_state \<Rightarrow> capability_snapshot \<Rightarrow> uuid option \<times> uuid option \<Rightarrow>
   automation_id \<Rightarrow> string \<Rightarrow> instant \<Rightarrow>
   (('p, 'r, 'j) runtime_state \<times> automation_admission \<times> bool) res" where
  "admit_due ck next_due s capability ids automation_id timestamp wall_now =
     (case position (\<lambda>r. ar_deleted_at r = None \<and> au_automation_id (ar_automation r) = automation_id)
             (rs_automations s) of
        None \<Rightarrow> Ok (s, AdmissionNotDue, False)
      | Some index \<Rightarrow>
          let record = rs_automations s ! index
          in (case ar_next_due_at record of
                None \<Rightarrow> Ok (s, AdmissionNotDue, False)
              | Some due_text \<Rightarrow>
                  if \<not> au_enabled (ar_automation record)
                     \<or> is_event_trigger (au_trigger (ar_automation record))
                  then Ok (s, AdmissionNotDue, False)
                  else
                    rbind (stored_instant ck due_text) (\<lambda>due.
                    if due > wall_now then Ok (s, AdmissionNotDue, False)
                    else if ar_active_execution_id record \<noteq> None
                    then Ok (s, AdmissionBusyDropped, False)
                    else
                      let next_due_at =
                        (case next_due (au_trigger (ar_automation record)) due wall_now of
                           Inl _ \<Rightarrow> None | Inr d \<Rightarrow> map_option (ck_format ck) d)
                      in (case create_execution s capability ids index due_text timestamp [] of
                            Inr (s, execution) \<Rightarrow>
                              Ok (update_automation index (\<lambda>r. r\<lparr>ar_next_due_at := next_due_at\<rparr>) s,
                                  AdmissionAdmitted execution, True)
                          | Inl error \<Rightarrow>
                              if admission_rejection error
                              then Ok (s, AdmissionRejected error, False) else Err error))))"

definition admit_requested ::
  "('p, 'r, 'j) runtime_state \<Rightarrow> capability_snapshot \<Rightarrow> uuid option \<times> uuid option \<Rightarrow>
   automation_id \<Rightarrow> string \<Rightarrow>
   (('p, 'r, 'j) runtime_state \<times> automation_admission \<times> bool) res" where
  "admit_requested s capability ids automation_id timestamp =
     (case position (\<lambda>r. au_automation_id (ar_automation r) = automation_id
                       \<and> ar_run_requested_at r \<noteq> None) (rs_automations s) of
        None \<Rightarrow> Ok (s, AdmissionNotDue, False)
      | Some index \<Rightarrow>
          let s = update_automation index (\<lambda>r. r\<lparr>ar_run_requested_at := None\<rparr>) s
          in if ar_deleted_at (rs_automations s ! index) \<noteq> None then Ok (s, AdmissionNotDue, True)
             else if ar_active_execution_id (rs_automations s ! index) \<noteq> None
             then Ok (s, AdmissionBusyDropped, True)
             else
               let facts = bt_from [(''manual'', ScalarBoolean True)]
               in (case create_execution s capability ids index timestamp timestamp facts of
                     Inr (s, execution) \<Rightarrow> Ok (s, AdmissionAdmitted execution, True)
                   | Inl error \<Rightarrow>
                       if admission_rejection error then Ok (s, AdmissionRejected error, True)
                       else Err error))"

definition admit_event ::
  "('p, 'r, 'j) runtime_state \<Rightarrow> capability_snapshot \<Rightarrow> uuid option \<times> uuid option \<Rightarrow>
   automation_id \<Rightarrow> string \<Rightarrow> scalar_value btree_map \<Rightarrow> string \<Rightarrow>
   (('p, 'r, 'j) runtime_state \<times> automation_admission \<times> bool) res" where
  "admit_event s capability ids automation_id event facts timestamp =
     (case position (\<lambda>r. au_automation_id (ar_automation r) = automation_id
                       \<and> accepts_event r event facts) (rs_automations s) of
        None \<Rightarrow> Ok (s, AdmissionNotDue, False)
      | Some index \<Rightarrow>
          if ar_active_execution_id (rs_automations s ! index) \<noteq> None
          then Ok (s, AdmissionBusyDropped, False)
          else
            (case create_execution s capability ids index timestamp timestamp facts of
               Inr (s, execution) \<Rightarrow> Ok (s, AdmissionAdmitted execution, True)
             | Inl error \<Rightarrow>
                 if admission_rejection error then Ok (s, AdmissionRejected error, False)
                 else Err error))"

section \<open>Start\<close>

definition start_execution ::
  "('p, 'r, 'j) runtime_state \<Rightarrow> execution_id \<Rightarrow> string \<Rightarrow>
   (('p, 'r, 'j) runtime_state \<times> automation_execution_summary) res" where
  "start_execution s execution_id timestamp =
     rbind (execution_index s execution_id) (\<lambda>xi.
     if es_state (xr_summary (rs_automation_executions s ! xi)) \<noteq> AutoQueued
     then err_invalid ''AutomationExecution is not queued''
     else
       rbind (container_task_index s execution_id) (\<lambda>ti.
       if tl_cancel_requested (tk_lifecycle (rs_tasks s ! ti))
       then err Cancelled ''AutomationExecution cancellation was requested''
       else
         rbind (lifecycle_apply (tk_lifecycle (rs_tasks s ! ti)) EvStart) (\<lambda>lifecycle.
         let s = update_task ti (\<lambda>t. t\<lparr>tk_lifecycle := lifecycle, tk_started_at := Some timestamp\<rparr>) s;
             s = update_execution xi (\<lambda>x. x\<lparr>es_state := AutoRunning,
                   es_started_at := Some timestamp\<rparr>) s
         in Ok (s, xr_summary (rs_automation_executions s ! xi)))))"

section \<open>Due instants\<close>

text \<open>\<open>armable_due\<close> and \<open>earliest_due\<close>; the latter's loop stops at the first stored due it cannot
  read.\<close>

definition armable_due :: "clock_codec \<Rightarrow> automation_record \<Rightarrow> instant option res" where
  "armable_due ck r =
     (if ar_deleted_at r \<noteq> None \<or> \<not> au_enabled (ar_automation r)
         \<or> ar_active_execution_id r \<noteq> None \<or> is_event_trigger (au_trigger (ar_automation r))
      then Ok None
      else (case ar_next_due_at r of None \<Rightarrow> Ok None
            | Some due \<Rightarrow> rbind (stored_instant ck due) (\<lambda>d. Ok (Some d))))"

fun earliest_due_from ::
  "clock_codec \<Rightarrow> automation_record list \<Rightarrow> automation_id list \<Rightarrow> instant option \<Rightarrow> instant option \<Rightarrow>
   instant option res" where
  "earliest_due_from ck [] blocked wall_now earliest = Ok earliest"
| "earliest_due_from ck (r # rs) blocked wall_now earliest =
     rbind (armable_due ck r) (\<lambda>armable.
     case armable of
       None \<Rightarrow> earliest_due_from ck rs blocked wall_now earliest
     | Some due \<Rightarrow>
         if (case wall_now of None \<Rightarrow> False | Some now \<Rightarrow> due \<le> now)
            \<and> au_automation_id (ar_automation r) \<in> set blocked
         then earliest_due_from ck rs blocked wall_now earliest
         else earliest_due_from ck rs blocked wall_now
                (Some (case earliest of None \<Rightarrow> due | Some current \<Rightarrow> min current due)))"

definition earliest_due ::
  "clock_codec \<Rightarrow> ('p, 'r, 'j) runtime_state \<Rightarrow> automation_id list \<Rightarrow> instant option \<Rightarrow> string option res" where
  "earliest_due ck s blocked wall_now =
     rbind (earliest_due_from ck (rs_automations s) blocked wall_now None)
       (\<lambda>earliest. Ok (map_option (ck_format ck) earliest))"

fun due_automation_ids_from ::
  "clock_codec \<Rightarrow> automation_record list \<Rightarrow> instant \<Rightarrow> automation_id list res" where
  "due_automation_ids_from ck [] wall_now = Ok []"
| "due_automation_ids_from ck (r # rs) wall_now =
     rbind (armable_due ck r) (\<lambda>armable.
     rbind (due_automation_ids_from ck rs wall_now) (\<lambda>ids.
     Ok (if (case armable of None \<Rightarrow> False | Some due \<Rightarrow> due \<le> wall_now)
         then au_automation_id (ar_automation r) # ids else ids)))"

definition due_automation_ids ::
  "clock_codec \<Rightarrow> ('p, 'r, 'j) runtime_state \<Rightarrow> string \<Rightarrow> automation_id list res" where
  "due_automation_ids ck s timestamp =
     rbind (timestamp_instant ck timestamp)
       (\<lambda>wall_now. due_automation_ids_from ck (rs_automations s) wall_now)"

definition requested_automation_runs :: "('p, 'r, 'j) runtime_state \<Rightarrow> automation_id list" where
  "requested_automation_runs s =
     map (au_automation_id \<circ> ar_automation)
       (filter (\<lambda>r. ar_run_requested_at r \<noteq> None) (rs_automations s))"

definition requires_network_default_events :: "('p, 'r, 'j) runtime_state \<Rightarrow> bool" where
  "requires_network_default_events s =
     list_ex (\<lambda>r. ar_deleted_at r = None \<and> au_enabled (ar_automation r)
       \<and> (case au_trigger (ar_automation r) of
            TriggerEvent name _ \<Rightarrow> name = NETWORK_DEFAULT_CHANGED_EVENT | _ \<Rightarrow> False))
       (rs_automations s)"

section \<open>Frames: what each step leaves alone\<close>

text \<open>The parts of the state that settling an AutomationExecution's owner never touches.\<close>

definition same_core :: "('p, 'r, 'j) runtime_state \<Rightarrow> ('p, 'r, 'j) runtime_state \<Rightarrow> bool" where
  "same_core s s' \<longleftrightarrow> rs_tasks s' = rs_tasks s \<and> rs_reserved_bytes s' = rs_reserved_bytes s
     \<and> rs_synchronous_executions s' = rs_synchronous_executions s \<and> rs_dedup s' = rs_dedup s
     \<and> rs_retained_mutations s' = rs_retained_mutations s \<and> rs_revision s' = rs_revision s"

lemma same_core_refl [simp]: "same_core s s"
  by (simp add: same_core_def)

lemma same_core_updates [simp]:
  "same_core s (s\<lparr>rs_used_bytes := u\<rparr>)" "same_core s (s\<lparr>rs_automations := a\<rparr>)"
  "same_core s (s\<lparr>rs_automation_executions := x\<rparr>)" "same_core s (update_automation i f s)"
  "same_core s (update_execution i g s)"
  by (simp_all add: same_core_def update_automation_def update_execution_def)

lemma same_core_trans [trans]: "same_core s s' \<Longrightarrow> same_core s' s'' \<Longrightarrow> same_core s s''"
  by (simp add: same_core_def)

lemma same_core_release: "same_core s (release_execution_bytes s n)"
  by (simp add: release_execution_bytes_def)

lemma same_core_prune: "same_core s (prune_execution_history s a)"
  by (simp add: prune_execution_history_def Let_def release_execution_bytes_def same_core_def)

lemma release_ownership_frame:
  assumes "release_ownership s a e = Ok s'"
  shows "same_core s s'"
proof -
  obtain i where "position (\<lambda>r. au_automation_id (ar_automation r) = a) (rs_automations s) = Some i"
    using assms by (auto simp: release_ownership_def rbind_eq_Ok_iff)
  with assms show ?thesis
    by (auto simp: release_ownership_def Let_def release_execution_bytes_def same_core_def
        update_automation_def prune_execution_history_def split: if_splits)
qed

lemma same_core_accounted: "same_core s s' \<Longrightarrow> accounted s' \<longleftrightarrow> accounted s"
  by (simp add: same_core_def accounted_def reservations_def)

lemma settle_lifecycle_terminal:
  assumes "settle_lifecycle l outcome = Ok l'"
  shows "\<not> lifecycle_is_terminal l \<and> lifecycle_is_terminal l'"
proof (cases "lifecycle_is_terminal l")
  case True
  then have "\<nexists>l'. settle_lifecycle l outcome = Ok l'"
    by (cases outcome) (auto simp: settle_lifecycle_def rbind_eq_Ok_iff lifecycle_apply.simps)
  with assms show ?thesis by simp
next
  case False
  with assms show ?thesis
    by (cases outcome) (auto simp: settle_lifecycle_def rbind_eq_Ok_iff intro: apply_settles)
qed

text \<open>A successful settlement, taken apart into the state it leaves before ownership is released.\<close>

definition settled_state ::
  "('p, 'r, 'j) runtime_state \<Rightarrow> nat \<Rightarrow> nat \<Rightarrow> task_lifecycle \<Rightarrow> u64 \<Rightarrow> u64 \<Rightarrow> execution_id \<Rightarrow>
   automation_execution_outcome \<Rightarrow> string \<Rightarrow> ('p, 'r, 'j) runtime_state" where
  "settled_state s xi ti lifecycle reserved used execution_id outcome timestamp =
     update_execution xi (\<lambda>x. x\<lparr>es_state := auto_outcome_state outcome,
         es_ended_at := Some timestamp,
         es_error_code := map_option (\<lambda>e. error_code_token (pe_code e)) (auto_outcome_error outcome)\<rparr>)
       ((update_task ti (\<lambda>t. t\<lparr>tk_lifecycle := lifecycle, tk_ended_at := Some timestamp,
           tk_result := auto_outcome_result outcome (xr_automation_id (rs_automation_executions s ! xi))
             execution_id,
           tk_error := auto_outcome_error outcome\<rparr>) s)
        \<lparr>rs_reserved_bytes := reserved, rs_used_bytes := used\<rparr>)"

lemma settle_automation_Ok:
  assumes "settle_automation_in_state s e outcome ts = Ok (s', summary)"
  obtains xi ti l reserved used where
    "position (\<lambda>x. es_execution_id (xr_summary x) = e) (rs_automation_executions s) = Some xi"
    "\<not> xr_is_terminal (rs_automation_executions s ! xi)"
    "position (\<lambda>t. tk_execution_id t = e \<and> is_container t) (rs_tasks s) = Some ti"
    "settle_lifecycle (tk_lifecycle (rs_tasks s ! ti)) outcome = Ok l"
    "checked_sub (rs_reserved_bytes s) (tk_reserved_bytes (rs_tasks s ! ti)) = Some reserved"
    "checked_add (rs_used_bytes s) (min RESERVE_FLOOR_BYTES (tk_reserved_bytes (rs_tasks s ! ti)))
       = Some used"
    "release_ownership (settled_state s xi ti l reserved used e outcome ts)
       (xr_automation_id (rs_automation_executions s ! xi)) e = Ok s'"
    "summary = xr_summary (rs_automation_executions
       (settled_state s xi ti l reserved used e outcome ts) ! xi)"
proof -
  obtain xi where xi: "position (\<lambda>x. es_execution_id (xr_summary x) = e) (rs_automation_executions s) = Some xi"
    "\<not> xr_is_terminal (rs_automation_executions s ! xi)"
    using assms by (auto simp: settle_automation_in_state_def execution_index_def rbind_eq_Ok_iff
        split: if_splits)
  obtain ti where ti: "position (\<lambda>t. tk_execution_id t = e \<and> is_container t) (rs_tasks s) = Some ti"
    using assms xi by (auto simp: settle_automation_in_state_def execution_index_def
        container_task_index_def rbind_eq_Ok_iff Let_def)
  have tl: "ti < length (rs_tasks s)" using ti by (rule position_SomeD)
  obtain l where l: "settle_lifecycle (tk_lifecycle (rs_tasks s ! ti)) outcome = Ok l"
    using assms xi ti by (cases "settle_lifecycle (tk_lifecycle (rs_tasks s ! ti)) outcome")
      (simp_all add: settle_automation_in_state_def execution_index_def container_task_index_def Let_def)
  obtain reserved where r: "checked_sub (rs_reserved_bytes s) (tk_reserved_bytes (rs_tasks s ! ti)) = Some reserved"
    using assms xi ti tl l by (cases "checked_sub (rs_reserved_bytes s) (tk_reserved_bytes (rs_tasks s ! ti))")
      (simp_all add: settle_automation_in_state_def execution_index_def container_task_index_def Let_def
         update_task_def)
  obtain used where u: "checked_add (rs_used_bytes s) (min RESERVE_FLOOR_BYTES
      (tk_reserved_bytes (rs_tasks s ! ti))) = Some used"
    using assms xi ti tl l r by (cases "checked_add (rs_used_bytes s) (min RESERVE_FLOOR_BYTES
      (tk_reserved_bytes (rs_tasks s ! ti)))")
      (simp_all add: settle_automation_in_state_def execution_index_def container_task_index_def Let_def
         update_task_def)
  have "rbind (release_ownership (settled_state s xi ti l reserved used e outcome ts)
      (xr_automation_id (rs_automation_executions s ! xi)) e)
      (\<lambda>s'. Ok (s', xr_summary (rs_automation_executions
         (settled_state s xi ti l reserved used e outcome ts) ! xi))) = Ok (s', summary)"
    using assms xi ti tl l r u
    by (simp add: settle_automation_in_state_def execution_index_def container_task_index_def Let_def
         update_task_def settled_state_def)
  then show thesis
    using that[OF xi ti l r u] by (auto simp: rbind_eq_Ok_iff)
qed

lemma settled_state_simps [simp]:
  "rs_tasks (settled_state s xi ti l rv us e outcome ts) = (rs_tasks s)[ti := (rs_tasks s ! ti)
     \<lparr>tk_lifecycle := l, tk_ended_at := Some ts,
      tk_result := auto_outcome_result outcome (xr_automation_id (rs_automation_executions s ! xi)) e,
      tk_error := auto_outcome_error outcome\<rparr>]"
  "rs_reserved_bytes (settled_state s xi ti l rv us e outcome ts) = rv"
  "rs_used_bytes (settled_state s xi ti l rv us e outcome ts) = us"
  "rs_synchronous_executions (settled_state s xi ti l rv us e outcome ts) = rs_synchronous_executions s"
  "rs_dedup (settled_state s xi ti l rv us e outcome ts) = rs_dedup s"
  "rs_automations (settled_state s xi ti l rv us e outcome ts) = rs_automations s"
  "rs_retained_mutations (settled_state s xi ti l rv us e outcome ts) = rs_retained_mutations s"
  "rs_revision (settled_state s xi ti l rv us e outcome ts) = rs_revision s"
  by (simp_all add: settled_state_def update_execution_def update_task_def)

section \<open>Reservations stay accounted\<close>

lemma settle_automation_accounted:
  assumes "accounted s" and "settle_automation_in_state s e outcome ts = Ok (s', summary)"
  shows "accounted s'"
proof -
  from assms(2) obtain xi ti l reserved used where
    ti: "position (\<lambda>t. tk_execution_id t = e \<and> is_container t) (rs_tasks s) = Some ti"
    and l: "settle_lifecycle (tk_lifecycle (rs_tasks s ! ti)) outcome = Ok l"
    and r: "checked_sub (rs_reserved_bytes s) (tk_reserved_bytes (rs_tasks s ! ti)) = Some reserved"
    and rel: "release_ownership (settled_state s xi ti l reserved used e outcome ts)
       (xr_automation_id (rs_automation_executions s ! xi)) e = Ok s'"
    by (rule settle_automation_Ok)
  let ?t = "(rs_tasks s ! ti)\<lparr>tk_lifecycle := l, tk_ended_at := Some ts,
      tk_result := auto_outcome_result outcome (xr_automation_id (rs_automation_executions s ! xi)) e,
      tk_error := auto_outcome_error outcome\<rparr>"
  have tl: "ti < length (rs_tasks s)" using ti by (rule position_SomeD)
  have old: "task_reservation (rs_tasks s ! ti) = unat (tk_reserved_bytes (rs_tasks s ! ti))"
    and new: "task_reservation ?t = 0"
    using settle_lifecycle_terminal[OF l] by (simp_all add: task_reservation_def tk_is_terminal_def)
  have "reservations (settled_state s xi ti l reserved used e outcome ts)
      + unat (tk_reserved_bytes (rs_tasks s ! ti)) = reservations s"
    using reservations_update_task[OF tl, of ?t] old new by (simp add: reservations_def)
  then have "accounted (settled_state s xi ti l reserved used e outcome ts)"
    using assms(1) unat_checked_sub[OF r] by (simp add: accounted_def)
  with same_core_accounted[OF release_ownership_frame[OF rel]] show ?thesis by simp
qed

lemma interrupt_executions_accounted:
  "accounted s \<Longrightarrow> interrupt_executions s es ts = Ok s' \<Longrightarrow> accounted s'"
proof (induction s es ts rule: interrupt_executions.induct)
  case (1 s ts)
  then show ?case by simp
next
  case (2 s e es ts)
  obtain s1 sm where s1: "settle_automation_in_state s e (AutoOutcomeInterrupted host_lost_error) ts = Ok (s1, sm)"
    and rest: "interrupt_executions s1 es ts = Ok s'"
    using "2.prems"(2) by (auto simp: rbind_eq_Ok_iff)
  show ?case
    using "2.IH"[of "(s1, sm)" s1 sm] s1 rest settle_automation_accounted[OF "2.prems"(1) s1] by simp
qed

lemma reserve_admission_capacity_Ok:
  assumes "reserve_admission_capacity s = Ok s'"
  shows "s' = s\<lparr>rs_used_bytes := rs_used_bytes s', rs_reserved_bytes := rs_reserved_bytes s'\<rparr>"
    and "unat (rs_used_bytes s') = unat (rs_used_bytes s) + 3072"
    and "unat (rs_reserved_bytes s') = unat (rs_reserved_bytes s) + 16384"
    and "unat (rs_used_bytes s') + unat (rs_reserved_bytes s') \<le> unat STORE_LIMIT_BYTES"
    and "length (filter (\<lambda>t. tk_state t \<in> {TaskCreated, TaskQueued}) (rs_tasks s)) < MAX_QUEUED_TASKS"
    and "length (filter (\<lambda>x. \<not> xr_is_terminal x) (rs_automation_executions s))
           < MAX_NON_TERMINAL_AUTOMATION_EXECUTIONS"
proof -
  have room: "length (filter (\<lambda>t. tk_state t \<in> {TaskCreated, TaskQueued}) (rs_tasks s)) < MAX_QUEUED_TASKS"
    "length (filter (\<lambda>x. \<not> xr_is_terminal x) (rs_automation_executions s))
       < MAX_NON_TERMINAL_AUTOMATION_EXECUTIONS"
    using assms by (auto simp: reserve_admission_capacity_def Let_def split: if_splits)
  obtain a b c where a: "checked_add (rs_used_bytes s) (rs_reserved_bytes s) = Some a"
    and b: "checked_add a (TASK_RECORD_BYTES + AUTOMATION_EXECUTION_RECORD_BYTES) = Some b"
    and c: "checked_add b RESERVE_FLOOR_BYTES = Some c" "c \<le> STORE_LIMIT_BYTES"
    and s': "s' = s\<lparr>rs_used_bytes := rs_used_bytes s + (TASK_RECORD_BYTES + AUTOMATION_EXECUTION_RECORD_BYTES),
               rs_reserved_bytes := rs_reserved_bytes s + RESERVE_FLOOR_BYTES\<rparr>"
    using assms
    by (auto simp: reserve_admission_capacity_def Let_def total_committed_and_reserved_def rbind_eq_Ok_iff
        bind_eq_Some_conv not_less split: if_splits)
  have sums: "unat a = unat (rs_used_bytes s) + unat (rs_reserved_bytes s)" "unat b = unat a + 3072"
    "unat c = unat b + 16384" "unat c \<le> 8388608"
    using unat_checked_add[OF a] unat_checked_add[OF b] unat_checked_add[OF c(1)] c(2)
    by (simp_all add: word_le_nat_alt)
  show "s' = s\<lparr>rs_used_bytes := rs_used_bytes s', rs_reserved_bytes := rs_reserved_bytes s'\<rparr>"
    by (simp add: s')
  show u: "unat (rs_used_bytes s') = unat (rs_used_bytes s) + 3072"
    and r: "unat (rs_reserved_bytes s') = unat (rs_reserved_bytes s) + 16384"
    using sums by (simp_all add: s' unat_word_ariths)
  show "unat (rs_used_bytes s') + unat (rs_reserved_bytes s') \<le> unat STORE_LIMIT_BYTES"
    using sums u r by simp
  show "length (filter (\<lambda>t. tk_state t \<in> {TaskCreated, TaskQueued}) (rs_tasks s)) < MAX_QUEUED_TASKS"
    "length (filter (\<lambda>x. \<not> xr_is_terminal x) (rs_automation_executions s))
       < MAX_NON_TERMINAL_AUTOMATION_EXECUTIONS"
    by (fact room)+
qed

lemma reserve_admission_frame:
  assumes "reserve_admission_capacity s = Ok s'"
  shows "rs_tasks s' = rs_tasks s \<and> rs_synchronous_executions s' = rs_synchronous_executions s
    \<and> rs_automations s' = rs_automations s \<and> rs_automation_executions s' = rs_automation_executions s
    \<and> rs_dedup s' = rs_dedup s \<and> rs_retained_mutations s' = rs_retained_mutations s
    \<and> rs_revision s' = rs_revision s"
  by (subst (1 2 3 4 5 6 7) reserve_admission_capacity_Ok(1)[OF assms]) simp

text \<open>A created execution: its record, its queued container Task and its hold on the Automation.\<close>

definition container_task ::
  "capability_snapshot \<Rightarrow> automation_id \<Rightarrow> execution_id \<Rightarrow> task_id \<Rightarrow> string \<Rightarrow> ('p, 'r) task_record" where
  "container_task capability automation_id execution_id task_id timestamp =
     \<lparr>tk_task_id = task_id, tk_execution_id = execution_id,
      tk_lifecycle = \<lparr>tl_state = TaskQueued, tl_cancel_requested = False\<rparr>,
      tk_tool = ToolAutomation, tk_action = AUTOMATION_EXECUTION_ACTION,
      tk_created_at = timestamp, tk_started_at = None, tk_ended_at = None,
      tk_waiting_reason = None,
      tk_origin = OriginAutomationExecution automation_id (fence_of (cs_fence capability)),
      tk_result = None, tk_error = None, tk_reserved_bytes = RESERVE_FLOOR_BYTES\<rparr>"

definition queued_summary :: "execution_id \<Rightarrow> task_id \<Rightarrow> string \<Rightarrow> automation_execution_summary" where
  "queued_summary execution_id task_id triggered_at =
     \<lparr>es_execution_id = execution_id, es_task_id = task_id, es_state = AutoQueued,
      es_triggered_at = triggered_at, es_started_at = None, es_ended_at = None, es_error_code = None\<rparr>"

lemma create_execution_Ok:
  assumes "create_execution s cap ids i trig ts facts = Ok (s', x)"
  obtains e t s1 where "ids = (Some e, Some t)" "cc_readiness (cs_context cap) = Ready"
    "reserve_admission_capacity s = Ok s1"
    "s' = update_automation i (\<lambda>r. r\<lparr>ar_active_execution_id := Some e\<rparr>)
       (s1\<lparr>rs_tasks := rs_tasks s @ [container_task cap
             (au_automation_id (ar_automation (rs_automations s ! i))) e t ts],
           rs_automation_executions := rs_automation_executions s @
             [\<lparr>xr_automation_id = au_automation_id (ar_automation (rs_automations s ! i)),
               xr_summary = queued_summary e t trig\<rparr>]\<rparr>)"
    "aae_summary x = queued_summary e t trig"
proof -
  have ready: "cc_readiness (cs_context cap) = Ready"
    using assms by (auto simp: create_execution_def split: if_splits)
  obtain s1 where s1: "reserve_admission_capacity s = Ok s1"
    using assms ready by (cases "reserve_admission_capacity s") (simp_all add: create_execution_def Let_def)
  obtain e where e: "fst ids = Some e"
    using assms ready s1 by (cases "fst ids") (simp_all add: create_execution_def Let_def new_uuid_def)
  obtain t where t: "snd ids = Some t"
    using assms ready s1 e by (cases "snd ids") (simp_all add: create_execution_def Let_def new_uuid_def)
  have frame: "rs_tasks s1 = rs_tasks s" "rs_automation_executions s1 = rs_automation_executions s"
    using reserve_admission_frame[OF s1] by simp_all
  show thesis
  proof (rule that)
    show "ids = (Some e, Some t)" using e t by (cases ids) simp
    show "s' = update_automation i (\<lambda>r. r\<lparr>ar_active_execution_id := Some e\<rparr>)
       (s1\<lparr>rs_tasks := rs_tasks s @ [container_task cap
             (au_automation_id (ar_automation (rs_automations s ! i))) e t ts],
           rs_automation_executions := rs_automation_executions s @
             [\<lparr>xr_automation_id = au_automation_id (ar_automation (rs_automations s ! i)),
               xr_summary = queued_summary e t trig\<rparr>]\<rparr>)"
      "aae_summary x = queued_summary e t trig"
      using assms ready s1 e t frame
      by (auto simp: create_execution_def Let_def new_uuid_def apply_queue_new container_task_def
          queued_summary_def)
  qed (use ready s1 in simp_all)
qed

lemma create_execution_accounted:
  assumes "accounted s" and "create_execution s cap ids i trig ts facts = Ok (s', x)"
  shows "accounted s'"
  using assms(2)
proof (rule create_execution_Ok)
  fix e t s1
  let ?c = "container_task cap (au_automation_id (ar_automation (rs_automations s ! i))) e t ts"
  assume s1: "reserve_admission_capacity s = Ok s1"
    and s': "s' = update_automation i (\<lambda>r. r\<lparr>ar_active_execution_id := Some e\<rparr>)
       (s1\<lparr>rs_tasks := rs_tasks s @ [?c],
           rs_automation_executions := rs_automation_executions s @
             [\<lparr>xr_automation_id = au_automation_id (ar_automation (rs_automations s ! i)),
               xr_summary = queued_summary e t trig\<rparr>]\<rparr>)"
  have "task_reservation ?c = 16384"
    by (simp add: task_reservation_def tk_is_terminal_iff container_task_def tk_state_def)
  moreover have "rs_synchronous_executions s1 = rs_synchronous_executions s"
    using reserve_admission_frame[OF s1] by simp
  ultimately show ?thesis
    using assms(1) reserve_admission_capacity_Ok(3)[OF s1]
    by (simp add: s' accounted_def reservations_def update_automation_def)
qed

lemma admit_due_accounted:
  assumes "accounted s" and "admit_due ck nd s cap ids a ts now = Ok (s', d, ch)"
  shows "accounted s'"
proof (cases "position (\<lambda>r. ar_deleted_at r = None \<and> au_automation_id (ar_automation r) = a) (rs_automations s)")
  case None
  with assms show ?thesis by (simp add: admit_due_def)
next
  case (Some i)
  have "accounted (update_automation i f s1)" if "create_execution s cap ids i trig ts facts = Ok (s1, x)"
    for s1 x f trig facts
    using create_execution_accounted[OF assms(1) that]
    by (simp add: same_core_accounted[OF same_core_updates(4)])
  with Some assms show ?thesis
    by (auto simp: admit_due_def Let_def rbind_eq_Ok_iff split: option.splits if_splits sum.splits)
qed

lemma admit_requested_accounted:
  assumes "accounted s" and "admit_requested s cap ids a ts = Ok (s', d, ch)"
  shows "accounted s'"
proof (cases "position (\<lambda>r. au_automation_id (ar_automation r) = a \<and> ar_run_requested_at r \<noteq> None)
    (rs_automations s)")
  case None
  with assms show ?thesis by (simp add: admit_requested_def)
next
  case (Some i)
  have "accounted (update_automation i f s)" for f
    using assms(1) by (simp add: same_core_accounted[OF same_core_updates(4)])
  with Some assms(2) show ?thesis
    by (auto simp: admit_requested_def Let_def intro: create_execution_accounted split: if_splits sum.splits)
qed

lemma admit_event_accounted:
  assumes "accounted s" and "admit_event s cap ids a ev facts ts = Ok (s', d, ch)"
  shows "accounted s'"
proof (cases "position (\<lambda>r. au_automation_id (ar_automation r) = a \<and> accepts_event r ev facts)
    (rs_automations s)")
  case None
  with assms show ?thesis by (simp add: admit_event_def)
next
  case (Some i)
  with assms create_execution_accounted show ?thesis
    by (auto simp: admit_event_def intro: create_execution_accounted split: if_splits sum.splits)
qed

lemma start_execution_Ok:
  assumes "start_execution s e ts = Ok (s', summary)"
  obtains xi ti l where
    "position (\<lambda>x. es_execution_id (xr_summary x) = e) (rs_automation_executions s) = Some xi"
    "es_state (xr_summary (rs_automation_executions s ! xi)) = AutoQueued"
    "position (\<lambda>t. tk_execution_id t = e \<and> is_container t) (rs_tasks s) = Some ti"
    "\<not> tl_cancel_requested (tk_lifecycle (rs_tasks s ! ti))"
    "lifecycle_apply (tk_lifecycle (rs_tasks s ! ti)) EvStart = Ok l"
    "s' = update_execution xi (\<lambda>x. x\<lparr>es_state := AutoRunning, es_started_at := Some ts\<rparr>)
       (update_task ti (\<lambda>t. t\<lparr>tk_lifecycle := l, tk_started_at := Some ts\<rparr>) s)"
  using assms
  by (auto simp: start_execution_def execution_index_def container_task_index_def rbind_eq_Ok_iff Let_def
      split: if_splits)

lemma start_execution_accounted:
  assumes "accounted s" and "start_execution s e ts = Ok (s', summary)"
  shows "accounted s'"
  using assms(2)
proof (rule start_execution_Ok)
  fix xi ti l
  assume ti: "position (\<lambda>t. tk_execution_id t = e \<and> is_container t) (rs_tasks s) = Some ti"
    and l: "lifecycle_apply (tk_lifecycle (rs_tasks s ! ti)) EvStart = Ok l"
    and s': "s' = update_execution xi (\<lambda>x. x\<lparr>es_state := AutoRunning, es_started_at := Some ts\<rparr>)
       (update_task ti (\<lambda>t. t\<lparr>tk_lifecycle := l, tk_started_at := Some ts\<rparr>) s)"
  have len: "ti < length (rs_tasks s)" using ti by (rule position_SomeD)
  have "\<not> lifecycle_is_terminal (tk_lifecycle (rs_tasks s ! ti))" "\<not> lifecycle_is_terminal l"
    using l by (auto simp: lifecycle_apply_defs split: if_splits)
  then have "task_reservation ((rs_tasks s ! ti)\<lparr>tk_lifecycle := l, tk_started_at := Some ts\<rparr>)
      = task_reservation (rs_tasks s ! ti)"
    by (simp add: task_reservation_def tk_is_terminal_def)
  then have "reservations s' = reservations s"
    using sum_list_update_nat[OF len, of task_reservation
        "(rs_tasks s ! ti)\<lparr>tk_lifecycle := l, tk_started_at := Some ts\<rparr>"]
    by (simp add: s' reservations_def update_execution_def update_task_def)
  with assms(1) show ?thesis
    by (simp add: accounted_def s' update_execution_def update_task_def)
qed

end
