(* ===== verification/Execution_Link.thy ===== *)
theory Execution_Link
  imports Automation_Exec
begin

text \<open>
  The invariant of the Automation engine's canonical state: an AutomationExecution, its container
  Task and the Automation that owns it always advance together. Every transition of
  \<open>automation_execution.rs\<close> preserves it; a new execution needs fresh identities for that.
\<close>

section \<open>The invariant\<close>

abbreviation eid :: "automation_execution_record \<Rightarrow> execution_id" where
  "eid x \<equiv> es_execution_id (xr_summary x)"

abbreviation aid :: "automation_record \<Rightarrow> automation_id" where
  "aid r \<equiv> au_automation_id (ar_automation r)"

definition container_of :: "('p, 'r) task_record \<Rightarrow> automation_execution_record \<Rightarrow> bool" where
  "container_of t x \<longleftrightarrow> is_container t \<and> tk_execution_id t = eid x
     \<and> tk_state t = (if es_state (xr_summary x) = AutoQueued then TaskQueued else TaskRunning)"

definition links ::
  "('p, 'r) task_record set \<Rightarrow> automation_execution_record set \<Rightarrow> automation_record set \<Rightarrow> bool" where
  "links T X R \<longleftrightarrow>
     (\<forall>x\<in>X. \<not> xr_is_terminal x \<longrightarrow>
        (\<exists>r\<in>R. aid r = xr_automation_id x \<and> ar_active_execution_id r = Some (eid x))
        \<and> (\<exists>t\<in>T. container_of t x)) \<and>
     (\<forall>r\<in>R. \<forall>e. ar_active_execution_id r = Some e \<longrightarrow>
        (\<exists>x\<in>X. eid x = e \<and> xr_automation_id x = aid r \<and> \<not> xr_is_terminal x)) \<and>
     (\<forall>t\<in>T. is_container t \<and> \<not> tk_is_terminal t \<longrightarrow>
        (\<exists>x\<in>X. eid x = tk_execution_id t \<and> \<not> xr_is_terminal x))"

definition execution_linked :: "('p, 'r, 'j) runtime_state \<Rightarrow> bool" where
  "execution_linked s \<longleftrightarrow>
     distinct (map eid (rs_automation_executions s)) \<and> distinct (map aid (rs_automations s)) \<and>
     distinct (map tk_execution_id (rs_tasks s)) \<and>
     links (set (rs_tasks s)) (set (rs_automation_executions s)) (set (rs_automations s))"

lemma execution_linked_default: "execution_linked runtime_state_default"
  by (simp add: execution_linked_def links_def runtime_state_default_def)

lemma links_owner:
  assumes "links T X R" and "x \<in> X" and "\<not> xr_is_terminal x"
  obtains r where "r \<in> R" "aid r = xr_automation_id x" "ar_active_execution_id r = Some (eid x)"
  using assms unfolding links_def by blast

lemma links_container:
  assumes "links T X R" and "x \<in> X" and "\<not> xr_is_terminal x"
  obtains t where "t \<in> T" "container_of t x"
  using assms unfolding links_def by blast

lemma links_active:
  assumes "links T X R" and "r \<in> R" and "ar_active_execution_id r = Some e"
  obtains x where "x \<in> X" "eid x = e" "xr_automation_id x = aid r" "\<not> xr_is_terminal x"
  using assms unfolding links_def by blast

lemma links_task:
  assumes "links T X R" and "t \<in> T" and "is_container t" and "\<not> tk_is_terminal t"
  obtains x where "x \<in> X" "eid x = tk_execution_id t" "\<not> xr_is_terminal x"
  using assms unfolding links_def by blast

section \<open>Settlement\<close>

text \<open>
  Settling the execution \<open>e\<close> of the Automation \<open>r0\<close>: its Task and its record become terminal, and
  the Automation gives it up or disappears with its history.
\<close>

lemma links_settle:
  assumes L: "links T X R" and inj: "inj_on aid R"
    and r0: "r0 \<in> R" "ar_active_execution_id r0 = Some e"
    and T': "T' = insert t' {t \<in> T. tk_execution_id t \<noteq> e}" and t': "tk_is_terminal t'"
    and X': "X' \<subseteq> insert x' {x \<in> X. eid x \<noteq> e}" and x': "xr_is_terminal x'"
    and keep: "\<And>x. x \<in> X \<Longrightarrow> eid x \<noteq> e \<Longrightarrow> \<not> xr_is_terminal x \<Longrightarrow>
        xr_automation_id x \<noteq> aid r0 \<Longrightarrow> x \<in> X'"
    and R': "{r \<in> R. aid r \<noteq> aid r0} \<subseteq> R'"
      "\<And>r. r \<in> R' \<Longrightarrow> ar_active_execution_id r = None \<or> r \<in> R \<and> aid r \<noteq> aid r0"
    and x0: "\<And>x. x \<in> X \<Longrightarrow> eid x = e \<Longrightarrow> xr_automation_id x = aid r0"
  shows "links T' X' R'"
proof -
  have other: "xr_automation_id x \<noteq> aid r0" if x: "x \<in> X" "\<not> xr_is_terminal x" "eid x \<noteq> e" for x
  proof
    assume a: "xr_automation_id x = aid r0"
    obtain r where r: "r \<in> R" "aid r = xr_automation_id x" "ar_active_execution_id r = Some (eid x)"
      using links_owner[OF L x(1,2)] by blast
    then have "r = r0" using inj r0(1) a by (auto dest: inj_onD)
    with r r0(2) x(3) show False by simp
  qed
  have "\<exists>r\<in>R'. aid r = xr_automation_id x \<and> ar_active_execution_id r = Some (eid x)"
    "\<exists>t\<in>T'. container_of t x" if x: "x \<in> X'" "\<not> xr_is_terminal x" for x
  proof -
    have xX: "x \<in> X" "eid x \<noteq> e" using x X' x' by auto
    obtain r where r: "r \<in> R" "aid r = xr_automation_id x" "ar_active_execution_id r = Some (eid x)"
      using links_owner[OF L xX(1) x(2)] by blast
    with other[OF xX(1) x(2) xX(2)] R'(1)
    show "\<exists>r\<in>R'. aid r = xr_automation_id x \<and> ar_active_execution_id r = Some (eid x)" by auto
    obtain t where t: "t \<in> T" "container_of t x" using links_container[OF L xX(1) x(2)] by blast
    then have "t \<in> T'" using xX(2) by (simp add: T' container_of_def)
    with t show "\<exists>t\<in>T'. container_of t x" by blast
  qed
  moreover have "\<exists>x\<in>X'. eid x = e' \<and> xr_automation_id x = aid r \<and> \<not> xr_is_terminal x"
    if r: "r \<in> R'" "ar_active_execution_id r = Some e'" for r e'
  proof -
    have rR: "r \<in> R" "aid r \<noteq> aid r0" using R'(2)[OF r(1)] r(2) by auto
    obtain x where x: "x \<in> X" "eid x = e'" "xr_automation_id x = aid r" "\<not> xr_is_terminal x"
      using links_active[OF L rR(1) r(2)] by blast
    then have "eid x \<noteq> e" using x0 rR(2) by force
    with x rR(2) keep show ?thesis by auto
  qed
  moreover have "\<exists>x\<in>X'. eid x = tk_execution_id t \<and> \<not> xr_is_terminal x"
    if t: "t \<in> T'" "is_container t" "\<not> tk_is_terminal t" for t
  proof -
    have tT: "t \<in> T" "tk_execution_id t \<noteq> e" using t t' by (auto simp: T')
    obtain x where x: "x \<in> X" "eid x = tk_execution_id t" "\<not> xr_is_terminal x"
      using links_task[OF L tT(1) t(2,3)] by blast
    with tT(2) other keep show ?thesis by auto
  qed
  ultimately show ?thesis unfolding links_def by blast
qed

text \<open>Pruning the history removes settled executions only.\<close>

lemma pruned_executions_terminal:
  assumes "k \<in> set (pruned_executions xs a)"
  shows "\<exists>x\<in>set xs. xr_is_terminal x \<and> as_str (eid x) = k"
proof -
  have sub: "set (take n ys) \<subseteq> set ys" for n and ys :: "(string \<times> string) list"
    by (rule set_take_subset)
  show ?thesis
    using assms unfolding pruned_executions_def Let_def
    by (auto simp: history_key_def dest!: sub[THEN subsetD])
qed

lemma prune_execution_history_sets:
  assumes "distinct (map eid (rs_automation_executions s))"
  shows "distinct (map eid (rs_automation_executions (prune_execution_history s a)))"
    and "set (rs_automation_executions (prune_execution_history s a)) \<subseteq> set (rs_automation_executions s)"
    and "\<And>x. x \<in> set (rs_automation_executions s) \<Longrightarrow> \<not> xr_is_terminal x \<Longrightarrow>
           x \<in> set (rs_automation_executions (prune_execution_history s a))"
    and "rs_automations (prune_execution_history s a) = rs_automations s"
proof -
  let ?X = "rs_automation_executions s"
  have X: "rs_automation_executions (prune_execution_history s a) =
      filter (\<lambda>x. as_str (eid x) \<notin> set (pruned_executions ?X a)) ?X"
    by (cases "pruned_executions ?X a")
      (simp_all add: prune_execution_history_def Let_def release_execution_bytes_def)
  show "distinct (map eid (rs_automation_executions (prune_execution_history s a)))"
    using assms by (simp add: X distinct_map_filter)
  show "set (rs_automation_executions (prune_execution_history s a)) \<subseteq> set ?X"
    by (auto simp: X)
  show "rs_automations (prune_execution_history s a) = rs_automations s"
    by (simp add: prune_execution_history_def Let_def release_execution_bytes_def)
  fix x assume x: "x \<in> set ?X" "\<not> xr_is_terminal x"
  have "as_str (eid x) \<notin> set (pruned_executions ?X a)"
  proof
    assume "as_str (eid x) \<in> set (pruned_executions ?X a)"
    then obtain y where y: "y \<in> set ?X" "xr_is_terminal y" "eid y = eid x"
      using pruned_executions_terminal by fastforce
    have "inj_on eid (set ?X)" using assms by (simp add: distinct_map)
    with x(1) y(1,3) have "y = x" by (auto dest: inj_onD)
    with x(2) y(2) show False by simp
  qed
  with x(1) show "x \<in> set (rs_automation_executions (prune_execution_history s a))" by (simp add: X)
qed

lemma release_ownership_cases:
  assumes "release_ownership s a e = Ok s'"
  obtains i where "i < length (rs_automations s)" "aid (rs_automations s ! i) = a"
    "ar_active_execution_id (rs_automations s ! i) = Some e"
    "ar_deleted_at (rs_automations s ! i) \<noteq> None"
    "rs_automations s' = take i (rs_automations s) @ drop (Suc i) (rs_automations s)"
    "rs_automation_executions s' = filter (\<lambda>x. xr_automation_id x \<noteq> a) (rs_automation_executions s)"
  | i where "i < length (rs_automations s)" "aid (rs_automations s ! i) = a"
    "ar_active_execution_id (rs_automations s ! i) = Some e"
    "ar_deleted_at (rs_automations s ! i) = None"
    "s' = prune_execution_history
       (update_automation i (\<lambda>r. r\<lparr>ar_active_execution_id := None\<rparr>) s) a"
proof -
  obtain i where i: "position (\<lambda>r. aid r = a) (rs_automations s) = Some i"
    using assms by (auto simp: release_ownership_def rbind_eq_Ok_iff)
  have act: "ar_active_execution_id (rs_automations s ! i) = Some e"
    using assms i by (auto simp: release_ownership_def split: if_splits)
  note p = position_SomeD[OF i]
  show thesis
  proof (cases "ar_deleted_at (rs_automations s ! i)")
    case None
    with assms i act have "s' = prune_execution_history
       (update_automation i (\<lambda>r. r\<lparr>ar_active_execution_id := None\<rparr>) s) a"
      by (simp add: release_ownership_def)
    with None p act show thesis by (intro that(2)) simp_all
  next
    case (Some d)
    with assms i act have "s' = release_execution_bytes (s\<lparr>rs_automations :=
        take i (rs_automations s) @ drop (Suc i) (rs_automations s),
        rs_automation_executions := filter (\<lambda>x. xr_automation_id x \<noteq> a) (rs_automation_executions s)\<rparr>)
        (length (rs_automation_executions s))"
      by (simp add: release_ownership_def Let_def)
    with Some p act show thesis by (intro that(1)) (simp_all add: release_execution_bytes_def)
  qed
qed

lemma settled_state_executions:
  "rs_automation_executions (settled_state s xi ti l rv us e outcome ts) =
     (rs_automation_executions s)[xi := (rs_automation_executions s ! xi)\<lparr>xr_summary :=
        (xr_summary (rs_automation_executions s ! xi))\<lparr>es_state := auto_outcome_state outcome,
          es_ended_at := Some ts,
          es_error_code := map_option (\<lambda>e. error_code_token (pe_code e)) (auto_outcome_error outcome)\<rparr>\<rparr>]"
  by (simp add: settled_state_def update_execution_def update_task_def)

lemma auto_outcome_terminal [simp]: "auto_state_is_terminal (auto_outcome_state outcome)"
  by (cases outcome) simp_all

lemma settle_automation_linked:
  assumes L: "execution_linked s" and settle: "settle_automation_in_state s e outcome ts = Ok (s', summary)"
  shows "execution_linked s'"
  using settle
proof (rule settle_automation_Ok)
  fix xi ti l rv us
  let ?X = "rs_automation_executions s" and ?T = "rs_tasks s" and ?R = "rs_automations s"
  let ?s1 = "settled_state s xi ti l rv us e outcome ts"
  let ?A = "xr_automation_id (?X ! xi)"
  assume xi: "position (\<lambda>x. eid x = e) ?X = Some xi" "\<not> xr_is_terminal (?X ! xi)"
    and ti: "position (\<lambda>t. tk_execution_id t = e \<and> is_container t) ?T = Some ti"
    and l: "settle_lifecycle (tk_lifecycle (?T ! ti)) outcome = Ok l"
    and rel: "release_ownership ?s1 ?A e = Ok s'"
  note xl = position_SomeD[OF xi(1)] and tl = position_SomeD[OF ti]
  have D: "distinct (map eid ?X)" "distinct (map aid ?R)" "distinct (map tk_execution_id ?T)"
    and L: "links (set ?T) (set ?X) (set ?R)"
    using L by (simp_all add: execution_linked_def)
  define t' where "t' = (?T ! ti)\<lparr>tk_lifecycle := l, tk_ended_at := Some ts,
      tk_result := auto_outcome_result outcome ?A e, tk_error := auto_outcome_error outcome\<rparr>"
  define x' where "x' = (?X ! xi)\<lparr>xr_summary := (xr_summary (?X ! xi))\<lparr>es_state := auto_outcome_state outcome,
      es_ended_at := Some ts,
      es_error_code := map_option (\<lambda>e. error_code_token (pe_code e)) (auto_outcome_error outcome)\<rparr>\<rparr>"
  have T1: "rs_tasks ?s1 = ?T[ti := t']" and X1: "rs_automation_executions ?s1 = ?X[xi := x']"
    by (simp_all add: t'_def x'_def settled_state_executions)
  have t': "tk_is_terminal t'" "tk_execution_id t' = e"
    using settle_lifecycle_terminal[OF l] tl by (simp_all add: t'_def tk_is_terminal_def)
  have x': "xr_is_terminal x'" "eid x' = e" "xr_automation_id x' = ?A"
    using xl by (simp_all add: x'_def xr_is_terminal_def)
  have ST: "set (rs_tasks ?s1) = insert t' {t \<in> set ?T. tk_execution_id t \<noteq> e}"
    unfolding T1 using set_update_key[OF D(3) tl(1)] tl by simp
  have SX: "set (rs_automation_executions ?s1) = insert x' {x \<in> set ?X. eid x \<noteq> e}"
    unfolding X1 using set_update_key[OF D(1) xl(1)] xl by simp
  have DT: "distinct (map tk_execution_id (rs_tasks ?s1))"
    unfolding T1 using D(3) t'(2) tl by (intro distinct_map_update) simp_all
  have DX: "distinct (map eid (rs_automation_executions ?s1))"
    unfolding X1 using D(1) x'(2) xl by (intro distinct_map_update) simp_all
  have inj: "inj_on aid (set ?R)" using D(2) by (simp add: distinct_map)
  have x0: "xr_automation_id x = ?A" if "x \<in> set ?X" "eid x = e" for x
    using nth_key_eq[OF D(1) xl(1) that(1)] that(2) xl(2) by simp
  have tasks': "rs_tasks s' = rs_tasks ?s1" using release_ownership_frame[OF rel] by (simp add: same_core_def)
  show ?thesis
    using rel
  proof (cases rule: release_ownership_cases)
    case (1 i)
    have i: "i < length ?R" "aid (?R ! i) = ?A" "ar_active_execution_id (?R ! i) = Some e"
      using 1 by simp_all
    have R': "set (rs_automations s') = {r \<in> set ?R. aid r \<noteq> aid (?R ! i)}"
      using set_remove_key[OF D(2) i(1)] 1(5) by simp
    have X': "set (rs_automation_executions s') = {x \<in> set (rs_automation_executions ?s1). xr_automation_id x \<noteq> ?A}"
      by (auto simp: 1(6))
    have "links (set (rs_tasks s')) (set (rs_automation_executions s')) (set (rs_automations s'))"
      unfolding tasks'
      by (rule links_settle[OF L inj nth_mem[OF i(1)] i(3) ST t'(1) _ x'(1)])
        (use i(2) x0 in \<open>auto simp: X' SX R'\<close>)
    then show ?thesis
      using DT DX D(2) by (simp add: execution_linked_def tasks' 1(5,6) distinct_map_filter distinct_map_remove
          del: map_append)
  next
    case (2 i)
    let ?s2 = "update_automation i (\<lambda>r. r\<lparr>ar_active_execution_id := None\<rparr>) ?s1"
    have i: "i < length ?R" "aid (?R ! i) = ?A" "ar_active_execution_id (?R ! i) = Some e"
      using 2 by simp_all
    have X2: "rs_automation_executions ?s2 = rs_automation_executions ?s1"
      by (simp add: update_automation_def)
    have R2: "rs_automations ?s2 = ?R[i := (?R ! i)\<lparr>ar_active_execution_id := None\<rparr>]"
      by (simp add: update_automation_def)
    note p = prune_execution_history_sets[where s = ?s2 and a = ?A, unfolded X2, OF DX, folded 2(5)]
    have R': "set (rs_automations s') = insert ((?R ! i)\<lparr>ar_active_execution_id := None\<rparr>)
        {r \<in> set ?R. aid r \<noteq> aid (?R ! i)}"
      using set_update_key[OF D(2) i(1)] by (simp add: p(4) R2)
    have "links (set (rs_tasks s')) (set (rs_automation_executions s')) (set (rs_automations s'))"
      unfolding tasks'
      by (rule links_settle[OF L inj nth_mem[OF i(1)] i(3) ST t'(1) _ x'(1)])
        (use i(2) x0 p(2,3) in \<open>auto simp: SX R'\<close>)
    moreover have "distinct (map aid (rs_automations s'))"
      unfolding p(4) R2 using D(2) by (intro distinct_map_update) simp_all
    ultimately show ?thesis
      using DT p(1) by (simp add: execution_linked_def tasks')
  qed
qed

lemma interrupt_executions_linked:
  "execution_linked s \<Longrightarrow> interrupt_executions s es ts = Ok s' \<Longrightarrow> execution_linked s'"
proof (induction s es ts rule: interrupt_executions.induct)
  case (1 s ts)
  then show ?case by simp
next
  case (2 s e es ts)
  obtain s1 sm where s1: "settle_automation_in_state s e (AutoOutcomeInterrupted host_lost_error) ts = Ok (s1, sm)"
    and rest: "interrupt_executions s1 es ts = Ok s'"
    using "2.prems"(2) by (auto simp: rbind_eq_Ok_iff)
  show ?case
    using "2.IH"[of "(s1, sm)" s1 sm] s1 rest settle_automation_linked[OF "2.prems"(1) s1] by simp
qed

section \<open>Changes to Tasks\<close>

text \<open>The links see of the Tasks only the identity and the state of the active containers.\<close>

definition active_containers :: "('p, 'r) task_record set \<Rightarrow> (uuid \<times> task_state) set" where
  "active_containers T =
     (\<lambda>t. (tk_execution_id t, tk_state t)) ` {t \<in> T. is_container t \<and> \<not> tk_is_terminal t}"

lemma links_containers:
  "links T X R \<longleftrightarrow>
     (\<forall>x\<in>X. \<not> xr_is_terminal x \<longrightarrow>
        (\<exists>r\<in>R. aid r = xr_automation_id x \<and> ar_active_execution_id r = Some (eid x))
        \<and> (eid x, if es_state (xr_summary x) = AutoQueued then TaskQueued else TaskRunning)
             \<in> active_containers T) \<and>
     (\<forall>r\<in>R. \<forall>e. ar_active_execution_id r = Some e \<longrightarrow>
        (\<exists>x\<in>X. eid x = e \<and> xr_automation_id x = aid r \<and> \<not> xr_is_terminal x)) \<and>
     (\<forall>e\<in>fst ` active_containers T. \<exists>x\<in>X. eid x = e \<and> \<not> xr_is_terminal x)"
proof -
  have c: "(\<exists>t\<in>T. container_of t x) \<longleftrightarrow>
      (eid x, if es_state (xr_summary x) = AutoQueued then TaskQueued else TaskRunning) \<in> active_containers T" for x
    by (auto simp: active_containers_def container_of_def tk_is_terminal_iff image_iff)
  have f: "(\<forall>e\<in>fst ` active_containers T. P e) \<longleftrightarrow>
      (\<forall>t\<in>T. is_container t \<and> \<not> tk_is_terminal t \<longrightarrow> P (tk_execution_id t))" for P
    by (auto simp: active_containers_def)
  show ?thesis unfolding links_def c f by simp
qed

lemma execution_linked_tasks:
  assumes "execution_linked s"
    and "active_containers (set (rs_tasks s')) = active_containers (set (rs_tasks s))"
    and "distinct (map tk_execution_id (rs_tasks s'))"
    and "rs_automation_executions s' = rs_automation_executions s" "rs_automations s' = rs_automations s"
  shows "execution_linked s'"
  using assms unfolding execution_linked_def links_containers by simp

lemma active_containers_insert:
  "active_containers (insert t T) =
     (if is_container t \<and> \<not> tk_is_terminal t
      then insert (tk_execution_id t, tk_state t) (active_containers T) else active_containers T)"
  by (auto simp: active_containers_def)

text \<open>Rewriting one Task whose container status it keeps.\<close>

lemma active_containers_update:
  assumes "distinct (map tk_execution_id ts)" and "i < length ts"
    and "tk_execution_id t = tk_execution_id (ts ! i)"
    and "is_container t \<and> \<not> tk_is_terminal t \<longleftrightarrow> is_container (ts ! i) \<and> \<not> tk_is_terminal (ts ! i)"
    and "is_container t \<Longrightarrow> \<not> tk_is_terminal t \<Longrightarrow> tk_state t = tk_state (ts ! i)"
  shows "active_containers (set (ts[i := t])) = active_containers (set ts)"
proof -
  have "set ts = insert (ts ! i) {u \<in> set ts. tk_execution_id u \<noteq> tk_execution_id (ts ! i)}"
    using nth_key_eq[OF assms(1,2)] nth_mem[OF assms(2)] by blast
  then have "active_containers (set ts) =
      active_containers (insert (ts ! i) {u \<in> set ts. tk_execution_id u \<noteq> tk_execution_id (ts ! i)})"
    by simp
  also have "\<dots> = active_containers (set (ts[i := t]))"
    unfolding set_update_key[OF assms(1,2)] active_containers_insert using assms(3,4,5) by auto
  finally show ?thesis by simp
qed

lemma active_containers_filter:
  assumes "\<And>t. t \<in> set ts \<Longrightarrow> \<not> P t \<Longrightarrow> tk_is_terminal t"
  shows "active_containers (set (filter P ts)) = active_containers (set ts)"
  using assms by (auto simp: active_containers_def)

section \<open>Admission and start\<close>

definition fresh_execution :: "('p, 'r, 'j) runtime_state \<Rightarrow> execution_id \<Rightarrow> bool" where
  "fresh_execution s e \<longleftrightarrow>
     e \<notin> eid ` set (rs_automation_executions s) \<and> e \<notin> tk_execution_id ` set (rs_tasks s)"

lemma create_execution_linked:
  fixes s :: "('p, 'r, 'j) runtime_state"
  assumes L: "execution_linked s" and i: "i < length (rs_automations s)"
    and idle: "ar_active_execution_id (rs_automations s ! i) = None"
    and fresh: "\<And>e. fst ids = Some e \<Longrightarrow> fresh_execution s e"
    and create: "create_execution s cap ids i trig ts facts = Ok (s', x)"
  shows "execution_linked s'"
  using create
proof (rule create_execution_Ok)
  fix e t s1
  let ?R = "rs_automations s" and ?X = "rs_automation_executions s" and ?T = "rs_tasks s"
  let ?c = "container_task cap (aid (?R ! i)) e t ts :: ('p, 'r) task_record"
  let ?x = "\<lparr>xr_automation_id = aid (?R ! i), xr_summary = queued_summary e t trig\<rparr>"
  let ?r = "(?R ! i)\<lparr>ar_active_execution_id := Some e\<rparr>"
  assume ids: "ids = (Some e, Some t)" and s1: "reserve_admission_capacity s = Ok s1"
    and s': "s' = update_automation i (\<lambda>r. r\<lparr>ar_active_execution_id := Some e\<rparr>)
       (s1\<lparr>rs_tasks := ?T @ [?c], rs_automation_executions := ?X @ [?x]\<rparr>)"
  have new: "e \<notin> eid ` set ?X" "e \<notin> tk_execution_id ` set ?T"
    using fresh ids by (auto simp: fresh_execution_def)
  have D: "distinct (map eid ?X)" "distinct (map aid ?R)" "distinct (map tk_execution_id ?T)"
    and L: "links (set ?T) (set ?X) (set ?R)"
    using L by (simp_all add: execution_linked_def)
  have parts: "rs_tasks s' = ?T @ [?c]" "rs_automation_executions s' = ?X @ [?x]"
    "rs_automations s' = ?R[i := ?r]"
    using reserve_admission_frame[OF s1] by (simp_all add: s' update_automation_def)
  have c: "is_container ?c" "\<not> tk_is_terminal ?c" "tk_execution_id ?c = e" "tk_state ?c = TaskQueued"
    by (simp_all add: container_task_def is_container_def tk_is_terminal_iff tk_state_def)
  have x: "eid ?x = e" "\<not> xr_is_terminal ?x" "es_state (xr_summary ?x) = AutoQueued"
    by (simp_all add: queued_summary_def xr_is_terminal_def)
  have R': "set (?R[i := ?r]) = insert ?r {r \<in> set ?R. aid r \<noteq> aid (?R ! i)}"
    using set_update_key[OF D(2) i] by simp
  have T': "active_containers (set (rs_tasks s')) = insert (e, TaskQueued) (active_containers (set ?T))"
    using c by (simp add: parts active_containers_insert)
  have old: "r \<in> {r \<in> set ?R. aid r \<noteq> aid (?R ! i)}"
    if "r \<in> set ?R" "ar_active_execution_id r = Some e'" for r e'
    using nth_key_eq[OF D(2) i that(1)] that(2) idle that(1) by auto
  have "links (set (rs_tasks s')) (set (rs_automation_executions s')) (set (rs_automations s'))"
    unfolding links_containers T'
  proof (intro conjI ballI allI impI)
    fix y assume y: "y \<in> set (rs_automation_executions s')" "\<not> xr_is_terminal y"
    have y': "y = ?x \<or> y \<in> set ?X" using y(1) by (auto simp: parts)
    show "\<exists>r\<in>set (rs_automations s'). aid r = xr_automation_id y \<and> ar_active_execution_id r = Some (eid y)"
    proof (cases "y = ?x")
      case True
      with x show ?thesis by (auto simp: parts R')
    next
      case False
      with y' have "y \<in> set ?X" by simp
      then obtain r where r: "r \<in> set ?R" "aid r = xr_automation_id y" "ar_active_execution_id r = Some (eid y)"
        using links_owner[OF L _ y(2)] by blast
      with old[OF r(1,3)] show ?thesis unfolding parts R' by blast
    qed
    show "(eid y, if es_state (xr_summary y) = AutoQueued then TaskQueued else TaskRunning)
        \<in> insert (e, TaskQueued) (active_containers (set ?T))"
      using y' y(2) L[unfolded links_containers] x by auto
  next
    fix r e' assume r: "r \<in> set (rs_automations s')" "ar_active_execution_id r = Some e'"
    show "\<exists>y\<in>set (rs_automation_executions s'). eid y = e' \<and> xr_automation_id y = aid r \<and> \<not> xr_is_terminal y"
    proof (cases "r = ?r")
      case True
      with r(2) x show ?thesis by (auto simp: parts)
    next
      case False
      with r have "r \<in> set ?R" by (auto simp: parts R')
      then show ?thesis using links_active[OF L _ r(2)] by (auto simp: parts)
    qed
  next
    fix e' assume "e' \<in> fst ` insert (e, TaskQueued) (active_containers (set ?T))"
    then consider "e' = e" | "e' \<in> fst ` active_containers (set ?T)" by auto
    then show "\<exists>y\<in>set (rs_automation_executions s'). eid y = e' \<and> \<not> xr_is_terminal y"
    proof cases
      case 1
      with x show ?thesis by (auto simp: parts)
    next
      case 2
      with L[unfolded links_containers] show ?thesis by (auto simp: parts)
    qed
  qed
  moreover have "distinct (map aid (rs_automations s'))"
    unfolding parts using D(2) by (intro distinct_map_update) simp_all
  moreover have "distinct (map tk_execution_id (rs_tasks s'))" "distinct (map eid (rs_automation_executions s'))"
    using D new c(3) x(1) by (simp_all add: parts)
  ultimately show ?thesis by (simp add: execution_linked_def)
qed

text \<open>The links see of an Automation record only its identity and its active execution.\<close>

lemma execution_linked_automations:
  fixes s :: "('a, 'b, 'c) runtime_state" and s' :: "('a, 'b, 'c) runtime_state"
  assumes "execution_linked s"
    and eq: "map (\<lambda>r. (aid r, ar_active_execution_id r)) (rs_automations s') =
         map (\<lambda>r. (aid r, ar_active_execution_id r)) (rs_automations s)"
    and "rs_tasks s' = rs_tasks s" "rs_automation_executions s' = rs_automation_executions s"
  shows "execution_linked s'"
proof -
  let ?h = "\<lambda>r. (aid r, ar_active_execution_id r)"
  have "map (fst \<circ> ?h) (rs_automations s') = map (fst \<circ> ?h) (rs_automations s)"
    using arg_cong[OF eq, of "map fst"] by simp
  then have ids: "map aid (rs_automations s') = map aid (rs_automations s)" by (simp add: comp_def)
  have sets: "?h ` set (rs_automations s') = ?h ` set (rs_automations s)"
    using arg_cong[OF eq, of set] by simp
  define Q where "Q T X P \<longleftrightarrow>
     (\<forall>x\<in>X. \<not> xr_is_terminal x \<longrightarrow>
        (xr_automation_id x, Some (eid x)) \<in> P \<and> (\<exists>t\<in>T. container_of t x)) \<and>
     (\<forall>p\<in>P. \<forall>e. snd p = Some e \<longrightarrow>
        (\<exists>x\<in>X. eid x = e \<and> xr_automation_id x = fst p \<and> \<not> xr_is_terminal x)) \<and>
     (\<forall>t\<in>T. is_container t \<and> \<not> tk_is_terminal t \<longrightarrow>
        (\<exists>x\<in>X. eid x = tk_execution_id t \<and> \<not> xr_is_terminal x))" for T :: "('a, 'b) task_record set" and X P
  have Q: "links T X R = Q T X (?h ` R)" for T :: "('a, 'b) task_record set" and X R
    unfolding links_def Q_def by (simp add: image_iff eq_commute conj_commute)
  show ?thesis
    using assms(1) unfolding execution_linked_def Q sets ids assms(3,4) .
qed

lemma linked_update_automation:
  assumes "execution_linked s" and "\<And>r. aid (f r) = aid r" "\<And>r. ar_active_execution_id (f r) = ar_active_execution_id r"
  shows "execution_linked (update_automation i f s)"
  using assms(1)
proof (rule execution_linked_automations)
  show "map (\<lambda>r. (aid r, ar_active_execution_id r)) (rs_automations (update_automation i f s)) =
      map (\<lambda>r. (aid r, ar_active_execution_id r)) (rs_automations s)"
    unfolding update_automation_def by (simp del: map_update) (rule map_list_update_same, simp add: assms(2,3))
qed (simp_all add: update_automation_def)

lemma active_containers_replace:
  assumes "distinct (map tk_execution_id ts)" and "i < length ts"
    and "tk_execution_id t = tk_execution_id (ts ! i)"
  shows "active_containers (set (ts[i := t])) =
    (if is_container t \<and> \<not> tk_is_terminal t then {(tk_execution_id t, tk_state t)} else {})
    \<union> {p \<in> active_containers (set ts). fst p \<noteq> tk_execution_id t}"
proof -
  have k: "active_containers {x \<in> set ts. tk_execution_id x \<noteq> k} = {p \<in> active_containers (set ts). fst p \<noteq> k}" for k
  proof -
    have image: "{p \<in> g ` A. P p} = g ` {t \<in> A. P (g t)}" for g :: "'u \<Rightarrow> 'v" and A P by blast
    show ?thesis unfolding active_containers_def image by (simp add: conj_ac)
  qed
  show ?thesis
    unfolding set_update_key[OF assms(1,2)] active_containers_insert k assms(3)[symmetric]
    by (simp split: if_split)
qed

lemma start_execution_linked:
  fixes s :: "('p, 'r, 'j) runtime_state"
  assumes L: "execution_linked s" and start: "start_execution s e ts = Ok (s', summary)"
  shows "execution_linked s'"
  using start
proof (rule start_execution_Ok)
  fix xi ti l
  let ?R = "rs_automations s" and ?X = "rs_automation_executions s" and ?T = "rs_tasks s"
  let ?t = "(?T ! ti)\<lparr>tk_lifecycle := l, tk_started_at := Some ts\<rparr>"
  let ?x = "(?X ! xi)\<lparr>xr_summary := (xr_summary (?X ! xi))\<lparr>es_state := AutoRunning, es_started_at := Some ts\<rparr>\<rparr>"
  assume xi: "position (\<lambda>x. eid x = e) ?X = Some xi"
    and q: "es_state (xr_summary (?X ! xi)) = AutoQueued"
    and ti: "position (\<lambda>t. tk_execution_id t = e \<and> is_container t) ?T = Some ti"
    and l: "lifecycle_apply (tk_lifecycle (?T ! ti)) EvStart = Ok l"
    and s': "s' = update_execution xi (\<lambda>x. x\<lparr>es_state := AutoRunning, es_started_at := Some ts\<rparr>)
       (update_task ti (\<lambda>t. t\<lparr>tk_lifecycle := l, tk_started_at := Some ts\<rparr>) s)"
  note xl = position_SomeD[OF xi] and tl = position_SomeD[OF ti]
  have D: "distinct (map eid ?X)" "distinct (map aid ?R)" "distinct (map tk_execution_id ?T)"
    and L: "links (set ?T) (set ?X) (set ?R)"
    using L by (simp_all add: execution_linked_def)
  have parts: "rs_tasks s' = ?T[ti := ?t]" "rs_automation_executions s' = ?X[xi := ?x]"
    "rs_automations s' = ?R"
    by (simp_all add: s' update_execution_def update_task_def)
  have t: "is_container ?t" "\<not> tk_is_terminal ?t" "tk_execution_id ?t = e" "tk_state ?t = TaskRunning"
    using tl l by (auto simp: is_container_def tk_is_terminal_iff tk_state_def lifecycle_apply_defs
        split: if_splits)
  have x: "eid ?x = e" "\<not> xr_is_terminal ?x" "xr_automation_id ?x = xr_automation_id (?X ! xi)"
      "es_state (xr_summary ?x) = AutoRunning"
    using xl by (simp_all add: xr_is_terminal_def)
  have x0: "?X ! xi \<in> set ?X" "\<not> xr_is_terminal (?X ! xi)" using xl q by (simp_all add: xr_is_terminal_def)
  have T': "active_containers (set (rs_tasks s')) =
      insert (e, TaskRunning) {p \<in> active_containers (set ?T). fst p \<noteq> e}"
    using active_containers_replace[OF D(3) tl(1), of ?t] t tl by (simp add: parts)
  have X': "set (rs_automation_executions s') = insert ?x {x \<in> set ?X. eid x \<noteq> e}"
    using set_update_key[OF D(1) xl(1), of ?x] xl by (simp add: parts)
  have "links (set (rs_tasks s')) (set (rs_automation_executions s')) (set (rs_automations s'))"
    unfolding links_containers T'
  proof (intro conjI ballI allI impI)
    fix y assume y: "y \<in> set (rs_automation_executions s')" "\<not> xr_is_terminal y"
    then consider "y = ?x" | "y \<in> set ?X" "eid y \<noteq> e" unfolding X' by blast
    note cases = this
    show "\<exists>r\<in>set (rs_automations s'). aid r = xr_automation_id y \<and> ar_active_execution_id r = Some (eid y)"
      using cases
    proof cases
      case 1
      then show ?thesis using links_owner[OF L x0] x xl by (metis parts(3))
    next
      case 2
      then show ?thesis using links_owner[OF L _ y(2)] by (metis parts(3))
    qed
    show "(eid y, if es_state (xr_summary y) = AutoQueued then TaskQueued else TaskRunning)
        \<in> insert (e, TaskRunning) {p \<in> active_containers (set ?T). fst p \<noteq> e}"
      using cases
    proof cases
      case 1
      with x show ?thesis by simp
    next
      case 2
      with L[unfolded links_containers] y(2) show ?thesis by auto
    qed
  next
    fix r e' assume "r \<in> set (rs_automations s')" "ar_active_execution_id r = Some e'"
    then obtain y where y: "y \<in> set ?X" "eid y = e'" "xr_automation_id y = aid r" "\<not> xr_is_terminal y"
      using links_active[OF L] parts(3) by metis
    show "\<exists>y\<in>set (rs_automation_executions s'). eid y = e' \<and> xr_automation_id y = aid r \<and> \<not> xr_is_terminal y"
    proof (cases "e' = e")
      case True
      with y xl have "y = ?X ! xi" using nth_key_eq[OF D(1) xl(1)] by simp
      with True x y show ?thesis unfolding X' by auto
    next
      case False
      with y show ?thesis unfolding X' by auto
    qed
  next
    fix e' assume "e' \<in> fst ` insert (e, TaskRunning) {p \<in> active_containers (set ?T). fst p \<noteq> e}"
    then consider "e' = e" | "e' \<in> fst ` active_containers (set ?T)" "e' \<noteq> e" by auto
    then show "\<exists>y\<in>set (rs_automation_executions s'). eid y = e' \<and> \<not> xr_is_terminal y"
    proof cases
      case 1
      with x show ?thesis unfolding X' by auto
    next
      case 2
      with L[unfolded links_containers] show ?thesis unfolding X' by auto
    qed
  qed
  moreover have "distinct (map tk_execution_id (rs_tasks s'))" "distinct (map eid (rs_automation_executions s'))"
    unfolding parts using D t(3) x(1) tl xl by (simp_all add: distinct_map_update)
  ultimately show ?thesis using D(2) by (simp add: execution_linked_def parts(3))
qed

lemma admit_due_linked:
  assumes L: "execution_linked s" and fresh: "\<And>e. fst ids = Some e \<Longrightarrow> fresh_execution s e"
    and "admit_due ck nd s cap ids a ts now = Ok (s', d, ch)"
  shows "execution_linked s'"
proof (cases "position (\<lambda>r. ar_deleted_at r = None \<and> aid r = a) (rs_automations s)")
  case None
  with assms show ?thesis by (simp add: admit_due_def)
next
  case (Some i)
  have "execution_linked (update_automation i (\<lambda>r. r\<lparr>ar_next_due_at := v\<rparr>) s1)"
    if "ar_active_execution_id (rs_automations s ! i) = None"
      "create_execution s cap ids i trig ts facts = Ok (s1, x)" for s1 x v trig facts
    using create_execution_linked[OF L position_SomeD(1)[OF Some] that(1) fresh that(2)]
    by (intro linked_update_automation) simp_all
  with Some assms show ?thesis
    by (auto simp: admit_due_def Let_def rbind_eq_Ok_iff split: option.splits if_splits sum.splits)
qed

lemma admit_requested_linked:
  assumes L: "execution_linked s" and fresh: "\<And>e. fst ids = Some e \<Longrightarrow> fresh_execution s e"
    and admit: "admit_requested s cap ids a ts = Ok (s', d, ch)"
  shows "execution_linked s'"
proof (cases "position (\<lambda>r. aid r = a \<and> ar_run_requested_at r \<noteq> None) (rs_automations s)")
  case None
  with assms show ?thesis by (simp add: admit_requested_def)
next
  case (Some i)
  let ?s = "update_automation i (\<lambda>r. r\<lparr>ar_run_requested_at := None\<rparr>) s"
  have L': "execution_linked ?s" using L by (intro linked_update_automation) simp_all
  have i: "i < length (rs_automations ?s)"
    using position_SomeD(1)[OF Some] by (simp add: update_automation_def)
  have f: "fresh_execution ?s e" if "fst ids = Some e" for e
    using fresh[OF that] by (simp add: fresh_execution_def update_automation_def)
  have "execution_linked s1" if "ar_active_execution_id (rs_automations ?s ! i) = None"
      "create_execution ?s cap ids i trig ts facts = Ok (s1, x)" for s1 x trig facts
    using create_execution_linked[OF L' i that(1) f that(2)] .
  with L' Some admit show ?thesis
    by (auto simp: admit_requested_def Let_def split: if_splits sum.splits)
qed

lemma admit_event_linked:
  assumes L: "execution_linked s" and fresh: "\<And>e. fst ids = Some e \<Longrightarrow> fresh_execution s e"
    and admit: "admit_event s cap ids a ev facts ts = Ok (s', d, ch)"
  shows "execution_linked s'"
proof (cases "position (\<lambda>r. aid r = a \<and> accepts_event r ev facts) (rs_automations s)")
  case None
  with assms show ?thesis by (simp add: admit_event_def)
next
  case (Some i)
  have "execution_linked s1" if "ar_active_execution_id (rs_automations s ! i) = None"
      "create_execution s cap ids i trig ts facts = Ok (s1, x)" for s1 x trig facts
    using create_execution_linked[OF L position_SomeD(1)[OF Some] that(1) fresh that(2)] .
  with L Some admit show ?thesis
    by (auto simp: admit_event_def split: if_splits sum.splits)
qed

end
