(* ===== verification/Core_History.thy ===== *)
theory Core_History
  imports Execution_Link
    "HOL-Library.Sublist"
begin

text \<open>
  The retention rules of \<open>rust/crates/runtime/src/core.rs\<close>: which settled Tasks, synchronous
  results and retained mutations the canonical state keeps, and the public errors the core builds.
  JSON encodings (serde_json), timestamp parsing (chrono) and the operating system's error texts
  are the fields of a \<open>wire_codec\<close>.
\<close>

section \<open>Encodings\<close>

record 'j wire_codec =
  wc_value :: "'j \<Rightarrow> u64 option"             \<comment> \<open>length of the encoded value\<close>
  wc_error :: "public_error \<Rightarrow> u64 option"
  wc_cancel :: "string \<Rightarrow> public_error \<Rightarrow> u64 option"
     \<comment> \<open>length of the object with \<open>ended_at\<close>, \<open>cancel_requested\<close> and \<open>error\<close>\<close>
  wc_os_text :: "i32 \<Rightarrow> string"              \<comment> \<open>\<open>io::Error::from_raw_os_error(..).to_string()\<close>\<close>
  wc_millis :: "string \<Rightarrow> int option"        \<comment> \<open>\<open>parse_from_rfc3339(..).timestamp_millis()\<close>\<close>

abbreviation MAX_TERMINAL_TASKS :: nat where "MAX_TERMINAL_TASKS \<equiv> 500"
abbreviation TASK_HISTORY_RETENTION_MS :: u64 where "TASK_HISTORY_RETENTION_MS \<equiv> 604800000"

section \<open>Public errors\<close>

definition public_error_new :: "error_code \<Rightarrow> string \<Rightarrow> bool \<Rightarrow> public_error" where
  "public_error_new code operation retryable =
     \<lparr>pe_code = code, pe_operation = operation, pe_retryable = retryable, pe_message = None,
      pe_capability = None, pe_details = None\<rparr>"

definition failure_details :: "'j wire_codec \<Rightarrow> domain_error \<Rightarrow> error_detail_value btree_map" where
  "failure_details k error =
     (let details = bt_from [(''reason'', EdvString (de_reason error))];
          details = (case de_peer_reason error of
              None \<Rightarrow> details
            | Some peer_reason \<Rightarrow> bt_insert ''peer_reason'' (EdvString peer_reason) details)
      in case de_os_error error of
           None \<Rightarrow> details
         | Some errno \<Rightarrow> bt_insert ''os_error'' (EdvString (wc_os_text k errno)) details)"

text \<open>\<open>domain_error\<close> of core.rs: a stale reference is the one retryable failure.\<close>

definition public_domain_error :: "'j wire_codec \<Rightarrow> domain_error \<Rightarrow> string \<Rightarrow> public_error" where
  "public_domain_error k error operation =
     (public_error_new (de_code error) operation (de_code error = StaleReference))
       \<lparr>pe_details := Some (failure_details k error)\<rparr>"

definition cleanup_unverified_error ::
  "string \<Rightarrow> error_detail_value btree_map option \<Rightarrow> public_error" where
  "cleanup_unverified_error operation cause =
     (public_error_new IoError operation False)
       \<lparr>pe_details := Some (bt_insert ''cleanup_unverified'' (EdvBoolean True)
          (case cause of None \<Rightarrow> [] | Some details \<Rightarrow> details))\<rparr>"

definition unretained_replay_error :: "string \<Rightarrow> public_error" where
  "unretained_replay_error operation =
     (public_error_new ResourceLimit operation False)
       \<lparr>pe_message := Some (''This request already ran and its result was too large to keep for ''
          @ ''replay. Send the call again as a new request.'')\<rparr>"

definition task_operation :: "('p, 'r) task_record \<Rightarrow> string" where
  "task_operation t = mother_tool_token (tk_tool t) @ ''.'' @ tk_action t"

definition encoded_cancel_terminal_bytes :: "'j wire_codec \<Rightarrow> string \<Rightarrow> public_error \<Rightarrow> u64 res" where
  "encoded_cancel_terminal_bytes k ended_at error =
     ok_or (wc_cancel k ended_at error)
       (domain_error_new InternalError ''Task cancellation settlement encoding failed'')"

definition retained_mutation_bytes :: "'j wire_codec \<Rightarrow> 'j \<Rightarrow> u64 res" where
  "retained_mutation_bytes k result =
     rbind (ok_or (wc_value k result)
              (domain_error_new InternalError ''retained mutation result encoding failed''))
       (\<lambda>bytes. ok_or (checked_add bytes RETAINED_MUTATION_RECORD_BYTES)
                  (domain_error_new ResourceLimit ''store size overflow''))"

definition synchronous_result ::
  "('p, 'j) synchronous_execution_record \<Rightarrow> (public_error, 'j) result" where
  "synchronous_result record =
     (case sx_state record of
        SyncCompleted \<Rightarrow> ok_or (sx_result record) (unretained_replay_error (sx_operation record))
      | SyncRunning \<Rightarrow> Err (public_error_new InternalError (sx_operation record) False)
      | _ \<Rightarrow> Err (case sx_error record of
                   Some e \<Rightarrow> e
                 | None \<Rightarrow> public_error_new InternalError (sx_operation record) False))"

section \<open>Task history\<close>

definition terminal_millis :: "'j wire_codec \<Rightarrow> ('p, 'r) task_record \<Rightarrow> u64 res" where
  "terminal_millis k t =
     rbind (ok_or (tk_ended_at t) (domain_error_new IoError ''terminal Task has no end timestamp''))
       (\<lambda>ended_at.
     rbind (ok_or (wc_millis k ended_at)
              (domain_error_new IoError ''terminal Task timestamp is invalid'')) (\<lambda>millis.
     if 0 \<le> millis then Ok (of_int millis)
     else err IoError ''terminal Task timestamp is invalid''))"

definition retained_requests :: "dedup_index \<Rightarrow> u64 \<Rightarrow> request_id list" where
  "retained_requests d now_ms = map rr_request_id (filter (unexpired now_ms) d)"

definition pinned_by :: "request_id list \<Rightarrow> ('p, 'r) task_record \<Rightarrow> bool" where
  "pinned_by requests t =
     (case tk_request_id t of None \<Rightarrow> False | Some r \<Rightarrow> List.member requests r)"

definition task_is_pinned ::
  "('p, 'r, 'j) runtime_state \<Rightarrow> ('p, 'r) task_record \<Rightarrow> u64 \<Rightarrow> bool" where
  "task_is_pinned s t now_ms \<longleftrightarrow>
     list_ex (\<lambda>e. tk_request_id t = Some (rr_request_id e) \<and> unexpired now_ms e) (rs_dedup s)"

text \<open>The first loop of \<open>prune_task_history\<close>: one flag per Task.\<close>

fun expired_flags ::
  "'j wire_codec \<Rightarrow> request_id list \<Rightarrow> u64 \<Rightarrow> ('p, 'r) task_record list \<Rightarrow> bool list res" where
  "expired_flags k pinned cutoff_ms [] = Ok []"
| "expired_flags k pinned cutoff_ms (t # ts) =
     rbind (if tk_is_terminal t \<and> \<not> pinned_by pinned t
            then rbind (terminal_millis k t) (\<lambda>millis. Ok (millis \<le> cutoff_ms)) else Ok False)
       (\<lambda>flag.
     rbind (expired_flags k pinned cutoff_ms ts) (\<lambda>flags. Ok (flag # flags)))"

text \<open>The Tasks beyond the bound, oldest first, by their index.\<close>

definition excess_candidates ::
  "request_id list \<Rightarrow> bool list \<Rightarrow> ('p, 'r) task_record list \<Rightarrow> nat list" where
  "excess_candidates pinned remove ts =
     map fst (sort_key (\<lambda>(i, t). (tk_created_at t, as_str (tk_task_id t)))
       (filter (\<lambda>(i, t). tk_is_terminal t \<and> \<not> remove ! i \<and> \<not> pinned_by pinned t)
          (List.enumerate 0 ts)))"

definition drop_flagged :: "bool list \<Rightarrow> 'a list \<Rightarrow> 'a list" where
  "drop_flagged remove xs = map snd (filter (\<lambda>(flag, _). \<not> flag) (zip remove xs))"

definition prune_flags ::
  "request_id list \<Rightarrow> bool list \<Rightarrow> ('p, 'r) task_record list \<Rightarrow> bool list res" where
  "prune_flags pinned remove ts =
     (let retained_terminal =
            length (filter (\<lambda>(i, t). tk_is_terminal t \<and> \<not> remove ! i) (List.enumerate 0 ts))
      in if retained_terminal > MAX_TERMINAL_TASKS then
           let candidates = excess_candidates pinned remove ts;
               excess = retained_terminal - MAX_TERMINAL_TASKS
           in if length candidates < excess
              then err ResourceLimit ''Task history is pinned by replay retention''
              else Ok (fold (\<lambda>i flags. flags[i := True]) (take excess candidates) remove)
         else Ok remove)"

definition prune_task_history ::
  "'j wire_codec \<Rightarrow> ('p, 'r, 'j) runtime_state \<Rightarrow> u64 \<Rightarrow> (('p, 'r, 'j) runtime_state \<times> bool) res" where
  "prune_task_history k s now_ms =
     (let pinned = retained_requests (rs_dedup s) now_ms;
          cutoff_ms = saturating_sub now_ms TASK_HISTORY_RETENTION_MS
      in rbind (expired_flags k pinned cutoff_ms (rs_tasks s)) (\<lambda>remove.
         rbind (prune_flags pinned remove (rs_tasks s)) (\<lambda>remove.
         let removed = length (filter (\<lambda>flag. flag) remove)
         in if removed = 0 then Ok (s, False)
            else Ok (s\<lparr>rs_tasks := drop_flagged remove (rs_tasks s),
                       rs_used_bytes := saturating_sub (rs_used_bytes s)
                         (saturating_mul TASK_RECORD_BYTES (of_nat removed))\<rparr>, True))))"

section \<open>Synchronous results and retained mutations\<close>

definition prune_synchronous_history ::
  "('p, 'r, 'j) runtime_state \<Rightarrow> u64 \<Rightarrow> ('p, 'r, 'j) runtime_state" where
  "prune_synchronous_history s now_ms =
     (let requests = retained_requests (rs_dedup s) now_ms;
          retain = (\<lambda>x. \<not> sync_is_terminal (sx_state x) \<or> List.member requests (sx_request_id x));
          removed_bytes = fold (\<lambda>x bytes. saturating_add
              (saturating_add bytes SYNCHRONOUS_RECORD_BYTES) (sx_terminal_bytes x))
            (filter (\<lambda>x. \<not> retain x) (rs_synchronous_executions s)) 0
      in s\<lparr>rs_synchronous_executions := filter retain (rs_synchronous_executions s),
           rs_used_bytes := saturating_sub (rs_used_bytes s) removed_bytes\<rparr>)"

definition prune_retained_mutations ::
  "'j wire_codec \<Rightarrow> ('p, 'r, 'j) runtime_state \<Rightarrow> u64 \<Rightarrow> ('p, 'r, 'j) runtime_state" where
  "prune_retained_mutations k s now_ms =
     (let requests = retained_requests (rs_dedup s) now_ms;
          retain = (\<lambda>m. List.member requests (rm_request_id m));
          removed_bytes = fold (\<lambda>m bytes. saturating_add bytes
              (case retained_mutation_bytes k (rm_result m) of Inl _ \<Rightarrow> 0 | Inr b \<Rightarrow> b))
            (filter (\<lambda>m. \<not> retain m) (rs_retained_mutations s)) 0
      in s\<lparr>rs_retained_mutations := filter retain (rs_retained_mutations s),
           rs_used_bytes := saturating_sub (rs_used_bytes s) removed_bytes\<rparr>)"

definition prune_expired_requests ::
  "'j wire_codec \<Rightarrow> ('p, 'r, 'j) runtime_state \<Rightarrow> u64 \<Rightarrow> ('p, 'r, 'j) runtime_state" where
  "prune_expired_requests k s now_ms =
     prune_retained_mutations k (prune_synchronous_history s now_ms) now_ms"

section \<open>What pruning keeps\<close>

lemma task_is_pinned_iff: "task_is_pinned s t now \<longleftrightarrow> pinned_by (retained_requests (rs_dedup s) now) t"
  by (auto simp: task_is_pinned_def pinned_by_def retained_requests_def list_ex_iff split: option.splits)

lemma expired_flags_length: "expired_flags k pinned c ts = Ok flags \<Longrightarrow> length flags = length ts"
  by (induction ts arbitrary: flags) (auto simp: rbind_eq_Ok_iff)

lemma expired_flags_nth:
  assumes "expired_flags k pinned c ts = Ok flags" and "i < length ts" and "flags ! i"
  shows "tk_is_terminal (ts ! i) \<and> \<not> pinned_by pinned (ts ! i)"
  using assms
proof (induction ts arbitrary: flags i)
  case Nil
  then show ?case by simp
next
  case (Cons t ts)
  then show ?case by (cases i) (auto simp: rbind_eq_Ok_iff split: if_splits)
qed

lemma length_filter_enumerate:
  "length (filter (\<lambda>(i, t). P t \<and> \<not> flags ! i) (List.enumerate 0 ts)) =
     card {i. i < length ts \<and> P (ts ! i) \<and> \<not> flags ! i}"
  by (simp add: length_filter_conv_card nth_enumerate_eq case_prod_beta cong: conj_cong)

lemma length_filter_drop_flagged:
  assumes "length flags = length ts"
  shows "length (filter P (drop_flagged flags ts)) = card {i. i < length ts \<and> P (ts ! i) \<and> \<not> flags ! i}"
proof -
  have "filter P (drop_flagged flags ts) = map snd (filter (\<lambda>(f, t). P t \<and> \<not> f) (zip flags ts))"
    unfolding drop_flagged_def filter_map filter_filter comp_def
    by (intro arg_cong[where f = "map snd"] filter_cong) auto
  then show ?thesis
    using assms by (simp add: length_filter_conv_card case_prod_beta cong: conj_cong)
qed

lemma set_drop_flagged:
  assumes "length flags = length ts"
  shows "set (drop_flagged flags ts) = {t. \<exists>i<length ts. t = ts ! i \<and> \<not> flags ! i}"
  using assms by (force simp: drop_flagged_def set_zip image_iff)

lemma subseq_drop_flagged: "subseq (drop_flagged flags ts) ts"
proof (induction flags ts rule: list_induct2')
  case (4 f fs t ts)
  then show ?case by (cases f) (simp_all add: drop_flagged_def list_emb_Cons)
qed (simp_all add: drop_flagged_def)

lemma drop_flagged_none:
  assumes "length flags = length xs" and "filter (\<lambda>flag. flag) flags = []"
  shows "drop_flagged flags xs = xs"
  using assms by (induction flags xs rule: list_induct2) (auto simp: drop_flagged_def split: if_splits)

lemma fold_flags:
  "length (fold (\<lambda>i flags. flags[i := True]) is flags) = length flags"
  "i < length flags \<Longrightarrow> fold (\<lambda>i flags. flags[i := True]) is flags ! i \<longleftrightarrow> i \<in> set is \<or> flags ! i"
proof (induction "is" arbitrary: flags)
  case (Cons a "is")
  { case 1 show ?case by (simp add: Cons.IH(1)) }
  { case 2 then show ?case by (cases "a = i") (auto simp: Cons.IH(2)) }
qed simp_all

lemma excess_candidates_props:
  "distinct (excess_candidates pinned flags ts)"
  "i \<in> set (excess_candidates pinned flags ts) \<Longrightarrow>
     i < length ts \<and> tk_is_terminal (ts ! i) \<and> \<not> flags ! i \<and> \<not> pinned_by pinned (ts ! i)"
proof -
  let ?f = "filter (\<lambda>(i, t). tk_is_terminal t \<and> \<not> flags ! i \<and> \<not> pinned_by pinned t) (List.enumerate 0 ts)"
  let ?c = "sort_key (\<lambda>(i, t). (tk_created_at t, as_str (tk_task_id t))) ?f"
  have "distinct (map fst ?f)" by (simp add: distinct_map_filter)
  then have "distinct (map fst ?c)"
    by (simp add: distinct_map)
  then show "distinct (excess_candidates pinned flags ts)" by (simp add: excess_candidates_def)
  show "i < length ts \<and> tk_is_terminal (ts ! i) \<and> \<not> flags ! i \<and> \<not> pinned_by pinned (ts ! i)"
    if "i \<in> set (excess_candidates pinned flags ts)"
    using that by (auto simp: excess_candidates_def in_set_enumerate_eq)
qed

lemma prune_flags_props:
  assumes flags: "length flags = length ts"
    "\<And>i. i < length ts \<Longrightarrow> flags ! i \<Longrightarrow> tk_is_terminal (ts ! i) \<and> \<not> pinned_by pinned (ts ! i)"
    and prune: "prune_flags pinned flags ts = Ok flags'"
  shows "length flags' = length ts"
    and "\<And>i. i < length ts \<Longrightarrow> flags' ! i \<Longrightarrow> tk_is_terminal (ts ! i) \<and> \<not> pinned_by pinned (ts ! i)"
    and "card {i. i < length ts \<and> tk_is_terminal (ts ! i) \<and> \<not> flags' ! i} \<le> MAX_TERMINAL_TASKS"
proof -
  let ?R = "{i. i < length ts \<and> tk_is_terminal (ts ! i) \<and> \<not> flags ! i}"
  let ?c = "excess_candidates pinned flags ts" and ?e = "card ?R - MAX_TERMINAL_TASKS"
  have "length flags' = length ts
    \<and> (\<forall>i<length ts. flags' ! i \<longrightarrow> tk_is_terminal (ts ! i) \<and> \<not> pinned_by pinned (ts ! i))
    \<and> card {i. i < length ts \<and> tk_is_terminal (ts ! i) \<and> \<not> flags' ! i} \<le> MAX_TERMINAL_TASKS"
  proof (cases "card ?R > MAX_TERMINAL_TASKS")
    case False
    with prune have "flags' = flags" by (simp add: prune_flags_def Let_def length_filter_enumerate)
    with flags False show ?thesis by simp
  next
    case True
    have enough: "?e \<le> length ?c" and f': "flags' = fold (\<lambda>i flags. flags[i := True]) (take ?e ?c) flags"
      using prune True by (auto simp: prune_flags_def Let_def length_filter_enumerate split: if_splits)
    have nth: "flags' ! i \<longleftrightarrow> i \<in> set (take ?e ?c) \<or> flags ! i" if "i < length ts" for i
      using that flags(1) by (simp add: f' fold_flags)
    have sub: "set (take ?e ?c) \<subseteq> ?R"
      using excess_candidates_props(2)[of _ pinned flags ts] set_take_subset[of ?e ?c] by blast
    have "{i. i < length ts \<and> tk_is_terminal (ts ! i) \<and> \<not> flags' ! i} = ?R - set (take ?e ?c)"
      using nth by auto
    moreover have "card (?R - set (take ?e ?c)) = card ?R - card (set (take ?e ?c))"
      using sub by (intro card_Diff_subset) simp_all
    moreover have "card (set (take ?e ?c)) = ?e"
      using excess_candidates_props(1)[of pinned flags ts] enough by (simp add: distinct_card)
    ultimately have "card {i. i < length ts \<and> tk_is_terminal (ts ! i) \<and> \<not> flags' ! i} \<le> MAX_TERMINAL_TASKS"
      by simp
    moreover have "\<forall>i<length ts. flags' ! i \<longrightarrow> tk_is_terminal (ts ! i) \<and> \<not> pinned_by pinned (ts ! i)"
      using nth flags(2) excess_candidates_props(2)[of _ pinned flags ts] set_take_subset[of ?e ?c] by blast
    ultimately show ?thesis using flags(1) by (simp add: f' fold_flags)
  qed
  then show "length flags' = length ts"
    and "\<And>i. i < length ts \<Longrightarrow> flags' ! i \<Longrightarrow> tk_is_terminal (ts ! i) \<and> \<not> pinned_by pinned (ts ! i)"
    and "card {i. i < length ts \<and> tk_is_terminal (ts ! i) \<and> \<not> flags' ! i} \<le> MAX_TERMINAL_TASKS"
    by blast+
qed

text \<open>
  The contract of \<open>prune_task_history\<close>: it removes settled, unpinned Tasks only, keeps the order,
  leaves at most 500 settled Tasks, and touches nothing but the Tasks and the used bytes.
\<close>

lemma prune_task_history_frame:
  assumes "prune_task_history k s now = Ok (s', changed)"
  shows "s' = s\<lparr>rs_tasks := rs_tasks s', rs_used_bytes := rs_used_bytes s'\<rparr>" and "\<not> changed \<Longrightarrow> s' = s"
  using assms by (auto simp: prune_task_history_def Let_def rbind_eq_Ok_iff split: if_splits)

lemma prune_task_history_tasks:
  assumes "prune_task_history k s now = Ok (s', changed)"
  obtains flags where "length flags = length (rs_tasks s)"
    "rs_tasks s' = drop_flagged flags (rs_tasks s)"
    "\<And>i. i < length (rs_tasks s) \<Longrightarrow> flags ! i \<Longrightarrow>
       tk_is_terminal (rs_tasks s ! i) \<and> \<not> task_is_pinned s (rs_tasks s ! i) now"
    "length (filter tk_is_terminal (rs_tasks s')) \<le> MAX_TERMINAL_TASKS"
proof -
  let ?p = "retained_requests (rs_dedup s) now"
  obtain flags0 flags where f0: "expired_flags k ?p (saturating_sub now TASK_HISTORY_RETENTION_MS) (rs_tasks s) = Ok flags0"
    and f: "prune_flags ?p flags0 (rs_tasks s) = Ok flags"
    and s': "rs_tasks s' = (if length (filter (\<lambda>flag. flag) flags) = 0 then rs_tasks s
      else drop_flagged flags (rs_tasks s))"
    using assms by (auto simp: prune_task_history_def Let_def rbind_eq_Ok_iff split: if_splits)
  note p = prune_flags_props[OF expired_flags_length[OF f0] expired_flags_nth[OF f0] f]
  have "drop_flagged flags (rs_tasks s) = rs_tasks s" if "filter (\<lambda>flag. flag) flags = []"
    using p(1) that by (rule drop_flagged_none)
  with s' have t: "rs_tasks s' = drop_flagged flags (rs_tasks s)" by auto
  show thesis
  proof (rule that[OF p(1) t])
    show "length (filter tk_is_terminal (rs_tasks s')) \<le> MAX_TERMINAL_TASKS"
      using p(1,3) by (simp add: t length_filter_drop_flagged)
  qed (use p(2) in \<open>auto simp: task_is_pinned_iff\<close>)
qed

lemma prune_task_history_set:
  assumes "prune_task_history k s now = Ok (s', changed)"
  shows "set (rs_tasks s') \<subseteq> set (rs_tasks s)"
    and "\<And>t. t \<in> set (rs_tasks s) \<Longrightarrow> \<not> tk_is_terminal t \<or> task_is_pinned s t now \<Longrightarrow> t \<in> set (rs_tasks s')"
    and "subseq (rs_tasks s') (rs_tasks s)"
    and "length (filter tk_is_terminal (rs_tasks s')) \<le> MAX_TERMINAL_TASKS"
proof -
  from assms obtain flags where f: "length flags = length (rs_tasks s)"
    "rs_tasks s' = drop_flagged flags (rs_tasks s)"
    "\<And>i. i < length (rs_tasks s) \<Longrightarrow> flags ! i \<Longrightarrow>
       tk_is_terminal (rs_tasks s ! i) \<and> \<not> task_is_pinned s (rs_tasks s ! i) now"
    "length (filter tk_is_terminal (rs_tasks s')) \<le> MAX_TERMINAL_TASKS"
    using prune_task_history_tasks by metis
  show "subseq (rs_tasks s') (rs_tasks s)" by (simp add: f(2) subseq_drop_flagged)
  show "set (rs_tasks s') \<subseteq> set (rs_tasks s)" by (auto simp: f(2) set_drop_flagged[OF f(1)])
  show "length (filter tk_is_terminal (rs_tasks s')) \<le> MAX_TERMINAL_TASKS" by (fact f(4))
  fix t assume "t \<in> set (rs_tasks s)" "\<not> tk_is_terminal t \<or> task_is_pinned s t now"
  then show "t \<in> set (rs_tasks s')"
    using f(3) by (auto simp: f(2) set_drop_flagged[OF f(1)] in_set_conv_nth)
qed

lemma drop_flagged_zero:
  fixes g :: "'a \<Rightarrow> nat"
  assumes "length flags = length xs" and "\<And>i. i < length xs \<Longrightarrow> flags ! i \<Longrightarrow> g (xs ! i) = 0"
  shows "sum_list (map g (drop_flagged flags xs)) = sum_list (map g xs)"
  using assms
proof (induction flags xs rule: list_induct2)
  case Nil
  then show ?case by (simp add: drop_flagged_def)
next
  case (Cons f fs x xs)
  have "g x = 0" if f using Cons.prems[of 0] that by simp
  moreover have "sum_list (map g (drop_flagged fs xs)) = sum_list (map g xs)"
    using Cons.prems[of "Suc _"] by (intro Cons.IH) auto
  ultimately show ?case by (auto simp: drop_flagged_def)
qed

lemma prune_task_history_accounted:
  assumes "accounted s" and "prune_task_history k s now = Ok (s', changed)"
  shows "accounted s'"
proof -
  from assms(2) obtain flags where f: "length flags = length (rs_tasks s)"
    "rs_tasks s' = drop_flagged flags (rs_tasks s)"
    "\<And>i. i < length (rs_tasks s) \<Longrightarrow> flags ! i \<Longrightarrow>
       tk_is_terminal (rs_tasks s ! i) \<and> \<not> task_is_pinned s (rs_tasks s ! i) now"
    using prune_task_history_tasks by metis
  have "sum_list (map task_reservation (rs_tasks s')) = sum_list (map task_reservation (rs_tasks s))"
    unfolding f(2) using f(1,3) by (intro drop_flagged_zero) (auto simp: task_reservation_def)
  moreover have "rs_synchronous_executions s' = rs_synchronous_executions s"
    "rs_reserved_bytes s' = rs_reserved_bytes s"
    by (subst prune_task_history_frame(1)[OF assms(2)], simp)+
  ultimately show ?thesis using assms(1) by (simp add: accounted_def reservations_def)
qed

lemma subseq_distinct_map: "subseq xs ys \<Longrightarrow> distinct (map f ys) \<Longrightarrow> distinct (map f xs)"
  by (auto simp: subseq_conv_nths nths_map[symmetric] intro: distinct_nthsI)

lemma prune_task_history_linked:
  assumes "execution_linked s" and "prune_task_history k s now = Ok (s', changed)"
  shows "execution_linked s'"
proof (rule execution_linked_tasks[OF assms(1)])
  note p = prune_task_history_set[OF assms(2)]
  show "active_containers (set (rs_tasks s')) = active_containers (set (rs_tasks s))"
    using p(1,2) by (auto simp: active_containers_def)
  show "distinct (map tk_execution_id (rs_tasks s'))"
    by (rule subseq_distinct_map[OF p(3)]) (use assms(1) in \<open>simp add: execution_linked_def\<close>)
  show "rs_automation_executions s' = rs_automation_executions s" "rs_automations s' = rs_automations s"
    by (subst prune_task_history_frame(1)[OF assms(2)], simp)+
qed

end
