(* ===== verification/Request_Hold.thy ===== *)
theory Request_Hold
  imports Core_History
begin

text \<open>
  The second invariant of the canonical state: how the retained-request index and the records that
  answer for a request fit together. A retained request has at most one record (a Task, a
  synchronous execution or a retained mutation); its entry is open exactly while that record is at
  work; and every record at work, every synchronous record and every retained mutation has an
  entry. The lemmas rest on the \<open>replay_guard\<close> contract of \<open>Dedup\<close>.
\<close>

section \<open>The invariant\<close>

definition task_owners :: "('p, 'r) task_record list \<Rightarrow> request_id \<Rightarrow> nat" where
  "task_owners ts r = length (filter (\<lambda>t. tk_request_id t = Some r) ts)"

definition owner_count :: "('p, 'r, 'j) runtime_state \<Rightarrow> request_id \<Rightarrow> nat" where
  "owner_count s r = task_owners (rs_tasks s) r
     + length (filter (\<lambda>x. sx_request_id x = r) (rs_synchronous_executions s))
     + length (filter (\<lambda>m. rm_request_id m = r) (rs_retained_mutations s))"

definition task_held :: "dedup_index \<Rightarrow> ('p, 'r) task_record \<Rightarrow> bool" where
  "task_held d t \<longleftrightarrow> (\<forall>r. tk_request_id t = Some r \<longrightarrow>
     (case dedup_known d r of None \<Rightarrow> tk_is_terminal t | Some (h, e) \<Rightarrow> tk_is_terminal t = (e \<noteq> None)))"

definition sync_held :: "dedup_index \<Rightarrow> ('p, 'j) synchronous_execution_record \<Rightarrow> bool" where
  "sync_held d x \<longleftrightarrow>
     (\<exists>h e. dedup_known d (sx_request_id x) = Some (h, e) \<and> sync_is_terminal (sx_state x) = (e \<noteq> None))"

definition mutation_held :: "dedup_index \<Rightarrow> 'j retained_mutation_record \<Rightarrow> bool" where
  "mutation_held d m \<longleftrightarrow> (\<exists>h e. dedup_known d (rm_request_id m) = Some (h, Some e))"

definition requests_held :: "('p, 'r, 'j) runtime_state \<Rightarrow> bool" where
  "requests_held s \<longleftrightarrow>
     dedup_invar (rs_dedup s) \<and>
     (\<forall>r. dedup_known (rs_dedup s) r \<noteq> None \<longrightarrow> owner_count s r \<le> 1) \<and>
     (\<forall>t\<in>set (rs_tasks s). task_held (rs_dedup s) t) \<and>
     (\<forall>x\<in>set (rs_synchronous_executions s). sync_held (rs_dedup s) x) \<and>
     (\<forall>m\<in>set (rs_retained_mutations s). mutation_held (rs_dedup s) m)"

lemma requests_held_default: "requests_held runtime_state_default"
  by (simp add: requests_held_def runtime_state_default_def dedup_invar_empty owner_count_def
      task_owners_def)

lemma requests_held_invar: "requests_held s \<Longrightarrow> dedup_invar (rs_dedup s)"
  by (simp add: requests_held_def)

text \<open>The invariant reads only these four fields.\<close>

lemma requests_held_cong:
  assumes "requests_held s" "rs_dedup s' = rs_dedup s" "rs_tasks s' = rs_tasks s"
    "rs_synchronous_executions s' = rs_synchronous_executions s"
    "rs_retained_mutations s' = rs_retained_mutations s"
  shows "requests_held s'"
  using assms by (simp add: requests_held_def owner_count_def)

text \<open>A request that is at work is open in the index.\<close>

lemma held_task_open:
  assumes "requests_held s" "t \<in> set (rs_tasks s)" "tk_request_id t = Some r" "\<not> tk_is_terminal t"
  obtains h where "dedup_known (rs_dedup s) r = Some (h, None)"
proof -
  have "task_held (rs_dedup s) t" using assms(1,2) by (simp add: requests_held_def)
  with assms(3,4) show thesis
    by (cases "dedup_known (rs_dedup s) r") (auto simp: task_held_def intro: that)
qed

lemma held_sync_open:
  assumes "requests_held s" "x \<in> set (rs_synchronous_executions s)" "\<not> sync_is_terminal (sx_state x)"
  obtains h where "dedup_known (rs_dedup s) (sx_request_id x) = Some (h, None)"
proof -
  have "sync_held (rs_dedup s) x" using assms(1,2) by (simp add: requests_held_def)
  with assms(3) show thesis by (auto simp: sync_held_def intro: that)
qed

lemma filter_ge_one: "x \<in> set xs \<Longrightarrow> P x \<Longrightarrow> 1 \<le> length (filter P xs)"
  by (induction xs) auto

text \<open>With one owner per retained request, records of different kinds never share one.\<close>

lemma held_task_excludes:
  assumes "requests_held s" "t \<in> set (rs_tasks s)" "tk_request_id t = Some r"
    "dedup_known (rs_dedup s) r \<noteq> None"
  shows "x \<in> set (rs_synchronous_executions s) \<Longrightarrow> sx_request_id x \<noteq> r"
    and "m \<in> set (rs_retained_mutations s) \<Longrightarrow> rm_request_id m \<noteq> r"
    and "task_owners (rs_tasks s) r = 1"
proof -
  have o: "owner_count s r \<le> 1" using assms(1,4) by (simp add: requests_held_def)
  have t: "1 \<le> task_owners (rs_tasks s) r"
    using filter_ge_one[OF assms(2), of "\<lambda>t. tk_request_id t = Some r"] assms(3) by (simp add: task_owners_def)
  show "task_owners (rs_tasks s) r = 1" using o t by (simp add: owner_count_def)
  show "sx_request_id x \<noteq> r" if "x \<in> set (rs_synchronous_executions s)"
    using filter_ge_one[OF that, of "\<lambda>x. sx_request_id x = r"] o t by (auto simp: owner_count_def)
  show "rm_request_id m \<noteq> r" if "m \<in> set (rs_retained_mutations s)"
    using filter_ge_one[OF that, of "\<lambda>m. rm_request_id m = r"] o t by (auto simp: owner_count_def)
qed

lemma held_sync_excludes:
  assumes "requests_held s" "x \<in> set (rs_synchronous_executions s)"
  shows "t \<in> set (rs_tasks s) \<Longrightarrow> tk_request_id t \<noteq> Some (sx_request_id x)"
    and "m \<in> set (rs_retained_mutations s) \<Longrightarrow> rm_request_id m \<noteq> sx_request_id x"
    and "length (filter (\<lambda>y. sx_request_id y = sx_request_id x) (rs_synchronous_executions s)) = 1"
proof -
  let ?r = "sx_request_id x"
  have "dedup_known (rs_dedup s) ?r \<noteq> None" using assms by (auto simp: requests_held_def sync_held_def)
  then have o: "owner_count s ?r \<le> 1" using assms(1) by (simp add: requests_held_def)
  have t: "1 \<le> length (filter (\<lambda>y. sx_request_id y = ?r) (rs_synchronous_executions s))"
    by (rule filter_ge_one[OF assms(2)]) simp
  show "length (filter (\<lambda>y. sx_request_id y = ?r) (rs_synchronous_executions s)) = 1"
    using o t by (simp add: owner_count_def)
  show "tk_request_id t \<noteq> Some ?r" if "t \<in> set (rs_tasks s)"
    using filter_ge_one[OF that, of "\<lambda>t. tk_request_id t = Some ?r"] o t
    by (auto simp: owner_count_def task_owners_def)
  show "rm_request_id m \<noteq> ?r" if "m \<in> set (rs_retained_mutations s)"
    using filter_ge_one[OF that, of "\<lambda>m. rm_request_id m = ?r"] o t by (auto simp: owner_count_def)
qed

text \<open>What an identity's entry is worth at a time: it is open or not yet expired.\<close>

definition live :: "dedup_index \<Rightarrow> u64 \<Rightarrow> request_id \<Rightarrow> bool" where
  "live d now r \<longleftrightarrow> (\<exists>h x. dedup_known d r = Some (h, x) \<and> (\<forall>e. x = Some e \<longrightarrow> now < e))"

lemma retained_requests_live:
  assumes "dedup_invar d"
  shows "r \<in> set (retained_requests d now) \<longleftrightarrow> live d now r"
proof -
  have "distinct (map rr_request_id d)" using assms by (simp add: dedup_invar_def)
  then show ?thesis
    by (auto simp: retained_requests_def live_def dedup_known_Some unexpired_def image_iff
        split: option.splits)
qed

text \<open>What an admission leaves of the index: the live entries, and the new one.\<close>

lemma decide_admit_known:
  assumes "dedup_invar d" and "decide_and_reserve d r h now c = (d', Ok Admit)"
  shows "\<not> live d now r"
    and "dedup_known d' r' = (if r' = r then Some (h, None)
           else if live d now r' then dedup_known d r' else None)"
proof -
  have D: "distinct (map rr_request_id d)" using assms(1) by (simp add: dedup_invar_def)
  have none: "List.find (\<lambda>e. rr_request_id e = r) (filter (unexpired now) d) = None"
    and d': "d' = filter (unexpired now) d @
           [\<lparr>rr_request_id = r, rr_payload_sha256 = h, rr_expires_at_ms = None\<rparr>]"
    using assms(2) by (auto simp: decide_and_reserve_def Let_def split: if_splits option.splits)
  have f: "dedup_known (filter (unexpired now) d) q = (if live d now q then dedup_known d q else None)" for q
  proof (cases "live d now q")
    case True
    then show ?thesis using dedup_known_filter[OF D] unfolding live_def by fastforce
  next
    case False
    have "q \<notin> set (retained_requests d now)" using False retained_requests_live[OF assms(1)] by simp
    then have "List.find (\<lambda>e. rr_request_id e = q) (filter (unexpired now) d) = None"
      by (auto simp: retained_requests_def find_None_iff)
    with False show ?thesis by (simp add: dedup_known_def)
  qed
  show "\<not> live d now r"
    using none retained_requests_live[OF assms(1), of r now]
    by (auto simp: retained_requests_def find_None_iff)
  then show "dedup_known d' r' = (if r' = r then Some (h, None)
           else if live d now r' then dedup_known d r' else None)"
    unfolding d' dedup_known_append f by (auto split: option.splits)
qed

section \<open>Pruning\<close>

lemma prune_expired_requests_fields [simp]:
  "rs_tasks (prune_expired_requests k s now) = rs_tasks s"
  "rs_dedup (prune_expired_requests k s now) = rs_dedup s"
  "rs_reserved_bytes (prune_expired_requests k s now) = rs_reserved_bytes s"
  "rs_automations (prune_expired_requests k s now) = rs_automations s"
  "rs_automation_executions (prune_expired_requests k s now) = rs_automation_executions s"
  "rs_revision (prune_expired_requests k s now) = rs_revision s"
  "rs_synchronous_executions (prune_expired_requests k s now) =
     filter (\<lambda>x. \<not> sync_is_terminal (sx_state x)
       \<or> sx_request_id x \<in> set (retained_requests (rs_dedup s) now)) (rs_synchronous_executions s)"
  "rs_retained_mutations (prune_expired_requests k s now) =
     filter (\<lambda>m. rm_request_id m \<in> set (retained_requests (rs_dedup s) now)) (rs_retained_mutations s)"
  by (simp_all add: prune_expired_requests_def prune_synchronous_history_def
      prune_retained_mutations_def Let_def)

lemma prune_synchronous_history_fields [simp]:
  "rs_tasks (prune_synchronous_history s now) = rs_tasks s"
  "rs_dedup (prune_synchronous_history s now) = rs_dedup s"
  "rs_reserved_bytes (prune_synchronous_history s now) = rs_reserved_bytes s"
  "rs_automations (prune_synchronous_history s now) = rs_automations s"
  "rs_automation_executions (prune_synchronous_history s now) = rs_automation_executions s"
  "rs_revision (prune_synchronous_history s now) = rs_revision s"
  "rs_retained_mutations (prune_synchronous_history s now) = rs_retained_mutations s"
  "rs_synchronous_executions (prune_synchronous_history s now) =
     filter (\<lambda>x. \<not> sync_is_terminal (sx_state x)
       \<or> sx_request_id x \<in> set (retained_requests (rs_dedup s) now)) (rs_synchronous_executions s)"
  by (simp_all add: prune_synchronous_history_def Let_def)

text \<open>Dropping settled synchronous records changes no reservation.\<close>

lemma accounted_filter_sync:
  assumes "accounted s" and "rs_tasks s' = rs_tasks s" "rs_reserved_bytes s' = rs_reserved_bytes s"
    and "rs_synchronous_executions s' =
      filter (\<lambda>x. \<not> sync_is_terminal (sx_state x) \<or> Q x) (rs_synchronous_executions s)"
  shows "accounted s'"
proof -
  have "sum_list (map sync_reservation (rs_synchronous_executions s'))
      = sum_list (map sync_reservation (rs_synchronous_executions s))"
    unfolding assms(4) by (rule sum_list_filter_zero) (auto simp: sync_reservation_def)
  with assms(1,2,3) show ?thesis by (simp add: accounted_def reservations_def)
qed

lemma prune_expired_accounted: "accounted s \<Longrightarrow> accounted (prune_expired_requests k s now)"
  by (rule accounted_filter_sync[where s = s]) simp_all

lemma prune_synchronous_accounted: "accounted s \<Longrightarrow> accounted (prune_synchronous_history s now)"
  by (rule accounted_filter_sync[where s = s]) simp_all

lemma prune_expired_linked: "execution_linked s \<Longrightarrow> execution_linked (prune_expired_requests k s now)"
  by (simp add: execution_linked_def)

lemma prune_synchronous_linked: "execution_linked s \<Longrightarrow> execution_linked (prune_synchronous_history s now)"
  by (simp add: execution_linked_def)

text \<open>Removing records keeps the hold.\<close>

lemma subseq_filter_length: "subseq xs ys \<Longrightarrow> length (filter P xs) \<le> length (filter P ys)"
  by (rule list_emb_length) (rule subseq_filter)

lemma requests_held_subseq:
  assumes "requests_held s" "rs_dedup s' = rs_dedup s" "subseq (rs_tasks s') (rs_tasks s)"
    "subseq (rs_synchronous_executions s') (rs_synchronous_executions s)"
    "subseq (rs_retained_mutations s') (rs_retained_mutations s)"
  shows "requests_held s'"
proof -
  have "owner_count s' r \<le> owner_count s r" for r
    unfolding owner_count_def task_owners_def
    by (intro add_mono subseq_filter_length assms(3,4,5))
  moreover have "set (rs_tasks s') \<subseteq> set (rs_tasks s)"
    "set (rs_synchronous_executions s') \<subseteq> set (rs_synchronous_executions s)"
    "set (rs_retained_mutations s') \<subseteq> set (rs_retained_mutations s)"
    using assms(3,4,5) by (auto dest: list_emb_set)
  ultimately show ?thesis
    using assms(1) unfolding requests_held_def assms(2) by (meson order_trans subsetD)
qed

lemma prune_expired_held: "requests_held s \<Longrightarrow> requests_held (prune_expired_requests k s now)"
  by (rule requests_held_subseq[where s = s]) simp_all

lemma prune_synchronous_held: "requests_held s \<Longrightarrow> requests_held (prune_synchronous_history s now)"
  by (rule requests_held_subseq[where s = s]) simp_all

lemma prune_task_history_held:
  assumes "requests_held s" and "prune_task_history k s now = Ok (s', changed)"
  shows "requests_held s'"
proof (rule requests_held_subseq[OF assms(1)])
  show "subseq (rs_tasks s') (rs_tasks s)" using prune_task_history_set(3)[OF assms(2)] .
qed (subst prune_task_history_frame(1)[OF assms(2)], simp)+

section \<open>Admission of a request\<close>

text \<open>
  After the pruning every record the index must keep is live, so the decision drops none of their
  entries. What the new request needs is that no Task of the history still carries its identity.
\<close>

lemma held_admit:
  assumes held: "requests_held s"
    and d: "decide_and_reserve (rs_dedup s) r h now False = (d, Ok Admit)"
    and unused: "\<And>t. t \<in> set (rs_tasks s) \<Longrightarrow> tk_request_id t \<noteq> Some r"
    and p: "p = (prune_expired_requests k s now)\<lparr>rs_dedup := d\<rparr>"
  shows "requests_held p" and "dedup_known d r = Some (h, None)" and "owner_count p r = 0"
proof -
  let ?d = "rs_dedup s"
  have inv: "dedup_invar ?d" using held by (rule requests_held_invar)
  note K = decide_admit_known[OF inv d]
  show known: "dedup_known d r = Some (h, None)" using K(2) by simp
  have q: "requests_held (prune_expired_requests k s now)" using held by (rule prune_expired_held)
  have sync: "live ?d now (sx_request_id x)"
    if x: "x \<in> set (rs_synchronous_executions (prune_expired_requests k s now))" for x
  proof (cases "sync_is_terminal (sx_state x)")
    case True
    with x show ?thesis using retained_requests_live[OF inv] by simp
  next
    case False
    with q x obtain h' where "dedup_known ?d (sx_request_id x) = Some (h', None)"
      by (rule held_sync_open) simp
    then show ?thesis by (simp add: live_def)
  qed
  have mut: "live ?d now (rm_request_id m)"
    if "m \<in> set (rs_retained_mutations (prune_expired_requests k s now))" for m
    using that retained_requests_live[OF inv] by simp
  have zero: "owner_count p r = 0"
    using unused sync mut K(1) by (auto simp: owner_count_def task_owners_def p filter_empty_conv)
  show "owner_count p r = 0" by (fact zero)
  have same: "owner_count p r' = owner_count (prune_expired_requests k s now) r'" for r'
    by (simp add: owner_count_def p)
  have tasks: "task_held d t" if t: "t \<in> set (rs_tasks s)" for t
    unfolding task_held_def
  proof (intro allI impI)
    fix r' assume r': "tk_request_id t = Some r'"
    then have "r' \<noteq> r" using unused t by auto
    moreover have "task_held ?d t" using held t by (simp add: requests_held_def)
    ultimately show "case dedup_known d r' of None \<Rightarrow> tk_is_terminal t
        | Some (h, e) \<Rightarrow> tk_is_terminal t = (e \<noteq> None)"
      using r' K(2)[of r'] by (auto simp: task_held_def live_def split: option.splits if_splits)
  qed
  have "sync_held d x" if "x \<in> set (rs_synchronous_executions p)" for x
    using that sync[of x] K(1) K(2)[of "sx_request_id x"] q
    by (auto simp: p requests_held_def sync_held_def)
  moreover have "mutation_held d m" if "m \<in> set (rs_retained_mutations p)" for m
    using that mut[of m] K(1) K(2)[of "rm_request_id m"] q
    by (auto simp: p requests_held_def mutation_held_def)
  moreover have "dedup_invar d" using dedup.decide_invar[OF inv, of r h now False] d by simp
  moreover have "owner_count p r' \<le> 1" if "dedup_known d r' \<noteq> None" for r'
    using that zero q K(2)[of r'] unfolding same requests_held_def by (auto split: if_splits)
  ultimately show "requests_held p"
    using tasks by (simp add: requests_held_def p)
qed

lemma held_push_task:
  assumes "requests_held s" and "owner_count s r = 0" and "dedup_known (rs_dedup s) r = Some (h, None)"
    and "tk_request_id t = Some r" and "\<not> tk_is_terminal t"
    and "rs_tasks s' = rs_tasks s @ [t]" "rs_dedup s' = rs_dedup s"
    "rs_synchronous_executions s' = rs_synchronous_executions s"
    "rs_retained_mutations s' = rs_retained_mutations s"
  shows "requests_held s'"
proof -
  have c: "owner_count s' q = owner_count s q + (if q = r then 1 else 0)" for q
    using assms(4) by (simp add: owner_count_def task_owners_def assms(6,8,9))
  show ?thesis
    using assms(1-5) unfolding requests_held_def c assms(7,8,9)
    by (auto simp: assms(6) task_held_def)
qed

lemma held_push_sync:
  assumes "requests_held s" and "owner_count s (sx_request_id x) = 0"
    and "dedup_known (rs_dedup s) (sx_request_id x) = Some (h, None)"
    and "\<not> sync_is_terminal (sx_state x)"
    and "rs_tasks s' = rs_tasks s" "rs_dedup s' = rs_dedup s"
    "rs_synchronous_executions s' = rs_synchronous_executions s @ [x]"
    "rs_retained_mutations s' = rs_retained_mutations s"
  shows "requests_held s'"
proof -
  have c: "owner_count s' q = owner_count s q + (if q = sx_request_id x then 1 else 0)" for q
    by (simp add: owner_count_def task_owners_def assms(5,7,8))
  show ?thesis
    using assms(1-4) unfolding requests_held_def c assms(5,6,8)
    by (auto simp: assms(7) sync_held_def)
qed

section \<open>Settlement of a request\<close>

text \<open>\<open>if let Some(request_id) = .. { state.dedup.settle(..)?; }\<close>\<close>

definition settle_request ::
  "('p, 'r, 'j) runtime_state \<Rightarrow> request_id option \<Rightarrow> u64 \<Rightarrow> ('p, 'r, 'j) runtime_state res" where
  "settle_request s request_id terminal_at_ms =
     (case request_id of
        None \<Rightarrow> Ok s
      | Some r \<Rightarrow> rbind (dedup_settle (rs_dedup s) r terminal_at_ms) (\<lambda>(d, _). Ok (s\<lparr>rs_dedup := d\<rparr>)))"

lemma filter_one_unique:
  assumes "length (filter P xs) = 1" "i < length xs" "j < length xs" "P (xs ! i)" "P (xs ! j)"
  shows "i = j"
proof -
  have "card {i. i < length xs \<and> P (xs ! i)} = 1" using assms(1) by (simp add: length_filter_conv_card)
  with assms(2-5) show ?thesis by (metis (mono_tags, lifting) card_1_singletonE mem_Collect_eq singletonD)
qed

lemma task_owners_alt: "task_owners ts r = length (filter (\<lambda>q. q = Some r) (map tk_request_id ts))"
  by (simp add: task_owners_def filter_map comp_def)

lemma task_owners_map:
  "map tk_request_id ts = map tk_request_id ts' \<Longrightarrow> task_owners ts r = task_owners ts' r"
  by (simp only: task_owners_alt)

lemma sync_owners_map:
  "length (filter (\<lambda>x. sx_request_id x = q) xs) = length (filter (\<lambda>r. r = q) (map sx_request_id xs))"
  by (simp add: filter_map comp_def)

lemma set_list_update_subset:
  "set (xs[i := x]) \<subseteq> insert x {u. \<exists>j<length xs. j \<noteq> i \<and> u = xs ! j}"
proof
  fix u assume "u \<in> set (xs[i := x])"
  then obtain j where "j < length xs" "u = xs[i := x] ! j" by (auto simp: in_set_conv_nth)
  then show "u \<in> insert x {u. \<exists>j<length xs. j \<noteq> i \<and> u = xs ! j}"
    by (cases "j = i") auto
qed

lemma settle_request_Ok:
  assumes "settle_request s request t = Ok s'"
  shows "s' = s\<lparr>rs_dedup := rs_dedup s'\<rparr>"
    and "request = None \<Longrightarrow> rs_dedup s' = rs_dedup s"
    and "request = Some r \<Longrightarrow> \<exists>e. dedup_settle (rs_dedup s) r t = Ok (rs_dedup s', e)"
  using assms by (auto simp: settle_request_def rbind_eq_Ok_iff split: option.splits)

lemma held_settle_task:
  assumes held: "requests_held s" and i: "i < length (rs_tasks s)" "\<not> tk_is_terminal (rs_tasks s ! i)"
    and t: "tk_is_terminal t" "tk_request_id t = tk_request_id (rs_tasks s ! i)"
    and s1: "rs_tasks s1 = (rs_tasks s)[i := t]" "rs_dedup s1 = rs_dedup s"
      "rs_synchronous_executions s1 = rs_synchronous_executions s"
      "rs_retained_mutations s1 = rs_retained_mutations s"
    and settle: "settle_request s1 (tk_request_id t) now = Ok s2"
  shows "requests_held s2"
proof -
  note S = settle_request_Ok[OF settle]
  have f: "rs_tasks s2 = (rs_tasks s)[i := t]"
    "rs_synchronous_executions s2 = rs_synchronous_executions s"
    "rs_retained_mutations s2 = rs_retained_mutations s"
    by (subst S(1), simp add: s1)+
  have "map tk_request_id (rs_tasks s2) = map tk_request_id (rs_tasks s)"
    unfolding f by (rule map_list_update_same) (simp add: t)
  then have c: "owner_count s2 r = owner_count s r" for r
    using task_owners_map unfolding owner_count_def f(2,3) by metis
  have subset: "set (rs_tasks s2) \<subseteq> insert t {u. \<exists>j<length (rs_tasks s). j \<noteq> i \<and> u = rs_tasks s ! j}"
    unfolding f by (rule set_list_update_subset)
  have mem: "rs_tasks s ! i \<in> set (rs_tasks s)" using i(1) by simp
  have old: "task_held (rs_dedup s) (rs_tasks s ! j)" if "j < length (rs_tasks s)" for j
    using held nth_mem[OF that] by (simp add: requests_held_def)
  show ?thesis
  proof (cases "tk_request_id t")
    case None
    have d: "rs_dedup s2 = rs_dedup s" using S(2)[OF None] s1 by simp
    have "task_held (rs_dedup s) u" if "u \<in> set (rs_tasks s2)" for u
      using subset that old None by (auto simp: task_held_def)
    with held show ?thesis unfolding requests_held_def c d f(2,3) by simp
  next
    case (Some r)
    then have req: "tk_request_id (rs_tasks s ! i) = Some r" using t(2) by simp
    obtain h where h: "dedup_known (rs_dedup s) r = Some (h, None)"
      using held_task_open[OF held mem req i(2)] .
    obtain e where e: "dedup_settle (rs_dedup s) r now = Ok (rs_dedup s2, e)"
      using S(3)[OF Some] s1(2) by auto
    have k: "dedup_known (rs_dedup s2) q = (if q = r then Some (h, Some e) else dedup_known (rs_dedup s) q)" for q
      using dedup_settle_known(1)[OF e, of q] h by simp
    have known: "dedup_known (rs_dedup s) r \<noteq> None" using h by simp
    note X = held_task_excludes[OF held mem req known]
    have other: "tk_request_id (rs_tasks s ! j) \<noteq> Some r" if "j < length (rs_tasks s)" "j \<noteq> i" for j
      using filter_one_unique[of "\<lambda>t. tk_request_id t = Some r" "rs_tasks s" i j] X(3) i(1) that req
      by (auto simp: task_owners_def)
    have "task_held (rs_dedup s2) u" if "u \<in> set (rs_tasks s2)" for u
    proof (cases "u = t")
      case True
      with Some t(1) show ?thesis by (simp add: task_held_def k)
    next
      case False
      with subset that obtain j where "j < length (rs_tasks s)" "j \<noteq> i" "u = rs_tasks s ! j" by auto
      with old other show ?thesis by (auto simp: task_held_def k)
    qed
    moreover have "sync_held (rs_dedup s2) x" if "x \<in> set (rs_synchronous_executions s)" for x
      using held X(1)[OF that] that by (auto simp: sync_held_def k requests_held_def)
    moreover have "mutation_held (rs_dedup s2) m" if "m \<in> set (rs_retained_mutations s)" for m
      using held X(2)[OF that] that by (auto simp: mutation_held_def k requests_held_def)
    moreover have "dedup_invar (rs_dedup s2)"
      using dedup_settle_invar[OF requests_held_invar[OF held] e] .
    moreover have "owner_count s q \<le> 1" if "dedup_known (rs_dedup s2) q \<noteq> None" for q
      using held that known by (auto simp: requests_held_def k split: if_splits)
    ultimately show ?thesis unfolding requests_held_def c f(2,3) by simp
  qed
qed

lemma held_settle_sync:
  assumes held: "requests_held s" and i: "i < length (rs_synchronous_executions s)"
      "\<not> sync_is_terminal (sx_state (rs_synchronous_executions s ! i))"
    and x: "sync_is_terminal (sx_state x)"
      "sx_request_id x = sx_request_id (rs_synchronous_executions s ! i)"
    and settle: "dedup_settle (rs_dedup s) (sx_request_id x) now = Ok (d, e)"
    and s2: "rs_synchronous_executions s2 = (rs_synchronous_executions s)[i := x]"
      "rs_tasks s2 = rs_tasks s" "rs_dedup s2 = d" "rs_retained_mutations s2 = rs_retained_mutations s"
  shows "requests_held s2"
proof -
  let ?X = "rs_synchronous_executions s"
  let ?r = "sx_request_id x"
  have mem: "?X ! i \<in> set ?X" using i(1) by simp
  obtain h where h: "dedup_known (rs_dedup s) ?r = Some (h, None)"
    using held_sync_open[OF held mem i(2)] x(2) by metis
  have k: "dedup_known d q = (if q = ?r then Some (h, Some e) else dedup_known (rs_dedup s) q)" for q
    using dedup_settle_known(1)[OF settle, of q] h by simp
  note X = held_sync_excludes[OF held mem, folded x(2)]
  have "map sx_request_id (?X[i := x]) = map sx_request_id ?X"
    by (rule map_list_update_same) (simp add: x)
  then have "length (filter (\<lambda>x. sx_request_id x = q) (?X[i := x])) = length (filter (\<lambda>x. sx_request_id x = q) ?X)" for q
    by (simp only: sync_owners_map)
  then have c: "owner_count s2 q = owner_count s q" for q
    by (simp add: owner_count_def s2)
  have other: "sx_request_id (?X ! j) \<noteq> ?r" if "j < length ?X" "j \<noteq> i" for j
    using filter_one_unique[OF X(3) i(1) that(1)] x(2) that(2) by metis
  have "sync_held d u" if u: "u \<in> set (rs_synchronous_executions s2)" for u
  proof (cases "u = x")
    case True
    with x(1) show ?thesis by (simp add: sync_held_def k)
  next
    case False
    with u obtain j where j: "j < length ?X" "j \<noteq> i" "u = ?X ! j"
      using set_list_update_subset[of ?X i x] unfolding s2 by blast
    have "sync_held (rs_dedup s) (?X ! j)" using held nth_mem[OF j(1)] by (simp add: requests_held_def)
    with j(3) other[OF j(1,2)] show ?thesis by (auto simp: sync_held_def k)
  qed
  moreover have "task_held d t" if "t \<in> set (rs_tasks s)" for t
    using held X(1)[OF that] that by (auto simp: requests_held_def task_held_def k)
  moreover have "mutation_held d m" if "m \<in> set (rs_retained_mutations s)" for m
    using held X(2)[OF that] that by (auto simp: mutation_held_def k requests_held_def)
  moreover have "dedup_invar d" using dedup_settle_invar[OF requests_held_invar[OF held] settle] .
  moreover have "owner_count s q \<le> 1" if "dedup_known d q \<noteq> None" for q
    using held that h by (auto simp: requests_held_def k split: if_splits)
  ultimately show ?thesis unfolding requests_held_def c s2 by simp
qed

text \<open>A retained mutation opens and settles its entry at once.\<close>

lemma held_push_mutation:
  assumes held: "requests_held s" and zero: "owner_count s r = 0"
    and known: "dedup_known (rs_dedup s) r = Some (h, None)"
    and settle: "dedup_settle (rs_dedup s) r now = Ok (d, e)"
    and s': "rs_tasks s' = rs_tasks s" "rs_synchronous_executions s' = rs_synchronous_executions s"
      "rs_dedup s' = d"
      "rs_retained_mutations s' = rs_retained_mutations s @ [\<lparr>rm_request_id = r, rm_result = j\<rparr>]"
  shows "requests_held s'"
proof -
  have k: "dedup_known d q = (if q = r then Some (h, Some e) else dedup_known (rs_dedup s) q)" for q
    using dedup_settle_known(1)[OF settle, of q] known by simp
  have none: "\<And>t. t \<in> set (rs_tasks s) \<Longrightarrow> tk_request_id t \<noteq> Some r"
    "\<And>x. x \<in> set (rs_synchronous_executions s) \<Longrightarrow> sx_request_id x \<noteq> r"
    "\<And>m. m \<in> set (rs_retained_mutations s) \<Longrightarrow> rm_request_id m \<noteq> r"
    using zero by (auto simp: owner_count_def task_owners_def filter_empty_conv)
  have c: "owner_count s' q = owner_count s q + (if q = r then 1 else 0)" for q
    by (simp add: owner_count_def task_owners_def s')
  have "task_held d t" if "t \<in> set (rs_tasks s)" for t
    using held none(1)[OF that] that by (auto simp: requests_held_def task_held_def k)
  moreover have "sync_held d x" if "x \<in> set (rs_synchronous_executions s)" for x
    using held none(2)[OF that] that by (auto simp: requests_held_def sync_held_def k)
  moreover have "mutation_held d m" if "m \<in> set (rs_retained_mutations s')" for m
    using held none(3) that by (auto simp: requests_held_def mutation_held_def k s')
  moreover have "dedup_invar d" using dedup_settle_invar[OF requests_held_invar[OF held] settle] .
  moreover have "owner_count s' q \<le> 1" if "dedup_known d q \<noteq> None" for q
    using held that zero by (auto simp: requests_held_def k c split: if_splits)
  ultimately show ?thesis unfolding requests_held_def s'(1,2,3) by simp
qed

text \<open>A change to Tasks that keeps every request and, where there is one, its progress.\<close>

definition task_claim :: "('p, 'r) task_record \<Rightarrow> (request_id \<times> bool) option" where
  "task_claim t = map_option (\<lambda>r. (r, tk_is_terminal t)) (tk_request_id t)"

lemma requests_of_claims: "map tk_request_id ts = map (map_option fst) (map task_claim ts)"
  by (simp add: task_claim_def comp_def option.map_comp option.map_ident)

lemma held_of_claims:
  "(\<forall>t\<in>set ts. task_held d t) \<longleftrightarrow> (\<forall>c\<in>set (map task_claim ts). \<forall>r b. c = Some (r, b) \<longrightarrow>
     (case dedup_known d r of None \<Rightarrow> b | Some (h, e) \<Rightarrow> b = (e \<noteq> None)))"
proof -
  have "task_held d t \<longleftrightarrow> (\<forall>r b. task_claim t = Some (r, b) \<longrightarrow>
     (case dedup_known d r of None \<Rightarrow> b | Some (h, e) \<Rightarrow> b = (e \<noteq> None)))" if "t \<in> set ts" for t
    by (auto simp: task_held_def task_claim_def)
  then show ?thesis by simp
qed

lemma held_same_claims:
  assumes "requests_held s" and "map task_claim (rs_tasks s') = map task_claim (rs_tasks s)"
    and "rs_dedup s' = rs_dedup s" "rs_synchronous_executions s' = rs_synchronous_executions s"
    "rs_retained_mutations s' = rs_retained_mutations s"
  shows "requests_held s'"
proof -
  have "map tk_request_id (rs_tasks s') = map tk_request_id (rs_tasks s)"
    by (simp only: requests_of_claims assms(2))
  then have c: "owner_count s' q = owner_count s q" for q
    using task_owners_map unfolding owner_count_def assms(4,5) by metis
  have "(\<forall>t\<in>set (rs_tasks s'). task_held d t) = (\<forall>t\<in>set (rs_tasks s). task_held d t)" for d
    by (simp only: held_of_claims assms(2))
  with assms(1) show ?thesis unfolding requests_held_def c assms(3,4,5) by simp
qed

end
