(* ===== verification/Task_Sections.thy ===== *)
theory Task_Sections
  imports Request_Hold
begin

text \<open>
  The Task operations of \<open>rust/crates/runtime/src/core.rs\<close>, each as the function its locked section
  applies to the loaded state: admission, the start of an execution, cancellation, settlement,
  interruption, recovery of a prior instance, and the reads. A section answers an error, or the
  state to commit (\<open>None\<close> where it commits nothing) with its answer. \<open>Runtime_Core\<close> loads and
  commits around them. What the code asks of its ports inside a section is an argument: the
  capability port's answer, and the host's answer to \<open>cleanup_unverified\<close>.
\<close>

section \<open>Shared\<close>

type_synonym ('s, 'a) locked_step = "('s option \<times> 'a) res"

definition require_ready :: "runtime_readiness \<Rightarrow> unit res" where
  "require_ready readiness =
     (if readiness = Ready then Ok ()
      else err CapabilityUnavailable ''Runtime is not ready for execution'')"

text \<open>\<open>capabilities.current().and_then(..)\<close>, the check that precedes an execution.\<close>

definition current_executor :: "capability_snapshot res \<Rightarrow> executor_request \<Rightarrow> admitted_executor res" where
  "current_executor current route =
     rbind current (\<lambda>capability.
     rbind (require_ready (cc_readiness (cs_context capability))) (\<lambda>_.
     resolve_execution capability route))"

definition task_index :: "('p, 'r, 'j) runtime_state \<Rightarrow> task_id \<Rightarrow> nat res" where
  "task_index s task_id =
     ok_or (position (\<lambda>t. tk_task_id t = task_id) (rs_tasks s))
       (domain_error_new NotFound ''Task not found'')"

definition admission_fence_of :: "fence \<Rightarrow> admission_fence" where
  "admission_fence_of f =
     \<lparr>af_runtime_epoch = fence_runtime_epoch f, af_host_generation = fence_host_generation f,
      af_runtime_instance_id = fence_runtime_instance_id f\<rparr>"

definition grow_used :: "('p, 'r, 'j) runtime_state \<Rightarrow> u64 \<Rightarrow> ('p, 'r, 'j) runtime_state res" where
  "grow_used s growth =
     rbind (ok_or (checked_add (rs_used_bytes s) growth)
              (domain_error_new ResourceLimit ''store size overflow''))
       (\<lambda>used. Ok (s\<lparr>rs_used_bytes := used\<rparr>))"

definition release_reserved :: "('p, 'r, 'j) runtime_state \<Rightarrow> u64 \<Rightarrow> ('p, 'r, 'j) runtime_state res" where
  "release_reserved s reservation =
     rbind (ok_or (checked_sub (rs_reserved_bytes s) reservation)
              (domain_error_new InternalError ''reservation underflow''))
       (\<lambda>reserved. Ok (s\<lparr>rs_reserved_bytes := reserved\<rparr>))"

section \<open>Admission\<close>

record 'p task_admission =
  ta_request_id :: request_id
  ta_payload_sha256 :: string
  ta_task_id :: task_id
  ta_execution_id :: uuid
  ta_tool :: mother_tool
  ta_action :: string
  ta_route :: executor_request
  ta_payload :: 'p
  ta_created_at :: string
  ta_settlement_bound_bytes :: u64
  ta_now_ms :: u64

datatype 'r task_admission_result = TaskAdmitted "'r task_snapshot" | TaskReplay "'r task_snapshot"

text \<open>The pushed record of \<open>admit_task\<close>.\<close>

definition admitted_task :: "'p task_admission \<Rightarrow> admitted_executor \<Rightarrow> task_lifecycle \<Rightarrow> u64 \<Rightarrow> ('p, 'r) task_record" where
  "admitted_task admission executor lifecycle reservation =
     \<lparr>tk_task_id = ta_task_id admission, tk_execution_id = ta_execution_id admission,
      tk_lifecycle = lifecycle, tk_tool = ta_tool admission, tk_action = ta_action admission,
      tk_created_at = ta_created_at admission, tk_started_at = None, tk_ended_at = None,
      tk_waiting_reason = None,
      tk_origin = OriginRequest (ta_request_id admission) (executor_record_from executor)
        (ta_route admission) (ta_payload admission),
      tk_result = None, tk_error = None, tk_reserved_bytes = reservation\<rparr>"

text \<open>\<open>admit_task\<close> after the replay decision: the bounds, the executor and the reservation.\<close>

definition admit_new_task ::
  "'j wire_codec \<Rightarrow> capability_snapshot res \<Rightarrow> 'p task_admission \<Rightarrow> ('p, 'r, 'j) runtime_state \<Rightarrow>
   (('p, 'r, 'j) runtime_state, 'r task_admission_result) locked_step" where
  "admit_new_task k current admission s =
     rbind (prune_task_history k s (ta_now_ms admission)) (\<lambda>(s, _).
     if length (filter (\<lambda>t. task_is_pinned s t (ta_now_ms admission)) (rs_tasks s)) \<ge> MAX_TERMINAL_TASKS
     then err ResourceLimit ''Task replay retention capacity is full''
     else
       rbind (current_executor current (ta_route admission)) (\<lambda>executor.
       if length (filter (\<lambda>t. tk_state t = TaskQueued) (rs_tasks s)) \<ge> MAX_QUEUED_TASKS
       then err ResourceLimit ''Task queue is full''
       else
         let reservation = max (ta_settlement_bound_bytes admission) RESERVE_FLOOR_BYTES
         in rbind (ok_or
              (Option.bind (Option.bind (total_committed_and_reserved s)
                 (\<lambda>value. checked_add value TASK_RECORD_BYTES))
                 (\<lambda>value. checked_add value reservation))
              (domain_error_new ResourceLimit ''store capacity overflow'')) (\<lambda>total.
            if total > STORE_LIMIT_BYTES then err ResourceLimit ''store settlement capacity is full''
            else
              rbind (lifecycle_apply lifecycle_new EvQueue) (\<lambda>lifecycle.
              let task = admitted_task admission executor lifecycle reservation
              in Ok (Some (s\<lparr>rs_used_bytes := rs_used_bytes s + TASK_RECORD_BYTES,
                             rs_reserved_bytes := rs_reserved_bytes s + reservation,
                             rs_tasks := rs_tasks s @ [task]\<rparr>),
                     TaskAdmitted (snapshot task))))))"

definition admit_task_section ::
  "'j wire_codec \<Rightarrow> capability_snapshot res \<Rightarrow> 'p task_admission \<Rightarrow> ('p, 'r, 'j) runtime_state \<Rightarrow>
   (('p, 'r, 'j) runtime_state, 'r task_admission_result) locked_step" where
  "admit_task_section k current admission s =
     (let s = prune_expired_requests k s (ta_now_ms admission);
          (d, decision) = decide_and_reserve (rs_dedup s) (ta_request_id admission)
            (ta_payload_sha256 admission) (ta_now_ms admission) False;
          s = s\<lparr>rs_dedup := d\<rparr>
      in rbind decision (\<lambda>decision.
         case decision of
           Replay \<Rightarrow>
             rbind (ok_or (List.find (\<lambda>t. tk_request_id t = Some (ta_request_id admission)) (rs_tasks s))
                (domain_error_new InternalError ''retained Task request has no canonical Task''))
             (\<lambda>existing. Ok (None, TaskReplay (snapshot existing)))
         | Admit \<Rightarrow> admit_new_task k current admission s
         | BypassForTaskCancel \<Rightarrow> err InternalError ''Task admission cannot bypass dedup''))"

section \<open>Settlement\<close>

text \<open>\<open>settle_once\<close>: what an outcome settles a Task with.\<close>

fun outcome_settlement ::
  "('r, 'j) execution_outcome \<Rightarrow> bool \<Rightarrow>
   u64 \<times> task_event \<times> 'r task_terminal_result option \<times> public_error option" where
  "outcome_settlement (OutcomeCompleted result encoded_bytes) cleanup_verified =
     (encoded_bytes, EvComplete True cleanup_verified, Some result, None)"
| "outcome_settlement (OutcomeFailed error encoded_bytes) cleanup_verified =
     (encoded_bytes, EvFail cleanup_verified, None, Some error)"
| "outcome_settlement (OutcomeCancelled error encoded_bytes) cleanup_verified =
     (encoded_bytes, EvSettleCancellation cleanup_verified, None, Some error)"
| "outcome_settlement (OutcomeSynchronousCompleted _ encoded_bytes) cleanup_verified =
     (encoded_bytes, EvFail cleanup_verified, None,
      Some (public_error_new InternalError ''runtime.execution'' False))"

text \<open>
  An outcome that exceeds its reservation, or whose cleanup is unverified, settles
  as a failure within the reservation floor, and the operation of a core error becomes the Task's.
\<close>

definition bounded_settlement ::
  "('p, 'r) task_record \<Rightarrow> ('r, 'j) execution_outcome \<Rightarrow> bool \<Rightarrow>
   u64 \<times> task_event \<times> 'r task_terminal_result option \<times> public_error option" where
  "bounded_settlement task outcome cleanup_verified =
     (let (encoded_bytes, event, result, error) = outcome_settlement outcome cleanup_verified;
          (growth, event, result, error) =
            (if encoded_bytes \<le> tk_reserved_bytes task \<and> cleanup_verified
             then (encoded_bytes, event, result, error)
             else (min RESERVE_FLOOR_BYTES (tk_reserved_bytes task), EvFail cleanup_verified, None,
                   Some (if cleanup_verified
                         then public_error_new ResourceLimit ''runtime.execution'' False
                         else cleanup_unverified_error ''runtime.execution''
                                (Option.bind error pe_details))));
          error = map_option (\<lambda>e. if pe_operation e = ''runtime.execution''
                                   then e\<lparr>pe_operation := task_operation task\<rparr> else e) error
      in (growth, event, result, error))"

definition settled_task ::
  "('p, 'r) task_record \<Rightarrow> task_lifecycle \<Rightarrow> string \<Rightarrow> 'r task_terminal_result option \<Rightarrow>
   public_error option \<Rightarrow> ('p, 'r) task_record" where
  "settled_task task lifecycle ended_at result error =
     task\<lparr>tk_lifecycle := lifecycle, tk_ended_at := Some ended_at, tk_result := result, tk_error := error\<rparr>"

text \<open>
  The tail the settlements of one Task share: the retained request, the snapshot, the history.
\<close>

definition close_task ::
  "'j wire_codec \<Rightarrow> ('p, 'r, 'j) runtime_state \<Rightarrow> ('p, 'r) task_record \<Rightarrow> u64 \<Rightarrow>
   (('p, 'r, 'j) runtime_state, 'r task_snapshot) locked_step" where
  "close_task k s task terminal_at_ms =
     rbind (settle_request s (tk_request_id task) terminal_at_ms) (\<lambda>s.
     rbind (prune_task_history k s terminal_at_ms) (\<lambda>(s, _).
     Ok (Some s, snapshot task)))"

definition settle_section ::
  "'j wire_codec \<Rightarrow> (admission_fence \<Rightarrow> uuid \<Rightarrow> unit res) \<Rightarrow> task_id \<Rightarrow> ('r, 'j) execution_outcome \<Rightarrow> bool \<Rightarrow>
   string \<Rightarrow> u64 \<Rightarrow> ('p, 'r, 'j) runtime_state \<Rightarrow> (('p, 'r, 'j) runtime_state, 'r task_snapshot) locked_step" where
  "settle_section k report task_id outcome cleanup_verified ended_at terminal_at_ms s =
     rbind (task_index s task_id) (\<lambda>i.
     let task = rs_tasks s ! i in
     rbind (if cleanup_verified then Ok ()
            else report (admission_fence_of (tk_fence task)) (tk_execution_id task)) (\<lambda>_.
     if tk_is_terminal task then Ok (None, snapshot task)
     else
       let (growth, event, result, error) = bounded_settlement task outcome cleanup_verified in
       rbind (lifecycle_apply (tk_lifecycle task) event) (\<lambda>lifecycle.
       let task' = settled_task task lifecycle ended_at result error;
           s = s\<lparr>rs_tasks := (rs_tasks s)[i := task']\<rparr> in
       rbind (grow_used s growth) (\<lambda>s.
       rbind (release_reserved s (tk_reserved_bytes task)) (\<lambda>s.
       close_task k s task' terminal_at_ms)))))"

section \<open>The start of an execution\<close>

text \<open>
  What the locked part of \<open>run_task\<close> leads to: the Task has settled already, it settles as a
  refusal, its authority is stale, or its execution starts.
\<close>

datatype ('p, 'r) run_begin =
  RunSettled "'r task_snapshot"
| RunRefused domain_error
| RunStale
| RunStarted "'p admitted_execution"

definition run_begin_section ::
  "capability_snapshot res \<Rightarrow> task_id \<Rightarrow> string \<Rightarrow> ('p, 'r, 'j) runtime_state \<Rightarrow>
   (('p, 'r, 'j) runtime_state, ('p, 'r) run_begin) locked_step" where
  "run_begin_section current task_id started_at s =
     rbind (task_index s task_id) (\<lambda>i.
     let task = rs_tasks s ! i in
     if tk_is_terminal task then Ok (None, RunSettled (snapshot task))
     else
       case tk_origin task of
         OriginAutomationExecution _ _ \<Rightarrow>
           err Unsupported ''an AutomationExecution drives its own container Task''
       | OriginRequest _ admitted route payload \<Rightarrow>
           (case current_executor current route of
              Inl error \<Rightarrow> Ok (None, RunRefused error)
            | Inr executor \<Rightarrow>
                if executor_record_from executor \<noteq> admitted then Ok (None, RunStale)
                else
                  rbind (lifecycle_apply (tk_lifecycle task) EvStart) (\<lambda>lifecycle.
                  Ok (Some (update_task i (\<lambda>t. t\<lparr>tk_lifecycle := lifecycle, tk_started_at := Some started_at\<rparr>) s),
                      RunStarted \<lparr>ax_execution_id = tk_execution_id task, ax_task_id = Some (tk_task_id task),
                        ax_executor = admitted, ax_payload = payload\<rparr>))))"

text \<open>\<open>interrupt_before_execution_once\<close>\<close>

definition interrupt_section ::
  "'j wire_codec \<Rightarrow> task_id \<Rightarrow> string \<Rightarrow> u64 \<Rightarrow> ('p, 'r, 'j) runtime_state \<Rightarrow>
   (('p, 'r, 'j) runtime_state, 'r task_snapshot) locked_step" where
  "interrupt_section k task_id ended_at terminal_at_ms s =
     rbind (task_index s task_id) (\<lambda>i.
     let task = rs_tasks s ! i in
     if tk_is_terminal task then Ok (None, snapshot task)
     else
       rbind (lifecycle_apply (tk_lifecycle task) EvHostLost) (\<lambda>lifecycle.
       let task' = task\<lparr>tk_lifecycle := lifecycle, tk_ended_at := Some ended_at,
             tk_error := Some (public_error_new StaleAuthority (task_operation task) False)\<rparr>;
           s = s\<lparr>rs_tasks := (rs_tasks s)[i := task']\<rparr> in
       rbind (release_reserved s (tk_reserved_bytes task)) (\<lambda>s.
       rbind (grow_used s (min RESERVE_FLOOR_BYTES (tk_reserved_bytes task))) (\<lambda>s.
       close_task k s task' terminal_at_ms))))"

section \<open>Cancellation\<close>

text \<open>
  What the locked part of \<open>cancel_task\<close> leads to: no such Task, an answer, the answer with the
  running AutomationExecution to wake, or the executor to cancel and the operation it ran.
\<close>

datatype 'r cancel_begin =
  CancelNotFound
| CancelAnswer "'r task_snapshot"
| CancelWake uuid "'r task_snapshot"
| CancelAwait uuid string

definition cancel_queued ::
  "'j wire_codec \<Rightarrow> nat \<Rightarrow> string \<Rightarrow> u64 \<Rightarrow> ('p, 'r, 'j) runtime_state \<Rightarrow>
   (('p, 'r, 'j) runtime_state, 'r task_snapshot) locked_step" where
  "cancel_queued k i ended_at terminal_at_ms s =
     (let task = rs_tasks s ! i;
          error = public_error_new Cancelled (task_operation task) False;
          reservation = tk_reserved_bytes task
      in rbind (encoded_cancel_terminal_bytes k ended_at error) (\<lambda>terminal_growth.
         if terminal_growth > reservation
         then err ResourceLimit ''Task cancellation exceeds its settlement reservation''
         else
           rbind (lifecycle_apply (tk_lifecycle task) (EvSettleCancellation True)) (\<lambda>lifecycle.
           let task' = task\<lparr>tk_lifecycle := lifecycle, tk_ended_at := Some ended_at,
                 tk_error := Some error\<rparr>;
               s = s\<lparr>rs_tasks := (rs_tasks s)[i := task']\<rparr> in
           rbind (grow_used s terminal_growth) (\<lambda>s.
           rbind (release_reserved s reservation) (\<lambda>s.
           close_task k s task' terminal_at_ms)))))"

definition cancel_container ::
  "'j wire_codec \<Rightarrow> nat \<Rightarrow> task_id \<Rightarrow> string \<Rightarrow> u64 \<Rightarrow> ('p, 'r, 'j) runtime_state \<Rightarrow>
   (('p, 'r, 'j) runtime_state, 'r cancel_begin) locked_step" where
  "cancel_container k i task_id ended_at terminal_at_ms s =
     (let task = rs_tasks s ! i;
          execution_id = tk_execution_id task
      in rbind (if tk_state task \<in> {TaskCreated, TaskQueued}
                then rbind (settle_automation_in_state s execution_id
                       (AutoOutcomeCancelled (public_error_new Cancelled (task_operation task) False))
                       ended_at) (\<lambda>(s, _). Ok s)
                else Ok s) (\<lambda>s.
         rbind (ok_or (find_task s task_id) (domain_error_new NotFound ''Task not found'')) (\<lambda>found.
         rbind (prune_task_history k s terminal_at_ms) (\<lambda>(s, _).
         Ok (Some s, CancelWake execution_id (snapshot found))))))"

definition cancel_section ::
  "'j wire_codec \<Rightarrow> task_id \<Rightarrow> string \<Rightarrow> u64 \<Rightarrow> ('p, 'r, 'j) runtime_state \<Rightarrow>
   (('p, 'r, 'j) runtime_state, 'r cancel_begin) locked_step" where
  "cancel_section k task_id ended_at terminal_at_ms s =
     rbind (prune_task_history k s terminal_at_ms) (\<lambda>(s, pruned).
     let commit_pruned = (if pruned then Some s else None) in
     case position (\<lambda>t. tk_task_id t = task_id) (rs_tasks s) of
       None \<Rightarrow> Ok (commit_pruned, CancelNotFound)
     | Some i \<Rightarrow>
         let task = rs_tasks s ! i in
         if tk_is_terminal task \<or> tl_cancel_requested (tk_lifecycle task)
         then Ok (commit_pruned, CancelAnswer (snapshot task))
         else
           rbind (lifecycle_apply (tk_lifecycle task) EvRequestCancel) (\<lambda>lifecycle.
           let s = update_task i (\<lambda>t. t\<lparr>tk_lifecycle := lifecycle\<rparr>) s in
           if is_container task then cancel_container k i task_id ended_at terminal_at_ms s
           else if tk_state task \<in> {TaskCreated, TaskQueued}
           then rbind (cancel_queued k i ended_at terminal_at_ms s)
                  (\<lambda>(s, answer). Ok (s, CancelAnswer answer))
           else Ok (Some s, CancelAwait (tk_execution_id task) (task_operation task))))"

section \<open>Recovery of a prior instance\<close>

text \<open>The two loops of \<open>recover_old_instance\<close>, one record at a time by its index.\<close>

definition recover_task ::
  "uuid \<Rightarrow> string \<Rightarrow> u64 \<Rightarrow> nat \<Rightarrow> ('p, 'r, 'j) runtime_state \<times> nat \<Rightarrow>
   (('p, 'r, 'j) runtime_state \<times> nat) res" where
  "recover_task old ended_at terminal_at_ms i p =
     (let (s, interrupted) = p;
          task = rs_tasks s ! i
      in if \<not> tk_is_terminal task \<and> fence_runtime_instance_id (tk_fence task) = old
         then
           rbind (lifecycle_apply (tk_lifecycle task) EvHostLost) (\<lambda>lifecycle.
           let task' = task\<lparr>tk_lifecycle := lifecycle, tk_ended_at := Some ended_at,
                 tk_error := Some (public_error_new IoError (task_operation task) False)\<rparr>;
               s = s\<lparr>rs_tasks := (rs_tasks s)[i := task']\<rparr> in
           rbind (release_reserved s (tk_reserved_bytes task)) (\<lambda>s.
           rbind (grow_used s (min RESERVE_FLOOR_BYTES (tk_reserved_bytes task))) (\<lambda>s.
           rbind (settle_request s (tk_request_id task) terminal_at_ms) (\<lambda>s.
           Ok (s, Suc interrupted)))))
         else Ok (s, interrupted))"

definition recover_synchronous ::
  "uuid \<Rightarrow> string \<Rightarrow> u64 \<Rightarrow> nat \<Rightarrow> ('p, 'r, 'j) runtime_state \<times> nat \<Rightarrow>
   (('p, 'r, 'j) runtime_state \<times> nat) res" where
  "recover_synchronous old ended_at terminal_at_ms i p =
     (let (s, interrupted) = p;
          execution = rs_synchronous_executions s ! i;
          terminal_bytes = min RESERVE_FLOOR_BYTES (sx_reserved_bytes execution)
      in if \<not> sync_is_terminal (sx_state execution)
            \<and> fence_runtime_instance_id (er_fence (sx_executor execution)) = old
         then
           let execution' = execution\<lparr>sx_state := SyncInterrupted, sx_ended_at := Some ended_at,
                 sx_error := Some (public_error_new IoError (sx_operation execution) False),
                 sx_terminal_bytes := terminal_bytes\<rparr>;
               s = s\<lparr>rs_synchronous_executions := (rs_synchronous_executions s)[i := execution']\<rparr> in
           rbind (release_reserved s (sx_reserved_bytes execution)) (\<lambda>s.
           rbind (grow_used s terminal_bytes) (\<lambda>s.
           rbind (settle_request s (Some (sx_request_id execution)) terminal_at_ms) (\<lambda>s.
           Ok (s, Suc interrupted))))
         else Ok (s, interrupted))"

fun for_each :: "(nat \<Rightarrow> 's \<Rightarrow> 's res) \<Rightarrow> nat list \<Rightarrow> 's \<Rightarrow> 's res" where
  "for_each f [] s = Ok s"
| "for_each f (i # is) s = rbind (f i s) (for_each f is)"

definition recover_section ::
  "'j wire_codec \<Rightarrow> uuid \<Rightarrow> string \<Rightarrow> u64 \<Rightarrow> ('p, 'r, 'j) runtime_state \<Rightarrow>
   (('p, 'r, 'j) runtime_state, nat) locked_step" where
  "recover_section k old ended_at terminal_at_ms s =
     rbind (interrupt_old_instance_automation_executions s old ended_at) (\<lambda>(s, interrupted).
     rbind (for_each (recover_task old ended_at terminal_at_ms) [0..<length (rs_tasks s)]
              (s, interrupted)) (\<lambda>(s, interrupted).
     rbind (for_each (recover_synchronous old ended_at terminal_at_ms)
              [0..<length (rs_synchronous_executions s)] (s, interrupted)) (\<lambda>(s, interrupted).
     rbind (prune_task_history k s terminal_at_ms) (\<lambda>(s, _).
     Ok (Some (prune_synchronous_history s terminal_at_ms), interrupted)))))"

section \<open>Reads\<close>

definition get_section ::
  "'j wire_codec \<Rightarrow> task_id \<Rightarrow> u64 \<Rightarrow> ('p, 'r, 'j) runtime_state \<Rightarrow>
   (('p, 'r, 'j) runtime_state, 'r task_snapshot res) locked_step" where
  "get_section k task_id now_ms s =
     rbind (prune_task_history k s now_ms) (\<lambda>(s, pruned).
     let answer = ok_or (map_option snapshot (find_task s task_id))
           (domain_error_new NotFound ''Task not found'')
     in Ok (if pruned then Some s else None, answer))"

text \<open>
  \<open>list_tasks\<close> sorts by the creation time, latest first, and ties by the identity, greatest first;
  \<open>sort_desc\<close> on the pair is that comparison.
\<close>

definition list_section ::
  "'j wire_codec \<Rightarrow> task_state list option \<Rightarrow> nat \<Rightarrow> u64 \<Rightarrow> ('p, 'r, 'j) runtime_state \<Rightarrow>
   (('p, 'r, 'j) runtime_state, task_summary list) locked_step" where
  "list_section k states limit now_ms s =
     rbind (prune_task_history k s now_ms) (\<lambda>(s, pruned).
     let tasks = map task_summary_of (filter (\<lambda>t. case states of None \<Rightarrow> True
           | Some states \<Rightarrow> List.member states (tk_state t)) (rs_tasks s));
         tasks = sort_desc (\<lambda>t. (tsu_created_at t, as_str (tsu_task_id t))) tasks
     in Ok (if pruned then Some s else None, take (min limit MAX_TERMINAL_TASKS) tasks))"

definition list_input_valid :: "task_state list option \<Rightarrow> nat \<Rightarrow> bool" where
  "list_input_valid states limit \<longleftrightarrow>
     1 \<le> limit \<and> limit \<le> 500 \<and> (case states of None \<Rightarrow> True | Some states \<Rightarrow> length states \<le> 7)"

end
