(* ===== verification/Sync_Sections.thy ===== *)
theory Sync_Sections
  imports Task_Sections
begin

text \<open>
  The synchronous executions and the retained mutations of \<open>rust/crates/runtime/src/core.rs\<close>, as the
  functions their locked sections apply to the loaded state: the admission loop body of
  \<open>run_synchronous\<close>, \<open>settle_synchronous\<close> and \<open>retained_mutation\<close>. Synchronous calls answer with
  public errors.
\<close>

section \<open>Admission\<close>

record 'p synchronous_admission =
  sa_request_id :: request_id
  sa_payload_sha256 :: string
  sa_execution_id :: uuid
  sa_operation :: string
  sa_route :: executor_request
  sa_payload :: 'p
  sa_settlement_bound_bytes :: u64
  sa_now_ms :: u64

text \<open>
  One pass of the admission loop: an answer from the retained record, a wait for the execution that
  holds the request, or the admitted execution.
\<close>

datatype ('p, 'j) sync_begin =
  SyncAnswer "(public_error, 'j) result"
| SyncWait
| SyncAdmitted "'p admitted_execution"

type_synonym ('s, 'a) public_step = "(public_error, 's option \<times> 'a) result"

definition sync_replay ::
  "bool \<Rightarrow> 'p synchronous_admission \<Rightarrow> ('p, 'r, 'j) runtime_state \<Rightarrow>
   (('p, 'r, 'j) runtime_state, ('p, 'j) sync_begin) public_step" where
  "sync_replay waiting admission s =
     (let internal = public_error_new InternalError (sa_operation admission) False
      in rbind (ok_or (List.find (\<lambda>x. sx_request_id x = sa_request_id admission)
                        (rs_synchronous_executions s)) internal) (\<lambda>existing.
         if sync_is_terminal (sx_state existing) then Ok (None, SyncAnswer (synchronous_result existing))
         else if waiting then Ok (None, SyncWait)
         else Err internal))"

definition admit_new_sync ::
  "'j wire_codec \<Rightarrow> capability_snapshot res \<Rightarrow> nat \<Rightarrow> 'p synchronous_admission \<Rightarrow>
   ('p, 'r, 'j) runtime_state \<Rightarrow>
   (('p, 'r, 'j) runtime_state, ('p, 'j) sync_begin) public_step" where
  "admit_new_sync k current permits admission s =
     (let full = public_error_new ResourceLimit (sa_operation admission) False
      in if permits = 0 then Err full
      else
        rbind (map_err (\<lambda>e. public_domain_error k e (sa_operation admission))
                 (current_executor current (sa_route admission))) (\<lambda>executor.
        let reservation = max (sa_settlement_bound_bytes admission) RESERVE_FLOOR_BYTES in
        rbind (ok_or
                (Option.bind (Option.bind (total_committed_and_reserved s)
                   (\<lambda>value. checked_add value SYNCHRONOUS_RECORD_BYTES))
                   (\<lambda>value. checked_add value reservation)) full) (\<lambda>total.
        if total > STORE_LIMIT_BYTES then Err full
        else
          let execution = \<lparr>ax_execution_id = sa_execution_id admission, ax_task_id = None,
                ax_executor = executor_record_from executor, ax_payload = sa_payload admission\<rparr> in
          rbind (ok_or (checked_add (rs_used_bytes s) SYNCHRONOUS_RECORD_BYTES) full) (\<lambda>used.
          rbind (ok_or (checked_add (rs_reserved_bytes s) reservation) full) (\<lambda>reserved.
          let record = \<lparr>sx_request_id = sa_request_id admission,
                sx_execution_id = sa_execution_id admission, sx_operation = sa_operation admission,
                sx_state = SyncRunning, sx_ended_at = None, sx_executor = ax_executor execution,
                sx_route = sa_route admission, sx_payload = sa_payload admission, sx_result = None,
                sx_error = None, sx_reserved_bytes = reservation, sx_terminal_bytes = 0\<rparr>
          in Ok (Some (s\<lparr>rs_used_bytes := used, rs_reserved_bytes := reserved,
                         rs_synchronous_executions := rs_synchronous_executions s @ [record]\<rparr>),
                 SyncAdmitted execution))))))"

text \<open>\<open>waiting\<close> is whether the waiter table holds the request.\<close>

definition sync_begin_section ::
  "'j wire_codec \<Rightarrow> capability_snapshot res \<Rightarrow> nat \<Rightarrow> bool \<Rightarrow> 'p synchronous_admission \<Rightarrow>
   ('p, 'r, 'j) runtime_state \<Rightarrow>
   (('p, 'r, 'j) runtime_state, ('p, 'j) sync_begin) public_step" where
  "sync_begin_section k current permits waiting admission s =
     (let s = prune_expired_requests k s (sa_now_ms admission);
          (d, decision) = decide_and_reserve (rs_dedup s) (sa_request_id admission)
            (sa_payload_sha256 admission) (sa_now_ms admission) False;
          s = s\<lparr>rs_dedup := d\<rparr>
      in rbind (map_err (\<lambda>e. public_domain_error k e (sa_operation admission)) decision) (\<lambda>decision.
         case decision of
           Replay \<Rightarrow> sync_replay waiting admission s
         | Admit \<Rightarrow> admit_new_sync k current permits admission s
         | BypassForTaskCancel \<Rightarrow> Err (public_error_new InternalError (sa_operation admission) False)))"

section \<open>Settlement\<close>

fun measured_execution_outcome ::
  "'j wire_codec \<Rightarrow> ('r, 'j) execution_outcome \<Rightarrow> string \<Rightarrow>
   (public_error, ('r, 'j) execution_outcome) result" where
  "measured_execution_outcome k (OutcomeSynchronousCompleted result _) operation =
     rbind (ok_or (wc_value k result) (public_error_new InternalError operation False))
       (\<lambda>measured. Ok (OutcomeSynchronousCompleted result measured))"
| "measured_execution_outcome k (OutcomeFailed error _) operation =
     rbind (ok_or (wc_error k error) (public_error_new InternalError operation False))
       (\<lambda>measured. Ok (OutcomeFailed error measured))"
| "measured_execution_outcome k (OutcomeCancelled error _) operation =
     rbind (ok_or (wc_error k error) (public_error_new InternalError operation False))
       (\<lambda>measured. Ok (OutcomeCancelled error measured))"
| "measured_execution_outcome k outcome operation = Ok outcome"

fun outcome_cause :: "('r, 'j) execution_outcome \<Rightarrow> error_detail_value btree_map option" where
  "outcome_cause (OutcomeFailed error _) = pe_details error"
| "outcome_cause (OutcomeCancelled error _) = pe_details error"
| "outcome_cause _ = None"

text \<open>The bytes, the record's state, the result and the error of a settlement.\<close>

definition sync_settlement ::
  "('r, 'j) execution_outcome \<Rightarrow> bool \<Rightarrow> u64 \<Rightarrow> string \<Rightarrow>
   u64 \<times> synchronous_execution_state \<times> 'j option \<times> public_error option" where
  "sync_settlement outcome cleanup_verified reservation operation =
     (let refused = (if cleanup_verified
            then (min RESERVE_FLOOR_BYTES reservation, SyncFailed, None,
                  Some (public_error_new ResourceLimit operation False))
            else (min RESERVE_FLOOR_BYTES reservation, SyncInterrupted, None,
                  Some (cleanup_unverified_error operation (outcome_cause outcome))));
          (bytes, state, result, error) =
            (case outcome of
               OutcomeSynchronousCompleted result bytes \<Rightarrow>
                 if cleanup_verified \<and> bytes \<le> reservation
                 then (bytes, SyncCompleted, Some result, None) else refused
             | OutcomeFailed error bytes \<Rightarrow>
                 if cleanup_verified \<and> bytes \<le> reservation
                 then (bytes, SyncFailed, None, Some error) else refused
             | OutcomeCancelled error bytes \<Rightarrow>
                 if cleanup_verified \<and> bytes \<le> reservation
                 then (bytes, SyncFailed, None, Some error) else refused
             | OutcomeCompleted _ _ \<Rightarrow> refused)
      in (bytes, state, result, map_option (\<lambda>e. e\<lparr>pe_operation := operation\<rparr>) error))"

definition sync_answer ::
  "'j option \<Rightarrow> public_error option \<Rightarrow> string \<Rightarrow> (public_error, 'j) result" where
  "sync_answer result error operation =
     (case result of
        Some value \<Rightarrow> Ok value
      | None \<Rightarrow> Err (case error of Some e \<Rightarrow> e
                     | None \<Rightarrow> public_error_new InternalError operation False))"

text \<open>A result over the retention bound is not kept.\<close>

definition retained_result ::
  "'j wire_codec \<Rightarrow> 'j option \<Rightarrow> u64 \<Rightarrow> string \<Rightarrow> (public_error, 'j option \<times> u64) result" where
  "retained_result k result bytes operation =
     (if result \<noteq> None \<and> bytes > RETAINED_RESULT_LIMIT_BYTES
      then rbind (ok_or (wc_error k (unretained_replay_error operation))
                   (public_error_new InternalError operation False)) (\<lambda>refusal. Ok (None, refusal))
      else Ok (result, bytes))"

text \<open>
  \<open>settle_synchronous\<close>; its answer carries the operation a failed commit is reported under.
\<close>

definition sync_settle_section ::
  "'j wire_codec \<Rightarrow> (admission_fence \<Rightarrow> uuid \<Rightarrow> unit res) \<Rightarrow> request_id \<Rightarrow> ('r, 'j) execution_outcome \<Rightarrow>
   bool \<Rightarrow> string \<Rightarrow> u64 \<Rightarrow> ('p, 'r, 'j) runtime_state \<Rightarrow>
   (('p, 'r, 'j) runtime_state, string \<times> (public_error, 'j) result) public_step" where
  "sync_settle_section k report request_id outcome cleanup_verified ended_at terminal_at_ms s =
     rbind (ok_or (position (\<lambda>x. sx_request_id x = request_id) (rs_synchronous_executions s))
              (public_error_new NotFound ''runtime.execution'' False)) (\<lambda>i.
     let record = rs_synchronous_executions s ! i;
         operation = sx_operation record;
         reservation = sx_reserved_bytes record
     in if sync_is_terminal (sx_state record) then Ok (None, (operation, synchronous_result record))
     else
       rbind (if cleanup_verified then Ok ()
              else map_err (\<lambda>e. public_domain_error k e operation)
                     (report (admission_fence_of (er_fence (sx_executor record))) (sx_execution_id record)))
         (\<lambda>_.
       rbind (measured_execution_outcome k outcome operation) (\<lambda>outcome.
       let (bytes, state, result, error) = sync_settlement outcome cleanup_verified reservation operation;
           answer = sync_answer result error operation
       in rbind (retained_result k result bytes operation) (\<lambda>(result, retained_bytes).
       let record' = record\<lparr>sx_state := state, sx_ended_at := Some ended_at, sx_result := result,
             sx_error := error, sx_terminal_bytes := retained_bytes\<rparr>;
           s = s\<lparr>rs_synchronous_executions := (rs_synchronous_executions s)[i := record']\<rparr>
       in rbind (ok_or (checked_add (rs_used_bytes s) retained_bytes)
                   (public_error_new ResourceLimit operation False)) (\<lambda>used.
          rbind (ok_or (checked_sub (rs_reserved_bytes s) reservation)
                   (public_error_new InternalError operation False)) (\<lambda>reserved.
          rbind (map_err (\<lambda>e. public_domain_error k e operation)
                   (dedup_settle (rs_dedup s) request_id terminal_at_ms)) (\<lambda>(d, _).
          Ok (Some (s\<lparr>rs_used_bytes := used, rs_reserved_bytes := reserved, rs_dedup := d\<rparr>),
              (operation, answer)))))))))"

section \<open>Retained mutations\<close>

definition retained_mutation_section ::
  "'j wire_codec \<Rightarrow> capability_snapshot res \<Rightarrow> request_id \<Rightarrow> string \<Rightarrow> u64 \<Rightarrow>
   (('p, 'r, 'j) runtime_state \<Rightarrow> (('p, 'r, 'j) runtime_state \<times> 'j) res) \<Rightarrow>
   ('p, 'r, 'j) runtime_state \<Rightarrow> (('p, 'r, 'j) runtime_state, 'j) locked_step" where
  "retained_mutation_section k current request_id payload_sha256 now_ms mutate s =
     (let s = prune_expired_requests k s now_ms;
          (d, decision) = decide_and_reserve (rs_dedup s) request_id payload_sha256 now_ms False;
          s = s\<lparr>rs_dedup := d\<rparr>
      in rbind decision (\<lambda>decision.
         case decision of
           Replay \<Rightarrow>
             rbind (ok_or (List.find (\<lambda>m. rm_request_id m = request_id) (rs_retained_mutations s))
                (domain_error_new InternalError ''retained request has no retained mutation result''))
             (\<lambda>record. Ok (None, rm_result record))
         | BypassForTaskCancel \<Rightarrow> err InternalError ''a retained mutation cannot bypass dedup''
         | Admit \<Rightarrow>
             rbind (rbind current (\<lambda>c. require_ready (cc_readiness (cs_context c)))) (\<lambda>_.
             rbind (mutate s) (\<lambda>(s, result).
             rbind (retained_mutation_bytes k result) (\<lambda>growth.
             rbind (ok_or (Option.bind (total_committed_and_reserved s)
                      (\<lambda>value. checked_add value growth))
                      (domain_error_new ResourceLimit ''store capacity overflow'')) (\<lambda>total.
             if total > STORE_LIMIT_BYTES then err ResourceLimit ''store capacity is full''
             else
               rbind (grow_used s growth) (\<lambda>s.
               rbind (dedup_settle (rs_dedup s) request_id now_ms) (\<lambda>(d, _).
               Ok (Some (s\<lparr>rs_dedup := d, rs_retained_mutations := rs_retained_mutations s
                     @ [\<lparr>rm_request_id = request_id, rm_result = result\<rparr>]\<rparr>), result)))))))))"

end
