(* ===== verification/Core_Invariant.thy ===== *)
theory Core_Invariant
  imports Sync_Sections
begin

text \<open>
  The invariant of the canonical Runtime state and its preservation by the building blocks of the
  core's locked sections: accounted reservations, linked AutomationExecutions, held requests,
  distinct identities, and Task records whose fields fit their state. The last is the check
  \<open>StoredTask::into_runtime\<close> (\<open>rust/crates/persistence/src/model.rs\<close>) makes of every stored Task.
\<close>

section \<open>Well-formed Task records\<close>

definition fields_fit :: "('p, 'r) task_record \<Rightarrow> bool" where
  "fields_fit t =
     (case tk_state t of
        TaskCreated \<Rightarrow> tk_started_at t = None \<and> tk_ended_at t = None \<and> tk_result t = None \<and> tk_error t = None
      | TaskQueued \<Rightarrow> tk_started_at t = None \<and> tk_ended_at t = None \<and> tk_result t = None \<and> tk_error t = None
      | TaskRunning \<Rightarrow> tk_started_at t \<noteq> None \<and> tk_ended_at t = None \<and> tk_result t = None \<and> tk_error t = None
      | TaskCompleted \<Rightarrow> tk_started_at t \<noteq> None \<and> tk_ended_at t \<noteq> None \<and> tk_result t \<noteq> None \<and> tk_error t = None
      | TaskFailed \<Rightarrow> tk_ended_at t \<noteq> None \<and> tk_result t = None \<and> tk_error t \<noteq> None
      | TaskInterrupted \<Rightarrow> tk_ended_at t \<noteq> None \<and> tk_result t = None \<and> tk_error t \<noteq> None
      | TaskCancelled \<Rightarrow> tl_cancel_requested (tk_lifecycle t) \<and> tk_ended_at t \<noteq> None \<and> tk_result t = None
          \<and> (case tk_error t of None \<Rightarrow> False | Some e \<Rightarrow> pe_code e = Cancelled))"

definition container_operation :: "('p, 'r) task_record \<Rightarrow> bool" where
  "container_operation t \<longleftrightarrow> tk_tool t = ToolAutomation \<and> tk_action t = AUTOMATION_EXECUTION_ACTION"

definition task_valid :: "('p, 'r) task_record \<Rightarrow> bool" where
  "task_valid t \<longleftrightarrow> RESERVE_FLOOR_BYTES \<le> tk_reserved_bytes t \<and> fields_fit t
     \<and> is_container t = container_operation t"

section \<open>The invariant\<close>

definition identities_distinct :: "('p, 'r, 'j) runtime_state \<Rightarrow> bool" where
  "identities_distinct s \<longleftrightarrow> distinct (map tk_task_id (rs_tasks s))
     \<and> distinct (map tk_execution_id (rs_tasks s) @ map sx_execution_id (rs_synchronous_executions s))"

definition core_invar :: "('p, 'r, 'j) runtime_state \<Rightarrow> bool" where
  "core_invar s \<longleftrightarrow> accounted s \<and> execution_linked s \<and> requests_held s \<and> identities_distinct s
     \<and> (\<forall>t\<in>set (rs_tasks s). task_valid t)"

lemma core_invar_default: "core_invar runtime_state_default"
  using accounted_default execution_linked_default requests_held_default
  by (simp add: core_invar_def identities_distinct_def) (simp add: runtime_state_default_def)

lemma core_invarD:
  assumes "core_invar s"
  shows "accounted s" "execution_linked s" "requests_held s" "identities_distinct s"
    "distinct (map tk_task_id (rs_tasks s))" "distinct (map tk_execution_id (rs_tasks s))"
    "t \<in> set (rs_tasks s) \<Longrightarrow> task_valid t"
  using assms by (simp_all add: core_invar_def identities_distinct_def)

text \<open>The bytes in use and the revision are free.\<close>

lemma core_invar_bytes [simp]:
  "core_invar (s\<lparr>rs_used_bytes := u\<rparr>) = core_invar s"
  "core_invar (s\<lparr>rs_revision := n\<rparr>) = core_invar s"
  by (simp_all add: core_invar_def accounted_def reservations_def execution_linked_def
      requests_held_def owner_count_def identities_distinct_def)

section \<open>Pruning\<close>

lemma distinct_map_append_subseq:
  assumes "distinct (map f xs @ map g ys)" "subseq xs' xs" "subseq ys' ys"
  shows "distinct (map f xs' @ map g ys')"
proof -
  have "set xs' \<subseteq> set xs" "set ys' \<subseteq> set ys" using assms(2,3) by (auto dest: list_emb_set)
  moreover have "f ` set xs \<inter> g ` set ys = {}" using assms(1) by simp
  ultimately have "f ` set xs' \<inter> g ` set ys' = {}" by blast
  then show ?thesis
    using assms(1) subseq_distinct_map[OF assms(2), of f] subseq_distinct_map[OF assms(3), of g] by simp
qed

lemma prune_task_history_core:
  assumes "core_invar s" and "prune_task_history k s now = Ok (s', changed)"
  shows "core_invar s'"
proof -
  note D = core_invarD[OF assms(1)] and P = prune_task_history_set[OF assms(2)]
  have x: "rs_synchronous_executions s' = rs_synchronous_executions s"
    by (subst prune_task_history_frame(1)[OF assms(2)], simp)
  have "distinct (map tk_task_id (rs_tasks s'))" using P(3) D(5) by (rule subseq_distinct_map)
  moreover have "distinct (map tk_execution_id (rs_tasks s') @ map sx_execution_id (rs_synchronous_executions s'))"
    using D(4) P(3) unfolding x identities_distinct_def
    by (blast intro: distinct_map_append_subseq[OF _ _ subseq_order.order_refl])
  ultimately show ?thesis
    using prune_task_history_accounted[OF D(1) assms(2)] prune_task_history_linked[OF D(2) assms(2)]
      prune_task_history_held[OF D(3) assms(2)] D(7) P(1)
    by (auto simp: core_invar_def identities_distinct_def)
qed

lemma identities_filter_sync:
  assumes "identities_distinct s" and "rs_tasks s' = rs_tasks s"
    and "rs_synchronous_executions s' = filter P (rs_synchronous_executions s)"
  shows "identities_distinct s'"
  using assms unfolding identities_distinct_def
  by (metis distinct_map_append_subseq subseq_filter_left subseq_order.order_refl)

lemma prune_expired_core: "core_invar s \<Longrightarrow> core_invar (prune_expired_requests k s now)"
  using identities_filter_sync[of s "prune_expired_requests k s now"]
  by (simp add: core_invar_def prune_expired_accounted prune_expired_linked prune_expired_held)

lemma prune_synchronous_core: "core_invar s \<Longrightarrow> core_invar (prune_synchronous_history s now)"
  using identities_filter_sync[of s "prune_synchronous_history s now"]
  by (simp add: core_invar_def prune_synchronous_accounted prune_synchronous_linked prune_synchronous_held)

section \<open>One Task settles\<close>

text \<open>A record may change only how far it has come.\<close>

definition same_task :: "('p, 'r) task_record \<Rightarrow> ('p, 'r) task_record \<Rightarrow> bool" where
  "same_task t t' \<longleftrightarrow> tk_task_id t' = tk_task_id t \<and> tk_execution_id t' = tk_execution_id t
     \<and> tk_origin t' = tk_origin t \<and> tk_tool t' = tk_tool t \<and> tk_action t' = tk_action t
     \<and> tk_reserved_bytes t' = tk_reserved_bytes t"

lemma same_taskD:
  assumes "same_task t t'"
  shows "tk_task_id t' = tk_task_id t" "tk_execution_id t' = tk_execution_id t"
    "tk_reserved_bytes t' = tk_reserved_bytes t" "tk_request_id t' = tk_request_id t"
    "is_container t' = is_container t" "tk_fence t' = tk_fence t"
    "task_valid t' = (RESERVE_FLOOR_BYTES \<le> tk_reserved_bytes t \<and> fields_fit t'
       \<and> is_container t = container_operation t)"
  using assms by (simp_all add: same_task_def tk_request_id_def is_container_def tk_fence_def
      task_valid_def container_operation_def)

lemma identities_update_task:
  assumes "identities_distinct s" "i < length (rs_tasks s)" "same_task (rs_tasks s ! i) t"
    "rs_tasks s' = (rs_tasks s)[i := t]" "rs_synchronous_executions s' = rs_synchronous_executions s"
  shows "identities_distinct s'"
proof -
  have "map tk_task_id ((rs_tasks s)[i := t]) = map tk_task_id (rs_tasks s)"
    "map tk_execution_id ((rs_tasks s)[i := t]) = map tk_execution_id (rs_tasks s)"
    using same_taskD(1,2)[OF assms(3)] by (auto intro: map_list_update_same)
  with assms(1,4,5) show ?thesis by (simp add: identities_distinct_def)
qed

lemma task_valid_update:
  assumes "\<forall>t\<in>set ts. task_valid t" and "task_valid t'"
  shows "\<forall>t\<in>set (ts[i := t']). task_valid t"
  using assms set_update_subset_insert[of ts i t'] by blast

lemma core_settle_task:
  assumes inv: "core_invar s" and i: "i < length (rs_tasks s)" "\<not> tk_is_terminal (rs_tasks s ! i)"
      "\<not> is_container (rs_tasks s ! i)"
    and t: "same_task (rs_tasks s ! i) t" "tk_is_terminal t" "fields_fit t"
    and s1: "s1 = s\<lparr>rs_tasks := (rs_tasks s)[i := t], rs_used_bytes := u, rs_reserved_bytes := rv\<rparr>"
    and rv: "checked_sub (rs_reserved_bytes s) (tk_reserved_bytes (rs_tasks s ! i)) = Some rv"
    and settle: "settle_request s1 (tk_request_id t) now = Ok s2"
  shows "core_invar s2"
proof -
  note D = core_invarD[OF inv] and T = same_taskD[OF t(1)] and S = settle_request_Ok[OF settle]
  let ?t = "rs_tasks s ! i"
  have f: "rs_tasks s2 = (rs_tasks s)[i := t]" "rs_reserved_bytes s2 = rv"
    "rs_synchronous_executions s2 = rs_synchronous_executions s" "rs_automations s2 = rs_automations s"
    "rs_automation_executions s2 = rs_automation_executions s"
    by (subst S(1), simp add: s1)+
  have "reservations s2 + unat (tk_reserved_bytes ?t) = reservations s"
    using reservations_update_task[OF i(1), of t] i(2) t(2)
    by (simp add: reservations_def task_reservation_def f)
  then have "accounted s2"
    using D(1) unat_checked_sub[OF rv] by (simp add: accounted_def f)
  moreover have "execution_linked s2"
  proof (rule execution_linked_tasks[OF D(2) _ _ f(5,4)])
    show "active_containers (set (rs_tasks s2)) = active_containers (set (rs_tasks s))"
      unfolding f using D(6) i T by (intro active_containers_update) simp_all
    show "distinct (map tk_execution_id (rs_tasks s2))"
      unfolding f using D(6) i T by (intro distinct_map_update) simp_all
  qed
  moreover have "requests_held s2"
    by (rule held_settle_task[OF D(3) i(1,2) t(2) T(4) _ _ _ _ settle]) (simp_all add: s1)
  moreover have "identities_distinct s2"
    using identities_update_task[OF D(4) i(1) t(1) f(1,3)] .
  moreover have "task_valid t"
    using D(7)[OF nth_mem[OF i(1)]] t(3) T(7) by (simp add: task_valid_def)
  ultimately show ?thesis
    using D(7) task_valid_update[of "rs_tasks s" t i] by (simp add: core_invar_def f)
qed

text \<open>A Task that stays at work: only its claim and, for a container, its state must stay.\<close>

lemma core_update_task:
  assumes inv: "core_invar s" and i: "i < length (rs_tasks s)"
    and t: "same_task (rs_tasks s ! i) t" "\<not> tk_is_terminal (rs_tasks s ! i)" "\<not> tk_is_terminal t" "fields_fit t"
      "is_container t \<Longrightarrow> tk_state t = tk_state (rs_tasks s ! i)"
  shows "core_invar (s\<lparr>rs_tasks := (rs_tasks s)[i := t]\<rparr>)" (is "core_invar ?s")
proof -
  note D = core_invarD[OF inv] and T = same_taskD[OF t(1)]
  have "reservations ?s = reservations s"
    using reservations_update_task[OF i, of t] t(2,3) T(3) by (simp add: task_reservation_def)
  then have "accounted ?s" using D(1) by (simp add: accounted_def)
  moreover have "execution_linked ?s"
  proof (rule execution_linked_tasks[OF D(2)])
    show "active_containers (set (rs_tasks ?s)) = active_containers (set (rs_tasks s))"
      using D(6) i T t by (simp, intro active_containers_update) simp_all
    show "distinct (map tk_execution_id (rs_tasks ?s))"
      using D(6) i T by (simp del: map_update, intro distinct_map_update) simp_all
  qed simp_all
  moreover have "requests_held ?s"
  proof (rule held_same_claims[OF D(3)])
    show "map task_claim (rs_tasks ?s) = map task_claim (rs_tasks s)"
      using t(2,3) T(4) by (simp del: map_update, intro map_list_update_same) (simp add: task_claim_def)
  qed simp_all
  moreover have "identities_distinct ?s"
    using identities_update_task[OF D(4) i t(1)] by simp
  moreover have "task_valid t"
    using D(7)[OF nth_mem[OF i]] t(4) T(7) by (simp add: task_valid_def)
  ultimately show ?thesis
    using D(7) task_valid_update[of "rs_tasks s" t i] by (simp add: core_invar_def)
qed

end
