(* ===== verification/Core_Automation.thy ===== *)
theory Core_Automation
  imports Core_Invariant
begin

text \<open>
  The AutomationExecution transitions of \<open>Automation_Exec\<close> preserve the canonical invariant: a
  settlement, the interruption of a prior instance's executions, an admission and a start.
\<close>

lemma container_no_request: "is_container t \<Longrightarrow> tk_request_id t = None"
  by (simp add: is_container_def tk_request_id_def split: task_origin.splits)

text \<open>A cancelled execution settles with a cancellation error.\<close>

definition outcome_fits :: "automation_execution_outcome \<Rightarrow> bool" where
  "outcome_fits outcome = (case outcome of AutoOutcomeCancelled e \<Rightarrow> pe_code e = Cancelled | _ \<Rightarrow> True)"

section \<open>Settlement\<close>

lemma settle_lifecycle_fields:
  assumes l: "settle_lifecycle (tk_lifecycle t) outcome = Ok l" and "fields_fit t" "outcome_fits outcome"
  shows "fields_fit (t\<lparr>tk_lifecycle := l, tk_ended_at := Some ts,
    tk_result := auto_outcome_result outcome a e, tk_error := auto_outcome_error outcome\<rparr>)"
  using assms
  by (cases outcome)
    (auto simp: settle_lifecycle_def rbind_eq_Ok_iff lifecycle_apply_defs fields_fit_def tk_state_def
      outcome_fits_def auto_outcome_result_def split: if_splits)

lemma settle_automation_core:
  assumes inv: "core_invar s" and fit: "outcome_fits outcome"
    and settle: "settle_automation_in_state s e outcome ts = Ok (s', summary)"
  shows "core_invar s'"
proof -
  note D = core_invarD[OF inv]
  from settle obtain xi ti l reserved used where
    ti: "position (\<lambda>t. tk_execution_id t = e \<and> is_container t) (rs_tasks s) = Some ti"
    and l: "settle_lifecycle (tk_lifecycle (rs_tasks s ! ti)) outcome = Ok l"
    and rel: "release_ownership (settled_state s xi ti l reserved used e outcome ts)
       (xr_automation_id (rs_automation_executions s ! xi)) e = Ok s'"
    by (rule settle_automation_Ok)
  let ?t = "(rs_tasks s ! ti)\<lparr>tk_lifecycle := l, tk_ended_at := Some ts,
      tk_result := auto_outcome_result outcome (xr_automation_id (rs_automation_executions s ! xi)) e,
      tk_error := auto_outcome_error outcome\<rparr>"
  have tl: "ti < length (rs_tasks s)" "is_container (rs_tasks s ! ti)" using position_SomeD[OF ti] by simp_all
  have f: "rs_tasks s' = (rs_tasks s)[ti := ?t]" "rs_dedup s' = rs_dedup s"
    "rs_synchronous_executions s' = rs_synchronous_executions s"
    "rs_retained_mutations s' = rs_retained_mutations s"
    using release_ownership_frame[OF rel] by (simp_all add: same_core_def)
  have same: "same_task (rs_tasks s ! ti) ?t" by (simp add: same_task_def)
  have vt: "task_valid ?t"
    using D(7)[OF nth_mem[OF tl(1)]] settle_lifecycle_fields[OF l _ fit] same_taskD(7)[OF same]
    by (simp add: task_valid_def)
  have "requests_held s'"
  proof (rule held_same_claims[OF D(3) _ f(2,3,4)])
    have "task_claim ?t = task_claim (rs_tasks s ! ti)"
      using container_no_request[OF tl(2)] same_taskD(4)[OF same] by (simp add: task_claim_def)
    then show "map task_claim (rs_tasks s') = map task_claim (rs_tasks s)"
      unfolding f by (rule map_list_update_same)
  qed
  moreover have "identities_distinct s'" using identities_update_task[OF D(4) tl(1) same f(1,3)] .
  moreover have "\<forall>t\<in>set (rs_tasks s'). task_valid t"
    using task_valid_update vt D(7) unfolding f by blast
  ultimately show ?thesis
    using settle_automation_accounted[OF D(1) settle] settle_automation_linked[OF D(2) settle]
    unfolding core_invar_def by blast
qed

lemma interrupt_executions_core:
  "core_invar s \<Longrightarrow> interrupt_executions s es ts = Ok s' \<Longrightarrow> core_invar s'"
proof (induction s es ts rule: interrupt_executions.induct)
  case (1 s ts)
  then show ?case by simp
next
  case (2 s e es ts)
  obtain s1 sm where s1: "settle_automation_in_state s e (AutoOutcomeInterrupted host_lost_error) ts = Ok (s1, sm)"
    and rest: "interrupt_executions s1 es ts = Ok s'"
    using "2.prems"(2) by (auto simp: rbind_eq_Ok_iff)
  have "core_invar s1"
    using settle_automation_core[OF "2.prems"(1) _ s1] by (simp add: outcome_fits_def)
  then show ?case using "2.IH"[of "(s1, sm)" s1 sm] s1 rest by simp
qed

section \<open>Admission and start\<close>

definition fresh_ids :: "('p, 'r, 'j) runtime_state \<Rightarrow> uuid option \<times> uuid option \<Rightarrow> bool" where
  "fresh_ids s ids \<longleftrightarrow>
     (\<forall>e. fst ids = Some e \<longrightarrow> fresh_execution s e
        \<and> e \<notin> sx_execution_id ` set (rs_synchronous_executions s)) \<and>
     (\<forall>t. snd ids = Some t \<longrightarrow> t \<notin> tk_task_id ` set (rs_tasks s))"

lemma create_execution_core:
  fixes s :: "('p, 'r, 'j) runtime_state"
  assumes inv: "core_invar s" and i: "i < length (rs_automations s)"
    and idle: "ar_active_execution_id (rs_automations s ! i) = None" and fresh: "fresh_ids s ids"
    and create: "create_execution s cap ids i trig ts facts = Ok (s', x)"
  shows "core_invar s'"
  using create
proof (rule create_execution_Ok)
  fix e t s1
  let ?c = "container_task cap (au_automation_id (ar_automation (rs_automations s ! i))) e t ts
      :: ('p, 'r) task_record"
  assume ids: "ids = (Some e, Some t)" and s1: "reserve_admission_capacity s = Ok s1"
    and s': "s' = update_automation i (\<lambda>r. r\<lparr>ar_active_execution_id := Some e\<rparr>)
       (s1\<lparr>rs_tasks := rs_tasks s @ [?c],
           rs_automation_executions := rs_automation_executions s @
             [\<lparr>xr_automation_id = au_automation_id (ar_automation (rs_automations s ! i)),
               xr_summary = queued_summary e t trig\<rparr>]\<rparr>)"
  note D = core_invarD[OF inv] and R = reserve_admission_frame[OF s1]
  have f: "rs_tasks s' = rs_tasks s @ [?c]" "rs_dedup s' = rs_dedup s"
    "rs_synchronous_executions s' = rs_synchronous_executions s"
    "rs_retained_mutations s' = rs_retained_mutations s"
    using R by (simp_all add: s' update_automation_def)
  have c: "tk_request_id ?c = None" "tk_task_id ?c = t" "tk_execution_id ?c = e"
    by (simp_all add: container_task_def tk_request_id_def)
  have "owner_count s' q = owner_count s q" for q
    using c(1) by (simp add: owner_count_def task_owners_def f)
  then have "requests_held s'"
    using D(3) c(1) by (simp add: requests_held_def f task_held_def)
  moreover have "identities_distinct s'"
    using D(4) fresh c unfolding identities_distinct_def fresh_ids_def fresh_execution_def
    by (auto simp: f ids)
  moreover have "task_valid ?c"
    by (simp add: task_valid_def fields_fit_def tk_state_def container_task_def is_container_def
        container_operation_def)
  moreover have "\<And>e. fst ids = Some e \<Longrightarrow> fresh_execution s e"
    using fresh by (simp add: fresh_ids_def)
  ultimately show ?thesis
    using create_execution_accounted[OF D(1) create] create_execution_linked[OF D(2) i idle _ create] D(7)
    by (simp add: core_invar_def f)
qed

lemma update_automation_core:
  assumes "core_invar s" "\<And>r. aid (f r) = aid r" "\<And>r. ar_active_execution_id (f r) = ar_active_execution_id r"
  shows "core_invar (update_automation i f s)"
proof -
  have "execution_linked (update_automation i f s)"
    using core_invarD(2)[OF assms(1)] assms(2,3) by (rule linked_update_automation)
  moreover have "requests_held (update_automation i f s)"
    by (rule requests_held_cong[OF core_invarD(3)[OF assms(1)]]) (simp_all add: update_automation_def)
  moreover have "accounted (update_automation i f s)"
    using core_invarD(1)[OF assms(1)] same_core_accounted[OF same_core_updates(4)] by blast
  moreover have "identities_distinct (update_automation i f s) = identities_distinct s"
    "rs_tasks (update_automation i f s) = rs_tasks s"
    by (simp_all add: identities_distinct_def update_automation_def)
  ultimately show ?thesis using assms(1) by (simp add: core_invar_def)
qed

lemma admit_due_core:
  assumes inv: "core_invar s" and fresh: "fresh_ids s ids"
    and admit: "admit_due ck nd s cap ids a ts now = Ok (s', d, ch)"
  shows "core_invar s'"
proof (cases "position (\<lambda>r. ar_deleted_at r = None \<and> aid r = a) (rs_automations s)")
  case None
  with inv admit show ?thesis by (simp add: admit_due_def)
next
  case (Some i)
  have "core_invar (update_automation i (\<lambda>r. r\<lparr>ar_next_due_at := v\<rparr>) s1)"
    if "ar_active_execution_id (rs_automations s ! i) = None"
      "create_execution s cap ids i trig ts facts = Ok (s1, x)" for s1 x v trig facts
    using create_execution_core[OF inv position_SomeD(1)[OF Some] that(1) fresh that(2)]
    by (rule update_automation_core) simp_all
  with Some inv admit show ?thesis
    by (auto simp: admit_due_def Let_def rbind_eq_Ok_iff split: option.splits if_splits sum.splits)
qed

lemma admit_requested_core:
  assumes inv: "core_invar s" and fresh: "fresh_ids s ids"
    and admit: "admit_requested s cap ids a ts = Ok (s', d, ch)"
  shows "core_invar s'"
proof (cases "position (\<lambda>r. aid r = a \<and> ar_run_requested_at r \<noteq> None) (rs_automations s)")
  case None
  with assms show ?thesis by (simp add: admit_requested_def)
next
  case (Some i)
  let ?s = "update_automation i (\<lambda>r. r\<lparr>ar_run_requested_at := None\<rparr>) s"
  have L': "core_invar ?s" using inv by (rule update_automation_core) simp_all
  have i: "i < length (rs_automations ?s)"
    using position_SomeD(1)[OF Some] by (simp add: update_automation_def)
  have f: "fresh_ids ?s ids"
    using fresh by (simp add: fresh_ids_def fresh_execution_def update_automation_def)
  have "core_invar s1" if "ar_active_execution_id (rs_automations ?s ! i) = None"
      "create_execution ?s cap ids i trig ts facts = Ok (s1, x)" for s1 x trig facts
    using create_execution_core[OF L' i that(1) f that(2)] .
  with L' Some admit show ?thesis
    by (auto simp: admit_requested_def Let_def split: if_splits sum.splits)
qed

lemma admit_event_core:
  assumes inv: "core_invar s" and fresh: "fresh_ids s ids"
    and admit: "admit_event s cap ids a ev facts ts = Ok (s', d, ch)"
  shows "core_invar s'"
proof (cases "position (\<lambda>r. aid r = a \<and> accepts_event r ev facts) (rs_automations s)")
  case None
  with assms show ?thesis by (simp add: admit_event_def)
next
  case (Some i)
  have "core_invar s1" if "ar_active_execution_id (rs_automations s ! i) = None"
      "create_execution s cap ids i trig ts facts = Ok (s1, x)" for s1 x trig facts
    using create_execution_core[OF inv position_SomeD(1)[OF Some] that(1) fresh that(2)] .
  with inv Some admit show ?thesis
    by (auto simp: admit_event_def split: if_splits sum.splits)
qed

lemma start_execution_core:
  assumes inv: "core_invar s" and start: "start_execution s e ts = Ok (s', summary)"
  shows "core_invar s'"
  using start
proof (rule start_execution_Ok)
  fix xi ti l
  let ?t = "(rs_tasks s ! ti)\<lparr>tk_lifecycle := l, tk_started_at := Some ts\<rparr>"
  assume ti: "position (\<lambda>t. tk_execution_id t = e \<and> is_container t) (rs_tasks s) = Some ti"
    and l: "lifecycle_apply (tk_lifecycle (rs_tasks s ! ti)) EvStart = Ok l"
    and s': "s' = update_execution xi (\<lambda>x. x\<lparr>es_state := AutoRunning, es_started_at := Some ts\<rparr>)
       (update_task ti (\<lambda>t. t\<lparr>tk_lifecycle := l, tk_started_at := Some ts\<rparr>) s)"
  note D = core_invarD[OF inv]
  have tl: "ti < length (rs_tasks s)" "is_container (rs_tasks s ! ti)" using position_SomeD[OF ti] by simp_all
  have f: "rs_tasks s' = (rs_tasks s)[ti := ?t]" "rs_dedup s' = rs_dedup s"
    "rs_synchronous_executions s' = rs_synchronous_executions s"
    "rs_retained_mutations s' = rs_retained_mutations s"
    by (simp_all add: s' update_execution_def update_task_def)
  have same: "same_task (rs_tasks s ! ti) ?t" by (simp add: same_task_def)
  have vf: "fields_fit ?t"
    using D(7)[OF nth_mem[OF tl(1)]] l
    by (auto simp: task_valid_def fields_fit_def tk_state_def lifecycle_apply_defs split: if_splits)
  then have vt: "task_valid ?t"
    using D(7)[OF nth_mem[OF tl(1)]] same_taskD(7)[OF same] by (simp add: task_valid_def)
  have "requests_held s'"
  proof (rule held_same_claims[OF D(3) _ f(2,3,4)])
    have "task_claim ?t = task_claim (rs_tasks s ! ti)"
      using container_no_request[OF tl(2)] same_taskD(4)[OF same] by (simp add: task_claim_def)
    then show "map task_claim (rs_tasks s') = map task_claim (rs_tasks s)"
      unfolding f by (rule map_list_update_same)
  qed
  moreover have "identities_distinct s'" using identities_update_task[OF D(4) tl(1) same f(1,3)] .
  moreover have "\<forall>t\<in>set (rs_tasks s'). task_valid t"
    using task_valid_update vt D(7) unfolding f by blast
  ultimately show ?thesis
    using start_execution_accounted[OF D(1) start] start_execution_linked[OF D(2) start]
    unfolding core_invar_def by blast
qed

end
