(* ===== verification/Section_Invariant.thy ===== *)
theory Section_Invariant
  imports Core_Automation
begin

text \<open>
  Every locked section of the core commits a state that satisfies the canonical invariant when the
  state it loaded did. An admission needs fresh identities for it, and a request whose identity no
  Task of the history carries any more.
\<close>

section \<open>Requests\<close>

text \<open>The state after the replay decision, before anything else.\<close>

lemma admitted_request_core:
  assumes inv: "core_invar s"
    and d: "decide_and_reserve (rs_dedup s) r h now False = (d, Ok Admit)"
    and unused: "\<And>t. t \<in> set (rs_tasks s) \<Longrightarrow> tk_request_id t \<noteq> Some r"
    and p: "p = (prune_expired_requests k s now)\<lparr>rs_dedup := d\<rparr>"
  shows "core_invar p" and "dedup_known (rs_dedup p) r = Some (h, None)" and "owner_count p r = 0"
proof -
  note H = held_admit[OF core_invarD(3)[OF inv] d unused p]
  have q: "core_invar (prune_expired_requests k s now)" using inv by (rule prune_expired_core)
  have "accounted p" "execution_linked p" "identities_distinct p" "rs_tasks p = rs_tasks s"
    using core_invarD(1,2,4)[OF q]
    by (simp_all add: p accounted_def reservations_def execution_linked_def identities_distinct_def)
  with H(1) core_invarD(7)[OF inv] show "core_invar p" by (simp add: core_invar_def)
  show "dedup_known (rs_dedup p) r = Some (h, None)" using H(2) by (simp add: p)
  show "owner_count p r = 0" by (rule H(3))
qed

lemma prune_task_history_request:
  assumes "prune_task_history k s now = Ok (s', changed)"
  shows "rs_dedup s' = rs_dedup s" "rs_synchronous_executions s' = rs_synchronous_executions s"
    "rs_retained_mutations s' = rs_retained_mutations s" "rs_reserved_bytes s' = rs_reserved_bytes s"
    "rs_automations s' = rs_automations s" "rs_automation_executions s' = rs_automation_executions s"
    and "rs_revision s' = rs_revision s"
    and "owner_count s r = 0 \<Longrightarrow> owner_count s' r = 0"
proof -
  show f: "rs_dedup s' = rs_dedup s" "rs_synchronous_executions s' = rs_synchronous_executions s"
    "rs_retained_mutations s' = rs_retained_mutations s" "rs_reserved_bytes s' = rs_reserved_bytes s"
    "rs_automations s' = rs_automations s" "rs_automation_executions s' = rs_automation_executions s"
    "rs_revision s' = rs_revision s"
    by (subst prune_task_history_frame(1)[OF assms], simp)+
  have "task_owners (rs_tasks s') r \<le> task_owners (rs_tasks s) r"
    unfolding task_owners_def by (rule subseq_filter_length) (rule prune_task_history_set(3)[OF assms])
  then show "owner_count s r = 0 \<Longrightarrow> owner_count s' r = 0" by (simp add: owner_count_def f)
qed

text \<open>The capacity check leaves room for the new reservation.\<close>

lemma capacity_room:
  assumes "Option.bind (Option.bind (total_committed_and_reserved s) (\<lambda>v. checked_add v record))
             (\<lambda>v. checked_add v reservation) = Some tot" and "tot \<le> STORE_LIMIT_BYTES"
  shows "unat (rs_used_bytes s) + unat (rs_reserved_bytes s) + unat record + unat reservation \<le> 8388608"
    and "unat (rs_reserved_bytes s + reservation) = unat (rs_reserved_bytes s) + unat reservation"
proof -
  obtain a b where a: "checked_add (rs_used_bytes s) (rs_reserved_bytes s) = Some a"
    and b: "checked_add a record = Some b" and c: "checked_add b reservation = Some tot"
    using assms(1) by (auto simp: total_committed_and_reserved_def bind_eq_Some_conv)
  have "unat tot \<le> 8388608" using assms(2) by (simp add: word_le_nat_alt)
  then show l: "unat (rs_used_bytes s) + unat (rs_reserved_bytes s) + unat record + unat reservation \<le> 8388608"
    using unat_checked_add[OF a] unat_checked_add[OF b] unat_checked_add[OF c] by simp
  then show "unat (rs_reserved_bytes s + reservation) = unat (rs_reserved_bytes s) + unat reservation"
    by (simp add: unat_word_ariths)
qed

section \<open>Task admission\<close>

lemma decision_cases:
  assumes "(case x of Admit \<Rightarrow> a | Replay \<Rightarrow> b | BypassForTaskCancel \<Rightarrow> c) = Ok y"
  obtains "x = Admit" "a = Ok y" | "x = Replay" "b = Ok y" | "x = BypassForTaskCancel" "c = Ok y"
  using assms by (cases x) simp_all

lemma push_task_core:
  assumes inv: "core_invar s" and req: "tk_request_id t = Some r" "owner_count s r = 0"
      "dedup_known (rs_dedup s) r = Some (h, None)"
    and t: "tk_state t = TaskQueued" "task_valid t"
    and fresh: "tk_task_id t \<notin> tk_task_id ` set (rs_tasks s)"
      "tk_execution_id t \<notin> tk_execution_id ` set (rs_tasks s)"
      "tk_execution_id t \<notin> sx_execution_id ` set (rs_synchronous_executions s)"
    and room: "unat (rs_reserved_bytes s + tk_reserved_bytes t)
        = unat (rs_reserved_bytes s) + unat (tk_reserved_bytes t)"
  shows "core_invar (s\<lparr>rs_used_bytes := u, rs_reserved_bytes := rs_reserved_bytes s + tk_reserved_bytes t,
    rs_tasks := rs_tasks s @ [t]\<rparr>)" (is "core_invar ?s")
proof -
  note D = core_invarD[OF inv]
  have n: "\<not> tk_is_terminal t" "\<not> is_container t"
    using t(1) req(1) by (auto simp: tk_is_terminal_iff dest: container_no_request)
  have "accounted ?s"
    using D(1) n room by (simp add: accounted_def reservations_def task_reservation_def)
  moreover have "execution_linked ?s"
    using D(6) fresh n by (intro execution_linked_tasks[OF D(2)]) (simp_all add: active_containers_insert)
  moreover have "requests_held ?s"
    by (rule held_push_task[OF D(3) req(2,3,1) n(1)]) simp_all
  moreover have "identities_distinct ?s"
    using D(4) fresh by (auto simp: identities_distinct_def)
  ultimately show ?thesis using D(7) t(2) by (simp add: core_invar_def)
qed

definition fresh_admission :: "('p, 'r, 'j) runtime_state \<Rightarrow> 'p task_admission \<Rightarrow> bool" where
  "fresh_admission s a \<longleftrightarrow>
     ta_task_id a \<notin> tk_task_id ` set (rs_tasks s)
     \<and> ta_execution_id a \<notin> tk_execution_id ` set (rs_tasks s)
     \<and> ta_execution_id a \<notin> sx_execution_id ` set (rs_synchronous_executions s)
     \<and> (\<forall>t\<in>set (rs_tasks s). tk_request_id t \<noteq> Some (ta_request_id a))
     \<and> \<not> (ta_tool a = ToolAutomation \<and> ta_action a = AUTOMATION_EXECUTION_ACTION)"

lemma admit_new_task_Ok:
  assumes "admit_new_task k current a s = Ok (Some s', res)"
  obtains s1 changed executor where
    "prune_task_history k s (ta_now_ms a) = Ok (s1, changed)"
    "length (filter (\<lambda>t. task_is_pinned s1 t (ta_now_ms a)) (rs_tasks s1)) < MAX_TERMINAL_TASKS"
    "current_executor current (ta_route a) = Ok executor"
    "length (filter (\<lambda>t. tk_state t = TaskQueued) (rs_tasks s1)) < MAX_QUEUED_TASKS"
    "unat (rs_used_bytes s1) + unat (rs_reserved_bytes s1) + 2048
       + unat (max (ta_settlement_bound_bytes a) RESERVE_FLOOR_BYTES) \<le> 8388608"
    "unat (rs_reserved_bytes s1 + max (ta_settlement_bound_bytes a) RESERVE_FLOOR_BYTES)
       = unat (rs_reserved_bytes s1) + unat (max (ta_settlement_bound_bytes a) RESERVE_FLOOR_BYTES)"
    "s' = s1\<lparr>rs_used_bytes := rs_used_bytes s1 + TASK_RECORD_BYTES,
       rs_reserved_bytes := rs_reserved_bytes s1 + max (ta_settlement_bound_bytes a) RESERVE_FLOOR_BYTES,
       rs_tasks := rs_tasks s1 @ [admitted_task a executor
         \<lparr>tl_state = TaskQueued, tl_cancel_requested = False\<rparr>
         (max (ta_settlement_bound_bytes a) RESERVE_FLOOR_BYTES)]\<rparr>"
    "res = TaskAdmitted (snapshot (admitted_task a executor
         \<lparr>tl_state = TaskQueued, tl_cancel_requested = False\<rparr>
         (max (ta_settlement_bound_bytes a) RESERVE_FLOOR_BYTES)))"
proof -
  let ?n = "max (ta_settlement_bound_bytes a) RESERVE_FLOOR_BYTES"
  obtain s1 ch where s1: "prune_task_history k s (ta_now_ms a) = Ok (s1, ch)"
    using assms by (cases "prune_task_history k s (ta_now_ms a)") (auto simp: admit_new_task_def)
  have pin: "length (filter (\<lambda>t. task_is_pinned s1 t (ta_now_ms a)) (rs_tasks s1)) < MAX_TERMINAL_TASKS"
    using assms s1 by (auto simp: admit_new_task_def split: if_splits)
  obtain ex where ex: "current_executor current (ta_route a) = Ok ex"
    using assms s1 pin by (cases "current_executor current (ta_route a)") (auto simp: admit_new_task_def)
  have q: "length (filter (\<lambda>t. tk_state t = TaskQueued) (rs_tasks s1)) < MAX_QUEUED_TASKS"
    using assms s1 pin ex by (auto simp: admit_new_task_def split: if_splits)
  obtain tot where tot: "Option.bind (Option.bind (total_committed_and_reserved s1)
      (\<lambda>v. checked_add v TASK_RECORD_BYTES)) (\<lambda>v. checked_add v ?n) = Some tot"
      "tot \<le> STORE_LIMIT_BYTES"
    and s': "s' = s1\<lparr>rs_used_bytes := rs_used_bytes s1 + TASK_RECORD_BYTES,
       rs_reserved_bytes := rs_reserved_bytes s1 + ?n,
       rs_tasks := rs_tasks s1 @ [admitted_task a ex \<lparr>tl_state = TaskQueued, tl_cancel_requested = False\<rparr> ?n]\<rparr>"
      "res = TaskAdmitted (snapshot (admitted_task a ex \<lparr>tl_state = TaskQueued, tl_cancel_requested = False\<rparr> ?n))"
    using assms s1 pin ex q
    by (auto simp: admit_new_task_def rbind_eq_Ok_iff Let_def apply_queue_new not_less split: if_splits)
  note room = capacity_room[OF tot]
  show thesis using that[OF s1 pin ex q _ room(2) s'] room(1) by simp
qed

lemma admit_task_core:
  fixes s :: "('p, 'r, 'j) runtime_state"
  assumes inv: "core_invar s" and fresh: "fresh_admission s a"
    and ok: "admit_task_section k current a s = Ok (Some s', res)"
  shows "core_invar s'"
proof -
  obtain d dec where d: "decide_and_reserve (rs_dedup s) (ta_request_id a) (ta_payload_sha256 a)
      (ta_now_ms a) False = (d, dec)" by fastforce
  define p where "p = (prune_expired_requests k s (ta_now_ms a))\<lparr>rs_dedup := d\<rparr>"
  have dec: "dec = Ok Admit" and new: "admit_new_task k current a p = Ok (Some s', res)"
    using ok d by (auto simp: admit_task_section_def p_def rbind_eq_Ok_iff elim: decision_cases)
  note A = admitted_request_core[OF inv d[unfolded dec] _ p_def]
  have P: "core_invar p" "dedup_known (rs_dedup p) (ta_request_id a) = Some (ta_payload_sha256 a, None)"
    "owner_count p (ta_request_id a) = 0"
    using A fresh by (auto simp: fresh_admission_def)
  from new obtain s1 ch executor where s1: "prune_task_history k p (ta_now_ms a) = Ok (s1, ch)"
    and room: "unat (rs_reserved_bytes s1 + max (ta_settlement_bound_bytes a) RESERVE_FLOOR_BYTES)
       = unat (rs_reserved_bytes s1) + unat (max (ta_settlement_bound_bytes a) RESERVE_FLOOR_BYTES)"
    and s': "s' = s1\<lparr>rs_used_bytes := rs_used_bytes s1 + TASK_RECORD_BYTES,
       rs_reserved_bytes := rs_reserved_bytes s1 + max (ta_settlement_bound_bytes a) RESERVE_FLOOR_BYTES,
       rs_tasks := rs_tasks s1 @ [admitted_task a executor
         \<lparr>tl_state = TaskQueued, tl_cancel_requested = False\<rparr>
         (max (ta_settlement_bound_bytes a) RESERVE_FLOOR_BYTES)]\<rparr>"
    by (rule admit_new_task_Ok)
  let ?t = "admitted_task a executor \<lparr>tl_state = TaskQueued, tl_cancel_requested = False\<rparr>
         (max (ta_settlement_bound_bytes a) RESERVE_FLOOR_BYTES) :: ('p, 'r) task_record"
  have c1: "core_invar s1" using P(1) s1 by (rule prune_task_history_core)
  note R = prune_task_history_request[OF s1]
  have sub: "set (rs_tasks s1) \<subseteq> set (rs_tasks s)"
    using prune_task_history_set(1)[OF s1] by (simp add: p_def)
  have x: "set (rs_synchronous_executions s1) \<subseteq> set (rs_synchronous_executions s)"
    by (auto simp: R p_def)
  have "core_invar (s1\<lparr>rs_used_bytes := u, rs_reserved_bytes := rs_reserved_bytes s1 + tk_reserved_bytes ?t,
      rs_tasks := rs_tasks s1 @ [?t]\<rparr>)" for u
  proof (rule push_task_core[OF c1])
    show "tk_request_id ?t = Some (ta_request_id a)" by (simp add: admitted_task_def tk_request_id_def)
    show "owner_count s1 (ta_request_id a) = 0" using R(8) P(3) .
    show "dedup_known (rs_dedup s1) (ta_request_id a) = Some (ta_payload_sha256 a, None)"
      using P(2) R(1) by simp
    show "tk_state ?t = TaskQueued" by (simp add: admitted_task_def tk_state_def)
    show "task_valid ?t"
      using fresh by (auto simp: task_valid_def admitted_task_def fields_fit_def tk_state_def
          is_container_def container_operation_def fresh_admission_def)
    show "tk_task_id ?t \<notin> tk_task_id ` set (rs_tasks s1)"
      "tk_execution_id ?t \<notin> tk_execution_id ` set (rs_tasks s1)"
      using fresh sub by (auto simp: admitted_task_def fresh_admission_def)
    show "tk_execution_id ?t \<notin> sx_execution_id ` set (rs_synchronous_executions s1)"
      using fresh x by (auto simp: admitted_task_def fresh_admission_def)
    show "unat (rs_reserved_bytes s1 + tk_reserved_bytes ?t)
        = unat (rs_reserved_bytes s1) + unat (tk_reserved_bytes ?t)"
      using room by (simp add: admitted_task_def)
  qed
  then show ?thesis by (simp add: s' admitted_task_def)
qed

section \<open>Settlement of a Task\<close>

text \<open>The Task a section names is a request's: no container carries the identity.\<close>

definition request_task :: "('p, 'r, 'j) runtime_state \<Rightarrow> task_id \<Rightarrow> bool" where
  "request_task s task_id \<longleftrightarrow> (\<forall>t\<in>set (rs_tasks s). tk_task_id t = task_id \<longrightarrow> \<not> is_container t)"

text \<open>A provider reports a cancellation with a cancellation error.\<close>

definition provider_outcome :: "('r, 'j) execution_outcome \<Rightarrow> bool" where
  "provider_outcome outcome = (case outcome of OutcomeCancelled e _ \<Rightarrow> pe_code e = Cancelled | _ \<Rightarrow> True)"

lemma task_index_Ok:
  assumes "task_index s task_id = Ok i"
  shows "i < length (rs_tasks s)" "tk_task_id (rs_tasks s ! i) = task_id" "rs_tasks s ! i \<in> set (rs_tasks s)"
  using position_SomeD[of "\<lambda>t. tk_task_id t = task_id" "rs_tasks s" i] assms
  by (simp_all add: task_index_def)

lemma close_task_Ok:
  assumes "close_task k s t now = Ok (s', a)"
  obtains s1 s2 ch where "settle_request s (tk_request_id t) now = Ok s1"
    "prune_task_history k s1 now = Ok (s2, ch)" "s' = Some s2" "a = snapshot t"
  using assms by (auto simp: close_task_def rbind_eq_Ok_iff)

lemma grow_used_Ok: "grow_used s g = Ok s' \<Longrightarrow> \<exists>u. checked_add (rs_used_bytes s) g = Some u \<and> s' = s\<lparr>rs_used_bytes := u\<rparr>"
  by (auto simp: grow_used_def rbind_eq_Ok_iff)

lemma bytes_commute:
  "s\<lparr>rs_reserved_bytes := v, rs_used_bytes := u\<rparr> = s\<lparr>rs_used_bytes := u, rs_reserved_bytes := v\<rparr>"
  by (cases s) simp

lemma release_reserved_Ok:
  "release_reserved s n = Ok s' \<Longrightarrow> \<exists>v. checked_sub (rs_reserved_bytes s) n = Some v \<and> s' = s\<lparr>rs_reserved_bytes := v\<rparr>"
  by (auto simp: release_reserved_def rbind_eq_Ok_iff)

text \<open>The common end of the settling sections.\<close>

lemma core_close_task:
  assumes "core_invar s" "i < length (rs_tasks s)" "\<not> tk_is_terminal (rs_tasks s ! i)"
      "\<not> is_container (rs_tasks s ! i)"
    and "same_task (rs_tasks s ! i) t" "tk_is_terminal t" "fields_fit t"
    and "checked_sub (rs_reserved_bytes s) (tk_reserved_bytes (rs_tasks s ! i)) = Some v"
    and close: "close_task k (s\<lparr>rs_tasks := (rs_tasks s)[i := t], rs_used_bytes := u, rs_reserved_bytes := v\<rparr>)
      t now = Ok (s', a)"
  shows "\<exists>s2. s' = Some s2 \<and> core_invar s2" and "a = snapshot t"
proof -
  from close obtain s1 s2 ch
    where s1: "settle_request (s\<lparr>rs_tasks := (rs_tasks s)[i := t], rs_used_bytes := u, rs_reserved_bytes := v\<rparr>)
        (tk_request_id t) now = Ok s1"
    and s2: "prune_task_history k s1 now = Ok (s2, ch)" "s' = Some s2" "a = snapshot t"
    by (rule close_task_Ok)
  have "core_invar s1" using core_settle_task[OF assms(1-7) refl assms(8) s1] .
  then have "core_invar s2" using s2(1) by (rule prune_task_history_core)
  with s2(2) show "\<exists>s2. s' = Some s2 \<and> core_invar s2" by simp
  show "a = snapshot t" by (fact s2(3))
qed

text \<open>
  What a settlement carries: a result only for a verified completion, else an error; unverified
  cleanup always fails; and never more bytes than the Task reserved.
\<close>

lemma bounded_settlement_shape:
  assumes "bounded_settlement t outcome c = (growth, event, result, error)"
  obtains (complete) "event = EvComplete True True" "c" "result \<noteq> None" "error = None"
      "growth \<le> tk_reserved_bytes t"
  | (fail) "event = EvFail c" "result = None" "error \<noteq> None" "growth \<le> tk_reserved_bytes t"
  | (cancel) e b e' where "outcome = OutcomeCancelled e b" "event = EvSettleCancellation True" "c"
      "result = None" "error = Some e'" "pe_code e' = pe_code e" "growth \<le> tk_reserved_bytes t"
proof (cases "fst (outcome_settlement outcome c) \<le> tk_reserved_bytes t \<and> c")
  case False
  then have "event = EvFail c" "result = None" "error \<noteq> None" "growth \<le> tk_reserved_bytes t"
    using assms by (cases outcome; auto simp: bounded_settlement_def Let_def split: if_splits)+
  then show thesis by (rule fail)
next
  case True
  then show thesis
    using assms complete fail cancel
    by (cases outcome) (auto simp: bounded_settlement_def Let_def)
qed

lemma bounded_settlement_fields:
  assumes b: "bounded_settlement t outcome c = (growth, event, result, error)"
    and l: "lifecycle_apply (tk_lifecycle t) event = Ok l"
    and fit: "fields_fit t" "provider_outcome outcome"
  shows "fields_fit (settled_task t l ended_at result error) \<and> lifecycle_is_terminal l"
  using b
proof (cases rule: bounded_settlement_shape)
  case complete
  then have "lifecycle_is_terminal l" using l by (auto intro: apply_settles)
  with complete l fit show ?thesis
    by (auto simp: settled_task_def fields_fit_def tk_state_def lifecycle_apply_defs split: if_splits)
next
  case fail
  then have "lifecycle_is_terminal l" using l by (auto intro: apply_settles)
  with fail l fit show ?thesis
    by (auto simp: settled_task_def fields_fit_def tk_state_def lifecycle_apply_defs split: if_splits)
next
  case cancel
  then have "lifecycle_is_terminal l" using l by (auto intro: apply_settles)
  with cancel l fit show ?thesis
    by (auto simp: settled_task_def fields_fit_def tk_state_def lifecycle_apply_defs provider_outcome_def
        split: if_splits)
qed

lemma settle_section_Ok:
  assumes "settle_section k report task_id outcome c ended_at now s = Ok (Some s', a)"
  obtains i growth event result error l u v where
    "task_index s task_id = Ok i" "\<not> tk_is_terminal (rs_tasks s ! i)"
    "c \<or> report (admission_fence_of (tk_fence (rs_tasks s ! i))) (tk_execution_id (rs_tasks s ! i)) = Ok ()"
    "bounded_settlement (rs_tasks s ! i) outcome c = (growth, event, result, error)"
    "lifecycle_apply (tk_lifecycle (rs_tasks s ! i)) event = Ok l"
    "checked_add (rs_used_bytes s) growth = Some u"
    "checked_sub (rs_reserved_bytes s) (tk_reserved_bytes (rs_tasks s ! i)) = Some v"
    "close_task k (s\<lparr>rs_tasks := (rs_tasks s)[i := settled_task (rs_tasks s ! i) l ended_at result error],
        rs_used_bytes := u, rs_reserved_bytes := v\<rparr>)
      (settled_task (rs_tasks s ! i) l ended_at result error) now = Ok (Some s', a)"
proof -
  obtain i where i: "task_index s task_id = Ok i"
    using assms by (auto simp: settle_section_def rbind_eq_Ok_iff)
  obtain growth event result error where b:
    "bounded_settlement (rs_tasks s ! i) outcome c = (growth, event, result, error)"
    by (cases "bounded_settlement (rs_tasks s ! i) outcome c")
  have "\<not> tk_is_terminal (rs_tasks s ! i)"
    "c \<or> report (admission_fence_of (tk_fence (rs_tasks s ! i))) (tk_execution_id (rs_tasks s ! i)) = Ok ()"
    using assms i by (auto simp: settle_section_def Let_def rbind_eq_Ok_iff split: if_splits)
  moreover obtain l where l: "lifecycle_apply (tk_lifecycle (rs_tasks s ! i)) event = Ok l"
    using assms i b calculation(1)
    by (cases "lifecycle_apply (tk_lifecycle (rs_tasks s ! i)) event")
      (auto simp: settle_section_def Let_def rbind_eq_Ok_iff split: if_splits)
  ultimately show thesis
    using assms i b
    by (auto simp: settle_section_def Let_def rbind_eq_Ok_iff grow_used_def release_reserved_def
        intro!: that[OF i _ _ b l] split: if_splits)
qed

lemma settle_core:
  assumes inv: "core_invar s" and req: "request_task s task_id" and out: "provider_outcome outcome"
    and ok: "settle_section k report task_id outcome c ended_at now s = Ok (Some s', a)"
  shows "core_invar s'"
  using ok
proof (rule settle_section_Ok)
  fix i growth event result error l u v
  let ?t = "settled_task (rs_tasks s ! i) l ended_at result error"
  assume i: "task_index s task_id = Ok i" "\<not> tk_is_terminal (rs_tasks s ! i)"
    and b: "bounded_settlement (rs_tasks s ! i) outcome c = (growth, event, result, error)"
    and l: "lifecycle_apply (tk_lifecycle (rs_tasks s ! i)) event = Ok l"
    and v: "checked_sub (rs_reserved_bytes s) (tk_reserved_bytes (rs_tasks s ! i)) = Some v"
    and close: "close_task k (s\<lparr>rs_tasks := (rs_tasks s)[i := ?t], rs_used_bytes := u, rs_reserved_bytes := v\<rparr>)
      ?t now = Ok (Some s', a)"
  note I = task_index_Ok[OF i(1)]
  have "fields_fit (rs_tasks s ! i)" using core_invarD(7)[OF inv I(3)] by (simp add: task_valid_def)
  note F = bounded_settlement_fields[OF b l this out]
  have "\<exists>s2. Some s' = Some s2 \<and> core_invar s2"
  proof (rule core_close_task(1)[OF inv I(1) i(2) _ _ _ _ v close])
    show "\<not> is_container (rs_tasks s ! i)" using req I by (auto simp: request_task_def)
    show "same_task (rs_tasks s ! i) ?t" by (simp add: same_task_def settled_task_def)
    show "tk_is_terminal ?t" using F by (simp add: tk_is_terminal_def settled_task_def)
    show "fields_fit ?t" using F by simp
  qed
  then show ?thesis by simp
qed

section \<open>Start, interruption and cancellation\<close>

text \<open>\<open>HostLost\<close> interrupts whatever has not settled.\<close>

lemma core_host_lost:
  assumes inv: "core_invar s" and i: "i < length (rs_tasks s)" "\<not> is_container (rs_tasks s ! i)"
    and l: "lifecycle_apply (tk_lifecycle (rs_tasks s ! i)) EvHostLost = Ok l" "\<not> tk_is_terminal (rs_tasks s ! i)"
    and t: "t = (rs_tasks s ! i)\<lparr>tk_lifecycle := l, tk_ended_at := Some ended_at, tk_error := Some e\<rparr>"
  shows "same_task (rs_tasks s ! i) t" "tk_is_terminal t" "fields_fit t"
proof -
  have "task_valid (rs_tasks s ! i)" using core_invarD(7)[OF inv nth_mem[OF i(1)]] .
  then have f: "fields_fit (rs_tasks s ! i)" by (simp add: task_valid_def)
  have l': "tl_state l = TaskInterrupted" using l by (auto simp: lifecycle_apply_defs tk_is_terminal_def)
  show "same_task (rs_tasks s ! i) t" by (simp add: t same_task_def)
  show "tk_is_terminal t" using l' by (simp add: t tk_is_terminal_def lifecycle_is_terminal_def)
  show "fields_fit t" using f l(2) l'
    by (auto simp: t fields_fit_def tk_state_def tk_is_terminal_iff split: task_state.splits)
qed

lemma interrupt_core:
  assumes inv: "core_invar s" and req: "request_task s task_id"
    and ok: "interrupt_section k task_id ended_at now s = Ok (Some s', a)"
  shows "core_invar s'"
proof -
  obtain i where i: "task_index s task_id = Ok i" and n: "\<not> tk_is_terminal (rs_tasks s ! i)"
    using ok by (auto simp: interrupt_section_def rbind_eq_Ok_iff Let_def split: if_splits)
  note I = task_index_Ok[OF i]
  obtain l where l: "lifecycle_apply (tk_lifecycle (rs_tasks s ! i)) EvHostLost = Ok l"
    using apply_host_lost[of "tk_lifecycle (rs_tasks s ! i)"] n by (auto simp: tk_is_terminal_def)
  let ?t = "(rs_tasks s ! i)\<lparr>tk_lifecycle := l, tk_ended_at := Some ended_at,
      tk_error := Some (public_error_new StaleAuthority (task_operation (rs_tasks s ! i)) False)\<rparr>"
  have c: "\<not> is_container (rs_tasks s ! i)" using req I by (auto simp: request_task_def)
  obtain u v where v: "checked_sub (rs_reserved_bytes s) (tk_reserved_bytes (rs_tasks s ! i)) = Some v"
    and close: "close_task k (s\<lparr>rs_tasks := (rs_tasks s)[i := ?t], rs_used_bytes := u, rs_reserved_bytes := v\<rparr>)
      ?t now = Ok (Some s', a)"
    using ok i n l
    by (auto simp: interrupt_section_def rbind_eq_Ok_iff Let_def grow_used_def release_reserved_def
        bytes_commute)
  note H = core_host_lost[OF inv I(1) c l n refl]
  show ?thesis using core_close_task(1)[OF inv I(1) n c H v close] by simp
qed

lemma run_begin_Ok:
  assumes "run_begin_section current task_id started_at s = Ok (Some s', b)"
  obtains i r admitted route payload executor l where
    "task_index s task_id = Ok i" "\<not> tk_is_terminal (rs_tasks s ! i)"
    "tk_origin (rs_tasks s ! i) = OriginRequest r admitted route payload"
    "current_executor current route = Ok executor" "executor_record_from executor = admitted"
    "lifecycle_apply (tk_lifecycle (rs_tasks s ! i)) EvStart = Ok l"
    "s' = update_task i (\<lambda>t. t\<lparr>tk_lifecycle := l, tk_started_at := Some started_at\<rparr>) s"
    "b = RunStarted \<lparr>ax_execution_id = tk_execution_id (rs_tasks s ! i),
       ax_task_id = Some (tk_task_id (rs_tasks s ! i)), ax_executor = admitted, ax_payload = payload\<rparr>"
  using assms
  by (auto simp: run_begin_section_def Let_def rbind_eq_Ok_iff
      split: if_splits task_origin.splits sum.splits)

lemma run_begin_core:
  assumes inv: "core_invar s" and ok: "run_begin_section current task_id started_at s = Ok (Some s', b)"
  shows "core_invar s'"
  using ok
proof (rule run_begin_Ok)
  fix i r admitted route payload executor l
  let ?t = "(rs_tasks s ! i)\<lparr>tk_lifecycle := l, tk_started_at := Some started_at\<rparr>"
  assume i: "task_index s task_id = Ok i" "\<not> tk_is_terminal (rs_tasks s ! i)"
    and o: "tk_origin (rs_tasks s ! i) = OriginRequest r admitted route payload"
    and l: "lifecycle_apply (tk_lifecycle (rs_tasks s ! i)) EvStart = Ok l"
    and s': "s' = update_task i (\<lambda>t. t\<lparr>tk_lifecycle := l, tk_started_at := Some started_at\<rparr>) s"
  note I = task_index_Ok[OF i(1)]
  have q: "tl_state (tk_lifecycle (rs_tasks s ! i)) = TaskQueued" "tl_state l = TaskRunning"
    using l by (auto simp: lifecycle_apply_defs split: if_splits)
  have "fields_fit (rs_tasks s ! i)" using core_invarD(7)[OF inv I(3)] by (simp add: task_valid_def)
  then have "fields_fit ?t" using q by (simp add: fields_fit_def tk_state_def)
  moreover have "\<not> tk_is_terminal ?t" using q by (simp add: tk_is_terminal_def lifecycle_is_terminal_def)
  moreover have "same_task (rs_tasks s ! i) ?t" "\<not> is_container ?t"
    using o by (simp_all add: same_task_def is_container_def)
  ultimately show ?thesis
    unfolding s' update_task_def using core_update_task[OF inv I(1), of ?t] i(2) by simp
qed

lemma request_cancel_core:
  assumes inv: "core_invar s" and i: "i < length (rs_tasks s)" "\<not> tk_is_terminal (rs_tasks s ! i)"
    and l: "lifecycle_apply (tk_lifecycle (rs_tasks s ! i)) EvRequestCancel = Ok l"
  shows "core_invar (update_task i (\<lambda>t. t\<lparr>tk_lifecycle := l\<rparr>) s)"
    and "tl_state l = tk_state (rs_tasks s ! i)" "tl_cancel_requested l"
proof -
  show q: "tl_state l = tk_state (rs_tasks s ! i)" "tl_cancel_requested l"
    using l i(2) by (auto simp: lifecycle_apply.simps tk_state_def tk_is_terminal_def)
  let ?t = "(rs_tasks s ! i)\<lparr>tk_lifecycle := l\<rparr>"
  have "fields_fit (rs_tasks s ! i)" using core_invarD(7)[OF inv nth_mem[OF i(1)]] by (simp add: task_valid_def)
  then have "fields_fit ?t"
    using q i(2) by (auto simp: fields_fit_def tk_state_def tk_is_terminal_iff split: task_state.splits)
  moreover have "\<not> tk_is_terminal ?t" "tk_state ?t = tk_state (rs_tasks s ! i)"
    using q i(2) by (simp_all add: tk_is_terminal_iff tk_state_def)
  moreover have "same_task (rs_tasks s ! i) ?t" by (simp add: same_task_def)
  ultimately show "core_invar (update_task i (\<lambda>t. t\<lparr>tk_lifecycle := l\<rparr>) s)"
    unfolding update_task_def using core_update_task[OF inv i(1), of ?t] i(2) by simp
qed

lemma cancel_queued_core:
  assumes inv: "core_invar s" and i: "i < length (rs_tasks s)" "\<not> tk_is_terminal (rs_tasks s ! i)"
      "\<not> is_container (rs_tasks s ! i)"
    and ok: "cancel_queued k i ended_at now s = Ok (s', a)"
  shows "s' \<noteq> None \<and> core_invar (the s')"
proof -
  let ?e = "public_error_new Cancelled (task_operation (rs_tasks s ! i)) False"
  obtain g where g: "encoded_cancel_terminal_bytes k ended_at ?e = Ok g" "\<not> tk_reserved_bytes (rs_tasks s ! i) < g"
    using ok by (auto simp: cancel_queued_def Let_def rbind_eq_Ok_iff split: if_splits)
  obtain l where l: "lifecycle_apply (tk_lifecycle (rs_tasks s ! i)) (EvSettleCancellation True) = Ok l"
    using ok g by (auto simp: cancel_queued_def Let_def rbind_eq_Ok_iff split: if_splits)
  let ?t = "(rs_tasks s ! i)\<lparr>tk_lifecycle := l, tk_ended_at := Some ended_at, tk_error := Some ?e\<rparr>"
  obtain u v where v: "checked_sub (rs_reserved_bytes s) (tk_reserved_bytes (rs_tasks s ! i)) = Some v"
    and close: "close_task k (s\<lparr>rs_tasks := (rs_tasks s)[i := ?t], rs_used_bytes := u, rs_reserved_bytes := v\<rparr>)
      ?t now = Ok (s', a)"
    using ok g l
    by (auto simp: cancel_queued_def rbind_eq_Ok_iff Let_def grow_used_def release_reserved_def)
  have l': "tl_state l = TaskCancelled" "tl_cancel_requested l"
    using l i(2) by (auto simp: lifecycle_apply.simps tk_is_terminal_def split: if_splits)
  have "fields_fit (rs_tasks s ! i)" using core_invarD(7)[OF inv nth_mem[OF i(1)]] by (simp add: task_valid_def)
  then have "fields_fit ?t" using l' i(2)
    by (auto simp: fields_fit_def tk_state_def tk_is_terminal_iff public_error_new_def split: task_state.splits)
  moreover have "same_task (rs_tasks s ! i) ?t" by (simp add: same_task_def)
  moreover have "tk_is_terminal ?t" using l' by (simp add: tk_is_terminal_def lifecycle_is_terminal_def)
  ultimately show ?thesis using core_close_task(1)[OF inv i _ _ _ v close] by fastforce
qed

lemma cancel_container_core:
  assumes inv: "core_invar s" and ok: "cancel_container k i task_id ended_at now s = Ok (s', a)"
  shows "s' \<noteq> None \<and> core_invar (the s')"
proof -
  let ?o = "AutoOutcomeCancelled (public_error_new Cancelled (task_operation (rs_tasks s ! i)) False)"
  have settled: "core_invar s1" if "settle_automation_in_state s e ?o ended_at = Ok (s1, sm)" for s1 sm e
    using settle_automation_core[OF inv _ that] by (simp add: outcome_fits_def public_error_new_def)
  let ?settle = "if tk_state (rs_tasks s ! i) \<in> {TaskCreated, TaskQueued}
      then rbind (settle_automation_in_state s (tk_execution_id (rs_tasks s ! i)) ?o ended_at) (\<lambda>(s, _). Ok s)
      else Ok s"
  obtain s1 s2 ch where s1: "?settle = Ok s1" and s2: "prune_task_history k s1 now = Ok (s2, ch)" "s' = Some s2"
    using ok by (auto simp: cancel_container_def Let_def rbind_eq_Ok_iff simp del: insert_iff split del: if_split)
  have "core_invar s1"
    using s1 inv settled by (cases "tk_state (rs_tasks s ! i) \<in> {TaskCreated, TaskQueued}")
      (auto simp: rbind_eq_Ok_iff)
  then show ?thesis using s2 prune_task_history_core by auto
qed

lemma cancel_core:
  assumes inv: "core_invar s" and ok: "cancel_section k task_id ended_at now s = Ok (Some s', a)"
  shows "core_invar s'"
proof -
  obtain s1 pruned where s1: "prune_task_history k s now = Ok (s1, pruned)"
    using ok by (auto simp: cancel_section_def rbind_eq_Ok_iff)
  have c1: "core_invar s1" using inv s1 by (rule prune_task_history_core)
  show ?thesis
  proof (cases "position (\<lambda>t. tk_task_id t = task_id) (rs_tasks s1)")
    case None
    with ok s1 c1 show ?thesis by (auto simp: cancel_section_def Let_def split: if_splits)
  next
    case (Some i)
    note I = position_SomeD[OF Some]
    let ?t = "rs_tasks s1 ! i"
    show ?thesis
    proof (cases "tk_is_terminal ?t \<or> tl_cancel_requested (tk_lifecycle ?t)")
      case True
      with ok s1 c1 Some show ?thesis by (auto simp: cancel_section_def Let_def split: if_splits)
    next
      case False
      then obtain l where l: "lifecycle_apply (tk_lifecycle ?t) EvRequestCancel = Ok l"
        by (simp add: lifecycle_apply.simps tk_is_terminal_def)
      let ?s = "update_task i (\<lambda>t. t\<lparr>tk_lifecycle := l\<rparr>) s1"
      note R = request_cancel_core[OF c1 I(1) _ l]
      have c2: "core_invar ?s" and n: "\<not> tk_is_terminal (rs_tasks ?s ! i)"
        "is_container (rs_tasks ?s ! i) = is_container ?t" "i < length (rs_tasks ?s)"
        using R False I(1) by (simp_all add: update_task_def tk_is_terminal_iff tk_state_def is_container_def)
      show ?thesis
        using ok s1 Some False l cancel_container_core[OF c2] cancel_queued_core[OF c2 n(3,1)] n(2) c2
        by (fastforce simp: cancel_section_def Let_def rbind_eq_Ok_iff split: if_splits)
    qed
  qed
qed

section \<open>Reads\<close>

lemma get_core:
  assumes "core_invar s" and "get_section k task_id now s = Ok (Some s', a)"
  shows "core_invar s'"
  using assms prune_task_history_core
  by (auto simp: get_section_def rbind_eq_Ok_iff Let_def split: if_splits)

lemma list_core:
  assumes "core_invar s" and "list_section k states limit now s = Ok (Some s', a)"
  shows "core_invar s'"
  using assms prune_task_history_core
  by (auto simp: list_section_def rbind_eq_Ok_iff Let_def split: if_splits)

section \<open>One synchronous execution settles\<close>

lemma core_settle_sync:
  assumes inv: "core_invar s" and i: "i < length (rs_synchronous_executions s)"
      "\<not> sync_is_terminal (sx_state (rs_synchronous_executions s ! i))"
    and x: "sync_is_terminal (sx_state x)"
      "sx_request_id x = sx_request_id (rs_synchronous_executions s ! i)"
      "sx_execution_id x = sx_execution_id (rs_synchronous_executions s ! i)"
    and rv: "checked_sub (rs_reserved_bytes s) (sx_reserved_bytes (rs_synchronous_executions s ! i)) = Some v"
    and settle: "dedup_settle (rs_dedup s) (sx_request_id x) now = Ok (d, e)"
    and s2: "s2 = s\<lparr>rs_synchronous_executions := (rs_synchronous_executions s)[i := x],
      rs_used_bytes := u, rs_reserved_bytes := v, rs_dedup := d\<rparr>"
  shows "core_invar s2"
proof -
  note D = core_invarD[OF inv]
  let ?X = "rs_synchronous_executions s"
  have "reservations s2 + unat (sx_reserved_bytes (?X ! i)) = reservations s"
    using reservations_update_sync[OF i(1), of x] i(2) x(1)
    by (simp add: reservations_def sync_reservation_def s2)
  then have "accounted s2" using D(1) unat_checked_sub[OF rv] by (simp add: accounted_def s2)
  moreover have "execution_linked s2" using D(2) by (simp add: execution_linked_def s2)
  moreover have "requests_held s2"
    by (rule held_settle_sync[OF D(3) i x(1,2) settle]) (simp_all add: s2)
  moreover have "map sx_execution_id (?X[i := x]) = map sx_execution_id ?X"
    by (rule map_list_update_same) (simp add: x)
  then have "identities_distinct s2" using D(4) by (simp add: identities_distinct_def s2)
  ultimately show ?thesis using D(7) by (simp add: core_invar_def s2)
qed

section \<open>Recovery of a prior instance\<close>

lemma for_each_invariant:
  assumes step: "\<And>i s s'. i \<in> set ns \<Longrightarrow> P s \<Longrightarrow> f i s = Ok s' \<Longrightarrow> P s'"
    and "P s" and "for_each f ns s = Ok s'"
  shows "P s'"
  using assms
proof (induction ns arbitrary: s)
  case Nil
  then show ?case by simp
next
  case (Cons n ns)
  then obtain s1 where s1: "f n s = Ok s1" "for_each f ns s1 = Ok s'" by (auto simp: rbind_eq_Ok_iff)
  then have "P s1" using Cons.prems(1)[of n s s1] Cons.prems(2) by simp
  then show ?case using Cons.IH Cons.prems(1) s1(2) by (metis list.set_intros(2))
qed

text \<open>After the first pass no container of the prior instance is at work.\<close>

lemma settle_automation_containers:
  assumes D: "distinct (map tk_execution_id (rs_tasks s))"
    and settle: "settle_automation_in_state s e outcome ts = Ok (s', summary)"
    and t: "t \<in> set (rs_tasks s')" "is_container t" "\<not> tk_is_terminal t"
  shows "t \<in> set (rs_tasks s) \<and> tk_execution_id t \<noteq> e"
proof -
  from settle obtain xi ti l reserved used where
    ti: "position (\<lambda>t. tk_execution_id t = e \<and> is_container t) (rs_tasks s) = Some ti"
    and l: "settle_lifecycle (tk_lifecycle (rs_tasks s ! ti)) outcome = Ok l"
    and rel: "release_ownership (settled_state s xi ti l reserved used e outcome ts)
       (xr_automation_id (rs_automation_executions s ! xi)) e = Ok s'"
    by (rule settle_automation_Ok)
  let ?t = "(rs_tasks s ! ti)\<lparr>tk_lifecycle := l, tk_ended_at := Some ts,
      tk_result := auto_outcome_result outcome (xr_automation_id (rs_automation_executions s ! xi)) e,
      tk_error := auto_outcome_error outcome\<rparr>"
  note T = position_SomeD[OF ti]
  have f: "rs_tasks s' = (rs_tasks s)[ti := ?t]"
    using release_ownership_frame[OF rel] by (simp add: same_core_def)
  have "tk_is_terminal ?t" using settle_lifecycle_terminal[OF l] by (simp add: tk_is_terminal_def)
  then have "t \<noteq> ?t" using t(3) by auto
  then obtain j where j: "j < length (rs_tasks s)" "j \<noteq> ti" "t = rs_tasks s ! j"
    using t(1) set_list_update_subset[of "rs_tasks s" ti ?t] unfolding f by blast
  have "tk_execution_id t \<noteq> e"
  proof
    assume "tk_execution_id t = e"
    then have "map tk_execution_id (rs_tasks s) ! j = map tk_execution_id (rs_tasks s) ! ti"
      using j T by simp
    then show False using D j(1,2) T(1) by (simp add: distinct_conv_nth)
  qed
  with j show ?thesis by simp
qed

lemma interrupt_executions_containers:
  "core_invar s \<Longrightarrow> interrupt_executions s es ts = Ok s' \<Longrightarrow> t \<in> set (rs_tasks s') \<Longrightarrow> is_container t \<Longrightarrow>
   \<not> tk_is_terminal t \<Longrightarrow> t \<in> set (rs_tasks s) \<and> tk_execution_id t \<notin> set es"
proof (induction s es ts rule: interrupt_executions.induct)
  case (1 s ts)
  then show ?case by simp
next
  case (2 s e es ts)
  obtain s1 sm where s1: "settle_automation_in_state s e (AutoOutcomeInterrupted host_lost_error) ts = Ok (s1, sm)"
    and rest: "interrupt_executions s1 es ts = Ok s'"
    using "2.prems"(2) by (auto simp: rbind_eq_Ok_iff)
  have "core_invar s1" using settle_automation_core[OF "2.prems"(1) _ s1] by (simp add: outcome_fits_def)
  then have "t \<in> set (rs_tasks s1) \<and> tk_execution_id t \<notin> set es"
    using "2.IH"[of "(s1, sm)" s1 sm] s1 rest "2.prems"(3-5) by simp
  then show ?case
    using settle_automation_containers[OF core_invarD(6)[OF "2.prems"(1)] s1] "2.prems"(4,5) by simp
qed

lemma interrupt_old_containers:
  assumes inv: "core_invar s"
    and ok: "interrupt_old_instance_automation_executions s old ts = Ok (s', n)"
  shows "core_invar s'"
    and "t \<in> set (rs_tasks s') \<Longrightarrow> is_container t \<Longrightarrow> fence_runtime_instance_id (tk_fence t) = old \<Longrightarrow> tk_is_terminal t"
proof -
  have i: "interrupt_executions s (old_instance_executions s old) ts = Ok s'"
    using ok by (auto simp: interrupt_old_instance_automation_executions_def Let_def rbind_eq_Ok_iff)
  show "core_invar s'" using inv i by (rule interrupt_executions_core)
  show "tk_is_terminal t"
    if "t \<in> set (rs_tasks s')" "is_container t" "fence_runtime_instance_id (tk_fence t) = old"
    using interrupt_executions_containers[OF inv i that(1,2)] that(2,3)
    by (auto simp: old_instance_executions_def)
qed

lemma recover_task_core:
  assumes inv: "core_invar s" and i: "i < length (rs_tasks s)"
    and c: "\<And>t. t \<in> set (rs_tasks s) \<Longrightarrow> is_container t \<Longrightarrow> fence_runtime_instance_id (tk_fence t) = old
      \<Longrightarrow> tk_is_terminal t"
    and ok: "recover_task old ended_at now i (s, n) = Ok (s', n')"
  shows "core_invar s'" and "length (rs_tasks s') = length (rs_tasks s)"
    and "rs_synchronous_executions s' = rs_synchronous_executions s"
    and "t \<in> set (rs_tasks s') \<Longrightarrow> is_container t \<Longrightarrow> fence_runtime_instance_id (tk_fence t) = old
      \<Longrightarrow> tk_is_terminal t"
proof -
  let ?o = "rs_tasks s ! i"
  have "core_invar s' \<and> length (rs_tasks s') = length (rs_tasks s)
    \<and> rs_synchronous_executions s' = rs_synchronous_executions s
    \<and> (\<forall>t\<in>set (rs_tasks s'). t \<in> set (rs_tasks s) \<or> tk_is_terminal t)"
  proof (cases "\<not> tk_is_terminal ?o \<and> fence_runtime_instance_id (tk_fence ?o) = old")
    case False
    with ok inv show ?thesis by (auto simp: recover_task_def)
  next
    case True
    then have n: "\<not> tk_is_terminal ?o" by simp
    obtain l where l: "lifecycle_apply (tk_lifecycle ?o) EvHostLost = Ok l"
      using apply_host_lost[of "tk_lifecycle ?o"] n by (auto simp: tk_is_terminal_def)
    let ?t = "?o\<lparr>tk_lifecycle := l, tk_ended_at := Some ended_at,
        tk_error := Some (public_error_new IoError (task_operation ?o) False)\<rparr>"
    obtain u v where v: "checked_sub (rs_reserved_bytes s) (tk_reserved_bytes ?o) = Some v"
      and close: "settle_request (s\<lparr>rs_tasks := (rs_tasks s)[i := ?t], rs_used_bytes := u, rs_reserved_bytes := v\<rparr>)
        (tk_request_id ?o) now = Ok s'"
      using ok True l
      by (auto simp: recover_task_def rbind_eq_Ok_iff Let_def grow_used_def release_reserved_def bytes_commute)
    have nc: "\<not> is_container ?o" using c[OF nth_mem[OF i]] True by auto
    note H = core_host_lost[OF inv i nc l n refl]
    have "tk_request_id ?o = tk_request_id ?t" by (simp add: tk_request_id_def)
    then have close': "settle_request (s\<lparr>rs_tasks := (rs_tasks s)[i := ?t], rs_used_bytes := u, rs_reserved_bytes := v\<rparr>)
        (tk_request_id ?t) now = Ok s'" using close by simp
    note S = settle_request_Ok(1)[OF close']
    have f: "rs_tasks s' = (rs_tasks s)[i := ?t]" "rs_synchronous_executions s' = rs_synchronous_executions s"
      by (subst S, simp)+
    have "core_invar s'" using core_settle_task[OF inv i n nc H refl v close'] .
    moreover have "\<forall>t\<in>set (rs_tasks s'). t \<in> set (rs_tasks s) \<or> tk_is_terminal t"
      using H(2) set_update_subset_insert[of "rs_tasks s" i ?t] unfolding f by blast
    ultimately show ?thesis by (simp add: f)
  qed
  then show "core_invar s'" "length (rs_tasks s') = length (rs_tasks s)"
    "rs_synchronous_executions s' = rs_synchronous_executions s"
    "t \<in> set (rs_tasks s') \<Longrightarrow> is_container t \<Longrightarrow> fence_runtime_instance_id (tk_fence t) = old
      \<Longrightarrow> tk_is_terminal t"
    using c by auto
qed

lemma recover_synchronous_core:
  assumes inv: "core_invar s" and i: "i < length (rs_synchronous_executions s)"
    and ok: "recover_synchronous old ended_at now i (s, n) = Ok (s', n')"
  shows "core_invar s'" and "length (rs_synchronous_executions s') = length (rs_synchronous_executions s)"
proof -
  let ?o = "rs_synchronous_executions s ! i"
  have "core_invar s' \<and> length (rs_synchronous_executions s') = length (rs_synchronous_executions s)"
  proof (cases "\<not> sync_is_terminal (sx_state ?o) \<and> fence_runtime_instance_id (er_fence (sx_executor ?o)) = old")
    case False
    with ok inv show ?thesis by (auto simp: recover_synchronous_def Let_def)
  next
    case True
    let ?b = "min RESERVE_FLOOR_BYTES (sx_reserved_bytes ?o)"
    let ?x = "?o\<lparr>sx_state := SyncInterrupted, sx_ended_at := Some ended_at,
        sx_error := Some (public_error_new IoError (sx_operation ?o) False), sx_terminal_bytes := ?b\<rparr>"
    obtain u v d e where v: "checked_sub (rs_reserved_bytes s) (sx_reserved_bytes ?o) = Some v"
      and d: "dedup_settle (rs_dedup s) (sx_request_id ?x) now = Ok (d, e)"
      and s': "s' = s\<lparr>rs_synchronous_executions := (rs_synchronous_executions s)[i := ?x],
        rs_used_bytes := u, rs_reserved_bytes := v, rs_dedup := d\<rparr>"
      using ok True
      by (auto simp: recover_synchronous_def rbind_eq_Ok_iff Let_def grow_used_def release_reserved_def
          settle_request_def bytes_commute)
    have "core_invar s'" using core_settle_sync[OF inv i _ _ _ _ v d s'] True by simp
    then show ?thesis by (simp add: s')
  qed
  then show "core_invar s'" "length (rs_synchronous_executions s') = length (rs_synchronous_executions s)"
    by simp_all
qed

lemma recover_core:
  assumes inv: "core_invar s" and ok: "recover_section k old ended_at now s = Ok (Some s', n)"
  shows "core_invar s'"
proof -
  obtain s1 n1 where s1: "interrupt_old_instance_automation_executions s old ended_at = Ok (s1, n1)"
    using ok by (auto simp: recover_section_def rbind_eq_Ok_iff)
  obtain s2 n2 where s2: "for_each (recover_task old ended_at now) [0..<length (rs_tasks s1)] (s1, n1) = Ok (s2, n2)"
    using ok s1 by (auto simp: recover_section_def rbind_eq_Ok_iff)
  obtain s3 n3 where s3: "for_each (recover_synchronous old ended_at now)
      [0..<length (rs_synchronous_executions s2)] (s2, n2) = Ok (s3, n3)"
    using ok s1 s2 by (auto simp: recover_section_def rbind_eq_Ok_iff)
  obtain s4 ch where s4: "prune_task_history k s3 now = Ok (s4, ch)" "s' = prune_synchronous_history s4 now"
    using ok s1 s2 s3 by (auto simp: recover_section_def rbind_eq_Ok_iff)
  let ?P = "\<lambda>(s, n::nat). core_invar s \<and> length (rs_tasks s) = length (rs_tasks s1)
      \<and> (\<forall>t\<in>set (rs_tasks s). is_container t \<longrightarrow> fence_runtime_instance_id (tk_fence t) = old \<longrightarrow> tk_is_terminal t)"
  have "?P (s2, n2)"
  proof (rule for_each_invariant[where P = ?P, OF _ _ s2])
    show "?P (s1, n1)" using interrupt_old_containers[OF inv s1] by simp
    fix i p q assume i: "i \<in> set [0..<length (rs_tasks s1)]" and P: "?P p" and r: "recover_task old ended_at now i p = Ok q"
    obtain a n b m where pq: "p = (a, n)" "q = (b, m)" by fastforce
    have c: "core_invar a" "i < length (rs_tasks a)" "length (rs_tasks a) = length (rs_tasks s1)"
      "\<And>t. t \<in> set (rs_tasks a) \<Longrightarrow> is_container t \<Longrightarrow> fence_runtime_instance_id (tk_fence t) = old \<Longrightarrow> tk_is_terminal t"
      using P i by (auto simp: pq)
    note R = recover_task_core[OF c(1,2,4) r[unfolded pq]]
    have "\<forall>t\<in>set (rs_tasks b). is_container t \<longrightarrow> fence_runtime_instance_id (tk_fence t) = old \<longrightarrow> tk_is_terminal t"
      using R(4) by blast
    moreover have "length (rs_tasks b) = length (rs_tasks s1)" using R(2) c(3) by (rule trans)
    ultimately show "?P q" unfolding pq prod.case using R(1) by blast
  qed
  then have c2: "core_invar s2" by simp
  let ?Q = "\<lambda>(s, n::nat). core_invar s
      \<and> length (rs_synchronous_executions s) = length (rs_synchronous_executions s2)"
  have "?Q (s3, n3)"
  proof (rule for_each_invariant[where P = ?Q, OF _ _ s3])
    show "?Q (s2, n2)" using c2 by simp
    fix i p q assume i: "i \<in> set [0..<length (rs_synchronous_executions s2)]" and P: "?Q p"
      and r: "recover_synchronous old ended_at now i p = Ok q"
    obtain a n b m where pq: "p = (a, n)" "q = (b, m)" by fastforce
    have c: "core_invar a" "i < length (rs_synchronous_executions a)"
      "length (rs_synchronous_executions a) = length (rs_synchronous_executions s2)"
      using P i by (auto simp: pq)
    show "?Q q" using recover_synchronous_core[OF c(1,2) r[unfolded pq]] c(3) by (simp add: pq)
  qed
  then have "core_invar s4" using prune_task_history_core s4(1) by auto
  then show ?thesis unfolding s4(2) by (rule prune_synchronous_core)
qed

end
