(* ===== verification/Sync_Invariant.thy ===== *)
theory Sync_Invariant
  imports Section_Invariant
begin

text \<open>
  The synchronous sections and the retained mutations preserve the canonical invariant.
\<close>

section \<open>Admission\<close>

definition fresh_synchronous :: "('p, 'r, 'j) runtime_state \<Rightarrow> 'p synchronous_admission \<Rightarrow> bool" where
  "fresh_synchronous s a \<longleftrightarrow>
     sa_execution_id a \<notin> tk_execution_id ` set (rs_tasks s)
     \<and> sa_execution_id a \<notin> sx_execution_id ` set (rs_synchronous_executions s)
     \<and> (\<forall>t\<in>set (rs_tasks s). tk_request_id t \<noteq> Some (sa_request_id a))"

lemma push_sync_core:
  assumes inv: "core_invar s" and req: "owner_count s (sx_request_id x) = 0"
      "dedup_known (rs_dedup s) (sx_request_id x) = Some (h, None)"
    and x: "sx_state x = SyncRunning"
    and fresh: "sx_execution_id x \<notin> tk_execution_id ` set (rs_tasks s)"
      "sx_execution_id x \<notin> sx_execution_id ` set (rs_synchronous_executions s)"
    and room: "checked_add (rs_reserved_bytes s) (sx_reserved_bytes x) = Some v"
    and s': "s' = s\<lparr>rs_used_bytes := u, rs_reserved_bytes := v,
      rs_synchronous_executions := rs_synchronous_executions s @ [x]\<rparr>"
  shows "core_invar s'"
proof -
  note D = core_invarD[OF inv]
  have "accounted s'"
    using D(1) x unat_checked_add[OF room]
    by (simp add: accounted_def reservations_def sync_reservation_def s')
  moreover have "execution_linked s'" using D(2) by (simp add: execution_linked_def s')
  moreover have "requests_held s'"
    by (rule held_push_sync[OF D(3) req]) (simp_all add: x s')
  moreover have "identities_distinct s'" using D(4) fresh by (auto simp: identities_distinct_def s')
  ultimately show ?thesis using D(7) by (simp add: core_invar_def s')
qed

lemma admit_new_sync_Ok:
  assumes "admit_new_sync k current permits a s = Ok (Some s', b)"
  obtains executor u v where "permits \<noteq> 0" "current_executor current (sa_route a) = Ok executor"
    "checked_add (rs_reserved_bytes s) (max (sa_settlement_bound_bytes a) RESERVE_FLOOR_BYTES) = Some v"
    "checked_add (rs_used_bytes s) SYNCHRONOUS_RECORD_BYTES = Some u"
    "unat u + unat v \<le> 8388608"
    "s' = s\<lparr>rs_used_bytes := u, rs_reserved_bytes := v,
       rs_synchronous_executions := rs_synchronous_executions s @
         [\<lparr>sx_request_id = sa_request_id a, sx_execution_id = sa_execution_id a,
           sx_operation = sa_operation a, sx_state = SyncRunning, sx_ended_at = None,
           sx_executor = executor_record_from executor, sx_route = sa_route a,
           sx_payload = sa_payload a, sx_result = None, sx_error = None,
           sx_reserved_bytes = max (sa_settlement_bound_bytes a) RESERVE_FLOOR_BYTES,
           sx_terminal_bytes = 0\<rparr>]\<rparr>"
    "b = SyncAdmitted \<lparr>ax_execution_id = sa_execution_id a, ax_task_id = None,
           ax_executor = executor_record_from executor, ax_payload = sa_payload a\<rparr>"
proof -
  let ?n = "max (sa_settlement_bound_bytes a) RESERVE_FLOOR_BYTES"
  have p: "permits \<noteq> 0" using assms by (auto simp: admit_new_sync_def Let_def split: if_splits)
  obtain ex where ex: "current_executor current (sa_route a) = Ok ex"
    using assms p by (cases "current_executor current (sa_route a)") (auto simp: admit_new_sync_def Let_def)
  obtain tot where tot: "Option.bind (Option.bind (total_committed_and_reserved s)
      (\<lambda>v. checked_add v SYNCHRONOUS_RECORD_BYTES)) (\<lambda>v. checked_add v ?n) = Some tot" "\<not> STORE_LIMIT_BYTES < tot"
    using assms p ex by (auto simp: admit_new_sync_def Let_def rbind_eq_Ok_iff split: if_splits)
  obtain u where u: "checked_add (rs_used_bytes s) SYNCHRONOUS_RECORD_BYTES = Some u"
    using assms p ex tot by (auto simp: admit_new_sync_def Let_def rbind_eq_Ok_iff)
  obtain v where v: "checked_add (rs_reserved_bytes s) ?n = Some v"
    using assms p ex tot u by (auto simp: admit_new_sync_def Let_def rbind_eq_Ok_iff)
  have "tot \<le> STORE_LIMIT_BYTES" using tot(2) by simp
  note room = capacity_room(1)[OF tot(1) this]
  have "unat u + unat v \<le> 8388608"
    using room unat_checked_add[OF u] unat_checked_add[OF v] by simp
  then show thesis
    using assms p ex tot u v
    by (intro that[OF p ex v u]) (auto simp: admit_new_sync_def Let_def rbind_eq_Ok_iff)
qed

lemma sync_begin_Ok:
  assumes "sync_begin_section k current permits waiting a s = Ok (Some s', b)"
  obtains d where "decide_and_reserve (rs_dedup s) (sa_request_id a) (sa_payload_sha256 a)
      (sa_now_ms a) False = (d, Ok Admit)"
    "admit_new_sync k current permits a
       ((prune_expired_requests k s (sa_now_ms a))\<lparr>rs_dedup := d\<rparr>) = Ok (Some s', b)"
proof -
  obtain d dec where d: "decide_and_reserve (rs_dedup s) (sa_request_id a) (sa_payload_sha256 a)
      (sa_now_ms a) False = (d, dec)" by fastforce
  have "dec = Ok Admit" "admit_new_sync k current permits a
       ((prune_expired_requests k s (sa_now_ms a))\<lparr>rs_dedup := d\<rparr>) = Ok (Some s', b)"
    using assms d
    by (auto simp: sync_begin_section_def rbind_eq_Ok_iff sync_replay_def Let_def
        split: if_splits elim!: decision_cases)
  with d show thesis by (intro that) auto
qed

lemma sync_begin_core:
  assumes inv: "core_invar s" and fresh: "fresh_synchronous s a"
    and ok: "sync_begin_section k current permits waiting a s = Ok (Some s', b)"
  shows "core_invar s'"
proof -
  obtain d where d: "decide_and_reserve (rs_dedup s) (sa_request_id a) (sa_payload_sha256 a)
      (sa_now_ms a) False = (d, Ok Admit)"
    and new: "admit_new_sync k current permits a
       ((prune_expired_requests k s (sa_now_ms a))\<lparr>rs_dedup := d\<rparr>) = Ok (Some s', b)"
    using ok by (rule sync_begin_Ok)
  define p where "p = (prune_expired_requests k s (sa_now_ms a))\<lparr>rs_dedup := d\<rparr>"
  note A = admitted_request_core[OF inv d _ p_def]
  have P: "core_invar p" "dedup_known (rs_dedup p) (sa_request_id a) = Some (sa_payload_sha256 a, None)"
    "owner_count p (sa_request_id a) = 0"
    using A fresh by (auto simp: fresh_synchronous_def)
  have F: "sa_execution_id a \<notin> tk_execution_id ` set (rs_tasks p)"
    "sa_execution_id a \<notin> sx_execution_id ` set (rs_synchronous_executions p)"
    using fresh by (auto simp: fresh_synchronous_def p_def)
  from new[folded p_def] show ?thesis
  proof (rule admit_new_sync_Ok)
    fix executor u v
    assume v: "checked_add (rs_reserved_bytes p) (max (sa_settlement_bound_bytes a) RESERVE_FLOOR_BYTES) = Some v"
      and s': "s' = p\<lparr>rs_used_bytes := u, rs_reserved_bytes := v,
       rs_synchronous_executions := rs_synchronous_executions p @
         [\<lparr>sx_request_id = sa_request_id a, sx_execution_id = sa_execution_id a,
           sx_operation = sa_operation a, sx_state = SyncRunning, sx_ended_at = None,
           sx_executor = executor_record_from executor, sx_route = sa_route a,
           sx_payload = sa_payload a, sx_result = None, sx_error = None,
           sx_reserved_bytes = max (sa_settlement_bound_bytes a) RESERVE_FLOOR_BYTES,
           sx_terminal_bytes = 0\<rparr>]\<rparr>"
    show ?thesis
      by (rule push_sync_core[OF P(1) _ _ _ _ _ _ s']) (use P F v in simp_all)
  qed
qed

section \<open>Settlement\<close>

lemma sync_settlement_shape:
  assumes "sync_settlement outcome c reservation operation = (bytes, state, result, error)"
  shows "sync_is_terminal state" "bytes \<le> reservation"
    "(state = SyncCompleted \<longleftrightarrow> result \<noteq> None) \<and> (result = None \<longleftrightarrow> error \<noteq> None)"
    "\<not> c \<Longrightarrow> state = SyncInterrupted"
    "error = Some e \<Longrightarrow> pe_operation e = operation"
  using assms
  by (cases outcome; auto simp: sync_settlement_def Let_def split: if_splits)+

lemma sync_settle_Ok:
  assumes "sync_settle_section k report r outcome c ended_at now s = Ok (Some s', a)"
  obtains i measured bytes state result error retained retained_bytes u v d e where
    "i < length (rs_synchronous_executions s)"
    "sx_request_id (rs_synchronous_executions s ! i) = r"
    "\<not> sync_is_terminal (sx_state (rs_synchronous_executions s ! i))"
    "c \<or> report (admission_fence_of (er_fence (sx_executor (rs_synchronous_executions s ! i))))
           (sx_execution_id (rs_synchronous_executions s ! i)) = Ok ()"
    "measured_execution_outcome k outcome (sx_operation (rs_synchronous_executions s ! i)) = Ok measured"
    "sync_settlement measured c (sx_reserved_bytes (rs_synchronous_executions s ! i))
       (sx_operation (rs_synchronous_executions s ! i)) = (bytes, state, result, error)"
    "retained_result k result bytes (sx_operation (rs_synchronous_executions s ! i))
       = Ok (retained, retained_bytes)"
    "checked_add (rs_used_bytes s) retained_bytes = Some u"
    "checked_sub (rs_reserved_bytes s) (sx_reserved_bytes (rs_synchronous_executions s ! i)) = Some v"
    "dedup_settle (rs_dedup s) r now = Ok (d, e)"
    "s' = s\<lparr>rs_synchronous_executions := (rs_synchronous_executions s)[i :=
         (rs_synchronous_executions s ! i)\<lparr>sx_state := state, sx_ended_at := Some ended_at,
            sx_result := retained, sx_error := error, sx_terminal_bytes := retained_bytes\<rparr>],
       rs_used_bytes := u, rs_reserved_bytes := v, rs_dedup := d\<rparr>"
    "a = (sx_operation (rs_synchronous_executions s ! i),
          sync_answer result error (sx_operation (rs_synchronous_executions s ! i)))"
proof -
  obtain i where p: "position (\<lambda>x. sx_request_id x = r) (rs_synchronous_executions s) = Some i"
    using assms by (auto simp: sync_settle_section_def rbind_eq_Ok_iff)
  note i = position_SomeD[OF p]
  let ?x = "rs_synchronous_executions s ! i"
  have n: "\<not> sync_is_terminal (sx_state ?x)"
    using assms p by (auto simp: sync_settle_section_def Let_def split: if_splits)
  have rep: "c \<or> report (admission_fence_of (er_fence (sx_executor ?x))) (sx_execution_id ?x) = Ok ()"
    using assms p n by (auto simp: sync_settle_section_def Let_def rbind_eq_Ok_iff split: if_splits)
  obtain m where m: "measured_execution_outcome k outcome (sx_operation ?x) = Ok m"
    using assms p n rep
    by (cases "measured_execution_outcome k outcome (sx_operation ?x)")
      (auto simp: sync_settle_section_def Let_def rbind_eq_Ok_iff split: if_splits)
  obtain bytes state result error where st:
    "sync_settlement m c (sx_reserved_bytes ?x) (sx_operation ?x) = (bytes, state, result, error)"
    by (cases "sync_settlement m c (sx_reserved_bytes ?x) (sx_operation ?x)")
  obtain ret rb where ret: "retained_result k result bytes (sx_operation ?x) = Ok (ret, rb)"
    using assms p n rep m st
    by (cases "retained_result k result bytes (sx_operation ?x)")
      (auto simp: sync_settle_section_def Let_def rbind_eq_Ok_iff split: if_splits)
  show thesis
    using assms p n rep m st ret
    by (auto simp: sync_settle_section_def Let_def rbind_eq_Ok_iff
        intro!: that[OF i n rep m st ret] split: if_splits)
qed

lemma sync_settle_core:
  assumes inv: "core_invar s"
    and ok: "sync_settle_section k report r outcome c ended_at now s = Ok (Some s', a)"
  shows "core_invar s'"
  using ok
proof (rule sync_settle_Ok)
  fix i measured bytes state result error retained retained_bytes u v d e
  let ?x = "(rs_synchronous_executions s ! i)\<lparr>sx_state := state, sx_ended_at := Some ended_at,
      sx_result := retained, sx_error := error, sx_terminal_bytes := retained_bytes\<rparr>"
  assume i: "i < length (rs_synchronous_executions s)" "sx_request_id (rs_synchronous_executions s ! i) = r"
      "\<not> sync_is_terminal (sx_state (rs_synchronous_executions s ! i))"
    and st: "sync_settlement measured c (sx_reserved_bytes (rs_synchronous_executions s ! i))
       (sx_operation (rs_synchronous_executions s ! i)) = (bytes, state, result, error)"
    and v: "checked_sub (rs_reserved_bytes s) (sx_reserved_bytes (rs_synchronous_executions s ! i)) = Some v"
    and d: "dedup_settle (rs_dedup s) r now = Ok (d, e)"
    and s': "s' = s\<lparr>rs_synchronous_executions := (rs_synchronous_executions s)[i := ?x],
       rs_used_bytes := u, rs_reserved_bytes := v, rs_dedup := d\<rparr>"
  show "core_invar s'"
    by (rule core_settle_sync[OF inv i(1,3) _ _ _ v _ s'])
      (use sync_settlement_shape(1)[OF st] i(2) d in simp_all)
qed

section \<open>Retained mutations\<close>

text \<open>
  What a mutation must leave alone: it changes Automations and their executions, never the requests,
  the synchronous records or the identities of Tasks at work.
\<close>

definition mutation_frame :: "('p, 'r, 'j) runtime_state \<Rightarrow> ('p, 'r, 'j) runtime_state \<Rightarrow> bool" where
  "mutation_frame s s' \<longleftrightarrow> core_invar s' \<and> rs_dedup s' = rs_dedup s
     \<and> (\<forall>r. owner_count s' r = owner_count s r)"

lemma retained_mutation_Ok:
  assumes "retained_mutation_section k current r h now mutate s = Ok (Some s', j)"
  obtains d s1 growth u d' e where
    "decide_and_reserve (rs_dedup s) r h now False = (d, Ok Admit)"
    "mutate ((prune_expired_requests k s now)\<lparr>rs_dedup := d\<rparr>) = Ok (s1, j)"
    "retained_mutation_bytes k j = Ok growth"
    "checked_add (rs_used_bytes s1) growth = Some u"
    "unat u + unat (rs_reserved_bytes s1) \<le> 8388608"
    "dedup_settle (rs_dedup s1) r now = Ok (d', e)"
    "s' = s1\<lparr>rs_used_bytes := u, rs_dedup := d', rs_retained_mutations := rs_retained_mutations s1
       @ [\<lparr>rm_request_id = r, rm_result = j\<rparr>]\<rparr>"
proof -
  obtain d dec where d: "decide_and_reserve (rs_dedup s) r h now False = (d, dec)" by fastforce
  have dec: "dec = Ok Admit"
    using assms d by (auto simp: retained_mutation_section_def rbind_eq_Ok_iff elim!: decision_cases)
  let ?p = "(prune_expired_requests k s now)\<lparr>rs_dedup := d\<rparr>"
  obtain s1 j1 where m: "mutate ?p = Ok (s1, j1)"
    using assms d dec by (auto simp: retained_mutation_section_def rbind_eq_Ok_iff)
  obtain growth where g: "retained_mutation_bytes k j1 = Ok growth"
    using assms d dec m by (auto simp: retained_mutation_section_def rbind_eq_Ok_iff)
  obtain tot where tot: "Option.bind (total_committed_and_reserved s1) (\<lambda>v. checked_add v growth) = Some tot"
      "\<not> STORE_LIMIT_BYTES < tot"
    using assms d dec m g by (auto simp: retained_mutation_section_def rbind_eq_Ok_iff split: if_splits)
  obtain u where u: "checked_add (rs_used_bytes s1) growth = Some u"
    using assms d dec m g tot by (auto simp: retained_mutation_section_def rbind_eq_Ok_iff grow_used_def)
  have "unat tot = unat (rs_used_bytes s1) + unat (rs_reserved_bytes s1) + unat growth"
    using tot(1) by (auto simp: total_committed_and_reserved_def bind_eq_Some_conv dest!: unat_checked_add)
  then have room: "unat u + unat (rs_reserved_bytes s1) \<le> 8388608"
    using tot(2) unat_checked_add[OF u] by (simp add: not_less word_le_nat_alt)
  show thesis
    using assms d dec m g tot u
    by (auto simp: retained_mutation_section_def rbind_eq_Ok_iff grow_used_def
        intro!: that[OF _ _ _ u room])
qed

lemma retained_mutation_core:
  assumes inv: "core_invar s" and unused: "\<And>t. t \<in> set (rs_tasks s) \<Longrightarrow> tk_request_id t \<noteq> Some r"
    and frame: "\<And>p q j. core_invar p \<Longrightarrow> rs_automations p = rs_automations s \<Longrightarrow> mutate p = Ok (q, j)
      \<Longrightarrow> mutation_frame p q"
    and ok: "retained_mutation_section k current r h now mutate s = Ok (Some s', j)"
  shows "core_invar s'"
  using ok
proof (rule retained_mutation_Ok)
  fix d s1 growth u d' e
  let ?p = "(prune_expired_requests k s now)\<lparr>rs_dedup := d\<rparr>"
  assume d: "decide_and_reserve (rs_dedup s) r h now False = (d, Ok Admit)"
    and m: "mutate ?p = Ok (s1, j)" and settle: "dedup_settle (rs_dedup s1) r now = Ok (d', e)"
    and s': "s' = s1\<lparr>rs_used_bytes := u, rs_dedup := d', rs_retained_mutations := rs_retained_mutations s1
       @ [\<lparr>rm_request_id = r, rm_result = j\<rparr>]\<rparr>"
  note A = admitted_request_core[OF inv d unused refl]
  have F: "core_invar s1" "rs_dedup s1 = d" "owner_count s1 r = 0"
    using frame[OF A(1) _ m] A(3) by (simp_all add: mutation_frame_def)
  note D = core_invarD[OF F(1)]
  have known: "dedup_known (rs_dedup s1) r = Some (h, None)" using A(2) by (simp add: F(2))
  have "requests_held s'"
    by (rule held_push_mutation[OF D(3) F(3) known settle]) (simp_all add: s')
  moreover have "accounted s'" "execution_linked s'" "identities_distinct s'" "rs_tasks s' = rs_tasks s1"
    using D(1,2,4) by (simp_all add: s' accounted_def reservations_def execution_linked_def identities_distinct_def)
  ultimately show "core_invar s'" using D(7) by (simp add: core_invar_def)
qed

end
