(* ===== verification/Automation_Tool.thy ===== *)
theory Automation_Tool
  imports Sync_Sections
begin

text \<open>
  The public \<open>automation\<close> actions and the due computation of the time triggers
  (\<open>rust/crates/runtime/src/automation_tool.rs\<close>): each mutating action is the function that
  \<open>retained_mutation\<close> applies to the loaded state, and the reads are functions of it. Time zones and
  recurrence rules (chrono-tz, rrule) and the JSON encoding of the answers are parameters.
\<close>

section \<open>Wire types\<close>

record automation_summary =
  asu_automation_id :: automation_id
  asu_name :: string
  asu_enabled :: bool
  asu_revision :: u64
  asu_updated_at :: string
  asu_last_execution :: "automation_execution_summary option"

record automation_create_input =
  aci_name :: string
  aci_enabled :: bool
  aci_trigger :: automation_trigger
  aci_action :: automation_action

record automation_update_input =
  aui_automation_id :: automation_id
  aui_expected_revision :: u64
  aui_name :: string
  aui_enabled :: bool
  aui_trigger :: automation_trigger
  aui_action :: automation_action

datatype automation_save_input =
  SaveCreate automation_create_input
| SaveUpdate automation_update_input

record automation_set_enabled_input =
  asi_automation_id :: automation_id
  asi_enabled :: bool
  asi_expected_revision :: u64

record automation_delete_input =
  adi_automation_id :: automation_id
  adi_expected_revision :: u64

datatype automation_call =
  AutomationList u32
| AutomationGet automation_id u32
| AutomationSave automation_save_input
| AutomationSetEnabled automation_set_enabled_input
| AutomationDelete automation_delete_input
| AutomationRun automation_id

text \<open>The answers \<open>to_value\<close> encodes.\<close>

datatype automation_answer =
  AnswerList "automation_summary list"
| AnswerGet automation "automation_execution_summary list"
| AnswerSaved automation
| AnswerDeleted automation_id u64
| AnswerRun automation_id

section \<open>Parameters\<close>

abbreviation MAX_AUTOMATION_DEFINITIONS :: nat where "MAX_AUTOMATION_DEFINITIONS \<equiv> 256"
abbreviation RRULE_OCCURRENCE_SEARCH_LIMIT :: nat where "RRULE_OCCURRENCE_SEARCH_LIMIT \<equiv> 1000000"
abbreviation NANOS_PER_MILLI :: int where "NANOS_PER_MILLI \<equiv> 1000000"

text \<open>
  \<open>dc_in_range\<close> is the range of \<open>DateTime<Utc>\<close>; \<open>dc_zone\<close> the canonical name of an IANA zone;
  \<open>dc_local\<close> whether a local time that parses exists in a zone, \<open>None\<close> where it does not parse; and
  \<open>dc_occurrences\<close> the first occurrences of a rule text, \<open>None\<close> where the text does not parse.
\<close>

record due_codec =
  dc_clock :: clock_codec
  dc_in_range :: "instant \<Rightarrow> bool"
  dc_zone :: "string \<Rightarrow> string option"
  dc_local :: "string \<Rightarrow> string \<Rightarrow> bool option"
  dc_occurrences :: "string \<Rightarrow> (nat \<Rightarrow> instant list) option"

type_synonym 'j answer_codec = "automation_answer \<Rightarrow> 'j option"

definition to_value :: "'j answer_codec \<Rightarrow> automation_answer \<Rightarrow> 'j res" where
  "to_value encode answer =
     ok_or (encode answer) (domain_error_new InternalError ''Automation result serialization failed'')"

section \<open>Instants\<close>

definition commit_instant :: "due_codec \<Rightarrow> string \<Rightarrow> instant res" where
  "commit_instant dc timestamp =
     ok_or (ck_parse (dc_clock dc) timestamp) (domain_error_new InternalError ''commit instant is invalid'')"

definition parse_instant :: "due_codec \<Rightarrow> string \<Rightarrow> instant res" where
  "parse_instant dc text =
     ok_or (ck_parse (dc_clock dc) text) (domain_error_invalid ''Automation instant is not RFC3339'')"

definition checked_add_instant :: "due_codec \<Rightarrow> instant \<Rightarrow> int \<Rightarrow> instant option" where
  "checked_add_instant dc t delta = (if dc_in_range dc (t + delta) then Some (t + delta) else None)"

definition i64_from_u64 :: "u64 \<Rightarrow> int option" where
  "i64_from_u64 n = (if uint n < 2 ^ 63 then Some (uint n) else None)"

definition add_millis :: "due_codec \<Rightarrow> instant \<Rightarrow> u64 \<Rightarrow> instant res" where
  "add_millis dc t millis =
     ok_or (Option.bind (i64_from_u64 millis) (\<lambda>m. checked_add_instant dc t (m * NANOS_PER_MILLI)))
       (domain_error_invalid ''Automation due arithmetic overflow'')"

text \<open>\<open>TimeDelta::num_milliseconds\<close> truncates towards zero.\<close>

definition num_milliseconds :: "int \<Rightarrow> int" where
  "num_milliseconds nanos = (if nanos < 0 then - (- nanos div NANOS_PER_MILLI) else nanos div NANOS_PER_MILLI)"

definition i64_checked_mul :: "int \<Rightarrow> int \<Rightarrow> int option" where
  "i64_checked_mul a b = (if - (2 ^ 63) \<le> a * b \<and> a * b < 2 ^ 63 then Some (a * b) else None)"

section \<open>Recurrence rules\<close>

fun split_on :: "char \<Rightarrow> string \<Rightarrow> string list" where
  "split_on c [] = [[]]"
| "split_on c (x # xs) =
     (if x = c then [] # split_on c xs
      else case split_on c xs of [] \<Rightarrow> [[x]] | w # ws \<Rightarrow> (x # w) # ws)"

abbreviation CR :: char where "CR \<equiv> CHR 0x0D"
abbreviation LF :: char where "LF \<equiv> CHR 0x0A"

fun normalize_newlines :: "string \<Rightarrow> string" where
  "normalize_newlines [] = []"
| "normalize_newlines [c] = [c]"
| "normalize_newlines (c # d # rest) =
     (if c = CR \<and> d = LF then LF # normalize_newlines rest else c # normalize_newlines (d # rest))"

fun strip_text :: "string \<Rightarrow> string \<Rightarrow> string option" where
  "strip_text [] text = Some text"
| "strip_text (p # ps) [] = None"
| "strip_text (p # ps) (c # cs) = (if p = c then strip_text ps cs else None)"

definition well_formed_local :: "string \<Rightarrow> bool" where
  "well_formed_local text \<longleftrightarrow> length text = 15
     \<and> list_all (\<lambda>(index, byte). if index = 8 then byte = CHR ''T'' else CHR ''0'' \<le> byte \<and> byte \<le> CHR ''9'')
         (List.enumerate 0 text)"

definition rrule_set :: "due_codec \<Rightarrow> string \<Rightarrow> string \<Rightarrow> (nat \<Rightarrow> instant list) res" where
  "rrule_set dc rrule timezone =
     (let invalid = domain_error_invalid ''Automation RRULE is invalid''
      in rbind (ok_or (dc_zone dc timezone) (domain_error_invalid ''Automation timezone is not an IANA zone''))
        (\<lambda>zone.
      case split_on LF (normalize_newlines rrule) of
        [dtstart, rule] \<Rightarrow>
          rbind (ok_or (strip_text ''DTSTART:'' dtstart) invalid) (\<lambda>local_time.
          rbind (ok_or (strip_text ''RRULE:'' rule) invalid) (\<lambda>rule.
          if \<not> well_formed_local local_time \<or> rule = [] \<or> CR \<in> set rule then Err invalid
          else
            rbind (ok_or (dc_local dc zone local_time) invalid) (\<lambda>exists.
            if \<not> exists then err_invalid ''Automation RRULE DTSTART does not exist in its timezone''
            else ok_or (dc_occurrences dc (''DTSTART;TZID='' @ zone @ '':'' @ local_time @ [LF] @ ''RRULE:'' @ rule))
                   invalid)))
      | _ \<Rightarrow> Err invalid))"

definition rrule_occurrence_after :: "due_codec \<Rightarrow> string \<Rightarrow> string \<Rightarrow> instant \<Rightarrow> instant option res" where
  "rrule_occurrence_after dc rrule timezone t =
     rbind (rrule_set dc rrule timezone) (\<lambda>occurrences.
     Ok (List.find (\<lambda>occurrence. occurrence > t) (occurrences RRULE_OCCURRENCE_SEARCH_LIMIT)))"

section \<open>Due instants\<close>

fun initial_due :: "due_codec \<Rightarrow> automation_trigger \<Rightarrow> instant \<Rightarrow> instant option res" where
  "initial_due dc (TriggerAt at) commit =
     rbind (parse_instant dc at) (\<lambda>at.
     if at \<le> commit then err_invalid ''Automation at instant is not after the commit instant''
     else Ok (Some at))"
| "initial_due dc (TriggerInterval every_ms) commit =
     rbind (add_millis dc commit every_ms) (\<lambda>due. Ok (Some due))"
| "initial_due dc (TriggerRrule rrule timezone) commit =
     rbind (rrule_occurrence_after dc rrule timezone commit) (\<lambda>due.
     rbind (ok_or due (domain_error_invalid ''Automation RRULE has no occurrence after the commit instant''))
       (\<lambda>due. Ok (Some due)))"
| "initial_due dc (TriggerEvent _ _) commit = Ok None"

text \<open>The interval of a validated trigger is at least a minute, so the division is defined.\<close>

fun next_due_after_admission :: "due_codec \<Rightarrow> automation_trigger \<Rightarrow> instant \<Rightarrow> instant \<Rightarrow> instant option res" where
  "next_due_after_admission dc (TriggerAt _) due wall_now = Ok None"
| "next_due_after_admission dc (TriggerEvent _ _) due wall_now = Ok None"
| "next_due_after_admission dc (TriggerInterval every_ms) due wall_now =
     rbind (ok_or (i64_from_u64 every_ms) (domain_error_invalid ''Automation interval is out of bounds''))
       (\<lambda>every.
     let elapsed = num_milliseconds (wall_now - due);
         steps = (if elapsed < 0 then 1 else elapsed div every + 1)
     in rbind (ok_or (Option.bind (i64_checked_mul steps every)
                        (\<lambda>millis. checked_add_instant dc due (millis * NANOS_PER_MILLI)))
                 (domain_error_invalid ''Automation due arithmetic overflow'')) (\<lambda>due. Ok (Some due)))"
| "next_due_after_admission dc (TriggerRrule rrule timezone) due wall_now =
     rrule_occurrence_after dc rrule timezone wall_now"

definition scheduled_due ::
  "due_codec \<Rightarrow> automation \<Rightarrow> automation_record option \<Rightarrow> instant \<Rightarrow> string option res" where
  "scheduled_due dc updated previous commit =
     (if \<not> au_enabled updated then Ok None
      else
        case (case previous of
                None \<Rightarrow> None
              | Some p \<Rightarrow> if au_enabled (ar_automation p) \<and> au_trigger (ar_automation p) = au_trigger updated
                          then ar_next_due_at p else None) of
          Some due \<Rightarrow> Ok (Some due)
        | None \<Rightarrow> rbind (initial_due dc (au_trigger updated) commit)
                    (\<lambda>due. Ok (map_option (ck_format (dc_clock dc)) due)))"

section \<open>Reads\<close>

definition automation_history :: "('p, 'r, 'j) runtime_state \<Rightarrow> automation_id \<Rightarrow> automation_execution_summary list" where
  "automation_history s automation_id =
     sort_desc (\<lambda>x. (es_triggered_at x, as_str (es_execution_id x)))
       (map xr_summary (filter (\<lambda>x. xr_automation_id x = automation_id) (rs_automation_executions s)))"

definition visible_index :: "('p, 'r, 'j) runtime_state \<Rightarrow> automation_id \<Rightarrow> nat res" where
  "visible_index s automation_id =
     ok_or (position (\<lambda>r. ar_deleted_at r = None \<and> au_automation_id (ar_automation r) = automation_id)
              (rs_automations s))
       (domain_error_new NotFound ''Automation not found'')"

definition automation_list :: "'j answer_codec \<Rightarrow> ('p, 'r, 'j) runtime_state \<Rightarrow> u32 \<Rightarrow> 'j res" where
  "automation_list encode s limit =
     (let automations = map (\<lambda>r. \<lparr>asu_automation_id = au_automation_id (ar_automation r),
            asu_name = au_name (ar_automation r), asu_enabled = au_enabled (ar_automation r),
            asu_revision = au_revision (ar_automation r), asu_updated_at = au_updated_at (ar_automation r),
            asu_last_execution = (case automation_history s (au_automation_id (ar_automation r)) of
                [] \<Rightarrow> None | x # _ \<Rightarrow> Some x)\<rparr>)
          (filter (\<lambda>r. ar_deleted_at r = None) (rs_automations s));
          automations = sort_desc (\<lambda>a. (asu_updated_at a, as_str (asu_automation_id a))) automations
      in to_value encode (AnswerList (take (unat limit) automations)))"

definition automation_get ::
  "'j answer_codec \<Rightarrow> ('p, 'r, 'j) runtime_state \<Rightarrow> automation_id \<Rightarrow> u32 \<Rightarrow> 'j res" where
  "automation_get encode s automation_id history_limit =
     rbind (visible_index s automation_id) (\<lambda>i.
     to_value encode (AnswerGet (ar_automation (rs_automations s ! i))
       (take (unat history_limit) (automation_history s automation_id))))"

section \<open>Mutations\<close>

text \<open>\<open>definition_slot\<close>: the Domain slot of a visible record, with its active execution.\<close>

definition definition_slot :: "('p, 'r, 'j) runtime_state \<Rightarrow> nat \<Rightarrow> automation_slot res" where
  "definition_slot s i =
     (let record = rs_automations s ! i
      in rbind (slot_new (ar_automation record)) (\<lambda>slot.
         case ar_active_execution_id record of
           None \<Rightarrow> Ok slot
         | Some execution_id \<Rightarrow>
             rbind (ok_or (map_option (\<lambda>x. es_task_id (xr_summary x))
                      (List.find (\<lambda>x. es_execution_id (xr_summary x) = execution_id) (rs_automation_executions s)))
                   (domain_error_new IoError ''active Automation execution has no canonical summary''))
               (\<lambda>task_id.
             rbind (slot_admit slot execution_id task_id) (\<lambda>(slot, _). Ok slot))))"

definition apply_definition ::
  "'j answer_codec \<Rightarrow> due_codec \<Rightarrow> ('p, 'r, 'j) runtime_state \<Rightarrow> nat \<Rightarrow> automation_slot \<Rightarrow> instant \<Rightarrow>
   (('p, 'r, 'j) runtime_state \<times> 'j) res" where
  "apply_definition encode dc s i slot commit =
     rbind (ok_or (slot_visible slot) (domain_error_new NotFound ''Automation not found'')) (\<lambda>updated.
     rbind (scheduled_due dc updated (Some (rs_automations s ! i)) commit) (\<lambda>next_due_at.
     let s = update_automation i (\<lambda>r. r\<lparr>ar_automation := updated, ar_next_due_at := next_due_at\<rparr>) s
     in rbind (to_value encode (AnswerSaved updated)) (\<lambda>answer. Ok (s, answer))))"

fun automation_save ::
  "'j answer_codec \<Rightarrow> due_codec \<Rightarrow> uuid option \<Rightarrow> automation_save_input \<Rightarrow> string \<Rightarrow> instant \<Rightarrow>
   ('p, 'r, 'j) runtime_state \<Rightarrow> (('p, 'r, 'j) runtime_state \<times> 'j) res" where
  "automation_save encode dc generated (SaveCreate input) timestamp commit s =
     (if length (rs_automations s) \<ge> MAX_AUTOMATION_DEFINITIONS
      then err ResourceLimit ''Automation definition capacity is full''
      else
        rbind (new_uuid generated) (\<lambda>automation_id.
        let automation = \<lparr>au_automation_id = automation_id, au_name = aci_name input,
              au_enabled = aci_enabled input, au_trigger = aci_trigger input, au_action = aci_action input,
              au_state = [], au_revision = 1, au_created_at = timestamp, au_updated_at = timestamp\<rparr>
        in rbind (slot_new automation) (\<lambda>_.
           rbind (scheduled_due dc automation None commit) (\<lambda>next_due_at.
           let s = s\<lparr>rs_automations := rs_automations s @ [\<lparr>ar_automation = automation,
                 ar_next_due_at = next_due_at, ar_deleted_at = None, ar_active_execution_id = None,
                 ar_run_requested_at = None\<rparr>]\<rparr>
           in rbind (to_value encode (AnswerSaved automation)) (\<lambda>answer. Ok (s, answer))))))"
| "automation_save encode dc generated (SaveUpdate input) timestamp commit s =
     rbind (visible_index s (aui_automation_id input)) (\<lambda>i.
     rbind (definition_slot s i) (\<lambda>slot.
     rbind (slot_update_definition slot (aui_expected_revision input) (aui_name input) (aui_enabled input)
              (aui_trigger input) (aui_action input) timestamp) (\<lambda>(slot, _).
     apply_definition encode dc s i slot commit)))"

definition automation_set_enabled ::
  "'j answer_codec \<Rightarrow> due_codec \<Rightarrow> automation_set_enabled_input \<Rightarrow> string \<Rightarrow> instant \<Rightarrow>
   ('p, 'r, 'j) runtime_state \<Rightarrow> (('p, 'r, 'j) runtime_state \<times> 'j) res" where
  "automation_set_enabled encode dc input timestamp commit s =
     rbind (visible_index s (asi_automation_id input)) (\<lambda>i.
     rbind (definition_slot s i) (\<lambda>slot.
     rbind (slot_set_enabled slot (asi_expected_revision input) (asi_enabled input) timestamp) (\<lambda>(slot, _).
     apply_definition encode dc s i slot commit)))"

definition automation_delete ::
  "'j answer_codec \<Rightarrow> automation_delete_input \<Rightarrow> string \<Rightarrow> ('p, 'r, 'j) runtime_state \<Rightarrow>
   (('p, 'r, 'j) runtime_state \<times> 'j) res" where
  "automation_delete encode input timestamp s =
     rbind (visible_index s (adi_automation_id input)) (\<lambda>i.
     rbind (definition_slot s i) (\<lambda>slot.
     rbind (slot_delete slot (adi_expected_revision input) timestamp) (\<lambda>(_, disposition).
     rbind (case disposition of
              RemovedImmediately \<Rightarrow>
                Ok (s\<lparr>rs_automations := take i (rs_automations s) @ drop (Suc i) (rs_automations s),
                      rs_automation_executions := filter (\<lambda>x. xr_automation_id x \<noteq> adi_automation_id input)
                        (rs_automation_executions s)\<rparr>)
            | Tombstoned \<Rightarrow>
                rbind (ok_or (checked_add (adi_expected_revision input) 1)
                         (domain_error_new ResourceLimit ''revision exhausted'')) (\<lambda>revision.
                Ok (update_automation i (\<lambda>r. r\<lparr>ar_automation := (ar_automation r)\<lparr>au_revision := revision\<rparr>,
                      ar_deleted_at := Some timestamp, ar_next_due_at := None\<rparr>) s))) (\<lambda>s.
     rbind (to_value encode (AnswerDeleted (adi_automation_id input) (adi_expected_revision input)))
       (\<lambda>answer. Ok (s, answer))))))"

definition request_run ::
  "'j answer_codec \<Rightarrow> automation_id \<Rightarrow> string \<Rightarrow> ('p, 'r, 'j) runtime_state \<Rightarrow>
   (('p, 'r, 'j) runtime_state \<times> 'j) res" where
  "request_run encode automation_id timestamp s =
     rbind (visible_index s automation_id) (\<lambda>i.
     let record = rs_automations s ! i
     in if ar_active_execution_id record \<noteq> None \<or> ar_run_requested_at record \<noteq> None
        then err AlreadyExists ''Automation is already running''
        else
          let s = update_automation i (\<lambda>r. r\<lparr>ar_run_requested_at := Some timestamp\<rparr>) s
          in rbind (to_value encode (AnswerRun automation_id)) (\<lambda>answer. Ok (s, answer)))"

text \<open>
  \<open>handle_automation_public\<close>: a read of the loaded state or a retained mutation of it. \<open>generated\<close> is
  the identity a creation draws.
\<close>

definition automation_public_section ::
  "'j wire_codec \<Rightarrow> 'j answer_codec \<Rightarrow> due_codec \<Rightarrow> capability_snapshot res \<Rightarrow> uuid option \<Rightarrow> request_id \<Rightarrow>
   string \<Rightarrow> automation_call \<Rightarrow> string \<Rightarrow> u64 \<Rightarrow> bool \<Rightarrow> ('p, 'r, 'j) runtime_state \<Rightarrow>
   (('p, 'r, 'j) runtime_state, 'j) locked_step" where
  "automation_public_section k encode dc current generated request_id payload_sha256 call timestamp now_ms
     business_admission_open s =
     (let closed = err HostTransitionPending ''Runtime host transition is pending'';
          mutation = (\<lambda>mutate. retained_mutation_section k current request_id payload_sha256 now_ms mutate s)
      in case call of
        AutomationList limit \<Rightarrow>
          if \<not> (1 \<le> limit \<and> limit \<le> 500) then err_invalid ''Automation list limit is out of bounds''
          else rbind (automation_list encode s limit) (\<lambda>answer. Ok (None, answer))
      | AutomationGet automation_id limit \<Rightarrow>
          if \<not> (1 \<le> limit \<and> limit \<le> 100) then err_invalid ''Automation history limit is out of bounds''
          else rbind (automation_get encode s automation_id limit) (\<lambda>answer. Ok (None, answer))
      | AutomationSave input \<Rightarrow>
          if \<not> business_admission_open then closed
          else rbind (commit_instant dc timestamp) (\<lambda>commit.
               mutation (automation_save encode dc generated input timestamp commit))
      | AutomationSetEnabled input \<Rightarrow>
          if \<not> business_admission_open then closed
          else rbind (commit_instant dc timestamp) (\<lambda>commit.
               mutation (automation_set_enabled encode dc input timestamp commit))
      | AutomationDelete input \<Rightarrow>
          if \<not> business_admission_open then closed
          else mutation (automation_delete encode input timestamp)
      | AutomationRun automation_id \<Rightarrow>
          if \<not> business_admission_open then closed
          else mutation (request_run encode automation_id timestamp))"

section \<open>The engine's state writes\<close>

text \<open>\<open>set_automation_state_in_state\<close> of \<open>rust/crates/runtime/src/automation_engine.rs\<close>.\<close>

definition set_automation_state_in_state ::
  "automation_id \<Rightarrow> execution_id \<Rightarrow> string \<Rightarrow> scalar_value \<Rightarrow> ('p, 'r, 'j) runtime_state \<Rightarrow>
   ('p, 'r, 'j) runtime_state res" where
  "set_automation_state_in_state automation_id execution_id key v s =
     rbind (ok_or (position (\<lambda>r. au_automation_id (ar_automation r) = automation_id) (rs_automations s))
              (domain_error_new NotFound ''Automation not found'')) (\<lambda>i.
     let record = rs_automations s ! i;
         state = au_state (ar_automation record)
     in if ar_active_execution_id record \<noteq> Some execution_id
        then err StaleAuthority ''execution does not own this Automation state''
        else if key = [] \<or> length key > 64 \<or> NUL \<in> set key
        then err_invalid ''Automation state key is out of bounds''
        else if (case v of ScalarString text \<Rightarrow> length text > 4096 | _ \<Rightarrow> False)
        then err_invalid ''Automation state value is out of bounds''
        else if \<not> bt_contains state key \<and> length state \<ge> 64
        then err ResourceLimit ''Automation state capacity is full''
        else Ok (update_automation i (\<lambda>r. r\<lparr>ar_automation := (ar_automation r)
               \<lparr>au_state := bt_insert key v state\<rparr>\<rparr>) s))"

end
