(* ===== verification/Automation_Mutation.thy ===== *)
theory Automation_Mutation
  imports Sync_Invariant Automation_Tool
begin

text \<open>
  The Automation definitions the store accepts, and what every public automation action and every
  state write of an execution keeps: the canonical invariant and the definitions' own. Both are what
  the Runtime core needs of a mutation before it commits one.
\<close>

section \<open>Kept definitions\<close>

text \<open>
  A stored definition is valid; one that is deleted waits for its execution and has no due; and
  every execution names a definition. \<open>validate_state\<close> and \<open>TryFrom<CanonicalState>\<close> check this of
  every store they load.
\<close>

definition record_kept :: "automation_record \<Rightarrow> bool" where
  "record_kept r \<longleftrightarrow> is_ok (validate_automation (ar_automation r)) \<and> bt_invar (au_state (ar_automation r))
     \<and> (ar_deleted_at r = None \<or> ar_active_execution_id r \<noteq> None \<and> ar_next_due_at r = None)"

definition automations_kept :: "('p, 'r, 'j) runtime_state \<Rightarrow> bool" where
  "automations_kept s \<longleftrightarrow> list_all record_kept (rs_automations s)
     \<and> list_all (\<lambda>x. xr_automation_id x \<in> aid ` set (rs_automations s)) (rs_automation_executions s)
     \<and> length (rs_automations s) \<le> MAX_AUTOMATION_DEFINITIONS"

lemma automations_keptD:
  assumes "automations_kept s"
  shows "i < length (rs_automations s) \<Longrightarrow> record_kept (rs_automations s ! i)"
    "x \<in> set (rs_automation_executions s) \<Longrightarrow> xr_automation_id x \<in> aid ` set (rs_automations s)"
    "length (rs_automations s) \<le> MAX_AUTOMATION_DEFINITIONS"
  using assms by (auto simp: automations_kept_def list_all_iff)

lemma automations_kept_default: "automations_kept runtime_state_default"
  by (simp add: automations_kept_def runtime_state_default_def)

lemma automations_kept_same:
  assumes "automations_kept s" "rs_automations s' = rs_automations s"
    and "set (rs_automation_executions s') \<subseteq> set (rs_automation_executions s)"
  shows "automations_kept s'"
  using assms by (auto simp: automations_kept_def list_all_iff)

lemma kept_update_automation:
  assumes kept: "automations_kept s" and r: "record_kept (f (rs_automations s ! i))"
    and f: "aid (f (rs_automations s ! i)) = aid (rs_automations s ! i)"
  shows "automations_kept (update_automation i f s)"
proof (cases "i < length (rs_automations s)")
  case True
  have "map aid ((rs_automations s)[i := f (rs_automations s ! i)]) = map aid (rs_automations s)"
    using f by (intro map_list_update_same) simp
  from arg_cong[OF this, of set] have ids: "aid ` set ((rs_automations s)[i := f (rs_automations s ! i)]) = aid ` set (rs_automations s)"
    by simp
  have "list_all record_kept ((rs_automations s)[i := f (rs_automations s ! i)])"
    using kept r True by (auto simp: automations_kept_def list_all_length nth_list_update)
  with kept ids show ?thesis by (simp add: automations_kept_def update_automation_def list_all_iff)
next
  case False
  then show ?thesis
    by (intro automations_kept_same[OF kept]) (simp_all add: update_automation_def not_less list_update_beyond)
qed

section \<open>A mutation of Automations\<close>

text \<open>
  What an action may touch: Automations and settled executions. \<open>automation_frame\<close> is what the core
  needs to know of the state it commits.
\<close>

definition automation_frame :: "('p, 'r, 'j) runtime_state \<Rightarrow> ('p, 'r, 'j) runtime_state \<Rightarrow> bool" where
  "automation_frame s s' \<longleftrightarrow> s' = s\<lparr>rs_automations := rs_automations s',
     rs_automation_executions := rs_automation_executions s'\<rparr> \<and> execution_linked s'
     \<and> (automations_kept s \<longrightarrow> automations_kept s')"

lemma automation_frameD:
  assumes "automation_frame s s'"
  shows "rs_tasks s' = rs_tasks s" "rs_dedup s' = rs_dedup s" "rs_reserved_bytes s' = rs_reserved_bytes s"
    "rs_synchronous_executions s' = rs_synchronous_executions s"
    "rs_retained_mutations s' = rs_retained_mutations s" "execution_linked s'"
    "automations_kept s \<Longrightarrow> automations_kept s'"
proof -
  have e: "s' = s\<lparr>rs_automations := rs_automations s', rs_automation_executions := rs_automation_executions s'\<rparr>"
    and "execution_linked s'" "automations_kept s \<longrightarrow> automations_kept s'"
    using assms unfolding automation_frame_def by blast+
  then show "execution_linked s'" "automations_kept s \<Longrightarrow> automations_kept s'" by blast+
  show "rs_tasks s' = rs_tasks s" "rs_dedup s' = rs_dedup s" "rs_reserved_bytes s' = rs_reserved_bytes s"
    "rs_synchronous_executions s' = rs_synchronous_executions s"
    "rs_retained_mutations s' = rs_retained_mutations s"
    by (subst e, simp)+
qed

lemma automation_frame_mutation:
  assumes "core_invar s" and "automation_frame s s'"
  shows "mutation_frame s s'"
proof -
  note F = automation_frameD[OF assms(2)] and D = core_invarD[OF assms(1)]
  have "requests_held s'" using D(3) by (rule requests_held_cong) (simp_all add: F)
  moreover have "accounted s'" "identities_distinct s'"
    using D(1,4) by (simp_all add: accounted_def reservations_def identities_distinct_def F)
  ultimately have "core_invar s'" using F(1,6) D(7) by (simp add: core_invar_def)
  moreover have "owner_count s' r = owner_count s r" for r by (simp add: owner_count_def F)
  ultimately show ?thesis by (simp add: mutation_frame_def F(2))
qed

lemma frame_update_automation:
  assumes inv: "core_invar s" and r: "automations_kept s \<Longrightarrow> record_kept (f (rs_automations s ! i))"
    and f: "\<And>r. aid (f r) = aid r" "\<And>r. ar_active_execution_id (f r) = ar_active_execution_id r"
  shows "automation_frame s (update_automation i f s)"
  unfolding automation_frame_def
proof (intro conjI)
  show "execution_linked (update_automation i f s)"
    using core_invarD(2)[OF inv] f by (rule linked_update_automation)
  show "automations_kept s \<longrightarrow> automations_kept (update_automation i f s)"
    using r f(1) by (auto intro: kept_update_automation)
qed (simp add: update_automation_def)

section \<open>The actions\<close>

lemma visible_index_Ok:
  assumes "visible_index s a = Ok i"
  shows "i < length (rs_automations s)" "ar_deleted_at (rs_automations s ! i) = None"
    "aid (rs_automations s ! i) = a"
  using assms by (auto simp: visible_index_def dest: position_SomeD)

lemma slot_new_Ok: "slot_new a = Ok slot \<longleftrightarrow>
    is_ok (validate_automation a) \<and> slot = \<lparr>sl_record = Some a, sl_active = None, sl_deleted_at = None\<rparr>"
  by (auto simp: slot_new_def rbind_eq_Ok_iff is_ok_iff)

text \<open>The Domain slot of a record carries its definition and knows whether it is busy.\<close>

lemma definition_slot_Ok:
  assumes "definition_slot s i = Ok slot"
  shows "sl_record slot = Some (ar_automation (rs_automations s ! i))" "sl_deleted_at slot = None"
    "sl_active slot \<noteq> None \<longleftrightarrow> ar_active_execution_id (rs_automations s ! i) \<noteq> None"
  using assms
  by (cases "ar_active_execution_id (rs_automations s ! i)";
      auto simp: definition_slot_def Let_def rbind_eq_Ok_iff slot_new_Ok slot_admit_def)+

definition edited :: "automation \<Rightarrow> string \<Rightarrow> bool \<Rightarrow> automation_trigger \<Rightarrow> automation_action \<Rightarrow> u64 \<Rightarrow> string \<Rightarrow> automation" where
  "edited current n b t a revision u = \<lparr>au_automation_id = au_automation_id current, au_name = n, au_enabled = b,
     au_trigger = t, au_action = a, au_state = au_state current, au_revision = revision,
     au_created_at = au_created_at current, au_updated_at = u\<rparr>"

lemma edited_simps [simp]:
  "au_automation_id (edited c n b t a r u) = au_automation_id c" "au_state (edited c n b t a r u) = au_state c"
  "au_revision (edited c n b t a r u) = r" "au_trigger (edited c n b t a r u) = t"
  "au_enabled (edited c n b t a r u) = b" "au_action (edited c n b t a r u) = a"
  by (simp_all add: edited_def)

lemma slot_update_definition_Ok:
  assumes "slot_update_definition slot r n b t a u = Ok (slot', r')" and "sl_record slot = Some current"
  shows "sl_record slot' = Some (edited current n b t a r' u)" "is_ok (validate_automation (edited current n b t a r' u))"
    "r = au_revision current" "checked_add r 1 = Some r'" "sl_deleted_at slot' = None"
  using assms
  by (auto simp: slot_update_definition_def rbind_eq_Ok_iff Let_def is_ok_iff edited_def split: if_splits)

lemma apply_definition_frame:
  assumes inv: "core_invar s" and i: "visible_index s a = Ok i"
    and slot: "sl_record slot = Some candidate" "au_automation_id candidate = aid (rs_automations s ! i)"
      "au_state candidate = au_state (ar_automation (rs_automations s ! i))" "is_ok (validate_automation candidate)"
    and ok: "apply_definition encode dc s i slot commit = Ok (s', j)"
  shows "automation_frame s s'"
proof -
  note I = visible_index_Ok[OF i]
  obtain due where s': "s' = update_automation i (\<lambda>r. r\<lparr>ar_automation := candidate, ar_next_due_at := due\<rparr>) s"
    using ok slot(1) by (auto simp: apply_definition_def rbind_eq_Ok_iff Let_def slot_visible_def split: if_splits)
  have "update_automation i (\<lambda>r. r\<lparr>ar_automation := candidate, ar_next_due_at := due\<rparr>) s
      = update_automation i (\<lambda>r. if aid r = au_automation_id candidate
          then r\<lparr>ar_automation := candidate, ar_next_due_at := due\<rparr> else r) s"
    by (simp add: update_automation_def slot(2))
  then show ?thesis
    unfolding s' by (simp only:) (rule frame_update_automation[OF inv];
      use automations_keptD(1)[OF _ I(1)] I(2) slot in \<open>simp add: record_kept_def\<close>)
qed

lemma automation_update_frame:
  assumes inv: "core_invar s" and i: "visible_index s a = Ok i"
    and slot: "definition_slot s i = Ok slot"
    and update: "slot_update_definition slot r n b t ac u = Ok (slot', r')"
    and ok: "apply_definition encode dc s i slot' commit = Ok (s', j)"
  shows "automation_frame s s'"
proof -
  note S = definition_slot_Ok[OF slot]
  note U = slot_update_definition_Ok[OF update S(1)]
  from apply_definition_frame[OF inv i U(1) _ _ U(2) ok] show ?thesis by simp
qed

lemma execution_linked_append:
  assumes L: "execution_linked s" and r: "aid r \<notin> aid ` set (rs_automations s)" "ar_active_execution_id r = None"
  shows "execution_linked (s\<lparr>rs_automations := rs_automations s @ [r]\<rparr>)"
  using L r unfolding execution_linked_def links_def by auto

definition fresh_automation :: "uuid option \<Rightarrow> ('p, 'r, 'j) runtime_state \<Rightarrow> bool" where
  "fresh_automation generated s \<longleftrightarrow>
     (case generated of None \<Rightarrow> True | Some i \<Rightarrow> i \<notin> aid ` set (rs_automations s))"

lemma automation_save_frame:
  assumes inv: "core_invar s" and fresh: "fresh_automation generated s"
    and ok: "automation_save encode dc generated input timestamp commit s = Ok (s', j)"
  shows "automation_frame s s'"
proof (cases input)
  case (SaveCreate c)
  obtain i where g: "generated = Some i" "length (rs_automations s) < MAX_AUTOMATION_DEFINITIONS"
    using ok SaveCreate by (auto simp: new_uuid_def rbind_eq_Ok_iff split: if_splits)
  let ?a = "\<lparr>au_automation_id = i, au_name = aci_name c, au_enabled = aci_enabled c, au_trigger = aci_trigger c,
     au_action = aci_action c, au_state = [], au_revision = 1, au_created_at = timestamp, au_updated_at = timestamp\<rparr>"
  obtain due where v: "is_ok (validate_automation ?a)"
    and s': "s' = s\<lparr>rs_automations := rs_automations s @ [\<lparr>ar_automation = ?a, ar_next_due_at = due,
       ar_deleted_at = None, ar_active_execution_id = None, ar_run_requested_at = None\<rparr>]\<rparr>"
    using ok SaveCreate g by (auto simp: new_uuid_def rbind_eq_Ok_iff Let_def slot_new_Ok)
  have "execution_linked s'"
    unfolding s' using core_invarD(2)[OF inv] fresh g(1)
    by (intro execution_linked_append) (simp_all add: fresh_automation_def)
  moreover have "automations_kept s \<longrightarrow> automations_kept s'"
    using g(2) v by (auto simp: automations_kept_def s' record_kept_def list_all_iff)
  ultimately show ?thesis by (simp add: automation_frame_def s')
next
  case (SaveUpdate u)
  then show ?thesis
    using ok automation_update_frame[OF inv] by (auto simp: rbind_eq_Ok_iff)
qed

lemma automation_set_enabled_frame:
  assumes inv: "core_invar s"
    and ok: "automation_set_enabled encode dc input timestamp commit s = Ok (s', j)"
  shows "automation_frame s s'"
proof -
  obtain i slot slot' r' where i: "visible_index s (asi_automation_id input) = Ok i" "definition_slot s i = Ok slot"
    and e: "slot_set_enabled slot (asi_expected_revision input) (asi_enabled input) timestamp = Ok (slot', r')"
    and a: "apply_definition encode dc s i slot' commit = Ok (s', j)"
    using ok by (auto simp: automation_set_enabled_def rbind_eq_Ok_iff)
  obtain n t ac where "slot_update_definition slot (asi_expected_revision input) n (asi_enabled input) t ac timestamp
      = Ok (slot', r')"
    using slot_set_enabled_cases[OF e] by blast
  from automation_update_frame[OF inv i this a] show ?thesis .
qed

lemma request_run_frame:
  assumes inv: "core_invar s"
    and ok: "request_run encode a timestamp s = Ok (s', j)"
  shows "automation_frame s s'"
proof -
  obtain i where i: "visible_index s a = Ok i"
    and s': "s' = update_automation i (\<lambda>r. r\<lparr>ar_run_requested_at := Some timestamp\<rparr>) s"
    using ok by (auto simp: request_run_def rbind_eq_Ok_iff Let_def split: if_splits)
  show ?thesis
    unfolding s' using automations_keptD(1)[OF _ visible_index_Ok(1)[OF i]]
    by (intro frame_update_automation[OF inv]) (simp_all add: record_kept_def)
qed

text \<open>Deleting an idle Automation takes its settled executions with it.\<close>

lemma remove_automation_frame:
  assumes inv: "core_invar s" and i: "i < length (rs_automations s)"
    and idle: "ar_active_execution_id (rs_automations s ! i) = None"
    and s': "s' = s\<lparr>rs_automations := take i (rs_automations s) @ drop (Suc i) (rs_automations s),
       rs_automation_executions := filter (\<lambda>x. xr_automation_id x \<noteq> aid (rs_automations s ! i))
         (rs_automation_executions s)\<rparr>"
  shows "automation_frame s s'"
proof -
  let ?a = "aid (rs_automations s ! i)" and ?R = "set (rs_automations s)" and ?X = "set (rs_automation_executions s)"
  note L = core_invarD(2)[OF inv]
  have D: "distinct (map aid (rs_automations s))" "distinct (map eid (rs_automation_executions s))"
    "distinct (map tk_execution_id (rs_tasks s))" and links: "links (set (rs_tasks s)) ?X ?R"
    using L by (simp_all add: execution_linked_def)
  have R: "set (rs_automations s') = {r \<in> ?R. aid r \<noteq> ?a}"
    using set_remove_key[OF D(1) i] by (simp add: s')
  have busy: "xr_automation_id x \<noteq> ?a" if x: "x \<in> ?X" "\<not> xr_is_terminal x" for x
  proof
    assume a: "xr_automation_id x = ?a"
    obtain r where r: "r \<in> ?R" "aid r = xr_automation_id x" "ar_active_execution_id r = Some (eid x)"
      using links_owner[OF links x] .
    then have "r = rs_automations s ! i" using D(1) i a by (simp add: distinct_map inj_on_def)
    with r(3) idle show False by simp
  qed
  have X: "set (rs_automation_executions s') = {x \<in> ?X. xr_automation_id x \<noteq> ?a}" by (simp add: s')
  have "links (set (rs_tasks s)) {x \<in> ?X. xr_automation_id x \<noteq> ?a} {r \<in> ?R. aid r \<noteq> ?a}"
    using links busy unfolding links_def by fastforce
  moreover have "distinct (map aid (rs_automations s'))"
    using distinct_map_remove[OF D(1)] by (simp add: s')
  moreover have "distinct (map eid (rs_automation_executions s'))"
    using D(2) by (simp add: s' distinct_map_filter)
  ultimately have "execution_linked s'" using D(3) R X by (simp add: execution_linked_def s')
  moreover have "automations_kept s \<longrightarrow> automations_kept s'"
    using R by (auto simp: automations_kept_def list_all_iff s')
  ultimately show ?thesis by (simp add: automation_frame_def s')
qed

lemma automation_delete_frame:
  assumes inv: "core_invar s"
    and ok: "automation_delete encode input timestamp s = Ok (s', j)"
  shows "automation_frame s s'"
proof -
  obtain i slot slot' disposition where i: "visible_index s (adi_automation_id input) = Ok i"
    "definition_slot s i = Ok slot" and d: "slot_delete slot (adi_expected_revision input) timestamp = Ok (slot', disposition)"
    using ok by (auto simp: automation_delete_def rbind_eq_Ok_iff)
  note I = visible_index_Ok[OF i(1)] and S = definition_slot_Ok[OF i(2)]
  have disp: "disposition = (if ar_active_execution_id (rs_automations s ! i) = None then RemovedImmediately else Tombstoned)"
    and rev: "adi_expected_revision input = au_revision (ar_automation (rs_automations s ! i))"
    using d S by (auto simp: slot_delete_def slot_visible_def rbind_eq_Ok_iff split: if_splits)
  show ?thesis
  proof (cases "ar_active_execution_id (rs_automations s ! i)")
    case None
    then show ?thesis
      using ok i d disp I by (intro remove_automation_frame[OF inv I(1) None])
        (auto simp: automation_delete_def rbind_eq_Ok_iff)
  next
    case (Some e)
    obtain revision where r: "checked_add (adi_expected_revision input) 1 = Some revision"
      and s': "s' = update_automation i (\<lambda>r. r\<lparr>ar_automation := (ar_automation r)\<lparr>au_revision := revision\<rparr>,
           ar_deleted_at := Some timestamp, ar_next_due_at := None\<rparr>) s"
      using ok i d disp Some by (auto simp: automation_delete_def rbind_eq_Ok_iff)
    have "record_kept ((rs_automations s ! i)\<lparr>ar_automation := (ar_automation (rs_automations s ! i))\<lparr>au_revision := revision\<rparr>,
        ar_deleted_at := Some timestamp, ar_next_due_at := None\<rparr>)" if "automations_kept s"
      using automations_keptD(1)[OF that I(1)] Some checked_add_one_le[OF r]
      by (simp add: record_kept_def is_ok_validate_automation)
    then show ?thesis unfolding s' by (intro frame_update_automation[OF inv]) simp_all
  qed
qed

text \<open>A state write of an execution; its value comes from a validated action tree.\<close>

lemma set_automation_state_frame:
  assumes inv: "core_invar s" and v: "is_ok (scalar v)"
    and ok: "set_automation_state_in_state a e key v s = Ok s'"
  shows "automation_frame s s'"
proof -
  obtain i where i: "i < length (rs_automations s)" and key: "key \<noteq> []" "length key \<le> 64" "NUL \<notin> set key"
    and room: "bt_contains (au_state (ar_automation (rs_automations s ! i))) key
      \<or> length (au_state (ar_automation (rs_automations s ! i))) < 64"
    and s': "s' = update_automation i (\<lambda>r. r\<lparr>ar_automation := (ar_automation r)
        \<lparr>au_state := bt_insert key v (au_state (ar_automation (rs_automations s ! i)))\<rparr>\<rparr>) s"
    using ok by (auto simp: set_automation_state_in_state_def rbind_eq_Ok_iff Let_def not_le
        dest: position_SomeD split: if_splits)
  have "is_ok (bounded key 1 64 [])" using key by (cases key) auto
  then have state: "is_ok (validate_state (bt_insert key v (au_state (ar_automation (rs_automations s ! i)))))"
    if "automations_kept s"
    using automations_keptD(1)[OF that i] v room
    by (intro validate_state_insert) (auto simp: record_kept_def is_ok_validate_automation)
  have "record_kept ((rs_automations s ! i)\<lparr>ar_automation := (ar_automation (rs_automations s ! i))
      \<lparr>au_state := bt_insert key v (au_state (ar_automation (rs_automations s ! i)))\<rparr>\<rparr>)" if "automations_kept s"
    using automations_keptD(1)[OF that i] state[OF that]
    by (simp add: record_kept_def is_ok_validate_automation bt_invar_insert)
  then show ?thesis unfolding s' by (intro frame_update_automation[OF inv]) simp_all
qed

section \<open>The public section\<close>

text \<open>What a committed action was: a retained mutation by one of the functions above.\<close>

lemma automation_public_Ok:
  assumes "automation_public_section k encode dc current generated r h call timestamp now_ms admitting s = Ok (Some s', j)"
  obtains mutate where "admitting"
    "retained_mutation_section k current r h now_ms mutate s = Ok (Some s', j)"
    "\<And>p q j. core_invar p \<Longrightarrow> fresh_automation generated p \<Longrightarrow> mutate p = Ok (q, j) \<Longrightarrow> automation_frame p q"
proof (cases call)
  case (AutomationSave input)
  with assms obtain commit where "admitting" "retained_mutation_section k current r h now_ms
      (automation_save encode dc generated input timestamp commit) s = Ok (Some s', j)"
    by (auto simp: automation_public_section_def rbind_eq_Ok_iff split: if_splits)
  then show ?thesis by (rule that) (rule automation_save_frame)
next
  case (AutomationSetEnabled input)
  with assms obtain commit where "admitting" "retained_mutation_section k current r h now_ms
      (automation_set_enabled encode dc input timestamp commit) s = Ok (Some s', j)"
    by (auto simp: automation_public_section_def rbind_eq_Ok_iff split: if_splits)
  then show ?thesis by (rule that) (rule automation_set_enabled_frame)
next
  case (AutomationDelete input)
  with assms have "admitting" "retained_mutation_section k current r h now_ms
      (automation_delete encode input timestamp) s = Ok (Some s', j)"
    by (auto simp: automation_public_section_def split: if_splits)
  then show ?thesis by (rule that) (rule automation_delete_frame)
next
  case (AutomationRun a)
  with assms have "admitting" "retained_mutation_section k current r h now_ms
      (request_run encode a timestamp) s = Ok (Some s', j)"
    by (auto simp: automation_public_section_def split: if_splits)
  then show ?thesis by (rule that) (rule request_run_frame)
qed (use assms in \<open>auto simp: automation_public_section_def rbind_eq_Ok_iff split: if_splits\<close>)

text \<open>
  What a step needs of a mutation: at every state with the Automations of the loaded one, it frames.
\<close>

definition automation_mutation ::
  "(('p, 'r, 'j) runtime_state \<Rightarrow> (('p, 'r, 'j) runtime_state \<times> 'j) res) \<Rightarrow> ('p, 'r, 'j) runtime_state \<Rightarrow> bool" where
  "automation_mutation mutate s \<longleftrightarrow> (\<forall>p q j. core_invar p \<longrightarrow> rs_automations p = rs_automations s \<longrightarrow>
     mutate p = Ok (q, j) \<longrightarrow> automation_frame p q)"

lemma automation_public_mutation:
  fixes s :: "('p, 'r, 'j) runtime_state"
  assumes "automation_public_section k encode dc current generated r h call timestamp now_ms admitting s = Ok (Some s', j)"
    and "fresh_automation generated s"
  obtains mutate where "retained_mutation_section k current r h now_ms mutate s = Ok (Some s', j)"
    "automation_mutation mutate s"
  using assms(1)
proof (rule automation_public_Ok)
  fix mutate
  assume m: "retained_mutation_section k current r h now_ms mutate s = Ok (Some s', j)"
    and frame: "\<And>p q j. core_invar p \<Longrightarrow> fresh_automation generated p \<Longrightarrow> mutate p = Ok (q, j) \<Longrightarrow> automation_frame p q"
  have "fresh_automation generated p" if "rs_automations p = rs_automations s" for p :: "('p, 'r, 'j) runtime_state"
    using assms(2) that by (cases generated) (simp_all add: fresh_automation_def)
  then have "automation_mutation mutate s" using frame by (simp add: automation_mutation_def)
  with m show thesis by (rule that)
qed

lemma automation_public_core:
  assumes inv: "core_invar s" and unused: "\<And>t. t \<in> set (rs_tasks s) \<Longrightarrow> tk_request_id t \<noteq> Some r"
    and fresh: "fresh_automation generated s"
    and ok: "automation_public_section k encode dc current generated r h call timestamp now_ms admitting s = Ok (Some s', j)"
  shows "core_invar s'"
  using ok fresh
proof (rule automation_public_mutation)
  fix mutate
  assume m: "retained_mutation_section k current r h now_ms mutate s = Ok (Some s', j)" and f: "automation_mutation mutate s"
  show "core_invar s'"
    using f automation_frame_mutation
    by (intro retained_mutation_core[OF inv unused _ m]) (auto simp: automation_mutation_def)
qed

end
