(* ===== verification/Runtime_Step.thy ===== *)
theory Runtime_Step
  imports Automation_Mutation
begin

text \<open>
  The Runtime core as a step relation: one step is one locked section that commits, with the clock
  value its caller gave it, in any order and with any answers of the ports. The reachable states
  satisfy the canonical invariant, and an admitted request stays with its Task for the whole
  retention period, whatever steps come in between.
\<close>

section \<open>Steps\<close>

text \<open>
  The premises are what the callers guarantee: identities are fresh (UUIDs), a settlement follows a
  start or a cancellation of a request's Task, a provider reports a cancellation as one, and an
  execution writes scalars of a validated action tree. That no Task of the history carries the request of an admission
  is what the commit checks (\<open>TryFrom<&RuntimeState> for CanonicalState\<close>). \<open>step_measure\<close> is what
  a commit and the next load do to the revision and the bytes in use.
\<close>

inductive core_step ::
  "'j wire_codec \<Rightarrow> due_codec \<Rightarrow> u64 \<Rightarrow>
   ('p, 'r, 'j) runtime_state \<Rightarrow> ('p, 'r, 'j) runtime_state \<Rightarrow> bool"
  for k :: "'j wire_codec" and dc
where
  step_admit_task: "fresh_admission s a \<Longrightarrow> admit_task_section k current a s = Ok (Some s', res) \<Longrightarrow>
    core_step k dc (ta_now_ms a) s s'"
| step_run_begin: "run_begin_section current task_id started_at s = Ok (Some s', b) \<Longrightarrow>
    core_step k dc now s s'"
| step_settle: "request_task s task_id \<Longrightarrow> provider_outcome (outcome :: ('r, 'j) execution_outcome) \<Longrightarrow>
    settle_section k report task_id outcome cleanup ended_at now s = Ok (Some s', snap) \<Longrightarrow>
    core_step k dc now s s'"
| step_interrupt: "request_task s task_id \<Longrightarrow>
    interrupt_section k task_id ended_at now s = Ok (Some s', snap) \<Longrightarrow> core_step k dc now s s'"
| step_cancel: "cancel_section k task_id ended_at now s = Ok (Some s', c) \<Longrightarrow> core_step k dc now s s'"
| step_recover: "recover_section k old ended_at now s = Ok (Some s', n) \<Longrightarrow> core_step k dc now s s'"
| step_get: "get_section k task_id now s = Ok (Some s', g) \<Longrightarrow> core_step k dc now s s'"
| step_list: "list_section k states limit now s = Ok (Some s', l) \<Longrightarrow> core_step k dc now s s'"
| step_sync_begin: "fresh_synchronous s sa \<Longrightarrow>
    sync_begin_section k current permits waiting sa s = Ok (Some s', sb) \<Longrightarrow>
    core_step k dc (sa_now_ms sa) s s'"
| step_sync_settle: "sync_settle_section k report r (outcome :: ('r, 'j) execution_outcome) cleanup ended_at now s
      = Ok (Some s', answer) \<Longrightarrow> core_step k dc now s s'"
| step_automation: "(\<And>t. t \<in> set (rs_tasks s) \<Longrightarrow> tk_request_id t \<noteq> Some r) \<Longrightarrow> fresh_automation generated s \<Longrightarrow>
    automation_public_section k encode dc current generated r h call timestamp now admitting s = Ok (Some s', j) \<Longrightarrow>
    core_step k dc now s s'"
| step_write_state: "is_ok (scalar v) \<Longrightarrow> set_automation_state_in_state a e key v s = Ok s' \<Longrightarrow> core_step k dc now s s'"
| step_admit_due: "fresh_ids s ids \<Longrightarrow> admit_due (dc_clock dc) (next_due_after_admission dc) s cap ids a ts wall = Ok (s', d, ch) \<Longrightarrow>
    core_step k dc now s s'"
| step_admit_requested: "fresh_ids s ids \<Longrightarrow> admit_requested s cap ids a ts = Ok (s', d, ch) \<Longrightarrow>
    core_step k dc now s s'"
| step_admit_event: "fresh_ids s ids \<Longrightarrow> admit_event s cap ids a ev facts ts = Ok (s', d, ch) \<Longrightarrow>
    core_step k dc now s s'"
| step_start: "start_execution s e ts = Ok (s', summary) \<Longrightarrow> core_step k dc now s s'"
| step_settle_automation: "outcome_fits ao \<Longrightarrow> settle_automation_in_state s e ao ts = Ok (s', summary) \<Longrightarrow>
    core_step k dc now s s'"
| step_measure: "core_step k dc now s (s\<lparr>rs_used_bytes := u, rs_revision := n\<rparr>)"

inductive core_reachable ::
  "'j wire_codec \<Rightarrow> due_codec \<Rightarrow>
   ('p, 'r, 'j) runtime_state \<Rightarrow> bool"
  for k :: "'j wire_codec" and dc
where
  reach_initial: "core_reachable k dc runtime_state_default"
| reach_step: "core_reachable k dc s \<Longrightarrow> core_step k dc now s s' \<Longrightarrow> core_reachable k dc s'"

lemma core_step_invariant: "core_step k dc now s s' \<Longrightarrow> core_invar s \<Longrightarrow> core_invar s'"
proof (induction rule: core_step.induct)
  case (step_automation s r generated encode current h call timestamp now admitting s' j)
  show ?case using automation_public_core[OF step_automation(4,1,2,3)] .
next
  case (step_write_state v a e key s s' now)
  then have "automation_frame s s'" by (intro set_automation_state_frame)
  then show ?case using automation_frame_mutation[OF step_write_state(3)] by (simp add: mutation_frame_def)
next
  case (step_measure now s u n)
  have "s\<lparr>rs_used_bytes := u, rs_revision := n\<rparr> = (s\<lparr>rs_used_bytes := u\<rparr>)\<lparr>rs_revision := n\<rparr>" by simp
  with step_measure show ?case by (simp only: core_invar_bytes)
qed (blast intro: admit_task_core run_begin_core settle_core interrupt_core cancel_core recover_core
      get_core list_core sync_begin_core sync_settle_core admit_due_core admit_requested_core
      admit_event_core start_execution_core settle_automation_core)+

section \<open>An admitted request stays with its Task\<close>

text \<open>
  \<open>answers H r h T s\<close>: the index retains the request at least until \<open>H\<close>, and the Task admitted for
  it is still there. \<open>carries\<close> is a step that keeps every such answer; it composes.
\<close>

definition answers :: "nat \<Rightarrow> request_id \<Rightarrow> string \<Rightarrow> task_id \<Rightarrow> ('p, 'r, 'j) runtime_state \<Rightarrow> bool" where
  "answers H r h T s \<longleftrightarrow> retained_until (dedup_known (rs_dedup s) r) h H
     \<and> (\<exists>t\<in>set (rs_tasks s). tk_task_id t = T \<and> tk_request_id t = Some r)"

definition carries :: "nat \<Rightarrow> ('p, 'r, 'j) runtime_state \<Rightarrow> ('p, 'r, 'j) runtime_state \<Rightarrow> bool" where
  "carries H s s' \<longleftrightarrow> (\<forall>r h T. answers H r h T s \<longrightarrow> answers H r h T s')"

lemma carries_refl [simp]: "carries H s s"
  by (simp add: carries_def)

lemma carries_trans: "carries H s s' \<Longrightarrow> carries H s' s'' \<Longrightarrow> carries H s s''"
  by (simp add: carries_def)

lemma carries_same:
  assumes "rs_dedup s' = rs_dedup s" and "(\<lambda>t. (tk_task_id t, tk_request_id t)) ` set (rs_tasks s)
    \<subseteq> (\<lambda>t. (tk_task_id t, tk_request_id t)) ` set (rs_tasks s')"
  shows "carries H s s'"
proof -
  have "\<exists>t\<in>set (rs_tasks s'). tk_task_id t = T \<and> tk_request_id t = Some r"
    if "t \<in> set (rs_tasks s)" "tk_task_id t = T" "tk_request_id t = Some r" for t T r
  proof -
    have "(T, Some r) \<in> (\<lambda>t. (tk_task_id t, tk_request_id t)) ` set (rs_tasks s)"
      using that by (intro image_eqI[of _ _ t]) simp_all
    then have "(T, Some r) \<in> (\<lambda>t. (tk_task_id t, tk_request_id t)) ` set (rs_tasks s')"
      using assms(2) by (rule subsetD[rotated])
    then show ?thesis by auto
  qed
  then show ?thesis using assms(1) by (auto simp: carries_def answers_def)
qed

lemma task_keys_update:
  assumes "same_task (ts ! i) t"
  shows "(\<lambda>t. (tk_task_id t, tk_request_id t)) ` set ts \<subseteq>
    (\<lambda>t. (tk_task_id t, tk_request_id t)) ` set (ts[i := t])"
proof -
  let ?key = "\<lambda>t. (tk_task_id t, tk_request_id t)"
  have "map ?key (ts[i := t]) = map ?key ts"
    using same_taskD(1,4)[OF assms] by (intro map_list_update_same) simp
  from arg_cong[OF this, of set] show ?thesis by simp
qed

lemma carries_update_task:
  assumes "same_task (rs_tasks s ! i) t" "rs_tasks s' = (rs_tasks s)[i := t]" "rs_dedup s' = rs_dedup s"
  shows "carries H s s'"
  using task_keys_update[OF assms(1)] assms(2,3) by (intro carries_same) simp_all

text \<open>Before the horizon the history keeps the Task of a retained request: it is pinned.\<close>

lemma carries_prune:
  assumes inv: "dedup_invar (rs_dedup s)" and "unat now < H"
    and prune: "prune_task_history k s now = Ok (s', ch)"
  shows "carries H s s'"
  unfolding carries_def
proof (intro allI impI)
  fix r h T assume a: "answers H r h T s"
  then obtain t where t: "t \<in> set (rs_tasks s)" "tk_task_id t = T" "tk_request_id t = Some r"
    by (auto simp: answers_def)
  have "live (rs_dedup s) now r"
    using a assms(2) by (auto simp: answers_def retained_until_def live_def word_less_nat_alt)
  then have "r \<in> set (retained_requests (rs_dedup s) now)" using retained_requests_live[OF inv] by simp
  then have "task_is_pinned s t now" by (simp add: task_is_pinned_iff pinned_by_def t(3))
  then have "t \<in> set (rs_tasks s')" using prune_task_history_set(2)[OF prune t(1)] by simp
  with t a prune_task_history_request(1)[OF prune] show "answers H r h T s'"
    by (auto simp: answers_def)
qed

lemma carries_decide:
  assumes inv: "dedup_invar (rs_dedup s)" and "unat now < H"
    and "decide_and_reserve (rs_dedup s) q g now c = (d, dec)"
    and "rs_dedup s' = d" "rs_tasks s' = rs_tasks s"
  shows "carries H s s'"
  unfolding carries_def
proof (intro allI impI)
  fix r h T assume a: "answers H r h T s"
  then obtain x where x: "dedup_known (rs_dedup s) r = Some (h, x)" "\<forall>e. x = Some e \<longrightarrow> H \<le> unat e"
    by (auto simp: answers_def retained_until_def)
  then have "\<forall>e. x = Some e \<longrightarrow> now < e" using assms(2) by (auto simp: word_less_nat_alt)
  then have "dedup_known d r = Some (h, x)"
    using dedup.decide_keeps[OF inv x(1), of now q g c] assms(3) by simp
  with a x show "answers H r h T s'"
    by (cases x) (auto simp: answers_def assms(4,5) retained_until_def)
qed

lemma carries_dedup_settle:
  assumes settle: "dedup_settle (rs_dedup s) q now = Ok (d, e)"
    and H: "H \<le> unat now + unat REQUEST_RETENTION_MS"
    and s': "rs_dedup s' = d" "rs_tasks s' = rs_tasks s"
  shows "carries H s s'"
  unfolding carries_def
proof (intro allI impI)
  fix r h T assume a: "answers H r h T s"
  then obtain x where x: "dedup_known (rs_dedup s) r = Some (h, x)" "\<forall>e. x = Some e \<longrightarrow> H \<le> unat e"
    by (auto simp: answers_def retained_until_def)
  have "retained_until (dedup_known d r) h H"
  proof (cases "r = q")
    case False
    then show ?thesis using a dedup_settle_known(1)[OF settle, of r] by (simp add: answers_def)
  next
    case True
    have "H \<le> unat e"
    proof (cases x)
      case None
      then show ?thesis using dedup_settle_known(2)[OF settle, of h] x(1) True H by simp
    next
      case (Some y)
      then show ?thesis using dedup_settle_known(3)[OF settle, of h y] x True by simp
    qed
    then show ?thesis using dedup_settle_known(1)[OF settle, of r] x(1) True by (simp add: retained_until_def)
  qed
  with a show "answers H r h T s'" by (auto simp: answers_def s')
qed

lemma carries_settle_request:
  assumes "settle_request s q now = Ok s'" "H \<le> unat now + unat REQUEST_RETENTION_MS"
  shows "carries H s s'"
proof (cases q)
  case None
  with assms(1) show ?thesis by (simp add: settle_request_def)
next
  case (Some r)
  with assms show ?thesis
    by (auto simp: settle_request_def rbind_eq_Ok_iff intro: carries_dedup_settle)
qed

lemma carries_settle_automation:
  assumes settle: "settle_automation_in_state s e outcome ts = Ok (s', summary)"
  shows "carries H s s'"
proof -
  from settle obtain xi ti l reserved used where
    rel: "release_ownership (settled_state s xi ti l reserved used e outcome ts)
       (xr_automation_id (rs_automation_executions s ! xi)) e = Ok s'"
    by (rule settle_automation_Ok)
  let ?t = "(rs_tasks s ! ti)\<lparr>tk_lifecycle := l, tk_ended_at := Some ts,
      tk_result := auto_outcome_result outcome (xr_automation_id (rs_automation_executions s ! xi)) e,
      tk_error := auto_outcome_error outcome\<rparr>"
  have "rs_tasks s' = (rs_tasks s)[ti := ?t]" "rs_dedup s' = rs_dedup s"
    using release_ownership_frame[OF rel] by (simp_all add: same_core_def)
  then show ?thesis by (intro carries_update_task[of s ti ?t]) (simp_all add: same_task_def)
qed

lemma carries_interrupt:
  "interrupt_executions s es ts = Ok s' \<Longrightarrow> carries H s s'"
proof (induction s es ts rule: interrupt_executions.induct)
  case (1 s ts)
  then show ?case by simp
next
  case (2 s e es ts)
  obtain s1 sm where s1: "settle_automation_in_state s e (AutoOutcomeInterrupted host_lost_error) ts = Ok (s1, sm)"
    and rest: "interrupt_executions s1 es ts = Ok s'"
    using "2.prems" by (auto simp: rbind_eq_Ok_iff)
  then show ?case
    using "2.IH"[of "(s1, sm)" s1 sm] carries_settle_automation[OF s1] carries_trans by fastforce
qed

text \<open>Each section keeps the answers while its clock is inside the window.\<close>

definition in_window :: "nat \<Rightarrow> u64 \<Rightarrow> bool" where
  "in_window H now \<longleftrightarrow> unat now < H \<and> H \<le> unat now + unat REQUEST_RETENTION_MS"

lemma carries_more_tasks:
  assumes "rs_dedup s' = rs_dedup s" "set (rs_tasks s) \<subseteq> set (rs_tasks s')"
  shows "carries H s s'"
  using assms by (intro carries_same) auto

lemma dedup_invar_step:
  "dedup_invar (rs_dedup s) \<Longrightarrow> settle_request s q now = Ok s' \<Longrightarrow> dedup_invar (rs_dedup s')"
  by (auto simp: settle_request_def rbind_eq_Ok_iff split: option.splits intro: dedup_settle_invar)

lemma carries_close:
  assumes "dedup_invar (rs_dedup s)" "in_window H now" "same_task (rs_tasks s ! i) t"
    and close: "close_task k (s\<lparr>rs_tasks := (rs_tasks s)[i := t], rs_used_bytes := u, rs_reserved_bytes := v\<rparr>)
      t now = Ok (Some s', a)"
  shows "carries H s s'"
proof -
  let ?s = "s\<lparr>rs_tasks := (rs_tasks s)[i := t], rs_used_bytes := u, rs_reserved_bytes := v\<rparr>"
  from close obtain s1 s2 ch where s1: "settle_request ?s (tk_request_id t) now = Ok s1"
    and s2: "prune_task_history k s1 now = Ok (s2, ch)" "Some s' = Some s2"
    by (rule close_task_Ok)
  have "carries H s ?s" using assms(3) by (intro carries_update_task[of s i t]) simp_all
  moreover have "carries H ?s s1" using carries_settle_request[OF s1] assms(2) by (simp add: in_window_def)
  moreover have "carries H s1 s2"
    using carries_prune[OF dedup_invar_step[OF _ s1] _ s2(1)] assms(1,2) by (simp add: in_window_def)
  ultimately show ?thesis using s2(2) carries_trans by blast
qed

lemma carries_settle:
  assumes "dedup_invar (rs_dedup s)" "in_window H now"
    and "settle_section k report task_id outcome c ended_at now s = Ok (Some s', a)"
  shows "carries H s s'"
  using assms(3)
proof (rule settle_section_Ok)
  fix i growth event result error l u v
  assume "close_task k (s\<lparr>rs_tasks := (rs_tasks s)[i := settled_task (rs_tasks s ! i) l ended_at result error],
        rs_used_bytes := u, rs_reserved_bytes := v\<rparr>)
      (settled_task (rs_tasks s ! i) l ended_at result error) now = Ok (Some s', a)"
  then show ?thesis
    by (rule carries_close[OF assms(1,2), rotated]) (simp add: same_task_def settled_task_def)
qed

lemma carries_interrupt_section:
  assumes "dedup_invar (rs_dedup s)" "in_window H now"
    and ok: "interrupt_section k task_id ended_at now s = Ok (Some s', a)"
  shows "carries H s s'"
proof -
  obtain i where i: "task_index s task_id = Ok i" and n: "\<not> tk_is_terminal (rs_tasks s ! i)"
    using ok by (auto simp: interrupt_section_def rbind_eq_Ok_iff Let_def split: if_splits)
  obtain l where l: "lifecycle_apply (tk_lifecycle (rs_tasks s ! i)) EvHostLost = Ok l"
    using apply_host_lost[of "tk_lifecycle (rs_tasks s ! i)"] n by (auto simp: tk_is_terminal_def)
  let ?t = "(rs_tasks s ! i)\<lparr>tk_lifecycle := l, tk_ended_at := Some ended_at,
      tk_error := Some (public_error_new StaleAuthority (task_operation (rs_tasks s ! i)) False)\<rparr>"
  obtain u v where "close_task k (s\<lparr>rs_tasks := (rs_tasks s)[i := ?t], rs_used_bytes := u, rs_reserved_bytes := v\<rparr>)
      ?t now = Ok (Some s', a)"
    using ok i n l
    by (auto simp: interrupt_section_def rbind_eq_Ok_iff Let_def grow_used_def release_reserved_def
        bytes_commute)
  then show ?thesis by (rule carries_close[OF assms(1,2), rotated]) (simp add: same_task_def)
qed

lemma carries_run_begin:
  assumes "run_begin_section current task_id started_at s = Ok (Some s', b)"
  shows "carries H s s'"
  using assms
proof (rule run_begin_Ok)
  fix i l
  assume "s' = update_task i (\<lambda>t. t\<lparr>tk_lifecycle := l, tk_started_at := Some started_at\<rparr>) s"
  then show ?thesis
    by (intro carries_update_task[of s i "(rs_tasks s ! i)\<lparr>tk_lifecycle := l, tk_started_at := Some started_at\<rparr>"])
      (simp_all add: same_task_def update_task_def)
qed

lemma carries_cancel_queued:
  assumes "dedup_invar (rs_dedup s)" "in_window H now"
    and ok: "cancel_queued k i ended_at now s = Ok (Some s', a)"
  shows "carries H s s'"
proof -
  let ?e = "public_error_new Cancelled (task_operation (rs_tasks s ! i)) False"
  obtain g where g: "encoded_cancel_terminal_bytes k ended_at ?e = Ok g" "\<not> tk_reserved_bytes (rs_tasks s ! i) < g"
    using ok by (auto simp: cancel_queued_def Let_def rbind_eq_Ok_iff split: if_splits)
  obtain l where l: "lifecycle_apply (tk_lifecycle (rs_tasks s ! i)) (EvSettleCancellation True) = Ok l"
    using ok g by (auto simp: cancel_queued_def Let_def rbind_eq_Ok_iff split: if_splits)
  let ?t = "(rs_tasks s ! i)\<lparr>tk_lifecycle := l, tk_ended_at := Some ended_at, tk_error := Some ?e\<rparr>"
  obtain u v where "close_task k (s\<lparr>rs_tasks := (rs_tasks s)[i := ?t], rs_used_bytes := u, rs_reserved_bytes := v\<rparr>)
      ?t now = Ok (Some s', a)"
    using ok g l
    by (auto simp: cancel_queued_def rbind_eq_Ok_iff Let_def grow_used_def release_reserved_def)
  then show ?thesis by (rule carries_close[OF assms(1,2), rotated]) (simp add: same_task_def)
qed

lemma settle_automation_dedup:
  assumes "settle_automation_in_state s e outcome ts = Ok (s', summary)"
  shows "rs_dedup s' = rs_dedup s"
  using assms
proof (rule settle_automation_Ok)
  fix xi ti l reserved used
  assume "release_ownership (settled_state s xi ti l reserved used e outcome ts)
       (xr_automation_id (rs_automation_executions s ! xi)) e = Ok s'"
  then show ?thesis using release_ownership_frame by (fastforce simp: same_core_def)
qed

lemma carries_cancel_container:
  assumes inv: "dedup_invar (rs_dedup s)" "in_window H now"
    and ok: "cancel_container k i task_id ended_at now s = Ok (Some s', a)"
  shows "carries H s s'"
proof -
  let ?o = "AutoOutcomeCancelled (public_error_new Cancelled (task_operation (rs_tasks s ! i)) False)"
  let ?settle = "if tk_state (rs_tasks s ! i) \<in> {TaskCreated, TaskQueued}
      then rbind (settle_automation_in_state s (tk_execution_id (rs_tasks s ! i)) ?o ended_at) (\<lambda>(s, _). Ok s)
      else Ok s"
  obtain s1 s2 ch where s1: "?settle = Ok s1" and s2: "prune_task_history k s1 now = Ok (s2, ch)" "s' = s2"
    using ok by (auto simp: cancel_container_def Let_def rbind_eq_Ok_iff simp del: insert_iff split del: if_split)
  have "carries H s s1 \<and> rs_dedup s1 = rs_dedup s"
    using s1 by (cases "tk_state (rs_tasks s ! i) \<in> {TaskCreated, TaskQueued}")
      (auto simp: rbind_eq_Ok_iff carries_settle_automation settle_automation_dedup)
  then show ?thesis
    using s2 carries_prune[OF _ _ s2(1), of H] inv carries_trans by (fastforce simp: in_window_def)
qed

lemma carries_cancel:
  assumes inv: "dedup_invar (rs_dedup s)" "in_window H now"
    and ok: "cancel_section k task_id ended_at now s = Ok (Some s', a)"
  shows "carries H s s'"
proof -
  obtain s1 pruned where s1: "prune_task_history k s now = Ok (s1, pruned)"
    using ok by (auto simp: cancel_section_def rbind_eq_Ok_iff)
  have c1: "carries H s s1" using carries_prune[OF inv(1) _ s1] inv(2) by (simp add: in_window_def)
  have d1: "dedup_invar (rs_dedup s1)" using inv(1) prune_task_history_request(1)[OF s1] by simp
  show ?thesis
  proof (cases "position (\<lambda>t. tk_task_id t = task_id) (rs_tasks s1)")
    case None
    with ok s1 c1 show ?thesis by (auto simp: cancel_section_def Let_def split: if_splits)
  next
    case (Some i)
    let ?t = "rs_tasks s1 ! i"
    show ?thesis
    proof (cases "tk_is_terminal ?t \<or> tl_cancel_requested (tk_lifecycle ?t)")
      case True
      with ok s1 c1 Some show ?thesis by (auto simp: cancel_section_def Let_def split: if_splits)
    next
      case False
      then obtain l where l: "lifecycle_apply (tk_lifecycle ?t) EvRequestCancel = Ok l"
        by (simp add: lifecycle_apply.simps tk_is_terminal_def)
      let ?s = "update_task i (\<lambda>t. t\<lparr>tk_lifecycle := l\<rparr>) s1"
      have "carries H s1 ?s"
        by (rule carries_update_task[of s1 i "?t\<lparr>tk_lifecycle := l\<rparr>"]) (simp_all add: same_task_def update_task_def)
      with c1 have c2: "carries H s ?s" by (rule carries_trans)
      have d2: "dedup_invar (rs_dedup ?s)" using d1 by (simp add: update_task_def)
      have "s' = ?s \<or> (\<exists>b. cancel_container k i task_id ended_at now ?s = Ok (Some s', b))
          \<or> (\<exists>b. cancel_queued k i ended_at now ?s = Ok (Some s', b))"
        using ok s1 Some False l
        by (fastforce simp: cancel_section_def Let_def rbind_eq_Ok_iff split: if_splits)
      then show ?thesis
        using c2 carries_trans carries_cancel_container[OF d2 inv(2)] carries_cancel_queued[OF d2 inv(2)] by blast
    qed
  qed
qed

lemma carries_recover_task:
  assumes w: "in_window H now" and ok: "recover_task old ended_at now i (s, n) = Ok (s', n')"
  shows "carries H s s'" and "dedup_invar (rs_dedup s) \<Longrightarrow> dedup_invar (rs_dedup s')"
proof -
  let ?o = "rs_tasks s ! i"
  have "carries H s s' \<and> (dedup_invar (rs_dedup s) \<longrightarrow> dedup_invar (rs_dedup s'))"
  proof (cases "\<not> tk_is_terminal ?o \<and> fence_runtime_instance_id (tk_fence ?o) = old")
    case False
    with ok show ?thesis by (auto simp: recover_task_def)
  next
    case True
    then obtain l where l: "lifecycle_apply (tk_lifecycle ?o) EvHostLost = Ok l"
      using apply_host_lost[of "tk_lifecycle ?o"] by (auto simp: tk_is_terminal_def)
    let ?t = "?o\<lparr>tk_lifecycle := l, tk_ended_at := Some ended_at,
        tk_error := Some (public_error_new IoError (task_operation ?o) False)\<rparr>"
    obtain u v where settle: "settle_request
        (s\<lparr>rs_tasks := (rs_tasks s)[i := ?t], rs_used_bytes := u, rs_reserved_bytes := v\<rparr>)
        (tk_request_id ?o) now = Ok s'" (is "settle_request ?s _ _ = _")
      using ok True l
      by (auto simp: recover_task_def rbind_eq_Ok_iff Let_def grow_used_def release_reserved_def bytes_commute)
    have "carries H s ?s" by (rule carries_update_task[of s i ?t]) (simp_all add: same_task_def)
    moreover have "carries H ?s s'" using carries_settle_request[OF settle] w by (simp add: in_window_def)
    moreover have "dedup_invar (rs_dedup ?s) \<longrightarrow> dedup_invar (rs_dedup s')"
      using dedup_invar_step[OF _ settle] by blast
    ultimately show ?thesis using carries_trans by simp blast
  qed
  then show "carries H s s'" "dedup_invar (rs_dedup s) \<Longrightarrow> dedup_invar (rs_dedup s')" by simp_all
qed

lemma carries_recover_synchronous:
  assumes w: "in_window H now" and ok: "recover_synchronous old ended_at now i (s, n) = Ok (s', n')"
  shows "carries H s s'" and "dedup_invar (rs_dedup s) \<Longrightarrow> dedup_invar (rs_dedup s')"
proof -
  let ?o = "rs_synchronous_executions s ! i"
  have "carries H s s' \<and> (dedup_invar (rs_dedup s) \<longrightarrow> dedup_invar (rs_dedup s'))"
  proof (cases "\<not> sync_is_terminal (sx_state ?o) \<and> fence_runtime_instance_id (er_fence (sx_executor ?o)) = old")
    case False
    with ok show ?thesis by (auto simp: recover_synchronous_def Let_def)
  next
    case True
    obtain d e where d: "dedup_settle (rs_dedup s) (sx_request_id ?o) now = Ok (d, e)"
      and s': "rs_dedup s' = d" "rs_tasks s' = rs_tasks s"
      using ok True
      by (auto simp: recover_synchronous_def rbind_eq_Ok_iff Let_def grow_used_def release_reserved_def
          settle_request_def)
    have "carries H s s'" using carries_dedup_settle[OF d _ s'] w by (simp add: in_window_def)
    then show ?thesis using dedup_settle_invar[OF _ d] by (simp add: s')
  qed
  then show "carries H s s'" "dedup_invar (rs_dedup s) \<Longrightarrow> dedup_invar (rs_dedup s')" by simp_all
qed

lemma for_each_carries:
  assumes "\<And>i s n s' n'. f i (s, n) = Ok (s', n') \<Longrightarrow>
      carries H s s' \<and> (dedup_invar (rs_dedup s) \<longrightarrow> dedup_invar (rs_dedup s'))"
    and "for_each f ns (s, n) = Ok (s', n')" and "dedup_invar (rs_dedup s)"
  shows "carries H s s' \<and> dedup_invar (rs_dedup s')"
proof -
  let ?P = "\<lambda>p. carries H s (fst p) \<and> dedup_invar (rs_dedup (fst p))"
  have "?P (s', n')"
  proof (rule for_each_invariant[where P = ?P, OF _ _ assms(2)])
    show "?P (s, n)" using assms(3) by simp
    fix i p q assume P: "?P p" and f: "f i p = Ok q"
    obtain a m b m' where pq: "p = (a, m)" "q = (b, m')" by fastforce
    show "?P q" using assms(1)[OF f[unfolded pq]] P carries_trans unfolding pq by auto
  qed
  then show ?thesis by simp
qed

lemma carries_recover:
  assumes inv: "dedup_invar (rs_dedup s)" and w: "in_window H now"
    and ok: "recover_section k old ended_at now s = Ok (Some s', n)"
  shows "carries H s s'"
proof -
  obtain s1 n1 where s1: "interrupt_old_instance_automation_executions s old ended_at = Ok (s1, n1)"
    using ok by (auto simp: recover_section_def rbind_eq_Ok_iff)
  obtain s2 n2 where s2: "for_each (recover_task old ended_at now) [0..<length (rs_tasks s1)] (s1, n1) = Ok (s2, n2)"
    using ok s1 by (auto simp: recover_section_def rbind_eq_Ok_iff)
  obtain s3 n3 where s3: "for_each (recover_synchronous old ended_at now)
      [0..<length (rs_synchronous_executions s2)] (s2, n2) = Ok (s3, n3)"
    using ok s1 s2 by (auto simp: recover_section_def rbind_eq_Ok_iff)
  obtain s4 ch where s4: "prune_task_history k s3 now = Ok (s4, ch)" "s' = prune_synchronous_history s4 now"
    using ok s1 s2 s3 by (auto simp: recover_section_def rbind_eq_Ok_iff)
  have i: "interrupt_executions s (old_instance_executions s old) ended_at = Ok s1"
    using s1 by (auto simp: interrupt_old_instance_automation_executions_def Let_def rbind_eq_Ok_iff)
  have d: "interrupt_executions t es ts = Ok t' \<Longrightarrow> rs_dedup t' = rs_dedup t" for t es ts t'
    by (induction t es ts rule: interrupt_executions.induct)
      (auto simp: rbind_eq_Ok_iff dest: settle_automation_dedup)
  have d1: "dedup_invar (rs_dedup s1)" using d[OF i] inv by simp
  have c2: "carries H s1 s2 \<and> dedup_invar (rs_dedup s2)"
    using for_each_carries[OF _ s2 d1] carries_recover_task[OF w] by blast
  have c3: "carries H s2 s3 \<and> dedup_invar (rs_dedup s3)"
    using for_each_carries[OF _ s3] carries_recover_synchronous[OF w] c2 by blast
  have c4: "carries H s3 s4" using carries_prune[OF _ _ s4(1)] c3 w by (simp add: in_window_def)
  have "carries H s4 s'" unfolding s4(2) by (intro carries_more_tasks) simp_all
  then show ?thesis using carries_interrupt[OF i] c2 c3 c4 carries_trans by blast
qed

lemma carries_admit_task:
  assumes inv: "dedup_invar (rs_dedup s)" and w: "in_window H (ta_now_ms a)"
    and ok: "admit_task_section k current a s = Ok (Some s', res)"
  shows "carries H s s'"
proof -
  obtain d dec where d: "decide_and_reserve (rs_dedup s) (ta_request_id a) (ta_payload_sha256 a)
      (ta_now_ms a) False = (d, dec)" by fastforce
  define p where "p = (prune_expired_requests k s (ta_now_ms a))\<lparr>rs_dedup := d\<rparr>"
  have new: "admit_new_task k current a p = Ok (Some s', res)"
    using ok d by (auto simp: admit_task_section_def p_def rbind_eq_Ok_iff elim: decision_cases)
  have w': "unat (ta_now_ms a) < H" using w by (simp add: in_window_def)
  have c1: "carries H s p" by (rule carries_decide[OF inv w' d]) (simp_all add: p_def)
  have dp: "dedup_invar (rs_dedup p)"
    using dedup.decide_invar[OF inv, of "ta_request_id a" "ta_payload_sha256 a" "ta_now_ms a" False] d
    by (simp add: p_def)
  from new show ?thesis
  proof (rule admit_new_task_Ok)
    fix s1 ch executor
    assume s1: "prune_task_history k p (ta_now_ms a) = Ok (s1, ch)"
      and s': "s' = s1\<lparr>rs_used_bytes := rs_used_bytes s1 + TASK_RECORD_BYTES,
       rs_reserved_bytes := rs_reserved_bytes s1 + max (ta_settlement_bound_bytes a) RESERVE_FLOOR_BYTES,
       rs_tasks := rs_tasks s1 @ [admitted_task a executor
         \<lparr>tl_state = TaskQueued, tl_cancel_requested = False\<rparr>
         (max (ta_settlement_bound_bytes a) RESERVE_FLOOR_BYTES)]\<rparr>"
    have "carries H s1 s'" by (rule carries_more_tasks) (auto simp: s')
    then show ?thesis using c1 carries_prune[OF dp w' s1] carries_trans by blast
  qed
qed

lemma carries_sync_begin:
  assumes inv: "dedup_invar (rs_dedup s)" and w: "in_window H (sa_now_ms a)"
    and ok: "sync_begin_section k current permits waiting a s = Ok (Some s', b)"
  shows "carries H s s'"
proof -
  obtain d where d: "decide_and_reserve (rs_dedup s) (sa_request_id a) (sa_payload_sha256 a)
      (sa_now_ms a) False = (d, Ok Admit)"
    and new: "admit_new_sync k current permits a
       ((prune_expired_requests k s (sa_now_ms a))\<lparr>rs_dedup := d\<rparr>) = Ok (Some s', b)"
    using ok by (rule sync_begin_Ok)
  from new have "rs_dedup s' = d" "rs_tasks s' = rs_tasks s" by (rule admit_new_sync_Ok, simp)+
  then show ?thesis using carries_decide[OF inv _ d] w by (simp add: in_window_def)
qed

lemma carries_sync_settle:
  assumes w: "in_window H now"
    and ok: "sync_settle_section k report r outcome c ended_at now s = Ok (Some s', a)"
  shows "carries H s s'"
  using ok
proof (rule sync_settle_Ok)
  fix i measured bytes state result error retained retained_bytes u v d e
  assume d: "dedup_settle (rs_dedup s) r now = Ok (d, e)"
    and s': "s' = s\<lparr>rs_synchronous_executions := (rs_synchronous_executions s)[i :=
         (rs_synchronous_executions s ! i)\<lparr>sx_state := state, sx_ended_at := Some ended_at,
            sx_result := retained, sx_error := error, sx_terminal_bytes := retained_bytes\<rparr>],
       rs_used_bytes := u, rs_reserved_bytes := v, rs_dedup := d\<rparr>"
  show ?thesis using carries_dedup_settle[OF d, of H s'] w by (simp add: in_window_def s')
qed

lemma carries_mutation:
  assumes inv: "core_invar s" and w: "in_window H now"
    and unused: "\<And>t. t \<in> set (rs_tasks s) \<Longrightarrow> tk_request_id t \<noteq> Some r"
    and frame: "automation_mutation mutate s"
    and ok: "retained_mutation_section k current r h now mutate s = Ok (Some s', j)"
  shows "carries H s s'"
  using ok
proof (rule retained_mutation_Ok)
  fix d s1 growth u d' e
  let ?p = "(prune_expired_requests k s now)\<lparr>rs_dedup := d\<rparr>"
  assume d: "decide_and_reserve (rs_dedup s) r h now False = (d, Ok Admit)"
    and m: "mutate ?p = Ok (s1, j)" and settle: "dedup_settle (rs_dedup s1) r now = Ok (d', e)"
    and s': "s' = s1\<lparr>rs_used_bytes := u, rs_dedup := d', rs_retained_mutations := rs_retained_mutations s1
       @ [\<lparr>rm_request_id = r, rm_result = j\<rparr>]\<rparr>"
  have "core_invar ?p" using admitted_request_core(1)[OF inv d unused refl] .
  then have "automation_frame ?p s1" using frame m by (simp add: automation_mutation_def)
  then have F: "rs_dedup s1 = d" "rs_tasks s1 = rs_tasks s" by (simp_all add: automation_frameD)
  have "carries H s s1"
    using carries_decide[OF requests_held_invar[OF core_invarD(3)[OF inv]] _ d F] w by (simp add: in_window_def)
  moreover have "carries H s1 s'"
    using carries_dedup_settle[OF settle, of H s'] w by (simp add: in_window_def s')
  ultimately show ?thesis by (rule carries_trans)
qed

lemma carries_create:
  assumes "create_execution s cap ids i trig ts facts = Ok (s', x)"
  shows "carries H s s'"
  using assms
proof (rule create_execution_Ok)
  fix e t s1
  assume s1: "reserve_admission_capacity s = Ok s1"
    and s': "s' = update_automation i (\<lambda>r. r\<lparr>ar_active_execution_id := Some e\<rparr>)
       (s1\<lparr>rs_tasks := rs_tasks s @ [container_task cap
             (au_automation_id (ar_automation (rs_automations s ! i))) e t ts],
           rs_automation_executions := rs_automation_executions s @
             [\<lparr>xr_automation_id = au_automation_id (ar_automation (rs_automations s ! i)),
               xr_summary = queued_summary e t trig\<rparr>]\<rparr>)"
  show ?thesis
    using reserve_admission_frame[OF s1] by (intro carries_more_tasks) (auto simp: s' update_automation_def)
qed

lemma carries_automation [simp]: "carries H s (update_automation i f s)"
  by (rule carries_more_tasks) (simp_all add: update_automation_def)

lemma carries_admit_due:
  assumes "admit_due ck nd s cap ids a ts now = Ok (s', d, ch)"
  shows "carries H s s'"
proof -
  have "carries H s (update_automation i f s1)" if "create_execution s cap ids j trig ts facts = Ok (s1, x)"
    for i f s1 j trig facts x
    using carries_create[OF that] carries_automation carries_trans by blast
  with assms show ?thesis
    by (auto simp: admit_due_def Let_def rbind_eq_Ok_iff split: option.splits if_splits sum.splits)
qed

lemma carries_admit_requested:
  assumes "admit_requested s cap ids a ts = Ok (s', d, ch)"
  shows "carries H s s'"
proof -
  have "carries H s s1" if "create_execution (update_automation i f s) cap ids j trig ts facts = Ok (s1, x)"
    for i f s1 j trig facts x
    using carries_create[OF that] carries_automation carries_trans by blast
  with assms show ?thesis
    by (auto simp: admit_requested_def Let_def split: option.splits if_splits sum.splits)
qed

lemma carries_admit_event:
  assumes "admit_event s cap ids a ev facts ts = Ok (s', d, ch)"
  shows "carries H s s'"
  using assms
  by (auto simp: admit_event_def intro: carries_create split: option.splits if_splits sum.splits)

lemma carries_start:
  assumes "start_execution s e ts = Ok (s', summary)"
  shows "carries H s s'"
  using assms
proof (rule start_execution_Ok)
  fix xi ti l
  assume "s' = update_execution xi (\<lambda>x. x\<lparr>es_state := AutoRunning, es_started_at := Some ts\<rparr>)
       (update_task ti (\<lambda>t. t\<lparr>tk_lifecycle := l, tk_started_at := Some ts\<rparr>) s)"
  then show ?thesis
    by (intro carries_update_task[of s ti "(rs_tasks s ! ti)\<lparr>tk_lifecycle := l, tk_started_at := Some ts\<rparr>"])
      (simp_all add: same_task_def update_task_def update_execution_def)
qed

lemma carries_reads:
  assumes "dedup_invar (rs_dedup s)" "in_window H now"
  shows "get_section k task_id now s = Ok (Some s', g) \<Longrightarrow> carries H s s'"
    and "list_section k states limit now s = Ok (Some s', l) \<Longrightarrow> carries H s s'"
  using assms carries_prune[OF assms(1)]
  by (auto simp: get_section_def list_section_def rbind_eq_Ok_iff Let_def in_window_def split: if_splits)

lemma core_step_carries:
  "core_step k dc now s s' \<Longrightarrow> core_invar s \<Longrightarrow> in_window H now \<Longrightarrow> carries H s s'"
proof (induction rule: core_step.induct)
  case (step_automation s r generated encode current h call timestamp now admitting s' j)
  from step_automation(3,2) show ?case
  proof (rule automation_public_mutation)
    fix mutate
    assume "retained_mutation_section k current r h now mutate s = Ok (Some s', j)" "automation_mutation mutate s"
    then show ?thesis using step_automation by (intro carries_mutation[where s = s]) auto
  qed
next
  case (step_write_state v a e key s s' now)
  then have "automation_frame s s'" by (intro set_automation_state_frame)
  then show ?case by (intro carries_more_tasks) (simp_all add: automation_frameD)
next
  case (step_measure now s u n)
  show ?case by (rule carries_more_tasks) simp_all
qed (blast intro: requests_held_invar core_invarD(3) carries_admit_task carries_run_begin carries_settle
      carries_interrupt_section carries_cancel carries_recover carries_reads carries_sync_begin
      carries_sync_settle carries_admit_due carries_admit_requested carries_admit_event carries_start
      carries_settle_automation)+

section \<open>Runs of the core\<close>

text \<open>Steps whose clock stays inside the window of \<open>H\<close>.\<close>

inductive core_run ::
  "'j wire_codec \<Rightarrow> due_codec \<Rightarrow> nat \<Rightarrow>
   ('p, 'r, 'j) runtime_state \<Rightarrow> ('p, 'r, 'j) runtime_state \<Rightarrow> bool"
  for k :: "'j wire_codec" and dc H
where
  run_refl: "core_run k dc H s s"
| run_step: "core_run k dc H s s' \<Longrightarrow> core_step k dc now s' s'' \<Longrightarrow> in_window H now \<Longrightarrow> core_run k dc H s s''"

lemma core_run_carries:
  "core_run k dc H s s' \<Longrightarrow> core_invar s \<Longrightarrow> core_invar s' \<and> carries H s s'"
  by (induction rule: core_run.induct)
    (auto dest: core_step_invariant core_step_carries intro: carries_trans)

lemma answers_unique:
  assumes "core_invar s" "answers H r h T s" "t \<in> set (rs_tasks s)" "tk_request_id t = Some r"
  shows "tk_task_id t = T"
proof -
  obtain u where u: "u \<in> set (rs_tasks s)" "tk_task_id u = T" "tk_request_id u = Some r"
    using assms(2) by (auto simp: answers_def)
  have known: "dedup_known (rs_dedup s) r \<noteq> None"
    using assms(2) by (auto simp: answers_def retained_until_def)
  have one: "task_owners (rs_tasks s) r = 1"
    using held_task_excludes(3)[OF core_invarD(3)[OF assms(1)] u(1,3) known] .
  obtain i j where "i < length (rs_tasks s)" "t = rs_tasks s ! i" "j < length (rs_tasks s)" "u = rs_tasks s ! j"
    using assms(3) u(1) by (auto simp: in_set_conv_nth)
  then have "t = u"
    using filter_one_unique[of "\<lambda>t. tk_request_id t = Some r" "rs_tasks s" i j] one assms(4) u(3)
    by (auto simp: task_owners_def)
  with u(2) show ?thesis by simp
qed

text \<open>A repeated admission of a request that is still answered.\<close>

lemma replay_admission:
  assumes inv: "core_invar s" and ans: "answers H (ta_request_id a) h T s"
    and now: "unat (ta_now_ms a) < H" and digest: "sha256_hex (ta_payload_sha256 a)"
  shows "if ta_payload_sha256 a = h
    then \<exists>t\<in>set (rs_tasks s). tk_task_id t = T \<and> tk_request_id t = Some (ta_request_id a)
      \<and> admit_task_section k current a s = Ok (None, TaskReplay (snapshot t))
    else admit_task_section k current a s = err_invalid ''request_id was retained with different request content''"
proof -
  let ?r = "ta_request_id a"
  note D = requests_held_invar[OF core_invarD(3)[OF inv]]
  obtain x where x: "dedup_known (rs_dedup s) ?r = Some (h, x)" "\<forall>e. x = Some e \<longrightarrow> H \<le> unat e"
    using ans by (auto simp: answers_def retained_until_def)
  then have "\<forall>e. x = Some e \<longrightarrow> ta_now_ms a < e" using now by (auto simp: word_less_nat_alt)
  note decide = dedup.decide_known[OF D x(1) this digest]
  obtain d dec where d: "decide_and_reserve (rs_dedup s) ?r (ta_payload_sha256 a) (ta_now_ms a) False = (d, dec)"
    by fastforce
  obtain t where t: "List.find (\<lambda>t. tk_request_id t = Some ?r) (rs_tasks s) = Some t"
    using ans by (cases "List.find (\<lambda>t. tk_request_id t = Some ?r) (rs_tasks s)")
      (auto simp: answers_def find_None_iff)
  have T: "t \<in> set (rs_tasks s)" "tk_request_id t = Some ?r" using find_SomeD[OF t] by auto
  have "tk_task_id t = T" using answers_unique[OF inv ans T] .
  then show ?thesis
    using decide d t T by (auto simp: admit_task_section_def intro!: bexI[of _ t])
qed

end
