(* ===== verification/Artifact.thy ===== *)
theory Artifact
  imports Contract
begin

text \<open>
  The artifact manifest (\<open>rust/crates/persistence/src/artifact.rs\<close>): its records, the check of one
  record, and the admission plan that evicts expired and eligible artifacts until a new one fits.
  Timestamps (chrono) and UUID texts (uuid) are read by parameters.
\<close>

section \<open>Parameters\<close>

text \<open>
  \<open>af_instant\<close> reads an RFC 3339 timestamp: its text again in UTC with milliseconds, and its Unix
  milliseconds. \<open>af_uuid\<close> is \<open>Uuid::parse_str\<close>: the version number and the hyphenated text.
\<close>

record text_codec =
  af_instant :: "string \<Rightarrow> (string \<times> int) option"
  af_uuid :: "string \<Rightarrow> (nat \<times> string) option"

definition uuid_parse :: "text_codec \<Rightarrow> string \<Rightarrow> (string, uuid) result" where
  "uuid_parse c value =
     (case af_uuid c value of
        None \<Rightarrow> Err ''invalid UUID''
      | Some (version, hyphenated) \<Rightarrow>
          if version \<noteq> 4 \<or> hyphenated \<noteq> value
          then Err ''UUID must be lowercase hyphenated RFC-4122 UUIDv4'' else Ok (UuidV4 value))"

definition timestamp_ms :: "text_codec \<Rightarrow> string \<Rightarrow> u64 option" where
  "timestamp_ms c value =
     (case af_instant c value of
        None \<Rightarrow> None
      | Some (canonical, millis) \<Rightarrow>
          if canonical \<noteq> value then None else if 0 \<le> millis then Some (of_int millis) else None)"

section \<open>Records\<close>

abbreviation MAX_ARTIFACT_RECORDS :: nat where "MAX_ARTIFACT_RECORDS \<equiv> 1024"
abbreviation MAX_ARTIFACT_TOTAL_BYTES :: u64 where "MAX_ARTIFACT_TOTAL_BYTES \<equiv> 536870912"
abbreviation ARTIFACT_TTL_MS :: u64 where "ARTIFACT_TTL_MS \<equiv> 86400000"

datatype artifact_kind = KindStdout | KindStderr | KindData | KindImage | KindCapture | KindPacket

fun kind_token :: "artifact_kind \<Rightarrow> string" where
  "kind_token KindStdout = ''stdout''"
| "kind_token KindStderr = ''stderr''"
| "kind_token KindData = ''data''"
| "kind_token KindImage = ''image''"
| "kind_token KindCapture = ''capture''"
| "kind_token KindPacket = ''packet''"

fun maximum_bytes :: "artifact_kind \<Rightarrow> u64" where
  "maximum_bytes KindStdout = 1048576"
| "maximum_bytes KindStderr = 1048576"
| "maximum_bytes KindData = 1048576"
| "maximum_bytes KindImage = 8388608"
| "maximum_bytes KindPacket = 134217728"
| "maximum_bytes KindCapture = 268435456"

definition parse_kind :: "string \<Rightarrow> artifact_kind option" where
  "parse_kind value =
     (if value = ''stdout'' then Some KindStdout
      else if value = ''stderr'' then Some KindStderr
      else if value = ''data'' then Some KindData
      else if value = ''image'' then Some KindImage
      else if value = ''capture'' then Some KindCapture
      else if value = ''packet'' then Some KindPacket
      else None)"

record artifact_record =
  art_ref :: string
  art_kind :: artifact_kind
  art_size :: u64
  art_created_at :: string
  art_expires_at :: string
  art_sha256 :: "string option"
  art_mime :: "string option"
  art_task_id :: "task_id option"
  art_request_id :: "request_id option"

text \<open>\<open>artifact_ref.split(':')\<close>\<close>

fun split_colon :: "string \<Rightarrow> string list" where
  "split_colon [] = [[]]"
| "split_colon (c # cs) =
     (if c = CHR '':'' then [] # split_colon cs
      else (case split_colon cs of [] \<Rightarrow> [[c]] | p # ps \<Rightarrow> (c # p) # ps))"

definition artifact_ref_valid :: "text_codec \<Rightarrow> artifact_record \<Rightarrow> bool" where
  "artifact_ref_valid c r =
     (case split_colon (art_ref r) of
        [scheme, kind, ident] \<Rightarrow> scheme = ''dbref'' \<and> parse_kind kind = Some (art_kind r)
          \<and> is_ok (uuid_parse c ident)
      | _ \<Rightarrow> False)"

definition validate_artifact_record :: "text_codec \<Rightarrow> artifact_record \<Rightarrow> unit res" where
  "validate_artifact_record c r =
     rbind (ok_or (timestamp_ms c (art_created_at r))
              (domain_error_new InvalidArgument ''artifact creation timestamp is invalid'')) (\<lambda>created_at.
     rbind (ok_or (timestamp_ms c (art_expires_at r))
              (domain_error_new InvalidArgument ''artifact expiry timestamp is invalid'')) (\<lambda>expires_at.
     if art_size r = 0 \<or> art_size r > maximum_bytes (art_kind r)
        \<or> Some expires_at \<noteq> checked_add created_at ARTIFACT_TTL_MS
     then err_invalid ''artifact manifest record is invalid''
     else if art_kind r = KindImage
        \<and> art_mime r \<notin> {Some ''image/heic'', Some ''image/jpeg'', Some ''image/png''}
     then err_invalid ''image artifact MIME is invalid''
     else if \<not> artifact_ref_valid c r then err_invalid ''artifact reference is invalid''
     else Ok ()))"

section \<open>Admission\<close>

text \<open>
  The eviction set is a \<open>BTreeSet\<close> of references; only its membership, size and ordered listing are
  read, so it is a set, and the answer is its sorted list. \<open>bytes\<close> and the count run down the
  candidates in order of creation and reference.
\<close>

definition expired_refs :: "text_codec \<Rightarrow> artifact_record list \<Rightarrow> u64 \<Rightarrow> string list" where
  "expired_refs c manifest now_ms =
     map art_ref (filter (\<lambda>r. case timestamp_ms c (art_expires_at r) of
        None \<Rightarrow> False | Some expires_at \<Rightarrow> expires_at \<le> now_ms) manifest)"

definition fits :: "nat \<Rightarrow> string list \<Rightarrow> u64 option \<Rightarrow> u64 \<Rightarrow> bool" where
  "fits records evict bytes wanted \<longleftrightarrow>
     records + 1 - length (remdups evict) \<le> MAX_ARTIFACT_RECORDS
     \<and> (case Option.bind bytes (\<lambda>v. checked_add v wanted) of
          None \<Rightarrow> False | Some v \<Rightarrow> v \<le> MAX_ARTIFACT_TOTAL_BYTES)"

fun evict_candidates ::
  "nat \<Rightarrow> u64 \<Rightarrow> string list \<Rightarrow> artifact_record list \<Rightarrow> string list \<Rightarrow> u64 option \<Rightarrow>
   string list \<times> u64 option" where
  "evict_candidates records wanted eligible [] evict bytes = (evict, bytes)"
| "evict_candidates records wanted eligible (r # rs) evict bytes =
     (if fits records evict bytes wanted then (evict, bytes)
      else if art_ref r \<in> set eligible
      then evict_candidates records wanted eligible rs (art_ref r # evict)
             (Option.bind bytes (\<lambda>v. checked_sub v (art_size r)))
      else evict_candidates records wanted eligible rs evict bytes)"

definition plan_artifact_admission ::
  "text_codec \<Rightarrow> artifact_record list \<Rightarrow> artifact_kind \<Rightarrow> u64 \<Rightarrow> u64 \<Rightarrow> string list \<Rightarrow> string list res" where
  "plan_artifact_admission c manifest kind wanted now_ms eligible =
     (if wanted = 0 \<or> wanted > maximum_bytes kind
      then err ResourceLimit ''artifact size is outside its kind limit''
      else
        let evict = expired_refs c manifest now_ms
        in if list_ex (\<lambda>r. timestamp_ms c (art_created_at r) = None
                          \<or> timestamp_ms c (art_expires_at r) = None) manifest
           then err_invalid ''artifact manifest timestamp is invalid''
           else
             let remaining = filter (\<lambda>r. art_ref r \<notin> set evict) manifest;
                 bytes = try_fold_add 0 (map art_size remaining)
             in if bytes = None then err ResourceLimit ''artifact byte accounting overflow''
                else
                  let candidates = sort_key (\<lambda>r. (art_created_at r, art_ref r)) remaining;
                      (evict, bytes) = evict_candidates (length manifest) wanted eligible candidates evict bytes
                  in if \<not> fits (length manifest) evict bytes wanted
                     then err ResourceLimit ''artifact capacity cannot be freed deterministically''
                     else Ok (sort (remdups evict)))"

section \<open>What a plan guarantees\<close>

text \<open>With distinct references, the running bytes are the sizes of what is not evicted.\<close>

definition kept_bytes :: "artifact_record list \<Rightarrow> string list \<Rightarrow> nat" where
  "kept_bytes manifest evict =
     sum_list (map (unat \<circ> art_size) (filter (\<lambda>r. art_ref r \<notin> set evict) manifest))"

definition kept_count :: "artifact_record list \<Rightarrow> string list \<Rightarrow> nat" where
  "kept_count manifest evict = length (filter (\<lambda>r. art_ref r \<notin> set evict) manifest)"

lemma kept_evict:
  assumes "distinct (map art_ref manifest)" and "r \<in> set manifest" and "art_ref r \<notin> set evict"
  shows "kept_bytes manifest (art_ref r # evict) + unat (art_size r) = kept_bytes manifest evict"
    and "kept_count manifest (art_ref r # evict) + 1 = kept_count manifest evict"
proof -
  have *: "kept_bytes manifest (art_ref r # evict) + unat (art_size r) = kept_bytes manifest evict
      \<and> kept_count manifest (art_ref r # evict) + 1 = kept_count manifest evict"
    using assms
  proof (induction manifest)
    case Nil
    then show ?case by simp
  next
    case (Cons a manifest)
    show ?case
    proof (cases "a = r")
      case True
      have "filter (\<lambda>x. art_ref x \<noteq> art_ref r \<and> art_ref x \<notin> set evict) manifest
          = filter (\<lambda>x. art_ref x \<notin> set evict) manifest"
        using Cons.prems(1) True by (intro filter_cong) (auto simp: image_iff)
      with True Cons.prems show ?thesis by (simp add: kept_bytes_def kept_count_def)
    next
      case False
      with Cons.prems have "r \<in> set manifest" "art_ref a \<noteq> art_ref r" by (auto simp: image_iff)
      with Cons show ?thesis by (auto simp: kept_bytes_def kept_count_def)
    qed
  qed
  from * show "kept_bytes manifest (art_ref r # evict) + unat (art_size r) = kept_bytes manifest evict"
    by simp
  from * show "kept_count manifest (art_ref r # evict) + 1 = kept_count manifest evict" by simp
qed

lemma kept_count_evicted:
  assumes "distinct (map art_ref manifest)" and "set evict \<subseteq> art_ref ` set manifest"
  shows "kept_count manifest evict + length (remdups evict) = length manifest"
proof -
  let ?out = "filter (\<lambda>r. art_ref r \<in> set evict) manifest"
  have "distinct (map art_ref ?out)" using assms(1) by (simp add: distinct_map_filter)
  then have "length ?out = card (art_ref ` set ?out)"
    using distinct_card by fastforce
  also have "art_ref ` set ?out = set evict" using assms(2) by auto
  finally have "length ?out = length (remdups evict)" by (simp add: length_remdups_card_conv)
  moreover have "length ?out + kept_count manifest evict = length manifest"
    using sum_length_filter_compl[of "\<lambda>r. art_ref r \<in> set evict" manifest] by (simp add: kept_count_def)
  ultimately show ?thesis by simp
qed

lemma evict_candidates_run:
  assumes D: "distinct (map art_ref manifest)"
    and "evict_candidates (length manifest) wanted eligible cands evict (Some bytes) = (evict', bytes')"
    and "set cands \<subseteq> set manifest" "distinct (map art_ref cands)"
    and "\<And>r. r \<in> set cands \<Longrightarrow> art_ref r \<notin> set evict"
    and "set evict \<subseteq> art_ref ` set manifest"
    and "unat bytes = kept_bytes manifest evict"
  shows "set evict \<subseteq> set evict' \<and> set evict' \<subseteq> set evict \<union> set eligible
    \<and> set evict' \<subseteq> art_ref ` set manifest
    \<and> (\<exists>b. bytes' = Some b \<and> unat b = kept_bytes manifest evict')
    \<and> (\<not> fits (length manifest) evict' bytes' wanted \<longrightarrow>
         (\<forall>r\<in>set cands. art_ref r \<in> set eligible \<longrightarrow> art_ref r \<in> set evict'))"
  using assms(2-)
proof (induction cands arbitrary: evict bytes)
  case Nil
  then show ?case by auto
next
  case (Cons r cands)
  show ?case
  proof (cases "fits (length manifest) evict (Some bytes) wanted")
    case True
    with Cons.prems show ?thesis by auto
  next
    case no: False
    show ?thesis
    proof (cases "art_ref r \<in> set eligible")
      case False
      have rest: "evict_candidates (length manifest) wanted eligible cands evict (Some bytes) = (evict', bytes')"
        using Cons.prems(1) no False by simp
      show ?thesis using Cons.IH[OF rest] Cons.prems(2-) False by auto
    next
      case True
      have r: "r \<in> set manifest" "art_ref r \<notin> set evict" using Cons.prems(2,4) by auto
      note K = kept_evict[OF D r]
      have le: "unat (art_size r) \<le> unat bytes" using K(1) Cons.prems(6) by simp
      then have sub: "checked_sub bytes (art_size r) = Some (bytes - art_size r)"
        by (simp add: checked_sub_def word_le_nat_alt)
      have b: "unat (bytes - art_size r) = kept_bytes manifest (art_ref r # evict)"
        using unat_checked_sub[OF sub] K(1) Cons.prems(6) by simp
      have rest: "evict_candidates (length manifest) wanted eligible cands (art_ref r # evict)
          (Some (bytes - art_size r)) = (evict', bytes')"
        using Cons.prems(1) no True sub by simp
      have "x \<in> set cands \<Longrightarrow> art_ref x \<notin> set (art_ref r # evict)" for x
        using Cons.prems(3,4) by (auto simp: image_iff)
      then show ?thesis
        using Cons.IH[OF rest _ _ _ _ b] Cons.prems(2,3,5) r(1) True by auto
    qed
  qed
qed

lemma fits_kept:
  assumes "distinct (map art_ref manifest)" "set evict \<subseteq> art_ref ` set manifest"
    and "unat b = kept_bytes manifest evict"
  shows "fits (length manifest) evict (Some b) wanted \<longleftrightarrow>
    kept_count manifest evict + 1 \<le> MAX_ARTIFACT_RECORDS
    \<and> kept_bytes manifest evict + unat wanted \<le> unat MAX_ARTIFACT_TOTAL_BYTES"
proof -
  have c: "length manifest + 1 - length (remdups evict) = kept_count manifest evict + 1"
    using kept_count_evicted[OF assms(1,2)] by simp
  have "(case checked_add b wanted of None \<Rightarrow> False | Some v \<Rightarrow> v \<le> MAX_ARTIFACT_TOTAL_BYTES)
      \<longleftrightarrow> unat b + unat wanted \<le> unat MAX_ARTIFACT_TOTAL_BYTES"
  proof (cases "checked_add b wanted")
    case None
    then have "\<not> unat b + unat wanted < 2 ^ 64"
      by (simp add: checked_add_def split: if_splits)
    then show ?thesis using None by simp
  next
    case (Some v)
    then show ?thesis using unat_checked_add[OF Some] by (simp add: word_le_nat_alt)
  qed
  then show ?thesis unfolding fits_def c option.case Option.bind_lunit using assms(3) by simp
qed

section \<open>Properties\<close>

lemma plan_parts:
  assumes D: "distinct (map art_ref manifest)"
    and bound: "size_new \<noteq> 0" "size_new \<le> maximum_bytes kind"
    and times: "\<not> list_ex (\<lambda>r. timestamp_ms c (art_created_at r) = None
        \<or> timestamp_ms c (art_expires_at r) = None) manifest"
    and tot: "try_fold_add 0 (map art_size (filter (\<lambda>r. art_ref r \<notin> set (expired_refs c manifest now)) manifest))
        = Some bytes"
  obtains evict b where
    "plan_artifact_admission c manifest kind size_new now eligible =
       (if \<not> fits (length manifest) evict (Some b) size_new
        then err ResourceLimit ''artifact capacity cannot be freed deterministically''
        else Ok (sort (remdups evict)))"
    "unat b = kept_bytes manifest evict" "set evict \<subseteq> art_ref ` set manifest"
    "set (expired_refs c manifest now) \<subseteq> set evict"
    "set evict \<subseteq> set (expired_refs c manifest now) \<union> set eligible"
    "\<not> fits (length manifest) evict (Some b) size_new \<longrightarrow>
       set evict = set (expired_refs c manifest now) \<union> (set eligible \<inter> art_ref ` set manifest)"
proof -
  let ?e = "expired_refs c manifest now"
  let ?remaining = "filter (\<lambda>r. art_ref r \<notin> set ?e) manifest"
  let ?cands = "sort_key (\<lambda>r. (art_created_at r, art_ref r)) ?remaining"
  obtain evict bytes' where run: "evict_candidates (length manifest) size_new eligible ?cands ?e (Some bytes)
      = (evict, bytes')"
    by fastforce
  have "unat bytes = kept_bytes manifest ?e"
    using try_fold_add_Some[OF tot] by (simp add: kept_bytes_def)
  moreover have "distinct (map art_ref ?cands)"
    using D by (simp add: distinct_map distinct_map_filter inj_on_def)
  moreover have "set ?e \<subseteq> art_ref ` set manifest" by (auto simp: expired_refs_def)
  ultimately have R: "set ?e \<subseteq> set evict \<and> set evict \<subseteq> set ?e \<union> set eligible
    \<and> set evict \<subseteq> art_ref ` set manifest
    \<and> (\<exists>b. bytes' = Some b \<and> unat b = kept_bytes manifest evict)
    \<and> (\<not> fits (length manifest) evict bytes' size_new \<longrightarrow>
         (\<forall>r\<in>set ?cands. art_ref r \<in> set eligible \<longrightarrow> art_ref r \<in> set evict))"
    by (intro evict_candidates_run[OF D run]) auto
  then obtain b where b: "bytes' = Some b" "unat b = kept_bytes manifest evict" by blast
  show thesis
  proof (rule that[of evict b])
    show "plan_artifact_admission c manifest kind size_new now eligible =
       (if \<not> fits (length manifest) evict (Some b) size_new
        then err ResourceLimit ''artifact capacity cannot be freed deterministically''
        else Ok (sort (remdups evict)))"
      using bound times tot run b(1) by (auto simp: plan_artifact_admission_def Let_def dest: leD)
    show "\<not> fits (length manifest) evict (Some b) size_new \<longrightarrow>
        set evict = set ?e \<union> (set eligible \<inter> art_ref ` set manifest)"
      using R b(1) by auto
  qed (use R b in auto)
qed

text \<open> an artifact plan that succeeds evicts every expired artifact and otherwise only eligible ones,
  all of the manifest, and what stays together with the new artifact is within 1024 records and
  512 MiB.
\<close>

lemma artifact_plan_sound:
  assumes D: "distinct (map art_ref manifest)"
    and plan: "plan_artifact_admission c manifest kind size_new now eligible = Ok evict"
  shows "set (expired_refs c manifest now) \<subseteq> set evict
    \<and> set evict \<subseteq> set (expired_refs c manifest now) \<union> set eligible
    \<and> set evict \<subseteq> art_ref ` set manifest
    \<and> kept_count manifest evict + 1 \<le> MAX_ARTIFACT_RECORDS
    \<and> kept_bytes manifest evict + unat size_new \<le> unat MAX_ARTIFACT_TOTAL_BYTES"
proof -
  have bound: "size_new \<noteq> 0" "size_new \<le> maximum_bytes kind"
    and times: "\<not> list_ex (\<lambda>r. timestamp_ms c (art_created_at r) = None
        \<or> timestamp_ms c (art_expires_at r) = None) manifest"
    using plan by (auto simp: plan_artifact_admission_def Let_def not_less split: if_splits)
  obtain bytes where tot: "try_fold_add 0 (map art_size
      (filter (\<lambda>r. art_ref r \<notin> set (expired_refs c manifest now)) manifest)) = Some bytes"
    using plan by (auto simp: plan_artifact_admission_def Let_def split: if_splits)
  obtain e b where p: "plan_artifact_admission c manifest kind size_new now eligible =
       (if \<not> fits (length manifest) e (Some b) size_new
        then err ResourceLimit ''artifact capacity cannot be freed deterministically''
        else Ok (sort (remdups e)))"
    and e: "unat b = kept_bytes manifest e" "set e \<subseteq> art_ref ` set manifest"
      "set (expired_refs c manifest now) \<subseteq> set e" "set e \<subseteq> set (expired_refs c manifest now) \<union> set eligible"
    by (rule plan_parts[OF D bound times tot, of eligible])
  have f: "fits (length manifest) e (Some b) size_new" "evict = sort (remdups e)"
    using plan p by (auto split: if_splits)
  have "kept_bytes manifest evict = kept_bytes manifest e" "kept_count manifest evict = kept_count manifest e"
    by (simp_all add: kept_bytes_def kept_count_def f(2))
  with e f fits_kept[OF D e(2,1)] show ?thesis by simp
qed

text \<open> a plan that gives up could not have succeeded: even without every expired and every eligible
  artifact, the manifest and the new artifact exceed a limit.
\<close>

lemma artifact_plan_complete:
  assumes D: "distinct (map art_ref manifest)"
    and plan: "plan_artifact_admission c manifest kind size_new now eligible
      = err ResourceLimit ''artifact capacity cannot be freed deterministically''"
  shows "MAX_ARTIFACT_RECORDS < kept_count manifest (expired_refs c manifest now @ eligible) + 1
    \<or> unat MAX_ARTIFACT_TOTAL_BYTES
        < kept_bytes manifest (expired_refs c manifest now @ eligible) + unat size_new"
proof -
  have bound: "size_new \<noteq> 0" "size_new \<le> maximum_bytes kind"
    and times: "\<not> list_ex (\<lambda>r. timestamp_ms c (art_created_at r) = None
        \<or> timestamp_ms c (art_expires_at r) = None) manifest"
    using plan
    by (auto simp: plan_artifact_admission_def Let_def not_less domain_error_new_def
        domain_error_invalid_def split: if_splits)
  obtain bytes where tot: "try_fold_add 0 (map art_size
      (filter (\<lambda>r. art_ref r \<notin> set (expired_refs c manifest now)) manifest)) = Some bytes"
    using plan bound times
    by (auto simp: plan_artifact_admission_def Let_def domain_error_new_def split: if_splits)
  obtain e b where p: "plan_artifact_admission c manifest kind size_new now eligible =
       (if \<not> fits (length manifest) e (Some b) size_new
        then err ResourceLimit ''artifact capacity cannot be freed deterministically''
        else Ok (sort (remdups e)))"
    and e: "unat b = kept_bytes manifest e" "set e \<subseteq> art_ref ` set manifest"
    and full: "\<not> fits (length manifest) e (Some b) size_new \<longrightarrow>
       set e = set (expired_refs c manifest now) \<union> (set eligible \<inter> art_ref ` set manifest)"
    by (rule plan_parts[OF D bound times tot, of eligible])
  have f: "\<not> fits (length manifest) e (Some b) size_new" using plan p by (auto split: if_splits)
  have "filter (\<lambda>r. art_ref r \<notin> set (expired_refs c manifest now @ eligible)) manifest
      = filter (\<lambda>r. art_ref r \<notin> set e) manifest"
    using full f by (intro filter_cong) auto
  then have "kept_bytes manifest (expired_refs c manifest now @ eligible) = kept_bytes manifest e"
    "kept_count manifest (expired_refs c manifest now @ eligible) = kept_count manifest e"
    by (simp_all add: kept_bytes_def kept_count_def)
  then show ?thesis using f fits_kept[OF D e(2,1)] by (auto simp: not_less)
qed

section \<open>Witnesses\<close>

text \<open>A codec that reads a text's length as its instant; the record \<open>n\<close> expires after \<open>n\<close> milliseconds.\<close>

definition length_codec :: text_codec where
  "length_codec = \<lparr>af_instant = (\<lambda>t. Some (t, int (length t))), af_uuid = (\<lambda>t. Some (4, t))\<rparr>"

definition sample_artifact :: "string \<Rightarrow> nat \<Rightarrow> u64 \<Rightarrow> artifact_record" where
  "sample_artifact ref expiry size_bytes =
     \<lparr>art_ref = ref, art_kind = KindCapture, art_size = size_bytes, art_created_at = ''t'',
      art_expires_at = replicate expiry (CHR ''t''), art_sha256 = None, art_mime = None,
      art_task_id = None, art_request_id = None\<rparr>"

abbreviation sample_manifest :: "artifact_record list" where
  "sample_manifest \<equiv> [sample_artifact ''a'' 2 268435456, sample_artifact ''b'' 9 268435456,
     sample_artifact ''c'' 9 1]"

lemma sample_timestamp: "timestamp_ms length_codec t = Some (of_nat (length t))"
  by (simp add: timestamp_ms_def length_codec_def)

lemma sample_plan:
  "plan_artifact_admission length_codec sample_manifest KindCapture 268435456 5 [''b''] = Ok [''a'', ''b'']"
  "plan_artifact_admission length_codec sample_manifest KindCapture 268435456 5 []
     = err ResourceLimit ''artifact capacity cannot be freed deterministically''"
  by (simp_all add: plan_artifact_admission_def Let_def sample_timestamp expired_refs_def fits_def
      sample_artifact_def checked_add_def checked_sub_def)

lemma artifact_plan_sound_witness:
  "distinct (map art_ref sample_manifest)
   \<and> plan_artifact_admission length_codec sample_manifest KindCapture 268435456 5 [''b''] = Ok [''a'', ''b'']
   \<and> kept_bytes sample_manifest [''a'', ''b''] + unat (268435456 :: u64) \<le> unat MAX_ARTIFACT_TOTAL_BYTES"
proof -
  have d: "distinct (map art_ref sample_manifest)" by (simp add: sample_artifact_def)
  show ?thesis using artifact_plan_sound[OF d sample_plan(1)] d sample_plan(1) by simp
qed

lemma artifact_plan_complete_witness:
  "distinct (map art_ref sample_manifest)
   \<and> plan_artifact_admission length_codec sample_manifest KindCapture 268435456 5 []
       = err ResourceLimit ''artifact capacity cannot be freed deterministically''
   \<and> unat MAX_ARTIFACT_TOTAL_BYTES
       < kept_bytes sample_manifest (expired_refs length_codec sample_manifest 5 @ []) + unat (268435456 :: u64)"
proof -
  have d: "distinct (map art_ref sample_manifest)" by (simp add: sample_artifact_def)
  have "\<not> MAX_ARTIFACT_RECORDS < kept_count sample_manifest (expired_refs length_codec sample_manifest 5 @ []) + 1"
    by (simp add: kept_count_def)
  then show ?thesis using artifact_plan_complete[OF d sample_plan(2)] d sample_plan(2) by blast
qed

end
