(* ===== verification/Stored_Model.thy ===== *)
theory Stored_Model
  imports Runtime_Step Artifact
begin

text \<open>
  The canonical store model (\<open>rust/crates/persistence/src/model.rs\<close>): the stored records, the
  conversions between the Runtime state and the canonical state in both directions, and
  \<open>validate_state\<close> (\<open>atomic.rs\<close>), the check every load and every commit makes.
\<close>

section \<open>Stored records\<close>

datatype stored_filesystem_route = SfrInspectOrRead | SfrMutation
datatype stored_preflight = SpPositive | SpNegative | SpUnknown
datatype stored_network_route = SnrInspectOrDiagnose | SnrReadOnlyRouteSupplement | SnrCapture | SnrInject
datatype stored_visual_route =
  SvrDisplay | SvrTransform | SvrHierarchy | SvrImage | SvrCoordinateInput | SvrKeyInput
| SvrFocusedText | SvrAccessibilityNode
datatype stored_package_inspect_fact = SpfExactSuccess | SpfVisibilityOrAbsent | SpfUnknown
datatype stored_android_route =
  SarPackageInspect stored_package_inspect_fact | SarPackageList | SarPackageForceStop
| SarLaunchOrIntent | SarClipboard | SarNotification

datatype stored_route =
  StoredCommand run_as
| StoredFilesystem stored_filesystem_route file_target_type stored_preflight stored_preflight
| StoredNetwork stored_network_route
| StoredVisual stored_visual_route
| StoredAndroid stored_android_route

fun stored_filesystem_route_from :: "filesystem_route \<Rightarrow> stored_filesystem_route" where
  "stored_filesystem_route_from InspectOrRead = SfrInspectOrRead"
| "stored_filesystem_route_from Mutation = SfrMutation"

fun filesystem_route_from :: "stored_filesystem_route \<Rightarrow> filesystem_route" where
  "filesystem_route_from SfrInspectOrRead = InspectOrRead"
| "filesystem_route_from SfrMutation = Mutation"

fun stored_preflight_from :: "preflight \<Rightarrow> stored_preflight" where
  "stored_preflight_from Positive = SpPositive"
| "stored_preflight_from Negative = SpNegative"
| "stored_preflight_from PreflightUnknown = SpUnknown"

fun preflight_from :: "stored_preflight \<Rightarrow> preflight" where
  "preflight_from SpPositive = Positive"
| "preflight_from SpNegative = Negative"
| "preflight_from SpUnknown = PreflightUnknown"

fun stored_network_route_from :: "network_route \<Rightarrow> stored_network_route" where
  "stored_network_route_from InspectOrDiagnose = SnrInspectOrDiagnose"
| "stored_network_route_from ReadOnlyRouteSupplement = SnrReadOnlyRouteSupplement"
| "stored_network_route_from Capture = SnrCapture"
| "stored_network_route_from Inject = SnrInject"

fun network_route_from :: "stored_network_route \<Rightarrow> network_route" where
  "network_route_from SnrInspectOrDiagnose = InspectOrDiagnose"
| "network_route_from SnrReadOnlyRouteSupplement = ReadOnlyRouteSupplement"
| "network_route_from SnrCapture = Capture"
| "network_route_from SnrInject = Inject"

fun stored_visual_route_from :: "visual_route \<Rightarrow> stored_visual_route" where
  "stored_visual_route_from Display = SvrDisplay"
| "stored_visual_route_from Transform = SvrTransform"
| "stored_visual_route_from Hierarchy = SvrHierarchy"
| "stored_visual_route_from Image = SvrImage"
| "stored_visual_route_from CoordinateInput = SvrCoordinateInput"
| "stored_visual_route_from KeyInput = SvrKeyInput"
| "stored_visual_route_from FocusedText = SvrFocusedText"
| "stored_visual_route_from AccessibilityNode = SvrAccessibilityNode"

fun visual_route_from :: "stored_visual_route \<Rightarrow> visual_route" where
  "visual_route_from SvrDisplay = Display"
| "visual_route_from SvrTransform = Transform"
| "visual_route_from SvrHierarchy = Hierarchy"
| "visual_route_from SvrImage = Image"
| "visual_route_from SvrCoordinateInput = CoordinateInput"
| "visual_route_from SvrKeyInput = KeyInput"
| "visual_route_from SvrFocusedText = FocusedText"
| "visual_route_from SvrAccessibilityNode = AccessibilityNode"

fun stored_package_fact_from :: "package_inspect_fact \<Rightarrow> stored_package_inspect_fact" where
  "stored_package_fact_from ExactSuccess = SpfExactSuccess"
| "stored_package_fact_from VisibilityOrAbsent = SpfVisibilityOrAbsent"
| "stored_package_fact_from PackageUnknown = SpfUnknown"

fun package_fact_from :: "stored_package_inspect_fact \<Rightarrow> package_inspect_fact" where
  "package_fact_from SpfExactSuccess = ExactSuccess"
| "package_fact_from SpfVisibilityOrAbsent = VisibilityOrAbsent"
| "package_fact_from SpfUnknown = PackageUnknown"

fun stored_android_route_from :: "android_route \<Rightarrow> stored_android_route" where
  "stored_android_route_from (PackageInspect known) = SarPackageInspect (stored_package_fact_from known)"
| "stored_android_route_from PackageList = SarPackageList"
| "stored_android_route_from PackageForceStop = SarPackageForceStop"
| "stored_android_route_from LaunchOrIntent = SarLaunchOrIntent"
| "stored_android_route_from Clipboard = SarClipboard"
| "stored_android_route_from Notification = SarNotification"

fun android_route_from :: "stored_android_route \<Rightarrow> android_route" where
  "android_route_from (SarPackageInspect known) = PackageInspect (package_fact_from known)"
| "android_route_from SarPackageList = PackageList"
| "android_route_from SarPackageForceStop = PackageForceStop"
| "android_route_from SarLaunchOrIntent = LaunchOrIntent"
| "android_route_from SarClipboard = Clipboard"
| "android_route_from SarNotification = Notification"

fun stored_route_from :: "executor_request \<Rightarrow> stored_route" where
  "stored_route_from (RouteCommand run_as) = StoredCommand run_as"
| "stored_route_from (RouteFilesystem route target_type app shizuku) =
     StoredFilesystem (stored_filesystem_route_from route) target_type (stored_preflight_from app)
       (stored_preflight_from shizuku)"
| "stored_route_from (RouteNetwork route) = StoredNetwork (stored_network_route_from route)"
| "stored_route_from (RouteVisual route) = StoredVisual (stored_visual_route_from route)"
| "stored_route_from (RouteAndroid route) = StoredAndroid (stored_android_route_from route)"

fun executor_request_from :: "stored_route \<Rightarrow> executor_request" where
  "executor_request_from (StoredCommand run_as) = RouteCommand run_as"
| "executor_request_from (StoredFilesystem route target_type app shizuku) =
     RouteFilesystem (filesystem_route_from route) target_type (preflight_from app) (preflight_from shizuku)"
| "executor_request_from (StoredNetwork route) = RouteNetwork (network_route_from route)"
| "executor_request_from (StoredVisual route) = RouteVisual (visual_route_from route)"
| "executor_request_from (StoredAndroid route) = RouteAndroid (android_route_from route)"

record reservation_record =
  rv_execution_id :: execution_id
  rv_request_id :: "request_id option"
  rv_task_id :: "task_id option"
  rv_reserved_bytes :: u64

record ('p, 'j) stored_synchronous_execution =
  ssx_execution_id :: execution_id
  ssx_operation :: string
  ssx_state :: synchronous_execution_state
  ssx_ended_at :: "string option"
  ssx_executor :: executor_record
  ssx_route :: stored_route
  ssx_payload :: 'p
  ssx_result :: "'j option"
  ssx_error :: "public_error option"
  ssx_reserved_bytes :: u64
  ssx_terminal_bytes :: u64

record ('p, 'j) request_record =
  qr_request_id :: request_id
  qr_payload_sha256 :: string
  qr_expires_at_ms :: "u64 option"
  qr_task_id :: "task_id option"
  qr_synchronous_execution :: "('p, 'j) stored_synchronous_execution option"
  qr_mutation_result :: "'j option"

record ('p, 'r) stored_task =
  st_request_id :: "request_id option"
  st_task_id :: task_id
  st_execution_id :: execution_id
  st_state :: task_state
  st_cancel_requested :: bool
  st_tool :: mother_tool
  st_action :: string
  st_created_at :: string
  st_started_at :: "string option"
  st_ended_at :: "string option"
  st_waiting_reason :: "string option"
  st_executor :: "executor_record option"
  st_route :: "stored_route option"
  st_payload :: "'p option"
  st_automation_owner :: "(automation_id \<times> fence) option"
  st_result :: "'r task_terminal_result option"
  st_error :: "public_error option"
  st_reserved_bytes :: u64

record stored_automation =
  sau_automation :: automation
  sau_next_due_at :: "string option"
  sau_deleted :: bool
  sau_deleted_at :: "string option"
  sau_active_execution_id :: "execution_id option"
  sau_run_requested_at :: "string option"

record ('p, 'r, 'j) canonical_state =
  cn_schema_version :: nat
  cn_store_revision :: u64
  cn_request_records :: "('p, 'j) request_record list"
  cn_tasks :: "('p, 'r) stored_task list"
  cn_automations :: "stored_automation list"
  cn_automation_executions :: "automation_execution_record list"
  cn_artifact_manifest :: "artifact_record list"
  cn_reservations :: "reservation_record list"

abbreviation STORE_SCHEMA_VERSION :: nat where "STORE_SCHEMA_VERSION \<equiv> 1"

definition canonical_state_default :: "('p, 'r, 'j) canonical_state" where
  "canonical_state_default =
     \<lparr>cn_schema_version = STORE_SCHEMA_VERSION, cn_store_revision = 0, cn_request_records = [],
      cn_tasks = [], cn_automations = [], cn_automation_executions = [], cn_artifact_manifest = [],
      cn_reservations = []\<rparr>"

definition invalid_store :: "string \<Rightarrow> 'a res" where
  "invalid_store message = err IoError message"

section \<open>From the Runtime state\<close>

definition stored_task_from :: "('p, 'r) task_record \<Rightarrow> ('p, 'r) stored_task" where
  "stored_task_from t =
     \<lparr>st_request_id = tk_request_id t, st_task_id = tk_task_id t, st_execution_id = tk_execution_id t,
      st_state = tk_state t, st_cancel_requested = tl_cancel_requested (tk_lifecycle t),
      st_tool = tk_tool t, st_action = tk_action t, st_created_at = tk_created_at t,
      st_started_at = tk_started_at t, st_ended_at = tk_ended_at t,
      st_waiting_reason = tk_waiting_reason t, st_executor = tk_executor t,
      st_route = (case tk_origin t of OriginRequest _ _ route _ \<Rightarrow> Some (stored_route_from route)
                  | OriginAutomationExecution _ _ \<Rightarrow> None),
      st_payload = (case tk_origin t of OriginRequest _ _ _ payload \<Rightarrow> Some payload
                    | OriginAutomationExecution _ _ \<Rightarrow> None),
      st_automation_owner = (case tk_origin t of OriginRequest _ _ _ _ \<Rightarrow> None
                    | OriginAutomationExecution automation_id f \<Rightarrow> Some (automation_id, f)),
      st_result = tk_result t, st_error = tk_error t, st_reserved_bytes = tk_reserved_bytes t\<rparr>"

definition stored_synchronous_from ::
  "('p, 'j) synchronous_execution_record \<Rightarrow> ('p, 'j) stored_synchronous_execution" where
  "stored_synchronous_from x =
     \<lparr>ssx_execution_id = sx_execution_id x, ssx_operation = sx_operation x, ssx_state = sx_state x,
      ssx_ended_at = sx_ended_at x, ssx_executor = sx_executor x,
      ssx_route = stored_route_from (sx_route x), ssx_payload = sx_payload x,
      ssx_result = sx_result x, ssx_error = sx_error x, ssx_reserved_bytes = sx_reserved_bytes x,
      ssx_terminal_bytes = sx_terminal_bytes x\<rparr>"

definition stored_automation_from :: "automation_record \<Rightarrow> stored_automation" where
  "stored_automation_from r =
     \<lparr>sau_automation = ar_automation r, sau_next_due_at = ar_next_due_at r,
      sau_deleted = (ar_deleted_at r \<noteq> None), sau_deleted_at = ar_deleted_at r,
      sau_active_execution_id = ar_active_execution_id r, sau_run_requested_at = ar_run_requested_at r\<rparr>"

text \<open>One request record: the first (and only) record of each kind that carries the request.\<close>

definition request_record_from ::
  "('p, 'r, 'j) runtime_state \<Rightarrow> retained_request \<Rightarrow> ('p, 'j) request_record res" where
  "request_record_from s e =
     (let r = rr_request_id e;
          matching_tasks = filter (\<lambda>t. tk_request_id t = Some r) (rs_tasks s);
          matching_synchronous = filter (\<lambda>x. sx_request_id x = r) (rs_synchronous_executions s);
          matching_mutations = filter (\<lambda>m. rm_request_id m = r) (rs_retained_mutations s)
      in if length matching_tasks + length matching_synchronous + length matching_mutations > 1
         then invalid_store ''request identity has multiple canonical results''
         else Ok \<lparr>qr_request_id = r, qr_payload_sha256 = rr_payload_sha256 e,
                  qr_expires_at_ms = rr_expires_at_ms e,
                  qr_task_id = (case matching_tasks of [] \<Rightarrow> None | t # _ \<Rightarrow> Some (tk_task_id t)),
                  qr_synchronous_execution = (case matching_synchronous of [] \<Rightarrow> None
                     | x # _ \<Rightarrow> Some (stored_synchronous_from x)),
                  qr_mutation_result = (case matching_mutations of [] \<Rightarrow> None
                     | m # _ \<Rightarrow> Some (rm_result m))\<rparr>)"

fun collect :: "('a \<Rightarrow> 'b res) \<Rightarrow> 'a list \<Rightarrow> 'b list res" where
  "collect f [] = Ok []"
| "collect f (x # xs) = rbind (f x) (\<lambda>y. rbind (collect f xs) (\<lambda>ys. Ok (y # ys)))"

lemma collect_Ok:
  "collect f xs = Ok ys \<Longrightarrow> list_all2 (\<lambda>x y. f x = Ok y) xs ys"
  by (induction xs arbitrary: ys) (auto simp: rbind_eq_Ok_iff)

definition task_reservation_record :: "('p, 'r) task_record \<Rightarrow> reservation_record" where
  "task_reservation_record t =
     \<lparr>rv_execution_id = tk_execution_id t, rv_request_id = tk_request_id t,
      rv_task_id = Some (tk_task_id t), rv_reserved_bytes = tk_reserved_bytes t\<rparr>"

definition synchronous_reservation_record ::
  "('p, 'j) synchronous_execution_record \<Rightarrow> reservation_record" where
  "synchronous_reservation_record x =
     \<lparr>rv_execution_id = sx_execution_id x, rv_request_id = Some (sx_request_id x),
      rv_task_id = None, rv_reserved_bytes = sx_reserved_bytes x\<rparr>"

definition reservation_records ::
  "('p, 'r) task_record list \<Rightarrow> ('p, 'j) synchronous_execution_record list \<Rightarrow> reservation_record list" where
  "reservation_records tasks synchronous =
     map task_reservation_record (filter (\<lambda>t. \<not> tk_is_terminal t) tasks)
     @ map synchronous_reservation_record (filter (\<lambda>x. \<not> sync_is_terminal (sx_state x)) synchronous)"

definition canonical_of :: "('p, 'r, 'j) runtime_state \<Rightarrow> ('p, 'r, 'j) canonical_state res" where
  "canonical_of s =
     rbind (collect (request_record_from s) (rs_dedup s)) (\<lambda>request_records.
     let retained = (\<lambda>r. list_ex (\<lambda>e. rr_request_id e = r) (rs_dedup s))
     in if list_ex (\<lambda>x. \<not> retained (sx_request_id x)) (rs_synchronous_executions s)
        then invalid_store ''synchronous execution has no retained request record''
        else if list_ex (\<lambda>m. \<not> retained (rm_request_id m)) (rs_retained_mutations s)
        then invalid_store ''retained mutation result has no retained request record''
        else Ok \<lparr>cn_schema_version = STORE_SCHEMA_VERSION, cn_store_revision = rs_revision s,
                 cn_request_records = request_records, cn_tasks = map stored_task_from (rs_tasks s),
                 cn_automations = map stored_automation_from (rs_automations s),
                 cn_automation_executions = rs_automation_executions s, cn_artifact_manifest = [],
                 cn_reservations = reservation_records (rs_tasks s) (rs_synchronous_executions s)\<rparr>)"

section \<open>To the Runtime state\<close>

definition stored_task_valid :: "('p, 'r) stored_task \<Rightarrow> bool" where
  "stored_task_valid t \<longleftrightarrow> st_reserved_bytes t \<ge> RESERVE_FLOOR_BYTES \<and>
     (case st_state t of
        TaskCreated \<Rightarrow> st_started_at t = None \<and> st_ended_at t = None \<and> st_result t = None \<and> st_error t = None
      | TaskQueued \<Rightarrow> st_started_at t = None \<and> st_ended_at t = None \<and> st_result t = None \<and> st_error t = None
      | TaskRunning \<Rightarrow> st_started_at t \<noteq> None \<and> st_ended_at t = None \<and> st_result t = None \<and> st_error t = None
      | TaskCompleted \<Rightarrow> st_started_at t \<noteq> None \<and> st_ended_at t \<noteq> None \<and> st_result t \<noteq> None \<and> st_error t = None
      | TaskFailed \<Rightarrow> st_ended_at t \<noteq> None \<and> st_result t = None \<and> st_error t \<noteq> None
      | TaskInterrupted \<Rightarrow> st_ended_at t \<noteq> None \<and> st_result t = None \<and> st_error t \<noteq> None
      | TaskCancelled \<Rightarrow> st_cancel_requested t \<and> st_ended_at t \<noteq> None \<and> st_result t = None
          \<and> (case st_error t of None \<Rightarrow> False | Some e \<Rightarrow> pe_code e = Cancelled))"

fun apply_all :: "task_event list \<Rightarrow> task_lifecycle \<Rightarrow> task_lifecycle res" where
  "apply_all [] l = Ok l"
| "apply_all (e # es) l = rbind (lifecycle_apply l e) (apply_all es)"

text \<open>The events that rebuild the lifecycle of a stored state.\<close>

definition rebuild_events :: "task_state \<Rightarrow> bool \<Rightarrow> task_event list" where
  "rebuild_events state cancel_requested =
     (let cancel = (if cancel_requested then [EvRequestCancel] else [])
      in case state of
           TaskCreated \<Rightarrow> cancel
         | TaskQueued \<Rightarrow> [EvQueue] @ cancel
         | TaskRunning \<Rightarrow> [EvQueue, EvStart] @ cancel
         | TaskCompleted \<Rightarrow> [EvQueue, EvStart] @ cancel @ [EvComplete True True]
         | TaskFailed \<Rightarrow> cancel @ [EvFail True]
         | TaskCancelled \<Rightarrow> [EvRequestCancel, EvSettleCancellation True]
         | TaskInterrupted \<Rightarrow> cancel @ [EvHostLost])"

definition stored_lifecycle :: "task_state \<Rightarrow> bool \<Rightarrow> task_lifecycle res" where
  "stored_lifecycle state cancel_requested =
     (if state = TaskCancelled \<and> \<not> cancel_requested
      then err IoError ''cancelled Task is missing cancellation history''
      else apply_all (rebuild_events state cancel_requested) lifecycle_new)"

definition stored_origin :: "('p, 'r) stored_task \<Rightarrow> 'p task_origin res" where
  "stored_origin t =
     (let container = (st_tool t = ToolAutomation \<and> st_action t = AUTOMATION_EXECUTION_ACTION)
      in case (st_request_id t, st_executor t, st_route t, st_payload t, st_automation_owner t) of
           (Some request_id, Some executor, Some route, Some payload, None) \<Rightarrow>
             if \<not> container then Ok (OriginRequest request_id executor (executor_request_from route) payload)
             else invalid_store ''Task origin fields are inconsistent''
         | (None, None, None, None, Some (automation_id, f)) \<Rightarrow>
             if container then Ok (OriginAutomationExecution automation_id f)
             else invalid_store ''Task origin fields are inconsistent''
         | _ \<Rightarrow> invalid_store ''Task origin fields are inconsistent'')"

definition task_into_runtime :: "('p, 'r) stored_task \<Rightarrow> ('p, 'r) task_record res" where
  "task_into_runtime t =
     (if \<not> stored_task_valid t then invalid_store ''Task terminal or lifecycle fields are invalid''
      else
        rbind (stored_lifecycle (st_state t) (st_cancel_requested t)) (\<lambda>lifecycle.
        rbind (stored_origin t) (\<lambda>origin.
        Ok \<lparr>tk_task_id = st_task_id t, tk_execution_id = st_execution_id t, tk_lifecycle = lifecycle,
            tk_tool = st_tool t, tk_action = st_action t, tk_created_at = st_created_at t,
            tk_started_at = st_started_at t, tk_ended_at = st_ended_at t,
            tk_waiting_reason = st_waiting_reason t, tk_origin = origin, tk_result = st_result t,
            tk_error = st_error t, tk_reserved_bytes = st_reserved_bytes t\<rparr>)))"

definition measured_terminal :: "'j wire_codec \<Rightarrow> 'j option \<Rightarrow> public_error option \<Rightarrow> u64 res" where
  "measured_terminal k result error =
     (let fail = domain_error_new IoError ''synchronous terminal result is not encodable''
      in case result of
           Some value \<Rightarrow> ok_or (wc_value k value) fail
         | None \<Rightarrow> (case error of Some e \<Rightarrow> ok_or (wc_error k e) fail | None \<Rightarrow> Ok 0))"

definition sync_fields_valid ::
  "u64 \<Rightarrow> synchronous_execution_state \<Rightarrow> string \<Rightarrow> string option \<Rightarrow> 'j option \<Rightarrow> public_error option \<Rightarrow>
   u64 \<Rightarrow> u64 \<Rightarrow> bool" where
  "sync_fields_valid measured state operation ended_at result error reserved_bytes terminal_bytes \<longleftrightarrow>
     (let valid_terminal = (terminal_bytes > 0 \<and> terminal_bytes \<le> reserved_bytes
            \<and> measured \<le> terminal_bytes \<and> ended_at \<noteq> None)
      in reserved_bytes \<ge> RESERVE_FLOOR_BYTES \<and> operation \<noteq> [] \<and>
         (case state of
            SyncRunning \<Rightarrow> ended_at = None \<and> result = None \<and> error = None \<and> terminal_bytes = 0
          | SyncCompleted \<Rightarrow> valid_terminal \<and> error = None
          | SyncFailed \<Rightarrow> valid_terminal \<and> result = None \<and> error \<noteq> None
          | SyncInterrupted \<Rightarrow> valid_terminal \<and> result = None \<and> error \<noteq> None))"

definition synchronous_into_runtime ::
  "'j wire_codec \<Rightarrow> request_id \<Rightarrow> ('p, 'j) stored_synchronous_execution \<Rightarrow>
   ('p, 'j) synchronous_execution_record res" where
  "synchronous_into_runtime k request_id x =
     rbind (measured_terminal k (ssx_result x) (ssx_error x)) (\<lambda>measured.
     if \<not> sync_fields_valid measured (ssx_state x) (ssx_operation x) (ssx_ended_at x) (ssx_result x)
          (ssx_error x) (ssx_reserved_bytes x) (ssx_terminal_bytes x)
     then invalid_store ''synchronous execution state is invalid''
     else Ok \<lparr>sx_request_id = request_id, sx_execution_id = ssx_execution_id x,
              sx_operation = ssx_operation x, sx_state = ssx_state x, sx_ended_at = ssx_ended_at x,
              sx_executor = ssx_executor x, sx_route = executor_request_from (ssx_route x),
              sx_payload = ssx_payload x, sx_result = ssx_result x, sx_error = ssx_error x,
              sx_reserved_bytes = ssx_reserved_bytes x, sx_terminal_bytes = ssx_terminal_bytes x\<rparr>)"

end
