(* ===== verification/Stored_Restore.thy ===== *)
theory Stored_Restore
  imports Stored_Model
begin

text \<open>
  Loading the canonical state: \<open>TryFrom<CanonicalState> for RuntimeState\<close> of
  \<open>rust/crates/persistence/src/model.rs\<close> and \<open>validate_state\<close> of \<open>atomic.rs\<close>, the check that every
  load and every commit makes of it.
\<close>

section \<open>Restoring the Runtime state\<close>

definition stored_automation_valid :: "stored_automation \<Rightarrow> bool" where
  "stored_automation_valid a \<longleftrightarrow> sau_deleted a = (sau_deleted_at a \<noteq> None)
     \<and> \<not> (sau_deleted a \<and> (sau_active_execution_id a = None \<or> sau_next_due_at a \<noteq> None))"

fun restore_automations :: "automation_id list \<Rightarrow> stored_automation list \<Rightarrow> automation_record list res" where
  "restore_automations identities [] = Ok []"
| "restore_automations identities (a # rest) =
     (if \<not> stored_automation_valid a then invalid_store ''Automation deletion tombstone is inconsistent''
      else if au_automation_id (sau_automation a) \<in> set identities
      then invalid_store ''duplicate canonical Automation identity''
      else rbind (restore_automations (au_automation_id (sau_automation a) # identities) rest) (\<lambda>records.
        Ok (\<lparr>ar_automation = sau_automation a, ar_next_due_at = sau_next_due_at a,
             ar_deleted_at = sau_deleted_at a, ar_active_execution_id = sau_active_execution_id a,
             ar_run_requested_at = sau_run_requested_at a\<rparr> # records)))"

definition automation_records ::
  "stored_automation list \<Rightarrow> automation_execution_record list \<Rightarrow>
   (automation_record list \<times> automation_execution_record list) res" where
  "automation_records automations executions =
     rbind (restore_automations [] automations) (\<lambda>records.
     rbind (collect (\<lambda>x. if list_ex (\<lambda>a. au_automation_id (sau_automation a) = xr_automation_id x) automations
                         then Ok x else invalid_store ''Automation execution names no Automation'')
              executions) (\<lambda>executions.
     Ok (records, executions)))"

definition validate_reservations ::
  "reservation_record list \<Rightarrow> ('p, 'r) task_record list \<Rightarrow> ('p, 'j) synchronous_execution_record list \<Rightarrow>
   unit res" where
  "validate_reservations actual tasks synchronous =
     (if sort_key rv_execution_id actual \<noteq> sort_key rv_execution_id (reservation_records tasks synchronous)
      then invalid_store ''reservation records do not match non-terminal executions'' else Ok ())"

text \<open>What one request record must agree with; \<open>matching\<close> are the Tasks that carry the request.\<close>

definition check_request_record ::
  "('p, 'r) task_record list \<Rightarrow> ('p, 'j) request_record \<Rightarrow> unit res" where
  "check_request_record matching q =
     (if length matching > 1 then invalid_store ''request identity has multiple Tasks''
      else if (case qr_task_id q of None \<Rightarrow> False
               | Some task_id \<Rightarrow> \<not> (matching \<noteq> [] \<and> tk_task_id (hd matching) = task_id))
      then invalid_store ''request Task reference is invalid''
      else if qr_synchronous_execution q \<noteq> None \<and> (qr_task_id q \<noteq> None \<or> matching \<noteq> [])
      then invalid_store ''request cannot reference both Task and synchronous execution''
      else if qr_mutation_result q \<noteq> None
        \<and> (qr_task_id q \<noteq> None \<or> matching \<noteq> [] \<or> qr_synchronous_execution q \<noteq> None
           \<or> qr_expires_at_ms q = None)
      then invalid_store ''retained mutation result must be the only settled request result''
      else if matching \<noteq> [] \<and> tk_is_terminal (hd matching) \<noteq> (qr_expires_at_ms q \<noteq> None)
      then invalid_store ''Task request retention does not match terminal state''
      else if (case qr_synchronous_execution q of None \<Rightarrow> False
               | Some x \<Rightarrow> sync_is_terminal (ssx_state x) \<noteq> (qr_expires_at_ms q \<noteq> None))
      then invalid_store ''synchronous request retention does not match terminal state''
      else Ok ())"

definition restore_dedup :: "dedup_index \<Rightarrow> ('p, 'j) request_record \<Rightarrow> dedup_index res" where
  "restore_dedup dedup q =
     (case decide_and_reserve dedup (qr_request_id q) (qr_payload_sha256 q) 0 False of
        (dedup, decision) \<Rightarrow>
          rbind decision (\<lambda>_.
          case qr_expires_at_ms q of
            None \<Rightarrow> Ok dedup
          | Some expiry \<Rightarrow>
              rbind (dedup_settle dedup (qr_request_id q) (saturating_sub expiry REQUEST_RETENTION_MS))
                (\<lambda>(dedup, _). Ok dedup)))"

fun restore_requests ::
  "'j wire_codec \<Rightarrow> ('p, 'r) task_record list \<Rightarrow> ('p, 'j) request_record list \<Rightarrow> dedup_index \<Rightarrow>
   ('p, 'j) synchronous_execution_record list \<Rightarrow> 'j retained_mutation_record list \<Rightarrow>
   (dedup_index \<times> ('p, 'j) synchronous_execution_record list \<times> 'j retained_mutation_record list) res" where
  "restore_requests k tasks [] dedup synchronous mutations = Ok (dedup, synchronous, mutations)"
| "restore_requests k tasks (q # rest) dedup synchronous mutations =
     rbind (check_request_record (filter (\<lambda>t. tk_request_id t = Some (qr_request_id q)) tasks) q) (\<lambda>_.
     rbind (restore_dedup dedup q) (\<lambda>dedup.
     let mutations = mutations @ (case qr_mutation_result q of None \<Rightarrow> []
           | Some j \<Rightarrow> [\<lparr>rm_request_id = qr_request_id q, rm_result = j\<rparr>])
     in rbind (case qr_synchronous_execution q of None \<Rightarrow> Ok []
               | Some x \<Rightarrow> rbind (synchronous_into_runtime k (qr_request_id q) x) (\<lambda>x. Ok [x])) (\<lambda>xs.
        restore_requests k tasks rest dedup (synchronous @ xs) mutations)))"

definition runtime_of :: "'j wire_codec \<Rightarrow> ('p, 'r, 'j) canonical_state \<Rightarrow> ('p, 'r, 'j) runtime_state res" where
  "runtime_of k c =
     (if cn_schema_version c \<noteq> STORE_SCHEMA_VERSION
      then err ProtocolIncompatible ''unsupported store schema''
      else
        rbind (collect task_into_runtime (cn_tasks c)) (\<lambda>tasks.
        rbind (restore_requests k tasks (cn_request_records c) [] [] []) (\<lambda>(dedup, synchronous, mutations).
        rbind (automation_records (cn_automations c) (cn_automation_executions c)) (\<lambda>(automations, executions).
        if \<not> distinct (map tk_execution_id tasks @ map sx_execution_id synchronous)
        then invalid_store ''duplicate canonical execution identity''
        else
          rbind (validate_reservations (cn_reservations c) tasks synchronous) (\<lambda>_.
          rbind (ok_or (try_fold_add 0 (map rv_reserved_bytes (cn_reservations c)))
                   (domain_error_new IoError ''reservation accounting overflow'')) (\<lambda>reserved_bytes.
          Ok \<lparr>rs_revision = cn_store_revision c, rs_used_bytes = 0, rs_reserved_bytes = reserved_bytes,
              rs_tasks = tasks, rs_synchronous_executions = synchronous, rs_dedup = dedup,
              rs_automations = automations, rs_automation_executions = executions,
              rs_retained_mutations = mutations\<rparr>))))))"

section \<open>The check of every load and commit\<close>

definition limit_err :: "string \<Rightarrow> 'a res" where
  "limit_err message = err ResourceLimit message"

fun check_artifacts :: "text_codec \<Rightarrow> artifact_record list \<Rightarrow> string list \<Rightarrow> u64 \<Rightarrow> u64 res" where
  "check_artifacts c [] refs bytes = Ok bytes"
| "check_artifacts c (a # rest) refs bytes =
     rbind (validate_artifact_record c a) (\<lambda>_.
     if art_ref a \<in> set refs then invalid_store ''duplicate artifact reference''
     else rbind (ok_or (checked_add bytes (art_size a))
                  (domain_error_new ResourceLimit ''artifact byte accounting overflow'')) (\<lambda>bytes.
          check_artifacts c rest (art_ref a # refs) bytes))"

definition running_tasks :: "('p, 'r, 'j) canonical_state \<Rightarrow> nat" where
  "running_tasks c = length (filter (\<lambda>t. st_state t = TaskRunning) (cn_tasks c))"

definition queued_tasks :: "('p, 'r, 'j) canonical_state \<Rightarrow> nat" where
  "queued_tasks c = length (filter (\<lambda>t. st_state t \<in> {TaskCreated, TaskQueued}) (cn_tasks c))"

definition terminal_tasks :: "('p, 'r, 'j) canonical_state \<Rightarrow> nat" where
  "terminal_tasks c = length (cn_tasks c) - (running_tasks c + queued_tasks c)"

definition terminal_of_automation :: "automation_execution_record list \<Rightarrow> automation_id \<Rightarrow> nat" where
  "terminal_of_automation xs a = length (filter (\<lambda>x. xr_is_terminal x \<and> xr_automation_id x = a) xs)"

definition reservation_sum :: "reservation_record list \<Rightarrow> nat option" where
  "reservation_sum rs =
     (if list_ex (\<lambda>r. rv_reserved_bytes r < RESERVE_FLOOR_BYTES) rs \<or> \<not> distinct (map rv_execution_id rs)
      then None else Some (sum_list (map (unat \<circ> rv_reserved_bytes) rs)))"

definition validate_canonical ::
  "'j wire_codec \<Rightarrow> text_codec \<Rightarrow> ('p, 'r, 'j) canonical_state \<Rightarrow> nat \<Rightarrow> unit res" where
  "validate_canonical k tc c encoded_bytes =
     (if cn_schema_version c \<noteq> 1 then err ProtocolIncompatible ''unsupported store schema''
      else if length (cn_request_records c) > 4096 \<or> length (cn_automations c) > 256
        \<or> length (cn_artifact_manifest c) > MAX_ARTIFACT_RECORDS
      then limit_err ''store collection exceeds its record limit''
      else if \<not> distinct (map qr_request_id (cn_request_records c))
      then invalid_store ''duplicate request identity''
      else if list_ex (\<lambda>a. \<not> is_ok (validate_automation (sau_automation a))) (cn_automations c)
      then invalid_store ''canonical Automation is invalid''
      else if \<not> distinct (map st_task_id (cn_tasks c)) then invalid_store ''duplicate Task identity''
      else if \<not> distinct (map st_execution_id (cn_tasks c))
      then invalid_store ''duplicate Task execution identity''
      else if running_tasks c > 64 \<or> queued_tasks c > 256 \<or> terminal_tasks c > 500
      then limit_err ''Task registry exceeds its retention limit''
      else if \<not> distinct (map (au_automation_id \<circ> sau_automation) (cn_automations c))
      then invalid_store ''duplicate Automation identity''
      else if \<not> distinct (map (es_execution_id \<circ> xr_summary) (cn_automation_executions c))
      then invalid_store ''duplicate AutomationExecution identity''
      else if length (filter xr_is_terminal (cn_automation_executions c)) > 2000
        \<or> length (filter (\<lambda>x. \<not> xr_is_terminal x) (cn_automation_executions c)) > 320
        \<or> list_ex (\<lambda>x. terminal_of_automation (cn_automation_executions c) (xr_automation_id x) > 100)
            (cn_automation_executions c)
      then limit_err ''AutomationExecution history exceeds its retention limit''
      else
        rbind (check_artifacts tc (cn_artifact_manifest c) [] 0) (\<lambda>artifact_bytes.
        if artifact_bytes > MAX_ARTIFACT_TOTAL_BYTES
        then limit_err ''artifact manifest exceeds its byte limit''
        else if (case reservation_sum (cn_reservations c) of None \<Rightarrow> True
                 | Some reserved \<Rightarrow> encoded_bytes + reserved > unat STORE_LIMIT_BYTES)
        then limit_err ''store plus reservations exceeds hard limit''
        else if \<not> is_ok (runtime_of k c)
        then invalid_store ''canonical Task or request state is invalid''
        else Ok ()))"

end
