(* ===== verification/Stored_Roundtrip.thy ===== *)
theory Stored_Roundtrip
  imports Stored_Restore "HOL-Library.Multiset"
begin

text \<open>
  What a commit writes and the next load reads: every state that satisfies the canonical invariant
  has a canonical form, and restoring that form gives the state back, its synchronous executions and
  retained mutations listed in the order of the request index.
\<close>

section \<open>One record\<close>

lemma filesystem_route_inv [simp]: "filesystem_route_from (stored_filesystem_route_from r) = r"
  by (cases r) simp_all

lemma preflight_inv [simp]: "preflight_from (stored_preflight_from r) = r"
  by (cases r) simp_all

lemma network_route_inv [simp]: "network_route_from (stored_network_route_from r) = r"
  by (cases r) simp_all

lemma visual_route_inv [simp]: "visual_route_from (stored_visual_route_from r) = r"
  by (cases r) simp_all

lemma package_fact_inv [simp]: "package_fact_from (stored_package_fact_from r) = r"
  by (cases r) simp_all

lemma android_route_inv [simp]: "android_route_from (stored_android_route_from r) = r"
  by (cases r) simp_all

lemma executor_request_inv [simp]: "executor_request_from (stored_route_from r) = r"
  by (cases r) simp_all

lemma stored_lifecycle_inv:
  assumes "tl_state l = TaskCancelled \<Longrightarrow> tl_cancel_requested l"
  shows "stored_lifecycle (tl_state l) (tl_cancel_requested l) = Ok l"
proof -
  obtain st c where l: "l = \<lparr>tl_state = st, tl_cancel_requested = c\<rparr>" by (cases l)
  show ?thesis
    using assms unfolding l
    by (cases st; cases c)
      (simp_all add: stored_lifecycle_def rebuild_events_def lifecycle_new_def lifecycle_apply_defs)
qed

lemma stored_task_valid_from: "stored_task_valid (stored_task_from t)
    \<longleftrightarrow> RESERVE_FLOOR_BYTES \<le> tk_reserved_bytes t \<and> fields_fit t"
  by (cases "tk_state t") (simp_all add: stored_task_valid_def stored_task_from_def fields_fit_def)

lemma stored_origin_from:
  assumes "is_container t = container_operation t"
  shows "stored_origin (stored_task_from t) = Ok (tk_origin t)"
  using assms
  by (cases "tk_origin t") (simp_all add: stored_origin_def stored_task_from_def is_container_def
      container_operation_def tk_request_id_def tk_executor_def Let_def)

lemma task_restored:
  assumes "task_valid t"
  shows "task_into_runtime (stored_task_from t) = Ok t"
proof -
  have v: "stored_task_valid (stored_task_from t)" "is_container t = container_operation t" "fields_fit t"
    using assms by (simp_all add: task_valid_def stored_task_valid_from)
  have "stored_lifecycle (tk_state t) (tl_cancel_requested (tk_lifecycle t)) = Ok (tk_lifecycle t)"
    unfolding tk_state_def
    by (rule stored_lifecycle_inv) (use v(3) in \<open>simp add: fields_fit_def tk_state_def\<close>)
  then show ?thesis
    unfolding task_into_runtime_def stored_origin_from[OF v(2)]
    by (simp add: v(1)) (simp add: stored_task_from_def)
qed

text \<open>A synchronous record that its own load accepts.\<close>

definition sync_storable :: "'j wire_codec \<Rightarrow> ('p, 'j) synchronous_execution_record \<Rightarrow> bool" where
  "sync_storable k x \<longleftrightarrow>
     (\<exists>measured. measured_terminal k (sx_result x) (sx_error x) = Ok measured \<and>
        sync_fields_valid measured (sx_state x) (sx_operation x) (sx_ended_at x) (sx_result x)
          (sx_error x) (sx_reserved_bytes x) (sx_terminal_bytes x))"

lemma sync_restored:
  assumes "sync_storable k x"
  shows "synchronous_into_runtime k (sx_request_id x) (stored_synchronous_from x) = Ok x"
  using assms by (auto simp: sync_storable_def synchronous_into_runtime_def stored_synchronous_from_def)

lemma collect_map:
  assumes "\<And>x. x \<in> set xs \<Longrightarrow> f (g x) = Ok x"
  shows "collect f (map g xs) = Ok xs"
  using assms by (induction xs) simp_all

lemma collect_ok:
  assumes "\<And>x. x \<in> set xs \<Longrightarrow> f x = Ok (g x)"
  shows "collect f xs = Ok (map g xs)"
  using assms by (induction xs) simp_all

section \<open>The request records\<close>

definition request_synchronous ::
  "('p, 'r, 'j) runtime_state \<Rightarrow> retained_request \<Rightarrow> ('p, 'j) synchronous_execution_record list" where
  "request_synchronous s e = filter (\<lambda>x. sx_request_id x = rr_request_id e) (rs_synchronous_executions s)"

definition request_mutations ::
  "('p, 'r, 'j) runtime_state \<Rightarrow> retained_request \<Rightarrow> 'j retained_mutation_record list" where
  "request_mutations s e = filter (\<lambda>m. rm_request_id m = rr_request_id e) (rs_retained_mutations s)"

definition request_tasks :: "('p, 'r, 'j) runtime_state \<Rightarrow> retained_request \<Rightarrow> ('p, 'r) task_record list" where
  "request_tasks s e = filter (\<lambda>t. tk_request_id t = Some (rr_request_id e)) (rs_tasks s)"

definition record_of :: "('p, 'r, 'j) runtime_state \<Rightarrow> retained_request \<Rightarrow> ('p, 'j) request_record" where
  "record_of s e = \<lparr>qr_request_id = rr_request_id e, qr_payload_sha256 = rr_payload_sha256 e,
     qr_expires_at_ms = rr_expires_at_ms e,
     qr_task_id = (case request_tasks s e of [] \<Rightarrow> None | t # _ \<Rightarrow> Some (tk_task_id t)),
     qr_synchronous_execution = (case request_synchronous s e of [] \<Rightarrow> None
        | x # _ \<Rightarrow> Some (stored_synchronous_from x)),
     qr_mutation_result = (case request_mutations s e of [] \<Rightarrow> None | m # _ \<Rightarrow> Some (rm_result m))\<rparr>"

lemma owners_split: "owner_count s (rr_request_id e)
    = length (request_tasks s e) + length (request_synchronous s e) + length (request_mutations s e)"
  by (simp add: owner_count_def task_owners_def request_tasks_def request_synchronous_def request_mutations_def)

lemma request_record_from_eq:
  "request_record_from s e = (if owner_count s (rr_request_id e) \<le> 1 then Ok (record_of s e)
     else invalid_store ''request identity has multiple canonical results'')"
  unfolding owners_split
  by (simp add: request_record_from_def record_of_def request_tasks_def request_synchronous_def
      request_mutations_def Let_def not_le)

lemma dedup_entry_known:
  assumes "dedup_invar d" "e \<in> set d"
  shows "dedup_known d (rr_request_id e) = Some (rr_payload_sha256 e, rr_expires_at_ms e)"
  using assms by (auto simp: dedup_invar_def dedup_known_Some)

lemma held_owner:
  assumes "requests_held s" "e \<in> set (rs_dedup s)"
  shows "owner_count s (rr_request_id e) \<le> 1"
  using assms dedup_entry_known[OF requests_held_invar[OF assms(1)] assms(2)]
  by (auto simp: requests_held_def)

lemma retained_iff: "list_ex (\<lambda>e. rr_request_id e = r) d \<longleftrightarrow> dedup_known d r \<noteq> None"
  using find_None_known[of r d] by (auto simp: dedup_known_def list_ex_iff)

lemma canonical_of_held:
  assumes "requests_held s"
  shows "canonical_of s = Ok \<lparr>cn_schema_version = STORE_SCHEMA_VERSION, cn_store_revision = rs_revision s,
     cn_request_records = map (record_of s) (rs_dedup s), cn_tasks = map stored_task_from (rs_tasks s),
     cn_automations = map stored_automation_from (rs_automations s),
     cn_automation_executions = rs_automation_executions s, cn_artifact_manifest = [],
     cn_reservations = reservation_records (rs_tasks s) (rs_synchronous_executions s)\<rparr>"
proof -
  have "collect (request_record_from s) (rs_dedup s) = Ok (map (record_of s) (rs_dedup s))"
    using held_owner[OF assms] by (intro collect_ok) (simp add: request_record_from_eq)
  moreover have "\<not> list_ex (\<lambda>x. \<not> list_ex (\<lambda>e. rr_request_id e = sx_request_id x) (rs_dedup s))
      (rs_synchronous_executions s)"
    using assms unfolding retained_iff by (auto simp: requests_held_def sync_held_def list_ex_iff)
  moreover have "\<not> list_ex (\<lambda>m. \<not> list_ex (\<lambda>e. rr_request_id e = rm_request_id m) (rs_dedup s))
      (rs_retained_mutations s)"
    using assms unfolding retained_iff by (auto simp: requests_held_def mutation_held_def list_ex_iff)
  ultimately show ?thesis by (simp add: canonical_of_def Let_def)
qed

section \<open>The request index\<close>

definition entry_storable :: "retained_request \<Rightarrow> bool" where
  "entry_storable e \<longleftrightarrow> sha256_hex (rr_payload_sha256 e)
     \<and> (case rr_expires_at_ms e of None \<Rightarrow> True | Some expiry \<Rightarrow> REQUEST_RETENTION_MS \<le> expiry)"

lemma entry_unexpired: "entry_storable e \<Longrightarrow> unexpired 0 e"
  by (auto simp: entry_storable_def unexpired_def word_less_nat_alt word_le_nat_alt split: option.splits)

lemma position_last:
  "(\<And>x. x \<in> set xs \<Longrightarrow> \<not> P x) \<Longrightarrow> P y \<Longrightarrow> position P (xs @ [y]) = Some (length xs)"
  by (induction xs) simp_all

lemma restore_expiry:
  assumes "REQUEST_RETENTION_MS \<le> expiry"
  shows "checked_add (saturating_sub expiry REQUEST_RETENTION_MS) REQUEST_RETENTION_MS = Some expiry"
proof -
  have "unat (saturating_sub expiry REQUEST_RETENTION_MS) + unat REQUEST_RETENTION_MS = unat expiry"
    using assms by (simp add: unat_saturating_sub word_le_nat_alt)
  moreover have "saturating_sub expiry REQUEST_RETENTION_MS + REQUEST_RETENTION_MS = expiry"
    using assms by (simp add: saturating_sub_def)
  ultimately show ?thesis using unsigned_less[where w = expiry and ?'a = nat] by (simp add: checked_add_def)
qed

lemma restore_dedup_entry:
  fixes q :: "('p, 'j) request_record"
  assumes "\<And>e'. e' \<in> set d \<Longrightarrow> entry_storable e' \<and> rr_request_id e' \<noteq> rr_request_id e"
    and "entry_storable e" "length d < MAX_RETAINED_REQUESTS"
    and q: "qr_request_id q = rr_request_id e" "qr_payload_sha256 q = rr_payload_sha256 e"
      "qr_expires_at_ms q = rr_expires_at_ms e"
  shows "restore_dedup d q = Ok (d @ [e])"
proof -
  have f: "filter (unexpired 0) d = d"
    using assms(1) entry_unexpired by (intro filter_True) blast
  have n: "List.find (\<lambda>e'. rr_request_id e' = rr_request_id e) d = None"
    using assms(1) by (auto simp: find_None_iff)
  let ?o = "\<lparr>rr_request_id = rr_request_id e, rr_payload_sha256 = rr_payload_sha256 e,
    rr_expires_at_ms = None\<rparr>"
  have D: "decide_and_reserve d (rr_request_id e) (rr_payload_sha256 e) 0 False = (d @ [?o], Ok Admit)"
    using assms(2,3) f n by (simp add: decide_and_reserve_def entry_storable_def Let_def)
  have p: "position (\<lambda>e'. rr_request_id e' = rr_request_id e) (d @ [?o]) = Some (length d)"
    using assms(1) by (intro position_last) auto
  show ?thesis
  proof (cases "rr_expires_at_ms e")
    case None
    then have "?o = e" by (cases e) simp
    with D None show ?thesis by (simp add: restore_dedup_def q)
  next
    case (Some expiry)
    then have "REQUEST_RETENTION_MS \<le> expiry" using assms(2) by (simp add: entry_storable_def)
    then have "dedup_settle (d @ [?o]) (rr_request_id e) (saturating_sub expiry REQUEST_RETENTION_MS)
        = Ok (d @ [?o\<lparr>rr_expires_at_ms := Some expiry\<rparr>], expiry)"
      by (simp add: dedup_settle_def p restore_expiry)
    moreover have "?o\<lparr>rr_expires_at_ms := Some expiry\<rparr> = e" using Some by (cases e) simp
    ultimately show ?thesis using D Some by (simp add: restore_dedup_def q)
  qed
qed

section \<open>The request records load\<close>

definition ordered_synchronous :: "('p, 'r, 'j) runtime_state \<Rightarrow> ('p, 'j) synchronous_execution_record list" where
  "ordered_synchronous s = concat (map (request_synchronous s) (rs_dedup s))"

definition ordered_mutations :: "('p, 'r, 'j) runtime_state \<Rightarrow> 'j retained_mutation_record list" where
  "ordered_mutations s = concat (map (request_mutations s) (rs_dedup s))"

definition storable :: "'j wire_codec \<Rightarrow> ('p, 'r, 'j) runtime_state \<Rightarrow> bool" where
  "storable k s \<longleftrightarrow> list_all (sync_storable k) (rs_synchronous_executions s)
     \<and> list_all entry_storable (rs_dedup s)
     \<and> list_all (\<lambda>r. ar_deleted_at r \<noteq> None \<longrightarrow> ar_active_execution_id r \<noteq> None \<and> ar_next_due_at r = None)
         (rs_automations s)
     \<and> list_all (\<lambda>x. \<exists>r\<in>set (rs_automations s). aid r = xr_automation_id x) (rs_automation_executions s)"

lemma single_owner:
  assumes "length as + length bs + length cs \<le> (1::nat)"
  obtains "as = []" "bs = []" "cs = []" | a where "as = [a]" "bs = []" "cs = []"
    | b where "as = []" "bs = [b]" "cs = []" | c where "as = []" "bs = []" "cs = [c]"
  using assms by (cases as; cases bs; cases cs) auto

lemma request_tasks_filter:
  "filter (\<lambda>t. tk_request_id t = Some (qr_request_id (record_of s e))) (rs_tasks s) = request_tasks s e"
  by (simp add: request_tasks_def record_of_def)

lemma filter_single: "filter P xs = [x] \<Longrightarrow> x \<in> set xs \<and> P x"
  using set_filter[of P xs] by auto

lemma request_record_checked:
  assumes held: "requests_held s" and e: "e \<in> set (rs_dedup s)"
  shows "check_request_record (request_tasks s e) (record_of s e) = Ok ()"
proof -
  note k = dedup_entry_known[OF requests_held_invar[OF held] e]
  have o: "length (request_tasks s e) + length (request_synchronous s e) + length (request_mutations s e) \<le> 1"
    using held_owner[OF held e] unfolding owners_split .
  show ?thesis
    using o
  proof (cases rule: single_owner)
    case 1
    then show ?thesis by (simp add: check_request_record_def record_of_def)
  next
    case (2 t)
    then have "t \<in> set (rs_tasks s)" "tk_request_id t = Some (rr_request_id e)"
      using filter_single[of _ "rs_tasks s" t] unfolding request_tasks_def by blast+
    then have "tk_is_terminal t = (rr_expires_at_ms e \<noteq> None)"
      using held k by (auto simp: requests_held_def task_held_def)
    with 2 show ?thesis by (simp add: check_request_record_def record_of_def)
  next
    case (3 x)
    then have x: "x \<in> set (rs_synchronous_executions s)" "sx_request_id x = rr_request_id e"
      using filter_single[of _ "rs_synchronous_executions s" x] unfolding request_synchronous_def by blast+
    then have "sync_held (rs_dedup s) x" using held by (simp add: requests_held_def)
    then have "sync_is_terminal (sx_state x) = (rr_expires_at_ms e \<noteq> None)"
      using k x(2) by (simp add: sync_held_def)
    with 3 show ?thesis by (simp add: check_request_record_def record_of_def stored_synchronous_from_def)
  next
    case (4 m)
    then have m: "m \<in> set (rs_retained_mutations s)" "rm_request_id m = rr_request_id e"
      using filter_single[of _ "rs_retained_mutations s" m] unfolding request_mutations_def by blast+
    then have "mutation_held (rs_dedup s) m" using held by (simp add: requests_held_def)
    then obtain y where "rr_expires_at_ms e = Some y" using k m(2) by (auto simp: mutation_held_def)
    with 4 show ?thesis by (simp add: check_request_record_def record_of_def)
  qed
qed

lemma record_of_fields [simp]:
  "qr_request_id (record_of s e) = rr_request_id e"
  "qr_payload_sha256 (record_of s e) = rr_payload_sha256 e"
  "qr_expires_at_ms (record_of s e) = rr_expires_at_ms e"
  by (simp_all add: record_of_def)

lemma record_mutations:
  assumes "length (request_mutations s e) \<le> 1"
  shows "(case qr_mutation_result (record_of s e) of None \<Rightarrow> []
      | Some j \<Rightarrow> [\<lparr>rm_request_id = qr_request_id (record_of s e), rm_result = j\<rparr>]) = request_mutations s e"
proof (cases "request_mutations s e")
  case Nil
  then show ?thesis by (simp add: record_of_def)
next
  case (Cons m ms)
  then have ms: "request_mutations s e = [m]" using assms by simp
  then have "rm_request_id m = rr_request_id e"
    using filter_single[of _ "rs_retained_mutations s" m] unfolding request_mutations_def by blast
  with ms show ?thesis by (cases m) (simp add: record_of_def)
qed

lemma record_synchronous:
  assumes "length (request_synchronous s e) \<le> 1"
    and "\<And>x. x \<in> set (rs_synchronous_executions s) \<Longrightarrow> sync_storable k x"
  shows "(case qr_synchronous_execution (record_of s e) of None \<Rightarrow> Ok []
      | Some x \<Rightarrow> rbind (synchronous_into_runtime k (qr_request_id (record_of s e)) x) (\<lambda>x. Ok [x]))
    = Ok (request_synchronous s e)"
proof (cases "request_synchronous s e")
  case Nil
  then show ?thesis by (simp add: record_of_def)
next
  case (Cons x xs)
  then have xs: "request_synchronous s e = [x]" using assms by simp
  then have x: "x \<in> set (rs_synchronous_executions s)" "sx_request_id x = rr_request_id e"
    using filter_single[of _ "rs_synchronous_executions s" x] unfolding request_synchronous_def by blast+
  have "synchronous_into_runtime k (rr_request_id e) (stored_synchronous_from x) = Ok x"
    using sync_restored[OF assms(2)[OF x(1)]] x(2) by simp
  with xs show ?thesis by (simp add: record_of_def)
qed

lemma requests_restored:
  assumes held: "requests_held s" and store: "storable k s"
    and split: "rs_dedup s = d @ es"
  shows "restore_requests k (rs_tasks s) (map (record_of s) es) d xs ms
    = Ok (d @ es, xs @ concat (map (request_synchronous s) es), ms @ concat (map (request_mutations s) es))"
  using split
proof (induction es arbitrary: d xs ms)
  case Nil
  then show ?case by simp
next
  case (Cons e es)
  have e: "e \<in> set (rs_dedup s)" using Cons.prems by simp
  have D: "distinct (map rr_request_id (rs_dedup s))" "length (rs_dedup s) \<le> MAX_RETAINED_REQUESTS"
    using requests_held_invar[OF held] by (simp_all add: dedup_invar_def)
  have S: "\<And>e. e \<in> set (rs_dedup s) \<Longrightarrow> entry_storable e"
    "\<And>x. x \<in> set (rs_synchronous_executions s) \<Longrightarrow> sync_storable k x"
    using store by (simp_all add: storable_def list_all_iff)
  have "entry_storable e' \<and> rr_request_id e' \<noteq> rr_request_id e" if "e' \<in> set d" for e'
  proof -
    have "rr_request_id e' \<in> rr_request_id ` set d" using that by (rule imageI)
    moreover have "rr_request_id e \<notin> rr_request_id ` set d" using D(1) unfolding Cons.prems by auto
    ultimately have "rr_request_id e' \<noteq> rr_request_id e" by metis
    then show ?thesis using S(1)[of e'] that Cons.prems by simp
  qed
  then have r: "restore_dedup d (record_of s e) = Ok (d @ [e])"
    using S(1)[OF e] D(2) unfolding Cons.prems by (intro restore_dedup_entry) simp_all
  have l: "length (request_mutations s e) \<le> 1" "length (request_synchronous s e) \<le> 1"
    using held_owner[OF held e] unfolding owners_split by simp_all
  show ?case
    using Cons.IH[of "d @ [e]"] Cons.prems record_mutations[OF l(1)] record_synchronous[OF l(2) S(2)]
    by (simp add: request_tasks_filter request_record_checked[OF held e] r Let_def del: record_of_fields(1))
qed

section \<open>The whole state loads\<close>

lemma stored_automation_fields [simp]:
  "sau_automation (stored_automation_from r) = ar_automation r"
  "sau_next_due_at (stored_automation_from r) = ar_next_due_at r"
  "sau_deleted (stored_automation_from r) = (ar_deleted_at r \<noteq> None)"
  "sau_deleted_at (stored_automation_from r) = ar_deleted_at r"
  "sau_active_execution_id (stored_automation_from r) = ar_active_execution_id r"
  "sau_run_requested_at (stored_automation_from r) = ar_run_requested_at r"
  by (simp_all add: stored_automation_from_def)

lemma automations_restored:
  assumes "\<And>r. r \<in> set rs \<Longrightarrow> ar_deleted_at r \<noteq> None \<Longrightarrow>
      ar_active_execution_id r \<noteq> None \<and> ar_next_due_at r = None"
    and "distinct (map aid rs)" and "set seen \<inter> aid ` set rs = {}"
  shows "restore_automations seen (map stored_automation_from rs) = Ok rs"
  using assms
proof (induction rs arbitrary: seen)
  case Nil
  then show ?case by simp
next
  case (Cons r rs)
  have v: "stored_automation_valid (stored_automation_from r)"
    using Cons.prems(1)[of r] by (auto simp: stored_automation_valid_def)
  have "restore_automations (aid r # seen) (map stored_automation_from rs) = Ok rs"
    using Cons.prems by (intro Cons.IH) auto
  with v Cons.prems(3) show ?case by simp
qed

lemma automation_records_restored:
  assumes "storable k s" and "distinct (map aid (rs_automations s))"
  shows "automation_records (map stored_automation_from (rs_automations s)) (rs_automation_executions s)
    = Ok (rs_automations s, rs_automation_executions s)"
proof -
  have "restore_automations [] (map stored_automation_from (rs_automations s)) = Ok (rs_automations s)"
    using assms by (intro automations_restored) (simp_all add: storable_def list_all_iff)
  moreover have "collect (\<lambda>x. if list_ex (\<lambda>a. au_automation_id (sau_automation a) = xr_automation_id x)
        (map stored_automation_from (rs_automations s)) then Ok x
      else invalid_store ''Automation execution names no Automation'') (rs_automation_executions s)
    = Ok (map (\<lambda>x. x) (rs_automation_executions s))"
    using assms(1) by (intro collect_ok)
      (auto simp: storable_def list_all_iff list_ex_iff)
  ultimately show ?thesis by (simp add: automation_records_def)
qed

text \<open>Distributing a list over the request index permutes it when every element has an entry.\<close>

lemma distribute_mset:
  assumes "distinct (map f d)" and "\<And>x. x \<in> set xs \<Longrightarrow> g x \<in> f ` set d"
  shows "mset (concat (map (\<lambda>e. filter (\<lambda>x. g x = f e) xs) d)) = mset xs"
  using assms
proof (induction d arbitrary: xs)
  case Nil
  then show ?case by (cases xs) auto
next
  case (Cons e d)
  let ?xs = "filter (\<lambda>x. g x \<noteq> f e) xs"
  have "g x \<in> f ` set d" if "x \<in> set ?xs" for x using that Cons.prems(2)[of x] by auto
  then have "mset (concat (map (\<lambda>e. filter (\<lambda>x. g x = f e) ?xs) d)) = mset ?xs"
    using Cons.IH[of ?xs] Cons.prems(1) by simp
  moreover have "map (\<lambda>e. filter (\<lambda>x. g x = f e) ?xs) d = map (\<lambda>e. filter (\<lambda>x. g x = f e) xs) d"
  proof (rule map_cong[OF refl])
    fix e' assume "e' \<in> set d"
    then have "f e' \<noteq> f e" using Cons.prems(1) by (metis distinct.simps(2) image_eqI list.map(2) list.set_map)
    then show "filter (\<lambda>x. g x = f e') ?xs = filter (\<lambda>x. g x = f e') xs"
      by (auto intro: filter_cong)
  qed
  ultimately have "mset (concat (map (\<lambda>e. filter (\<lambda>x. g x = f e) xs) d)) = mset ?xs" by metis
  then show ?case using multiset_partition[of "mset xs" "\<lambda>x. g x = f e"] by simp
qed

lemma index_mem:
  assumes "dedup_known d r = Some z" shows "r \<in> rr_request_id ` set d"
  using assms find_None_known[of r d] by (cases "r \<in> rr_request_id ` set d") (auto simp: dedup_known_def)

lemma ordered_synchronous_mset:
  assumes "requests_held s"
  shows "mset (ordered_synchronous s) = mset (rs_synchronous_executions s)"
  unfolding ordered_synchronous_def request_synchronous_def
proof (rule distribute_mset)
  show "distinct (map rr_request_id (rs_dedup s))"
    using requests_held_invar[OF assms] by (simp add: dedup_invar_def)
  fix x assume "x \<in> set (rs_synchronous_executions s)"
  then have "sync_held (rs_dedup s) x" using assms by (simp add: requests_held_def)
  then show "sx_request_id x \<in> rr_request_id ` set (rs_dedup s)" by (auto simp: sync_held_def intro: index_mem)
qed

lemma ordered_mutations_mset:
  assumes "requests_held s"
  shows "mset (ordered_mutations s) = mset (rs_retained_mutations s)"
  unfolding ordered_mutations_def request_mutations_def
proof (rule distribute_mset)
  show "distinct (map rr_request_id (rs_dedup s))"
    using requests_held_invar[OF assms] by (simp add: dedup_invar_def)
  fix m assume "m \<in> set (rs_retained_mutations s)"
  then have "mutation_held (rs_dedup s) m" using assms by (simp add: requests_held_def)
  then show "rm_request_id m \<in> rr_request_id ` set (rs_dedup s)" by (auto simp: mutation_held_def intro: index_mem)
qed

section \<open>The whole state\<close>

definition restored :: "('p, 'r, 'j) runtime_state \<Rightarrow> ('p, 'r, 'j) runtime_state" where
  "restored s = s\<lparr>rs_used_bytes := 0, rs_synchronous_executions := ordered_synchronous s,
                 rs_retained_mutations := ordered_mutations s\<rparr>"

lemma map_filter_reservations:
  "map rv_execution_id (reservation_records ts xs)
    = map tk_execution_id (filter (\<lambda>t. \<not> tk_is_terminal t) ts)
      @ map sx_execution_id (filter (\<lambda>x. \<not> sync_is_terminal (sx_state x)) xs)"
  by (simp add: reservation_records_def task_reservation_record_def synchronous_reservation_record_def)

lemma reservations_validated:
  assumes ids: "identities_distinct s" and m: "mset ys = mset (rs_synchronous_executions s)"
  shows "validate_reservations (reservation_records (rs_tasks s) (rs_synchronous_executions s)) (rs_tasks s) ys
    = Ok ()"
proof -
  let ?r = "\<lambda>xs. reservation_records (rs_tasks s) xs"
  let ?P = "\<lambda>x. \<not> sync_is_terminal (sx_state x)"
  have "mset (filter ?P ys) = mset (filter ?P (rs_synchronous_executions s))"
    using m by simp
  then have "mset (map synchronous_reservation_record (filter ?P ys))
      = mset (map synchronous_reservation_record (filter ?P (rs_synchronous_executions s)))"
    unfolding mset_map by (rule arg_cong)
  then have e: "mset (?r (rs_synchronous_executions s)) = mset (?r ys)"
    by (simp only: reservation_records_def mset_append)
  have "distinct (map rv_execution_id (?r (rs_synchronous_executions s)))"
    using ids unfolding map_filter_reservations identities_distinct_def
    by (elim conjE) (erule distinct_map_append_subseq, simp_all)
  then have "inj_on rv_execution_id (set (?r (rs_synchronous_executions s)))"
    by (simp add: distinct_map)
  then have "sort_key rv_execution_id (?r (rs_synchronous_executions s)) = sort_key rv_execution_id (?r ys)"
    using e by (intro sort_key_inj_key_eq) simp_all
  then show ?thesis by (simp add: validate_reservations_def)
qed

lemma filter_sum_zero:
  fixes f :: "'a \<Rightarrow> nat"
  assumes "\<And>x. P x \<Longrightarrow> f x = g x" "\<And>x. \<not> P x \<Longrightarrow> g x = 0"
  shows "sum_list (map f (filter P xs)) = sum_list (map g xs)"
  using assms by (induction xs) simp_all

lemma reservation_total:
  assumes "accounted s"
  shows "try_fold_add 0 (map rv_reserved_bytes (reservation_records (rs_tasks s) (rs_synchronous_executions s)))
    = Some (rs_reserved_bytes s)"
proof -
  let ?l = "map rv_reserved_bytes (reservation_records (rs_tasks s) (rs_synchronous_executions s))"
  have t: "sum_list (map (\<lambda>t. unat (tk_reserved_bytes t)) (filter (\<lambda>t. \<not> tk_is_terminal t) (rs_tasks s)))
      = sum_list (map task_reservation (rs_tasks s))"
    by (rule filter_sum_zero) (simp_all add: task_reservation_def)
  have x: "sum_list (map (\<lambda>x. unat (sx_reserved_bytes x))
        (filter (\<lambda>x. \<not> sync_is_terminal (sx_state x)) (rs_synchronous_executions s)))
      = sum_list (map sync_reservation (rs_synchronous_executions s))"
    by (rule filter_sum_zero) (simp_all add: sync_reservation_def)
  have s: "sum_list (map unat ?l) = reservations s"
    by (simp add: reservation_records_def task_reservation_record_def synchronous_reservation_record_def
        comp_def t x reservations_def)
  have "reservations s < 2 ^ 64"
    using assms unsigned_less[where w = "rs_reserved_bytes s" and ?'a = nat] by (simp add: accounted_def)
  then obtain n where n: "try_fold_add 0 ?l = Some n" using try_fold_add_exists[of 0 ?l] s by auto
  from try_fold_add_Some[OF n] have "unat n = unat (rs_reserved_bytes s)"
    using assms s by (simp add: accounted_def)
  then show ?thesis using n by (simp add: word_unat_eq_iff)
qed

lemma runtime_of_canonical:
  assumes inv: "core_invar s" and store: "storable k s" and c: "canonical_of s = Ok c"
  shows "runtime_of k c = Ok (restored s)"
proof -
  note D = core_invarD[OF inv]
  have c: "c = \<lparr>cn_schema_version = STORE_SCHEMA_VERSION, cn_store_revision = rs_revision s,
     cn_request_records = map (record_of s) (rs_dedup s), cn_tasks = map stored_task_from (rs_tasks s),
     cn_automations = map stored_automation_from (rs_automations s),
     cn_automation_executions = rs_automation_executions s, cn_artifact_manifest = [],
     cn_reservations = reservation_records (rs_tasks s) (rs_synchronous_executions s)\<rparr>"
    using c by (simp add: canonical_of_held[OF D(3)])
  have tasks: "collect task_into_runtime (map stored_task_from (rs_tasks s)) = Ok (rs_tasks s)"
    by (intro collect_map task_restored D(7))
  have reqs: "restore_requests k (rs_tasks s) (map (record_of s) (rs_dedup s)) [] [] []
      = Ok (rs_dedup s, ordered_synchronous s, ordered_mutations s)"
    using requests_restored[OF D(3) store, of "[]" "rs_dedup s"]
    by (simp add: ordered_synchronous_def ordered_mutations_def)
  have autos: "automation_records (map stored_automation_from (rs_automations s)) (rs_automation_executions s)
      = Ok (rs_automations s, rs_automation_executions s)"
    using store D(2) by (intro automation_records_restored) (simp_all add: execution_linked_def)
  note m = ordered_synchronous_mset[OF D(3)]
  have "mset (map tk_execution_id (rs_tasks s) @ map sx_execution_id (ordered_synchronous s))
      = mset (map tk_execution_id (rs_tasks s) @ map sx_execution_id (rs_synchronous_executions s))"
    unfolding mset_append mset_map m ..
  then have ids: "distinct (map tk_execution_id (rs_tasks s) @ map sx_execution_id (ordered_synchronous s))"
    using D(4) unfolding identities_distinct_def by (metis mset_eq_imp_distinct_iff)
  show ?thesis
    unfolding c runtime_of_def using tasks reqs autos ids reservations_validated[OF D(4) m]
      reservation_total[OF D(1)]
    by (simp add: restored_def)
qed

text \<open>The invariant reads the reordered lists as multisets.\<close>

lemma restored_core:
  assumes inv: "core_invar s"
  shows "core_invar (restored s)"
proof -
  note D = core_invarD[OF inv]
  note x = ordered_synchronous_mset[OF D(3)] and m = ordered_mutations_mset[OF D(3)]
  have sx: "set (ordered_synchronous s) = set (rs_synchronous_executions s)"
    using x by (rule mset_eq_setD)
  have sm: "set (ordered_mutations s) = set (rs_retained_mutations s)"
    using m by (rule mset_eq_setD)
  have "sum_list (map sync_reservation (ordered_synchronous s))
      = sum_list (map sync_reservation (rs_synchronous_executions s))"
    using x by (metis mset_map sum_mset_sum_list)
  then have "accounted (restored s)" using D(1) by (simp add: accounted_def reservations_def restored_def)
  moreover have "execution_linked (restored s)"
    using D(2) by (simp add: execution_linked_def restored_def)
  moreover have "requests_held (restored s)"
  proof -
    have "length (filter (\<lambda>x. sx_request_id x = r) (ordered_synchronous s))
        = length (filter (\<lambda>x. sx_request_id x = r) (rs_synchronous_executions s))" for r
      using x by (metis mset_filter size_mset)
    moreover have "length (filter (\<lambda>x. rm_request_id x = r) (ordered_mutations s))
        = length (filter (\<lambda>x. rm_request_id x = r) (rs_retained_mutations s))" for r
      using m by (metis mset_filter size_mset)
    ultimately have "owner_count (restored s) r = owner_count s r" for r
      by (simp add: owner_count_def restored_def)
    then show ?thesis using D(3) by (simp add: requests_held_def restored_def sx sm)
  qed
  moreover have "identities_distinct (restored s)"
  proof -
    have "mset (map tk_execution_id (rs_tasks s) @ map sx_execution_id (ordered_synchronous s))
      = mset (map tk_execution_id (rs_tasks s) @ map sx_execution_id (rs_synchronous_executions s))"
      unfolding mset_append mset_map x ..
    from mset_eq_imp_distinct_iff[OF this] show ?thesis
      using D(4) by (simp add: identities_distinct_def restored_def)
  qed
  ultimately show ?thesis using D(7) by (simp add: core_invar_def restored_def)
qed

end
