(* ===== verification/Core_Samples.thy ===== *)
theory Core_Samples
  imports Stored_Roundtrip
begin

text \<open>
  One concrete run of the core that the witnesses of the properties evaluate: a Ready host, one
  request, its admission, its start and its settlement.
\<close>

section \<open>Ports\<close>

definition sample_codec :: "unit wire_codec" where
  "sample_codec = \<lparr>wc_value = (\<lambda>_. Some 4), wc_error = (\<lambda>_. Some 100), wc_cancel = (\<lambda>_ _. Some 200),
     wc_os_text = (\<lambda>_. []), wc_millis = (\<lambda>_. Some 1000)\<rparr>"

definition sample_snapshot :: capability_snapshot where
  "sample_snapshot = \<lparr>cs_grants = uniform_grants Available,
     cs_context = sample_context\<lparr>cc_host := ApkRuntime\<rparr>,
     cs_resolver_facts = uniform_facts Available, cs_fence = sample_fence\<rparr>"

abbreviation sample_ready :: "capability_snapshot res" where "sample_ready \<equiv> Ok sample_snapshot"

abbreviation no_report :: "admission_fence \<Rightarrow> uuid \<Rightarrow> unit res" where "no_report \<equiv> (\<lambda>_ _. Ok ())"

lemma sample_executor: "current_executor sample_ready (RouteVisual Image) =
   Ok \<lparr>ae_host = ApkRuntime, ae_provider = Shizuku, ae_execution_class = ClassShizuku,
       ae_capability_generation = 3, ae_fence = sample_fence\<rparr>"
  by (simp add: current_executor_def require_ready_def sample_snapshot_def sample_context_def
      resolve_execution_def resolve_sample)

lemma sample_digest_valid: "sha256_hex sample_digest"
  by (simp add: sha256_hex_def sample_digest_def hex_lower_def less_eq_char_def list_all_iff)

section \<open>One Task\<close>

abbreviation sample_request :: request_id where "sample_request \<equiv> UuidV4 ''r''"
abbreviation sample_task_id :: task_id where "sample_task_id \<equiv> UuidV4 ''t''"
abbreviation sample_execution :: execution_id where "sample_execution \<equiv> UuidV4 ''x''"

definition sample_admission :: "unit task_admission" where
  "sample_admission = \<lparr>ta_request_id = sample_request, ta_payload_sha256 = sample_digest,
     ta_task_id = sample_task_id, ta_execution_id = sample_execution, ta_tool = ToolVisual,
     ta_action = ''image'', ta_route = RouteVisual Image, ta_payload = (),
     ta_created_at = ''c'', ta_settlement_bound_bytes = 20000, ta_now_ms = 1000\<rparr>"

definition sample_executor_record :: executor_record where
  "sample_executor_record = \<lparr>er_host = ApkRuntime, er_provider = TokenShizuku,
     er_execution_class = ClassShizuku, er_capability_generation = 3, er_fence = fence_of sample_fence\<rparr>"

definition sample_task :: "task_lifecycle \<Rightarrow> (unit, unit) task_record" where
  "sample_task l =
     \<lparr>tk_task_id = sample_task_id, tk_execution_id = sample_execution, tk_lifecycle = l,
      tk_tool = ToolVisual, tk_action = ''image'', tk_created_at = ''c'', tk_started_at = None,
      tk_ended_at = None, tk_waiting_reason = None,
      tk_origin = OriginRequest sample_request sample_executor_record (RouteVisual Image) (),
      tk_result = None, tk_error = None, tk_reserved_bytes = 20000\<rparr>"

definition sample_state :: "u64 \<Rightarrow> u64 \<Rightarrow> u64 option \<Rightarrow> (unit, unit) task_record \<Rightarrow> (unit, unit, unit) runtime_state" where
  "sample_state used reserved expiry task =
     \<lparr>rs_revision = 0, rs_used_bytes = used, rs_reserved_bytes = reserved, rs_tasks = [task],
      rs_synchronous_executions = [],
      rs_dedup = [\<lparr>rr_request_id = sample_request, rr_payload_sha256 = sample_digest, rr_expires_at_ms = expiry\<rparr>],
      rs_automations = [], rs_automation_executions = [], rs_retained_mutations = []\<rparr>"

definition sample_queued :: "(unit, unit, unit) runtime_state" where
  "sample_queued = sample_state 2048 20000 None (sample_task \<lparr>tl_state = TaskQueued, tl_cancel_requested = False\<rparr>)"

definition sample_running :: "(unit, unit, unit) runtime_state" where
  "sample_running = sample_state 2048 20000 None
     ((sample_task \<lparr>tl_state = TaskRunning, tl_cancel_requested = False\<rparr>)\<lparr>tk_started_at := Some ''s''\<rparr>)"

definition sample_failure :: public_error where
  "sample_failure = public_error_new IoError ''visual.image'' False"

definition sample_failed :: "(unit, unit, unit) runtime_state" where
  "sample_failed = sample_state 2148 0 (Some 86402000)
     ((sample_task \<lparr>tl_state = TaskFailed, tl_cancel_requested = False\<rparr>)\<lparr>tk_started_at := Some ''s'',
        tk_ended_at := Some ''e'', tk_error := Some sample_failure\<rparr>)"

lemma sample_prune_empty:
  assumes "rs_synchronous_executions s = []" "rs_retained_mutations s = []"
  shows "prune_expired_requests k s now = s"
  using assms by (simp add: prune_expired_requests_def prune_retained_mutations_def
      prune_synchronous_history_def Let_def saturating_sub_def)

lemma sample_decide: "decide_and_reserve [] sample_request sample_digest now False =
   ([\<lparr>rr_request_id = sample_request, rr_payload_sha256 = sample_digest, rr_expires_at_ms = None\<rparr>], Ok Admit)"
  by (simp add: decide_and_reserve_def sample_digest_valid)

lemma sample_admitted:
  "admit_task_section sample_codec sample_ready sample_admission (runtime_state_default :: (unit, unit, unit) runtime_state)
     = Ok (Some sample_queued, TaskAdmitted (snapshot (sample_task \<lparr>tl_state = TaskQueued, tl_cancel_requested = False\<rparr>)))"
  by (simp add: admit_task_section_def sample_prune_empty sample_admission_def sample_decide
      runtime_state_default_def Let_def)
    (simp add: admit_new_task_def prune_task_history_def prune_flags_def sample_executor Let_def
      total_committed_and_reserved_def checked_add_def apply_queue_new max_def admitted_task_def
      sample_queued_def sample_state_def sample_task_def sample_executor_record_def executor_record_from_def)

definition sample_due :: due_codec where
  "sample_due = \<lparr>dc_clock = \<lparr>ck_parse = (\<lambda>_. None), ck_format = (\<lambda>_. [])\<rparr>, dc_in_range = (\<lambda>_. True),
     dc_zone = (\<lambda>_. None), dc_local = (\<lambda>_ _. None), dc_occurrences = (\<lambda>_. None)\<rparr>"

lemma sample_fresh: "fresh_admission runtime_state_default sample_admission"
  by (simp add: fresh_admission_def runtime_state_default_def sample_admission_def)

lemma sample_now: "ta_now_ms sample_admission = 1000"
  by (simp add: sample_admission_def)

lemma sample_step_admit: "core_step sample_codec sample_due 1000 runtime_state_default sample_queued"
  using step_admit_task[OF sample_fresh sample_admitted] by (simp add: sample_now)

lemma sample_started:
  "run_begin_section sample_ready sample_task_id ''s'' sample_queued = Ok (Some sample_running,
     RunStarted \<lparr>ax_execution_id = sample_execution, ax_task_id = Some sample_task_id,
       ax_executor = sample_executor_record, ax_payload = ()\<rparr>)"
  by (simp add: run_begin_section_def task_index_def sample_queued_def sample_running_def sample_state_def
      sample_task_def tk_is_terminal_def lifecycle_apply_defs sample_executor sample_executor_record_def
      executor_record_from_def update_task_def Let_def)

abbreviation sample_failure_outcome :: "(unit, unit) execution_outcome" where
  "sample_failure_outcome \<equiv> OutcomeFailed (public_error_new IoError ''runtime.execution'' False) 100"

lemma sample_failed_prune: "prune_task_history sample_codec sample_failed 2000 = Ok (sample_failed, False)"
  by (simp add: prune_task_history_def sample_failed_def sample_state_def sample_task_def tk_is_terminal_def
      lifecycle_is_terminal_def retained_requests_def unexpired_def pinned_by_def tk_request_id_def
      prune_flags_def Let_def)

lemma sample_settled:
  "settle_section sample_codec no_report sample_task_id sample_failure_outcome True ''e'' 2000 sample_running
     = Ok (Some sample_failed, snapshot (hd (rs_tasks sample_failed)))"
  using sample_failed_prune
  by (simp add: settle_section_def task_index_def sample_running_def sample_failed_def sample_state_def
      sample_task_def tk_is_terminal_def lifecycle_apply_defs bounded_settlement_def public_error_new_def
      sample_failure_def task_operation_def grow_used_def release_reserved_def close_task_def settle_request_def
      settled_task_def tk_request_id_def dedup_settle_def checked_add_def checked_sub_def Let_def)

lemma sample_request_task: "request_task sample_running sample_task_id"
  by (simp add: request_task_def sample_running_def sample_state_def sample_task_def is_container_def)

text \<open>The states of the run.\<close>

lemma sample_reachable:
  "core_reachable sample_codec sample_due sample_queued"
  "core_reachable sample_codec sample_due sample_running"
  "core_reachable sample_codec sample_due sample_failed"
proof -
  show q: "core_reachable sample_codec sample_due sample_queued"
    using reach_step[OF reach_initial sample_step_admit] .
  show r: "core_reachable sample_codec sample_due sample_running"
    using reach_step[OF q step_run_begin[OF sample_started]] .
  have "provider_outcome sample_failure_outcome" by (simp add: provider_outcome_def)
  then show "core_reachable sample_codec sample_due sample_failed"
    using reach_step[OF r step_settle[OF sample_request_task _ sample_settled]] by simp
qed

end
