(* ===== verification/Task_Properties.thy ===== *)
theory Task_Properties
  imports Core_Samples
begin

text \<open>
  The properties of the Task operations of the Runtime core: the canonical invariant of every
  reachable state, the admission, start, settlement, cancellation and recovery of Tasks, and what
  their history keeps.
\<close>

section \<open>Reachable states\<close>

lemma reachable_core: "core_reachable k dc s \<Longrightarrow> core_invar s"
  by (induction rule: core_reachable.induct) (auto simp: core_invar_default intro: core_step_invariant)

lemmas sample_core = sample_reachable[THEN reachable_core]

text \<open>
  C1: every state the core commits, in any order of its operations and with any answers of its
  ports, satisfies the canonical invariant: the reserved bytes are exactly the reservations of the
  work that has not settled, every unsettled AutomationExecution has its Automation and its
  container Task, a retained request has at most one record and is open exactly while it is at
  work, identities are distinct, and the fields of every Task fit its state.
\<close>

theorem reachable_invariant:
  assumes "core_reachable k dc s"
  shows "accounted s \<and> execution_linked s \<and> requests_held s \<and> identities_distinct s
    \<and> (\<forall>t\<in>set (rs_tasks s). task_valid t)"
  using reachable_core[OF assms] by (simp add: core_invar_def)

theorem reachable_invariant_witness:
  "accounted sample_running \<and> execution_linked sample_running \<and> requests_held sample_running
    \<and> identities_distinct sample_running \<and> list_all task_valid (rs_tasks sample_running)"
  using reachable_invariant[OF sample_reachable(2)] by (simp add: list_all_iff)

section \<open>Admission\<close>

lemma admitted_answers:
  assumes inv: "core_invar s" and fresh: "fresh_admission s a"
    and ok: "admit_task_section k current a s = Ok (Some s', TaskAdmitted snap)"
  shows "answers H (ta_request_id a) (ta_payload_sha256 a) (ts_task_id snap) s'"
    and "ts_task_id snap = ta_task_id a"
proof -
  obtain d dec where d: "decide_and_reserve (rs_dedup s) (ta_request_id a) (ta_payload_sha256 a)
      (ta_now_ms a) False = (d, dec)" by fastforce
  define p where "p = (prune_expired_requests k s (ta_now_ms a))\<lparr>rs_dedup := d\<rparr>"
  have dec: "dec = Ok Admit" and new: "admit_new_task k current a p = Ok (Some s', TaskAdmitted snap)"
    using ok d by (auto simp: admit_task_section_def p_def rbind_eq_Ok_iff elim: decision_cases)
  have "core_invar p" and known: "dedup_known (rs_dedup p) (ta_request_id a) = Some (ta_payload_sha256 a, None)"
    using admitted_request_core[OF inv d[unfolded dec] _ p_def] fresh by (auto simp: fresh_admission_def)
  from new show "ts_task_id snap = ta_task_id a"
    by (rule admit_new_task_Ok) (simp add: snapshot_def admitted_task_def)
  from new show "answers H (ta_request_id a) (ta_payload_sha256 a) (ts_task_id snap) s'"
    by (rule admit_new_task_Ok)
      (use known in \<open>simp add: answers_def retained_until_def snapshot_def admitted_task_def
        tk_request_id_def prune_task_history_request(1)\<close>)
qed

text \<open>
  C2: a request is admitted once. After its admission, and through any run of the core whose
  clock stays within the 24 hours that follow it, a repeated admission with the same content
  answers the Task that was admitted and commits nothing, and different content is refused.
\<close>

theorem task_admitted_once:
  assumes "core_invar s" and "fresh_admission s a"
    and "admit_task_section k current a s = Ok (Some s', TaskAdmitted snap)"
    and "core_run k dc (unat (ta_now_ms a) + 86400000) s' s''"
    and "ta_request_id b = ta_request_id a" and "unat (ta_now_ms b) < unat (ta_now_ms a) + 86400000"
    and "sha256_hex (ta_payload_sha256 b)"
  shows "if ta_payload_sha256 b = ta_payload_sha256 a
    then \<exists>t\<in>set (rs_tasks s''). tk_task_id t = ts_task_id snap \<and> tk_request_id t = Some (ta_request_id a)
      \<and> admit_task_section k current' b s'' = Ok (None, TaskReplay (snapshot t))
    else admit_task_section k current' b s'' = err_invalid ''request_id was retained with different request content''"
proof -
  let ?H = "unat (ta_now_ms a) + 86400000"
  have "core_invar s'" using admit_task_core[OF assms(1,2,3)] .
  from core_run_carries[OF assms(4) this] have run: "core_invar s''" "carries ?H s' s''" by simp_all
  have "answers ?H (ta_request_id a) (ta_payload_sha256 a) (ts_task_id snap) s'"
    using admitted_answers(1)[OF assms(1-3)] .
  then have "answers ?H (ta_request_id b) (ta_payload_sha256 a) (ts_task_id snap) s''"
    using run(2) assms(5) by (simp add: carries_def)
  from replay_admission[OF run(1) this assms(6,7), where k = k and current = current'] show ?thesis
    unfolding assms(5) .
qed

lemma sample_run:
  "core_run sample_codec sample_due (unat (ta_now_ms sample_admission) + 86400000) sample_queued sample_failed"
proof -
  have "core_run sample_codec sample_due 86401000 sample_queued sample_running"
    using run_step[OF run_refl step_run_begin[OF sample_started], of "86401000" 1000]
    by (simp add: in_window_def)
  moreover have "core_step sample_codec sample_due 2000 sample_running sample_failed"
    using step_settle[OF sample_request_task _ sample_settled] by (simp add: provider_outcome_def)
  ultimately have "core_run sample_codec sample_due 86401000 sample_queued sample_failed"
    by (rule run_step) (simp add: in_window_def)
  then show ?thesis by (simp add: sample_now)
qed

theorem task_admitted_once_witness:
  "\<exists>t\<in>set (rs_tasks sample_failed). tk_task_id t = sample_task_id \<and> tk_request_id t = Some sample_request
    \<and> admit_task_section sample_codec sample_ready (sample_admission\<lparr>ta_now_ms := 5000\<rparr>) sample_failed
      = Ok (None, TaskReplay (snapshot t))"
  using task_admitted_once[OF core_invar_default sample_fresh sample_admitted sample_run,
      of "sample_admission\<lparr>ta_now_ms := 5000\<rparr>" sample_ready]
  by (simp add: sample_admission_def sample_digest_valid snapshot_def sample_task_def)

text \<open> an admission that commits stays within the bounds of the store: the bytes in use and the
  reservations fit in 8 MiB, at most 256 Tasks are queued, at most 500 Tasks have settled, and the
  new Task is queued under the executor the host resolves now.
\<close>

lemma admission_within_bounds:
  assumes "admit_task_section k current a s = Ok (Some s', res)"
  shows "unat (rs_used_bytes s') + unat (rs_reserved_bytes s') \<le> unat STORE_LIMIT_BYTES
    \<and> length (filter (\<lambda>t. tk_state t = TaskQueued) (rs_tasks s')) \<le> MAX_QUEUED_TASKS
    \<and> length (filter tk_is_terminal (rs_tasks s')) \<le> MAX_TERMINAL_TASKS
    \<and> (\<exists>executor. current_executor current (ta_route a) = Ok executor
         \<and> tk_executor (last (rs_tasks s')) = Some (executor_record_from executor)
         \<and> res = TaskAdmitted (snapshot (last (rs_tasks s'))))"
proof -
  obtain d dec where d: "decide_and_reserve (rs_dedup s) (ta_request_id a) (ta_payload_sha256 a)
      (ta_now_ms a) False = (d, dec)" by fastforce
  have new: "admit_new_task k current a ((prune_expired_requests k s (ta_now_ms a))\<lparr>rs_dedup := d\<rparr>)
      = Ok (Some s', res)"
    using assms d by (auto simp: admit_task_section_def rbind_eq_Ok_iff elim: decision_cases)
  then show ?thesis
  proof (rule admit_new_task_Ok)
    fix s1 ch ex
    let ?n = "max (ta_settlement_bound_bytes a) RESERVE_FLOOR_BYTES"
    let ?t = "admitted_task a ex \<lparr>tl_state = TaskQueued, tl_cancel_requested = False\<rparr> ?n"
    assume prune: "prune_task_history k ((prune_expired_requests k s (ta_now_ms a))\<lparr>rs_dedup := d\<rparr>) (ta_now_ms a)
        = Ok (s1, ch)"
      and ex: "current_executor current (ta_route a) = Ok ex"
      and q: "length (filter (\<lambda>t. tk_state t = TaskQueued) (rs_tasks s1)) < MAX_QUEUED_TASKS"
      and room: "unat (rs_used_bytes s1) + unat (rs_reserved_bytes s1) + 2048 + unat ?n \<le> 8388608"
        "unat (rs_reserved_bytes s1 + ?n) = unat (rs_reserved_bytes s1) + unat ?n"
      and s': "s' = s1\<lparr>rs_used_bytes := rs_used_bytes s1 + TASK_RECORD_BYTES,
          rs_reserved_bytes := rs_reserved_bytes s1 + ?n, rs_tasks := rs_tasks s1 @ [?t]\<rparr>"
      and res: "res = TaskAdmitted (snapshot ?t)"
    have "unat (rs_used_bytes s1 + TASK_RECORD_BYTES) = unat (rs_used_bytes s1) + 2048"
      using room(1) by (simp add: unat_word_ariths)
    then have "unat (rs_used_bytes s') + unat (rs_reserved_bytes s') \<le> unat STORE_LIMIT_BYTES"
      using room by (simp add: s')
    moreover have "length (filter tk_is_terminal (rs_tasks s')) \<le> MAX_TERMINAL_TASKS"
      using prune_task_history_set(4)[OF prune]
      by (simp add: s' admitted_task_def tk_is_terminal_def lifecycle_is_terminal_def)
    ultimately show ?thesis
      using q ex by (simp add: s' res admitted_task_def tk_state_def tk_executor_def)
  qed
qed

lemma admission_within_bounds_witness:
  "unat (rs_used_bytes sample_queued) + unat (rs_reserved_bytes sample_queued) \<le> unat STORE_LIMIT_BYTES"
  using admission_within_bounds[OF sample_admitted] by (rule conjunct1)

section \<open>Settlement\<close>

fun outcome_bytes :: "('r, 'j) execution_outcome \<Rightarrow> u64" where
  "outcome_bytes (OutcomeCompleted _ b) = b"
| "outcome_bytes (OutcomeSynchronousCompleted _ b) = b"
| "outcome_bytes (OutcomeFailed _ b) = b"
| "outcome_bytes (OutcomeCancelled _ b) = b"

fun outcome_state :: "('r, 'j) execution_outcome \<Rightarrow> task_state" where
  "outcome_state (OutcomeCompleted _ _) = TaskCompleted"
| "outcome_state (OutcomeSynchronousCompleted _ _) = TaskFailed"
| "outcome_state (OutcomeFailed _ _) = TaskFailed"
| "outcome_state (OutcomeCancelled _ _) = TaskCancelled"

fun outcome_result :: "('r, 'j) execution_outcome \<Rightarrow> 'r task_terminal_result option" where
  "outcome_result (OutcomeCompleted r _) = Some r"
| "outcome_result _ = None"

text \<open>What a settled Task reports.\<close>

definition settlement_spec ::
  "('r, 'j) execution_outcome \<Rightarrow> bool \<Rightarrow> u64 \<Rightarrow> task_state \<times> 'r task_terminal_result option \<times> error_code option \<Rightarrow> bool" where
  "settlement_spec outcome cleanup reserved answer \<longleftrightarrow>
     (if \<not> cleanup then answer = (TaskInterrupted, None, Some IoError)
      else if outcome_bytes outcome > reserved then answer = (TaskFailed, None, Some ResourceLimit)
      else fst answer = outcome_state outcome \<and> fst (snd answer) = outcome_result outcome
        \<and> snd (snd answer) = (case outcome of OutcomeCompleted _ _ \<Rightarrow> None
            | OutcomeSynchronousCompleted _ _ \<Rightarrow> Some InternalError
            | OutcomeFailed e _ \<Rightarrow> Some (pe_code e) | OutcomeCancelled e _ \<Rightarrow> Some (pe_code e)))"

lemma bounded_settlement_spec:
  assumes "bounded_settlement t outcome c = (growth, event, result, error)"
    and "lifecycle_apply (tk_lifecycle t) event = Ok l" and "\<not> tk_is_terminal t"
  shows "settlement_spec outcome c (tk_reserved_bytes t) (tl_state l, result, map_option pe_code error)"
proof (cases "outcome_bytes outcome \<le> tk_reserved_bytes t \<and> c")
  case False
  have "event = EvFail c \<and> result = None
    \<and> map_option pe_code error = Some (if c then ResourceLimit else IoError)"
  proof -
    obtain b ev r er where o: "outcome_settlement outcome c = (b, ev, r, er)" by (cases "outcome_settlement outcome c")
    have "b = outcome_bytes outcome" using arg_cong[OF o, of fst] by (cases outcome) simp_all
    then have n: "\<not> (b \<le> tk_reserved_bytes t \<and> c)" using False by simp
    show ?thesis
      using assms(1) unfolding bounded_settlement_def o Let_def prod.case if_not_P[OF n]
      by (cases c) (auto simp: cleanup_unverified_error_def public_error_new_def)
  qed
  moreover have "tl_state l = (if c then TaskFailed else TaskInterrupted)"
    using assms(2,3) calculation by (auto simp: lifecycle_apply.simps tk_is_terminal_def split: if_splits)
  ultimately show ?thesis using False by (auto simp: settlement_spec_def not_le)
next
  case True
  have E: "event = fst (snd (outcome_settlement outcome True))"
    "result = outcome_result outcome \<and> map_option pe_code error = (case outcome of
      OutcomeCompleted _ _ \<Rightarrow> None | OutcomeSynchronousCompleted _ _ \<Rightarrow> Some InternalError
      | OutcomeFailed e _ \<Rightarrow> Some (pe_code e) | OutcomeCancelled e _ \<Rightarrow> Some (pe_code e))"
  proof -
    obtain b ev r er where o: "outcome_settlement outcome c = (b, ev, r, er)" by (cases "outcome_settlement outcome c")
    have "b = outcome_bytes outcome" using arg_cong[OF o, of fst] by (cases outcome) simp_all
    then have n: "b \<le> tk_reserved_bytes t \<and> c" using True by simp
    have e: "event = ev" "result = r" "map_option pe_code error = map_option pe_code er"
      using assms(1) unfolding bounded_settlement_def o Let_def prod.case if_P[OF n]
      by (cases er; auto)+
    show "event = fst (snd (outcome_settlement outcome True))"
      "result = outcome_result outcome \<and> map_option pe_code error = (case outcome of
      OutcomeCompleted _ _ \<Rightarrow> None | OutcomeSynchronousCompleted _ _ \<Rightarrow> Some InternalError
      | OutcomeFailed e _ \<Rightarrow> Some (pe_code e) | OutcomeCancelled e _ \<Rightarrow> Some (pe_code e))"
      using o True unfolding e by (cases outcome; auto simp: public_error_new_def)+
  qed
  moreover have "tl_state l = outcome_state outcome"
    using assms(2,3) E(1)
    by (cases outcome) (auto simp: lifecycle_apply.simps tk_is_terminal_def split: if_splits)
  ultimately show ?thesis using True by (auto simp: settlement_spec_def dest: leD)
qed

lemma close_task_snapshot:
  assumes "close_task k s t now = Ok (Some s', a)"
  shows "a = snapshot t" "rs_used_bytes s' \<le> rs_used_bytes s" "rs_reserved_bytes s' = rs_reserved_bytes s"
proof -
  from assms obtain s1 s2 ch where c: "settle_request s (tk_request_id t) now = Ok s1"
    "prune_task_history k s1 now = Ok (s2, ch)" "Some s' = Some s2" "a = snapshot t"
    by (rule close_task_Ok)
  show "a = snapshot t" by (rule c(4))
  have f: "rs_used_bytes s1 = rs_used_bytes s" "rs_reserved_bytes s1 = rs_reserved_bytes s"
    by (subst settle_request_Ok(1)[OF c(1)], simp)+
  have "rs_used_bytes s2 \<le> rs_used_bytes s1"
    using c(2) by (auto simp: prune_task_history_def Let_def rbind_eq_Ok_iff split: if_splits)
  then show "rs_used_bytes s' \<le> rs_used_bytes s" using c(3) f by simp
  show "rs_reserved_bytes s' = rs_reserved_bytes s"
    using c(3) prune_task_history_request(4)[OF c(2)] f by simp
qed



text \<open> a settlement never needs room the store does not have: the bytes in use and the reservations
  together do not grow, and the reservation of the Task is released.
\<close>

lemma settlement_within_reservation:
  assumes "settle_section k report task_id outcome cleanup ended_at now s = Ok (Some s', snap)"
  shows "unat (rs_used_bytes s') + unat (rs_reserved_bytes s') \<le> unat (rs_used_bytes s) + unat (rs_reserved_bytes s)
    \<and> (\<exists>t\<in>set (rs_tasks s). tk_task_id t = task_id
         \<and> unat (rs_reserved_bytes s') + unat (tk_reserved_bytes t) = unat (rs_reserved_bytes s))"
  using assms
proof (rule settle_section_Ok)
  fix i growth event result error l u v
  let ?t = "rs_tasks s ! i" and ?t' = "settled_task (rs_tasks s ! i) l ended_at result error"
  assume i: "task_index s task_id = Ok i"
    and b: "bounded_settlement ?t outcome cleanup = (growth, event, result, error)"
    and u: "checked_add (rs_used_bytes s) growth = Some u"
    and v: "checked_sub (rs_reserved_bytes s) (tk_reserved_bytes ?t) = Some v"
    and close: "close_task k (s\<lparr>rs_tasks := (rs_tasks s)[i := ?t'], rs_used_bytes := u, rs_reserved_bytes := v\<rparr>)
      ?t' now = Ok (Some s', snap)"
  have "growth \<le> tk_reserved_bytes ?t" using b by (rule bounded_settlement_shape)
  then have g: "unat growth \<le> unat (tk_reserved_bytes ?t)" by (simp add: word_le_nat_alt)
  have "unat (rs_used_bytes s') \<le> unat u" "rs_reserved_bytes s' = v"
    using close_task_snapshot(2,3)[OF close] by (simp_all add: word_le_nat_alt)
  moreover have "unat u = unat (rs_used_bytes s) + unat growth" by (rule unat_checked_add[OF u])
  ultimately show ?thesis
    using unat_checked_sub[OF v] g task_index_Ok[OF i] by (auto intro!: bexI[of _ ?t])
qed

lemma settlement_within_reservation_witness:
  "unat (rs_used_bytes sample_failed) + unat (rs_reserved_bytes sample_failed)
    \<le> unat (rs_used_bytes sample_running) + unat (rs_reserved_bytes sample_running)"
  using settlement_within_reservation[OF sample_settled] by (rule conjunct1)

section \<open>Settlement does not get stuck\<close>

text \<open>The clock codec reads every stored instant.\<close>

definition clock_total :: "'j wire_codec \<Rightarrow> bool" where
  "clock_total k \<longleftrightarrow> (\<forall>text. \<exists>millis. wc_millis k text = Some millis \<and> 0 \<le> millis)"

lemma expired_flags_total:
  assumes "clock_total k" and "\<And>t. t \<in> set ts \<Longrightarrow> tk_is_terminal t \<Longrightarrow> tk_ended_at t \<noteq> None"
  shows "is_ok (expired_flags k pinned cutoff ts)"
  using assms(2)
proof (induction ts)
  case Nil
  then show ?case by simp
next
  case (Cons t ts)
  obtain flags where "expired_flags k pinned cutoff ts = Ok flags" using Cons by (auto simp: is_ok_iff)
  moreover have "is_ok (if tk_is_terminal t \<and> \<not> pinned_by pinned t
      then rbind (terminal_millis k t) (\<lambda>millis. Ok (millis \<le> cutoff)) else Ok False)"
  proof (cases "tk_is_terminal t")
    case True
    then obtain e where "tk_ended_at t = Some e" using Cons.prems by auto
    moreover obtain m where "wc_millis k e = Some m" "0 \<le> m"
      using assms(1) by (auto simp: clock_total_def)
    ultimately show ?thesis by (simp add: terminal_millis_def)
  qed simp
  ultimately show ?case by (auto simp: is_ok_iff)
qed

lemma prune_flags_total:
  assumes "length flags = length ts" and "length (filter (pinned_by pinned) ts) \<le> MAX_TERMINAL_TASKS"
  shows "is_ok (prune_flags pinned flags ts)"
proof -
  let ?R = "{i. i < length ts \<and> tk_is_terminal (ts ! i) \<and> \<not> flags ! i}"
  let ?P = "{i. i < length ts \<and> pinned_by pinned (ts ! i)}"
  let ?C = "{i. i < length ts \<and> tk_is_terminal (ts ! i) \<and> \<not> flags ! i \<and> \<not> pinned_by pinned (ts ! i)}"
  have c: "length (excess_candidates pinned flags ts) = card ?C"
    by (simp add: excess_candidates_def length_filter_conv_card nth_enumerate_eq case_prod_beta cong: conj_cong)
  have "card ?P \<le> MAX_TERMINAL_TASKS" using assms(2) by (simp add: length_filter_conv_card)
  moreover have "card ?R \<le> card ?C + card ?P"
    by (rule order.trans[OF card_mono card_Un_le]) auto
  ultimately have "card ?R - MAX_TERMINAL_TASKS \<le> length (excess_candidates pinned flags ts)"
    unfolding c by linarith
  then show ?thesis by (simp add: prune_flags_def Let_def length_filter_enumerate)
qed

lemma prune_task_history_total:
  assumes "clock_total k" and "\<And>t. t \<in> set (rs_tasks s) \<Longrightarrow> tk_is_terminal t \<Longrightarrow> tk_ended_at t \<noteq> None"
    and "length (filter (\<lambda>t. task_is_pinned s t now) (rs_tasks s)) \<le> MAX_TERMINAL_TASKS"
  shows "is_ok (prune_task_history k s now)"
proof -
  let ?p = "retained_requests (rs_dedup s) now"
  obtain flags where f: "expired_flags k ?p (saturating_sub now TASK_HISTORY_RETENTION_MS) (rs_tasks s) = Ok flags"
    using expired_flags_total[OF assms(1,2)] unfolding is_ok_iff by blast
  obtain flags' where "prune_flags ?p flags (rs_tasks s) = Ok flags'"
    using prune_flags_total[OF expired_flags_length[OF f], of ?p] assms(3)
    by (auto simp: task_is_pinned_iff is_ok_iff)
  with f show ?thesis by (simp add: prune_task_history_def Let_def)
qed

text \<open>Settling an open request keeps what the index retains.\<close>

lemma settle_request_total:
  assumes "requests_held s" "t \<in> set (rs_tasks s)" "\<not> tk_is_terminal t"
    and "unat now + unat REQUEST_RETENTION_MS < 2 ^ 64"
    and "rs_dedup s1 = rs_dedup s"
  shows "\<exists>s2. settle_request s1 (tk_request_id t) now = Ok s2 \<and> s2 = s1\<lparr>rs_dedup := rs_dedup s2\<rparr>
    \<and> retained_requests (rs_dedup s2) now = retained_requests (rs_dedup s) now"
proof (cases "tk_request_id t")
  case None
  then show ?thesis using assms(5) by (simp add: settle_request_def)
next
  case (Some r)
  obtain h where k: "dedup_known (rs_dedup s) r = Some (h, None)"
    by (rule held_task_open[OF assms(1,2) Some assms(3)])
  let ?d = "rs_dedup s"
  obtain i where i: "position (\<lambda>e. rr_request_id e = r) ?d = Some i" "rr_expires_at_ms (?d ! i) = None"
    using k by (auto simp: dedup_known_def find_position)
  note I = position_SomeD[OF i(1)]
  let ?e = "now + REQUEST_RETENTION_MS"
  have a: "checked_add now REQUEST_RETENTION_MS = Some ?e" using assms(4) by (simp add: checked_add_def)
  let ?d' = "?d[i := (?d ! i)\<lparr>rr_expires_at_ms := Some ?e\<rparr>]"
  have "unat ?e = unat now + unat REQUEST_RETENTION_MS" by (rule unat_checked_add[OF a])
  then have u: "unexpired now ((?d ! i)\<lparr>rr_expires_at_ms := Some ?e\<rparr>)" "unexpired now (?d ! i)"
    using i(2) by (simp_all add: unexpired_def word_less_nat_alt)
  have split: "?d = take i ?d @ (?d ! i) # drop (Suc i) ?d" using I(1) by (rule id_take_nth_drop)
  have split': "?d' = take i ?d @ ((?d ! i)\<lparr>rr_expires_at_ms := Some ?e\<rparr>) # drop (Suc i) ?d"
    using I(1) by (rule upd_conv_take_nth_drop)
  have "retained_requests ?d' now = retained_requests ?d now"
    unfolding split' by (subst (4) split) (use u in \<open>simp add: retained_requests_def\<close>)
  then show ?thesis
    using i a assms(5) Some by (simp add: settle_request_def dedup_settle_def)
qed

text \<open>What a Task of the given state may be settled with.\<close>

definition settles_with :: "('p, 'r) task_record \<Rightarrow> ('r, 'j) execution_outcome \<Rightarrow> bool \<Rightarrow> bool" where
  "settles_with t outcome cleanup \<longleftrightarrow>
     cleanup \<and> outcome_bytes outcome \<le> tk_reserved_bytes t \<longrightarrow>
       (case outcome of OutcomeCompleted _ _ \<Rightarrow> tk_state t = TaskRunning
        | OutcomeCancelled _ _ \<Rightarrow> tl_cancel_requested (tk_lifecycle t) | _ \<Rightarrow> True)"

lemma bounded_settlement_event:
  assumes "\<not> tk_is_terminal t" and "bounded_settlement t outcome c = (growth, event, result, error)"
    and "settles_with t outcome c"
  shows "is_ok (lifecycle_apply (tk_lifecycle t) event)"
proof -
  have n: "tl_state (tk_lifecycle t) \<in> {TaskCreated, TaskQueued, TaskRunning}" "\<not> lifecycle_is_terminal (tk_lifecycle t)"
    using assms(1) by (auto simp: tk_is_terminal_def lifecycle_is_terminal_def not_terminal_cases)
  obtain b ev r er where o: "outcome_settlement outcome c = (b, ev, r, er)" by (cases "outcome_settlement outcome c")
  have b: "b = outcome_bytes outcome" using arg_cong[OF o, of fst] by (cases outcome) simp_all
  show ?thesis
  proof (cases "b \<le> tk_reserved_bytes t \<and> c")
    case False
    then have "event = EvFail c"
      using assms(2) unfolding bounded_settlement_def o Let_def prod.case if_not_P[OF False] by auto
    then show ?thesis using n by (auto simp: lifecycle_apply.simps)
  next
    case True
    then have "event = ev"
      using assms(2) unfolding bounded_settlement_def o Let_def prod.case if_P[OF True] by auto
    then show ?thesis
      using n True assms(3) o unfolding b
      by (cases outcome) (auto simp: lifecycle_apply.simps settles_with_def tk_state_def)
  qed
qed

lemma core_ended:
  assumes "core_invar s" "t \<in> set (rs_tasks s)" "tk_is_terminal t"
  shows "tk_ended_at t \<noteq> None"
  using core_invarD(7)[OF assms(1,2)] assms(3)
  by (cases "tk_state t") (simp_all add: task_valid_def fields_fit_def tk_is_terminal_iff)

lemma close_task_total:
  assumes inv: "core_invar s" and i: "i < length (rs_tasks s)" "\<not> tk_is_terminal (rs_tasks s ! i)"
    and t: "tk_request_id t = tk_request_id (rs_tasks s ! i)" "tk_ended_at t \<noteq> None"
    and s1: "rs_tasks s1 = (rs_tasks s)[i := t]" "rs_dedup s1 = rs_dedup s"
    and k: "clock_total k" and now: "unat now + unat REQUEST_RETENTION_MS < 2 ^ 64"
    and pinned: "length (filter (\<lambda>t. task_is_pinned s t now) (rs_tasks s)) \<le> MAX_TERMINAL_TASKS"
  shows "\<exists>s' a. close_task k s1 t now = Ok (Some s', a)"
proof -
  obtain s2 where s2: "settle_request s1 (tk_request_id t) now = Ok s2" "s2 = s1\<lparr>rs_dedup := rs_dedup s2\<rparr>"
    "retained_requests (rs_dedup s2) now = retained_requests (rs_dedup s) now"
    using settle_request_total[OF core_invarD(3)[OF inv] nth_mem[OF i(1)] i(2) now s1(2)] t(1) by auto
  let ?p = "retained_requests (rs_dedup s) now"
  have f: "rs_tasks s2 = (rs_tasks s)[i := t]" by (subst s2(2), simp add: s1)
  have "pinned_by ?p t = pinned_by ?p (rs_tasks s ! i)" using t(1) by (simp add: pinned_by_def)
  then have "length (filter (pinned_by ?p) ((rs_tasks s)[i := t])) = length (filter (pinned_by ?p) (rs_tasks s))"
    using length_filter_update[OF i(1), of "pinned_by ?p" t] by simp
  then have "length (filter (\<lambda>t. task_is_pinned s2 t now) (rs_tasks s2)) \<le> MAX_TERMINAL_TASKS"
    using pinned by (simp add: task_is_pinned_iff s2(3) f)
  moreover have "tk_ended_at u \<noteq> None" if "u \<in> set (rs_tasks s2)" "tk_is_terminal u" for u
    using that t(2) core_ended[OF inv] set_update_subset_insert[of "rs_tasks s" i t] unfolding f by blast
  ultimately have "is_ok (prune_task_history k s2 now)" using prune_task_history_total[OF k] by blast
  then show ?thesis using s2(1) by (auto simp: close_task_def is_ok_iff)
qed



text \<open> an execution that reports a cancellation nobody requested cannot settle its Task: the
  settlement is refused, nothing is committed, and the Task stays as it was.
\<close>

lemma unrequested_cancellation_stuck:
  assumes "core_invar s" and "t \<in> set (rs_tasks s)" and "tk_task_id t = task_id" and "\<not> tk_is_terminal t"
    and "\<not> tl_cancel_requested (tk_lifecycle t)" and "bytes \<le> tk_reserved_bytes t"
  shows "settle_section k report task_id (OutcomeCancelled e bytes) True ended_at now s
    = err CancelFailed ''cancellation was not requested''"
proof -
  obtain i where p: "position (\<lambda>t. tk_task_id t = task_id) (rs_tasks s) = Some i"
    using assms(2,3) position_None_iff[of "\<lambda>t. tk_task_id t = task_id" "rs_tasks s"]
    by (cases "position (\<lambda>t. tk_task_id t = task_id) (rs_tasks s)") auto
  note I = position_SomeD[OF p]
  have "rs_tasks s ! i = t"
    using nth_key_eq[OF core_invarD(5)[OF assms(1)] I(1) assms(2)] I(2) assms(3) by simp
  with p assms(4-6) show ?thesis
    by (simp add: settle_section_def task_index_def bounded_settlement_def lifecycle_apply.simps
        tk_is_terminal_def Let_def)
qed

lemma unrequested_cancellation_stuck_witness:
  "settle_section sample_codec no_report sample_task_id
     (OutcomeCancelled (public_error_new Cancelled ''runtime.execution'' False) RESERVE_FLOOR_BYTES
       :: (unit, unit) execution_outcome)
     True ''e'' 2000 sample_running = err CancelFailed ''cancellation was not requested''"
  by (rule unrequested_cancellation_stuck[OF sample_core(2), of "hd (rs_tasks sample_running)"])
    (simp_all add: sample_running_def sample_state_def sample_task_def tk_is_terminal_def lifecycle_is_terminal_def)

end
