(* ===== verification/Recovery_Properties.thy ===== *)
theory Recovery_Properties
  imports Task_Properties
begin

text \<open>
  The properties of the remaining Task operations of the Runtime core: the start of an execution,
  cancellation, the recovery of a prior instance, and the reads.
\<close>

section \<open>Recovery of a prior instance\<close>

text \<open>A loop that establishes \<open>R i\<close> at index \<open>i\<close> and keeps what it established elsewhere.\<close>

lemma for_each_all:
  assumes step: "\<And>i s s'. i \<in> set ns \<Longrightarrow> P s \<Longrightarrow> f i s = Ok s' \<Longrightarrow> P s' \<and> R i s'"
    and keep: "\<And>i j s s'. i \<in> set ns \<Longrightarrow> P s \<Longrightarrow> f i s = Ok s' \<Longrightarrow> R j s \<Longrightarrow> R j s'"
    and "P s" and "for_each f ns s = Ok s'"
  shows "P s' \<and> (\<forall>j\<in>set ns. R j s') \<and> (\<forall>j. R j s \<longrightarrow> R j s')"
  using assms
proof (induction ns arbitrary: s)
  case Nil
  then show ?case by simp
next
  case (Cons n ns)
  obtain s1 where s1: "f n s = Ok s1" "for_each f ns s1 = Ok s'"
    using Cons.prems(4) by (auto simp: rbind_eq_Ok_iff)
  have P1: "P s1 \<and> R n s1" using Cons.prems(1)[of n s s1] Cons.prems(3) s1(1) by simp
  have k1: "R j s \<longrightarrow> R j s1" for j using Cons.prems(2)[of n s s1 j] Cons.prems(3) s1(1) by simp
  have "P s' \<and> (\<forall>j\<in>set ns. R j s') \<and> (\<forall>j. R j s1 \<longrightarrow> R j s')"
  proof (rule Cons.IH)
    show "P s1" "for_each f ns s1 = Ok s'" using P1 s1(2) by simp_all
    show "P b \<and> R i b" if "i \<in> set ns" "P a" "f i a = Ok b" for i a b
      using Cons.prems(1)[of i a b] that by simp
    show "R j b" if "i \<in> set ns" "P a" "f i a = Ok b" "R j a" for i j a b
      using Cons.prems(2)[of i a b j] that by simp
  qed
  then show ?case using P1 k1 by auto
qed

definition old_task :: "uuid \<Rightarrow> ('p, 'r) task_record \<Rightarrow> bool" where
  "old_task old t \<longleftrightarrow> fence_runtime_instance_id (tk_fence t) = old"

definition old_sync :: "uuid \<Rightarrow> ('p, 'j) synchronous_execution_record \<Rightarrow> bool" where
  "old_sync old x \<longleftrightarrow> fence_runtime_instance_id (er_fence (sx_executor x)) = old"

lemma recover_task_shape:
  assumes ok: "recover_task old ended_at now i (s, n) = Ok (s', n')"
  obtains t' where "rs_tasks s' = (rs_tasks s)[i := t']" "tk_fence t' = tk_fence (rs_tasks s ! i)"
    "old_task old t' \<longrightarrow> tk_is_terminal t'" "t' \<noteq> rs_tasks s ! i \<longrightarrow> old_task old (rs_tasks s ! i)"
    "rs_synchronous_executions s' = rs_synchronous_executions s"
proof (cases "\<not> tk_is_terminal (rs_tasks s ! i) \<and> old_task old (rs_tasks s ! i)")
  case False
  then have "s' = s" using ok by (auto simp: recover_task_def old_task_def)
  with False show thesis by (intro that[of "rs_tasks s ! i"]) auto
next
  case True
  let ?o = "rs_tasks s ! i"
  obtain l where l: "lifecycle_apply (tk_lifecycle ?o) EvHostLost = Ok l" "lifecycle_is_terminal l"
    using apply_host_lost[of "tk_lifecycle ?o"] True by (auto simp: tk_is_terminal_def lifecycle_is_terminal_def)
  let ?t = "?o\<lparr>tk_lifecycle := l, tk_ended_at := Some ended_at,
      tk_error := Some (public_error_new IoError (task_operation ?o) False)\<rparr>"
  obtain u v where close: "settle_request (s\<lparr>rs_tasks := (rs_tasks s)[i := ?t], rs_used_bytes := u, rs_reserved_bytes := v\<rparr>)
        (tk_request_id ?o) now = Ok s'"
    using ok True l
    by (auto simp: recover_task_def rbind_eq_Ok_iff Let_def grow_used_def release_reserved_def bytes_commute
        old_task_def)
  note S = settle_request_Ok(1)[OF close]
  show thesis
  proof (rule that)
    show "rs_tasks s' = (rs_tasks s)[i := ?t]" "rs_synchronous_executions s' = rs_synchronous_executions s"
      by (subst S, simp)+
  qed (use True l in \<open>auto simp: tk_fence_def tk_is_terminal_def\<close>)
qed

lemma recover_synchronous_shape:
  assumes ok: "recover_synchronous old ended_at now i (s, n) = Ok (s', n')"
  obtains x' where "rs_synchronous_executions s' = (rs_synchronous_executions s)[i := x']"
    "old_sync old x' \<longrightarrow> sync_is_terminal (sx_state x')" "rs_tasks s' = rs_tasks s"
    "x' \<noteq> rs_synchronous_executions s ! i \<longrightarrow> old_sync old (rs_synchronous_executions s ! i)"
proof (cases "\<not> sync_is_terminal (sx_state (rs_synchronous_executions s ! i))
    \<and> old_sync old (rs_synchronous_executions s ! i)")
  case False
  then have "s' = s" using ok by (auto simp: recover_synchronous_def Let_def old_sync_def)
  with False show thesis by (intro that[of "rs_synchronous_executions s ! i"]) auto
next
  case True
  let ?o = "rs_synchronous_executions s ! i"
  let ?x = "?o\<lparr>sx_state := SyncInterrupted, sx_ended_at := Some ended_at,
      sx_error := Some (public_error_new IoError (sx_operation ?o) False),
      sx_terminal_bytes := min RESERVE_FLOOR_BYTES (sx_reserved_bytes ?o)\<rparr>"
  obtain u v d where s': "s' = s\<lparr>rs_synchronous_executions := (rs_synchronous_executions s)[i := ?x],
        rs_used_bytes := u, rs_reserved_bytes := v, rs_dedup := d\<rparr>"
    using ok True
    by (auto simp: recover_synchronous_def rbind_eq_Ok_iff Let_def grow_used_def release_reserved_def
        settle_request_def bytes_commute old_sync_def)
  show thesis by (rule that[of ?x]) (use True in \<open>simp_all add: s'\<close>)
qed

definition settled_at :: "uuid \<Rightarrow> nat \<Rightarrow> ('p, 'r, 'j) runtime_state \<times> nat \<Rightarrow> bool" where
  "settled_at old i p \<longleftrightarrow> (i < length (rs_tasks (fst p)) \<longrightarrow> old_task old (rs_tasks (fst p) ! i)
     \<longrightarrow> tk_is_terminal (rs_tasks (fst p) ! i))"

definition sync_settled_at :: "uuid \<Rightarrow> nat \<Rightarrow> ('p, 'r, 'j) runtime_state \<times> nat \<Rightarrow> bool" where
  "sync_settled_at old i p \<longleftrightarrow> (i < length (rs_synchronous_executions (fst p)) \<longrightarrow>
     old_sync old (rs_synchronous_executions (fst p) ! i) \<longrightarrow>
     sync_is_terminal (sx_state (rs_synchronous_executions (fst p) ! i)))"

lemma recover_tasks_settled:
  assumes "for_each (recover_task old ended_at now) [0..<length (rs_tasks s)] (s, n) = Ok (s', n')"
  shows "\<forall>t\<in>set (rs_tasks s'). old_task old t \<longrightarrow> tk_is_terminal t"
    and "t \<in> set (rs_tasks s) \<Longrightarrow> \<not> old_task old t \<Longrightarrow> t \<in> set (rs_tasks s')"
    and "rs_synchronous_executions s' = rs_synchronous_executions s"
proof -
  let ?P = "\<lambda>p. length (rs_tasks (fst p)) = length (rs_tasks s)
    \<and> rs_synchronous_executions (fst p) = rs_synchronous_executions s
    \<and> (\<forall>j<length (rs_tasks s). \<not> old_task old (rs_tasks s ! j) \<longrightarrow> rs_tasks (fst p) ! j = rs_tasks s ! j)
    \<and> (\<forall>j<length (rs_tasks s). old_task old (rs_tasks s ! j) \<longrightarrow> old_task old (rs_tasks (fst p) ! j))"
  have "?P (s', n') \<and> (\<forall>j\<in>set [0..<length (rs_tasks s)]. settled_at old j (s', n')) \<and> (\<forall>j. settled_at old j (s, n) \<longrightarrow> settled_at old j (s', n'))"
  proof (rule for_each_all[where P = ?P and R = "settled_at old", OF _ _ _ assms])
    fix i p q assume i: "i \<in> set [0..<length (rs_tasks s)]" and P: "?P p" and r: "recover_task old ended_at now i p = Ok q"
    obtain a m b m' where pq: "p = (a, m)" "q = (b, m')" by fastforce
    from r[unfolded pq] obtain t' where t: "rs_tasks b = (rs_tasks a)[i := t']" "tk_fence t' = tk_fence (rs_tasks a ! i)"
      "old_task old t' \<longrightarrow> tk_is_terminal t'" "t' \<noteq> rs_tasks a ! i \<longrightarrow> old_task old (rs_tasks a ! i)"
      "rs_synchronous_executions b = rs_synchronous_executions a"
      by (rule recover_task_shape)
    have o: "old_task old t' = old_task old (rs_tasks a ! i)" using t(2) by (simp add: old_task_def)
    show "?P q \<and> settled_at old i q"
      using P i t o by (auto simp: pq settled_at_def nth_list_update)
    show "settled_at old j q" if "settled_at old j p" for j
      using that P i t by (cases "i = j") (auto simp: pq settled_at_def)
  qed simp
  then have all: "?P (s', n')" "\<forall>j\<in>set [0..<length (rs_tasks s)]. settled_at old j (s', n')" by blast+
  show "\<forall>t\<in>set (rs_tasks s'). old_task old t \<longrightarrow> tk_is_terminal t"
    using all by (auto simp: settled_at_def in_set_conv_nth)
  show "rs_synchronous_executions s' = rs_synchronous_executions s" using all(1) by simp
  assume "t \<in> set (rs_tasks s)" "\<not> old_task old t"
  then obtain j where j: "j < length (rs_tasks s)" "t = rs_tasks s ! j" "\<not> old_task old (rs_tasks s ! j)"
    by (auto simp: in_set_conv_nth)
  then have "t = rs_tasks s' ! j" using all(1) by simp
  then show "t \<in> set (rs_tasks s')" using j(1) all(1) by simp
qed

lemma recover_synchronous_settled:
  assumes "for_each (recover_synchronous old ended_at now) [0..<length (rs_synchronous_executions s)] (s, n) = Ok (s', n')"
  shows "\<forall>x\<in>set (rs_synchronous_executions s'). old_sync old x \<longrightarrow> sync_is_terminal (sx_state x)"
    and "rs_tasks s' = rs_tasks s"
proof -
  let ?P = "\<lambda>p. length (rs_synchronous_executions (fst p)) = length (rs_synchronous_executions s)
    \<and> rs_tasks (fst p) = rs_tasks s"
  have "?P (s', n') \<and> (\<forall>j\<in>set [0..<length (rs_synchronous_executions s)]. sync_settled_at old j (s', n'))
    \<and> (\<forall>j. sync_settled_at old j (s, n) \<longrightarrow> sync_settled_at old j (s', n'))"
  proof (rule for_each_all[where P = ?P and R = "sync_settled_at old", OF _ _ _ assms])
    fix i p q assume i: "i \<in> set [0..<length (rs_synchronous_executions s)]" and P: "?P p"
      and r: "recover_synchronous old ended_at now i p = Ok q"
    obtain a m b m' where pq: "p = (a, m)" "q = (b, m')" by fastforce
    from r[unfolded pq] obtain x' where x: "rs_synchronous_executions b = (rs_synchronous_executions a)[i := x']"
      "old_sync old x' \<longrightarrow> sync_is_terminal (sx_state x')" "rs_tasks b = rs_tasks a"
      by (rule recover_synchronous_shape)
    show "?P q \<and> sync_settled_at old i q" using P i x by (auto simp: pq sync_settled_at_def nth_list_update)
    show "sync_settled_at old j q" if "sync_settled_at old j p" for j
      using that P i x by (cases "i = j") (auto simp: pq sync_settled_at_def)
  qed simp
  then show "\<forall>x\<in>set (rs_synchronous_executions s'). old_sync old x \<longrightarrow> sync_is_terminal (sx_state x)"
    "rs_tasks s' = rs_tasks s"
    by (auto simp: sync_settled_at_def in_set_conv_nth)
qed

lemma settle_automation_others:
  assumes "settle_automation_in_state s e outcome ts = Ok (s', summary)"
    and "t \<in> set (rs_tasks s)" "\<not> is_container t"
  shows "t \<in> set (rs_tasks s')"
  using assms(1)
proof (rule settle_automation_Ok)
  fix xi ti l reserved used
  assume ti: "position (\<lambda>t. tk_execution_id t = e \<and> is_container t) (rs_tasks s) = Some ti"
    and rel: "release_ownership (settled_state s xi ti l reserved used e outcome ts)
       (xr_automation_id (rs_automation_executions s ! xi)) e = Ok s'"
  note T = position_SomeD[OF ti]
  obtain j where j: "j < length (rs_tasks s)" "t = rs_tasks s ! j" using assms(2) by (auto simp: in_set_conv_nth)
  then have "j \<noteq> ti" using T(2) assms(3) by auto
  then have "t \<in> set ((rs_tasks s)[ti := u])" for u
    using j by (metis length_list_update nth_list_update_neq nth_mem)
  then show ?thesis
    using release_ownership_frame[OF rel] by (simp add: same_core_def)
qed

lemma interrupt_executions_others:
  "interrupt_executions s es ts = Ok s' \<Longrightarrow> t \<in> set (rs_tasks s) \<Longrightarrow> \<not> is_container t \<Longrightarrow> t \<in> set (rs_tasks s')"
proof (induction s es ts rule: interrupt_executions.induct)
  case (2 s e es ts)
  obtain s1 sm where s1: "settle_automation_in_state s e (AutoOutcomeInterrupted host_lost_error) ts = Ok (s1, sm)"
    and rest: "interrupt_executions s1 es ts = Ok s'"
    using "2.prems"(1) by (auto simp: rbind_eq_Ok_iff)
  show ?case
    using "2.IH"[of "(s1, sm)" s1 sm] s1 rest settle_automation_others[OF s1 "2.prems"(2,3)] "2.prems"(3) by simp
qed simp

lemma interrupt_old_others:
  assumes "interrupt_old_instance_automation_executions s old ts = Ok (s', n)"
    and "t \<in> set (rs_tasks s)" "\<not> is_container t"
  shows "t \<in> set (rs_tasks s')"
  using assms interrupt_executions_others
  by (auto simp: interrupt_old_instance_automation_executions_def Let_def rbind_eq_Ok_iff)

lemma sample_recovered:
  "\<exists>s'. recover_section sample_codec (UuidV4 ''i'') ''e'' 2000 sample_running = Ok (Some s', 1)"
  by (simp add: recover_section_def interrupt_old_instance_automation_executions_def old_instance_executions_def
      recover_task_def sample_running_def sample_state_def sample_task_def is_container_def tk_fence_def
      sample_executor_record_def fence_of_def sample_fence_def tk_is_terminal_def lifecycle_is_terminal_def
      lifecycle_apply.simps release_reserved_def grow_used_def checked_add_def checked_sub_def settle_request_def
      tk_request_id_def dedup_settle_def Let_def)
    (simp add: prune_task_history_def retained_requests_def unexpired_def pinned_by_def tk_request_id_def
      prune_flags_def tk_is_terminal_def lifecycle_is_terminal_def Let_def)



section \<open>The start of an execution\<close>

text \<open> an execution starts only under the authority its Task was admitted with: the executor the
  host resolves now is the admitted one, the Runtime is Ready, the Task leaves the queue, and the
  provider is handed the admitted executor and payload.
\<close>

lemma start_under_admitted_authority:
  assumes "run_begin_section current task_id started_at s = Ok (s', RunStarted x)"
  shows "\<exists>t\<in>set (rs_tasks s). \<exists>r route executor capability. tk_task_id t = task_id
    \<and> tk_state t = TaskQueued \<and> tk_origin t = OriginRequest r (ax_executor x) route (ax_payload x)
    \<and> current = Ok capability \<and> cc_readiness (cs_context capability) = Ready
    \<and> resolve_execution capability route = Ok executor \<and> executor_record_from executor = ax_executor x
    \<and> ax_execution_id x = tk_execution_id t \<and> ax_task_id x = Some task_id
    \<and> s' \<noteq> None \<and> (\<exists>t'\<in>set (rs_tasks (the s')). tk_task_id t' = task_id \<and> tk_state t' = TaskRunning)"
proof -
  obtain s1 where s1: "s' = Some s1"
    using assms by (auto simp: run_begin_section_def Let_def rbind_eq_Ok_iff
        split: if_splits task_origin.splits sum.splits)
  from assms[unfolded s1] show ?thesis
  proof (rule run_begin_Ok)
    fix i r admitted route payload executor l
    let ?t = "rs_tasks s ! i"
    assume i: "task_index s task_id = Ok i" and n: "\<not> tk_is_terminal ?t"
      and o: "tk_origin ?t = OriginRequest r admitted route payload"
      and ex: "current_executor current route = Ok executor" "executor_record_from executor = admitted"
      and l: "lifecycle_apply (tk_lifecycle ?t) EvStart = Ok l"
      and s': "s1 = update_task i (\<lambda>t. t\<lparr>tk_lifecycle := l, tk_started_at := Some started_at\<rparr>) s"
      and x: "RunStarted x = RunStarted \<lparr>ax_execution_id = tk_execution_id ?t,
         ax_task_id = Some (tk_task_id ?t), ax_executor = admitted, ax_payload = payload\<rparr>"
    note I = task_index_Ok[OF i]
    obtain capability where c: "current = Ok capability" "cc_readiness (cs_context capability) = Ready"
      "resolve_execution capability route = Ok executor"
      using ex(1) by (auto simp: current_executor_def require_ready_def rbind_eq_Ok_iff split: if_splits)
    have q: "tk_state ?t = TaskQueued" "tl_state l = TaskRunning"
      using l by (auto simp: lifecycle_apply_defs tk_state_def split: if_splits)
    have "?t\<lparr>tk_lifecycle := l, tk_started_at := Some started_at\<rparr> \<in> set (rs_tasks s1)"
      using I(1) by (simp add: s' update_task_def set_update_memI)
    then have "\<exists>t'\<in>set (rs_tasks s1). tk_task_id t' = task_id \<and> tk_state t' = TaskRunning"
      using I(2) q(2) by (intro bexI) (simp_all add: tk_state_def)
    with I c o q(1) ex(2) x show ?thesis unfolding s1 by (intro bexI[of _ ?t]) auto
  qed
qed

lemma start_under_admitted_authority_witness:
  "\<exists>t\<in>set (rs_tasks sample_queued). tk_task_id t = sample_task_id \<and> tk_state t = TaskQueued"
  using start_under_admitted_authority[OF sample_started] by blast

section \<open>Cancellation\<close>

definition cancelled_or_settled :: "task_id \<Rightarrow> ('p, 'r) task_record list \<Rightarrow> bool" where
  "cancelled_or_settled task_id ts \<longleftrightarrow>
     (\<forall>t\<in>set ts. tk_task_id t = task_id \<longrightarrow> tk_is_terminal t \<or> tl_cancel_requested (tk_lifecycle t))"

lemma cancelled_subset: "cancelled_or_settled x ts \<Longrightarrow> set ts' \<subseteq> set ts \<Longrightarrow> cancelled_or_settled x ts'"
  by (auto simp: cancelled_or_settled_def)

lemma cancelled_update:
  assumes "distinct (map tk_task_id ts)" "i < length ts" "tk_task_id (ts ! i) = x"
    and "tk_is_terminal t \<or> tl_cancel_requested (tk_lifecycle t)"
  shows "cancelled_or_settled x (ts[i := t])"
  using assms set_update_key[OF assms(1,2), of t] by (auto simp: cancelled_or_settled_def)

lemma cancel_queued_cancelled:
  assumes D: "distinct (map tk_task_id (rs_tasks s))" "i < length (rs_tasks s)" "tk_task_id (rs_tasks s ! i) = x"
    and n: "\<not> tk_is_terminal (rs_tasks s ! i)"
    and ok: "cancel_queued k i ended_at now s = Ok (Some s', a)"
  shows "cancelled_or_settled x (rs_tasks s')"
proof -
  let ?e = "public_error_new Cancelled (task_operation (rs_tasks s ! i)) False"
  obtain g where g: "encoded_cancel_terminal_bytes k ended_at ?e = Ok g" "\<not> tk_reserved_bytes (rs_tasks s ! i) < g"
    using ok by (auto simp: cancel_queued_def Let_def rbind_eq_Ok_iff split: if_splits)
  obtain l where l: "lifecycle_apply (tk_lifecycle (rs_tasks s ! i)) (EvSettleCancellation True) = Ok l"
    using ok g by (auto simp: cancel_queued_def Let_def rbind_eq_Ok_iff split: if_splits)
  let ?t = "(rs_tasks s ! i)\<lparr>tk_lifecycle := l, tk_ended_at := Some ended_at, tk_error := Some ?e\<rparr>"
  obtain u v where "close_task k (s\<lparr>rs_tasks := (rs_tasks s)[i := ?t], rs_used_bytes := u, rs_reserved_bytes := v\<rparr>)
      ?t now = Ok (Some s', a)"
    using ok g l
    by (auto simp: cancel_queued_def rbind_eq_Ok_iff Let_def grow_used_def release_reserved_def)
  then obtain s1 s2 ch where c: "settle_request (s\<lparr>rs_tasks := (rs_tasks s)[i := ?t], rs_used_bytes := u,
      rs_reserved_bytes := v\<rparr>) (tk_request_id ?t) now = Ok s1"
    "prune_task_history k s1 now = Ok (s2, ch)" "Some s' = Some s2" by (rule close_task_Ok)
  have f: "rs_tasks s1 = (rs_tasks s)[i := ?t]" by (subst settle_request_Ok(1)[OF c(1)], simp)
  have "tl_cancel_requested l" using l n by (auto simp: lifecycle_apply.simps tk_is_terminal_def split: if_splits)
  then have "cancelled_or_settled x (rs_tasks s1)" unfolding f by (intro cancelled_update D) simp
  then show ?thesis using prune_task_history_set(1)[OF c(2)] c(3) by (auto intro: cancelled_subset)
qed

lemma cancel_container_cancelled:
  assumes D: "distinct (map tk_task_id (rs_tasks s))" "distinct (map tk_execution_id (rs_tasks s))"
      "i < length (rs_tasks s)" "tk_task_id (rs_tasks s ! i) = x"
    and c: "is_container (rs_tasks s ! i)" "tl_cancel_requested (tk_lifecycle (rs_tasks s ! i))"
    and ok: "cancel_container k i task_id ended_at now s = Ok (Some s', a)"
  shows "cancelled_or_settled x (rs_tasks s')"
proof -
  let ?o = "AutoOutcomeCancelled (public_error_new Cancelled (task_operation (rs_tasks s ! i)) False)"
  let ?x = "tk_execution_id (rs_tasks s ! i)"
  have settled: "cancelled_or_settled x (rs_tasks s1)"
    if "settle_automation_in_state s ?x ?o ended_at = Ok (s1, sm)" for s1 sm
    using that
  proof (rule settle_automation_Ok)
    fix xi ti l reserved used
    assume ti: "position (\<lambda>t. tk_execution_id t = ?x \<and> is_container t) (rs_tasks s) = Some ti"
      and l: "settle_lifecycle (tk_lifecycle (rs_tasks s ! ti)) ?o = Ok l"
      and rel: "release_ownership (settled_state s xi ti l reserved used ?x ?o ended_at)
         (xr_automation_id (rs_automation_executions s ! xi)) ?x = Ok s1"
    have "ti = i"
      using position_SomeD[OF ti] D(2,3) by (metis distinct_conv_nth length_map nth_map)
    moreover have "lifecycle_is_terminal l" using settle_lifecycle_terminal[OF l] by simp
    ultimately show ?thesis
      using release_ownership_frame[OF rel] D(1,3,4)
      by (auto simp: same_core_def tk_is_terminal_def intro!: cancelled_update)
  qed
  let ?settle = "if tk_state (rs_tasks s ! i) \<in> {TaskCreated, TaskQueued}
      then rbind (settle_automation_in_state s ?x ?o ended_at) (\<lambda>(s, _). Ok s) else Ok s"
  obtain s1 s2 ch where s1: "?settle = Ok s1" and s2: "prune_task_history k s1 now = Ok (s2, ch)" "s' = s2"
    using ok by (auto simp: cancel_container_def Let_def rbind_eq_Ok_iff simp del: insert_iff split del: if_split)
  have "cancelled_or_settled x (rs_tasks s)"
    using cancelled_update[OF D(1,3,4), of "rs_tasks s ! i"] c(2) by simp
  then have "cancelled_or_settled x (rs_tasks s1)"
    using s1 settled by (cases "tk_state (rs_tasks s ! i) \<in> {TaskCreated, TaskQueued}") (auto simp: rbind_eq_Ok_iff)
  then show ?thesis using prune_task_history_set(1)[OF s2(1)] s2(2) by (auto intro: cancelled_subset)
qed

definition committed :: "('p, 'r, 'j) runtime_state option \<Rightarrow> ('p, 'r, 'j) runtime_state \<Rightarrow> ('p, 'r, 'j) runtime_state" where
  "committed s' s = (case s' of None \<Rightarrow> s | Some s1 \<Rightarrow> s1)"

lemma cancel_section_cancelled:
  assumes inv: "core_invar s" and ok: "cancel_section k x ended_at now s = Ok (s', c)"
  shows "cancelled_or_settled x (rs_tasks (committed s' s))"
proof -
  obtain s1 pruned where s1: "prune_task_history k s now = Ok (s1, pruned)"
    using ok by (auto simp: cancel_section_def rbind_eq_Ok_iff)
  have c1: "core_invar s1" using inv s1 by (rule prune_task_history_core)
  note D = core_invarD(5,6)[OF c1]
  have same: "committed (if pruned then Some s1 else None) s = s1"
    using prune_task_history_frame(2)[OF s1] by (cases pruned) (simp_all add: committed_def)
  show ?thesis
  proof (cases "position (\<lambda>t. tk_task_id t = x) (rs_tasks s1)")
    case None
    then have "cancelled_or_settled x (rs_tasks s1)" by (auto simp: position_None_iff cancelled_or_settled_def)
    with ok s1 None same show ?thesis by (auto simp: cancel_section_def Let_def)
  next
    case (Some i)
    note I = position_SomeD[OF Some]
    let ?t = "rs_tasks s1 ! i"
    show ?thesis
    proof (cases "tk_is_terminal ?t \<or> tl_cancel_requested (tk_lifecycle ?t)")
      case True
      then have "cancelled_or_settled x (rs_tasks s1)"
        using cancelled_update[OF D(1) I(1) _ True] I(2) by simp
      with ok s1 Some True same show ?thesis by (auto simp: cancel_section_def Let_def)
    next
      case False
      then obtain l where l: "lifecycle_apply (tk_lifecycle ?t) EvRequestCancel = Ok l"
        by (simp add: lifecycle_apply.simps tk_is_terminal_def)
      let ?s = "update_task i (\<lambda>t. t\<lparr>tk_lifecycle := l\<rparr>) s1"
      note R = request_cancel_core[OF c1 I(1) _ l]
      have c2: "core_invar ?s" and n: "\<not> tk_is_terminal (rs_tasks ?s ! i)" "i < length (rs_tasks ?s)"
        "is_container (rs_tasks ?s ! i) = is_container ?t" "tk_task_id (rs_tasks ?s ! i) = x"
        "tl_cancel_requested (tk_lifecycle (rs_tasks ?s ! i))"
        using R False I by (simp_all add: update_task_def tk_is_terminal_iff tk_state_def is_container_def)
      note E = core_invarD(5,6)[OF c2]
      have run: "cancelled_or_settled x (rs_tasks ?s)"
        using cancelled_update[OF E(1) n(2,4), of "rs_tasks ?s ! i"] n(5) by simp
      consider (container) a where "is_container ?t" "cancel_container k i x ended_at now ?s = Ok (s', a)"
        | (queued) a where "\<not> is_container ?t" "cancel_queued k i ended_at now ?s = Ok (s', a)"
        | (await) "s' = Some ?s"
        using ok s1 Some False l by (auto simp: cancel_section_def Let_def rbind_eq_Ok_iff split: if_splits)
      then show ?thesis
      proof cases
        case container
        then obtain s2 where s2: "s' = Some s2" using cancel_container_core[OF c2 container(2)] by auto
        with container cancel_container_cancelled[OF E n(2,4) _ n(5)] n(3) show ?thesis
          by (auto simp: committed_def)
      next
        case queued
        then obtain s2 where s2: "s' = Some s2" using cancel_queued_core[OF c2 n(2,1) _ queued(2)] n(3) queued(1) by auto
        with queued cancel_queued_cancelled[OF E(1) n(2,4,1)] show ?thesis by (auto simp: committed_def)
      next
        case await
        then show ?thesis using run by (simp add: committed_def)
      qed
    qed
  qed
qed

lemma cancel_again:
  assumes settled: "cancelled_or_settled x (rs_tasks s)" and ok: "cancel_section k x ended_at now s = Ok (s', c)"
  shows "c = CancelNotFound \<or> (\<exists>a. c = CancelAnswer a)"
proof -
  obtain s1 pruned where s1: "prune_task_history k s now = Ok (s1, pruned)"
    using ok by (auto simp: cancel_section_def rbind_eq_Ok_iff)
  have d: "cancelled_or_settled x (rs_tasks s1)"
    using settled prune_task_history_set(1)[OF s1] by (auto intro: cancelled_subset)
  show ?thesis
  proof (cases "position (\<lambda>t. tk_task_id t = x) (rs_tasks s1)")
    case None
    with ok s1 show ?thesis by (auto simp: cancel_section_def Let_def)
  next
    case (Some i)
    have "tk_is_terminal (rs_tasks s1 ! i) \<or> tl_cancel_requested (tk_lifecycle (rs_tasks s1 ! i))"
      using d position_SomeD[OF Some] by (simp add: cancelled_or_settled_def)
    with ok s1 Some show ?thesis by (auto simp: cancel_section_def Let_def)
  qed
qed

text \<open> a cancellation request is durable. Whatever the cancel section answers, afterwards every
  Task with that identity has settled or carries the request, the state is still canonical, and a
  repeated request neither wakes nor awaits an execution again: it only reads the Task.
\<close>

lemma cancellation_durable:
  assumes "core_invar s" and "cancel_section k x ended_at now s = Ok (s', c)"
  shows "core_invar (committed s' s) \<and> cancelled_or_settled x (rs_tasks (committed s' s))
    \<and> (\<forall>s'' c' ended now'. cancel_section k x ended now' (committed s' s) = Ok (s'', c') \<longrightarrow>
         c' = CancelNotFound \<or> (\<exists>a. c' = CancelAnswer a))"
proof -
  have "cancelled_or_settled x (rs_tasks (committed s' s))"
    using cancel_section_cancelled[OF assms] .
  then show ?thesis
    using cancel_core assms by (cases s') (auto simp: committed_def dest: cancel_again)
qed

lemma sample_cancelled:
  "cancel_section sample_codec sample_task_id ''e'' 2000 sample_running
     = Ok (Some (sample_state 2048 20000 None
         ((sample_task \<lparr>tl_state = TaskRunning, tl_cancel_requested = True\<rparr>)\<lparr>tk_started_at := Some ''s''\<rparr>)),
       CancelAwait sample_execution ''visual.image'')"
  by (simp add: cancel_section_def sample_running_def sample_state_def sample_task_def tk_is_terminal_def
      lifecycle_apply_defs prune_task_history_def prune_flags_def is_container_def task_operation_def
      update_task_def tk_state_def Let_def)

lemma cancellation_durable_witness:
  "cancelled_or_settled sample_task_id [(sample_task \<lparr>tl_state = TaskRunning, tl_cancel_requested = True\<rparr>)
     \<lparr>tk_started_at := Some ''s''\<rparr>]"
  using cancellation_durable[OF sample_core(2) sample_cancelled]
  by (simp add: committed_def sample_state_def)

end
