(* ===== verification/Store_Properties.thy ===== *)
theory Store_Properties
  imports History_Properties Artifact
begin

text \<open>
  The properties of the persisted state: what a restart restores, what a load guarantees of a store
  nobody trusts, and the two commits that the store refuses although the core accepted the operation.
\<close>

section \<open>Restart\<close>


lemma sample_storable: "storable sample_codec sample_failed"
  by (simp add: storable_def sample_failed_def sample_state_def entry_storable_def sample_digest_valid)


section \<open>What a load guarantees\<close>

lemma stored_lifecycle_Ok:
  assumes "stored_lifecycle state cancel = Ok l"
  shows "tl_state l = state \<and> tl_cancel_requested l = cancel"
  using assms
  by (cases state; cases cancel)
    (auto simp: stored_lifecycle_def rebuild_events_def lifecycle_new_def lifecycle_apply_defs)

lemma stored_origin_Ok:
  assumes "stored_origin t = Ok origin"
  shows "(case origin of OriginRequest _ _ _ _ \<Rightarrow> False | OriginAutomationExecution _ _ \<Rightarrow> True)
    = (st_tool t = ToolAutomation \<and> st_action t = AUTOMATION_EXECUTION_ACTION)"
  using assms by (auto simp: stored_origin_def Let_def invalid_store_def split: option.splits if_splits)

lemma task_loaded:
  assumes "task_into_runtime t = Ok r"
  shows "task_valid r" "tk_task_id r = st_task_id t" "tk_state r = st_state t"
    "tk_execution_id r = st_execution_id t" "tk_reserved_bytes r = st_reserved_bytes t"
proof -
  obtain l origin where v: "stored_task_valid t" and l: "stored_lifecycle (st_state t) (st_cancel_requested t) = Ok l"
    and o: "stored_origin t = Ok origin"
    and r: "tk_lifecycle r = l" "tk_tool r = st_tool t" "tk_action r = st_action t" "tk_started_at r = st_started_at t"
      "tk_ended_at r = st_ended_at t" "tk_origin r = origin" "tk_result r = st_result t" "tk_error r = st_error t"
      "tk_task_id r = st_task_id t" "tk_execution_id r = st_execution_id t" "tk_reserved_bytes r = st_reserved_bytes t"
    using assms by (auto simp: task_into_runtime_def rbind_eq_Ok_iff invalid_store_def split: if_splits)
  have s: "tk_state r = st_state t" using stored_lifecycle_Ok[OF l] by (simp add: tk_state_def r)
  have "fields_fit r"
    using v stored_lifecycle_Ok[OF l] by (auto simp: fields_fit_def stored_task_valid_def s r split: task_state.splits)
  moreover have "is_container r = container_operation r"
    using stored_origin_Ok[OF o] by (cases origin) (simp_all add: is_container_def container_operation_def r)
  ultimately show "task_valid r" using v by (simp add: task_valid_def r stored_task_valid_def)
  show "tk_task_id r = st_task_id t" "tk_state r = st_state t"
    "tk_execution_id r = st_execution_id t" "tk_reserved_bytes r = st_reserved_bytes t"
    by (simp_all add: r s)
qed

lemma collect_map_eq:
  assumes "collect f xs = Ok ys" and "\<And>x y. f x = Ok y \<Longrightarrow> g y = h x"
  shows "map g ys = map h xs"
  using collect_Ok[OF assms(1)] by (induction rule: list_all2_induct) (simp_all add: assms(2))

lemma mset_sort_key_eq:
  "sort_key f xs = sort_key f ys \<Longrightarrow> mset xs = mset ys"
  by (metis mset_sort)

text \<open>Reservations that match the unsettled executions account for them.\<close>

lemma reservations_accounted:
  assumes "validate_reservations rs (rs_tasks s) (rs_synchronous_executions s) = Ok ()"
    and "try_fold_add 0 (map rv_reserved_bytes rs) = Some (rs_reserved_bytes s)"
  shows "accounted s \<and> unat (rs_reserved_bytes s) = sum_list (map (unat \<circ> rv_reserved_bytes) rs)"
proof -
  let ?e = "reservation_records (rs_tasks s) (rs_synchronous_executions s)"
  have "mset rs = mset ?e"
    using assms(1) by (intro mset_sort_key_eq) (auto simp: validate_reservations_def invalid_store_def split: if_splits)
  then have "sum_list (map (unat \<circ> rv_reserved_bytes) rs) = sum_list (map (unat \<circ> rv_reserved_bytes) ?e)"
    by (metis mset_map sum_mset_sum_list)
  moreover have "sum_list (map (unat \<circ> rv_reserved_bytes) ?e) = reservations s"
    by (simp add: reservation_records_def reservations_def comp_def task_reservation_record_def
        synchronous_reservation_record_def filter_sum_zero[where g = task_reservation]
        filter_sum_zero[where g = sync_reservation] task_reservation_def sync_reservation_def)
  ultimately show ?thesis
    using try_fold_add_Some[OF assms(2)] by (simp add: accounted_def comp_def)
qed

lemma automations_loaded:
  "restore_automations ids as = Ok rs \<Longrightarrow> map ar_automation rs = map sau_automation as"
  by (induction ids as arbitrary: rs rule: restore_automations.induct)
    (auto simp: rbind_eq_Ok_iff invalid_store_def split: if_splits)

text \<open>The registry counts only read the states of the Tasks.\<close>

lemma length_filter_states:
  assumes "map f xs = map g ys"
  shows "length (filter (\<lambda>x. P (f x)) xs) = length (filter (\<lambda>y. P (g y)) ys)"
proof -
  have "length (filter P (map f xs)) = length (filter P (map g ys))" by (simp only: assms)
  then show ?thesis by (simp add: filter_map comp_def)
qed

lemma terminal_states:
  "length (filter tk_is_terminal ts) + (length (filter (\<lambda>t. tk_state t = TaskRunning) ts)
     + length (filter (\<lambda>t. tk_state t \<in> {TaskCreated, TaskQueued}) ts)) = length ts"
proof (induction ts)
  case (Cons t ts)
  then show ?case by (cases "tk_state t") (simp_all add: tk_is_terminal_iff)
qed simp

lemma registry_counts:
  assumes "map tk_state ts = map st_state (cn_tasks c)"
  shows "length (filter (\<lambda>t. tk_state t = TaskRunning) ts) = running_tasks c"
    "length (filter (\<lambda>t. tk_state t \<in> {TaskCreated, TaskQueued}) ts) = queued_tasks c"
    "length (filter tk_is_terminal ts) = terminal_tasks c"
proof -
  show r: "length (filter (\<lambda>t. tk_state t = TaskRunning) ts) = running_tasks c"
    and q: "length (filter (\<lambda>t. tk_state t \<in> {TaskCreated, TaskQueued}) ts) = queued_tasks c"
    unfolding running_tasks_def queued_tasks_def using assms by (fact length_filter_states)+
  show "length (filter tk_is_terminal ts) = terminal_tasks c"
    using terminal_states[of ts] map_eq_imp_length_eq[OF assms] unfolding r q terminal_tasks_def by simp
qed

text \<open>What \<open>validate_state\<close> has checked when it accepts.\<close>

lemma validate_canonical_Ok:
  assumes "validate_canonical k tc c n = Ok ()"
  shows "distinct (map st_task_id (cn_tasks c))" "distinct (map (au_automation_id \<circ> sau_automation) (cn_automations c))"
    "running_tasks c \<le> 64" "queued_tasks c \<le> 256" "terminal_tasks c \<le> 500"
    "\<And>a. a \<in> set (cn_automations c) \<Longrightarrow> is_ok (validate_automation (sau_automation a))"
    "\<exists>reserved. reservation_sum (cn_reservations c) = Some reserved \<and> n + reserved \<le> unat STORE_LIMIT_BYTES"
    "\<exists>s. runtime_of k c = Ok s" "length (cn_request_records c) \<le> 4096" "length (cn_automations c) \<le> 256"
    "length (filter (\<lambda>x. \<not> xr_is_terminal x) (cn_automation_executions c)) \<le> 320"
  using assms unfolding validate_canonical_def
  by (auto simp: rbind_eq_Ok_iff limit_err_def invalid_store_def list_ex_iff is_ok_def not_less
      split: if_splits option.splits sum.splits)

text \<open>
  C25: a store that the load check accepts gives a sound state, whatever wrote it: every Task has the
  fields its state requires and keeps its container role, identities are distinct, the reserved
  bytes are exactly the reservations of the unsettled work and fit with the encoded store in 8 MiB,
  every Automation is valid, and the Task registry and the Automations are within their bounds.
\<close>

theorem load_checked:
  assumes "validate_canonical k tc c n = Ok ()"
  shows "\<exists>s. runtime_of k c = Ok s \<and> (\<forall>t\<in>set (rs_tasks s). task_valid t) \<and> identities_distinct s \<and> accounted s
    \<and> n + unat (rs_reserved_bytes s) \<le> 8388608
    \<and> (\<forall>r\<in>set (rs_automations s). is_ok (validate_automation (ar_automation r)))
    \<and> length (filter (\<lambda>t. tk_state t = TaskRunning) (rs_tasks s)) \<le> 64
    \<and> length (filter (\<lambda>t. tk_state t \<in> {TaskCreated, TaskQueued}) (rs_tasks s)) \<le> 256
    \<and> length (filter tk_is_terminal (rs_tasks s)) \<le> 500"
proof -
  note V = validate_canonical_Ok[OF assms]
  obtain s where s: "runtime_of k c = Ok s" using V(8) by blast
  obtain reserved where r: "reservation_sum (cn_reservations c) = Some reserved" "n + reserved \<le> 8388608"
    using V(7) by auto
  have tasks: "collect task_into_runtime (cn_tasks c) = Ok (rs_tasks s)"
    and ids: "distinct (map tk_execution_id (rs_tasks s) @ map sx_execution_id (rs_synchronous_executions s))"
    and res: "validate_reservations (cn_reservations c) (rs_tasks s) (rs_synchronous_executions s) = Ok ()"
    and fold: "try_fold_add 0 (map rv_reserved_bytes (cn_reservations c)) = Some (rs_reserved_bytes s)"
    using s by (auto simp: runtime_of_def rbind_eq_Ok_iff invalid_store_def split: if_splits simp del: distinct_append)
  have "\<forall>t\<in>set (rs_tasks s). task_valid t"
  proof
    fix t assume "t \<in> set (rs_tasks s)"
    then obtain i where i: "i < length (rs_tasks s)" "t = rs_tasks s ! i" by (auto simp: in_set_conv_nth)
    then have "task_into_runtime (cn_tasks c ! i) = Ok t"
      using collect_Ok[OF tasks] by (simp add: list_all2_conv_all_nth)
    then show "task_valid t" by (rule task_loaded(1))
  qed
  moreover have same: "map tk_task_id (rs_tasks s) = map st_task_id (cn_tasks c)"
    "map tk_state (rs_tasks s) = map st_state (cn_tasks c)"
    by (rule collect_map_eq[OF tasks], simp add: task_loaded)+
  then have "identities_distinct s" using V(1) ids by (simp add: identities_distinct_def)
  moreover have "accounted s" "n + unat (rs_reserved_bytes s) \<le> 8388608"
    using reservations_accounted[OF res fold] r by (auto simp: reservation_sum_def split: if_splits)
  moreover have "is_ok (validate_automation (ar_automation r))" if "r \<in> set (rs_automations s)" for r
  proof -
    obtain ex where "automation_records (cn_automations c) (cn_automation_executions c) = Ok (rs_automations s, ex)"
      using s by (auto simp: runtime_of_def rbind_eq_Ok_iff invalid_store_def split: if_splits simp del: distinct_append)
    then have "map ar_automation (rs_automations s) = map sau_automation (cn_automations c)"
      by (auto simp: automation_records_def rbind_eq_Ok_iff automations_loaded)
    from arg_cong[OF this, of set] have "ar_automation r \<in> sau_automation ` set (cn_automations c)"
      using that by (simp flip: set_map) (metis imageI set_map)
    then show ?thesis using V(6) by auto
  qed
  ultimately show ?thesis
    using s V(3-5) registry_counts[OF same(2)] by auto
qed

definition sample_canonical :: "(unit, unit, unit) canonical_state" where
  "sample_canonical = \<lparr>cn_schema_version = STORE_SCHEMA_VERSION,
     cn_store_revision = rs_revision sample_failed,
     cn_request_records = map (record_of sample_failed) (rs_dedup sample_failed),
     cn_tasks = map stored_task_from (rs_tasks sample_failed),
     cn_automations = map stored_automation_from (rs_automations sample_failed),
     cn_automation_executions = rs_automation_executions sample_failed, cn_artifact_manifest = [],
     cn_reservations = reservation_records (rs_tasks sample_failed) (rs_synchronous_executions sample_failed)\<rparr>"

lemma sample_canonical_of: "canonical_of sample_failed = Ok sample_canonical"
  unfolding sample_canonical_def by (rule canonical_of_held[OF core_invarD(3)[OF sample_core(3)]])

lemma sample_canonical_fields:
  "cn_schema_version sample_canonical = 1" "length (cn_request_records sample_canonical) = 1"
  "cn_automations sample_canonical = []" "cn_automation_executions sample_canonical = []"
  "cn_artifact_manifest sample_canonical = []" "cn_reservations sample_canonical = []"
  "length (cn_tasks sample_canonical) = 1" "st_state (hd (cn_tasks sample_canonical)) = TaskFailed"
  by (simp_all add: sample_canonical_def sample_failed_def sample_state_def sample_task_def tk_state_def
      reservation_records_def tk_is_terminal_def lifecycle_is_terminal_def stored_task_from_def)

lemma sample_validated: "validate_canonical sample_codec length_codec sample_canonical 4096 = Ok ()"
proof -
  note F = sample_canonical_fields
  obtain t q where l: "cn_tasks sample_canonical = [t]" "cn_request_records sample_canonical = [q]"
    using F(2,7) by (auto simp: length_Suc_conv)
  then have "running_tasks sample_canonical = 0" "queued_tasks sample_canonical = 0" "terminal_tasks sample_canonical = 1"
    using F(8) by (simp_all add: running_tasks_def queued_tasks_def terminal_tasks_def)
  moreover have "is_ok (runtime_of sample_codec sample_canonical)"
    using runtime_of_canonical[OF sample_core(3) sample_storable sample_canonical_of] by simp
  ultimately show ?thesis using F l by (simp add: validate_canonical_def reservation_sum_def)
qed

theorem load_checked_witness:
  "\<exists>s. list_all task_valid (rs_tasks s) \<and> identities_distinct s \<and> accounted s
    \<and> 4096 + unat (rs_reserved_bytes (s :: (unit, unit, unit) runtime_state)) \<le> 8388608"
  using load_checked[OF sample_validated] unfolding list_all_iff by blast

section \<open>Commits the store refuses\<close>

lemma collect_Err:
  assumes "\<And>x. x \<in> set xs \<Longrightarrow> f x = Err e \<or> (\<exists>y. f x = Ok y)" and "x \<in> set xs" "f x = Err e"
  shows "collect f xs = Err e"
  using assms
proof (induction xs)
  case (Cons a xs)
  then show ?case by (cases "f a = Err e") force+
qed simp

lemma shared_request_refused:
  assumes "dedup_known (rs_dedup s) r = Some h" and "owner_count s r > 1"
  shows "canonical_of s = invalid_store ''request identity has multiple canonical results''"
proof -
  have "list_ex (\<lambda>e. rr_request_id e = r) (rs_dedup s)" using assms(1) unfolding retained_iff by simp
  then obtain e where e: "e \<in> set (rs_dedup s)" "rr_request_id e = r" by (auto simp: list_ex_iff)
  have "collect (request_record_from s) (rs_dedup s)
      = invalid_store ''request identity has multiple canonical results''"
    unfolding invalid_store_def
    by (rule collect_Err[of _ _ _ e]) (use e assms(2) in \<open>auto simp: request_record_from_eq invalid_store_def\<close>)
  then show ?thesis by (simp add: canonical_of_def invalid_store_def)
qed

lemma admitted_task_identity [simp]:
  "tk_task_id (admitted_task a ex l n) = ta_task_id a"
  "tk_request_id (admitted_task a ex l n) = Some (ta_request_id a)"
  by (simp_all add: admitted_task_def tk_request_id_def)

text \<open> a request identity cannot be used again while its Task is in the history, although the index
  has forgotten it. Twenty-four hours after its settlement the core admits the identity as a new
  Task, but the state it commits has no stored form: the store refuses it as a second result of the
  same request, and the commit fails as an input or output error.
\<close>

lemma reused_request_refused:
  assumes "core_invar s" and "admit_task_section k current a s = Ok (Some s', TaskAdmitted snap)"
    and "u \<in> set (rs_tasks s')" "tk_request_id u = Some (ta_request_id a)" "tk_task_id u \<noteq> ta_task_id a"
  shows "canonical_of s' = err IoError ''request identity has multiple canonical results''"
proof -
  obtain d dec where d: "decide_and_reserve (rs_dedup s) (ta_request_id a) (ta_payload_sha256 a)
      (ta_now_ms a) False = (d, dec)" by fastforce
  have dec: "dec = Ok Admit" and new: "admit_new_task k current a ((prune_expired_requests k s (ta_now_ms a))\<lparr>rs_dedup := d\<rparr>)
      = Ok (Some s', TaskAdmitted snap)"
    using assms(2) d by (auto simp: admit_task_section_def rbind_eq_Ok_iff elim: decision_cases)
  have known: "dedup_known d (ta_request_id a) = Some (ta_payload_sha256 a, None)"
    using decide_admit_known(2)[OF requests_held_invar[OF core_invarD(3)[OF assms(1)]] d[unfolded dec]] by simp
  from new show ?thesis
  proof (rule admit_new_task_Ok)
    fix s1 ch ex
    let ?n = "max (ta_settlement_bound_bytes a) RESERVE_FLOOR_BYTES"
    let ?t = "admitted_task a ex \<lparr>tl_state = TaskQueued, tl_cancel_requested = False\<rparr> ?n"
    assume prune: "prune_task_history k ((prune_expired_requests k s (ta_now_ms a))\<lparr>rs_dedup := d\<rparr>) (ta_now_ms a)
        = Ok (s1, ch)"
      and s': "s' = s1\<lparr>rs_used_bytes := rs_used_bytes s1 + TASK_RECORD_BYTES,
          rs_reserved_bytes := rs_reserved_bytes s1 + ?n, rs_tasks := rs_tasks s1 @ [?t]\<rparr>"
    have "u \<in> set (filter (\<lambda>t. tk_request_id t = Some (ta_request_id a)) (rs_tasks s1))"
      using assms(3-5) by (auto simp: s')
    then have "length (filter (\<lambda>t. tk_request_id t = Some (ta_request_id a)) (rs_tasks s1)) > 0"
      by (rule length_pos_if_in_set)
    then have "owner_count s' (ta_request_id a) > 1"
      by (simp add: owner_count_def task_owners_def s')
    moreover have "dedup_known (rs_dedup s') (ta_request_id a) \<noteq> None"
      using known prune_task_history_request(1)[OF prune] by (simp add: s')
    ultimately show ?thesis using shared_request_refused by (fastforce simp: invalid_store_def)
  qed
qed

definition sample_again :: "unit task_admission" where
  "sample_again = sample_admission\<lparr>ta_task_id := UuidV4 ''t2'', ta_execution_id := UuidV4 ''x2'', ta_now_ms := 90000000\<rparr>"

lemma sample_readmitted:
  "\<exists>s'. admit_task_section sample_codec sample_ready sample_again sample_failed
     = Ok (Some s', TaskAdmitted (snapshot (admitted_task sample_again
         \<lparr>ae_host = ApkRuntime, ae_provider = Shizuku, ae_execution_class = ClassShizuku,
          ae_capability_generation = 3, ae_fence = sample_fence\<rparr>
         \<lparr>tl_state = TaskQueued, tl_cancel_requested = False\<rparr> 20000)))
     \<and> set (rs_tasks sample_failed) \<subseteq> set (rs_tasks s')"
proof -
  let ?d = "[\<lparr>rr_request_id = sample_request, rr_payload_sha256 = sample_digest, rr_expires_at_ms = None\<rparr>]"
  have d: "decide_and_reserve (rs_dedup sample_failed) sample_request sample_digest 90000000 False = (?d, Ok Admit)"
    by (simp add: decide_and_reserve_def sample_failed_def sample_state_def unexpired_def sample_digest_valid)
  have p: "prune_task_history sample_codec (sample_failed\<lparr>rs_dedup := ?d\<rparr>) 90000000 = Ok (sample_failed\<lparr>rs_dedup := ?d\<rparr>, False)"
    by (simp add: prune_task_history_def sample_failed_def sample_state_def sample_task_def tk_is_terminal_def
        lifecycle_is_terminal_def retained_requests_def unexpired_def pinned_by_def tk_request_id_def
        prune_flags_def Let_def)
  have e: "prune_expired_requests sample_codec sample_failed 90000000 = sample_failed"
    by (rule sample_prune_empty) (simp_all add: sample_failed_def sample_state_def)
  show ?thesis
    using d p e
    by (simp add: admit_task_section_def sample_again_def sample_admission_def Let_def)
      (simp add: admit_new_task_def sample_executor Let_def total_committed_and_reserved_def checked_add_def max_def
        sample_failed_def sample_state_def sample_task_def task_is_pinned_def tk_state_def tk_request_id_def
        unexpired_def apply_queue_new)
qed

lemma reused_request_refused_witness:
  "\<exists>s' snap. admit_task_section sample_codec sample_ready sample_again sample_failed = Ok (Some s', TaskAdmitted snap)
    \<and> canonical_of s' = err IoError ''request identity has multiple canonical results''"
proof -
  obtain s' where s': "admit_task_section sample_codec sample_ready sample_again sample_failed
     = Ok (Some s', TaskAdmitted (snapshot (admitted_task sample_again
         \<lparr>ae_host = ApkRuntime, ae_provider = Shizuku, ae_execution_class = ClassShizuku,
          ae_capability_generation = 3, ae_fence = sample_fence\<rparr>
         \<lparr>tl_state = TaskQueued, tl_cancel_requested = False\<rparr> 20000)))"
    and u: "set (rs_tasks sample_failed) \<subseteq> set (rs_tasks s')"
    using sample_readmitted by blast
  have "hd (rs_tasks sample_failed) \<in> set (rs_tasks s')" using u by (auto simp: sample_failed_def sample_state_def)
  from reused_request_refused[OF sample_core(3) s' this] show ?thesis
    using s' by (auto simp: sample_failed_def sample_state_def sample_task_def tk_request_id_def sample_again_def
        sample_admission_def)
qed

lemma length_filter_grow:
  "i < length xs \<Longrightarrow> \<not> P (xs ! i) \<Longrightarrow> P y \<Longrightarrow> length (filter P (xs[i := y])) = Suc (length (filter P xs))"
  by (induction xs arbitrary: i) (auto split: nat.splits)

text \<open>
  C31: settling an AutomationExecution does not make room in the Task history. When 500 Tasks have
  settled, the settlement is accepted by the core and its container becomes the 501st settled Task,
  so the store refuses the state it commits; the requests' Tasks prune the history before they commit.
\<close>

theorem automation_settlement_overflows:
  assumes "settle_automation_in_state s e outcome ts = Ok (s', summary)"
    and "length (filter tk_is_terminal (rs_tasks s)) = 500" and "canonical_of s' = Ok c"
  shows "\<not> is_ok (validate_canonical k tc c n)"
  using assms(1)
proof (rule settle_automation_Ok)
  fix xi ti l reserved used
  assume ti: "position (\<lambda>t. tk_execution_id t = e \<and> is_container t) (rs_tasks s) = Some ti"
    and l: "settle_lifecycle (tk_lifecycle (rs_tasks s ! ti)) outcome = Ok l"
    and rel: "release_ownership (settled_state s xi ti l reserved used e outcome ts)
       (xr_automation_id (rs_automation_executions s ! xi)) e = Ok s'"
  have terminal: "\<not> tk_is_terminal (rs_tasks s ! ti)" "lifecycle_is_terminal l"
    using settle_lifecycle_terminal[OF l] by (simp_all add: tk_is_terminal_def)
  have "rs_tasks s' = rs_tasks (settled_state s xi ti l reserved used e outcome ts)"
    using release_ownership_frame[OF rel] by (simp add: same_core_def)
  then have "length (filter tk_is_terminal (rs_tasks s')) = Suc (length (filter tk_is_terminal (rs_tasks s)))"
    using length_filter_grow[of ti "rs_tasks s" tk_is_terminal] position_SomeD(1)[OF ti] terminal
    by (simp add: settled_state_def update_task_def update_execution_def tk_is_terminal_def)
  then have n: "length (filter tk_is_terminal (rs_tasks s')) = 501" using assms(2) by simp
  have "cn_tasks c = map stored_task_from (rs_tasks s')"
    using assms(3) by (auto simp: canonical_of_def Let_def rbind_eq_Ok_iff invalid_store_def split: if_splits)
  then have "map tk_state (rs_tasks s') = map st_state (cn_tasks c)" by (simp add: stored_task_from_def)
  from registry_counts(3)[OF this] n have "terminal_tasks c = 501" by simp
  then show ?thesis using validate_canonical_Ok(5) by (fastforce simp: is_ok_def split: sum.splits)
qed

lemma settle_automation_requests:
  assumes "settle_automation_in_state s e outcome ts = Ok (s', summary)"
  shows "rs_dedup s' = rs_dedup s \<and> rs_synchronous_executions s' = rs_synchronous_executions s
    \<and> rs_retained_mutations s' = rs_retained_mutations s"
  using assms
proof (rule settle_automation_Ok)
  fix xi ti l reserved used
  assume "release_ownership (settled_state s xi ti l reserved used e outcome ts)
       (xr_automation_id (rs_automation_executions s ! xi)) e = Ok s'"
  from release_ownership_frame[OF this] show ?thesis
    by (simp add: same_core_def settled_state_def update_task_def update_execution_def)
qed

definition sample_container :: "(unit, unit) task_record" where
  "sample_container = (sample_task \<lparr>tl_state = TaskRunning, tl_cancel_requested = False\<rparr>)
     \<lparr>tk_tool := ToolAutomation, tk_action := AUTOMATION_EXECUTION_ACTION, tk_started_at := Some ''s'',
      tk_origin := OriginAutomationExecution (UuidV4 ''a'') (fence_of sample_fence)\<rparr>"

definition full_history :: "(unit, unit, unit) runtime_state" where
  "full_history = \<lparr>rs_revision = 0, rs_used_bytes = 0, rs_reserved_bytes = 20000,
     rs_tasks = sample_container # map (\<lambda>n. (hd (rs_tasks sample_failed))
       \<lparr>tk_task_id := UuidV4 (replicate n (CHR ''t'')), tk_execution_id := UuidV4 (replicate n (CHR ''y''))\<rparr>) [0..<500],
     rs_synchronous_executions = [], rs_dedup = [],
     rs_automations = [\<lparr>ar_automation = sample_automation, ar_next_due_at = None, ar_deleted_at = None,
       ar_active_execution_id = Some sample_execution, ar_run_requested_at = None\<rparr>],
     rs_automation_executions = [\<lparr>xr_automation_id = au_automation_id sample_automation,
       xr_summary = \<lparr>es_execution_id = sample_execution, es_task_id = sample_task_id, es_state = AutoRunning,
         es_triggered_at = ''c'', es_started_at = Some ''s'', es_ended_at = None, es_error_code = None\<rparr>\<rparr>],
     rs_retained_mutations = []\<rparr>"

lemma full_history_terminal: "length (filter tk_is_terminal (rs_tasks full_history)) = 500"
  by (simp add: full_history_def sample_container_def sample_failed_def sample_state_def sample_task_def
      tk_is_terminal_def lifecycle_is_terminal_def)

lemma full_history_settled:
  "is_ok (settle_automation_in_state full_history sample_execution AutoOutcomeCompleted ''e'')"
  by (simp add: settle_automation_in_state_def execution_index_def container_task_index_def full_history_def
      sample_container_def sample_task_def is_container_def xr_is_terminal_def settle_lifecycle_def
      lifecycle_apply_defs update_task_def update_execution_def checked_sub_def checked_add_def
      release_ownership_def Let_def del: upt_Suc)

theorem automation_settlement_overflows_witness:
  "\<exists>s' summary c. settle_automation_in_state full_history sample_execution AutoOutcomeCompleted ''e'' = Ok (s', summary)
     \<and> canonical_of s' = Ok c \<and> \<not> is_ok (validate_canonical sample_codec length_codec c 4096)"
proof -
  obtain s' summary where s': "settle_automation_in_state full_history sample_execution AutoOutcomeCompleted ''e''
      = Ok (s', summary)"
    using full_history_settled by (auto simp: is_ok_def split: sum.splits)
  have "rs_dedup s' = []" "rs_synchronous_executions s' = []" "rs_retained_mutations s' = []"
    using settle_automation_requests[OF s'] by (simp_all add: full_history_def)
  then obtain c where c: "canonical_of s' = Ok c" by (simp add: canonical_of_def)
  with automation_settlement_overflows[OF s' full_history_terminal c] s' show ?thesis by blast
qed

section \<open>AutomationExecutions\<close>

text \<open> an Automation has at most one execution at work. In every canonical state two unsettled
  executions of the same Automation are the same one; it is the execution its Automation names as
  active, and exactly one unsettled container Task carries it, queued or running with it.
\<close>

lemma automation_single_flight:
  assumes "core_invar s" and "x \<in> set (rs_automation_executions s)" and "\<not> xr_is_terminal x"
  shows "(\<forall>y\<in>set (rs_automation_executions s). \<not> xr_is_terminal y \<and> xr_automation_id y = xr_automation_id x \<longrightarrow> y = x)
    \<and> (\<exists>r\<in>set (rs_automations s). aid r = xr_automation_id x \<and> ar_active_execution_id r = Some (eid x))
    \<and> (\<exists>t\<in>set (rs_tasks s). container_of t x
         \<and> (\<forall>u\<in>set (rs_tasks s). is_container u \<and> tk_execution_id u = eid x \<longrightarrow> u = t))"
proof -
  note L = core_invarD(2)[OF assms(1)]
  have links: "links (set (rs_tasks s)) (set (rs_automation_executions s)) (set (rs_automations s))"
    and dx: "inj_on eid (set (rs_automation_executions s))" and dr: "inj_on aid (set (rs_automations s))"
    and dt: "inj_on tk_execution_id (set (rs_tasks s))"
    using L by (simp_all add: execution_linked_def distinct_map)
  obtain r where r: "r \<in> set (rs_automations s)" "aid r = xr_automation_id x" "ar_active_execution_id r = Some (eid x)"
    using links_owner[OF links assms(2,3)] .
  obtain t where t: "t \<in> set (rs_tasks s)" "container_of t x" using links_container[OF links assms(2,3)] .
  have "y = x" if y: "y \<in> set (rs_automation_executions s)" "\<not> xr_is_terminal y" "xr_automation_id y = xr_automation_id x" for y
  proof -
    obtain q where q: "q \<in> set (rs_automations s)" "aid q = xr_automation_id y" "ar_active_execution_id q = Some (eid y)"
      using links_owner[OF links y(1,2)] .
    then have "q = r" using inj_onD[OF dr] r y(3) by simp
    then show ?thesis using inj_onD[OF dx] q r y(1) assms(2) by simp
  qed
  moreover have "u = t" if "u \<in> set (rs_tasks s)" "tk_execution_id u = eid x" for u
    using inj_onD[OF dt] that t by (simp add: container_of_def)
  ultimately show ?thesis using r t by blast
qed

definition sample_automated :: "(unit, unit, unit) runtime_state" where
  "sample_automated = full_history\<lparr>rs_tasks := [sample_container]\<rparr>"

lemma sample_automated_core: "core_invar sample_automated"
  by (simp add: core_invar_def accounted_def reservations_def execution_linked_def links_def requests_held_def
      identities_distinct_def sample_automated_def full_history_def sample_container_def sample_task_def
      task_reservation_def tk_is_terminal_def xr_is_terminal_def container_of_def is_container_def tk_state_def
      owner_count_def task_owners_def tk_request_id_def task_held_def task_valid_def fields_fit_def
      container_operation_def dedup_invar_def dedup_known_def lifecycle_is_terminal_def)

lemma automation_single_flight_witness:
  "\<exists>t\<in>set (rs_tasks sample_automated). container_of t (hd (rs_automation_executions sample_automated))"
proof -
  have "hd (rs_automation_executions sample_automated) \<in> set (rs_automation_executions sample_automated)"
    "\<not> xr_is_terminal (hd (rs_automation_executions sample_automated))"
    by (simp_all add: sample_automated_def full_history_def xr_is_terminal_def)
  from automation_single_flight[OF sample_automated_core this] show ?thesis by blast
qed

end
