(* ===== verification/Automation_Properties.thy ===== *)
theory Automation_Properties
  imports Core_Samples
begin

text \<open>
  What the public automation actions and the due instants promise: a schedule never yields an instant
  that has passed, and an action does to the definitions exactly what it says, under the revision its
  caller saw, or nothing.
\<close>

section \<open>Due instants\<close>

lemma interval_bounds:
  assumes "is_ok (validate_trigger (TriggerInterval every_ms))"
  shows "i64_from_u64 every_ms = Some (uint every_ms)" "60000 \<le> uint every_ms" "uint every_ms \<le> 2592000000"
proof -
  have b: "60000 \<le> every_ms" "every_ms \<le> 2592000000"
    using assms by (auto simp: guard_err_def split: if_splits)
  then show "60000 \<le> uint every_ms" "uint every_ms \<le> 2592000000" by (simp_all add: word_le_def)
  then show "i64_from_u64 every_ms = Some (uint every_ms)" by (simp add: i64_from_u64_def)
qed

lemma rrule_occurrence_later:
  assumes "rrule_occurrence_after dc rrule timezone t = Ok (Some d)"
  shows "t < d"
  using assms by (auto simp: rrule_occurrence_after_def rbind_eq_Ok_iff dest: find_SomeD)

text \<open>The multiple of the interval an overdue trigger moves to.\<close>

lemma interval_steps:
  fixes elapsed every :: int
  assumes "0 < every" "0 \<le> elapsed"
  shows "elapsed < (elapsed div every + 1) * every" "(elapsed div every + 1) * every - every \<le> elapsed"
proof -
  have e: "elapsed = every * (elapsed div every) + elapsed mod every" by (rule mult_div_mod_eq[symmetric])
  have r: "0 \<le> elapsed mod every" "elapsed mod every < every" using assms by simp_all
  have k: "(elapsed div every + 1) * every = every * (elapsed div every) + every" by (simp add: algebra_simps)
  show "elapsed < (elapsed div every + 1) * every" "(elapsed div every + 1) * every - every \<le> elapsed"
    unfolding k using e r by linarith+
qed

lemma milliseconds_bounds:
  assumes "0 \<le> nanos"
  shows "0 \<le> num_milliseconds nanos" "num_milliseconds nanos * 1000000 \<le> nanos"
    "nanos < (num_milliseconds nanos + 1) * 1000000"
  using assms by (simp_all add: num_milliseconds_def)

text \<open> a schedule never yields an instant that has passed. The first due of a valid trigger lies after
  the commit; after an admission the next due of an interval is a whole number of intervals past the
  old one, lies after the wall clock and, when the old due had passed, at most one interval after it,
  so that missed instants are coalesced into one; a recurrence moves past the wall clock too, and a
  single instant and an event leave no due.
\<close>

lemma next_due_coalesced:
  assumes "is_ok (validate_trigger trigger)" and "due \<le> wall"
    and "next_due_after_admission dc trigger due wall = Ok next" and "initial_due dc trigger commit = Ok first"
  shows "(case first of Some d \<Rightarrow> commit < d | None \<Rightarrow> \<exists>n m. trigger = TriggerEvent n m)
    \<and> (case (trigger, next) of
         (TriggerInterval every_ms, Some d) \<Rightarrow> wall < d \<and> d \<le> wall + uint every_ms * 1000000
           \<and> (\<exists>k\<ge>1. d = due + k * (uint every_ms * 1000000))
       | (TriggerInterval every_ms, None) \<Rightarrow> False
       | (TriggerRrule _ _, Some d) \<Rightarrow> wall < d
       | (TriggerRrule _ _, None) \<Rightarrow> True
       | (_, d) \<Rightarrow> d = None)"
proof (cases trigger)
  case (TriggerInterval every_ms)
  let ?every = "uint every_ms" and ?e = "num_milliseconds (wall - due)"
  note B = interval_bounds[OF assms(1)[unfolded TriggerInterval]]
  have e: "0 \<le> ?e" "?e * 1000000 \<le> wall - due" "wall - due < (?e + 1) * 1000000"
    using milliseconds_bounds[of "wall - due"] assms(2) by simp_all
  have pos: "0 < ?every" using B(2) by simp
  note S = interval_steps[OF pos e(1)]
  let ?k = "?e div ?every + 1"
  have next_eq: "next = Some (due + ?k * ?every * 1000000)"
    using assms(3) e(1) B(1)
    by (auto simp: TriggerInterval rbind_eq_Ok_iff Let_def checked_add_instant_def i64_checked_mul_def
        bind_eq_Some_conv split: if_splits)
  have "(?e + 1) * 1000000 \<le> ?k * ?every * 1000000" using S(1) by simp
  then have after: "wall < due + ?k * ?every * 1000000" using e(3) by linarith
  have "(?k * ?every - ?every) * 1000000 \<le> ?e * 1000000" using S(2) by simp
  then have near: "due + ?k * ?every * 1000000 \<le> wall + ?every * 1000000"
    using e(2) by (simp add: left_diff_distrib)
  have "0 \<le> ?e div ?every" using e(1) pos by (simp add: pos_imp_zdiv_nonneg_iff)
  then have "\<exists>k\<ge>1. due + ?k * ?every * 1000000 = due + k * (?every * 1000000)"
    by (intro exI[of _ ?k]) (simp add: mult.assoc)
  moreover have "first = Some (commit + ?every * 1000000)"
    using assms(4) B(1)
    by (auto simp: TriggerInterval add_millis_def rbind_eq_Ok_iff checked_add_instant_def split: if_splits)
  ultimately show ?thesis using next_eq after near pos by (simp add: TriggerInterval)
next
  case (TriggerRrule rrule timezone)
  then show ?thesis
    using assms(3,4) rrule_occurrence_later
    by (auto simp: rbind_eq_Ok_iff split: option.splits)
qed (use assms(3,4) in \<open>auto simp: rbind_eq_Ok_iff split: if_splits\<close>)

definition sample_schedule :: due_codec where
  "sample_schedule = sample_due\<lparr>dc_in_range := (\<lambda>t. 0 \<le> t \<and> t < 10 ^ 18)\<rparr>"

text \<open>An interval of a minute, five and a half minutes late.\<close>

lemma next_due_coalesced_witness:
  "next_due_after_admission sample_schedule (TriggerInterval 60000) 1000000000 331000000000 = Ok (Some 361000000000)
     \<and> (331000000000 :: instant) < 361000000000"
proof -
  have n: "next_due_after_admission sample_schedule (TriggerInterval 60000) 1000000000 331000000000 = Ok (Some 361000000000)"
    by (simp add: i64_from_u64_def num_milliseconds_def i64_checked_mul_def checked_add_instant_def sample_schedule_def)
  have f: "initial_due sample_schedule (TriggerInterval 60000) 0 = Ok (Some 60000000000)"
    by (simp add: add_millis_def i64_from_u64_def checked_add_instant_def sample_schedule_def)
  have v: "is_ok (validate_trigger (TriggerInterval 60000))" by simp
  from next_due_coalesced[OF v _ n f] n show ?thesis by simp
qed

section \<open>Actions\<close>

text \<open>
  A committed action, as what it did to the Automations: \<open>edited_record\<close> is a definition changed under
  the revision its caller expected.
\<close>

definition edited_record :: "automation_id \<Rightarrow> u64 \<Rightarrow> automation_record \<Rightarrow> automation_record \<Rightarrow> bool" where
  "edited_record a expected r r' \<longleftrightarrow> aid r = a \<and> aid r' = a \<and> ar_deleted_at r = None
     \<and> au_revision (ar_automation r) = expected
     \<and> unat (au_revision (ar_automation r')) = unat expected + 1
     \<and> au_state (ar_automation r') = au_state (ar_automation r)
     \<and> ar_active_execution_id r' = ar_active_execution_id r
     \<and> ar_run_requested_at r' = ar_run_requested_at r"

fun action_effect :: "automation_call \<Rightarrow> ('p, 'r, 'j) runtime_state \<Rightarrow> ('p, 'r, 'j) runtime_state \<Rightarrow> bool" where
  "action_effect (AutomationSave (SaveCreate input)) s s' \<longleftrightarrow>
     rs_automation_executions s' = rs_automation_executions s
     \<and> (\<exists>r. rs_automations s' = rs_automations s @ [r] \<and> au_revision (ar_automation r) = 1
          \<and> au_state (ar_automation r) = [] \<and> au_name (ar_automation r) = aci_name input
          \<and> au_trigger (ar_automation r) = aci_trigger input \<and> au_action (ar_automation r) = aci_action input
          \<and> (ar_next_due_at r \<noteq> None \<longrightarrow> aci_enabled input)
          \<and> ar_active_execution_id r = None \<and> ar_deleted_at r = None)"
| "action_effect (AutomationSave (SaveUpdate input)) s s' \<longleftrightarrow>
     rs_automation_executions s' = rs_automation_executions s
     \<and> (\<exists>i r. i < length (rs_automations s) \<and> rs_automations s' = (rs_automations s)[i := r]
          \<and> edited_record (aui_automation_id input) (aui_expected_revision input) (rs_automations s ! i) r
          \<and> au_name (ar_automation r) = aui_name input \<and> au_trigger (ar_automation r) = aui_trigger input
          \<and> au_action (ar_automation r) = aui_action input \<and> au_enabled (ar_automation r) = aui_enabled input)"
| "action_effect (AutomationSetEnabled input) s s' \<longleftrightarrow>
     rs_automation_executions s' = rs_automation_executions s
     \<and> (\<exists>i r. i < length (rs_automations s) \<and> rs_automations s' = (rs_automations s)[i := r]
          \<and> edited_record (asi_automation_id input) (asi_expected_revision input) (rs_automations s ! i) r
          \<and> au_enabled (ar_automation r) = asi_enabled input
          \<and> au_action (ar_automation r) = au_action (ar_automation (rs_automations s ! i))
          \<and> au_trigger (ar_automation r) = au_trigger (ar_automation (rs_automations s ! i)))"
| "action_effect (AutomationDelete input) s s' \<longleftrightarrow>
     (\<exists>i < length (rs_automations s). aid (rs_automations s ! i) = adi_automation_id input
        \<and> au_revision (ar_automation (rs_automations s ! i)) = adi_expected_revision input
        \<and> (if ar_active_execution_id (rs_automations s ! i) = None
           then rs_automations s' = take i (rs_automations s) @ drop (Suc i) (rs_automations s)
             \<and> rs_automation_executions s' = filter (\<lambda>x. xr_automation_id x \<noteq> adi_automation_id input)
                 (rs_automation_executions s)
           else rs_automation_executions s' = rs_automation_executions s
             \<and> (\<exists>r. rs_automations s' = (rs_automations s)[i := r] \<and> ar_deleted_at r \<noteq> None \<and> ar_next_due_at r = None
                  \<and> edited_record (adi_automation_id input) (adi_expected_revision input) (rs_automations s ! i) r)))"
| "action_effect (AutomationRun a) s s' \<longleftrightarrow>
     rs_automation_executions s' = rs_automation_executions s
     \<and> (\<exists>i < length (rs_automations s). aid (rs_automations s ! i) = a
          \<and> ar_active_execution_id (rs_automations s ! i) = None \<and> ar_run_requested_at (rs_automations s ! i) = None
          \<and> (\<exists>timestamp. rs_automations s' = (rs_automations s)
               [i := (rs_automations s ! i)\<lparr>ar_run_requested_at := Some timestamp\<rparr>]))"
| "action_effect _ s s' \<longleftrightarrow> False"

lemma save_create_effect:
  assumes "automation_save encode dc generated (SaveCreate c) timestamp commit s = Ok (s', j)"
  shows "action_effect (AutomationSave (SaveCreate c)) s s'"
  using assms
  by (auto simp: new_uuid_def rbind_eq_Ok_iff Let_def scheduled_due_def split: if_splits)

lemma apply_definition_effect:
  assumes i: "visible_index s a = Ok i" and slot: "definition_slot s i = Ok slot"
    and update: "slot_update_definition slot r n b t ac u = Ok (slot', r')"
    and ok: "apply_definition encode dc s i slot' commit = Ok (s', j)"
  shows "rs_automation_executions s' = rs_automation_executions s
    \<and> (\<exists>record. i < length (rs_automations s) \<and> rs_automations s' = (rs_automations s)[i := record]
         \<and> edited_record a r (rs_automations s ! i) record \<and> au_name (ar_automation record) = n
         \<and> au_trigger (ar_automation record) = t \<and> au_action (ar_automation record) = ac
         \<and> au_enabled (ar_automation record) = b)"
proof -
  note I = visible_index_Ok[OF i] and S = definition_slot_Ok[OF slot]
  note U = slot_update_definition_Ok[OF update S(1)]
  obtain due where s': "s' = update_automation i (\<lambda>r. r\<lparr>ar_automation :=
      edited (ar_automation (rs_automations s ! i)) n b t ac r' u, ar_next_due_at := due\<rparr>) s"
    using ok U(1,5) by (auto simp: apply_definition_def rbind_eq_Ok_iff Let_def slot_visible_def split: if_splits)
  have "unat r' = unat r + 1" using unat_checked_add[OF U(4)] by simp
  then show ?thesis
    using I U(3) unfolding s' by (auto simp: update_automation_def edited_record_def edited_def)
qed

lemma save_update_effect:
  assumes "automation_save encode dc generated (SaveUpdate input) timestamp commit s = Ok (s', j)"
  shows "action_effect (AutomationSave (SaveUpdate input)) s s'"
proof -
  obtain i slot slot' r' where "visible_index s (aui_automation_id input) = Ok i" "definition_slot s i = Ok slot"
    "slot_update_definition slot (aui_expected_revision input) (aui_name input) (aui_enabled input)
       (aui_trigger input) (aui_action input) timestamp = Ok (slot', r')"
    "apply_definition encode dc s i slot' commit = Ok (s', j)"
    using assms by (auto simp: rbind_eq_Ok_iff)
  from apply_definition_effect[OF this] show ?thesis by auto
qed

lemma save_effect:
  assumes "automation_save encode dc generated input timestamp commit s = Ok (s', j)"
  shows "action_effect (AutomationSave input) s s'"
proof (cases input)
  case (SaveCreate c)
  show ?thesis using assms unfolding SaveCreate by (rule save_create_effect)
next
  case (SaveUpdate u)
  show ?thesis using assms unfolding SaveUpdate by (rule save_update_effect)
qed

lemma set_enabled_effect:
  assumes "automation_set_enabled encode dc input timestamp commit s = Ok (s', j)"
  shows "action_effect (AutomationSetEnabled input) s s'"
proof -
  obtain i slot slot' r' where i: "visible_index s (asi_automation_id input) = Ok i" "definition_slot s i = Ok slot"
    and e: "slot_set_enabled slot (asi_expected_revision input) (asi_enabled input) timestamp = Ok (slot', r')"
    and a: "apply_definition encode dc s i slot' commit = Ok (s', j)"
    using assms by (auto simp: automation_set_enabled_def rbind_eq_Ok_iff)
  note S = definition_slot_Ok[OF i(2)]
  let ?c = "ar_automation (rs_automations s ! i)"
  have "slot_update_definition slot (asi_expected_revision input) (au_name ?c) (asi_enabled input)
      (au_trigger ?c) (au_action ?c) timestamp = Ok (slot', r')"
    using e S by (auto simp: slot_set_enabled_def slot_visible_def rbind_eq_Ok_iff)
  from apply_definition_effect[OF i this a] show ?thesis by auto
qed

lemma delete_effect:
  assumes "automation_delete encode input timestamp s = Ok (s', j)"
  shows "action_effect (AutomationDelete input) s s'"
proof -
  obtain i slot slot' disposition where i: "visible_index s (adi_automation_id input) = Ok i"
    "definition_slot s i = Ok slot" and d: "slot_delete slot (adi_expected_revision input) timestamp = Ok (slot', disposition)"
    using assms by (auto simp: automation_delete_def rbind_eq_Ok_iff)
  note I = visible_index_Ok[OF i(1)] and S = definition_slot_Ok[OF i(2)]
  have disp: "disposition = (if ar_active_execution_id (rs_automations s ! i) = None then RemovedImmediately else Tombstoned)"
    and rev: "adi_expected_revision input = au_revision (ar_automation (rs_automations s ! i))"
    using d S by (auto simp: slot_delete_def slot_visible_def rbind_eq_Ok_iff split: if_splits)
  show ?thesis
  proof (cases "ar_active_execution_id (rs_automations s ! i)")
    case None
    then have "rs_automations s' = take i (rs_automations s) @ drop (Suc i) (rs_automations s)"
      "rs_automation_executions s' = filter (\<lambda>x. xr_automation_id x \<noteq> adi_automation_id input) (rs_automation_executions s)"
      using assms i d disp by (auto simp: automation_delete_def rbind_eq_Ok_iff)
    with None I rev show ?thesis by auto
  next
    case (Some e)
    obtain revision where r: "checked_add (adi_expected_revision input) 1 = Some revision"
      and s': "s' = update_automation i (\<lambda>r. r\<lparr>ar_automation := (ar_automation r)\<lparr>au_revision := revision\<rparr>,
           ar_deleted_at := Some timestamp, ar_next_due_at := None\<rparr>) s"
      using assms i d disp Some by (auto simp: automation_delete_def rbind_eq_Ok_iff)
    show ?thesis
      using unat_checked_add[OF r] I rev Some unfolding s'
      by (auto simp: update_automation_def edited_record_def intro!: exI[of _ i])
  qed
qed

lemma run_effect:
  assumes "request_run encode a timestamp s = Ok (s', j)"
  shows "action_effect (AutomationRun a) s s'"
proof -
  obtain i where i: "visible_index s a = Ok i" "ar_active_execution_id (rs_automations s ! i) = None"
      "ar_run_requested_at (rs_automations s ! i) = None"
    and s': "s' = update_automation i (\<lambda>r. r\<lparr>ar_run_requested_at := Some timestamp\<rparr>) s"
    using assms by (auto simp: request_run_def rbind_eq_Ok_iff Let_def split: if_splits)
  show ?thesis
    using visible_index_Ok[OF i(1)] i unfolding s' by (auto simp: update_automation_def)
qed

lemma action_effect_cong:
  assumes "rs_automations p = rs_automations s" "rs_automation_executions p = rs_automation_executions s"
    and "rs_automations q = rs_automations s'" "rs_automation_executions q = rs_automation_executions s'"
  shows "action_effect call p q \<longleftrightarrow> action_effect call s s'"
  using assms by (cases "(call, s, s')" rule: action_effect.cases) auto

lemma public_effect:
  assumes "automation_public_section k encode dc current generated r h call timestamp now admitting s = Ok (Some s', j)"
  shows "action_effect call s s'"
proof -
  have lift: "action_effect call s s'"
    if m: "retained_mutation_section k current r h now mutate s = Ok (Some s', j)"
      and e: "\<And>p q j. mutate p = Ok (q, j) \<Longrightarrow> action_effect call p q" for mutate
    using m
  proof (rule retained_mutation_Ok)
    fix d s1 growth u d' x
    let ?p = "(prune_expired_requests k s now)\<lparr>rs_dedup := d\<rparr>"
    assume "mutate ?p = Ok (s1, j)"
      and s': "s' = s1\<lparr>rs_used_bytes := u, rs_dedup := d', rs_retained_mutations := rs_retained_mutations s1
       @ [\<lparr>rm_request_id = r, rm_result = j\<rparr>]\<rparr>"
    then have "action_effect call ?p s1" by (intro e)
    then show ?thesis using action_effect_cong[of ?p s s1 s' call] by (simp add: s')
  qed
  show ?thesis
  proof (cases call)
    case (AutomationSave input)
    then obtain commit where "retained_mutation_section k current r h now
        (automation_save encode dc generated input timestamp commit) s = Ok (Some s', j)"
      using assms by (auto simp: automation_public_section_def rbind_eq_Ok_iff split: if_splits)
    then show ?thesis unfolding AutomationSave by (rule lift[unfolded AutomationSave]) (rule save_effect)
  next
    case (AutomationSetEnabled input)
    then obtain commit where "retained_mutation_section k current r h now
        (automation_set_enabled encode dc input timestamp commit) s = Ok (Some s', j)"
      using assms by (auto simp: automation_public_section_def rbind_eq_Ok_iff split: if_splits)
    then show ?thesis unfolding AutomationSetEnabled by (rule lift[unfolded AutomationSetEnabled]) (rule set_enabled_effect)
  next
    case (AutomationDelete input)
    then have "retained_mutation_section k current r h now (automation_delete encode input timestamp) s = Ok (Some s', j)"
      using assms by (auto simp: automation_public_section_def split: if_splits)
    then show ?thesis unfolding AutomationDelete by (rule lift[unfolded AutomationDelete]) (rule delete_effect)
  next
    case (AutomationRun a)
    then have "retained_mutation_section k current r h now (request_run encode a timestamp) s = Ok (Some s', j)"
      using assms by (auto simp: automation_public_section_def split: if_splits)
    then show ?thesis unfolding AutomationRun by (rule lift[unfolded AutomationRun]) (rule run_effect)
  qed (use assms in \<open>auto simp: automation_public_section_def rbind_eq_Ok_iff split: if_splits\<close>)
qed

lemma public_kept:
  assumes inv: "core_invar s" and kept: "automations_kept s"
    and unused: "\<And>t. t \<in> set (rs_tasks s) \<Longrightarrow> tk_request_id t \<noteq> Some r"
    and fresh: "fresh_automation generated s"
    and ok: "automation_public_section k encode dc current generated r h call timestamp now admitting s = Ok (Some s', j)"
  shows "automations_kept s' \<and> rs_tasks s' = rs_tasks s \<and> rs_reserved_bytes s' = rs_reserved_bytes s"
  using ok fresh
proof (rule automation_public_mutation)
  fix mutate
  assume m: "retained_mutation_section k current r h now mutate s = Ok (Some s', j)" and f: "automation_mutation mutate s"
  from m show ?thesis
  proof (rule retained_mutation_Ok)
    fix d s1 growth u d' x
    let ?p = "(prune_expired_requests k s now)\<lparr>rs_dedup := d\<rparr>"
    assume d: "decide_and_reserve (rs_dedup s) r h now False = (d, Ok Admit)"
      and q: "mutate ?p = Ok (s1, j)"
      and s': "s' = s1\<lparr>rs_used_bytes := u, rs_dedup := d', rs_retained_mutations := rs_retained_mutations s1
       @ [\<lparr>rm_request_id = r, rm_result = j\<rparr>]\<rparr>"
    have "automation_frame ?p s1"
      using f q admitted_request_core(1)[OF inv d unused refl] by (simp add: automation_mutation_def)
    note F = automation_frameD[OF this]
    have "automations_kept ?p" by (rule automations_kept_same[OF kept]) simp_all
    from F(7)[OF this] have "automations_kept s'" by (rule automations_kept_same) (simp_all add: s')
    then show ?thesis using F(1,3) by (simp add: s')
  qed
qed


definition sample_create :: automation_create_input where
  "sample_create = \<lparr>aci_name = ''n'', aci_enabled = True, aci_trigger = TriggerInterval 60000, aci_action = Delay 5\<rparr>"

definition sample_instants :: due_codec where
  "sample_instants = sample_due\<lparr>dc_clock := \<lparr>ck_parse = (\<lambda>_. Some 0), ck_format = (\<lambda>_. ''d'')\<rparr>\<rparr>"

definition sample_record :: automation_record where
  "sample_record =
     \<lparr>ar_automation = \<lparr>au_automation_id = UuidV4 ''a'', au_name = ''n'', au_enabled = True,
        au_trigger = TriggerInterval 60000, au_action = Delay 5, au_state = [], au_revision = 1,
        au_created_at = ''c'', au_updated_at = ''c''\<rparr>,
      ar_next_due_at = Some ''d'', ar_deleted_at = None, ar_active_execution_id = None, ar_run_requested_at = None\<rparr>"

lemma sample_automation_valid: "is_ok (validate_automation (ar_automation sample_record))"
  by (simp add: is_ok_validate_automation sample_record_def bounded_def NUL_def validate_state_def structural_bounds_def)

lemma sample_slot: "slot_new (ar_automation sample_record) =
    Ok \<lparr>sl_record = Some (ar_automation sample_record), sl_active = None, sl_deleted_at = None\<rparr>"
  using sample_automation_valid by (simp add: slot_new_Ok)

lemma sample_saved:
  "automation_save (\<lambda>_. Some ()) sample_instants (Some (UuidV4 ''a'')) (SaveCreate sample_create) ''c'' 0
     (runtime_state_default\<lparr>rs_dedup := d\<rparr> :: (unit, unit, unit) runtime_state)
   = Ok (runtime_state_default\<lparr>rs_dedup := d, rs_automations := [sample_record]\<rparr>, ())"
  using sample_slot
  by (simp add: new_uuid_def sample_create_def sample_record_def scheduled_due_def add_millis_def i64_from_u64_def
      checked_add_instant_def sample_instants_def sample_due_def to_value_def runtime_state_default_def)

definition sample_automated :: "(unit, unit, unit) runtime_state" where
  "sample_automated = runtime_state_default\<lparr>rs_used_bytes := 0 + (4 + RETAINED_MUTATION_RECORD_BYTES),
     rs_dedup := [\<lparr>rr_request_id = sample_request, rr_payload_sha256 = sample_digest, rr_expires_at_ms = Some 86401000\<rparr>],
     rs_automations := [sample_record],
     rs_retained_mutations := [\<lparr>rm_request_id = sample_request, rm_result = ()\<rparr>]\<rparr>"

lemma sample_created:
  "automation_public_section sample_codec (\<lambda>_. Some ()) sample_instants sample_ready (Some (UuidV4 ''a''))
     sample_request sample_digest (AutomationSave (SaveCreate sample_create)) ''c'' 1000 True
     (runtime_state_default :: (unit, unit, unit) runtime_state) = Ok (Some sample_automated, ())"
  using sample_saved[of "[\<lparr>rr_request_id = sample_request, rr_payload_sha256 = sample_digest, rr_expires_at_ms = None\<rparr>]"]
    sample_decide[of 1000]
  by (simp add: automation_public_section_def commit_instant_def sample_instants_def retained_mutation_section_def
      sample_prune_empty runtime_state_default_def Let_def require_ready_def sample_snapshot_def sample_context_def
      retained_mutation_bytes_def sample_codec_def checked_add_def total_committed_and_reserved_def grow_used_def
      sample_automated_def dedup_settle_def)


end
