(* ===== verification/Automation_Interp.thy ===== *)
theory Automation_Interp
  imports Automation_Validate
begin

text \<open>
  The interpreter of \<open>rust/crates/runtime/src/automation.rs\<close>: its walk over an immutable action tree,
  the effects it calls and the facts a Call leaves for later conditions. The effects are a record of
  functions over the state of their owner; \<open>recorded\<close> keeps a log of what they answered, so that a
  property of a run is a property of its log.
\<close>

section \<open>Effects\<close>

record call_outcome =
  co_failure :: "error_code option"
  co_exit_code :: "i32 option"

definition call_outcome_default :: call_outcome where
  "call_outcome_default = \<lparr>co_failure = None, co_exit_code = None\<rparr>"

record 'e automation_effects =
  fx_checkpoint :: "'e \<Rightarrow> 'e \<times> unit res"
  fx_call :: "automation_compatible_call \<Rightarrow> 'e \<Rightarrow> 'e \<times> call_outcome res"
  fx_set_state :: "string \<Rightarrow> scalar_value \<Rightarrow> 'e \<Rightarrow> 'e \<times> unit res"
  fx_delay :: "u64 \<Rightarrow> 'e \<Rightarrow> 'e \<times> unit res"

text \<open>A step over a state that may fail; what a failed step changed stays changed.\<close>

type_synonym ('s, 'a) fallible = "'s \<Rightarrow> 's \<times> 'a res"

definition and_then :: "('s, 'a) fallible \<Rightarrow> ('a \<Rightarrow> ('s, 'b) fallible) \<Rightarrow> ('s, 'b) fallible" where
  "and_then m f s = (case m s of (s', Err e) \<Rightarrow> (s', Err e) | (s', Ok x) \<Rightarrow> f x s')"

definition finish :: "'a res \<Rightarrow> ('s, 'a) fallible" where
  "finish r s = (s, r)"

lemma and_then_cong [fundef_cong]:
  "m s = m' s' \<Longrightarrow> (\<And>x t. m' s' = (t, Ok x) \<Longrightarrow> f x t = f' x t) \<Longrightarrow> and_then m f s = and_then m' f' s'"
  by (auto simp: and_then_def split: prod.splits sum.splits)

section \<open>The walk\<close>

text \<open>The owner's state, the mirror of the Automation's state and the facts of the last Call.\<close>

record 'e interpretation_state =
  is_owner :: 'e
  is_values :: "scalar_value btree_map"
  is_result :: "scalar_value btree_map"

definition on_owner :: "('e, 'a) fallible \<Rightarrow> ('e interpretation_state, 'a) fallible" where
  "on_owner m s = (let (e, r) = m (is_owner s) in (s\<lparr>is_owner := e\<rparr>, r))"

definition result_facts :: "domain_error option \<Rightarrow> i32 option \<Rightarrow> scalar_value btree_map" where
  "result_facts failure exit_code =
     (let facts = bt_from [(''succeeded'', ScalarBoolean (failure = None))];
          facts = (case failure of None \<Rightarrow> facts
                   | Some error \<Rightarrow> bt_insert ''error_code'' (ScalarString (error_code_token (de_code error))) facts)
      in case exit_code of None \<Rightarrow> facts
         | Some code \<Rightarrow> bt_insert ''exit_code'' (ScalarInteger (scast code)) facts)"

definition call_facts :: "call_outcome res \<Rightarrow> domain_error option \<times> i32 option" where
  "call_facts answer =
     (case answer of
        Ok outcome \<Rightarrow> (map_option (\<lambda>code. domain_error_new code ''Automation Call did not succeed'')
                         (co_failure outcome), co_exit_code outcome)
      | Err error \<Rightarrow> (Some error, None))"

text \<open>The loop over the children of a sequence and the loop of a repeat.\<close>

fun in_order :: "('s, unit) fallible list \<Rightarrow> ('s, unit) fallible" where
  "in_order [] = finish (Ok ())"
| "in_order (m # ms) = and_then m (\<lambda>_. in_order ms)"

fun repeated :: "('s, unit) fallible \<Rightarrow> ('s, unit) fallible \<Rightarrow> nat \<Rightarrow> ('s, unit) fallible" where
  "repeated body pause 0 = finish (Ok ())"
| "repeated body pause (Suc remaining) =
     and_then body (\<lambda>_. and_then (if remaining > 0 then pause else finish (Ok ())) (\<lambda>_.
       repeated body pause remaining))"

fun visit ::
  "'e automation_effects \<Rightarrow> scalar_value btree_map \<Rightarrow> automation_action \<Rightarrow>
   ('e interpretation_state, unit) fallible"
where
  "visit fx trigger (Call call on_failure) =
     and_then (on_owner (fx_checkpoint fx)) (\<lambda>_ s.
       let (owner, answer) = fx_call fx call (is_owner s);
           (failure, exit_code) = call_facts answer
       in and_then (on_owner (fx_checkpoint fx)) (\<lambda>_ s.
            (s\<lparr>is_result := result_facts failure exit_code\<rparr>,
             case failure of Some error \<Rightarrow> if is_stop on_failure then Err error else Ok () | None \<Rightarrow> Ok ()))
          (s\<lparr>is_owner := owner\<rparr>))"
| "visit fx trigger (Sequence children) =
     and_then (on_owner (fx_checkpoint fx)) (\<lambda>_. in_order (map (visit fx trigger) children))"
| "visit fx trigger (Conditional condition then_action else_action) =
     and_then (on_owner (fx_checkpoint fx)) (\<lambda>_ s.
       if evaluate_condition condition
            (case ac_source condition of
               SourceState \<Rightarrow> is_values s | SourceTrigger \<Rightarrow> trigger | SourceResult \<Rightarrow> is_result s)
       then visit fx trigger then_action s
       else case else_action of Some action \<Rightarrow> visit fx trigger action s | None \<Rightarrow> (s, Ok ()))"
| "visit fx trigger (Repeat count action delay_ms) =
     and_then (on_owner (fx_checkpoint fx)) (\<lambda>_.
       repeated (visit fx trigger action)
         (if delay_ms > 0
          then and_then (on_owner (fx_delay fx delay_ms)) (\<lambda>_. on_owner (fx_checkpoint fx))
          else finish (Ok ()))
         (unat count))"
| "visit fx trigger (Delay duration_ms) =
     and_then (on_owner (fx_checkpoint fx)) (\<lambda>_.
       and_then (on_owner (fx_delay fx duration_ms)) (\<lambda>_. on_owner (fx_checkpoint fx)))"
| "visit fx trigger (SetState key v) =
     and_then (on_owner (fx_checkpoint fx)) (\<lambda>_.
       and_then (on_owner (fx_set_state fx key v)) (\<lambda>_ s.
         (s\<lparr>is_values := bt_insert key v (is_values s)\<rparr>, Ok ())))"

text \<open>\<open>AutomationInterpreter::execute\<close>.\<close>

definition execute ::
  "'e automation_effects \<Rightarrow> automation_action \<Rightarrow> scalar_value btree_map \<Rightarrow> scalar_value btree_map \<Rightarrow>
   'e \<Rightarrow> 'e interpretation_state \<times> unit res" where
  "execute fx action state trigger owner =
     visit fx trigger action \<lparr>is_owner = owner, is_values = state, is_result = []\<rparr>"

section \<open>The log of a run\<close>

datatype logged =
  LoggedCheckpoint "unit res"
| LoggedCall automation_compatible_call "call_outcome res"
| LoggedSetState string scalar_value "unit res"
| LoggedDelay u64 "unit res"

definition logging :: "('a res \<Rightarrow> logged) \<Rightarrow> ('e, 'a) fallible \<Rightarrow> ('e \<times> logged list, 'a) fallible" where
  "logging entry m s = (let (e, r) = m (fst s) in ((e, snd s @ [entry r]), r))"

definition recorded :: "'e automation_effects \<Rightarrow> ('e \<times> logged list) automation_effects" where
  "recorded fx =
     \<lparr>fx_checkpoint = logging LoggedCheckpoint (fx_checkpoint fx),
      fx_call = (\<lambda>call. logging (LoggedCall call) (fx_call fx call)),
      fx_set_state = (\<lambda>key v. logging (LoggedSetState key v) (fx_set_state fx key v)),
      fx_delay = (\<lambda>ms. logging (LoggedDelay ms) (fx_delay fx ms))\<rparr>"

text \<open>The failure an entry reports.\<close>

fun entry_failure :: "logged \<Rightarrow> domain_error option" where
  "entry_failure (LoggedCall call answer) = fst (call_facts answer)"
| "entry_failure (LoggedCheckpoint (Err e)) = Some e"
| "entry_failure (LoggedSetState key v (Err e)) = Some e"
| "entry_failure (LoggedDelay ms (Err e)) = Some e"
| "entry_failure entry = None"

fun is_call :: "logged \<Rightarrow> bool" where
  "is_call (LoggedCall call answer) = True"
| "is_call entry = False"

text \<open>
  A run goes on after a Call whatever it answered, and after every other effect that succeeded. It
  fails with the last effect, or with a Call that only a successful recheck follows.
\<close>

definition goes_on :: "logged \<Rightarrow> bool" where
  "goes_on entry \<longleftrightarrow> is_call entry \<or> entry_failure entry = None"

definition run_log :: "logged list \<Rightarrow> unit res \<Rightarrow> bool" where
  "run_log t r \<longleftrightarrow> (case r of
     Ok _ \<Rightarrow> list_all goes_on t
   | Err e \<Rightarrow> \<exists>before entry. list_all goes_on before \<and> entry_failure entry = Some e
       \<and> (t = before @ [entry] \<or> is_call entry \<and> t = before @ [entry, LoggedCheckpoint (Ok ())]))"

text \<open>Every Call and every state write directly follows a checkpoint that passed.\<close>

fun guarded :: "bool \<Rightarrow> logged list \<Rightarrow> bool" where
  "guarded passed [] = True"
| "guarded passed (LoggedCheckpoint r # t) = guarded (is_ok r) t"
| "guarded passed (LoggedCall call answer # t) = (passed \<and> guarded False t)"
| "guarded passed (LoggedSetState key v r # t) = (passed \<and> guarded False t)"
| "guarded passed (LoggedDelay ms r # t) = guarded False t"

text \<open>The committed state writes.\<close>

fun mirrored :: "logged \<Rightarrow> scalar_value btree_map \<Rightarrow> scalar_value btree_map" where
  "mirrored (LoggedSetState key v (Ok _)) m = bt_insert key v m"
| "mirrored entry m = m"

section \<open>Steps and their logs\<close>

text \<open>\<open>logs n c m\<close>: the step logs at most \<open>n\<close> effects, \<open>c\<close> of them Calls, in the order above.\<close>

definition logs :: "nat \<Rightarrow> nat \<Rightarrow> (('e \<times> logged list) interpretation_state, unit) fallible \<Rightarrow> bool" where
  "logs n c m \<longleftrightarrow> (\<forall>s s' r. m s = (s', r) \<longrightarrow> (\<exists>t. snd (is_owner s') = snd (is_owner s) @ t
     \<and> run_log t r \<and> guarded False t \<and> is_values s' = fold mirrored t (is_values s)
     \<and> length t \<le> n \<and> length (filter is_call t) \<le> c))"

lemma logsI:
  assumes "\<And>s s' r. m s = (s', r) \<Longrightarrow> \<exists>t. snd (is_owner s') = snd (is_owner s) @ t
     \<and> run_log t r \<and> guarded False t \<and> is_values s' = fold mirrored t (is_values s)
     \<and> length t \<le> n \<and> length (filter is_call t) \<le> c"
  shows "logs n c m"
  using assms by (simp add: logs_def)

lemma logsE:
  assumes "logs n c m" "m s = (s', r)"
  obtains t where "snd (is_owner s') = snd (is_owner s) @ t" "run_log t r" "guarded False t"
    "is_values s' = fold mirrored t (is_values s)" "length t \<le> n" "length (filter is_call t) \<le> c"
  using assms unfolding logs_def by blast

lemma logs_mono: "logs n c m \<Longrightarrow> n \<le> n' \<Longrightarrow> c \<le> c' \<Longrightarrow> logs n' c' m"
  unfolding logs_def by (meson order_trans)

lemma guarded_any: "guarded False t \<Longrightarrow> guarded b t"
  by (cases "(b, t)" rule: guarded.cases) auto

lemma guarded_append: "guarded b t \<Longrightarrow> guarded False u \<Longrightarrow> guarded b (t @ u)"
  by (induction b t rule: guarded.induct) (auto simp: guarded_any)

lemma run_log_append:
  assumes t: "run_log t (Ok ())" and u: "run_log u r"
  shows "run_log (t @ u) r"
proof (cases r)
  case (Inl e)
  with u obtain before entry where "list_all goes_on before" "entry_failure entry = Some e"
    "u = before @ [entry] \<or> is_call entry \<and> u = before @ [entry, LoggedCheckpoint (Ok ())]"
    by (auto simp: run_log_def)
  with t Inl show ?thesis by (auto simp: run_log_def intro!: exI[of _ "t @ before"])
qed (use t u in \<open>simp add: run_log_def\<close>)

lemma logs_finish: "logs 0 0 (finish (Ok ()))"
  by (intro logsI) (auto simp: finish_def run_log_def)

lemma logs_and_then:
  assumes m: "logs n c m" and f: "\<And>x. logs n' c' (f x)"
  shows "logs (n + n') (c + c') (and_then m f)"
proof (intro logsI)
  fix s s' r
  assume run: "and_then m f s = (s', r)"
  obtain s1 r1 where s1: "m s = (s1, r1)" by fastforce
  from m s1 obtain t where t: "snd (is_owner s1) = snd (is_owner s) @ t" "run_log t r1" "guarded False t"
    "is_values s1 = fold mirrored t (is_values s)" "length t \<le> n" "length (filter is_call t) \<le> c" by (rule logsE)
  show "\<exists>t. snd (is_owner s') = snd (is_owner s) @ t \<and> run_log t r \<and> guarded False t
     \<and> is_values s' = fold mirrored t (is_values s) \<and> length t \<le> n + n' \<and> length (filter is_call t) \<le> c + c'"
  proof (cases r1)
    case (Inl e)
    then show ?thesis using run s1 t by (intro exI[of _ t]) (auto simp: and_then_def)
  next
    case (Inr x)
    then have "f x s1 = (s', r)" using run s1 by (simp add: and_then_def)
    with f obtain u where u: "snd (is_owner s') = snd (is_owner s1) @ u" "run_log u r" "guarded False u"
      "is_values s' = fold mirrored u (is_values s1)" "length u \<le> n'" "length (filter is_call u) \<le> c'" by (rule logsE)
    then show ?thesis using t Inr by (intro exI[of _ "t @ u"]) (auto simp: guarded_append intro: run_log_append)
  qed
qed

lemma logs_in_order:
  assumes "\<And>m. m \<in> set ms \<Longrightarrow> logs (n m) (c m) m"
  shows "logs (sum_list (map n ms)) (sum_list (map c ms)) (in_order ms)"
  using assms by (induction ms) (simp_all add: logs_finish logs_and_then)

lemma logs_repeated:
  assumes "logs n c body" and "logs 2 0 pause"
  shows "logs (k * (n + 2)) (k * c) (repeated body pause k)"
proof (induction k)
  case (Suc k)
  have "logs 2 0 (if k > 0 then pause else finish (Ok ()))"
    using assms(2) logs_mono[OF logs_finish, of 2 0] by (cases "k = 0") simp_all
  from logs_and_then[OF assms(1) logs_and_then[OF this Suc]] show ?case
    unfolding repeated.simps by (rule logs_mono) simp_all
qed (simp add: logs_finish)

text \<open>The effects by themselves.\<close>

lemma run_log_Ok [simp]: "run_log t (Ok u) \<longleftrightarrow> list_all goes_on t"
  by (simp add: run_log_def)

lemma run_log_last:
  assumes "list_all goes_on before" "entry_failure entry = Some e"
  shows "run_log (before @ [entry]) (Err e)"
    "is_call entry \<Longrightarrow> run_log (before @ [entry, LoggedCheckpoint (Ok ())]) (Err e)"
  using assms by (auto simp: run_log_def)

lemma run_log_short [simp]:
  "entry_failure x = Some e \<Longrightarrow> run_log [x] (Err e)"
  "goes_on x \<Longrightarrow> entry_failure y = Some e \<Longrightarrow> run_log [x, y] (Err e)"
  "goes_on x \<Longrightarrow> goes_on y \<Longrightarrow> entry_failure z = Some e \<Longrightarrow> run_log [x, y, z] (Err e)"
  "goes_on x \<Longrightarrow> is_call y \<Longrightarrow> entry_failure y = Some e \<Longrightarrow> run_log [x, y, LoggedCheckpoint (Ok ())] (Err e)"
  using run_log_last(1)[of "[]" x] run_log_last(1)[of "[x]" y] run_log_last(1)[of "[x, y]" z]
    run_log_last(2)[of "[x]" y]
  by simp_all

lemma logs_effect:
  assumes "\<And>e. entry (Err e) \<in> {LoggedCheckpoint (Err e), LoggedDelay ms (Err e)}"
    and "entry (Ok ()) \<in> {LoggedCheckpoint (Ok ()), LoggedDelay ms (Ok ())}"
  shows "logs 1 0 (on_owner (logging entry m))"
proof (intro logsI)
  fix s s' r
  assume run: "on_owner (logging entry m) s = (s', r)"
  then have s': "snd (is_owner s') = snd (is_owner s) @ [entry r]" "is_values s' = is_values s"
    by (auto simp: on_owner_def logging_def Let_def split: prod.splits)
  have "run_log [entry r] r \<and> guarded False [entry r] \<and> is_values s = fold mirrored [entry r] (is_values s)
      \<and> \<not> is_call (entry r)"
  proof (cases r)
    case (Inl e)
    then show ?thesis using assms(1)[of e] by (auto)
  next
    case (Inr u)
    then show ?thesis using assms(2) by (auto simp: goes_on_def)
  qed
  with s' show "\<exists>t. snd (is_owner s') = snd (is_owner s) @ t \<and> run_log t r \<and> guarded False t
     \<and> is_values s' = fold mirrored t (is_values s) \<and> length t \<le> 1 \<and> length (filter is_call t) \<le> 0"
    by (intro exI[of _ "[entry r]"]) auto
qed

lemma logs_checkpoint: "logs 1 0 (on_owner (fx_checkpoint (recorded fx)))"
  by (simp add: recorded_def logs_effect[where ms = 0] del: One_nat_def)

lemma logs_delay: "logs 1 0 (on_owner (fx_delay (recorded fx) ms))"
  by (simp add: recorded_def logs_effect[where ms = ms] del: One_nat_def)

lemma logs_delay_checked:
  "logs 2 0 (and_then (on_owner (fx_delay (recorded fx) ms)) (\<lambda>_. on_owner (fx_checkpoint (recorded fx))))"
  by (rule logs_mono[OF logs_and_then[OF logs_delay logs_checkpoint]]) simp_all

lemma logs_pause: "logs 2 0 (if ms > 0
    then and_then (on_owner (fx_delay (recorded fx) ms)) (\<lambda>_. on_owner (fx_checkpoint (recorded fx)))
    else finish (Ok ()))"
  by (cases "ms > 0") (simp_all add: logs_delay_checked logs_mono[OF logs_finish])

lemma logs_set_state: "logs 2 0 (visit (recorded fx) trigger (SetState key v))"
proof (intro logsI)
  fix s s' r
  assume run: "visit (recorded fx) trigger (SetState key v) s = (s', r)"
  obtain e1 c1 where c1: "fx_checkpoint fx (fst (is_owner s)) = (e1, c1)" by fastforce
  obtain e2 c2 where c2: "fx_set_state fx key v e1 = (e2, c2)" by fastforce
  let ?t = "case c1 of Err _ \<Rightarrow> [LoggedCheckpoint c1] | Ok _ \<Rightarrow> [LoggedCheckpoint c1, LoggedSetState key v c2]"
  show "\<exists>t. snd (is_owner s') = snd (is_owner s) @ t \<and> run_log t r \<and> guarded False t
     \<and> is_values s' = fold mirrored t (is_values s) \<and> length t \<le> 2 \<and> length (filter is_call t) \<le> 0"
    using run c1 c2
    by (intro exI[of _ ?t], cases c1; cases c2)
      (auto simp: and_then_def on_owner_def recorded_def logging_def goes_on_def)
qed

lemma logs_call: "logs 3 1 (visit (recorded fx) trigger (Call call on_failure))"
proof (intro logsI)
  fix s s' r
  assume run: "visit (recorded fx) trigger (Call call on_failure) s = (s', r)"
  obtain e1 c1 where c1: "fx_checkpoint fx (fst (is_owner s)) = (e1, c1)" by fastforce
  obtain e2 answer where c2: "fx_call fx call e1 = (e2, answer)" by fastforce
  obtain e3 c3 where c3: "fx_checkpoint fx e2 = (e3, c3)" by fastforce
  obtain failure exit_code where facts: "call_facts answer = (failure, exit_code)" by fastforce
  let ?t = "case c1 of Err _ \<Rightarrow> [LoggedCheckpoint c1]
    | Ok _ \<Rightarrow> [LoggedCheckpoint c1, LoggedCall call answer, LoggedCheckpoint c3]"
  show "\<exists>t. snd (is_owner s') = snd (is_owner s) @ t \<and> run_log t r \<and> guarded False t
     \<and> is_values s' = fold mirrored t (is_values s) \<and> length t \<le> 3 \<and> length (filter is_call t) \<le> 1"
    using run c1 c2 c3 facts
    by (intro exI[of _ ?t], cases c1; cases c3; cases failure; cases "is_stop on_failure")
      (auto simp: and_then_def on_owner_def recorded_def logging_def goes_on_def)
qed

section \<open>The whole walk\<close>

lemma tree_visits_pos: "1 \<le> tree_visits a"
  by (cases a) simp_all

lemma sum_list_bound:
  assumes "\<And>x. x \<in> set xs \<Longrightarrow> f x \<le> (g x :: nat)"
  shows "sum_list (map f xs) \<le> sum_list (map g xs)"
  using assms by (induction xs) (auto intro: add_mono)

lemma logs_in_order_map:
  assumes "\<And>x. x \<in> set xs \<Longrightarrow> logs (n x) (c x) (f x)"
  shows "logs (sum_list (map n xs)) (sum_list (map c xs)) (in_order (map f xs))"
  using assms by (induction xs) (simp_all add: logs_finish logs_and_then)

lemma logs_visit: "logs (5 * tree_visits a - 2) (tree_visits a) (visit (recorded fx) trigger a)"
proof (induction "recorded fx" trigger a rule: visit.induct)
  case (1 trigger call on_failure)
  then show ?case using logs_call by simp
next
  case (2 trigger children)
  have "logs (sum_list (map (\<lambda>a. 5 * tree_visits a - 2) children)) (sum_list (map tree_visits children))
      (in_order (map (visit (recorded fx) trigger) children))"
    using 2 by (intro logs_in_order_map) simp
  moreover have "sum_list (map (\<lambda>a. 5 * tree_visits a - 2) children) \<le> 5 * sum_list (map tree_visits children)"
    using sum_list_bound[of children "\<lambda>a. 5 * tree_visits a - 2" "\<lambda>a. 5 * tree_visits a"]
    by (simp add: sum_list_const_mult)
  ultimately have "logs (5 * sum_list (map tree_visits children)) (sum_list (map tree_visits children))
      (in_order (map (visit (recorded fx) trigger) children))"
    by (rule logs_mono) simp
  then show ?case
    unfolding visit.simps by (rule logs_mono[OF logs_and_then[OF logs_checkpoint]]) simp_all
next
  case (3 trigger condition t e)
  let ?branch = "\<lambda>(_ :: unit) s. if evaluate_condition condition
            (case ac_source condition of
               SourceState \<Rightarrow> is_values s | SourceTrigger \<Rightarrow> trigger | SourceResult \<Rightarrow> is_result s)
       then visit (recorded fx) trigger t s
       else case e of Some action \<Rightarrow> visit (recorded fx) trigger action s | None \<Rightarrow> (s, Ok ())"
  let ?v = "max (tree_visits t) (case e of None \<Rightarrow> 0 | Some a \<Rightarrow> tree_visits a)"
  have "logs (5 * ?v - 2) ?v (?branch x)" for x :: unit
  proof (intro logsI)
    fix s s' r
    assume run: "?branch x s = (s', r)"
    obtain m where m: "logs (5 * ?v - 2) ?v m" "m s = (s', r)"
    proof (cases "evaluate_condition condition
        (case ac_source condition of SourceState \<Rightarrow> is_values s | SourceTrigger \<Rightarrow> trigger | SourceResult \<Rightarrow> is_result s)")
      case True
      have "logs (5 * ?v - 2) ?v (visit (recorded fx) trigger t)" using 3(1)[OF True] by (rule logs_mono) simp_all
      then show thesis by (rule that) (use run True in simp)
    next
      case False
      show thesis
      proof (cases e)
        case None
        show thesis by (rule that[OF logs_mono[OF logs_finish]]) (use run False None in \<open>simp_all add: finish_def\<close>)
      next
        case (Some action)
        have "logs (5 * ?v - 2) ?v (visit (recorded fx) trigger action)"
          using 3(2)[OF False Some] Some by (auto elim: logs_mono)
        then show thesis by (rule that) (use run False Some in simp)
      qed
    qed
    then show "\<exists>t. snd (is_owner s') = snd (is_owner s) @ t \<and> run_log t r \<and> guarded False t
      \<and> is_values s' = fold mirrored t (is_values s) \<and> length t \<le> 5 * ?v - 2 \<and> length (filter is_call t) \<le> ?v"
      by (auto simp: logs_def)
  qed
  then show ?case
    unfolding visit.simps by (rule logs_mono[OF logs_and_then[OF logs_checkpoint]]) (simp_all add: le_SucI)
next
  case (4 trigger count action delay_ms)
  have "5 * tree_visits action - 2 + 2 = 5 * tree_visits action"
    using tree_visits_pos[of action] by simp
  then have "logs (5 * (unat count * tree_visits action)) (unat count * tree_visits action)
      (repeated (visit (recorded fx) trigger action)
        (if delay_ms > 0
         then and_then (on_owner (fx_delay (recorded fx) delay_ms)) (\<lambda>_. on_owner (fx_checkpoint (recorded fx)))
         else finish (Ok ())) (unat count))"
    using logs_repeated[OF 4 logs_pause[of delay_ms fx], of "unat count"] by (simp add: mult.left_commute)
  then show ?case
    unfolding visit.simps by (rule logs_mono[OF logs_and_then[OF logs_checkpoint]]) simp_all
next
  case (5 trigger duration_ms)
  show ?case
    unfolding visit.simps by (rule logs_mono[OF logs_and_then[OF logs_checkpoint logs_delay_checked]]) simp_all
next
  case (6 trigger key v)
  then show ?case using logs_mono[OF logs_set_state, of 3 1] by simp
qed

text \<open>Keeping the log changes nothing else.\<close>

definition unlogged :: "('e \<times> logged list) interpretation_state \<Rightarrow> 'e interpretation_state" where
  "unlogged s = \<lparr>is_owner = fst (is_owner s), is_values = is_values s, is_result = is_result s\<rparr>"

definition faithful ::
  "(('e \<times> logged list) interpretation_state, 'a) fallible \<Rightarrow> ('e interpretation_state, 'a) fallible \<Rightarrow> bool" where
  "faithful m' m \<longleftrightarrow> (\<forall>s. m (unlogged s) = map_prod unlogged id (m' s))"

lemma faithful_and_then:
  assumes "faithful m' m" "\<And>x. faithful (f' x) (f x)"
  shows "faithful (and_then m' f') (and_then m f)"
  using assms by (auto simp: faithful_def and_then_def split: prod.splits sum.splits)

lemma faithful_finish: "faithful (finish r) (finish r)"
  by (simp add: faithful_def finish_def)

lemma faithful_effect: "faithful (on_owner (logging entry m)) (on_owner m)"
  by (auto simp: faithful_def on_owner_def logging_def unlogged_def split: prod.splits)

lemmas faithful_simps = faithful_finish
  faithful_effect[of LoggedCheckpoint] faithful_effect[of "LoggedDelay ms" for ms]
  faithful_effect[of "LoggedSetState key v" for key v]

lemma faithful_in_order:
  "(\<And>x. x \<in> set xs \<Longrightarrow> faithful (f' x) (f x)) \<Longrightarrow> faithful (in_order (map f' xs)) (in_order (map f xs))"
  by (induction xs) (simp_all add: faithful_finish faithful_and_then)

lemma faithful_repeated:
  "faithful body' body \<Longrightarrow> faithful pause' pause \<Longrightarrow> faithful (repeated body' pause' k) (repeated body pause k)"
  by (induction k) (simp_all add: faithful_finish faithful_and_then)

lemma faithful_visit: "faithful (visit (recorded fx) trigger a) (visit fx trigger a)"
proof (induction fx trigger a rule: visit.induct)
  case (1 fx trigger call on_failure)
  show ?case
    by (auto simp: faithful_def and_then_def on_owner_def recorded_def logging_def unlogged_def Let_def
        split: prod.splits sum.splits)
next
  case (2 fx trigger children)
  then show ?case
    unfolding visit.simps by (intro faithful_and_then faithful_in_order) (simp_all add: recorded_def faithful_simps)
next
  case (3 fx trigger condition t e)
  have "faithful (\<lambda>s. if evaluate_condition condition
            (case ac_source condition of
               SourceState \<Rightarrow> is_values s | SourceTrigger \<Rightarrow> trigger | SourceResult \<Rightarrow> is_result s)
       then visit (recorded fx) trigger t s
       else case e of Some action \<Rightarrow> visit (recorded fx) trigger action s | None \<Rightarrow> (s, Ok ()))
     (\<lambda>s. if evaluate_condition condition
            (case ac_source condition of
               SourceState \<Rightarrow> is_values s | SourceTrigger \<Rightarrow> trigger | SourceResult \<Rightarrow> is_result s)
       then visit fx trigger t s
       else case e of Some action \<Rightarrow> visit fx trigger action s | None \<Rightarrow> (s, Ok ()))"
    using 3 by (cases e) (auto simp: faithful_def unlogged_def split: condition_source.splits)
  then show ?case
    unfolding visit.simps by (intro faithful_and_then) (simp_all add: recorded_def faithful_simps)
next
  case (4 fx trigger count action delay_ms)
  then show ?case
    unfolding visit.simps
    by (intro faithful_and_then faithful_repeated) (simp_all add: recorded_def faithful_simps faithful_and_then)
next
  case (5 fx trigger duration_ms)
  show ?case unfolding visit.simps by (intro faithful_and_then) (simp_all add: recorded_def faithful_simps)
next
  case (6 fx trigger key v)
  have "faithful (\<lambda>s. (s\<lparr>is_values := bt_insert key v (is_values s)\<rparr>, Ok ()))
     (\<lambda>s. (s\<lparr>is_values := bt_insert key v (is_values s)\<rparr>, Ok ()))"
    by (simp add: faithful_def unlogged_def)
  then show ?case unfolding visit.simps by (intro faithful_and_then) (simp_all add: recorded_def faithful_simps)
qed

section \<open>Properties\<close>


text \<open>An owner that counts its Calls; the second one fails.\<close>

definition sample_effects :: "nat automation_effects" where
  "sample_effects =
     \<lparr>fx_checkpoint = (\<lambda>n. (n, Ok ())),
      fx_call = (\<lambda>_ n. (Suc n, if n = 0 then Ok call_outcome_default else err Timeout ''late'')),
      fx_set_state = (\<lambda>_ _ n. (n, Ok ())),
      fx_delay = (\<lambda>_ n. (n, Ok ()))\<rparr>"

definition sample_action :: automation_action where
  "sample_action = Repeat 3 (Sequence [SetState ''k'' (ScalarInteger 7),
     Call (CallAndroid (AndroidClipboard ClipboardClear)) StepStop]) 5"

lemma sample_action_walk: "is_ok (walk sample_action)"
  using walk_spec_all[of sample_action]
  by (auto simp: walk_spec_def sample_action_def tree_within_def is_ok_iff bounded_def NUL_def)

lemma repeated_numeral: "repeated body pause (numeral n) =
     and_then body (\<lambda>_. and_then (if pred_numeral n > 0 then pause else finish (Ok ())) (\<lambda>_.
       repeated body pause (pred_numeral n)))"
  by (subst numeral_eq_Suc) (rule repeated.simps(2))

lemma sample_action_log:
  "execute (recorded sample_effects) sample_action [] [] (0, []) =
     (\<lparr>is_owner = (2, snd (is_owner (fst (execute (recorded sample_effects) sample_action [] [] (0, []))))),
       is_values = [(''k'', ScalarInteger 7)],
       is_result = [(''error_code'', ScalarString ''TIMEOUT''), (''succeeded'', ScalarBoolean False)]\<rparr>,
      err Timeout ''late'')"
  by (simp add: execute_def sample_action_def sample_effects_def repeated_numeral and_then_def on_owner_def
      recorded_def logging_def finish_def call_facts_def result_facts_def call_outcome_default_def bt_from_def)


end
