(* ===== verification/Text_Ops.thy ===== *)
theory Text_Ops
  imports Contract
begin

text \<open>
  The operations of Rust's \<open>str\<close> the crates use, on UTF-8 bytes, and the base64 alphabets of the
  \<open>base64\<close> crate as RFC 4648 defines them.
\<close>

section \<open>Text\<close>

text \<open>The encodings of the characters with the \<open>White_Space\<close> property, which \<open>str::trim\<close> removes.\<close>

definition white_space :: "string list" where
  "white_space =
     map (\<lambda>b. [b]) [CHR 0x09, CHR 0x0A, CHR 0x0B, CHR 0x0C, CHR 0x0D, CHR 0x20]
     @ map (\<lambda>b. [CHR 0xC2, b]) [CHR 0x85, CHR 0xA0]
     @ [[CHR 0xE1, CHR 0x9A, CHR 0x80]]
     @ map (\<lambda>b. [CHR 0xE2, CHR 0x80, b])
         [CHR 0x80, CHR 0x81, CHR 0x82, CHR 0x83, CHR 0x84, CHR 0x85, CHR 0x86, CHR 0x87, CHR 0x88, CHR 0x89,
          CHR 0x8A, CHR 0xA8, CHR 0xA9, CHR 0xAF]
     @ [[CHR 0xE2, CHR 0x81, CHR 0x9F], [CHR 0xE3, CHR 0x80, CHR 0x80]]"

definition starts_with :: "'a list \<Rightarrow> 'a list \<Rightarrow> bool" where
  "starts_with prefix text \<longleftrightarrow> take (length prefix) text = prefix"

lemma starts_with_length: "starts_with blank xs \<Longrightarrow> blank \<noteq> [] \<Longrightarrow> length (drop (length blank) xs) < length xs"
  by (cases blank; cases xs) (auto simp: starts_with_def)

function trim_start :: "'a list list \<Rightarrow> 'a list \<Rightarrow> 'a list" where
  "trim_start blanks text =
     (case List.find (\<lambda>blank. blank \<noteq> [] \<and> starts_with blank text) blanks of
        None \<Rightarrow> text
      | Some blank \<Rightarrow> trim_start blanks (drop (length blank) text))"
  by pat_completeness auto

termination
  by (relation "measure (\<lambda>(_, text). length text)")
    (auto dest!: find_SomeD intro!: starts_with_length[simplified])

definition trim :: "string \<Rightarrow> string" where
  "trim text = rev (trim_start (map rev white_space) (rev (trim_start white_space text)))"

definition contains_text :: "string \<Rightarrow> string \<Rightarrow> bool" where
  "contains_text text pattern \<longleftrightarrow> list_ex (\<lambda>n. starts_with pattern (drop n text)) [0..<Suc (length text)]"

definition rsplit_once :: "string \<Rightarrow> string \<Rightarrow> (string \<times> string) option" where
  "rsplit_once pattern text =
     map_option (\<lambda>n. (take n text, drop (n + length pattern) text))
       (List.find (\<lambda>n. starts_with pattern (drop n text)) (rev [0..<Suc (length text)]))"

declare trim_start.simps [simp del]

definition ends_with :: "string \<Rightarrow> string \<Rightarrow> bool" where
  "ends_with suffix text \<longleftrightarrow> length suffix \<le> length text \<and> drop (length text - length suffix) text = suffix"

definition strip_prefix :: "string \<Rightarrow> string \<Rightarrow> string option" where
  "strip_prefix prefix text = (if starts_with prefix text then Some (drop (length prefix) text) else None)"

definition strip_suffix :: "string \<Rightarrow> string \<Rightarrow> string option" where
  "strip_suffix suffix text =
     (if ends_with suffix text then Some (take (length text - length suffix) text) else None)"

definition split_once :: "string \<Rightarrow> string \<Rightarrow> (string \<times> string) option" where
  "split_once pattern text =
     map_option (\<lambda>n. (take n text, drop (n + length pattern) text))
       (List.find (\<lambda>n. starts_with pattern (drop n text)) [0..<Suc (length text)])"

text \<open>\<open>str::split\<close> at a one-byte character: always at least one piece.\<close>

fun split_char :: "char \<Rightarrow> string \<Rightarrow> string list" where
  "split_char c [] = [[]]"
| "split_char c (x # xs) =
     (if x = c then [] # split_char c xs
      else (case split_char c xs of [] \<Rightarrow> [[x]] | piece # pieces \<Rightarrow> (x # piece) # pieces))"

definition is_ascii :: "string \<Rightarrow> bool" where
  "is_ascii text \<longleftrightarrow> list_all (\<lambda>c. of_char c < (128 :: nat)) text"

definition is_ascii_digit :: "char \<Rightarrow> bool" where
  "is_ascii_digit c \<longleftrightarrow> CHR ''0'' \<le> c \<and> c \<le> CHR ''9''"

definition is_ascii_lowercase :: "char \<Rightarrow> bool" where
  "is_ascii_lowercase c \<longleftrightarrow> CHR ''a'' \<le> c \<and> c \<le> CHR ''z''"

definition is_ascii_uppercase :: "char \<Rightarrow> bool" where
  "is_ascii_uppercase c \<longleftrightarrow> CHR ''A'' \<le> c \<and> c \<le> CHR ''Z''"

definition is_ascii_alphabetic :: "char \<Rightarrow> bool" where
  "is_ascii_alphabetic c \<longleftrightarrow> is_ascii_lowercase c \<or> is_ascii_uppercase c"

definition is_ascii_alphanumeric :: "char \<Rightarrow> bool" where
  "is_ascii_alphanumeric c \<longleftrightarrow> is_ascii_alphabetic c \<or> is_ascii_digit c"

definition is_ascii_hexdigit :: "char \<Rightarrow> bool" where
  "is_ascii_hexdigit c \<longleftrightarrow> is_ascii_digit c \<or> (CHR ''a'' \<le> c \<and> c \<le> CHR ''f'') \<or> (CHR ''A'' \<le> c \<and> c \<le> CHR ''F'')"

definition to_lower :: "char \<Rightarrow> char" where
  "to_lower c = (if is_ascii_uppercase c then char_of (of_char c + (32 :: nat)) else c)"

definition to_ascii_lowercase :: "string \<Rightarrow> string" where
  "to_ascii_lowercase text = map to_lower text"

definition eq_ignore_ascii_case :: "string \<Rightarrow> string \<Rightarrow> bool" where
  "eq_ignore_ascii_case a b \<longleftrightarrow> to_ascii_lowercase a = to_ascii_lowercase b"

text \<open>The decimal text of an unsigned integer, as \<open>to_string\<close> writes it.\<close>

definition digit_char :: "nat \<Rightarrow> char" where
  "digit_char n = char_of (48 + n)"

fun decimal_text :: "nat \<Rightarrow> string" where
  "decimal_text n = (if n < 10 then [digit_char n] else decimal_text (n div 10) @ [digit_char (n mod 10)])"

declare decimal_text.simps [simp del]

section \<open>UTF-8\<close>

text \<open>\<open>std::str::from_utf8\<close>: the byte sequences of Table 3-7 of the Unicode standard.\<close>

definition tail_byte :: "nat \<Rightarrow> bool" where
  "tail_byte b \<longleftrightarrow> 128 \<le> b \<and> b < 192"

fun utf8_bytes :: "nat list \<Rightarrow> bool" where
  "utf8_bytes [] = True"
| "utf8_bytes (a # rest) =
     (if a < 128 then utf8_bytes rest
      else if 194 \<le> a \<and> a < 224 then
        (case rest of b # rest' \<Rightarrow> tail_byte b \<and> utf8_bytes rest' | _ \<Rightarrow> False)
      else if 224 \<le> a \<and> a < 240 then
        (case rest of b # c # rest' \<Rightarrow>
           (if a = 224 then 160 \<le> b \<and> b < 192 else if a = 237 then 128 \<le> b \<and> b < 160 else tail_byte b)
           \<and> tail_byte c \<and> utf8_bytes rest' | _ \<Rightarrow> False)
      else if 240 \<le> a \<and> a < 245 then
        (case rest of b # c # d # rest' \<Rightarrow>
           (if a = 240 then 144 \<le> b \<and> b < 192 else if a = 244 then 128 \<le> b \<and> b < 144 else tail_byte b)
           \<and> tail_byte c \<and> tail_byte d \<and> utf8_bytes rest' | _ \<Rightarrow> False)
      else False)"

definition from_utf8 :: "string \<Rightarrow> bool" where
  "from_utf8 bytes \<longleftrightarrow> utf8_bytes (map of_char bytes)"

section \<open>Base64\<close>

definition base64_alphabet :: "bool \<Rightarrow> string" where
  "base64_alphabet url_safe =
     ''ABCDEFGHIJKLMNOPQRSTUVWXYZabcdefghijklmnopqrstuvwxyz0123456789'' @ (if url_safe then ''-_'' else ''+/'')"

definition base64_char :: "bool \<Rightarrow> nat \<Rightarrow> char" where
  "base64_char url_safe n = base64_alphabet url_safe ! n"

definition base64_value :: "bool \<Rightarrow> char \<Rightarrow> nat option" where
  "base64_value url_safe c = position (\<lambda>x. x = c) (base64_alphabet url_safe)"

text \<open>Groups of three bytes; \<open>pad\<close> appends the \<open>=\<close> of the standard engine.\<close>

fun base64_sextets :: "nat list \<Rightarrow> nat list" where
  "base64_sextets (a # b # c # rest) =
     [a div 4, (a mod 4) * 16 + b div 16, (b mod 16) * 4 + c div 64, c mod 64] @ base64_sextets rest"
| "base64_sextets [a, b] = [a div 4, (a mod 4) * 16 + b div 16, (b mod 16) * 4]"
| "base64_sextets [a] = [a div 4, (a mod 4) * 16]"
| "base64_sextets [] = []"

definition base64_encode :: "bool \<Rightarrow> bool \<Rightarrow> string \<Rightarrow> string" where
  "base64_encode url_safe pad bytes =
     (let digits = map (base64_char url_safe) (base64_sextets (map of_char bytes))
      in digits @ (if pad then replicate ((4 - length digits mod 4) mod 4) (CHR ''='') else []))"

text \<open>The last group may hold two or three sextets, whose unused bits have to be zero.\<close>

fun base64_bytes :: "nat list \<Rightarrow> nat list option" where
  "base64_bytes (p # q # r # s # rest) =
     map_option (\<lambda>bytes. [p * 4 + q div 16, (q mod 16) * 16 + r div 4, (r mod 4) * 64 + s] @ bytes)
       (base64_bytes rest)"
| "base64_bytes [p, q, r] =
     (if r mod 4 = 0 then Some [p * 4 + q div 16, (q mod 16) * 16 + r div 4] else None)"
| "base64_bytes [p, q] = (if q mod 16 = 0 then Some [p * 4 + q div 16] else None)"
| "base64_bytes [p] = None"
| "base64_bytes [] = Some []"

fun collect_options :: "'a option list \<Rightarrow> 'a list option" where
  "collect_options [] = Some []"
| "collect_options (None # xs) = None"
| "collect_options (Some x # xs) = map_option ((#) x) (collect_options xs)"

definition base64_unpad :: "string \<Rightarrow> string option" where
  "base64_unpad text =
     (let digits = takeWhile (\<lambda>c. c \<noteq> CHR ''='') text; padding = drop (length digits) text
      in if list_all (\<lambda>c. c = CHR ''='') padding \<and> length padding < 3 \<and> length text mod 4 = 0
         then Some digits else None)"

definition base64_decode :: "bool \<Rightarrow> bool \<Rightarrow> string \<Rightarrow> string option" where
  "base64_decode url_safe pad text =
     Option.bind (if pad then base64_unpad text else Some text) (\<lambda>digits.
     Option.bind (collect_options (map (base64_value url_safe) digits)) (\<lambda>sextets.
     map_option (map char_of) (base64_bytes sextets)))"

lemma base64_value_char: "n < 64 \<Longrightarrow> base64_value url_safe (base64_char url_safe n) = Some n"
proof -
  assume n: "n < 64"
  have d: "distinct (base64_alphabet url_safe)" and l: "length (base64_alphabet url_safe) = 64"
    by (cases url_safe; simp add: base64_alphabet_def)+
  show ?thesis
    using n by (simp add: base64_value_def base64_char_def position_Some_iff l nth_eq_iff_index_eq[OF d])
qed

lemma group_parts:
  "b < 256 \<Longrightarrow> b div 16 div 16 = (0 :: nat)" "b < 256 \<Longrightarrow> b div 16 mod 16 = (b :: nat) div 16"
  "c < 256 \<Longrightarrow> c div 64 div 4 = (0 :: nat)" "c < 256 \<Longrightarrow> c div 64 mod 4 = (c :: nat) div 64"
  by (simp_all add: less_mult_imp_div_less div_less)

lemma base64_sextets_bytes:
  "list_all (\<lambda>b. b < 256) bytes \<Longrightarrow> base64_bytes (base64_sextets bytes) = Some bytes"
  by (induction bytes rule: base64_sextets.induct) (simp_all add: group_parts)

lemma base64_sextets_small: "list_all (\<lambda>b. b < 256) bytes \<Longrightarrow> n \<in> set (base64_sextets bytes) \<Longrightarrow> n < 64"
  by (induction bytes rule: base64_sextets.induct) (auto simp: less_mult_imp_div_less)

lemma collect_options_map: "(\<And>x. x \<in> set xs \<Longrightarrow> f x = Some (g x)) \<Longrightarrow> collect_options (map f xs) = Some (map g xs)"
  by (induction xs) auto

text \<open>What the URL-safe engine writes without padding it reads back.\<close>

lemma base64_roundtrip: "base64_decode url_safe False (base64_encode url_safe False bytes) = Some bytes"
proof -
  let ?n = "map of_char bytes :: nat list"
  have small: "list_all (\<lambda>b. b < 256) ?n" by (simp add: list_all_iff)
  have "collect_options (map (base64_value url_safe) (map (base64_char url_safe) (base64_sextets ?n)))
      = Some (base64_sextets ?n)"
    using collect_options_map[of "base64_sextets ?n" "\<lambda>n. base64_value url_safe (base64_char url_safe n)" id]
      base64_sextets_small[OF small] base64_value_char by (simp add: comp_def)
  then show ?thesis
    by (simp add: base64_decode_def base64_encode_def base64_sextets_bytes[OF small] comp_def)
qed

end
