(* ===== verification/Element_Step.thy ===== *)
theory Element_Step
  imports Text_Ops
begin

text \<open>
  The element steps of \<open>rust/crates/runtime/src/automation_engine.rs\<close> as far as they compute: which
  node of an observation a step matches and the interactions it performs on it.
\<close>

section \<open>Observations\<close>

datatype image_format = Heic | Jpeg | Png

record display_geometry =
  dg_width :: u32
  dg_height :: u32
  dg_rotation :: u16
  dg_density_dpi :: "u32 option"

record foreground_fact =
  fo_package :: "string option"
  fo_activity :: "string option"

record node_bounds =
  nb_left :: i32
  nb_top :: i32
  nb_right :: i32
  nb_bottom :: i32

record visual_node =
  vn_node_ref :: "string option"
  vn_text :: "string option"
  vn_content_description :: "string option"
  vn_resource_id :: "string option"
  vn_class_name :: "string option"
  vn_package_name :: "string option"
  vn_bounds :: node_bounds
  vn_checkable :: "bool option"
  vn_checked :: "bool option"
  vn_clickable :: "bool option"
  vn_enabled :: "bool option"
  vn_focusable :: "bool option"
  vn_focused :: "bool option"
  vn_scrollable :: "bool option"
  vn_long_clickable :: "bool option"
  vn_password :: "bool option"
  vn_selected :: "bool option"
  vn_editable :: "bool option"

record visual_interact_fact =
  vf_coordinate :: bool
  vf_node_unavailable_reason :: "string option"
  vf_ttl_ms :: u64

record visual_observe_result =
  vo_observation_id :: uuid
  vo_observed_at :: string
  vo_display :: display_geometry
  vo_interact :: visual_interact_fact
  vo_foreground :: "foreground_fact option"
  vo_image_ref :: "string option"
  vo_image_format :: "image_format option"
  vo_image_unavailable_reason :: "string option"
  vo_nodes :: "visual_node list option"
  vo_nodes_unavailable_reason :: "string option"
  vo_nodes_truncated :: "bool option"

section \<open>Matching\<close>

fun element_matches :: "visual_node \<Rightarrow> element_match \<Rightarrow> string \<Rightarrow> bool" where
  "element_matches node MatchText v \<longleftrightarrow>
     (case vn_text node of None \<Rightarrow> False | Some text \<Rightarrow> trim text = trim v)"
| "element_matches node MatchTextContains v \<longleftrightarrow>
     list_ex (\<lambda>text. case text of None \<Rightarrow> False | Some text \<Rightarrow> contains_text text (trim v))
       [vn_text node, vn_content_description node]"
| "element_matches node MatchDescription v \<longleftrightarrow>
     (case vn_content_description node of None \<Rightarrow> False | Some text \<Rightarrow> trim text = trim v)"
| "element_matches node MatchResourceId v \<longleftrightarrow>
     (case vn_resource_id node of
        None \<Rightarrow> False
      | Some resource_id \<Rightarrow> resource_id = trim v
          \<or> (case rsplit_once '':id/'' resource_id of None \<Rightarrow> False | Some (_, name) \<Rightarrow> name = trim v))"

section \<open>Interactions\<close>

text \<open>
  The middle of an extent, clamped to the display: \<open>i32\<close> arithmetic wraps in the release profile and
  its division truncates; \<open>u32::try_from\<close> refuses a negative middle.
\<close>

definition i32_half :: "i32 \<Rightarrow> i32" where
  "i32_half d = word_of_int (if sint d < 0 then - (- sint d div 2) else sint d div 2)"

definition centre_point :: "i32 \<Rightarrow> i32 \<Rightarrow> u32 \<Rightarrow> u32" where
  "centre_point low high size_limit =
     (let middle = low + i32_half (high - low)
      in min (if sint middle < 0 then 0 else middle) (saturating_sub size_limit 1))"

definition element_centre :: "visual_observe_result \<Rightarrow> visual_node \<Rightarrow> point_target" where
  "element_centre observation node =
     CoordinateTarget (vo_observation_id observation)
       (centre_point (nb_left (vn_bounds node)) (nb_right (vn_bounds node)) (dg_width (vo_display observation)))
       (centre_point (nb_top (vn_bounds node)) (nb_bottom (vn_bounds node)) (dg_height (vo_display observation)))"

definition addressable :: "visual_observe_result \<Rightarrow> automation_element_input \<Rightarrow> visual_node \<Rightarrow> bool" where
  "addressable observation input node \<longleftrightarrow>
     (vn_node_ref node \<noteq> None \<or> vf_coordinate (vo_interact observation))
     \<and> vn_enabled node \<noteq> Some False
     \<and> sint (nb_right (vn_bounds node)) > sint (nb_left (vn_bounds node))
     \<and> sint (nb_bottom (vn_bounds node)) > sint (nb_top (vn_bounds node))
     \<and> element_matches node (ae_by input) (ae_value input)"

definition element_interaction ::
  "visual_observe_result \<Rightarrow> visual_node list \<Rightarrow> automation_element_input \<Rightarrow> visual_interact_input list option" where
  "element_interaction observation nodes input =
     map_option (\<lambda>node.
       let centre = element_centre observation node
       in if ae_operation input = ElementText
          then let text = (case ae_text input of None \<Rightarrow> [] | Some text \<Rightarrow> text)
               in case vn_node_ref node of
                    Some node_ref \<Rightarrow> [VisualText text (Some node_ref) None None]
                  | None \<Rightarrow> [VisualTap centre None, VisualText text None None None]
          else
            let actionable = (case ae_operation input of
                    ElementLongPress \<Rightarrow> vn_long_clickable node = Some True
                  | _ \<Rightarrow> vn_clickable node = Some True);
                target = (case vn_node_ref node of
                    Some node_ref \<Rightarrow> if actionable \<or> \<not> vf_coordinate (vo_interact observation)
                      then NodeTarget node_ref else centre
                  | None \<Rightarrow> centre)
            in [case ae_operation input of
                  ElementLongPress \<Rightarrow> VisualLongPress target None | _ \<Rightarrow> VisualTap target None])
       (List.find (addressable observation input) nodes)"

section \<open>Where an interaction lands\<close>

lemma centre_in_display: "w \<noteq> 0 \<Longrightarrow> centre_point low high w < w"
proof -
  assume "w \<noteq> 0"
  then have "saturating_sub w 1 < w" by (simp add: saturating_sub_def word_less_nat_alt word_le_nat_alt unat_sub_if' unat_gt_0)
  moreover have "centre_point low high w \<le> saturating_sub w 1" by (simp add: centre_point_def Let_def)
  ultimately show ?thesis by (rule order.strict_trans1[rotated])
qed

text \<open>Within bounds that lie on the display nothing wraps: the point is inside the bounds.\<close>

lemma sint_between: "0 \<le> n \<Longrightarrow> n < 2 ^ 31 \<Longrightarrow> sint (word_of_int n :: i32) = n"
  by (simp add: sint_sbintrunc' signed_take_bit_int_eq_self)

lemma uint_between: "0 \<le> n \<Longrightarrow> n < 2 ^ 31 \<Longrightarrow> uint (word_of_int n :: i32) = n"
  by (simp add: uint_word_of_int_eq take_bit_int_eq_self)

lemma centre_in_bounds:
  assumes "0 \<le> sint low" "sint low < sint high" "sint high \<le> uint w"
  shows "sint low \<le> uint (centre_point low high w)" "uint (centre_point low high w) < sint high"
proof -
  let ?l = "sint low" and ?h = "sint high"
  have h: "?h < 2 ^ 31" using sint_lt[of high] by simp
  have low: "low = word_of_int ?l" and high: "high = word_of_int ?h" by simp_all
  have d: "sint (high - low) = ?h - ?l"
    using sint_between[of "?h - ?l"] assms h by (simp add: word_of_int_minus)
  have half: "i32_half (high - low) = word_of_int ((?h - ?l) div 2)"
    using assms by (simp add: i32_half_def d)
  have m: "low + i32_half (high - low) = word_of_int (?l + (?h - ?l) div 2)"
    unfolding half by (subst low) simp
  have r: "0 \<le> ?l + (?h - ?l) div 2" "?l + (?h - ?l) div 2 < ?h" using assms by linarith+
  have sm: "sint (low + i32_half (high - low)) = ?l + (?h - ?l) div 2"
    unfolding m using r h by (intro sint_between) linarith+
  have um: "uint (low + i32_half (high - low)) = ?l + (?h - ?l) div 2"
    unfolding m using r h by (intro uint_between) linarith+
  have w: "uint (saturating_sub w 1) = uint w - 1"
    using assms by (auto simp: saturating_sub_def uint_minus_simple_alt word_le_def uint_sub_if')
  have "low + i32_half (high - low) \<le> saturating_sub w 1"
    unfolding word_le_def um w using r assms by linarith
  then have "centre_point low high w = low + i32_half (high - low)"
    using sm r by (simp add: centre_point_def Let_def min_def)
  then show "sint low \<le> uint (centre_point low high w)" "uint (centre_point low high w) < sint high"
    using um r assms by simp_all
qed

text \<open>The targets of an interaction.\<close>

fun interaction_target :: "visual_interact_input \<Rightarrow> point_target option" where
  "interaction_target (VisualTap target _) = Some target"
| "interaction_target (VisualLongPress target _) = Some target"
| "interaction_target (VisualText _ (Some node_ref) _ _) = Some (NodeTarget node_ref)"
| "interaction_target _ = None"

text \<open>A coordinate is on its display, and inside an extent that lies on the display.\<close>

definition placed :: "u32 \<Rightarrow> i32 \<Rightarrow> i32 \<Rightarrow> u32 \<Rightarrow> bool" where
  "placed w low high x \<longleftrightarrow> (w = 0 \<or> x < w)
     \<and> (0 \<le> sint low \<and> sint high \<le> uint w \<longrightarrow> sint low \<le> uint x \<and> uint x < sint high)"

definition aims_at :: "visual_observe_result \<Rightarrow> visual_node \<Rightarrow> point_target \<Rightarrow> bool" where
  "aims_at observation node target \<longleftrightarrow>
     (case target of
        NodeTarget node_ref \<Rightarrow> vn_node_ref node = Some node_ref
      | CoordinateTarget observation_id x y \<Rightarrow>
          vf_coordinate (vo_interact observation) \<and> observation_id = vo_observation_id observation
          \<and> placed (dg_width (vo_display observation)) (nb_left (vn_bounds node)) (nb_right (vn_bounds node)) x
          \<and> placed (dg_height (vo_display observation)) (nb_top (vn_bounds node)) (nb_bottom (vn_bounds node)) y)"

lemma placed_centre: "sint low < sint high \<Longrightarrow> placed w low high (centre_point low high w)"
  using centre_in_display[of w] centre_in_bounds[of low high w] by (auto simp: placed_def)

lemma find_first:
  assumes "List.find P xs = Some x"
  shows "\<exists>ys zs. xs = ys @ x # zs \<and> P x \<and> list_all (\<lambda>y. \<not> P y) ys"
  using assms
proof (induction xs)
  case (Cons a xs)
  show ?case
  proof (cases "P a")
    case True
    with Cons.prems show ?thesis by (intro exI[of _ "[]"] exI[of _ xs]) auto
  next
    case False
    with Cons obtain ys zs where "xs = ys @ x # zs" "P x" "list_all (\<lambda>y. \<not> P y) ys" by auto
    with False show ?thesis by (intro exI[of _ "a # ys"] exI[of _ zs]) auto
  qed
qed simp

text \<open> an element step acts on the first node of the observation that it can address: an enabled node
  with an extent that matches, addressed by its reference or, when the observation takes coordinates,
  by a point. Such a point is on the display and, when the node's bounds are, inside the bounds. A
  text step ends with the step's text in that node or in the editor that the tap before it focused.
\<close>

lemma element_interaction_sound:
  assumes "element_interaction observation nodes input = Some interactions"
  shows "\<exists>before node after. nodes = before @ node # after \<and> addressable observation input node
    \<and> filter (addressable observation input) before = []
    \<and> list_all (\<lambda>i. case interaction_target i of None \<Rightarrow> True | Some t \<Rightarrow> aims_at observation node t) interactions
    \<and> (case interactions of
         [i] \<Rightarrow> interaction_target i \<noteq> None
       | [VisualTap t None, VisualText text None None None] \<Rightarrow> ae_operation input = ElementText
       | _ \<Rightarrow> False)"
proof -
  obtain node where node: "List.find (addressable observation input) nodes = Some node"
    using assms by (auto simp: element_interaction_def)
  obtain before after where split: "nodes = before @ node # after" "addressable observation input node"
    "list_all (\<lambda>n. \<not> addressable observation input n) before"
    using find_first[OF node] by blast
  have first: "filter (addressable observation input) before = []"
    using split(3) by (simp add: filter_empty_conv list_all_iff)
  have ext: "sint (nb_left (vn_bounds node)) < sint (nb_right (vn_bounds node))"
    "sint (nb_top (vn_bounds node)) < sint (nb_bottom (vn_bounds node))"
    using split(2) by (simp_all add: addressable_def)
  have shape: "list_all (\<lambda>i. case interaction_target i of None \<Rightarrow> True | Some t \<Rightarrow> aims_at observation node t) interactions
    \<and> (case interactions of
         [i] \<Rightarrow> interaction_target i \<noteq> None
       | [VisualTap t None, VisualText text None None None] \<Rightarrow> ae_operation input = ElementText
       | _ \<Rightarrow> False)"
    using assms node split(2) placed_centre[OF ext(1)] placed_centre[OF ext(2)]
    by (cases "vn_node_ref node"; cases "ae_operation input"; cases "vf_coordinate (vo_interact observation)")
      (auto simp: element_interaction_def Let_def aims_at_def element_centre_def addressable_def)
  show ?thesis
    using split(1,2) first shape by (intro exI[of _ before] exI[of _ node] exI[of _ after]) simp
qed

definition sample_node :: "string option \<Rightarrow> bool \<Rightarrow> visual_node" where
  "sample_node node_ref clickable =
     \<lparr>vn_node_ref = node_ref, vn_text = Some ''Check in'', vn_content_description = None, vn_resource_id = None,
      vn_class_name = None, vn_package_name = None,
      vn_bounds = \<lparr>nb_left = 100, nb_top = 200, nb_right = 300, nb_bottom = 260\<rparr>, vn_checkable = None,
      vn_checked = None, vn_clickable = Some clickable, vn_enabled = None, vn_focusable = None, vn_focused = None,
      vn_scrollable = None, vn_long_clickable = None, vn_password = None, vn_selected = None, vn_editable = None\<rparr>"

definition sample_observation :: visual_observe_result where
  "sample_observation =
     \<lparr>vo_observation_id = UuidV4 ''o'', vo_observed_at = [], 
      vo_display = \<lparr>dg_width = 1080, dg_height = 2400, dg_rotation = 0, dg_density_dpi = None\<rparr>,
      vo_interact = \<lparr>vf_coordinate = True, vf_node_unavailable_reason = None, vf_ttl_ms = 300000\<rparr>,
      vo_foreground = None, vo_image_ref = None, vo_image_format = None, vo_image_unavailable_reason = None,
      vo_nodes = None, vo_nodes_unavailable_reason = None, vo_nodes_truncated = None\<rparr>"

definition sample_element :: automation_element_input where
  "sample_element = \<lparr>ae_operation = ElementTap, ae_by = MatchText, ae_value = '' Check in '', ae_text = None, ae_wait_ms = 0\<rparr>"

lemma sample_trim: "trim '' Check in '' = ''Check in''" "trim ''Check in'' = ''Check in''"
  by (simp_all add: trim_def trim_start.simps white_space_def starts_with_def)

lemma sample_interaction:
  "element_interaction sample_observation [sample_node (Some ''label'') False, sample_node (Some ''button'') True] sample_element
     = Some [VisualTap (CoordinateTarget (UuidV4 ''o'') 200 230) None]"
  by (simp add: element_interaction_def addressable_def sample_element_def sample_node_def sample_observation_def
      sample_trim element_centre_def centre_point_def i32_half_def saturating_sub_def)

lemma element_interaction_sound_witness:
  "\<exists>before node after. [sample_node (Some ''label'') False, sample_node (Some ''button'') True] = before @ node # after
     \<and> addressable sample_observation sample_element node"
  using element_interaction_sound[OF sample_interaction] by blast

end
