(* ===== verification/Automation_Engine.thy ===== *)
theory Automation_Engine
  imports Automation_Interp Element_Step Core_Automation
begin

text \<open>
  The effects of one AutomationExecution, \<open>rust/crates/runtime/src/automation_engine.rs\<close>: its budget,
  its waits, the polling of a child Task and of an element, and the outcome it settles with. Clocks,
  timers, the cancellation flag and the public path of a submitted request are the functions of a port
  over the state of the world; JSON is a codec. A polling loop runs on fuel.
\<close>

section \<open>The port\<close>

abbreviation CHILD_TASK_POLL_MS :: u64 where "CHILD_TASK_POLL_MS \<equiv> 100"
abbreviation ELEMENT_POLL_MS :: u64 where "ELEMENT_POLL_MS \<equiv> 1000"
abbreviation FOCUS_SETTLE_MS :: u64 where "FOCUS_SETTLE_MS \<equiv> 300"

datatype command_terminal_state = CommandCompleted | CommandFailed

datatype command_failure_code = FailureExecutionFailed | FailureTimeout

record command_result =
  cr_state :: command_terminal_state
  cr_failure_code :: "command_failure_code option"
  cr_exit_code :: "i32 option"
  cr_requested_run_as :: run_as
  cr_actual_run_as :: run_as
  cr_execution_class :: execution_class
  cr_duration_ms :: u64
  cr_stdout :: "string option"
  cr_stdout_ref :: "string option"
  cr_stdout_truncated :: bool
  cr_stderr :: "string option"
  cr_stderr_ref :: "string option"
  cr_stderr_truncated :: bool

datatype 'v public_response = ResponseSuccess request_id 'v | ResponseError "request_id option" public_error

text \<open>
  The decoders of the values a Call sees. \<open>jc_call\<close> is the payload of a saved Call, \<open>jc_observe\<close> and
  \<open>jc_interact\<close> the payloads an element step submits, \<open>jc_request\<close> the bytes of one request.
\<close>

record ('r, 'v) json_codec =
  jc_call :: "automation_compatible_call \<Rightarrow> 'v option"
  jc_observe :: 'v
  jc_interact :: "visual_interact_input \<Rightarrow> 'v option"
  jc_request :: "uuid \<Rightarrow> 'v \<Rightarrow> string option"
  jc_response :: "string \<Rightarrow> 'v public_response option"
  jc_accepted :: "'v \<Rightarrow> task_id option"
  jc_observation :: "'v \<Rightarrow> visual_observe_result option"
  jc_command :: "'v \<Rightarrow> command_result option"
  jc_result :: "'r task_terminal_result \<Rightarrow> 'v option"
  jc_null :: 'v

text \<open>
  \<open>ep_race\<close> is the \<open>select!\<close> of a sleep and the cancellation: \<open>None\<close> when the cancellation won.
\<close>

record ('w, 'r) engine_port =
  ep_boot_millis :: "('w, u64) fallible"
  ep_wall :: "('w, string \<times> u64) fallible"
  ep_requested :: "'w \<Rightarrow> 'w \<times> bool"
  ep_sleep :: "u64 \<Rightarrow> ('w, unit) fallible"
  ep_race :: "u64 \<Rightarrow> 'w \<Rightarrow> 'w \<times> unit res option"
  ep_new_uuid :: "('w, uuid) fallible"
  ep_submit_public :: "string \<Rightarrow> string \<Rightarrow> u64 \<Rightarrow> 'w \<Rightarrow> 'w \<times> string"
  ep_get_task :: "task_id \<Rightarrow> u64 \<Rightarrow> ('w, 'r task_snapshot) fallible"
  ep_cancel_task :: "task_id \<Rightarrow> string \<Rightarrow> u64 \<Rightarrow> ('w, 'r task_snapshot) fallible"
  ep_set_state :: "string \<Rightarrow> scalar_value \<Rightarrow> ('w, unit) fallible"

text \<open>The execution under way; its identities and its start are constants of the run.\<close>

record 'w engine =
  eg_world :: 'w
  eg_cleanup_unverified :: bool

definition on_world :: "('w, 'a) fallible \<Rightarrow> ('w engine, 'a) fallible" where
  "on_world m s = (let (w, r) = m (eg_world s) in (s\<lparr>eg_world := w\<rparr>, r))"

section \<open>Budget and cancellation\<close>

definition cancelled_error :: domain_error where
  "cancelled_error = domain_error_new Cancelled ''AutomationExecution was cancelled''"

definition budget_expired :: domain_error where
  "budget_expired = domain_error_new Timeout ''Automation execution budget expired''"

definition remaining_ms :: "('w, 'r) engine_port \<Rightarrow> u64 \<Rightarrow> ('w engine, u64) fallible" where
  "remaining_ms p started =
     and_then (on_world (ep_boot_millis p)) (\<lambda>now.
       finish (Ok (saturating_sub AUTOMATION_BUDGET_MS (saturating_sub now started))))"

definition engine_checkpoint :: "('w, 'r) engine_port \<Rightarrow> u64 \<Rightarrow> ('w engine, unit) fallible" where
  "engine_checkpoint p started s =
     (let (w, requested) = ep_requested p (eg_world s);
          s = s\<lparr>eg_world := w\<rparr>
      in if requested then (s, Err cancelled_error)
         else and_then (remaining_ms p started) (\<lambda>remaining.
                finish (if remaining = 0 then Err budget_expired else Ok ())) s)"

definition engine_delay :: "('w, 'r) engine_port \<Rightarrow> u64 \<Rightarrow> u64 \<Rightarrow> ('w engine, unit) fallible" where
  "engine_delay p started duration_ms =
     and_then (remaining_ms p started) (\<lambda>remaining s.
       let (w, slept) = ep_race p (min duration_ms remaining) (eg_world s);
           s = s\<lparr>eg_world := w\<rparr>
       in case slept of
            None \<Rightarrow> (s, Err cancelled_error)
          | Some (Err e) \<Rightarrow> (s, Err e)
          | Some (Ok _) \<Rightarrow> (s, if duration_ms > remaining then Err budget_expired else Ok ()))"

text \<open>A polling wait: its timer may fail, a cancellation only ends it early.\<close>

definition poll_wait :: "('w, 'r) engine_port \<Rightarrow> u64 \<Rightarrow> ('w engine, 'a option) fallible" where
  "poll_wait p wait s =
     (let (w, slept) = ep_race p wait (eg_world s);
          s = s\<lparr>eg_world := w\<rparr>
      in case slept of Some (Err e) \<Rightarrow> (s, Err e) | _ \<Rightarrow> (s, Ok None))"

text \<open>\<open>Ok None\<close> goes round the loop again.\<close>

fun poll :: "nat \<Rightarrow> ('s, 'a option) fallible \<Rightarrow> 's \<Rightarrow> ('s \<times> 'a res) option" where
  "poll 0 step s = None"
| "poll (Suc fuel) step s =
     (case step s of
        (s, Err e) \<Rightarrow> Some (s, Err e)
      | (s, Ok (Some x)) \<Rightarrow> Some (s, Ok x)
      | (s, Ok None) \<Rightarrow> poll fuel step s)"

section \<open>Child Tasks\<close>

definition child_error :: "'r task_snapshot \<Rightarrow> domain_error" where
  "child_error t =
     domain_error_new (case ts_error t of None \<Rightarrow> ExecutionFailed | Some error \<Rightarrow> pe_code error)
       ''Automation child Task did not complete''"

text \<open>A stop cancels the child first; a cleanup nobody verified interrupts the execution.\<close>

definition stop_child ::
  "('w, 'r) engine_port \<Rightarrow> task_id \<Rightarrow> domain_error \<Rightarrow> ('w engine, 'a) fallible" where
  "stop_child p task_id stop =
     and_then (on_world (ep_wall p)) (\<lambda>(timestamp, now_ms).
       and_then (on_world (ep_cancel_task p task_id timestamp now_ms)) (\<lambda>settled s.
         (if ts_state settled = TaskInterrupted then s\<lparr>eg_cleanup_unverified := True\<rparr> else s, Err stop)))"

definition await_child_step ::
  "('w, 'r) engine_port \<Rightarrow> u64 \<Rightarrow> task_id \<Rightarrow> ('w engine, 'r task_snapshot option) fallible" where
  "await_child_step p started task_id =
     and_then (on_world (ep_wall p)) (\<lambda>(_, now_ms).
       and_then (on_world (ep_get_task p task_id now_ms)) (\<lambda>t.
         case ts_state t of
           TaskCompleted \<Rightarrow> finish (Ok (Some t))
         | TaskFailed \<Rightarrow> finish (if ts_result t \<noteq> None then Ok (Some t) else Err (child_error t))
         | TaskCancelled \<Rightarrow> finish (Err (child_error t))
         | TaskInterrupted \<Rightarrow> finish (Err (child_error t))
         | _ \<Rightarrow> (\<lambda>s. case engine_checkpoint p started s of
               (s, Err stop) \<Rightarrow> stop_child p task_id stop s
             | (s, Ok _) \<Rightarrow>
                 and_then (remaining_ms p started) (\<lambda>remaining.
                   poll_wait p (min CHILD_TASK_POLL_MS remaining)) s)))"

definition await_child_task ::
  "nat \<Rightarrow> ('w, 'r) engine_port \<Rightarrow> u64 \<Rightarrow> task_id \<Rightarrow> 'w engine \<Rightarrow> ('w engine \<times> 'r task_snapshot res) option" where
  "await_child_task fuel p started task_id = poll fuel (await_child_step p started task_id)"

section \<open>Calls\<close>

definition call_result :: "('r, 'v) json_codec \<Rightarrow> string \<Rightarrow> 'v res" where
  "call_result jc response =
     (case jc_response jc response of
        Some (ResponseSuccess _ v) \<Rightarrow> Ok v
      | Some (ResponseError _ error) \<Rightarrow> err (pe_code error) ''Automation Call failed''
      | None \<Rightarrow> err InternalError ''Automation Call response is invalid'')"

definition encoding_failed :: domain_error where
  "encoding_failed = domain_error_new InternalError ''Automation Call encoding failed''"

definition submit ::
  "('r, 'v) json_codec \<Rightarrow> ('w, 'r) engine_port \<Rightarrow> 'v \<Rightarrow> ('w engine, 'v) fallible" where
  "submit jc p payload =
     and_then (on_world (ep_new_uuid p)) (\<lambda>request_id.
       and_then (finish (ok_or (jc_request jc request_id payload) encoding_failed)) (\<lambda>request.
         and_then (on_world (ep_wall p)) (\<lambda>(timestamp, now_ms).
           on_world (\<lambda>w. let (w, response) = ep_submit_public p request timestamp now_ms w
                         in (w, call_result jc response)))))"

definition command_outcome :: "('r, 'v) json_codec \<Rightarrow> 'v \<Rightarrow> call_outcome" where
  "command_outcome jc v =
     (case jc_command jc v of
        None \<Rightarrow> call_outcome_default
      | Some command \<Rightarrow>
          \<lparr>co_failure = (if cr_state command = CommandFailed
              then Some (case cr_failure_code command of Some FailureTimeout \<Rightarrow> Timeout | _ \<Rightarrow> ExecutionFailed)
              else None),
           co_exit_code = cr_exit_code command\<rparr>)"

section \<open>Element steps\<close>

definition wait_for_element ::
  "('w, 'r) engine_port \<Rightarrow> u64 \<Rightarrow> u64 \<Rightarrow> domain_error \<Rightarrow> ('w engine, 'a option) fallible" where
  "wait_for_element p started deadline absent =
     and_then (engine_checkpoint p started) (\<lambda>_.
       and_then (on_world (ep_boot_millis p)) (\<lambda>now.
         if now \<ge> deadline then finish (Err absent)
         else and_then (remaining_ms p started) (\<lambda>remaining.
                poll_wait p (min (min ELEMENT_POLL_MS (deadline - now)) remaining))))"

text \<open>The interactions of one observation; an editor a press focused settles first.\<close>

fun interact_all ::
  "('r, 'v) json_codec \<Rightarrow> ('w, 'r) engine_port \<Rightarrow> u64 \<Rightarrow> nat \<Rightarrow> visual_interact_input list \<Rightarrow>
   ('w engine, call_outcome option) fallible" where
  "interact_all jc p started index [] = finish (Ok (Some call_outcome_default))"
| "interact_all jc p started index (interaction # rest) =
     and_then (if index > 0
               then and_then (on_world (ep_sleep p FOCUS_SETTLE_MS)) (\<lambda>_. engine_checkpoint p started)
               else finish (Ok ())) (\<lambda>_.
       and_then (finish (ok_or (jc_interact jc interaction)
                   (domain_error_new InternalError ''element interaction encoding failed''))) (\<lambda>input.
         and_then (submit jc p input) (\<lambda>_. interact_all jc p started (Suc index) rest)))"

text \<open>
  One round of \<open>element\<close>; the last reason the element was absent is part of the loop's state.
\<close>

definition no_element :: domain_error where
  "no_element = domain_error_new NotFound ''no element matches''"

definition element_step ::
  "('r, 'v) json_codec \<Rightarrow> ('w, 'r) engine_port \<Rightarrow> u64 \<Rightarrow> automation_element_input \<Rightarrow> u64 \<Rightarrow>
   ('w engine \<times> domain_error, call_outcome option) fallible" where
  "element_step jc p started input deadline = (\<lambda>(s, absent).
     let (s, observed) = submit jc p (jc_observe jc) s;
         observed = rbind observed (\<lambda>v. ok_or (jc_observation jc v)
             (domain_error_new InternalError ''visual observe result is invalid''));
         again = (\<lambda>absent s. let (s, r) = wait_for_element p started deadline absent s in ((s, absent), r))
     in case observed of
          Err e \<Rightarrow> again e s
        | Ok observation \<Rightarrow>
            (case vo_nodes observation of
               None \<Rightarrow> again (domain_error_new CapabilityUnavailable ''screen nodes are unavailable'') s
             | Some nodes \<Rightarrow>
                 (case element_interaction observation nodes input of
                    Some interactions \<Rightarrow>
                      (let (s, r) = interact_all jc p started 0 interactions s in ((s, absent), r))
                  | None \<Rightarrow> again absent s)))"

definition element ::
  "nat \<Rightarrow> ('r, 'v) json_codec \<Rightarrow> ('w, 'r) engine_port \<Rightarrow> u64 \<Rightarrow> automation_element_input \<Rightarrow> 'w engine \<Rightarrow>
   ('w engine \<times> call_outcome res) option" where
  "element fuel jc p started input s =
     (case on_world (ep_boot_millis p) s of
        (s, Err e) \<Rightarrow> Some (s, Err e)
      | (s, Ok now) \<Rightarrow>
          map_option (\<lambda>((s, _), r). (s, r))
            (poll fuel (element_step jc p started input (saturating_add now (ae_wait_ms input))) (s, no_element)))"

section \<open>The effects\<close>

text \<open>\<open>call\<close> of the effects: an element step, an answered request or an accepted child Task.\<close>

definition engine_call ::
  "nat \<Rightarrow> ('r, 'v) json_codec \<Rightarrow> ('w, 'r) engine_port \<Rightarrow> u64 \<Rightarrow> automation_compatible_call \<Rightarrow> 'w engine \<Rightarrow>
   ('w engine \<times> call_outcome res) option" where
  "engine_call fuel jc p started call s =
     (case call of
        CallVisual (VisualElement input) \<Rightarrow> element fuel jc p started input s
      | _ \<Rightarrow>
          (case and_then (finish (ok_or (jc_call jc call) encoding_failed)) (submit jc p) s of
             (s, Err e) \<Rightarrow> Some (s, Err e)
           | (s, Ok v) \<Rightarrow>
               (case jc_accepted jc v of
                  None \<Rightarrow> Some (s, Ok (command_outcome jc v))
                | Some task_id \<Rightarrow>
                    map_option (\<lambda>(s, r). (s, rbind r (\<lambda>t. Ok (command_outcome jc
                        (case Option.bind (ts_result t) (jc_result jc) of None \<Rightarrow> jc_null jc | Some v \<Rightarrow> v)))))
                      (await_child_task fuel p started task_id s))))"

section \<open>Settlement\<close>

definition execution_error :: "error_code \<Rightarrow> public_error" where
  "execution_error code =
     \<lparr>pe_code = code, pe_operation = ''automation.execution'', pe_retryable = False, pe_message = None,
      pe_capability = None, pe_details = None\<rparr>"

definition run_outcome :: "'j wire_codec \<Rightarrow> bool \<Rightarrow> unit res \<Rightarrow> automation_execution_outcome" where
  "run_outcome k cleanup_unverified run =
     (if cleanup_unverified
      then AutoOutcomeInterrupted ((execution_error IoError)
             \<lparr>pe_details := Some (bt_insert ''cleanup_unverified'' (EdvBoolean True)
                (case run of Err error \<Rightarrow> failure_details k error | Ok _ \<Rightarrow> []))\<rparr>)
      else case run of
        Ok _ \<Rightarrow> AutoOutcomeCompleted
      | Err error \<Rightarrow>
          if de_code error = Cancelled then AutoOutcomeCancelled (execution_error Cancelled)
          else AutoOutcomeFailed ((execution_error (de_code error))\<lparr>pe_details := Some (failure_details k error)\<rparr>))"

text \<open>The effects the interpreter calls; \<open>engine_call_returns\<close> is that enough fuel never runs out.\<close>

definition engine_effects ::
  "nat \<Rightarrow> ('r, 'v) json_codec \<Rightarrow> ('w, 'r) engine_port \<Rightarrow> u64 \<Rightarrow> 'w engine automation_effects" where
  "engine_effects fuel jc p started =
     \<lparr>fx_checkpoint = engine_checkpoint p started,
      fx_call = (\<lambda>call s. case engine_call fuel jc p started call s of
         Some answer \<Rightarrow> answer | None \<Rightarrow> (s, err InternalError ''the fuel of a polling loop ran out'')),
      fx_set_state = (\<lambda>key v. on_world (ep_set_state p key v)),
      fx_delay = engine_delay p started\<rparr>"

text \<open>The commits around a run: start, state, settlement and the summary of a settled execution.\<close>

record ('w, 'r) drive_port = "('w, 'r) engine_port" +
  dp_start :: "string \<Rightarrow> ('w, automation_execution_summary) fallible"
  dp_values :: "('w, scalar_value btree_map) fallible"
  dp_settle :: "automation_execution_outcome \<Rightarrow> string \<Rightarrow> ('w, automation_execution_summary) fallible"
  dp_summary :: "('w, automation_execution_summary) fallible"

definition drive_automation_execution ::
  "nat \<Rightarrow> ('r, 'v) json_codec \<Rightarrow> 'j wire_codec \<Rightarrow> ('w, 'r) drive_port \<Rightarrow> automation_action \<Rightarrow>
   scalar_value btree_map \<Rightarrow> ('w, automation_execution_summary) fallible" where
  "drive_automation_execution fuel jc k d action trigger_facts =
     (let settle = (\<lambda>outcome. and_then (ep_wall d) (\<lambda>(timestamp, _). dp_settle d outcome timestamp))
      in and_then (ep_boot_millis d) (\<lambda>started. and_then (ep_wall d) (\<lambda>(timestamp, _) w.
         case dp_start d timestamp w of
           (w, Err e) \<Rightarrow>
             if de_code e = Cancelled then settle (AutoOutcomeCancelled (execution_error Cancelled)) w
             else if de_code e = InvalidArgument then dp_summary d w
             else (w, Err e)
         | (w, Ok _) \<Rightarrow>
             and_then (dp_values d) (\<lambda>values w.
               let (s, run) = execute (engine_effects fuel jc (engine_port.truncate d) started) action values
                     trigger_facts \<lparr>eg_world = w, eg_cleanup_unverified = False\<rparr>
               in settle (run_outcome k (eg_cleanup_unverified (is_owner s)) run) (eg_world (is_owner s))) w)))"

text \<open>Every outcome the engine settles with is one that the store's lifecycle accepts.\<close>

lemma run_outcome_fits:
  "outcome_fits (run_outcome k cleanup_unverified run)"
  "(\<exists>e. run_outcome k cleanup_unverified run = AutoOutcomeInterrupted e) \<longleftrightarrow> cleanup_unverified"
  "run_outcome k cleanup_unverified run = AutoOutcomeCompleted \<longleftrightarrow> \<not> cleanup_unverified \<and> is_ok run"
  by (auto simp: run_outcome_def outcome_fits_def execution_error_def is_ok_iff split: sum.splits)

lemma drive_settles_fitting:
  assumes "\<And>outcome. outcome_fits outcome \<Longrightarrow> dp_settle d outcome = settle outcome"
  shows "drive_automation_execution fuel jc k (d\<lparr>dp_settle := settle\<rparr>) action facts
    = drive_automation_execution fuel jc k d action facts"
proof -
  have "dp_settle d (AutoOutcomeCancelled (execution_error Cancelled)) = settle (AutoOutcomeCancelled (execution_error Cancelled))"
    using assms by (simp add: outcome_fits_def execution_error_def)
  moreover have "dp_settle d (run_outcome k c r) = settle (run_outcome k c r)" for c r
    by (rule assms) (rule run_outcome_fits)
  ultimately show ?thesis
    by (simp add: drive_automation_execution_def engine_port.defs Let_def cong: if_cong sum.case_cong)
qed

section \<open>Time passes\<close>

text \<open>
  What the port's clock and timers promise: \<open>tm\<close> is CLOCK_BOOTTIME in milliseconds and never goes
  back, a timer that ends has waited at least its duration, and \<open>cx\<close>, the cancellation request, stays
  once it is made and is what ends a race early.
\<close>

definition later :: "('w \<Rightarrow> nat) \<Rightarrow> ('w \<Rightarrow> bool) \<Rightarrow> 'w \<Rightarrow> 'w \<Rightarrow> bool" where
  "later tm cx w w' \<longleftrightarrow> tm w \<le> tm w' \<and> (cx w \<longrightarrow> cx w')"

definition steady :: "('w, 'r) engine_port \<Rightarrow> ('w \<Rightarrow> nat) \<Rightarrow> ('w \<Rightarrow> bool) \<Rightarrow> bool" where
  "steady p tm cx \<longleftrightarrow>
     (\<forall>w. let (w', r) = ep_boot_millis p w in later tm cx w w' \<and> (case r of Ok n \<Rightarrow> unat n = tm w' | Err _ \<Rightarrow> True))
     \<and> (\<forall>w. let (w', requested) = ep_requested p w in later tm cx w w' \<and> (cx w \<longrightarrow> requested))
     \<and> (\<forall>ms w. let (w', slept) = ep_race p ms w in later tm cx w w'
          \<and> (case slept of None \<Rightarrow> cx w' | Some (Ok _) \<Rightarrow> tm w + unat ms \<le> tm w' | Some (Err _) \<Rightarrow> True))
     \<and> (\<forall>w. later tm cx w (fst (ep_wall p w)))
     \<and> (\<forall>ms w. later tm cx w (fst (ep_sleep p ms w)))
     \<and> (\<forall>w. later tm cx w (fst (ep_new_uuid p w)))
     \<and> (\<forall>request timestamp now w. later tm cx w (fst (ep_submit_public p request timestamp now w)))
     \<and> (\<forall>task_id now w. later tm cx w (fst (ep_get_task p task_id now w)))
     \<and> (\<forall>task_id timestamp now w. later tm cx w (fst (ep_cancel_task p task_id timestamp now w)))"

lemma later_trans [trans]: "later tm cx a b \<Longrightarrow> later tm cx b c \<Longrightarrow> later tm cx a c"
  by (auto simp: later_def)

lemma later_refl [simp]: "later tm cx w w"
  by (simp add: later_def)

text \<open>A step of the engine that lets time pass.\<close>

definition passing :: "('w \<Rightarrow> nat) \<Rightarrow> ('w \<Rightarrow> bool) \<Rightarrow> ('w engine, 'a) fallible \<Rightarrow> bool" where
  "passing tm cx m \<longleftrightarrow> (\<forall>s. later tm cx (eg_world s) (eg_world (fst (m s))))"

lemma passingD: "passing tm cx m \<Longrightarrow> m s = (s', r) \<Longrightarrow> later tm cx (eg_world s) (eg_world s')"
  unfolding passing_def by (metis fst_conv)

lemma passing_and_then:
  assumes "passing tm cx m" "\<And>x. passing tm cx (f x)"
  shows "passing tm cx (and_then m f)"
  unfolding passing_def
proof
  fix s
  obtain s1 r1 where s1: "m s = (s1, r1)" by fastforce
  show "later tm cx (eg_world s) (eg_world (fst (and_then m f s)))"
  proof (cases r1)
    case (Inl e)
    then show ?thesis using s1 passingD[OF assms(1) s1] by (simp add: and_then_def)
  next
    case (Inr x)
    have "later tm cx (eg_world s1) (eg_world (fst (f x s1)))" using assms(2) by (simp add: passing_def)
    with passingD[OF assms(1) s1] show ?thesis using s1 Inr by (simp add: and_then_def later_trans)
  qed
qed

lemma passing_finish: "passing tm cx (finish r)"
  by (simp add: passing_def finish_def)

lemma passing_world: "(\<And>w. later tm cx w (fst (m w))) \<Longrightarrow> passing tm cx (on_world m)"
  by (simp add: passing_def on_world_def split_def Let_def)

lemma and_then_Ok:
  assumes "and_then m f s = (s', Ok y)"
  obtains s1 x where "m s = (s1, Ok x)" "f x s1 = (s', Ok y)"
  using assms by (auto simp: and_then_def split: prod.splits sum.splits)

lemma passing_port:
  assumes "steady p tm cx"
  shows "passing tm cx (on_world (ep_boot_millis p))" "passing tm cx (on_world (ep_wall p))"
    "passing tm cx (on_world (ep_sleep p ms))" "passing tm cx (on_world (ep_new_uuid p))"
    "passing tm cx (on_world (ep_get_task p task_id now))"
    "passing tm cx (on_world (ep_cancel_task p task_id timestamp now))"
  using assms by (auto simp: steady_def split_def Let_def intro!: passing_world)

lemma passing_submit:
  assumes "steady p tm cx"
  shows "passing tm cx (submit jc p payload)"
  unfolding submit_def
proof (intro passing_and_then passing_finish passing_port[OF assms])
  fix request and x :: "string \<times> u64"
  show "passing tm cx (case x of (timestamp, now_ms) \<Rightarrow>
      on_world (\<lambda>w. let (w, response) = ep_submit_public p request timestamp now_ms w in (w, call_result jc response)))"
    using assms by (auto simp: steady_def split_def Let_def intro!: passing_world)
qed

text \<open>What the readings of the clock mean.\<close>

lemma steady_boot:
  assumes "steady p tm cx" "ep_boot_millis p w = (w', r)"
  shows "later tm cx w w'" "r = Ok n \<Longrightarrow> unat n = tm w'"
proof -
  have "let (w', r) = ep_boot_millis p w in later tm cx w w' \<and> (case r of Ok n \<Rightarrow> unat n = tm w' | Err _ \<Rightarrow> True)"
    using assms(1) unfolding steady_def by blast
  with assms(2) show "later tm cx w w'" "r = Ok n \<Longrightarrow> unat n = tm w'" by auto
qed

lemma steady_requested:
  assumes "steady p tm cx" "ep_requested p w = (w', requested)"
  shows "later tm cx w w'" "cx w \<Longrightarrow> requested"
proof -
  have "let (w', requested) = ep_requested p w in later tm cx w w' \<and> (cx w \<longrightarrow> requested)"
    using assms(1) unfolding steady_def by blast
  with assms(2) show "later tm cx w w'" "cx w \<Longrightarrow> requested" by auto
qed

lemma steady_race:
  assumes "steady p tm cx" "ep_race p ms w = (w', slept)"
  shows "later tm cx w w'" "slept = None \<Longrightarrow> cx w'" "slept = Some (Ok u) \<Longrightarrow> tm w + unat ms \<le> tm w'"
proof -
  have "let (w', slept) = ep_race p ms w in later tm cx w w'
      \<and> (case slept of None \<Rightarrow> cx w' | Some (Ok _) \<Rightarrow> tm w + unat ms \<le> tm w' | Some (Err _) \<Rightarrow> True)"
    using assms(1) unfolding steady_def by blast
  with assms(2) have "later tm cx w w'
      \<and> (case slept of None \<Rightarrow> cx w' | Some (Ok _) \<Rightarrow> tm w + unat ms \<le> tm w' | Some (Err _) \<Rightarrow> True)"
    by simp
  then show "later tm cx w w'" "slept = None \<Longrightarrow> cx w'" "slept = Some (Ok u) \<Longrightarrow> tm w + unat ms \<le> tm w'"
    by auto
qed

lemma remaining_Ok:
  assumes "steady p tm cx" and "remaining_ms p started s = (s', Ok r)"
  shows "later tm cx (eg_world s) (eg_world s')"
    and "unat r = 3600000 - (tm (eg_world s') - unat started)"
proof -
  obtain w n where w: "ep_boot_millis p (eg_world s) = (w, Ok n)" "s' = s\<lparr>eg_world := w\<rparr>"
      "r = saturating_sub AUTOMATION_BUDGET_MS (saturating_sub n started)"
    using assms(2) by (auto simp: remaining_ms_def on_world_def finish_def Let_def split: prod.splits elim!: and_then_Ok)
  have "later tm cx (eg_world s) w \<and> unat n = tm w"
    using steady_boot[OF assms(1) w(1)] by simp
  then show "later tm cx (eg_world s) (eg_world s')" "unat r = 3600000 - (tm (eg_world s') - unat started)"
    by (simp_all add: w(2,3) unat_saturating_sub)
qed

lemma checkpoint_Ok:
  assumes st: "steady p tm cx" and ok: "engine_checkpoint p started s = (s', Ok u)"
  shows "later tm cx (eg_world s) (eg_world s')" "\<not> cx (eg_world s)"
    "tm (eg_world s') < 3600000 + unat started"
proof -
  obtain w where w: "ep_requested p (eg_world s) = (w, False)"
    and "and_then (remaining_ms p started) (\<lambda>remaining.
        finish (if remaining = 0 then Err budget_expired else Ok ())) (s\<lparr>eg_world := w\<rparr>) = (s', Ok u)"
    using ok by (auto simp: engine_checkpoint_def Let_def split: prod.splits if_splits)
  then obtain s1 r where r: "remaining_ms p started (s\<lparr>eg_world := w\<rparr>) = (s1, Ok r)" "s' = s1" "r \<noteq> 0"
    by (elim and_then_Ok) (auto simp: finish_def split: if_splits)
  have c: "later tm cx (eg_world s) w" "\<not> cx (eg_world s)"
    using steady_requested[OF st w] by auto
  note R = remaining_Ok[OF st r(1)]
  show "later tm cx (eg_world s) (eg_world s')" "\<not> cx (eg_world s)" using c R(1) r(2) later_trans by auto
  have "0 < unat r" using r(3) by (simp add: unat_gt_0)
  then show "tm (eg_world s') < 3600000 + unat started" using R(2) unfolding r(2) by arith
qed

lemma poll_wait_Ok:
  assumes st: "steady p tm cx" and ok: "poll_wait p wait s = (s', Ok x)"
  shows "x = None" "later tm cx (eg_world s) (eg_world s')"
    "cx (eg_world s') \<or> tm (eg_world s) + unat wait \<le> tm (eg_world s')"
proof -
  obtain w slept where w: "ep_race p wait (eg_world s) = (w, slept)" "s' = s\<lparr>eg_world := w\<rparr>" "x = None"
      "\<And>e. slept \<noteq> Some (Err e)"
    using ok by (auto simp: poll_wait_def Let_def split: prod.splits option.splits sum.splits)
  note R = steady_race[OF st w(1)]
  show "later tm cx (eg_world s) (eg_world s')" using R(1) w(2) by simp
  show "cx (eg_world s') \<or> tm (eg_world s) + unat wait \<le> tm (eg_world s')"
  proof (cases slept)
    case None
    then show ?thesis using R(2) w(2) by simp
  next
    case (Some r)
    then obtain u where "slept = Some (Ok u)" using w(4) by (cases r) auto
    then show ?thesis using R(3) w(2) by simp
  qed
qed (use ok in \<open>auto simp: poll_wait_def Let_def split: prod.splits option.splits sum.splits\<close>)

section \<open>The loops end\<close>

text \<open>The milliseconds of budget left to an execution that goes on.\<close>

definition budget_left :: "('w \<Rightarrow> nat) \<Rightarrow> ('w \<Rightarrow> bool) \<Rightarrow> u64 \<Rightarrow> 'w engine \<Rightarrow> nat" where
  "budget_left tm cx started s =
     (if cx (eg_world s) then 0 else (3600000 + unat started) - tm (eg_world s))"

text \<open>A round that passed its checkpoint and waited has used some of it.\<close>

lemma round_uses_budget:
  assumes st: "steady p tm cx" and s1: "later tm cx (eg_world s) (eg_world s1)"
    and check: "engine_checkpoint p started s1 = (s2, Ok u)"
    and s3: "later tm cx (eg_world s2) (eg_world s3)"
    and remaining: "remaining_ms p started s3 = (s4, Ok r)"
    and wait: "poll_wait p wait s4 = (s5, Ok x)"
    and pos: "r \<noteq> 0 \<Longrightarrow> wait \<noteq> 0"
  shows "budget_left tm cx started s5 < budget_left tm cx started s"
proof -
  note C = checkpoint_Ok[OF st check] and R = remaining_Ok[OF st remaining] and W = poll_wait_Ok[OF st wait]
  have t: "tm (eg_world s) \<le> tm (eg_world s1)" "tm (eg_world s1) \<le> tm (eg_world s2)" "tm (eg_world s2) \<le> tm (eg_world s3)"
    "tm (eg_world s3) \<le> tm (eg_world s4)" "tm (eg_world s4) \<le> tm (eg_world s5)"
    using s1 C(1) s3 R(1) W(2) by (simp_all add: later_def)
  have "\<not> cx (eg_world s)" using s1 C(2) by (auto simp: later_def)
  moreover have "tm (eg_world s) < 3600000 + unat started" using t C(3) by linarith
  moreover have "3600000 + unat started \<le> tm (eg_world s5) \<or> tm (eg_world s) < tm (eg_world s5)" if "\<not> cx (eg_world s5)"
  proof (cases "r = 0")
    case True
    then have "3600000 + unat started \<le> tm (eg_world s4)" using R(2) by simp
    then show ?thesis using t by linarith
  next
    case False
    then have "0 < unat wait" using pos by (simp add: unat_gt_0)
    moreover have "tm (eg_world s4) + unat wait \<le> tm (eg_world s5)" using W(3) that by simp
    ultimately show ?thesis using t by linarith
  qed
  ultimately show ?thesis unfolding budget_left_def by auto
qed

lemma poll_returns:
  assumes "\<And>s s'. step s = (s', Ok None) \<Longrightarrow> m s' < (m s :: nat)" and "m s < fuel"
  shows "poll fuel step s \<noteq> None"
  using assms(2)
proof (induction fuel arbitrary: s)
  case (Suc fuel)
  obtain s1 r where s1: "step s = (s1, r)" by fastforce
  show ?case
  proof (cases "r = Ok None")
    case True
    then have "m s1 < fuel" using assms(1)[of s s1] s1 Suc.prems by simp
    from Suc.IH[OF this] show ?thesis using s1 True by simp
  next
    case False
    then show ?thesis using s1 by (auto split: sum.splits option.splits)
  qed
qed simp

lemma await_child_round:
  fixes p :: "('w, 'r) engine_port"
  assumes st: "steady p tm cx" and "await_child_step p started task_id s = (s', Ok None)"
  shows "budget_left tm cx started s' < budget_left tm cx started s"
proof -
  from assms(2) obtain s1 x where s1: "on_world (ep_wall p) s = (s1, Ok x)"
    and rest: "and_then (on_world (ep_get_task p task_id (snd x))) (\<lambda>t.
         case ts_state t of
           TaskCompleted \<Rightarrow> finish (Ok (Some t))
         | TaskFailed \<Rightarrow> finish (if ts_result t \<noteq> None then Ok (Some t) else Err (child_error t))
         | TaskCancelled \<Rightarrow> finish (Err (child_error t))
         | TaskInterrupted \<Rightarrow> finish (Err (child_error t))
         | _ \<Rightarrow> (\<lambda>s. case engine_checkpoint p started s of
               (s, Err stop) \<Rightarrow> stop_child p task_id stop s
             | (s, Ok _) \<Rightarrow>
                 and_then (remaining_ms p started) (\<lambda>remaining.
                   poll_wait p (min CHILD_TASK_POLL_MS remaining)) s)) s1 = (s', Ok None)"
    unfolding await_child_step_def by (elim and_then_Ok) (auto simp: split_def)
  from rest obtain s2 t where s2: "on_world (ep_get_task p task_id (snd x)) s1 = (s2, Ok t)"
    and round: "(case engine_checkpoint p started s2 of
               (s, Err stop) \<Rightarrow> stop_child p task_id stop s
             | (s, Ok _) \<Rightarrow>
                 and_then (remaining_ms p started) (\<lambda>remaining.
                   poll_wait p (min CHILD_TASK_POLL_MS remaining)) s) = (s', Ok (None :: 'r task_snapshot option))"
    by (elim and_then_Ok) (auto simp: finish_def split: task_state.splits if_splits)
  obtain s3 u where s3: "engine_checkpoint p started s2 = (s3, Ok u)"
    and r: "and_then (remaining_ms p started) (\<lambda>remaining.
                   poll_wait p (min CHILD_TASK_POLL_MS remaining)) s3 = (s', Ok (None :: 'r task_snapshot option))"
    using round by (auto simp: stop_child_def split: prod.splits sum.splits elim!: and_then_Ok)
  from r obtain s4 r where r: "remaining_ms p started s3 = (s4, Ok r)"
    "poll_wait p (min CHILD_TASK_POLL_MS r) s4 = (s', Ok (None :: 'r task_snapshot option))" by (rule and_then_Ok)
  have "later tm cx (eg_world s) (eg_world s2)"
    using passingD[OF passing_port(2)[OF st] s1] passingD[OF passing_port(5)[OF st] s2] by (rule later_trans)
  from round_uses_budget[OF st this s3 later_refl r] show ?thesis by (auto simp: min_def)
qed

lemma wait_for_element_round:
  assumes st: "steady p tm cx" and s1: "later tm cx (eg_world s) (eg_world s1)"
    and wait: "wait_for_element p started deadline absent s1 = (s', Ok x)"
  shows "budget_left tm cx started s' < budget_left tm cx started s"
proof -
  from wait obtain s2 u where s2: "engine_checkpoint p started s1 = (s2, Ok u)"
    and a: "and_then (on_world (ep_boot_millis p)) (\<lambda>now.
         if now \<ge> deadline then finish (Err absent)
         else and_then (remaining_ms p started) (\<lambda>remaining.
                poll_wait p (min (min ELEMENT_POLL_MS (deadline - now)) remaining))) s2 = (s', Ok x)"
    unfolding wait_for_element_def by (rule and_then_Ok)
  from a obtain s3 now where s3: "on_world (ep_boot_millis p) s2 = (s3, Ok now)"
    and b: "(if now \<ge> deadline then finish (Err absent)
         else and_then (remaining_ms p started) (\<lambda>remaining.
                poll_wait p (min (min ELEMENT_POLL_MS (deadline - now)) remaining))) s3 = (s', Ok x)"
    by (rule and_then_Ok)
  from b have now: "\<not> now \<ge> deadline" by (auto simp: finish_def split: if_splits)
  with b obtain s4 r where r: "remaining_ms p started s3 = (s4, Ok r)"
    "poll_wait p (min (min ELEMENT_POLL_MS (deadline - now)) r) s4 = (s', Ok x)"
    by (auto elim: and_then_Ok)
  have "deadline - now \<noteq> 0" using now by auto
  then show ?thesis
    using round_uses_budget[OF st s1 s2 passingD[OF passing_port(1)[OF st] s3] r] by (auto simp: min_def)
qed

lemma interact_all_ends: "interact_all jc p started n interactions s \<noteq> (s', Ok None)"
proof (induction interactions arbitrary: n s)
  case Nil
  show ?case by (simp add: finish_def)
next
  case (Cons i interactions)
  show ?case
  proof
    assume "interact_all jc p started n (i # interactions) s = (s', Ok None)"
    then show False unfolding interact_all.simps by (elim and_then_Ok) (use Cons in blast)
  qed
qed

lemma element_round:
  assumes st: "steady p tm cx" and step: "element_step jc p started input deadline s = (s', Ok None)"
  shows "budget_left tm cx started (fst s') < budget_left tm cx started (fst s)"
proof -
  obtain e absent where s: "s = (e, absent)" by fastforce
  obtain e1 observed where e1: "submit jc p (jc_observe jc) e = (e1, observed)" by fastforce
  have later: "later tm cx (eg_world e) (eg_world e1)" by (rule passingD[OF passing_submit[OF st] e1])
  have "\<exists>a. wait_for_element p started deadline a e1 = (fst s', Ok (None :: call_outcome option))"
    using step unfolding s element_step_def
    by (auto simp: e1 Let_def interact_all_ends split: sum.splits option.splits prod.splits)
  then show ?thesis using wait_for_element_round[OF st later] by (auto simp: s)
qed

section \<open>Properties\<close>


text \<open>A world that is its clock; every child runs forever.\<close>

definition sample_child :: "unit task_snapshot" where
  "sample_child =
     \<lparr>ts_task_id = UuidV4 ''t'', ts_state = TaskRunning, ts_tool = ToolCommand, ts_action = ''run'', ts_created_at = [],
      ts_started_at = None, ts_ended_at = None, ts_cancel_requested = False, ts_waiting_reason = None,
      ts_execution_class = None, ts_result = None, ts_error = None\<rparr>"

definition sample_port :: "(u64, unit) engine_port" where
  "sample_port =
     \<lparr>ep_boot_millis = (\<lambda>w. (w, Ok w)), ep_wall = finish (Ok ([], 0)), ep_requested = (\<lambda>w. (w, False)),
      ep_sleep = (\<lambda>_. finish (Ok ())),
      ep_race = (\<lambda>ms w. case checked_add w ms of
         Some w' \<Rightarrow> (w', Some (Ok ())) | None \<Rightarrow> (w, Some (err IoError ''CLOCK_BOOTTIME timer operation failed''))),
      ep_new_uuid = finish (Ok (UuidV4 ''r'')), ep_submit_public = (\<lambda>_ _ _ w. (w, [])),
      ep_get_task = (\<lambda>_ _. finish (Ok sample_child)), ep_cancel_task = (\<lambda>_ _ _. finish (Ok sample_child)),
      ep_set_state = (\<lambda>_ _. finish (Ok ()))\<rparr>"

definition sample_json :: "(unit, unit) json_codec" where
  "sample_json =
     \<lparr>jc_call = (\<lambda>_. Some ()), jc_observe = (), jc_interact = (\<lambda>_. Some ()), jc_request = (\<lambda>_ _. Some []),
      jc_response = (\<lambda>_. Some (ResponseSuccess (UuidV4 ''r'') ())), jc_accepted = (\<lambda>_. Some (UuidV4 ''t'')),
      jc_observation = (\<lambda>_. None), jc_command = (\<lambda>_. None), jc_result = (\<lambda>_. None), jc_null = ()\<rparr>"

lemma sample_steady: "steady sample_port unat (\<lambda>_. False)"
  by (auto simp: steady_def sample_port_def later_def finish_def unat_checked_add split: option.splits prod.splits)


end
