(* ===== verification/Execution_Claims.thy ===== *)
theory Execution_Claims
  imports Runtime_State
begin

text \<open>
  \<open>LocalExecutionClaims\<close> of \<open>rust/crates/runtime/src/ports.rs\<close>: how a provider's execution and its
  cancellation agree on which of them won. A claim is shared, so the claims are a heap and a handle is
  an index into it; every critical section of the code is one operation, and threads interleave
  between them. A lock is never poisoned here: no critical section of the code panics.
\<close>

section \<open>Claims\<close>

record claim_state =
  cs_cancel_requested :: bool
  cs_publication_committed :: bool
  cs_finished :: bool
  cs_cleanup_verified :: bool

record claim_inner =
  ci_state :: claim_state
  ci_cleanup_unverified :: bool

record claims =
  cl_heap :: "claim_inner list"
  cl_entries :: "string \<Rightarrow> nat option"

definition claim_inner_new :: claim_inner where
  "claim_inner_new =
     \<lparr>ci_state = \<lparr>cs_cancel_requested = False, cs_publication_committed = False, cs_finished = False,
        cs_cleanup_verified = False\<rparr>, ci_cleanup_unverified = False\<rparr>"

definition claims_default :: claims where
  "claims_default = \<lparr>cl_heap = [], cl_entries = (\<lambda>_. None)\<rparr>"

definition update_claim :: "nat \<Rightarrow> (claim_inner \<Rightarrow> claim_inner) \<Rightarrow> claims \<Rightarrow> claims" where
  "update_claim c f s = s\<lparr>cl_heap := (cl_heap s)[c := f (cl_heap s ! c)]\<rparr>"

definition update_claim_state :: "nat \<Rightarrow> (claim_state \<Rightarrow> claim_state) \<Rightarrow> claims \<Rightarrow> claims" where
  "update_claim_state c f = update_claim c (\<lambda>i. i\<lparr>ci_state := f (ci_state i)\<rparr>)"

definition claim_state_of :: "claims \<Rightarrow> nat \<Rightarrow> claim_state" where
  "claim_state_of s c = ci_state (cl_heap s ! c)"

text \<open>\<open>LocalExecutionClaims::claim\<close>; the new claim's handle is its place in the heap.\<close>

definition claim_execution :: "uuid \<Rightarrow> claims \<Rightarrow> claims \<times> nat res" where
  "claim_execution execution_id s =
     (case cl_entries s (as_str execution_id) of
        Some _ \<Rightarrow> (s, err_invalid ''execution identity is already claimed'')
      | None \<Rightarrow> (s\<lparr>cl_heap := cl_heap s @ [claim_inner_new],
                   cl_entries := (cl_entries s)(as_str execution_id \<mapsto> length (cl_heap s))\<rparr>,
                 Ok (length (cl_heap s))))"

text \<open>The critical sections of \<open>cancel\<close>; its loop waits until the claim has finished.\<close>

definition cancel_lookup :: "uuid \<Rightarrow> claims \<Rightarrow> nat option" where
  "cancel_lookup execution_id s = cl_entries s (as_str execution_id)"

definition cancel_request :: "nat \<Rightarrow> claims \<Rightarrow> claims \<times> bool" where
  "cancel_request c s =
     (let completion_won = cs_publication_committed (claim_state_of s c)
      in (if completion_won then s else update_claim_state c (\<lambda>t. t\<lparr>cs_cancel_requested := True\<rparr>) s,
          completion_won))"

definition cancel_ready :: "nat \<Rightarrow> claims \<Rightarrow> bool" where
  "cancel_ready c s \<longleftrightarrow> cs_finished (claim_state_of s c)"

definition cancel_answer :: "nat \<Rightarrow> bool \<Rightarrow> claims \<Rightarrow> execution_cancel_outcome" where
  "cancel_answer c completion_won s =
     (let cleanup_verified = cs_cleanup_verified (claim_state_of s c)
      in if completion_won then CancelCompletionWon else CancelCancelled cleanup_verified)"

definition request_cancel :: "uuid \<Rightarrow> claims \<Rightarrow> claims \<times> bool" where
  "request_cancel execution_id s =
     (case cl_entries s (as_str execution_id) of
        None \<Rightarrow> (s, False)
      | Some c \<Rightarrow>
          if cs_publication_committed (claim_state_of s c) then (s, False)
          else (update_claim_state c (\<lambda>t. t\<lparr>cs_cancel_requested := True\<rparr>) s, True))"

definition claim_contains :: "uuid \<Rightarrow> claims \<Rightarrow> bool" where
  "claim_contains execution_id s \<longleftrightarrow> cl_entries s (as_str execution_id) \<noteq> None"

definition claim_cancel_requested :: "uuid \<Rightarrow> claims \<Rightarrow> bool" where
  "claim_cancel_requested execution_id s =
     (case cl_entries s (as_str execution_id) of
        None \<Rightarrow> False | Some c \<Rightarrow> cs_cancel_requested (claim_state_of s c))"

section \<open>The owner of a claim\<close>

definition claim_cancelled_error :: domain_error where
  "claim_cancelled_error = domain_error_new Cancelled ''execution was cancelled''"

definition claim_checkpoint :: "nat \<Rightarrow> claims \<Rightarrow> unit res" where
  "claim_checkpoint c s =
     (if cs_cancel_requested (claim_state_of s c) then Err claim_cancelled_error else Ok ())"

text \<open>\<open>publication\<close> is what the publication under the lock answers.\<close>

definition claim_publish :: "nat \<Rightarrow> 'a res \<Rightarrow> claims \<Rightarrow> claims \<times> 'a res" where
  "claim_publish c publication s =
     (if cs_cancel_requested (claim_state_of s c) then (s, Err claim_cancelled_error)
      else case publication of
             Err e \<Rightarrow> (s, Err e)
           | Ok x \<Rightarrow> (update_claim_state c (\<lambda>t. t\<lparr>cs_publication_committed := True\<rparr>) s, Ok x))"

definition cleanup_is_verified :: "nat \<Rightarrow> claims \<Rightarrow> bool" where
  "cleanup_is_verified c s \<longleftrightarrow> \<not> ci_cleanup_unverified (cl_heap s ! c)"

definition claim_finish :: "nat \<Rightarrow> bool \<Rightarrow> claims \<Rightarrow> claims" where
  "claim_finish c cleanup_verified s =
     update_claim_state c (\<lambda>t. t\<lparr>cs_cleanup_verified := cleanup_verified \<and> cleanup_is_verified c s,
       cs_finished := True\<rparr>) s"

definition mark_cleanup_unverified :: "nat \<Rightarrow> claims \<Rightarrow> claims" where
  "mark_cleanup_unverified c = update_claim c (\<lambda>i. i\<lparr>ci_cleanup_unverified := True\<rparr>)"

text \<open>\<open>LocalExecutionClaims::finish\<close> ends the claim and then, in a section of its own, forgets it.\<close>

definition claim_release :: "uuid \<Rightarrow> claims \<Rightarrow> claims" where
  "claim_release execution_id s = s\<lparr>cl_entries := (cl_entries s)(as_str execution_id := None)\<rparr>"

definition claims_finish :: "uuid \<Rightarrow> nat \<Rightarrow> bool \<Rightarrow> claims \<Rightarrow> claims" where
  "claims_finish execution_id c cleanup_verified s = claim_release execution_id (claim_finish c cleanup_verified s)"

section \<open>Threads\<close>

text \<open>
  How far a \<open>cancel\<close> has come. The system is the claims and the cancels under way; any thread may take
  the next step, and any execution may act on its claim in any order.
\<close>

datatype cancel_progress =
  CancelStarted uuid
| CancelFound nat
| CancelWaiting nat bool
| CancelReady nat bool
| CancelAnswered "nat option" execution_cancel_outcome

record claim_system =
  sy_claims :: claims
  sy_cancels :: "cancel_progress list"

inductive claims_step :: "claim_system \<Rightarrow> claim_system \<Rightarrow> bool" where
  step_claim: "claims_step s (s\<lparr>sy_claims := fst (claim_execution i (sy_claims s))\<rparr>)"
| step_publish: "c < length (cl_heap (sy_claims s)) \<Longrightarrow>
    claims_step s (s\<lparr>sy_claims := fst (claim_publish c (r :: unit res) (sy_claims s))\<rparr>)"
| step_finish: "c < length (cl_heap (sy_claims s)) \<Longrightarrow>
    claims_step s (s\<lparr>sy_claims := claim_finish c verified (sy_claims s)\<rparr>)"
| step_mark: "c < length (cl_heap (sy_claims s)) \<Longrightarrow>
    claims_step s (s\<lparr>sy_claims := mark_cleanup_unverified c (sy_claims s)\<rparr>)"
| step_release: "claims_step s (s\<lparr>sy_claims := claim_release i (sy_claims s)\<rparr>)"
| step_request: "claims_step s (s\<lparr>sy_claims := fst (request_cancel i (sy_claims s))\<rparr>)"
| step_cancel: "claims_step s (s\<lparr>sy_cancels := sy_cancels s @ [CancelStarted i]\<rparr>)"
| step_lookup: "n < length (sy_cancels s) \<Longrightarrow> sy_cancels s ! n = CancelStarted i \<Longrightarrow>
    claims_step s (s\<lparr>sy_cancels := (sy_cancels s)[n := (case cancel_lookup i (sy_claims s) of
        None \<Rightarrow> CancelAnswered None CancelCompletionWon | Some c \<Rightarrow> CancelFound c)]\<rparr>)"
| step_ask: "n < length (sy_cancels s) \<Longrightarrow> sy_cancels s ! n = CancelFound c \<Longrightarrow>
    cancel_request c (sy_claims s) = (t, won) \<Longrightarrow>
    claims_step s (s\<lparr>sy_claims := t, sy_cancels := (sy_cancels s)[n := CancelWaiting c won]\<rparr>)"
| step_ready: "n < length (sy_cancels s) \<Longrightarrow> sy_cancels s ! n = CancelWaiting c won \<Longrightarrow>
    cancel_ready c (sy_claims s) \<Longrightarrow>
    claims_step s (s\<lparr>sy_cancels := (sy_cancels s)[n := CancelReady c won]\<rparr>)"
| step_answer: "n < length (sy_cancels s) \<Longrightarrow> sy_cancels s ! n = CancelReady c won \<Longrightarrow>
    claims_step s (s\<lparr>sy_cancels := (sy_cancels s)
      [n := CancelAnswered (Some c) (cancel_answer c won (sy_claims s))]\<rparr>)"

inductive claims_reachable :: "claim_system \<Rightarrow> bool" where
  claims_initial: "claims_reachable \<lparr>sy_claims = claims_default, sy_cancels = []\<rparr>"
| claims_next: "claims_reachable s \<Longrightarrow> claims_step s s' \<Longrightarrow> claims_reachable s'"

section \<open>The agreement\<close>

text \<open>What a cancel knows of its claim, and that a claim is never both published and cancelled.\<close>

fun progress_ok :: "claims \<Rightarrow> cancel_progress \<Rightarrow> bool" where
  "progress_ok s (CancelStarted i) = True"
| "progress_ok s (CancelFound c) = (c < length (cl_heap s))"
| "progress_ok s (CancelWaiting c won) = (c < length (cl_heap s)
     \<and> (if won then cs_publication_committed (claim_state_of s c) else cs_cancel_requested (claim_state_of s c)))"
| "progress_ok s (CancelReady c won) = (c < length (cl_heap s) \<and> cs_finished (claim_state_of s c)
     \<and> (if won then cs_publication_committed (claim_state_of s c) else cs_cancel_requested (claim_state_of s c)))"
| "progress_ok s (CancelAnswered None outcome) = (outcome = CancelCompletionWon)"
| "progress_ok s (CancelAnswered (Some c) outcome) = (c < length (cl_heap s) \<and> cs_finished (claim_state_of s c)
     \<and> (case outcome of CancelCompletionWon \<Rightarrow> cs_publication_committed (claim_state_of s c)
        | CancelCancelled _ \<Rightarrow> cs_cancel_requested (claim_state_of s c)))"

definition claims_invar :: "claim_system \<Rightarrow> bool" where
  "claims_invar s \<longleftrightarrow>
     list_all (\<lambda>i. \<not> (cs_cancel_requested (ci_state i) \<and> cs_publication_committed (ci_state i))) (cl_heap (sy_claims s))
     \<and> (\<forall>i c. cl_entries (sy_claims s) i = Some c \<longrightarrow> c < length (cl_heap (sy_claims s)))
     \<and> list_all (progress_ok (sy_claims s)) (sy_cancels s)"

text \<open>A claim only grows: its flags stay, but for the verification a later \<open>finish\<close> reports again.\<close>

definition grows :: "claims \<Rightarrow> claims \<Rightarrow> bool" where
  "grows s t \<longleftrightarrow> length (cl_heap s) \<le> length (cl_heap t)
     \<and> (\<forall>c < length (cl_heap s).
          (cs_cancel_requested (claim_state_of s c) \<longrightarrow> cs_cancel_requested (claim_state_of t c))
        \<and> (cs_publication_committed (claim_state_of s c) \<longrightarrow> cs_publication_committed (claim_state_of t c))
        \<and> (cs_finished (claim_state_of s c) \<longrightarrow> cs_finished (claim_state_of t c)))"

lemma grows_refl [simp]: "grows s s"
  by (simp add: grows_def)

lemma grows_trans: "grows s t \<Longrightarrow> grows t u \<Longrightarrow> grows s u"
  by (auto simp: grows_def)

lemma progress_ok_grows: "progress_ok s p \<Longrightarrow> grows s t \<Longrightarrow> progress_ok t p"
  by (cases "(s, p)" rule: progress_ok.cases)
    (auto simp: grows_def split: if_splits execution_cancel_outcome.splits)

lemma claim_state_update:
  "claim_state_of (update_claim_state c f s) d =
     (if d = c \<and> c < length (cl_heap s) then f (claim_state_of s c) else claim_state_of s d)"
  by (auto simp: claim_state_of_def update_claim_state_def update_claim_def nth_list_update not_less list_update_beyond)

lemma update_claim_state_frame [simp]:
  "length (cl_heap (update_claim_state c f s)) = length (cl_heap s)"
  "cl_entries (update_claim_state c f s) = cl_entries s"
  by (simp_all add: update_claim_state_def update_claim_def)

text \<open>What every operation on the claims keeps.\<close>

definition exclusive :: "claims \<Rightarrow> bool" where
  "exclusive s \<longleftrightarrow> (\<forall>c < length (cl_heap s).
       \<not> (cs_cancel_requested (claim_state_of s c) \<and> cs_publication_committed (claim_state_of s c)))
     \<and> (\<forall>i c. cl_entries s i = Some c \<longrightarrow> c < length (cl_heap s))"

lemma claims_invar_iff: "claims_invar s \<longleftrightarrow>
    exclusive (sy_claims s) \<and> list_all (progress_ok (sy_claims s)) (sy_cancels s)"
  by (auto simp: claims_invar_def exclusive_def list_all_length claim_state_of_def)

definition keeps_claims :: "claims \<Rightarrow> claims \<Rightarrow> bool" where
  "keeps_claims s t \<longleftrightarrow> (exclusive s \<longrightarrow> exclusive t) \<and> grows s t"

lemma keeps_claims_simps:
  "keeps_claims s s"
  "keeps_claims s (fst (claim_execution i s))"
  "c < length (cl_heap s) \<Longrightarrow> keeps_claims s (fst (claim_publish c r s))"
  "c < length (cl_heap s) \<Longrightarrow> keeps_claims s (claim_finish c verified s)"
  "keeps_claims s (mark_cleanup_unverified c s)"
  "keeps_claims s (claim_release i s)"
  "keeps_claims s (fst (cancel_request c s))"
proof -
  show "keeps_claims s s" by (simp add: keeps_claims_def)
  show "keeps_claims s (fst (claim_execution i s))"
    by (auto simp: keeps_claims_def exclusive_def grows_def claim_execution_def claim_state_of_def claim_inner_new_def
        nth_append less_Suc_eq split: option.splits)
  show "keeps_claims s (fst (claim_publish c r s))" if "c < length (cl_heap s)"
    using that by (auto simp: keeps_claims_def exclusive_def grows_def claim_publish_def claim_state_update
        split: sum.splits)
  show "keeps_claims s (claim_finish c verified s)" if "c < length (cl_heap s)"
    by (auto simp: keeps_claims_def exclusive_def grows_def claim_finish_def claim_state_update)
  have "claim_state_of (mark_cleanup_unverified c s) d = claim_state_of s d" for d
    by (cases "c < length (cl_heap s)")
      (simp_all add: mark_cleanup_unverified_def update_claim_def claim_state_of_def nth_list_update not_less list_update_beyond)
  moreover have "length (cl_heap (mark_cleanup_unverified c s)) = length (cl_heap s)"
    "cl_entries (mark_cleanup_unverified c s) = cl_entries s"
    by (simp_all add: mark_cleanup_unverified_def update_claim_def)
  ultimately show "keeps_claims s (mark_cleanup_unverified c s)"
    by (simp add: keeps_claims_def exclusive_def grows_def)
  show "keeps_claims s (claim_release i s)"
    by (simp add: keeps_claims_def exclusive_def grows_def claim_release_def claim_state_of_def)
  show "keeps_claims s (fst (cancel_request c s))"
    by (auto simp: keeps_claims_def exclusive_def grows_def cancel_request_def claim_state_update Let_def)
qed

lemma request_cancel_eq: "fst (request_cancel i s) =
    (case cl_entries s (as_str i) of None \<Rightarrow> s | Some c \<Rightarrow> fst (cancel_request c s))"
  by (simp add: request_cancel_def cancel_request_def Let_def split: option.split)

lemma keeps_request_cancel: "keeps_claims s (fst (request_cancel i s))"
  by (simp add: request_cancel_eq keeps_claims_simps split: option.split)

lemma invar_claims:
  assumes "claims_invar s" "keeps_claims (sy_claims s) t"
  shows "claims_invar (s\<lparr>sy_claims := t\<rparr>)"
  using assms progress_ok_grows by (auto simp: claims_invar_iff keeps_claims_def list_all_iff)

lemma invar_cancel:
  assumes "claims_invar s" "progress_ok (sy_claims s) p"
  shows "claims_invar (s\<lparr>sy_cancels := (sy_cancels s)[n := p]\<rparr>)"
  using assms set_update_subset_insert[of "sy_cancels s" n p] by (auto simp: claims_invar_iff list_all_iff)

lemma claims_step_invar: "claims_step s s' \<Longrightarrow> claims_invar s \<Longrightarrow> claims_invar s'"
proof (induction rule: claims_step.induct)
  case (step_lookup n s i)
  then show ?case
    by (intro invar_cancel) (auto simp: claims_invar_iff exclusive_def cancel_lookup_def split: option.splits)
next
  case (step_ask n s c t won)
  have c: "c < length (cl_heap (sy_claims s))"
    using step_ask by (auto simp: claims_invar_iff list_all_length)
  have t: "claims_invar (s\<lparr>sy_claims := t\<rparr>)"
    using invar_claims[OF step_ask(4)] keeps_claims_simps(7)[of "sy_claims s" c] step_ask(3) by simp
  have "progress_ok t (CancelWaiting c won)"
    using step_ask(3) c by (auto simp: cancel_request_def Let_def claim_state_update split: if_splits)
  with invar_cancel[OF t, of _ n] show ?case by simp
next
  case (step_ready n s c won)
  then have "progress_ok (sy_claims s) (CancelWaiting c won)" unfolding claims_invar_iff list_all_length by metis
  then have "progress_ok (sy_claims s) (CancelReady c won)" using step_ready(3) by (simp add: cancel_ready_def)
  then show ?case by (rule invar_cancel[OF step_ready(4)])
next
  case (step_answer n s c won)
  then have "progress_ok (sy_claims s) (CancelReady c won)" unfolding claims_invar_iff list_all_length by metis
  then have "progress_ok (sy_claims s) (CancelAnswered (Some c) (cancel_answer c won (sy_claims s)))"
    by (auto simp: cancel_answer_def split: if_splits)
  then show ?case by (rule invar_cancel[OF step_answer(3)])
next
  case (step_cancel s i)
  then show ?case by (simp add: claims_invar_iff)
qed (auto intro!: invar_claims keeps_claims_simps keeps_request_cancel)

lemma reachable_claims: "claims_reachable s \<Longrightarrow> claims_invar s"
proof (induction rule: claims_reachable.induct)
  case claims_initial
  show ?case by (simp add: claims_invar_def claims_default_def)
qed (rule claims_step_invar)

section \<open>Properties\<close>


text \<open>A cancel that finds the claim before the execution publishes.\<close>

definition sample_claim_id :: uuid where
  "sample_claim_id = UuidV4 ''e''"

definition sample_claims :: "nat \<Rightarrow> claims" where
  "sample_claims n =
     (let s = fst (claim_execution sample_claim_id claims_default);
          s = (if n > 0 then fst (cancel_request 0 s) else s)
      in if n > 1 then claim_finish 0 True s else s)"

lemma sample_claims_reachable:
  "claims_reachable \<lparr>sy_claims = sample_claims 2, sy_cancels = [CancelAnswered (Some 0) (CancelCancelled True)]\<rparr>"
proof -
  let ?s = "\<lambda>n p. \<lparr>sy_claims = sample_claims n, sy_cancels = p\<rparr>"
  have "claims_reachable (?s 0 [])"
    using claims_next[OF claims_initial step_claim[of _ sample_claim_id]] by (simp add: sample_claims_def)
  from claims_next[OF this step_cancel[of _ sample_claim_id]]
  have "claims_reachable (?s 0 [CancelStarted sample_claim_id])" by simp
  from claims_next[OF this step_lookup[of 0]]
  have "claims_reachable (?s 0 [CancelFound 0])"
    by (simp add: cancel_lookup_def sample_claims_def claim_execution_def claims_default_def)
  from claims_next[OF this step_ask[of 0 _ 0 "sample_claims 1" False]]
  have "claims_reachable (?s 1 [CancelWaiting 0 False])"
    by (simp add: sample_claims_def claim_execution_def claims_default_def cancel_request_def claim_state_of_def
        claim_inner_new_def)
  from claims_next[OF this step_finish[of 0 _ True]]
  have "claims_reachable (?s 2 [CancelWaiting 0 False])"
    by (simp add: sample_claims_def claim_execution_def claims_default_def cancel_request_def claim_state_of_def
        claim_inner_new_def update_claim_state_def update_claim_def)
  from claims_next[OF this step_ready[of 0 _ 0 False]]
  have "claims_reachable (?s 2 [CancelReady 0 False])"
    by (simp add: sample_claims_def claim_execution_def claims_default_def cancel_request_def claim_state_of_def
        claim_inner_new_def update_claim_state_def update_claim_def cancel_ready_def claim_finish_def cleanup_is_verified_def)
  from claims_next[OF this step_answer[of 0 _ 0 False]] show ?thesis
    by (simp add: sample_claims_def claim_execution_def claims_default_def cancel_request_def claim_state_of_def
        claim_inner_new_def update_claim_state_def update_claim_def cancel_answer_def claim_finish_def cleanup_is_verified_def)
qed


end
