(* ===== verification/Disk.thy ===== *)
theory Disk
  imports Artifact
begin

text \<open>
  The part of \<open>std::fs\<close> and \<open>flock\<close> the persistence crate uses, with what a crash may leave behind
  (\<open>rust/crates/persistence/src/locking.rs\<close>, the file helpers of \<open>atomic.rs\<close> and \<open>artifact.rs\<close>).

  A path is the list of its components below the canonical base. A directory entry names a directory
  or an inode; an inode has bytes and says whether they are synced. A change of an entry is visible at
  once and durable only after the directory is synced: until then it waits in \<open>pending\<close>, and a
  crash keeps an arbitrary selection of the waiting changes and replaces the bytes of an unsynced
  inode by arbitrary ones. Every system call may proceed, fail with an error of the system, or be the
  point where the process dies; a write that does not proceed leaves a prefix.
\<close>

section \<open>Entries, inodes and waiting changes\<close>

type_synonym bytes = string
type_synonym path = "string list"

datatype entry = DirEntry | FileEntry nat

text \<open>A rename of a file carries the inode it renames, one of a directory moves the whole tree.\<close>

datatype change =
  SetEntry path entry
| DropEntry path
| MoveFile path path nat
| MoveTree path path
| DropTree path

type_synonym entries = "(path \<times> entry) list"

definition beneath :: "path \<Rightarrow> path \<Rightarrow> bool" where
  "beneath root p \<longleftrightarrow> take (length root) p = root"

definition drop_entry :: "path \<Rightarrow> entries \<Rightarrow> entries" where
  "drop_entry p es = filter (\<lambda>x. fst x \<noteq> p) es"

definition set_entry :: "path \<Rightarrow> entry \<Rightarrow> entries \<Rightarrow> entries" where
  "set_entry p e es = (p, e) # drop_entry p es"

fun apply_change :: "change \<Rightarrow> entries \<Rightarrow> entries" where
  "apply_change (SetEntry p e) es = set_entry p e es"
| "apply_change (DropEntry p) es = drop_entry p es"
| "apply_change (MoveFile source target i) es = set_entry target (FileEntry i) (drop_entry source es)"
| "apply_change (MoveTree source target) es =
     map (\<lambda>x. (if beneath source (fst x) then target @ drop (length source) (fst x) else fst x, snd x))
       (filter (\<lambda>x. \<not> beneath target (fst x)) es)"
| "apply_change (DropTree root) es = filter (\<lambda>x. \<not> beneath root (fst x)) es"

text \<open>The directories whose sync makes a change durable.\<close>

fun change_dirs :: "change \<Rightarrow> path list" where
  "change_dirs (SetEntry p e) = [butlast p]"
| "change_dirs (DropEntry p) = [butlast p]"
| "change_dirs (MoveFile source target i) = [butlast source, butlast target]"
| "change_dirs (MoveTree source target) = [butlast source, butlast target]"
| "change_dirs (DropTree root) = [butlast root]"

record disk =
  names :: entries
  durable :: entries
  pending :: "change list"
  inode_bytes :: "nat \<Rightarrow> bytes"
  inode_synced :: "nat \<Rightarrow> bool"
  next_inode :: nat

definition change_names :: "change \<Rightarrow> disk \<Rightarrow> disk" where
  "change_names c d = d\<lparr>names := apply_change c (names d), pending := pending d @ [c]\<rparr>"

definition entry_at :: "disk \<Rightarrow> path \<Rightarrow> entry option" where
  "entry_at d p = map_of (names d) p"

definition content :: "disk \<Rightarrow> path \<Rightarrow> bytes option" where
  "content d p = (case entry_at d p of Some (FileEntry i) \<Rightarrow> Some (inode_bytes d i) | _ \<Rightarrow> None)"

definition sync_dir :: "path \<Rightarrow> disk \<Rightarrow> disk" where
  "sync_dir dir d = d\<lparr>
     durable := fold apply_change (filter (\<lambda>c. dir \<in> set (change_dirs c)) (pending d)) (durable d),
     pending := filter (\<lambda>c. dir \<notin> set (change_dirs c)) (pending d)\<rparr>"

text \<open>\<open>kept\<close> says which of the waiting changes reached the disk, \<open>torn\<close> what unsynced inodes hold.\<close>

definition crash :: "bool list \<Rightarrow> (nat \<Rightarrow> bytes) \<Rightarrow> disk \<Rightarrow> disk" where
  "crash kept torn d =
     (let survived = map fst (filter snd (zip (pending d) kept));
          es = fold apply_change survived (durable d)
      in d\<lparr>names := es, durable := es, pending := [],
           inode_bytes := (\<lambda>i. if inode_synced d i then inode_bytes d i else torn i),
           inode_synced := (\<lambda>_. True)\<rparr>)"

section \<open>System calls\<close>

type_synonym os_error = "i32 option"

abbreviation ENOENT :: os_error where "ENOENT \<equiv> Some 2"
abbreviation EEXIST :: os_error where "EEXIST \<equiv> Some 17"
abbreviation EISDIR :: os_error where "EISDIR \<equiv> Some 21"

datatype fate = Proceed | Fail os_error nat | Die nat

datatype ('e, 'a) outcome = Returned "('e, 'a) result" | Died

text \<open>
  \<open>fates\<close> decides every system call by its number. \<open>others\<close> is what the holders of a lock do to the
  disk while this process waits for its \<open>n\<close>th lock, and \<open>held_elsewhere\<close> which locks they still hold.
\<close>

record world =
  disk_of :: disk
  fates :: "nat \<Rightarrow> fate"
  calls :: nat
  others :: "nat \<Rightarrow> disk \<Rightarrow> disk"
  grants :: nat
  held_elsewhere :: "path \<Rightarrow> bool"

type_synonym ('e, 'a) io = "world \<Rightarrow> ('e, 'a) outcome \<times> world"

definition io_return :: "'a \<Rightarrow> ('e, 'a) io" where
  "io_return x w = (Returned (Ok x), w)"

definition io_fail :: "'e \<Rightarrow> ('e, 'a) io" where
  "io_fail e w = (Returned (Err e), w)"

definition io_of :: "('e, 'a) result \<Rightarrow> ('e, 'a) io" where
  "io_of r w = (Returned r, w)"

text \<open>\<open>io_match m f\<close> is \<open>f(m)\<close>, a match on the result; \<open>io_bind m f\<close> is \<open>let x = m?; f(x)\<close>.\<close>

definition io_match :: "('e, 'a) io \<Rightarrow> (('e, 'a) result \<Rightarrow> ('f, 'b) io) \<Rightarrow> ('f, 'b) io" where
  "io_match m f w = (case m w of (Returned r, w') \<Rightarrow> f r w' | (Died, w') \<Rightarrow> (Died, w'))"

definition io_bind :: "('e, 'a) io \<Rightarrow> ('a \<Rightarrow> ('e, 'b) io) \<Rightarrow> ('e, 'b) io" where
  "io_bind m f = io_match m (\<lambda>r. case r of Inl e \<Rightarrow> io_fail e | Inr x \<Rightarrow> f x)"

definition io_map_err :: "('e \<Rightarrow> 'f) \<Rightarrow> ('e, 'a) io \<Rightarrow> ('f, 'a) io" where
  "io_map_err g m = io_match m (\<lambda>r. io_of (map_err g r))"

text \<open>One system call: \<open>act\<close> when it proceeds, \<open>part n\<close> when it does not.\<close>

definition attempt ::
  "(disk \<Rightarrow> (os_error, 'a) result \<times> disk) \<Rightarrow> (nat \<Rightarrow> disk \<Rightarrow> disk) \<Rightarrow> (os_error, 'a) io" where
  "attempt act part w =
     (let w' = w\<lparr>calls := Suc (calls w)\<rparr>
      in case fates w (calls w) of
           Proceed \<Rightarrow> (case act (disk_of w) of (r, d) \<Rightarrow> (Returned r, w'\<lparr>disk_of := d\<rparr>))
         | Fail e n \<Rightarrow> (Returned (Err e), w'\<lparr>disk_of := part n (disk_of w)\<rparr>)
         | Die n \<Rightarrow> (Died, w'\<lparr>disk_of := part n (disk_of w)\<rparr>))"

definition untouched :: "nat \<Rightarrow> disk \<Rightarrow> disk" where
  "untouched n d = d"

text \<open>\<open>fs::read\<close>, \<open>Path::exists\<close> (false on any error), \<open>Path::is_file\<close>, \<open>fs::remove_file\<close>\<close>

definition fs_read :: "path \<Rightarrow> (os_error, bytes) io" where
  "fs_read p = attempt (\<lambda>d. (case entry_at d p of
      None \<Rightarrow> Err ENOENT | Some DirEntry \<Rightarrow> Err EISDIR | Some (FileEntry i) \<Rightarrow> Ok (inode_bytes d i), d))
      untouched"

definition fs_exists :: "path \<Rightarrow> ('e, bool) io" where
  "fs_exists p = io_match (attempt (\<lambda>d. (Ok (entry_at d p \<noteq> None), d)) untouched)
     (\<lambda>r. io_return (r = Ok True))"

definition fs_is_file :: "path \<Rightarrow> ('e, bool) io" where
  "fs_is_file p = io_match
     (attempt (\<lambda>d. (Ok (case entry_at d p of Some (FileEntry i) \<Rightarrow> True | _ \<Rightarrow> False), d)) untouched)
     (\<lambda>r. io_return (r = Ok True))"

definition fs_remove_file :: "path \<Rightarrow> (os_error, unit) io" where
  "fs_remove_file p = attempt (\<lambda>d. case entry_at d p of
      None \<Rightarrow> (Err ENOENT, d)
    | Some DirEntry \<Rightarrow> (Err EISDIR, d)
    | Some (FileEntry i) \<Rightarrow> (Ok (), change_names (DropEntry p) d)) untouched"

text \<open>\<open>OpenOptions::create_new\<close>: a new inode, already visible and empty.\<close>

definition new_file :: "path \<Rightarrow> disk \<Rightarrow> disk" where
  "new_file p d =
     (change_names (SetEntry p (FileEntry (next_inode d))) d)
       \<lparr>inode_bytes := (inode_bytes d)(next_inode d := []),
        inode_synced := (inode_synced d)(next_inode d := False), next_inode := Suc (next_inode d)\<rparr>"

definition fs_create_new :: "path \<Rightarrow> (os_error, nat) io" where
  "fs_create_new p = attempt (\<lambda>d.
      if entry_at d p \<noteq> None then (Err EEXIST, d)
      else if butlast p \<noteq> [] \<and> entry_at d (butlast p) \<noteq> Some DirEntry then (Err ENOENT, d)
      else (Ok (next_inode d), new_file p d)) untouched"

definition write_inode :: "nat \<Rightarrow> bytes \<Rightarrow> disk \<Rightarrow> disk" where
  "write_inode i b d = d\<lparr>inode_bytes := (inode_bytes d)(i := inode_bytes d i @ b),
     inode_synced := (inode_synced d)(i := False)\<rparr>"

definition fs_write_all :: "nat \<Rightarrow> bytes \<Rightarrow> (os_error, unit) io" where
  "fs_write_all i b = attempt (\<lambda>d. (Ok (), write_inode i b d)) (\<lambda>n. write_inode i (take n b))"

definition fs_sync_file :: "nat \<Rightarrow> (os_error, unit) io" where
  "fs_sync_file i =
     attempt (\<lambda>d. (Ok (), d\<lparr>inode_synced := (inode_synced d)(i := True)\<rparr>)) untouched"

definition fs_rename :: "path \<Rightarrow> path \<Rightarrow> (os_error, unit) io" where
  "fs_rename source target = attempt (\<lambda>d. case entry_at d source of
      None \<Rightarrow> (Err ENOENT, d)
    | Some (FileEntry i) \<Rightarrow>
        if entry_at d target = Some DirEntry then (Err EISDIR, d)
        else (Ok (), change_names (MoveFile source target i) d)
    | Some DirEntry \<Rightarrow>
        if entry_at d target \<noteq> None then (Err EEXIST, d)
        else (Ok (), change_names (MoveTree source target) d)) untouched"

text \<open>\<open>renameat2\<close> with \<open>RENAME_NOREPLACE\<close>\<close>

definition fs_rename_noreplace :: "path \<Rightarrow> path \<Rightarrow> (os_error, unit) io" where
  "fs_rename_noreplace source target = attempt (\<lambda>d. case entry_at d source of
      Some (FileEntry i) \<Rightarrow>
        if entry_at d target \<noteq> None then (Err EEXIST, d)
        else (Ok (), change_names (MoveFile source target i) d)
    | Some DirEntry \<Rightarrow>
        if entry_at d target \<noteq> None then (Err EEXIST, d)
        else (Ok (), change_names (MoveTree source target) d)
    | None \<Rightarrow> (Err ENOENT, d)) untouched"

definition fs_create_dir :: "path \<Rightarrow> (os_error, unit) io" where
  "fs_create_dir p = attempt (\<lambda>d.
      if entry_at d p \<noteq> None then (Err EEXIST, d)
      else if butlast p \<noteq> [] \<and> entry_at d (butlast p) \<noteq> Some DirEntry then (Err ENOENT, d)
      else (Ok (), change_names (SetEntry p DirEntry) d)) untouched"

definition fs_remove_dir_all :: "path \<Rightarrow> (os_error, unit) io" where
  "fs_remove_dir_all p = attempt (\<lambda>d.
      if entry_at d p = None then (Err ENOENT, d) else (Ok (), change_names (DropTree p) d)) untouched"

definition fs_read_dir :: "path \<Rightarrow> (os_error, entries) io" where
  "fs_read_dir p = attempt (\<lambda>d.
      (if p \<noteq> [] \<and> entry_at d p = None then Err ENOENT
       else Ok (filter (\<lambda>x. fst x \<noteq> [] \<and> butlast (fst x) = p) (names d)), d)) untouched"

definition fs_sync_dir :: "path \<Rightarrow> (os_error, unit) io" where
  "fs_sync_dir p = attempt (\<lambda>d. (Ok (), sync_dir p d)) untouched"

end
