(* ===== verification/Store_Files.thy ===== *)
theory Store_Files
  imports Disk Stored_Restore
begin

text \<open>
  The files of the canonical base and the operations of \<open>StateStore\<close> on them
  (\<open>rust/crates/persistence/src/atomic.rs\<close>, \<open>model.rs\<close>, \<open>locking.rs\<close>, the reset of \<open>recovery.rs\<close>): the
  owner and live identities, the two locks, the commit of the canonical state, the reset with its
  recorded intent, and the repair of a store whose executions were left behind.
\<close>

section \<open>File helpers\<close>

definition io_error :: "os_error \<Rightarrow> domain_error" where
  "io_error e = domain_error_os True IoError ''persistence I/O failed'' e"

definition sync_directory :: "path \<Rightarrow> (domain_error, unit) io" where
  "sync_directory p = io_map_err io_error (fs_sync_dir p)"

definition open_new_private :: "path \<Rightarrow> (domain_error, nat) io" where
  "open_new_private p = io_map_err io_error (fs_create_new p)"

definition replace_file :: "path \<Rightarrow> path \<Rightarrow> (domain_error, unit) io" where
  "replace_file source target = io_map_err io_error (fs_rename source target)"

definition exclusive_error :: "os_error \<Rightarrow> domain_error" where
  "exclusive_error e =
     (if e = EEXIST then domain_error_new AlreadyExists ''exclusive commit destination already exists''
      else io_error e)"

definition replace_file_exclusive :: "path \<Rightarrow> path \<Rightarrow> (domain_error, unit) io" where
  "replace_file_exclusive source target =
     io_map_err exclusive_error (fs_rename_noreplace source target)"

text \<open>
  A file is opened for a lock, created when it is missing, and locked: \<open>FileLock::acquire\<close> waits,
  \<open>try_acquire\<close> gives up. While it waits, whoever holds the lock works on the disk.
\<close>

definition fs_open_create :: "path \<Rightarrow> (os_error, nat) io" where
  "fs_open_create p = attempt (\<lambda>d. case entry_at d p of
      Some (FileEntry i) \<Rightarrow> (Ok i, d)
    | Some DirEntry \<Rightarrow> (Err EISDIR, d)
    | None \<Rightarrow> (Ok (next_inode d), new_file p d)) untouched"

definition lock_granted :: "'a \<Rightarrow> ('e, 'a) io" where
  "lock_granted x w =
     (Returned (Ok x), w\<lparr>disk_of := others w (grants w) (disk_of w), grants := Suc (grants w)\<rparr>)"

definition lock_acquire :: "path \<Rightarrow> (domain_error, nat) io" where
  "lock_acquire p =
     io_map_err io_error (io_bind (fs_open_create p) (\<lambda>i.
       io_bind (attempt (\<lambda>d. (Ok (), d)) untouched) (\<lambda>_. lock_granted i)))"

definition lock_try_acquire :: "path \<Rightarrow> (domain_error, nat option) io" where
  "lock_try_acquire p =
     io_map_err io_error (io_bind (fs_open_create p) (\<lambda>i.
       io_bind (attempt (\<lambda>d. (Ok (), d)) untouched) (\<lambda>_ w.
         if held_elsewhere w p then io_return None w else lock_granted (Some i) w)))"

definition lock_sync :: "nat \<Rightarrow> (domain_error, unit) io" where
  "lock_sync i = io_map_err io_error (fs_sync_file i)"

definition open_lock_file :: "path \<Rightarrow> (domain_error, unit) io" where
  "open_lock_file p = io_map_err io_error (io_bind (fs_open_create p) fs_sync_file)"

text \<open>A codec is what \<open>serde_json::to_vec\<close> and \<open>serde_json::from_slice\<close> are at one type.\<close>

record 'v file_codec =
  fc_encode :: "'v \<Rightarrow> bytes option"
  fc_decode :: "bytes \<Rightarrow> 'v option"

definition read_json :: "'v file_codec \<Rightarrow> path \<Rightarrow> (domain_error, 'v) io" where
  "read_json c p = io_bind (io_map_err io_error (fs_read p)) (\<lambda>b.
     io_of (ok_or (fc_decode c b) (domain_error_new IoError ''canonical JSON is corrupt'')))"

definition write_synced :: "nat \<Rightarrow> bytes \<Rightarrow> (domain_error, unit) io" where
  "write_synced i b = io_bind (io_map_err io_error (fs_write_all i b)) (\<lambda>_.
     io_map_err io_error (fs_sync_file i))"

definition write_new_json :: "'v file_codec \<Rightarrow> path \<Rightarrow> 'v \<Rightarrow> (domain_error, unit) io" where
  "write_new_json c p v =
     io_bind (io_of (ok_or (fc_encode c v) (domain_error_new InternalError ''JSON serialization failed''))) (\<lambda>b.
     io_bind (open_new_private p) (\<lambda>i. write_synced i b))"

definition temporary_name :: "string \<Rightarrow> string" where
  "temporary_name name = ''.'' @ name @ ''.tmp''"

definition atomic_replace_json ::
  "'v file_codec \<Rightarrow> path \<Rightarrow> string \<Rightarrow> 'v \<Rightarrow> (domain_error, unit) io" where
  "atomic_replace_json c dir name v =
     io_bind (io_of (ok_or (fc_encode c v) (domain_error_new InternalError ''JSON serialization failed''))) (\<lambda>b.
     let temporary = dir @ [temporary_name name]
     in io_bind (fs_exists temporary) (\<lambda>present.
        io_bind (if present
                 then io_bind (io_map_err io_error (fs_remove_file temporary)) (\<lambda>_. sync_directory dir)
                 else io_return ()) (\<lambda>_.
        io_bind (open_new_private temporary) (\<lambda>i.
        io_bind (write_synced i b) (\<lambda>_.
        io_bind (replace_file temporary (dir @ [name])) (\<lambda>_.
        sync_directory dir))))))"

definition discard_temporary :: "path \<Rightarrow> path \<Rightarrow> ('e, unit) io" where
  "discard_temporary dir temporary =
     io_match (fs_remove_file temporary) (\<lambda>r.
       if is_ok r then io_match (sync_directory dir) (\<lambda>_. io_return ()) else io_return ())"

text \<open>\<open>directory\<close> lies below the base by construction of its callers.\<close>

fun create_directories :: "path \<Rightarrow> string list \<Rightarrow> (domain_error, unit) io" where
  "create_directories current [] = io_return ()"
| "create_directories current (c # cs) =
     io_bind (io_match (fs_create_dir (current @ [c])) (\<lambda>r. case r of
         Inr _ \<Rightarrow> sync_directory current
       | Inl e \<Rightarrow> if e = EEXIST then io_return () else io_fail (io_error e))) (\<lambda>_.
     create_directories (current @ [c]) cs)"

definition create_canonical_directory :: "path \<Rightarrow> (domain_error, unit) io" where
  "create_canonical_directory directory = create_directories [] directory"

section \<open>Identities\<close>

record runtime_owner =
  ow_schema_version :: nat
  ow_runtime_epoch :: uuid
  ow_host :: runtime_host
  ow_host_generation :: u64

record runtime_live =
  li_runtime_epoch :: uuid
  li_host :: runtime_host
  li_host_generation :: u64
  li_runtime_instance_id :: uuid
  li_boot_id :: uuid
  li_pid :: u32
  li_start_ticks :: u64

record writer_fence =
  wf_runtime_epoch :: uuid
  wf_host :: runtime_host
  wf_host_generation :: u64
  wf_runtime_instance_id :: uuid

definition fence_matches :: "writer_fence \<Rightarrow> runtime_owner \<Rightarrow> runtime_live \<Rightarrow> bool" where
  "fence_matches f owner alive \<longleftrightarrow>
     ow_schema_version owner = 1 \<and> ow_host_generation owner > 0 \<and> li_host_generation alive > 0
     \<and> li_pid alive > 0 \<and> li_start_ticks alive > 0
     \<and> wf_runtime_epoch f = ow_runtime_epoch owner \<and> wf_host f = ow_host owner
     \<and> wf_host_generation f = ow_host_generation owner
     \<and> wf_runtime_epoch f = li_runtime_epoch alive \<and> wf_host f = li_host alive
     \<and> wf_host_generation f = li_host_generation alive
     \<and> wf_runtime_instance_id f = li_runtime_instance_id alive"

definition live_fence :: "runtime_live \<Rightarrow> writer_fence" where
  "live_fence alive = \<lparr>wf_runtime_epoch = li_runtime_epoch alive, wf_host = li_host alive,
     wf_host_generation = li_host_generation alive, wf_runtime_instance_id = li_runtime_instance_id alive\<rparr>"

record runtime_reset_intent =
  ri_schema_version :: nat
  ri_reset_id :: uuid
  ri_runtime_epoch :: uuid
  ri_source_host_generation :: u64
  ri_target_host :: runtime_host
  ri_target_host_generation :: u64

datatype reset_owner_state = OwnerSource | OwnerTarget

definition validate_reset_owner :: "runtime_reset_intent \<Rightarrow> runtime_owner \<Rightarrow> reset_owner_state res" where
  "validate_reset_owner intent owner =
     (if ri_schema_version intent \<noteq> 1 then err IoError ''reset intent is corrupt''
      else rbind (ok_or (checked_add (ri_source_host_generation intent) 1)
                    (domain_error_new ResourceLimit ''host generation exhausted'')) (\<lambda>next_generation.
        if ri_target_host_generation intent \<noteq> next_generation
          \<or> ow_runtime_epoch owner \<noteq> ri_runtime_epoch intent
        then err IoError ''reset intent is corrupt''
        else if ow_host_generation owner = ri_source_host_generation intent
          \<and> ow_host owner = ri_target_host intent
        then Ok OwnerSource
        else if ow_host owner = ri_target_host intent
          \<and> ow_host_generation owner = ri_target_host_generation intent
        then Ok OwnerTarget
        else err IoError ''owner and reset intent disagree''))"

section \<open>The store\<close>

abbreviation owner_path :: path where "owner_path \<equiv> [''runtime-owner.json'']"
abbreviation state_path :: path where "state_path \<equiv> [''runtime-state.json'']"
abbreviation live_path :: path where "live_path \<equiv> [''runtime-live.json'']"
abbreviation intent_path :: path where "intent_path \<equiv> [''runtime-reset-intent.json'']"
abbreviation live_lock_path :: path where "live_lock_path \<equiv> [''runtime-live.lock'']"
abbreviation state_lock_path :: path where "state_lock_path \<equiv> [''runtime-state.lock'']"

text \<open>
  What the operations of a store close over: its base, the codecs of its files, and the parameters of
  the check of a state. \<open>sc_revision_text\<close> is the decimal text of a revision.
\<close>

record ('p, 'r, 'j) state_store =
  sc_base :: string
  sc_owner :: "runtime_owner file_codec"
  sc_live :: "runtime_live file_codec"
  sc_intent :: "runtime_reset_intent file_codec"
  sc_state :: "('p, 'r, 'j) canonical_state file_codec"
  sc_wire :: "'j wire_codec"
  sc_texts :: text_codec
  sc_revision_text :: "u64 \<Rightarrow> string"

record lifetime_lease =
  le_base :: string
  le_live :: runtime_live

definition encode_json :: "'v file_codec \<Rightarrow> string \<Rightarrow> 'v \<Rightarrow> bytes res" where
  "encode_json c message v = ok_or (fc_encode c v) (domain_error_new InternalError message)"

definition validate_state ::
  "('p, 'r, 'j) state_store \<Rightarrow> ('p, 'r, 'j) canonical_state \<Rightarrow> nat \<Rightarrow> unit res" where
  "validate_state s c encoded = validate_canonical (sc_wire s) (sc_texts s) c encoded"

definition decode_canonical_state ::
  "('p, 'r, 'j) state_store \<Rightarrow> bytes \<Rightarrow> ('p, 'r, 'j) canonical_state res" where
  "decode_canonical_state s b =
     (if length b > unat STORE_LIMIT_BYTES then err ResourceLimit ''store is too large''
      else rbind (ok_or (fc_decode (sc_state s) b) (domain_error_new IoError ''canonical JSON is corrupt'')) (\<lambda>c.
        rbind (validate_state s c (length b)) (\<lambda>_. Ok c)))"

definition initialize_store ::
  "('p, 'r, 'j) state_store \<Rightarrow> runtime_owner \<Rightarrow> ('p, 'r, 'j) canonical_state \<Rightarrow> (domain_error, unit) io" where
  "initialize_store s owner state =
     (if ow_schema_version owner \<noteq> 1 \<or> ow_host_generation owner = 0
      then io_fail (domain_error_invalid ''initial runtime owner is invalid'')
      else
        io_bind (io_of (encode_json (sc_state s) ''store serialization failed'' state)) (\<lambda>b.
        io_bind (io_of (validate_state s state (length b))) (\<lambda>_.
        io_bind (io_map_err io_error (attempt (\<lambda>d. (Ok (), d)) untouched)) (\<lambda>_.
        io_bind (write_new_json (sc_owner s) owner_path owner) (\<lambda>_.
        io_bind (write_new_json (sc_state s) state_path state) (\<lambda>_.
        io_bind (open_lock_file live_lock_path) (\<lambda>_.
        io_bind (open_lock_file state_lock_path) (\<lambda>_.
        sync_directory []))))))))"

definition read_owner :: "('p, 'r, 'j) state_store \<Rightarrow> (domain_error, runtime_owner) io" where
  "read_owner s = io_bind (read_json (sc_owner s) owner_path) (\<lambda>owner.
     if ow_schema_version owner \<noteq> 1 \<or> ow_host_generation owner = 0
     then io_fail (domain_error_new IoError ''runtime owner is corrupt'')
     else io_return owner)"

definition validate_lease :: "('p, 'r, 'j) state_store \<Rightarrow> lifetime_lease \<Rightarrow> (domain_error, unit) io" where
  "validate_lease s lease =
     (if le_base lease \<noteq> sc_base s
      then io_fail (domain_error_new StaleAuthority ''lifetime lease belongs to another store'')
      else io_bind (read_json (sc_owner s) owner_path) (\<lambda>owner.
        io_bind (read_json (sc_live s) live_path) (\<lambda>alive.
        if alive \<noteq> le_live lease \<or> \<not> fence_matches (live_fence (le_live lease)) owner alive
        then io_fail (domain_error_new StaleAuthority ''lifetime lease is stale'')
        else io_return ())))"

definition load_measured ::
  "('p, 'r, 'j) state_store \<Rightarrow> lifetime_lease \<Rightarrow> (domain_error, ('p, 'r, 'j) canonical_state \<times> nat) io" where
  "load_measured s lease =
     io_bind (lock_acquire state_lock_path) (\<lambda>_.
     io_bind (validate_lease s lease) (\<lambda>_.
     io_bind (io_map_err io_error (fs_read state_path)) (\<lambda>b.
     io_bind (io_of (decode_canonical_state s b)) (\<lambda>state.
     io_return (state, length b)))))"

definition load_state ::
  "('p, 'r, 'j) state_store \<Rightarrow> lifetime_lease \<Rightarrow> (domain_error, ('p, 'r, 'j) canonical_state) io" where
  "load_state s lease = io_bind (load_measured s lease) (\<lambda>(state, _). io_return state)"

definition acquire_lifetime ::
  "('p, 'r, 'j) state_store \<Rightarrow> runtime_live \<Rightarrow> (domain_error, lifetime_lease) io" where
  "acquire_lifetime s alive =
     io_bind (lock_acquire live_lock_path) (\<lambda>_.
     io_bind (read_json (sc_owner s) owner_path) (\<lambda>owner.
     io_bind (fs_exists intent_path) (\<lambda>present.
     if present then io_fail (domain_error_new HostTransitionPending ''Runtime reset is pending'')
     else if \<not> fence_matches (live_fence alive) owner alive
     then io_fail (domain_error_new StaleAuthority ''live identity does not match runtime owner'')
     else io_bind (atomic_replace_json (sc_live s) [] ''runtime-live.json'' alive) (\<lambda>_.
       io_return \<lparr>le_base = sc_base s, le_live = alive\<rparr>))))"

end
