(* ===== verification/Store_Commit.thy ===== *)
theory Store_Commit
  imports Store_Files
begin

text \<open>
  The operations of \<open>StateStore\<close> that change the files of the base
  (\<open>rust/crates/persistence/src/atomic.rs\<close>): the compare-and-commit of the canonical state, the reset
  of the store through a recorded intent, the repair of a malformed owner, and the clearing of
  executions a lost instance left behind. Each runs as a sequence of system calls any of which may
  fail or be the last one.
\<close>

section \<open>Compare and commit\<close>

datatype crash_point = BeforeTempCreate | AfterTempFsync | AfterRename

definition injected_crash :: domain_error where
  "injected_crash = domain_error_new IoError ''injected commit crash''"

definition crash_here :: "(crash_point \<Rightarrow> bool) \<Rightarrow> crash_point \<Rightarrow> (domain_error, unit) io" where
  "crash_here injected point = (if injected point then io_fail injected_crash else io_return ())"

text \<open>What a commit decides before it touches a file: the next state and its bytes.\<close>

definition reserved_total :: "('p, 'r, 'j) canonical_state \<Rightarrow> nat" where
  "reserved_total c = sum_list (map (unat \<circ> rv_reserved_bytes) (cn_reservations c))"

definition prepare_commit ::
  "('p, 'r, 'j) state_store \<Rightarrow> u64 \<Rightarrow> (('p, 'r, 'j) canonical_state \<Rightarrow> ('p, 'r, 'j) canonical_state res) \<Rightarrow>
   ('p, 'r, 'j) canonical_state \<Rightarrow> (('p, 'r, 'j) canonical_state \<times> bytes) res" where
  "prepare_commit s expected_revision mutate state =
     (if cn_store_revision state \<noteq> expected_revision
      then err RevisionConflict ''store revision does not match''
      else rbind (mutate state) (\<lambda>state.
        if cn_store_revision state \<noteq> expected_revision
        then err RevisionConflict ''domain mutation changed the store revision''
        else rbind (ok_or (checked_add expected_revision 1)
                     (domain_error_new ResourceLimit ''store revision exhausted'')) (\<lambda>revision.
        let state = state\<lparr>cn_store_revision := revision\<rparr>
        in rbind (encode_json (sc_state s) ''store serialization failed'' state) (\<lambda>b.
           rbind (validate_state s state (length b)) (\<lambda>_.
           if length b > unat STORE_LIMIT_BYTES
             \<or> length b + reserved_total state > unat STORE_LIMIT_BYTES
           then err ResourceLimit ''store plus reservations exceeds hard limit''
           else Ok (state, b))))))"

definition state_temporary :: "('p, 'r, 'j) state_store \<Rightarrow> u64 \<Rightarrow> path" where
  "state_temporary s revision = [''.runtime-state.'' @ sc_revision_text s revision @ ''.tmp'']"

text \<open>The file steps of a commit, from the removal of an old temporary to the synced rename.\<close>

definition remove_stale_temporary :: "path \<Rightarrow> (domain_error, unit) io" where
  "remove_stale_temporary temporary =
     io_match (fs_remove_file temporary) (\<lambda>r. case r of
         Inr _ \<Rightarrow> sync_directory []
       | Inl e \<Rightarrow> if e = ENOENT then io_return () else io_fail (io_error e))"

definition or_discard :: "path \<Rightarrow> (domain_error, unit) io \<Rightarrow> (domain_error, unit) io" where
  "or_discard temporary m = io_match m (\<lambda>r. case r of
       Inr _ \<Rightarrow> io_return ()
     | Inl e \<Rightarrow> io_bind (discard_temporary [] temporary) (\<lambda>_. io_fail e))"

definition write_state ::
  "(crash_point \<Rightarrow> bool) \<Rightarrow> path \<Rightarrow> bytes \<Rightarrow> (domain_error, unit) io" where
  "write_state injected temporary b =
     io_bind (crash_here injected BeforeTempCreate) (\<lambda>_.
     io_bind (remove_stale_temporary temporary) (\<lambda>_.
     io_bind (open_new_private temporary) (\<lambda>i.
     io_bind (or_discard temporary (write_synced i b)) (\<lambda>_.
     io_bind (crash_here injected AfterTempFsync) (\<lambda>_.
     io_bind (or_discard temporary (replace_file temporary state_path)) (\<lambda>_.
     io_bind (crash_here injected AfterRename) (\<lambda>_.
     sync_directory [])))))))"

definition compare_and_commit_with_crash ::
  "('p, 'r, 'j) state_store \<Rightarrow> lifetime_lease \<Rightarrow> u64 \<Rightarrow>
   (('p, 'r, 'j) canonical_state \<Rightarrow> ('p, 'r, 'j) canonical_state res) \<Rightarrow> (crash_point \<Rightarrow> bool) \<Rightarrow>
   (domain_error, unit) io" where
  "compare_and_commit_with_crash s lease expected_revision mutate injected =
     io_bind (lock_acquire state_lock_path) (\<lambda>state_lock.
     io_bind (validate_lease s lease) (\<lambda>_.
     io_bind (io_map_err io_error (fs_read state_path)) (\<lambda>b.
     io_bind (io_of (decode_canonical_state s b)) (\<lambda>state.
     io_bind (io_of (prepare_commit s expected_revision mutate state)) (\<lambda>(state, b).
     io_bind (write_state injected (state_temporary s (cn_store_revision state)) b) (\<lambda>_.
     lock_sync state_lock))))))"

definition compare_and_commit ::
  "('p, 'r, 'j) state_store \<Rightarrow> lifetime_lease \<Rightarrow> u64 \<Rightarrow>
   (('p, 'r, 'j) canonical_state \<Rightarrow> ('p, 'r, 'j) canonical_state res) \<Rightarrow> (domain_error, unit) io" where
  "compare_and_commit s lease expected_revision mutate =
     compare_and_commit_with_crash s lease expected_revision mutate (\<lambda>_. False)"

section \<open>Reset through a recorded intent\<close>

definition automation_work :: "('p, 'r, 'j) canonical_state \<Rightarrow> bool" where
  "automation_work c = list_ex (\<lambda>x. es_state (xr_summary x) \<in> {AutoQueued, AutoRunning})
     (cn_automation_executions c)"

definition task_work :: "('p, 'r, 'j) canonical_state \<Rightarrow> bool" where
  "task_work c = list_ex (\<lambda>t. st_state t \<in> {TaskCreated, TaskQueued, TaskRunning}) (cn_tasks c)"

definition check_reset_intent ::
  "runtime_owner \<Rightarrow> ('p, 'r, 'j) canonical_state \<Rightarrow> runtime_reset_intent \<Rightarrow> unit res" where
  "check_reset_intent owner state intent =
     (let stale = err StaleAuthority ''reset intent does not match zero-work owner state''
      in if task_work state \<or> automation_work state \<or> cn_reservations state \<noteq> []
          \<or> ri_schema_version intent \<noteq> 1 \<or> ri_runtime_epoch intent \<noteq> ow_runtime_epoch owner
          \<or> ri_source_host_generation intent \<noteq> ow_host_generation owner
          \<or> ri_target_host intent \<noteq> ow_host owner
         then stale
         else rbind (ok_or (checked_add (ri_source_host_generation intent) 1)
                       (domain_error_new ResourceLimit ''host generation exhausted'')) (\<lambda>next_generation.
              if ri_target_host_generation intent \<noteq> next_generation then stale else Ok ()))"

definition record_reset_intent ::
  "('p, 'r, 'j) state_store \<Rightarrow> lifetime_lease \<Rightarrow> runtime_reset_intent \<Rightarrow> bool \<Rightarrow> bool \<Rightarrow>
   (domain_error, unit) io" where
  "record_reset_intent s lease intent synchronous_work_absent cleanup_verified =
     (if \<not> synchronous_work_absent \<or> \<not> cleanup_verified
      then io_fail (domain_error_new IoError ''reset requires zero live work and verified cleanup'')
      else
        io_bind (validate_lease s lease) (\<lambda>_.
        io_bind (read_owner s) (\<lambda>owner.
        io_bind (load_state s lease) (\<lambda>state.
        io_bind (io_of (check_reset_intent owner state intent)) (\<lambda>_.
        io_bind (write_new_json (sc_intent s) intent_path intent) (\<lambda>_.
        sync_directory []))))))"

abbreviation artifacts_path :: path where "artifacts_path \<equiv> [''artifacts'']"

definition reset_trash_path :: "runtime_reset_intent \<Rightarrow> path" where
  "reset_trash_path intent = [''reset-trash'', as_str (ri_reset_id intent)]"

text \<open>\<open>fs::create_dir_all\<close>: a component that is already a directory is left alone.\<close>

fun create_dir_all :: "path \<Rightarrow> string list \<Rightarrow> (os_error, unit) io" where
  "create_dir_all current [] = io_return ()"
| "create_dir_all current (c # cs) =
     io_bind (io_match (fs_create_dir (current @ [c])) (\<lambda>r.
         if r = Err EEXIST then io_return () else io_of r)) (\<lambda>_.
     create_dir_all (current @ [c]) cs)"

definition trash_artifacts :: "path \<Rightarrow> (domain_error, unit) io" where
  "trash_artifacts reset_trash =
     io_bind (fs_exists artifacts_path) (\<lambda>present.
     if \<not> present then io_return ()
     else io_bind (fs_exists (reset_trash @ [''artifacts''])) (\<lambda>trashed.
       if trashed then io_fail (domain_error_new IoError ''reset artifact source and trash both exist'')
       else
         io_bind (io_map_err io_error (create_dir_all [] reset_trash)) (\<lambda>_.
         io_bind (io_map_err io_error (fs_rename artifacts_path (reset_trash @ [''artifacts'']))) (\<lambda>_.
         io_bind (sync_directory []) (\<lambda>_.
         sync_directory reset_trash)))))"

definition target_owner :: "runtime_reset_intent \<Rightarrow> runtime_owner" where
  "target_owner intent = \<lparr>ow_schema_version = 1, ow_runtime_epoch = ri_runtime_epoch intent,
     ow_host = ri_target_host intent, ow_host_generation = ri_target_host_generation intent\<rparr>"

definition fs_read_optional :: "path \<Rightarrow> (domain_error, bytes option) io" where
  "fs_read_optional p = io_match (fs_read p) (\<lambda>r. case r of
       Inr b \<Rightarrow> io_return (Some b)
     | Inl e \<Rightarrow> if e = ENOENT then io_return None else io_fail (io_error e))"

definition reset_state_and_owner ::
  "('p, 'r, 'j) state_store \<Rightarrow> runtime_reset_intent \<Rightarrow> (domain_error, runtime_owner) io" where
  "reset_state_and_owner s intent =
     io_bind (lock_acquire state_lock_path) (\<lambda>_.
     io_bind (read_json (sc_intent s) intent_path) (\<lambda>recorded_intent.
     if recorded_intent \<noteq> intent
     then io_fail (domain_error_new StaleAuthority ''reset intent changed during recovery'')
     else
       io_bind (read_json (sc_owner s) owner_path) (\<lambda>owner.
       io_bind (io_of (validate_reset_owner intent owner)) (\<lambda>owner_state.
       io_bind (io_of (encode_json (sc_state s) ''reset store encoding failed'' canonical_state_default)) (\<lambda>expected.
       io_bind (fs_read_optional state_path) (\<lambda>current_state.
       io_bind (if current_state \<noteq> Some expected
                then atomic_replace_json (sc_state s) [] ''runtime-state.json'' canonical_state_default
                else io_return ()) (\<lambda>_.
       if owner_state = OwnerSource
       then io_bind (atomic_replace_json (sc_owner s) [] ''runtime-owner.json'' (target_owner intent)) (\<lambda>_.
              io_return (target_owner intent))
       else io_return owner)))))))"

definition recover_confirmed_reset ::
  "('p, 'r, 'j) state_store \<Rightarrow> bool \<Rightarrow> (domain_error, runtime_owner) io" where
  "recover_confirmed_reset s cleanup_verified =
     (if \<not> cleanup_verified
      then io_fail (domain_error_new IoError ''reset cannot bypass unverified cleanup'')
      else
        io_bind (lock_acquire live_lock_path) (\<lambda>_.
        io_bind (read_json (sc_intent s) intent_path) (\<lambda>intent.
        io_bind (read_json (sc_owner s) owner_path) (\<lambda>owner.
        io_bind (io_of (validate_reset_owner intent owner)) (\<lambda>_.
        io_bind (trash_artifacts (reset_trash_path intent)) (\<lambda>_.
        io_bind (reset_state_and_owner s intent) (\<lambda>owner.
        io_bind (fs_exists (reset_trash_path intent)) (\<lambda>present.
        io_bind (if present
                 then io_bind (io_map_err io_error (fs_remove_dir_all (reset_trash_path intent))) (\<lambda>_.
                        sync_directory (butlast (reset_trash_path intent)))
                 else io_return ()) (\<lambda>_.
        io_bind (io_map_err io_error (fs_remove_file intent_path)) (\<lambda>_.
        io_bind (sync_directory []) (\<lambda>_.
        io_return owner)))))))))))"

section \<open>Maintenance\<close>

datatype maintenance_blocker = BlockerNone | OwnerCorrupt | StoreCorrupt

fun blocker_token :: "maintenance_blocker \<Rightarrow> string" where
  "blocker_token BlockerNone = ''none''"
| "blocker_token OwnerCorrupt = ''owner_corrupt''"
| "blocker_token StoreCorrupt = ''store_corrupt''"

definition owner_bytes_valid :: "('p, 'r, 'j) state_store \<Rightarrow> bytes option \<Rightarrow> bool" where
  "owner_bytes_valid s b =
     (case Option.bind b (fc_decode (sc_owner s)) of
        None \<Rightarrow> False
      | Some owner \<Rightarrow> ow_schema_version owner = 1 \<and> ow_host_generation owner \<noteq> 0)"

definition maintenance_blocker :: "('p, 'r, 'j) state_store \<Rightarrow> (domain_error, maintenance_blocker) io" where
  "maintenance_blocker s =
     io_bind (fs_exists owner_path) (\<lambda>owner_present.
     io_bind (if owner_present then io_return True else fs_exists state_path) (\<lambda>initialized.
     if \<not> initialized then io_return BlockerNone
     else
       io_bind (fs_read_optional owner_path) (\<lambda>owner.
       if \<not> owner_bytes_valid s owner then io_return OwnerCorrupt
       else
         io_bind (lock_acquire state_lock_path) (\<lambda>_.
         io_bind (fs_read_optional state_path) (\<lambda>state.
         case state of
           None \<Rightarrow> io_return StoreCorrupt
         | Some b \<Rightarrow> io_return
             (if is_ok (decode_canonical_state s b) then BlockerNone else StoreCorrupt))))))"

definition refuse_pending_intents :: "(domain_error, unit) io" where
  "refuse_pending_intents = io_bind (fs_exists intent_path) (\<lambda>present.
     if present
     then io_fail (domain_error_new StaleAuthority ''a pending Runtime intent must be recovered first'')
     else io_return ())"

definition live_lock_or_pending :: "(domain_error, unit) io" where
  "live_lock_or_pending = io_bind (lock_try_acquire live_lock_path) (\<lambda>lock. case lock of
       None \<Rightarrow> io_fail (domain_error_new HostTransitionPending ''a Runtime instance holds the live lock'')
     | Some _ \<Rightarrow> io_return ())"

definition record_corrupt_store_reset_intent ::
  "('p, 'r, 'j) state_store \<Rightarrow> runtime_reset_intent \<Rightarrow> bool \<Rightarrow> (domain_error, unit) io" where
  "record_corrupt_store_reset_intent s intent cleanup_verified =
     (if \<not> cleanup_verified
      then io_fail (domain_error_new IoError ''reset cannot bypass unverified cleanup'')
      else
        io_bind live_lock_or_pending (\<lambda>_.
        io_bind refuse_pending_intents (\<lambda>_.
        io_bind (maintenance_blocker s) (\<lambda>blocker.
        if blocker \<noteq> StoreCorrupt
        then io_fail (domain_error_new StaleAuthority ''the canonical store is not corrupt'')
        else
          io_bind (read_owner s) (\<lambda>owner.
          let mismatch = domain_error_new StaleAuthority ''reset intent does not start from the current owner''
          in if ri_runtime_epoch intent \<noteq> ow_runtime_epoch owner
               \<or> ri_source_host_generation intent \<noteq> ow_host_generation owner
             then io_fail mismatch
             else
               io_bind (io_of (validate_reset_owner intent owner)) (\<lambda>owner_state.
               if owner_state \<noteq> OwnerSource then io_fail mismatch
               else
                 io_bind (write_new_json (sc_intent s) intent_path intent) (\<lambda>_.
                 sync_directory [])))))))"

definition reset_malformed_owner ::
  "('p, 'r, 'j) state_store \<Rightarrow> uuid \<Rightarrow> runtime_host \<Rightarrow> bool \<Rightarrow> (domain_error, runtime_owner) io" where
  "reset_malformed_owner s runtime_epoch host cleanup_verified =
     (if \<not> cleanup_verified
      then io_fail (domain_error_new IoError ''reset cannot bypass unverified cleanup'')
      else
        io_bind live_lock_or_pending (\<lambda>_.
        io_bind refuse_pending_intents (\<lambda>_.
        io_bind (maintenance_blocker s) (\<lambda>blocker.
        if blocker \<noteq> OwnerCorrupt
        then io_fail (domain_error_new StaleAuthority ''the runtime owner is not corrupt'')
        else
          let owner = \<lparr>ow_schema_version = 1, ow_runtime_epoch = runtime_epoch, ow_host = host,
                       ow_host_generation = 1\<rparr>
          in io_bind (atomic_replace_json (sc_owner s) [] ''runtime-owner.json'' owner) (\<lambda>_.
             io_return owner)))))"

text \<open>\<open>clean\<close> says the guard recovery is \<open>GuardRecovery::Clean\<close>.\<close>

definition cleanup_task_temporary ::
  "('p, 'r, 'j) state_store \<Rightarrow> lifetime_lease \<Rightarrow> task_id \<Rightarrow> bool \<Rightarrow> (domain_error, bool) io" where
  "cleanup_task_temporary s lease task_id clean =
     io_bind (validate_lease s lease) (\<lambda>_.
     if \<not> clean then io_fail (domain_error_new IoError ''Task temporary data requires clean guard proof'')
     else
       let temporary = [''tmp'', as_str task_id]
       in io_bind (fs_exists temporary) (\<lambda>present.
          if \<not> present then io_return False
          else
            io_bind (io_map_err io_error (fs_remove_dir_all temporary)) (\<lambda>_.
            io_bind (sync_directory [''tmp'']) (\<lambda>_.
            io_return True))))"

end
