(* ===== verification/Disk_Logic.thy ===== *)
theory Disk_Logic
  imports Disk
begin

text \<open>
  How a file survives a crash, and rules for sequences of system calls. \<open>settled p B d\<close> says that
  whatever a crash of \<open>d\<close> keeps and tears, the file \<open>p\<close> is there afterwards with bytes of \<open>B\<close>: its
  durable entry and every waiting change to it name synced inodes with such bytes. \<open>steps A P m Q E\<close> is
  the triple of a computation: from \<open>P\<close> it ends in \<open>Q\<close>, or, when a call fails or the process dies,
  in \<open>E\<close>; \<open>A\<close> restricts what the other holders of locks do. \<open>runs P m Q\<close> is the triple of a computation whose system calls all proceed.
\<close>

named_theorems disk_simps \<open>what a change leaves of the rest of the disk\<close>

section \<open>What a crash keeps of a file\<close>

text \<open>A change of a tree around the file is excluded; one of its own entry says what it becomes.\<close>

fun keeps_file :: "path \<Rightarrow> change \<Rightarrow> bool" where
  "keeps_file p (MoveFile source target i) \<longleftrightarrow> p = source \<or> p = target \<longrightarrow> butlast source = butlast target"
| "keeps_file p (MoveTree source target) \<longleftrightarrow> \<not> beneath source p \<and> \<not> beneath target p"
| "keeps_file p (DropTree root) \<longleftrightarrow> \<not> beneath root p"
| "keeps_file p c \<longleftrightarrow> True"

fun given_entry :: "path \<Rightarrow> change \<Rightarrow> entry option option" where
  "given_entry p (SetEntry q e) = (if q = p then Some (Some e) else None)"
| "given_entry p (DropEntry q) = (if q = p then Some None else None)"
| "given_entry p (MoveFile source target i) =
     (if target = p then Some (Some (FileEntry i)) else if source = p then Some None else None)"
| "given_entry p c = None"

definition outcomes :: "path \<Rightarrow> disk \<Rightarrow> entry option set" where
  "outcomes p d = insert (map_of (durable d) p) {e. Some e \<in> given_entry p ` set (pending d)}"

fun entry_in :: "bytes option set \<Rightarrow> disk \<Rightarrow> entry option \<Rightarrow> bool" where
  "entry_in B d None \<longleftrightarrow> None \<in> B"
| "entry_in B d (Some DirEntry) \<longleftrightarrow> False"
| "entry_in B d (Some (FileEntry i)) \<longleftrightarrow> i < next_inode d \<and> inode_synced d i \<and> Some (inode_bytes d i) \<in> B"

definition settled :: "path \<Rightarrow> bytes option set \<Rightarrow> disk \<Rightarrow> bool" where
  "settled p B d \<longleftrightarrow> (\<forall>c\<in>set (pending d). keeps_file p c) \<and> (\<forall>e\<in>outcomes p d. entry_in B d e)
     \<and> map_of (fold apply_change (pending d) (durable d)) p = entry_at d p"

lemma map_of_filter_key: "map_of (filter (\<lambda>x. P (fst x)) es) p = (if P p then map_of es p else None)"
  by (induction es) auto

lemma map_of_drop_entry [simp]: "map_of (drop_entry q es) p = (if q = p then None else map_of es p)"
  by (auto simp: drop_entry_def map_of_filter_key[of "\<lambda>x. x \<noteq> q"])

lemma map_of_set_entry [simp]: "map_of (set_entry q e es) p = (if q = p then Some e else map_of es p)"
  by (simp add: set_entry_def)

lemma beneath_append [simp]: "beneath root (root @ rest)"
  by (simp add: beneath_def)

lemma map_of_move_tree:
  assumes "\<not> beneath source p" "\<not> beneath target p"
  shows "map_of (apply_change (MoveTree source target) es) p = map_of es p"
proof (induction es)
  case Nil
  then show ?case by simp
next
  case (Cons x es)
  have "target @ drop (length source) (fst x) \<noteq> p" using assms(2) by (metis beneath_append)
  then show ?case using Cons assms by (cases x) auto
qed

lemma lookup_change:
  assumes "keeps_file p c"
  shows "map_of (apply_change c es) p = (case given_entry p c of Some e \<Rightarrow> e | None \<Rightarrow> map_of es p)"
proof (cases c)
  case (MoveTree source target)
  with assms show ?thesis using map_of_move_tree by simp
next
  case (DropTree root)
  with assms show ?thesis by (simp add: map_of_filter_key[of "\<lambda>x. \<not> beneath root x"])
qed (use assms in auto)

lemma lookup_changes:
  assumes "\<forall>c\<in>set cs. keeps_file p c"
  shows "map_of (fold apply_change cs es) p
    = (case List.map_filter (given_entry p) cs of [] \<Rightarrow> map_of es p | k # ks \<Rightarrow> last (k # ks))"
  using assms
proof (induction cs arbitrary: es)
  case Nil
  then show ?case by (simp add: List.map_filter_simps)
next
  case (Cons c cs)
  have k: "keeps_file p c" using Cons.prems by simp
  have "map_of (fold apply_change (c # cs) es) p = (case List.map_filter (given_entry p) cs of
      [] \<Rightarrow> map_of (apply_change c es) p | k # ks \<Rightarrow> last (k # ks))"
    using Cons by simp
  also have "\<dots> = (case List.map_filter (given_entry p) (c # cs) of
      [] \<Rightarrow> map_of es p | k # ks \<Rightarrow> last (k # ks))"
    using lookup_change[OF k, of es]
    by (cases "given_entry p c"; cases "List.map_filter (given_entry p) cs")
      (simp_all add: List.map_filter_simps)
  finally show ?case .
qed

lemma map_filter_set: "i \<in> set (List.map_filter f cs) \<longleftrightarrow> Some i \<in> f ` set cs"
  by (induction cs) (auto simp: List.map_filter_simps split: option.splits)

lemma lookup_outcome:
  assumes "\<forall>c\<in>set cs. keeps_file p c"
  shows "map_of (fold apply_change cs es) p \<in> insert (map_of es p) {e. Some e \<in> given_entry p ` set cs}"
proof (cases "List.map_filter (given_entry p) cs")
  case Nil
  then show ?thesis using lookup_changes[OF assms] by simp
next
  case (Cons k ks)
  then have "Some (last (k # ks)) \<in> given_entry p ` set cs"
    by (metis last_in_set list.distinct(1) map_filter_set)
  moreover have "map_of (fold apply_change cs es) p = last (k # ks)"
    using lookup_changes[OF assms, of es] Cons by simp
  ultimately show ?thesis by simp
qed

lemma settled_crash:
  assumes "settled p B d"
  shows "content (crash kept torn d) p \<in> B"
proof -
  define s where "s = map fst (filter snd (zip (pending d) kept))"
  have sub: "set s \<subseteq> set (pending d)" unfolding s_def by (auto dest: set_zip_leftD)
  then have "\<forall>c\<in>set s. keeps_file p c" using assms by (auto simp: settled_def)
  from lookup_outcome[OF this, of "durable d"] sub
  have "map_of (fold apply_change s (durable d)) p \<in> outcomes p d" by (auto simp: outcomes_def)
  then have "entry_in B d (map_of (fold apply_change s (durable d)) p)" using assms by (simp add: settled_def)
  then show ?thesis
    by (cases "(B, d, map_of (fold apply_change s (durable d)) p)" rule: entry_in.cases)
      (auto simp: content_def entry_at_def crash_def Let_def s_def)
qed

lemma settled_entry:
  assumes "settled p B d"
  shows "entry_at d p \<in> outcomes p d" and "entry_in B d (entry_at d p)"
  using lookup_outcome[of "pending d" p "durable d"] assms by (auto simp: settled_def outcomes_def)

lemma settled_content:
  assumes "settled p B d"
  shows "content d p \<in> B"
  using settled_entry(2)[OF assms]
  by (cases "(B, d, entry_at d p)" rule: entry_in.cases) (auto simp: content_def)

lemma settled_single: "settled p {x} d \<Longrightarrow> content d p = x"
  using settled_content by fastforce

lemma settled_not_dir: "settled p B d \<Longrightarrow> entry_at d p \<noteq> Some DirEntry"
  using settled_entry(2) by fastforce

lemma entry_in_mono: "entry_in B d e \<Longrightarrow> B \<subseteq> C \<Longrightarrow> entry_in C d e"
  by (cases "(B, d, e)" rule: entry_in.cases) auto

lemma settled_mono: "settled p B d \<Longrightarrow> B \<subseteq> C \<Longrightarrow> settled p C d"
  by (auto simp: settled_def intro: entry_in_mono)

section \<open>What a change leaves of the rest of the disk\<close>

lemma entry_change_names [disk_simps]:
  "keeps_file p c \<Longrightarrow> entry_at (change_names c d) p
     = (case given_entry p c of Some e \<Rightarrow> e | None \<Rightarrow> entry_at d p)"
  by (simp add: entry_at_def change_names_def lookup_change split: option.split)

lemma outcomes_change_names [disk_simps]:
  "outcomes p (change_names c d) = outcomes p d \<union> set_option (given_entry p c)"
  by (cases "given_entry p c") (auto simp: outcomes_def change_names_def image_iff)

lemma change_names_fields [simp]:
  "inode_bytes (change_names c d) = inode_bytes d" "inode_synced (change_names c d) = inode_synced d"
  "next_inode (change_names c d) = next_inode d" "durable (change_names c d) = durable d"
  "pending (change_names c d) = pending d @ [c]"
  by (simp_all add: change_names_def)

lemma entry_in_cong:
  "next_inode d \<le> next_inode d' \<Longrightarrow>
   (\<And>i. e = Some (FileEntry i) \<Longrightarrow> inode_synced d i \<Longrightarrow> inode_synced d' i \<and> inode_bytes d' i = inode_bytes d i)
   \<Longrightarrow> entry_in B d e \<Longrightarrow> entry_in B d' e"
  by (cases "(B, d, e)" rule: entry_in.cases) auto

lemma entry_in_change_names [simp]: "entry_in B (change_names c d) e = entry_in B d e"
  by (cases "(B, d, e)" rule: entry_in.cases) auto

lemma settled_change_names:
  assumes "settled p B d" and "keeps_file p c" and "\<And>e. given_entry p c = Some e \<Longrightarrow> entry_in B d e"
  shows "settled p B (change_names c d)"
  unfolding settled_def outcomes_change_names entry_change_names[OF assms(2)] change_names_fields entry_in_change_names
proof (intro conjI ballI)
  show "keeps_file p c'" if "c' \<in> set (pending d @ [c])" for c'
    using that assms(1,2) by (auto simp: settled_def)
  show "entry_in B d e" if "e \<in> outcomes p d \<union> set_option (given_entry p c)" for e
    using that assms(1,3) by (auto simp: settled_def)
  have "map_of (fold apply_change (pending d) (durable d)) p = entry_at d p"
    using assms(1) by (simp add: settled_def)
  then show "map_of (fold apply_change (pending d @ [c]) (durable d)) p
      = (case given_entry p c of None \<Rightarrow> entry_at d p | Some e \<Rightarrow> e)"
    by (simp add: lookup_change[OF assms(2)] split: option.split)
qed

text \<open>Syncing a directory moves every change to the file, or none.\<close>

lemma given_entry_dirs:
  assumes "keeps_file p c" and "given_entry p c = Some e"
  shows "dir \<in> set (change_dirs c) \<longleftrightarrow> dir = butlast p"
proof (cases c)
  case (MoveFile source target i)
  then have "p = source \<or> p = target" using assms(2) by (simp split: if_splits)
  then have "butlast source = butlast p" "butlast target = butlast p" using MoveFile assms(1) by auto
  then show ?thesis using MoveFile by simp
qed (use assms in \<open>simp_all split: if_splits\<close>)

lemma map_filter_all: "(\<And>c. c \<in> set cs \<Longrightarrow> f c \<noteq> None \<Longrightarrow> P c)
    \<Longrightarrow> List.map_filter f (filter P cs) = List.map_filter f cs"
  by (induction cs) (auto simp: List.map_filter_simps split: option.splits)

lemma map_filter_none: "(\<And>c. c \<in> set cs \<Longrightarrow> f c \<noteq> None \<Longrightarrow> \<not> P c)
    \<Longrightarrow> List.map_filter f (filter P cs) = []"
  by (induction cs) (auto simp: List.map_filter_simps split: option.splits)

lemma entry_sync_dir [disk_simps]: "entry_at (sync_dir dir d) p = entry_at d p"
  by (simp add: entry_at_def sync_dir_def)

lemma content_sync_dir [simp]: "content (sync_dir dir d) p = content d p"
  by (simp add: content_def entry_at_def sync_dir_def cong: option.case_cong entry.case_cong)

lemma sync_dir_fields [simp]:
  "inode_bytes (sync_dir dir d) = inode_bytes d" "inode_synced (sync_dir dir d) = inode_synced d"
  "next_inode (sync_dir dir d) = next_inode d" "names (sync_dir dir d) = names d"
  by (simp_all add: sync_dir_def)

lemma entry_in_sync_dir [simp]: "entry_in B (sync_dir dir d) e = entry_in B d e"
  by (cases "(B, d, e)" rule: entry_in.cases) auto

lemma settled_sync_dir:
  assumes s: "settled p B d"
  shows "settled p B (sync_dir dir d)" and "outcomes p (sync_dir dir d) \<subseteq> outcomes p d"
proof -
  let ?P = "\<lambda>c. dir \<in> set (change_dirs c)"
  let ?in = "filter ?P (pending d)" and ?out = "filter (\<lambda>c. \<not> ?P c) (pending d)"
  have keep: "\<forall>c\<in>set (pending d). keeps_file p c" using s by (simp add: settled_def)
  then have keeps: "\<forall>c\<in>set ?in. keeps_file p c" "\<forall>c\<in>set ?out. keeps_file p c" by auto
  have all: "List.map_filter (given_entry p) (if dir = butlast p then ?in else ?out)
      = List.map_filter (given_entry p) (pending d)"
    and none: "List.map_filter (given_entry p) (if dir = butlast p then ?out else ?in) = []"
    using keep given_entry_dirs by (auto intro!: map_filter_all map_filter_none)
  have st: "durable (sync_dir dir d) = fold apply_change ?in (durable d)" "pending (sync_dir dir d) = ?out"
    by (simp_all add: sync_dir_def)
  have "map_of (durable (sync_dir dir d)) p \<in> outcomes p d"
    using lookup_outcome[OF keeps(1), of "durable d"] st by (auto simp: outcomes_def)
  then show sub: "outcomes p (sync_dir dir d) \<subseteq> outcomes p d"
    using st by (auto simp: outcomes_def)
  have "map_of (fold apply_change ?out (fold apply_change ?in (durable d))) p
      = map_of (fold apply_change (pending d) (durable d)) p"
    using all none
    unfolding lookup_changes[OF keeps(2)] lookup_changes[OF keeps(1)] lookup_changes[OF keep]
    by (cases "dir = butlast p") (simp_all split: list.splits)
  then show "settled p B (sync_dir dir d)"
    using s sub keeps(2) by (auto simp: settled_def st entry_sync_dir)
qed

lemma settled_synced:
  assumes s: "settled p B d"
  shows "settled p {content d p} (sync_dir (butlast p) d)"
proof -
  let ?d = "sync_dir (butlast p) d"
  have s': "settled p B ?d" using settled_sync_dir s by blast
  have keep: "\<forall>c\<in>set (pending d). keeps_file p c" using s by (simp add: settled_def)
  have none: "given_entry p ` set (pending ?d) \<subseteq> {None}"
    using keep given_entry_dirs by (fastforce simp: sync_dir_def)
  then have "List.map_filter (given_entry p) (pending ?d) = []"
    by (intro map_filter_none[of _ _ "\<lambda>_. True", simplified]) auto
  then have same: "map_of (durable ?d) p = entry_at ?d p"
    using s' lookup_changes[of "pending ?d" p "durable ?d"] by (simp add: settled_def)
  then have "outcomes p ?d = {entry_at ?d p}" using none by (auto simp: outcomes_def)
  moreover have "entry_in {content d p} ?d (entry_at ?d p)"
    using settled_entry(2)[OF s']
    by (cases "(B, ?d, entry_at ?d p)" rule: entry_in.cases) (auto simp: content_def entry_sync_dir)
  ultimately show ?thesis using s' by (auto simp: settled_def)
qed

section \<open>Sequences of system calls\<close>

definition lands ::
  "(nat \<Rightarrow> disk \<Rightarrow> disk) \<Rightarrow> ('a \<Rightarrow> disk \<Rightarrow> bool) \<Rightarrow> (disk \<Rightarrow> bool) \<Rightarrow> ('e, 'a) outcome \<times> world \<Rightarrow> bool" where
  "lands oth Q E = (\<lambda>(r, w'). others w' = oth
     \<and> (case r of Returned (Inr x) \<Rightarrow> Q x (disk_of w') | _ \<Rightarrow> E (disk_of w')))"

definition steps ::
  "((nat \<Rightarrow> disk \<Rightarrow> disk) \<Rightarrow> bool) \<Rightarrow> (disk \<Rightarrow> bool) \<Rightarrow> ('e, 'a) io \<Rightarrow> ('a \<Rightarrow> disk \<Rightarrow> bool) \<Rightarrow>
   (disk \<Rightarrow> bool) \<Rightarrow> bool" where
  "steps A P m Q E \<longleftrightarrow> (\<forall>w. A (others w) \<longrightarrow> P (disk_of w) \<longrightarrow> lands (others w) Q E (m w))"

lemma lands_simps [simp]:
  "lands oth Q E (Returned (Ok x), w) \<longleftrightarrow> others w = oth \<and> Q x (disk_of w)"
  "lands oth Q E (Returned (Err e), w) \<longleftrightarrow> others w = oth \<and> E (disk_of w)"
  "lands oth Q E (Died, w) \<longleftrightarrow> others w = oth \<and> E (disk_of w)"
  by (simp_all add: lands_def)

lemma lands_weaken:
  "lands oth Q E x \<Longrightarrow> (\<And>y d. Q y d \<Longrightarrow> Q' y d) \<Longrightarrow> (\<And>d. E d \<Longrightarrow> E' d) \<Longrightarrow> lands oth Q' E' x"
  by (auto simp: lands_def split: outcome.splits sum.splits)

lemma stepsD: "steps A P m Q E \<Longrightarrow> A (others w) \<Longrightarrow> P (disk_of w) \<Longrightarrow> lands (others w) Q E (m w)"
  by (simp add: steps_def)

lemma steps_return: "(\<And>d. P d \<Longrightarrow> Q x d) \<Longrightarrow> steps A P (io_return x) Q E"
  by (simp add: steps_def io_return_def)

lemma steps_fail: "(\<And>d. P d \<Longrightarrow> E d) \<Longrightarrow> steps A P (io_fail e) Q E"
  by (simp add: steps_def io_fail_def)

lemma steps_of:
  "(\<And>x d. r = Ok x \<Longrightarrow> P d \<Longrightarrow> Q x d) \<Longrightarrow> (\<And>e d. r = Err e \<Longrightarrow> P d \<Longrightarrow> E d)
   \<Longrightarrow> steps A P (io_of r) Q E"
  by (cases r) (simp_all add: steps_def io_of_def)

lemma steps_match:
  assumes "steps A P m R F" and "\<And>x. steps A (R x) (f (Inr x)) Q E"
    and "\<And>e. steps A F (f (Inl e)) Q E" and "\<And>d. F d \<Longrightarrow> E d"
  shows "steps A P (io_match m f) Q E"
  unfolding steps_def
proof (intro allI impI)
  fix w :: world assume w: "A (others w)" "P (disk_of w)"
  obtain r w' where m: "m w = (r, w')" by fastforce
  then have r: "lands (others w) R F (r, w')" using stepsD[OF assms(1) w] by simp
  show "lands (others w) Q E (io_match m f w)"
  proof (cases r)
    case (Returned v)
    then show ?thesis
    proof (cases v)
      case (Inl e)
      then show ?thesis using m r w(1) Returned stepsD[OF assms(3), of w'] by (simp add: io_match_def)
    next
      case (Inr x)
      then show ?thesis using m r w(1) Returned stepsD[OF assms(2), of w'] by (simp add: io_match_def)
    qed
  next
    case Died
    then show ?thesis using m r assms(4) by (simp add: io_match_def)
  qed
qed

lemma steps_bind:
  assumes "steps A P m R E" and "\<And>x. steps A (R x) (f x) Q E"
  shows "steps A P (io_bind m f) Q E"
  unfolding io_bind_def by (rule steps_match[OF assms(1)]) (auto intro: assms steps_fail)

lemma steps_map_err: "steps A P m Q E \<Longrightarrow> steps A P (io_map_err g m) Q E"
  unfolding io_map_err_def by (erule steps_match) (auto intro!: steps_of)

lemma steps_weaken:
  assumes "steps A P m Q E" and "\<And>d. P' d \<Longrightarrow> P d" and "\<And>x d. Q x d \<Longrightarrow> Q' x d" and "\<And>d. E d \<Longrightarrow> E' d"
  shows "steps A P' m Q' E'"
  using assms(1,2) unfolding steps_def by (blast intro: lands_weaken assms(3,4))

lemma steps_conj:
  assumes "steps A P m Q E" and "steps A P' m Q' E'"
  shows "steps A (\<lambda>d. P d \<and> P' d) m (\<lambda>x d. Q x d \<and> Q' x d) (\<lambda>d. E d \<and> E' d)"
  using assms unfolding steps_def lands_def
  by (fastforce split: outcome.split sum.split)

lemma io_bind_return [simp]: "io_bind (io_return x) f = f x"
  by (rule ext) (simp add: io_bind_def io_match_def io_return_def)

lemma io_bind_of [simp]: "io_bind (io_of (Ok x)) f = f x" "io_bind (io_of (Err e)) f = io_fail e"
  by (rule ext, simp add: io_bind_def io_match_def io_of_def)+

lemma steps_more: "steps A P m Q E \<Longrightarrow> (\<And>d. E d \<Longrightarrow> E' d) \<Longrightarrow> steps A P m Q E'"
  by (erule steps_weaken)

lemma steps_attempt:
  assumes "\<And>d x d'. P d \<Longrightarrow> act d = (Ok x, d') \<Longrightarrow> Q x d'"
    and "\<And>d e d'. P d \<Longrightarrow> act d = (Err e, d') \<Longrightarrow> E d'" and "\<And>n d. P d \<Longrightarrow> E (part n d)"
  shows "steps A P (attempt act part) Q E"
  unfolding steps_def
proof (intro allI impI)
  fix w :: world assume P: "P (disk_of w)"
  show "lands (others w) Q E (attempt act part w)"
    using assms(1)[OF P] assms(2)[OF P] assms(3)[OF P]
    by (cases "act (disk_of w)"; cases "fst (act (disk_of w))")
      (auto simp: attempt_def Let_def split: fate.split)
qed

text \<open>Calls that read: nothing changes.\<close>

lemma steps_read: "steps A P (fs_read q) (\<lambda>b d. P d \<and> content d q = Some b) P"
  unfolding fs_read_def
  by (rule steps_attempt)
    (auto simp: untouched_def content_def split: option.splits entry.splits)

lemma steps_exists: "steps A P (fs_exists q) (\<lambda>_ d. P d) P"
  unfolding fs_exists_def
  by (rule steps_match[OF steps_attempt[where Q = "\<lambda>_. P" and E = P]]) (auto simp: untouched_def intro: steps_return)

lemma steps_nop: "steps A P (attempt (\<lambda>d. (Ok (), d)) untouched) (\<lambda>_. P) P"
  by (rule steps_attempt) (auto simp: untouched_def)

section \<open>Calls that leave a settled file alone\<close>

lemma settled_drop: "settled p B d \<Longrightarrow> q \<noteq> p \<Longrightarrow> settled p B (change_names (DropEntry q) d)"
  by (rule settled_change_names) auto

lemma settled_set: "settled p B d \<Longrightarrow> q \<noteq> p \<Longrightarrow> settled p B (change_names (SetEntry q e) d)"
  by (rule settled_change_names) auto

text \<open>Bytes and syncing of an inode the file does not use.\<close>

lemma settled_inodes:
  assumes "settled p B d" and "next_inode d \<le> n"
    and "\<And>i. Some (FileEntry i) \<in> outcomes p d \<Longrightarrow> inode_synced d i \<Longrightarrow> sync i \<and> b i = inode_bytes d i"
  shows "settled p B (d\<lparr>inode_bytes := b, inode_synced := sync, next_inode := n\<rparr>)"
proof -
  have "outcomes p (d\<lparr>inode_bytes := b, inode_synced := sync, next_inode := n\<rparr>) = outcomes p d"
    by (simp add: outcomes_def)
  moreover have "entry_in B (d\<lparr>inode_bytes := b, inode_synced := sync, next_inode := n\<rparr>) e"
    if "e \<in> outcomes p d" for e
    by (rule entry_in_cong[of d]) (use that assms in \<open>auto simp: settled_def\<close>)
  ultimately show ?thesis using assms(1) by (simp add: settled_def entry_at_def)
qed

definition owned_new :: "path \<Rightarrow> path \<Rightarrow> nat \<Rightarrow> disk \<Rightarrow> bool" where
  "owned_new p t i d \<longleftrightarrow>
     Some (FileEntry i) \<notin> outcomes p d \<and> i < next_inode d \<and> entry_at d t = Some (FileEntry i)"

lemma settled_new_file:
  assumes "settled p B d" and "t \<noteq> p"
  shows "settled p B (new_file t d)" and "owned_new p t (next_inode d) (new_file t d)"
    and "inode_bytes (new_file t d) (next_inode d) = []"
proof -
  let ?d = "change_names (SetEntry t (FileEntry (next_inode d))) d"
  have s: "settled p B ?d" using assms by (rule settled_set)
  have h: "outcomes p ?d = outcomes p d" using assms(2) by (simp add: outcomes_change_names)
  have n: "Some (FileEntry (next_inode d)) \<notin> outcomes p d" using assms(1) by (auto simp: settled_def)
  have "settled p B (?d\<lparr>inode_bytes := (inode_bytes d)(next_inode d := []),
      inode_synced := (inode_synced d)(next_inode d := False), next_inode := Suc (next_inode d)\<rparr>)"
    by (rule settled_inodes[OF s]) (use h n in auto)
  then show "settled p B (new_file t d)" by (simp add: new_file_def)
  show "owned_new p t (next_inode d) (new_file t d)"
    using n h by (auto simp: owned_new_def new_file_def outcomes_def entry_at_def change_names_def)
  show "inode_bytes (new_file t d) (next_inode d) = []" by (simp add: new_file_def)
qed

lemma settled_write_inode:
  assumes "settled p B d" and "owned_new p t i d"
  shows "settled p B (write_inode i b d)" and "owned_new p t i (write_inode i b d)"
proof -
  have "settled p B (d\<lparr>inode_bytes := (inode_bytes d)(i := inode_bytes d i @ b),
      inode_synced := (inode_synced d)(i := False), next_inode := next_inode d\<rparr>)"
    by (rule settled_inodes[OF assms(1)]) (use assms(2) in \<open>auto simp: owned_new_def\<close>)
  then show "settled p B (write_inode i b d)" by (simp add: write_inode_def)
  show "owned_new p t i (write_inode i b d)"
    using assms(2) by (simp add: owned_new_def write_inode_def outcomes_def entry_at_def)
qed

lemma write_inode_bytes: "inode_bytes (write_inode i b d) i = inode_bytes d i @ b"
  by (simp add: write_inode_def)

lemma entry_write_inode [simp]: "entry_at (write_inode i b d) p = entry_at d p"
  by (simp add: write_inode_def entry_at_def)

lemma entry_inode_synced [simp]: "entry_at (d\<lparr>inode_synced := f\<rparr>) p = entry_at d p"
  by (simp add: entry_at_def)

lemma content_inode_synced [simp]: "content (d\<lparr>inode_synced := f\<rparr>) p = content d p"
  by (simp add: content_def entry_at_def cong: option.case_cong entry.case_cong)

lemma settled_sync_inode:
  assumes "settled p B d"
  shows "settled p B (d\<lparr>inode_synced := (inode_synced d)(i := True)\<rparr>)"
proof -
  have "settled p B (d\<lparr>inode_bytes := inode_bytes d, inode_synced := (inode_synced d)(i := True),
      next_inode := next_inode d\<rparr>)"
    by (rule settled_inodes[OF assms]) auto
  then show ?thesis by simp
qed

lemma steps_remove_other:
  "q \<noteq> p \<Longrightarrow> steps A (settled p B) (fs_remove_file q) (\<lambda>_. settled p B) (settled p B)"
  unfolding fs_remove_file_def
  by (rule steps_attempt) (auto simp: untouched_def settled_drop split: option.splits entry.splits)

lemma steps_sync_dir: "steps A (settled p B) (fs_sync_dir dir) (\<lambda>_. settled p B) (settled p B)"
  unfolding fs_sync_dir_def by (rule steps_attempt) (auto simp: untouched_def settled_sync_dir)

lemma steps_sync_file: "steps A (settled p B) (fs_sync_file i) (\<lambda>_. settled p B) (settled p B)"
  unfolding fs_sync_file_def by (rule steps_attempt) (auto simp: untouched_def settled_sync_inode)

lemma steps_sync_own:
  "steps A (\<lambda>d. settled p B d \<and> content d p = x) (fs_sync_dir (butlast p)) (\<lambda>_. settled p {x}) (settled p B)"
  unfolding fs_sync_dir_def by (rule steps_attempt) (auto simp: untouched_def settled_synced)

lemma steps_create_new:
  "t \<noteq> p \<Longrightarrow> steps A (settled p B) (fs_create_new t)
     (\<lambda>i d. settled p B d \<and> owned_new p t i d \<and> inode_bytes d i = []) (settled p B)"
  unfolding fs_create_new_def
  by (rule steps_attempt) (auto simp: untouched_def settled_new_file split: if_splits)

lemma steps_write_all:
  "steps A (\<lambda>d. settled p B d \<and> owned_new p t i d \<and> inode_bytes d i = []) (fs_write_all i b)
     (\<lambda>_ d. settled p B d \<and> owned_new p t i d \<and> inode_bytes d i = b) (settled p B)"
  unfolding fs_write_all_def
  by (rule steps_attempt) (auto simp: settled_write_inode write_inode_bytes)

lemma steps_sync_written:
  "steps A (\<lambda>d. settled p B d \<and> owned_new p t i d \<and> inode_bytes d i = b) (fs_sync_file i)
     (\<lambda>_ d. settled p B d \<and> owned_new p t i d \<and> inode_bytes d i = b \<and> inode_synced d i) (settled p B)"
  unfolding fs_sync_file_def
  by (rule steps_attempt)
    (auto simp: untouched_def settled_sync_inode owned_new_def outcomes_def entry_at_def)

text \<open>The rename that replaces the file.\<close>

lemma settled_replace:
  assumes s: "settled p B d" and o: "owned_new p t i d" and f: "inode_bytes d i = b" "inode_synced d i"
    and t: "t \<noteq> p" "butlast t = butlast p"
  shows "settled p (insert (Some b) B) (change_names (MoveFile t p i) d)"
    and "content (change_names (MoveFile t p i) d) p = Some b"
proof -
  show "settled p (insert (Some b) B) (change_names (MoveFile t p i) d)"
    by (rule settled_change_names[OF settled_mono[OF s]]) (use o f t in \<open>auto simp: owned_new_def\<close>)
  show "content (change_names (MoveFile t p i) d) p = Some b"
    using f t by (simp add: content_def entry_change_names)
qed

lemma steps_replace:
  assumes "t \<noteq> p" "butlast t = butlast p"
  shows "steps A (\<lambda>d. settled p B d \<and> owned_new p t i d \<and> inode_bytes d i = b \<and> inode_synced d i) (fs_rename t p)
     (\<lambda>_ d. settled p (insert (Some b) B) d \<and> content d p = Some b) (settled p B)"
  unfolding fs_rename_def
  by (rule steps_attempt)
    (use assms in \<open>auto simp: untouched_def settled_replace owned_new_def dest: settled_replace split: if_splits\<close>)


section \<open>Runs without faults\<close>

text \<open>Every call proceeds and nobody else changes the disk; \<open>Q\<close> speaks of the result.\<close>

definition quiet :: "world \<Rightarrow> bool" where
  "quiet w \<longleftrightarrow> (\<forall>n. fates w n = Proceed) \<and> (\<forall>n d. others w n d = d)"

definition runs ::
  "(disk \<Rightarrow> bool) \<Rightarrow> ('e, 'a) io \<Rightarrow> (('e, 'a) result \<Rightarrow> disk \<Rightarrow> bool) \<Rightarrow> bool" where
  "runs P m Q \<longleftrightarrow> (\<forall>w. quiet w \<longrightarrow> P (disk_of w) \<longrightarrow>
     (\<exists>r w'. m w = (Returned r, w') \<and> quiet w' \<and> Q r (disk_of w')))"

lemma runsD:
  "runs P m Q \<Longrightarrow> quiet w \<Longrightarrow> P (disk_of w) \<Longrightarrow> \<exists>r w'. m w = (Returned r, w') \<and> quiet w' \<and> Q r (disk_of w')"
  by (simp add: runs_def)

lemma runs_of: "(\<And>d. P d \<Longrightarrow> Q r d) \<Longrightarrow> runs P (io_of r) Q"
  by (simp add: runs_def io_of_def)

lemma runs_return: "(\<And>d. P d \<Longrightarrow> Q (Ok x) d) \<Longrightarrow> runs P (io_return x) Q"
  by (simp add: runs_def io_return_def)

lemma runs_fail: "(\<And>d. P d \<Longrightarrow> Q (Err e) d) \<Longrightarrow> runs P (io_fail e) Q"
  by (simp add: runs_def io_fail_def)

lemma runs_match:
  assumes "runs P m R" and "\<And>r. runs (R r) (f r) Q"
  shows "runs P (io_match m f) Q"
  using assms unfolding runs_def io_match_def by fastforce

lemma runs_bind:
  assumes "runs P m R" and "\<And>x. runs (R (Ok x)) (f x) Q" and "\<And>e d. R (Err e) d \<Longrightarrow> Q (Err e) d"
  shows "runs P (io_bind m f) Q"
  unfolding io_bind_def by (rule runs_match[OF assms(1)]) (auto intro: assms runs_fail split: sum.split)

lemma runs_map_err:
  assumes "runs P m (\<lambda>r. Q (map_err g r))" shows "runs P (io_map_err g m) Q"
  unfolding io_map_err_def by (rule runs_match[OF assms]) (auto intro: runs_of)

lemma runs_attempt:
  assumes "\<And>d. P d \<Longrightarrow> Q (fst (act d)) (snd (act d))"
  shows "runs P (attempt act part) Q"
  using assms by (auto simp: runs_def attempt_def quiet_def Let_def split_beta)

lemma runs_weaken:
  assumes "runs P m Q" and "\<And>d. P' d \<Longrightarrow> P d" and "\<And>r d. Q r d \<Longrightarrow> Q' r d"
  shows "runs P' m Q'"
  using assms unfolding runs_def by blast

text \<open>A call that succeeds: \<open>yields P m R\<close> has the result \<open>Ok x\<close> with \<open>R x\<close>.\<close>

definition yields :: "(disk \<Rightarrow> bool) \<Rightarrow> ('e, 'a) io \<Rightarrow> ('a \<Rightarrow> disk \<Rightarrow> bool) \<Rightarrow> bool" where
  "yields P m R \<longleftrightarrow> runs P m (\<lambda>r d. \<exists>x. r = Ok x \<and> R x d)"

lemma yields_bind:
  assumes "yields P m R" and "\<And>x. yields (R x) (f x) Q"
  shows "yields P (io_bind m f) Q"
  unfolding yields_def
  by (rule runs_bind[OF assms(1)[unfolded yields_def]])
    (use assms(2) in \<open>auto simp: yields_def\<close>)

lemma yields_runs:
  assumes "yields P m R" and "\<And>x. runs (R x) (f x) Q"
  shows "runs P (io_bind m f) Q"
  by (rule runs_bind[OF assms(1)[unfolded yields_def]]) (use assms(2) in auto)

lemma yields_return: "(\<And>d. P d \<Longrightarrow> R x d) \<Longrightarrow> yields P (io_return x) R"
  unfolding yields_def by (rule runs_return) auto

lemma yields_map_err: "yields P m R \<Longrightarrow> yields P (io_map_err g m) R"
  unfolding yields_def by (rule runs_map_err, erule runs_weaken) auto

lemma yields_weaken:
  "yields P m Q \<Longrightarrow> (\<And>d. P' d \<Longrightarrow> P d) \<Longrightarrow> (\<And>x d. Q x d \<Longrightarrow> Q' x d) \<Longrightarrow> yields P' m Q'"
  unfolding yields_def by (erule runs_weaken) auto

lemma yields_attempt:
  assumes "\<And>d. P d \<Longrightarrow> \<exists>x d'. act d = (Ok x, d') \<and> R x d'"
  shows "yields P (attempt act part) R"
  unfolding yields_def by (rule runs_attempt) (use assms in fastforce)

lemma yields_read: "yields (\<lambda>d. P d \<and> content d q = Some b) (fs_read q) (\<lambda>x d. P d \<and> x = b)"
  unfolding fs_read_def
  by (rule yields_attempt) (auto simp: content_def split: option.splits entry.splits)

lemma yields_exists: "yields P (fs_exists q) (\<lambda>x d. P d \<and> x = (entry_at d q \<noteq> None))"
  unfolding fs_exists_def yields_def
  by (rule runs_match[OF runs_attempt[where Q = "\<lambda>r d. P d \<and> r = Ok (entry_at d q \<noteq> None)"]])
    (auto intro!: runs_return)

lemma yields_open_create:
  assumes "\<And>d. P d \<Longrightarrow> entry_at d q \<noteq> Some DirEntry" and "\<And>d. P d \<Longrightarrow> entry_at d q = None \<Longrightarrow> P (new_file q d)"
  shows "yields P (attempt (\<lambda>d. case entry_at d q of
      Some (FileEntry i) \<Rightarrow> (Ok i, d) | Some DirEntry \<Rightarrow> (Err EISDIR, d)
    | None \<Rightarrow> (Ok (next_inode d), new_file q d)) untouched) (\<lambda>_. P)"
  by (rule yields_attempt) (use assms in \<open>auto split: option.split entry.split\<close>)

end
