(* ===== verification/Commit_Safety.thy ===== *)
theory Commit_Safety
  imports Store_Commit Disk_Logic
begin

text \<open>
  What a commit of the canonical state promises (\<open>compare_and_commit\<close> in
  \<open>rust/crates/persistence/src/atomic.rs\<close>): whatever call fails, wherever the process dies and whatever
  the crash keeps, the store holds the old state or the whole new one, a commit that returns success
  is durable, and a commit whose calls all proceed does exactly what its specification on states says.
\<close>

section \<open>The file steps under faults\<close>

lemma steps_sync_directory: "steps A (settled p B) (sync_directory dir) (\<lambda>_. settled p B) (settled p B)"
  unfolding sync_directory_def by (rule steps_map_err steps_sync_dir)+

lemma steps_crash_here: "steps A P (crash_here injected point) (\<lambda>_. P) P"
  unfolding crash_here_def by (auto intro: steps_return steps_fail)

lemma steps_remove_stale:
  assumes "t \<noteq> p"
  shows "steps A (settled p B) (remove_stale_temporary t) (\<lambda>_. settled p B) (settled p B)"
  unfolding remove_stale_temporary_def
  by (rule steps_match[OF steps_remove_other[OF assms]])
    (auto intro: steps_sync_directory steps_return steps_fail)

lemma steps_discard:
  assumes "t \<noteq> p"
  shows "steps A (settled p B) (discard_temporary dir t) (\<lambda>_. settled p B) (settled p B)"
  unfolding discard_temporary_def
  by (rule steps_match[OF steps_remove_other[OF assms]])
    (auto intro!: steps_return steps_match[OF steps_sync_directory])

lemma steps_or_discard:
  assumes m: "steps A P m Q (settled p B)" and t: "t \<noteq> p"
  shows "steps A P (or_discard t m) Q (settled p B)"
  unfolding or_discard_def
proof (rule steps_match[OF m])
  show "steps A (Q x) (case Inr x of Inl e \<Rightarrow> io_bind (discard_temporary [] t) (\<lambda>_. io_fail e)
      | Inr u \<Rightarrow> io_return ()) Q (settled p B)" for x
    by (auto intro: steps_return)
  show "steps A (settled p B) (case Inl e of Inl e \<Rightarrow> io_bind (discard_temporary [] t) (\<lambda>_. io_fail e)
      | Inr u \<Rightarrow> io_return ()) Q (settled p B)" for e
    by (simp, rule steps_bind[OF steps_discard[OF t] steps_fail])
qed

lemma steps_write_synced:
  "steps A (\<lambda>d. settled p B d \<and> owned_new p t i d \<and> inode_bytes d i = []) (write_synced i b)
     (\<lambda>_ d. settled p B d \<and> owned_new p t i d \<and> inode_bytes d i = b \<and> inode_synced d i) (settled p B)"
  unfolding write_synced_def
  by (rule steps_bind[OF steps_map_err[OF steps_write_all] steps_map_err[OF steps_sync_written]])

lemma steps_open_new:
  "t \<noteq> p \<Longrightarrow> steps A (settled p B) (open_new_private t)
     (\<lambda>i d. settled p B d \<and> owned_new p t i d \<and> inode_bytes d i = []) (settled p B)"
  unfolding open_new_private_def by (rule steps_map_err[OF steps_create_new])

lemma steps_replace_file:
  assumes "t \<noteq> p" "butlast t = butlast p"
  shows "steps A (\<lambda>d. settled p B d \<and> owned_new p t i d \<and> inode_bytes d i = b \<and> inode_synced d i) (replace_file t p)
     (\<lambda>_ d. settled p (insert (Some b) B) d \<and> content d p = Some b) (settled p B)"
  unfolding replace_file_def by (rule steps_map_err[OF steps_replace[OF assms]])

lemma steps_sync_parent:
  assumes "butlast p = dir"
  shows "steps A (\<lambda>d. settled p B d \<and> content d p = x) (sync_directory dir) (\<lambda>_. settled p {x}) (settled p B)"
  unfolding sync_directory_def assms[symmetric] by (rule steps_map_err[OF steps_sync_own])

lemma steps_write_state:
  assumes t: "t \<noteq> state_path" "butlast t = []"
  shows "steps A (settled state_path {Some b}) (write_state injected t b') (\<lambda>_. settled state_path {Some b'})
     (settled state_path {Some b', Some b})"
proof -
  let ?E = "settled state_path {Some b', Some b}"
  have E: "settled state_path {Some b} d \<Longrightarrow> ?E d" for d by (rule settled_mono) auto
  note weak = steps_more[OF _ E]
  have last: "steps A (\<lambda>d. ?E d \<and> content d state_path = Some b')
      (io_bind (crash_here injected AfterRename) (\<lambda>_. sync_directory [])) (\<lambda>_. settled state_path {Some b'}) ?E"
    by (rule steps_bind[OF steps_weaken[OF steps_crash_here[of _ "\<lambda>d. ?E d \<and> content d state_path = Some b'"]]
          steps_sync_parent]) auto
  have renamed: "steps A (\<lambda>d. settled state_path {Some b} d \<and> owned_new state_path t i d \<and> inode_bytes d i = b'
        \<and> inode_synced d i) (or_discard t (replace_file t state_path))
      (\<lambda>_ d. ?E d \<and> content d state_path = Some b') ?E" for i
    by (rule weak[OF steps_or_discard[OF steps_replace_file]]) (use t in auto)
  have tail: "steps A (\<lambda>d. settled state_path {Some b} d \<and> owned_new state_path t i d \<and> inode_bytes d i = b'
        \<and> inode_synced d i) (io_bind (or_discard t (replace_file t state_path))
        (\<lambda>_. io_bind (crash_here injected AfterRename) (\<lambda>_. sync_directory [])))
      (\<lambda>_. settled state_path {Some b'}) ?E" for i
    by (rule steps_bind[OF renamed], rule last)
  have crashed: "steps A P (crash_here injected q) (\<lambda>_. P) ?E" if "\<And>d. P d \<Longrightarrow> settled state_path {Some b} d" for P q
    by (rule steps_weaken[OF steps_crash_here[of _ P]]) (use that E in auto)
  show ?thesis
    unfolding write_state_def
    by (intro steps_bind[OF crashed] steps_bind[OF weak[OF steps_remove_stale[OF t(1)]]]
        steps_bind[OF weak[OF steps_open_new[OF t(1)]]]
        steps_bind[OF weak[OF steps_or_discard[OF steps_write_synced t(1)]]] tail) auto
qed


section \<open>The whole commit\<close>

lemma lock_sync_steps: "steps A (settled p B) (lock_sync i) (\<lambda>_. settled p B) (settled p B)"
  unfolding lock_sync_def by (rule steps_map_err[OF steps_sync_file])

lemma steps_read_json: "steps A P (read_json c q) (\<lambda>_. P) P"
  unfolding read_json_def
  by (rule steps_bind[OF steps_map_err[OF steps_read]]) (auto intro!: steps_of)

lemma steps_validate_lease: "steps A P (validate_lease s lease) (\<lambda>_. P) P"
  unfolding validate_lease_def
  by (auto intro!: steps_fail steps_bind[OF steps_read_json] steps_return)

definition commit_locked ::
  "('p, 'r, 'j) state_store \<Rightarrow> lifetime_lease \<Rightarrow> u64 \<Rightarrow>
   (('p, 'r, 'j) canonical_state \<Rightarrow> ('p, 'r, 'j) canonical_state res) \<Rightarrow> (crash_point \<Rightarrow> bool) \<Rightarrow> nat \<Rightarrow>
   (domain_error, unit) io" where
  "commit_locked s lease expected_revision mutate injected state_lock =
     io_bind (validate_lease s lease) (\<lambda>_.
     io_bind (io_map_err io_error (fs_read state_path)) (\<lambda>b.
     io_bind (io_of (decode_canonical_state s b)) (\<lambda>state.
     io_bind (io_of (prepare_commit s expected_revision mutate state)) (\<lambda>(state, b).
     io_bind (write_state injected (state_temporary s (cn_store_revision state)) b) (\<lambda>_.
     lock_sync state_lock)))))"

lemma commit_locked:
  "compare_and_commit_with_crash s lease rv mutate injected
     = io_bind (lock_acquire state_lock_path) (commit_locked s lease rv mutate injected)"
  by (simp add: compare_and_commit_with_crash_def commit_locked_def[abs_def])

text \<open>The commit the store asks for: the old state decoded, changed and encoded again.\<close>

definition commit_result ::
  "('p, 'r, 'j) state_store \<Rightarrow> u64 \<Rightarrow> (('p, 'r, 'j) canonical_state \<Rightarrow> ('p, 'r, 'j) canonical_state res) \<Rightarrow>
   bytes \<Rightarrow> (('p, 'r, 'j) canonical_state \<times> bytes) res" where
  "commit_result s rv mutate b = rbind (decode_canonical_state s b) (prepare_commit s rv mutate)"

lemma temporary_other: "state_temporary s rv \<noteq> state_path" "butlast (state_temporary s rv) = []"
  by (simp_all add: state_temporary_def)

lemma steps_commit_locked:
  "steps A (settled state_path {Some b}) (commit_locked s lease rv mutate injected l)
     (\<lambda>_ d. \<exists>new b'. commit_result s rv mutate b = Ok (new, b') \<and> settled state_path {Some b'} d)
     (settled state_path ({Some b} \<union> {Some b' |b'. \<exists>new. commit_result s rv mutate b = Ok (new, b')}))"
proof -
  let ?E = "settled state_path ({Some b} \<union> {Some b' |b'. \<exists>new. commit_result s rv mutate b = Ok (new, b')})"
  have E: "settled state_path {Some b} d \<Longrightarrow> ?E d" for d by (rule settled_mono) auto
  note weak = steps_more[OF _ E]
  have written: "steps A (settled state_path {Some b}) (io_bind (write_state injected (state_temporary s r) b') (\<lambda>_. lock_sync l))
      (\<lambda>_ d. \<exists>new b'. commit_result s rv mutate b = Ok (new, b') \<and> settled state_path {Some b'} d) ?E"
    if c: "commit_result s rv mutate b = Ok (new, b')" for new b' r
  proof (rule steps_bind)
    show "steps A (settled state_path {Some b}) (write_state injected (state_temporary s r) b')
        (\<lambda>_. settled state_path {Some b'}) ?E"
      by (rule steps_weaken[OF steps_write_state[OF temporary_other]]) (use c in \<open>auto intro: settled_mono\<close>)
    show "steps A (settled state_path {Some b'}) (lock_sync l)
        (\<lambda>_ d. \<exists>new b'. commit_result s rv mutate b = Ok (new, b') \<and> settled state_path {Some b'} d) ?E"
      by (rule steps_weaken[OF lock_sync_steps[of _ state_path "{Some b'}"]]) (use c in \<open>auto intro: settled_mono\<close>)
  qed
  have prepared: "steps A (settled state_path {Some b})
      (io_bind (io_of (prepare_commit s rv mutate state)) (\<lambda>(state, b).
         io_bind (write_state injected (state_temporary s (cn_store_revision state)) b) (\<lambda>_. lock_sync l)))
      (\<lambda>_ d. \<exists>new b'. commit_result s rv mutate b = Ok (new, b') \<and> settled state_path {Some b'} d) ?E"
    if "decode_canonical_state s b = Ok state" for state
  proof (rule steps_bind)
    show "steps A (settled state_path {Some b}) (io_of (prepare_commit s rv mutate state))
        (\<lambda>x d. settled state_path {Some b} d \<and> prepare_commit s rv mutate state = Ok x) ?E"
      by (rule steps_of) (auto intro: E[simplified])
    show "steps A (\<lambda>d. settled state_path {Some b} d \<and> prepare_commit s rv mutate state = Ok x)
        (case x of (state, b) \<Rightarrow> io_bind (write_state injected (state_temporary s (cn_store_revision state)) b)
           (\<lambda>_. lock_sync l))
        (\<lambda>_ d. \<exists>new b'. commit_result s rv mutate b = Ok (new, b') \<and> settled state_path {Some b'} d) ?E" for x
    proof (cases "prepare_commit s rv mutate state = Ok x")
      case True
      then have "commit_result s rv mutate b = Ok (fst x, snd x)" using that by (simp add: commit_result_def)
      from written[OF this] show ?thesis using True by (simp add: split_beta)
    qed (simp add: steps_def)
  qed
  have decoded: "steps A (\<lambda>d. settled state_path {Some b} d \<and> content d state_path = Some b0)
      (io_bind (io_of (decode_canonical_state s b0)) (\<lambda>state.
         io_bind (io_of (prepare_commit s rv mutate state)) (\<lambda>(state, b).
         io_bind (write_state injected (state_temporary s (cn_store_revision state)) b) (\<lambda>_. lock_sync l))))
      (\<lambda>_ d. \<exists>new b'. commit_result s rv mutate b = Ok (new, b') \<and> settled state_path {Some b'} d) ?E" for b0
  proof (rule steps_bind)
    show "steps A (\<lambda>d. settled state_path {Some b} d \<and> content d state_path = Some b0)
        (io_of (decode_canonical_state s b0))
        (\<lambda>x d. settled state_path {Some b} d \<and> decode_canonical_state s b = Ok x) ?E"
      by (rule steps_of) (auto intro: E[simplified] dest: settled_single)
    show "steps A (\<lambda>d. settled state_path {Some b} d \<and> decode_canonical_state s b = Ok x)
        (io_bind (io_of (prepare_commit s rv mutate x)) (\<lambda>(state, b).
          io_bind (write_state injected (state_temporary s (cn_store_revision state)) b) (\<lambda>_. lock_sync l)))
        (\<lambda>_ d. \<exists>new b'. commit_result s rv mutate b = Ok (new, b') \<and> settled state_path {Some b'} d) ?E" for x
      using prepared[of x] by (cases "decode_canonical_state s b = Ok x") (simp_all add: steps_def)
  qed
  show ?thesis
    unfolding commit_locked_def
    by (intro steps_bind[OF weak[OF steps_validate_lease]] steps_bind[OF weak[OF steps_map_err[OF steps_read]]]
        decoded) auto
qed

text \<open>
  C7: Whatever system call of a commit fails, wherever the process dies and whatever a crash then keeps of
  the disk, the state file afterwards holds the bytes it had or the whole bytes of the new state, never
  anything else; a commit that answered success is durable.
\<close>

theorem commit_crash_atomic:
  assumes granted: "lock_acquire state_lock_path w = (Returned (Ok l), w')"
    and before: "settled state_path {Some b} (disk_of w')"
    and commit: "compare_and_commit_with_crash s lease rv mutate injected w = (res, w'')"
  shows "content (crash kept torn (disk_of w'')) state_path = Some b \<and> res \<noteq> Returned (Ok ())
    \<or> (\<exists>new b'. commit_result s rv mutate b = Ok (new, b')
         \<and> content (crash kept torn (disk_of w'')) state_path = Some b')"
proof -
  have c: "commit_locked s lease rv mutate injected l w' = (res, w'')"
    using granted commit by (simp add: commit_locked io_bind_def io_match_def)
  note t = steps_commit_locked[of "\<lambda>_. True" b s lease rv mutate injected l, unfolded steps_def, rule_format,
      OF TrueI before, unfolded c, simplified]
  show ?thesis
  proof (cases "res = Returned (Ok ())")
    case True
    then show ?thesis using t by (fastforce dest: settled_crash)
  next
    case False
    then have "settled state_path ({Some b} \<union> {Some b' |b'. \<exists>new. commit_result s rv mutate b = Ok (new, b')}) (disk_of w'')"
      using t by (auto simp: lands_def split: outcome.splits sum.splits)
    then show ?thesis using False by (fastforce dest: settled_crash)
  qed
qed


section \<open>The commit refines its specification on states\<close>

text \<open>
  The abstraction of a disk is the state its store decodes to; the specification changes it in one
  step. \<open>store_ok\<close> is what a host keeps true of the base: the three files are settled, and the
  identities are those of the lease.
\<close>

definition stored_state :: "('p, 'r, 'j) state_store \<Rightarrow> disk \<Rightarrow> ('p, 'r, 'j) canonical_state option" where
  "stored_state s d = (case content d state_path of None \<Rightarrow> None
     | Some b \<Rightarrow> (case decode_canonical_state s b of Inl e \<Rightarrow> None | Inr c \<Rightarrow> Some c))"

definition commit_spec ::
  "('p, 'r, 'j) state_store \<Rightarrow> u64 \<Rightarrow> (('p, 'r, 'j) canonical_state \<Rightarrow> ('p, 'r, 'j) canonical_state res) \<Rightarrow>
   ('p, 'r, 'j) canonical_state \<Rightarrow> unit res \<times> ('p, 'r, 'j) canonical_state" where
  "commit_spec s rv mutate c =
     (case prepare_commit s rv mutate c of Inl e \<Rightarrow> (Err e, c) | Inr (new, _) \<Rightarrow> (Ok (), new))"

definition lease_files :: "('p, 'r, 'j) state_store \<Rightarrow> lifetime_lease \<Rightarrow> bytes \<Rightarrow> bytes \<Rightarrow> bool" where
  "lease_files s lease ob lb \<longleftrightarrow> le_base lease = sc_base s \<and> fc_decode (sc_live s) lb = Some (le_live lease)
     \<and> (case fc_decode (sc_owner s) ob of None \<Rightarrow> False
        | Some owner \<Rightarrow> fence_matches (live_fence (le_live lease)) owner (le_live lease))"

definition base_ok :: "('p, 'r, 'j) state_store \<Rightarrow> bytes \<Rightarrow> bytes \<Rightarrow> disk \<Rightarrow> bool" where
  "base_ok s ob lb d \<longleftrightarrow> settled owner_path {Some ob} d \<and> settled live_path {Some lb} d
     \<and> entry_at d state_lock_path \<noteq> Some DirEntry \<and> (\<forall>r. entry_at d (state_temporary s r) \<noteq> Some DirEntry)"

definition store_ok :: "('p, 'r, 'j) state_store \<Rightarrow> lifetime_lease \<Rightarrow> disk \<Rightarrow> bool" where
  "store_ok s lease d \<longleftrightarrow> (\<exists>ob lb b. lease_files s lease ob lb \<and> base_ok s ob lb d \<and> settled state_path {Some b} d)"

lemma path_neqs:
  "state_temporary s r \<noteq> owner_path" "state_temporary s r \<noteq> live_path" "state_temporary s r \<noteq> state_lock_path"
  by (simp_all add: state_temporary_def)

lemma no_new_directory [disk_simps]:
  "entry_at (change_names (DropEntry q) d) p = Some DirEntry \<Longrightarrow> entry_at d p = Some DirEntry"
  "entry_at (change_names (SetEntry q (FileEntry i)) d) p = Some DirEntry \<Longrightarrow> entry_at d p = Some DirEntry"
  "entry_at (change_names (MoveFile q q' i) d) p = Some DirEntry \<Longrightarrow> entry_at d p = Some DirEntry"
  "entry_at (new_file q d) p = Some DirEntry \<Longrightarrow> entry_at d p = Some DirEntry"
  "entry_at (write_inode i b d) p = Some DirEntry \<Longrightarrow> entry_at d p = Some DirEntry"
  "entry_at (d\<lparr>inode_synced := f\<rparr>) p = Some DirEntry \<Longrightarrow> entry_at d p = Some DirEntry"
  "entry_at (sync_dir q d) p = Some DirEntry \<Longrightarrow> entry_at d p = Some DirEntry"
  by (auto simp: entry_at_def change_names_def new_file_def write_inode_def sync_dir_def split: if_splits)

lemma base_ok_keep:
  assumes "base_ok s ob lb d" and "settled owner_path {Some ob} d'" "settled live_path {Some lb} d'"
    and "\<And>p. entry_at d' p = Some DirEntry \<Longrightarrow> entry_at d p = Some DirEntry"
  shows "base_ok s ob lb d'"
  using assms unfolding base_ok_def by blast

lemma base_ok_changes:
  assumes b: "base_ok s ob lb d" and q: "q \<noteq> owner_path" "q \<noteq> live_path"
  shows "base_ok s ob lb (change_names (DropEntry q) d)" "base_ok s ob lb (new_file q d)"
    "base_ok s ob lb (change_names (MoveFile q state_path i) d)"
proof -
  have f: "settled owner_path {Some ob} d" "settled live_path {Some lb} d" using b by (simp_all add: base_ok_def)
  show "base_ok s ob lb (change_names (DropEntry q) d)"
    by (rule base_ok_keep[OF b settled_drop[OF f(1) q(1)] settled_drop[OF f(2) q(2)] no_new_directory(1)])
  show "base_ok s ob lb (new_file q d)"
    by (rule base_ok_keep[OF b settled_new_file(1)[OF f(1) q(1)] settled_new_file(1)[OF f(2) q(2)]
          no_new_directory(4)])
  show "base_ok s ob lb (change_names (MoveFile q state_path i) d)"
    by (rule base_ok_keep[OF b settled_change_names[OF f(1)] settled_change_names[OF f(2)] no_new_directory(3)])
      (use q in auto)
qed

lemma base_ok_neutral:
  assumes b: "base_ok s ob lb d"
  shows "base_ok s ob lb (sync_dir r d)" "base_ok s ob lb (d\<lparr>inode_synced := (inode_synced d)(j := True)\<rparr>)"
    "owned_new owner_path t j d \<Longrightarrow> owned_new live_path t j d \<Longrightarrow> base_ok s ob lb (write_inode j x d)"
proof -
  have f: "settled owner_path {Some ob} d" "settled live_path {Some lb} d" using b by (simp_all add: base_ok_def)
  show "base_ok s ob lb (sync_dir r d)"
    by (rule base_ok_keep[OF b settled_sync_dir(1)[OF f(1)] settled_sync_dir(1)[OF f(2)] no_new_directory(7)])
  show "base_ok s ob lb (d\<lparr>inode_synced := (inode_synced d)(j := True)\<rparr>)"
    by (rule base_ok_keep[OF b settled_sync_inode[OF f(1)] settled_sync_inode[OF f(2)] no_new_directory(6)])
  show "base_ok s ob lb (write_inode j x d)" if "owned_new owner_path t j d" "owned_new live_path t j d"
    by (rule base_ok_keep[OF b settled_write_inode(1)[OF f(1) that(1)] settled_write_inode(1)[OF f(2) that(2)]
          no_new_directory(5)])
qed

lemma entry_drop: "entry_at (change_names (DropEntry q) d) q = None"
  by (simp add: entry_at_def change_names_def)

lemma base_ok_entries:
  "base_ok s ob lb d \<Longrightarrow> entry_at d state_lock_path \<noteq> Some DirEntry"
  "base_ok s ob lb d \<Longrightarrow> entry_at d (state_temporary s r) \<noteq> Some DirEntry"
  by (simp_all add: base_ok_def)

text \<open>The file steps when no call fails: each keeps the base and does its work on the state file.\<close>

definition at_state :: "('p, 'r, 'j) state_store \<Rightarrow> bytes \<Rightarrow> bytes \<Rightarrow> bytes \<Rightarrow> disk \<Rightarrow> bool" where
  "at_state s ob lb b d \<longleftrightarrow> base_ok s ob lb d \<and> settled state_path {Some b} d"

definition owned_temporary ::
  "('p, 'r, 'j) state_store \<Rightarrow> bytes \<Rightarrow> bytes \<Rightarrow> bytes \<Rightarrow> path \<Rightarrow> nat \<Rightarrow> disk \<Rightarrow> bool" where
  "owned_temporary s ob lb b t i d \<longleftrightarrow> at_state s ob lb b d
     \<and> owned_new owner_path t i d \<and> owned_new live_path t i d \<and> owned_new state_path t i d"

lemma at_stateD:
  assumes "at_state s ob lb b d"
  shows "base_ok s ob lb d" "settled state_path {Some b} d" "settled owner_path {Some ob} d" "settled live_path {Some lb} d"
    "content d state_path = Some b" "content d owner_path = Some ob" "content d live_path = Some lb"
  using assms by (auto simp: at_state_def base_ok_def intro: settled_single)

lemma yields_remove_stale:
  "yields (at_state s ob lb b) (remove_stale_temporary (state_temporary s r))
     (\<lambda>_ d. at_state s ob lb b d \<and> entry_at d (state_temporary s r) = None)"
  unfolding remove_stale_temporary_def yields_def
proof (rule runs_match)
  let ?t = "state_temporary s r"
  let ?R = "\<lambda>r d. at_state s ob lb b d \<and> entry_at d ?t = None \<and> (r = Ok () \<or> r = Err ENOENT)"
  show "runs (at_state s ob lb b) (fs_remove_file ?t) ?R"
    unfolding fs_remove_file_def
    by (rule runs_attempt)
      (auto simp: at_state_def path_neqs temporary_other base_ok_changes settled_drop base_ok_entries
        entry_drop split: option.splits entry.splits)
  have "yields (?R r) (sync_directory []) (\<lambda>_ d. at_state s ob lb b d \<and> entry_at d ?t = None)" for r
    unfolding sync_directory_def fs_sync_dir_def
    by (rule yields_map_err, rule yields_attempt)
      (auto simp: at_state_def entry_sync_dir intro: base_ok_neutral settled_sync_dir)
  then show "runs (?R r)
      (case r of Inl e \<Rightarrow> if e = ENOENT then io_return () else io_fail (io_error e) | Inr x \<Rightarrow> sync_directory [])
      (\<lambda>r d. \<exists>x. r = Ok x \<and> at_state s ob lb b d \<and> entry_at d ?t = None)" for r
    by (cases r) (auto simp: runs_def io_fail_def io_return_def yields_def)
qed

lemma yields_open_new:
  assumes "t = state_temporary s r"
  shows "yields (\<lambda>d. at_state s ob lb b d \<and> entry_at d t = None) (open_new_private t)
     (\<lambda>i d. owned_temporary s ob lb b t i d \<and> inode_bytes d i = [])"
  unfolding open_new_private_def fs_create_new_def
proof (rule yields_map_err, rule yields_attempt)
  fix d assume d: "at_state s ob lb b d \<and> entry_at d t = None"
  have t: "t \<noteq> owner_path" "t \<noteq> live_path" "t \<noteq> state_path" "butlast t = []"
    by (simp_all add: assms path_neqs temporary_other)
  have "owned_temporary s ob lb b t (next_inode d) (new_file t d)"
    using d settled_new_file(1,2)[OF _ t(1), of "{Some ob}" d] settled_new_file(1,2)[OF _ t(2), of "{Some lb}" d]
      settled_new_file(1,2)[OF _ t(3), of "{Some b}" d] base_ok_changes(2)[OF _ t(1,2)]
    by (auto simp: owned_temporary_def at_state_def dest: at_stateD(3,4)[unfolded at_state_def, OF conjI])
  then show "\<exists>x d'. (if entry_at d t \<noteq> None then (Err EEXIST, d)
      else if butlast t \<noteq> [] \<and> entry_at d (butlast t) \<noteq> Some DirEntry then (Err ENOENT, d)
      else (Ok (next_inode d), new_file t d)) = (Ok x, d')
      \<and> owned_temporary s ob lb b t x d' \<and> inode_bytes d' x = []"
    using d t(4) by (simp add: settled_new_file(3) new_file_def)
qed

lemma yields_write_synced:
  "yields (\<lambda>d. owned_temporary s ob lb b t i d \<and> inode_bytes d i = []) (write_synced i b')
     (\<lambda>_ d. owned_temporary s ob lb b t i d \<and> inode_bytes d i = b' \<and> inode_synced d i)"
  unfolding write_synced_def
proof (rule yields_bind)
  show "yields (\<lambda>d. owned_temporary s ob lb b t i d \<and> inode_bytes d i = []) (io_map_err io_error (fs_write_all i b'))
      (\<lambda>_ d. owned_temporary s ob lb b t i d \<and> inode_bytes d i = b')"
    unfolding fs_write_all_def
    by (rule yields_map_err, rule yields_attempt)
      (auto simp: owned_temporary_def at_state_def write_inode_bytes base_ok_def
        intro: base_ok_neutral(3)[unfolded base_ok_def] settled_write_inode)
  show "yields (\<lambda>d. owned_temporary s ob lb b t i d \<and> inode_bytes d i = b') (io_map_err io_error (fs_sync_file i))
      (\<lambda>_ d. owned_temporary s ob lb b t i d \<and> inode_bytes d i = b' \<and> inode_synced d i)"
    unfolding fs_sync_file_def
    by (rule yields_map_err, rule yields_attempt)
      (auto simp: owned_temporary_def at_state_def settled_sync_inode owned_new_def outcomes_def entry_at_def
        intro: base_ok_neutral)
qed

lemma yields_replace:
  assumes "t = state_temporary s r"
  shows "yields (\<lambda>d. owned_temporary s ob lb b t i d \<and> inode_bytes d i = b' \<and> inode_synced d i)
     (replace_file t state_path)
     (\<lambda>_ d. base_ok s ob lb d \<and> settled state_path {Some b', Some b} d \<and> content d state_path = Some b')"
  unfolding replace_file_def fs_rename_def
proof (rule yields_map_err, rule yields_attempt)
  fix d assume d: "owned_temporary s ob lb b t i d \<and> inode_bytes d i = b' \<and> inode_synced d i"
  then have s: "settled state_path {Some b} d" "owned_new state_path t i d" "base_ok s ob lb d"
    and e: "entry_at d t = Some (FileEntry i)"
    by (auto simp: owned_temporary_def at_state_def owned_new_def)
  have t: "t \<noteq> owner_path" "t \<noteq> live_path" "t \<noteq> state_path" "butlast t = butlast state_path"
    by (simp_all add: assms path_neqs temporary_other)
  have "entry_at d state_path \<noteq> Some DirEntry" by (rule settled_not_dir[OF s(1)])
  then show "\<exists>x d'. (case entry_at d t of None \<Rightarrow> (Err ENOENT, d)
      | Some DirEntry \<Rightarrow> if entry_at d state_path \<noteq> None then (Err EEXIST, d)
          else (Ok (), change_names (MoveTree t state_path) d)
      | Some (FileEntry i) \<Rightarrow> if entry_at d state_path = Some DirEntry then (Err EISDIR, d)
          else (Ok (), change_names (MoveFile t state_path i) d)) = (Ok x, d')
      \<and> base_ok s ob lb d' \<and> settled state_path {Some b', Some b} d' \<and> content d' state_path = Some b'"
    using e settled_replace[OF s(1,2) _ _ t(3,4), of b'] d base_ok_changes(3)[OF s(3) t(1,2)] by auto
qed

lemma yields_sync_state:
  "yields (\<lambda>d. base_ok s ob lb d \<and> settled state_path {Some b', Some b} d \<and> content d state_path = Some b')
     (sync_directory []) (\<lambda>_. at_state s ob lb b')"
  unfolding sync_directory_def fs_sync_dir_def
  by (rule yields_map_err, rule yields_attempt)
    (auto simp: at_state_def intro: base_ok_neutral
      dest: settled_synced[where p = state_path, simplified])

lemma yields_or_discard: "yields P m Q \<Longrightarrow> yields P (or_discard t m) Q"
  unfolding or_discard_def yields_def
  by (erule runs_match) (auto simp: runs_def io_return_def split: sum.split)

lemma yields_write_state:
  "yields (at_state s ob lb b) (write_state (\<lambda>_. False) (state_temporary s r) b') (\<lambda>_. at_state s ob lb b')"
  unfolding write_state_def crash_here_def if_False io_bind_return
  by (intro yields_bind[OF yields_remove_stale]
      yields_bind[OF yields_open_new[OF refl]] yields_bind[OF yields_or_discard[OF yields_write_synced]]
      yields_bind[OF yields_or_discard[OF yields_replace[OF refl]]] yields_sync_state)


text \<open>The whole commit: it waits for the lock, then does what the specification says.\<close>

lemma yields_lock:
  "yields (at_state s ob lb b) (lock_acquire state_lock_path) (\<lambda>_. at_state s ob lb b)"
proof -
  have wait: "yields P (lock_granted i) (\<lambda>_. P)" for P and i :: nat
    by (auto simp: yields_def runs_def lock_granted_def quiet_def)
  have nop: "yields P (attempt (\<lambda>d. (Ok (), d)) untouched) (\<lambda>_. P)" for P
    by (rule yields_attempt) auto
  show ?thesis
    unfolding lock_acquire_def fs_open_create_def
    by (intro yields_map_err yields_bind[OF yields_open_create] yields_bind[OF nop] wait)
      (auto simp: at_state_def intro: base_ok_changes settled_new_file dest: base_ok_entries)
qed

lemma yields_json:
  assumes "fc_decode c x = Some v"
  shows "yields (\<lambda>d. P d \<and> content d q = Some x) (read_json c q) (\<lambda>y d. P d \<and> y = v)"
  unfolding read_json_def
  by (rule yields_bind[OF yields_map_err[OF yields_read]])
    (use assms in \<open>auto simp: yields_def runs_def io_of_def\<close>)

lemma yields_validate_lease:
  assumes "lease_files s lease ob lb"
  shows "yields (at_state s ob lb b) (validate_lease s lease) (\<lambda>_. at_state s ob lb b)"
proof -
  obtain owner where o: "fc_decode (sc_owner s) ob = Some owner"
      "fence_matches (live_fence (le_live lease)) owner (le_live lease)" "le_base lease = sc_base s"
      "fc_decode (sc_live s) lb = Some (le_live lease)"
    using assms by (auto simp: lease_files_def split: option.splits)
  have owner: "yields (at_state s ob lb b) (read_json (sc_owner s) owner_path) (\<lambda>y d. at_state s ob lb b d \<and> y = owner)"
    by (rule yields_weaken[OF yields_json[OF o(1)]]) (auto dest: at_stateD)
  have live: "yields (\<lambda>d. at_state s ob lb b d \<and> y = owner) (read_json (sc_live s) live_path)
      (\<lambda>x d. at_state s ob lb b d \<and> y = owner \<and> x = le_live lease)" for y
    by (rule yields_weaken[OF yields_json[OF o(4)]]) (auto dest: at_stateD)
  show ?thesis
    unfolding validate_lease_def o(3)
    by (simp, intro yields_bind[OF owner] yields_bind[OF live])
      (use o(2) in \<open>auto simp: yields_def runs_def io_return_def\<close>)
qed

lemma runs_commit:
  assumes lease: "lease_files s lease ob lb"
  shows "runs (at_state s ob lb b) (compare_and_commit s lease rv mutate)
     (\<lambda>r d. r = map_sum id (\<lambda>_. ()) (commit_result s rv mutate b)
        \<and> at_state s ob lb (case commit_result s rv mutate b of Inl e \<Rightarrow> b | Inr (_, b') \<Rightarrow> b') d)"
proof -
  let ?Q = "\<lambda>r d. r = map_sum id (\<lambda>_. ()) (commit_result s rv mutate b)
        \<and> at_state s ob lb (case commit_result s rv mutate b of Inl e \<Rightarrow> b | Inr (_, b') \<Rightarrow> b') d"
  have read: "yields (at_state s ob lb b) (io_map_err io_error (fs_read state_path))
      (\<lambda>y d. at_state s ob lb b d \<and> y = b)"
    by (rule yields_weaken[OF yields_map_err[OF yields_read]]) (auto dest: at_stateD)
  have sync: "yields (at_state s ob lb c) (lock_sync l) (\<lambda>_. at_state s ob lb c)" for c l
    unfolding lock_sync_def fs_sync_file_def
    by (rule yields_map_err, rule yields_attempt)
      (auto simp: at_state_def settled_sync_inode intro: base_ok_neutral)
  have writing: "runs (at_state s ob lb b)
      (io_bind (write_state (\<lambda>_. False) (state_temporary s r) b') (\<lambda>_. lock_sync l)) ?Q"
    if "commit_result s rv mutate b = Ok (new, b')" for new b' l r
    by (rule yields_runs[OF yields_write_state])
      (use sync[of b' l, unfolded yields_def] that in \<open>auto elim: runs_weaken\<close>)
  have locked: "runs (\<lambda>d. at_state s ob lb b d \<and> y = b)
      (io_bind (io_of (decode_canonical_state s y)) (\<lambda>state.
         io_bind (io_of (prepare_commit s rv mutate state)) (\<lambda>(state, b).
         io_bind (write_state (\<lambda>_. False) (state_temporary s (cn_store_revision state)) b) (\<lambda>_. lock_sync l)))) ?Q"
    for y l
  proof (cases "commit_result s rv mutate b")
    case (Inl e)
    then show ?thesis
      by (cases "decode_canonical_state s b")
        (auto simp: runs_def commit_result_def io_bind_def io_match_def io_of_def io_fail_def)
  next
    case (Inr x)
    then obtain state new b' where dec: "decode_canonical_state s b = Ok state"
        "prepare_commit s rv mutate state = Ok (new, b')" and x: "x = (new, b')"
      by (cases x) (auto simp: commit_result_def rbind_eq_Ok_iff)
    show ?thesis
    proof (cases "y = b")
      case True
      then show ?thesis using writing[of new b'] Inr dec x by simp
    qed (simp add: runs_def)
  qed
  show ?thesis
    unfolding compare_and_commit_def compare_and_commit_with_crash_def
    by (intro yields_runs[OF yields_lock] yields_runs[OF yields_validate_lease[OF lease]] yields_runs[OF read] locked)
qed


text \<open>The codec of the state file: what \<open>serde_json\<close> writes it reads back.\<close>

definition codec_faithful :: "'v file_codec \<Rightarrow> bool" where
  "codec_faithful c \<longleftrightarrow> (\<forall>v b. fc_encode c v = Some b \<longrightarrow> fc_decode c b = Some v)"

lemma prepared_decodes:
  assumes "codec_faithful (sc_state s)" and "prepare_commit s rv mutate c = Ok (new, b)"
  shows "decode_canonical_state s b = Ok new"
  using assms
  by (auto simp: prepare_commit_def Let_def rbind_eq_Ok_iff encode_json_def codec_faithful_def
      decode_canonical_state_def not_less validate_state_def split: if_splits)

lemma runs_commit_spec:
  assumes "codec_faithful (sc_state s)" and "lease_files s lease ob lb"
    and old: "decode_canonical_state s b = Ok c"
  shows "runs (at_state s ob lb b) (compare_and_commit s lease rv mutate)
     (\<lambda>r d. r = fst (commit_spec s rv mutate c)
        \<and> (\<exists>b'. at_state s ob lb b' d \<and> decode_canonical_state s b' = Ok (snd (commit_spec s rv mutate c))))"
proof (rule runs_weaken[OF runs_commit[OF assms(2)]])
  fix r d
  assume "r = map_sum id (\<lambda>_. ()) (commit_result s rv mutate b)
    \<and> at_state s ob lb (case commit_result s rv mutate b of Inl e \<Rightarrow> b | Inr (_, b') \<Rightarrow> b') d"
  then show "r = fst (commit_spec s rv mutate c)
      \<and> (\<exists>b'. at_state s ob lb b' d \<and> decode_canonical_state s b' = Ok (snd (commit_spec s rv mutate c)))"
    using old prepared_decodes[OF assms(1), of rv mutate c]
    by (cases "prepare_commit s rv mutate c") (auto simp: commit_result_def commit_spec_def)
qed

fun commit_all ::
  "('p, 'r, 'j) state_store \<Rightarrow> lifetime_lease \<Rightarrow>
   (u64 \<times> (('p, 'r, 'j) canonical_state \<Rightarrow> ('p, 'r, 'j) canonical_state res)) list \<Rightarrow> world \<Rightarrow>
   (domain_error, unit) outcome list \<times> world" where
  "commit_all s lease [] w = ([], w)"
| "commit_all s lease ((rv, mutate) # cs) w =
     (case compare_and_commit s lease rv mutate w of (r, w') \<Rightarrow>
      case commit_all s lease cs w' of (rs, w'') \<Rightarrow> (r # rs, w''))"

fun spec_all ::
  "('p, 'r, 'j) state_store \<Rightarrow>
   (u64 \<times> (('p, 'r, 'j) canonical_state \<Rightarrow> ('p, 'r, 'j) canonical_state res)) list \<Rightarrow>
   ('p, 'r, 'j) canonical_state \<Rightarrow> unit res list \<times> ('p, 'r, 'j) canonical_state" where
  "spec_all s [] c = ([], c)"
| "spec_all s ((rv, mutate) # cs) c =
     (case commit_spec s rv mutate c of (r, c') \<Rightarrow>
      case spec_all s cs c' of (rs, c'') \<Rightarrow> (r # rs, c''))"

lemma commit_all_simulates:
  assumes faithful: "codec_faithful (sc_state s)" and lease: "lease_files s lease ob lb"
  shows "quiet w \<Longrightarrow> at_state s ob lb b (disk_of w) \<Longrightarrow> decode_canonical_state s b = Ok c \<Longrightarrow>
    \<exists>w' b'. commit_all s lease cs w = (map Returned (fst (spec_all s cs c)), w') \<and> quiet w'
      \<and> at_state s ob lb b' (disk_of w') \<and> decode_canonical_state s b' = Ok (snd (spec_all s cs c))"
proof (induction cs arbitrary: w b c)
  case Nil
  then show ?case by auto
next
  case (Cons x cs)
  obtain rv mutate where x: "x = (rv, mutate)" by fastforce
  obtain w1 b1 where one: "compare_and_commit s lease rv mutate w = (Returned (fst (commit_spec s rv mutate c)), w1)"
      "quiet w1" "at_state s ob lb b1 (disk_of w1)"
      "decode_canonical_state s b1 = Ok (snd (commit_spec s rv mutate c))"
    using runsD[OF runs_commit_spec[OF faithful lease Cons.prems(3)] Cons.prems(1,2)] by fastforce
  from Cons.IH[OF one(2-4)] one(1) show ?case by (auto simp: x split_beta)
qed

lemma stored_at_state: "at_state s ob lb b d \<Longrightarrow> decode_canonical_state s b = Ok c \<Longrightarrow> stored_state s d = Some c"
  by (simp add: stored_state_def at_stateD)


end
