(* ===== verification/Reset_Safety.thy ===== *)
theory Reset_Safety
  imports Commit_Safety
begin

text \<open>
  What the fence and the recorded reset promise under faults: a writer whose identity is not the live
  one changes nothing, and a reset interrupted anywhere leaves its intent behind until the target owner
  and the empty state are durable (\<open>validate_lease\<close> and \<open>recover_confirmed_reset\<close> in
  \<open>rust/crates/persistence/src/atomic.rs\<close>).
\<close>

section \<open>Computations that leave a file alone\<close>

definition leaves :: "((nat \<Rightarrow> disk \<Rightarrow> disk) \<Rightarrow> bool) \<Rightarrow> path \<Rightarrow> ('e, 'a) io \<Rightarrow> bool" where
  "leaves A p m \<longleftrightarrow> (\<forall>B. steps A (settled p B) m (\<lambda>_. settled p B) (settled p B))"

lemma leavesI: "(\<And>B. steps A (settled p B) m (\<lambda>_. settled p B) (settled p B)) \<Longrightarrow> leaves A p m"
  by (simp add: leaves_def)

lemma leavesD: "leaves A p m \<Longrightarrow> steps A (settled p B) m (\<lambda>_. settled p B) (settled p B)"
  by (simp add: leaves_def)

named_theorems leaves_intros \<open>computations that leave a file alone\<close>

lemma leaves_return [leaves_intros]: "leaves A p (io_return x)"
  by (auto intro!: leavesI steps_return)

lemma leaves_fail [leaves_intros]: "leaves A p (io_fail e)"
  by (auto intro!: leavesI steps_fail)

lemma leaves_of [leaves_intros]: "leaves A p (io_of r)"
  by (auto intro!: leavesI steps_of)

lemma leaves_match [leaves_intros]:
  "leaves A p m \<Longrightarrow> (\<And>r. leaves A p (f r)) \<Longrightarrow> leaves A p (io_match m f)"
  by (rule leavesI, rule steps_match[OF leavesD]) (auto intro: leavesD)

lemma leaves_bind [leaves_intros]:
  "leaves A p m \<Longrightarrow> (\<And>x. leaves A p (f x)) \<Longrightarrow> leaves A p (io_bind m f)"
  by (rule leavesI, rule steps_bind[OF leavesD]) (auto intro: leavesD)

lemma leaves_map_err [leaves_intros]: "leaves A p m \<Longrightarrow> leaves A p (io_map_err g m)"
  by (rule leavesI, rule steps_map_err, erule leavesD)

lemma leaves_if [leaves_intros]: "(b \<Longrightarrow> leaves A p m) \<Longrightarrow> (\<not> b \<Longrightarrow> leaves A p m') \<Longrightarrow> leaves A p (if b then m else m')"
  by simp

lemma leaves_read [leaves_intros]: "leaves A p (fs_read q)"
  by (rule leavesI, rule steps_weaken[OF steps_read]) auto

lemma leaves_exists [leaves_intros]: "leaves A p (fs_exists q)"
  by (rule leavesI, rule steps_exists)

lemma leaves_remove [leaves_intros]: "q \<noteq> p \<Longrightarrow> leaves A p (fs_remove_file q)"
  by (rule leavesI, rule steps_remove_other)

lemma leaves_sync_dir [leaves_intros]: "leaves A p (fs_sync_dir q)"
  by (rule leavesI, rule steps_sync_dir)

lemma leaves_create_dir [leaves_intros]: "q \<noteq> p \<Longrightarrow> leaves A p (fs_create_dir q)"
  unfolding fs_create_dir_def
  by (rule leavesI, rule steps_attempt) (auto simp: untouched_def settled_set split: if_splits)

lemma leaves_remove_dir [leaves_intros]: "\<not> beneath q p \<Longrightarrow> leaves A p (fs_remove_dir_all q)"
  unfolding fs_remove_dir_all_def
  by (rule leavesI, rule steps_attempt)
    (auto simp: untouched_def intro: settled_change_names split: if_splits)

lemma leaves_rename_tree [leaves_intros]:
  assumes "\<not> beneath q p" "\<not> beneath r p"
  shows "leaves A p (fs_rename q r)"
proof -
  have "p \<noteq> q" "p \<noteq> r" using assms by (auto simp: beneath_def)
  then have "settled p B (change_names (MoveTree q r) d)" "settled p B (change_names (MoveFile q r i) d)"
    if "settled p B d" for B d i
    using assms that by (auto intro!: settled_change_names)
  then show ?thesis
    unfolding fs_rename_def
    by (auto intro!: leavesI steps_attempt simp: untouched_def split: option.splits entry.splits if_splits)
qed

lemma leaves_sync_directory [leaves_intros]: "leaves A p (sync_directory q)"
  unfolding sync_directory_def by (intro leaves_intros)

lemma leaves_read_json [leaves_intros]: "leaves A p (read_json c q)"
  unfolding read_json_def by (intro leaves_intros)

text \<open>A file replaced by way of its temporary.\<close>

lemma temporary_name_other: "dir @ [temporary_name name] \<noteq> dir @ [name]"
proof -
  have "length (temporary_name name) \<noteq> length name" by (simp add: temporary_name_def)
  then show ?thesis by auto
qed

lemma leaves_replace_json [leaves_intros]:
  assumes q: "p \<noteq> dir @ [name]" "p \<noteq> dir @ [temporary_name name]"
  shows "leaves A p (atomic_replace_json c dir name v)"
proof -
  let ?t = "dir @ [temporary_name name]"
  have t: "?t \<noteq> p" using q by simp
  have rename: "steps A (\<lambda>d. settled p B d \<and> owned_new p ?t i d \<and> inode_bytes d i = b \<and> inode_synced d i)
      (replace_file ?t (dir @ [name])) (\<lambda>_. settled p B) (settled p B)" for A B i b
    unfolding replace_file_def fs_rename_def
    by (rule steps_map_err, rule steps_attempt)
      (use q in \<open>auto simp: untouched_def owned_new_def intro: settled_change_names split: if_splits\<close>)
  have writing: "steps A (settled p B) (io_bind (open_new_private ?t) (\<lambda>i. io_bind (write_synced i b) (\<lambda>_.
      io_bind (replace_file ?t (dir @ [name])) (\<lambda>_. sync_directory dir)))) (\<lambda>_. settled p B) (settled p B)" for B b
    by (intro steps_bind[OF steps_open_new[OF t]] steps_bind[OF steps_write_synced] steps_bind[OF rename]
        steps_sync_directory)
  show ?thesis
    unfolding atomic_replace_json_def Let_def
    by (intro leaves_intros t leavesI[OF writing])
qed

lemma steps_replace_json:
  assumes b: "fc_encode c v = Some b"
  shows "steps A (settled (dir @ [name]) B) (atomic_replace_json c dir name v)
     (\<lambda>_. settled (dir @ [name]) {Some b}) (settled (dir @ [name]) (insert (Some b) B))"
proof -
  let ?t = "dir @ [temporary_name name]" and ?p = "dir @ [name]"
  have t: "?t \<noteq> ?p" "butlast ?t = butlast ?p" using temporary_name_other by auto
  have E: "settled ?p B d \<Longrightarrow> settled ?p (insert (Some b) B) d" for d by (rule settled_mono) auto
  note more = steps_more[OF _ E]
  have replaced: "steps A (\<lambda>d. settled ?p B d \<and> owned_new ?p ?t i d \<and> inode_bytes d i = b \<and> inode_synced d i)
      (io_bind (replace_file ?t ?p) (\<lambda>_. sync_directory dir)) (\<lambda>_. settled ?p {Some b})
      (settled ?p (insert (Some b) B))" for i
    by (rule steps_bind[OF more[OF steps_replace_file[OF t]]], assumption,
        rule steps_weaken[OF steps_sync_parent[of ?p dir]]) auto
  have writing: "steps A (settled ?p B) (io_bind (open_new_private ?t) (\<lambda>i. io_bind (write_synced i b) (\<lambda>_.
      io_bind (replace_file ?t ?p) (\<lambda>_. sync_directory dir)))) (\<lambda>_. settled ?p {Some b})
      (settled ?p (insert (Some b) B))"
    by (intro steps_bind[OF more[OF steps_open_new[OF t(1)]]] steps_bind[OF more[OF steps_write_synced]] replaced)
  have clear: "leaves A ?p (if present
      then io_bind (io_map_err io_error (fs_remove_file ?t)) (\<lambda>_. sync_directory dir) else io_return ())" for present
    by (intro leaves_intros t(1))
  show ?thesis
    unfolding atomic_replace_json_def Let_def b
    by (simp, intro steps_bind[OF more[OF steps_exists]] steps_bind[OF more[OF leavesD[OF clear]]] writing)
qed


section \<open>The fence\<close>

lemma steps_content: "steps A (settled p {x}) (fs_read p) (\<lambda>b d. settled p {x} d \<and> x = Some b) (settled p {x})"
  by (rule steps_weaken[OF steps_read]) (auto dest: settled_single)

lemma steps_json:
  "steps A (settled p {x}) (read_json c p) (\<lambda>v d. settled p {x} d \<and> Option.bind x (fc_decode c) = Some v) (settled p {x})"
  unfolding read_json_def
  by (rule steps_bind[OF steps_map_err[OF steps_content]]) (auto intro!: steps_of)

lemma steps_frame:
  assumes "steps A P m Q E" and "leaves A p m"
  shows "steps A (\<lambda>d. P d \<and> settled p B d) m (\<lambda>x d. Q x d \<and> settled p B d) (\<lambda>d. E d \<and> settled p B d)"
  by (rule steps_conj[OF assms(1) leavesD[OF assms(2)]])

lemma steps_stale_lease:
  assumes "\<not> lease_files s lease ob lb"
  shows "steps A (\<lambda>d. settled owner_path {Some ob} d \<and> settled live_path {Some lb} d) (validate_lease s lease)
     (\<lambda>_ _. False) (\<lambda>_. True)"
proof -
  have owner: "steps A (\<lambda>d. settled owner_path {Some ob} d \<and> settled live_path {Some lb} d)
      (read_json (sc_owner s) owner_path)
      (\<lambda>owner d. settled live_path {Some lb} d \<and> fc_decode (sc_owner s) ob = Some owner) (\<lambda>_. True)"
    by (rule steps_weaken[OF steps_frame[OF steps_json leaves_read_json]]) auto
  have live: "steps A (\<lambda>d. settled live_path {Some lb} d \<and> fc_decode (sc_owner s) ob = Some owner)
      (read_json (sc_live s) live_path)
      (\<lambda>v d. fc_decode (sc_live s) lb = Some v \<and> fc_decode (sc_owner s) ob = Some owner) (\<lambda>_. True)" for owner
  proof (cases "fc_decode (sc_owner s) ob = Some owner")
    case True
    then show ?thesis by (intro steps_weaken[OF steps_json[of A live_path "Some lb"]]) auto
  qed (simp add: steps_def)
  show ?thesis
    unfolding validate_lease_def
    by (auto intro!: steps_fail steps_bind[OF owner] steps_bind[OF live])
      (use assms in \<open>auto simp: steps_def lease_files_def io_return_def\<close>)
qed

text \<open>
  C9: A writer whose lease no longer agrees with the owner and the live identity of the base never commits:
  its call does not succeed and the state file keeps its bytes, through faults and crashes.
\<close>

theorem stale_writer_fenced:
  assumes granted: "lock_acquire state_lock_path w = (Returned (Ok l), w')"
    and fence: "settled owner_path {Some ob} (disk_of w')" "settled live_path {Some lb} (disk_of w')"
    and stale: "\<not> lease_files s lease ob lb"
    and before: "settled state_path {Some b} (disk_of w')"
    and commit: "compare_and_commit s lease rv mutate w = (res, w'')"
  shows "res \<noteq> Returned (Ok ()) \<and> content (disk_of w'') state_path = Some b
    \<and> content (crash kept torn (disk_of w'')) state_path = Some b"
proof -
  have c: "commit_locked s lease rv mutate (\<lambda>_. False) l w' = (res, w'')"
    using granted commit by (simp add: compare_and_commit_def commit_locked io_bind_def io_match_def)
  have v: "steps A (\<lambda>d. (settled owner_path {Some ob} d \<and> settled live_path {Some lb} d) \<and> settled state_path {Some b} d)
      (validate_lease s lease) (\<lambda>_ _. False) (settled state_path {Some b})" for A
    by (rule steps_weaken[OF steps_conj[OF steps_stale_lease[OF stale] steps_validate_lease]]) auto
  have "steps (\<lambda>_. True) (\<lambda>d. (settled owner_path {Some ob} d \<and> settled live_path {Some lb} d) \<and> settled state_path {Some b} d)
      (commit_locked s lease rv mutate (\<lambda>_. False) l) (\<lambda>_ _. False) (settled state_path {Some b})"
    unfolding commit_locked_def by (rule steps_bind[OF v]) (simp add: steps_def)
  from stepsD[OF this, of w'] fence before c
  have "res \<noteq> Returned (Ok ()) \<and> settled state_path {Some b} (disk_of w'')"
    by (auto simp: lands_def split: outcome.splits sum.splits)
  then show ?thesis by (auto dest: settled_single settled_crash)
qed

section \<open>The reset\<close>

definition keeps_files :: "path set \<Rightarrow> (nat \<Rightarrow> disk \<Rightarrow> disk) \<Rightarrow> bool" where
  "keeps_files F oth \<longleftrightarrow> (\<forall>p\<in>F. \<forall>n d B. settled p B d \<longrightarrow> settled p B (oth n d))"

lemma leaves_lock [leaves_intros]:
  assumes "p \<in> F" and "q \<noteq> p"
  shows "leaves (keeps_files F) p (lock_acquire q)"
proof -
  have wait: "steps (keeps_files F) (settled p B) (lock_granted i :: (os_error, nat) io) (\<lambda>_. settled p B)
      (settled p B)" for B i
    using assms(1) by (auto simp: steps_def lock_granted_def keeps_files_def)
  have opened: "steps (keeps_files F) (settled p B) (fs_open_create q) (\<lambda>_. settled p B) (settled p B)" for B
    unfolding fs_open_create_def
    by (rule steps_attempt)
      (use assms(2) in \<open>auto simp: untouched_def settled_new_file split: option.splits entry.splits\<close>)
  show ?thesis
    unfolding lock_acquire_def
    by (rule leavesI, rule steps_map_err, rule steps_bind[OF opened], rule steps_bind[OF steps_nop], rule wait)
qed

abbreviation reset_files :: "path set" where
  "reset_files \<equiv> {intent_path, owner_path, state_path}"

lemma leaves_create_dirs [leaves_intros]:
  "(\<forall>i<length cs. current @ take (Suc i) cs \<noteq> p) \<Longrightarrow> leaves A p (create_dir_all current cs)"
proof (induction current cs rule: create_dir_all.induct)
  case (1 current)
  then show ?case by (auto intro: leaves_intros)
next
  case (2 current c cs)
  have "current @ [c] \<noteq> p" using 2(2)[rule_format, of 0] by simp
  moreover have "\<forall>i<length cs. (current @ [c]) @ take (Suc i) cs \<noteq> p"
    using 2(2) by (metis Suc_less_eq append_Cons append_assoc append_Nil length_Cons take_Suc_Cons)
  ultimately show ?case by (auto intro!: leaves_intros 2(1))
qed

lemma leaves_trash [leaves_intros]:
  assumes "p \<in> reset_files"
  shows "leaves A p (trash_artifacts (reset_trash_path intent))"
  unfolding trash_artifacts_def reset_trash_path_def
  by (intro leaves_intros) (use assms in \<open>auto simp: beneath_def less_Suc_eq\<close>)


text \<open>
  The bytes of a reset: the intent, the owner it starts from or has already reached, the owner and the
  empty state it ends in, and the state it finds, if any.
\<close>

record reset_bytes =
  rb_intent :: bytes
  rb_owner :: bytes
  rb_target :: bytes
  rb_empty :: bytes
  rb_state :: "bytes option"

definition reset_ready :: "('p, 'r, 'j) state_store \<Rightarrow> reset_bytes \<Rightarrow> bool" where
  "reset_ready s rb \<longleftrightarrow> (\<exists>intent owner owner_state.
     fc_decode (sc_intent s) (rb_intent rb) = Some intent \<and> fc_decode (sc_owner s) (rb_owner rb) = Some owner
     \<and> validate_reset_owner intent owner = Ok owner_state
     \<and> (if owner_state = OwnerSource then fc_encode (sc_owner s) (target_owner intent) = Some (rb_target rb)
        else rb_target rb = rb_owner rb)
     \<and> fc_encode (sc_state s) canonical_state_default = Some (rb_empty rb))"

definition reset_pending :: "reset_bytes \<Rightarrow> disk \<Rightarrow> bool" where
  "reset_pending rb d \<longleftrightarrow> settled intent_path {Some (rb_intent rb)} d
     \<and> settled owner_path {Some (rb_owner rb), Some (rb_target rb)} d
     \<and> settled state_path {rb_state rb, Some (rb_empty rb)} d"

definition reset_written :: "reset_bytes \<Rightarrow> disk \<Rightarrow> bool" where
  "reset_written rb d \<longleftrightarrow> settled owner_path {Some (rb_target rb)} d \<and> settled state_path {Some (rb_empty rb)} d"

definition reset_left :: "reset_bytes \<Rightarrow> disk \<Rightarrow> bool" where
  "reset_left rb d \<longleftrightarrow> reset_pending rb d
     \<or> (settled intent_path {Some (rb_intent rb), None} d \<and> reset_written rb d)"

lemma steps_read_optional:
  "steps A (settled p {x}) (fs_read_optional p) (\<lambda>y d. settled p {x} d \<and> (y = None \<or> y = x)) (settled p {x})"
  unfolding fs_read_optional_def
  by (rule steps_match[OF steps_content]) (auto intro!: steps_return steps_fail split: sum.split)

lemma leaves_read_optional [leaves_intros]: "leaves A p (fs_read_optional q)"
  unfolding fs_read_optional_def by (intro leaves_match leaves_read) (auto intro: leaves_intros split: sum.split)


abbreviation files_at :: "bytes option \<Rightarrow> bytes option \<Rightarrow> bytes option \<Rightarrow> disk \<Rightarrow> bool" where
  "files_at i ow st d \<equiv> settled intent_path {i} d \<and> settled owner_path {ow} d \<and> settled state_path {st} d"

lemma steps_files:
  assumes "\<And>p. p \<in> reset_files \<Longrightarrow> leaves A p m"
  shows "steps A (files_at i ow st) m (\<lambda>_. files_at i ow st) (files_at i ow st)"
  by (intro steps_conj leavesD assms) auto

lemma files_pending:
  "files_at (Some (rb_intent rb)) (Some (rb_owner rb)) (rb_state rb) d \<Longrightarrow> reset_pending rb d"
  "files_at (Some (rb_intent rb)) (Some (rb_owner rb)) (Some (rb_empty rb)) d \<Longrightarrow> reset_pending rb d"
  "files_at (Some (rb_intent rb)) (Some (rb_target rb)) (Some (rb_empty rb)) d \<Longrightarrow> reset_pending rb d"
  by (auto simp: reset_pending_def intro: settled_mono)

lemma steps_frame2:
  assumes "steps A P m Q E" and "leaves A p m" and "leaves A q m"
  shows "steps A (\<lambda>d. settled p B d \<and> settled q C d \<and> P d) m (\<lambda>x d. settled p B d \<and> settled q C d \<and> Q x d)
     (\<lambda>d. settled p B d \<and> settled q C d \<and> E d)"
  by (intro steps_conj leavesD assms)

lemma steps_state_emptied:
  assumes "fc_encode (sc_state s) canonical_state_default = Some (rb_empty rb)"
  shows "steps A (\<lambda>d. files_at (Some (rb_intent rb)) (Some (rb_owner rb)) (rb_state rb) d \<and> (y = None \<or> y = rb_state rb))
     (if y \<noteq> Some (rb_empty rb)
      then atomic_replace_json (sc_state s) [] ''runtime-state.json'' canonical_state_default else io_return ())
     (\<lambda>_. files_at (Some (rb_intent rb)) (Some (rb_owner rb)) (Some (rb_empty rb))) (reset_pending rb)"
proof (cases "y = Some (rb_empty rb)")
  case True
  then show ?thesis by (auto intro!: steps_return)
next
  case False
  have "steps A (\<lambda>d. settled intent_path {Some (rb_intent rb)} d \<and> settled owner_path {Some (rb_owner rb)} d
        \<and> settled ([] @ [''runtime-state.json'']) {rb_state rb} d)
      (atomic_replace_json (sc_state s) [] ''runtime-state.json'' canonical_state_default)
      (\<lambda>_ d. settled intent_path {Some (rb_intent rb)} d \<and> settled owner_path {Some (rb_owner rb)} d
        \<and> settled ([] @ [''runtime-state.json'']) {Some (rb_empty rb)} d)
      (\<lambda>d. settled intent_path {Some (rb_intent rb)} d \<and> settled owner_path {Some (rb_owner rb)} d
        \<and> settled ([] @ [''runtime-state.json'']) (insert (Some (rb_empty rb)) {rb_state rb}) d)"
    by (intro steps_frame2 steps_replace_json[OF assms] leaves_replace_json) (simp_all add: temporary_name_def)
  then show ?thesis
    using False by (simp, elim steps_weaken) (auto simp: reset_pending_def insert_commute intro: settled_mono)
qed

lemma steps_owner_replaced:
  assumes "fc_encode (sc_owner s) ow = Some (rb_target rb)"
  shows "steps A (files_at (Some (rb_intent rb)) (Some (rb_owner rb)) (Some (rb_empty rb)))
     (atomic_replace_json (sc_owner s) [] ''runtime-owner.json'' ow)
     (\<lambda>_. files_at (Some (rb_intent rb)) (Some (rb_target rb)) (Some (rb_empty rb))) (reset_pending rb)"
proof -
  have "steps A (\<lambda>d. settled intent_path {Some (rb_intent rb)} d \<and> settled state_path {Some (rb_empty rb)} d
        \<and> settled ([] @ [''runtime-owner.json'']) {Some (rb_owner rb)} d)
      (atomic_replace_json (sc_owner s) [] ''runtime-owner.json'' ow)
      (\<lambda>_ d. settled intent_path {Some (rb_intent rb)} d \<and> settled state_path {Some (rb_empty rb)} d
        \<and> settled ([] @ [''runtime-owner.json'']) {Some (rb_target rb)} d)
      (\<lambda>d. settled intent_path {Some (rb_intent rb)} d \<and> settled state_path {Some (rb_empty rb)} d
        \<and> settled ([] @ [''runtime-owner.json'']) (insert (Some (rb_target rb)) {Some (rb_owner rb)}) d)"
    by (intro steps_frame2 steps_replace_json[OF assms] leaves_replace_json) (simp_all add: temporary_name_def)
  then show ?thesis
    by (elim steps_weaken) (auto simp: reset_pending_def insert_commute intro: settled_mono)
qed

lemma steps_reset_state_and_owner:
  assumes ready: "reset_ready s rb" and intent: "fc_decode (sc_intent s) (rb_intent rb) = Some intent"
  shows "steps (keeps_files reset_files) (files_at (Some (rb_intent rb)) (Some (rb_owner rb)) (rb_state rb))
     (reset_state_and_owner s intent)
     (\<lambda>_. files_at (Some (rb_intent rb)) (Some (rb_target rb)) (Some (rb_empty rb))) (reset_pending rb)"
proof -
  let ?A = "keeps_files reset_files"
  let ?P = "files_at (Some (rb_intent rb)) (Some (rb_owner rb)) (rb_state rb)"
  obtain owner os where r: "fc_decode (sc_owner s) (rb_owner rb) = Some owner"
      "validate_reset_owner intent owner = Ok os"
      "if os = OwnerSource then fc_encode (sc_owner s) (target_owner intent) = Some (rb_target rb)
       else rb_target rb = rb_owner rb"
      "fc_encode (sc_state s) canonical_state_default = Some (rb_empty rb)"
    using ready intent by (auto simp: reset_ready_def)
  have E: "?P d \<Longrightarrow> reset_pending rb d" for d by (rule files_pending)
  have lock: "steps ?A ?P (lock_acquire state_lock_path) (\<lambda>_. ?P) (reset_pending rb)"
    by (rule steps_more[OF steps_files E]) (auto intro!: leaves_lock)
  have owner: "steps A ?P (read_json (sc_owner s) owner_path) (\<lambda>y d. ?P d \<and> y = owner) (reset_pending rb)" for A
    by (rule steps_weaken[OF steps_conj[OF steps_files steps_json[of A owner_path "Some (rb_owner rb)" "sc_owner s"]]])
      (auto intro: leaves_read_json E simp: r(1))
  have state: "steps A ?P (fs_read_optional state_path) (\<lambda>y d. ?P d \<and> (y = None \<or> y = rb_state rb)) (reset_pending rb)" for A
    by (rule steps_weaken[OF steps_conj[OF steps_files steps_read_optional[of A state_path "rb_state rb"]]])
      (auto intro: leaves_read_optional E)
  have written: "steps A (files_at (Some (rb_intent rb)) (Some (rb_owner rb)) (Some (rb_empty rb)))
      (if os = OwnerSource
       then io_bind (atomic_replace_json (sc_owner s) [] ''runtime-owner.json'' (target_owner intent)) (\<lambda>_.
              io_return (target_owner intent)) else io_return owner)
      (\<lambda>_. files_at (Some (rb_intent rb)) (Some (rb_target rb)) (Some (rb_empty rb))) (reset_pending rb)" for A
    using r(3) by (auto intro!: steps_return steps_bind[OF steps_owner_replaced])
  have body: "steps A (\<lambda>d. ?P d \<and> y = owner)
      (io_bind (io_of (validate_reset_owner intent y)) (\<lambda>owner_state.
       io_bind (io_of (encode_json (sc_state s) ''reset store encoding failed'' canonical_state_default)) (\<lambda>expected.
       io_bind (fs_read_optional state_path) (\<lambda>current_state.
       io_bind (if current_state \<noteq> Some expected
                then atomic_replace_json (sc_state s) [] ''runtime-state.json'' canonical_state_default
                else io_return ()) (\<lambda>_.
       if owner_state = OwnerSource
       then io_bind (atomic_replace_json (sc_owner s) [] ''runtime-owner.json'' (target_owner intent)) (\<lambda>_.
              io_return (target_owner intent))
       else io_return y)))))
      (\<lambda>_. files_at (Some (rb_intent rb)) (Some (rb_target rb)) (Some (rb_empty rb))) (reset_pending rb)" for A y
  proof (cases "y = owner")
    case True
    have "steps A ?P (io_bind (fs_read_optional state_path) (\<lambda>current_state.
       io_bind (if current_state \<noteq> Some (rb_empty rb)
                then atomic_replace_json (sc_state s) [] ''runtime-state.json'' canonical_state_default
                else io_return ()) (\<lambda>_.
       if os = OwnerSource
       then io_bind (atomic_replace_json (sc_owner s) [] ''runtime-owner.json'' (target_owner intent)) (\<lambda>_.
              io_return (target_owner intent))
       else io_return owner)))
      (\<lambda>_. files_at (Some (rb_intent rb)) (Some (rb_target rb)) (Some (rb_empty rb))) (reset_pending rb)"
      by (rule steps_bind[OF state], rule steps_bind[OF steps_state_emptied[OF r(4)]], rule written)
    then show ?thesis using True r(2,4) by (cases os) (simp_all add: encode_json_def)
  qed (simp add: steps_def)
  have intent': "steps A ?P (read_json (sc_intent s) intent_path) (\<lambda>y d. ?P d \<and> y = intent) (reset_pending rb)" for A
    by (rule steps_weaken[OF steps_conj[OF steps_files steps_json[of A intent_path "Some (rb_intent rb)" "sc_intent s"]]])
      (auto intro: leaves_read_json E simp: intent)
  have checked: "steps A (\<lambda>d. ?P d \<and> y = intent) (if y \<noteq> intent then io_fail f else m) Q (reset_pending rb)"
    if "steps A ?P m Q (reset_pending rb)" for A y f Q and m :: "(domain_error, runtime_owner) io"
    using that E by (cases "y = intent") (auto simp: steps_def)
  show ?thesis
    unfolding reset_state_and_owner_def
    by (rule steps_bind[OF lock], rule steps_bind[OF intent'], rule checked, rule steps_bind[OF owner], rule body)
qed


lemma steps_finish:
  "steps A (files_at (Some (rb_intent rb)) (Some (rb_target rb)) (Some (rb_empty rb)))
     (io_bind (fs_exists (reset_trash_path intent)) (\<lambda>present.
      io_bind (if present
               then io_bind (io_map_err io_error (fs_remove_dir_all (reset_trash_path intent))) (\<lambda>_.
                      sync_directory (butlast (reset_trash_path intent)))
               else io_return ()) (\<lambda>_.
      io_bind (io_map_err io_error (fs_remove_file intent_path)) (\<lambda>_.
      io_bind (sync_directory []) (\<lambda>_. io_return owner)))))
     (\<lambda>_ d. reset_written rb d \<and> settled intent_path {None} d) (reset_left rb)"
proof -
  let ?P = "files_at (Some (rb_intent rb)) (Some (rb_target rb)) (Some (rb_empty rb))"
  let ?R = "\<lambda>d. reset_written rb d \<and> settled intent_path {Some (rb_intent rb), None} d"
  have E: "?P d \<Longrightarrow> reset_left rb d" "?R d \<Longrightarrow> reset_left rb d" for d
    by (auto simp: reset_left_def intro: files_pending)
  have present: "steps A ?P (fs_exists (reset_trash_path intent)) (\<lambda>_. ?P) (reset_left rb)"
    by (rule steps_more[OF steps_files E(1)]) (auto intro: leaves_exists)
  have trash: "steps A ?P (if b
      then io_bind (io_map_err io_error (fs_remove_dir_all (reset_trash_path intent))) (\<lambda>_.
             sync_directory (butlast (reset_trash_path intent)))
      else io_return ()) (\<lambda>_. ?P) (reset_left rb)" for b
    by (rule steps_more[OF steps_files E(1)])
      (auto simp: reset_trash_path_def beneath_def intro!: leaves_intros)
  have removed: "steps A ?P (io_map_err io_error (fs_remove_file intent_path))
      (\<lambda>_ d. ?R d \<and> content d intent_path = None) (reset_left rb)"
    unfolding fs_remove_file_def
    by (rule steps_map_err, rule steps_attempt)
      (auto simp: untouched_def reset_written_def content_def entry_change_names E
        intro: settled_change_names settled_mono settled_drop dest: settled_not_dir split: option.splits entry.splits)
  have synced: "steps A (\<lambda>d. ?R d \<and> content d intent_path = None) (sync_directory [])
      (\<lambda>_ d. reset_written rb d \<and> settled intent_path {None} d) (reset_left rb)"
    by (rule steps_weaken[OF steps_conj[OF steps_sync_parent[of intent_path "[]" A "{Some (rb_intent rb), None}" None]
          steps_conj[OF leavesD[OF leaves_sync_directory, where p = owner_path and B = "{Some (rb_target rb)}"]
            leavesD[OF leaves_sync_directory, where p = state_path and B = "{Some (rb_empty rb)}"]]]])
      (auto simp: reset_written_def reset_left_def)
  show ?thesis
    by (rule steps_bind[OF present], rule steps_bind[OF trash], rule steps_bind[OF removed],
        rule steps_bind[OF synced]) (auto intro: steps_return)
qed

lemma steps_recover_reset:
  assumes ready: "reset_ready s rb"
  shows "steps (keeps_files reset_files) (files_at (Some (rb_intent rb)) (Some (rb_owner rb)) (rb_state rb))
     (recover_confirmed_reset s verified)
     (\<lambda>_ d. reset_written rb d \<and> settled intent_path {None} d) (reset_left rb)"
proof -
  let ?A = "keeps_files reset_files"
  let ?P = "files_at (Some (rb_intent rb)) (Some (rb_owner rb)) (rb_state rb)"
  obtain intent owner os where r: "fc_decode (sc_intent s) (rb_intent rb) = Some intent"
      "fc_decode (sc_owner s) (rb_owner rb) = Some owner" "validate_reset_owner intent owner = Ok os"
    using ready by (auto simp: reset_ready_def)
  have E: "?P d \<Longrightarrow> reset_left rb d" for d by (auto simp: reset_left_def intro: files_pending)
  note keep = steps_more[OF steps_files E]
  have lock: "steps ?A ?P (lock_acquire live_lock_path) (\<lambda>_. ?P) (reset_left rb)"
    by (rule keep) (auto intro!: leaves_lock)
  have intent': "steps A ?P (read_json (sc_intent s) intent_path) (\<lambda>y d. ?P d \<and> y = intent) (reset_left rb)" for A
    by (rule steps_weaken[OF steps_conj[OF steps_files steps_json[of A intent_path "Some (rb_intent rb)" "sc_intent s"]]])
      (auto intro: leaves_read_json E simp: r(1))
  have rest: "steps ?A (\<lambda>d. ?P d \<and> y = intent)
      (io_bind (read_json (sc_owner s) owner_path) (\<lambda>owner.
       io_bind (io_of (validate_reset_owner y owner)) (\<lambda>_.
       io_bind (trash_artifacts (reset_trash_path y)) (\<lambda>_.
       io_bind (reset_state_and_owner s y) (\<lambda>owner.
       io_bind (fs_exists (reset_trash_path y)) (\<lambda>present.
       io_bind (if present
                then io_bind (io_map_err io_error (fs_remove_dir_all (reset_trash_path y))) (\<lambda>_.
                       sync_directory (butlast (reset_trash_path y)))
                else io_return ()) (\<lambda>_.
       io_bind (io_map_err io_error (fs_remove_file intent_path)) (\<lambda>_.
       io_bind (sync_directory []) (\<lambda>_. io_return owner)))))))))
      (\<lambda>_ d. reset_written rb d \<and> settled intent_path {None} d) (reset_left rb)" for y
  proof (cases "y = intent")
    case True
    have owner: "steps ?A ?P (read_json (sc_owner s) owner_path) (\<lambda>_. ?P) (reset_left rb)"
      by (rule keep) (auto intro: leaves_read_json)
    have valid: "steps ?A ?P (io_of (validate_reset_owner y x)) (\<lambda>_. ?P) (reset_left rb)" for x
      by (rule keep) (auto intro: leaves_of)
    have trash: "steps ?A ?P (trash_artifacts (reset_trash_path y)) (\<lambda>_. ?P) (reset_left rb)"
      by (rule keep) (auto intro!: leaves_trash)
    have reset: "steps ?A ?P (reset_state_and_owner s y)
        (\<lambda>_. files_at (Some (rb_intent rb)) (Some (rb_target rb)) (Some (rb_empty rb))) (reset_left rb)"
      unfolding True by (rule steps_more[OF steps_reset_state_and_owner[OF ready r(1)]]) (simp add: reset_left_def)
    show ?thesis
      by (rule steps_weaken[OF steps_bind[OF owner steps_bind[OF valid steps_bind[OF trash steps_bind[OF reset
            steps_finish]]]]]) auto
  qed (simp add: steps_def)
  show ?thesis
    unfolding recover_confirmed_reset_def
    by (auto intro!: steps_fail E steps_bind[OF lock] steps_bind[OF intent'] rest)
qed

text \<open>
  C10: However a confirmed reset is cut off, after the crash the intent is still recorded, with the owner and
  the state as they were or as they become, or the next owner and the empty state are both durable; a
  reset that succeeded has removed its intent for good.
\<close>

theorem reset_never_lost:
  assumes ready: "reset_ready s rb" and others: "keeps_files reset_files (others w)"
    and before: "files_at (Some (rb_intent rb)) (Some (rb_owner rb)) (rb_state rb) (disk_of w)"
    and recover: "recover_confirmed_reset s verified w = (res, w')"
    and crashed: "d = crash kept torn (disk_of w')"
  shows "content d intent_path = Some (rb_intent rb)
        \<and> content d owner_path \<in> {Some (rb_owner rb), Some (rb_target rb)}
        \<and> content d state_path \<in> {rb_state rb, Some (rb_empty rb)}
        \<and> (\<forall>owner. res \<noteq> Returned (Ok owner))
    \<or> content d intent_path \<in> {Some (rb_intent rb), None}
        \<and> content d owner_path = Some (rb_target rb) \<and> content d state_path = Some (rb_empty rb)
        \<and> ((\<exists>owner. res = Returned (Ok owner)) \<longrightarrow> content d intent_path = None)"
proof -
  have l: "lands (others w) (\<lambda>_ d. reset_written rb d \<and> settled intent_path {None} d) (reset_left rb) (res, w')"
    using stepsD[OF steps_recover_reset[OF ready, of verified] others before] by (simp only: recover)
  have c: "content d p \<in> B" if "settled p B (disk_of w')" for p B
    unfolding crashed using that by (rule settled_crash)
  have written: "reset_written rb (disk_of w') \<Longrightarrow>
      content d owner_path = Some (rb_target rb) \<and> content d state_path = Some (rb_empty rb)"
    using c[of owner_path "{Some (rb_target rb)}"] c[of state_path "{Some (rb_empty rb)}"]
    by (simp add: reset_written_def)
  show ?thesis
  proof (cases "\<exists>owner. res = Returned (Ok owner)")
    case True
    then have "reset_written rb (disk_of w')" "settled intent_path {None} (disk_of w')" using l by auto
    with written c[of intent_path "{None}"] show ?thesis by simp
  next
    case False
    then have "reset_left rb (disk_of w')" using l by (auto simp: lands_def split: outcome.splits sum.splits)
    then consider "reset_pending rb (disk_of w')"
      | "settled intent_path {Some (rb_intent rb), None} (disk_of w')" "reset_written rb (disk_of w')"
      by (auto simp: reset_left_def)
    then show ?thesis
    proof cases
      case 1
      then have "content d intent_path = Some (rb_intent rb)"
          "content d owner_path \<in> {Some (rb_owner rb), Some (rb_target rb)}"
          "content d state_path \<in> {rb_state rb, Some (rb_empty rb)}"
        using c[of intent_path "{Some (rb_intent rb)}"] c[of owner_path "{Some (rb_owner rb), Some (rb_target rb)}"]
          c[of state_path "{rb_state rb, Some (rb_empty rb)}"]
        by (simp_all add: reset_pending_def)
      with False show ?thesis by blast
    next
      case 2
      with written c[OF 2(1)] False show ?thesis by blast
    qed
  qed
qed

end
