(* ===== verification/Persistence_Port.thy ===== *)
theory Persistence_Port
  imports Commit_Safety
begin

text \<open>
  The persistence port of the Runtime core (\<open>rust/crates/persistence/src/runtime_port.rs\<close>) and the
  manifest commits of the artifact port (\<open>commit_manifest\<close> in \<open>artifact.rs\<close>). Both commit on a revision
  read earlier while the other may commit in between, so both retry on the revision the store then
  holds; the core's commit moves only across changes of the part it does not own.
\<close>

section \<open>Retried commits\<close>

text \<open>\<open>again r e\<close> decides after the error \<open>e\<close> of a commit on \<open>r\<close> which revision to try next.\<close>

fun retry_commit ::
  "nat \<Rightarrow> (u64 \<Rightarrow> (domain_error, unit) io) \<Rightarrow> (u64 \<Rightarrow> domain_error \<Rightarrow> (domain_error, u64) io) \<Rightarrow>
   domain_error \<Rightarrow> u64 \<Rightarrow> (domain_error, unit) io" where
  "retry_commit 0 commit again exhausted revision = io_fail exhausted"
| "retry_commit (Suc n) commit again exhausted revision =
     io_match (commit revision) (\<lambda>committed. case committed of
       Inr _ \<Rightarrow> io_return ()
     | Inl e \<Rightarrow> io_bind (again revision e) (retry_commit n commit again exhausted))"

abbreviation REBASE_ATTEMPTS :: nat where "REBASE_ATTEMPTS \<equiv> 8"
abbreviation MANIFEST_COMMIT_ATTEMPTS :: nat where "MANIFEST_COMMIT_ATTEMPTS \<equiv> 8"

section \<open>The Runtime's port\<close>

text \<open>The state without the parts the Runtime core does not own.\<close>

definition runtime_owned :: "('p, 'r, 'j) canonical_state \<Rightarrow> ('p, 'r, 'j) canonical_state" where
  "runtime_owned c = c\<lparr>cn_store_revision := 0, cn_artifact_manifest := []\<rparr>"

type_synonym ('p, 'r, 'j) loaded_view = "(u64 \<times> ('p, 'r, 'j) canonical_state) option"

text \<open>A load answers the state and leaves the view it read, even when the state does not convert.\<close>

definition port_load ::
  "('p, 'r, 'j) state_store \<Rightarrow> lifetime_lease \<Rightarrow> ('p, 'r, 'j) loaded_view \<Rightarrow> world \<Rightarrow>
   (domain_error, ('p, 'r, 'j) runtime_state) outcome \<times> ('p, 'r, 'j) loaded_view \<times> world" where
  "port_load s lease loaded w =
     (case load_measured s lease w of
        (Returned (Inr (canonical, encoded_len)), w') \<Rightarrow>
          (Returned (rbind (runtime_of (sc_wire s) canonical) (\<lambda>state.
             Ok (state\<lparr>rs_used_bytes := of_nat encoded_len\<rparr>))),
           Some (cn_store_revision canonical, runtime_owned canonical), w')
      | (Returned (Inl e), w') \<Rightarrow> (Returned (Err e), loaded, w')
      | (Died, w') \<Rightarrow> (Died, loaded, w'))"

definition rebase_mutation ::
  "u64 \<Rightarrow> ('p, 'r, 'j) canonical_state option \<Rightarrow> ('p, 'r, 'j) canonical_state \<Rightarrow> u64 \<Rightarrow>
   ('p, 'r, 'j) canonical_state \<Rightarrow> ('p, 'r, 'j) canonical_state res" where
  "rebase_mutation expected_revision view replacement revision state =
     (if revision \<noteq> expected_revision \<and> view \<noteq> Some (runtime_owned state)
      then err RevisionConflict ''the Runtime-owned state changed since it was loaded''
      else Ok (replacement\<lparr>cn_store_revision := revision, cn_artifact_manifest := cn_artifact_manifest state\<rparr>))"

definition rebase_again ::
  "('p, 'r, 'j) state_store \<Rightarrow> lifetime_lease \<Rightarrow> ('p, 'r, 'j) canonical_state option \<Rightarrow> u64 \<Rightarrow>
   domain_error \<Rightarrow> (domain_error, u64) io" where
  "rebase_again s lease view revision e =
     (if de_code e = RevisionConflict \<and> view \<noteq> None
      then io_bind (load_state s lease) (\<lambda>current.
        if cn_store_revision current = revision \<or> view \<noteq> Some (runtime_owned current) then io_fail e
        else io_return (cn_store_revision current))
      else io_fail e)"

definition port_view :: "('p, 'r, 'j) loaded_view \<Rightarrow> u64 \<Rightarrow> ('p, 'r, 'j) canonical_state option" where
  "port_view loaded expected_revision =
     (case loaded of None \<Rightarrow> None
      | Some (revision, view) \<Rightarrow> if revision = expected_revision then Some view else None)"

definition port_compare_and_commit ::
  "('p, 'r, 'j) state_store \<Rightarrow> lifetime_lease \<Rightarrow> ('p, 'r, 'j) loaded_view \<Rightarrow> u64 \<Rightarrow>
   ('p, 'r, 'j) runtime_state \<Rightarrow> (domain_error, unit) io" where
  "port_compare_and_commit s lease loaded expected_revision candidate =
     io_bind (io_of (ok_or (checked_add expected_revision 1)
                (domain_error_new ResourceLimit ''store revision exhausted''))) (\<lambda>next_revision.
     if rs_revision candidate \<noteq> next_revision
     then io_fail (domain_error_new RevisionConflict ''candidate revision is not the next revision'')
     else
       io_bind (io_of (canonical_of candidate)) (\<lambda>replacement.
       let view = port_view loaded expected_revision
       in retry_commit REBASE_ATTEMPTS
            (\<lambda>revision. compare_and_commit s lease revision
               (rebase_mutation expected_revision view replacement revision))
            (rebase_again s lease view)
            (domain_error_new RevisionConflict ''artifact publications kept advancing the store revision'')
            expected_revision))"

section \<open>Manifest commits\<close>

definition manifest_again ::
  "('p, 'r, 'j) state_store \<Rightarrow> lifetime_lease \<Rightarrow> u64 \<Rightarrow> domain_error \<Rightarrow> (domain_error, u64) io" where
  "manifest_again s lease revision e =
     (if de_code e = RevisionConflict
      then io_bind (load_state s lease) (\<lambda>state.
        if cn_store_revision state = revision then io_fail e else io_return (cn_store_revision state))
      else io_fail e)"

definition commit_manifest ::
  "('p, 'r, 'j) state_store \<Rightarrow> lifetime_lease \<Rightarrow> u64 \<Rightarrow>
   (('p, 'r, 'j) canonical_state \<Rightarrow> ('p, 'r, 'j) canonical_state res) \<Rightarrow> (domain_error, unit) io" where
  "commit_manifest s lease revision mutate =
     retry_commit MANIFEST_COMMIT_ATTEMPTS (\<lambda>revision. compare_and_commit s lease revision mutate)
       (manifest_again s lease)
       (domain_error_new RevisionConflict ''Runtime commits kept advancing the store revision'') revision"


section \<open>What a successful commit did\<close>

definition store_holds :: "('p, 'r, 'j) state_store \<Rightarrow> disk \<Rightarrow> ('p, 'r, 'j) canonical_state \<Rightarrow> bool" where
  "store_holds s d c \<longleftrightarrow> (\<exists>b. content d state_path = Some b \<and> fc_encode (sc_state s) c = Some b)"

text \<open>The state the commit from \<open>w\<close> finds when it gets the lock.\<close>

definition finds_state :: "('p, 'r, 'j) state_store \<Rightarrow> world \<Rightarrow> ('p, 'r, 'j) canonical_state \<Rightarrow> bool" where
  "finds_state s w c \<longleftrightarrow>
     (\<exists>l w1. lock_acquire state_lock_path w = (Returned (Ok l), w1) \<and> stored_state s (disk_of w1) = Some c)"

lemma steps_read_content: "steps A (\<lambda>d. True) (fs_read p) (\<lambda>b d. content d p = Some b) (\<lambda>_. True)"
  by (rule steps_weaken[OF steps_read[where P = "\<lambda>_. True"]]) auto

definition anything :: "('e, 'a) io \<Rightarrow> bool" where
  "anything m \<longleftrightarrow> (\<forall>A. steps A (\<lambda>_. True) m (\<lambda>_ _. True) (\<lambda>_. True))"

lemma anythingD: "anything m \<Longrightarrow> steps A (\<lambda>_. True) m (\<lambda>_ _. True) (\<lambda>_. True)"
  by (simp add: anything_def)

lemma anything_intros:
  "anything (attempt act part)" "anything (io_return x)" "anything (io_fail e)" "anything (io_of r)"
  by (auto simp: anything_def intro!: steps_attempt steps_return steps_fail steps_of)

lemma anything_match: "anything m \<Longrightarrow> (\<And>r. anything (f r)) \<Longrightarrow> anything (io_match m f)"
  unfolding anything_def by (intro allI, rule steps_match) auto

lemma anything_branch:
  "anything m \<Longrightarrow> anything m' \<Longrightarrow> anything (if b then m else m')"
  "(\<And>e. anything (f e)) \<Longrightarrow> (\<And>x. anything (g x)) \<Longrightarrow> anything (case r of Inl e \<Rightarrow> f e | Inr x \<Rightarrow> g x)"
  by (auto split: sum.split)

lemmas anything_rules = anything_match anything_intros anything_branch

lemma steps_or_discard_any:
  assumes "steps A P m Q (\<lambda>_. True)" shows "steps A P (or_discard t m) Q (\<lambda>_. True)"
proof -
  have d: "anything (discard_temporary [] t)"
    unfolding discard_temporary_def sync_directory_def io_map_err_def fs_remove_file_def fs_sync_dir_def
    by (intro anything_rules)
  show ?thesis
    unfolding or_discard_def
  proof (rule steps_match[OF assms])
    show "steps A (Q x) (case Inr x of Inl e \<Rightarrow> io_bind (discard_temporary [] t) (\<lambda>_. io_fail e)
        | Inr u \<Rightarrow> io_return ()) Q (\<lambda>_. True)" for x
      by (auto intro: steps_return)
    show "steps A (\<lambda>_. True) (case Inl e of Inl e \<Rightarrow> io_bind (discard_temporary [] t) (\<lambda>_. io_fail e)
        | Inr u \<Rightarrow> io_return ()) Q (\<lambda>_. True)" for e
      by (simp, rule steps_bind[OF anythingD[OF d]]) (auto intro: steps_fail)
  qed simp
qed

text \<open>The bytes the rename puts in place are the bytes that were written.\<close>

lemma steps_write_content:
  assumes t: "t \<noteq> state_path"
  shows "steps A (\<lambda>_. True) (write_state injected t b) (\<lambda>_ d. content d state_path = Some b) (\<lambda>_. True)"
proof -
  let ?O = "\<lambda>i x d. entry_at d t = Some (FileEntry i) \<and> inode_bytes d i = x"
  have crash: "steps A P (crash_here injected q) (\<lambda>_. P) (\<lambda>_. True)" for P q
    by (rule steps_more[OF steps_crash_here]) simp
  have stale: "anything (remove_stale_temporary t)"
    unfolding remove_stale_temporary_def sync_directory_def io_map_err_def fs_remove_file_def fs_sync_dir_def
    by (intro anything_rules)
  have new: "steps A (\<lambda>_. True) (open_new_private t) (\<lambda>i. ?O i []) (\<lambda>_. True)"
    unfolding open_new_private_def fs_create_new_def
    by (rule steps_map_err, rule steps_attempt)
      (auto simp: new_file_def entry_at_def change_names_def split: if_splits)
  have written: "steps A (?O i []) (write_synced i b) (\<lambda>_. ?O i b) (\<lambda>_. True)" for i
    unfolding write_synced_def fs_write_all_def fs_sync_file_def
    by (intro steps_bind[OF steps_map_err[OF steps_attempt[where Q = "\<lambda>_. ?O i b"]]] steps_map_err[OF steps_attempt])
      (auto simp: write_inode_bytes)
  have renamed: "steps A (?O i b) (replace_file t state_path) (\<lambda>_ d. content d state_path = Some b) (\<lambda>_. True)" for i
    unfolding replace_file_def fs_rename_def
    by (rule steps_map_err, rule steps_attempt)
      (auto simp: content_def entry_at_def change_names_def split: if_splits)
  have synced: "steps A (\<lambda>d. content d state_path = Some b) (sync_directory []) (\<lambda>_ d. content d state_path = Some b) (\<lambda>_. True)"
    unfolding sync_directory_def fs_sync_dir_def
    by (rule steps_map_err, rule steps_attempt) auto
  show ?thesis
    unfolding write_state_def
    by (intro steps_bind[OF crash] steps_bind[OF anythingD[OF stale]] steps_bind[OF new]
        steps_bind[OF steps_or_discard_any[OF written]] steps_bind[OF steps_or_discard_any[OF renamed]] synced)
qed

text \<open>A computation that returned \<open>Ok\<close> went through each of its parts.\<close>

lemma io_bind_Ok:
  assumes "io_bind m f w = (Returned (Ok y), w')"
  obtains x w1 where "m w = (Returned (Ok x), w1)" "f x w1 = (Returned (Ok y), w')"
  using assms by (auto simp: io_bind_def io_match_def io_fail_def split: prod.splits outcome.splits sum.splits)

lemma io_of_Ok: "io_of r w = (Returned (Ok x), w') \<longleftrightarrow> r = Ok x \<and> w' = w"
  by (auto simp: io_of_def)

lemma commit_Ok:
  assumes "compare_and_commit s lease rv mutate w = (Returned (Ok ()), w')"
  shows "\<exists>old new b'. finds_state s w old \<and> prepare_commit s rv mutate old = Ok (new, b')
    \<and> content (disk_of w') state_path = Some b'"
proof -
  obtain l w1 where l: "lock_acquire state_lock_path w = (Returned (Ok l), w1)"
    and c: "commit_locked s lease rv mutate (\<lambda>_. False) l w1 = (Returned (Ok ()), w')"
    using assms by (auto simp: compare_and_commit_def commit_locked elim: io_bind_Ok)
  obtain u w2 where v: "validate_lease s lease w1 = (Returned (Ok u), w2)"
    and c: "io_bind (io_map_err io_error (fs_read state_path)) (\<lambda>b.
      io_bind (io_of (decode_canonical_state s b)) (\<lambda>state.
      io_bind (io_of (prepare_commit s rv mutate state)) (\<lambda>(state, b).
      io_bind (write_state (\<lambda>_. False) (state_temporary s (cn_store_revision state)) b) (\<lambda>_.
      lock_sync l)))) w2 = (Returned (Ok ()), w')"
    using c unfolding commit_locked_def by (rule io_bind_Ok)
  have d2: "disk_of w2 = disk_of w1"
    using stepsD[OF steps_validate_lease[of "\<lambda>_. True" "\<lambda>d. d = disk_of w1" s lease], of w1] v by simp
  obtain b w3 where r: "io_map_err io_error (fs_read state_path) w2 = (Returned (Ok b), w3)"
    and c: "io_bind (io_of (decode_canonical_state s b)) (\<lambda>state.
      io_bind (io_of (prepare_commit s rv mutate state)) (\<lambda>(state, b).
      io_bind (write_state (\<lambda>_. False) (state_temporary s (cn_store_revision state)) b) (\<lambda>_.
      lock_sync l))) w3 = (Returned (Ok ()), w')"
    using c by (rule io_bind_Ok)
  have b: "content (disk_of w1) state_path = Some b"
    using stepsD[OF steps_map_err[OF steps_read[of "\<lambda>_. True" "\<lambda>d. d = disk_of w2" state_path], of io_error], of w2] r d2
    by auto
  obtain old where old: "decode_canonical_state s b = Ok old"
    and c: "io_bind (io_of (prepare_commit s rv mutate old)) (\<lambda>(state, b).
      io_bind (write_state (\<lambda>_. False) (state_temporary s (cn_store_revision state)) b) (\<lambda>_.
      lock_sync l)) w3 = (Returned (Ok ()), w')"
    using c by (rule io_bind_Ok) (auto simp: io_of_Ok)
  obtain new b' where new: "prepare_commit s rv mutate old = Ok (new, b')"
    and c: "io_bind (write_state (\<lambda>_. False) (state_temporary s (cn_store_revision new)) b') (\<lambda>_.
      lock_sync l) w3 = (Returned (Ok ()), w')"
    using c by (rule io_bind_Ok) (auto simp: io_of_Ok split: prod.splits)
  have sync: "steps A (\<lambda>d. content d state_path = Some b') (lock_sync l) (\<lambda>_ d. content d state_path = Some b') (\<lambda>_. True)" for A
    unfolding lock_sync_def fs_sync_file_def
    by (rule steps_map_err, rule steps_attempt) auto
  have "content (disk_of w') state_path = Some b'"
    using stepsD[OF steps_bind[OF steps_write_content[OF temporary_other(1)[of s "cn_store_revision new"]] sync],
        of "\<lambda>_. True" w3 "\<lambda>_. False"] c
    by simp
  with l b old new show ?thesis by (auto simp: finds_state_def stored_state_def)
qed


lemma prepared_fields:
  assumes "prepare_commit s rv mutate old = Ok (new, b')"
  shows "cn_store_revision old = rv"
    and "\<exists>mid. mutate old = Ok mid \<and> cn_store_revision mid = rv \<and> new = mid\<lparr>cn_store_revision := rv + 1\<rparr>"
    and "fc_encode (sc_state s) new = Some b'"
  using assms
  by (auto simp: prepare_commit_def Let_def rbind_eq_Ok_iff encode_json_def checked_add_Some_iff split: if_splits)

text \<open>
  The contract the two ports rely on: a commit that succeeds changed, by the given function, the state
  it found on the revision it was given, and stamped it with the next one.
\<close>

locale revision_store =
  fixes commit :: "u64 \<Rightarrow> ('s \<Rightarrow> 's res) \<Rightarrow> (domain_error, unit) io"
    and finds :: "world \<Rightarrow> 's \<Rightarrow> bool" and holds :: "disk \<Rightarrow> 's \<Rightarrow> bool"
    and revision :: "'s \<Rightarrow> u64" and stamp :: "u64 \<Rightarrow> 's \<Rightarrow> 's"
  assumes commit_changes: "commit r f w = (Returned (Ok ()), w') \<Longrightarrow>
    \<exists>old mid. finds w old \<and> revision old = r \<and> f old = Ok mid \<and> revision mid = r
      \<and> holds (disk_of w') (stamp (r + 1) mid)"
begin

lemma retry_commits:
  assumes "retry_commit n (\<lambda>r. commit r (f r)) again ex r w = (Returned (Ok ()), w')"
  shows "\<exists>r0 w0 old mid. finds w0 old \<and> revision old = r0 \<and> f r0 old = Ok mid \<and> revision mid = r0
    \<and> holds (disk_of w') (stamp (r0 + 1) mid)"
  using assms
proof (induction n arbitrary: r w)
  case 0
  then show ?case by (simp add: io_fail_def)
next
  case (Suc n)
  obtain res w1 where c: "commit r (f r) w = (res, w1)" by fastforce
  show ?case
  proof (cases res)
    case (Returned v)
    show ?thesis
    proof (cases v)
      case (Inl e)
      then have "io_bind (again r e) (retry_commit n (\<lambda>r. commit r (f r)) again ex) w1 = (Returned (Ok ()), w')"
        using Suc.prems c Returned by (simp add: io_match_def)
      then show ?thesis by (rule io_bind_Ok) (rule Suc.IH)
    next
      case (Inr u)
      then have "commit r (f r) w = (Returned (Ok ()), w')"
        using Suc.prems c Returned by (simp add: io_match_def io_return_def)
      from commit_changes[OF this] show ?thesis by blast
    qed
  next
    case Died
    then show ?thesis using Suc.prems c by (simp add: io_match_def)
  qed
qed

end

interpretation state_commits: revision_store "compare_and_commit s lease" "finds_state s" "store_holds s"
  cn_store_revision "\<lambda>r c. c\<lparr>cn_store_revision := r\<rparr>" for s lease
proof
  fix r f w w'
  assume "compare_and_commit s lease r f w = (Returned (Ok ()), w')"
  from commit_Ok[OF this] obtain old new b' where c: "finds_state s w old"
      "prepare_commit s r f old = Ok (new, b')" "content (disk_of w') state_path = Some b'"
    by blast
  from prepared_fields[OF c(2)] c(1,3)
  show "\<exists>old mid. finds_state s w old \<and> cn_store_revision old = r \<and> f old = Ok mid
      \<and> cn_store_revision mid = r \<and> store_holds s (disk_of w') (mid\<lparr>cn_store_revision := r + 1\<rparr>)"
    by (auto simp: store_holds_def)
qed


end
