(* ===== verification/Store_Samples.thy ===== *)
theory Store_Samples
  imports Reset_Safety Persistence_Port Core_Samples
begin

text \<open>
  A small base the witnesses of the store's properties start from: an initialized owner and live
  identity, an empty state, and a recorded reset. The sample codec writes an empty state as one byte
  per revision.
\<close>

section \<open>Codecs and identities\<close>

definition state_of_revision :: "u64 \<Rightarrow> (unit, unit, unit) canonical_state" where
  "state_of_revision r = canonical_state_default\<lparr>cn_store_revision := r\<rparr>"

definition sample_state_codec :: "(unit, unit, unit) canonical_state file_codec" where
  "sample_state_codec =
     \<lparr>fc_encode = (\<lambda>c. if c = state_of_revision (cn_store_revision c)
                       then Some (replicate (unat (cn_store_revision c)) CHR ''x'') else None),
      fc_decode = (\<lambda>b. Some (state_of_revision (of_nat (length b))))\<rparr>"

definition sample_owner :: runtime_owner where
  "sample_owner = \<lparr>ow_schema_version = 1, ow_runtime_epoch = UuidV4 ''e'', ow_host = ApkRuntime,
     ow_host_generation = 1\<rparr>"

definition sample_live :: runtime_live where
  "sample_live = \<lparr>li_runtime_epoch = UuidV4 ''e'', li_host = ApkRuntime, li_host_generation = 1,
     li_runtime_instance_id = UuidV4 ''i'', li_boot_id = UuidV4 ''b'', li_pid = 7, li_start_ticks = 9\<rparr>"

definition sample_intent :: runtime_reset_intent where
  "sample_intent = \<lparr>ri_schema_version = 1, ri_reset_id = UuidV4 ''s'', ri_runtime_epoch = UuidV4 ''e'',
     ri_source_host_generation = 1, ri_target_host = ApkRuntime, ri_target_host_generation = 2\<rparr>"

definition constant_codec :: "'v \<Rightarrow> bytes \<Rightarrow> 'v file_codec" where
  "constant_codec v b = \<lparr>fc_encode = (\<lambda>_. Some b), fc_decode = (\<lambda>_. Some v)\<rparr>"

definition sample_store :: "(unit, unit, unit) state_store" where
  "sample_store = \<lparr>sc_base = ''base'', sc_owner = constant_codec sample_owner ''o'',
     sc_live = constant_codec sample_live ''l'', sc_intent = constant_codec sample_intent ''r'',
     sc_state = sample_state_codec, sc_wire = sample_codec, sc_texts = length_codec,
     sc_revision_text = (\<lambda>r. replicate (unat r) CHR ''1'')\<rparr>"

definition sample_lease :: lifetime_lease where
  "sample_lease = \<lparr>le_base = ''base'', le_live = sample_live\<rparr>"

lemma state_codec_faithful: "codec_faithful (sc_state sample_store)"
  by (auto simp: codec_faithful_def sample_store_def sample_state_codec_def split: if_splits)

lemma sample_lease_files: "lease_files sample_store sample_lease ''o'' ''l''"
  by (simp add: lease_files_def sample_lease_def sample_store_def constant_codec_def fence_matches_def
      live_fence_def sample_live_def sample_owner_def word_less_nat_alt)

lemma runtime_of_sample: "is_ok (runtime_of sample_codec (state_of_revision r))"
  by (simp add: runtime_of_def state_of_revision_def canonical_state_default_def automation_records_def
      validate_reservations_def reservation_records_def List.map_filter_simps)

lemma validate_sample:
  "n \<le> unat STORE_LIMIT_BYTES \<Longrightarrow> validate_state sample_store (state_of_revision r) n = Ok ()"
  using runtime_of_sample[of r]
  by (simp add: validate_state_def sample_store_def validate_canonical_def state_of_revision_def
      canonical_state_default_def running_tasks_def queued_tasks_def terminal_tasks_def reservation_sum_def)

lemma decode_sample: "decode_canonical_state sample_store [] = Ok (state_of_revision 0)"
  using validate_sample[of 0 0]
  by (simp add: decode_canonical_state_def) (simp add: sample_store_def sample_state_codec_def)

lemma encode_sample:
  "fc_encode (sc_state sample_store) (state_of_revision r) = Some (replicate (unat r) CHR ''x'')"
  by (simp add: sample_store_def sample_state_codec_def state_of_revision_def)

lemma stamped_sample: "state_of_revision q\<lparr>cn_store_revision := r\<rparr> = state_of_revision r"
  by (simp add: state_of_revision_def)

lemma sample_revision [simp]: "cn_store_revision (state_of_revision r) = r"
  by (simp add: state_of_revision_def)

lemma sample_commit:
  "commit_spec sample_store 0 Ok (state_of_revision 0) = (Ok (), state_of_revision 1)"
  "commit_spec sample_store 0 Ok (state_of_revision 1)
    = (Err (domain_error_new RevisionConflict ''store revision does not match''), state_of_revision 1)"
  by (simp_all add: commit_spec_def prepare_commit_def checked_add_def stamped_sample encode_json_def encode_sample
      validate_sample reserved_total_def Let_def)
    (simp_all add: state_of_revision_def canonical_state_default_def)

section \<open>Base\<close>

definition sample_disk :: disk where
  "sample_disk = \<lparr>names = [(owner_path, FileEntry 0), (live_path, FileEntry 1), (state_path, FileEntry 2),
       (state_lock_path, FileEntry 3), (intent_path, FileEntry 4), (live_lock_path, FileEntry 5)],
     durable = [(owner_path, FileEntry 0), (live_path, FileEntry 1), (state_path, FileEntry 2),
       (state_lock_path, FileEntry 3), (intent_path, FileEntry 4), (live_lock_path, FileEntry 5)],
     pending = [], inode_bytes = (\<lambda>i. if i = 0 then ''o'' else if i = 1 then ''l'' else if i = 4 then ''r'' else []),
     inode_synced = (\<lambda>_. True), next_inode = 6\<rparr>"

definition sample_world :: world where
  "sample_world = \<lparr>disk_of = sample_disk, fates = (\<lambda>_. Proceed), calls = 0, others = (\<lambda>_ d. d), grants = 0,
     held_elsewhere = (\<lambda>_. False)\<rparr>"

lemma base_settled:
  "settled owner_path {Some ''o''} sample_disk" "settled live_path {Some ''l''} sample_disk"
  "settled state_path {Some []} sample_disk" "settled intent_path {Some ''r''} sample_disk"
  by (simp_all add: settled_def outcomes_def sample_disk_def entry_at_def)

lemma sample_quiet: "quiet sample_world"
  by (simp add: quiet_def sample_world_def)

lemma sample_at_state: "at_state sample_store ''o'' ''l'' [] sample_disk"
  using base_settled
  by (auto simp: at_state_def base_ok_def state_temporary_def entry_at_def sample_disk_def split: if_splits)

lemma sample_locked:
  "\<exists>w'. lock_acquire state_lock_path sample_world = (Returned (Ok 3), w') \<and> disk_of w' = sample_disk"
  by (simp add: lock_acquire_def io_map_err_def io_match_def io_bind_def io_of_def fs_open_create_def
      attempt_def sample_world_def sample_disk_def entry_at_def lock_granted_def map_err_def Let_def)

section \<open>The properties on the sample\<close>

lemma sample_locked_commit:
  obtains w' where "lock_acquire state_lock_path sample_world = (Returned (Ok 3), w')"
    "settled state_path {Some []} (disk_of w')" "settled owner_path {Some ''o''} (disk_of w')"
    "settled live_path {Some ''l''} (disk_of w')"
  using sample_locked base_settled by force

lemma commit_result_sample:
  "commit_result sample_store 0 Ok [] = Ok (state_of_revision 1, ''x'')"
  by (simp add: commit_result_def decode_sample prepare_commit_def checked_add_def stamped_sample
      encode_json_def encode_sample validate_sample reserved_total_def Let_def)
    (simp add: state_of_revision_def canonical_state_default_def)

theorem commit_crash_atomic_witness:
  "\<exists>res w''. compare_and_commit_with_crash sample_store sample_lease 0 Ok (\<lambda>p. p = AfterRename) sample_world = (res, w'')
     \<and> content (crash [] (\<lambda>_. ''torn'') (disk_of w'')) state_path \<in> {Some [], Some ''x''}"
proof -
  obtain w' where l: "lock_acquire state_lock_path sample_world = (Returned (Ok 3), w')"
    "settled state_path {Some []} (disk_of w')" by (rule sample_locked_commit)
  obtain res w'' where c: "compare_and_commit_with_crash sample_store sample_lease 0 Ok (\<lambda>p. p = AfterRename)
      sample_world = (res, w'')" by fastforce
  from commit_crash_atomic[OF l c, of "[]" "\<lambda>_. ''torn''"] c show ?thesis
    by (auto simp: commit_result_sample)
qed

lemma sample_store_ok: "store_ok sample_store sample_lease (disk_of sample_world)"
  using sample_lease_files sample_at_state
  by (auto simp: store_ok_def at_state_def sample_world_def)

lemma sample_stored: "stored_state sample_store (disk_of sample_world) = Some (state_of_revision 0)"
  using stored_at_state[OF sample_at_state decode_sample] by (simp add: sample_world_def)


definition stale_lease :: lifetime_lease where
  "stale_lease = sample_lease\<lparr>le_live := sample_live\<lparr>li_runtime_instance_id := UuidV4 ''j''\<rparr>\<rparr>"

lemma stale_lease_files: "\<not> lease_files sample_store stale_lease ''o'' ''l''"
  by (simp add: lease_files_def stale_lease_def sample_lease_def sample_store_def constant_codec_def sample_live_def)

theorem stale_writer_fenced_witness:
  "\<exists>res w''. compare_and_commit sample_store stale_lease 0 Ok sample_world = (res, w'')
     \<and> res \<noteq> Returned (Ok ()) \<and> content (disk_of w'') state_path = Some []"
proof -
  obtain w' where l: "lock_acquire state_lock_path sample_world = (Returned (Ok 3), w')"
    "settled state_path {Some []} (disk_of w')" "settled owner_path {Some ''o''} (disk_of w')"
    "settled live_path {Some ''l''} (disk_of w')" by (rule sample_locked_commit)
  obtain res w'' where c: "compare_and_commit sample_store stale_lease 0 Ok sample_world = (res, w'')"
    by fastforce
  from stale_writer_fenced[OF l(1,3,4) stale_lease_files l(2) c] c show ?thesis by blast
qed

definition sample_reset :: reset_bytes where
  "sample_reset = \<lparr>rb_intent = ''r'', rb_owner = ''o'', rb_target = ''o'', rb_empty = [], rb_state = Some []\<rparr>"

lemma sample_reset_ready: "reset_ready sample_store sample_reset"
proof -
  have "validate_reset_owner sample_intent sample_owner = Ok OwnerSource"
    by (simp add: validate_reset_owner_def sample_intent_def sample_owner_def checked_add_def)
  moreover have "fc_encode (sc_state sample_store) canonical_state_default = Some []"
    using encode_sample[of 0] by (simp add: state_of_revision_def canonical_state_default_def)
  ultimately show ?thesis
    by (auto simp: reset_ready_def sample_reset_def sample_store_def constant_codec_def)
qed

theorem reset_never_lost_witness:
  "\<exists>res w'. recover_confirmed_reset sample_store True sample_world = (res, w')
     \<and> content (crash [] (\<lambda>_. []) (disk_of w')) intent_path \<in> {Some ''r'', None}
     \<and> content (crash [] (\<lambda>_. []) (disk_of w')) owner_path = Some ''o''
     \<and> content (crash [] (\<lambda>_. []) (disk_of w')) state_path = Some []"
proof -
  obtain res w' where c: "recover_confirmed_reset sample_store True sample_world = (res, w')" by fastforce
  have o: "keeps_files reset_files (others sample_world)" by (simp add: keeps_files_def sample_world_def)
  have b: "files_at (Some (rb_intent sample_reset)) (Some (rb_owner sample_reset)) (rb_state sample_reset)
      (disk_of sample_world)"
    using base_settled by (simp add: sample_reset_def sample_world_def)
  from reset_never_lost[OF sample_reset_ready o b c, of _ "[]" "\<lambda>_. []", OF refl] c show ?thesis
    by (auto simp: sample_reset_def)
qed

definition sample_candidate :: "(unit, unit, unit) runtime_state" where
  "sample_candidate = \<lparr>rs_revision = 1, rs_used_bytes = 0, rs_reserved_bytes = 0, rs_tasks = [],
     rs_synchronous_executions = [], rs_dedup = [], rs_automations = [], rs_automation_executions = [],
     rs_retained_mutations = []\<rparr>"

lemma canonical_sample: "canonical_of sample_candidate = Ok (state_of_revision 1)"
  by (simp add: canonical_of_def sample_candidate_def state_of_revision_def canonical_state_default_def
      reservation_records_def Let_def)

lemma sample_port_commit:
  "\<exists>w'. port_compare_and_commit sample_store sample_lease None 0 sample_candidate sample_world
     = (Returned (Ok ()), w')"
proof -
  let ?f = "rebase_mutation 0 None (state_of_revision 1) 0"
  have rev: "rs_revision sample_candidate = 1" by (simp add: sample_candidate_def)
  have m: "?f (state_of_revision 0) = Ok (state_of_revision 0)"
    by (simp add: rebase_mutation_def state_of_revision_def canonical_state_default_def)
  then have "commit_spec sample_store 0 ?f (state_of_revision 0) = (Ok (), state_of_revision 1)"
    using sample_commit(1) by (simp add: commit_spec_def prepare_commit_def)
  then obtain w' where "compare_and_commit sample_store sample_lease 0 ?f sample_world = (Returned (Ok ()), w')"
    using runsD[OF runs_commit_spec[OF state_codec_faithful sample_lease_files decode_sample, of 0 ?f] sample_quiet]
      sample_at_state by (auto simp: sample_world_def)
  then have "retry_commit REBASE_ATTEMPTS (\<lambda>revision. compare_and_commit sample_store sample_lease revision
      (rebase_mutation 0 None (state_of_revision 1) revision)) again ex 0 sample_world = (Returned (Ok ()), w')"
    for again ex
    by (simp add: numeral_eq_Suc io_match_def io_return_def)
  then show ?thesis
    by (auto simp: port_compare_and_commit_def checked_add_def rev canonical_sample port_view_def)
qed


end
