(* ===== verification/Json.thy ===== *)
theory Json
  imports Text_Ops Ordered_Map
begin

text \<open>
  \<open>serde_json::Value\<close> and the accessors the crates use on it. An object is a \<open>BTreeMap\<close>: its
  entries are ascending in their keys. A number is an integer of 64 bits, signed or unsigned, or the
  text of any other number, which the modelled code only passes on.
\<close>

datatype json =
  JNull | JBool bool | JInt int | JReal string | JString string | JArray "json list"
| JObject "(string \<times> json) list"

type_synonym json_map = "json btree_map"

fun as_object :: "json \<Rightarrow> json_map option" where
  "as_object (JObject m) = Some m"
| "as_object _ = None"

fun as_array :: "json \<Rightarrow> json list option" where
  "as_array (JArray xs) = Some xs"
| "as_array _ = None"

fun json_str :: "json \<Rightarrow> string option" where
  "json_str (JString s) = Some s"
| "json_str _ = None"

fun as_u64 :: "json \<Rightarrow> u64 option" where
  "as_u64 (JInt n) = (if 0 \<le> n \<and> n < 2 ^ 64 then Some (of_int n) else None)"
| "as_u64 _ = None"

fun as_i64 :: "json \<Rightarrow> int option" where
  "as_i64 (JInt n) = (if - (2 ^ 63) \<le> n \<and> n < 2 ^ 63 then Some n else None)"
| "as_i64 _ = None"

text \<open>\<open>Value::get\<close> with a key: nothing for a value that is no object. \<open>value["k"] = v\<close> inserts.\<close>

definition json_get :: "json \<Rightarrow> string \<Rightarrow> json option" where
  "json_get v k = (case as_object v of None \<Rightarrow> None | Some m \<Rightarrow> bt_get m k)"

fun json_set :: "json \<Rightarrow> string \<Rightarrow> json \<Rightarrow> json" where
  "json_set (JObject m) k v = JObject (bt_insert k v m)"
| "json_set other k v = other"

text \<open>The literal \<open>json!({...})\<close>, its keys in any order.\<close>

definition json_object :: "(string \<times> json) list \<Rightarrow> json" where
  "json_object kvs = JObject (bt_from kvs)"

definition get_str :: "json \<Rightarrow> string \<Rightarrow> string option" where
  "get_str v k = Option.bind (json_get v k) json_str"

definition only_keys :: "json_map \<Rightarrow> string list \<Rightarrow> bool" where
  "only_keys m allowed \<longleftrightarrow> list_all (\<lambda>k. k \<in> set allowed) (map fst m)"

section \<open>Reading what was built\<close>

lemma bt_get_from: "bt_get (bt_from kvs) k = map_of (rev kvs) k"
proof -
  have "bt_get (fold (\<lambda>(k, v) m. bt_insert k v m) kvs m) k = (case map_of (rev kvs) k of
      None \<Rightarrow> bt_get m k | Some v \<Rightarrow> Some v)" for m
    by (induction kvs arbitrary: m) (auto simp: bt_get_insert map_add_def split: option.splits)
  from this[of "[]"] show ?thesis by (simp add: bt_from_def bt_get_def split: option.splits)
qed

lemma json_get_object [simp]: "json_get (json_object kvs) k = map_of (rev kvs) k"
  by (simp add: json_get_def json_object_def bt_get_from)

lemma as_object_object [simp]: "as_object (json_object kvs) = Some (bt_from kvs)"
  by (simp add: json_object_def)

lemma json_get_set [simp]:
  "json_get (json_set (json_object kvs) k v) k' = (if k' = k then Some v else json_get (json_object kvs) k')"
  by (simp add: json_get_def json_object_def bt_get_insert)

end
