(* ===== verification/Mcp_Protocol.thy ===== *)
theory Mcp_Protocol
  imports Json Artifact
begin

text \<open>
  The parts of the MCP facade (\<open>rust/crates/runtime/src/mcp.rs\<close>) that need no host: the framed request
  and response, the headers, the JSON-RPC replies, the resource cursors, the artifact queries, and what
  the facade adds to a failure. A reply is \<open>None\<close> when the code would panic instead of answering.
  What \<open>serde_json\<close> reads and writes and which payloads the Contract accepts are a parameter.
\<close>

section \<open>Requests and responses\<close>

abbreviation MCP_PROTOCOL_VERSION :: string where "MCP_PROTOCOL_VERSION \<equiv> ''2026-07-28''"
abbreviation MCP_BODY_LIMIT_BYTES :: nat where "MCP_BODY_LIMIT_BYTES \<equiv> 262144"
abbreviation MCP_RESPONSE_LIMIT_BYTES :: nat where "MCP_RESPONSE_LIMIT_BYTES \<equiv> 12000000"
abbreviation MCP_RESOURCE_PAGE_SIZE :: nat where "MCP_RESOURCE_PAGE_SIZE \<equiv> 200"
abbreviation REF_EXPIRY_BATCH :: nat where "REF_EXPIRY_BATCH \<equiv> 32"
abbreviation META_PROTOCOL_VERSION :: string where
  "META_PROTOCOL_VERSION \<equiv> ''io.modelcontextprotocol/protocolVersion''"
abbreviation META_CLIENT_CAPABILITIES :: string where
  "META_CLIENT_CAPABILITIES \<equiv> ''io.modelcontextprotocol/clientCapabilities''"
abbreviation META_CLIENT_INFO :: string where "META_CLIENT_INFO \<equiv> ''io.modelcontextprotocol/clientInfo''"
abbreviation META_SERVER_INFO :: string where "META_SERVER_INFO \<equiv> ''io.modelcontextprotocol/serverInfo''"
abbreviation META_REQUEST_ID :: string where "META_REQUEST_ID \<equiv> ''io.droidbridge/requestId''"
abbreviation META_REF_EXPIRIES :: string where "META_REF_EXPIRIES \<equiv> ''io.droidbridge/refExpiries''"
abbreviation PARSE_ERROR :: int where "PARSE_ERROR \<equiv> - 32700"
abbreviation INVALID_REQUEST :: int where "INVALID_REQUEST \<equiv> - 32600"
abbreviation METHOD_NOT_FOUND :: int where "METHOD_NOT_FOUND \<equiv> - 32601"
abbreviation INVALID_PARAMS :: int where "INVALID_PARAMS \<equiv> - 32602"
abbreviation INTERNAL_ERROR :: int where "INTERNAL_ERROR \<equiv> - 32603"
abbreviation HEADER_MISMATCH :: int where "HEADER_MISMATCH \<equiv> - 32020"
abbreviation UNSUPPORTED_PROTOCOL_VERSION :: int where "UNSUPPORTED_PROTOCOL_VERSION \<equiv> - 32022"

definition MCP_TOOL_NAMES :: "string list" where
  "MCP_TOOL_NAMES = [''context'', ''filesystem'', ''command'', ''network'', ''visual'', ''android'',
     ''automation'', ''task_control'']"

definition REF_FIELDS :: "string list" where
  "REF_FIELDS = [''stdout_ref'', ''stderr_ref'', ''data_ref'', ''image_ref'']"

record mcp_request =
  mq_method :: string
  mq_headers :: "(string \<times> string) list"
  mq_body :: string

record mcp_response =
  mp_status :: nat
  mp_body :: "string option"

type_synonym mcp_reply = "mcp_response option"

record mcp_codec =
  mc_decode :: "string \<Rightarrow> json option" \<comment> \<open>\<open>serde_json::from_slice\<close>\<close>
  mc_encode :: "json \<Rightarrow> string option" \<comment> \<open>\<open>serde_json::to_vec\<close>, \<open>to_string\<close>\<close>
  mc_payload :: "json \<Rightarrow> bool" \<comment> \<open>\<open>from_value::<PublicPayload>\<close> succeeds\<close>
  mc_texts :: text_codec

definition bodiless :: "nat \<Rightarrow> mcp_reply" where
  "bodiless status = Some \<lparr>mp_status = status, mp_body = None\<rparr>"

definition json_response :: "mcp_codec \<Rightarrow> nat \<Rightarrow> json \<Rightarrow> mcp_reply" where
  "json_response c status v =
     (case mc_encode c v of
        None \<Rightarrow> None
      | Some body \<Rightarrow> Some \<lparr>mp_status = status, mp_body = Some body\<rparr>)"

definition rpc_result :: "mcp_codec \<Rightarrow> json \<Rightarrow> json \<Rightarrow> mcp_reply" where
  "rpc_result c ident result = json_response c 200
     (json_object [(''jsonrpc'', JString ''2.0''), (''id'', ident), (''result'', result)])"

definition rpc_error :: "mcp_codec \<Rightarrow> nat \<Rightarrow> json \<Rightarrow> int \<Rightarrow> string \<Rightarrow> json option \<Rightarrow> mcp_reply" where
  "rpc_error c status ident code message data =
     (let error = json_object [(''code'', JInt code), (''message'', JString message)];
          error = (case data of None \<Rightarrow> error | Some d \<Rightarrow> json_set error ''data'' d)
      in json_response c status
           (json_object [(''jsonrpc'', JString ''2.0''), (''id'', ident), (''error'', error)]))"

definition invalid_params :: "mcp_codec \<Rightarrow> json \<Rightarrow> json option \<Rightarrow> mcp_reply" where
  "invalid_params c ident data = rpc_error c 200 ident INVALID_PARAMS ''Invalid params'' data"

definition field_detail :: "string \<Rightarrow> string \<Rightarrow> json option" where
  "field_detail field reason =
     Some (json_object [(''field'', JString field), (''reason'', JString reason)])"

definition internal_error :: "mcp_codec \<Rightarrow> json \<Rightarrow> mcp_reply" where
  "internal_error c ident = rpc_error c 200 ident INTERNAL_ERROR ''Internal error'' None"

definition generated_contract_invalid :: domain_error where
  "generated_contract_invalid =
     domain_error_new InternalError ''generated Contract artifacts cannot project MCP tool schemas''"

definition invalid_host_reply :: domain_error where
  "invalid_host_reply = domain_error_new IoError ''artifact query reply is invalid''"

section \<open>Headers\<close>

definition header_values :: "mcp_request \<Rightarrow> string \<Rightarrow> string list" where
  "header_values q name = map snd (filter (\<lambda>(header, _). eq_ignore_ascii_case header name) (mq_headers q))"

definition single_header :: "mcp_request \<Rightarrow> string \<Rightarrow> string option" where
  "single_header q name = (case header_values q name of [value] \<Rightarrow> Some value | _ \<Rightarrow> None)"

definition loopback_name :: "string \<Rightarrow> bool" where
  "loopback_name name \<longleftrightarrow> eq_ignore_ascii_case name ''127.0.0.1'' \<or> eq_ignore_ascii_case name ''localhost''"

definition host_is_endpoint :: "nat \<Rightarrow> mcp_request \<Rightarrow> bool" where
  "host_is_endpoint port q \<longleftrightarrow>
     (case Option.bind (single_header q ''host'') (rsplit_once '':'') of
        None \<Rightarrow> False
      | Some (name, p) \<Rightarrow> p = decimal_text port \<and> loopback_name name)"

definition origin_is_loopback :: "mcp_request \<Rightarrow> bool" where
  "origin_is_loopback q \<longleftrightarrow>
     (case header_values q ''origin'' of
        [] \<Rightarrow> True
      | [origin] \<Rightarrow> (case split_once ''://'' origin of
            None \<Rightarrow> False
          | Some (_, authority) \<Rightarrow>
              CHR ''/'' \<notin> set authority \<and> loopback_name (hd (split_char CHR '':'' authority)))
      | _ \<Rightarrow> False)"

text \<open>The comparison of the tokens folds over all bytes.\<close>

definition token_difference :: "string \<Rightarrow> string \<Rightarrow> u8" where
  "token_difference a b =
     fold (\<lambda>(left, right) difference. or difference (xor (of_char left) (of_char right))) (zip a b) 0"

definition bearer_matches :: "mcp_request \<Rightarrow> string \<Rightarrow> bool" where
  "bearer_matches q accepted_token \<longleftrightarrow>
     (case Option.bind (single_header q ''authorization'') (strip_prefix ''Bearer '') of
        None \<Rightarrow> False
      | Some token \<Rightarrow> accepted_token \<noteq> [] \<and> length token = length accepted_token
          \<and> token_difference token accepted_token = 0)"

definition content_type_is_json :: "mcp_request \<Rightarrow> bool" where
  "content_type_is_json q \<longleftrightarrow>
     (case single_header q ''content-type'' of
        None \<Rightarrow> False
      | Some value \<Rightarrow> eq_ignore_ascii_case (trim (hd (split_char CHR '';'' value))) ''application/json'')"

definition accept_is_acceptable :: "mcp_request \<Rightarrow> bool" where
  "accept_is_acceptable q \<longleftrightarrow>
     (let ranges = map (\<lambda>range. to_ascii_lowercase (trim (hd (split_char CHR '';'' range))))
            (concat (map (split_char CHR '','') (header_values q ''accept'')));
          accepts = (\<lambda>media. list_ex (\<lambda>range. range = media \<or> range = ''*/*'') ranges)
      in accepts ''application/json'' \<and> accepts ''text/event-stream'')"

definition decode_name_header :: "string \<Rightarrow> string option" where
  "decode_name_header value =
     (case Option.bind (strip_prefix ''=?base64?'' value) (strip_suffix ''?='') of
        None \<Rightarrow> Some value
      | Some encoded \<Rightarrow> Option.bind (base64_decode False True encoded)
          (\<lambda>b. if from_utf8 b then Some b else None))"

definition is_protocol_date :: "string \<Rightarrow> bool" where
  "is_protocol_date value \<longleftrightarrow> length value = 10
     \<and> list_all (\<lambda>(index, byte). if index = 4 \<or> index = 7 then byte = CHR ''-'' else is_ascii_digit byte)
         (enumerate 0 value)"

section \<open>Cursors and queries\<close>

definition mcp_resource_cursor :: "string \<Rightarrow> string" where
  "mcp_resource_cursor last_ref = base64_encode True False last_ref"

definition mcp_resource_cursor_ref :: "string \<Rightarrow> string option" where
  "mcp_resource_cursor_ref cursor =
     Option.bind (base64_decode True False cursor) (\<lambda>artifact_ref.
     if from_utf8 artifact_ref \<and> mcp_resource_cursor artifact_ref = cursor then Some artifact_ref else None)"

datatype mcp_artifact_query = QueryList "string option" | QueryRead string | QueryMetadata "string list"

definition is_artifact_query :: "json \<Rightarrow> bool" where
  "is_artifact_query payload \<longleftrightarrow> json_get payload ''artifact_query'' \<noteq> None"

definition query_invalid :: "'a res" where
  "query_invalid = err InvalidArgument ''artifact query is invalid''"

definition decode_query :: "json \<Rightarrow> mcp_artifact_query res" where
  "decode_query payload =
     (case as_object payload of
        None \<Rightarrow> query_invalid
      | Some envelope \<Rightarrow>
          if length envelope \<noteq> 2 \<or> bt_get envelope ''protocol_version'' \<noteq> Some (JInt 1) then query_invalid
          else (case Option.bind (bt_get envelope ''artifact_query'') as_object of
            None \<Rightarrow> query_invalid
          | Some query \<Rightarrow>
              let operation = Option.bind (bt_get query ''operation'') json_str
              in if operation = Some ''list'' \<and> only_keys query [''operation'', ''cursor'']
                 then (case bt_get query ''cursor'' of
                     None \<Rightarrow> Ok (QueryList None)
                   | Some (JString cursor) \<Rightarrow> Ok (QueryList (Some cursor))
                   | Some _ \<Rightarrow> query_invalid)
                 else if operation = Some ''read'' \<and> length query = 2
                 then (case Option.bind (bt_get query ''uri'') json_str of
                     None \<Rightarrow> query_invalid
                   | Some uri \<Rightarrow> Ok (QueryRead uri))
                 else if operation = Some ''metadata'' \<and> length query = 2
                 then (case Option.bind (bt_get query ''refs'') as_array of
                     None \<Rightarrow> query_invalid
                   | Some values \<Rightarrow> (case collect_options (map json_str values) of
                       None \<Rightarrow> query_invalid
                     | Some refs \<Rightarrow>
                         if refs = [] \<or> length refs > REF_EXPIRY_BATCH \<or> \<not> distinct refs
                         then query_invalid else Ok (QueryMetadata refs)))
                 else query_invalid))"

definition query_envelope :: "(string \<times> json) list \<Rightarrow> json" where
  "query_envelope query =
     json_object [(''protocol_version'', JInt 1), (''artifact_query'', json_object query)]"

section \<open>References in a result\<close>

text \<open>The references named by a result's fields, as the ordered set the code collects them into.\<close>

fun refs_of :: "json \<Rightarrow> string list" where
  "refs_of (JObject members) = concat (map (\<lambda>kv. case snd kv of
       JString artifact_ref \<Rightarrow> if fst kv \<in> set REF_FIELDS then [artifact_ref] else refs_of (snd kv)
     | _ \<Rightarrow> refs_of (snd kv)) members)"
| "refs_of (JArray items) = concat (map refs_of items)"
| "refs_of other = []"

definition collect_refs :: "json \<Rightarrow> string list" where
  "collect_refs v = sort (remdups (refs_of v))"

fun chunks :: "nat \<Rightarrow> 'a list \<Rightarrow> 'a list list" where
  "chunks n xs = (if n = 0 \<or> xs = [] then [] else take n xs # chunks n (drop n xs))"

declare chunks.simps [simp del]

section \<open>The next step after a failure\<close>

definition text_step :: "string \<Rightarrow> json_map \<Rightarrow> string option" where
  "text_step code arguments =
     (case bt_get arguments ''input'' of None \<Rightarrow> None
      | Some input \<Rightarrow>
          if Option.bind (bt_get arguments ''action'') json_str \<noteq> Some ''interact''
            \<or> get_str input ''operation'' \<noteq> Some ''text''
          then None
          else if code = ''UNSUPPORTED'' \<and> json_get input ''node_ref'' \<noteq> None
          then Some (''That node does not accept text. If it is an input's placeholder, tap it to focus the ''
            @ ''editor, observe again, then send text without node_ref to type into the focused editor.'')
          else if code = ''CAPABILITY_UNAVAILABLE'' \<and> json_get input ''node_ref'' = None
          then Some (''No editor has input focus. Observe, tap the input field, then send the text again ''
            @ ''without node_ref. If that still fails, call context status to check text input.'')
          else None)"

definition next_step :: "string \<Rightarrow> string option" where
  "next_step code =
     (if code = ''STALE_REFERENCE''
      then Some (''The screen changed after that observation, or that observation could not address the ''
        @ ''screen (see its interact facts). Call visual observe again and act on the new ''
        @ ''observation's node_ref or coordinates; the old ones will not be accepted again.'')
      else if code = ''STALE_AUTHORITY''
      then Some (''The display or execution backend changed while this call was handled. Observe or query ''
        @ ''again, then retry with fresh values.'')
      else if code = ''CAPABILITY_UNAVAILABLE''
      then Some (''That capability is not available right now. Call context status to see which ''
        @ ''capabilities are available and why.'')
      else if code = ''UNSUPPORTED''
      then Some (''The current backend does not support this. Call context status to see what this device ''
        @ ''supports, or choose another action.'')
      else if code = ''RUN_AS_UNAVAILABLE''
      then Some (''That run_as identity is not available. Call context status and use an identity it lists ''
        @ ''as available.'')
      else if code = ''PERMISSION_DENIED''
      then Some (''The device refused this operation. Call context status to see which permission or ''
        @ ''backend it needs.'')
      else if code = ''NOT_FOUND''
      then Some (''The referenced item does not exist or has expired. Obtain a fresh reference first.'')
      else if code = ''TIMEOUT''
      then Some (''It did not finish in time. For a long command, set a larger timeout_ms (root allows up ''
        @ ''to 3600000) and run it with as_task, following the task with task_control.'')
      else if code = ''RESOURCE_LIMIT''
      then Some (''A size or count limit was reached. Ask for less, for example fewer nodes, no image or a ''
        @ ''smaller file.'')
      else if code = ''HOST_TRANSITION_PENDING''
      then Some (''DroidBridge is switching its execution backend. Retry in a few seconds.'')
      else None)"

text \<open>\<open>with_next_step\<close> adds a message to an error that carries none.\<close>

definition with_next_step :: "json \<Rightarrow> json_map \<Rightarrow> json" where
  "with_next_step error arguments =
     (case as_object error of
        None \<Rightarrow> error
      | Some object \<Rightarrow>
          if bt_contains object ''message'' then error
          else
            let code = (case Option.bind (bt_get object ''code'') json_str of None \<Rightarrow> [] | Some code \<Rightarrow> code)
            in (case (case text_step code arguments of None \<Rightarrow> next_step code | Some step \<Rightarrow> Some step) of
                  None \<Rightarrow> error
                | Some step \<Rightarrow> JObject (bt_insert ''message'' (JString step) object)))"

definition focused_input_names_observation :: "string \<Rightarrow> json_map \<Rightarrow> bool" where
  "focused_input_names_observation tool arguments \<longleftrightarrow>
     (if tool \<noteq> ''visual'' \<or> Option.bind (bt_get arguments ''action'') json_str \<noteq> Some ''interact'' then True
      else (case bt_get arguments ''input'' of
         None \<Rightarrow> True
       | Some input \<Rightarrow>
           let needs_observation =
             (if get_str input ''operation'' = Some ''text'' then json_get input ''node_ref'' = None
              else if get_str input ''operation'' = Some ''key''
              then Option.bind (json_get input ''key_code'') as_i64 \<noteq> Some 224
              else False)
           in \<not> needs_observation \<or> json_get input ''observation_id'' \<noteq> None))"

section \<open>Header checks of a call\<close>

text \<open>A failed check is the reply to give.\<close>

definition header_mismatch :: "mcp_codec \<Rightarrow> json \<Rightarrow> (mcp_reply, 'a) result" where
  "header_mismatch c ident = Err (rpc_error c 400 ident HEADER_MISMATCH ''Header mismatch'' None)"

definition check_version :: "mcp_codec \<Rightarrow> mcp_request \<Rightarrow> json \<Rightarrow> (mcp_reply, unit) result" where
  "check_version c q ident =
     (case single_header q ''mcp-protocol-version'' of
        None \<Rightarrow> header_mismatch c ident
      | Some version \<Rightarrow>
          if version = MCP_PROTOCOL_VERSION then Ok ()
          else if is_protocol_date version
          then Err (rpc_error c 400 ident UNSUPPORTED_PROTOCOL_VERSION ''Unsupported protocol version''
                 (Some (json_object [(''supported'', JArray [JString MCP_PROTOCOL_VERSION]),
                    (''requested'', JString version)])))
          else header_mismatch c ident)"

definition check_name :: "mcp_codec \<Rightarrow> mcp_request \<Rightarrow> json \<Rightarrow> string \<Rightarrow> json_map \<Rightarrow> (mcp_reply, bool) result" where
  "check_name c q ident meth params =
     (if single_header q ''mcp-method'' \<noteq> Some meth then header_mismatch c ident
      else
        rbind (case header_values q ''mcp-name'' of
            [] \<Rightarrow> Ok None
          | [value] \<Rightarrow> (case decode_name_header value of
               None \<Rightarrow> header_mismatch c ident | Some name \<Rightarrow> Ok (Some name))
          | _ \<Rightarrow> header_mismatch c ident) (\<lambda>name_header.
        if meth = ''tools/call'' \<or> meth = ''resources/read'' then
          let field = (if meth = ''tools/call'' then ''name'' else ''uri'')
          in (case Option.bind (bt_get params field) json_str of
                None \<Rightarrow> Err (invalid_params c ident (field_detail (''params.'' @ field) ''expected a string''))
              | Some expected \<Rightarrow> if name_header \<noteq> Some expected then header_mismatch c ident else Ok True)
        else if meth = ''server/discover'' \<or> meth = ''tools/list'' \<or> meth = ''resources/list''
        then if name_header \<noteq> None then header_mismatch c ident else Ok True
        else Ok False))"

definition client_info_valid :: "json \<Rightarrow> bool" where
  "client_info_valid info \<longleftrightarrow> (case as_object info of None \<Rightarrow> False
     | Some info \<Rightarrow> Option.bind (bt_get info ''name'') json_str \<noteq> None
         \<and> Option.bind (bt_get info ''version'') json_str \<noteq> None)"

definition check_meta :: "mcp_codec \<Rightarrow> json \<Rightarrow> json_map \<Rightarrow> (mcp_reply, unit) result" where
  "check_meta c ident params =
     (let invalid = (\<lambda>field reason. Err (invalid_params c ident (field_detail field reason)))
      in case Option.bind (bt_get params ''_meta'') as_object of
           None \<Rightarrow> invalid ''params._meta'' ''expected an object''
         | Some meta \<Rightarrow>
             rbind (case Option.bind (bt_get meta META_PROTOCOL_VERSION) json_str of
                 None \<Rightarrow> invalid (''params._meta.'' @ META_PROTOCOL_VERSION) ''expected the negotiated protocol version''
               | Some body_version \<Rightarrow>
                   if body_version = MCP_PROTOCOL_VERSION then Ok () else header_mismatch c ident) (\<lambda>_.
             if Option.bind (bt_get meta META_CLIENT_CAPABILITIES) as_object = None
             then invalid (''params._meta.'' @ META_CLIENT_CAPABILITIES) ''expected an object''
             else (case bt_get meta META_CLIENT_INFO of
                 None \<Rightarrow> Ok ()
               | Some info \<Rightarrow> if client_info_valid info then Ok ()
                   else invalid (''params._meta.'' @ META_CLIENT_INFO) ''expected name and version strings'')))"

definition validate_metadata_headers ::
  "mcp_codec \<Rightarrow> mcp_request \<Rightarrow> json \<Rightarrow> string \<Rightarrow> json_map \<Rightarrow> (mcp_reply, unit) result" where
  "validate_metadata_headers c q ident meth params =
     rbind (check_version c q ident) (\<lambda>_.
     rbind (check_name c q ident meth params) (\<lambda>known.
     if known then check_meta c ident params else Ok ()))"

end
