(* ===== verification/Mcp_Facade.thy ===== *)
theory Mcp_Facade
  imports Mcp_Protocol
begin

text \<open>
  The MCP facade over its host (\<open>McpFacade\<close> in \<open>rust/crates/runtime/src/mcp.rs\<close>): the authentication of
  a request, the dispatch of its method, the tool call and the resources. The host is a parameter with
  a state of its own; a handler gives the reply and the host's state afterwards.
\<close>

section \<open>The host\<close>

text \<open>
  A descriptor is what reading the file it names gives. \<open>mf_tools\<close> is the value \<open>tool_definitions\<close>
  built; \<open>minted\<close> is the identity \<open>new_uuid\<close> draws for a call that brings none.
\<close>

record mcp_artifact_reply =
  qp_payload :: json
  qp_descriptor :: "(unit, string) result option"

record 's mcp_host =
  mh_submit :: "'s \<Rightarrow> string \<Rightarrow> string res \<times> 's"
  mh_query :: "'s \<Rightarrow> json \<Rightarrow> mcp_artifact_reply res \<times> 's"

record mcp_facade =
  mf_port :: nat
  mf_version :: string
  mf_tools :: json
  mf_codec :: mcp_codec

definition facade_new :: "nat \<Rightarrow> string \<Rightarrow> json res \<Rightarrow> mcp_codec \<Rightarrow> mcp_facade res" where
  "facade_new port product_version tools c =
     (if product_version = [] then err InvalidArgument ''MCP product version is empty''
      else rbind tools (\<lambda>tools.
        Ok \<lparr>mf_port = port, mf_version = product_version, mf_tools = tools, mf_codec = c\<rparr>))"

definition server_meta :: "mcp_facade \<Rightarrow> json" where
  "server_meta f = json_object [(META_SERVER_INFO,
     json_object [(''name'', JString ''DroidBridge''), (''version'', JString (mf_version f))])]"

definition oversized :: "mcp_reply \<Rightarrow> bool" where
  "oversized reply \<longleftrightarrow> (case reply of None \<Rightarrow> False
     | Some r \<Rightarrow> (case mp_body r of None \<Rightarrow> False | Some body \<Rightarrow> length body > MCP_RESPONSE_LIMIT_BYTES))"

text \<open>Reading at most one byte more than announced; anything but the announced size is an error.\<close>

definition read_exactly :: "u64 \<Rightarrow> (unit, string) result \<Rightarrow> string option" where
  "read_exactly n descriptor =
     (case descriptor of
        Inl _ \<Rightarrow> None
      | Inr file \<Rightarrow> (let b = take (unat (saturating_add n 1)) file
          in if of_nat (length b) \<noteq> n then None else Some b))"

section \<open>Discovery\<close>

definition discover :: "mcp_facade \<Rightarrow> json \<Rightarrow> json_map \<Rightarrow> mcp_reply" where
  "discover f ident params =
     (let c = mf_codec f
      in if \<not> only_keys params [''_meta'']
         then invalid_params c ident (field_detail ''params'' ''expected only _meta'')
         else rpc_result c ident (json_object
           [(''resultType'', JString ''complete''), (''supportedVersions'', JArray [JString MCP_PROTOCOL_VERSION]),
            (''capabilities'', json_object [(''tools'', json_object []), (''resources'', json_object [])]),
            (''ttlMs'', JInt 0), (''cacheScope'', JString ''private''), (''_meta'', server_meta f)]))"

definition list_tools :: "mcp_facade \<Rightarrow> json \<Rightarrow> json_map \<Rightarrow> mcp_reply" where
  "list_tools f ident params =
     (let c = mf_codec f
      in if \<not> only_keys params [''_meta'', ''cursor'']
         then invalid_params c ident (field_detail ''params'' ''expected only _meta and cursor'')
         else if bt_get params ''cursor'' \<notin> {None, Some (JString [])}
         then invalid_params c ident (field_detail ''params.cursor'' ''no such page'')
         else rpc_result c ident (json_object
           [(''resultType'', JString ''complete''), (''tools'', mf_tools f), (''ttlMs'', JInt 0),
            (''cacheScope'', JString ''private''), (''_meta'', server_meta f)]))"

section \<open>Tool calls\<close>

definition tool_failure_with ::
  "mcp_facade \<Rightarrow> json \<Rightarrow> string \<Rightarrow> error_code \<Rightarrow> string \<Rightarrow> bool \<Rightarrow> mcp_reply" where
  "tool_failure_with f ident operation code message retryable =
     (let structured = json_object
            [(''code'', JString (error_code_token code)), (''operation'', JString operation),
             (''retryable'', JBool retryable), (''message'', JString message)]
      in case mc_encode (mf_codec f) structured of
           None \<Rightarrow> None
         | Some content_text \<Rightarrow> rpc_result (mf_codec f) ident (json_object
             [(''resultType'', JString ''complete''),
              (''content'', JArray [json_object [(''type'', JString ''text''), (''text'', JString content_text)]]),
              (''structuredContent'', structured), (''isError'', JBool True), (''_meta'', server_meta f)]))"

definition tool_failure :: "mcp_facade \<Rightarrow> json \<Rightarrow> string \<Rightarrow> error_code \<Rightarrow> string \<Rightarrow> mcp_reply" where
  "tool_failure f ident operation code message = tool_failure_with f ident operation code message False"

text \<open>The expiries one batch of references adds.\<close>

fun add_expiries :: "string list \<Rightarrow> json list \<Rightarrow> json_map \<Rightarrow> json_map res" where
  "add_expiries batch [] expiries = Ok expiries"
| "add_expiries batch (artifact # rest) expiries =
     (case (get_str artifact ''ref'', get_str artifact ''expires_at'') of
        (Some artifact_ref, Some expires_at) \<Rightarrow>
          if artifact_ref \<notin> set batch then Err invalid_host_reply
          else add_expiries batch rest (bt_insert artifact_ref (JString expires_at) expiries)
      | _ \<Rightarrow> Err invalid_host_reply)"

fun batch_expiries ::
  "'s mcp_host \<Rightarrow> string list list \<Rightarrow> json_map \<Rightarrow> 's \<Rightarrow> json_map res \<times> 's" where
  "batch_expiries h [] expiries s = (Ok expiries, s)"
| "batch_expiries h (batch # batches) expiries s =
     (case mh_query h s (query_envelope [(''operation'', JString ''metadata''), (''refs'', JArray (map JString batch))]) of
        (Inl e, s) \<Rightarrow> (Err e, s)
      | (Inr reply, s) \<Rightarrow> (case Option.bind (json_get (qp_payload reply) ''artifacts'') as_array of
            None \<Rightarrow> (Err invalid_host_reply, s)
          | Some artifacts \<Rightarrow> (case add_expiries batch artifacts expiries of
              Inl e \<Rightarrow> (Err e, s)
            | Inr expiries \<Rightarrow> batch_expiries h batches expiries s)))"

definition ref_expiries :: "'s mcp_host \<Rightarrow> json \<Rightarrow> 's \<Rightarrow> json option res \<times> 's" where
  "ref_expiries h result s =
     (let refs = collect_refs result
      in if refs = [] then (Ok None, s)
         else (case batch_expiries h (chunks REF_EXPIRY_BATCH refs) [] s of
             (Inl e, s) \<Rightarrow> (Err e, s)
           | (Inr expiries, s) \<Rightarrow> (Ok (if expiries = [] then None else Some (JObject expiries)), s)))"

definition image_mime_type :: "string \<Rightarrow> bool" where
  "image_mime_type mime \<longleftrightarrow> mime \<in> {''image/heic'', ''image/jpeg'', ''image/png''}"

definition inline_image :: "'s mcp_host \<Rightarrow> json \<Rightarrow> 's \<Rightarrow> json option res \<times> 's" where
  "inline_image h result s =
     (case get_str result ''image_ref'' of
        None \<Rightarrow> (Ok None, s)
      | Some uri \<Rightarrow>
          (case mh_query h s (query_envelope [(''operation'', JString ''read''), (''uri'', JString uri)]) of
             (Inl e, s) \<Rightarrow> (Err e, s)
           | (Inr reply, s) \<Rightarrow>
               (case (get_str (qp_payload reply) ''kind'', Option.bind (json_get (qp_payload reply) ''size'') as_u64,
                      get_str (qp_payload reply) ''mime'', qp_descriptor reply) of
                  (Some kind, Some n, Some mime, Some descriptor) \<Rightarrow>
                    if kind \<noteq> ''image'' then (Err invalid_host_reply, s)
                    else if get_str (qp_payload reply) ''uri'' \<noteq> Some uri \<or> \<not> image_mime_type mime \<or> n = 0
                      \<or> n > 8 * 1024 * 1024
                    then (Err invalid_host_reply, s)
                    else (case read_exactly n descriptor of
                        None \<Rightarrow> (Err invalid_host_reply, s)
                      | Some b \<Rightarrow> (Ok (Some (json_object
                          [(''type'', JString ''image''), (''data'', JString (base64_encode False True b)),
                           (''mimeType'', JString mime)])), s))
                | _ \<Rightarrow> (Err invalid_host_reply, s))))"

text \<open>What the host's answer says of a call: the structured content and whether it is an error.\<close>

definition host_outcome :: "json \<Rightarrow> json_map \<Rightarrow> (string, json \<times> bool) result" where
  "host_outcome response arguments =
     (if get_str response ''outcome'' = Some ''success''
      then (case json_get response ''result'' of
          Some result \<Rightarrow> Ok (result, False)
        | None \<Rightarrow> Err ''the Runtime host answered a success without a result'')
      else if get_str response ''outcome'' = Some ''error''
      then (case json_get response ''error'' of
          Some error \<Rightarrow> Ok (with_next_step error arguments, True)
        | None \<Rightarrow> Err ''the Runtime host answered an error without a reason'')
      else Err ''the Runtime host answered an envelope with no outcome'')"

definition tool_answer ::
  "mcp_facade \<Rightarrow> json \<Rightarrow> string \<Rightarrow> json \<Rightarrow> bool \<Rightarrow> json \<Rightarrow> json list \<Rightarrow> mcp_reply" where
  "tool_answer f ident operation structured is_error meta content =
     (let reply = rpc_result (mf_codec f) ident (json_object
            [(''resultType'', JString ''complete''), (''content'', JArray content),
             (''structuredContent'', structured), (''isError'', JBool is_error), (''_meta'', meta)])
      in if oversized reply
         then tool_failure f ident operation ResourceLimit
                (''the call was served, but its result exceeds the MCP response limit; ''
                 @ ''ask for less, for example no image or fewer nodes'')
         else reply)"

text \<open>After the outcome: the expiries of a success's references, its text, its inline image.\<close>

definition tool_content ::
  "mcp_facade \<Rightarrow> 's mcp_host \<Rightarrow> json \<Rightarrow> string \<Rightarrow> json \<Rightarrow> bool \<Rightarrow> json \<Rightarrow> 's \<Rightarrow> mcp_reply \<times> 's" where
  "tool_content f h ident operation structured is_error meta s =
     (let failure = tool_failure f ident operation InternalError
      in case mc_encode (mf_codec f) structured of
           None \<Rightarrow> (failure ''the Runtime result could not be encoded'', s)
         | Some content_text \<Rightarrow>
             let content = [json_object [(''type'', JString ''text''), (''text'', JString content_text)]]
             in if is_error then (tool_answer f ident operation structured is_error meta content, s)
                else (case inline_image h structured s of
                    (Inl _, s) \<Rightarrow> (failure ''the call completed, but its image artifact could not be returned'', s)
                  | (Inr None, s) \<Rightarrow> (tool_answer f ident operation structured is_error meta content, s)
                  | (Inr (Some picture), s) \<Rightarrow>
                      (tool_answer f ident operation structured is_error meta (content @ [picture]), s)))"

definition tool_result ::
  "mcp_facade \<Rightarrow> 's mcp_host \<Rightarrow> json \<Rightarrow> string \<Rightarrow> json \<Rightarrow> bool \<Rightarrow> 's \<Rightarrow> mcp_reply \<times> 's" where
  "tool_result f h ident operation structured is_error s =
     (if is_error then tool_content f h ident operation structured is_error (server_meta f) s
      else (case ref_expiries h structured s of
          (Inl _, s) \<Rightarrow> (tool_failure f ident operation InternalError
             (''the call was served and its result is retained under this requestId, ''
              @ ''but its artifact expiries could not be read''), s)
        | (Inr None, s) \<Rightarrow> tool_content f h ident operation structured is_error (server_meta f) s
        | (Inr (Some expiries), s) \<Rightarrow> tool_content f h ident operation structured is_error
            (json_set (server_meta f) META_REF_EXPIRIES expiries) s))"

definition submit_call ::
  "mcp_facade \<Rightarrow> 's mcp_host \<Rightarrow> json \<Rightarrow> string \<Rightarrow> json_map \<Rightarrow> json \<Rightarrow> 's \<Rightarrow> mcp_reply \<times> 's" where
  "submit_call f h ident operation arguments envelope s =
     (case mc_encode (mf_codec f) envelope of
        None \<Rightarrow> (tool_failure f ident operation InternalError ''the request envelope could not be encoded'', s)
      | Some encoded \<Rightarrow> (case mh_submit h s encoded of
          (Inl e, s) \<Rightarrow> (tool_failure_with f ident operation (de_code e) (de_reason e) (de_code e = ResourceLimit), s)
        | (Inr response, s) \<Rightarrow> (case mc_decode (mf_codec f) response of
            None \<Rightarrow> (tool_failure f ident operation InternalError
              ''the Runtime host answered a reply this facade could not read'', s)
          | Some response \<Rightarrow> (case host_outcome response arguments of
              Inl message \<Rightarrow> (tool_failure f ident operation InternalError message, s)
            | Inr (structured, is_error) \<Rightarrow> tool_result f h ident operation structured is_error s))))"

text \<open>The identity of a call: the caller's, or the minted one when the caller names none.\<close>

definition call_request_id ::
  "mcp_facade \<Rightarrow> json \<Rightarrow> string \<Rightarrow> json \<Rightarrow> uuid res \<Rightarrow> (mcp_reply, uuid) result" where
  "call_request_id f ident operation meta minted =
     (case json_get meta META_REQUEST_ID of
        Some v \<Rightarrow> (case Option.bind (json_str v) (\<lambda>t. case uuid_parse (mc_texts (mf_codec f)) t of
              Inl _ \<Rightarrow> None | Inr r \<Rightarrow> Some r) of
            Some request_id \<Rightarrow> Ok request_id
          | None \<Rightarrow> Err (invalid_params (mf_codec f) ident
              (field_detail (''params._meta.'' @ META_REQUEST_ID) ''expected a UUIDv4'')))
      | None \<Rightarrow> (case minted of
            Inr request_id \<Rightarrow> Ok request_id
          | Inl _ \<Rightarrow> Err (tool_failure f ident operation InternalError ''a request id could not be minted'')))"

text \<open>The call once its tool, its arguments and its action are known.\<close>

definition call_action ::
  "mcp_facade \<Rightarrow> 's mcp_host \<Rightarrow> uuid res \<Rightarrow> json \<Rightarrow> string \<Rightarrow> json_map \<Rightarrow> json \<Rightarrow> json \<Rightarrow> 's \<Rightarrow> mcp_reply \<times> 's" where
  "call_action f h minted ident name arguments action meta s =
     (let c = mf_codec f;
          operation = (case json_str action of None \<Rightarrow> name | Some action \<Rightarrow> name @ ''.'' @ action)
      in case call_request_id f ident operation meta minted of
           Inl reply \<Rightarrow> (reply, s)
         | Inr request_id \<Rightarrow>
             let payload = bt_insert ''tool'' (JString name) arguments
             in if \<not> mc_payload c (JObject payload)
                then (invalid_params c ident (field_detail ''params.arguments''
                        ''the action or input does not match this tool's advertised schema''), s)
                else if \<not> focused_input_names_observation name arguments
                then (invalid_params c ident (field_detail ''params.arguments.input.observation_id''
                        ''required: the observation the focused text or key is meant for''), s)
                else submit_call f h ident operation arguments
                  (json_object [(''protocol_version'', JInt 1),
                     (''request_id'', JString (as_str request_id)), (''payload'', JObject payload)]) s)"

text \<open>\<open>arguments["action"]\<close> on a map panics when the key is missing.\<close>

definition call_tool ::
  "mcp_facade \<Rightarrow> 's mcp_host \<Rightarrow> uuid res \<Rightarrow> json \<Rightarrow> json_map \<Rightarrow> 's \<Rightarrow> mcp_reply \<times> 's" where
  "call_tool f h minted ident params s =
     (let c = mf_codec f; invalid = (\<lambda>field reason. (invalid_params c ident (field_detail field reason), s))
      in if length params \<noteq> 3 \<or> \<not> only_keys params [''name'', ''arguments'', ''_meta'']
         then invalid ''params'' ''expected exactly name, arguments and _meta''
         else (case (bt_get params ''name'', bt_get params ''arguments'', bt_get params ''_meta'') of
           (Some name, Some arguments, Some meta) \<Rightarrow>
             (case json_str name of
                None \<Rightarrow> invalid ''params.name'' ''not an advertised tool''
              | Some name \<Rightarrow>
                if name \<notin> set MCP_TOOL_NAMES then invalid ''params.name'' ''not an advertised tool''
                else (case as_object arguments of
                  None \<Rightarrow> invalid ''params.arguments'' ''expected an object with only action and input''
                | Some arguments \<Rightarrow>
                  if \<not> only_keys arguments [''action'', ''input'']
                  then invalid ''params.arguments'' ''expected an object with only action and input''
                  else (case bt_get arguments ''action'' of
                    None \<Rightarrow> (None, s)
                  | Some action \<Rightarrow> call_action f h minted ident name arguments action meta s)))
         | _ \<Rightarrow> (None, s)))"

section \<open>Resources\<close>

fun project_resources :: "json list \<Rightarrow> json list option" where
  "project_resources [] = Some []"
| "project_resources (resource # rest) =
     (case (get_str resource ''uri'', Option.bind (json_get resource ''size'') as_u64) of
        (Some uri, Some n) \<Rightarrow>
          let projected = json_object [(''uri'', JString uri), (''name'', JString uri), (''size'', JInt (uint n))];
              projected = (case get_str resource ''mime'' of
                  None \<Rightarrow> projected | Some mime \<Rightarrow> json_set projected ''mimeType'' (JString mime))
          in map_option ((#) projected) (project_resources rest)
      | _ \<Rightarrow> None)"

definition list_resources ::
  "mcp_facade \<Rightarrow> 's mcp_host \<Rightarrow> json \<Rightarrow> json_map \<Rightarrow> 's \<Rightarrow> mcp_reply \<times> 's" where
  "list_resources f h ident params s =
     (let c = mf_codec f
      in if \<not> only_keys params [''_meta'', ''cursor'']
         then (invalid_params c ident (field_detail ''params'' ''expected only _meta and cursor''), s)
         else (case (case bt_get params ''cursor'' of
                 None \<Rightarrow> Some [] | Some v \<Rightarrow> map_option (\<lambda>t. [(''cursor'', JString t)]) (json_str v)) of
             None \<Rightarrow> (invalid_params c ident (field_detail ''params.cursor'' ''expected a string''), s)
           | Some cursor \<Rightarrow>
               (case mh_query h s (query_envelope ((''operation'', JString ''list'') # cursor)) of
                  (Inl _, s) \<Rightarrow> (internal_error c ident, s)
                | (Inr reply, s) \<Rightarrow>
                    if get_str (qp_payload reply) ''error'' = Some ''invalid_cursor''
                    then (invalid_params c ident (field_detail ''params.cursor'' ''no such page''), s)
                    else (case Option.bind (json_get (qp_payload reply) ''resources'') as_array of
                        None \<Rightarrow> (internal_error c ident, s)
                      | Some listed \<Rightarrow> (case project_resources listed of
                          None \<Rightarrow> (internal_error c ident, s)
                        | Some resources \<Rightarrow>
                            let result = json_object
                                  [(''resultType'', JString ''complete''), (''resources'', JArray resources),
                                   (''ttlMs'', JInt 0), (''cacheScope'', JString ''private''), (''_meta'', server_meta f)];
                                result = (case get_str (qp_payload reply) ''next_cursor'' of
                                   None \<Rightarrow> result | Some next_cursor \<Rightarrow> json_set result ''nextCursor'' (JString next_cursor))
                            in (rpc_result c ident result, s))))))"

definition resource_contents :: "string \<Rightarrow> string \<Rightarrow> string option \<Rightarrow> string \<Rightarrow> json option" where
  "resource_contents uri kind mime b =
     (if kind = ''stdout'' \<or> kind = ''stderr'' \<or> kind = ''data''
      then Some (if from_utf8 b
        then (let item = json_object [(''uri'', JString uri), (''text'', JString b)]
              in case mime of None \<Rightarrow> item | Some m \<Rightarrow> json_set item ''mimeType'' (JString m))
        else json_object [(''uri'', JString uri), (''mimeType'', JString ''application/octet-stream''),
               (''blob'', JString (base64_encode False True b))])
      else if kind = ''image''
      then (case mime of
          Some m \<Rightarrow> if image_mime_type m
            then Some (json_object [(''uri'', JString uri), (''mimeType'', JString m),
                   (''blob'', JString (base64_encode False True b))])
            else None
        | None \<Rightarrow> None)
      else None)"

definition read_resource ::
  "mcp_facade \<Rightarrow> 's mcp_host \<Rightarrow> json \<Rightarrow> json_map \<Rightarrow> 's \<Rightarrow> mcp_reply \<times> 's" where
  "read_resource f h ident params s =
     (let c = mf_codec f
      in if length params \<noteq> 2 \<or> \<not> only_keys params [''uri'', ''_meta'']
         then (invalid_params c ident (field_detail ''params'' ''expected exactly uri and _meta''), s)
         else (case bt_get params ''uri'' of
           None \<Rightarrow> (None, s)
         | Some uri \<Rightarrow> (case json_str uri of
             None \<Rightarrow> (invalid_params c ident (field_detail ''params.uri'' ''expected a string''), s)
           | Some uri \<Rightarrow>
             if starts_with ''dbref:capture:'' uri \<or> starts_with ''dbref:packet:'' uri
             then (invalid_params c ident (field_detail ''params.uri''
                     ''a capture or packet reference is read with network action capture, operation read''), s)
             else (case mh_query h s (query_envelope [(''operation'', JString ''read''), (''uri'', JString uri)]) of
                 (Inl _, s) \<Rightarrow> (internal_error c ident, s)
               | (Inr reply, s) \<Rightarrow>
                   if get_str (qp_payload reply) ''error'' = Some ''not_found''
                   then (invalid_params c ident (field_detail ''params.uri'' ''no such resource''), s)
                   else (case (get_str (qp_payload reply) ''kind'',
                          Option.bind (json_get (qp_payload reply) ''size'') as_u64, qp_descriptor reply) of
                       (Some kind, Some n, Some descriptor) \<Rightarrow>
                         if get_str (qp_payload reply) ''uri'' \<noteq> Some uri then (internal_error c ident, s)
                         else (case read_exactly n descriptor of
                             None \<Rightarrow> (internal_error c ident, s)
                           | Some b \<Rightarrow> (case resource_contents uri kind (get_str (qp_payload reply) ''mime'') b of
                               None \<Rightarrow> (internal_error c ident, s)
                             | Some contents \<Rightarrow>
                                 let response = rpc_result c ident (json_object
                                       [(''resultType'', JString ''complete''), (''contents'', JArray [contents]),
                                        (''ttlMs'', JInt 0), (''cacheScope'', JString ''private''),
                                        (''_meta'', server_meta f)])
                                 in (if oversized response then internal_error c ident else response, s)))
                     | _ \<Rightarrow> (internal_error c ident, s))))))"

section \<open>The requests\<close>

definition rpc_id :: "json_map \<Rightarrow> json option" where
  "rpc_id object =
     (case bt_get object ''id'' of
        Some (JString t) \<Rightarrow> Some (JString t)
      | Some (JInt n) \<Rightarrow> if - (2 ^ 63) \<le> n \<and> n < 2 ^ 64 then Some (JInt n) else None
      | _ \<Rightarrow> None)"

definition dispatch ::
  "mcp_facade \<Rightarrow> 's mcp_host \<Rightarrow> uuid res \<Rightarrow> json \<Rightarrow> string \<Rightarrow> json_map \<Rightarrow> 's \<Rightarrow> mcp_reply \<times> 's" where
  "dispatch f h minted ident meth params s =
     (if meth = ''server/discover'' then (discover f ident params, s)
      else if meth = ''tools/list'' then (list_tools f ident params, s)
      else if meth = ''tools/call'' then call_tool f h minted ident params s
      else if meth = ''resources/list'' then list_resources f h ident params s
      else if meth = ''resources/read'' then read_resource f h ident params s
      else (rpc_error (mf_codec f) 404 ident METHOD_NOT_FOUND ''Method not found'' None, s))"

definition handle_object ::
  "mcp_facade \<Rightarrow> 's mcp_host \<Rightarrow> uuid res \<Rightarrow> mcp_request \<Rightarrow> json_map \<Rightarrow> 's \<Rightarrow> mcp_reply \<times> 's" where
  "handle_object f h minted q object s =
     (let c = mf_codec f; invalid_request = (\<lambda>status ident. (rpc_error c status ident INVALID_REQUEST ''Invalid Request'' None, s))
      in if bt_contains object ''result'' \<or> bt_contains object ''error'' then invalid_request 400 JNull
         else if Option.bind (bt_get object ''method'') json_str \<noteq> None \<and> \<not> bt_contains object ''id''
         then (bodiless 400, s)
         else (case rpc_id object of
             None \<Rightarrow> invalid_request 200 JNull
           | Some ident \<Rightarrow>
               (case (Option.bind (bt_get object ''jsonrpc'') json_str, Option.bind (bt_get object ''method'') json_str) of
                  (Some version, Some meth) \<Rightarrow>
                    if version \<noteq> ''2.0'' then invalid_request 200 ident
                    else (case (case bt_get object ''params'' of None \<Rightarrow> Some [] | Some v \<Rightarrow> as_object v) of
                        None \<Rightarrow> invalid_request 200 ident
                      | Some params \<Rightarrow> (case validate_metadata_headers c q ident meth params of
                          Inl reply \<Rightarrow> (reply, s)
                        | Inr _ \<Rightarrow> dispatch f h minted ident meth params s))
                | _ \<Rightarrow> invalid_request 200 ident)))"

definition handle_protocol ::
  "mcp_facade \<Rightarrow> 's mcp_host \<Rightarrow> uuid res \<Rightarrow> mcp_request \<Rightarrow> 's \<Rightarrow> mcp_reply \<times> 's" where
  "handle_protocol f h minted q s =
     (let c = mf_codec f
      in if \<not> content_type_is_json q then (bodiless 415, s)
         else if \<not> accept_is_acceptable q then (bodiless 406, s)
         else if length (mq_body q) > MCP_BODY_LIMIT_BYTES then (bodiless 413, s)
         else (case mc_decode c (mq_body q) of
             None \<Rightarrow> (rpc_error c 400 JNull PARSE_ERROR ''Parse error'' None, s)
           | Some message \<Rightarrow> (case as_object message of
               None \<Rightarrow> (rpc_error c 400 JNull INVALID_REQUEST ''Invalid Request'' None, s)
             | Some object \<Rightarrow> handle_object f h minted q object s)))"

definition facade_handle ::
  "mcp_facade \<Rightarrow> 's mcp_host \<Rightarrow> uuid res \<Rightarrow> mcp_request \<Rightarrow> string \<Rightarrow> 's \<Rightarrow> mcp_reply \<times> 's" where
  "facade_handle f h minted q accepted_token s =
     (if mq_method q \<noteq> ''POST'' then (bodiless 405, s)
      else if \<not> host_is_endpoint (mf_port f) q \<or> \<not> origin_is_loopback q then (bodiless 403, s)
      else if \<not> bearer_matches q accepted_token then (bodiless 401, s)
      else handle_protocol f h minted q s)"

definition handle_tunnel ::
  "mcp_facade \<Rightarrow> 's mcp_host \<Rightarrow> uuid res \<Rightarrow> mcp_request \<Rightarrow> 's \<Rightarrow> mcp_reply \<times> 's" where
  "handle_tunnel f h minted q s =
     (if mq_method q \<noteq> ''POST'' then (bodiless 405, s) else handle_protocol f h minted q s)"

end
