(* ===== verification/Mcp_Tools.thy ===== *)
theory Mcp_Tools
  imports Mcp_Protocol Stored_Model
begin

text \<open>
  The tool definitions the MCP facade advertises (\<open>tool_definitions\<close> in
  \<open>rust/crates/runtime/src/mcp.rs\<close>): what each tool says of itself, and the projection of the generated
  Contract schemas onto the tools' arguments and results. The two generated artifacts are arguments.
\<close>

section \<open>Presentation\<close>

record tool_presentation =
  tp_title :: string
  tp_description :: string
  tp_read_only :: bool
  tp_destructive :: bool
  tp_idempotent :: bool
  tp_open_world :: bool

definition newline :: string where
  "newline = [CHR 0x0A]"

definition quote :: string where
  "quote = [CHR 0x22]"

definition presentation :: "string \<Rightarrow> tool_presentation" where
  "presentation name =
     (let shown = (\<lambda>title description read_only destructive idempotent open_world.
            \<lparr>tp_title = title, tp_description = description, tp_read_only = read_only, tp_destructive = destructive,
             tp_idempotent = idempotent, tp_open_world = open_world\<rparr>)
      in if name = ''context'' then shown ''Device context''
           (''- Check device, Runtime readiness and capabilities with status.'' @ newline
            @ ''- Use detail='' @ quote @ ''full'' @ quote @ '' for versions, grants and compatibility.''
            @ newline @ ''- Use catalog for capability details.'') True False True False
         else if name = ''filesystem'' then shown ''Files''
           (''- Inspect, read, write, manage, archive and download files.'' @ newline
            @ ''- Paged reads: encoding='' @ quote @ ''base64'' @ quote
            @ ''; advance by returned_bytes until truncated=false.'' @ newline
            @ ''- Async operations return task_id.'') False True False True
         else if name = ''command'' then shown ''Shell commands''
           (''- Run commands with an explicit, supported run_as.'' @ newline
            @ ''- Use as_task=true for long-running commands.'' @ newline @ ''- Success: state='' @ quote
            @ ''completed'' @ quote @ '' and exit_code=0, including the nested command result.'') False True False True
         else if name = ''network'' then shown ''Network''
           (''- Inspect networks, diagnose connections, capture or inject packets.'' @ newline
            @ ''- Capture: select an interface, filter and limits; retain capture_id and task_id.''
            @ newline @ ''- Stop the capture, confirm Task completion, then read the retained capture.'') False True False True
         else if name = ''visual'' then shown ''Screen''
           (''- Observe, view images or interact. observe already includes any available image.'' @ newline
            @ ''- Screenshot-only: include_image=true, include_nodes=false.'' @ newline
            @ ''- Coordinates: current observation_id and native display pixels.'' @ newline
            @ ''- Text without node_ref and keys other than Wake Up need the observation_id they follow.''
            @ newline @ ''- Text: focus the editor first. Verify the UI after interactions.'' @ newline
            @ ''- lease acquire takes screen input until release or ttl; send its lease_id with every interaction.'') False True False False
         else if name = ''android'' then shown ''Android apps''
           (''- Inspect packages, launch apps/intents, access clipboard and notifications.'' @ newline
            @ ''- Use package_name when known; verify the resulting UI after launch.'') False True False False
         else if name = ''automation'' then shown ''Automations''
           (''- List, inspect, save, enable, delete and run automations.'' @ newline
            @ ''- Read current records; supply expected_revision where required.'' @ newline
            @ ''- element resolves targets by text at run time. run returns task_id.'') False True False False
         else shown ''Tasks''
           (''- List, inspect or cancel Tasks by task_id.'' @ newline
            @ ''- Poll get until completed, failed, cancelled or interrupted; inspect result/error.''
            @ newline
            @ ''- cancel_requested=true alone does not confirm cancellation; check the terminal state.'') False True False False)"

definition tool_examples :: "string \<Rightarrow> json res" where
  "tool_examples name =
     (if name = ''context'' then Ok (JArray [json_object [(''action'', JString ''status''),
             (''input'', json_object [])],
                 json_object [(''action'', JString ''status''),
             (''input'', json_object [(''detail'', JString ''full'')])]])
      else if name = ''filesystem'' then Ok (JArray [json_object [(''action'', JString ''read''),
             (''input'', json_object [(''target'', json_object [(''type'', JString ''path''),
                 (''value'', JString ''/sdcard/Download/example.txt'')]),
                     (''encoding'', JString ''base64''), (''offset'', JInt 0),
                        (''max_bytes'', JInt 1024)])]])
      else if name = ''command'' then Ok (JArray [json_object [(''action'', JString ''run''),
             (''input'', json_object [(''command'', JString ''id''), (''run_as'', JString ''shell'')])],
                 json_object [(''action'', JString ''run''),
             (''input'', json_object [(''command'', JString ''id''),
                 (''run_as'', JString ''shell''), (''as_task'', JBool True)])]])
      else if name = ''network'' then Ok (JArray [json_object [(''action'', JString ''inspect''),
             (''input'', json_object [(''scope'', JString ''interfaces''),
                 (''max_entries'', JInt 20)])]])
      else if name = ''visual'' then Ok (JArray [json_object [(''action'', JString ''observe''),
             (''input'', json_object [(''include_image'', JBool True),
                 (''include_nodes'', JBool False)])],
                 json_object [(''action'', JString ''interact''),
             (''input'', json_object [(''operation'', JString ''tap''),
                 (''target'', JString ''coordinate''),
                     (''observation_id'', JString ''11111111-1111-4111-8111-111111111111''),
                        (''x'', JInt 320), (''y'', JInt 900)])],
                 json_object [(''action'', JString ''interact''),
             (''input'', json_object [(''operation'', JString ''text''),
                 (''text'', JString ''Test message''),
                     (''observation_id'', JString ''11111111-1111-4111-8111-111111111111'')])],
                 json_object [(''action'', JString ''interact''),
             (''input'', json_object [(''operation'', JString ''key''), (''key_code'', JInt 4),
                 (''observation_id'', JString ''11111111-1111-4111-8111-111111111111'')])]])
      else if name = ''android'' then Ok (JArray [json_object [(''action'', JString ''package''),
             (''input'', json_object [(''operation'', JString ''list''),
                 (''include_system'', JBool False), (''limit'', JInt 10)])]])
      else if name = ''automation'' then Ok (JArray [json_object [(''action'', JString ''list''),
             (''input'', json_object [(''limit'', JInt 10)])]])
      else if name = ''task_control'' then Ok (JArray [json_object [(''action'', JString ''get''),
             (''input'', json_object [(''task_id'', JString ''11111111-1111-4111-8111-111111111111'')])],
                 json_object [(''action'', JString ''list''),
             (''input'', json_object [(''states'', JArray [JString ''running'']),
                 (''limit'', JInt 20)])]])
      else Err generated_contract_invalid)"

section \<open>Schemas\<close>

text \<open>\<open>str::replace\<close> with a pattern of two characters.\<close>

fun replace_pair :: "char \<Rightarrow> char \<Rightarrow> string \<Rightarrow> string \<Rightarrow> string" where
  "replace_pair a b by_text (x # y # rest) =
     (if x = a \<and> y = b then by_text @ replace_pair a b by_text rest
      else x # replace_pair a b by_text (y # rest))"
| "replace_pair a b by_text rest = rest"

definition definition_name :: "json \<Rightarrow> string res" where
  "definition_name v =
     (case Option.bind (json_str v) (strip_prefix ''#/$defs/'') of
        None \<Rightarrow> Err generated_contract_invalid
      | Some name \<Rightarrow>
          if name = [] \<or> CHR ''/'' \<in> set name then Err generated_contract_invalid
          else Ok (replace_pair CHR ''~'' CHR ''0'' ''~'' (replace_pair CHR ''~'' CHR ''1'' ''/'' name)))"

lemma collect_cong [fundef_cong]:
  "xs = ys \<Longrightarrow> (\<And>x. x \<in> set ys \<Longrightarrow> f x = g x) \<Longrightarrow> collect f xs = collect g ys"
  by (induction xs arbitrary: ys) auto

fun collect_schema_definitions :: "json \<Rightarrow> string list res" where
  "collect_schema_definitions (JObject members) =
     rbind (collect (\<lambda>kv. if fst kv = ''$ref'' then rbind (definition_name (snd kv)) (\<lambda>name. Ok [name])
                          else collect_schema_definitions (snd kv)) members) (\<lambda>names. Ok (concat names))"
| "collect_schema_definitions (JArray items) =
     rbind (collect collect_schema_definitions items) (\<lambda>names. Ok (concat names))"
| "collect_schema_definitions other = Ok []"

section \<open>The actions of the Contract\<close>

record action_spec =
  as_tool :: string
  as_action :: string
  as_automation_compatible :: bool
  as_capability_requirement :: string

definition ACTION_SPECS :: "action_spec list" where
  "ACTION_SPECS =
     (let spec = (\<lambda>tool action compatible requirement. \<lparr>as_tool = tool, as_action = action,
            as_automation_compatible = compatible, as_capability_requirement = requirement\<rparr>)
      in [
      spec ''context'' ''status'' False ''none'',
      spec ''context'' ''catalog'' False ''none'',
      spec ''filesystem'' ''inspect'' False ''dynamic'',
      spec ''filesystem'' ''read'' False ''dynamic'',
      spec ''filesystem'' ''write'' False ''dynamic'',
      spec ''filesystem'' ''manage'' True ''dynamic'',
      spec ''filesystem'' ''download'' True ''dynamic'',
      spec ''filesystem'' ''archive'' False ''dynamic'',
      spec ''command'' ''run'' True ''dynamic'',
      spec ''network'' ''inspect'' False ''network.inspect'',
      spec ''network'' ''capture'' False ''network.capture'',
      spec ''network'' ''packet'' False ''dynamic'',
      spec ''network'' ''diagnose'' True ''dynamic'',
      spec ''visual'' ''observe'' False ''dynamic'',
      spec ''visual'' ''view'' False ''visual.image'',
      spec ''visual'' ''interact'' True ''dynamic'',
      spec ''visual'' ''lease'' False ''dynamic'',
      spec ''android'' ''package'' False ''dynamic'',
      spec ''android'' ''launch'' True ''dynamic'',
      spec ''android'' ''intent'' False ''dynamic'',
      spec ''android'' ''clipboard'' True ''dynamic'',
      spec ''android'' ''notification'' False ''android.notification_access'',
      spec ''automation'' ''list'' False ''none'',
      spec ''automation'' ''get'' False ''none'',
      spec ''automation'' ''save'' False ''none'',
      spec ''automation'' ''set_enabled'' False ''none'',
      spec ''automation'' ''delete'' False ''none'',
      spec ''automation'' ''run'' False ''none'',
      spec ''task_control'' ''list'' False ''none'',
      spec ''task_control'' ''get'' False ''none'',
      spec ''task_control'' ''cancel'' False ''none''])"

section \<open>Reachable definitions\<close>

text \<open>
  \<open>pending\<close> is an ordered set: the code takes its first name, and collecting adds to it. Each round
  takes a name off or adds a definition.
\<close>

definition ordered_set :: "string list \<Rightarrow> string list" where
  "ordered_set names = sort (remdups names)"

definition unreached :: "json_map \<Rightarrow> json_map \<Rightarrow> nat" where
  "unreached definitions reachable = card (fst ` set definitions - fst ` set reachable)"

lemma bt_get_dom: "bt_get m k = Some v \<Longrightarrow> k \<in> fst ` set m"
  by (force simp: bt_get_def dest: map_of_SomeD)

lemma unreached_insert:
  assumes "bt_get definitions name = Some d" and "\<not> bt_contains reachable name"
  shows "unreached definitions (bt_insert name d reachable) < unreached definitions reachable"
proof -
  have "name \<notin> fst ` set reachable"
    using assms(2) by (auto simp: bt_contains_def bt_get_def map_of_eq_None_iff)
  moreover have "fst ` set (bt_insert name d reachable) = insert name (fst ` set reachable)"
    by (simp add: keys_bt_insert)
  ultimately have "fst ` set definitions - fst ` set (bt_insert name d reachable)
      \<subset> fst ` set definitions - fst ` set reachable"
    using bt_get_dom[OF assms(1)] by auto
  then show ?thesis unfolding unreached_def by (intro psubset_card_mono) auto
qed

function reach :: "json_map \<Rightarrow> string list \<Rightarrow> json_map \<Rightarrow> json_map res" where
  "reach definitions pending reachable =
     (case pending of
        [] \<Rightarrow> Ok reachable
      | name # rest \<Rightarrow>
          if bt_contains reachable name then reach definitions rest reachable
          else (case bt_get definitions name of
              None \<Rightarrow> Err generated_contract_invalid
            | Some d \<Rightarrow> (case collect_schema_definitions d of
                Inl e \<Rightarrow> Err e
              | Inr names \<Rightarrow> reach definitions (ordered_set (rest @ names)) (bt_insert name d reachable))))"
  by pat_completeness auto

termination
  by (relation "measures [\<lambda>(definitions, pending, reachable). unreached definitions reachable,
        \<lambda>(definitions, pending, reachable). length pending]")
    (auto intro: unreached_insert)

declare reach.simps [simp del]

definition reachable_schema_definitions :: "json_map \<Rightarrow> json_map \<Rightarrow> json_map res" where
  "reachable_schema_definitions schema definitions =
     rbind (collect_schema_definitions (JObject schema)) (\<lambda>names.
     reach definitions (ordered_set names) [])"

section \<open>Projection\<close>

definition invalid_contract :: "'a option \<Rightarrow> 'a res" where
  "invalid_contract m = ok_or m generated_contract_invalid"

definition without_tool :: "json_map \<Rightarrow> json_map" where
  "without_tool input =
     (let input = (case bt_get input ''properties'' of
            Some (JObject properties) \<Rightarrow>
              let properties = bt_remove ''tool'' properties
              in if properties = [] then bt_remove ''properties'' input
                 else bt_insert ''properties'' (JObject properties) input
          | _ \<Rightarrow> input)
      in case bt_get input ''required'' of
           Some (JArray required) \<Rightarrow>
             let required = filter (\<lambda>field. field \<noteq> JString ''tool'') required
             in if required = [] then bt_remove ''required'' input
                else bt_insert ''required'' (JArray required) input
         | _ \<Rightarrow> input)"

definition tool_const :: "json \<Rightarrow> json option" where
  "tool_const variant =
     Option.bind (json_get variant ''properties'') (\<lambda>p.
     Option.bind (json_get p ''tool'') (\<lambda>t. json_get t ''const''))"

definition tool_input :: "json \<Rightarrow> json_map \<Rightarrow> json list \<Rightarrow> string \<Rightarrow> json_map res" where
  "tool_input dialect request_defs variants name =
     rbind (invalid_contract (Option.bind
        (List.find (\<lambda>variant. tool_const variant = Some (JString name)) variants) as_object)) (\<lambda>input.
     let input = bt_insert ''$schema'' dialect (without_tool input)
     in rbind (reachable_schema_definitions input request_defs) (\<lambda>definitions.
        rbind (tool_examples name) (\<lambda>examples.
        Ok (bt_insert ''examples'' examples (bt_insert ''$defs'' (JObject definitions) input)))))"

definition bound_schemas :: "json_map \<Rightarrow> action_spec \<Rightarrow> string list res" where
  "bound_schemas bindings spec =
     rbind (invalid_contract (Option.bind (bt_get bindings (as_tool spec @ ''.'' @ as_action spec)) as_array))
       (collect (\<lambda>schema_name. invalid_contract (json_str schema_name)))"

definition keep_first :: "'a list \<Rightarrow> 'a list" where
  "keep_first xs = fold (\<lambda>x kept. if x \<in> set kept then kept else kept @ [x]) xs []"

definition tool_schema_names :: "json_map \<Rightarrow> string \<Rightarrow> string list res" where
  "tool_schema_names bindings name =
     rbind (collect (bound_schemas bindings) (filter (\<lambda>spec. as_tool spec = name) ACTION_SPECS)) (\<lambda>names.
     Ok (keep_first (concat names) @ [''public_error'']))"

fun merge_definitions :: "json_map \<Rightarrow> json_map \<Rightarrow> json_map res" where
  "merge_definitions [] output_defs = Ok output_defs"
| "merge_definitions ((def_name, d) # rest) output_defs =
     (case bt_get output_defs def_name of
        Some existing \<Rightarrow>
          if existing \<noteq> d then Err generated_contract_invalid
          else merge_definitions rest (bt_insert def_name d output_defs)
      | None \<Rightarrow> merge_definitions rest (bt_insert def_name d output_defs))"

fun tool_branches :: "json_map \<Rightarrow> string list \<Rightarrow> json_map \<Rightarrow> json list \<Rightarrow> (json list \<times> json_map) res" where
  "tool_branches schemas [] output_defs branches = Ok (branches, output_defs)"
| "tool_branches schemas (schema_name # rest) output_defs branches =
     rbind (invalid_contract (Option.bind (bt_get schemas schema_name) as_object)) (\<lambda>schema.
     let schema = bt_remove ''$schema'' schema
     in rbind (case bt_get schema ''$defs'' of
            Some (JObject defs) \<Rightarrow> merge_definitions defs output_defs
          | _ \<Rightarrow> Ok output_defs) (\<lambda>output_defs.
        tool_branches schemas rest output_defs (branches @ [JObject (bt_remove ''$defs'' schema)])))"

definition tool_output :: "json \<Rightarrow> json_map \<Rightarrow> string list \<Rightarrow> json_map res" where
  "tool_output dialect schemas schema_names =
     rbind (tool_branches schemas schema_names [] []) (\<lambda>(branches, output_defs).
     let out = bt_from [(''$schema'', dialect), (''anyOf'', JArray branches)]
     in Ok (if output_defs = [] then out else bt_insert ''$defs'' (JObject output_defs) out))"

definition tool_definition ::
  "json \<Rightarrow> json_map \<Rightarrow> json_map \<Rightarrow> json list \<Rightarrow> json_map \<Rightarrow> string \<Rightarrow> json res" where
  "tool_definition dialect schemas request_defs variants bindings name =
     rbind (tool_input dialect request_defs variants name) (\<lambda>input.
     rbind (tool_schema_names bindings name) (\<lambda>schema_names.
     rbind (tool_output dialect schemas schema_names) (\<lambda>out.
     let shown = presentation name
     in Ok (json_object
          [(''name'', JString name), (''title'', JString (tp_title shown)),
           (''description'', JString (tp_description shown)), (''inputSchema'', JObject input),
           (''outputSchema'', JObject out),
           (''annotations'', json_object
              [(''title'', JString (tp_title shown)), (''readOnlyHint'', JBool (tp_read_only shown)),
               (''destructiveHint'', JBool (tp_destructive shown)),
               (''idempotentHint'', JBool (tp_idempotent shown)),
               (''openWorldHint'', JBool (tp_open_world shown))])]))))"

definition tool_definitions :: "json option \<Rightarrow> json option \<Rightarrow> json res" where
  "tool_definitions bundle metadata =
     rbind (invalid_contract bundle) (\<lambda>bundle.
     rbind (invalid_contract metadata) (\<lambda>metadata.
     rbind (invalid_contract (Option.bind (json_get bundle ''schemas'') as_object)) (\<lambda>schemas.
     rbind (invalid_contract (Option.bind (bt_get schemas ''public_request'') as_object)) (\<lambda>request.
     rbind (invalid_contract (bt_get request ''$schema'')) (\<lambda>dialect.
     rbind (invalid_contract (Option.bind (bt_get request ''$defs'') as_object)) (\<lambda>request_defs.
     rbind (invalid_contract (Option.bind (bt_get request_defs ''PublicPayload'') (\<lambda>payload.
        Option.bind (json_get payload ''oneOf'') as_array))) (\<lambda>variants.
     rbind (invalid_contract (Option.bind (json_get metadata ''result_schema_bindings'') as_object)) (\<lambda>bindings.
     rbind (collect (tool_definition dialect schemas request_defs variants bindings) MCP_TOOL_NAMES) (\<lambda>tools.
     Ok (JArray tools))))))))))"

end
