(* ===== verification/Mcp_Properties.thy ===== *)
theory Mcp_Properties
  imports Mcp_Facade Mcp_Tools
begin

text \<open>
  The properties of the MCP facade: which requests reach the host, which request the code does not
  answer, and which schema definitions a tool advertises.
\<close>

declare not_None_eq [iff del]

section \<open>Tokens\<close>

lemma or_zero_iff: "or a b = 0 \<longleftrightarrow> a = 0 \<and> b = (0 :: 'a::len word)"
  by (auto simp: bit_eq_iff bit_simps)

lemma xor_zero_iff: "xor a b = 0 \<longleftrightarrow> a = (b :: 'a::len word)"
  by (auto simp: bit_eq_iff bit_simps)

lemma char_word_eq: "(of_char x :: u8) = of_char y \<longleftrightarrow> x = y"
proof -
  have "unat (of_char x :: u8) = of_char x" for x
    using unat_of_nat[of "of_char x :: nat", where 'a = 8] nat_of_char_less_256[of x] by (simp add: of_nat_of_char)
  then show ?thesis by (metis of_char_eq_iff)
qed

lemma token_difference_zero:
  assumes "length a = length b"
  shows "token_difference a b = 0 \<longleftrightarrow> a = b"
proof -
  have "fold (\<lambda>(left, right) difference. or difference (xor (of_char left) (of_char right))) (zip a b) d = 0
      \<longleftrightarrow> d = 0 \<and> a = b" for d :: u8
    using assms
    by (induction a b arbitrary: d rule: list_induct2) (auto simp: or_zero_iff xor_zero_iff char_word_eq)
  then show ?thesis by (simp add: token_difference_def)
qed

lemma strip_prefix_Some: "strip_prefix p h = Some t \<longleftrightarrow> h = p @ t"
  by (auto simp: strip_prefix_def starts_with_def) (metis append_take_drop_id)

lemma bearer_matches_iff:
  "bearer_matches q token \<longleftrightarrow> token \<noteq> [] \<and> single_header q ''authorization'' = Some (''Bearer '' @ token)"
proof (cases "single_header q ''authorization''")
  case None
  then show ?thesis by (simp add: bearer_matches_def)
next
  case (Some h)
  have "h = ''Bearer '' @ token \<longleftrightarrow> strip_prefix ''Bearer '' h = Some token" by (simp only: strip_prefix_Some)
  then show ?thesis
    using Some token_difference_zero by (cases "strip_prefix ''Bearer '' h") (auto simp: bearer_matches_def)
qed

section \<open>Requests that reach the host\<close>

text \<open>A request that passes every check of its transport and its headers, as its method and parameters.\<close>

definition protocol_call :: "mcp_facade \<Rightarrow> mcp_request \<Rightarrow> json \<Rightarrow> string \<Rightarrow> json_map \<Rightarrow> bool" where
  "protocol_call f q ident meth params \<longleftrightarrow>
     content_type_is_json q \<and> accept_is_acceptable q \<and> length (mq_body q) \<le> MCP_BODY_LIMIT_BYTES
     \<and> (\<exists>object. mc_decode (mf_codec f) (mq_body q) = Some (JObject object)
          \<and> bt_get object ''jsonrpc'' = Some (JString ''2.0'') \<and> bt_get object ''method'' = Some (JString meth)
          \<and> rpc_id object = Some ident \<and> \<not> bt_contains object ''result'' \<and> \<not> bt_contains object ''error''
          \<and> bt_get object ''params'' \<in> {Some (JObject params)} \<union> (if params = [] then {None} else {}))
     \<and> validate_metadata_headers (mf_codec f) q ident meth params = Ok ()"

definition local_caller :: "mcp_facade \<Rightarrow> mcp_request \<Rightarrow> string \<Rightarrow> bool" where
  "local_caller f q token \<longleftrightarrow> mq_method q = ''POST'' \<and> host_is_endpoint (mf_port f) q \<and> origin_is_loopback q
     \<and> token \<noteq> [] \<and> single_header q ''authorization'' = Some (''Bearer '' @ token)"

definition encodes :: "mcp_facade \<Rightarrow> bool" where
  "encodes f \<longleftrightarrow> (\<forall>v. mc_encode (mf_codec f) v \<noteq> None)"

lemma answered:
  assumes "encodes f"
  shows "json_response (mf_codec f) status v \<noteq> None" "rpc_result (mf_codec f) ident v \<noteq> None"
    "rpc_error (mf_codec f) status ident code message data \<noteq> None"
    "invalid_params (mf_codec f) ident data \<noteq> None" "internal_error (mf_codec f) ident \<noteq> None"
    "tool_failure_with f ident operation ecode message retryable \<noteq> None"
    "tool_failure f ident operation ecode message \<noteq> None" "bodiless status \<noteq> None"
proof -
  have *: "\<exists>b. mc_encode (mf_codec f) v = Some b" for v using assms by (simp add: encodes_def not_None_eq)
  have r: "json_response (mf_codec f) st w \<noteq> None" for st w
    using *[of w] by (auto simp: json_response_def)
  show "json_response (mf_codec f) status v \<noteq> None" "rpc_result (mf_codec f) ident v \<noteq> None"
    "rpc_error (mf_codec f) status ident code message data \<noteq> None"
    "invalid_params (mf_codec f) ident data \<noteq> None" "internal_error (mf_codec f) ident \<noteq> None"
    "bodiless status \<noteq> None"
    by (simp_all add: r rpc_result_def rpc_error_def invalid_params_def internal_error_def bodiless_def Let_def)
  show t: "tool_failure_with f ident operation ecode message retryable \<noteq> None" for ecode message retryable
    using *[of "json_object [(''code'', JString (error_code_token ecode)), (''operation'', JString operation),
             (''retryable'', JBool retryable), (''message'', JString message)]"]
    by (auto simp: tool_failure_with_def Let_def rpc_result_def r)
  show "tool_failure f ident operation ecode message \<noteq> None" unfolding tool_failure_def by (rule t)
qed

text \<open>A check that fails has a reply.\<close>

definition replies :: "(mcp_reply, 'a) result \<Rightarrow> bool" where
  "replies r \<longleftrightarrow> (case r of Inl reply \<Rightarrow> reply \<noteq> None | Inr _ \<Rightarrow> True)"

lemma replies_intros:
  "replies (Ok x)" "reply \<noteq> None \<Longrightarrow> replies (Err reply)"
  "(b \<Longrightarrow> replies r) \<Longrightarrow> (\<not> b \<Longrightarrow> replies r') \<Longrightarrow> replies (if b then r else r')"
  "replies r \<Longrightarrow> (\<And>x. replies (g x)) \<Longrightarrow> replies (case m' of None \<Rightarrow> r | Some x \<Rightarrow> g x)"
  "replies r \<Longrightarrow> (\<And>x xs. replies (h x xs)) \<Longrightarrow> replies (case l of [] \<Rightarrow> r | x # xs \<Rightarrow> h x xs)"
  by (cases m'; cases l; simp add: replies_def)+

lemma replies_rbind: "replies m \<Longrightarrow> (\<And>x. replies (k x)) \<Longrightarrow> replies (rbind m k)"
  by (cases m) (simp_all add: replies_def)

lemma validated_reply:
  assumes "encodes f"
  shows "replies (validate_metadata_headers (mf_codec f) q ident meth params)"
  unfolding validate_metadata_headers_def check_version_def check_name_def check_meta_def header_mismatch_def Let_def
  by (intro replies_intros replies_rbind answered[OF assms])

definition settled_here :: "'s \<Rightarrow> mcp_reply \<times> 's \<Rightarrow> bool" where
  "settled_here s r \<longleftrightarrow> fst r \<noteq> None \<and> snd r = s"

lemma handle_object_cases:
  assumes f: "encodes f" and other: "\<not> settled_here s (handle_object f h minted q object s)"
  obtains ident meth params where "handle_object f h minted q object s = dispatch f h minted ident meth params s"
    "bt_get object ''jsonrpc'' = Some (JString ''2.0'')" "bt_get object ''method'' = Some (JString meth)"
    "rpc_id object = Some ident" "\<not> bt_contains object ''result''" "\<not> bt_contains object ''error''"
    "bt_get object ''params'' \<in> {Some (JObject params)} \<union> (if params = [] then {None} else {})"
    "validate_metadata_headers (mf_codec f) q ident meth params = Ok ()"
proof -
  have str: "Option.bind v json_str = Some t \<longleftrightarrow> v = Some (JString t)" for v t
    by (cases v; cases "the v") auto
  have obj: "as_object v = Some m \<longleftrightarrow> v = JObject m" for v m
    by (cases v) auto
  note a = answered[OF f]
  note [simp] = handle_object_def settled_here_def a Let_def
  from other have keys: "\<not> bt_contains object ''result''" "\<not> bt_contains object ''error''"
    by (auto split: if_splits)
  with other obtain ident where i: "rpc_id object = Some ident"
    by (auto split: if_splits option.splits)
  then have "bt_contains object ''id''"
    by (auto simp: rpc_id_def bt_contains_def split: option.splits)
  with other keys i obtain version meth where v: "Option.bind (bt_get object ''jsonrpc'') json_str = Some version"
      "Option.bind (bt_get object ''method'') json_str = Some meth"
    by (auto split: option.splits)
  with other keys i \<open>bt_contains object ''id''\<close> have two: "version = ''2.0''"
    by (auto split: if_splits)
  obtain params where p: "(case bt_get object ''params'' of None \<Rightarrow> Some [] | Some v \<Rightarrow> as_object v) = Some params"
    using other keys i v two \<open>bt_contains object ''id''\<close>
    by (cases "case bt_get object ''params'' of None \<Rightarrow> Some [] | Some v \<Rightarrow> as_object v") auto
  have ok: "validate_metadata_headers (mf_codec f) q ident meth params = Ok ()"
    using other keys i v two p \<open>bt_contains object ''id''\<close> validated_reply[OF f, of q ident meth params]
    by (cases "validate_metadata_headers (mf_codec f) q ident meth params") (auto simp: replies_def)
  show thesis
  proof (rule that[of ident meth params])
    show "handle_object f h minted q object s = dispatch f h minted ident meth params s"
      using keys i v two p ok \<open>bt_contains object ''id''\<close> by simp
    show "bt_get object ''params'' \<in> {Some (JObject params)} \<union> (if params = [] then {None} else {})"
      using p by (auto simp: obj split: option.splits)
  qed (use keys i v two ok in \<open>simp_all add: str\<close>)
qed

lemma handled_cases:
  assumes f: "encodes f" and other: "\<not> settled_here s (facade_handle f h minted q token s)"
  obtains ident meth params where "facade_handle f h minted q token s = dispatch f h minted ident meth params s"
    "local_caller f q token" "protocol_call f q ident meth params"
proof -
  note a = answered[OF f]
  have obj: "as_object v = Some m \<longleftrightarrow> v = JObject m" for v m by (cases v) auto
  have caller: "local_caller f q token"
    using other by (auto simp: a(8) facade_handle_def settled_here_def local_caller_def bearer_matches_iff split: if_splits)
  then have h: "facade_handle f h minted q token s = handle_protocol f h minted q s"
    by (auto simp: facade_handle_def local_caller_def bearer_matches_iff)
  have transport: "content_type_is_json q" "accept_is_acceptable q" "length (mq_body q) \<le> MCP_BODY_LIMIT_BYTES"
    using other by (auto simp: a(8) h handle_protocol_def settled_here_def Let_def split: if_splits)
  then obtain object where o: "mc_decode (mf_codec f) (mq_body q) = Some (JObject object)"
    using other by (auto simp: a(3) h handle_protocol_def settled_here_def Let_def obj split: option.splits)
  then have e: "handle_protocol f h minted q s = handle_object f h minted q object s"
    using transport by (simp add: handle_protocol_def)
  with other h have "\<not> settled_here s (handle_object f h minted q object s)" by simp
  from handle_object_cases[OF f this] obtain ident meth params where
    "handle_object f h minted q object s = dispatch f h minted ident meth params s"
    "bt_get object ''jsonrpc'' = Some (JString ''2.0'')" "bt_get object ''method'' = Some (JString meth)"
    "rpc_id object = Some ident" "\<not> bt_contains object ''result''" "\<not> bt_contains object ''error''"
    "bt_get object ''params'' \<in> {Some (JObject params)} \<union> (if params = [] then {None} else {})"
    "validate_metadata_headers (mf_codec f) q ident meth params = Ok ()" .
  then show thesis
    using that[of ident meth params] h e caller transport o unfolding protocol_call_def by metis
qed

section \<open>Every other request is answered\<close>

definition answers :: "mcp_reply \<times> 's \<Rightarrow> bool" where
  "answers r \<longleftrightarrow> fst r \<noteq> None"

lemma answers_intros:
  "reply \<noteq> None \<Longrightarrow> answers (reply, s)"
  "(b \<Longrightarrow> answers r) \<Longrightarrow> (\<not> b \<Longrightarrow> answers r') \<Longrightarrow> answers (if b then r else r')"
  "(m = None \<Longrightarrow> answers r) \<Longrightarrow> (\<And>x. m = Some x \<Longrightarrow> answers (g x)) \<Longrightarrow> answers (case m of None \<Rightarrow> r | Some x \<Rightarrow> g x)"
  "(\<And>e. answers (g' e)) \<Longrightarrow> (\<And>x. answers (g'' x)) \<Longrightarrow> answers (case v of Inl e \<Rightarrow> g' e | Inr x \<Rightarrow> g'' x)"
  "(\<And>x s'. answers (k x s')) \<Longrightarrow> answers (case w of (x, s') \<Rightarrow> k x s')"
  by (cases m; cases v; cases w; simp add: answers_def)+

definition ordered_params :: "mcp_codec \<Rightarrow> bool" where
  "ordered_params c \<longleftrightarrow> (\<forall>b object params. mc_decode c b = Some (JObject object)
     \<longrightarrow> bt_get object ''params'' = Some (JObject params) \<longrightarrow> bt_invar params)"

lemma all_keys_present:
  assumes "bt_invar m" and "length m = length ks" and "only_keys m ks" and "k \<in> set ks"
  obtains v where "bt_get m k = Some v"
proof -
  have d: "distinct (map fst m)"
    using assms(1) by (simp add: bt_invar_def strict_sorted_iff)
  have "set (map fst m) \<subseteq> set ks" using assms(3) by (auto simp: only_keys_def list_all_iff)
  moreover have "card (set (map fst m)) \<ge> card (set ks)"
    using distinct_card[OF d] assms(2) card_length[of ks] by simp
  ultimately have "set (map fst m) = set ks" by (intro card_seteq) auto
  then have "k \<in> fst ` set m" using assms(4) by auto
  then show thesis using that by (metis bt_get_None_iff not_Some_eq)
qed

text \<open>The arguments the code indexes without looking whether they name an action.\<close>

definition actionless :: "json_map \<Rightarrow> bool" where
  "actionless params \<longleftrightarrow> (\<exists>name arguments. bt_get params ''name'' = Some (JString name) \<and> name \<in> set MCP_TOOL_NAMES
     \<and> bt_get params ''arguments'' = Some (JObject arguments) \<and> only_keys arguments [''action'', ''input'']
     \<and> \<not> bt_contains arguments ''action'' \<and> length params = 3 \<and> only_keys params [''name'', ''arguments'', ''_meta''])"

lemma answers_discover: "encodes f \<Longrightarrow> answers (discover f ident params, s)"
  unfolding discover_def Let_def by (auto intro!: answers_intros simp: answered split: if_splits)

lemma answers_list_tools: "encodes f \<Longrightarrow> answers (list_tools f ident params, s)"
  unfolding list_tools_def Let_def by (auto intro!: answers_intros simp: answered split: if_splits)

lemma answers_list_resources: "encodes f \<Longrightarrow> answers (list_resources f h ident params s)"
  unfolding list_resources_def Let_def by (intro answers_intros answered)

lemma answers_read_resource:
  assumes "encodes f" and "bt_invar params"
  shows "answers (read_resource f h ident params s)"
proof -
  note a = answered[OF assms(1)]
  have present: "bt_get params ''uri'' \<noteq> None"
    if "length params = 2" "only_keys params [''uri'', ''_meta'']"
    using all_keys_present[OF assms(2), of "[''uri'', ''_meta'']" "''uri''"] that by force
  have "(if oversized r then internal_error (mf_codec f) ident else r) \<noteq> None" if "r \<noteq> None" for r
    using that a by simp
  then show ?thesis
    unfolding read_resource_def Let_def using present a
    by (intro answers_intros) auto
qed

lemma answers_submit: "encodes f \<Longrightarrow> answers (submit_call f h ident operation arguments envelope s)"
proof -
  assume f: "encodes f"
  note a = answered[OF f]
  have t: "tool_answer f ident operation structured is_error meta content \<noteq> None" for structured is_error meta content
    unfolding tool_answer_def Let_def using a by simp
  have c: "answers (tool_content f h ident operation structured is_error meta s)" for structured is_error meta s
    unfolding tool_content_def Let_def by (intro answers_intros a t)
  have "answers (tool_result f h ident operation structured is_error s)" for structured is_error s
    unfolding tool_result_def by (intro answers_intros a c)
  then show ?thesis unfolding submit_call_def by (intro answers_intros a)
qed

lemma answers_check:
  "replies m \<Longrightarrow> (\<And>x. answers (k x)) \<Longrightarrow> answers (case m of Inl reply \<Rightarrow> (reply, s) | Inr x \<Rightarrow> k x)"
  by (cases m) (simp_all add: replies_def answers_def)

lemma answers_call_action:
  assumes "encodes f"
  shows "answers (call_action f h minted ident name arguments action meta s)"
proof -
  note a = answered[OF assms]
  have r: "replies (call_request_id f ident operation meta minted)" for operation
    unfolding call_request_id_def using a by (auto simp: replies_def split: option.split sum.split)
  show ?thesis
    unfolding call_action_def Let_def
    by (rule answers_check[OF r]) (intro answers_intros a answers_submit[OF assms])
qed

lemma call_tool_answers:
  assumes f: "encodes f" and ordered: "bt_invar params"
  shows "answers (call_tool f h minted ident params s) \<longleftrightarrow> \<not> actionless params"
proof (cases "length params \<noteq> 3 \<or> \<not> only_keys params [''name'', ''arguments'', ''_meta'']")
  case True
  then have "call_tool f h minted ident params s
      = (invalid_params (mf_codec f) ident (field_detail ''params'' ''expected exactly name, arguments and _meta''), s)"
    by (simp add: call_tool_def)
  then have "answers (call_tool f h minted ident params s)" using answered(4)[OF f] by (simp add: answers_def)
  moreover have "\<not> actionless params" using True unfolding actionless_def by blast
  ultimately show ?thesis by simp
next
  case False
  then have three: "length params = length [''name'', ''arguments'', ''_meta'']"
    and keys: "only_keys params [''name'', ''arguments'', ''_meta'']" by simp_all
  obtain name where p1: "bt_get params ''name'' = Some name" by (rule all_keys_present[OF ordered three keys, where k = "''name''"]) auto
  obtain arguments where p2: "bt_get params ''arguments'' = Some arguments"
    by (rule all_keys_present[OF ordered three keys, where k = "''arguments''"]) auto
  obtain meta where p3: "bt_get params ''_meta'' = Some meta" by (rule all_keys_present[OF ordered three keys, where k = "''_meta''"]) auto
  note p = p1 p2 p3
  note a = answered[OF f]
  define act where "act = (\<lambda>n m action. call_action f h minted ident n m action meta s)"
  have c: "answers (act n m action)" for n m action
    unfolding act_def by (rule answers_call_action[OF f])
  have t: "call_tool f h minted ident params s = (case json_str name of
       None \<Rightarrow> (invalid_params (mf_codec f) ident (field_detail ''params.name'' ''not an advertised tool''), s)
     | Some name \<Rightarrow> if name \<notin> set MCP_TOOL_NAMES
         then (invalid_params (mf_codec f) ident (field_detail ''params.name'' ''not an advertised tool''), s)
         else (case as_object arguments of
             None \<Rightarrow> (invalid_params (mf_codec f) ident
               (field_detail ''params.arguments'' ''expected an object with only action and input''), s)
           | Some arguments \<Rightarrow> if \<not> only_keys arguments [''action'', ''input'']
               then (invalid_params (mf_codec f) ident
                 (field_detail ''params.arguments'' ''expected an object with only action and input''), s)
               else (case bt_get arguments ''action'' of None \<Rightarrow> (None, s) | Some action \<Rightarrow> act name arguments action)))"
    unfolding call_tool_def act_def Let_def using False p by simp
  have iff: "actionless params \<longleftrightarrow> (\<exists>n m. name = JString n \<and> n \<in> set MCP_TOOL_NAMES \<and> arguments = JObject m
      \<and> only_keys m [''action'', ''input''] \<and> bt_get m ''action'' = None)"
    using False p by (auto simp: actionless_def bt_contains_def)
  show ?thesis
    unfolding t iff using a(4) c
    by (cases name; cases arguments) (simp_all add: answers_def split: option.split)
qed

lemma protocol_call_dispatched:
  assumes "local_caller f q token" and "protocol_call f q ident meth params"
  shows "facade_handle f h minted q token s = dispatch f h minted ident meth params s"
proof -
  obtain object where o: "mc_decode (mf_codec f) (mq_body q) = Some (JObject object)"
      "bt_get object ''jsonrpc'' = Some (JString ''2.0'')" "bt_get object ''method'' = Some (JString meth)"
      "rpc_id object = Some ident" "\<not> bt_contains object ''result''" "\<not> bt_contains object ''error''"
      "bt_get object ''params'' \<in> {Some (JObject params)} \<union> (if params = [] then {None} else {})"
    using assms(2) by (auto simp: protocol_call_def)
  have "bt_contains object ''id''"
    using o(4) by (auto simp: rpc_id_def bt_contains_def split: option.splits)
  moreover have "(case bt_get object ''params'' of None \<Rightarrow> Some [] | Some v \<Rightarrow> as_object v) = Some params"
    using o(7) by (auto split: if_splits)
  moreover have "validate_metadata_headers (mf_codec f) q ident meth params = Ok ()"
    using assms(2) by (simp add: protocol_call_def)
  ultimately have "handle_object f h minted q object s = dispatch f h minted ident meth params s"
    using o by (simp add: handle_object_def)
  moreover have "bearer_matches q token" using assms(1) by (simp add: bearer_matches_iff local_caller_def)
  ultimately show ?thesis
    using assms o(1) by (simp add: facade_handle_def handle_protocol_def local_caller_def protocol_call_def)
qed

lemma dispatch_answers:
  assumes "encodes f" and "bt_invar params"
  shows "answers (dispatch f h minted ident meth params s) \<longleftrightarrow> \<not> (meth = ''tools/call'' \<and> actionless params)"
  unfolding dispatch_def answers_def
  by (simp add: answers_discover[OF assms(1), unfolded answers_def fst_conv]
      answers_list_tools[OF assms(1), unfolded answers_def fst_conv]
      answers_list_resources[OF assms(1), unfolded answers_def] answers_read_resource[OF assms, unfolded answers_def]
      call_tool_answers[OF assms, unfolded answers_def] answered(3)[OF assms(1)])

text \<open>
  C18: The facade answers every request but one kind, and to that kind it gives no answer at all: an
  authenticated, well-formed \<open>tools/call\<close> of an advertised tool whose arguments hold no \<open>action\<close>. The
  code indexes the missing key of the map and panics.
\<close>

theorem actionless_call_unanswered:
  assumes "encodes f" and "ordered_params (mf_codec f)"
  shows "fst (facade_handle f h minted q token s) = None \<longleftrightarrow>
    (\<exists>ident params. local_caller f q token \<and> protocol_call f q ident ''tools/call'' params \<and> actionless params)"
proof
  assume none: "fst (facade_handle f h minted q token s) = None"
  then have "\<not> settled_here s (facade_handle f h minted q token s)" by (simp add: settled_here_def)
  then obtain ident meth params where d: "facade_handle f h minted q token s = dispatch f h minted ident meth params s"
      "local_caller f q token" "protocol_call f q ident meth params"
    by (rule handled_cases[OF assms(1)])
  have "bt_invar params"
    using d(3) assms(2) by (auto simp: protocol_call_def ordered_params_def split: if_splits)
  from dispatch_answers[OF assms(1) this, of h minted ident meth s] none d
  have "meth = ''tools/call''" "actionless params" by (auto simp: answers_def)
  then show "\<exists>ident params. local_caller f q token \<and> protocol_call f q ident ''tools/call'' params \<and> actionless params"
    using d by blast
next
  assume "\<exists>ident params. local_caller f q token \<and> protocol_call f q ident ''tools/call'' params \<and> actionless params"
  then obtain ident params where c: "local_caller f q token" "protocol_call f q ident ''tools/call'' params"
    "actionless params" by blast
  have "bt_invar params"
    using c(2) assms(2) by (auto simp: protocol_call_def ordered_params_def split: if_splits)
  from dispatch_answers[OF assms(1) this, of h minted ident "''tools/call''" s] c(3)
  show "fst (facade_handle f h minted q token s) = None"
    by (simp add: protocol_call_dispatched[OF c(1,2)] answers_def)
qed

section \<open>What the host is asked\<close>

text \<open>A name header, decoded, names the tool or the resource of the call.\<close>

definition header_names :: "mcp_request \<Rightarrow> string \<Rightarrow> bool" where
  "header_names q name \<longleftrightarrow> (\<exists>value. header_values q ''mcp-name'' = [value] \<and> decode_name_header value = Some name)"

lemma validated_call:
  assumes "validate_metadata_headers c q ident ''tools/call'' params = Ok ()"
  obtains name where "bt_get params ''name'' = Some (JString name)" "header_names q name"
    "single_header q ''mcp-protocol-version'' = Some MCP_PROTOCOL_VERSION"
proof -
  have v: "check_version c q ident = Ok ()" and "\<exists>k. check_name c q ident ''tools/call'' params = Ok k"
    using assms by (auto simp: validate_metadata_headers_def rbind_eq_Ok_iff)
  then obtain k where "check_name c q ident ''tools/call'' params = Ok k" by blast
  then obtain name_header where n: "(case header_values q ''mcp-name'' of
            [] \<Rightarrow> Ok None
          | [value] \<Rightarrow> (case decode_name_header value of
               None \<Rightarrow> header_mismatch c ident | Some name \<Rightarrow> Ok (Some name))
          | _ \<Rightarrow> header_mismatch c ident) = Ok name_header"
      and e: "(case Option.bind (bt_get params ''name'') json_str of
                None \<Rightarrow> Err (invalid_params c ident (field_detail (''params.'' @ ''name'') ''expected a string''))
              | Some expected \<Rightarrow> if name_header \<noteq> Some expected then header_mismatch c ident else Ok True) = Ok k"
    by (auto simp: check_name_def rbind_eq_Ok_iff header_mismatch_def Let_def split: if_splits)
  from e obtain name where name: "Option.bind (bt_get params ''name'') json_str = Some name" "name_header = Some name"
    by (auto simp: header_mismatch_def split: option.splits if_splits)
  have h: "header_names q name"
    using n name(2) by (auto simp: header_names_def header_mismatch_def split: list.splits option.splits)
  have "bt_get params ''name'' = Some (JString name)"
    using name(1) by (cases "bt_get params ''name''"; cases "the (bt_get params ''name'')") auto
  moreover note h
  moreover have "single_header q ''mcp-protocol-version'' = Some MCP_PROTOCOL_VERSION"
    using v by (auto simp: check_version_def header_mismatch_def split: option.splits if_splits)
  ultimately show thesis by (rule that)
qed

lemma call_tool_asks:
  assumes "snd (call_tool f h minted ident params s) \<noteq> s" and "bt_get params ''name'' = Some (JString name)"
  shows "\<exists>arguments. name \<in> set MCP_TOOL_NAMES \<and> bt_get params ''arguments'' = Some (JObject arguments)
    \<and> mc_payload (mf_codec f) (JObject (bt_insert ''tool'' (JString name) arguments))
    \<and> focused_input_names_observation name arguments"
proof -
  from assms obtain arguments action meta where c: "name \<in> set MCP_TOOL_NAMES"
      "bt_get params ''arguments'' = Some (JObject arguments)"
      "snd (call_action f h minted ident name arguments action meta s) \<noteq> s"
    unfolding call_tool_def Let_def
    by (auto split: if_splits option.splits json.splits elim: as_object.elims)
  then have "mc_payload (mf_codec f) (JObject (bt_insert ''tool'' (JString name) arguments))"
    "focused_input_names_observation name arguments"
    unfolding call_action_def Let_def by (auto split: if_splits sum.splits)
  with c show ?thesis by blast
qed


section \<open>Schema definitions\<close>

text \<open>The definitions a schema reaches through its references.\<close>

inductive reaches :: "json_map \<Rightarrow> json \<Rightarrow> string \<Rightarrow> bool" for definitions where
  named: "collect_schema_definitions v = Ok names \<Longrightarrow> name \<in> set names \<Longrightarrow> reaches definitions v name"
| through: "collect_schema_definitions v = Ok names \<Longrightarrow> other \<in> set names \<Longrightarrow> bt_get definitions other = Some d
    \<Longrightarrow> reaches definitions d name \<Longrightarrow> reaches definitions v name"

lemma bt_contains_insert [simp]: "bt_contains (bt_insert k v m) k' \<longleftrightarrow> k' = k \<or> bt_contains m k'"
  by (simp add: bt_contains_def bt_get_insert)

lemma set_ordered [simp]: "set (ordered_set names) = set names"
  by (simp add: ordered_set_def)

text \<open>What the loop has found is defined as in the Contract, closed up to what is pending.\<close>

definition partly_closed :: "json_map \<Rightarrow> string list \<Rightarrow> json_map \<Rightarrow> bool" where
  "partly_closed definitions pending reachable \<longleftrightarrow> (\<forall>name d. bt_get reachable name = Some d \<longrightarrow>
     bt_get definitions name = Some d \<and> (\<exists>names. collect_schema_definitions d = Ok names
       \<and> (\<forall>n\<in>set names. n \<in> set pending \<or> bt_contains reachable n)))"

definition reached_from :: "json_map \<Rightarrow> string set \<Rightarrow> string \<Rightarrow> bool" where
  "reached_from definitions W n \<longleftrightarrow>
     n \<in> W \<or> (\<exists>p d. p \<in> W \<and> bt_get definitions p = Some d \<and> reaches definitions d n)"

lemma reached_from_step:
  assumes "bt_get definitions name = Some d" "collect_schema_definitions d = Ok names"
    and "reached_from definitions (set rest \<union> set names) n"
  shows "reached_from definitions (insert name (set rest)) n"
  using assms(3) unfolding reached_from_def
  by (metis (no_types, lifting) UnE assms(1,2) insertCI named through)

lemma reach_Ok:
  "reach definitions pending reachable = Ok m \<Longrightarrow> partly_closed definitions pending reachable \<Longrightarrow>
    partly_closed definitions [] m \<and> (\<forall>n. n \<in> set pending \<or> bt_contains reachable n \<longrightarrow> bt_contains m n)
    \<and> (\<forall>n. bt_contains m n \<longrightarrow> bt_contains reachable n \<or> reached_from definitions (set pending) n)"
proof (induction definitions pending reachable rule: reach.induct)
  case (1 definitions pending reachable)
  show ?case
  proof (cases pending)
    case Nil
    then show ?thesis using 1(3,4) by (simp add: reach.simps[of _ "[]"])
  next
    case (Cons name rest)
    show ?thesis
    proof (cases "bt_contains reachable name")
      case True
      have "reach definitions rest reachable = Ok m"
        using 1(3) Cons True reach.simps[of definitions "name # rest" reachable] by simp
      moreover have "partly_closed definitions rest reachable"
        using 1(4) Cons True unfolding partly_closed_def by (metis set_ConsD)
      ultimately show ?thesis using 1(1)[OF Cons True] Cons True by (auto simp: reached_from_def)
    next
      case False
      then obtain d names where d: "bt_get definitions name = Some d" "collect_schema_definitions d = Ok names"
          "reach definitions (ordered_set (rest @ names)) (bt_insert name d reachable) = Ok m"
        using 1(3) Cons False reach.simps[of definitions "name # rest" reachable]
        by (auto split: option.splits sum.splits)
      have "partly_closed definitions (ordered_set (rest @ names)) (bt_insert name d reachable)"
        using 1(4) Cons d(1,2) unfolding partly_closed_def by (auto simp: bt_get_insert split: if_splits) metis
      from 1(2)[OF Cons False d(1,2,3) this] show ?thesis
        using Cons reached_from_step[OF d(1,2)] by (auto simp: reached_from_def[of _ _ name])
    qed
  qed
qed

lemma reaches_closed:
  "reaches definitions v n \<Longrightarrow> partly_closed definitions [] m \<Longrightarrow> collect_schema_definitions v = Ok names
    \<Longrightarrow> \<forall>x\<in>set names. bt_contains m x \<Longrightarrow> bt_contains m n"
proof (induction arbitrary: names rule: reaches.induct)
  case (named v ns name)
  then show ?case by simp
next
  case (through v ns other d name)
  then have "bt_contains m other" by simp
  then have "bt_get m other = Some d"
    using through.hyps(3) through.prems(1) by (auto simp: bt_contains_def partly_closed_def not_None_eq)
  then obtain inner where "collect_schema_definitions d = Ok inner" "\<forall>x\<in>set inner. bt_contains m x"
    using through.prems(1) by (force simp: partly_closed_def)
  then show ?case using through.IH through.prems(1) by blast
qed

text \<open> The definitions a tool's schema carries are exactly those its references reach, directly or
  through other definitions, each as the Contract defines it: the search ends, drops nothing that is
  needed and adds nothing that is not.
\<close>

lemma schema_definitions_closed:
  assumes "reachable_schema_definitions schema definitions = Ok m"
  shows "(bt_contains m name \<longleftrightarrow> reaches definitions (JObject schema) name)
    \<and> (bt_get m name = Some d \<longrightarrow> bt_get definitions name = Some d)"
proof -
  obtain names where n: "collect_schema_definitions (JObject schema) = Ok names"
      "reach definitions (ordered_set names) [] = Ok m"
    using assms by (auto simp: reachable_schema_definitions_def rbind_eq_Ok_iff simp del: collect_schema_definitions.simps)
  have "partly_closed definitions (ordered_set names) []" by (simp add: partly_closed_def bt_get_def)
  from reach_Ok[OF n(2) this] have r: "partly_closed definitions [] m" "\<forall>x\<in>set names. bt_contains m x"
      "\<And>x. bt_contains m x \<Longrightarrow> reached_from definitions (set names) x"
    by (auto simp: bt_contains_def[of "[]"] bt_get_def[of "[]"])
  have "bt_contains m name \<Longrightarrow> reaches definitions (JObject schema) name"
    using r(3)[of name] n(1) unfolding reached_from_def by (metis named through)
  moreover have "reaches definitions (JObject schema) name \<Longrightarrow> bt_contains m name"
    using reaches_closed[OF _ r(1) n(1) r(2)] .
  moreover have "bt_get m name = Some d \<Longrightarrow> bt_get definitions name = Some d"
    using r(1) by (simp add: partly_closed_def)
  ultimately show ?thesis by blast
qed

end
