(* ===== verification/Artifact_Store.thy ===== *)
theory Artifact_Store
  imports Persistence_Port Json
begin

text \<open>
  The artifact store and the Runtime's artifact port (\<open>rust/crates/persistence/src/artifact.rs\<close>): an
  artifact's bytes are published as a file of its own, its record is committed to the manifest of the
  canonical state, and the two are kept together by the order of the steps and by reconciliation.
  The digest (sha2), the calendar (chrono) and fresh identities (uuid) are parameters.
\<close>

record artifact_env =
  ev_texts :: text_codec
  ev_sha256 :: "bytes \<Rightarrow> string"

record artifact_publish =
  ap_kind :: artifact_kind
  ap_id :: uuid
  ap_bytes :: bytes
  ap_created_at :: string
  ap_created_at_ms :: u64
  ap_expires_at :: string
  ap_expires_at_ms :: u64
  ap_mime :: "string option"
  ap_task_id :: "task_id option"
  ap_request_id :: "request_id option"

section \<open>References and paths\<close>

definition artifact_ref_text :: "artifact_kind \<Rightarrow> uuid \<Rightarrow> string" where
  "artifact_ref_text kind ident = ''dbref:'' @ kind_token kind @ '':'' @ as_str ident"

definition kind_directory :: "artifact_kind \<Rightarrow> path" where
  "kind_directory kind = [''artifacts'', kind_token kind]"

definition path_for_ref :: "text_codec \<Rightarrow> string \<Rightarrow> path res" where
  "path_for_ref c artifact_ref =
     (case split_colon artifact_ref of
        [] \<Rightarrow> err_invalid ''invalid artifact reference''
      | scheme # parts \<Rightarrow>
          if scheme \<noteq> ''dbref'' then err_invalid ''invalid artifact reference''
          else (case parts of
            [] \<Rightarrow> err_invalid ''invalid artifact kind''
          | kind # parts \<Rightarrow> (case parse_kind kind of
              None \<Rightarrow> err_invalid ''invalid artifact kind''
            | Some kind \<Rightarrow> (case parts of
                [] \<Rightarrow> err_invalid ''missing artifact identity''
              | [ident] \<Rightarrow> rbind (map_err (\<lambda>_. domain_error_invalid ''invalid artifact identity'') (uuid_parse c ident))
                  (\<lambda>ident. Ok (kind_directory kind @ [as_str ident]))
              | _ \<Rightarrow> err_invalid ''invalid artifact reference''))))"

section \<open>The files of artifacts\<close>

definition image_mime :: "string option \<Rightarrow> bool" where
  "image_mime m \<longleftrightarrow> m \<in> {Some ''image/heic'', Some ''image/jpeg'', Some ''image/png''}"

definition check_publish :: "text_codec \<Rightarrow> artifact_publish \<Rightarrow> unit res" where
  "check_publish c p =
     (if ap_bytes p = [] \<or> of_nat (length (ap_bytes p)) > maximum_bytes (ap_kind p)
      then err ResourceLimit ''artifact size is outside its kind limit''
      else rbind (ok_or (checked_add (ap_created_at_ms p) ARTIFACT_TTL_MS)
                    (domain_error_new ResourceLimit ''artifact expiry overflow'')) (\<lambda>expiry.
        if ap_expires_at_ms p \<noteq> expiry then err_invalid ''artifact expiry is not the fixed TTL''
        else if timestamp_ms c (ap_created_at p) \<noteq> Some (ap_created_at_ms p)
          \<or> timestamp_ms c (ap_expires_at p) \<noteq> Some (ap_expires_at_ms p)
        then err_invalid ''artifact timestamps are not canonical''
        else if ap_kind p = KindImage \<and> \<not> image_mime (ap_mime p)
        then err_invalid ''image artifact MIME is invalid''
        else Ok ()))"

definition publication :: "path \<Rightarrow> path \<Rightarrow> path \<Rightarrow> bytes \<Rightarrow> (domain_error, unit) io" where
  "publication directory temporary target b =
     io_bind (open_new_private temporary) (\<lambda>i.
     io_bind (write_synced i b) (\<lambda>_.
     io_bind (replace_file_exclusive temporary target) (\<lambda>_.
     sync_directory directory)))"

definition published_record :: "artifact_env \<Rightarrow> artifact_publish \<Rightarrow> artifact_record" where
  "published_record e p =
     \<lparr>art_ref = artifact_ref_text (ap_kind p) (ap_id p), art_kind = ap_kind p,
      art_size = of_nat (length (ap_bytes p)), art_created_at = ap_created_at p,
      art_expires_at = ap_expires_at p, art_sha256 = Some (ev_sha256 e (ap_bytes p)),
      art_mime = ap_mime p, art_task_id = ap_task_id p, art_request_id = ap_request_id p\<rparr>"

definition publish_file ::
  "artifact_env \<Rightarrow> ('p, 'r, 'j) state_store \<Rightarrow> lifetime_lease \<Rightarrow> artifact_publish \<Rightarrow>
   (domain_error, artifact_record) io" where
  "publish_file e s lease p =
     io_bind (validate_lease s lease) (\<lambda>_.
     io_bind (io_of (check_publish (ev_texts e) p)) (\<lambda>_.
     let directory = kind_directory (ap_kind p);
         target = directory @ [as_str (ap_id p)];
         temporary = directory @ [temporary_name (as_str (ap_id p))]
     in io_bind (create_canonical_directory directory) (\<lambda>_.
        io_bind (io_match (publication directory temporary target (ap_bytes p)) (\<lambda>published. case published of
            Inr _ \<Rightarrow> io_return ()
          | Inl error \<Rightarrow> io_match (fs_remove_file temporary) (\<lambda>_. io_fail error))) (\<lambda>_.
        io_return (published_record e p)))))"

definition artifact_metadata ::
  "artifact_env \<Rightarrow> ('p, 'r, 'j) state_store \<Rightarrow> lifetime_lease \<Rightarrow> string \<Rightarrow> (domain_error, artifact_record) io" where
  "artifact_metadata e s lease artifact_ref =
     io_bind (io_of (path_for_ref (ev_texts e) artifact_ref)) (\<lambda>_.
     io_bind (load_state s lease) (\<lambda>state.
     io_of (ok_or (List.find (\<lambda>r. art_ref r = artifact_ref) (cn_artifact_manifest state))
              (domain_error_new NotFound ''artifact reference not found''))))"

definition open_artifact ::
  "artifact_env \<Rightarrow> ('p, 'r, 'j) state_store \<Rightarrow> lifetime_lease \<Rightarrow> string \<Rightarrow> (domain_error, bytes) io" where
  "open_artifact e s lease artifact_ref =
     io_bind (artifact_metadata e s lease artifact_ref) (\<lambda>metadata.
     io_bind (io_of (path_for_ref (ev_texts e) artifact_ref)) (\<lambda>p.
     io_bind (io_map_err io_error (fs_read p)) (\<lambda>b.
     if of_nat (length b) \<noteq> art_size metadata
       \<or> (case art_sha256 metadata of None \<Rightarrow> False | Some expected \<Rightarrow> ev_sha256 e b \<noteq> expected)
     then io_fail (domain_error_new IoError ''artifact bytes do not match canonical metadata'')
     else io_return b)))"

definition remove_if_present :: "path \<Rightarrow> (domain_error, unit) io" where
  "remove_if_present p = io_match (fs_remove_file p) (\<lambda>r. case r of
       Inr _ \<Rightarrow> io_return ()
     | Inl e \<Rightarrow> if e = ENOENT then io_return () else io_fail (io_error e))"

definition delete_file ::
  "artifact_env \<Rightarrow> ('p, 'r, 'j) state_store \<Rightarrow> lifetime_lease \<Rightarrow> string \<Rightarrow> (domain_error, unit) io" where
  "delete_file e s lease artifact_ref =
     io_bind (validate_lease s lease) (\<lambda>_.
     io_bind (io_of (path_for_ref (ev_texts e) artifact_ref)) (\<lambda>p.
     io_bind (remove_if_present p) (\<lambda>_.
     sync_directory (butlast p))))"

section \<open>Reconciliation\<close>

record artifact_reconciliation =
  rc_removed_temporaries :: nat
  rc_removed_orphans :: nat
  rc_missing_refs :: "string list"

definition temporary_entry :: "path \<Rightarrow> bool" where
  "temporary_entry p \<longleftrightarrow> starts_with ''.'' (last p) \<and> ends_with ''.tmp'' (last p)"

fun reconcile_entries ::
  "path set \<Rightarrow> entries \<Rightarrow> nat \<times> nat \<Rightarrow> (domain_error, nat \<times> nat) io" where
  "reconcile_entries expected [] counts = io_return counts"
| "reconcile_entries expected ((p, kind) # rest) (temporaries, orphans) =
     (if kind = DirEntry
      then io_fail (domain_error_new IoError ''artifact directory contains a non-file entry'')
      else if temporary_entry p
      then io_bind (io_map_err io_error (fs_remove_file p)) (\<lambda>_.
             reconcile_entries expected rest (Suc temporaries, orphans))
      else if p \<notin> expected
      then io_bind (io_map_err io_error (fs_remove_file p)) (\<lambda>_.
             reconcile_entries expected rest (temporaries, Suc orphans))
      else reconcile_entries expected rest (temporaries, orphans))"

fun reconcile_kinds ::
  "path set \<Rightarrow> artifact_kind list \<Rightarrow> nat \<times> nat \<Rightarrow> (domain_error, nat \<times> nat) io" where
  "reconcile_kinds expected [] counts = io_return counts"
| "reconcile_kinds expected (kind # kinds) counts =
     io_bind (fs_exists (kind_directory kind)) (\<lambda>present.
     io_bind (if present
              then io_bind (io_map_err io_error (fs_read_dir (kind_directory kind))) (\<lambda>es.
                   io_bind (reconcile_entries expected es counts) (\<lambda>counts.
                   io_bind (sync_directory (kind_directory kind)) (\<lambda>_. io_return counts)))
              else io_return counts) (\<lambda>counts.
     reconcile_kinds expected kinds counts))"

fun missing_refs :: "(path \<times> string) list \<Rightarrow> (domain_error, string list) io" where
  "missing_refs [] = io_return []"
| "missing_refs ((p, artifact_ref) # rest) =
     io_bind (fs_is_file p) (\<lambda>present.
     io_bind (missing_refs rest) (\<lambda>refs.
     io_return (if present then refs else artifact_ref # refs)))"

definition reconcile ::
  "artifact_env \<Rightarrow> ('p, 'r, 'j) state_store \<Rightarrow> lifetime_lease \<Rightarrow> (domain_error, artifact_reconciliation) io" where
  "reconcile e s lease =
     io_bind (load_state s lease) (\<lambda>state.
     io_bind (io_of (collect (\<lambda>r. rbind (path_for_ref (ev_texts e) (art_ref r)) (\<lambda>p. Ok (p, art_ref r)))
                (cn_artifact_manifest state))) (\<lambda>expected.
     io_bind (reconcile_kinds (set (map fst expected))
                [KindStdout, KindStderr, KindData, KindImage, KindCapture, KindPacket] (0, 0)) (\<lambda>(temporaries, orphans).
     io_bind (missing_refs expected) (\<lambda>refs.
     io_return \<lparr>rc_removed_temporaries = temporaries, rc_removed_orphans = orphans, rc_missing_refs = refs\<rparr>))))"

section \<open>The Runtime's artifact port\<close>

record resolved_artifact_owner =
  ro_task_id :: "task_id option"
  ro_request_id :: request_id

definition execution_owners ::
  "('p, 'r, 'j) canonical_state \<Rightarrow> execution_id \<Rightarrow> resolved_artifact_owner list" where
  "execution_owners c execution_id =
     List.map_filter (\<lambda>t. if st_execution_id t = execution_id
        then map_option (\<lambda>r. \<lparr>ro_task_id = Some (st_task_id t), ro_request_id = r\<rparr>) (st_request_id t)
        else None) (cn_tasks c)
     @ List.map_filter (\<lambda>q. case qr_synchronous_execution q of
          None \<Rightarrow> None
        | Some x \<Rightarrow> if ssx_execution_id x = execution_id
            then Some \<lparr>ro_task_id = None, ro_request_id = qr_request_id q\<rparr> else None) (cn_request_records c)"

definition resolve_execution_owner ::
  "('p, 'r, 'j) canonical_state \<Rightarrow> execution_id \<Rightarrow> resolved_artifact_owner res" where
  "resolve_execution_owner c execution_id =
     (case execution_owners c execution_id of
        [] \<Rightarrow> err StaleAuthority ''artifact execution has no canonical owner''
      | [owner] \<Rightarrow> Ok owner
      | _ \<Rightarrow> err IoError ''artifact execution has duplicate canonical owners'')"

definition resolve_owner ::
  "('p, 'r, 'j) canonical_state \<Rightarrow> execution_id option \<Rightarrow> resolved_artifact_owner option res" where
  "resolve_owner c execution_id =
     (case execution_id of None \<Rightarrow> Ok None
      | Some x \<Rightarrow> rbind (resolve_execution_owner c x) (\<lambda>owner. Ok (Some owner)))"

definition terminal_state :: "task_state \<Rightarrow> bool" where
  "terminal_state st \<longleftrightarrow> st \<in> {TaskCompleted, TaskFailed, TaskCancelled, TaskInterrupted}"

definition eligible_terminal_refs :: "('p, 'r, 'j) canonical_state \<Rightarrow> string list" where
  "eligible_terminal_refs c =
     map art_ref (filter (\<lambda>r. case art_task_id r of None \<Rightarrow> False
        | Some task_id \<Rightarrow> list_ex (\<lambda>t. st_task_id t = task_id \<and> terminal_state (st_state t)) (cn_tasks c))
      (cn_artifact_manifest c))"

text \<open>One reading of the clock and one fresh identity; \<open>pc_text\<close> writes an instant, if it can be one.\<close>

record publish_clock =
  pc_now_ms :: int
  pc_text :: "int \<Rightarrow> string option"
  pc_id :: "uuid option"

fun delete_files ::
  "artifact_env \<Rightarrow> ('p, 'r, 'j) state_store \<Rightarrow> lifetime_lease \<Rightarrow> string list \<Rightarrow> (domain_error, unit) io" where
  "delete_files e s lease [] = io_return ()"
| "delete_files e s lease (r # rs) = io_bind (delete_file e s lease r) (\<lambda>_. delete_files e s lease rs)"

definition evict_artifacts ::
  "artifact_env \<Rightarrow> ('p, 'r, 'j) state_store \<Rightarrow> lifetime_lease \<Rightarrow> execution_id option \<Rightarrow> string list \<Rightarrow>
   ('p, 'r, 'j) canonical_state \<Rightarrow> resolved_artifact_owner option \<Rightarrow>
   (domain_error, ('p, 'r, 'j) canonical_state \<times> resolved_artifact_owner option) io" where
  "evict_artifacts e s lease execution_id evict state owner =
     (if evict = [] then io_return (state, owner)
      else
        io_bind (commit_manifest s lease (cn_store_revision state) (\<lambda>candidate.
           Ok (candidate\<lparr>cn_artifact_manifest :=
             filter (\<lambda>r. art_ref r \<notin> set evict) (cn_artifact_manifest candidate)\<rparr>))) (\<lambda>_.
        io_bind (delete_files e s lease evict) (\<lambda>_.
        io_bind (load_state s lease) (\<lambda>state.
        io_bind (io_of (resolve_owner state execution_id)) (\<lambda>owner.
        io_return (state, owner))))))"

definition record_mutation ::
  "execution_id option \<Rightarrow> resolved_artifact_owner option \<Rightarrow> artifact_record \<Rightarrow>
   ('p, 'r, 'j) canonical_state \<Rightarrow> ('p, 'r, 'j) canonical_state res" where
  "record_mutation execution_id owner r candidate =
     rbind (case execution_id of
         None \<Rightarrow> Ok ()
       | Some x \<Rightarrow> rbind (resolve_execution_owner candidate x) (\<lambda>current.
           if Some current \<noteq> owner
           then err StaleAuthority ''artifact execution owner changed before publication'' else Ok ())) (\<lambda>_.
     Ok (candidate\<lparr>cn_artifact_manifest := cn_artifact_manifest candidate @ [r]\<rparr>))"

definition publish_kind ::
  "artifact_env \<Rightarrow> ('p, 'r, 'j) state_store \<Rightarrow> lifetime_lease \<Rightarrow> publish_clock \<Rightarrow> artifact_kind \<Rightarrow>
   execution_id option \<Rightarrow> string option \<Rightarrow> bytes \<Rightarrow> (domain_error, artifact_record) io" where
  "publish_kind e s lease clock kind execution_id mime b =
     io_bind (io_of (if pc_now_ms clock < 0 then err InternalError ''system time is invalid''
                     else Ok (of_int (pc_now_ms clock)))) (\<lambda>created_at_ms.
     io_bind (io_of (ok_or (checked_add created_at_ms ARTIFACT_TTL_MS)
                (domain_error_new ResourceLimit ''artifact expiry overflow''))) (\<lambda>expires_at_ms.
     io_bind (io_of (ok_or (pc_id clock) (domain_error_new InternalError ''UUID generation failed''))) (\<lambda>ident.
     io_bind (load_state s lease) (\<lambda>state.
     io_bind (io_of (resolve_owner state execution_id)) (\<lambda>owner.
     io_bind (io_of (plan_artifact_admission (ev_texts e) (cn_artifact_manifest state) kind
                (of_nat (length b)) created_at_ms (eligible_terminal_refs state))) (\<lambda>evict.
     io_bind (evict_artifacts e s lease execution_id evict state owner) (\<lambda>(state, owner).
     io_bind (io_of (ok_or (if uint expires_at_ms < 2 ^ 63 then pc_text clock (uint expires_at_ms) else None)
                (domain_error_new ResourceLimit ''artifact expiry is invalid''))) (\<lambda>expires_at.
     let p = \<lparr>ap_kind = kind, ap_id = ident, ap_bytes = b,
           ap_created_at = (case pc_text clock (pc_now_ms clock) of None \<Rightarrow> [] | Some t \<Rightarrow> t),
           ap_created_at_ms = created_at_ms, ap_expires_at = expires_at, ap_expires_at_ms = expires_at_ms,
           ap_mime = mime, ap_task_id = Option.bind owner ro_task_id, ap_request_id = map_option ro_request_id owner\<rparr>
     in io_bind (publish_file e s lease p) (\<lambda>r.
        io_match (commit_manifest s lease (cn_store_revision state) (record_mutation execution_id owner r))
          (\<lambda>committed. case committed of
             Inr _ \<Rightarrow> io_return r
           | Inl error \<Rightarrow> io_match (delete_file e s lease (art_ref r)) (\<lambda>_. io_fail error)))))))))))"

definition kind_of_token :: "string \<Rightarrow> artifact_kind res" where
  "kind_of_token kind = ok_or (parse_kind kind) (domain_error_invalid ''artifact kind is not an S-ART-001 kind'')"

definition publish_for_execution ::
  "artifact_env \<Rightarrow> ('p, 'r, 'j) state_store \<Rightarrow> lifetime_lease \<Rightarrow> publish_clock \<Rightarrow> execution_id \<Rightarrow> string \<Rightarrow>
   bytes \<Rightarrow> (domain_error, artifact_record) io" where
  "publish_for_execution e s lease clock execution_id kind b =
     io_bind (io_of (kind_of_token kind)) (\<lambda>kind. publish_kind e s lease clock kind (Some execution_id) None b)"

definition publish_as ::
  "artifact_env \<Rightarrow> ('p, 'r, 'j) state_store \<Rightarrow> lifetime_lease \<Rightarrow> publish_clock \<Rightarrow> string \<Rightarrow> bytes \<Rightarrow>
   (domain_error, artifact_record) io" where
  "publish_as e s lease clock kind b =
     io_bind (io_of (kind_of_token kind)) (\<lambda>kind. publish_kind e s lease clock kind None None b)"

definition publish_image_for_execution ::
  "artifact_env \<Rightarrow> ('p, 'r, 'j) state_store \<Rightarrow> lifetime_lease \<Rightarrow> publish_clock \<Rightarrow> execution_id \<Rightarrow> string \<Rightarrow>
   bytes \<Rightarrow> (domain_error, artifact_record) io" where
  "publish_image_for_execution e s lease clock execution_id mime b =
     (if \<not> image_mime (Some mime) then io_fail (domain_error_invalid ''image artifact MIME is invalid'')
      else publish_kind e s lease clock KindImage (Some execution_id) (Some mime) b)"

definition port_delete ::
  "artifact_env \<Rightarrow> ('p, 'r, 'j) state_store \<Rightarrow> lifetime_lease \<Rightarrow> string \<Rightarrow> (domain_error, unit) io" where
  "port_delete e s lease artifact_ref =
     io_bind (load_state s lease) (\<lambda>state.
     if \<not> list_ex (\<lambda>r. art_ref r = artifact_ref) (cn_artifact_manifest state)
     then io_fail (domain_error_new NotFound ''artifact reference not found'')
     else
       io_bind (commit_manifest s lease (cn_store_revision state) (\<lambda>candidate.
          Ok (candidate\<lparr>cn_artifact_manifest :=
            filter (\<lambda>r. art_ref r \<noteq> artifact_ref) (cn_artifact_manifest candidate)\<rparr>))) (\<lambda>_.
       delete_file e s lease artifact_ref))"

end
