(* ===== verification/Artifact_Query.thy ===== *)
theory Artifact_Query
  imports Artifact_Store Mcp_Facade
begin

text \<open>
  The answers of the artifact port to the MCP facade's queries (\<open>answer_mcp_query\<close> in
  \<open>rust/crates/persistence/src/artifact.rs\<close>): the live artifacts in pages, their expiries, and one
  descriptor to read. Following the cursors of the pages lists every live artifact once.
\<close>

section \<open>The live artifacts\<close>

definition resource_kind :: "artifact_kind \<Rightarrow> bool" where
  "resource_kind kind \<longleftrightarrow> kind \<in> {KindStdout, KindStderr, KindData, KindImage}"

definition live_artifacts :: "text_codec \<Rightarrow> artifact_record list \<Rightarrow> u64 \<Rightarrow> artifact_record list" where
  "live_artifacts c manifest now_ms =
     sort_desc (\<lambda>r. (art_created_at r, art_ref r))
       (filter (\<lambda>r. resource_kind (art_kind r)
          \<and> (case timestamp_ms c (art_expires_at r) of None \<Rightarrow> False | Some expires_at \<Rightarrow> expires_at > now_ms))
        manifest)"

section \<open>Pages\<close>

definition page_start :: "artifact_record list \<Rightarrow> string option \<Rightarrow> nat option" where
  "page_start found cursor =
     (case cursor of
        None \<Rightarrow> Some 0
      | Some cursor \<Rightarrow> map_option Suc (Option.bind (mcp_resource_cursor_ref cursor) (\<lambda>after.
          position (\<lambda>r. art_ref r = after) found)))"

definition with_mime :: "string option \<Rightarrow> json \<Rightarrow> json" where
  "with_mime mime v = (case mime of None \<Rightarrow> v | Some m \<Rightarrow> json_set v ''mime'' (JString m))"

definition listed_resource :: "artifact_record \<Rightarrow> json" where
  "listed_resource r = with_mime (art_mime r)
     (json_object [(''uri'', JString (art_ref r)), (''size'', JInt (uint (art_size r)))])"

definition list_page :: "artifact_record list \<Rightarrow> string option \<Rightarrow> json" where
  "list_page found cursor =
     (case page_start found cursor of
        None \<Rightarrow> json_object [(''error'', JString ''invalid_cursor'')]
      | Some start \<Rightarrow>
          let page = take MCP_RESOURCE_PAGE_SIZE (drop start found);
              payload = json_object [(''resources'', JArray (map listed_resource page))]
          in if start + length page < length found \<and> page \<noteq> []
             then json_set payload ''next_cursor'' (JString (mcp_resource_cursor (art_ref (last page))))
             else payload)"

definition metadata_page :: "artifact_record list \<Rightarrow> string list \<Rightarrow> json" where
  "metadata_page found refs =
     json_object [(''artifacts'', JArray (List.map_filter (\<lambda>requested.
        map_option (\<lambda>r. json_object [(''ref'', JString (art_ref r)), (''expires_at'', JString (art_expires_at r))])
          (List.find (\<lambda>r. art_ref r = requested) found)) refs))]"

definition answer_mcp_query ::
  "artifact_env \<Rightarrow> ('p, 'r, 'j) state_store \<Rightarrow> lifetime_lease \<Rightarrow> json \<Rightarrow> u64 \<Rightarrow>
   (domain_error, mcp_artifact_reply) io" where
  "answer_mcp_query e s lease query now_ms =
     io_bind (io_of (decode_query query)) (\<lambda>query.
     io_bind (load_state s lease) (\<lambda>state.
     let found = live_artifacts (ev_texts e) (cn_artifact_manifest state) now_ms;
         reply = (\<lambda>payload. io_return \<lparr>qp_payload = payload, qp_descriptor = None\<rparr>)
     in case query of
          QueryList cursor \<Rightarrow> reply (list_page found cursor)
        | QueryMetadata refs \<Rightarrow> reply (metadata_page found refs)
        | QueryRead uri \<Rightarrow>
            (case List.find (\<lambda>r. art_ref r = uri) found of
               None \<Rightarrow> reply (json_object [(''error'', JString ''not_found'')])
             | Some r \<Rightarrow>
                 io_bind (io_of (path_for_ref (ev_texts e) uri)) (\<lambda>p.
                 io_bind (io_map_err io_error (fs_read p)) (\<lambda>b.
                 io_bind (io_map_err io_error (attempt (\<lambda>d. (Ok (of_nat (length b)), d)) untouched)) (\<lambda>n.
                 if n \<noteq> art_size r
                 then io_fail (domain_error_new IoError ''artifact bytes do not match canonical metadata'')
                 else io_return \<lparr>qp_payload = with_mime (art_mime r) (json_object
                          [(''uri'', JString (art_ref r)), (''kind'', JString (kind_token (art_kind r))),
                           (''size'', JInt (uint (art_size r)))]),
                        qp_descriptor = Some (Ok b)\<rparr>))))))"

section \<open>Following the cursors\<close>

definition page_uris :: "json \<Rightarrow> string list" where
  "page_uris payload = (case Option.bind (json_get payload ''resources'') as_array of
     None \<Rightarrow> [] | Some resources \<Rightarrow> List.map_filter (\<lambda>v. get_str v ''uri'') resources)"

text \<open>What a client reads in at most \<open>n\<close> pages from a cursor, and whether a page is left.\<close>

fun follow :: "nat \<Rightarrow> artifact_record list \<Rightarrow> string option \<Rightarrow> string list \<times> bool" where
  "follow 0 found cursor = ([], True)"
| "follow (Suc n) found cursor =
     (let payload = list_page found cursor
      in case get_str payload ''next_cursor'' of
           None \<Rightarrow> (page_uris payload, False)
         | Some c \<Rightarrow> (case follow n found (Some c) of (uris, unfinished) \<Rightarrow> (page_uris payload @ uris, unfinished)))"

lemma cursor_roundtrip:
  "from_utf8 r \<Longrightarrow> mcp_resource_cursor_ref (mcp_resource_cursor r) = Some r"
  by (simp add: mcp_resource_cursor_ref_def mcp_resource_cursor_def base64_roundtrip)

lemma listed_uri: "get_str (listed_resource r) ''uri'' = Some (art_ref r)"
  by (simp add: get_str_def listed_resource_def with_mime_def split: option.split)

lemma uris_listed: "List.map_filter (\<lambda>v. get_str v ''uri'') (map listed_resource rs) = map art_ref rs"
  by (induction rs) (simp_all add: List.map_filter_simps listed_uri)

lemma page_uris_from:
  assumes "page_start found cursor = Some start"
  shows "page_uris (list_page found cursor) = map art_ref (take MCP_RESOURCE_PAGE_SIZE (drop start found))"
  using assms by (simp add: page_uris_def list_page_def Let_def uris_listed)

lemma next_cursor_from:
  assumes "page_start found cursor = Some start"
  shows "get_str (list_page found cursor) ''next_cursor'' =
    (if start + MCP_RESOURCE_PAGE_SIZE < length found
     then Some (mcp_resource_cursor (art_ref (found ! (start + MCP_RESOURCE_PAGE_SIZE - 1)))) else None)"
proof (cases "start + MCP_RESOURCE_PAGE_SIZE < length found")
  case True
  let ?page = "take MCP_RESOURCE_PAGE_SIZE (drop start found)"
  have "length ?page = MCP_RESOURCE_PAGE_SIZE" using True by simp
  then have "?page \<noteq> []" "last ?page = found ! (start + MCP_RESOURCE_PAGE_SIZE - 1)"
    using True by (auto simp: last_conv_nth add.commute)
  then show ?thesis using assms True by (simp add: list_page_def Let_def get_str_def)
next
  case False
  then show ?thesis using assms by (simp add: list_page_def Let_def get_str_def)
qed

lemma position_nth:
  assumes "distinct (map f xs)" and "i < length xs"
  shows "position (\<lambda>x. f x = f (xs ! i)) xs = Some i"
proof -
  have "f (xs ! j) = f (xs ! i) \<longleftrightarrow> j = i" if "j < length xs" for j
    using nth_eq_iff_index_eq[OF assms(1), of j i] that assms(2) by simp
  then show ?thesis using assms(2) by (auto simp: position_Some_iff)
qed

lemma follow_from:
  assumes refs: "distinct (map art_ref found)" "\<And>r. r \<in> set found \<Longrightarrow> from_utf8 (art_ref r)"
  shows "page_start found cursor = Some start \<Longrightarrow> length found \<le> start + n * MCP_RESOURCE_PAGE_SIZE \<Longrightarrow> 0 < n
    \<Longrightarrow> follow n found cursor = (map art_ref (drop start found), False)"
proof (induction n arbitrary: cursor start)
  case 0
  then show ?case by simp
next
  case (Suc n)
  show ?case
  proof (cases "start + MCP_RESOURCE_PAGE_SIZE < length found")
    case True
    let ?c = "mcp_resource_cursor (art_ref (found ! (start + MCP_RESOURCE_PAGE_SIZE - 1)))"
    have "page_start found (Some ?c) = Some (start + MCP_RESOURCE_PAGE_SIZE)"
      using True refs by (simp add: page_start_def cursor_roundtrip position_nth)
    moreover have "length found \<le> (start + MCP_RESOURCE_PAGE_SIZE) + n * MCP_RESOURCE_PAGE_SIZE" "0 < n"
      using Suc.prems(2) True by (cases n, simp_all)
    ultimately have "follow n found (Some ?c) = (map art_ref (drop (start + MCP_RESOURCE_PAGE_SIZE) found), False)"
      by (rule Suc.IH)
    moreover have "drop start found
        = take MCP_RESOURCE_PAGE_SIZE (drop start found) @ drop (start + MCP_RESOURCE_PAGE_SIZE) found"
      using append_take_drop_id[of MCP_RESOURCE_PAGE_SIZE "drop start found"] by (simp add: add.commute)
    then have "map art_ref (take MCP_RESOURCE_PAGE_SIZE (drop start found))
        @ map art_ref (drop (start + MCP_RESOURCE_PAGE_SIZE) found) = map art_ref (drop start found)"
      by (metis map_append)
    ultimately show ?thesis
      using Suc.prems(1) True by (simp add: next_cursor_from page_uris_from Let_def)
  next
    case False
    then show ?thesis
      using Suc.prems(1) by (simp add: next_cursor_from page_uris_from Let_def)
  qed
qed

text \<open>
  C19: A client that lists the artifacts and follows each page's cursor reads the reference of every live
  artifact exactly once, newest first, and comes to a last page; a manifest of 1,024 records takes at
  most six pages.
\<close>

theorem resource_pages_complete:
  assumes "distinct (map art_ref manifest)" and "list_all (\<lambda>r. from_utf8 (art_ref r)) manifest"
    and "length manifest \<le> MAX_ARTIFACT_RECORDS"
  shows "follow 6 (live_artifacts c manifest now_ms) None = (map art_ref (live_artifacts c manifest now_ms), False)
    \<and> set (live_artifacts c manifest now_ms) = {r \<in> set manifest. resource_kind (art_kind r)
        \<and> (case timestamp_ms c (art_expires_at r) of None \<Rightarrow> False | Some expires_at \<Rightarrow> expires_at > now_ms)}
    \<and> distinct (map art_ref (live_artifacts c manifest now_ms))
    \<and> sorted (rev (map (\<lambda>r. (art_created_at r, art_ref r)) (live_artifacts c manifest now_ms)))"
proof -
  let ?found = "live_artifacts c manifest now_ms"
  have "distinct (map art_ref ?found)"
    using assms(1) by (simp add: live_artifacts_def sort_desc_def rev_map[symmetric] distinct_map_filter
        distinct_map inj_on_def)
  moreover have "from_utf8 (art_ref r)" if "r \<in> set ?found" for r
    using that assms(2) by (auto simp: live_artifacts_def list_all_iff)
  moreover have "length ?found \<le> 0 + 6 * MCP_RESOURCE_PAGE_SIZE"
    using le_trans[OF length_filter_le assms(3)] by (simp add: live_artifacts_def le_trans[of _ MAX_ARTIFACT_RECORDS])
  ultimately have "follow 6 ?found None = (map art_ref (drop 0 ?found), False)" "distinct (map art_ref ?found)"
    using follow_from[of ?found None 0 6] by (simp_all add: page_start_def)
  then show ?thesis
    using sorted_sort_desc[of "\<lambda>r. (art_created_at r, art_ref r)"] by (auto simp: live_artifacts_def)
qed

end
