(* ===== verification/Mcp_Samples.thy ===== *)
theory Mcp_Samples
  imports Mcp_Properties Artifact_Query
begin

text \<open>
  One request to the MCP facade that the witnesses evaluate: a local caller with the accepted token,
  calling the context tool, with an action or without.
\<close>

definition sample_params :: "json_map \<Rightarrow> json_map" where
  "sample_params arguments =
     [(''_meta'', JObject [(META_CLIENT_CAPABILITIES, JObject []),
        (META_REQUEST_ID, JString ''r''), (META_PROTOCOL_VERSION, JString MCP_PROTOCOL_VERSION)]),
      (''arguments'', JObject arguments), (''name'', JString ''context'')]"

definition sample_object :: "json_map \<Rightarrow> json_map" where
  "sample_object arguments =
     [(''id'', JInt 1), (''jsonrpc'', JString ''2.0''), (''method'', JString ''tools/call''),
      (''params'', JObject (sample_params arguments))]"

text \<open>The codec reads one body with an action and one without.\<close>

definition status_arguments :: json_map where
  "status_arguments = [(''action'', JString ''status''), (''input'', JObject [])]"

definition sample_mcp_codec :: mcp_codec where
  "sample_mcp_codec = \<lparr>mc_decode = (\<lambda>b. if b = ''with'' then Some (JObject (sample_object status_arguments))
       else if b = ''without'' then Some (JObject (sample_object [(''input'', JObject [])])) else None),
     mc_encode = (\<lambda>_. Some ''{}''), mc_payload = (\<lambda>_. True),
     mc_texts = \<lparr>af_instant = (\<lambda>_. None), af_uuid = (\<lambda>t. Some (4, t))\<rparr>\<rparr>"

definition sample_facade :: mcp_facade where
  "sample_facade = \<lparr>mf_port = 8765, mf_version = ''0'', mf_tools = JArray [], mf_codec = sample_mcp_codec\<rparr>"

text \<open>A host that counts what it is asked.\<close>

definition counting_host :: "nat mcp_host" where
  "counting_host = \<lparr>mh_submit = (\<lambda>n _. (err IoError ''no Runtime'', Suc n)),
     mh_query = (\<lambda>n _. (err IoError ''no Runtime'', Suc n))\<rparr>"

definition sample_request_of :: "string \<Rightarrow> mcp_request" where
  "sample_request_of body = \<lparr>mq_method = ''POST'', mq_headers =
     [(''host'', ''127.0.0.1:8765''), (''authorization'', ''Bearer t''), (''content-type'', ''application/json''),
      (''accept'', ''application/json, text/event-stream''), (''mcp-protocol-version'', MCP_PROTOCOL_VERSION),
      (''mcp-method'', ''tools/call''), (''mcp-name'', ''context'')], mq_body = body\<rparr>"

lemma sample_encodes: "encodes sample_facade"
  by (simp add: encodes_def sample_facade_def sample_mcp_codec_def)

lemma sample_ordered: "ordered_params (mf_codec sample_facade)"
  by (auto simp: ordered_params_def sample_facade_def sample_mcp_codec_def sample_object_def bt_get_def sample_params_def
      split: if_splits)

lemma sample_header:
  "header_values (sample_request_of body) ''host'' = [''127.0.0.1:8765'']"
  "header_values (sample_request_of body) ''authorization'' = [''Bearer t'']"
  "header_values (sample_request_of body) ''content-type'' = [''application/json'']"
  "header_values (sample_request_of body) ''accept'' = [''application/json, text/event-stream'']"
  "header_values (sample_request_of body) ''mcp-protocol-version'' = [MCP_PROTOCOL_VERSION]"
  "header_values (sample_request_of body) ''mcp-method'' = [''tools/call'']"
  "header_values (sample_request_of body) ''mcp-name'' = [''context'']"
  "header_values (sample_request_of body) ''origin'' = []"
  by (simp_all add: header_values_def sample_request_of_def eq_ignore_ascii_case_def to_ascii_lowercase_def to_lower_def
      is_ascii_uppercase_def less_eq_char_def)

lemmas sample_texts = eq_ignore_ascii_case_def to_ascii_lowercase_def to_lower_def is_ascii_uppercase_def
  less_eq_char_def

lemma sample_rsplit: "rsplit_once '':'' ''127.0.0.1:8765'' = Some (''127.0.0.1'', ''8765'')"
  by (simp add: rsplit_once_def starts_with_def upt_rec numeral_eq_Suc)

lemma sample_port: "decimal_text 8765 = ''8765''"
  by (simp add: decimal_text.simps digit_char_def char_of_def bit_Suc_0_iff)

lemma sample_trims: "trim ''application/json'' = ''application/json''"
  "trim '' text/event-stream'' = ''text/event-stream''"
  by (simp_all add: trim_def white_space_def trim_start.simps starts_with_def)

lemma sample_local: "local_caller sample_facade (sample_request_of body) ''t''"
  by (simp add: local_caller_def host_is_endpoint_def origin_is_loopback_def single_header_def sample_header
      sample_rsplit sample_port sample_facade_def loopback_name_def sample_texts) (simp add: sample_request_of_def)

lemma sample_transport:
  "content_type_is_json (sample_request_of body)" "accept_is_acceptable (sample_request_of body)"
  by (simp_all add: content_type_is_json_def accept_is_acceptable_def single_header_def sample_header sample_trims
      sample_texts)

lemma sample_keys:
  "bt_get (sample_params arguments) ''name'' = Some (JString ''context'')"
  "bt_get (sample_params arguments) ''arguments'' = Some (JObject arguments)"
  "length (sample_params arguments) = 3" "only_keys (sample_params arguments) [''name'', ''arguments'', ''_meta'']"
  by (simp_all add: sample_params_def bt_get_def only_keys_def)

lemma sample_name: "decode_name_header ''context'' = Some ''context''"
  by (simp add: decode_name_header_def strip_prefix_def starts_with_def)

lemma mcp_sample_validated:
  "validate_metadata_headers c (sample_request_of body) ident ''tools/call'' (sample_params arguments) = Ok ()"
proof -
  have "check_version c (sample_request_of body) ident = Ok ()"
    by (simp add: check_version_def single_header_def sample_header)
  moreover have "check_name c (sample_request_of body) ident ''tools/call'' (sample_params arguments) = Ok True"
    by (simp add: check_name_def single_header_def sample_header sample_name sample_keys)
  moreover have "check_meta c ident (sample_params arguments) = Ok ()"
    by (simp add: check_meta_def sample_params_def bt_get_def)
  ultimately show ?thesis by (simp add: validate_metadata_headers_def)
qed

lemma sample_protocol:
  "protocol_call sample_facade (sample_request_of ''without'') (JInt 1) ''tools/call'' (sample_params [(''input'', JObject [])])"
  "protocol_call sample_facade (sample_request_of ''with'') (JInt 1) ''tools/call'' (sample_params status_arguments)"
  unfolding protocol_call_def
  by (simp_all add: sample_transport mcp_sample_validated)
    (simp_all add: sample_facade_def sample_mcp_codec_def sample_request_of_def sample_object_def bt_get_def
      rpc_id_def bt_contains_def)

lemma sample_actionless: "actionless (sample_params [(''input'', JObject [])])"
  by (simp add: actionless_def sample_keys MCP_TOOL_NAMES_def)
    (simp add: only_keys_def bt_contains_def bt_get_def)

theorem actionless_call_unanswered_witness:
  "fst (facade_handle sample_facade counting_host (Ok (UuidV4 ''r'')) (sample_request_of ''without'') ''t'' 0) = None"
  using actionless_call_unanswered[OF sample_encodes sample_ordered,
      of counting_host "Ok (UuidV4 ''r'')" "sample_request_of ''without''" "''t''" 0]
    sample_local sample_protocol(1) sample_actionless
  by blast

abbreviation sample_meta :: json where
  "sample_meta \<equiv> JObject [(META_CLIENT_CAPABILITIES, JObject []), (META_REQUEST_ID, JString ''r''),
     (META_PROTOCOL_VERSION, JString MCP_PROTOCOL_VERSION)]"

lemma sample_call:
  "call_tool sample_facade h minted ident (sample_params status_arguments) s
    = call_action sample_facade h minted ident ''context'' status_arguments (JString ''status'') sample_meta s"
proof -
  have "bt_get (sample_params status_arguments) ''_meta'' = Some sample_meta"
    by (simp add: sample_params_def bt_get_def)
  moreover have "only_keys status_arguments [''action'', ''input'']"
    "bt_get status_arguments ''action'' = Some (JString ''status'')" "''context'' \<in> set MCP_TOOL_NAMES"
    by (simp_all add: status_arguments_def only_keys_def bt_get_def MCP_TOOL_NAMES_def)
  ultimately show ?thesis by (simp add: call_tool_def sample_keys Let_def)
qed

lemma sample_asked:
  "snd (facade_handle sample_facade counting_host (Ok (UuidV4 ''r'')) (sample_request_of ''with'') ''t'' 0) = 1"
proof -
  have "call_request_id sample_facade (JInt 1) operation sample_meta minted = Ok (UuidV4 ''r'')" for operation minted
    by (simp add: call_request_id_def json_get_def bt_get_def uuid_parse_def sample_facade_def sample_mcp_codec_def)
  moreover have "focused_input_names_observation ''context'' status_arguments"
    by (simp add: focused_input_names_observation_def)
  moreover have "mc_payload (mf_codec sample_facade) v" "mc_encode (mf_codec sample_facade) v = Some ''{}''" for v
    by (simp_all add: sample_facade_def sample_mcp_codec_def)
  ultimately have "snd (call_action sample_facade counting_host (Ok (UuidV4 ''r'')) (JInt 1) ''context''
      status_arguments (JString ''status'') sample_meta 0) = 1"
    by (simp add: call_action_def submit_call_def Let_def) (simp add: counting_host_def)
  then show ?thesis
    by (simp add: protocol_call_dispatched[OF sample_local sample_protocol(2)] dispatch_def sample_call)
qed


section \<open>Pages and schemas\<close>

definition plain_record :: "string \<Rightarrow> artifact_record" where
  "plain_record r = \<lparr>art_ref = r, art_kind = KindData, art_size = 1, art_created_at = ''c'', art_expires_at = ''e'',
     art_sha256 = None, art_mime = None, art_task_id = None, art_request_id = None\<rparr>"

definition sample_instants :: text_codec where
  "sample_instants = \<lparr>af_instant = (\<lambda>t. Some (t, 5)), af_uuid = (\<lambda>_. None)\<rparr>"

lemma sample_found:
  "live_artifacts sample_instants [plain_record ''a'', plain_record ''b''] 1 = [plain_record ''b'', plain_record ''a'']"
  by (simp add: live_artifacts_def sort_desc_def resource_kind_def plain_record_def timestamp_ms_def
      sample_instants_def less_eq_char_def less_char_def)

theorem resource_pages_complete_witness:
  "follow 6 (live_artifacts sample_instants [plain_record ''a'', plain_record ''b''] 1) None = ([''b'', ''a''], False)"
proof -
  have "distinct (map art_ref [plain_record ''a'', plain_record ''b''])"
    "list_all (\<lambda>r. from_utf8 (art_ref r)) [plain_record ''a'', plain_record ''b'']"
    by (simp_all add: plain_record_def from_utf8_def)
  from resource_pages_complete[OF this, of sample_instants 1] show ?thesis
    by (simp add: sample_found) (simp add: plain_record_def)
qed

definition sample_definitions :: json_map where
  "sample_definitions = [(''A'', JObject [(''$ref'', JString ''#/$defs/B'')]), (''B'', JObject []), (''C'', JNull)]"

definition sample_schema :: json_map where
  "sample_schema = [(''$ref'', JString ''#/$defs/A'')]"

lemma mcp_sample_reachable:
  "reachable_schema_definitions sample_schema sample_definitions
    = Ok [(''A'', JObject [(''$ref'', JString ''#/$defs/B'')]), (''B'', JObject [])]"
  by (simp add: reachable_schema_definitions_def sample_schema_def sample_definitions_def definition_name_def
      strip_prefix_def starts_with_def ordered_set_def reach.simps bt_contains_def bt_get_def less_char_def)

lemma schema_definitions_closed_witness:
  "reaches sample_definitions (JObject sample_schema) ''B''
    \<and> \<not> reaches sample_definitions (JObject sample_schema) ''C''"
  using schema_definitions_closed[OF mcp_sample_reachable, of "''B''"]
    schema_definitions_closed[OF mcp_sample_reachable, of "''C''"]
  by (simp add: bt_contains_def bt_get_def)

end
