(* ===== verification/Guard_Recovery.thy ===== *)
theory Guard_Recovery
  imports Store_Files Text_Ops "HOL-Library.Option_ord"
begin

text \<open>
  The recovery of guarded executions (\<open>rust/crates/persistence/src/recovery.rs\<close>): every shell execution
  runs under a guard process that writes a proof file of length-prefixed frames, its identity, the
  process it started and its clean end. A new Runtime instance reads the proofs other instances left,
  decides for each execution whether its guard ended clean, still lives or is unverified, and plans the
  settlement. The JSON of the frames (serde) is a parameter, as are the processes of the system and,
  for the wait, the clock.
\<close>

section \<open>Frames\<close>

abbreviation GUARD_PROOF_LIMIT_BYTES :: nat where "GUARD_PROOF_LIMIT_BYTES \<equiv> 4096"
abbreviation GUARD_FRAME_LIMIT_BYTES :: nat where "GUARD_FRAME_LIMIT_BYTES \<equiv> 2048"
abbreviation GUARD_PROOF_COUNT_LIMIT :: nat where "GUARD_PROOF_COUNT_LIMIT \<equiv> 384"
abbreviation GUARD_PROOF_TOTAL_LIMIT_BYTES :: u64 where "GUARD_PROOF_TOTAL_LIMIT_BYTES \<equiv> 1572864"
abbreviation GUARD_RECOVERY_WAIT_MILLIS :: nat where "GUARD_RECOVERY_WAIT_MILLIS \<equiv> 5000"
abbreviation GUARD_RECOVERY_POLL_MILLIS :: nat where "GUARD_RECOVERY_POLL_MILLIS \<equiv> 20"

text \<open>\<open>u32::to_be_bytes\<close> and \<open>u32::from_be_bytes\<close>\<close>

definition to_be_bytes :: "u32 \<Rightarrow> bytes" where
  "to_be_bytes n = map (\<lambda>k. char_of (unat n div 256 ^ k)) [3, 2, 1, 0]"

definition from_be_bytes :: "bytes \<Rightarrow> u32" where
  "from_be_bytes b = of_nat (foldl (\<lambda>acc c. acc * 256 + of_char c) 0 b)"

definition encode_guard_frame :: "'v file_codec \<Rightarrow> 'v \<Rightarrow> bytes res" where
  "encode_guard_frame codec value =
     rbind (ok_or (fc_encode codec value) (domain_error_new InternalError ''guard frame encoding failed''))
       (\<lambda>payload.
     if payload = [] \<or> length payload > GUARD_FRAME_LIMIT_BYTES
     then err ResourceLimit ''guard frame is outside its byte limit''
     else Ok (to_be_bytes (of_nat (length payload)) @ payload))"

function decode_frames :: "bytes \<Rightarrow> bytes list option" where
  "decode_frames b =
     (if b = [] then Some []
      else if length b < 4 then None
      else let len = unat (from_be_bytes (take 4 b)); rest = drop 4 b
           in if len = 0 \<or> len > GUARD_FRAME_LIMIT_BYTES \<or> length rest < len
                \<or> \<not> from_utf8 (take len rest) then None
              else map_option ((#) (take len rest)) (decode_frames (drop len rest)))"
  by pat_completeness auto

termination
  by (relation "measure length") auto

declare decode_frames.simps [simp del]

section \<open>What a guard writes\<close>

record guard_identity =
  gi_runtime_epoch :: uuid
  gi_runtime_instance_id :: uuid
  gi_execution_id :: execution_id
  gi_boot_id :: uuid

record guard_started =
  gs_pid :: u32
  gs_start_ticks :: u64

datatype guard_clean_cause = CauseExited | CauseCancelled | CauseTimeout | CauseOwnerLost

record guard_clean =
  gc_shell_exit_code :: "i32 option"
  gc_cause :: guard_clean_cause

datatype guard_recovery = GuardIsClean "guard_clean option" | GuardIsLive u32 u64 | GuardIsUnverified

fun is_clean :: "guard_recovery \<Rightarrow> bool" where
  "is_clean (GuardIsClean _) = True"
| "is_clean _ = False"

fun is_live :: "guard_recovery \<Rightarrow> bool" where
  "is_live (GuardIsLive _ _) = True"
| "is_live _ = False"

record guard_codec =
  gk_identity :: "guard_identity file_codec"
  gk_started :: "guard_started file_codec"
  gk_clean :: "guard_clean file_codec"

text \<open>\<open>ProcessFacts::is_same_process\<close>\<close>

type_synonym process_facts = "u32 \<Rightarrow> u64 \<Rightarrow> bool res"

definition proof_identity :: "guard_codec \<Rightarrow> bytes \<Rightarrow> guard_identity option" where
  "proof_identity k b =
     (if length b > GUARD_PROOF_LIMIT_BYTES then None
      else case decode_frames b of
        Some (identity # _) \<Rightarrow> fc_decode (gk_identity k) identity
      | _ \<Rightarrow> None)"

definition classify_frames ::
  "guard_codec \<Rightarrow> process_facts \<Rightarrow> uuid \<Rightarrow> guard_identity \<Rightarrow> bytes \<Rightarrow> bytes \<Rightarrow> bytes option \<Rightarrow> guard_recovery res" where
  "classify_frames k facts containing expected first_frame second_frame third_frame =
     (case fc_decode (gk_identity k) first_frame of
        None \<Rightarrow> Ok GuardIsUnverified
      | Some identity \<Rightarrow>
          if identity \<noteq> expected \<or> gi_boot_id identity \<noteq> containing then Ok GuardIsUnverified
          else (case fc_decode (gk_started k) second_frame of
            None \<Rightarrow> Ok GuardIsUnverified
          | Some started \<Rightarrow> (case third_frame of
              Some frame \<Rightarrow> (case fc_decode (gk_clean k) frame of
                  None \<Rightarrow> Ok GuardIsUnverified
                | Some clean \<Rightarrow> Ok (GuardIsClean (Some clean)))
            | None \<Rightarrow> rbind (facts (gs_pid started) (gs_start_ticks started)) (\<lambda>same.
                Ok (if same then GuardIsLive (gs_pid started) (gs_start_ticks started)
                    else GuardIsUnverified)))))"

definition classify_guard_proof ::
  "text_codec \<Rightarrow> guard_codec \<Rightarrow> process_facts \<Rightarrow> string \<Rightarrow> uuid \<Rightarrow> guard_identity \<Rightarrow> bytes \<Rightarrow> guard_recovery res" where
  "classify_guard_proof c k facts containing_boot_id current_boot_id expected b =
     rbind (map_err (\<lambda>_. domain_error_new IoError ''guard boot directory is corrupt'')
              (uuid_parse c containing_boot_id)) (\<lambda>containing.
     if containing \<noteq> current_boot_id then Ok (GuardIsClean None)
     else if length b > GUARD_PROOF_LIMIT_BYTES then Ok GuardIsUnverified
     else case decode_frames b of
         Some [identity, started] \<Rightarrow> classify_frames k facts containing expected identity started None
       | Some [identity, started, clean] \<Rightarrow>
           classify_frames k facts containing expected identity started (Some clean)
       | _ \<Rightarrow> Ok GuardIsUnverified)"

section \<open>The directory of proofs\<close>

record guard_proof_record =
  gp_containing_boot_id :: uuid
  gp_execution_id :: execution_id
  gp_bytes :: bytes

definition guard_root :: path where
  "guard_root = [''execution-guards'']"

text \<open>\<open>fs::metadata\<close>: whether the entry is a regular file, and its length.\<close>

definition fs_metadata :: "path \<Rightarrow> (os_error, bool \<times> nat) io" where
  "fs_metadata p = attempt (\<lambda>d. (case entry_at d p of
      None \<Rightarrow> Err ENOENT
    | Some DirEntry \<Rightarrow> Ok (False, 0)
    | Some (FileEntry i) \<Rightarrow> Ok (True, length (inode_bytes d i)), d)) untouched"

definition over_limit :: bytes where
  "over_limit = replicate (GUARD_PROOF_LIMIT_BYTES + 1) (CHR 0x00)"

definition read_proof :: "uuid \<Rightarrow> execution_id \<Rightarrow> (domain_error, bytes option) io" where
  "read_proof boot_id execution_id =
     (let p = guard_root @ [as_str boot_id, as_str execution_id @ ''.proof'']
      in io_match (fs_metadata p) (\<lambda>r. case r of
           Inl e \<Rightarrow> if e = ENOENT then io_return None else io_fail (io_error e)
         | Inr (regular, len) \<Rightarrow>
             if \<not> regular then io_fail (domain_error_new IoError ''guard proof path is not a regular file'')
             else if len > GUARD_PROOF_LIMIT_BYTES then io_return (Some over_limit)
             else io_bind (io_map_err io_error (fs_read p)) (\<lambda>b. io_return (Some b))))"

definition corrupt_boot :: domain_error where
  "corrupt_boot = domain_error_new IoError ''guard boot directory is corrupt''"

definition corrupt_name :: domain_error where
  "corrupt_name = domain_error_new IoError ''guard proof name is corrupt''"

definition named_uuid :: "text_codec \<Rightarrow> domain_error \<Rightarrow> string \<Rightarrow> uuid res" where
  "named_uuid c e name = (if from_utf8 name then map_err (\<lambda>_. e) (uuid_parse c name) else Err e)"

definition proof_name :: "text_codec \<Rightarrow> string \<Rightarrow> uuid res" where
  "proof_name c name =
     (if from_utf8 name
      then rbind (ok_or (strip_suffix ''.proof'' name) corrupt_name) (\<lambda>execution_name.
        map_err (\<lambda>_. corrupt_name) (uuid_parse c execution_name))
      else Err corrupt_name)"

text \<open>The records found so far, with the sum of the lengths of their files.\<close>

fun list_boot_proofs ::
  "text_codec \<Rightarrow> uuid \<Rightarrow> entries \<Rightarrow> guard_proof_record list \<times> u64 \<Rightarrow>
   (domain_error, guard_proof_record list \<times> u64) io" where
  "list_boot_proofs c boot [] found = io_return found"
| "list_boot_proofs c boot ((p, kind) # rest) (records, total_bytes) =
     (if kind = DirEntry
      then io_fail (domain_error_new IoError ''guard proof directory contains a non-file entry'')
      else io_bind (io_of (proof_name c (last p))) (\<lambda>execution_id.
        io_bind (io_map_err io_error (fs_metadata p)) (\<lambda>(regular, len).
        io_bind (io_of (ok_or (checked_add total_bytes (of_nat len))
            (domain_error_new IoError ''guard proof byte count overflow''))) (\<lambda>total_bytes.
        if length records \<ge> GUARD_PROOF_COUNT_LIMIT \<or> total_bytes > GUARD_PROOF_TOTAL_LIMIT_BYTES
        then io_fail (domain_error_new ResourceLimit ''guard proof storage exceeds its recovery limit'')
        else io_bind (if len > GUARD_PROOF_LIMIT_BYTES then io_return over_limit
                      else io_map_err io_error (fs_read p)) (\<lambda>b.
          list_boot_proofs c boot rest
            (records @ [\<lparr>gp_containing_boot_id = boot, gp_execution_id = execution_id, gp_bytes = b\<rparr>],
             total_bytes))))))"

fun list_boots ::
  "text_codec \<Rightarrow> entries \<Rightarrow> guard_proof_record list \<times> u64 \<Rightarrow>
   (domain_error, guard_proof_record list \<times> u64) io" where
  "list_boots c [] found = io_return found"
| "list_boots c ((p, kind) # rest) found =
     (if kind \<noteq> DirEntry
      then io_fail (domain_error_new IoError ''guard proof root contains a non-directory entry'')
      else io_bind (io_of (named_uuid c corrupt_boot (last p))) (\<lambda>boot.
        io_bind (io_map_err io_error (fs_read_dir p)) (\<lambda>proofs.
        io_bind (list_boot_proofs c boot proofs found) (list_boots c rest))))"

definition list_proofs :: "text_codec \<Rightarrow> (domain_error, guard_proof_record list) io" where
  "list_proofs c = io_match (fs_read_dir guard_root) (\<lambda>r. case r of
       Inl e \<Rightarrow> if e = ENOENT then io_return [] else io_fail (io_error e)
     | Inr boots \<Rightarrow> io_bind (list_boots c boots ([], 0)) (\<lambda>(records, total_bytes).
         io_return (sort_key (\<lambda>r. (as_str (gp_containing_boot_id r), as_str (gp_execution_id r))) records)))"

section \<open>The recovery plan\<close>

datatype guard_cleanup_requirement = NoGuardAction | AwaitGuardExit | Quarantine
datatype guard_settlement_disposition = SettleNone | InterruptTask | InterruptSynchronous
datatype guard_finalization_disposition =
  FinalizeBlocked | RemoveProof | CleanupTaskTemporaryAndRemoveProof

record clean_guard_record =
  cg_task_id :: "task_id option"
  cg_execution_id :: execution_id
  cg_containing_boot_id :: "uuid option"
  cg_runtime_instance_id :: "uuid option"
  cg_recovery :: guard_recovery
  cg_required_cleanup :: guard_cleanup_requirement
  cg_settlement :: guard_settlement_disposition
  cg_finalization :: guard_finalization_disposition

record guard_recovery_plan =
  gpl_prior_runtime_instance_ids :: "uuid list"
  gpl_records :: "clean_guard_record list"

definition guards_are_clean :: "guard_recovery_plan \<Rightarrow> bool" where
  "guards_are_clean plan \<longleftrightarrow> list_all (\<lambda>r. is_clean (cg_recovery r)) (gpl_records plan)"

definition has_live_guard :: "guard_recovery_plan \<Rightarrow> bool" where
  "has_live_guard plan \<longleftrightarrow> list_ex (\<lambda>r. is_live (cg_recovery r)) (gpl_records plan)"

definition may_settle :: "guard_recovery_plan \<Rightarrow> bool" where
  "may_settle plan \<longleftrightarrow>
     list_all (\<lambda>r. is_clean (cg_recovery r) \<or> is_live (cg_recovery r)) (gpl_records plan)"

definition stored_task_fence :: "('p, 'r) stored_task \<Rightarrow> fence option" where
  "stored_task_fence t =
     (case st_executor t of Some x \<Rightarrow> Some (er_fence x) | None \<Rightarrow> map_option snd (st_automation_owner t))"

text \<open>\<open>task_fence\<close> unwraps: recovery checks that every Task has a fence before it reads one.\<close>

definition task_fence :: "('p, 'r) stored_task \<Rightarrow> fence" where
  "task_fence t = the (stored_task_fence t)"

definition synchronous_executions ::
  "('p, 'r, 'j) canonical_state \<Rightarrow> ('p, 'j) stored_synchronous_execution list" where
  "synchronous_executions s = List.map_filter qr_synchronous_execution (cn_request_records s)"

definition duplicate_execution_identity :: domain_error where
  "duplicate_execution_identity = domain_error_new IoError ''duplicate persisted execution identity''"

definition ensure_unique_persisted_execution_ids :: "('p, 'r, 'j) canonical_state \<Rightarrow> unit res" where
  "ensure_unique_persisted_execution_ids s =
     guard_err (\<not> distinct (map st_execution_id (cn_tasks s)
         @ map ssx_execution_id (synchronous_executions s))) duplicate_execution_identity"

fun is_non_terminal_task :: "task_state \<Rightarrow> bool" where
  "is_non_terminal_task state = (state \<in> {TaskCreated, TaskQueued, TaskRunning})"

fun cleanup_requirement :: "guard_recovery \<Rightarrow> guard_cleanup_requirement" where
  "cleanup_requirement (GuardIsClean _) = NoGuardAction"
| "cleanup_requirement (GuardIsLive _ _) = AwaitGuardExit"
| "cleanup_requirement GuardIsUnverified = Quarantine"

definition settlement_of ::
  "('p, 'r) stored_task option \<Rightarrow> ('p, 'j) stored_synchronous_execution option \<Rightarrow>
   guard_settlement_disposition" where
  "settlement_of task synchronous =
     (if (case task of Some t \<Rightarrow> is_non_terminal_task (st_state t) | None \<Rightarrow> False) then InterruptTask
      else if (case synchronous of Some x \<Rightarrow> ssx_state x = SyncRunning | None \<Rightarrow> False)
      then InterruptSynchronous else SettleNone)"

definition finalization_disposition ::
  "('p, 'r) stored_task option \<Rightarrow> guard_recovery \<Rightarrow> bool \<Rightarrow> guard_finalization_disposition" where
  "finalization_disposition task recovery proof_exists =
     (if \<not> proof_exists \<or> \<not> is_clean recovery then FinalizeBlocked
      else if task \<noteq> None then CleanupTaskTemporaryAndRemoveProof else RemoveProof)"

definition sync_fence :: "('p, 'j) stored_synchronous_execution \<Rightarrow> fence" where
  "sync_fence x = er_fence (ssx_executor x)"

definition prior_runtime_instances :: "('p, 'r, 'j) canonical_state \<Rightarrow> uuid \<Rightarrow> uuid list" where
  "prior_runtime_instances s current_instance_id =
     remdups_adj (sort_key as_str
       (map (\<lambda>t. fence_runtime_instance_id (task_fence t))
          (filter (\<lambda>t. is_non_terminal_task (st_state t)
             \<and> fence_runtime_instance_id (task_fence t) \<noteq> current_instance_id) (cn_tasks s))
        @ map (\<lambda>x. fence_runtime_instance_id (sync_fence x))
          (filter (\<lambda>x. ssx_state x = SyncRunning
             \<and> fence_runtime_instance_id (sync_fence x) \<noteq> current_instance_id)
             (synchronous_executions s))))"

text \<open>What stays the same over one plan: the instance that recovers, its boot, and the parameters.\<close>

record guard_env =
  ge_texts :: text_codec
  ge_codec :: guard_codec
  ge_facts :: process_facts
  ge_instance_id :: uuid
  ge_boot_id :: uuid

definition fence_identity :: "fence \<Rightarrow> execution_id \<Rightarrow> uuid \<Rightarrow> guard_identity" where
  "fence_identity f execution_id boot_id =
     \<lparr>gi_runtime_epoch = fence_runtime_epoch f, gi_runtime_instance_id = fence_runtime_instance_id f,
      gi_execution_id = execution_id, gi_boot_id = boot_id\<rparr>"

definition is_current :: "guard_env \<Rightarrow> fence \<Rightarrow> bool" where
  "is_current e f \<longleftrightarrow> fence_runtime_instance_id f = ge_instance_id e"

definition proof_task ::
  "('p, 'r, 'j) canonical_state \<Rightarrow> guard_proof_record \<Rightarrow> ('p, 'r) stored_task option" where
  "proof_task s p = List.find (\<lambda>t. st_execution_id t = gp_execution_id p) (cn_tasks s)"

definition proof_synchronous ::
  "('p, 'r, 'j) canonical_state \<Rightarrow> guard_proof_record \<Rightarrow> ('p, 'j) stored_synchronous_execution option" where
  "proof_synchronous s p =
     List.find (\<lambda>x. ssx_execution_id x = gp_execution_id p) (synchronous_executions s)"

text \<open>The fence of the retained execution the proof belongs to.\<close>

definition proof_fence :: "('p, 'r, 'j) canonical_state \<Rightarrow> guard_proof_record \<Rightarrow> fence option" where
  "proof_fence s p =
     (case proof_task s p of Some t \<Rightarrow> Some (task_fence t)
      | None \<Rightarrow> map_option sync_fence (proof_synchronous s p))"

definition proof_is_current :: "guard_env \<Rightarrow> ('p, 'r, 'j) canonical_state \<Rightarrow> guard_proof_record \<Rightarrow> bool" where
  "proof_is_current e s p \<longleftrightarrow>
     (case proof_task s p of Some t \<Rightarrow> is_current e (task_fence t) | None \<Rightarrow> False)
     \<or> (case proof_synchronous s p of Some x \<Rightarrow> is_current e (sync_fence x) | None \<Rightarrow> False)
     \<or> (proof_task s p = None \<and> proof_synchronous s p = None
        \<and> (case proof_identity (ge_codec e) (gp_bytes p) of
             None \<Rightarrow> False
           | Some identity \<Rightarrow> gi_runtime_instance_id identity = ge_instance_id e
               \<and> gi_boot_id identity = ge_boot_id e \<and> gp_containing_boot_id p = ge_boot_id e))"

definition expected_identity ::
  "guard_env \<Rightarrow> ('p, 'r, 'j) canonical_state \<Rightarrow> guard_proof_record \<Rightarrow> guard_identity option" where
  "expected_identity e s p =
     (case proof_fence s p of
        Some f \<Rightarrow> Some (fence_identity f (gp_execution_id p) (gp_containing_boot_id p))
      | None \<Rightarrow> proof_identity (ge_codec e) (gp_bytes p))"

definition proof_recovery ::
  "guard_env \<Rightarrow> ('p, 'r, 'j) canonical_state \<Rightarrow> guard_proof_record \<Rightarrow> guard_recovery res" where
  "proof_recovery e s p =
     (if gp_containing_boot_id p \<noteq> ge_boot_id e then Ok (GuardIsClean None)
      else case expected_identity e s p of
        Some expected \<Rightarrow> classify_guard_proof (ge_texts e) (ge_codec e) (ge_facts e)
          (as_str (gp_containing_boot_id p)) (ge_boot_id e) expected (gp_bytes p)
      | None \<Rightarrow> Ok GuardIsUnverified)"

definition proof_record ::
  "guard_env \<Rightarrow> ('p, 'r, 'j) canonical_state \<Rightarrow> guard_proof_record \<Rightarrow> guard_recovery \<Rightarrow> clean_guard_record" where
  "proof_record e s p recovery =
     \<lparr>cg_task_id = map_option st_task_id (proof_task s p), cg_execution_id = gp_execution_id p,
      cg_containing_boot_id = Some (gp_containing_boot_id p),
      cg_runtime_instance_id = (case proof_fence s p of
          Some f \<Rightarrow> Some (fence_runtime_instance_id f)
        | None \<Rightarrow> map_option gi_runtime_instance_id (proof_identity (ge_codec e) (gp_bytes p))),
      cg_recovery = recovery, cg_required_cleanup = cleanup_requirement recovery,
      cg_settlement = settlement_of (proof_task s p) (proof_synchronous s p),
      cg_finalization = finalization_disposition (proof_task s p) recovery True\<rparr>"

definition unproven_task :: "('p, 'r) stored_task \<Rightarrow> clean_guard_record" where
  "unproven_task t =
     \<lparr>cg_task_id = Some (st_task_id t), cg_execution_id = st_execution_id t, cg_containing_boot_id = None,
      cg_runtime_instance_id = Some (fence_runtime_instance_id (task_fence t)),
      cg_recovery = GuardIsUnverified, cg_required_cleanup = Quarantine,
      cg_settlement = InterruptTask, cg_finalization = FinalizeBlocked\<rparr>"

definition unproven_synchronous :: "('p, 'j) stored_synchronous_execution \<Rightarrow> clean_guard_record" where
  "unproven_synchronous x =
     \<lparr>cg_task_id = None, cg_execution_id = ssx_execution_id x, cg_containing_boot_id = None,
      cg_runtime_instance_id = Some (fence_runtime_instance_id (sync_fence x)),
      cg_recovery = GuardIsUnverified, cg_required_cleanup = Quarantine,
      cg_settlement = InterruptSynchronous, cg_finalization = FinalizeBlocked\<rparr>"

text \<open>The executions of another instance a guard must answer for.\<close>

definition guarded_task :: "guard_env \<Rightarrow> ('p, 'r) stored_task \<Rightarrow> bool" where
  "guarded_task e t \<longleftrightarrow> st_automation_owner t = None \<and> is_non_terminal_task (st_state t)
     \<and> \<not> is_current e (task_fence t)"

definition guarded_synchronous :: "guard_env \<Rightarrow> ('p, 'j) stored_synchronous_execution \<Rightarrow> bool" where
  "guarded_synchronous e x \<longleftrightarrow> ssx_state x = SyncRunning \<and> \<not> is_current e (sync_fence x)"

definition plan_records ::
  "guard_env \<Rightarrow> ('p, 'r, 'j) canonical_state \<Rightarrow> guard_proof_record list \<Rightarrow> clean_guard_record list res" where
  "plan_records e s proofs =
     (let considered = filter (\<lambda>p. \<not> proof_is_current e s p) proofs;
          unproven = (\<lambda>execution_id. execution_id \<notin> gp_execution_id ` set considered)
      in rbind (collect (\<lambda>p. rbind (proof_recovery e s p) (\<lambda>r. Ok (proof_record e s p r))) considered)
        (\<lambda>records. Ok (records
          @ map unproven_task
              (filter (\<lambda>t. guarded_task e t \<and> unproven (st_execution_id t)) (cn_tasks s))
          @ map unproven_synchronous
              (filter (\<lambda>x. guarded_synchronous e x \<and> unproven (ssx_execution_id x))
                (synchronous_executions s)))))"

text \<open>\<open>listing\<close> is what \<open>GuardProofReader::list_proofs\<close> answered.\<close>

definition build_guard_recovery_plan ::
  "guard_env \<Rightarrow> ('p, 'r, 'j) canonical_state \<Rightarrow> guard_proof_record list res \<Rightarrow> guard_recovery_plan res" where
  "build_guard_recovery_plan e s listing =
     rbind (ensure_unique_persisted_execution_ids s) (\<lambda>_.
     if list_ex (\<lambda>t. stored_task_fence t = None) (cn_tasks s)
     then err IoError ''persisted Task has no admission fence''
     else rbind listing (\<lambda>proofs.
       let proofs = sort_key (\<lambda>p. (as_str (gp_execution_id p), as_str (gp_containing_boot_id p))) proofs
       in if \<not> distinct (map gp_execution_id proofs) then Err duplicate_execution_identity
          else rbind (plan_records e s proofs) (\<lambda>records.
            Ok \<lparr>gpl_prior_runtime_instance_ids = prior_runtime_instances s (ge_instance_id e),
                gpl_records = sort_key (\<lambda>r. (as_str (cg_execution_id r),
                  map_option as_str (cg_containing_boot_id r))) records\<rparr>)))"

text \<open>
  The wait: round \<open>n\<close> reads the proofs as \<open>looks n\<close> and the processes as \<open>facts n\<close>, and the clock
  shows \<open>now n\<close> milliseconds since the start. It sleeps \<open>guard_sleep\<close> before the next round.
\<close>

definition guard_sleep :: "nat \<Rightarrow> nat" where
  "guard_sleep now = min (GUARD_RECOVERY_WAIT_MILLIS - now) GUARD_RECOVERY_POLL_MILLIS"

partial_function (option) await_guard_recovery_plan ::
  "guard_env \<Rightarrow> ('p, 'r, 'j) canonical_state \<Rightarrow> (nat \<Rightarrow> guard_proof_record list res) \<Rightarrow>
   (nat \<Rightarrow> process_facts) \<Rightarrow> (nat \<Rightarrow> nat) \<Rightarrow> nat \<Rightarrow> guard_recovery_plan res option" where
  "await_guard_recovery_plan e s looks facts now n =
     (case build_guard_recovery_plan (e\<lparr>ge_facts := facts n\<rparr>) s (looks n) of
        Inl error \<Rightarrow> Some (Err error)
      | Inr plan \<Rightarrow>
          if now n > GUARD_RECOVERY_WAIT_MILLIS then Some (Ok plan)
          else if \<not> has_live_guard plan then Some (Ok plan)
          else await_guard_recovery_plan e s looks facts now (Suc n))"

section \<open>The check before a reset\<close>

fun proofs_all_clean :: "guard_env \<Rightarrow> guard_proof_record list \<Rightarrow> bool res" where
  "proofs_all_clean e [] = Ok True"
| "proofs_all_clean e (p # rest) =
     (if gp_containing_boot_id p \<noteq> ge_boot_id e then proofs_all_clean e rest
      else case proof_identity (ge_codec e) (gp_bytes p) of
        None \<Rightarrow> Ok False
      | Some identity \<Rightarrow>
          if gi_execution_id identity \<noteq> gp_execution_id p
            \<or> gi_boot_id identity \<noteq> gp_containing_boot_id p then Ok False
          else rbind (classify_guard_proof (ge_texts e) (ge_codec e) (ge_facts e)
              (as_str (gp_containing_boot_id p)) (ge_boot_id e) identity (gp_bytes p)) (\<lambda>recovery.
            if is_clean recovery then proofs_all_clean e rest else Ok False))"

definition proofs_cleanup_verified :: "guard_env \<Rightarrow> guard_proof_record list res \<Rightarrow> bool res" where
  "proofs_cleanup_verified e listing = rbind listing (\<lambda>records.
     if \<not> distinct (map (as_str \<circ> gp_execution_id) records) then Ok False
     else proofs_all_clean e records)"

definition guard_cleanup_verified :: "guard_env \<Rightarrow> (domain_error, bool) io" where
  "guard_cleanup_verified e =
     io_match (list_proofs (ge_texts e)) (\<lambda>listing. io_of (proofs_cleanup_verified e listing))"

end
