(* ===== verification/Guard_Properties.thy ===== *)
theory Guard_Properties
  imports Guard_Recovery
begin

text \<open>
  What the recovery of guarded executions promises: frames are read back as they were written and a
  torn proof is never taken for a clean one; a plan trusts only the proof of the very execution or a
  past boot, and answers for every execution another instance left running; the wait ends.
\<close>

section \<open>Frames\<close>

lemma be_digits: "((n div 16777216 mod 256 * 256 + n div 65536 mod 256) * 256 + n div 256 mod 256) * 256 + n mod 256 = n"
  if "n < 4294967296" for n :: nat
proof -
  have "n div 16777216 mod 256 = n div 16777216"
    using that by (simp add: less_mult_imp_div_less)
  moreover have "n div 16777216 * 256 + n div 65536 mod 256 = n div 65536"
    using div_mult_mod_eq[of "n div 65536" 256] by (simp add: div_mult2_eq[symmetric])
  moreover have "n div 65536 * 256 + n div 256 mod 256 = n div 256"
    using div_mult_mod_eq[of "n div 256" 256] by (simp add: div_mult2_eq[symmetric])
  ultimately show ?thesis by simp
qed

lemma from_to_be_bytes: "from_be_bytes (to_be_bytes n) = n"
proof -
  have "unat n < 4294967296" using unsigned_less[of n] by simp
  then show ?thesis
    using be_digits[of "unat n"]
    by (simp add: from_be_bytes_def to_be_bytes_def)
qed

lemma length_to_be_bytes [simp]: "length (to_be_bytes n) = 4"
  by (simp add: to_be_bytes_def)

definition frame :: "bytes \<Rightarrow> bytes" where
  "frame payload = to_be_bytes (of_nat (length payload)) @ payload"

definition frameable :: "bytes \<Rightarrow> bool" where
  "frameable payload \<longleftrightarrow> payload \<noteq> [] \<and> length payload \<le> GUARD_FRAME_LIMIT_BYTES \<and> from_utf8 payload"

lemma length_frame: "length (frame p) = 4 + length p"
  by (simp add: frame_def)

lemma frame_nonempty [simp]: "frame p \<noteq> []"
  using length_frame[of p] by force

lemma frame_length_read:
  assumes "frameable p" and "4 \<le> m"
  shows "unat (from_be_bytes (take 4 (take m (frame p @ rest)))) = length p"
proof -
  have "take 4 (take m (frame p @ rest)) = to_be_bytes (of_nat (length p))"
    using assms(2) by (simp add: frame_def min_def)
  moreover have "unat (of_nat (length p) :: u32) = length p"
    using assms(1) by (simp add: unat_of_nat frameable_def)
  ultimately show ?thesis by (simp add: from_to_be_bytes)
qed

lemma decode_frame:
  assumes "frameable p"
  shows "decode_frames (frame p @ rest) = map_option ((#) p) (decode_frames rest)"
proof -
  have "unat (from_be_bytes (take 4 (frame p @ rest))) = length p"
    using frame_length_read[OF assms, of 4 rest] by (simp add: frame_def)
  moreover have "\<not> length (frame p @ rest) < 4" "drop 4 (frame p @ rest) = p @ rest"
    by (simp_all add: frame_def)
  ultimately show ?thesis
    using assms by (subst decode_frames.simps) (simp add: frameable_def)
qed

lemma decode_torn_frame:
  assumes "frameable p" and "0 < m" and "m < length (frame p)"
  shows "decode_frames (take m (frame p)) = None"
proof (cases "m < 4")
  case True
  then show ?thesis using assms(2) by (subst decode_frames.simps) (auto simp: length_frame)
next
  case False
  then have "unat (from_be_bytes (take 4 (take m (frame p)))) = length p"
    using frame_length_read[OF assms(1), of m "[]"] by simp
  then show ?thesis
    using assms False by (subst decode_frames.simps) (auto simp: length_frame Let_def)
qed

lemma decode_nil [simp]: "decode_frames [] = Some []"
  by (simp add: decode_frames.simps)

lemma decode_prefix_of_frames:
  assumes "list_all frameable ps" and "decode_frames (take n (concat (map frame ps))) = Some fs"
  shows "\<exists>k \<le> length ps. fs = take k ps \<and> (k = length ps \<longrightarrow> length (concat (map frame ps)) \<le> n)"
  using assms
proof (induction ps arbitrary: n fs)
  case Nil
  then show ?case by simp
next
  case (Cons p ps)
  consider "n = 0" | "0 < n" "n < length (frame p)" | "length (frame p) \<le> n" by linarith
  then show ?case
  proof cases
    case 1
    then show ?thesis using Cons.prems by (intro exI[of _ 0]) simp
  next
    case 2
    then have "decode_frames (take n (frame p)) = None"
      using Cons.prems(1) by (intro decode_torn_frame) simp_all
    with 2 Cons.prems(2) show ?thesis by simp
  next
    case 3
    let ?m = "n - length (frame p)"
    have "decode_frames (take n (concat (map frame (p # ps))))
        = map_option ((#) p) (decode_frames (take ?m (concat (map frame ps))))"
      using decode_frame Cons.prems(1) 3 by simp
    then obtain gs where gs: "decode_frames (take ?m (concat (map frame ps))) = Some gs" "fs = p # gs"
      using Cons.prems(2) by auto
    from Cons.IH[OF _ gs(1)] Cons.prems(1) obtain k where
      "k \<le> length ps" "gs = take k ps" "k = length ps \<longrightarrow> length (concat (map frame ps)) \<le> ?m" by auto
    with gs(2) 3 show ?thesis by (intro exI[of _ "Suc k"]) auto
  qed
qed

lemma decode_written: "list_all frameable ps \<Longrightarrow> decode_frames (concat (map frame ps)) = Some ps"
  by (induction ps) (simp_all add: decode_frame)

text \<open>A codec whose values are read back and whose texts are UTF-8, as \<open>serde_json\<close> documents.\<close>

definition faithful :: "'v file_codec \<Rightarrow> bool" where
  "faithful k \<longleftrightarrow> (\<forall>v b. fc_encode k v = Some b \<longrightarrow> fc_decode k b = Some v \<and> from_utf8 b)"

lemma encode_guard_frame_Ok:
  assumes "encode_guard_frame k v = Ok f" and "faithful k"
  obtains p where "f = frame p" "frameable p" "fc_decode k p = Some v"
  using assms by (auto simp: encode_guard_frame_def rbind_eq_Ok_iff faithful_def frame_def frameable_def
      split: if_splits)

lemma torn_proof_parts:
  assumes codecs: "faithful (gk_identity k)" "faithful (gk_started k)" "faithful (gk_clean k)"
    and frames: "encode_guard_frame (gk_identity k) identity = Ok f1"
      "encode_guard_frame (gk_started k) started = Ok f2" "encode_guard_frame (gk_clean k) clean = Ok f3"
    and boot: "uuid_parse c (as_str boot) = Ok boot" "gi_boot_id identity = boot"
  shows "classify_guard_proof c k facts (as_str boot) boot identity (f1 @ f2 @ f3)
         = Ok (if length (f1 @ f2 @ f3) \<le> GUARD_PROOF_LIMIT_BYTES then GuardIsClean (Some clean)
               else GuardIsUnverified)"
    and "classify_guard_proof c k facts (as_str boot) boot identity (take n (f1 @ f2 @ f3)) = Ok r
         \<Longrightarrow> is_clean r \<Longrightarrow> length (f1 @ f2 @ f3) \<le> n"
proof -
  obtain p1 where p1: "f1 = frame p1" "frameable p1" "fc_decode (gk_identity k) p1 = Some identity"
    using encode_guard_frame_Ok[OF frames(1) codecs(1)] .
  obtain p2 where p2: "f2 = frame p2" "frameable p2" "fc_decode (gk_started k) p2 = Some started"
    using encode_guard_frame_Ok[OF frames(2) codecs(2)] .
  obtain p3 where p3: "f3 = frame p3" "frameable p3" "fc_decode (gk_clean k) p3 = Some clean"
    using encode_guard_frame_Ok[OF frames(3) codecs(3)] .
  have all: "f1 @ f2 @ f3 = concat (map frame [p1, p2, p3])" "list_all frameable [p1, p2, p3]"
    using p1 p2 p3 by simp_all
  show "classify_guard_proof c k facts (as_str boot) boot identity (f1 @ f2 @ f3)
         = Ok (if length (f1 @ f2 @ f3) \<le> GUARD_PROOF_LIMIT_BYTES then GuardIsClean (Some clean)
               else GuardIsUnverified)"
  proof -
    have "decode_frames (f1 @ f2 @ f3) = Some [p1, p2, p3]"
      unfolding all(1) by (rule decode_written[OF all(2)])
    then show ?thesis
      using boot p1(3) p2(3) p3(3) by (simp add: classify_guard_proof_def classify_frames_def)
  qed
  show "length (f1 @ f2 @ f3) \<le> n"
    if r: "classify_guard_proof c k facts (as_str boot) boot identity (take n (f1 @ f2 @ f3)) = Ok r" "is_clean r"
  proof (cases "decode_frames (take n (f1 @ f2 @ f3))")
    case None
    then show ?thesis using r boot by (simp add: classify_guard_proof_def split: if_splits)
  next
    case (Some fs)
    then obtain j where j: "j \<le> 3" "fs = take j [p1, p2, p3]" "j = 3 \<longrightarrow> length (f1 @ f2 @ f3) \<le> n"
      using decode_prefix_of_frames[OF all(2), of n fs] unfolding all(1) numeral_3_eq_3 by force
    have "j = 3"
    proof (rule ccontr)
      assume "j \<noteq> 3"
      with j(1) have "j = 0 \<or> j = 1 \<or> j = 2" by auto
      then show False
        using r Some j(2) boot p1(3) p2(3)
        by (auto simp: classify_guard_proof_def classify_frames_def rbind_eq_Ok_iff split: if_splits)
    qed
    with j(3) show ?thesis by simp
  qed
qed

text \<open>C14: A guard proof that the guard finished is read back as exactly the clean end the guard wrote, for
  the execution that identity names; and a crash while it was being written cannot fake one: no proper
  prefix of the proof is ever classified clean. (A proof over its size limit is never clean either.)\<close>

theorem torn_proof_never_clean:
  assumes codecs: "faithful (gk_identity k)" "faithful (gk_started k)" "faithful (gk_clean k)"
    and frames: "encode_guard_frame (gk_identity k) identity = Ok f1"
      "encode_guard_frame (gk_started k) started = Ok f2" "encode_guard_frame (gk_clean k) clean = Ok f3"
    and boot: "uuid_parse c (as_str boot) = Ok boot" "gi_boot_id identity = boot"
  shows "classify_guard_proof c k facts (as_str boot) boot identity (f1 @ f2 @ f3)
         = Ok (if length (f1 @ f2 @ f3) \<le> GUARD_PROOF_LIMIT_BYTES then GuardIsClean (Some clean)
               else GuardIsUnverified)
    \<and> (\<forall>n r. classify_guard_proof c k facts (as_str boot) boot identity (take n (f1 @ f2 @ f3)) = Ok r
         \<longrightarrow> is_clean r \<longrightarrow> length (f1 @ f2 @ f3) \<le> n)"
  using torn_proof_parts[OF assms] by blast

section \<open>The plan\<close>

lemma sort_key_distinct_map [simp]: "distinct (map f (sort_key g xs)) = distinct (map f xs)"
  by (simp add: distinct_map)

lemma find_unique:
  assumes "distinct (map f xs)" and "x \<in> set xs" and "f x = k"
  shows "List.find (\<lambda>y. f y = k) xs = Some x"
proof -
  obtain y where y: "List.find (\<lambda>y. f y = k) xs = Some y"
    using assms(2,3) by (cases "List.find (\<lambda>y. f y = k) xs") (auto simp: find_None_iff)
  with find_SomeD[OF y] assms show ?thesis by (auto simp: distinct_map inj_on_def)
qed

lemma find_in: "List.find P xs = Some x \<Longrightarrow> x \<in> set xs \<and> P x"
  using find_SomeD by fast

lemma find_none: "(\<And>x. x \<in> set xs \<Longrightarrow> f x \<noteq> k) \<Longrightarrow> List.find (\<lambda>y. f y = k) xs = None"
  by (simp add: find_None_iff)

definition proof_answer ::
  "guard_env \<Rightarrow> ('p, 'r, 'j) canonical_state \<Rightarrow> guard_proof_record \<Rightarrow> clean_guard_record res" where
  "proof_answer e s p = rbind (proof_recovery e s p) (\<lambda>r. Ok (proof_record e s p r))"

text \<open>The parts of a plan that was built.\<close>

definition planned ::
  "guard_env \<Rightarrow> ('p, 'r, 'j) canonical_state \<Rightarrow> guard_proof_record list \<Rightarrow> clean_guard_record list \<Rightarrow> bool" where
  "planned e s considered records \<longleftrightarrow>
     list_all2 (\<lambda>p r. proof_answer e s p = Ok r) considered records"

lemma planE:
  assumes "build_guard_recovery_plan e s listing = Ok plan"
  obtains proofs considered records where "listing = Ok proofs"
    "set considered = {p \<in> set proofs. \<not> proof_is_current e s p}"
    "distinct (map gp_execution_id proofs)" "distinct (map gp_execution_id considered)"
    "planned e s considered records"
    "gpl_records plan = sort_key (\<lambda>r. (as_str (cg_execution_id r), map_option as_str (cg_containing_boot_id r)))
       (records
        @ map unproven_task (filter (\<lambda>t. guarded_task e t
            \<and> st_execution_id t \<notin> gp_execution_id ` set considered) (cn_tasks s))
        @ map unproven_synchronous (filter (\<lambda>x. guarded_synchronous e x
            \<and> ssx_execution_id x \<notin> gp_execution_id ` set considered) (synchronous_executions s)))"
    "distinct (map st_execution_id (cn_tasks s) @ map ssx_execution_id (synchronous_executions s))"
    "\<And>t. t \<in> set (cn_tasks s) \<Longrightarrow> stored_task_fence t \<noteq> None"
proof -
  let ?k = "\<lambda>p. (as_str (gp_execution_id p), as_str (gp_containing_boot_id p))"
  obtain proofs where proofs: "listing = Ok proofs"
    and unique: "distinct (map st_execution_id (cn_tasks s) @ map ssx_execution_id (synchronous_executions s))"
    and fences: "\<not> list_ex (\<lambda>t. stored_task_fence t = None) (cn_tasks s)"
    and d: "distinct (map gp_execution_id (sort_key ?k proofs))"
    and records: "rbind (plan_records e s (sort_key ?k proofs)) (\<lambda>records.
        Ok \<lparr>gpl_prior_runtime_instance_ids = prior_runtime_instances s (ge_instance_id e),
            gpl_records = sort_key (\<lambda>r. (as_str (cg_execution_id r),
              map_option as_str (cg_containing_boot_id r))) records\<rparr>) = Ok plan"
    using assms
    by (auto simp: build_guard_recovery_plan_def rbind_eq_Ok_iff ensure_unique_persisted_execution_ids_def
        Let_def split: if_splits)
  let ?c = "filter (\<lambda>p. \<not> proof_is_current e s p) (sort_key ?k proofs)"
  obtain rs where rs: "collect (proof_answer e s) ?c = Ok rs"
    and plan: "gpl_records plan = sort_key (\<lambda>r. (as_str (cg_execution_id r), map_option as_str (cg_containing_boot_id r)))
       (rs @ map unproven_task (filter (\<lambda>t. guarded_task e t
            \<and> st_execution_id t \<notin> gp_execution_id ` set ?c) (cn_tasks s))
        @ map unproven_synchronous (filter (\<lambda>x. guarded_synchronous e x
            \<and> ssx_execution_id x \<notin> gp_execution_id ` set ?c) (synchronous_executions s)))"
    using records unfolding proof_answer_def[abs_def] by (auto simp: plan_records_def rbind_eq_Ok_iff Let_def)
  show ?thesis
  proof (rule that[OF proofs _ _ _ _ plan unique])
    show "planned e s ?c rs" unfolding planned_def by (rule collect_Ok[OF rs])
    show "distinct (map gp_execution_id ?c)"
      using d by (rule distinct_map_filter)
    show "distinct (map gp_execution_id proofs)" using d by simp
  qed (use fences in \<open>auto simp: list_ex_iff\<close>)
qed

lemma answer_fields:
  assumes "proof_answer e s p = Ok r"
  shows "proof_recovery e s p = Ok (cg_recovery r)"
    and "cg_finalization r = finalization_disposition (proof_task s p) (cg_recovery r) True"
    and "cg_execution_id r = gp_execution_id p"
    and "cg_containing_boot_id r = Some (gp_containing_boot_id p)"
    and "cg_settlement r = settlement_of (proof_task s p) (proof_synchronous s p)"
    and "cg_task_id r = map_option st_task_id (proof_task s p)"
    and "cg_required_cleanup r = cleanup_requirement (cg_recovery r)"
  using assms by (auto simp: proof_answer_def rbind_eq_Ok_iff proof_record_def)

lemma planned_ids: "planned e s considered records \<Longrightarrow> map cg_execution_id records = map gp_execution_id considered"
  unfolding planned_def by (induction rule: list_all2_induct) (simp_all add: answer_fields(3))

lemma planned_in:
  assumes "planned e s considered records" and "r \<in> set records"
  obtains p where "p \<in> set considered" "proof_answer e s p = Ok r"
  using assms unfolding planned_def by (fastforce simp: list_all2_conv_all_nth in_set_conv_nth)

lemma planned_of:
  assumes "planned e s considered records" and "p \<in> set considered"
  obtains r where "r \<in> set records" "proof_answer e s p = Ok r"
  using assms unfolding planned_def by (fastforce simp: list_all2_conv_all_nth in_set_conv_nth)

text \<open>The frames of a guard that ended clean under this boot.\<close>

definition clean_frames :: "guard_env \<Rightarrow> bytes \<Rightarrow> guard_identity \<Rightarrow> guard_clean \<Rightarrow> bool" where
  "clean_frames e b identity clean \<longleftrightarrow>
     length b \<le> GUARD_PROOF_LIMIT_BYTES \<and> gi_boot_id identity = ge_boot_id e
     \<and> (case decode_frames b of
          Some [first, second, third] \<Rightarrow>
            fc_decode (gk_identity (ge_codec e)) first = Some identity
            \<and> fc_decode (gk_started (ge_codec e)) second \<noteq> None
            \<and> fc_decode (gk_clean (ge_codec e)) third = Some clean
        | _ \<Rightarrow> False)"

lemma classify_clean:
  assumes "classify_guard_proof (ge_texts e) (ge_codec e) facts containing (ge_boot_id e) expected b
      = Ok (GuardIsClean ended)" and "uuid_parse (ge_texts e) containing = Ok (ge_boot_id e)"
  shows "\<exists>clean. ended = Some clean \<and> clean_frames e b expected clean"
  using assms
  by (auto simp: classify_guard_proof_def classify_frames_def clean_frames_def rbind_eq_Ok_iff
      split: if_splits option.splits list.splits)
    (metis not_None_eq)+

lemma is_clean_iff: "is_clean r \<longleftrightarrow> (\<exists>ended. r = GuardIsClean ended)"
  by (cases r) auto

lemma proof_recovery_clean:
  assumes "proof_recovery e s p = Ok (GuardIsClean ended)"
  shows "gp_containing_boot_id p \<noteq> ge_boot_id e
    \<or> (\<exists>identity clean. ended = Some clean \<and> clean_frames e (gp_bytes p) identity clean
         \<and> expected_identity e s p = Some identity)"
proof (cases "gp_containing_boot_id p = ge_boot_id e")
  case True
  with assms obtain identity where i: "expected_identity e s p = Some identity"
    and c: "classify_guard_proof (ge_texts e) (ge_codec e) (ge_facts e) (as_str (ge_boot_id e))
        (ge_boot_id e) identity (gp_bytes p) = Ok (GuardIsClean ended)"
    by (auto simp: proof_recovery_def split: option.splits)
  from c have "uuid_parse (ge_texts e) (as_str (ge_boot_id e)) = Ok (ge_boot_id e)"
    by (auto simp: classify_guard_proof_def rbind_eq_Ok_iff uuid_parse_def split: option.splits if_splits)
  from classify_clean[OF c this] i show ?thesis by blast
qed simp

lemma unproven_fields [simp]:
  "cg_recovery (unproven_task t) = GuardIsUnverified" "cg_execution_id (unproven_task t) = st_execution_id t"
  "cg_recovery (unproven_synchronous x) = GuardIsUnverified"
  "cg_execution_id (unproven_synchronous x) = ssx_execution_id x"
  "cg_finalization (unproven_task t) = FinalizeBlocked"
  "cg_finalization (unproven_synchronous x) = FinalizeBlocked"
  "cg_settlement (unproven_task t) = InterruptTask"
  "cg_settlement (unproven_synchronous x) = InterruptSynchronous"
  by (simp_all add: unproven_task_def unproven_synchronous_def)

text \<open>C12: A recovery plan trusts nothing but a proof. Where it calls an execution clean there is a proof
  file of that very execution, and either the file lies under another boot, whose processes are gone,
  or it holds the three frames of a guard that finished: the identity (of the retained execution's fence
  where the store retains it, under this boot), the process and the clean end the plan reports. Only such
  a record may have its proof removed; every other one blocks finalization.\<close>

theorem clean_verdict_is_proven:
  assumes built: "build_guard_recovery_plan e s listing = Ok plan"
    and r: "r \<in> set (gpl_records plan)"
    and trusted: "is_clean (cg_recovery r) \<or> cg_finalization r \<noteq> FinalizeBlocked"
  shows "\<exists>proofs p. listing = Ok proofs \<and> p \<in> set proofs \<and> gp_execution_id p = cg_execution_id r
      \<and> cg_containing_boot_id r = Some (gp_containing_boot_id p)
      \<and> (gp_containing_boot_id p \<noteq> ge_boot_id e \<or>
         (\<exists>identity clean. cg_recovery r = GuardIsClean (Some clean)
            \<and> clean_frames e (gp_bytes p) identity clean
            \<and> (case proof_fence s p of
                 Some f \<Rightarrow> identity = fence_identity f (cg_execution_id r) (ge_boot_id e)
               | None \<Rightarrow> proof_identity (ge_codec e) (gp_bytes p) = Some identity)))"
proof -
  obtain proofs considered records where plan: "listing = Ok proofs"
    "set considered = {p \<in> set proofs. \<not> proof_is_current e s p}" "planned e s considered records"
    "gpl_records plan = sort_key (\<lambda>r. (as_str (cg_execution_id r), map_option as_str (cg_containing_boot_id r)))
       (records
        @ map unproven_task (filter (\<lambda>t. guarded_task e t
            \<and> st_execution_id t \<notin> gp_execution_id ` set considered) (cn_tasks s))
        @ map unproven_synchronous (filter (\<lambda>x. guarded_synchronous e x
            \<and> ssx_execution_id x \<notin> gp_execution_id ` set considered) (synchronous_executions s)))"
    by (rule planE[OF built])
  have "r \<in> set records"
    using r trusted unfolding plan(4) by auto
  then obtain p where p: "p \<in> set considered" "proof_answer e s p = Ok r"
    using planned_in[OF plan(3)] by blast
  note f = answer_fields[OF p(2)]
  have "is_clean (cg_recovery r)"
    using trusted f(2) by (auto simp: finalization_disposition_def split: if_splits)
  then obtain ended where ended: "cg_recovery r = GuardIsClean ended" by (auto simp: is_clean_iff)
  have "gp_containing_boot_id p \<noteq> ge_boot_id e
      \<or> (\<exists>identity clean. cg_recovery r = GuardIsClean (Some clean)
            \<and> clean_frames e (gp_bytes p) identity clean
            \<and> (case proof_fence s p of
                 Some f \<Rightarrow> identity = fence_identity f (cg_execution_id r) (ge_boot_id e)
               | None \<Rightarrow> proof_identity (ge_codec e) (gp_bytes p) = Some identity))"
    using proof_recovery_clean[of e s p ended] f(1) f(3) ended
    by (auto simp: expected_identity_def split: option.splits)
  then show ?thesis using plan(1,2) p(1) f(3,4) by auto
qed

lemma guard_plan_parts:
  assumes built: "build_guard_recovery_plan e s listing = Ok plan"
  shows "distinct (map cg_execution_id (gpl_records plan))"
    and "t \<in> set (cn_tasks s) \<Longrightarrow> guarded_task e t \<Longrightarrow>
      \<exists>r \<in> set (gpl_records plan). cg_execution_id r = st_execution_id t \<and> cg_task_id r = Some (st_task_id t)
        \<and> cg_settlement r = InterruptTask
        \<and> (st_execution_id t \<notin> gp_execution_id ` set (case listing of Inl _ \<Rightarrow> [] | Inr proofs \<Rightarrow> proofs)
             \<longrightarrow> cg_required_cleanup r = Quarantine)"
    and "x \<in> set (synchronous_executions s) \<Longrightarrow> guarded_synchronous e x \<Longrightarrow>
      \<exists>r \<in> set (gpl_records plan). cg_execution_id r = ssx_execution_id x \<and> cg_settlement r = InterruptSynchronous
        \<and> (ssx_execution_id x \<notin> gp_execution_id ` set (case listing of Inl _ \<Rightarrow> [] | Inr proofs \<Rightarrow> proofs)
             \<longrightarrow> cg_required_cleanup r = Quarantine)"
    and "r \<in> set (gpl_records plan) \<Longrightarrow> cg_settlement r \<noteq> SettleNone \<Longrightarrow>
      (\<exists>t \<in> set (cn_tasks s). st_execution_id t = cg_execution_id r \<and> is_non_terminal_task (st_state t)
         \<and> \<not> is_current e (task_fence t))
      \<or> (\<exists>x \<in> set (synchronous_executions s). ssx_execution_id x = cg_execution_id r \<and> guarded_synchronous e x)"
proof -
  obtain proofs considered records where plan: "listing = Ok proofs"
    "set considered = {p \<in> set proofs. \<not> proof_is_current e s p}"
    "distinct (map gp_execution_id considered)" "planned e s considered records"
    "gpl_records plan = sort_key (\<lambda>r. (as_str (cg_execution_id r), map_option as_str (cg_containing_boot_id r)))
       (records
        @ map unproven_task (filter (\<lambda>t. guarded_task e t
            \<and> st_execution_id t \<notin> gp_execution_id ` set considered) (cn_tasks s))
        @ map unproven_synchronous (filter (\<lambda>x. guarded_synchronous e x
            \<and> ssx_execution_id x \<notin> gp_execution_id ` set considered) (synchronous_executions s)))"
    and unique: "distinct (map st_execution_id (cn_tasks s) @ map ssx_execution_id (synchronous_executions s))"
    by (rule planE[OF built])
  note ids = planned_ids[OF plan(4)]
  have apart: "st_execution_id t \<noteq> ssx_execution_id x"
    if "t \<in> set (cn_tasks s)" "x \<in> set (synchronous_executions s)" for t x
    using unique that by auto
  have task_found: "proof_task s p = Some t"
    if "t \<in> set (cn_tasks s)" "st_execution_id t = gp_execution_id p" for p t
    unfolding proof_task_def using unique that by (intro find_unique) auto
  have sync_found: "proof_task s p = None" "proof_synchronous s p = Some x"
    if x: "x \<in> set (synchronous_executions s)" "ssx_execution_id x = gp_execution_id p" for p x
  proof -
    show "proof_task s p = None"
      unfolding proof_task_def using apart[OF _ x(1)] x(2) by (intro find_none) simp
    show "proof_synchronous s p = Some x"
      unfolding proof_synchronous_def using unique x by (intro find_unique) auto
  qed
  show "distinct (map cg_execution_id (gpl_records plan))"
    using unique ids plan(3) unfolding plan(5)
    by (auto simp: comp_def distinct_map_filter image_iff)
  show "\<exists>r \<in> set (gpl_records plan). cg_execution_id r = st_execution_id t \<and> cg_task_id r = Some (st_task_id t)
        \<and> cg_settlement r = InterruptTask
        \<and> (st_execution_id t \<notin> gp_execution_id ` set (case listing of Inl _ \<Rightarrow> [] | Inr proofs \<Rightarrow> proofs)
             \<longrightarrow> cg_required_cleanup r = Quarantine)"
    if t: "t \<in> set (cn_tasks s)" "guarded_task e t"
  proof (cases "st_execution_id t \<in> gp_execution_id ` set considered")
    case True
    then obtain p where p: "p \<in> set considered" "st_execution_id t = gp_execution_id p" by auto
    from planned_of[OF plan(4) p(1)] obtain r where r: "r \<in> set records" "proof_answer e s p = Ok r" .
    from answer_fields[OF r(2)] task_found[OF t(1) p(2)] t(2) p plan(2) r(1) show ?thesis
      by (intro bexI[of _ r])
        (auto simp: settlement_of_def guarded_task_def plan(1) plan(5))
  next
    case False
    with t show ?thesis
      by (intro bexI[of _ "unproven_task t"]) (auto simp: plan(5) unproven_task_def)
  qed
  show "\<exists>r \<in> set (gpl_records plan). cg_execution_id r = ssx_execution_id x \<and> cg_settlement r = InterruptSynchronous
        \<and> (ssx_execution_id x \<notin> gp_execution_id ` set (case listing of Inl _ \<Rightarrow> [] | Inr proofs \<Rightarrow> proofs)
             \<longrightarrow> cg_required_cleanup r = Quarantine)"
    if x: "x \<in> set (synchronous_executions s)" "guarded_synchronous e x"
  proof (cases "ssx_execution_id x \<in> gp_execution_id ` set considered")
    case True
    then obtain p where p: "p \<in> set considered" "ssx_execution_id x = gp_execution_id p" by auto
    from planned_of[OF plan(4) p(1)] obtain r where r: "r \<in> set records" "proof_answer e s p = Ok r" .
    from answer_fields[OF r(2)] sync_found[OF x(1) p(2)] x(2) p plan(2) r(1) show ?thesis
      by (intro bexI[of _ r])
        (auto simp: settlement_of_def guarded_synchronous_def plan(1) plan(5))
  next
    case False
    with x show ?thesis
      by (intro bexI[of _ "unproven_synchronous x"]) (auto simp: plan(5) unproven_synchronous_def)
  qed
  show "(\<exists>t \<in> set (cn_tasks s). st_execution_id t = cg_execution_id r \<and> is_non_terminal_task (st_state t)
         \<and> \<not> is_current e (task_fence t))
      \<or> (\<exists>x \<in> set (synchronous_executions s). ssx_execution_id x = cg_execution_id r \<and> guarded_synchronous e x)"
    if r: "r \<in> set (gpl_records plan)" "cg_settlement r \<noteq> SettleNone"
  proof (cases "r \<in> set records")
    case True
    from planned_in[OF plan(4) True] obtain p where p: "p \<in> set considered" "proof_answer e s p = Ok r" .
    have "\<not> proof_is_current e s p" using p(1) plan(2) by simp
    with answer_fields[OF p(2)] r(2) show ?thesis
      unfolding settlement_of_def proof_is_current_def guarded_synchronous_def
        proof_task_def proof_synchronous_def
      by (auto split: option.splits if_splits dest!: find_in)
  next
    case False
    with r(1) show ?thesis by (auto simp: plan(5) guarded_task_def)
  qed
qed



section \<open>The wait\<close>

text \<open> Recovery always returns: when the clock moves and a sleep lasts at least as long as it was asked to,
  the wait for live guards ends within 252 rounds, on whatever it reads; the answer is the plan (or the
  error) of the round it ends in, and it is a plan with a live guard only when the wait ran out.\<close>

lemma guard_wait_returns:
  assumes clock: "\<And>n. now n < now (Suc n)" "\<And>n. now n + guard_sleep (now n) \<le> now (Suc n)"
  shows "\<exists>n answer. n \<le> 251 \<and> await_guard_recovery_plan e s looks facts now 0 = Some answer
    \<and> answer = build_guard_recovery_plan (e\<lparr>ge_facts := facts n\<rparr>) s (looks n)
    \<and> (case answer of Inr plan \<Rightarrow> has_live_guard plan \<longrightarrow> now n > GUARD_RECOVERY_WAIT_MILLIS | Inl _ \<Rightarrow> True)"
proof -
  let ?ends = "\<lambda>n. case build_guard_recovery_plan (e\<lparr>ge_facts := facts n\<rparr>) s (looks n) of
      Inl error \<Rightarrow> True | Inr plan \<Rightarrow> now n > GUARD_RECOVERY_WAIT_MILLIS \<or> \<not> has_live_guard plan"
  have progress: "min (20 * n) GUARD_RECOVERY_WAIT_MILLIS \<le> now n" for n
  proof (induction n)
    case 0
    then show ?case by simp
  next
    case (Suc n)
    have "now n + guard_sleep (now n) \<le> now (Suc n)" by (rule clock(2))
    with Suc show ?case by (auto simp: guard_sleep_def min_def split: if_splits)
  qed
  have late: "now 251 > GUARD_RECOVERY_WAIT_MILLIS"
    using progress[of 250] clock(1)[of 250] by simp
  have run: "\<exists>n \<ge> m. n \<le> 251 \<and> ?ends n
      \<and> await_guard_recovery_plan e s looks facts now m
        = Some (build_guard_recovery_plan (e\<lparr>ge_facts := facts n\<rparr>) s (looks n))" if "m \<le> 251" for m
    using that
  proof (induction "251 - m" arbitrary: m rule: less_induct)
    case less
    show ?case
    proof (cases "?ends m")
      case True
      then show ?thesis
        using less.prems
        by (intro exI[of _ m], subst await_guard_recovery_plan.simps) (auto split: sum.splits)
    next
      case False
      with late have "m \<noteq> 251" by (auto split: sum.splits)
      with less.prems have "251 - Suc m < 251 - m" "Suc m \<le> 251" by simp_all
      from less.hyps[OF this] obtain n where n: "Suc m \<le> n" "n \<le> 251" "?ends n"
        "await_guard_recovery_plan e s looks facts now (Suc m)
          = Some (build_guard_recovery_plan (e\<lparr>ge_facts := facts n\<rparr>) s (looks n))" by blast
      moreover have "await_guard_recovery_plan e s looks facts now m
          = await_guard_recovery_plan e s looks facts now (Suc m)"
        using False by (subst await_guard_recovery_plan.simps) (auto split: sum.splits)
      ultimately show ?thesis by (intro exI[of _ n]) auto
    qed
  qed
  from run[of 0] obtain n where "n \<le> 251" "?ends n" "await_guard_recovery_plan e s looks facts now 0
      = Some (build_guard_recovery_plan (e\<lparr>ge_facts := facts n\<rparr>) s (looks n))" by auto
  then show ?thesis by (intro exI[of _ n]) (auto split: sum.splits)
qed

section \<open>The check before a reset\<close>

lemma proofs_all_clean_each:
  "proofs_all_clean e ps = Ok True \<Longrightarrow> p \<in> set ps \<Longrightarrow> gp_containing_boot_id p = ge_boot_id e \<Longrightarrow>
   \<exists>identity clean. gi_execution_id identity = gp_execution_id p \<and> clean_frames e (gp_bytes p) identity clean"
proof (induction e ps rule: proofs_all_clean.induct)
  case (1 e)
  then show ?case by simp
next
  case (2 e q rest)
  show ?case
  proof (cases "p = q")
    case True
    with "2.prems"(1,3) obtain identity r where i: "gi_execution_id identity = gp_execution_id p"
      and r: "classify_guard_proof (ge_texts e) (ge_codec e) (ge_facts e) (as_str (ge_boot_id e))
        (ge_boot_id e) identity (gp_bytes p) = Ok r" "is_clean r"
      by (auto simp: rbind_eq_Ok_iff split: option.splits if_splits)
    from r(2) obtain ended where ended: "r = GuardIsClean ended" by (auto simp: is_clean_iff)
    have "uuid_parse (ge_texts e) (as_str (ge_boot_id e)) = Ok (ge_boot_id e)"
      using r(1) by (auto simp: classify_guard_proof_def rbind_eq_Ok_iff uuid_parse_def split: option.splits if_splits)
    from classify_clean[OF r(1)[unfolded ended] this] i show ?thesis by blast
  next
    case False
    with "2.prems" have "proofs_all_clean e rest = Ok True" "p \<in> set rest"
      by (auto simp: rbind_eq_Ok_iff split: option.splits if_splits)
    then show ?thesis
      using "2.IH" "2.prems"(1,3) by (auto simp: rbind_eq_Ok_iff split: option.splits if_splits)
  qed
qed

lemma cleanup_verified_proofs:
  assumes "proofs_cleanup_verified e listing = Ok True"
  obtains proofs where "listing = Ok proofs" "distinct (map gp_execution_id proofs)"
    "\<And>p. p \<in> set proofs \<Longrightarrow> gp_containing_boot_id p = ge_boot_id e \<Longrightarrow>
       \<exists>identity clean. gi_execution_id identity = gp_execution_id p \<and> clean_frames e (gp_bytes p) identity clean"
  using assms proofs_all_clean_each
  by (fastforce simp: proofs_cleanup_verified_def rbind_eq_Ok_iff distinct_map comp_inj_on_iff
      inj_on_def split: if_splits)

end
