(* ===== verification/Guard_Samples.thy ===== *)
theory Guard_Samples
  imports Guard_Properties
begin

text \<open>Concrete runs at which the hypotheses of the guard properties hold.\<close>

definition one_value_codec :: "'v \<Rightarrow> bytes \<Rightarrow> 'v file_codec" where
  "one_value_codec v b = \<lparr>fc_encode = (\<lambda>x. if x = v then Some b else None),
     fc_decode = (\<lambda>a. if a = b then Some v else None)\<rparr>"

lemma faithful_one_value: "from_utf8 b \<Longrightarrow> faithful (one_value_codec v b)"
  by (simp add: faithful_def one_value_codec_def)

definition sample_identity :: guard_identity where
  "sample_identity = \<lparr>gi_runtime_epoch = UuidV4 ''E'', gi_runtime_instance_id = UuidV4 ''P'',
     gi_execution_id = UuidV4 ''X'', gi_boot_id = UuidV4 ''B''\<rparr>"

definition sample_guard_codec :: guard_codec where
  "sample_guard_codec =
     \<lparr>gk_identity = one_value_codec sample_identity ''i'',
      gk_started = one_value_codec \<lparr>gs_pid = 7, gs_start_ticks = 9\<rparr> ''s'',
      gk_clean = one_value_codec \<lparr>gc_shell_exit_code = Some 0, gc_cause = CauseExited\<rparr> ''c''\<rparr>"

definition sample_guard_texts :: text_codec where
  "sample_guard_texts = \<lparr>af_instant = (\<lambda>_. None), af_uuid = (\<lambda>t. Some (4, t))\<rparr>"

definition sample_guard_env :: guard_env where
  "sample_guard_env = \<lparr>ge_texts = sample_guard_texts, ge_codec = sample_guard_codec,
     ge_facts = (\<lambda>_ _. Ok True), ge_instance_id = UuidV4 ''Q'', ge_boot_id = UuidV4 ''B''\<rparr>"

definition sample_fence :: fence where
  "sample_fence = \<lparr>fence_runtime_epoch = UuidV4 ''E'', fence_host_generation = 1,
     fence_runtime_instance_id = UuidV4 ''P''\<rparr>"

definition left_task :: "(unit, unit) stored_task" where
  "left_task = \<lparr>st_request_id = None, st_task_id = UuidV4 ''T'', st_execution_id = UuidV4 ''X'',
     st_state = TaskRunning, st_cancel_requested = False, st_tool = ToolCommand, st_action = ''run'',
     st_created_at = [], st_started_at = Some [], st_ended_at = None, st_waiting_reason = None,
     st_executor = Some \<lparr>er_host = ApkRuntime, er_provider = TokenShizuku, er_execution_class = ClassShizuku,
       er_capability_generation = 1, er_fence = sample_fence\<rparr>,
     st_route = None, st_payload = None, st_automation_owner = None, st_result = None, st_error = None,
     st_reserved_bytes = 0\<rparr>"

definition left_state :: "(unit, unit, unit) canonical_state" where
  "left_state = canonical_state_default\<lparr>cn_tasks := [left_task]\<rparr>"

definition clean_proof :: guard_proof_record where
  "clean_proof = \<lparr>gp_containing_boot_id = UuidV4 ''B'', gp_execution_id = UuidV4 ''X'',
     gp_bytes = frame ''i'' @ frame ''s'' @ frame ''c''\<rparr>"

lemma sample_frameable: "frameable ''i''" "frameable ''s''" "frameable ''c''"
  by (simp_all add: frameable_def from_utf8_def)

lemma sample_frames: "decode_frames (frame ''i'' @ frame ''s'' @ frame ''c'') = Some [''i'', ''s'', ''c'']"
  using decode_written[of "[''i'', ''s'', ''c'']"] sample_frameable by simp

lemma sample_proof_clean:
  "proof_answer sample_guard_env left_state clean_proof
   = Ok (proof_record sample_guard_env left_state clean_proof
       (GuardIsClean (Some \<lparr>gc_shell_exit_code = Some 0, gc_cause = CauseExited\<rparr>)))"
  by (simp add: proof_answer_def proof_recovery_def expected_identity_def proof_fence_def proof_task_def
      left_state_def canonical_state_default_def left_task_def clean_proof_def sample_guard_env_def
      task_fence_def stored_task_fence_def classify_guard_proof_def classify_frames_def sample_frames
      sample_guard_codec_def one_value_codec_def sample_identity_def sample_fence_def fence_identity_def
      uuid_parse_def sample_guard_texts_def length_frame)

lemma sample_guard_plan:
  "build_guard_recovery_plan sample_guard_env left_state (Ok [clean_proof])
   = Ok \<lparr>gpl_prior_runtime_instance_ids = [UuidV4 ''P''],
         gpl_records = [proof_record sample_guard_env left_state clean_proof
           (GuardIsClean (Some \<lparr>gc_shell_exit_code = Some 0, gc_cause = CauseExited\<rparr>))]\<rparr>"
proof -
  have "\<not> proof_is_current sample_guard_env left_state clean_proof"
    by (simp add: proof_is_current_def proof_task_def proof_synchronous_def synchronous_executions_def
        left_state_def canonical_state_default_def left_task_def clean_proof_def is_current_def
        task_fence_def stored_task_fence_def sample_fence_def sample_guard_env_def List.map_filter_def)
  moreover have "gp_execution_id clean_proof = st_execution_id left_task"
    by (simp add: clean_proof_def left_task_def)
  ultimately have "plan_records sample_guard_env left_state [clean_proof]
      = Ok [proof_record sample_guard_env left_state clean_proof
           (GuardIsClean (Some \<lparr>gc_shell_exit_code = Some 0, gc_cause = CauseExited\<rparr>))]"
    using sample_proof_clean
    by (simp add: plan_records_def proof_answer_def rbind_eq_Ok_iff synchronous_executions_def
        left_state_def canonical_state_default_def List.map_filter_def)
  then show ?thesis
    by (simp add: build_guard_recovery_plan_def ensure_unique_persisted_execution_ids_def
        synchronous_executions_def left_state_def canonical_state_default_def List.map_filter_def
        left_task_def stored_task_fence_def prior_runtime_instances_def task_fence_def sample_fence_def
        sample_guard_env_def)
qed

lemma clean_verdict_is_proven_witness:
  "\<exists>identity clean. clean_frames sample_guard_env (gp_bytes clean_proof) identity clean"
proof -
  let ?r = "proof_record sample_guard_env left_state clean_proof
      (GuardIsClean (Some \<lparr>gc_shell_exit_code = Some 0, gc_cause = CauseExited\<rparr>))"
  have "is_clean (cg_recovery ?r) \<or> cg_finalization ?r \<noteq> FinalizeBlocked"
    by (simp add: proof_record_def)
  from clean_verdict_is_proven[OF sample_guard_plan _ this] show ?thesis
    by (auto simp: sample_guard_env_def clean_proof_def)
qed

lemma left_task_execution: "st_execution_id left_task = UuidV4 ''X''"
  by (simp add: left_task_def)


lemma torn_proof_never_clean_witness:
  "classify_guard_proof sample_guard_texts sample_guard_codec (\<lambda>_ _. Ok True) ''B'' (UuidV4 ''B'')
     sample_identity (frame ''i'' @ frame ''s'' @ frame ''c'')
   = Ok (GuardIsClean (Some \<lparr>gc_shell_exit_code = Some 0, gc_cause = CauseExited\<rparr>))"
proof -
  have frames: "encode_guard_frame (one_value_codec v [c]) v = Ok (frame [c])" for v :: 'v and c
    by (simp add: encode_guard_frame_def one_value_codec_def frame_def)
  have "faithful (gk_identity sample_guard_codec)" "faithful (gk_started sample_guard_codec)"
    "faithful (gk_clean sample_guard_codec)"
    using sample_frameable by (simp_all add: sample_guard_codec_def faithful_one_value frameable_def)
  moreover have "encode_guard_frame (gk_identity sample_guard_codec) sample_identity = Ok (frame ''i'')"
    "encode_guard_frame (gk_started sample_guard_codec) \<lparr>gs_pid = 7, gs_start_ticks = 9\<rparr> = Ok (frame ''s'')"
    "encode_guard_frame (gk_clean sample_guard_codec)
       \<lparr>gc_shell_exit_code = Some 0, gc_cause = CauseExited\<rparr> = Ok (frame ''c'')"
    by (simp_all add: sample_guard_codec_def frames)
  moreover have "uuid_parse sample_guard_texts (as_str (UuidV4 ''B'')) = Ok (UuidV4 ''B'')"
    "gi_boot_id sample_identity = UuidV4 ''B''"
    by (simp_all add: uuid_parse_def sample_guard_texts_def sample_identity_def)
  ultimately show ?thesis
    using torn_proof_never_clean[where facts = "\<lambda>_ _. Ok True"] by (fastforce simp: length_frame)
qed

lemma guard_wait_returns_witness:
  "\<exists>answer. await_guard_recovery_plan sample_guard_env left_state (\<lambda>_. Ok []) (\<lambda>_ _ _. Ok True)
     (\<lambda>n. 21 * n) 0 = Some answer"
proof -
  have "\<And>n :: nat. 21 * n < 21 * Suc n" "\<And>n. 21 * n + guard_sleep (21 * n) \<le> 21 * Suc n"
    by (simp_all add: guard_sleep_def min_def)
  from guard_wait_returns[where now = "\<lambda>n. 21 * n", OF this] show ?thesis by blast
qed

end
