(* ===== verification/Store_Stranded.thy ===== *)
theory Store_Stranded
  imports Store_Commit
begin

text \<open>
  The user's way out of a store whose executions were left at work by an instance that is gone
  (\<open>stranded_execution_count\<close> and \<open>clear_stranded_executions\<close> of
  \<open>rust/crates/persistence/src/atomic.rs\<close>): count them, and mark every one interrupted.
\<close>

section \<open>Stranded executions\<close>

definition request_stranded :: "('p, 'j) request_record \<Rightarrow> bool" where
  "request_stranded q \<longleftrightarrow>
     (case qr_synchronous_execution q of None \<Rightarrow> False | Some x \<Rightarrow> \<not> sync_is_terminal (ssx_state x))"

definition task_stranded :: "('p, 'r) stored_task \<Rightarrow> bool" where
  "task_stranded t \<longleftrightarrow>
     st_automation_owner t = None \<and> st_state t \<in> {TaskCreated, TaskQueued, TaskRunning}"

text \<open>The indices of the stranded request records and Tasks, in their order.\<close>

definition stranded :: "('p, 'r, 'j) canonical_state \<Rightarrow> nat list \<times> nat list" where
  "stranded c =
     (filter (\<lambda>i. request_stranded (cn_request_records c ! i)) [0..<length (cn_request_records c)],
      filter (\<lambda>i. task_stranded (cn_tasks c ! i)) [0..<length (cn_tasks c)])"

fun foreign_to :: "uuid option \<Rightarrow> uuid option \<Rightarrow> bool" where
  "foreign_to None _ = True"
| "foreign_to (Some alive) (Some instance_id) = (alive \<noteq> instance_id)"
| "foreign_to (Some _) None = False"

definition foreign_strands :: "uuid option \<Rightarrow> ('p, 'r, 'j) canonical_state \<Rightarrow> nat" where
  "foreign_strands alive c =
     (case stranded c of (requests, tasks) \<Rightarrow>
        length (filter (\<lambda>i. foreign_to alive (map_option
            (\<lambda>x. fence_runtime_instance_id (er_fence (ssx_executor x)))
            (qr_synchronous_execution (cn_request_records c ! i)))) requests)
        + length (filter (\<lambda>i. foreign_to alive (map_option
            (\<lambda>x. fence_runtime_instance_id (er_fence x)) (st_executor (cn_tasks c ! i)))) tasks))"

definition stranded_execution_count :: "('p, 'r, 'j) state_store \<Rightarrow> (domain_error, nat) io" where
  "stranded_execution_count s =
     io_bind (fs_exists state_path) (\<lambda>present.
     if \<not> present then io_return 0
     else
       io_bind (lock_try_acquire live_lock_path) (\<lambda>lock.
       io_bind (case lock of
           Some _ \<Rightarrow> io_return None
         | None \<Rightarrow> io_bind (read_json (sc_live s) live_path) (\<lambda>alive.
             io_return (Some (li_runtime_instance_id alive)))) (\<lambda>alive.
       io_bind (lock_acquire state_lock_path) (\<lambda>_.
       io_bind (io_map_err io_error (fs_read state_path)) (\<lambda>b.
       io_bind (io_of (decode_canonical_state s b)) (\<lambda>state.
       io_return (foreign_strands alive state)))))))"

section \<open>Clearing them\<close>

definition interrupted_error :: "string \<Rightarrow> public_error" where
  "interrupted_error operation = \<lparr>pe_code = IoError, pe_operation = operation, pe_retryable = False,
     pe_message = None, pe_capability = None, pe_details = None\<rparr>"

definition interrupt_synchronous ::
  "string \<Rightarrow> ('p, 'j) stored_synchronous_execution \<Rightarrow> ('p, 'j) stored_synchronous_execution" where
  "interrupt_synchronous ended_at x = x\<lparr>ssx_state := SyncInterrupted, ssx_ended_at := Some ended_at,
     ssx_error := Some (interrupted_error (ssx_operation x)),
     ssx_terminal_bytes := min RESERVE_FLOOR_BYTES (ssx_reserved_bytes x)\<rparr>"

definition interrupt_task :: "string \<Rightarrow> ('p, 'r) stored_task \<Rightarrow> ('p, 'r) stored_task" where
  "interrupt_task ended_at t = t\<lparr>st_state := TaskInterrupted, st_ended_at := Some ended_at,
     st_error := Some (interrupted_error (mother_tool_token (st_tool t) @ ''.'' @ st_action t))\<rparr>"

text \<open>What the two loops of the code carry: the state, and the executions they released.\<close>

definition clear_request ::
  "string \<Rightarrow> u64 \<Rightarrow> nat \<Rightarrow> ('p, 'r, 'j) canonical_state \<times> execution_id list \<Rightarrow>
   ('p, 'r, 'j) canonical_state \<times> execution_id list" where
  "clear_request ended_at expires_at_ms i cr =
     (case cr of (c, released) \<Rightarrow>
        let q = cn_request_records c ! i
        in (c\<lparr>cn_request_records := (cn_request_records c)[i := q\<lparr>
               qr_synchronous_execution := map_option (interrupt_synchronous ended_at) (qr_synchronous_execution q),
               qr_expires_at_ms := Some expires_at_ms\<rparr>]\<rparr>,
            released @ (case qr_synchronous_execution q of None \<Rightarrow> [] | Some x \<Rightarrow> [ssx_execution_id x])))"

definition expire_request ::
  "u64 \<Rightarrow> request_id option \<Rightarrow> ('p, 'j) request_record list \<Rightarrow> ('p, 'j) request_record list" where
  "expire_request expires_at_ms request_id qs =
     (case request_id of
        None \<Rightarrow> qs
      | Some r \<Rightarrow> (case position (\<lambda>q. qr_request_id q = r) qs of
          None \<Rightarrow> qs
        | Some i \<Rightarrow> qs[i := (qs ! i)\<lparr>qr_expires_at_ms := Some expires_at_ms\<rparr>]))"

definition clear_task ::
  "string \<Rightarrow> u64 \<Rightarrow> nat \<Rightarrow> ('p, 'r, 'j) canonical_state \<times> execution_id list \<Rightarrow>
   ('p, 'r, 'j) canonical_state \<times> execution_id list" where
  "clear_task ended_at expires_at_ms i cr =
     (case cr of (c, released) \<Rightarrow>
        let t = cn_tasks c ! i
        in (c\<lparr>cn_tasks := (cn_tasks c)[i := interrupt_task ended_at t],
              cn_request_records := expire_request expires_at_ms (st_request_id t) (cn_request_records c)\<rparr>,
            released @ [st_execution_id t]))"

definition interrupted_state ::
  "string \<Rightarrow> u64 \<Rightarrow> ('p, 'r, 'j) canonical_state \<Rightarrow> ('p, 'r, 'j) canonical_state \<times> execution_id list" where
  "interrupted_state ended_at now_ms c =
     (let expires_at_ms = saturating_add now_ms 86400000
      in case stranded c of (requests, tasks) \<Rightarrow>
        fold (clear_task ended_at expires_at_ms) tasks
          (fold (clear_request ended_at expires_at_ms) requests (c, [])))"

text \<open>The rewritten state, which must still be a state the Runtime accepts, and its bytes.\<close>

definition cleared_state ::
  "('p, 'r, 'j) state_store \<Rightarrow> string \<Rightarrow> u64 \<Rightarrow> ('p, 'r, 'j) canonical_state \<Rightarrow>
   ('p, 'r, 'j) canonical_state res" where
  "cleared_state s ended_at now_ms c =
     (case interrupted_state ended_at now_ms c of (c', released) \<Rightarrow>
        let c' = c'\<lparr>cn_reservations :=
              filter (\<lambda>r. rv_execution_id r \<notin> set released) (cn_reservations c')\<rparr>
        in rbind (ok_or (checked_add (cn_store_revision c') 1)
             (domain_error_new ResourceLimit ''store revision exhausted'')) (\<lambda>revision.
           let c' = c'\<lparr>cn_store_revision := revision\<rparr>
           in rbind (encode_json (sc_state s) ''JSON serialization failed'' c') (\<lambda>encoded.
              rbind (decode_canonical_state s encoded) (\<lambda>_. Ok c'))))"

text \<open>
  The live lock is tried until the wait has passed. The time that has passed at each try is outside the
  model: \<open>retries\<close> is the number of failed tries before the deadline.
\<close>

fun retry_live_lock :: "nat \<Rightarrow> (domain_error, unit) io" where
  "retry_live_lock 0 = io_bind (lock_try_acquire live_lock_path) (\<lambda>lock. case lock of
       Some _ \<Rightarrow> io_return ()
     | None \<Rightarrow> io_fail (domain_error_new HostTransitionPending ''a live Runtime owns the store''))"
| "retry_live_lock (Suc retries) = io_bind (lock_try_acquire live_lock_path) (\<lambda>lock. case lock of
       Some _ \<Rightarrow> io_return ()
     | None \<Rightarrow> retry_live_lock retries)"

definition clear_stranded_executions ::
  "('p, 'r, 'j) state_store \<Rightarrow> string \<Rightarrow> u64 \<Rightarrow> nat \<Rightarrow> (domain_error, nat) io" where
  "clear_stranded_executions s ended_at now_ms retries =
     io_bind (retry_live_lock retries) (\<lambda>_.
     io_bind (lock_acquire state_lock_path) (\<lambda>_.
     io_bind (io_map_err io_error (fs_read state_path)) (\<lambda>b.
     io_bind (io_of (decode_canonical_state s b)) (\<lambda>state.
     case stranded state of (requests, tasks) \<Rightarrow>
       if requests = [] \<and> tasks = [] then io_return 0
       else
         io_bind (io_of (cleared_state s ended_at now_ms state)) (\<lambda>cleared.
         io_bind (atomic_replace_json (sc_state s) [] ''runtime-state.json'' cleared) (\<lambda>_.
         io_return (length requests + length tasks)))))))"

section \<open>The state that was cleared\<close>

text \<open>Replacing the elements at some indices.\<close>

definition map_at :: "nat set \<Rightarrow> ('a \<Rightarrow> 'a) \<Rightarrow> 'a list \<Rightarrow> 'a list" where
  "map_at I f xs = map (\<lambda>i. if i \<in> I then f (xs ! i) else xs ! i) [0..<length xs]"

lemma length_map_at [simp]: "length (map_at I f xs) = length xs"
  by (simp add: map_at_def)

lemma nth_map_at [simp]: "i < length xs \<Longrightarrow> map_at I f xs ! i = (if i \<in> I then f (xs ! i) else xs ! i)"
  by (simp add: map_at_def)

lemma map_at_empty [simp]: "map_at {} f xs = xs"
  by (simp add: map_at_def map_nth)

lemma map_at_insert: "i \<notin> I \<Longrightarrow> map_at I f (xs[i := f (xs ! i)]) = map_at (insert i I) f xs"
  by (cases "i < length xs") (auto intro!: nth_equalityI simp: nth_list_update)

lemma map_at_single: "xs[i := f (xs ! i)] = map_at {i} f xs"
  using map_at_insert[of i "{}" f xs] by simp

lemma map_at_where: "map_at {i. i < length xs \<and> P (xs ! i)} f xs = map (\<lambda>x. if P x then f x else x) xs"
  by (rule nth_equalityI) auto

text \<open>A request record without its expiry: what clearing a Task leaves of the records.\<close>

definition no_expiry :: "('p, 'j) request_record \<Rightarrow> ('p, 'j) request_record" where
  "no_expiry q = q\<lparr>qr_expires_at_ms := None\<rparr>"

lemma no_expiry_expired [simp]: "no_expiry (q\<lparr>qr_expires_at_ms := e\<rparr>) = no_expiry q"
  by (simp add: no_expiry_def)

lemma no_expiry_expire_request: "map no_expiry (expire_request e r qs) = map no_expiry qs"
  by (auto simp: expire_request_def map_list_update_same split: option.splits)

definition requests_passed ::
  "string \<Rightarrow> u64 \<Rightarrow> nat set \<Rightarrow> ('p, 'r, 'j) canonical_state \<Rightarrow> ('p, 'r, 'j) canonical_state \<Rightarrow> bool" where
  "requests_passed ended_at e I c c' \<longleftrightarrow> c' = c\<lparr>cn_request_records := map_at I
     (\<lambda>q. q\<lparr>qr_synchronous_execution := map_option (interrupt_synchronous ended_at) (qr_synchronous_execution q),
            qr_expires_at_ms := Some e\<rparr>) (cn_request_records c)\<rparr>"

lemma fold_clear_request:
  "distinct is \<Longrightarrow> requests_passed ended_at e (set is) c (fst (fold (clear_request ended_at e) is (c, released)))
   \<and> set (snd (fold (clear_request ended_at e) is (c, released)))
     = set released \<union> (\<Union>i\<in>set is. set_option (map_option ssx_execution_id (qr_synchronous_execution (cn_request_records c ! i))))"
proof (induction "is" arbitrary: c released)
  case Nil
  then show ?case by (simp add: requests_passed_def)
next
  case (Cons i "is")
  obtain c1 released1 where step: "clear_request ended_at e i (c, released) = (c1, released1)" by fastforce
  then have c1: "requests_passed ended_at e {i} c c1"
    "set released1 = set released \<union> set_option (map_option ssx_execution_id (qr_synchronous_execution (cn_request_records c ! i)))"
    unfolding clear_request_def requests_passed_def map_at_single[symmetric]
    by (auto simp: Let_def split: option.splits)
  have nth: "cn_request_records c1 ! j = cn_request_records c ! j" if "j \<in> set is" for j
    using step that Cons.prems by (cases "i = j") (auto simp: clear_request_def Let_def)
  have "requests_passed ended_at e (set is) c1 c' \<Longrightarrow> requests_passed ended_at e (set (i # is)) c c'" for c'
    using c1(1) Cons.prems
    by (auto simp: requests_passed_def map_at_def intro!: nth_equalityI)
  with Cons.IH[of c1 released1] Cons.prems nth c1(2) show ?case
    by (auto simp: step)
qed

definition tasks_passed ::
  "string \<Rightarrow> nat set \<Rightarrow> ('p, 'r, 'j) canonical_state \<Rightarrow> ('p, 'r, 'j) canonical_state \<Rightarrow> bool" where
  "tasks_passed ended_at I c c' \<longleftrightarrow>
     c' = c\<lparr>cn_tasks := map_at I (interrupt_task ended_at) (cn_tasks c), cn_request_records := cn_request_records c'\<rparr>
     \<and> map no_expiry (cn_request_records c') = map no_expiry (cn_request_records c)"

lemma fold_clear_task:
  "distinct is \<Longrightarrow> tasks_passed ended_at (set is) c (fst (fold (clear_task ended_at e) is (c, released)))
   \<and> set (snd (fold (clear_task ended_at e) is (c, released)))
     = set released \<union> (\<lambda>i. st_execution_id (cn_tasks c ! i)) ` set is"
proof (induction "is" arbitrary: c released)
  case Nil
  then show ?case by (simp add: tasks_passed_def)
next
  case (Cons i "is")
  obtain c1 released1 where step: "clear_task ended_at e i (c, released) = (c1, released1)" by fastforce
  then have c1: "cn_tasks c1 = (cn_tasks c)[i := interrupt_task ended_at (cn_tasks c ! i)]"
    "c1 = c\<lparr>cn_tasks := cn_tasks c1, cn_request_records := cn_request_records c1\<rparr>"
    "map no_expiry (cn_request_records c1) = map no_expiry (cn_request_records c)"
    "set released1 = set released \<union> {st_execution_id (cn_tasks c ! i)}"
    by (auto simp: clear_task_def Let_def no_expiry_expire_request)
  have nth: "cn_tasks c1 ! j = cn_tasks c ! j" if "j \<in> set is" for j
    using that Cons.prems c1(1) by (cases "j = i") auto
  have "tasks_passed ended_at (set (i # is)) c c'" if "tasks_passed ended_at (set is) c1 c'" for c'
  proof -
    have "map_at (set is) (interrupt_task ended_at) (cn_tasks c1)
        = map_at (set (i # is)) (interrupt_task ended_at) (cn_tasks c)"
      using Cons.prems c1(1) by (simp add: map_at_insert)
    with that c1(2,3) show ?thesis
      unfolding tasks_passed_def by (smt (verit) canonical_state.surjective canonical_state.update_convs)
  qed
  with Cons.IH[of c1 released1] Cons.prems nth c1(4) show ?case
    by (auto simp: step)
qed

lemma stranded_indices:
  "set (fst (stranded c)) = {i. i < length (cn_request_records c) \<and> request_stranded (cn_request_records c ! i)}"
  "set (snd (stranded c)) = {i. i < length (cn_tasks c) \<and> task_stranded (cn_tasks c ! i)}"
  "distinct (fst (stranded c))" "distinct (snd (stranded c))"
  by (auto simp: stranded_def)

lemma stranded_none_iff:
  "stranded c = ([], []) \<longleftrightarrow>
   (\<forall>q \<in> set (cn_request_records c). \<not> request_stranded q) \<and> (\<forall>t \<in> set (cn_tasks c). \<not> task_stranded t)"
  by (auto simp: stranded_def filter_empty_conv all_set_conv_all_nth)

definition interrupt_request :: "string \<Rightarrow> u64 \<Rightarrow> ('p, 'j) request_record \<Rightarrow> ('p, 'j) request_record" where
  "interrupt_request ended_at e q =
     (if request_stranded q
      then q\<lparr>qr_synchronous_execution := map_option (interrupt_synchronous ended_at) (qr_synchronous_execution q),
             qr_expires_at_ms := Some e\<rparr> else q)"

definition interrupt_if_stranded :: "string \<Rightarrow> ('p, 'r) stored_task \<Rightarrow> ('p, 'r) stored_task" where
  "interrupt_if_stranded ended_at t = (if task_stranded t then interrupt_task ended_at t else t)"

definition stranded_ids :: "('p, 'r, 'j) canonical_state \<Rightarrow> execution_id set" where
  "stranded_ids c = {ssx_execution_id x |q x. q \<in> set (cn_request_records c) \<and> request_stranded q
       \<and> qr_synchronous_execution q = Some x}
     \<union> {st_execution_id t |t. t \<in> set (cn_tasks c) \<and> task_stranded t}"

text \<open>The whole rewrite: every stranded execution, and nothing else but the expiry of requests.\<close>

lemma interrupted_state_fields:
  assumes "interrupted_state ended_at now_ms c = (c', released)"
  shows "c' = c\<lparr>cn_tasks := map (interrupt_if_stranded ended_at) (cn_tasks c),
                cn_request_records := cn_request_records c'\<rparr>"
    and "map no_expiry (cn_request_records c')
         = map (no_expiry \<circ> interrupt_request ended_at (saturating_add now_ms 86400000)) (cn_request_records c)"
    and "set released = stranded_ids c"
proof -
  let ?e = "saturating_add now_ms 86400000"
  obtain c1 released1 where c1: "fold (clear_request ended_at ?e) (fst (stranded c)) (c, []) = (c1, released1)"
    by fastforce
  have step: "fold (clear_task ended_at ?e) (snd (stranded c)) (c1, released1) = (c', released)"
    using assms c1 by (simp add: interrupted_state_def Let_def split: prod.splits)
  have "requests_passed ended_at ?e (set (fst (stranded c))) c c1"
    "set released1 = (\<Union>i\<in>set (fst (stranded c)). set_option (map_option ssx_execution_id
        (qr_synchronous_execution (cn_request_records c ! i))))"
    using fold_clear_request[OF stranded_indices(3), of ended_at ?e c c "[]"] c1 by simp_all
  then have r: "c1 = c\<lparr>cn_request_records := map (interrupt_request ended_at ?e) (cn_request_records c)\<rparr>"
    and r1: "set released1 = {ssx_execution_id x |q x. q \<in> set (cn_request_records c) \<and> request_stranded q
       \<and> qr_synchronous_execution q = Some x}"
    unfolding requests_passed_def stranded_indices map_at_where
    by (auto simp: interrupt_request_def[abs_def] in_set_conv_nth)
  have t: "tasks_passed ended_at (set (snd (stranded c))) c1 c'"
    and rel: "set released = set released1 \<union> (\<lambda>i. st_execution_id (cn_tasks c1 ! i)) ` set (snd (stranded c))"
    using fold_clear_task[OF stranded_indices(4), of ended_at c c1 ?e released1] step by simp_all
  have tasks: "cn_tasks c1 = cn_tasks c" using r by simp
  show "c' = c\<lparr>cn_tasks := map (interrupt_if_stranded ended_at) (cn_tasks c),
                cn_request_records := cn_request_records c'\<rparr>"
    using t unfolding tasks_passed_def stranded_indices tasks map_at_where interrupt_if_stranded_def[abs_def]
    by (simp add: r)
  show "map no_expiry (cn_request_records c')
      = map (no_expiry \<circ> interrupt_request ended_at ?e) (cn_request_records c)"
    using t by (simp add: tasks_passed_def r comp_def)
  show "set released = stranded_ids c"
    unfolding rel r1 tasks stranded_indices stranded_ids_def by (auto simp: in_set_conv_nth)
qed

lemma request_stranded_no_expiry [simp]: "request_stranded (no_expiry q) = request_stranded q"
  by (simp add: request_stranded_def no_expiry_def)

lemma interrupted_not_stranded:
  "\<not> request_stranded (interrupt_request ended_at e q)" "\<not> task_stranded (interrupt_if_stranded ended_at t)"
  by (auto simp: request_stranded_def interrupt_request_def interrupt_synchronous_def task_stranded_def
      interrupt_if_stranded_def interrupt_task_def split: option.splits)

lemma cleared_parts:
  assumes "cleared_state s ended_at now_ms c = Ok c'"
  obtains ci released b where "interrupted_state ended_at now_ms c = (ci, released)"
    "checked_add (cn_store_revision c) 1 = Some (cn_store_revision c')"
    "c' = ci\<lparr>cn_reservations := filter (\<lambda>r. rv_execution_id r \<notin> set released) (cn_reservations c),
             cn_store_revision := cn_store_revision c'\<rparr>"
    "encode_json (sc_state s) ''JSON serialization failed'' c' = Ok b" "is_ok (decode_canonical_state s b)"
proof -
  obtain ci released where i: "interrupted_state ended_at now_ms c = (ci, released)" by fastforce
  have same: "cn_store_revision ci = cn_store_revision c" "cn_reservations ci = cn_reservations c"
    by (subst interrupted_state_fields(1)[OF i]; simp)+
  from assms i same show ?thesis
    by (auto simp: cleared_state_def Let_def rbind_eq_Ok_iff is_ok_iff intro!: that)
qed

lemma cleared_tasks:
  assumes "cleared_state s ended_at now_ms c = Ok c'"
  shows "cn_tasks c' = map (interrupt_if_stranded ended_at) (cn_tasks c)"
proof -
  obtain ci released where i: "interrupted_state ended_at now_ms c = (ci, released)"
    and c': "c' = ci\<lparr>cn_reservations := filter (\<lambda>r. rv_execution_id r \<notin> set released) (cn_reservations c),
             cn_store_revision := cn_store_revision c'\<rparr>"
    using cleared_parts[OF assms] by metis
  show ?thesis by (subst c', subst interrupted_state_fields(1)[OF i]) simp
qed

lemma cleared_whole:
  assumes "cleared_state s ended_at now_ms c = Ok c'"
  shows "stranded c' = ([], [])"
    and "unat (cn_store_revision c') = unat (cn_store_revision c) + 1"
    and "cn_reservations c' = filter (\<lambda>r. rv_execution_id r \<notin> stranded_ids c) (cn_reservations c)"
    and "map no_expiry (cn_request_records c')
         = map (no_expiry \<circ> interrupt_request ended_at (saturating_add now_ms 86400000)) (cn_request_records c)"
    and "c' = c\<lparr>cn_tasks := map (interrupt_if_stranded ended_at) (cn_tasks c),
        cn_request_records := cn_request_records c', cn_reservations := cn_reservations c',
        cn_store_revision := cn_store_revision c'\<rparr>"
proof -
  obtain ci released where i: "interrupted_state ended_at now_ms c = (ci, released)"
    and rev: "checked_add (cn_store_revision c) 1 = Some (cn_store_revision c')"
    and c': "c' = ci\<lparr>cn_reservations := filter (\<lambda>r. rv_execution_id r \<notin> set released) (cn_reservations c),
             cn_store_revision := cn_store_revision c'\<rparr>"
    using cleared_parts[OF assms] by metis
  note f = interrupted_state_fields[OF i]
  have records: "cn_request_records c' = cn_request_records ci" by (subst c') simp
  show five: "c' = c\<lparr>cn_tasks := map (interrupt_if_stranded ended_at) (cn_tasks c),
        cn_request_records := cn_request_records c', cn_reservations := cn_reservations c',
        cn_store_revision := cn_store_revision c'\<rparr>"
    by (subst c', subst f(1)) (simp add: records c'[symmetric], subst (2) c', simp)
  show "cn_reservations c' = filter (\<lambda>r. rv_execution_id r \<notin> stranded_ids c) (cn_reservations c)"
    by (subst c') (simp add: f(3))
  show four: "map no_expiry (cn_request_records c')
      = map (no_expiry \<circ> interrupt_request ended_at (saturating_add now_ms 86400000)) (cn_request_records c)"
    unfolding records by (rule f(2))
  show "unat (cn_store_revision c') = unat (cn_store_revision c) + 1"
    using unat_checked_add[OF rev] by simp
  have "\<not> request_stranded q" if "q \<in> set (cn_request_records c')" for q
  proof -
    have "no_expiry q \<in> set (map no_expiry (cn_request_records c'))" using that by simp
    then obtain p where "no_expiry q = no_expiry (interrupt_request ended_at (saturating_add now_ms 86400000) p)"
      unfolding four by auto
    then show ?thesis by (metis interrupted_not_stranded(1) request_stranded_no_expiry)
  qed
  with cleared_tasks[OF assms] show "stranded c' = ([], [])"
    by (auto simp: stranded_none_iff interrupted_not_stranded)
qed

text \<open>C15: Clearing the stranded executions leaves none: every synchronous execution still running and every
  Task (of no AutomationExecution) not yet terminal is interrupted at the given time, exactly their
  reservations are released and the revision grows by one; every other execution, Automation and
  artifact stays as it was, and only the expiry of requests changes besides.\<close>

theorem clear_leaves_none:
  assumes "cleared_state s ended_at now_ms c = Ok c'"
  shows "stranded c' = ([], [])
    \<and> unat (cn_store_revision c') = unat (cn_store_revision c) + 1
    \<and> cn_reservations c' = filter (\<lambda>r. rv_execution_id r \<notin> stranded_ids c) (cn_reservations c)
    \<and> map no_expiry (cn_request_records c')
         = map (no_expiry \<circ> interrupt_request ended_at (saturating_add now_ms 86400000)) (cn_request_records c)
    \<and> c' = c\<lparr>cn_tasks := map (interrupt_if_stranded ended_at) (cn_tasks c),
        cn_request_records := cn_request_records c', cn_reservations := cn_reservations c',
        cn_store_revision := cn_store_revision c'\<rparr>"
  by (intro conjI) (rule cleared_whole[OF assms])+

section \<open>A full history\<close>

definition task_open :: "('p, 'r) stored_task \<Rightarrow> bool" where
  "task_open t \<longleftrightarrow> st_state t \<in> {TaskCreated, TaskQueued, TaskRunning}"

lemma open_count:
  "length (filter (\<lambda>t. st_state t = TaskRunning) ts) + length (filter (\<lambda>t. st_state t \<in> {TaskCreated, TaskQueued}) ts)
   = length (filter task_open ts)"
  by (induction ts) (auto simp: task_open_def)

lemma open_after_interrupt:
  "length (filter task_open (map (interrupt_if_stranded ended_at) ts)) + length (filter task_stranded ts)
   = length (filter task_open ts)"
  by (induction ts) (auto simp: task_open_def interrupt_if_stranded_def interrupt_task_def task_stranded_def)

lemma terminal_tasks_open: "terminal_tasks c = length (cn_tasks c) - length (filter task_open (cn_tasks c))"
  unfolding terminal_tasks_def running_tasks_def queued_tasks_def open_count ..

lemma terminal_after_interrupt:
  assumes "cn_tasks c' = map (interrupt_if_stranded ended_at) (cn_tasks c)"
  shows "terminal_tasks c' = terminal_tasks c + length (filter task_stranded (cn_tasks c))"
  using open_after_interrupt[of ended_at "cn_tasks c"] length_filter_le[of task_open "cn_tasks c"]
  unfolding terminal_tasks_open assms length_map by linarith

lemma validate_canonical_terminal:
  assumes "validate_canonical k tc c n = Ok ()"
  shows "terminal_tasks c \<le> 500"
  using assms unfolding validate_canonical_def limit_err_def invalid_store_def
  by (auto split: if_splits)

text \<open>C16: With a full Task history the stranded executions cannot be cleared: when the settled Tasks of the
  store and its stranded Tasks together exceed 500, the rewritten state is refused by the check every
  state passes, whatever the clock says, so clearing is no way out of such a store.\<close>

theorem full_history_blocks_clearing:
  assumes codec: "\<And>v b. fc_encode (sc_state s) v = Some b \<Longrightarrow> fc_decode (sc_state s) b = Some v"
    and full: "terminal_tasks c + length (filter task_stranded (cn_tasks c)) > 500"
  shows "\<exists>e. cleared_state s ended_at now_ms c = Err e"
proof (cases "cleared_state s ended_at now_ms c")
  case (Inr c')
  obtain b where b: "encode_json (sc_state s) ''JSON serialization failed'' c' = Ok b"
    "is_ok (decode_canonical_state s b)"
    using cleared_parts[OF Inr] by metis
  from terminal_after_interrupt[OF cleared_tasks[OF Inr]] full have "terminal_tasks c' > 500" by simp
  moreover have "fc_decode (sc_state s) b = Some c'"
    using b(1) codec by (auto simp: encode_json_def)
  with b(2) have "\<exists>n. validate_canonical (sc_wire s) (sc_texts s) c' n = Ok ()"
    by (auto simp: decode_canonical_state_def validate_state_def is_ok_iff rbind_eq_Ok_iff split: if_splits)
  ultimately show ?thesis using validate_canonical_terminal by fastforce
qed simp

end
