(* ===== verification/Fault_Records.thy ===== *)
theory Fault_Records
  imports Store_Commit Text_Ops
begin

text \<open>
  The fault records of the four roles that run the program (\<open>rust/crates/persistence/src/fault.rs\<close>): one
  bounded JSON file per role under \<open>diagnostics\<close>, in which equal faults that follow one another are
  counted instead of repeated. JSON (serde), instants (chrono) and fresh identities (uuid) are
  parameters.
\<close>

section \<open>Records and files\<close>

abbreviation FAULT_RECORD_LIMIT :: nat where "FAULT_RECORD_LIMIT \<equiv> 64"
abbreviation FAULT_FILE_LIMIT_BYTES :: nat where "FAULT_FILE_LIMIT_BYTES \<equiv> 65536"
abbreviation FAULT_RETENTION_MS :: u64 where "FAULT_RETENTION_MS \<equiv> 604800000"
abbreviation FAULT_COALESCE_MS :: u64 where "FAULT_COALESCE_MS \<equiv> 60000"

datatype fault_role = RoleRuntime | RoleHost | RoleSupervisor | RoleMaintenance

fun fault_file_name :: "fault_role \<Rightarrow> string" where
  "fault_file_name RoleRuntime = ''runtime.json''"
| "fault_file_name RoleHost = ''host.json''"
| "fault_file_name RoleSupervisor = ''supervisor.json''"
| "fault_file_name RoleMaintenance = ''maintenance.json''"

record fault_record =
  ft_record_id :: uuid
  ft_at :: string
  ft_component :: string
  ft_code :: string
  ft_phase :: string
  ft_product_version :: string
  ft_boot_id :: uuid
  ft_runtime_instance_id :: "uuid option"
  ft_execution_id :: "execution_id option"
  ft_exit_code :: "i32 option"
  ft_signal :: "i32 option"
  ft_repeat_count :: u32

record fault_file =
  ff_schema_version :: nat
  ff_records :: "fault_record list"

definition fault_file_default :: fault_file where
  "fault_file_default = \<lparr>ff_schema_version = 1, ff_records = []\<rparr>"

definition bounded_ascii :: "string \<Rightarrow> nat \<Rightarrow> bool" where
  "bounded_ascii value maximum \<longleftrightarrow> value \<noteq> [] \<and> length value \<le> maximum \<and> is_ascii value"

definition validate_record :: "text_codec \<Rightarrow> fault_record \<Rightarrow> unit res" where
  "validate_record c r =
     (if timestamp_ms c (ft_at r) = None
        \<or> \<not> bounded_ascii (ft_component r) 64 \<or> \<not> bounded_ascii (ft_code r) 64
        \<or> \<not> bounded_ascii (ft_phase r) 64 \<or> \<not> bounded_ascii (ft_product_version r) 64
        \<or> ft_repeat_count r = 0
      then err_invalid ''fault record is invalid'' else Ok ())"

fun validate_records :: "text_codec \<Rightarrow> fault_record list \<Rightarrow> unit res" where
  "validate_records c [] = Ok ()"
| "validate_records c (r # rs) = rbind (validate_record c r) (\<lambda>_. validate_records c rs)"

definition validate_file :: "text_codec \<Rightarrow> fault_file \<Rightarrow> unit res" where
  "validate_file c file =
     (if ff_schema_version file \<noteq> 1 \<or> length (ff_records file) > FAULT_RECORD_LIMIT
      then err IoError ''fault file is corrupt'' else validate_records c (ff_records file))"

section \<open>Appending\<close>

text \<open>\<open>iter_mut().rev().find(..)\<close>: the last element that satisfies \<open>P\<close>.\<close>

definition last_position :: "('a \<Rightarrow> bool) \<Rightarrow> 'a list \<Rightarrow> nat option" where
  "last_position P xs = map_option (\<lambda>i. length xs - 1 - i) (position P (rev xs))"

definition within :: "text_codec \<Rightarrow> u64 \<Rightarrow> u64 \<Rightarrow> fault_record \<Rightarrow> bool" where
  "within c now_ms span item =
     (case timestamp_ms c (ft_at item) of None \<Rightarrow> False | Some at \<Rightarrow> saturating_sub now_ms at \<le> span)"

definition same_fault :: "fault_record \<Rightarrow> fault_record \<Rightarrow> bool" where
  "same_fault item r \<longleftrightarrow> ft_component item = ft_component r \<and> ft_code item = ft_code r
     \<and> ft_phase item = ft_phase r \<and> ft_runtime_instance_id item = ft_runtime_instance_id r"

definition merge_record ::
  "text_codec \<Rightarrow> u64 \<Rightarrow> fault_record \<Rightarrow> fault_record list \<Rightarrow> fault_record list" where
  "merge_record c now_ms r records =
     (case last_position (\<lambda>item. same_fault item r \<and> within c now_ms FAULT_COALESCE_MS item) records of
        Some i \<Rightarrow> records[i := (records ! i)\<lparr>
          ft_repeat_count := saturating_add (ft_repeat_count (records ! i)) 1, ft_at := ft_at r\<rparr>]
      | None \<Rightarrow> records @ [r\<lparr>ft_repeat_count := max (ft_repeat_count r) 1\<rparr>])"

text \<open>The oldest records go until the file fits its limit.\<close>

fun fit_file :: "fault_file file_codec \<Rightarrow> nat \<Rightarrow> fault_record list \<Rightarrow> fault_file res" where
  "fit_file k schema records =
     rbind (ok_or (fc_encode k \<lparr>ff_schema_version = schema, ff_records = records\<rparr>)
       (domain_error_new InternalError ''fault encoding failed'')) (\<lambda>encoded.
     if length encoded \<le> FAULT_FILE_LIMIT_BYTES then Ok \<lparr>ff_schema_version = schema, ff_records = records\<rparr>
     else case records of
       _ # r # rest \<Rightarrow> fit_file k schema (r # rest)
     | _ \<Rightarrow> err ResourceLimit ''fault record exceeds bounded file'')"

declare fit_file.simps [simp del]

definition appended_file ::
  "fault_file file_codec \<Rightarrow> text_codec \<Rightarrow> fault_record \<Rightarrow> u64 \<Rightarrow> fault_file \<Rightarrow> fault_file res" where
  "appended_file k c r now_ms file =
     rbind (validate_file c file) (\<lambda>_.
     let kept = filter (within c now_ms FAULT_RETENTION_MS) (ff_records file);
         merged = merge_record c now_ms r kept
     in fit_file k (ff_schema_version file) (drop (length merged - FAULT_RECORD_LIMIT) merged))"

definition diagnostics :: path where
  "diagnostics = [''diagnostics'']"

definition fault_append ::
  "fault_file file_codec \<Rightarrow> text_codec \<Rightarrow> fault_role \<Rightarrow> fault_record \<Rightarrow> u64 \<Rightarrow> (domain_error, unit) io" where
  "fault_append k c role r now_ms =
     io_bind (io_of (validate_record c r)) (\<lambda>_.
     if timestamp_ms c (ft_at r) \<noteq> Some now_ms
     then io_fail (domain_error_invalid ''fault record time does not match the writer clock'')
     else
       io_bind (read_json k (diagnostics @ [fault_file_name role])) (\<lambda>file.
       io_bind (io_of (appended_file k c r now_ms file)) (\<lambda>file.
       atomic_replace_json k diagnostics (fault_file_name role) file)))"

definition fault_read ::
  "fault_file file_codec \<Rightarrow> text_codec \<Rightarrow> fault_role \<Rightarrow> (domain_error, fault_file) io" where
  "fault_read k c role =
     io_bind (read_json k (diagnostics @ [fault_file_name role])) (\<lambda>file.
     io_bind (io_of (validate_file c file)) (\<lambda>_. io_return file))"

definition fs_is_dir :: "path \<Rightarrow> ('e, bool) io" where
  "fs_is_dir p = io_match (attempt (\<lambda>d. (Ok (p = [] \<or> entry_at d p = Some DirEntry), d)) untouched)
     (\<lambda>r. io_return (r = Ok True))"

fun initialize_roles ::
  "fault_file file_codec \<Rightarrow> text_codec \<Rightarrow> fault_role list \<Rightarrow> (domain_error, unit) io" where
  "initialize_roles k c [] = io_return ()"
| "initialize_roles k c (role # roles) =
     io_bind (fs_exists (diagnostics @ [fault_file_name role])) (\<lambda>present.
     io_bind (if present then io_bind (fault_read k c role) (\<lambda>_. io_return ())
              else atomic_replace_json k diagnostics (fault_file_name role) fault_file_default) (\<lambda>_.
     initialize_roles k c roles))"

definition initialize_all_by_apk ::
  "fault_file file_codec \<Rightarrow> text_codec \<Rightarrow> (domain_error, unit) io" where
  "initialize_all_by_apk k c =
     io_bind (fs_is_dir []) (\<lambda>present.
     if \<not> present then io_fail (domain_error_new NotFound ''canonical base does not exist'')
     else
       io_bind (io_map_err io_error (create_dir_all [] diagnostics)) (\<lambda>_.
       initialize_roles k c [RoleRuntime, RoleHost, RoleSupervisor, RoleMaintenance]))"

text \<open>
  A commit that could not be written is a fault of the Runtime's store. \<open>now\<close> is the clock in
  milliseconds with its canonical text, \<open>fresh\<close> a generated UUID's text, \<open>version\<close> the crate's.
\<close>

definition record_store_write_fault ::
  "fault_file file_codec \<Rightarrow> text_codec \<Rightarrow> int \<times> string \<Rightarrow> string \<Rightarrow> string \<Rightarrow> lifetime_lease \<Rightarrow>
   (domain_error, unit) io" where
  "record_store_write_fault k c now fresh version lease =
     (if fst now < 0 then io_fail (domain_error_new InternalError ''clock is before epoch'')
      else io_bind (io_of (map_err (\<lambda>_. domain_error_new InternalError ''UUID generation failed'')
          (uuid_parse c fresh))) (\<lambda>record_id.
        fault_append k c RoleRuntime
          \<lparr>ft_record_id = record_id, ft_at = snd now, ft_component = ''runtime_store'',
           ft_code = ''STORE_WRITE_FAILED'', ft_phase = ''commit'', ft_product_version = version,
           ft_boot_id = li_boot_id (le_live lease),
           ft_runtime_instance_id = Some (li_runtime_instance_id (le_live lease)),
           ft_execution_id = None, ft_exit_code = None, ft_signal = None, ft_repeat_count = 1\<rparr>
          (of_int (fst now))))"

section \<open>What an append leaves\<close>

lemma last_position_Some:
  assumes "last_position P xs = Some i"
  shows "i < length xs" and "P (xs ! i)" and "\<And>j. i < j \<Longrightarrow> j < length xs \<Longrightarrow> \<not> P (xs ! j)"
proof -
  obtain k where k: "position P (rev xs) = Some k" "i = length xs - 1 - k"
    using assms by (auto simp: last_position_def)
  note p = k(1)[unfolded position_Some_iff]
  show "i < length xs" using p k(2) by auto
  show "P (xs ! i)" using p k(2) by (auto simp: rev_nth)
  show "\<not> P (xs ! j)" if "i < j" "j < length xs" for j
  proof -
    have "length xs - 1 - j < k" using that p k(2) by auto
    with p have "\<not> P (rev xs ! (length xs - 1 - j))" by blast
    with that show ?thesis by (simp add: rev_nth)
  qed
qed

lemma fit_file_Ok:
  "fit_file k schema records = Ok file \<Longrightarrow>
   \<exists>n encoded. file = \<lparr>ff_schema_version = schema, ff_records = drop n records\<rparr> \<and> fc_encode k file = Some encoded
     \<and> length encoded \<le> FAULT_FILE_LIMIT_BYTES \<and> (records \<noteq> [] \<longrightarrow> n < length records)"
proof (induction k schema records rule: fit_file.induct)
  case (1 k schema records)
  obtain encoded where e: "fc_encode k \<lparr>ff_schema_version = schema, ff_records = records\<rparr> = Some encoded"
    using "1.prems" by (subst (asm) fit_file.simps) (auto simp: rbind_eq_Ok_iff)
  show ?case
  proof (cases "length encoded \<le> FAULT_FILE_LIMIT_BYTES")
    case True
    with "1.prems" e show ?thesis
      by (subst (asm) fit_file.simps) (auto intro!: exI[of _ 0])
  next
    case False
    with "1.prems" e obtain x r rest where rs: "records = x # r # rest" "fit_file k schema (r # rest) = Ok file"
      by (subst (asm) fit_file.simps) (auto split: list.splits)
    from "1.IH"[OF _ _ rs(1) refl rs(2)] e False obtain n encoded' where
      "file = \<lparr>ff_schema_version = schema, ff_records = drop n (r # rest)\<rparr>" "fc_encode k file = Some encoded'"
      "length encoded' \<le> FAULT_FILE_LIMIT_BYTES" "n < length (r # rest)" by auto
    with rs(1) show ?thesis by (intro exI[of _ "Suc n"] exI[of _ encoded']) auto
  qed
qed

lemma validate_records_all: "validate_records c rs = Ok () \<longleftrightarrow> (\<forall>r \<in> set rs. validate_record c r = Ok ())"
  by (induction rs) (auto simp: rbind_eq_Ok_iff)

lemma saturating_add_pos: "saturating_add n 1 \<noteq> 0" for n :: u32
  by (auto simp: saturating_add_def eq_neg_iff_add_eq_0[symmetric] unsigned_minus_1_eq_mask mask_eq_exp_minus_1)

lemma max_one: "n \<noteq> 0 \<Longrightarrow> max n 1 = n" for n :: u32
  by (simp add: max_absorb1 word_le_nat_alt Suc_le_eq unat_gt_0)

lemma merge_record_valid:
  assumes "\<forall>r \<in> set records. validate_record c r = Ok ()" and "validate_record c r = Ok ()"
  shows "\<forall>r \<in> set (merge_record c now_ms r records). validate_record c r = Ok ()"
proof (cases "last_position (\<lambda>item. same_fault item r \<and> within c now_ms FAULT_COALESCE_MS item) records")
  case None
  have "max (ft_repeat_count r) 1 \<noteq> 0" by (auto simp: max_def)
  with None assms show ?thesis by (auto simp: merge_record_def validate_record_def split: if_splits)
next
  case (Some i)
  then have "records ! i \<in> set records" using last_position_Some(1) by fastforce
  with assms(1) have "validate_record c (records ! i) = Ok ()" by blast
  with Some assms(2) have "validate_record c ((records ! i)\<lparr>
      ft_repeat_count := saturating_add (ft_repeat_count (records ! i)) 1, ft_at := ft_at r\<rparr>) = Ok ()"
    using saturating_add_pos by (auto simp: validate_record_def split: if_splits)
  with Some assms(1) show ?thesis
    by (auto simp: merge_record_def dest!: set_update_subset_insert[THEN subsetD])
qed

lemma appended_parts:
  assumes valid: "validate_record c r = Ok ()"
    and appended: "appended_file k c r now_ms file = Ok file'"
  shows "validate_file c file' = Ok ()"
    and "\<exists>encoded. fc_encode k file' = Some encoded \<and> length encoded \<le> FAULT_FILE_LIMIT_BYTES"
    and "\<exists>n. ff_records file' = drop n (merge_record c now_ms r
           (filter (within c now_ms FAULT_RETENTION_MS) (ff_records file)))"
    and "\<not> list_ex (\<lambda>item. same_fault item r \<and> within c now_ms FAULT_COALESCE_MS item)
            (filter (within c now_ms FAULT_RETENTION_MS) (ff_records file)) \<Longrightarrow>
         ff_records file' \<noteq> [] \<and> last (ff_records file') = r"
proof -
  let ?kept = "filter (within c now_ms FAULT_RETENTION_MS) (ff_records file)"
  let ?merged = "merge_record c now_ms r ?kept"
  have vf: "validate_file c file = Ok ()"
    and fit: "fit_file k (ff_schema_version file) (drop (length ?merged - FAULT_RECORD_LIMIT) ?merged) = Ok file'"
    using appended by (auto simp: appended_file_def rbind_eq_Ok_iff Let_def)
  have "?merged \<noteq> []"
    using last_position_Some(1) by (fastforce simp: merge_record_def split: option.splits)
  then have "length ?merged - FAULT_RECORD_LIMIT < length ?merged"
    by (intro diff_less) simp_all
  then have "drop (length ?merged - FAULT_RECORD_LIMIT) ?merged \<noteq> []" by simp
  with fit_file_Ok[OF fit] obtain n encoded where
    n: "file' = \<lparr>ff_schema_version = ff_schema_version file,
         ff_records = drop n (drop (length ?merged - FAULT_RECORD_LIMIT) ?merged)\<rparr>"
    and e: "fc_encode k file' = Some encoded" "length encoded \<le> FAULT_FILE_LIMIT_BYTES"
    and lt: "n < length (drop (length ?merged - FAULT_RECORD_LIMIT) ?merged)" by blast
  show "\<exists>encoded. fc_encode k file' = Some encoded \<and> length encoded \<le> FAULT_FILE_LIMIT_BYTES"
    using e by blast
  have records: "ff_records file' = drop (n + (length ?merged - FAULT_RECORD_LIMIT)) ?merged"
    unfolding n by simp
  then show "\<exists>n. ff_records file' = drop n ?merged" by blast
  have sub: "set (ff_records file') \<subseteq> set ?merged"
    unfolding records by (rule set_drop_subset)
  have len: "length (ff_records file') \<le> FAULT_RECORD_LIMIT"
    unfolding records length_drop by linarith
  have "validate_records c (ff_records file) = Ok ()"
    using vf by (simp add: validate_file_def split: if_splits)
  then have "\<forall>r \<in> set ?kept. validate_record c r = Ok ()" by (simp add: validate_records_all)
  from merge_record_valid[OF this valid] have "\<forall>r \<in> set ?merged. validate_record c r = Ok ()" .
  with sub have "validate_records c (ff_records file') = Ok ()"
    unfolding validate_records_all by blast
  moreover have "ff_schema_version file' = 1"
    using vf by (auto simp: n validate_file_def split: if_splits)
  ultimately show "validate_file c file' = Ok ()"
    using len by (simp add: validate_file_def)
  show "ff_records file' \<noteq> [] \<and> last (ff_records file') = r"
    if none: "\<not> list_ex (\<lambda>item. same_fault item r \<and> within c now_ms FAULT_COALESCE_MS item) ?kept"
  proof -
    have "last_position (\<lambda>item. same_fault item r \<and> within c now_ms FAULT_COALESCE_MS item) ?kept = None"
      using none by (auto simp: last_position_def position_None_iff list_ex_iff)
    moreover have "r\<lparr>ft_repeat_count := max (ft_repeat_count r) 1\<rparr> = r"
      using valid max_one by (simp add: validate_record_def split: if_splits)
    ultimately have "?merged = ?kept @ [r]" by (simp add: merge_record_def)
    with lt n show ?thesis by (auto simp: last_drop)
  qed
qed

text \<open> An appended fault file is always one the next append accepts: at most 64 valid records in at most
  65,536 bytes, the newest ones of what was recent enough to keep, and a fault that was not counted onto
  an earlier one is its last record.\<close>

lemma fault_append_bounded:
  assumes valid: "validate_record c r = Ok ()"
    and appended: "appended_file k c r now_ms file = Ok file'"
  shows "validate_file c file' = Ok ()
    \<and> (\<exists>encoded. fc_encode k file' = Some encoded \<and> length encoded \<le> FAULT_FILE_LIMIT_BYTES)
    \<and> (\<exists>n. ff_records file' = drop n (merge_record c now_ms r
           (filter (within c now_ms FAULT_RETENTION_MS) (ff_records file))))
    \<and> (list_ex (\<lambda>item. same_fault item r \<and> within c now_ms FAULT_COALESCE_MS item)
            (filter (within c now_ms FAULT_RETENTION_MS) (ff_records file))
       \<or> (ff_records file' \<noteq> [] \<and> last (ff_records file') = r))"
  using appended_parts[OF assms] by blast

end
