(* ===== verification/Stranded_Samples.thy ===== *)
theory Stranded_Samples
  imports Store_Samples Store_Stranded Fault_Records
begin

text \<open>Concrete runs at which the hypotheses of the properties of stranded executions and of fault records hold.\<close>

definition stranded_task_sample :: "(unit, unit) stored_task" where
  "stranded_task_sample = \<lparr>st_request_id = Some (UuidV4 ''R''), st_task_id = UuidV4 ''T'',
     st_execution_id = UuidV4 ''X'', st_state = TaskQueued, st_cancel_requested = False,
     st_tool = ToolCommand, st_action = ''run'', st_created_at = [], st_started_at = None,
     st_ended_at = None, st_waiting_reason = None,
     st_executor = Some \<lparr>er_host = ApkRuntime, er_provider = TokenShizuku, er_execution_class = ClassShizuku,
       er_capability_generation = 1, er_fence = \<lparr>fence_runtime_epoch = UuidV4 ''E'',
       fence_host_generation = 1, fence_runtime_instance_id = UuidV4 ''P''\<rparr>\<rparr>,
     st_route = Some (StoredCommand RunAsShell), st_payload = Some (), st_automation_owner = None,
     st_result = None, st_error = None, st_reserved_bytes = RESERVE_FLOOR_BYTES\<rparr>"

definition stranded_state_sample :: "(unit, unit, unit) canonical_state" where
  "stranded_state_sample = canonical_state_default\<lparr>
     cn_request_records := [\<lparr>qr_request_id = UuidV4 ''R'', qr_payload_sha256 = replicate 64 CHR ''a'',
       qr_expires_at_ms = None, qr_task_id = Some (UuidV4 ''T''), qr_synchronous_execution = None,
       qr_mutation_result = None\<rparr>],
     cn_tasks := [stranded_task_sample],
     cn_reservations := [\<lparr>rv_execution_id = UuidV4 ''X'', rv_request_id = Some (UuidV4 ''R''),
       rv_task_id = Some (UuidV4 ''T''), rv_reserved_bytes = RESERVE_FLOOR_BYTES\<rparr>]\<rparr>"

definition cleared_state_sample :: "(unit, unit, unit) canonical_state" where
  "cleared_state_sample = canonical_state_default\<lparr>
     cn_store_revision := 1,
     cn_request_records := [\<lparr>qr_request_id = UuidV4 ''R'', qr_payload_sha256 = replicate 64 CHR ''a'',
       qr_expires_at_ms = Some 86400005, qr_task_id = Some (UuidV4 ''T''), qr_synchronous_execution = None,
       qr_mutation_result = None\<rparr>],
     cn_tasks := [interrupt_task ''t'' stranded_task_sample]\<rparr>"

definition stranded_store :: "(unit, unit, unit) state_store" where
  "stranded_store = sample_store\<lparr>sc_state := \<lparr>
     fc_encode = (\<lambda>c. if c = cleared_state_sample then Some ''x'' else None),
     fc_decode = (\<lambda>b. if b = ''x'' then Some cleared_state_sample else None)\<rparr>\<rparr>"

lemma sample_stranded: "stranded stranded_state_sample = ([], [0])"
  by (simp add: stranded_def stranded_state_sample_def request_stranded_def task_stranded_def
      stranded_task_sample_def canonical_state_default_def)

lemma sample_interrupted:
  "interrupted_state ''t'' 5 stranded_state_sample
   = (cleared_state_sample\<lparr>cn_store_revision := 0, cn_reservations := cn_reservations stranded_state_sample\<rparr>,
      [UuidV4 ''X''])"
  unfolding interrupted_state_def sample_stranded
  by (simp add: clear_task_def expire_request_def saturating_add_def
      stranded_state_sample_def cleared_state_sample_def stranded_task_sample_def canonical_state_default_def
      interrupt_task_def)

lemma sample_digest: "sha256_hex (replicate 64 CHR ''a'')"
  unfolding sha256_hex_def list_all_iff by (simp add: hex_lower_def less_eq_char_def)

lemma sample_cleared_runtime: "is_ok (runtime_of (sc_wire stranded_store) cleared_state_sample)"
  using sample_digest by (simp add: runtime_of_def cleared_state_sample_def canonical_state_default_def stranded_task_sample_def
      interrupt_task_def task_into_runtime_def stored_task_valid_def stored_lifecycle_def rebuild_events_def
      stored_origin_def automation_records_def validate_reservations_def reservation_records_def
      check_request_record_def restore_dedup_def decide_and_reserve_def dedup_settle_def
      lifecycle_new_def lifecycle_apply_defs
      saturating_sub_def checked_add_def
      List.map_filter_simps tk_is_terminal_def tk_request_id_def)


lemma sample_cleared:
  "cleared_state stranded_store ''t'' 5 stranded_state_sample = Ok cleared_state_sample"
proof -
  have "validate_state stranded_store cleared_state_sample 1 = Ok ()"
    using sample_cleared_runtime
    by (simp add: validate_state_def validate_canonical_def cleared_state_sample_def canonical_state_default_def
        running_tasks_def queued_tasks_def terminal_tasks_def interrupt_task_def reservation_sum_def
        stranded_task_sample_def)
  then have "decode_canonical_state stranded_store ''x'' = Ok cleared_state_sample"
    by (simp add: decode_canonical_state_def stranded_store_def)
  moreover have "cleared_state_sample\<lparr>cn_store_revision := 0, cn_reservations := cn_reservations stranded_state_sample\<rparr>
      \<lparr>cn_reservations := [], cn_store_revision := 1\<rparr> = cleared_state_sample"
    by (simp add: cleared_state_sample_def canonical_state_default_def)
  ultimately show ?thesis
    unfolding cleared_state_def sample_interrupted
    by (simp add: stranded_state_sample_def encode_json_def stranded_store_def checked_add_def)
qed

lemma clear_leaves_none_witness:
  "stranded stranded_state_sample = ([], [0]) \<and> stranded cleared_state_sample = ([], [])"
  using clear_leaves_none[OF sample_cleared] sample_stranded by simp

definition crowded_state :: "(unit, unit, unit) canonical_state" where
  "crowded_state = canonical_state_default\<lparr>
     cn_tasks := stranded_task_sample # replicate 500 (interrupt_task ''t'' stranded_task_sample)\<rparr>"

lemma full_history_blocks_clearing_witness: "\<exists>e. cleared_state sample_store ''t'' 5 crowded_state = Err e"
proof (rule full_history_blocks_clearing)
  show "fc_decode (sc_state sample_store) b = Some v" if "fc_encode (sc_state sample_store) v = Some b" for v b
    using that state_codec_faithful by (simp add: codec_faithful_def)
  show "terminal_tasks crowded_state + length (filter task_stranded (cn_tasks crowded_state)) > 500"
    by (simp add: terminal_tasks_def running_tasks_def queued_tasks_def crowded_state_def
        interrupt_task_def task_stranded_def stranded_task_sample_def)
qed

definition fault_texts :: text_codec where
  "fault_texts = \<lparr>af_instant = (\<lambda>t. Some (t, 7)), af_uuid = (\<lambda>t. Some (4, t))\<rparr>"

definition fault_sample :: fault_record where
  "fault_sample = \<lparr>ft_record_id = UuidV4 ''U'', ft_at = ''t'', ft_component = ''c'', ft_code = ''d'',
     ft_phase = ''p'', ft_product_version = ''1'', ft_boot_id = UuidV4 ''B'', ft_runtime_instance_id = None,
     ft_execution_id = None, ft_exit_code = None, ft_signal = None, ft_repeat_count = 1\<rparr>"

lemma fault_append_bounded_witness:
  "validate_file fault_texts \<lparr>ff_schema_version = 1, ff_records = [fault_sample]\<rparr> = Ok ()"
proof -
  have "validate_record fault_texts fault_sample = Ok ()"
    by (simp add: validate_record_def fault_sample_def fault_texts_def timestamp_ms_def bounded_ascii_def
        is_ascii_def)
  moreover have "appended_file (constant_codec fault_file_default ''x'') fault_texts fault_sample 7 fault_file_default
      = Ok \<lparr>ff_schema_version = 1, ff_records = [fault_sample]\<rparr>"
    by (simp add: appended_file_def fault_file_default_def validate_file_def merge_record_def
        last_position_def fit_file.simps constant_codec_def fault_sample_def)
  ultimately show ?thesis using fault_append_bounded by blast
qed

end
