(* ===== verification/Visual_Scene.thy ===== *)
theory Visual_Scene
  imports Element_Step Runtime_State
begin

text \<open>
  What an observation of the screen holds and the checks a visual execution makes of it
  (\<open>rust/crates/runtime/src/visual.rs\<close>): displays, scene proofs, the identity of the node a coordinate
  reaches, and the bounds every answer of the device side must keep.
\<close>

section \<open>Scenes\<close>

abbreviation VISUAL_OBSERVATION_TTL_MS :: u64 where "VISUAL_OBSERVATION_TTL_MS \<equiv> 300000"
abbreviation VISUAL_MAX_NODES :: u32 where "VISUAL_MAX_NODES \<equiv> 5000"
abbreviation VISUAL_MAX_IMAGE_BYTES :: nat where "VISUAL_MAX_IMAGE_BYTES \<equiv> 8388608"
abbreviation VISUAL_MAX_TEXT_BYTES :: nat where "VISUAL_MAX_TEXT_BYTES \<equiv> 65536"
abbreviation VISUAL_MAX_NODE_TEXT_BYTES :: nat where "VISUAL_MAX_NODE_TEXT_BYTES \<equiv> 4096"

record visual_display_snapshot =
  vd_display :: display_geometry
  vd_display_generation :: u64

text \<open>The fields of \<open>Accessibility\<close> are the component generation, window, scene revision and digest.\<close>

datatype visual_scene_proof =
  ScenePrivileged string
| SceneAccessibility u64 i32 u64 string

record visual_target_identity =
  vt_text :: "string option"
  vt_content_description :: "string option"
  vt_resource_id :: "string option"
  vt_class_name :: "string option"
  vt_package_name :: "string option"
  vt_bounds :: node_bounds
  vt_clickable :: "bool option"
  vt_enabled :: "bool option"

definition target_identity_of :: "visual_node \<Rightarrow> visual_target_identity" where
  "target_identity_of node =
     \<lparr>vt_text = vn_text node, vt_content_description = vn_content_description node,
      vt_resource_id = vn_resource_id node, vt_class_name = vn_class_name node,
      vt_package_name = vn_package_name node, vt_bounds = vn_bounds node,
      vt_clickable = vn_clickable node, vt_enabled = vn_enabled node\<rparr>"

record visual_target =
  vg_max_nodes :: u32
  vg_package :: "string option"
  vg_node :: "visual_target_identity option"

definition visual_stale :: "string \<Rightarrow> domain_error" where
  "visual_stale reason = domain_error_new StaleReference reason"

abbreviation STALE_WINDOW :: string where "STALE_WINDOW \<equiv> ''visual window changed''"
abbreviation STALE_TARGET :: string where "STALE_TARGET \<equiv> ''visual target changed''"
abbreviation STALE_SCENE :: string where "STALE_SCENE \<equiv> ''visual scene changed''"
abbreviation STALE_EXPIRED :: string where "STALE_EXPIRED \<equiv> ''visual reference expired''"
abbreviation STALE_NO_WINDOW :: string where "STALE_NO_WINDOW \<equiv> ''visual observation has no foreground app''"
abbreviation STALE_LEASE :: string where "STALE_LEASE \<equiv> ''visual lease expired or was not issued''"

record visual_hierarchy_snapshot =
  vh_display :: visual_display_snapshot
  vh_foreground :: "foreground_fact option"
  vh_nodes :: "visual_node list"
  vh_truncated :: bool
  vh_proof :: visual_scene_proof

record visual_encoded_image =
  vi_bytes :: string
  vi_format :: image_format
  vi_width :: u32
  vi_height :: u32
  vi_captured_display :: "visual_display_snapshot option"

definition foreground_package :: "visual_hierarchy_snapshot \<Rightarrow> string option" where
  "foreground_package h = Option.bind (vh_foreground h) fo_package"

definition verify_foreground_package :: "visual_hierarchy_snapshot \<Rightarrow> string \<Rightarrow> unit res" where
  "verify_foreground_package fresh expected_package =
     (if foreground_package fresh = Some expected_package then Ok () else Err (visual_stale STALE_WINDOW))"

definition bounds_contain :: "node_bounds \<Rightarrow> u32 \<Rightarrow> u32 \<Rightarrow> bool" where
  "bounds_contain b x y \<longleftrightarrow> sint (nb_left b) \<le> uint x \<and> uint x < sint (nb_right b)
     \<and> sint (nb_top b) \<le> uint y \<and> uint y < sint (nb_bottom b)"

definition target_at :: "visual_node list \<Rightarrow> u32 \<Rightarrow> u32 \<Rightarrow> visual_target_identity option" where
  "target_at nodes x y =
     map_option target_identity_of (List.find (\<lambda>node. bounds_contain (vn_bounds node) x y) (rev nodes))"

definition verify_coordinate_scene ::
  "visual_hierarchy_snapshot \<Rightarrow> visual_scene_proof \<Rightarrow> string \<Rightarrow> u32 \<Rightarrow> u32 \<Rightarrow> visual_target option \<Rightarrow> unit res" where
  "verify_coordinate_scene fresh observed operation x y target =
     (case target of
        None \<Rightarrow> if vh_proof fresh = observed then Ok () else Err (visual_stale STALE_SCENE)
      | Some target \<Rightarrow>
          if foreground_package fresh \<noteq> vg_package target then Err (visual_stale STALE_WINDOW)
          else if operation \<noteq> ''swipe'' \<and> target_at (vh_nodes fresh) x y \<noteq> vg_node target
          then Err (visual_stale STALE_TARGET)
          else Ok ())"

section \<open>The bounds of an answer\<close>

definition validate_display :: "visual_display_snapshot \<Rightarrow> unit res" where
  "validate_display s =
     (if vd_display_generation s = 0 \<or> dg_width (vd_display s) = 0 \<or> dg_height (vd_display s) = 0
        \<or> dg_width (vd_display s) > 16384 \<or> dg_height (vd_display s) > 16384
        \<or> dg_rotation (vd_display s) \<notin> {0, 90, 180, 270}
        \<or> dg_density_dpi (vd_display s) = Some 0
      then err IoError ''visual display snapshot is invalid'' else Ok ())"

definition longer_than :: "nat \<Rightarrow> string option \<Rightarrow> bool" where
  "longer_than n text \<longleftrightarrow> (case text of None \<Rightarrow> False | Some t \<Rightarrow> length t > n)"

definition validate_node :: "visual_node \<Rightarrow> unit res" where
  "validate_node node =
     (if list_ex (longer_than VISUAL_MAX_NODE_TEXT_BYTES)
           [vn_text node, vn_content_description node, vn_resource_id node, vn_class_name node, vn_package_name node]
      then err IoError ''visual node text is invalid'' else Ok ())"

definition valid_sha256 :: "string \<Rightarrow> bool" where
  "valid_sha256 text \<longleftrightarrow> length text = 64 \<and> list_all (\<lambda>c. is_ascii_hexdigit c \<and> \<not> is_ascii_uppercase c) text"

text \<open>The nodes one after the other, with the references seen so far.\<close>

fun validate_nodes :: "provider_token \<Rightarrow> string list \<Rightarrow> visual_node list \<Rightarrow> string list res" where
  "validate_nodes provider refs [] = Ok refs"
| "validate_nodes provider refs (node # nodes) =
     rbind (validate_node node) (\<lambda>_.
     case vn_node_ref node of
       None \<Rightarrow> validate_nodes provider refs nodes
     | Some node_ref \<Rightarrow>
         if provider \<noteq> TokenAccessibility \<or> node_ref = [] \<or> length node_ref > 4096 \<or> node_ref \<in> set refs
         then err IoError ''visual node reference is invalid''
         else validate_nodes provider (node_ref # refs) nodes)"

definition valid_proof :: "visual_scene_proof \<Rightarrow> provider_token \<Rightarrow> string list \<Rightarrow> bool" where
  "valid_proof proof provider refs \<longleftrightarrow>
     (case proof of
        SceneAccessibility component_generation window_id scene_revision hierarchy_sha256 \<Rightarrow>
          provider = TokenAccessibility \<and> component_generation > 0 \<and> scene_revision > 0
          \<and> valid_sha256 hierarchy_sha256
      | ScenePrivileged hierarchy_sha256 \<Rightarrow>
          provider \<in> {TokenShizuku, TokenMagiskNative} \<and> valid_sha256 hierarchy_sha256 \<and> refs = [])"

definition validate_hierarchy ::
  "visual_hierarchy_snapshot \<Rightarrow> visual_display_snapshot \<Rightarrow> provider_token \<Rightarrow> unit res" where
  "validate_hierarchy h admitted provider =
     rbind (validate_display (vh_display h)) (\<lambda>_.
     if vh_display h \<noteq> admitted then err StaleAuthority ''visual hierarchy display changed''
     else if length (vh_nodes h) > unat VISUAL_MAX_NODES
     then err ResourceLimit ''visual hierarchy exceeds its bound''
     else if (case vh_foreground h of None \<Rightarrow> False
              | Some f \<Rightarrow> list_ex (longer_than 512) [fo_package f, fo_activity f])
     then err IoError ''visual foreground fact is invalid''
     else rbind (validate_nodes provider [] (vh_nodes h)) (\<lambda>refs.
       if valid_proof (vh_proof h) provider refs then Ok ()
       else err IoError ''visual hierarchy proof is invalid''))"

definition image_bytes_valid :: "image_format \<Rightarrow> string \<Rightarrow> bool" where
  "image_bytes_valid format b =
     (case format of
        Png \<Rightarrow> starts_with [CHR 0x89, CHR ''P'', CHR ''N'', CHR ''G'', CHR 0x0D, CHR 0x0A, CHR 0x1A, CHR 0x0A] b
      | Heic \<Rightarrow> length b \<ge> 12 \<and> take 4 (drop 4 b) = ''ftyp''
      | Jpeg \<Rightarrow> starts_with [CHR 0xFF, CHR 0xD8] b \<and> ends_with [CHR 0xFF, CHR 0xD9] b)"

definition validate_encoded_image :: "visual_encoded_image \<Rightarrow> unit res" where
  "validate_encoded_image picture =
     (if vi_bytes picture = [] \<or> length (vi_bytes picture) > VISUAL_MAX_IMAGE_BYTES
      then err ResourceLimit ''visual image exceeds its bound''
      else if \<not> image_bytes_valid (vi_format picture) (vi_bytes picture)
      then err IoError ''visual image bytes do not match their format''
      else Ok ())"

definition validate_captured_image :: "visual_encoded_image \<Rightarrow> visual_display_snapshot \<Rightarrow> unit res" where
  "validate_captured_image picture admitted =
     (if vi_captured_display picture \<noteq> Some admitted \<or> vi_width picture \<noteq> dg_width (vd_display admitted)
        \<or> vi_height picture \<noteq> dg_height (vd_display admitted)
      then err StaleAuthority ''visual image display changed''
      else validate_encoded_image picture)"

definition validate_transformed_image :: "visual_encoded_image \<Rightarrow> unit res" where
  "validate_transformed_image picture =
     (if vi_captured_display picture \<noteq> None \<or> vi_width picture = 0 \<or> vi_height picture = 0
        \<or> vi_width picture > 16384 \<or> vi_height picture > 16384
      then err IoError ''visual transform result is invalid''
      else validate_encoded_image picture)"

definition validate_scene_point :: "display_geometry \<Rightarrow> u32 \<Rightarrow> u32 \<Rightarrow> unit res" where
  "validate_scene_point display x y =
     (if x \<ge> dg_width display \<or> y \<ge> dg_height display
      then err_invalid ''visual coordinate lies outside the observation'' else Ok ())"

fun image_mime_of :: "image_format \<Rightarrow> string" where
  "image_mime_of Heic = ''image/heic''"
| "image_mime_of Jpeg = ''image/jpeg''"
| "image_mime_of Png = ''image/png''"

section \<open>Text and key input\<close>

text \<open>\<open>visual_input.rs\<close>: what the platform's \<open>input\<close> program delivers unchanged.\<close>

definition input_text_delivers :: "string \<Rightarrow> bool" where
  "input_text_delivers text \<longleftrightarrow>
     list_all (\<lambda>c. CHR 0x20 \<le> c \<and> c \<le> CHR 0x7E) text \<and> \<not> contains_text text ''%s''"

unbundle bit_operations_syntax

text \<open>The modifier families: generic, left and right bit, left and right key.\<close>

definition modifier_families :: "(i32 \<times> i32 \<times> i32 \<times> i32 \<times> i32) list" where
  "modifier_families = [(0x1, 0x40, 0x80, 59, 60), (0x2, 0x10, 0x20, 57, 58),
     (0x1000, 0x2000, 0x4000, 113, 114), (0x10000, 0x20000, 0x40000, 117, 118)]"

fun modifier_keys ::
  "i32 \<Rightarrow> (i32 \<times> i32 \<times> i32 \<times> i32 \<times> i32) list \<Rightarrow> i32 \<times> i32 list \<Rightarrow> i32 \<times> i32 list" where
  "modifier_keys meta_state [] found = found"
| "modifier_keys meta_state ((generic, left, right, left_key, right_key) # families) (remaining, keys) =
     (let family = meta_state AND (generic OR left OR right);
          remaining = remaining AND NOT (generic OR left OR right)
      in modifier_keys meta_state families (remaining,
           if family = 0 then keys
           else keys
             @ (if family AND left \<noteq> 0 \<or> (family AND generic \<noteq> 0 \<and> family AND right = 0) then [left_key] else [])
             @ (if family AND right \<noteq> 0 then [right_key] else [])))"

definition meta_modifier_keys :: "i32 \<Rightarrow> i32 list option" where
  "meta_modifier_keys meta_state =
     (case modifier_keys meta_state modifier_families (meta_state, []) of (remaining, keys) \<Rightarrow>
        if remaining = 0 then Some keys else None)"

lemma sample_modifiers:
  "meta_modifier_keys 0x1041 = Some [59, 113]" "meta_modifier_keys 0x80 = Some [60]"
  "meta_modifier_keys 0x100000 = None"
  by (simp_all add: meta_modifier_keys_def modifier_families_def)

section \<open>What passes the checks\<close>

lemma find_rev_lastD:
  "List.find P (rev xs) = Some x \<Longrightarrow> \<exists>ys zs. xs = ys @ x # zs \<and> P x \<and> (\<forall>z \<in> set zs. \<not> P z)"
proof (induction xs rule: rev_induct)
  case Nil
  then show ?case by simp
next
  case (snoc y xs)
  show ?case
  proof (cases "P y")
    case True
    with snoc.prems show ?thesis by (intro exI[of _ xs] exI[of _ "[]"]) simp
  next
    case False
    with snoc obtain ys zs where "xs = ys @ x # zs" "P x" "\<forall>z \<in> set zs. \<not> P z" by auto
    with False show ?thesis by (intro exI[of _ ys] exI[of _ "zs @ [y]"]) auto
  qed
qed

definition node_refs_of :: "visual_node list \<Rightarrow> string list" where
  "node_refs_of nodes = List.map_filter vn_node_ref nodes"

lemma node_refs_of_simps [simp]:
  "node_refs_of [] = []"
  "node_refs_of (n # ns) = (case vn_node_ref n of None \<Rightarrow> node_refs_of ns | Some r \<Rightarrow> r # node_refs_of ns)"
  by (simp_all add: node_refs_of_def List.map_filter_simps split: option.split)

lemma validate_nodes_refs:
  "validate_nodes provider refs nodes = Ok refs' \<Longrightarrow> distinct refs \<Longrightarrow>
   distinct (rev (node_refs_of nodes) @ refs) \<and> refs' = rev (node_refs_of nodes) @ refs
   \<and> (node_refs_of nodes \<noteq> [] \<longrightarrow> provider = TokenAccessibility)"
proof (induction nodes arbitrary: refs)
  case Nil
  then show ?case by simp
next
  case (Cons node nodes)
  show ?case
  proof (cases "vn_node_ref node")
    case None
    with Cons.prems(1) have "validate_nodes provider refs nodes = Ok refs'"
      by (simp add: rbind_eq_Ok_iff)
    from Cons.IH[OF this Cons.prems(2)] None show ?thesis by simp
  next
    case (Some r)
    with Cons.prems have r: "provider = TokenAccessibility" "distinct (r # refs)"
      "validate_nodes provider (r # refs) nodes = Ok refs'"
      by (simp_all add: rbind_eq_Ok_iff split: if_splits)
    from Cons.IH[OF r(3) r(2)] r(1) Some show ?thesis by simp
  qed
qed

end
