(* ===== verification/Visual_Cache.thy ===== *)
theory Visual_Cache
  imports Visual_Scene Ordered_Map
begin

text \<open>
  The observations a caller may refer back to and the lease on screen input: \<open>VisualObservationCache\<close>
  of \<open>rust/crates/runtime/src/visual.rs\<close>. Every operation is one critical section on the cache; the
  invariant ties the records to the maps that find them by a node reference or by an image reference.
\<close>

section \<open>Records\<close>

abbreviation VISUAL_OBSERVATION_LIMIT :: nat where "VISUAL_OBSERVATION_LIMIT \<equiv> 32"

record observed_nodes =
  on_max_nodes :: u32
  on_package :: "string option"
  on_nodes :: "visual_node list"

definition observed_target :: "observed_nodes \<Rightarrow> visual_target_identity option \<Rightarrow> visual_target" where
  "observed_target observed node =
     \<lparr>vg_max_nodes = on_max_nodes observed, vg_package = on_package observed, vg_node = node\<rparr>"

text \<open>A \<open>BTreeSet\<close> is its members in ascending order; \<open>pins\<close> is a 64-bit \<open>usize\<close>.\<close>

record visual_observation_record =
  vr_observation_id :: uuid
  vr_created_at_ms :: u64
  vr_display :: "visual_display_snapshot option"
  vr_hierarchy_executor :: "executor_record option"
  vr_proof :: "visual_scene_proof option"
  vr_observed :: "observed_nodes option"
  vr_foreground_package :: "string option"
  vr_node_refs :: "string list"
  vr_image_ref :: "string option"
  vr_pins :: u64

record visual_lease =
  vl_id :: uuid
  vl_ttl_ms :: u64
  vl_expires_at_ms :: u64

record visual_lease_result =
  lr_lease_id :: uuid
  lr_expires_in_ms :: u64

text \<open>\<open>last_input_at\<close> is an instant of the monotonic clock, in milliseconds.\<close>

record visual_cache =
  vc_lease :: "visual_lease option"
  vc_records :: "visual_observation_record btree_map"
  vc_node_owners :: "string btree_map"
  vc_image_owners :: "string btree_map"
  vc_last_input_at :: "nat option"

definition visual_cache_default :: visual_cache where
  "visual_cache_default = \<lparr>vc_lease = None, vc_records = [], vc_node_owners = [], vc_image_owners = [],
     vc_last_input_at = None\<rparr>"

definition stale_reference :: domain_error where
  "stale_reference = visual_stale STALE_EXPIRED"

section \<open>The lease\<close>

definition live_lease :: "u64 \<Rightarrow> visual_cache \<Rightarrow> visual_cache \<times> visual_lease option" where
  "live_lease now_ms cache =
     (let cache = (case vc_lease cache of
                     None \<Rightarrow> cache
                   | Some lease \<Rightarrow> if vl_expires_at_ms lease \<le> now_ms then cache\<lparr>vc_lease := None\<rparr> else cache)
      in (cache, vc_lease cache))"

definition lease_held_error :: domain_error where
  "lease_held_error = domain_error_new PermissionDenied ''screen input is leased to another caller''"

definition admit_interaction :: "uuid option \<Rightarrow> u64 \<Rightarrow> visual_cache \<Rightarrow> visual_cache \<times> unit res" where
  "admit_interaction presented now_ms cache =
     (case live_lease now_ms cache of (cache, lease) \<Rightarrow>
        case (lease, presented) of
          (None, None) \<Rightarrow> (cache, Ok ())
        | (None, Some _) \<Rightarrow> (cache, Err (visual_stale STALE_LEASE))
        | (Some lease, Some presented) \<Rightarrow>
            if vl_id lease = presented
            then (cache\<lparr>vc_lease := Some (lease\<lparr>vl_expires_at_ms := saturating_add now_ms (vl_ttl_ms lease)\<rparr>)\<rparr>,
                  Ok ())
            else (cache, Err lease_held_error)
        | (Some _, None) \<Rightarrow> (cache, Err lease_held_error))"

text \<open>\<open>new_uuid\<close> is what the random source of the process answers.\<close>

definition acquire_lease :: "uuid res \<Rightarrow> u64 \<Rightarrow> u64 \<Rightarrow> visual_cache \<Rightarrow> visual_cache \<times> visual_lease_result res" where
  "acquire_lease new_uuid ttl_ms now_ms cache =
     (case live_lease now_ms cache of (cache, lease) \<Rightarrow>
        if lease \<noteq> None then (cache, err AlreadyExists ''screen input is already leased'')
        else case new_uuid of
               Err e \<Rightarrow> (cache, Err e)
             | Ok i \<Rightarrow>
                 (cache\<lparr>vc_lease := Some \<lparr>vl_id = i, vl_ttl_ms = ttl_ms,
                          vl_expires_at_ms = saturating_add now_ms ttl_ms\<rparr>\<rparr>,
                  Ok \<lparr>lr_lease_id = i, lr_expires_in_ms = ttl_ms\<rparr>))"

definition release_lease :: "uuid \<Rightarrow> u64 \<Rightarrow> visual_cache \<Rightarrow> visual_cache \<times> visual_lease_result res" where
  "release_lease presented now_ms cache =
     (case live_lease now_ms cache of (cache, lease) \<Rightarrow>
        case lease of
          None \<Rightarrow> (cache, Err (visual_stale STALE_LEASE))
        | Some lease \<Rightarrow>
            if vl_id lease \<noteq> presented then (cache, Err lease_held_error)
            else (cache\<lparr>vc_lease := None\<rparr>, Ok \<lparr>lr_lease_id = presented, lr_expires_in_ms = 0\<rparr>))"

section \<open>The records\<close>

definition remove_owners :: "visual_observation_record \<Rightarrow> visual_cache \<Rightarrow> visual_cache" where
  "remove_owners r cache =
     (let cache = cache\<lparr>vc_node_owners := fold bt_remove (vr_node_refs r) (vc_node_owners cache)\<rparr>
      in case vr_image_ref r of
           None \<Rightarrow> cache
         | Some image_ref \<Rightarrow> cache\<lparr>vc_image_owners := bt_remove image_ref (vc_image_owners cache)\<rparr>)"

definition remove_record :: "string \<Rightarrow> visual_cache \<Rightarrow> visual_cache" where
  "remove_record key cache =
     (case bt_get (vc_records cache) key of
        None \<Rightarrow> cache
      | Some r \<Rightarrow> remove_owners r (cache\<lparr>vc_records := bt_remove key (vc_records cache)\<rparr>))"

definition record_expired :: "u64 \<Rightarrow> visual_observation_record \<Rightarrow> bool" where
  "record_expired now_ms r \<longleftrightarrow> saturating_sub now_ms (vr_created_at_ms r) \<ge> VISUAL_OBSERVATION_TTL_MS"

definition remove_expired :: "u64 \<Rightarrow> visual_cache \<Rightarrow> visual_cache" where
  "remove_expired now_ms cache =
     fold remove_record
       (map (\<lambda>r. as_str (vr_observation_id r))
          (filter (\<lambda>r. vr_pins r = 0 \<and> record_expired now_ms r) (map snd (vc_records cache))))
       cache"

definition created_before :: "visual_observation_record \<Rightarrow> visual_observation_record \<Rightarrow> bool" where
  "created_before a b \<longleftrightarrow> vr_created_at_ms a < vr_created_at_ms b
     \<or> vr_created_at_ms a = vr_created_at_ms b \<and> vr_observation_id a < vr_observation_id b"

text \<open>\<open>Iterator::min_by\<close>: of equal elements the first one.\<close>

fun min_by :: "('a \<Rightarrow> 'a \<Rightarrow> bool) \<Rightarrow> 'a list \<Rightarrow> 'a option" where
  "min_by before [] = None"
| "min_by before (x # xs) = Some (fold (\<lambda>y best. if before y best then y else best) xs x)"

definition evict_oldest :: "visual_cache \<Rightarrow> visual_cache \<times> unit res" where
  "evict_oldest cache =
     (if length (vc_records cache) \<ge> VISUAL_OBSERVATION_LIMIT
      then case min_by created_before (filter (\<lambda>r. vr_pins r = 0) (map snd (vc_records cache))) of
             None \<Rightarrow> (cache, err ResourceLimit ''all visual observations are pinned'')
           | Some oldest \<Rightarrow> (remove_record (as_str (vr_observation_id oldest)) cache, Ok ())
      else (cache, Ok ()))"

definition reserved_record :: "uuid \<Rightarrow> u64 \<Rightarrow> visual_observation_record" where
  "reserved_record observation_id now_ms =
     \<lparr>vr_observation_id = observation_id, vr_created_at_ms = now_ms, vr_display = None,
      vr_hierarchy_executor = None, vr_proof = None, vr_observed = None, vr_foreground_package = None,
      vr_node_refs = [], vr_image_ref = None, vr_pins = 1\<rparr>"

definition reserve_observation :: "uuid \<Rightarrow> u64 \<Rightarrow> visual_cache \<Rightarrow> visual_cache \<times> unit res" where
  "reserve_observation observation_id now_ms cache =
     (case evict_oldest (remove_expired now_ms cache) of
        (cache, Err e) \<Rightarrow> (cache, Err e)
      | (cache, Ok _) \<Rightarrow>
          let key = as_str observation_id
          in if bt_contains (vc_records cache) key
             then (cache, err InternalError ''visual observation identity is duplicated'')
             else (cache\<lparr>vc_records := bt_insert key (reserved_record observation_id now_ms) (vc_records cache)\<rparr>,
                   Ok ()))"

definition complete_observation :: "visual_observation_record \<Rightarrow> visual_cache \<Rightarrow> visual_cache" where
  "complete_observation r cache =
     (let key = as_str (vr_observation_id r);
          cache = (case bt_get (vc_records cache) key of None \<Rightarrow> cache | Some previous \<Rightarrow> remove_owners previous cache);
          cache = cache\<lparr>vc_node_owners := fold (\<lambda>node_ref. bt_insert node_ref key) (vr_node_refs r)
                     (vc_node_owners cache)\<rparr>;
          cache = (case vr_image_ref r of
                     None \<Rightarrow> cache
                   | Some image_ref \<Rightarrow> cache\<lparr>vc_image_owners := bt_insert image_ref key (vc_image_owners cache)\<rparr>)
      in cache\<lparr>vc_records := bt_insert key r (vc_records cache)\<rparr>)"

definition fail_reservation :: "uuid \<Rightarrow> visual_cache \<Rightarrow> visual_cache" where
  "fail_reservation observation_id = remove_record (as_str observation_id)"

definition pin_key :: "string \<Rightarrow> u64 \<Rightarrow> visual_cache \<Rightarrow> visual_cache \<times> visual_observation_record res" where
  "pin_key key now_ms cache =
     (case bt_get (vc_records cache) key of
        None \<Rightarrow> (remove_record key cache, Err stale_reference)
      | Some r \<Rightarrow>
          if record_expired now_ms r then (remove_record key cache, Err stale_reference)
          else case checked_add (vr_pins r) 1 of
                 None \<Rightarrow> (cache, err ResourceLimit ''visual observation pin overflow'')
               | Some pins \<Rightarrow>
                   let r = r\<lparr>vr_pins := pins\<rparr>
                   in (cache\<lparr>vc_records := bt_insert key r (vc_records cache)\<rparr>, Ok r))"

definition pin_observation :: "uuid \<Rightarrow> u64 \<Rightarrow> visual_cache \<Rightarrow> visual_cache \<times> visual_observation_record res" where
  "pin_observation observation_id = pin_key (as_str observation_id)"

definition pin_node :: "string \<Rightarrow> u64 \<Rightarrow> visual_cache \<Rightarrow> visual_cache \<times> visual_observation_record res" where
  "pin_node node_ref now_ms cache =
     (case bt_get (vc_node_owners cache) node_ref of
        None \<Rightarrow> (cache, Err stale_reference)
      | Some key \<Rightarrow> pin_key key now_ms cache)"

definition pin_image :: "string \<Rightarrow> u64 \<Rightarrow> visual_cache \<Rightarrow> visual_cache \<times> visual_observation_record option" where
  "pin_image image_ref now_ms cache =
     (case bt_get (vc_image_owners cache) image_ref of
        None \<Rightarrow> (cache, None)
      | Some key \<Rightarrow>
          case pin_key key now_ms cache of (cache, r) \<Rightarrow>
            (cache, case r of Ok r \<Rightarrow> Some r | Err _ \<Rightarrow> None))"

definition unpin :: "uuid \<Rightarrow> visual_cache \<Rightarrow> visual_cache" where
  "unpin observation_id cache =
     (case bt_get (vc_records cache) (as_str observation_id) of
        None \<Rightarrow> cache
      | Some r \<Rightarrow> cache\<lparr>vc_records := bt_insert (as_str observation_id)
          (r\<lparr>vr_pins := saturating_sub (vr_pins r) 1\<rparr>) (vc_records cache)\<rparr>)"

section \<open>Histories\<close>

text \<open>
  One critical section on the cache, with the time its execution was admitted at and whether it
  succeeded: a completion succeeds when it finds its reservation. Executions interleave, so the times
  of a history are in no order.
\<close>

datatype visual_op =
  OpReserve uuid
| OpComplete visual_observation_record
| OpFail uuid
| OpPinObservation uuid
| OpPinNode string
| OpPinImage string
| OpUnpin uuid
| OpInteract "uuid option"
| OpAcquire "uuid res" u64
| OpRelease uuid
| OpInput nat

fun visual_op_step :: "u64 \<Rightarrow> visual_op \<Rightarrow> visual_cache \<Rightarrow> visual_cache \<times> bool" where
  "visual_op_step now_ms (OpReserve i) cache = map_prod id is_ok (reserve_observation i now_ms cache)"
| "visual_op_step now_ms (OpComplete r) cache =
     (complete_observation r cache, bt_contains (vc_records cache) (as_str (vr_observation_id r)))"
| "visual_op_step now_ms (OpFail i) cache = (fail_reservation i cache, True)"
| "visual_op_step now_ms (OpPinObservation i) cache = map_prod id is_ok (pin_observation i now_ms cache)"
| "visual_op_step now_ms (OpPinNode node_ref) cache = map_prod id is_ok (pin_node node_ref now_ms cache)"
| "visual_op_step now_ms (OpPinImage image_ref) cache =
     map_prod id (\<lambda>r. r \<noteq> None) (pin_image image_ref now_ms cache)"
| "visual_op_step now_ms (OpUnpin i) cache = (unpin i cache, True)"
| "visual_op_step now_ms (OpInteract presented) cache = map_prod id is_ok (admit_interaction presented now_ms cache)"
| "visual_op_step now_ms (OpAcquire new_uuid ttl_ms) cache =
     map_prod id is_ok (acquire_lease new_uuid ttl_ms now_ms cache)"
| "visual_op_step now_ms (OpRelease i) cache = map_prod id is_ok (release_lease i now_ms cache)"
| "visual_op_step now_ms (OpInput at) cache = (cache\<lparr>vc_last_input_at := Some at\<rparr>, True)"

fun visual_history :: "(u64 \<times> visual_op) list \<Rightarrow> visual_cache \<Rightarrow> visual_cache \<times> (visual_op \<times> bool) list" where
  "visual_history [] cache = (cache, [])"
| "visual_history ((now_ms, operation) # ops) cache =
     (case visual_op_step now_ms operation cache of (cache, succeeded) \<Rightarrow>
        map_prod id (Cons (operation, succeeded)) (visual_history ops cache))"

lemma map_prod_id_eq [simp]: "map_prod id f p = (a, b) \<longleftrightarrow> a = fst p \<and> b = f (snd p)"
  by (cases p) auto

section \<open>The owners of references\<close>

definition owned ::
  "(visual_observation_record \<Rightarrow> string set) \<Rightarrow> string btree_map \<Rightarrow> visual_observation_record btree_map \<Rightarrow> bool" where
  "owned refs owners records \<longleftrightarrow>
     (\<forall>n k. bt_get owners n = Some k \<longrightarrow> (\<exists>r. bt_get records k = Some r \<and> n \<in> refs r))"

definition cache_ok :: "visual_cache \<Rightarrow> bool" where
  "cache_ok cache \<longleftrightarrow> bt_invar (vc_records cache)
     \<and> (\<forall>k r. bt_get (vc_records cache) k = Some r \<longrightarrow> k = as_str (vr_observation_id r))
     \<and> owned (\<lambda>r. set (vr_node_refs r)) (vc_node_owners cache) (vc_records cache)
     \<and> owned (\<lambda>r. set_option (vr_image_ref r)) (vc_image_owners cache) (vc_records cache)"

lemma cache_ok_default: "cache_ok visual_cache_default"
  by (simp add: cache_ok_def visual_cache_default_def owned_def bt_get_def)

lemma bt_get_fold_remove: "bt_get (fold bt_remove ks m) k = (if k \<in> set ks then None else bt_get m k)"
  by (induction ks arbitrary: m) (auto simp: bt_get_remove)

lemma bt_get_fold_insert:
  "bt_get (fold (\<lambda>n. bt_insert n v) ns m) n' = (if n' \<in> set ns then Some v else bt_get m n')"
  by (induction ns arbitrary: m) (auto simp: bt_get_insert)

lemma remove_owners_fields [simp]:
  "vc_records (remove_owners r cache) = vc_records cache"
  "vc_lease (remove_owners r cache) = vc_lease cache"
  "bt_get (vc_node_owners (remove_owners r cache)) n
     = (if n \<in> set (vr_node_refs r) then None else bt_get (vc_node_owners cache) n)"
  "bt_get (vc_image_owners (remove_owners r cache)) n
     = (if n \<in> set_option (vr_image_ref r) then None else bt_get (vc_image_owners cache) n)"
  by (auto simp: remove_owners_def Let_def bt_get_fold_remove bt_get_remove split: option.splits)

text \<open>Owners lose the references of a record that goes or is replaced.\<close>

lemma owned_remove:
  assumes "owned refs owners records" "bt_get records key = Some r"
    and "\<And>n. bt_get owners' n = (if n \<in> refs r then None else bt_get owners n)"
  shows "owned refs owners' (bt_remove key records)"
  unfolding owned_def
proof (intro allI impI)
  fix n k assume n: "bt_get owners' n = Some k"
  then have n': "n \<notin> refs r" "bt_get owners n = Some k" by (auto simp: assms(3) split: if_splits)
  then obtain r' where r': "bt_get records k = Some r'" "n \<in> refs r'" using assms(1) by (auto simp: owned_def)
  with n' assms(2) have "k \<noteq> key" by auto
  with r' show "\<exists>r. bt_get (bt_remove key records) k = Some r \<and> n \<in> refs r" by (simp add: bt_get_remove)
qed

lemma owned_same_refs:
  assumes "owned refs owners records" "bt_get records key = Some r" "refs r' = refs r"
  shows "owned refs owners (bt_insert key r' records)"
  using assms by (fastforce simp: owned_def bt_get_insert)

lemma owned_complete:
  assumes "owned refs owners records"
    and "\<And>n. bt_get owners' n = (if n \<in> refs r then Some key else if n \<in> gone then None else bt_get owners n)"
    and "\<And>previous. bt_get records key = Some previous \<Longrightarrow> refs previous \<subseteq> gone"
  shows "owned refs owners' (bt_insert key r records)"
  unfolding owned_def
proof (intro allI impI)
  fix n k assume n: "bt_get owners' n = Some k"
  show "\<exists>r'. bt_get (bt_insert key r records) k = Some r' \<and> n \<in> refs r'"
  proof (cases "n \<in> refs r")
    case True
    with n assms(2) have "k = key" by simp
    with True show ?thesis by (simp add: bt_get_insert)
  next
    case False
    with n have n': "n \<notin> gone" "bt_get owners n = Some k" by (auto simp: assms(2) split: if_splits)
    then obtain r' where r': "bt_get records k = Some r'" "n \<in> refs r'" using assms(1) by (auto simp: owned_def)
    with n' assms(3) have "k \<noteq> key" by auto
    with r' show ?thesis by (simp add: bt_get_insert)
  qed
qed

section \<open>Every critical section keeps them\<close>

lemma cache_ok_remove_record:
  assumes "cache_ok cache"
  shows "cache_ok (remove_record key cache)"
proof (cases "bt_get (vc_records cache) key")
  case None
  with assms show ?thesis by (simp add: remove_record_def)
next
  case (Some r)
  have fields: "vc_records (remove_record key cache) = bt_remove key (vc_records cache)"
    using Some by (simp add: remove_record_def)
  have nodes: "owned (\<lambda>r. set (vr_node_refs r)) (vc_node_owners (remove_record key cache)) (bt_remove key (vc_records cache))"
    by (rule owned_remove[OF _ Some]) (use assms Some in \<open>simp_all add: remove_record_def cache_ok_def\<close>)
  have images: "owned (\<lambda>r. set_option (vr_image_ref r)) (vc_image_owners (remove_record key cache)) (bt_remove key (vc_records cache))"
    by (rule owned_remove[OF _ Some]) (use assms Some in \<open>simp_all add: remove_record_def cache_ok_def\<close>)
  show ?thesis
    using assms nodes images by (auto simp: cache_ok_def fields bt_invar_remove bt_get_remove split: if_splits)
qed

lemma cache_ok_fold_remove: "cache_ok cache \<Longrightarrow> cache_ok (fold remove_record keys cache)"
  by (induction keys arbitrary: cache) (simp_all add: cache_ok_remove_record)

lemma cache_ok_update_record:
  assumes "cache_ok cache" "bt_get (vc_records cache) key = Some r"
  shows "cache_ok (cache\<lparr>vc_records := bt_insert key (r\<lparr>vr_pins := pins\<rparr>) (vc_records cache)\<rparr>)"
proof -
  have "owned (\<lambda>r. set (vr_node_refs r)) (vc_node_owners cache) (bt_insert key (r\<lparr>vr_pins := pins\<rparr>) (vc_records cache))"
    "owned (\<lambda>r. set_option (vr_image_ref r)) (vc_image_owners cache) (bt_insert key (r\<lparr>vr_pins := pins\<rparr>) (vc_records cache))"
    by (rule owned_same_refs[OF _ assms(2)]; use assms(1) in \<open>simp add: cache_ok_def\<close>)+
  with assms show ?thesis by (auto simp: cache_ok_def bt_invar_insert bt_get_insert)
qed

lemma cache_ok_complete:
  assumes "cache_ok cache"
  shows "cache_ok (complete_observation r cache)"
proof -
  let ?key = "as_str (vr_observation_id r)"
  let ?gone = "\<lambda>refs. (case bt_get (vc_records cache) ?key of None \<Rightarrow> {} | Some previous \<Rightarrow> refs previous)"
  have fields: "vc_records (complete_observation r cache) = bt_insert ?key r (vc_records cache)"
    by (simp add: complete_observation_def Let_def split: option.split)
  have nodes: "owned (\<lambda>r. set (vr_node_refs r)) (vc_node_owners (complete_observation r cache)) (bt_insert ?key r (vc_records cache))"
    by (rule owned_complete[where gone = "?gone (\<lambda>r. set (vr_node_refs r))"])
      (use assms in \<open>auto simp: complete_observation_def Let_def cache_ok_def bt_get_fold_insert split: option.splits\<close>)
  have images: "owned (\<lambda>r. set_option (vr_image_ref r)) (vc_image_owners (complete_observation r cache)) (bt_insert ?key r (vc_records cache))"
    by (rule owned_complete[where gone = "?gone (\<lambda>r. set_option (vr_image_ref r))"])
      (use assms in \<open>auto simp: complete_observation_def Let_def cache_ok_def bt_get_insert split: option.splits\<close>)
  show ?thesis
    using assms nodes images by (auto simp: cache_ok_def fields bt_invar_insert bt_get_insert)
qed

lemma cache_ok_pin_key: "cache_ok cache \<Longrightarrow> cache_ok (fst (pin_key key now_ms cache))"
  by (auto simp: pin_key_def Let_def cache_ok_remove_record cache_ok_update_record split: option.split)

lemma cache_ok_lease: "cache_ok (cache\<lparr>vc_lease := l\<rparr>) = cache_ok cache"
  "cache_ok (cache\<lparr>vc_last_input_at := a\<rparr>) = cache_ok cache"
  by (simp_all add: cache_ok_def)

lemma cache_ok_evict: "cache_ok cache \<Longrightarrow> cache_ok (fst (evict_oldest cache))"
  by (simp add: evict_oldest_def cache_ok_remove_record split: option.split)

lemma cache_ok_reserve: "cache_ok cache \<Longrightarrow> cache_ok (fst (reserve_observation i now_ms cache))"
proof -
  assume ok: "cache_ok cache"
  obtain evicted answer where e: "evict_oldest (remove_expired now_ms cache) = (evicted, answer)" by fastforce
  have evicted: "cache_ok evicted"
    using cache_ok_evict[of "remove_expired now_ms cache"] cache_ok_fold_remove[OF ok] e
    by (simp add: remove_expired_def)
  have new: "cache_ok (evicted\<lparr>vc_records := bt_insert (as_str i) (reserved_record i now_ms) (vc_records evicted)\<rparr>)"
    if "\<not> bt_contains (vc_records evicted) (as_str i)"
  proof -
    have "owned refs owners (bt_insert (as_str i) (reserved_record i now_ms) (vc_records evicted))"
      if "owned refs owners (vc_records evicted)" for refs owners
      using that \<open>\<not> bt_contains (vc_records evicted) (as_str i)\<close>
      by (fastforce simp: owned_def bt_get_insert bt_contains_def)
    with evicted show ?thesis by (auto simp: cache_ok_def bt_invar_insert bt_get_insert reserved_record_def)
  qed
  show ?thesis
    using evicted new by (auto simp: reserve_observation_def e Let_def split: sum.split)
qed

lemma live_lease_cases:
  "live_lease now_ms cache = (cache\<lparr>vc_lease := None\<rparr>, None)
   \<or> (\<exists>l. live_lease now_ms cache = (cache, Some l) \<and> vc_lease cache = Some l \<and> now_ms < vl_expires_at_ms l)"
proof (cases "vc_lease cache")
  case None
  then have "cache\<lparr>vc_lease := None\<rparr> = cache" by simp
  with None show ?thesis by (simp add: live_lease_def)
qed (auto simp: live_lease_def)

lemma cache_ok_step: "cache_ok cache \<Longrightarrow> cache_ok (fst (visual_op_step now_ms operation cache))"
proof (cases operation)
  case (OpPinImage n)
  then show "cache_ok cache \<Longrightarrow> ?thesis"
    by (simp add: pin_image_def cache_ok_pin_key split_beta split: option.split)
next
  case (OpInteract p)
  then show "cache_ok cache \<Longrightarrow> ?thesis"
    using live_lease_cases[of now_ms cache] by (auto simp: admit_interaction_def cache_ok_lease split: option.split)
next
  case (OpAcquire u ttl)
  then show "cache_ok cache \<Longrightarrow> ?thesis"
    using live_lease_cases[of now_ms cache] by (auto simp: acquire_lease_def cache_ok_lease split: sum.split)
next
  case (OpRelease i)
  then show "cache_ok cache \<Longrightarrow> ?thesis"
    using live_lease_cases[of now_ms cache] by (auto simp: release_lease_def cache_ok_lease)
qed (auto simp: cache_ok_reserve cache_ok_complete fail_reservation_def cache_ok_remove_record
    pin_observation_def pin_node_def cache_ok_pin_key unpin_def cache_ok_update_record cache_ok_lease
    split: option.split)

lemma cache_ok_history: "cache_ok cache \<Longrightarrow> cache_ok (fst (visual_history ops cache))"
proof (induction ops cache rule: visual_history.induct)
  case (2 now_ms operation ops cache)
  then show ?case using cache_ok_step[of cache now_ms operation] by (auto split: prod.split)
qed simp

section \<open>References resolve\<close>

lemma pin_key_Ok:
  assumes "cache_ok cache" "pin_key key now_ms cache = (cache', Ok r)"
  shows "\<exists>old. bt_get (vc_records cache) key = Some old \<and> r = old\<lparr>vr_pins := vr_pins r\<rparr> \<and> 0 < vr_pins r
    \<and> \<not> record_expired now_ms r \<and> bt_get (vc_records cache') key = Some r \<and> key = as_str (vr_observation_id r)"
proof -
  obtain old pins where o: "bt_get (vc_records cache) key = Some old" "\<not> record_expired now_ms old"
    "checked_add (vr_pins old) 1 = Some pins" "r = old\<lparr>vr_pins := pins\<rparr>"
    "cache' = cache\<lparr>vc_records := bt_insert key r (vc_records cache)\<rparr>"
    using assms(2) by (auto simp: pin_key_def Let_def split: option.splits if_splits)
  have "unat pins = unat (vr_pins old) + 1" using unat_checked_add[OF o(3)] by simp
  then have "pins \<noteq> 0" by auto
  moreover have "key = as_str (vr_observation_id old)" using assms(1) o(1) by (simp add: cache_ok_def)
  moreover have "bt_get (vc_records cache') key = Some r" using o(5) by (simp add: bt_get_insert)
  moreover have "\<not> record_expired now_ms r" using o(2,4) by (simp add: record_expired_def)
  ultimately show ?thesis using o(1,4) by (simp add: word_gt_0)
qed

text \<open>
  C23: however the executions of the visual tool interleaved, a node reference that can be pinned leads
  to a record that lists this very node, that has not outlived its five minutes, and that from then on
  is pinned under its own identity. A reference to a replaced or evicted observation is refused, never
  resolved to another one.
\<close>

theorem node_reference_resolves:
  "case pin_node node_ref now_ms (fst (visual_history ops visual_cache_default)) of
     (cache, Err e) \<Rightarrow> True
   | (cache, Ok r) \<Rightarrow> node_ref \<in> set (vr_node_refs r) \<and> \<not> record_expired now_ms r \<and> 0 < vr_pins r
       \<and> bt_get (vc_records cache) (as_str (vr_observation_id r)) = Some r"
proof -
  let ?cache = "fst (visual_history ops visual_cache_default)"
  have ok: "cache_ok ?cache" by (rule cache_ok_history[OF cache_ok_default])
  obtain cache answer where p: "pin_node node_ref now_ms ?cache = (cache, answer)" by fastforce
  show ?thesis
  proof (cases answer)
    case (Inr r)
    obtain key where key: "bt_get (vc_node_owners ?cache) node_ref = Some key"
      "pin_key key now_ms ?cache = (cache, Ok r)"
      using p Inr by (auto simp: pin_node_def split: option.splits)
    obtain old where old: "bt_get (vc_records ?cache) key = Some old" "node_ref \<in> set (vr_node_refs old)"
      using ok key(1) unfolding cache_ok_def owned_def by blast
    have pinned: "r = old\<lparr>vr_pins := vr_pins r\<rparr>" "0 < vr_pins r" "\<not> record_expired now_ms r"
      "bt_get (vc_records cache) (as_str (vr_observation_id r)) = Some r"
      using pin_key_Ok[OF ok key(2)] old(1) by auto
    have "vr_node_refs r = vr_node_refs old" by (subst pinned(1)) simp
    with pinned old(2) show ?thesis by (simp add: p Inr)
  qed (simp add: p)
qed

section \<open>The number of records\<close>

definition room :: "visual_cache \<Rightarrow> bool" where
  "room cache \<longleftrightarrow> length (vc_records cache) \<le> VISUAL_OBSERVATION_LIMIT"

lemma min_by_in: "min_by before xs = Some x \<Longrightarrow> x \<in> set xs"
proof (cases xs)
  case (Cons a ys)
  have "fold (\<lambda>y best. if before y best then y else best) ys a \<in> insert a (set ys)" for a
    by (induction ys arbitrary: a) auto
  with Cons show "min_by before xs = Some x \<Longrightarrow> ?thesis" by auto
qed simp

lemma records_remove_record: "length (vc_records (remove_record key cache)) \<le> length (vc_records cache)"
  by (simp add: remove_record_def length_bt_remove split: option.split)

lemma records_remove_expired: "length (vc_records (remove_expired now_ms cache)) \<le> length (vc_records cache)"
proof -
  have "length (vc_records (fold remove_record keys cache)) \<le> length (vc_records cache)" for keys
    by (induction keys arbitrary: cache) (auto intro: order_trans[OF _ records_remove_record])
  then show ?thesis by (simp add: remove_expired_def)
qed

lemma evict_oldest_room:
  assumes "cache_ok cache" "room cache" "evict_oldest cache = (cache', Ok ())"
  shows "length (vc_records cache') < VISUAL_OBSERVATION_LIMIT"
proof (cases "length (vc_records cache) \<ge> VISUAL_OBSERVATION_LIMIT")
  case True
  then obtain oldest where oldest:
    "min_by created_before (filter (\<lambda>r. vr_pins r = 0) (map snd (vc_records cache))) = Some oldest"
    "cache' = remove_record (as_str (vr_observation_id oldest)) cache"
    using assms(3) by (auto simp: evict_oldest_def split: option.splits)
  obtain key where "(key, oldest) \<in> set (vc_records cache)" using min_by_in[OF oldest(1)] by auto
  with assms(1) have k: "bt_get (vc_records cache) key = Some oldest" by (simp add: cache_ok_def bt_get_in)
  with assms(1) have "bt_get (vc_records cache) (as_str (vr_observation_id oldest)) = Some oldest"
    by (simp add: cache_ok_def)
  from length_bt_remove_less[OF this] this oldest(2) assms(2) show ?thesis
    by (simp add: remove_record_def room_def)
next
  case False
  with assms(3) show ?thesis by (auto simp: evict_oldest_def)
qed

lemma room_reserve:
  assumes "cache_ok cache" "room cache"
  shows "room (fst (reserve_observation i now_ms cache))"
proof -
  let ?expired = "remove_expired now_ms cache"
  obtain evicted answer where e: "evict_oldest ?expired = (evicted, answer)" by fastforce
  have ok: "cache_ok ?expired" using cache_ok_fold_remove[OF assms(1)] by (simp add: remove_expired_def)
  have room: "room ?expired" using records_remove_expired[of now_ms cache] assms(2) by (simp add: room_def)
  have inv: "bt_invar (vc_records evicted)" using cache_ok_evict[OF ok] e by (simp add: cache_ok_def)
  show ?thesis
  proof (cases answer)
    case (Inl f)
    have "vc_records evicted = vc_records ?expired"
      using e Inl by (auto simp: evict_oldest_def split: option.splits if_splits)
    with room Inl e show ?thesis by (simp add: reserve_observation_def room_def)
  next
    case (Inr u)
    with e evict_oldest_room[OF ok room] have "length (vc_records evicted) < VISUAL_OBSERVATION_LIMIT" by simp
    with e Inr inv show ?thesis
      by (simp add: reserve_observation_def Let_def room_def length_bt_insert)
  qed
qed

lemma room_pin_key:
  assumes "cache_ok cache" "room cache"
  shows "room (fst (pin_key key now_ms cache))"
  using assms records_remove_record[of key cache]
  by (auto simp: pin_key_def Let_def room_def cache_ok_def length_bt_insert split: option.split)

lemma room_step:
  assumes "cache_ok cache" "room cache" "visual_op_step now_ms operation cache = (cache', succeeded)"
    and "succeeded \<or> \<not> (\<exists>r. operation = OpComplete r)"
  shows "room cache'"
proof (cases operation)
  case (OpReserve i)
  with assms show ?thesis using room_reserve[OF assms(1,2)] by auto
next
  case (OpComplete r)
  with assms show ?thesis
    by (auto simp: complete_observation_def Let_def room_def cache_ok_def length_bt_insert bt_contains_def
        split: option.splits)
next
  case (OpFail i)
  with assms show ?thesis
    using records_remove_record[of "as_str i" cache] by (simp add: fail_reservation_def room_def)
next
  case (OpPinObservation i)
  with assms show ?thesis using room_pin_key[OF assms(1,2)] by (auto simp: pin_observation_def)
next
  case (OpPinNode n)
  with assms show ?thesis
    using room_pin_key[OF assms(1,2)] by (auto simp: pin_node_def split: option.splits)
next
  case (OpPinImage n)
  with assms show ?thesis
    using room_pin_key[OF assms(1,2)] by (auto simp: pin_image_def split_beta split: option.splits)
next
  case (OpUnpin i)
  with assms show ?thesis
    by (auto simp: unpin_def room_def cache_ok_def length_bt_insert split: option.splits)
next
  case (OpInteract p)
  with assms show ?thesis
    using live_lease_cases[of now_ms cache] by (auto simp: admit_interaction_def room_def split: option.splits if_splits)
next
  case (OpAcquire u ttl)
  with assms show ?thesis
    using live_lease_cases[of now_ms cache] by (auto simp: acquire_lease_def room_def split: sum.splits)
next
  case (OpRelease i)
  with assms show ?thesis
    using live_lease_cases[of now_ms cache] by (auto simp: release_lease_def room_def split: if_splits)
next
  case (OpInput at)
  with assms show ?thesis by (auto simp: room_def)
qed

text \<open>A history in which every completion found its reservation.\<close>

definition completions_reserved :: "(visual_op \<times> bool) list \<Rightarrow> bool" where
  "completions_reserved = list_all (\<lambda>(operation, succeeded). succeeded \<or> \<not> (\<exists>r. operation = OpComplete r))"

lemma room_history:
  "cache_ok cache \<Longrightarrow> room cache \<Longrightarrow> completions_reserved (snd (visual_history ops cache)) \<Longrightarrow>
   room (fst (visual_history ops cache))"
proof (induction ops cache rule: visual_history.induct)
  case (2 now_ms operation ops cache)
  obtain cache' succeeded where s: "visual_op_step now_ms operation cache = (cache', succeeded)" by fastforce
  have ok: "cache_ok cache'" using cache_ok_step[OF 2(2), of now_ms operation] s by simp
  have "succeeded \<or> \<not> (\<exists>r. operation = OpComplete r)" "completions_reserved (snd (visual_history ops cache'))"
    using 2(4) s by (simp_all add: completions_reserved_def)
  with 2(1)[OF s[symmetric] ok] room_step[OF 2(2,3) s] s show ?case by simp
qed simp

text \<open>
  at most thirty-two observations are held at any time, however reservations, completions, failures
  and pins interleave, as long as every completion finds the reservation it was made for: a reservation
  beyond the limit first drops the expired observations and then the oldest that nobody uses.
\<close>

lemma observations_bounded:
  assumes "completions_reserved (snd (visual_history ops visual_cache_default))"
  shows "length (vc_records (fst (visual_history ops visual_cache_default))) \<le> VISUAL_OBSERVATION_LIMIT"
  using room_history[OF cache_ok_default _ assms] by (simp add: room_def visual_cache_default_def)

section \<open>The lease excludes others\<close>

definition holds_lease :: "uuid \<Rightarrow> u64 \<Rightarrow> visual_lease option \<Rightarrow> bool" where
  "holds_lease i until lease \<longleftrightarrow>
     (case lease of None \<Rightarrow> False | Some l \<Rightarrow> vl_id l = i \<and> until \<le> vl_expires_at_ms l)"

text \<open>What an operation that succeeded may have been while \<open>i\<close> holds the lease.\<close>

fun respects_lease :: "uuid \<Rightarrow> visual_op \<times> bool \<Rightarrow> bool" where
  "respects_lease i (OpInteract presented, succeeded) = (succeeded \<longrightarrow> presented = Some i)"
| "respects_lease i (OpAcquire _ _, succeeded) = (\<not> succeeded)"
| "respects_lease i (OpRelease _, succeeded) = (\<not> succeeded)"
| "respects_lease i _ = True"

lemma vc_lease_fold_remove: "vc_lease (fold remove_record keys cache) = vc_lease cache"
  by (induction keys arbitrary: cache) (simp_all add: remove_record_def split: option.split)

lemma vc_lease_remove: "vc_lease (remove_record key cache) = vc_lease cache"
  using vc_lease_fold_remove[of "[key]"] by simp

lemma vc_lease_kept:
  "vc_lease (fst (reserve_observation j now_ms cache)) = vc_lease cache"
  "vc_lease (complete_observation r cache) = vc_lease cache"
  "vc_lease (fst (pin_key key now_ms cache)) = vc_lease cache"
  "vc_lease (unpin j cache) = vc_lease cache"
proof -
  have e: "vc_lease (fst (evict_oldest (remove_expired now_ms cache))) = vc_lease cache"
    by (simp add: evict_oldest_def remove_expired_def vc_lease_fold_remove vc_lease_remove split: option.split)
  show "vc_lease (fst (reserve_observation j now_ms cache)) = vc_lease cache"
    using e by (auto simp: reserve_observation_def Let_def split: prod.split sum.split)
  show "vc_lease (complete_observation r cache) = vc_lease cache"
    by (simp add: complete_observation_def Let_def split: option.split)
  show "vc_lease (fst (pin_key key now_ms cache)) = vc_lease cache"
    by (simp add: pin_key_def Let_def vc_lease_remove split: option.split)
  show "vc_lease (unpin j cache) = vc_lease cache"
    by (simp add: unpin_def split: option.split)
qed

lemma saturating_add_mono: "a \<le> b \<Longrightarrow> saturating_add a c \<le> saturating_add b c" for a b c :: "'a::len word"
proof -
  assume "a \<le> b"
  then have ab: "unat a \<le> unat b" by (simp add: word_le_nat_alt)
  show ?thesis
  proof (cases "unat b + unat c < 2 ^ LENGTH('a)")
    case True
    with ab show ?thesis by (simp add: saturating_add_def word_le_nat_alt unat_word_ariths)
  next
    case False
    then show ?thesis by (simp add: saturating_add_def)
  qed
qed

lemma lease_step:
  assumes "holds_lease i until (vc_lease cache)" "now_ms < until"
    and "\<And>l. vc_lease cache = Some l \<Longrightarrow> until \<le> saturating_add now_ms (vl_ttl_ms l)"
    and "operation \<noteq> OpRelease i" "visual_op_step now_ms operation cache = (cache', succeeded)"
  shows "respects_lease i (operation, succeeded) \<and> holds_lease i until (vc_lease cache')
    \<and> map_option vl_ttl_ms (vc_lease cache') = map_option vl_ttl_ms (vc_lease cache)"
proof -
  obtain l where l: "vc_lease cache = Some l" "vl_id l = i" "until \<le> vl_expires_at_ms l"
    using assms(1) by (auto simp: holds_lease_def split: option.splits)
  with assms(2) have "now_ms < vl_expires_at_ms l" by (auto intro: less_le_trans)
  then have live: "live_lease now_ms cache = (cache, Some l)" using l(1) by (auto simp: live_lease_def)
  have kept: "holds_lease i until (vc_lease c) \<and> map_option vl_ttl_ms (vc_lease c) = map_option vl_ttl_ms (vc_lease cache)"
    if "vc_lease c = vc_lease cache" for c using assms(1) that by simp
  show ?thesis
  proof (cases operation)
    case (OpInteract p)
    with assms(3,5) l live show ?thesis
      by (cases p) (auto simp: admit_interaction_def holds_lease_def split: if_splits)
  next
    case (OpAcquire u ttl)
    with assms(1,5) live show ?thesis by (auto simp: acquire_lease_def)
  next
    case (OpRelease j)
    with assms(1,4,5) live l show ?thesis by (auto simp: release_lease_def split: if_splits)
  next
    case (OpReserve j)
    with assms(5) kept vc_lease_kept(1) show ?thesis by auto
  next
    case (OpComplete r)
    with assms(5) kept vc_lease_kept(2) show ?thesis by auto
  next
    case (OpFail j)
    with assms(5) kept vc_lease_remove show ?thesis by (auto simp: fail_reservation_def)
  next
    case (OpPinObservation j)
    with assms(5) kept vc_lease_kept(3) show ?thesis by (auto simp: pin_observation_def)
  next
    case (OpPinNode n)
    with assms(5) kept vc_lease_kept(3) show ?thesis by (auto simp: pin_node_def split: option.splits)
  next
    case (OpPinImage n)
    with assms(5) kept vc_lease_kept(3) show ?thesis
      by (auto simp: pin_image_def split_beta split: option.splits)
  next
    case (OpUnpin j)
    with assms(5) kept vc_lease_kept(4) show ?thesis by auto
  next
    case (OpInput at)
    then show ?thesis using kept[of cache'] assms(5) by auto
  qed
qed

lemma lease_history:
  assumes "holds_lease i until (vc_lease cache)" "vc_lease cache = Some l"
    and "list_all (\<lambda>(now_ms, operation). until \<le> saturating_add now_ms (vl_ttl_ms l) \<and> now_ms < until
      \<and> operation \<noteq> OpRelease i) ops"
  shows "list_all (respects_lease i) (snd (visual_history ops cache))"
  using assms
proof (induction ops cache arbitrary: l rule: visual_history.induct)
  case (2 now_ms operation ops cache)
  obtain cache' succeeded where s: "visual_op_step now_ms operation cache = (cache', succeeded)" by fastforce
  have t: "until \<le> saturating_add now_ms (vl_ttl_ms l)" "now_ms < until" "operation \<noteq> OpRelease i"
    "list_all (\<lambda>(now_ms, operation). until \<le> saturating_add now_ms (vl_ttl_ms l) \<and> now_ms < until
      \<and> operation \<noteq> OpRelease i) ops"
    using 2(4) by simp_all
  have step: "respects_lease i (operation, succeeded)" "holds_lease i until (vc_lease cache')"
    "map_option vl_ttl_ms (vc_lease cache') = map_option vl_ttl_ms (vc_lease cache)"
    using lease_step[OF 2(2) t(2) _ t(3) s] t(1) 2(3) by auto
  obtain l' where l': "vc_lease cache' = Some l'" "vl_ttl_ms l' = vl_ttl_ms l"
    using step(3) 2(3) by (cases "vc_lease cache'") auto
  have "list_all (respects_lease i) (snd (visual_history ops cache'))"
    by (rule 2(1)[OF s[symmetric] step(2) l'(1)]) (use t(4) l'(2) in simp)
  with step(1) s show ?case by simp
qed simp

text \<open>
  C22: a lease excludes every other caller. From the moment it is granted until its time has passed, over
  any interleaving of executions admitted in that time that does not release it, an interaction
  succeeds only if it presents the lease, no second lease is granted and no other release succeeds.
  An interaction that renews the lease never shortens this time, in whatever order the executions
  reach the cache.
\<close>

theorem lease_excludes_others:
  assumes "acquire_lease new_uuid ttl_ms now_ms cache = (leased, Ok lease)"
    and "list_all (\<lambda>(at, operation). now_ms \<le> at \<and> at < saturating_add now_ms ttl_ms
      \<and> operation \<noteq> OpRelease (lr_lease_id lease)) ops"
  shows "list_all (respects_lease (lr_lease_id lease)) (snd (visual_history ops leased))"
proof -
  let ?l = "\<lparr>vl_id = lr_lease_id lease, vl_ttl_ms = ttl_ms, vl_expires_at_ms = saturating_add now_ms ttl_ms\<rparr>"
  have l: "vc_lease leased = Some ?l"
    using assms(1) live_lease_cases[of now_ms cache] by (auto simp: acquire_lease_def split: sum.splits)
  have "holds_lease (lr_lease_id lease) (saturating_add now_ms ttl_ms) (vc_lease leased)"
    by (simp add: l holds_lease_def)
  moreover have "list_all (\<lambda>(at, operation). saturating_add now_ms ttl_ms \<le> saturating_add at (vl_ttl_ms ?l)
      \<and> at < saturating_add now_ms ttl_ms \<and> operation \<noteq> OpRelease (lr_lease_id lease)) ops"
    using assms(2) by (auto simp: list_all_iff saturating_add_mono)
  ultimately show ?thesis by (rule lease_history[OF _ l])
qed

section \<open>A sample\<close>

lemma sample_reserved:
  "completions_reserved (snd (visual_history
     [(1000, OpReserve (UuidV4 ''a'')), (1200, OpComplete (reserved_record (UuidV4 ''a'') 1000)),
      (1300, OpPinObservation (UuidV4 ''a''))] visual_cache_default))"
  by (simp add: completions_reserved_def visual_cache_default_def reserve_observation_def remove_expired_def
      evict_oldest_def Let_def bt_contains_def bt_get_def reserved_record_def complete_observation_def
      remove_owners_def pin_observation_def pin_key_def record_expired_def saturating_sub_def checked_add_def)

lemma observations_bounded_witness:
  "length (vc_records (fst (visual_history
     [(1000, OpReserve (UuidV4 ''a'')), (1200, OpComplete (reserved_record (UuidV4 ''a'') 1000)),
      (1300, OpPinObservation (UuidV4 ''a''))] visual_cache_default))) \<le> VISUAL_OBSERVATION_LIMIT"
  by (rule observations_bounded[OF sample_reserved])

lemma sample_lease:
  "acquire_lease (Ok (UuidV4 ''l'')) 60000 1000 visual_cache_default
     = (visual_cache_default\<lparr>vc_lease := Some \<lparr>vl_id = UuidV4 ''l'', vl_ttl_ms = 60000, vl_expires_at_ms = 61000\<rparr>\<rparr>,
        Ok \<lparr>lr_lease_id = UuidV4 ''l'', lr_expires_in_ms = 60000\<rparr>)"
  by (simp add: acquire_lease_def live_lease_def visual_cache_default_def saturating_add_def)

theorem lease_excludes_others_witness:
  "list_all (respects_lease (UuidV4 ''l'')) (snd (visual_history
     [(2000, OpInteract None), (3000, OpInteract (Some (UuidV4 ''l''))), (50000, OpAcquire (Ok (UuidV4 ''m'')) 1000)]
     (visual_cache_default\<lparr>vc_lease := Some \<lparr>vl_id = UuidV4 ''l'', vl_ttl_ms = 60000, vl_expires_at_ms = 61000\<rparr>\<rparr>)))"
  using lease_excludes_others[OF sample_lease, of
      "[(2000, OpInteract None), (3000, OpInteract (Some (UuidV4 ''l''))), (50000, OpAcquire (Ok (UuidV4 ''m'')) 1000)]"]
  by (simp add: saturating_add_def del: visual_history.simps)

end
