(* ===== verification/Visual_Interact.thy ===== *)
theory Visual_Interact
  imports Visual_Cache
begin

text \<open>
  How an interaction with the screen is aimed (\<open>execute_interact\<close>, \<open>interaction_target\<close> and
  \<open>expected_package\<close> of \<open>rust/crates/runtime/src/visual.rs\<close>): from the caller's input and the
  observation it refers to, to the request the device side is given.
\<close>

section \<open>Calls\<close>

record visual_observe_input =
  oi_include_image :: bool
  oi_include_nodes :: bool
  oi_max_nodes :: u32

record region =
  rg_x :: u32
  rg_y :: u32
  rg_width :: u32
  rg_height :: u32

datatype visual_source = SourcePath string | SourceContentUri string | SourceImageRef string

record visual_view_input =
  wi_source :: visual_source
  wi_region :: "region option"

datatype visual_lease_input = LeaseAcquire u64 | LeaseRelease uuid

datatype visual_call =
  CallObserve visual_observe_input
| CallView visual_view_input
| CallInteract visual_interact_input
| CallLease visual_lease_input

fun lease_id_of :: "visual_interact_input \<Rightarrow> uuid option" where
  "lease_id_of (VisualTap _ lease_id) = lease_id"
| "lease_id_of (VisualLongPress _ lease_id) = lease_id"
| "lease_id_of (VisualSwipe _ _ _ _ _ _ lease_id) = lease_id"
| "lease_id_of (VisualText _ _ _ lease_id) = lease_id"
| "lease_id_of (VisualKey _ _ _ lease_id) = lease_id"

fun visual_interaction_operation :: "visual_interact_input \<Rightarrow> string" where
  "visual_interaction_operation (VisualTap _ _) = ''tap''"
| "visual_interaction_operation (VisualLongPress _ _) = ''long_press''"
| "visual_interaction_operation (VisualSwipe _ _ _ _ _ _ _) = ''swipe''"
| "visual_interaction_operation (VisualText _ _ _ _) = ''text''"
| "visual_interaction_operation (VisualKey _ _ _ _) = ''key''"

fun visual_action :: "visual_call \<Rightarrow> string" where
  "visual_action (CallObserve _) = ''observe''"
| "visual_action (CallView _) = ''view''"
| "visual_action (CallInteract _) = ''interact''"
| "visual_action (CallLease _) = ''lease''"

fun interact_route :: "visual_interact_input \<Rightarrow> visual_route" where
  "interact_route (VisualTap (NodeTarget _) _) = AccessibilityNode"
| "interact_route (VisualLongPress (NodeTarget _) _) = AccessibilityNode"
| "interact_route (VisualText _ (Some _) _ _) = AccessibilityNode"
| "interact_route (VisualTap (CoordinateTarget _ _ _) _) = CoordinateInput"
| "interact_route (VisualLongPress (CoordinateTarget _ _ _) _) = CoordinateInput"
| "interact_route (VisualSwipe _ _ _ _ _ _ _) = CoordinateInput"
| "interact_route (VisualText _ None _ _) = FocusedText"
| "interact_route (VisualKey _ _ _ _) = KeyInput"

fun visual_executor_request :: "visual_call \<Rightarrow> visual_route" where
  "visual_executor_request (CallObserve _) = Display"
| "visual_executor_request (CallLease _) = Display"
| "visual_executor_request (CallView _) = Transform"
| "visual_executor_request (CallInteract input) = interact_route input"

fun validate_visual_input :: "visual_call \<Rightarrow> unit res" where
  "validate_visual_input (CallObserve input) =
     (if oi_include_nodes input \<and> \<not> (1 \<le> oi_max_nodes input \<and> oi_max_nodes input \<le> VISUAL_MAX_NODES)
      then err_invalid ''visual max_nodes is out of bounds'' else Ok ())"
| "validate_visual_input (CallView input) =
     (case wi_region input of
        None \<Rightarrow> Ok ()
      | Some r \<Rightarrow>
          if rg_width r = 0 \<or> rg_height r = 0
          then err_invalid ''visual region dimensions must be positive'' else Ok ())"
| "validate_visual_input (CallInteract (VisualSwipe _ _ _ _ _ duration_ms _)) =
     (if \<not> (1 \<le> duration_ms \<and> duration_ms \<le> 10000)
      then err_invalid ''visual swipe duration is out of bounds'' else Ok ())"
| "validate_visual_input (CallInteract (VisualText text _ _ _)) =
     (if length text > VISUAL_MAX_TEXT_BYTES then err_invalid ''visual text is out of bounds'' else Ok ())"
| "validate_visual_input _ = Ok ()"

section \<open>Requests to the device side\<close>

datatype visual_interaction_request =
  RequestNode uuid string string "string option" visual_display_snapshot visual_scene_proof
    \<comment> \<open>observation, node reference, operation, text, display, proof\<close>
| RequestCoordinate uuid string u32 u32 "u32 option" "u32 option" "u64 option" visual_display_snapshot
    visual_scene_proof "visual_target option"
    \<comment> \<open>observation, operation, from, to, duration, display, proof, target\<close>
| RequestFocusedText string "string option"
| RequestKey i32 i32 "string option"

datatype interaction_kind = TargetsCoordinate | TargetsNode | TargetsFocused

type_synonym 'a settled = "(execution_failure, 'a) result"

definition verified_failure :: "domain_error \<Rightarrow> execution_failure" where
  "verified_failure e = \<lparr>ef_error = e, ef_cleanup_verified = True\<rparr>"

definition verified :: "'a res \<Rightarrow> 'a settled" where
  "verified = map_err verified_failure"

definition fresh_or_stale :: "'a option \<Rightarrow> 'a settled" where
  "fresh_or_stale r = verified (ok_or r stale_reference)"

definition require_observation_executor ::
  "visual_observation_record \<Rightarrow> 'p admitted_execution \<Rightarrow> unit settled" where
  "require_observation_executor r execution =
     (if vr_hierarchy_executor r \<noteq> Some (ax_executor execution) then Err (verified_failure stale_reference)
      else Ok ())"

definition node_request ::
  "visual_observation_record \<Rightarrow> 'p admitted_execution \<Rightarrow> string \<Rightarrow> string \<Rightarrow> string option \<Rightarrow>
   visual_interaction_request settled" where
  "node_request r execution node_ref operation entered =
     rbind (require_observation_executor r execution) (\<lambda>_.
     rbind (fresh_or_stale (vr_display r)) (\<lambda>display.
     rbind (fresh_or_stale (vr_proof r)) (\<lambda>proof.
     Ok (RequestNode (vr_observation_id r) node_ref operation entered display proof))))"

definition point_request ::
  "visual_observation_record \<Rightarrow> 'p admitted_execution \<Rightarrow> string \<Rightarrow> u32 \<Rightarrow> u32 \<Rightarrow>
   visual_interaction_request settled" where
  "point_request r execution operation x y =
     rbind (require_observation_executor r execution) (\<lambda>_.
     rbind (fresh_or_stale (vr_display r)) (\<lambda>display.
     rbind (fresh_or_stale (vr_proof r)) (\<lambda>proof.
     rbind (verified (validate_scene_point (vd_display display) x y)) (\<lambda>_.
     Ok (RequestCoordinate (vr_observation_id r) operation x y None None None display proof
           (map_option (\<lambda>observed. observed_target observed (target_at (on_nodes observed) x y)) (vr_observed r)))))))"

definition swipe_request ::
  "visual_observation_record \<Rightarrow> 'p admitted_execution \<Rightarrow> u32 \<Rightarrow> u32 \<Rightarrow> u32 \<Rightarrow> u32 \<Rightarrow> u64 \<Rightarrow>
   visual_interaction_request settled" where
  "swipe_request r execution from_x from_y to_x to_y duration_ms =
     rbind (fresh_or_stale (vr_display r)) (\<lambda>display.
     rbind (require_observation_executor r execution) (\<lambda>_.
     rbind (fresh_or_stale (vr_proof r)) (\<lambda>proof.
     rbind (verified (validate_scene_point (vd_display display) from_x from_y)) (\<lambda>_.
     rbind (verified (validate_scene_point (vd_display display) to_x to_y)) (\<lambda>_.
     Ok (RequestCoordinate (vr_observation_id r) ''swipe'' from_x from_y (Some to_x) (Some to_y) (Some duration_ms)
           display proof (map_option (\<lambda>observed. observed_target observed None) (vr_observed r))))))))"

text \<open>The request is built from the pinned record; when it cannot be built, the pin is returned.\<close>

definition pinned_request ::
  "visual_cache \<times> visual_observation_record res \<Rightarrow>
   (visual_observation_record \<Rightarrow> visual_interaction_request settled) \<Rightarrow> interaction_kind \<Rightarrow>
   visual_cache \<times> (visual_interaction_request \<times> interaction_kind \<times> visual_observation_record option) settled" where
  "pinned_request pinned build kind =
     (case pinned of
        (cache, Err e) \<Rightarrow> (cache, Err (verified_failure e))
      | (cache, Ok r) \<Rightarrow>
          case build r of
            Ok request \<Rightarrow> (cache, Ok (request, kind, Some r))
          | Err f \<Rightarrow> (unpin (vr_observation_id r) cache, Err f))"

fun interaction_target_of ::
  "'p admitted_execution \<Rightarrow> u64 \<Rightarrow> point_target \<Rightarrow> string \<Rightarrow> visual_cache \<Rightarrow>
   visual_cache \<times> (visual_interaction_request \<times> interaction_kind \<times> visual_observation_record option) settled" where
  "interaction_target_of execution now_ms (NodeTarget node_ref) operation cache =
     pinned_request (pin_node node_ref now_ms cache) (\<lambda>r. node_request r execution node_ref operation None) TargetsNode"
| "interaction_target_of execution now_ms (CoordinateTarget observation_id x y) operation cache =
     pinned_request (pin_observation observation_id now_ms cache) (\<lambda>r. point_request r execution operation x y)
       TargetsCoordinate"

definition expected_package :: "u64 \<Rightarrow> uuid option \<Rightarrow> visual_cache \<Rightarrow> visual_cache \<times> string option settled" where
  "expected_package now_ms observation_id cache =
     (case observation_id of
        None \<Rightarrow> (cache, Ok None)
      | Some i \<Rightarrow>
          case pin_observation i now_ms cache of
            (cache, Err e) \<Rightarrow> (cache, Err (verified_failure e))
          | (cache, Ok r) \<Rightarrow>
              (unpin (vr_observation_id r) cache,
               case vr_foreground_package r of
                 None \<Rightarrow> Err (verified_failure (visual_stale STALE_NO_WINDOW))
               | Some p \<Rightarrow> Ok (Some p)))"

text \<open>The request of an interaction, what it targets, and the record pinned for it.\<close>

fun interaction_request ::
  "'p admitted_execution \<Rightarrow> u64 \<Rightarrow> visual_interact_input \<Rightarrow> visual_cache \<Rightarrow>
   visual_cache \<times> (visual_interaction_request \<times> interaction_kind \<times> visual_observation_record option) settled" where
  "interaction_request execution now_ms (VisualTap target _) cache =
     interaction_target_of execution now_ms target ''tap'' cache"
| "interaction_request execution now_ms (VisualLongPress target _) cache =
     interaction_target_of execution now_ms target ''long_press'' cache"
| "interaction_request execution now_ms (VisualSwipe observation_id from_x from_y to_x to_y duration_ms _) cache =
     pinned_request (pin_observation observation_id now_ms cache)
       (\<lambda>r. swipe_request r execution from_x from_y to_x to_y duration_ms) TargetsCoordinate"
| "interaction_request execution now_ms (VisualText entered (Some node_ref) _ _) cache =
     pinned_request (pin_node node_ref now_ms cache)
       (\<lambda>r. node_request r execution node_ref ''text'' (Some entered)) TargetsNode"
| "interaction_request execution now_ms (VisualText entered None observation_id _) cache =
     map_prod id (\<lambda>p. rbind p (\<lambda>expected. Ok (RequestFocusedText entered expected, TargetsFocused, None)))
       (expected_package now_ms observation_id cache)"
| "interaction_request execution now_ms (VisualKey key_code meta_state observation_id _) cache =
     map_prod id (\<lambda>p. rbind p (\<lambda>expected. Ok (RequestKey key_code meta_state expected, TargetsFocused, None)))
       (expected_package now_ms observation_id cache)"

section \<open>What a request rests on\<close>

text \<open>The observation the input names, as far as it names one itself.\<close>

fun named_observation :: "visual_interact_input \<Rightarrow> uuid option" where
  "named_observation (VisualTap (CoordinateTarget i _ _) _) = Some i"
| "named_observation (VisualLongPress (CoordinateTarget i _ _) _) = Some i"
| "named_observation (VisualSwipe i _ _ _ _ _ _) = Some i"
| "named_observation (VisualText _ None i _) = i"
| "named_observation (VisualKey _ _ i _) = i"
| "named_observation _ = None"

definition on_display :: "visual_display_snapshot \<Rightarrow> u32 \<Rightarrow> u32 \<Rightarrow> bool" where
  "on_display display x y \<longleftrightarrow> x < dg_width (vd_display display) \<and> y < dg_height (vd_display display)"

text \<open>
  A request is grounded in an observation of the cache: it aims at what this observation showed, with
  the executor that observed it.
\<close>

fun grounded ::
  "executor_record \<Rightarrow> visual_observation_record \<Rightarrow> visual_interaction_request \<Rightarrow> bool" where
  "grounded executor r (RequestNode i node_ref _ _ display proof) \<longleftrightarrow>
     i = vr_observation_id r \<and> node_ref \<in> set (vr_node_refs r) \<and> vr_hierarchy_executor r = Some executor
     \<and> vr_display r = Some display \<and> vr_proof r = Some proof"
| "grounded executor r (RequestCoordinate i operation from_x from_y to_x to_y _ display proof target) \<longleftrightarrow>
     i = vr_observation_id r \<and> vr_hierarchy_executor r = Some executor
     \<and> vr_display r = Some display \<and> vr_proof r = Some proof \<and> on_display display from_x from_y
     \<and> (case (to_x, to_y) of (Some x, Some y) \<Rightarrow> on_display display x y | _ \<Rightarrow> True)
     \<and> target = map_option (\<lambda>observed. observed_target observed
         (if operation = ''swipe'' then None else target_at (on_nodes observed) from_x from_y)) (vr_observed r)"
| "grounded executor r (RequestFocusedText _ expected) \<longleftrightarrow> expected \<noteq> None \<and> expected = vr_foreground_package r"
| "grounded executor r (RequestKey _ _ expected) \<longleftrightarrow> expected \<noteq> None \<and> expected = vr_foreground_package r"

text \<open>A request with no observation behind it names no application and touches no place.\<close>

fun ungrounded :: "visual_interaction_request \<Rightarrow> bool" where
  "ungrounded (RequestFocusedText _ expected) \<longleftrightarrow> expected = None"
| "ungrounded (RequestKey _ _ expected) \<longleftrightarrow> expected = None"
| "ungrounded _ \<longleftrightarrow> False"

lemma fresh_or_stale_Ok: "fresh_or_stale r = Ok x \<longleftrightarrow> r = Some x"
  by (cases r) (simp_all add: fresh_or_stale_def verified_def map_err_def)

lemma verified_Ok: "verified r = Ok x \<longleftrightarrow> r = Ok x"
  by (cases r) (simp_all add: verified_def map_err_def)

lemma require_executor_Ok:
  "require_observation_executor r execution = Ok u \<longleftrightarrow> vr_hierarchy_executor r = Some (ax_executor execution)"
  by (simp add: require_observation_executor_def)

lemma scene_point_Ok: "validate_scene_point (vd_display display) x y = Ok u \<longleftrightarrow> on_display display x y"
  by (auto simp: validate_scene_point_def on_display_def)

lemmas request_simps = rbind_eq_Ok_iff fresh_or_stale_Ok verified_Ok require_executor_Ok scene_point_Ok

lemma node_request_grounded:
  "node_request r execution node_ref operation entered = Ok request \<Longrightarrow> node_ref \<in> set (vr_node_refs r) \<Longrightarrow>
   grounded (ax_executor execution) r request"
  by (auto simp: node_request_def request_simps)

lemma point_request_grounded:
  "point_request r execution operation x y = Ok request \<Longrightarrow> operation \<noteq> ''swipe'' \<Longrightarrow>
   grounded (ax_executor execution) r request"
  by (auto simp: point_request_def request_simps)

lemma swipe_request_grounded:
  "swipe_request r execution fx fy tx ty d = Ok request \<Longrightarrow> grounded (ax_executor execution) r request"
  by (auto simp: swipe_request_def request_simps)

lemma pinned_request_Ok:
  assumes "pinned_request pinned build kind = (cache, Ok (request, k, p))"
  shows "\<exists>r. pinned = (cache, Ok r) \<and> build r = Ok request"
  using assms by (auto simp: pinned_request_def split: prod.splits sum.splits)

lemma pin_node_Ok:
  assumes "cache_ok cache" "pin_node node_ref now_ms cache = (cache', Ok r)"
  shows "\<exists>old. bt_get (vc_records cache) (as_str (vr_observation_id old)) = Some old \<and> r = old\<lparr>vr_pins := vr_pins r\<rparr>
    \<and> node_ref \<in> set (vr_node_refs old) \<and> \<not> record_expired now_ms old"
proof -
  obtain key where key: "bt_get (vc_node_owners cache) node_ref = Some key" "pin_key key now_ms cache = (cache', Ok r)"
    using assms(2) by (auto simp: pin_node_def split: option.splits)
  obtain old where old: "bt_get (vc_records cache) key = Some old" "node_ref \<in> set (vr_node_refs old)"
    using assms(1) key(1) unfolding cache_ok_def owned_def by blast
  have o: "r = old\<lparr>vr_pins := vr_pins r\<rparr>" "\<not> record_expired now_ms r" "key = as_str (vr_observation_id r)"
    using pin_key_Ok[OF assms(1) key(2)] old(1) by auto
  have "vr_created_at_ms r = vr_created_at_ms old" "vr_observation_id r = vr_observation_id old"
    by (subst o(1), simp)+
  with o old show ?thesis by (intro exI[of _ old]) (simp add: record_expired_def)
qed

lemma pin_observation_Ok:
  assumes "cache_ok cache" "pin_observation i now_ms cache = (cache', Ok r)"
  shows "\<exists>old. bt_get (vc_records cache) (as_str (vr_observation_id old)) = Some old \<and> r = old\<lparr>vr_pins := vr_pins r\<rparr>
    \<and> vr_observation_id old = i \<and> \<not> record_expired now_ms old"
proof -
  have p: "pin_key (as_str i) now_ms cache = (cache', Ok r)" using assms(2) by (simp add: pin_observation_def)
  obtain old where old: "bt_get (vc_records cache) (as_str i) = Some old" "r = old\<lparr>vr_pins := vr_pins r\<rparr>"
    "\<not> record_expired now_ms r" "as_str i = as_str (vr_observation_id r)"
    using pin_key_Ok[OF assms(1) p] by auto
  have "vr_created_at_ms r = vr_created_at_ms old" "vr_observation_id r = vr_observation_id old"
    by (subst old(2), simp)+
  with old show ?thesis by (intro exI[of _ old]) (simp add: record_expired_def)
qed

lemma grounded_pins: "grounded executor (r\<lparr>vr_pins := n\<rparr>) request \<longleftrightarrow> grounded executor r request"
  by (cases request) simp_all

text \<open>The observation a request was made from.\<close>

definition grounded_in ::
  "executor_record \<Rightarrow> u64 \<Rightarrow> visual_cache \<Rightarrow> visual_observation_record \<Rightarrow> visual_interaction_request \<Rightarrow> bool" where
  "grounded_in executor now_ms cache r request \<longleftrightarrow>
     bt_get (vc_records cache) (as_str (vr_observation_id r)) = Some r \<and> \<not> record_expired now_ms r
     \<and> grounded executor r request"

lemma pinned_node_grounded:
  assumes "cache_ok cache"
    and "pinned_request (pin_node node_ref now_ms cache) build kind = (cache', Ok (request, k, p))"
    and "\<And>r. build r = Ok request \<Longrightarrow> node_ref \<in> set (vr_node_refs r) \<Longrightarrow> grounded executor r request"
  shows "\<exists>r. grounded_in executor now_ms cache r request"
proof -
  obtain r where r: "pin_node node_ref now_ms cache = (cache', Ok r)" "build r = Ok request"
    using pinned_request_Ok[OF assms(2)] by blast
  obtain old where old: "bt_get (vc_records cache) (as_str (vr_observation_id old)) = Some old"
    "r = old\<lparr>vr_pins := vr_pins r\<rparr>" "node_ref \<in> set (vr_node_refs old)" "\<not> record_expired now_ms old"
    using pin_node_Ok[OF assms(1) r(1)] by blast
  have "vr_node_refs r = vr_node_refs old" by (subst old(2)) simp
  with assms(3)[OF r(2)] old(3) have "grounded executor r request" by simp
  then have "grounded executor old request" using old(2) grounded_pins by metis
  with old show ?thesis by (auto simp: grounded_in_def)
qed

lemma pinned_observation_grounded:
  assumes "cache_ok cache"
    and "pinned_request (pin_observation i now_ms cache) build kind = (cache', Ok (request, k, p))"
    and "\<And>r. build r = Ok request \<Longrightarrow> grounded executor r request"
  shows "\<exists>r. grounded_in executor now_ms cache r request \<and> vr_observation_id r = i"
proof -
  obtain r where r: "pin_observation i now_ms cache = (cache', Ok r)" "build r = Ok request"
    using pinned_request_Ok[OF assms(2)] by blast
  obtain old where old: "bt_get (vc_records cache) (as_str (vr_observation_id old)) = Some old"
    "r = old\<lparr>vr_pins := vr_pins r\<rparr>" "vr_observation_id old = i" "\<not> record_expired now_ms old"
    using pin_observation_Ok[OF assms(1) r(1)] by blast
  have "grounded executor old request" using assms(3)[OF r(2)] old(2) grounded_pins by metis
  with old show ?thesis by (auto simp: grounded_in_def)
qed

lemma expected_package_Ok:
  assumes "cache_ok cache" "expected_package now_ms named cache = (cache', Ok expected)"
  shows "(named = None \<and> expected = None)
    \<or> (\<exists>r. bt_get (vc_records cache) (as_str (vr_observation_id r)) = Some r \<and> \<not> record_expired now_ms r
         \<and> expected \<noteq> None \<and> expected = vr_foreground_package r \<and> named = Some (vr_observation_id r))"
proof (cases named)
  case None
  with assms(2) show ?thesis by (simp add: expected_package_def)
next
  case (Some i)
  obtain c r where r: "pin_observation i now_ms cache = (c, Ok r)" "expected = vr_foreground_package r" "expected \<noteq> None"
    using assms(2) Some by (auto simp: expected_package_def split: prod.splits sum.splits option.splits)
  obtain old where old: "bt_get (vc_records cache) (as_str (vr_observation_id old)) = Some old"
    "r = old\<lparr>vr_pins := vr_pins r\<rparr>" "vr_observation_id old = i" "\<not> record_expired now_ms old"
    using pin_observation_Ok[OF assms(1) r(1)] by blast
  have "vr_foreground_package r = vr_foreground_package old" by (subst old(2)) simp
  with old r Some show ?thesis by auto
qed

lemma interaction_request_grounded:
  assumes "cache_ok cache" "interaction_request execution now_ms input cache = (cache', Ok (request, kind, p))"
  shows "(\<exists>r. grounded_in (ax_executor execution) now_ms cache r request
         \<and> (named_observation input = None \<or> named_observation input = Some (vr_observation_id r)))
    \<or> (named_observation input = None \<and> ungrounded request)"
proof -
  have target: "\<exists>r. grounded_in (ax_executor execution) now_ms cache r request
      \<and> (case target of NodeTarget _ \<Rightarrow> True | CoordinateTarget i _ _ \<Rightarrow> vr_observation_id r = i)"
    if "interaction_target_of execution now_ms target operation cache = (cache', Ok (request, kind, p))"
      "operation \<noteq> ''swipe''" for target operation
  proof (cases target)
    case (NodeTarget n)
    from pinned_node_grounded[OF assms(1) that(1)[unfolded NodeTarget interaction_target_of.simps] node_request_grounded]
    show ?thesis by (simp add: NodeTarget)
  next
    case (CoordinateTarget i x y)
    from pinned_observation_grounded[OF assms(1) that(1)[unfolded CoordinateTarget interaction_target_of.simps]
        point_request_grounded[OF _ that(2)]]
    show ?thesis by (simp add: CoordinateTarget)
  qed
  show ?thesis
  proof (cases input)
    case (VisualTap t l)
    with assms(2) target[of t "''tap''"] show ?thesis by (cases t) auto
  next
    case (VisualLongPress t l)
    with assms(2) target[of t "''long_press''"] show ?thesis by (cases t) auto
  next
    case (VisualSwipe i fx fy tx ty d l)
    from pinned_observation_grounded[OF assms(1) assms(2)[unfolded VisualSwipe interaction_request.simps]
        swipe_request_grounded[where execution = execution and fx = fx and fy = fy and tx = tx and ty = ty and d = d]]
    show ?thesis by (auto simp: VisualSwipe)
  next
    case (VisualText t n i l)
    show ?thesis
    proof (cases n)
      case None
      obtain expected where e: "expected_package now_ms i cache = (cache', Ok expected)"
        "request = RequestFocusedText t expected"
        using assms(2) VisualText None by (cases "expected_package now_ms i cache") (auto simp: rbind_eq_Ok_iff)
      from expected_package_Ok[OF assms(1) e(1)] e(2) VisualText None show ?thesis
        by (auto simp: grounded_in_def)
    next
      case (Some r)
      from pinned_node_grounded[OF assms(1) assms(2)[unfolded VisualText Some interaction_request.simps]
          node_request_grounded[where execution = execution and node_ref = r and operation = "''text''" and entered = "Some t"]]
      show ?thesis by (simp add: VisualText Some)
    qed
  next
    case (VisualKey k m i l)
    obtain expected where e: "expected_package now_ms i cache = (cache', Ok expected)"
      "request = RequestKey k m expected"
      using assms(2) VisualKey by (cases "expected_package now_ms i cache") (auto simp: rbind_eq_Ok_iff)
    from expected_package_Ok[OF assms(1) e(1)] e(2) VisualKey show ?thesis by (auto simp: grounded_in_def)
  qed
qed


section \<open>Pins\<close>

lemma unpin_pin_key:
  assumes "cache_ok cache" "pin_key key now_ms cache = (cache', Ok r)"
  shows "unpin (vr_observation_id r) cache' = cache"
proof -
  obtain old pins where o: "bt_get (vc_records cache) key = Some old"
    "checked_add (vr_pins old) 1 = Some pins" "r = old\<lparr>vr_pins := pins\<rparr>"
    "cache' = cache\<lparr>vc_records := bt_insert key r (vc_records cache)\<rparr>"
    using assms(2) by (auto simp: pin_key_def Let_def split: option.splits if_splits)
  have key: "as_str (vr_observation_id r) = key" using assms(1) o(1,3) by (simp add: cache_ok_def)
  have "unat pins = unat (vr_pins old) + 1" using unat_checked_add[OF o(2)] by simp
  then have "saturating_sub pins 1 = vr_pins old" by (simp add: word_unat_eq_iff unat_saturating_sub)
  then have "r\<lparr>vr_pins := saturating_sub (vr_pins r) 1\<rparr> = old" using o(3) by simp
  moreover have "bt_insert key old (bt_insert key r (vc_records cache)) = vc_records cache"
    using assms(1) o(1)
    by (intro bt_ext) (auto simp: cache_ok_def bt_invar_insert bt_get_insert fun_eq_iff)
  ultimately show ?thesis using o(4) key by (simp add: unpin_def bt_get_insert)
qed

definition left_alone :: "visual_cache \<Rightarrow> visual_cache \<Rightarrow> bool" where
  "left_alone cache cache' \<longleftrightarrow> cache' = cache \<or> (\<exists>key. cache' = remove_record key cache)"

lemma pin_key_Err: "pin_key key now_ms cache = (cache', Err e) \<Longrightarrow> left_alone cache cache'"
  by (auto simp: pin_key_def left_alone_def Let_def split: option.splits if_splits)

definition pins_return ::
  "visual_cache \<Rightarrow> visual_cache \<times> (visual_interaction_request \<times> interaction_kind \<times> visual_observation_record option) settled \<Rightarrow> bool" where
  "pins_return before outcome \<longleftrightarrow>
     (case outcome of
        (cache, Err f) \<Rightarrow> left_alone before cache
      | (cache, Ok (request, kind, None)) \<Rightarrow> left_alone before cache
      | (cache, Ok (request, kind, Some r)) \<Rightarrow> unpin (vr_observation_id r) cache = before)"

lemma pinned_key_returns:
  assumes "cache_ok cache"
  shows "pins_return cache (pinned_request (pin_key key now_ms cache) build kind)"
proof (cases "pin_key key now_ms cache")
  case (Pair c answer)
  show ?thesis
  proof (cases answer)
    case (Inl e)
    with Pair pin_key_Err[of key now_ms cache c e] show ?thesis by (simp add: pinned_request_def pins_return_def)
  next
    case (Inr r)
    with Pair unpin_pin_key[OF assms, of key now_ms c r] show ?thesis
      by (simp add: pinned_request_def pins_return_def left_alone_def split: sum.split)
  qed
qed

lemma pinned_node_returns:
  "cache_ok cache \<Longrightarrow> pins_return cache (pinned_request (pin_node n now_ms cache) build kind)"
  by (cases "bt_get (vc_node_owners cache) n")
    (simp_all add: pin_node_def pinned_key_returns, simp add: pinned_request_def pins_return_def left_alone_def)

lemma pinned_observation_returns:
  "cache_ok cache \<Longrightarrow> pins_return cache (pinned_request (pin_observation i now_ms cache) build kind)"
  by (simp add: pin_observation_def pinned_key_returns)

lemma expected_package_left:
  assumes "cache_ok cache" "expected_package now_ms named cache = (cache', answer)"
  shows "left_alone cache cache'"
proof (cases named)
  case None
  with assms(2) show ?thesis by (simp add: expected_package_def left_alone_def)
next
  case (Some i)
  obtain c r where p: "pin_key (as_str i) now_ms cache = (c, r)" by fastforce
  with assms Some pin_key_Err[of "as_str i" now_ms cache c] unpin_pin_key[OF assms(1) , of "as_str i" now_ms c]
  show ?thesis by (cases r) (auto simp: expected_package_def pin_observation_def left_alone_def)
qed

lemma focused_returns:
  assumes "cache_ok cache"
  shows "pins_return cache (map_prod id (\<lambda>p. rbind p (\<lambda>expected. Ok (build expected, kind, None)))
    (expected_package now_ms named cache))"
proof (cases "expected_package now_ms named cache")
  case (Pair c answer)
  with expected_package_left[OF assms Pair] show ?thesis by (cases answer) (simp_all add: pins_return_def)
qed

lemma interaction_request_returns:
  assumes "cache_ok cache"
  shows "pins_return cache (interaction_request execution now_ms input cache)"
proof -
  have target: "pins_return cache (interaction_target_of execution now_ms target operation cache)" for target operation
    by (cases target) (simp_all add: pinned_node_returns[OF assms] pinned_observation_returns[OF assms])
  show ?thesis
  proof (cases input)
    case (VisualText t n i l)
    then show ?thesis by (cases n) (simp_all add: pinned_node_returns[OF assms] focused_returns[OF assms])
  qed (simp_all add: target pinned_observation_returns[OF assms] focused_returns[OF assms])
qed

text \<open>
  an interaction that is refused before it reaches the device leaves no pin behind: the cache is
  what it was, but for an observation that had expired and is now gone. Input for the focused window
  never keeps a pin, and the pin of any other request returns the cache exactly when it is undone.
\<close>

lemma refused_interaction_unpins:
  "pins_return (fst (visual_history ops visual_cache_default))
     (interaction_request execution now_ms input (fst (visual_history ops visual_cache_default)))"
  by (rule interaction_request_returns[OF cache_ok_history[OF cache_ok_default]])

end
