(* ===== verification/Visual_Tool.thy ===== *)
theory Visual_Tool
  imports Visual_Interact Sync_Sections
begin

text \<open>
  The executions of the visual tool (\<open>execute_visual\<close> and what it calls in
  \<open>rust/crates/runtime/src/visual.rs\<close>) and their admission. The device side, the artifact store and the
  clocks are parameters that act on the whole world: while a call to one of them runs, other executions
  may use the cache, so such a call may change it. The lock of the cache is never poisoned, since no
  critical section panics.
\<close>

section \<open>Admission\<close>

record visual_source_admission =
  so_executor :: "executor_record option"
  so_unavailable_reason :: "string option"

definition source_resolve :: "capability_snapshot \<Rightarrow> visual_route \<Rightarrow> visual_source_admission" where
  "source_resolve capability route =
     (case resolve_execution capability (RouteVisual route) of
        Ok executor \<Rightarrow> \<lparr>so_executor = Some (executor_record_from executor), so_unavailable_reason = None\<rparr>
      | Err e \<Rightarrow> \<lparr>so_executor = None, so_unavailable_reason = Some (error_code_token (de_code e))\<rparr>)"

definition source_validate :: "visual_source_admission \<Rightarrow> unit res" where
  "source_validate source =
     (if (so_executor source \<noteq> None) = (so_unavailable_reason source \<noteq> None)
      then err IoError ''visual source admission is invalid'' else Ok ())"

record visual_envelope =
  ve_call :: visual_call
  ve_admitted_at :: string
  ve_admitted_at_ms :: u64
  ve_image_source :: "visual_source_admission option"
  ve_hierarchy_source :: "visual_source_admission option"
  ve_path_source_executor :: "executor_record option"

datatype 'o visual_payload = PayloadVisual visual_envelope | PayloadOther 'o

text \<open>
  The admission \<open>handle_visual_public\<close> hands to \<open>run_synchronous\<close>. \<open>resolve_path\<close> is
  \<open>resolve_filesystem_executor\<close> for the inspection of a path, \<open>fresh_uuid\<close> the random source's answer.
\<close>

abbreviation VISUAL_ENVELOPE_LIMIT :: nat where "VISUAL_ENVELOPE_LIMIT \<equiv> 262144"

definition visual_admission ::
  "capability_snapshot res \<Rightarrow> (capability_snapshot \<Rightarrow> string \<Rightarrow> admitted_executor option res) \<Rightarrow> uuid res \<Rightarrow>
   request_id \<Rightarrow> string \<Rightarrow> visual_call \<Rightarrow> string \<Rightarrow> u64 \<Rightarrow> 'o visual_payload synchronous_admission res" where
  "visual_admission capability resolve_path fresh_uuid request_id payload_sha256 call timestamp now_ms =
     rbind (validate_visual_input call) (\<lambda>_.
     rbind capability (\<lambda>capability.
     let (image_source, hierarchy_source) =
           (case call of
              CallObserve input \<Rightarrow>
                (if oi_include_image input then Some (source_resolve capability Image) else None,
                 Some (source_resolve capability Hierarchy))
            | _ \<Rightarrow> (None, None))
     in rbind (case call of
                 CallView input \<Rightarrow>
                   (case wi_source input of
                      SourcePath path \<Rightarrow>
                        rbind (resolve_path capability path) (\<lambda>executor.
                        case executor of
                          None \<Rightarrow> err Unsupported ''visual path source has no filesystem executor''
                        | Some executor \<Rightarrow> Ok (Some (executor_record_from executor)))
                    | _ \<Rightarrow> Ok None)
               | _ \<Rightarrow> Ok None) (\<lambda>path_source_executor.
        rbind fresh_uuid (\<lambda>execution_id.
        Ok \<lparr>sa_request_id = request_id, sa_payload_sha256 = payload_sha256, sa_execution_id = execution_id,
            sa_operation = ''visual.'' @ visual_action call, sa_route = RouteVisual (visual_executor_request call),
            sa_payload = PayloadVisual \<lparr>ve_call = call, ve_admitted_at = timestamp, ve_admitted_at_ms = now_ms,
              ve_image_source = image_source, ve_hierarchy_source = hierarchy_source,
              ve_path_source_executor = path_source_executor\<rparr>,
            sa_settlement_bound_bytes = of_nat VISUAL_ENVELOPE_LIMIT, sa_now_ms = now_ms\<rparr>))))"

section \<open>The world of an execution\<close>

record 'd visual_world =
  vw_cache :: visual_cache
  vw_device :: 'd

type_synonym ('d, 'a) visual_step = "'d visual_world \<Rightarrow> 'd visual_world \<times> 'a settled"

definition vbind :: "('d, 'a) visual_step \<Rightarrow> ('a \<Rightarrow> ('d, 'b) visual_step) \<Rightarrow> ('d, 'b) visual_step" where
  "vbind m f w = (case m w of (w, Err e) \<Rightarrow> (w, Err e) | (w, Ok x) \<Rightarrow> f x w)"

definition vpure :: "'a settled \<Rightarrow> ('d, 'a) visual_step" where
  "vpure r w = (w, r)"

definition on_cache :: "(visual_cache \<Rightarrow> visual_cache \<times> 'a settled) \<Rightarrow> ('d, 'a) visual_step" where
  "on_cache f w = (case f (vw_cache w) of (c, r) \<Rightarrow> (w\<lparr>vw_cache := c\<rparr>, r))"

definition in_cache :: "(visual_cache \<Rightarrow> visual_cache) \<Rightarrow> ('d, unit) visual_step" where
  "in_cache f = on_cache (\<lambda>c. (f c, Ok ()))"

record artifact_metadata =
  am_artifact_ref :: string
  am_mime :: "string option"

datatype visual_transform_source =
  ImmutableArtifact string | TransformPath string executor_record | TransformContentUri string

record visual_view_result =
  wr_image_ref :: string
  wr_width :: u32
  wr_height :: u32
  wr_format :: image_format

record visual_interact_result =
  ir_operation :: string
  ir_target :: interaction_kind
  ir_execution_class :: "execution_class option"

datatype visual_result =
  ResultObserve visual_observe_result
| ResultView visual_view_result
| ResultInteract visual_interact_result
| ResultLease visual_lease_result

text \<open>
  What an execution calls. \<open>vp_checkpoint\<close> and \<open>vp_publish\<close> are the claim's \<open>checkpoint\<close> and
  \<open>publish\<close> of an image of the artifact store, \<open>vp_encode\<close> is \<open>serde_json\<close>: the value of a result and
  the length of its text.
\<close>

record ('o, 'd, 'j) visual_ports =
  vp_checkpoint :: "('d, unit) visual_step"
  vp_current :: "('d, capability_snapshot) visual_step"
  vp_instant :: "'d visual_world \<Rightarrow> nat"
  vp_sleep :: "nat \<Rightarrow> 'd visual_world \<Rightarrow> 'd visual_world"
  vp_new_uuid :: "'d visual_world \<Rightarrow> uuid res"
  vp_display :: "'o visual_payload admitted_execution \<Rightarrow> ('d, visual_display_snapshot) visual_step"
  vp_capture_image :: "'o visual_payload admitted_execution \<Rightarrow> visual_display_snapshot \<Rightarrow> ('d, visual_encoded_image) visual_step"
  vp_observe_hierarchy :: "'o visual_payload admitted_execution \<Rightarrow> visual_display_snapshot \<Rightarrow> uuid \<Rightarrow> u32 \<Rightarrow>
    ('d, visual_hierarchy_snapshot) visual_step"
  vp_transform :: "'o visual_payload admitted_execution \<Rightarrow> visual_transform_source \<Rightarrow> region option \<Rightarrow>
    ('d, visual_encoded_image) visual_step"
  vp_interact :: "'o visual_payload admitted_execution \<Rightarrow> visual_interaction_request \<Rightarrow> ('d, unit) visual_step"
  vp_publish :: "uuid \<Rightarrow> string \<Rightarrow> string \<Rightarrow> 'd visual_world \<Rightarrow> 'd visual_world \<times> artifact_metadata res"
  vp_metadata :: "string \<Rightarrow> 'd visual_world \<Rightarrow> 'd visual_world \<times> artifact_metadata res"
  vp_open :: "string \<Rightarrow> 'd visual_world \<Rightarrow> 'd visual_world \<times> string res"
  vp_delete :: "string \<Rightarrow> 'd visual_world \<Rightarrow> 'd visual_world \<times> unit res"
  vp_encode :: "visual_result \<Rightarrow> 'j option"
  vp_length :: "'j \<Rightarrow> nat option"
  vp_cleanup_is_verified :: "'d visual_world \<Rightarrow> bool"

definition from_store :: "('d visual_world \<Rightarrow> 'd visual_world \<times> 'a res) \<Rightarrow> ('d, 'a) visual_step" where
  "from_store m w = (case m w of (w, r) \<Rightarrow> (w, verified r))"

definition verified_err :: "error_code \<Rightarrow> string \<Rightarrow> 'a settled" where
  "verified_err code message = Err (verified_failure (domain_error_new code message))"

definition executor_is_current ::
  "capability_snapshot \<Rightarrow> 'p admitted_execution \<Rightarrow> visual_route \<Rightarrow> bool" where
  "executor_is_current current execution route \<longleftrightarrow>
     (case resolve_execution current (RouteVisual route) of
        Ok executor \<Rightarrow> executor_record_from executor = ax_executor execution
      | Err _ \<Rightarrow> False)"

definition source_is_current :: "capability_snapshot \<Rightarrow> executor_record \<Rightarrow> visual_route \<Rightarrow> bool" where
  "source_is_current current executor route \<longleftrightarrow>
     (case resolve_execution current (RouteVisual route) of
        Ok admitted \<Rightarrow> executor_record_from admitted = executor
      | Err _ \<Rightarrow> False)"

definition execution_for_source :: "'p admitted_execution \<Rightarrow> executor_record \<Rightarrow> 'p admitted_execution" where
  "execution_for_source execution executor = execution\<lparr>ax_executor := executor\<rparr>"

section \<open>Observe\<close>

abbreviation NODE_REFS_NOT_REQUESTED :: string where "NODE_REFS_NOT_REQUESTED \<equiv> ''NODES_NOT_REQUESTED''"
abbreviation NODE_REFS_UNAVAILABLE :: string where "NODE_REFS_UNAVAILABLE \<equiv> ''NODE_REFS_UNAVAILABLE''"

definition interact_fact ::
  "visual_observe_input \<Rightarrow> visual_observation_record \<Rightarrow> visual_observe_result \<Rightarrow> visual_interact_fact" where
  "interact_fact input r result =
     \<lparr>vf_coordinate = (vr_proof r \<noteq> None \<and> vr_hierarchy_executor r \<noteq> None),
      vf_node_unavailable_reason =
        (if vr_node_refs r \<noteq> [] then None
         else case vo_nodes_unavailable_reason result of
                Some reason \<Rightarrow> Some reason
              | None \<Rightarrow> Some (if oi_include_nodes input then NODE_REFS_UNAVAILABLE else NODE_REFS_NOT_REQUESTED)),
      vf_ttl_ms = VISUAL_OBSERVATION_TTL_MS\<rparr>"

definition observed_record :: "uuid \<Rightarrow> u64 \<Rightarrow> visual_display_snapshot \<Rightarrow> visual_observation_record" where
  "observed_record observation_id admitted_at_ms display =
     \<lparr>vr_observation_id = observation_id, vr_created_at_ms = admitted_at_ms, vr_display = Some display,
      vr_hierarchy_executor = None, vr_proof = None, vr_observed = None, vr_foreground_package = None,
      vr_node_refs = [], vr_image_ref = None, vr_pins = 0\<rparr>"

definition empty_observation :: "uuid \<Rightarrow> string \<Rightarrow> visual_display_snapshot \<Rightarrow> visual_observe_result" where
  "empty_observation observation_id admitted_at display =
     \<lparr>vo_observation_id = observation_id, vo_observed_at = admitted_at, vo_display = vd_display display,
      vo_interact = \<lparr>vf_coordinate = False, vf_node_unavailable_reason = Some NODE_REFS_NOT_REQUESTED,
        vf_ttl_ms = VISUAL_OBSERVATION_TTL_MS\<rparr>,
      vo_foreground = None, vo_image_ref = None, vo_image_format = None, vo_image_unavailable_reason = None,
      vo_nodes = None, vo_nodes_unavailable_reason = None, vo_nodes_truncated = None\<rparr>"

type_synonym observation_parts = "visual_observation_record \<times> visual_observe_result"

definition without_image :: "string \<Rightarrow> observation_parts \<Rightarrow> observation_parts" where
  "without_image reason parts = apsnd (\<lambda>result. result\<lparr>vo_image_unavailable_reason := Some reason\<rparr>) parts"

definition without_nodes :: "visual_observe_input \<Rightarrow> string \<Rightarrow> observation_parts \<Rightarrow> observation_parts" where
  "without_nodes input reason parts =
     (if oi_include_nodes input
      then apsnd (\<lambda>result. result\<lparr>vo_nodes_unavailable_reason := Some reason\<rparr>) parts else parts)"

text \<open>A captured image that passes its check is published; what is published under another MIME is deleted.\<close>

definition publish_captured ::
  "('o, 'd, 'j) visual_ports \<Rightarrow> uuid \<Rightarrow> visual_encoded_image \<Rightarrow> observation_parts \<Rightarrow> ('d, observation_parts) visual_step" where
  "publish_captured ports execution_id picture parts w =
     (let mime = image_mime_of (vi_format picture)
      in case vp_publish ports execution_id mime (vi_bytes picture) w of
           (w, Ok metadata) \<Rightarrow>
             if am_mime metadata = None \<or> am_mime metadata = Some mime
             then (w, Ok (apfst (\<lambda>r. r\<lparr>vr_image_ref := Some (am_artifact_ref metadata)\<rparr>)
                      (apsnd (\<lambda>result. result\<lparr>vo_image_ref := Some (am_artifact_ref metadata),
                         vo_image_format := Some (vi_format picture)\<rparr>) parts)))
             else (fst (vp_delete ports (am_artifact_ref metadata) w), Ok (without_image ''IO_ERROR'' parts))
         | (w, Err e) \<Rightarrow>
             if de_code e = Cancelled then (w, Err (verified_failure e))
             else (w, Ok (without_image (error_code_token (de_code e)) parts)))"

definition observe_image ::
  "('o, 'd, 'j) visual_ports \<Rightarrow> 'o visual_payload admitted_execution \<Rightarrow> capability_snapshot \<Rightarrow> visual_envelope \<Rightarrow>
   visual_observe_input \<Rightarrow> visual_display_snapshot \<Rightarrow> observation_parts \<Rightarrow> ('d, observation_parts) visual_step" where
  "observe_image ports execution current envelope input display parts =
     (if \<not> oi_include_image input then vpure (Ok parts)
      else case ve_image_source envelope of
        None \<Rightarrow> vpure (verified_err IoError ''visual image source is missing'')
      | Some source \<Rightarrow>
          vbind (vpure (verified (source_validate source))) (\<lambda>_.
          case so_unavailable_reason source of
            Some reason \<Rightarrow> vpure (Ok (without_image reason parts))
          | None \<Rightarrow>
          case so_executor source of
            None \<Rightarrow> vpure (Ok parts)
          | Some executor \<Rightarrow>
              if \<not> source_is_current current executor Image
              then vpure (Ok (without_image ''STALE_AUTHORITY'' parts))
              else (\<lambda>w.
                case vp_capture_image ports (execution_for_source execution executor) display w of
                  (w, Ok picture) \<Rightarrow>
                    (case validate_captured_image picture display of
                       Err e \<Rightarrow> (w, Ok (without_image (error_code_token (de_code e)) parts))
                     | Ok _ \<Rightarrow> publish_captured ports (ax_execution_id execution) picture parts w)
                | (w, Err f) \<Rightarrow>
                    if ef_cleanup_verified f
                    then (w, Ok (without_image (error_code_token (de_code (ef_error f))) parts))
                    else (w, Err f))))"

text \<open>What a valid hierarchy adds to the record and, when nodes were asked for, to the answer.\<close>

definition with_hierarchy ::
  "visual_observe_input \<Rightarrow> executor_record \<Rightarrow> visual_hierarchy_snapshot \<Rightarrow> observation_parts \<Rightarrow> observation_parts" where
  "with_hierarchy input executor h parts =
     (case parts of (r, result) \<Rightarrow>
        let r = r\<lparr>vr_hierarchy_executor := Some executor, vr_proof := Some (vh_proof h),
                  vr_foreground_package := foreground_package h\<rparr>
        in if oi_include_nodes input
           then (r\<lparr>vr_node_refs := sort (remdups (node_refs_of (vh_nodes h))),
                   vr_observed := Some \<lparr>on_max_nodes = oi_max_nodes input, on_package = foreground_package h,
                     on_nodes = vh_nodes h\<rparr>\<rparr>,
                 result\<lparr>vo_foreground := vh_foreground h, vo_nodes := Some (vh_nodes h),
                   vo_nodes_truncated := Some (vh_truncated h)\<rparr>)
           else (r, result))"

definition observe_hierarchy ::
  "('o, 'd, 'j) visual_ports \<Rightarrow> 'o visual_payload admitted_execution \<Rightarrow> capability_snapshot \<Rightarrow> visual_envelope \<Rightarrow>
   visual_observe_input \<Rightarrow> visual_display_snapshot \<Rightarrow> observation_parts \<Rightarrow> ('d, observation_parts) visual_step" where
  "observe_hierarchy ports execution current envelope input display parts =
     (case ve_hierarchy_source envelope of
        None \<Rightarrow> vpure (verified_err IoError ''visual hierarchy source is missing'')
      | Some source \<Rightarrow>
          vbind (vpure (verified (source_validate source))) (\<lambda>_.
          case so_unavailable_reason source of
            Some reason \<Rightarrow> vpure (Ok (without_nodes input reason parts))
          | None \<Rightarrow>
          case so_executor source of
            None \<Rightarrow> vpure (Ok parts)
          | Some executor \<Rightarrow>
              if \<not> source_is_current current executor Hierarchy
              then vpure (Ok (without_nodes input ''STALE_AUTHORITY'' parts))
              else (\<lambda>w.
                case vp_observe_hierarchy ports (execution_for_source execution executor) display
                       (ax_execution_id execution) (if oi_include_nodes input then oi_max_nodes input else 1) w of
                  (w, Ok h) \<Rightarrow>
                    (case validate_hierarchy h display (er_provider executor) of
                       Err e \<Rightarrow> (w, Ok (without_nodes input (error_code_token (de_code e)) parts))
                     | Ok _ \<Rightarrow> (w, Ok (with_hierarchy input executor h parts)))
                | (w, Err f) \<Rightarrow>
                    if ef_cleanup_verified f
                    then (w, Ok (without_nodes input (error_code_token (de_code (ef_error f))) parts))
                    else (w, Err f))))"

text \<open>The body of the observation, with the image it has published when it ends.\<close>

definition observe_scene ::
  "('o, 'd, 'j) visual_ports \<Rightarrow> 'o visual_payload admitted_execution \<Rightarrow> capability_snapshot \<Rightarrow> visual_envelope \<Rightarrow>
   visual_observe_input \<Rightarrow> 'd visual_world \<Rightarrow> 'd visual_world \<times> string option \<times> 'j settled" where
  "observe_scene ports execution current envelope input w =
     (case vbind (vp_display ports execution) (\<lambda>display.
             vbind (vpure (verified (validate_display display))) (\<lambda>_.
             vbind (observe_image ports execution current envelope input display
                (observed_record (ax_execution_id execution) (ve_admitted_at_ms envelope) display,
                 empty_observation (ax_execution_id execution) (ve_admitted_at envelope) display)) (\<lambda>parts.
             vpure (Ok (display, parts))))) w of
        (w, Err f) \<Rightarrow> (w, None, Err f)
      | (w, Ok (display, parts)) \<Rightarrow>
          (case vbind (vp_checkpoint ports) (\<lambda>_.
                  observe_hierarchy ports execution current envelope input display parts) w of
             (w, Err f) \<Rightarrow> (w, vr_image_ref (fst parts), Err f)
           | (w, Ok (r, result)) \<Rightarrow>
               (let result = result\<lparr>vo_interact := interact_fact input r result\<rparr>;
                    w = w\<lparr>vw_cache := complete_observation r (vw_cache w)\<rparr>
                in (w, vr_image_ref r,
                    case vp_encode ports (ResultObserve result) of
                      None \<Rightarrow> verified_err InternalError ''visual observe encoding failed''
                    | Some v \<Rightarrow> Ok v))))"

definition execute_observe ::
  "('o, 'd, 'j) visual_ports \<Rightarrow> 'o visual_payload admitted_execution \<Rightarrow> capability_snapshot \<Rightarrow> visual_envelope \<Rightarrow>
   visual_observe_input \<Rightarrow> ('d, 'j) visual_step" where
  "execute_observe ports execution current envelope input =
     vbind (on_cache (\<lambda>c. apsnd verified (reserve_observation (ax_execution_id execution) (ve_admitted_at_ms envelope) c))) (\<lambda>_ w.
     case observe_scene ports execution current envelope input w of
       (w, _, Ok v) \<Rightarrow> (w, Ok v)
     | (w, published, Err f) \<Rightarrow>
         (let (w, deleted) = (case published of None \<Rightarrow> (w, Ok ()) | Some image_ref \<Rightarrow> vp_delete ports image_ref w);
              w = w\<lparr>vw_cache := fail_reservation (ax_execution_id execution) (vw_cache w)\<rparr>
          in case deleted of
               Err e \<Rightarrow> (w, Err \<lparr>ef_error = e, ef_cleanup_verified = False\<rparr>)
             | Ok _ \<Rightarrow> (w, Err f)))"

section \<open>View\<close>

text \<open>The source of a view, and the observation pinned for it.\<close>

definition view_source ::
  "('o, 'd, 'j) visual_ports \<Rightarrow> visual_envelope \<Rightarrow> visual_source \<Rightarrow> 'd visual_world \<Rightarrow>
   'd visual_world \<times> visual_observation_record option \<times> visual_transform_source settled" where
  "view_source ports envelope source w =
     (case source of
        SourceImageRef image_ref \<Rightarrow>
          (case pin_image image_ref (ve_admitted_at_ms envelope) (vw_cache w) of (c, pinned) \<Rightarrow>
             case vbind (from_store (vp_metadata ports image_ref)) (\<lambda>metadata.
                    if \<not> (\<exists>mime \<in> {''image/heic'', ''image/jpeg'', ''image/png''}. am_mime metadata = Some mime)
                    then vpure (Err (verified_failure (domain_error_invalid ''visual image_ref is not an image artifact'')))
                    else vbind (from_store (vp_open ports image_ref)) (\<lambda>b. vpure (Ok (ImmutableArtifact b))))
                  (w\<lparr>vw_cache := c\<rparr>) of (w, r) \<Rightarrow> (w, pinned, r))
      | SourcePath path \<Rightarrow>
          (w, None, case ve_path_source_executor envelope of
             None \<Rightarrow> verified_err IoError ''visual path source admission is missing''
           | Some executor \<Rightarrow> Ok (TransformPath path executor))
      | SourceContentUri content_uri \<Rightarrow> (w, None, Ok (TransformContentUri content_uri)))"

definition unpin_option :: "visual_observation_record option \<Rightarrow> 'd visual_world \<Rightarrow> 'd visual_world" where
  "unpin_option pinned w =
     (case pinned of None \<Rightarrow> w | Some r \<Rightarrow> w\<lparr>vw_cache := unpin (vr_observation_id r) (vw_cache w)\<rparr>)"

definition view_result ::
  "('o, 'd, 'j) visual_ports \<Rightarrow> uuid \<Rightarrow> visual_encoded_image \<Rightarrow> ('d, 'j) visual_step" where
  "view_result ports execution_id transformed =
     vbind (vpure (verified (validate_transformed_image transformed))) (\<lambda>_.
     let mime = image_mime_of (vi_format transformed)
     in vbind (from_store (vp_publish ports execution_id mime (vi_bytes transformed))) (\<lambda>metadata.
        if am_mime metadata \<noteq> Some mime
        then (\<lambda>w. case vp_delete ports (am_artifact_ref metadata) w of
                     (w, Ok _) \<Rightarrow> (w, verified_err IoError ''visual image artifact MIME is invalid'')
                   | (w, Err e) \<Rightarrow> (w, Err \<lparr>ef_error = e, ef_cleanup_verified = False\<rparr>))
        else vpure (case vp_encode ports (ResultView \<lparr>wr_image_ref = am_artifact_ref metadata,
                        wr_width = vi_width transformed, wr_height = vi_height transformed,
                        wr_format = vi_format transformed\<rparr>) of
                      None \<Rightarrow> verified_err InternalError ''visual view encoding failed''
                    | Some v \<Rightarrow> Ok v)))"

definition execute_view ::
  "('o, 'd, 'j) visual_ports \<Rightarrow> 'o visual_payload admitted_execution \<Rightarrow> visual_envelope \<Rightarrow> visual_view_input \<Rightarrow>
   ('d, 'j) visual_step" where
  "execute_view ports execution envelope input w =
     (case view_source ports envelope (wi_source input) w of
        (w, pinned, Err f) \<Rightarrow> (unpin_option pinned w, Err f)
      | (w, pinned, Ok source) \<Rightarrow>
          case vp_transform ports execution source (wi_region input) w of (w, transformed) \<Rightarrow>
            vbind (vpure transformed) (view_result ports (ax_execution_id execution)) (unpin_option pinned w))"

section \<open>Interact\<close>

definition execute_interact ::
  "('o, 'd, 'j) visual_ports \<Rightarrow> 'o visual_payload admitted_execution \<Rightarrow> visual_envelope \<Rightarrow> visual_interact_input \<Rightarrow>
   ('d, 'j) visual_step" where
  "execute_interact ports execution envelope input =
     vbind (on_cache (interaction_request execution (ve_admitted_at_ms envelope) input)) (\<lambda>(request, target, pinned) w.
     case vp_interact ports execution request w of
       (w, Err f) \<Rightarrow> (unpin_option pinned w, Err f)
     | (w, Ok _) \<Rightarrow>
         (let w = unpin_option pinned w;
              w = w\<lparr>vw_cache := (vw_cache w)\<lparr>vc_last_input_at := Some (vp_instant ports w)\<rparr>\<rparr>
          in (w, case vp_encode ports (ResultInteract \<lparr>ir_operation = visual_interaction_operation input,
                        ir_target = target, ir_execution_class = Some (er_execution_class (ax_executor execution))\<rparr>) of
                   None \<Rightarrow> verified_err InternalError ''visual interaction encoding failed''
                 | Some v \<Rightarrow> Ok v)))"

section \<open>Execute\<close>

abbreviation INPUT_SETTLE :: nat where "INPUT_SETTLE \<equiv> 300"

text \<open>An observation right after input waits until the screen had time to answer it.\<close>

definition settle_input :: "('o, 'd, 'j) visual_ports \<Rightarrow> ('d, unit) visual_step" where
  "settle_input ports w =
     (case vc_last_input_at (vw_cache w) of
        None \<Rightarrow> (w, Ok ())
      | Some at \<Rightarrow>
          let since = vp_instant ports w - at
          in if since \<le> INPUT_SETTLE then vp_checkpoint ports (vp_sleep ports (INPUT_SETTLE - since) w)
             else (w, Ok ()))"

definition execute_lease ::
  "('o, 'd, 'j) visual_ports \<Rightarrow> visual_envelope \<Rightarrow> visual_lease_input \<Rightarrow> ('d, 'j) visual_step" where
  "execute_lease ports envelope input =
     vbind (\<lambda>w. on_cache (\<lambda>c. apsnd verified (case input of
               LeaseAcquire ttl_ms \<Rightarrow> acquire_lease (vp_new_uuid ports w) ttl_ms (ve_admitted_at_ms envelope) c
             | LeaseRelease lease_id \<Rightarrow> release_lease lease_id (ve_admitted_at_ms envelope) c)) w) (\<lambda>leased.
     vpure (case vp_encode ports (ResultLease leased) of
              None \<Rightarrow> verified_err InternalError ''visual lease encoding failed''
            | Some v \<Rightarrow> Ok v))"

fun execute_call ::
  "('o, 'd, 'j) visual_ports \<Rightarrow> 'o visual_payload admitted_execution \<Rightarrow> capability_snapshot \<Rightarrow> visual_envelope \<Rightarrow>
   visual_call \<Rightarrow> ('d, 'j) visual_step" where
  "execute_call ports execution current envelope (CallObserve input) =
     execute_observe ports execution current envelope input"
| "execute_call ports execution current envelope (CallView input) = execute_view ports execution envelope input"
| "execute_call ports execution current envelope (CallInteract input) =
     vbind (on_cache (\<lambda>c. apsnd verified (admit_interaction (lease_id_of input) (ve_admitted_at_ms envelope) c)))
       (\<lambda>_. execute_interact ports execution envelope input)"
| "execute_call ports execution current envelope (CallLease input) = execute_lease ports envelope input"

definition execute_visual ::
  "('o, 'd, 'j) visual_ports \<Rightarrow> 'o visual_payload admitted_execution \<Rightarrow> ('d, ('r, 'j) execution_completion) visual_step" where
  "execute_visual ports execution =
     (case ax_payload execution of
        PayloadOther _ \<Rightarrow> vpure (verified_err Unsupported ''visual surface received a non-visual request'')
      | PayloadVisual envelope \<Rightarrow>
          vbind (vpure (verified (validate_visual_input (ve_call envelope)))) (\<lambda>_.
          vbind (vp_current ports) (\<lambda>current.
          if \<not> executor_is_current current execution (visual_executor_request (ve_call envelope))
          then vpure (verified_err StaleAuthority ''visual executor fence or generation is stale'')
          else
          vbind (vp_checkpoint ports) (\<lambda>_.
          vbind (case ve_call envelope of CallObserve _ \<Rightarrow> settle_input ports | _ \<Rightarrow> vpure (Ok ())) (\<lambda>_.
          vbind (execute_call ports execution current envelope (ve_call envelope)) (\<lambda>result w.
          (w, case vp_length ports result of
                None \<Rightarrow> verified_err InternalError ''visual result encoding failed''
              | Some encoded_bytes \<Rightarrow>
                  if encoded_bytes > VISUAL_ENVELOPE_LIMIT
                  then verified_err ResourceLimit ''visual result exceeds the protocol frame limit''
                  else Ok \<lparr>ec_fence = execution_fence execution,
                           ec_capability_generation = er_capability_generation (ax_executor execution),
                           ec_outcome = OutcomeSynchronousCompleted result (of_nat encoded_bytes),
                           ec_cleanup_verified = vp_cleanup_is_verified ports w\<rparr>)))))))"

end
