(* ===== verification/Visual_Properties.thy ===== *)
theory Visual_Properties
  imports Visual_Tool
begin

text \<open>
  What the visual tool promises across its calls: what an observation offers can be used, an observation
  that fails leaves nothing behind, and a lease keeps every other caller off the device.
\<close>

section \<open>Steps\<close>

lemma vbind_Ok_iff: "vbind m f w = (w', Ok v) \<longleftrightarrow> (\<exists>w1 x. m w = (w1, Ok x) \<and> f x w1 = (w', Ok v))"
  by (auto simp: vbind_def split: prod.splits sum.splits)

lemma vpure_iff [simp]: "vpure r w = (w', v) \<longleftrightarrow> w' = w \<and> v = r"
  by (auto simp: vpure_def)

text \<open>What the parts of an observation leave of its record and its answer.\<close>

definition same_observation :: "observation_parts \<Rightarrow> observation_parts \<Rightarrow> bool" where
  "same_observation before after \<longleftrightarrow>
     vr_observation_id (fst after) = vr_observation_id (fst before)
     \<and> vr_created_at_ms (fst after) = vr_created_at_ms (fst before)
     \<and> vr_display (fst after) = vr_display (fst before) \<and> vr_pins (fst after) = vr_pins (fst before)
     \<and> vo_observation_id (snd after) = vo_observation_id (snd before)
     \<and> vo_display (snd after) = vo_display (snd before)"

definition same_nodes :: "observation_parts \<Rightarrow> observation_parts \<Rightarrow> bool" where
  "same_nodes before after \<longleftrightarrow>
     vr_hierarchy_executor (fst after) = vr_hierarchy_executor (fst before)
     \<and> vr_proof (fst after) = vr_proof (fst before) \<and> vr_node_refs (fst after) = vr_node_refs (fst before)
     \<and> vo_nodes (snd after) = vo_nodes (snd before)"

lemma same_refl [simp]: "same_observation p p" "same_nodes p p"
  by (simp_all add: same_observation_def same_nodes_def)

lemma without_image_same [simp]:
  "same_observation p (without_image reason p)" "same_nodes p (without_image reason p)"
  by (cases p; simp add: without_image_def same_observation_def same_nodes_def)+

lemma without_nodes_same [simp]:
  "same_observation p (without_nodes input reason p)" "same_nodes p (without_nodes input reason p)"
  by (cases p; simp add: without_nodes_def same_observation_def same_nodes_def)+

lemma with_hierarchy_same: "same_observation p (with_hierarchy input executor h p)"
  by (cases p) (simp add: with_hierarchy_def Let_def same_observation_def)

lemma publish_captured_same:
  "publish_captured ports i picture p w = (w', Ok q) \<Longrightarrow> same_observation p q \<and> same_nodes p q"
  by (cases p) (auto simp: publish_captured_def Let_def same_observation_def same_nodes_def without_image_def
      split: prod.splits sum.splits if_splits)

lemma observe_image_same:
  assumes "observe_image ports execution current envelope input display p w = (w', Ok q)"
  shows "same_observation p q \<and> same_nodes p q"
  using assms
  by (auto simp: observe_image_def vbind_Ok_iff verified_err_def dest: publish_captured_same
      split: if_splits option.splits prod.splits sum.splits)

lemma node_refs_of_in: "r \<in> set (node_refs_of nodes) \<longleftrightarrow> (\<exists>node \<in> set nodes. vn_node_ref node = Some r)"
  by (induction nodes) (auto split: option.splits)

text \<open>The hierarchy changes nothing of these, or adds what a valid one holds.\<close>

lemma observe_hierarchy_parts:
  assumes "observe_hierarchy ports execution current envelope input display p w = (w', Ok q)"
    and "ve_hierarchy_source envelope = Some source" "so_executor source = Some executor"
  shows "(same_observation p q \<and> same_nodes p q) \<or> (\<exists>h. q = with_hierarchy input executor h p)"
  using assms
  by (auto simp: observe_hierarchy_def vbind_Ok_iff verified_err_def
      split: if_splits option.splits prod.splits sum.splits)

text \<open>A completed observation and the answer that went out for it.\<close>

definition offers ::
  "uuid \<Rightarrow> u64 \<Rightarrow> executor_record \<Rightarrow> visual_observation_record \<Rightarrow> visual_observe_result \<Rightarrow> bool" where
  "offers i admitted_at_ms executor r result \<longleftrightarrow>
     vr_observation_id r = i \<and> vr_created_at_ms r = admitted_at_ms \<and> vr_pins r = 0 \<and> vo_observation_id result = i
     \<and> (\<exists>display. vr_display r = Some display \<and> vd_display display = vo_display result)
     \<and> (vr_hierarchy_executor r = None \<or> vr_hierarchy_executor r = Some executor)
     \<and> vf_coordinate (vo_interact result) = (vr_proof r \<noteq> None \<and> vr_hierarchy_executor r \<noteq> None)
     \<and> (case vo_nodes result of
          None \<Rightarrow> True
        | Some nodes \<Rightarrow> vf_coordinate (vo_interact result) \<and> set (vr_node_refs r) = set (node_refs_of nodes))"

lemma offers_interact:
  "offers i at executor r (result\<lparr>vo_interact := interact_fact input r result\<rparr>) \<longleftrightarrow>
     vr_observation_id r = i \<and> vr_created_at_ms r = at \<and> vr_pins r = 0 \<and> vo_observation_id result = i
     \<and> (\<exists>display. vr_display r = Some display \<and> vd_display display = vo_display result)
     \<and> (vr_hierarchy_executor r = None \<or> vr_hierarchy_executor r = Some executor)
     \<and> (case vo_nodes result of
          None \<Rightarrow> True
        | Some nodes \<Rightarrow> vr_proof r \<noteq> None \<and> vr_hierarchy_executor r \<noteq> None
            \<and> set (vr_node_refs r) = set (node_refs_of nodes))"
  by (auto simp: offers_def interact_fact_def split: option.split)

lemma observe_scene_offers:
  assumes run: "observe_scene ports execution current envelope input w = (w', published, Ok v)"
    and source: "ve_hierarchy_source envelope = Some source" "so_executor source = Some executor"
  shows "\<exists>r result w1. vp_encode ports (ResultObserve result) = Some v
    \<and> w' = w1\<lparr>vw_cache := complete_observation r (vw_cache w1)\<rparr>
    \<and> offers (ax_execution_id execution) (ve_admitted_at_ms envelope) executor r result"
proof -
  let ?start = "\<lambda>display. (observed_record (ax_execution_id execution) (ve_admitted_at_ms envelope) display,
     empty_observation (ax_execution_id execution) (ve_admitted_at envelope) display)"
  obtain display parts w0 where scene: "vbind (vp_display ports execution) (\<lambda>display.
             vbind (vpure (verified (validate_display display))) (\<lambda>_.
             vbind (observe_image ports execution current envelope input display (?start display)) (\<lambda>parts.
             vpure (Ok (display, parts))))) w = (w0, Ok (display, parts))"
    and rest: "(case vbind (vp_checkpoint ports) (\<lambda>_.
                  observe_hierarchy ports execution current envelope input display parts) w0 of
             (w, Err f) \<Rightarrow> (w, vr_image_ref (fst parts), Err f)
           | (w, Ok (r, result)) \<Rightarrow>
               (let result = result\<lparr>vo_interact := interact_fact input r result\<rparr>;
                    w = w\<lparr>vw_cache := complete_observation r (vw_cache w)\<rparr>
                in (w, vr_image_ref r,
                    case vp_encode ports (ResultObserve result) of
                      None \<Rightarrow> verified_err InternalError ''visual observe encoding failed''
                    | Some v \<Rightarrow> Ok v))) = (w', published, Ok v)"
    using run unfolding observe_scene_def by (auto split: prod.splits sum.splits)
  have image: "same_observation (?start display) parts" "same_nodes (?start display) parts"
    using scene by (auto simp: vbind_Ok_iff dest: observe_image_same)
  obtain w1 r result where hierarchy:
    "vbind (vp_checkpoint ports) (\<lambda>_. observe_hierarchy ports execution current envelope input display parts) w0
       = (w1, Ok (r, result))"
    "vp_encode ports (ResultObserve (result\<lparr>vo_interact := interact_fact input r result\<rparr>)) = Some v"
    "w' = w1\<lparr>vw_cache := complete_observation r (vw_cache w1)\<rparr>"
    using rest by (auto simp: Let_def verified_err_def split: prod.splits sum.splits option.splits)
  obtain w2 where h: "observe_hierarchy ports execution current envelope input display parts w2 = (w1, Ok (r, result))"
    using hierarchy(1) by (auto simp: vbind_Ok_iff)
  have "offers (ax_execution_id execution) (ve_admitted_at_ms envelope) executor r
      (result\<lparr>vo_interact := interact_fact input r result\<rparr>)"
    using observe_hierarchy_parts[OF h source]
  proof
    assume "same_observation parts (r, result) \<and> same_nodes parts (r, result)"
    with image show ?thesis
      by (simp add: offers_interact same_observation_def same_nodes_def observed_record_def empty_observation_def)
  next
    obtain r0 result0 where parts: "parts = (r0, result0)" by fastforce
    assume "\<exists>h. (r, result) = with_hierarchy input executor h parts"
    with image[unfolded parts] show ?thesis
      unfolding parts
      by (auto simp: offers_interact same_observation_def same_nodes_def observed_record_def empty_observation_def
          with_hierarchy_def Let_def split: prod.splits if_splits)
  qed
  with hierarchy(2,3) show ?thesis by blast
qed

section \<open>What is offered can be used\<close>

lemma completed_record: "bt_get (vc_records (complete_observation r cache)) (as_str (vr_observation_id r)) = Some r"
  by (simp add: complete_observation_def Let_def bt_get_insert split: option.split)

lemma completed_owner:
  "n \<in> set (vr_node_refs r) \<Longrightarrow>
   bt_get (vc_node_owners (complete_observation r cache)) n = Some (as_str (vr_observation_id r))"
  by (simp add: complete_observation_def Let_def bt_get_fold_insert split: option.split)

lemma pin_completed:
  assumes "vr_pins r = 0" "\<not> record_expired now_ms r"
  shows "\<exists>cache'. pin_key (as_str (vr_observation_id r)) now_ms (complete_observation r cache) = (cache', Ok (r\<lparr>vr_pins := 1\<rparr>))"
  using assms by (simp add: pin_key_def completed_record checked_add_def Let_def)

lemma offered_point:
  assumes "offers i at executor r result" "ax_executor tapper = executor" "vf_coordinate (vo_interact result)"
    and "saturating_sub now_ms at < VISUAL_OBSERVATION_TTL_MS"
    and "x < dg_width (vo_display result)" "y < dg_height (vo_display result)"
  shows "is_ok (snd (interaction_request tapper now_ms (VisualTap (CoordinateTarget i x y) lease_id)
    (complete_observation r cache)))"
proof -
  have r: "vr_observation_id r = i" "vr_pins r = 0" "\<not> record_expired now_ms r"
    using assms(1,4) by (auto simp: offers_def record_expired_def)
  obtain display proof' where d: "vr_display r = Some display" "vd_display display = vo_display result"
    "vr_proof r = Some proof'" "vr_hierarchy_executor r = Some executor"
    using assms(1,3) by (auto simp: offers_def)
  obtain cache' where p: "pin_key (as_str i) now_ms (complete_observation r cache) = (cache', Ok (r\<lparr>vr_pins := 1\<rparr>))"
    using pin_completed[OF r(2,3)] r(1) by blast
  have "\<exists>q. point_request (r\<lparr>vr_pins := 1\<rparr>) tapper ''tap'' x y = Ok q"
    using d assms(2,5,6)
    by (simp add: point_request_def require_observation_executor_def fresh_or_stale_def verified_def map_err_def
        validate_scene_point_def not_le)
  with p show ?thesis by (auto simp: pinned_request_def pin_observation_def)
qed

lemma offered_node:
  assumes "offers i at executor r result" "ax_executor tapper = executor" "vo_nodes result = Some nodes"
    and "saturating_sub now_ms at < VISUAL_OBSERVATION_TTL_MS" "node_ref \<in> set (node_refs_of nodes)"
  shows "is_ok (snd (interaction_request tapper now_ms (VisualTap (NodeTarget node_ref) lease_id)
    (complete_observation r cache)))"
proof -
  have r: "vr_observation_id r = i" "vr_pins r = 0" "\<not> record_expired now_ms r" "node_ref \<in> set (vr_node_refs r)"
    using assms(1,3,4,5) by (auto simp: offers_def record_expired_def)
  obtain display proof' where d: "vr_display r = Some display" "vr_proof r = Some proof'"
    "vr_hierarchy_executor r = Some executor"
    using assms(1,3) by (auto simp: offers_def)
  obtain cache' where p: "pin_key (as_str i) now_ms (complete_observation r cache) = (cache', Ok (r\<lparr>vr_pins := 1\<rparr>))"
    using pin_completed[OF r(2,3)] r(1) by blast
  have "\<exists>q. node_request (r\<lparr>vr_pins := 1\<rparr>) tapper node_ref ''tap'' None = Ok q"
    using d assms(2)
    by (simp add: node_request_def require_observation_executor_def fresh_or_stale_def verified_def map_err_def)
  with p completed_owner[OF r(4), of cache] r(1) show ?thesis
    by (auto simp: pinned_request_def pin_node_def)
qed

text \<open>
  C21: what an observation offers can be used. When it answers that coordinates may be used, a tap at any
  point of the display it reported, by an execution of the executor that its hierarchy was observed
  with, is accepted for five minutes after its admission; so is a tap on any node reference it listed.
  Both hold in the cache the observation leaves.
\<close>

theorem observation_offer_holds:
  assumes "execute_observe ports execution current envelope input w = (w', Ok v)"
    and "ve_hierarchy_source envelope = Some source" "so_executor source = Some (ax_executor tapper)"
    and "saturating_sub now_ms (ve_admitted_at_ms envelope) < VISUAL_OBSERVATION_TTL_MS"
  shows "\<exists>result. vp_encode ports (ResultObserve result) = Some v
    \<and> vo_observation_id result = ax_execution_id execution
    \<and> (vf_coordinate (vo_interact result) \<and> x < dg_width (vo_display result) \<and> y < dg_height (vo_display result) \<longrightarrow>
         is_ok (snd (interaction_request tapper now_ms
           (VisualTap (CoordinateTarget (ax_execution_id execution) x y) lease_id) (vw_cache w'))))
    \<and> (case vo_nodes result of
         None \<Rightarrow> True
       | Some nodes \<Rightarrow> node_ref \<in> set (node_refs_of nodes) \<longrightarrow>
           is_ok (snd (interaction_request tapper now_ms (VisualTap (NodeTarget node_ref) lease_id) (vw_cache w'))))"
proof -
  obtain w0 published where scene: "observe_scene ports execution current envelope input w0 = (w', published, Ok v)"
  proof -
    obtain w0 where e: "(case observe_scene ports execution current envelope input w0 of
       (w, _, Ok v) \<Rightarrow> (w, Ok v)
     | (w, published, Err f) \<Rightarrow>
         (let (w, deleted) = (case published of None \<Rightarrow> (w, Ok ()) | Some image_ref \<Rightarrow> vp_delete ports image_ref w);
              w = w\<lparr>vw_cache := fail_reservation (ax_execution_id execution) (vw_cache w)\<rparr>
          in case deleted of
               Err e \<Rightarrow> (w, Err \<lparr>ef_error = e, ef_cleanup_verified = False\<rparr>)
             | Ok _ \<Rightarrow> (w, Err f))) = (w', Ok v)"
      using assms(1) unfolding execute_observe_def vbind_Ok_iff by blast
    obtain w1 published answer where s: "observe_scene ports execution current envelope input w0 = (w1, published, answer)"
      by (metis prod.exhaust)
    with e have "w1 = w' \<and> answer = Ok v"
      by (cases answer) (auto simp: Let_def split_beta split: option.splits sum.splits)
    with s that show thesis by blast
  qed
  obtain r result w1 where o: "vp_encode ports (ResultObserve result) = Some v"
    "w' = w1\<lparr>vw_cache := complete_observation r (vw_cache w1)\<rparr>"
    "offers (ax_execution_id execution) (ve_admitted_at_ms envelope) (ax_executor tapper) r result"
    using observe_scene_offers[OF scene assms(2,3)] by blast
  from o(3) have "vo_observation_id result = ax_execution_id execution" by (simp add: offers_def)
  with o offered_point[OF o(3) refl _ assms(4)] offered_node[OF o(3) refl _ assms(4)] show ?thesis
    by (intro exI[of _ result]) (auto split: option.split)
qed

section \<open>A lease keeps others off the device\<close>

text \<open>An interaction of a caller without the lease ends in the cache; nothing else of the world changes.\<close>

lemma leased_interaction_refused:
  assumes "vc_lease (vw_cache w) = Some l" "ve_admitted_at_ms envelope < vl_expires_at_ms l"
    and "lease_id_of input \<noteq> Some (vl_id l)"
  shows "execute_call ports execution current envelope (CallInteract input) w = (w, Err (verified_failure lease_held_error))"
  using assms
  by (cases "lease_id_of input")
    (auto simp: vbind_def on_cache_def admit_interaction_def live_lease_def verified_def map_err_def)

section \<open>A failed observation\<close>

lemma removed_record: "bt_get (vc_records (remove_record key cache)) key = None"
  by (cases "bt_get (vc_records cache) key") (simp_all add: remove_record_def bt_get_remove)

text \<open>An observation that fails after its reservation leaves no record.\<close>

lemma failed_observation_removed:
  assumes "execute_observe ports execution current envelope input w = (w', Err f)"
    and "reserve_observation (ax_execution_id execution) (ve_admitted_at_ms envelope) (vw_cache w) = (c, Ok u)"
  shows "bt_get (vc_records (vw_cache w')) (as_str (ax_execution_id execution)) = None"
  using assms
  by (auto simp: execute_observe_def vbind_def on_cache_def verified_def map_err_def fail_reservation_def removed_record
      Let_def split: prod.splits sum.splits option.splits)

end
