(* ===== verification/Visual_Samples.thy ===== *)
theory Visual_Samples
  imports Visual_Properties Core_Samples
begin

text \<open>
  A device whose screen shows one button, for the witnesses of the visual properties: its ports, the
  observation of its screen, and the cache this leaves.
\<close>

section \<open>The screen\<close>

definition screen_display :: visual_display_snapshot where
  "screen_display = \<lparr>vd_display = \<lparr>dg_width = 1080, dg_height = 2400, dg_rotation = 0, dg_density_dpi = None\<rparr>,
     vd_display_generation = 4\<rparr>"

definition screen_button :: visual_node where
  "screen_button = sample_node (Some ''button'') True"

definition screen_hierarchy :: visual_hierarchy_snapshot where
  "screen_hierarchy = \<lparr>vh_display = screen_display,
     vh_foreground = Some \<lparr>fo_package = Some ''app'', fo_activity = None\<rparr>, vh_nodes = [screen_button],
     vh_truncated = False, vh_proof = SceneAccessibility 6 0 1 (replicate 64 (CHR ''0''))\<rparr>"

definition screen_executor :: executor_record where
  "screen_executor = executor_record_from
     \<lparr>ae_host = ApkRuntime, ae_provider = Accessibility, ae_execution_class = ClassAndroidFramework,
      ae_capability_generation = 6, ae_fence = sample_fence\<rparr>"

definition screen_ports :: "(unit, unit, visual_result) visual_ports" where
  "screen_ports =
     \<lparr>vp_checkpoint = (\<lambda>w. (w, Ok ())), vp_current = (\<lambda>w. (w, Ok sample_snapshot)), vp_instant = (\<lambda>_. 0),
      vp_sleep = (\<lambda>_ w. w), vp_new_uuid = (\<lambda>_. Ok (UuidV4 ''l'')),
      vp_display = (\<lambda>_ w. (w, Ok screen_display)),
      vp_capture_image = (\<lambda>_ _ w. (w, verified_err CaptureFailed ''no image'')),
      vp_observe_hierarchy = (\<lambda>_ _ _ _ w. (w, Ok screen_hierarchy)),
      vp_transform = (\<lambda>_ _ _ w. (w, verified_err CaptureFailed ''no image'')),
      vp_interact = (\<lambda>_ _ w. (w, Ok ())),
      vp_publish = (\<lambda>_ _ _ w. (w, err IoError ''no store'')), vp_metadata = (\<lambda>_ w. (w, err NotFound ''no store'')),
      vp_open = (\<lambda>_ w. (w, err NotFound ''no store'')), vp_delete = (\<lambda>_ w. (w, Ok ())),
      vp_encode = Some, vp_length = (\<lambda>_. Some 1000), vp_cleanup_is_verified = (\<lambda>_. True)\<rparr>"

definition screen_source :: visual_source_admission where
  "screen_source = \<lparr>so_executor = Some screen_executor, so_unavailable_reason = None\<rparr>"

definition screen_input :: visual_observe_input where
  "screen_input = \<lparr>oi_include_image = False, oi_include_nodes = True, oi_max_nodes = 500\<rparr>"

definition screen_envelope :: visual_envelope where
  "screen_envelope = \<lparr>ve_call = CallObserve screen_input, ve_admitted_at = ''t'', ve_admitted_at_ms = 1000,
     ve_image_source = None, ve_hierarchy_source = Some screen_source, ve_path_source_executor = None\<rparr>"

definition screen_execution :: "uuid \<Rightarrow> unit visual_payload admitted_execution" where
  "screen_execution i = \<lparr>ax_execution_id = i, ax_task_id = None, ax_executor = screen_executor,
     ax_payload = PayloadVisual screen_envelope\<rparr>"

definition screen_before :: "unit visual_world" where
  "screen_before = \<lparr>vw_cache = visual_cache_default, vw_device = ()\<rparr>"

section \<open>Its observation\<close>

lemma screen_current: "source_is_current sample_snapshot screen_executor Hierarchy"
  by (simp add: source_is_current_def resolve_execution_def sample_snapshot_def sample_context_def
      resolve_executor_def choose_executor_def available_def uniform_facts_def screen_executor_def)

lemma screen_display_valid: "validate_display screen_display = Ok ()"
  by (simp add: validate_display_def screen_display_def)

lemma screen_hierarchy_valid: "validate_hierarchy screen_hierarchy screen_display (er_provider screen_executor) = Ok ()"
  by (simp add: validate_hierarchy_def screen_hierarchy_def screen_display_valid screen_button_def sample_node_def
      validate_node_def longer_than_def screen_executor_def executor_record_from_def valid_proof_def valid_sha256_def
      is_ascii_hexdigit_def is_ascii_uppercase_def is_ascii_digit_def less_eq_char_def list_all_iff)

definition screen_parts :: observation_parts where
  "screen_parts = with_hierarchy screen_input screen_executor screen_hierarchy
     (observed_record (UuidV4 ''o'') 1000 screen_display, empty_observation (UuidV4 ''o'') ''t'' screen_display)"

lemma screen_reserved:
  "reserve_observation (UuidV4 ''o'') 1000 visual_cache_default
     = (visual_cache_default\<lparr>vc_records := [(''o'', reserved_record (UuidV4 ''o'') 1000)]\<rparr>, Ok ())"
  by (simp add: reserve_observation_def remove_expired_def evict_oldest_def visual_cache_default_def Let_def
      bt_contains_def bt_get_def)

lemma screen_scene:
  "observe_scene screen_ports (screen_execution (UuidV4 ''o'')) sample_snapshot screen_envelope screen_input w
     = (w\<lparr>vw_cache := complete_observation (fst screen_parts) (vw_cache w)\<rparr>, None,
        Ok (ResultObserve ((snd screen_parts)\<lparr>vo_interact := interact_fact screen_input (fst screen_parts) (snd screen_parts)\<rparr>)))"
proof -
  have image: "observe_image screen_ports e c screen_envelope screen_input d p w = (w, Ok p)" for e c d p w
    by (simp add: observe_image_def screen_input_def vpure_def)
  have hierarchy: "observe_hierarchy screen_ports (screen_execution (UuidV4 ''o'')) sample_snapshot screen_envelope
      screen_input screen_display p w = (w, Ok (with_hierarchy screen_input screen_executor screen_hierarchy p))" for p w
    using screen_current screen_hierarchy_valid
    by (simp add: observe_hierarchy_def screen_envelope_def screen_source_def source_validate_def vbind_def vpure_def
        verified_def map_err_def screen_ports_def)
  have fields: "ax_execution_id (screen_execution (UuidV4 ''o'')) = UuidV4 ''o''"
    "ve_admitted_at_ms screen_envelope = 1000" "ve_admitted_at screen_envelope = ''t''"
    "vp_display screen_ports e w = (w, Ok screen_display)" "vp_checkpoint screen_ports w = (w, Ok ())"
    "vp_encode screen_ports = Some" for e w
    by (simp_all add: screen_execution_def screen_envelope_def screen_ports_def)
  have "vr_image_ref (fst screen_parts) = None"
    by (simp add: screen_parts_def with_hierarchy_def Let_def observed_record_def)
  then show ?thesis
    by (simp add: observe_scene_def vbind_def vpure_def image hierarchy fields screen_display_valid verified_def
        map_err_def screen_parts_def[symmetric] split_beta Let_def)
qed

lemma screen_observed:
  "execute_observe screen_ports (screen_execution (UuidV4 ''o'')) sample_snapshot screen_envelope screen_input screen_before
     = (screen_before\<lparr>vw_cache := complete_observation (fst screen_parts)
          (visual_cache_default\<lparr>vc_records := [(''o'', reserved_record (UuidV4 ''o'') 1000)]\<rparr>)\<rparr>,
        Ok (ResultObserve ((snd screen_parts)\<lparr>vo_interact := interact_fact screen_input (fst screen_parts) (snd screen_parts)\<rparr>)))"
proof -
  have fields: "ax_execution_id (screen_execution (UuidV4 ''o'')) = UuidV4 ''o''" "ve_admitted_at_ms screen_envelope = 1000"
    "vw_cache screen_before = visual_cache_default"
    by (simp_all add: screen_execution_def screen_envelope_def screen_before_def)
  show ?thesis
    by (simp add: execute_observe_def vbind_def on_cache_def fields screen_reserved verified_def map_err_def screen_scene)
qed

theorem observation_offer_holds_witness:
  "is_ok (snd (interaction_request (screen_execution (UuidV4 ''x'')) 2000
     (VisualTap (CoordinateTarget (UuidV4 ''o'') 200 230) None)
     (complete_observation (fst screen_parts)
        (visual_cache_default\<lparr>vc_records := [(''o'', reserved_record (UuidV4 ''o'') 1000)]\<rparr>))))"
proof -
  have source: "ve_hierarchy_source screen_envelope = Some screen_source"
    "so_executor screen_source = Some (ax_executor (screen_execution (UuidV4 ''x'')))"
    by (simp_all add: screen_envelope_def screen_source_def screen_execution_def)
  have fresh: "saturating_sub 2000 (ve_admitted_at_ms screen_envelope) < VISUAL_OBSERVATION_TTL_MS"
    by (simp add: screen_envelope_def saturating_sub_def)
  let ?result = "(snd screen_parts)\<lparr>vo_interact := interact_fact screen_input (fst screen_parts) (snd screen_parts)\<rparr>"
  have "vf_coordinate (vo_interact ?result)" "dg_width (vo_display ?result) = 1080" "dg_height (vo_display ?result) = 2400"
    by (simp_all add: screen_parts_def with_hierarchy_def Let_def interact_fact_def screen_input_def
        empty_observation_def screen_display_def)
  with observation_offer_holds[OF screen_observed source fresh, of 200 230 None "''button''"]
  show ?thesis by (auto simp: screen_ports_def screen_execution_def)
qed

end
