(* ===== verification/Visual_Xml.thy ===== *)
theory Visual_Xml
  imports Visual_Scene Ordered_Map
begin

text \<open>
  The reader of \<open>uiautomator dump\<close> documents (\<open>parse_privileged_hierarchy\<close> of
  \<open>rust/crates/runtime/src/visual.rs\<close>) on UTF-8 bytes. A cursor of the code is the rest of the text here.
\<close>

section \<open>Characters and numbers\<close>

definition is_ascii_whitespace :: "char \<Rightarrow> bool" where
  "is_ascii_whitespace c \<longleftrightarrow> c \<in> {CHR 0x09, CHR 0x0A, CHR 0x0C, CHR 0x0D, CHR 0x20}"

text \<open>\<open>char::from_u32\<close> and the UTF-8 encoding \<open>String::push\<close> appends.\<close>

definition char_from_u32 :: "nat \<Rightarrow> nat option" where
  "char_from_u32 n = (if n < 0xD800 \<or> 0xE000 \<le> n \<and> n \<le> 0x10FFFF then Some n else None)"

definition encode_utf8 :: "nat \<Rightarrow> string" where
  "encode_utf8 n = map char_of
     (if n < 0x80 then [n]
      else if n < 0x800 then [0xC0 + n div 64, 0x80 + n mod 64]
      else if n < 0x10000 then [0xE0 + n div 4096, 0x80 + n div 64 mod 64, 0x80 + n mod 64]
      else [0xF0 + n div 262144, 0x80 + n div 4096 mod 64, 0x80 + n div 64 mod 64, 0x80 + n mod 64])"

definition digit_value :: "char \<Rightarrow> nat option" where
  "digit_value c =
     (if is_ascii_digit c then Some (of_char c - 48)
      else if CHR ''a'' \<le> c \<and> c \<le> CHR ''f'' then Some (of_char c - 87)
      else if CHR ''A'' \<le> c \<and> c \<le> CHR ''F'' then Some (of_char c - 55)
      else None)"

fun digits_value :: "nat \<Rightarrow> string \<Rightarrow> nat \<Rightarrow> nat option" where
  "digits_value radix [] value_so_far = Some value_so_far"
| "digits_value radix (c # cs) value_so_far =
     (case digit_value c of
        None \<Rightarrow> None
      | Some d \<Rightarrow> if d < radix then digits_value radix cs (value_so_far * radix + d) else None)"

text \<open>\<open>u32::from_str_radix\<close> and \<open>i32::from_str\<close>: a sign, then at least one digit, within the width.\<close>

definition u32_from_str_radix :: "nat \<Rightarrow> string \<Rightarrow> nat option" where
  "u32_from_str_radix radix text =
     (let digits = (case strip_prefix ''+'' text of None \<Rightarrow> text | Some rest \<Rightarrow> rest)
      in if digits = [] then None
         else case digits_value radix digits 0 of
                None \<Rightarrow> None
              | Some n \<Rightarrow> if n < 2 ^ 32 then Some n else None)"

definition i32_from_str :: "string \<Rightarrow> i32 option" where
  "i32_from_str text =
     (let (negative, digits) = (case text of
            c # rest \<Rightarrow> if c = CHR ''-'' then (True, rest) else if c = CHR ''+'' then (False, rest) else (False, text)
          | [] \<Rightarrow> (False, []))
      in if digits = [] then None
         else case digits_value 10 digits 0 of
                None \<Rightarrow> None
              | Some n \<Rightarrow>
                  if negative then if n \<le> 2 ^ 31 then Some (word_of_int (- int n)) else None
                  else if n < 2 ^ 31 then Some (of_nat n) else None)"

section \<open>Attributes\<close>

definition invalid_xml_attribute :: "'a res" where
  "invalid_xml_attribute = err IoError ''privileged hierarchy attribute is invalid''"

definition some_or_invalid :: "'a option \<Rightarrow> 'a res" where
  "some_or_invalid r = (case r of None \<Rightarrow> invalid_xml_attribute | Some x \<Rightarrow> Ok x)"

definition xml_entity :: "string \<Rightarrow> string res" where
  "xml_entity entity =
     (if entity = ''amp'' then Ok ''&''
      else if entity = ''lt'' then Ok ''<''
      else if entity = ''gt'' then Ok ''>''
      else if entity = ''quot'' then Ok [CHR 0x22]
      else if entity = ''apos'' then Ok [CHR 0x27]
      else if starts_with ''#x'' entity
      then some_or_invalid (map_option encode_utf8
             (Option.bind (u32_from_str_radix 16 (drop 2 entity)) char_from_u32))
      else if starts_with ''#'' entity
      then some_or_invalid (map_option encode_utf8
             (Option.bind (u32_from_str_radix 10 (drop 1 entity)) char_from_u32))
      else invalid_xml_attribute)"

lemma split_once_shorter:
  assumes "split_once pattern text = Some (before, after)" "pattern \<noteq> []"
  shows "length before + length pattern + length after = length text"
proof -
  obtain n where n: "before = take n text" "after = drop (n + length pattern) text"
    "starts_with pattern (drop n text)"
    using assms(1) by (auto simp: split_once_def dest!: find_SomeD)
  from n(3) have len: "length pattern \<le> length text - n"
    unfolding starts_with_def by (metis length_drop length_take min.cobounded1 min.commute)
  from assms(2) have pos: "0 < length pattern" by simp
  from len pos have le: "n + length pattern \<le> length text" by linarith
  then have "length before = n" "length after = length text - (n + length pattern)" using n by simp_all
  with le show ?thesis by linarith
qed

function decode_xml_attribute :: "string \<Rightarrow> string res" where
  "decode_xml_attribute text =
     (case split_once ''&'' text of
        None \<Rightarrow> Ok text
      | Some (before, after) \<Rightarrow>
          case split_once '';'' after of
            None \<Rightarrow> invalid_xml_attribute
          | Some (entity, rest) \<Rightarrow>
              rbind (xml_entity entity) (\<lambda>character.
              rbind (decode_xml_attribute rest) (\<lambda>decoded. Ok (before @ character @ decoded))))"
  by pat_completeness auto

termination
  by (relation "measure length") (auto dest!: split_once_shorter)

declare decode_xml_attribute.simps [simp del]

definition xml_key_char :: "char \<Rightarrow> bool" where
  "xml_key_char c \<longleftrightarrow> is_ascii_alphanumeric c \<or> c \<in> {CHR ''-'', CHR ''_'', CHR '':''}"

definition xml_quote :: "char \<Rightarrow> bool" where
  "xml_quote c \<longleftrightarrow> c = CHR 0x27 \<or> c = CHR 0x22"

text \<open>One attribute: its key, its decoded value and the rest of the text.\<close>

definition xml_attribute :: "string \<Rightarrow> (string \<times> string \<times> string) res" where
  "xml_attribute text =
     (let key = takeWhile xml_key_char text
      in if key = [] then invalid_xml_attribute
         else case dropWhile is_ascii_whitespace (dropWhile xml_key_char text) of
           [] \<Rightarrow> invalid_xml_attribute
         | c # rest \<Rightarrow>
             if c \<noteq> CHR ''='' then invalid_xml_attribute
             else case dropWhile is_ascii_whitespace rest of
               [] \<Rightarrow> invalid_xml_attribute
             | quote # rest \<Rightarrow>
                 if \<not> xml_quote quote then invalid_xml_attribute
                 else case dropWhile (\<lambda>c. c \<noteq> quote \<and> c \<noteq> CHR ''<'') rest of
                   [] \<Rightarrow> invalid_xml_attribute
                 | c # after \<Rightarrow>
                     if c \<noteq> quote then invalid_xml_attribute
                     else rbind (decode_xml_attribute (takeWhile (\<lambda>c. c \<noteq> quote \<and> c \<noteq> CHR ''<'') rest))
                            (\<lambda>decoded. Ok (key, decoded, after)))"

lemma invalid_not_Ok [simp]: "invalid_xml_attribute \<noteq> Ok x"
  by (simp add: invalid_xml_attribute_def)

lemma length_dropWhile_le: "length (dropWhile P xs) \<le> length xs"
  by (induction xs) auto

lemma xml_attribute_shorter:
  assumes "xml_attribute text = Ok (key, decoded, after)"
  shows "length after < length text"
proof -
  obtain c r1 q r2 d where
    s: "dropWhile is_ascii_whitespace (dropWhile xml_key_char text) = c # r1"
       "dropWhile is_ascii_whitespace r1 = q # r2"
       "dropWhile (\<lambda>c. c \<noteq> q \<and> c \<noteq> CHR ''<'') r2 = d # after"
    using assms by (auto simp: xml_attribute_def Let_def rbind_eq_Ok_iff split: list.splits if_splits)
  have "length (c # r1) \<le> length text"
    unfolding s(1)[symmetric] by (rule le_trans[OF length_dropWhile_le length_dropWhile_le])
  moreover have "length (q # r2) \<le> length r1" "length (d # after) \<le> length r2"
    unfolding s(2,3)[symmetric] by (rule length_dropWhile_le)+
  ultimately show ?thesis by simp
qed

function xml_attributes :: "string btree_map \<Rightarrow> string \<Rightarrow> string btree_map res" where
  "xml_attributes attributes text =
     (let text = dropWhile is_ascii_whitespace text
      in if text = [] \<or> hd text = CHR ''/'' then Ok attributes
         else case xml_attribute text of
                Err e \<Rightarrow> Err e
              | Ok (key, decoded, after) \<Rightarrow>
                  if bt_contains attributes key then invalid_xml_attribute
                  else xml_attributes (bt_insert key decoded attributes) after)"
  by pat_completeness auto

termination
proof (relation "measure (\<lambda>(_, text). length text)")
  fix attributes :: "string btree_map" and body trimmed key decoded after :: string and p q
  assume a: "trimmed = dropWhile is_ascii_whitespace body" "xml_attribute trimmed = Ok p" "(key, q) = p"
    "(decoded, after) = q"
  then have "length after < length trimmed" using xml_attribute_shorter[of trimmed key decoded after] by simp
  also have "\<dots> \<le> length body" unfolding a(1) by (rule length_dropWhile_le)
  finally show "((bt_insert key decoded attributes, after), attributes, body) \<in> measure (\<lambda>(_, text). length text)"
    by simp
qed simp

declare xml_attributes.simps [simp del]

definition parse_xml_attributes :: "string \<Rightarrow> string btree_map res" where
  "parse_xml_attributes = xml_attributes []"

section \<open>Nodes\<close>

definition parse_coordinate_pair :: "string \<Rightarrow> (i32 \<times> i32) res" where
  "parse_coordinate_pair text =
     rbind (some_or_invalid (split_once '','' text)) (\<lambda>(first, second).
     rbind (some_or_invalid (i32_from_str first)) (\<lambda>first.
     rbind (some_or_invalid (i32_from_str second)) (\<lambda>second. Ok (first, second))))"

definition parse_bounds :: "string \<Rightarrow> node_bounds res" where
  "parse_bounds text =
     rbind (some_or_invalid (Option.bind (strip_prefix ''['' text) (strip_suffix '']''))) (\<lambda>normalized.
     rbind (some_or_invalid (split_once '']['' normalized)) (\<lambda>(first, second).
     rbind (parse_coordinate_pair first) (\<lambda>(left, top).
     rbind (parse_coordinate_pair second) (\<lambda>(right, bottom).
     Ok \<lparr>nb_left = left, nb_top = top, nb_right = right, nb_bottom = bottom\<rparr>))))"

definition optional_nonempty :: "string btree_map \<Rightarrow> string \<Rightarrow> string option" where
  "optional_nonempty attributes key =
     (case bt_get attributes key of None \<Rightarrow> None | Some v \<Rightarrow> if v = [] then None else Some v)"

definition optional_bool :: "string btree_map \<Rightarrow> string \<Rightarrow> bool option res" where
  "optional_bool attributes key =
     (case bt_get attributes key of
        None \<Rightarrow> Ok None
      | Some v \<Rightarrow>
          if v = ''true'' then Ok (Some True)
          else if v = ''false'' then Ok (Some False)
          else invalid_xml_attribute)"

definition privileged_node :: "string btree_map \<Rightarrow> visual_node res" where
  "privileged_node attributes =
     rbind (rbind (some_or_invalid (bt_get attributes ''bounds'')) parse_bounds) (\<lambda>bounds.
     rbind (optional_bool attributes ''checkable'') (\<lambda>checkable.
     rbind (optional_bool attributes ''checked'') (\<lambda>checked.
     rbind (optional_bool attributes ''clickable'') (\<lambda>clickable.
     rbind (optional_bool attributes ''enabled'') (\<lambda>enabled.
     rbind (optional_bool attributes ''focusable'') (\<lambda>focusable.
     rbind (optional_bool attributes ''focused'') (\<lambda>focused.
     rbind (optional_bool attributes ''scrollable'') (\<lambda>scrollable.
     rbind (optional_bool attributes ''long-clickable'') (\<lambda>long_clickable.
     rbind (optional_bool attributes ''password'') (\<lambda>password.
     rbind (optional_bool attributes ''selected'') (\<lambda>selected.
     Ok \<lparr>vn_node_ref = None, vn_text = optional_nonempty attributes ''text'',
         vn_content_description = optional_nonempty attributes ''content-desc'',
         vn_resource_id = optional_nonempty attributes ''resource-id'',
         vn_class_name = optional_nonempty attributes ''class'',
         vn_package_name = optional_nonempty attributes ''package'', vn_bounds = bounds,
         vn_checkable = checkable, vn_checked = checked, vn_clickable = clickable, vn_enabled = enabled,
         vn_focusable = focusable, vn_focused = focused, vn_scrollable = scrollable,
         vn_long_clickable = long_clickable, vn_password = password, vn_selected = selected,
         vn_editable = None\<rparr>)))))))))))"

section \<open>The structure of the document\<close>

text \<open>The text of a tag up to its \<open>>\<close> outside quotes, and the text after it.\<close>

fun tag_end :: "char option \<Rightarrow> string \<Rightarrow> (string \<times> string) option" where
  "tag_end quote [] = None"
| "tag_end None (c # cs) =
     (if c = CHR ''>'' then Some ([], cs)
      else map_option (apfst (Cons c)) (tag_end (if xml_quote c then Some c else None) cs))"
| "tag_end (Some opened) (c # cs) =
     map_option (apfst (Cons c)) (tag_end (if c = opened then None else Some opened) cs)"

definition xml_tag_end :: "string \<Rightarrow> (string \<times> string) res" where
  "xml_tag_end text =
     (case tag_end None text of
        None \<Rightarrow> err IoError ''privileged hierarchy has an unterminated node''
      | Some r \<Rightarrow> Ok r)"

definition invalid_xml_structure :: "'a res" where
  "invalid_xml_structure = err IoError ''privileged hierarchy has invalid XML structure''"

definition blank_at :: "string \<Rightarrow> bool" where
  "blank_at text \<longleftrightarrow> list_ex (\<lambda>blank. starts_with blank text) white_space"

text \<open>The name up to the first white space, and the rest from there.\<close>

fun split_at_blank :: "string \<Rightarrow> string \<times> string" where
  "split_at_blank [] = ([], [])"
| "split_at_blank (c # cs) =
     (if blank_at (c # cs) then ([], c # cs) else apfst (Cons c) (split_at_blank cs))"

definition trim_end :: "string \<Rightarrow> string" where
  "trim_end text = rev (trim_start (map rev white_space) (rev text))"

text \<open>One tag: the open elements, the innermost first, and whether the root was seen.\<close>

definition xml_tag :: "string \<Rightarrow> string list \<Rightarrow> bool \<Rightarrow> (string list \<times> bool) res" where
  "xml_tag raw stack root_seen =
     (case strip_prefix ''/'' raw of
        Some closing \<Rightarrow>
          (let name = trim closing
           in if snd (split_at_blank name) \<noteq> [] \<or> stack = [] \<or> hd stack \<noteq> name then invalid_xml_structure
              else Ok (tl stack, root_seen))
      | None \<Rightarrow>
          (let self_closing = ends_with ''/'' raw;
               body = trim_end (case strip_suffix ''/'' raw of None \<Rightarrow> raw | Some b \<Rightarrow> b);
               (name, attributes) = split_at_blank body
           in rbind (parse_xml_attributes attributes) (\<lambda>_.
              let opened = (if name = ''hierarchy'' \<and> \<not> root_seen \<and> stack = [] then Some True
                            else if name = ''node'' \<and> stack \<noteq> [] \<and> last stack = ''hierarchy'' then Some root_seen
                            else None)
              in case opened of
                   None \<Rightarrow> invalid_xml_structure
                 | Some root_seen \<Rightarrow>
                     if \<not> self_closing then Ok (name # stack, root_seen)
                     else if name = ''hierarchy'' then invalid_xml_structure
                     else Ok (stack, root_seen))))"

lemma tag_end_shorter: "tag_end quote text = Some (inside, after) \<Longrightarrow> length inside + length after < length text"
  by (induction quote "text" arbitrary: inside after rule: tag_end.induct) (auto split: if_splits)

lemma xml_tag_end_shorter: "xml_tag_end text = Ok (inside, after) \<Longrightarrow> length after < length text"
  by (auto simp: xml_tag_end_def dest!: tag_end_shorter split: option.splits)

function xml_structure :: "string \<Rightarrow> string list \<Rightarrow> bool \<Rightarrow> bool \<Rightarrow> unit res" where
  "xml_structure text stack root_seen declaration_seen =
     (case split_once ''<'' text of
        None \<Rightarrow>
          if trim text \<noteq> [] then invalid_xml_structure
          else if \<not> root_seen \<or> stack \<noteq> [] then invalid_xml_structure else Ok ()
      | Some (before, tag) \<Rightarrow>
          if trim before \<noteq> [] then invalid_xml_structure
          else if starts_with ''?xml'' tag then
            (if declaration_seen \<or> root_seen \<or> stack \<noteq> [] then invalid_xml_structure
             else case split_once ''?>'' (drop 4 tag) of
                    None \<Rightarrow> invalid_xml_structure
                  | Some (_, rest) \<Rightarrow> xml_structure rest stack root_seen True)
          else if starts_with ''!'' tag \<or> starts_with ''?'' tag then invalid_xml_structure
          else case xml_tag_end tag of
                 Err e \<Rightarrow> Err e
               | Ok (inside, rest) \<Rightarrow>
                   case xml_tag (trim inside) stack root_seen of
                     Err e \<Rightarrow> Err e
                   | Ok (stack, root_seen) \<Rightarrow> xml_structure rest stack root_seen declaration_seen)"
  by pat_completeness auto

termination
  by (relation "measure (\<lambda>(text, _). length text)")
    (auto dest!: split_once_shorter xml_tag_end_shorter)

declare xml_structure.simps [simp del]

definition validate_privileged_xml_structure :: "string \<Rightarrow> unit res" where
  "validate_privileged_xml_structure text = xml_structure text [] False False"

section \<open>The hierarchy\<close>

text \<open>
  The nodes in document order, at most \<open>max_nodes\<close> of them, and their number. The text has at most
  eight mebibytes, so the number does not overflow.
\<close>

function privileged_nodes :: "nat \<Rightarrow> string \<Rightarrow> visual_node list \<Rightarrow> nat \<Rightarrow> (visual_node list \<times> nat) res" where
  "privileged_nodes max_nodes text nodes node_count =
     (case split_once ''<node'' text of
        None \<Rightarrow> Ok (nodes, node_count)
      | Some (_, rest) \<Rightarrow>
          if rest = [] \<or> \<not> (is_ascii_whitespace (hd rest) \<or> hd rest = CHR ''/'' \<or> hd rest = CHR ''>'')
          then privileged_nodes max_nodes rest nodes node_count
          else case xml_tag_end rest of
                 Err e \<Rightarrow> Err e
               | Ok (inside, after) \<Rightarrow>
                   case rbind (parse_xml_attributes inside) privileged_node of
                     Err e \<Rightarrow> Err e
                   | Ok node \<Rightarrow>
                       privileged_nodes max_nodes after
                         (if length nodes < max_nodes then nodes @ [node] else nodes) (node_count + 1))"
  by pat_completeness auto

termination
  by (relation "measure (\<lambda>(_, text, _). length text)")
    (auto dest!: split_once_shorter xml_tag_end_shorter)

declare privileged_nodes.simps [simp del]

text \<open>\<open>str::matches(...).count()\<close>: the occurrences from the left that do not overlap.\<close>

function count_matches :: "string \<Rightarrow> string \<Rightarrow> nat" where
  "count_matches pattern text =
     (if pattern = [] then 0
      else case split_once pattern text of None \<Rightarrow> 0 | Some (_, rest) \<Rightarrow> Suc (count_matches pattern rest))"
  by pat_completeness auto

termination
  by (relation "measure (\<lambda>(_, text). length text)")
    (auto dest!: split_once_shorter simp flip: length_greater_0_conv)

declare count_matches.simps [simp del]

fun first_package :: "visual_node list \<Rightarrow> string option" where
  "first_package [] = None"
| "first_package (node # nodes) =
     (case vn_package_name node of None \<Rightarrow> first_package nodes | Some p \<Rightarrow> Some p)"

text \<open>\<open>digest_hex\<close> is the lower-case hexadecimal SHA-256 of the document.\<close>

definition parse_privileged_hierarchy ::
  "(string \<Rightarrow> string) \<Rightarrow> string \<Rightarrow> u32 \<Rightarrow> visual_display_snapshot \<Rightarrow> visual_hierarchy_snapshot res" where
  "parse_privileged_hierarchy digest_hex xml max_nodes display =
     (if xml = [] \<or> length xml > 8 * 1024 * 1024
      then err ResourceLimit ''privileged hierarchy exceeds its bound''
      else if \<not> (1 \<le> max_nodes \<and> max_nodes \<le> VISUAL_MAX_NODES)
      then err_invalid ''visual max_nodes is out of bounds''
      else if \<not> from_utf8 xml then err IoError ''privileged hierarchy is not UTF-8''
      else if contains_text xml ''<!DOCTYPE'' \<or> contains_text xml ''<!ENTITY''
        \<or> \<not> contains_text xml ''<hierarchy'' \<or> \<not> contains_text xml ''</hierarchy>''
      then err IoError ''privileged hierarchy document is invalid''
      else rbind (validate_privileged_xml_structure xml) (\<lambda>_.
           rbind (privileged_nodes (unat max_nodes) xml [] 0) (\<lambda>(nodes, node_count).
           if node_count = 0 \<or> count_matches ''</node>'' xml > node_count
           then err IoError ''privileged hierarchy has invalid node structure''
           else Ok \<lparr>vh_display = display,
                    vh_foreground = map_option (\<lambda>package. \<lparr>fo_package = Some package, fo_activity = None\<rparr>)
                      (first_package nodes),
                    vh_nodes = nodes, vh_truncated = (node_count > unat max_nodes),
                    vh_proof = ScenePrivileged (digest_hex xml)\<rparr>)))"

end
