(* ===== verification/Visual_Dump.thy ===== *)
theory Visual_Dump
  imports Visual_Xml
begin

text \<open>
  What the reader of \<open>Visual_Xml\<close> makes of a well-formed dump: a tree of nodes with their attributes,
  written as \<open>uiautomator\<close> writes it, is read back as its nodes in document order.
\<close>

section \<open>Dumps\<close>

datatype dump_node = DumpNode (dump_attributes: "(string \<times> string) list") (dump_children: "dump_node list")

definition xml_escape_char :: "char \<Rightarrow> string" where
  "xml_escape_char c =
     (if c = CHR ''&'' then ''&amp;'' else if c = CHR ''<'' then ''&lt;'' else if c = CHR ''>'' then ''&gt;''
      else if c = CHR 0x22 then ''&quot;'' else if c = CHR 0x27 then ''&apos;'' else [c])"

definition xml_escape :: "string \<Rightarrow> string" where
  "xml_escape text = concat (map xml_escape_char text)"

fun render_attributes :: "(string \<times> string) list \<Rightarrow> string" where
  "render_attributes [] = []"
| "render_attributes ((k, v) # attributes) =
     CHR '' '' # k @ CHR ''='' # CHR 0x22 # xml_escape v @ CHR 0x22 # render_attributes attributes"

fun render_node :: "dump_node \<Rightarrow> string" where
  "render_node (DumpNode attributes children) =
     ''<node'' @ render_attributes attributes
     @ (if children = [] then '' />'' else ''>'' @ concat (map render_node children) @ ''</node>'')"

definition render_dump :: "dump_node list \<Rightarrow> string" where
  "render_dump nodes =
     ''<?xml version='' @ [CHR 0x27] @ ''1.0'' @ [CHR 0x27] @ '' encoding='' @ [CHR 0x27] @ ''UTF-8'' @ [CHR 0x27]
     @ '' ?><hierarchy rotation='' @ [CHR 0x22] @ ''0'' @ [CHR 0x22] @ ''>''
     @ concat (map render_node nodes) @ ''</hierarchy>''"

text \<open>The attributes of every node, in document order.\<close>

fun document_order :: "dump_node \<Rightarrow> (string \<times> string) list list" where
  "document_order (DumpNode attributes children) = attributes # concat (map document_order children)"

definition readable :: "(string \<times> string) list \<Rightarrow> bool" where
  "readable attributes \<longleftrightarrow> distinct (map fst attributes)
     \<and> list_all (\<lambda>(k, v). k \<noteq> [] \<and> list_all xml_key_char k) attributes
     \<and> is_ok (privileged_node (bt_from attributes))"

definition node_of :: "(string \<times> string) list \<Rightarrow> visual_node" where
  "node_of attributes = projr (privileged_node (bt_from attributes))"

section \<open>Searching\<close>

lemma find_map: "List.find P (map f xs) = map_option f (List.find (P \<circ> f) xs)"
  by (induction xs) auto

lemma upt_Suc_Cons: "[0..<Suc n] = 0 # map Suc [0..<n]"
  by (metis map_Suc_upt upt_conv_Cons zero_less_Suc)

lemma split_once_Cons:
  "split_once p (c # t) = (if starts_with p (c # t) then Some ([], drop (length p) (c # t))
     else map_option (apfst (Cons c)) (split_once p t))"
proof -
  have "[0..<Suc (length (c # t))] = 0 # map Suc [0..<Suc (length t)]"
    by (subst upt_Suc_Cons) simp
  then show ?thesis
    by (simp add: split_once_def find_map comp_def option.map_comp del: upt_Suc)
qed

lemma split_once_past: "\<not> starts_with p (c # t) \<Longrightarrow> split_once p (c # t) = map_option (apfst (Cons c)) (split_once p t)"
  by (simp only: split_once_Cons if_False)

lemma starts_with_simps [simp]:
  "starts_with [] t" "\<not> starts_with (a # p) []"
  "starts_with (a # p) (c # t) \<longleftrightarrow> a = c \<and> starts_with p t"
  by (auto simp: starts_with_def)

lemma split_once_Nil [simp]: "split_once (a # p) [] = None"
  by (simp add: split_once_def)

text \<open>A stretch without the first character of the pattern is passed over.\<close>

lemma split_once_skip:
  "a \<notin> set s \<Longrightarrow> split_once (a # p) (s @ t)
     = (case split_once (a # p) t of None \<Rightarrow> None | Some (before, after) \<Rightarrow> Some (s @ before, after))"
  by (induction s) (auto simp: split_once_Cons split: option.split)

lemma contains_text_iff: "contains_text t p \<longleftrightarrow> split_once p t \<noteq> None"
  by (auto simp: contains_text_def split_once_def list_ex_iff find_None_iff simp del: upt_Suc)

lemma contains_text_Cons: "contains_text (c # t) p \<longleftrightarrow> starts_with p (c # t) \<or> contains_text t p"
  by (auto simp: contains_text_iff split_once_Cons)

lemma contains_text_prefix: "contains_text (p @ t) p"
  unfolding contains_text_def list_ex_iff by (rule bexI[of _ 0]) (auto simp: starts_with_def)

lemma contains_text_append: "contains_text t p \<Longrightarrow> contains_text (s @ t) p"
  by (induction s) (simp_all add: contains_text_Cons)

section \<open>White space\<close>

text \<open>A printable ASCII character begins and ends no white space.\<close>

definition printable :: "char \<Rightarrow> bool" where
  "printable c \<longleftrightarrow> 0x20 < (of_char c :: nat) \<and> (of_char c :: nat) < 0x80"

lemma white_space_bytes:
  "list_all (\<lambda>blank. blank \<noteq> [] \<and> \<not> printable (hd blank) \<and> \<not> printable (last blank)) white_space"
  by (simp add: white_space_def printable_def)

lemma no_blank:
  assumes "printable c" "blank \<in> set white_space"
  shows "\<not> starts_with blank (c # t)" "\<not> starts_with (rev blank) (c # t)"
proof -
  from white_space_bytes assms have b: "blank \<noteq> []" "hd blank \<noteq> c" "hd (rev blank) \<noteq> c"
    by (auto simp: list_all_iff hd_rev)
  then show "\<not> starts_with blank (c # t)" by (cases blank) auto
  from b show "\<not> starts_with (rev blank) (c # t)" by (cases "rev blank") auto
qed

lemma blank_at_printable [simp]: "printable c \<Longrightarrow> \<not> blank_at (c # t)"
  by (auto simp: blank_at_def list_ex_iff no_blank)

lemma trim_start_printable:
  assumes "printable c"
  shows "trim_start white_space (c # t) = c # t" "trim_start (map rev white_space) (c # t) = c # t"
proof -
  have n: "List.find (\<lambda>blank. blank \<noteq> [] \<and> starts_with blank (c # t)) white_space = None"
    "List.find (\<lambda>blank. blank \<noteq> [] \<and> starts_with blank (c # t)) (map rev white_space) = None"
    using assms by (auto simp: find_None_iff no_blank)
  show "trim_start white_space (c # t) = c # t" by (subst trim_start.simps) (simp only: n option.case)
  show "trim_start (map rev white_space) (c # t) = c # t" by (subst trim_start.simps) (simp only: n option.case)
qed

lemma trim_printable:
  assumes "t = c # s" "printable c" "t = s' @ [d]" "printable d"
  shows "trim t = t"
proof -
  have "trim_start white_space t = t" using assms(1,2) trim_start_printable(1) by simp
  moreover have "trim_start (map rev white_space) (rev t) = rev t" using assms(3,4) trim_start_printable(2) by simp
  ultimately show ?thesis by (simp add: trim_def)
qed

lemma trim_Nil: "trim [] = []"
  by (simp add: trim_def trim_start.simps[of _ "[]"] white_space_def starts_with_def)

lemma trim_end_printable: "printable d \<Longrightarrow> trim_end (s @ [d]) = s @ [d]"
  by (simp add: trim_end_def trim_start_printable)

lemma trim_end_blank: "printable d \<Longrightarrow> trim_end (s @ [d, CHR '' '']) = s @ [d]"
proof -
  assume d: "printable d"
  have "List.find (\<lambda>blank. blank \<noteq> [] \<and> starts_with blank (CHR '' '' # d # rev s)) (map rev white_space) = Some '' ''"
    by (simp add: white_space_def)
  then have "trim_start (map rev white_space) (CHR '' '' # d # rev s)
      = trim_start (map rev white_space) (d # rev s)"
    by (simp add: trim_start.simps[of _ "CHR '' '' # d # rev s"])
  with trim_start_printable(2)[OF d] show ?thesis by (simp add: trim_end_def)
qed

section \<open>Attributes\<close>

lemma decode_Cons:
  assumes "c \<noteq> CHR ''&''"
  shows "decode_xml_attribute (c # t) = rbind (decode_xml_attribute t) (\<lambda>d. Ok (c # d))"
proof (cases "split_once ''&'' t")
  case None
  with assms show ?thesis by (simp add: decode_xml_attribute.simps[of "c # t"] decode_xml_attribute.simps[of t] split_once_Cons)
next
  case (Some r)
  obtain before after where r: "r = (before, after)" by fastforce
  show ?thesis
  proof (cases "split_once '';'' after")
    case None
    with Some r assms show ?thesis
      by (simp add: decode_xml_attribute.simps[of "c # t"] decode_xml_attribute.simps[of t] split_once_Cons
          invalid_xml_attribute_def)
  next
    case (Some q)
    obtain e rest where q: "q = (e, rest)" by fastforce
    show ?thesis
      using \<open>split_once ''&'' t = Some r\<close> r Some q assms
      by (cases "xml_entity e"; cases "decode_xml_attribute rest")
        (simp_all add: decode_xml_attribute.simps[of "c # t"] decode_xml_attribute.simps[of t] split_once_Cons)
  qed
qed

lemma decode_entity:
  assumes "CHR '';'' \<notin> set e" "xml_entity e = Ok [c]"
  shows "decode_xml_attribute (CHR ''&'' # e @ CHR '';'' # t) = rbind (decode_xml_attribute t) (\<lambda>d. Ok (c # d))"
  using assms by (simp add: decode_xml_attribute.simps[of "CHR ''&'' # e @ CHR '';'' # t"] split_once_Cons split_once_skip)

lemma decode_escape: "decode_xml_attribute (xml_escape text) = Ok text"
proof (induction "text")
  case Nil
  show ?case by (simp add: xml_escape_def decode_xml_attribute.simps)
next
  case (Cons c "text")
  have e: "xml_escape (c # text) = xml_escape_char c @ xml_escape text" by (simp add: xml_escape_def)
  have "decode_xml_attribute (xml_escape_char c @ xml_escape text) = Ok (c # text)"
    using Cons decode_entity[of "''amp''" "CHR ''&''" "xml_escape text"]
      decode_entity[of "''lt''" "CHR ''<''" "xml_escape text"] decode_entity[of "''gt''" "CHR ''>''" "xml_escape text"]
      decode_entity[of "''quot''" "CHR 0x22" "xml_escape text"] decode_entity[of "''apos''" "CHR 0x27" "xml_escape text"]
    by (simp add: xml_escape_char_def decode_Cons xml_entity_def)
  with e show ?case by simp
qed

lemma set_xml_escape: "c \<in> set (xml_escape text) \<Longrightarrow> c \<noteq> CHR ''<'' \<and> c \<noteq> CHR ''>'' \<and> c \<noteq> CHR 0x22 \<and> c \<noteq> CHR 0x27"
  by (auto simp: xml_escape_def xml_escape_char_def split: if_splits)

lemma takeWhile_until: "\<forall>x \<in> set s. P x \<Longrightarrow> \<not> P c \<Longrightarrow> takeWhile P (s @ c # t) = s"
  by (induction s) auto

lemma dropWhile_until: "\<forall>x \<in> set s. P x \<Longrightarrow> \<not> P c \<Longrightarrow> dropWhile P (s @ c # t) = c # t"
  by (induction s) auto

lemma xml_attribute_rendered:
  assumes "k \<noteq> []" "list_all xml_key_char k"
  shows "xml_attribute (k @ CHR ''='' # CHR 0x22 # xml_escape v @ CHR 0x22 # t) = Ok (k, v, t)"
proof -
  have eq: "\<not> xml_key_char (CHR ''='')" by (simp add: xml_key_char_def is_ascii_alphanumeric_def
      is_ascii_alphabetic_def is_ascii_lowercase_def is_ascii_uppercase_def is_ascii_digit_def less_eq_char_def)
  have key: "takeWhile xml_key_char (k @ CHR ''='' # r) = k" "dropWhile xml_key_char (k @ CHR ''='' # r) = CHR ''='' # r" for r
    using assms(2) eq by (simp_all add: takeWhile_until dropWhile_until list_all_iff)
  let ?P = "\<lambda>c. c \<noteq> CHR 0x22 \<and> c \<noteq> CHR ''<''"
  have val: "takeWhile ?P (xml_escape v @ CHR 0x22 # t) = xml_escape v"
    "dropWhile ?P (xml_escape v @ CHR 0x22 # t) = CHR 0x22 # t"
    using set_xml_escape by (intro takeWhile_until dropWhile_until; fastforce)+
  show ?thesis
    using assms(1) val
    by (simp add: xml_attribute_def Let_def key is_ascii_whitespace_def xml_quote_def decode_escape)
qed

lemma key_no_blank:
  assumes "xml_key_char c"
  shows "\<not> is_ascii_whitespace c" "c \<noteq> CHR ''/''" "c \<noteq> CHR ''<''" "c \<noteq> CHR ''>''" "\<not> xml_quote c"
  using assms by (auto simp: xml_key_char_def is_ascii_whitespace_def xml_quote_def is_ascii_alphanumeric_def
      is_ascii_alphabetic_def is_ascii_lowercase_def is_ascii_uppercase_def is_ascii_digit_def less_eq_char_def)

definition keys_ok :: "(string \<times> string) list \<Rightarrow> bool" where
  "keys_ok attributes \<longleftrightarrow> list_all (\<lambda>(k, v). k \<noteq> [] \<and> list_all xml_key_char k) attributes"

lemma keys_ok_Cons [simp]:
  "keys_ok []" "keys_ok ((k, v) # attributes) \<longleftrightarrow> k \<noteq> [] \<and> list_all xml_key_char k \<and> keys_ok attributes"
  by (simp_all add: keys_ok_def)

lemma xml_attributes_rendered:
  assumes "keys_ok attributes" "distinct (map fst attributes)" "\<forall>k \<in> fst ` set attributes. bt_get m k = None"
  shows "xml_attributes m (render_attributes attributes @ t)
       = xml_attributes (fold (\<lambda>(k, v). bt_insert k v) attributes m) t"
  using assms
proof (induction attributes arbitrary: m)
  case (Cons a attributes)
  obtain k v where a: "a = (k, v)" by fastforce
  from Cons.prems(1) a have k: "k \<noteq> []" "list_all xml_key_char k" "keys_ok attributes" by simp_all
  obtain c cs where kc: "k = c # cs" using k(1) by (cases k) auto
  from k(2) kc have c: "\<not> is_ascii_whitespace c" "c \<noteq> CHR ''/''" by (simp_all add: key_no_blank)
  let ?rest = "render_attributes attributes @ t"
  have body: "dropWhile is_ascii_whitespace (render_attributes (a # attributes) @ t)
      = k @ CHR ''='' # CHR 0x22 # xml_escape v @ CHR 0x22 # ?rest"
    using c(1) kc a by (simp add: is_ascii_whitespace_def)
  have "xml_attributes m (render_attributes (a # attributes) @ t) = xml_attributes (bt_insert k v m) ?rest"
    unfolding xml_attributes.simps[of m "render_attributes (a # attributes) @ t"] Let_def body
    using xml_attribute_rendered[OF k(1,2), of v ?rest] k(1) c(2) kc Cons.prems(3) a
    by (simp add: bt_contains_def)
  moreover have "xml_attributes (bt_insert k v m) ?rest
      = xml_attributes (fold (\<lambda>(k, v). bt_insert k v) attributes (bt_insert k v m)) t"
    by (rule Cons.IH[OF k(3)]) (use Cons.prems a in \<open>auto simp: bt_get_insert\<close>)
  ultimately show ?case by (simp add: a)
qed simp

lemma parse_rendered:
  assumes "keys_ok attributes" "distinct (map fst attributes)" "t = [] \<or> t = '' /''"
  shows "parse_xml_attributes (render_attributes attributes @ t) = Ok (bt_from attributes)"
proof -
  have "xml_attributes m t = Ok m" for m
    using assms(3) by (auto simp: xml_attributes.simps is_ascii_whitespace_def)
  with xml_attributes_rendered[OF assms(1,2), of "[]" t] show ?thesis
    by (simp add: parse_xml_attributes_def bt_from_def bt_get_def)
qed

section \<open>Tags\<close>

lemma tag_end_plain:
  "list_all (\<lambda>c. c \<noteq> CHR ''>'' \<and> \<not> xml_quote c) s \<Longrightarrow> tag_end None (s @ t)
     = (case tag_end None t of None \<Rightarrow> None | Some (inside, after) \<Rightarrow> Some (s @ inside, after))"
  by (induction s) (auto split: option.split)

lemma tag_end_quoted:
  "q \<notin> set s \<Longrightarrow> tag_end (Some q) (s @ q # t)
     = (case tag_end None t of None \<Rightarrow> None | Some (inside, after) \<Rightarrow> Some (s @ q # inside, after))"
  by (induction s) (auto split: option.split)

lemma tag_end_attributes:
  "keys_ok attributes \<Longrightarrow> tag_end None (render_attributes attributes @ t)
     = (case tag_end None t of None \<Rightarrow> None | Some (inside, after) \<Rightarrow> Some (render_attributes attributes @ inside, after))"
proof (induction attributes)
  case (Cons a attributes)
  obtain k v where a: "a = (k, v)" by fastforce
  let ?rest = "render_attributes attributes @ t"
  from Cons.prems a have k: "list_all xml_key_char k" "keys_ok attributes" by simp_all
  have plain: "list_all (\<lambda>c. c \<noteq> CHR ''>'' \<and> \<not> xml_quote c) (CHR '' '' # k @ ''='')"
  proof -
    have "list_all (\<lambda>c. c \<noteq> CHR ''>'' \<and> \<not> xml_quote c) k"
      using k(1) key_no_blank(4,5) unfolding list_all_iff by blast
    then show ?thesis by (simp add: xml_quote_def)
  qed
  have "CHR 0x22 \<notin> set (xml_escape v)" using set_xml_escape by blast
  then have "tag_end (Some (CHR 0x22)) (xml_escape v @ CHR 0x22 # ?rest)
      = (case tag_end None ?rest of None \<Rightarrow> None | Some (inside, after) \<Rightarrow> Some (xml_escape v @ CHR 0x22 # inside, after))"
    by (rule tag_end_quoted)
  then have quoted: "tag_end None (CHR 0x22 # xml_escape v @ CHR 0x22 # ?rest)
      = (case tag_end None ?rest of None \<Rightarrow> None
         | Some (inside, after) \<Rightarrow> Some (CHR 0x22 # xml_escape v @ CHR 0x22 # inside, after))"
    by (simp add: xml_quote_def split: option.split)
  have body: "render_attributes (a # attributes) @ t
      = (CHR '' '' # k @ ''='') @ CHR 0x22 # xml_escape v @ CHR 0x22 # ?rest" by (simp add: a)
  show ?case
    unfolding body tag_end_plain[OF plain] quoted Cons.IH[OF k(2)]
    by (cases "tag_end None t") (simp_all add: a split_beta)
qed (simp split: option.split)

lemma render_attributes_last: "attributes \<noteq> [] \<Longrightarrow> \<exists>s. render_attributes attributes = s @ [CHR 0x22]"
proof (induction attributes)
  case (Cons a attributes)
  obtain k v where a: "a = (k, v)" by fastforce
  show ?case
  proof (cases attributes)
    case Nil
    then show ?thesis by (simp add: a)
  next
    case (Cons b bs)
    with Cons.IH obtain s where "render_attributes attributes = s @ [CHR 0x22]" by auto
    then show ?thesis by (simp add: a)
  qed
qed simp

lemma ends_with_snoc [simp]: "ends_with [c] (s @ [d]) \<longleftrightarrow> c = d"
  by (auto simp: ends_with_def)

lemma strip_suffix_snoc: "strip_suffix [c] (s @ [d]) = (if c = d then Some s else None)"
  by (simp add: strip_suffix_def)

text \<open>A tag name: printable characters, none of them a slash.\<close>

definition tag_name :: "string \<Rightarrow> bool" where
  "tag_name name \<longleftrightarrow> name \<noteq> [] \<and> list_all (\<lambda>c. printable c \<and> c \<noteq> CHR ''/'') name"

lemma tag_name_shape:
  assumes "tag_name name"
  obtains c cs b d where "name = c # cs" "name = b @ [d]" "printable c" "printable d" "c \<noteq> CHR ''/''" "d \<noteq> CHR ''/''"
proof -
  from assms have "name \<noteq> []" by (simp add: tag_name_def)
  then obtain c cs b d where n: "name = c # cs" "name = b @ [d]" by (metis list.exhaust rev_exhaust)
  have "printable c \<and> c \<noteq> CHR ''/''" using assms n(1) by (simp add: tag_name_def)
  moreover have "printable d \<and> d \<noteq> CHR ''/''" using assms n(2) by (simp add: tag_name_def)
  ultimately show thesis using that n by blast
qed

lemma opening_last:
  assumes "tag_name name"
  obtains s d where "name @ render_attributes attributes = s @ [d]" "printable d" "d \<noteq> CHR ''/''"
proof (cases "attributes = []")
  case True
  with tag_name_shape[OF assms] that show thesis by (metis append_Nil2 render_attributes.simps(1))
next
  case False
  then obtain s where "render_attributes attributes = s @ [CHR 0x22]" using render_attributes_last by blast
  with that[of "name @ s" "CHR 0x22"] show thesis by (simp add: printable_def)
qed

lemma split_at_blank_name:
  assumes "list_all printable name" "t = [] \<or> blank_at t"
  shows "split_at_blank (name @ t) = (name, t)"
  using assms by (induction name) (cases t; auto)+

lemma blank_at_attributes: "render_attributes attributes = [] \<or> blank_at (render_attributes attributes)"
proof (cases attributes)
  case (Cons a rest)
  have "blank_at (CHR '' '' # t)" for t by (simp add: blank_at_def white_space_def)
  then show ?thesis by (cases a) (simp add: Cons)
qed simp

definition opened_by :: "string \<Rightarrow> string list \<Rightarrow> bool \<Rightarrow> bool option" where
  "opened_by name stack root_seen =
     (if name = ''hierarchy'' \<and> \<not> root_seen \<and> stack = [] then Some True
      else if name = ''node'' \<and> stack \<noteq> [] \<and> last stack = ''hierarchy'' then Some root_seen else None)"

lemma xml_tag_open:
  assumes "tag_name name" "keys_ok attributes" "distinct (map fst attributes)"
    and "opened_by name stack root_seen = Some seen"
  shows "xml_tag (trim (name @ render_attributes attributes)) stack root_seen = Ok (name # stack, seen)"
proof -
  let ?raw = "name @ render_attributes attributes"
  obtain c cs where c: "name = c # cs" "printable c" "c \<noteq> CHR ''/''" using tag_name_shape[OF assms(1)] by metis
  obtain s d where d: "?raw = s @ [d]" "printable d" "d \<noteq> CHR ''/''" using opening_last[OF assms(1)] by metis
  have trim: "trim ?raw = ?raw" by (rule trim_printable[OF _ c(2) d(1,2)]) (simp add: c(1))
  have "strip_prefix ''/'' ?raw = None" using c by (auto simp: strip_prefix_def)
  moreover have "\<not> ends_with ''/'' ?raw" "strip_suffix ''/'' ?raw = None" "trim_end ?raw = ?raw"
    using d by (simp_all add: strip_suffix_snoc trim_end_printable)
  moreover have "split_at_blank ?raw = (name, render_attributes attributes)"
    using assms(1) blank_at_attributes by (intro split_at_blank_name) (auto simp: tag_name_def list_all_iff)
  ultimately show ?thesis
    using parse_rendered[OF assms(2,3), of "[]"] assms(4)
    by (simp add: xml_tag_def trim Let_def opened_by_def split: if_splits)
qed

lemma xml_tag_self_closing:
  assumes "keys_ok attributes" "distinct (map fst attributes)" "stack \<noteq> []" "last stack = ''hierarchy''"
  shows "xml_tag (trim (''node'' @ render_attributes attributes @ '' /'')) stack root_seen = Ok (stack, root_seen)"
proof -
  let ?body = "''node'' @ render_attributes attributes"
  let ?raw = "?body @ '' /''"
  have name: "tag_name ''node''" by (simp add: tag_name_def printable_def)
  obtain s d where d: "?body = s @ [d]" "printable d" using opening_last[OF name] by metis
  have trim: "trim ?raw = ?raw"
    by (rule trim_printable[of _ "CHR ''n''" _ "?body @ '' ''" "CHR ''/''"]) (simp_all add: printable_def)
  have raw: "?raw = (?body @ '' '') @ [CHR ''/'']" by simp
  have ends: "ends_with ''/'' ?raw" "strip_suffix ''/'' ?raw = Some (?body @ '' '')"
    unfolding raw by (simp_all only: ends_with_snoc strip_suffix_snoc) simp
  have "trim_end (?body @ '' '') = ?body" using trim_end_blank[OF d(2), of s] d(1) by simp
  moreover have "split_at_blank ?body = (''node'', render_attributes attributes)"
    using name blank_at_attributes by (intro split_at_blank_name) (auto simp: tag_name_def)
  moreover have "strip_prefix ''/'' ?raw = None" by (simp add: strip_prefix_def)
  ultimately show ?thesis
    using parse_rendered[OF assms(1,2), of "[]"] assms(3,4) trim ends by (simp add: xml_tag_def Let_def)
qed

lemma xml_tag_close:
  assumes "tag_name name"
  shows "xml_tag (trim (CHR ''/'' # name)) (name # stack) root_seen = Ok (stack, root_seen)"
proof -
  obtain c cs b d where n: "name = c # cs" "name = b @ [d]" "printable c" "printable d"
    using tag_name_shape[OF assms] by metis
  have "trim (CHR ''/'' # name) = CHR ''/'' # name"
    by (rule trim_printable[of _ "CHR ''/''" _ "CHR ''/'' # b" d]) (use n in \<open>simp_all add: printable_def\<close>)
  moreover have "trim name = name" by (rule trim_printable[OF n(1,3,2,4)])
  moreover have "split_at_blank name = (name, [])"
    using assms split_at_blank_name[of name "[]"] by (auto simp: tag_name_def list_all_iff)
  ultimately show ?thesis by (simp add: xml_tag_def strip_prefix_def)
qed

section \<open>The structure of a rendered document\<close>

lemma xml_structure_tag:
  assumes "tag_end None (c # t) = Some (inside, rest)" "c \<noteq> CHR ''?''" "c \<noteq> CHR ''!''"
    and "xml_tag (trim inside) stack root_seen = Ok (stack', seen)"
  shows "xml_structure (CHR ''<'' # c # t) stack root_seen declaration_seen
       = xml_structure rest stack' seen declaration_seen"
  unfolding xml_structure.simps[of "CHR ''<'' # c # t"]
  using assms by (simp add: split_once_Cons[of "''<''" "CHR ''<''"] trim_Nil xml_tag_end_def)

lemma structure_close:
  assumes "name = ''node'' \<or> name = ''hierarchy''"
  shows "xml_structure (''</'' @ name @ ''>'' @ rest) (name # stack) root_seen declaration_seen
       = xml_structure rest stack root_seen declaration_seen"
proof -
  have n: "tag_name name" using assms by (auto simp: tag_name_def printable_def)
  have "tag_end None (CHR ''/'' # name @ ''>'' @ rest) = Some (CHR ''/'' # name, rest)"
    using assms by (auto simp: xml_quote_def)
  from xml_structure_tag[OF this _ _ xml_tag_close[OF n]] show ?thesis by simp
qed

text \<open>A node that can be rendered: the attributes of every node in it can be read.\<close>

definition renderable :: "dump_node \<Rightarrow> bool" where
  "renderable n \<longleftrightarrow> list_all readable (document_order n)"

lemma renderable_Node [simp]:
  "renderable (DumpNode attributes children) \<longleftrightarrow> readable attributes \<and> list_all renderable children"
  by (auto simp: renderable_def list_all_iff)

lemma readable_parts: "readable attributes \<Longrightarrow> keys_ok attributes \<and> distinct (map fst attributes)"
  by (simp add: readable_def keys_ok_def)

lemma structure_concat:
  assumes "\<And>n rest. n \<in> set ns \<Longrightarrow> xml_structure (render_node n @ rest) stack True declaration_seen
      = xml_structure rest stack True declaration_seen"
  shows "xml_structure (concat (map render_node ns) @ rest) stack True declaration_seen
      = xml_structure rest stack True declaration_seen"
  using assms by (induction ns) simp_all

lemma structure_node:
  "renderable n \<Longrightarrow> stack \<noteq> [] \<Longrightarrow> last stack = ''hierarchy'' \<Longrightarrow>
   xml_structure (render_node n @ rest) stack True declaration_seen = xml_structure rest stack True declaration_seen"
proof (induction n arbitrary: stack rest rule: dump_node.induct)
  case (DumpNode attributes children)
  from DumpNode.prems have r: "keys_ok attributes" "distinct (map fst attributes)" "list_all renderable children"
    by (auto dest: readable_parts)
  have name: "tag_name ''node''" by (simp add: tag_name_def printable_def)
  show ?case
  proof (cases "children = []")
    case True
    have "tag_end None (''node'' @ render_attributes attributes @ '' />'' @ rest)
        = Some (''node'' @ render_attributes attributes @ '' /'', rest)"
      using tag_end_attributes[OF r(1), of "'' />'' @ rest"] by (simp add: xml_quote_def)
    then have "tag_end None (CHR ''n'' # ''ode'' @ render_attributes attributes @ '' />'' @ rest)
        = Some (''node'' @ render_attributes attributes @ '' /'', rest)" by simp
    from xml_structure_tag[OF this _ _ xml_tag_self_closing[OF r(1,2) DumpNode.prems(2,3)]] True
    show ?thesis by simp
  next
    case False
    let ?inner = "concat (map render_node children)"
    have "tag_end None (''node'' @ render_attributes attributes @ ''>'' @ ?inner @ ''</node>'' @ rest)
        = Some (''node'' @ render_attributes attributes, ?inner @ ''</node>'' @ rest)"
      using tag_end_attributes[OF r(1), of "''>'' @ ?inner @ ''</node>'' @ rest"] by (simp add: xml_quote_def)
    then have e: "tag_end None (CHR ''n'' # ''ode'' @ render_attributes attributes @ ''>'' @ ?inner @ ''</node>'' @ rest)
        = Some (''node'' @ render_attributes attributes, ?inner @ ''</node>'' @ rest)" by simp
    have o: "opened_by ''node'' stack True = Some True" using DumpNode.prems by (simp add: opened_by_def)
    have "xml_structure (render_node (DumpNode attributes children) @ rest) stack True declaration_seen
        = xml_structure (?inner @ ''</node>'' @ rest) (''node'' # stack) True declaration_seen"
      using xml_structure_tag[OF e _ _ xml_tag_open[OF name r(1,2) o]] False by simp
    also have "\<dots> = xml_structure (''</node>'' @ rest) (''node'' # stack) True declaration_seen"
      by (rule structure_concat, rule DumpNode.IH) (use r(3) DumpNode.prems in \<open>auto simp: list_all_iff\<close>)
    also have "\<dots> = xml_structure rest stack True declaration_seen"
      using structure_close[of "''node''" rest stack] by simp
    finally show ?thesis .
  qed
qed

lemma structure_dump:
  assumes "list_all renderable nodes"
  shows "validate_privileged_xml_structure (render_dump nodes) = Ok ()"
proof -
  let ?inner = "concat (map render_node nodes) @ ''</hierarchy>''"
  let ?root = "''<'' @ ''hierarchy'' @ render_attributes [(''rotation'', ''0'')] @ ''>'' @ ?inner"
  have key: "keys_ok [(''rotation'', ''0'')]"
    by (simp add: xml_key_char_def is_ascii_alphanumeric_def is_ascii_alphabetic_def is_ascii_lowercase_def
        is_ascii_uppercase_def is_ascii_digit_def less_eq_char_def)
  let ?prolog = "'' version='' @ [CHR 0x27] @ ''1.0'' @ [CHR 0x27] @ '' encoding='' @ [CHR 0x27] @ ''UTF-8''
    @ [CHR 0x27] @ '' ''"
  have document: "render_dump nodes = CHR ''<'' # ''?xml'' @ ?prolog @ ''?>'' @ ?root"
    by (simp add: render_dump_def xml_escape_def xml_escape_char_def)
  have "CHR ''?'' \<notin> set ?prolog" by simp
  from split_once_skip[OF this, of "''>''" "''?>'' @ ?root"]
  have ends: "split_once ''?>'' (?prolog @ ''?>'' @ ?root) = Some (?prolog, ?root)"
    by (simp only: append.simps split_once_Cons[of _ "CHR ''?''"]) simp
  have "xml_structure (render_dump nodes) [] False False = xml_structure ?root [] False True"
  proof -
    have first: "split_once ''<'' (CHR ''<'' # t) = Some ([], t)" for t by (simp add: split_once_Cons)
    have tag: "starts_with ''?xml'' (''?xml'' @ t)" "drop 4 (''?xml'' @ t) = t" for t by simp_all
    show ?thesis
      unfolding document xml_structure.simps[of "CHR ''<'' # ''?xml'' @ ?prolog @ ''?>'' @ ?root"] first
      by (simp only: option.case prod.case tag ends trim_Nil) simp
  qed
  also have "\<dots> = xml_structure ?inner [''hierarchy''] True True"
  proof -
    have e: "tag_end None (CHR ''h'' # ''ierarchy'' @ render_attributes [(''rotation'', ''0'')] @ ''>'' @ ?inner)
        = Some (''hierarchy'' @ render_attributes [(''rotation'', ''0'')], ?inner)"
      by (simp add: xml_quote_def xml_escape_def xml_escape_char_def)
    have t: "xml_tag (trim (''hierarchy'' @ render_attributes [(''rotation'', ''0'')])) [] False = Ok ([''hierarchy''], True)"
      by (rule xml_tag_open[OF _ key]) (simp_all add: tag_name_def printable_def opened_by_def)
    show ?thesis using xml_structure_tag[OF e _ _ t] by simp
  qed
  also have "\<dots> = xml_structure ''</hierarchy>'' [''hierarchy''] True True"
    by (rule structure_concat, rule structure_node) (use assms in \<open>auto simp: list_all_iff\<close>)
  also have "\<dots> = xml_structure [] [] True True"
    using structure_close[of "''hierarchy''" "[]" "[]"] by simp
  also have "\<dots> = Ok ()" by (simp add: xml_structure.simps trim_Nil)
  finally show ?thesis by (simp add: validate_privileged_xml_structure_def)
qed

section \<open>The nodes of a rendered document\<close>

lemma nodes_skip:
  assumes "\<not> starts_with ''<node'' (c # t)"
  shows "privileged_nodes max_nodes (c # t) nodes node_count = privileged_nodes max_nodes t nodes node_count"
  unfolding privileged_nodes.simps[of max_nodes "c # t"] privileged_nodes.simps[of max_nodes t] split_once_past[OF assms]
  by (cases "split_once ''<node'' t") (simp_all add: split_beta)

lemma nodes_skip_text:
  "CHR ''<'' \<notin> set s \<Longrightarrow>
   privileged_nodes max_nodes (s @ t) nodes node_count = privileged_nodes max_nodes t nodes node_count"
  by (induction s) (simp_all add: nodes_skip)

lemma nodes_found:
  assumes "privileged_node (bt_from attributes) = Ok node" "keys_ok attributes" "distinct (map fst attributes)"
    and "u = ''>'' @ t \<or> u = '' />'' @ t"
  shows "privileged_nodes max_nodes (''<node'' @ render_attributes attributes @ u) nodes node_count
    = privileged_nodes max_nodes t (if length nodes < max_nodes then nodes @ [node] else nodes) (node_count + 1)"
proof -
  let ?rest = "render_attributes attributes @ u"
  obtain slash where slash: "slash = [] \<or> slash = '' /''" "u = slash @ ''>'' @ t" using assms(4) by auto
  have "tag_end None (slash @ ''>'' @ t) = Some (slash, t)" using slash(1) by (auto simp: xml_quote_def)
  then have e: "xml_tag_end ?rest = Ok (render_attributes attributes @ slash, t)"
    using tag_end_attributes[OF assms(2), of u] slash(2) by (simp add: xml_tag_end_def)
  have first: "?rest \<noteq> []" "is_ascii_whitespace (hd ?rest) \<or> hd ?rest = CHR ''/'' \<or> hd ?rest = CHR ''>''"
    using assms(4) by (cases attributes; auto simp: is_ascii_whitespace_def)+
  have found: "split_once ''<node'' (''<node'' @ ?rest) = Some ([], ?rest)" by (simp add: split_once_Cons)
  have gate: "(?rest = [] \<or> \<not> (is_ascii_whitespace (hd ?rest) \<or> hd ?rest = CHR ''/'' \<or> hd ?rest = CHR ''>'')) = False"
    using first by simp
  show ?thesis
    unfolding privileged_nodes.simps[of max_nodes "''<node'' @ ?rest"] found
    by (simp only: option.case prod.case gate if_False e sum.case parse_rendered[OF assms(2,3) slash(1)] rbind_Ok assms(1))
qed

lemma nodes_room:
  "length nodes \<le> n \<Longrightarrow> (if length nodes < n then nodes @ [node] else nodes) = take n (nodes @ [node])"
  by simp

lemma node_of_Ok: "readable attributes \<Longrightarrow> privileged_node (bt_from attributes) = Ok (node_of attributes)"
  by (cases "privileged_node (bt_from attributes)") (simp_all add: readable_def node_of_def)

lemma take_take_append: "take m (take m xs @ ys) = take m (xs @ ys)"
  by (cases "length xs \<le> m") simp_all

lemma nodes_concat:
  assumes "\<And>n nodes node_count rest. n \<in> set ns \<Longrightarrow> length nodes \<le> max_nodes \<Longrightarrow>
      privileged_nodes max_nodes (render_node n @ rest) nodes node_count
        = privileged_nodes max_nodes rest (take max_nodes (nodes @ map node_of (document_order n)))
            (node_count + length (document_order n))"
    and "length nodes \<le> max_nodes"
  shows "privileged_nodes max_nodes (concat (map render_node ns) @ rest) nodes node_count
    = privileged_nodes max_nodes rest (take max_nodes (nodes @ map node_of (concat (map document_order ns))))
        (node_count + length (concat (map document_order ns)))"
  using assms
proof (induction ns arbitrary: nodes node_count)
  case (Cons n ns)
  have "privileged_nodes max_nodes (concat (map render_node (n # ns)) @ rest) nodes node_count
      = privileged_nodes max_nodes (concat (map render_node ns) @ rest)
          (take max_nodes (nodes @ map node_of (document_order n))) (node_count + length (document_order n))"
    using Cons.prems(1)[of n nodes "concat (map render_node ns) @ rest" node_count] Cons.prems(2) by simp
  also have "\<dots> = privileged_nodes max_nodes rest
      (take max_nodes (take max_nodes (nodes @ map node_of (document_order n)) @ map node_of (concat (map document_order ns))))
      (node_count + length (document_order n) + length (concat (map document_order ns)))"
    by (rule Cons.IH) (use Cons.prems(1) in simp_all)
  finally show ?case by (simp only: take_take_append list.map concat.simps map_append append_assoc length_append add.assoc)
qed simp

lemma nodes_rendered:
  "renderable n \<Longrightarrow> length nodes \<le> max_nodes \<Longrightarrow>
   privileged_nodes max_nodes (render_node n @ rest) nodes node_count
     = privileged_nodes max_nodes rest (take max_nodes (nodes @ map node_of (document_order n)))
         (node_count + length (document_order n))"
proof (induction n arbitrary: nodes node_count rest rule: dump_node.induct)
  case (DumpNode attributes children)
  from DumpNode.prems have r: "readable attributes" "keys_ok attributes" "distinct (map fst attributes)"
    "list_all renderable children" by (auto dest: readable_parts)
  let ?nodes = "take max_nodes (nodes @ [node_of attributes])"
  note found = nodes_found[OF node_of_Ok[OF r(1)] r(2,3), where max_nodes = max_nodes and nodes = nodes
      and node_count = node_count, unfolded nodes_room[OF DumpNode.prems(2)]]
  show ?case
  proof (cases "children = []")
    case True
    then show ?thesis using found[of "'' />'' @ rest" rest] by simp
  next
    case False
    let ?inner = "concat (map render_node children)"
    have "privileged_nodes max_nodes (render_node (DumpNode attributes children) @ rest) nodes node_count
        = privileged_nodes max_nodes (?inner @ ''</node>'' @ rest) ?nodes (node_count + 1)"
      using found[of "''>'' @ ?inner @ ''</node>'' @ rest" "?inner @ ''</node>'' @ rest"] False by simp
    also have "\<dots> = privileged_nodes max_nodes (''</node>'' @ rest)
        (take max_nodes (?nodes @ map node_of (concat (map document_order children))))
        (node_count + 1 + length (concat (map document_order children)))"
      by (rule nodes_concat, rule DumpNode.IH) (use r(4) in \<open>auto simp: list_all_iff\<close>)
    also have "\<dots> = privileged_nodes max_nodes rest
        (take max_nodes (?nodes @ map node_of (concat (map document_order children))))
        (node_count + 1 + length (concat (map document_order children)))"
      by (simp add: nodes_skip)
    finally show ?thesis by (simp only: take_take_append document_order.simps) simp
  qed
qed

section \<open>The closing tags\<close>

lemma count_skip:
  assumes "\<not> starts_with ''</node>'' (c # t)"
  shows "count_matches ''</node>'' (c # t) = count_matches ''</node>'' t"
  unfolding count_matches.simps[of _ "c # t"] count_matches.simps[of _ t] split_once_past[OF assms]
  by (cases "split_once ''</node>'' t") (simp_all add: split_beta)

lemma count_skip_text: "CHR ''<'' \<notin> set s \<Longrightarrow> count_matches ''</node>'' (s @ t) = count_matches ''</node>'' t"
  by (induction s) (simp_all add: count_skip)

lemma count_close: "count_matches ''</node>'' (''</node>'' @ t) = Suc (count_matches ''</node>'' t)"
  by (simp add: count_matches.simps[of _ "''</node>'' @ t", simplified] split_once_Cons)

lemma render_attributes_text: "keys_ok attributes \<Longrightarrow> CHR ''<'' \<notin> set (render_attributes attributes)"
proof (induction attributes)
  case (Cons a attributes)
  obtain k v where a: "a = (k, v)" by fastforce
  have "CHR ''<'' \<notin> set k" using Cons.prems a key_no_blank(3) by (auto simp: list_all_iff)
  moreover have "CHR ''<'' \<notin> set (xml_escape v)" using set_xml_escape by blast
  ultimately show ?case using Cons a by simp
qed simp

lemma count_concat:
  assumes "\<And>n rest. n \<in> set ns \<Longrightarrow>
      count_matches ''</node>'' (render_node n @ rest) \<le> length (document_order n) + count_matches ''</node>'' rest"
  shows "count_matches ''</node>'' (concat (map render_node ns) @ rest)
      \<le> length (concat (map document_order ns)) + count_matches ''</node>'' rest"
  using assms
proof (induction ns)
  case (Cons n ns)
  have "count_matches ''</node>'' (render_node n @ concat (map render_node ns) @ rest)
      \<le> length (document_order n) + count_matches ''</node>'' (concat (map render_node ns) @ rest)"
    by (rule Cons.prems) simp
  moreover have "count_matches ''</node>'' (concat (map render_node ns) @ rest)
      \<le> length (concat (map document_order ns)) + count_matches ''</node>'' rest"
    by (rule Cons.IH) (use Cons.prems in simp)
  ultimately show ?case by simp
qed simp

lemma count_rendered:
  "renderable n \<Longrightarrow>
   count_matches ''</node>'' (render_node n @ rest) \<le> length (document_order n) + count_matches ''</node>'' rest"
proof (induction n arbitrary: rest rule: dump_node.induct)
  case (DumpNode attributes children)
  from DumpNode.prems have r: "keys_ok attributes" "list_all renderable children" by (auto dest: readable_parts)
  have open_tag: "count_matches ''</node>'' (''<node'' @ render_attributes attributes @ t) = count_matches ''</node>'' t" for t
    using count_skip_text[OF render_attributes_text[OF r(1)], of t] by (simp add: count_skip)
  show ?case
  proof (cases "children = []")
    case True
    then show ?thesis using open_tag[of "'' />'' @ rest"] by (simp add: count_skip)
  next
    case False
    have "count_matches ''</node>'' (concat (map render_node children) @ ''</node>'' @ rest)
        \<le> length (concat (map document_order children)) + count_matches ''</node>'' (''</node>'' @ rest)"
      by (rule count_concat, rule DumpNode.IH) (use r(2) in \<open>auto simp: list_all_iff\<close>)
    then show ?thesis
      using open_tag[of "''>'' @ concat (map render_node children) @ ''</node>'' @ rest"] False count_close[of rest]
      by (simp add: count_skip)
  qed
qed

section \<open>No declarations\<close>

text \<open>No tag of a rendered node starts like a document type or an entity declaration.\<close>

fun no_bang :: "string \<Rightarrow> bool" where
  "no_bang [] = True"
| "no_bang (c # t) = ((c = CHR ''<'' \<longrightarrow> t = [] \<or> hd t \<noteq> CHR ''!'') \<and> no_bang t)"

lemma no_bang_contains: "no_bang t \<Longrightarrow> \<not> contains_text t (CHR ''<'' # CHR ''!'' # p)"
proof (induction t)
  case Nil
  show ?case by (simp add: contains_text_iff)
next
  case (Cons c t)
  then show ?case by (cases t) (auto simp: contains_text_Cons)
qed

lemma no_bang_text: "CHR ''<'' \<notin> set s \<Longrightarrow> no_bang (s @ t) = no_bang t"
  by (induction s) auto

lemma no_bang_rendered: "renderable n \<Longrightarrow> no_bang (render_node n @ rest) = no_bang rest"
proof (induction n arbitrary: rest rule: dump_node.induct)
  case (DumpNode attributes children)
  from DumpNode.prems have r: "keys_ok attributes" "list_all renderable children" by (auto dest: readable_parts)
  have inner: "no_bang (concat (map render_node ns) @ t) = no_bang t" if "set ns \<subseteq> set children" for ns t
    using that DumpNode.IH r(2) by (induction ns) (auto simp: list_all_iff)
  show ?case
    using no_bang_text[OF render_attributes_text[OF r(1)]] inner[of children]
    by (simp)
qed

section \<open>Reading a dump\<close>

text \<open>
  C24: a dump written as \<open>uiautomator\<close> writes it is read back whole. Whatever text the attributes hold,
  with markup characters escaped, the reader accepts the document, finds the nodes in document order with
  their attributes decoded, keeps the first \<open>max_nodes\<close> of them and says whether there were more, and
  proves the scene by the digest of the very bytes it read.
\<close>

theorem dump_read_back:
  assumes "nodes \<noteq> []" "list_all renderable nodes" "1 \<le> max_nodes" "max_nodes \<le> VISUAL_MAX_NODES"
    and "length (render_dump nodes) \<le> 8 * 1024 * 1024" "from_utf8 (render_dump nodes)"
  shows "parse_privileged_hierarchy digest_hex (render_dump nodes) max_nodes display
    = Ok \<lparr>vh_display = display,
          vh_foreground = map_option (\<lambda>package. \<lparr>fo_package = Some package, fo_activity = None\<rparr>)
            (first_package (take (unat max_nodes) (map node_of (concat (map document_order nodes))))),
          vh_nodes = take (unat max_nodes) (map node_of (concat (map document_order nodes))),
          vh_truncated = (unat max_nodes < length (concat (map document_order nodes))),
          vh_proof = ScenePrivileged (digest_hex (render_dump nodes))\<rparr>"
proof -
  let ?xml = "render_dump nodes" and ?all = "concat (map document_order nodes)"
  let ?inner = "concat (map render_node nodes) @ ''</hierarchy>''"
  have each: "renderable n" if "n \<in> set nodes" for n using assms(2) that by (simp add: list_all_iff)
  have "privileged_nodes m ?xml [] 0 = privileged_nodes m ?inner [] 0" for m
    by (simp add: render_dump_def nodes_skip)
  also have "privileged_nodes m ?inner [] 0 = privileged_nodes m ''</hierarchy>'' (take m (map node_of ?all)) (length ?all)" for m
    using nodes_concat[of nodes m "[]" "''</hierarchy>''" 0] nodes_rendered each by simp
  also have "privileged_nodes m ''</hierarchy>'' taken k = Ok (taken, k)" for m taken k
    by (simp add: nodes_skip privileged_nodes.simps[of _ "[]"])
  finally have scan: "privileged_nodes m ?xml [] 0 = Ok (take m (map node_of ?all), length ?all)" for m .
  have "count_matches ''</node>'' ?xml = count_matches ''</node>'' ?inner"
    by (simp add: render_dump_def count_skip)
  also have "\<dots> \<le> length ?all + count_matches ''</node>'' ''</hierarchy>''"
    by (rule count_concat) (simp add: each count_rendered)
  also have "count_matches ''</node>'' ''</hierarchy>'' = 0"
    by (simp add: count_skip count_matches.simps[of _ "[]"])
  finally have closes: "count_matches ''</node>'' ?xml \<le> length ?all" by simp
  have "no_bang (concat (map render_node ns) @ t) = no_bang t" if "set ns \<subseteq> set nodes" for ns t
    using that each by (induction ns) (auto simp: no_bang_rendered)
  then have "no_bang ?xml" by (simp add: render_dump_def)
  from no_bang_contains[OF this] have banned: "\<not> contains_text ?xml ''<!DOCTYPE''" "\<not> contains_text ?xml ''<!ENTITY''"
    by simp_all
  have "contains_text ?xml ''</hierarchy>''"
    unfolding render_dump_def using contains_text_prefix[of "''</hierarchy>''" "[]"] by (intro contains_text_append) simp
  moreover have "contains_text ?xml ''<hierarchy''" by (simp add: render_dump_def contains_text_Cons)
  moreover have "?all \<noteq> []" using assms(1) by (cases nodes; cases "hd nodes") auto
  moreover have "?xml \<noteq> []" by (simp add: render_dump_def)
  ultimately show ?thesis
    using assms(3-6) structure_dump[OF assms(2)] banned scan closes
    by (simp add: parse_privileged_hierarchy_def)
qed

section \<open>Samples\<close>

definition sample_screen :: "dump_node list" where
  "sample_screen =
     [DumpNode [(''package'', ''a''), (''bounds'', ''[0,0][9,9]'')]
        [DumpNode [(''text'', ''1 < 2''), (''bounds'', ''[-1,0][9,4]'')] []]]"

definition sample_display :: visual_display_snapshot where
  "sample_display = \<lparr>vd_display = \<lparr>dg_width = 9, dg_height = 9, dg_rotation = 0, dg_density_dpi = None\<rparr>,
     vd_display_generation = 1\<rparr>"

lemma dump_keys:
  "xml_key_char c \<longleftrightarrow> c \<in> set ''-_:''
     \<or> (let n = of_char c :: nat in 97 \<le> n \<and> n \<le> 122 \<or> 65 \<le> n \<and> n \<le> 90 \<or> 48 \<le> n \<and> n \<le> 57)"
  by (auto simp: xml_key_char_def is_ascii_alphanumeric_def is_ascii_alphabetic_def is_ascii_lowercase_def
      is_ascii_uppercase_def is_ascii_digit_def less_eq_char_def Let_def)

lemma sample_bounds:
  "parse_bounds ''[0,0][9,9]'' = Ok \<lparr>nb_left = 0, nb_top = 0, nb_right = 9, nb_bottom = 9\<rparr>"
  "parse_bounds ''[-1,0][9,4]'' = Ok \<lparr>nb_left = -1, nb_top = 0, nb_right = 9, nb_bottom = 4\<rparr>"
  by (simp_all add: parse_bounds_def parse_coordinate_pair_def some_or_invalid_def strip_prefix_def strip_suffix_def
      ends_with_def split_once_Cons i32_from_str_def digit_value_def is_ascii_digit_def less_eq_char_def)

lemma sample_attributes:
  "bt_from [(''package'', ''a''), (''bounds'', ''[0,0][9,9]'')] = [(''bounds'', ''[0,0][9,9]''), (''package'', ''a'')]"
  "bt_from [(''text'', ''1 < 2''), (''bounds'', ''[-1,0][9,4]'')] = [(''bounds'', ''[-1,0][9,4]''), (''text'', ''1 < 2'')]"
  by (simp_all add: bt_from_def less_char_def)

lemma sample_screen_ok:
  "list_all renderable sample_screen" "length (render_dump sample_screen) \<le> 8 * 1024 * 1024"
  "from_utf8 (render_dump sample_screen)"
  by (simp_all add: sample_screen_def readable_def sample_attributes dump_keys privileged_node_def sample_bounds
      some_or_invalid_def bt_get_def optional_bool_def render_dump_def xml_escape_def xml_escape_char_def from_utf8_def)

lemma sample_dump_texts:
  "map (vn_text \<circ> node_of) (concat (map document_order sample_screen)) = [None, Some ''1 < 2'']"
  by (simp add: sample_screen_def node_of_def sample_attributes privileged_node_def sample_bounds
      some_or_invalid_def bt_get_def optional_bool_def optional_nonempty_def)

theorem dump_read_back_witness:
  "map vn_text (vh_nodes (projr (parse_privileged_hierarchy (\<lambda>_. ''d'') (render_dump sample_screen) 5 sample_display)))
     = [None, Some ''1 < 2'']"
proof -
  have n: "sample_screen \<noteq> []" by (simp add: sample_screen_def)
  have "length (concat (map document_order sample_screen)) = 2" by (simp add: sample_screen_def)
  with dump_read_back[OF n sample_screen_ok(1) _ _ sample_screen_ok(2,3), of 5 "\<lambda>_. ''d''" sample_display] sample_dump_texts
  show ?thesis by simp
qed

text \<open>
  What stands inside the XML declaration is not checked as a tag, but it is searched for nodes: this
  document has no element in its hierarchy, and is answered with one node.
\<close>

definition declaration_dump :: string where
  "declaration_dump = ''<?xml '' @ render_node (DumpNode [(''bounds'', ''[0,0][9,9]'')] []) @ ''?><hierarchy></hierarchy>''"

lemma declaration_searched:
  "\<exists>h. parse_privileged_hierarchy (\<lambda>_. ''d'') declaration_dump 5 sample_display = Ok h \<and> length (vh_nodes h) = 1"
proof -
  let ?attributes = "[(''bounds'', ''[0,0][9,9]'')]"
  have name: "tag_name ''hierarchy''" by (simp add: tag_name_def printable_def)
  have root: "xml_tag (trim ''hierarchy'') [] False = Ok ([''hierarchy''], True)"
    using xml_tag_open[OF name, of "[]" "[]" False True] by (simp add: opened_by_def)
  have closed: "xml_tag (trim ''/hierarchy'') [''hierarchy''] True = Ok ([], True)"
    using xml_tag_close[OF name, of "[]" True] by simp
  have nested: "validate_privileged_xml_structure declaration_dump = Ok ()"
    by (simp add: validate_privileged_xml_structure_def declaration_dump_def xml_structure.simps split_once_Cons
        trim_Nil xml_tag_end_def xml_quote_def root closed xml_escape_def xml_escape_char_def)
  have readable: "readable ?attributes"
    by (simp add: readable_def bt_from_def dump_keys privileged_node_def sample_bounds some_or_invalid_def
        bt_get_def optional_bool_def)
  then have keys: "keys_ok ?attributes" "distinct (map fst ?attributes)" using readable_parts by blast+
  have "privileged_nodes 5 declaration_dump [] 0
      = privileged_nodes 5 (''<node'' @ render_attributes ?attributes @ '' />'' @ ''?><hierarchy></hierarchy>'') [] 0"
    by (simp add: declaration_dump_def nodes_skip)
  also have "\<dots> = Ok ([node_of ?attributes], 1)"
    using nodes_found[OF node_of_Ok[OF readable] keys, of "'' />'' @ ''?><hierarchy></hierarchy>''"
        "''?><hierarchy></hierarchy>''" 5 "[]" 0]
    by (simp add: nodes_skip privileged_nodes.simps[of _ "[]"])
  finally have nodes: "privileged_nodes 5 declaration_dump [] 0 = Ok ([node_of ?attributes], 1)" .
  have "count_matches ''</node>'' declaration_dump = 0"
    by (simp add: declaration_dump_def count_skip xml_escape_def xml_escape_char_def count_matches.simps[of _ "[]"])
  moreover have "from_utf8 declaration_dump"
    by (simp add: declaration_dump_def from_utf8_def xml_escape_def xml_escape_char_def)
  moreover have "no_bang declaration_dump"
    by (simp add: declaration_dump_def xml_escape_def xml_escape_char_def)
  moreover have "contains_text declaration_dump ''<hierarchy''" "contains_text declaration_dump ''</hierarchy>''"
    by (simp_all add: declaration_dump_def contains_text_Cons xml_escape_def xml_escape_char_def)
  moreover have "declaration_dump \<noteq> []" "length declaration_dump \<le> 8 * 1024 * 1024"
    by (simp_all add: declaration_dump_def xml_escape_def xml_escape_char_def)
  ultimately show ?thesis
    using nested nodes no_bang_contains[of declaration_dump]
    by (simp add: parse_privileged_hierarchy_def)
qed

end
