(* ===== verification/Network_Packet.thy ===== *)
theory Network_Packet
  imports Text_Ops Stored_Model
begin

text \<open>
  IP addresses as the Rust standard library reads and writes them (\<open>core::net\<close>): an IPv4 address is
  four bytes, an IPv6 address eight groups of 16 bits.
\<close>

datatype ip_address = IpV4 "nat list" | IpV6 "nat list"

section \<open>Reading\<close>

text \<open>
  \<open>hex_digit_value\<close> is \<open>char::to_digit\<close> at a radix of at most 16; \<open>leading_digits\<close> splits off the
  digits a number starts with; \<open>read_number\<close> takes one of at most \<open>max_digits\<close> digits below \<open>bound\<close>, and
  refuses a zero in front of other digits unless it is allowed.
\<close>

definition hex_digit_value :: "char \<Rightarrow> nat option" where
  "hex_digit_value c =
     (if is_ascii_digit c then Some (of_char c - 48)
      else if CHR ''a'' \<le> c \<and> c \<le> CHR ''f'' then Some (of_char c - 87)
      else if CHR ''A'' \<le> c \<and> c \<le> CHR ''F'' then Some (of_char c - 55)
      else None)"

definition radix_digit :: "nat \<Rightarrow> char \<Rightarrow> nat option" where
  "radix_digit radix c =
     (case hex_digit_value c of None \<Rightarrow> None | Some d \<Rightarrow> if d < radix then Some d else None)"

definition number_value :: "nat \<Rightarrow> string \<Rightarrow> nat" where
  "number_value radix ds = foldl (\<lambda>acc c. acc * radix + the (radix_digit radix c)) 0 ds"

definition read_number :: "nat \<Rightarrow> nat \<Rightarrow> bool \<Rightarrow> nat \<Rightarrow> string \<Rightarrow> (nat \<times> string) option" where
  "read_number radix max_digits allow_zero_prefix bound s =
     (let ds = takeWhile (\<lambda>c. radix_digit radix c \<noteq> None) s in
      if ds = [] \<or> max_digits < length ds \<or> bound \<le> number_value radix ds
         \<or> (\<not> allow_zero_prefix \<and> 1 < length ds \<and> hd ds = CHR ''0'')
      then None
      else Some (number_value radix ds, drop (length ds) s))"

definition read_separated ::
  "char \<Rightarrow> nat \<Rightarrow> (string \<Rightarrow> ('a \<times> string) option) \<Rightarrow> string \<Rightarrow> ('a \<times> string) option" where
  "read_separated separator index f s =
     (if index = 0 then f s
      else case s of c # s \<Rightarrow> if c = separator then f s else None | [] \<Rightarrow> None)"

definition read_ipv4 :: "string \<Rightarrow> (nat list \<times> string) option" where
  "read_ipv4 s =
     Option.bind (read_number 10 3 False 256 s) (\<lambda>(a, s).
     Option.bind (read_separated CHR ''.'' 1 (read_number 10 3 False 256) s) (\<lambda>(b, s).
     Option.bind (read_separated CHR ''.'' 2 (read_number 10 3 False 256) s) (\<lambda>(c, s).
     Option.bind (read_separated CHR ''.'' 3 (read_number 10 3 False 256) s) (\<lambda>(d, s).
     Some ([a, b, c, d], s)))))"

definition parse_ipv4_text :: "string \<Rightarrow> nat list option" where
  "parse_ipv4_text s =
     (if 15 < length s then None
      else case read_ipv4 s of Some (a, []) \<Rightarrow> Some a | _ \<Rightarrow> None)"

text \<open>\<open>read_groups i limit\<close> reads groups from index \<open>i\<close> on; an IPv4 tail counts as two of them.\<close>

function read_groups :: "nat \<Rightarrow> nat \<Rightarrow> string \<Rightarrow> nat list \<times> bool \<times> string" where
  "read_groups i limit s =
     (if limit \<le> i then ([], False, s)
      else case (if i + 1 < limit then read_separated CHR '':'' i read_ipv4 s else None) of
        Some ([a, b, c, d], s) \<Rightarrow> ([a * 256 + b, c * 256 + d], True, s)
      | _ \<Rightarrow> (case read_separated CHR '':'' i (read_number 16 4 True 65536) s of
                None \<Rightarrow> ([], False, s)
              | Some (g, s) \<Rightarrow> (case read_groups (i + 1) limit s of (gs, r) \<Rightarrow> (g # gs, r))))"
  by pat_completeness auto
termination by (relation "measure (\<lambda>(i, limit, _). limit - i)") auto

declare read_groups.simps [simp del]

definition parse_ipv6_text :: "string \<Rightarrow> nat list option" where
  "parse_ipv6_text s =
     (case read_groups 0 8 s of (head, head_ipv4, s) \<Rightarrow>
        if length head = 8 then (if s = [] then Some head else None)
        else if head_ipv4 then None
        else if \<not> starts_with ''::'' s then None
        else (case read_groups 0 (8 - (length head + 1)) (drop 2 s) of (tail, _, s) \<Rightarrow>
                if s = [] then Some (head @ replicate (8 - length head - length tail) 0 @ tail) else None))"

definition parse_ip_text :: "string \<Rightarrow> ip_address option" where
  "parse_ip_text s =
     (case parse_ipv4_text s of
        Some a \<Rightarrow> Some (IpV4 a)
      | None \<Rightarrow> map_option IpV6 (parse_ipv6_text s))"

section \<open>Writing\<close>

definition hex_char :: "nat \<Rightarrow> char" where
  "hex_char d = (if d < 10 then char_of (48 + d) else char_of (87 + d))"

text \<open>\<open>{:x}\<close> of a number.\<close>

fun hex_text :: "nat \<Rightarrow> string" where
  "hex_text n = (if n < 16 then [hex_char n] else hex_text (n div 16) @ [hex_char (n mod 16)])"

declare hex_text.simps [simp del]

fun join_text :: "string \<Rightarrow> string list \<Rightarrow> string" where
  "join_text separator [] = []"
| "join_text separator [w] = w"
| "join_text separator (w # ws) = w @ separator @ join_text separator ws"

definition show_ipv4 :: "nat list \<Rightarrow> string" where
  "show_ipv4 a = join_text ''.'' (map decimal_text a)"

text \<open>The first of the longest runs of zero groups, as its start and length.\<close>

fun zero_run :: "nat list \<Rightarrow> nat" where
  "zero_run (0 # gs) = Suc (zero_run gs)"
| "zero_run _ = 0"

definition longest_zero_run :: "nat list \<Rightarrow> nat \<times> nat" where
  "longest_zero_run gs =
     foldl (\<lambda>(start, len) i. if len < zero_run (drop i gs) then (i, zero_run (drop i gs)) else (start, len)) (0, 0)
       [0..<length gs]"

definition show_ipv6 :: "nat list \<Rightarrow> string" where
  "show_ipv6 gs =
     (if take 6 gs = [0, 0, 0, 0, 0, 65535]
      then ''::ffff:'' @ show_ipv4 [gs ! 6 div 256, gs ! 6 mod 256, gs ! 7 div 256, gs ! 7 mod 256]
      else case longest_zero_run gs of (start, len) \<Rightarrow>
        if 1 < len
        then join_text '':'' (map (hex_text) (take start gs)) @ ''::'' @
             join_text '':'' (map (hex_text) (drop (start + len) gs))
        else join_text '':'' (map (hex_text) gs))"


unbundle bit_operations_syntax

text \<open>
  Packets and captures of the network tool (\<open>rust/crates/runtime/src/network.rs\<close>): hardware addresses
  and TCP flags, the link-layer rule, decoding and building of packets, the classic PCAP stream and the
  bounded window of a capture read. The wire structures themselves belong to the \<open>etherparse\<close> crate:
  what it slices out of bytes and the bytes it writes are the fields of \<open>packet_codec\<close>, as is the
  calendar of \<open>chrono\<close>.
\<close>

section \<open>Bytes\<close>

definition byte_at :: "string \<Rightarrow> nat \<Rightarrow> nat" where
  "byte_at b i = of_char (b ! i)"

definition u16_be :: "string \<Rightarrow> nat \<Rightarrow> nat" where
  "u16_be b i = byte_at b i * 256 + byte_at b (i + 1)"

text \<open>\<open>to_le_bytes\<close> of a number of \<open>k\<close> bytes and \<open>u32::from_le_bytes\<close>\<close>

definition to_le_bytes :: "nat \<Rightarrow> nat \<Rightarrow> string" where
  "to_le_bytes k n = map (\<lambda>i. char_of (n div 256 ^ i)) [0..<k]"

definition le_value :: "string \<Rightarrow> nat" where
  "le_value b = foldr (\<lambda>c acc. of_char c + 256 * acc) b 0"

definition from_le_bytes :: "string \<Rightarrow> u32" where
  "from_le_bytes b = of_nat (le_value b)"

section \<open>Hardware addresses\<close>

definition parse_mac_part :: "string \<Rightarrow> string \<Rightarrow> u8 res" where
  "parse_mac_part reason part =
     (if length part \<noteq> 2 \<or> \<not> list_all (\<lambda>c. is_ascii_digit c \<or> (CHR ''a'' \<le> c \<and> c \<le> CHR ''f'')) part
      then err_invalid reason
      else Ok (of_nat (number_value 16 part)))"

definition parse_mac :: "string \<Rightarrow> string \<Rightarrow> u8 list res" where
  "parse_mac text reason =
     (let parts = split_char CHR '':'' text in
      if length parts \<noteq> 6 then err_invalid reason else collect (parse_mac_part reason) parts)"

definition format_byte :: "u8 \<Rightarrow> string" where
  "format_byte b = [hex_char (unat b div 16), hex_char (unat b mod 16)]"

definition format_mac :: "u8 list \<Rightarrow> string" where
  "format_mac mac = join_text '':'' (map format_byte mac)"

section \<open>TCP flags\<close>

definition TCP_FLAG_ORDER :: "string list" where
  "TCP_FLAG_ORDER = [''fin'', ''syn'', ''rst'', ''psh'', ''ack'', ''urg'', ''ece'', ''cwr'']"

fun add_tcp_flags :: "u8 \<Rightarrow> string list \<Rightarrow> u8 res" where
  "add_tcp_flags flagged [] = Ok flagged"
| "add_tcp_flags flagged (flag # flags) =
     (case position (\<lambda>known. known = flag) TCP_FLAG_ORDER of
        None \<Rightarrow> err_invalid ''network.packet build tcp flags are invalid''
      | Some index \<Rightarrow>
          if flagged AND push_bit index 1 \<noteq> 0 then err_invalid ''network.packet build tcp flags are not unique''
          else add_tcp_flags (flagged OR push_bit index 1) flags)"

definition tcp_flag_mask :: "string list \<Rightarrow> u8 res" where
  "tcp_flag_mask flags = add_tcp_flags 0 flags"

text \<open>The eight booleans of a header, in the order of the names.\<close>

definition mask_bits :: "u8 \<Rightarrow> bool list" where
  "mask_bits flagged = map (\<lambda>i. flagged AND push_bit i 1 \<noteq> 0) [0..<8]"

definition tcp_flags :: "bool list \<Rightarrow> string list" where
  "tcp_flags bits = map fst (filter snd (zip TCP_FLAG_ORDER bits))"

section \<open>The link layer\<close>

datatype link_layer = LinkEthernet | LinkIp | LinkUnknown

definition version_nibble :: "string \<Rightarrow> nat option" where
  "version_nibble b = (case b of [] \<Rightarrow> None | c # _ \<Rightarrow> Some (of_char c div 16))"

definition looks_like_ethernet :: "string \<Rightarrow> bool" where
  "looks_like_ethernet b =
     (if length b < 14 then False
      else let inner = drop 14 b; ether_type = u16_be b 12 in
        if ether_type = 0x0800 then 20 \<le> length inner \<and> byte_at inner 0 div 16 = 4 \<and> u16_be inner 2 \<le> length inner
        else if ether_type = 0x86DD then version_nibble inner = Some 6
        else ether_type = 0x0806)"

definition link_layer_of :: "string \<Rightarrow> link_layer" where
  "link_layer_of b =
     (let ip_exact =
        (if version_nibble b = Some 4 then 20 \<le> length b \<and> u16_be b 2 = length b
         else if version_nibble b = Some 6 then 40 \<le> length b \<and> 40 + u16_be b 4 = length b
         else False)
      in if ip_exact then LinkIp
         else if looks_like_ethernet b then LinkEthernet
         else if version_nibble b = Some 4 \<or> version_nibble b = Some 6 then LinkIp
         else LinkUnknown)"

section \<open>Packets (contract)\<close>

record ethernet_header =
  eh_src_mac :: string
  eh_dst_mac :: string
  eh_ether_type :: u16

record ipv4_header =
  i4_src :: string
  i4_dst :: string
  i4_ttl :: u8
  i4_protocol :: u8
  i4_identification :: u16
  i4_dont_fragment :: bool

record ipv6_header =
  i6_src :: string
  i6_dst :: string
  i6_hop_limit :: u8
  i6_next_header :: u8

record tcp_header =
  th_src_port :: u16
  th_dst_port :: u16
  th_sequence :: u32
  th_acknowledgement :: u32
  th_flags :: "string list"
  th_window :: u16

record udp_header =
  uh_src_port :: u16
  uh_dst_port :: u16

record icmp_header =
  ih_icmp_type :: u8
  ih_code :: u8

record packet_decode_result =
  pd_length :: u64
  pd_ethernet :: "ethernet_header option"
  pd_ipv4 :: "ipv4_header option"
  pd_ipv6 :: "ipv6_header option"
  pd_tcp :: "tcp_header option"
  pd_udp :: "udp_header option"
  pd_icmp :: "icmp_header option"
  pd_payload_preview_base64 :: string
  pd_payload_total_bytes :: u64
  pd_payload_truncated :: bool

datatype packet_protocol =
  ProtocolEthernet | ProtocolIpv4 | ProtocolIpv6 | ProtocolTcp | ProtocolUdp | ProtocolIcmp | ProtocolOther

record packet_summary =
  pk_index :: u64
  pk_timestamp :: "string option"
  pk_length :: u64
  pk_protocol :: packet_protocol
  pk_src_mac :: "string option"
  pk_dst_mac :: "string option"
  pk_src_ip :: "string option"
  pk_dst_ip :: "string option"
  pk_src_port :: "u16 option"
  pk_dst_port :: "u16 option"
  pk_payload_preview_base64 :: "string option"
  pk_payload_total_bytes :: "u64 option"
  pk_payload_truncated :: "bool option"

record capture_read_result =
  cr_packets :: "packet_summary list"
  cr_next_offset_packet :: "u64 option"
  cr_truncated :: bool

record ethernet_build =
  eb_src_mac :: string
  eb_dst_mac :: string

datatype network_build =
  BuildIpv4 string string u8 u16 bool
| BuildIpv6 string string u8

datatype transport_build =
  BuildTcp u16 u16 u32 u32 "string list" u16
| BuildUdp u16 u16
| BuildIcmp u8 u8

section \<open>What etherparse and chrono provide\<close>

text \<open>The slices of a packet, each with its payload, and the headers a builder is given.\<close>

record link_slice =
  ls_source :: "u8 list"
  ls_destination :: "u8 list"
  ls_ether_type :: u16
  ls_payload :: string

datatype net_slice =
  SliceIpv4 "nat list" "nat list" u8 u8 u16 bool string
| SliceIpv6 "nat list" "nat list" u8 u8 string
| SliceNetOther

datatype transport_slice =
  SliceTcp u16 u16 u32 u32 "bool list" u16 string
| SliceUdp u16 u16 string
| SliceIcmpv4 u8 u8 string
| SliceIcmpv6 u8 u8 string

record sliced_packet =
  sp_link :: "link_slice option"
  sp_net :: "net_slice option"
  sp_transport :: "transport_slice option"

datatype ip_number = NumberTcp | NumberUdp | NumberIcmp | NumberIpv6Icmp

datatype ip_headers =
  HeadersIpv4 u8 ip_number "nat list" "nat list" u16 bool
| HeadersIpv6 ip_number u8 "nat list" "nat list"

datatype transport_headers =
  HeadersTcp u16 u16 u32 u16 u32 "bool list"
| HeadersUdp u16 u16
| HeadersIcmpv4 u8 u8
| HeadersIcmpv6 u8 u8

record packet_codec =
  pc_from_ethernet :: "string \<Rightarrow> sliced_packet option"
  pc_from_ip :: "string \<Rightarrow> sliced_packet option"
  pc_ipv4_new :: "u8 \<Rightarrow> ip_number \<Rightarrow> nat list \<Rightarrow> nat list \<Rightarrow> bool"
  pc_write :: "(u8 list \<times> u8 list) option \<Rightarrow> ip_headers \<Rightarrow> transport_headers \<Rightarrow> string \<Rightarrow> string option"
  pc_rfc3339_millis :: "nat \<Rightarrow> string option"

section \<open>Decoding a packet\<close>

abbreviation NETWORK_PAYLOAD_PREVIEW_BYTES :: nat where "NETWORK_PAYLOAD_PREVIEW_BYTES \<equiv> 4096"
abbreviation NETWORK_MAX_PACKET_BYTES :: nat where "NETWORK_MAX_PACKET_BYTES \<equiv> 131072"

definition empty_decode :: "string \<Rightarrow> packet_decode_result" where
  "empty_decode b = \<lparr>pd_length = of_nat (length b), pd_ethernet = None, pd_ipv4 = None, pd_ipv6 = None,
     pd_tcp = None, pd_udp = None, pd_icmp = None, pd_payload_preview_base64 = [],
     pd_payload_total_bytes = 0, pd_payload_truncated = False\<rparr>"

definition decode_link :: "sliced_packet \<Rightarrow> packet_decode_result \<times> string \<Rightarrow> packet_decode_result \<times> string" where
  "decode_link sliced = (\<lambda>(result, payload).
     (case sp_link sliced of
        Some link \<Rightarrow> (result\<lparr>pd_ethernet := Some \<lparr>eh_src_mac = format_mac (ls_source link),
                        eh_dst_mac = format_mac (ls_destination link), eh_ether_type = ls_ether_type link\<rparr>\<rparr>,
                      ls_payload link)
      | None \<Rightarrow> (result, payload)))"

definition decode_net :: "sliced_packet \<Rightarrow> packet_decode_result \<times> string \<Rightarrow> packet_decode_result \<times> string" where
  "decode_net sliced = (\<lambda>(result, payload).
     (case sp_net sliced of
        Some (SliceIpv4 src dst ttl protocol identification dont_fragment inner) \<Rightarrow>
          (result\<lparr>pd_ipv4 := Some \<lparr>i4_src = show_ipv4 src, i4_dst = show_ipv4 dst, i4_ttl = ttl, i4_protocol = protocol,
             i4_identification = identification, i4_dont_fragment = dont_fragment\<rparr>\<rparr>, inner)
      | Some (SliceIpv6 src dst hop_limit next_header inner) \<Rightarrow>
          (result\<lparr>pd_ipv6 := Some \<lparr>i6_src = show_ipv6 src, i6_dst = show_ipv6 dst, i6_hop_limit = hop_limit,
             i6_next_header = next_header\<rparr>\<rparr>, inner)
      | _ \<Rightarrow> (result, payload)))"

definition decode_transport :: "sliced_packet \<Rightarrow> packet_decode_result \<times> string \<Rightarrow> packet_decode_result \<times> string" where
  "decode_transport sliced = (\<lambda>(result, payload).
     (case sp_transport sliced of
        Some (SliceTcp src_port dst_port sequence acknowledgement bits window inner) \<Rightarrow>
          (result\<lparr>pd_tcp := Some \<lparr>th_src_port = src_port, th_dst_port = dst_port, th_sequence = sequence,
             th_acknowledgement = acknowledgement, th_flags = tcp_flags bits, th_window = window\<rparr>\<rparr>, inner)
      | Some (SliceUdp src_port dst_port inner) \<Rightarrow>
          (result\<lparr>pd_udp := Some \<lparr>uh_src_port = src_port, uh_dst_port = dst_port\<rparr>\<rparr>, inner)
      | Some (SliceIcmpv4 icmp_type code inner) \<Rightarrow>
          (result\<lparr>pd_icmp := Some \<lparr>ih_icmp_type = icmp_type, ih_code = code\<rparr>\<rparr>, inner)
      | Some (SliceIcmpv6 icmp_type code inner) \<Rightarrow>
          (result\<lparr>pd_icmp := Some \<lparr>ih_icmp_type = icmp_type, ih_code = code\<rparr>\<rparr>, inner)
      | None \<Rightarrow> (result, payload)))"

definition decode_packet :: "packet_codec \<Rightarrow> string \<Rightarrow> packet_decode_result" where
  "decode_packet codec b =
     (let sliced = (case link_layer_of b of
            LinkEthernet \<Rightarrow> pc_from_ethernet codec b
          | LinkIp \<Rightarrow> pc_from_ip codec b
          | LinkUnknown \<Rightarrow> None);
          (result, payload) = (case sliced of
            None \<Rightarrow> (empty_decode b, b)
          | Some sliced \<Rightarrow> decode_transport sliced (decode_net sliced (decode_link sliced (empty_decode b, b))));
          preview_len = min (length payload) NETWORK_PAYLOAD_PREVIEW_BYTES
      in result\<lparr>pd_payload_preview_base64 := base64_encode False True (take preview_len payload),
          pd_payload_total_bytes := of_nat (length payload),
          pd_payload_truncated := preview_len < length payload\<rparr>)"

section \<open>Building a packet\<close>

definition decode_base64 :: "string \<Rightarrow> string \<Rightarrow> string res" where
  "decode_base64 encoded reason = ok_or (base64_decode False True encoded) (domain_error_invalid reason)"

definition parse_ipv4 :: "string \<Rightarrow> string \<Rightarrow> nat list res" where
  "parse_ipv4 text reason = ok_or (parse_ipv4_text text) (domain_error_invalid reason)"

definition parse_ipv6 :: "string \<Rightarrow> string \<Rightarrow> nat list res" where
  "parse_ipv6 text reason = ok_or (parse_ipv6_text text) (domain_error_invalid reason)"

definition ip_number_of :: "network_build \<Rightarrow> transport_build \<Rightarrow> ip_number" where
  "ip_number_of network transport =
     (case transport of
        BuildTcp _ _ _ _ _ _ \<Rightarrow> NumberTcp
      | BuildUdp _ _ \<Rightarrow> NumberUdp
      | BuildIcmp _ _ \<Rightarrow> (case network of BuildIpv4 _ _ _ _ _ \<Rightarrow> NumberIcmp | BuildIpv6 _ _ _ \<Rightarrow> NumberIpv6Icmp))"

definition build_ip :: "packet_codec \<Rightarrow> network_build \<Rightarrow> ip_number \<Rightarrow> ip_headers res" where
  "build_ip codec network number =
     (case network of
        BuildIpv4 src dst ttl identification dont_fragment \<Rightarrow>
          rbind (parse_ipv4 src ''network.packet build src is invalid'') (\<lambda>src.
          rbind (parse_ipv4 dst ''network.packet build dst is invalid'') (\<lambda>dst.
          if \<not> pc_ipv4_new codec ttl number src dst
          then err_invalid ''network.packet build ipv4 header is out of bounds''
          else Ok (HeadersIpv4 ttl number src dst identification dont_fragment)))
      | BuildIpv6 src dst hop_limit \<Rightarrow>
          rbind (parse_ipv6 src ''network.packet build src is invalid'') (\<lambda>src.
          rbind (parse_ipv6 dst ''network.packet build dst is invalid'') (\<lambda>dst.
          Ok (HeadersIpv6 number hop_limit src dst))))"

definition build_link :: "ethernet_build option \<Rightarrow> (u8 list \<times> u8 list) option res" where
  "build_link ethernet =
     (case ethernet of
        None \<Rightarrow> Ok None
      | Some e \<Rightarrow>
          rbind (parse_mac (eb_src_mac e) ''network.packet build src_mac is invalid'') (\<lambda>src.
          rbind (parse_mac (eb_dst_mac e) ''network.packet build dst_mac is invalid'') (\<lambda>dst.
          Ok (Some (src, dst)))))"

definition build_transport :: "network_build \<Rightarrow> transport_build \<Rightarrow> transport_headers res" where
  "build_transport network transport =
     (case transport of
        BuildTcp src_port dst_port sequence acknowledgement flags window \<Rightarrow>
          rbind (tcp_flag_mask flags) (\<lambda>flagged.
          Ok (HeadersTcp src_port dst_port sequence window acknowledgement (mask_bits flagged)))
      | BuildUdp src_port dst_port \<Rightarrow> Ok (HeadersUdp src_port dst_port)
      | BuildIcmp icmp_type code \<Rightarrow>
          Ok (case network of BuildIpv4 _ _ _ _ _ \<Rightarrow> HeadersIcmpv4 icmp_type code
              | BuildIpv6 _ _ _ \<Rightarrow> HeadersIcmpv6 icmp_type code))"

definition build_packet ::
  "packet_codec \<Rightarrow> ethernet_build option \<Rightarrow> network_build \<Rightarrow> transport_build \<Rightarrow> string option \<Rightarrow> string res" where
  "build_packet codec ethernet network transport payload_base64 =
     rbind (case payload_base64 of
              Some encoded \<Rightarrow> decode_base64 encoded ''network.packet build payload_base64 is invalid''
            | None \<Rightarrow> Ok []) (\<lambda>payload.
     rbind (build_ip codec network (ip_number_of network transport)) (\<lambda>headers.
     rbind (build_link ethernet) (\<lambda>link.
     rbind (build_transport network transport) (\<lambda>transport.
     ok_or (pc_write codec link headers transport payload)
       (domain_error_invalid ''network.packet build packet is not representable'')))))"

end
