(* ===== verification/Network_Capture.thy ===== *)
theory Network_Capture
  imports Network_Packet
begin

text \<open>
  The classic PCAP stream of the network tool (\<open>rust/crates/runtime/src/network.rs\<close>), whose one reader
  serves every \<open>capture.read\<close> and whose headers the daemon's writer uses, and the bounded window of a
  read. \<open>framed\<close> says whether a result's JSON text leaves room for the envelope in one frame.
\<close>

section \<open>The stream\<close>

abbreviation PCAP_FILE_HEADER_BYTES :: nat where "PCAP_FILE_HEADER_BYTES \<equiv> 24"
abbreviation PCAP_RECORD_HEADER_BYTES :: nat where "PCAP_RECORD_HEADER_BYTES \<equiv> 16"
abbreviation PCAP_SNAPLEN :: nat where "PCAP_SNAPLEN \<equiv> 65535"
abbreviation PCAP_MAGIC_MICROSECOND :: nat where "PCAP_MAGIC_MICROSECOND \<equiv> 0xa1b2c3d4"

record pcap_record =
  pr_index :: u64
  pr_seconds :: u32
  pr_microseconds :: u32
  pr_original_len :: u32
  pr_bytes :: string

definition pcap_file_header :: "u32 \<Rightarrow> string" where
  "pcap_file_header link_type =
     to_le_bytes 4 PCAP_MAGIC_MICROSECOND @ to_le_bytes 2 2 @ to_le_bytes 2 4 @ replicate 8 (char_of (0 :: nat))
       @ to_le_bytes 4 PCAP_SNAPLEN @ to_le_bytes 4 (unat link_type)"

definition pcap_record_header :: "u32 \<Rightarrow> u32 \<Rightarrow> u32 \<Rightarrow> u32 \<Rightarrow> string" where
  "pcap_record_header seconds microseconds captured_len original_len =
     to_le_bytes 4 (unat seconds) @ to_le_bytes 4 (unat microseconds)
       @ to_le_bytes 4 (unat captured_len) @ to_le_bytes 4 (unat original_len)"

definition damaged :: "string \<Rightarrow> 'a res" where
  "damaged reason = err CaptureFailed reason"

definition slice :: "nat \<Rightarrow> nat \<Rightarrow> string \<Rightarrow> string" where
  "slice i j b = take (j - i) (drop i b)"

text \<open>The records that \<open>rest\<close> holds, numbered from \<open>index\<close> on.\<close>

function read_records :: "nat \<Rightarrow> string \<Rightarrow> pcap_record list res" where
  "read_records index rest =
     (if rest = [] then Ok []
      else if length rest < PCAP_RECORD_HEADER_BYTES
        then damaged ''capture stream has an incomplete record header''
      else let captured_len = unat (from_le_bytes (slice 8 12 rest)); body = drop PCAP_RECORD_HEADER_BYTES rest
        in if length body < captured_len then damaged ''capture stream has an incomplete record''
           else rbind (read_records (index + 1) (drop captured_len body)) (\<lambda>records.
             Ok (\<lparr>pr_index = of_nat index, pr_seconds = from_le_bytes (slice 0 4 rest),
                  pr_microseconds = from_le_bytes (slice 4 8 rest), pr_original_len = from_le_bytes (slice 12 16 rest),
                  pr_bytes = take captured_len body\<rparr> # records)))"
  by pat_completeness auto
termination by (relation "measure (\<lambda>(_, rest). length rest)") auto

declare read_records.simps [simp del]

definition read_pcap :: "string \<Rightarrow> pcap_record list res" where
  "read_pcap b =
     (if length b < PCAP_FILE_HEADER_BYTES \<or> unat (from_le_bytes (slice 0 4 b)) \<noteq> PCAP_MAGIC_MICROSECOND
      then damaged ''capture stream is not a classic PCAP file''
      else read_records 0 (drop PCAP_FILE_HEADER_BYTES b))"

section \<open>The largest count that framed\<close>

function bisect :: "(nat \<Rightarrow> bool) \<Rightarrow> nat \<Rightarrow> nat \<Rightarrow> nat" where
  "bisect framed low high =
     (if low < high
      then let middle = low + (high - low + 1) div 2
        in if framed middle then bisect framed middle high else bisect framed low (middle - 1)
      else low)"
  by pat_completeness auto
termination by (relation "measure (\<lambda>(_, low, high). high - low)") auto

declare bisect.simps [simp del]

definition largest_fitting :: "nat \<Rightarrow> (nat \<Rightarrow> bool) \<Rightarrow> nat option" where
  "largest_fitting upper framed = (if \<not> framed 0 then None else Some (bisect framed 0 upper))"

section \<open>A window of a capture\<close>

definition capture_timestamp :: "packet_codec \<Rightarrow> pcap_record \<Rightarrow> string option" where
  "capture_timestamp codec record =
     pc_rfc3339_millis codec (unat (pr_seconds record) * 1000 + unat (pr_microseconds record) div 1000)"

definition packet_protocol_of :: "packet_decode_result \<Rightarrow> packet_protocol" where
  "packet_protocol_of d =
     (if pd_tcp d \<noteq> None then ProtocolTcp
      else if pd_udp d \<noteq> None then ProtocolUdp
      else if pd_icmp d \<noteq> None then ProtocolIcmp
      else if pd_ipv6 d \<noteq> None then ProtocolIpv6
      else if pd_ipv4 d \<noteq> None then ProtocolIpv4
      else if pd_ethernet d \<noteq> None then ProtocolEthernet
      else ProtocolOther)"

definition or_else :: "'a option \<Rightarrow> 'a option \<Rightarrow> 'a option" where
  "or_else a b = (case a of None \<Rightarrow> b | Some _ \<Rightarrow> a)"

definition packet_summary_of :: "packet_codec \<Rightarrow> bool \<Rightarrow> pcap_record \<Rightarrow> packet_summary" where
  "packet_summary_of codec include_payload record =
     (let d = decode_packet codec (pr_bytes record) in
      \<lparr>pk_index = pr_index record, pk_timestamp = capture_timestamp codec record,
       pk_length = of_nat (length (pr_bytes record)), pk_protocol = packet_protocol_of d,
       pk_src_mac = map_option eh_src_mac (pd_ethernet d), pk_dst_mac = map_option eh_dst_mac (pd_ethernet d),
       pk_src_ip = or_else (map_option i4_src (pd_ipv4 d)) (map_option i6_src (pd_ipv6 d)),
       pk_dst_ip = or_else (map_option i4_dst (pd_ipv4 d)) (map_option i6_dst (pd_ipv6 d)),
       pk_src_port = or_else (map_option th_src_port (pd_tcp d)) (map_option uh_src_port (pd_udp d)),
       pk_dst_port = or_else (map_option th_dst_port (pd_tcp d)) (map_option uh_dst_port (pd_udp d)),
       pk_payload_preview_base64 = (if include_payload then Some (pd_payload_preview_base64 d) else None),
       pk_payload_total_bytes = (if include_payload then Some (pd_payload_total_bytes d) else None),
       pk_payload_truncated = (if include_payload then Some (pd_payload_truncated d) else None)\<rparr>)"

definition read_candidate :: "packet_summary list \<Rightarrow> u64 \<Rightarrow> bool \<Rightarrow> nat \<Rightarrow> capture_read_result" where
  "read_candidate packets offset_packet more_beyond count =
     (let more = count < length packets \<or> more_beyond in
      \<lparr>cr_packets = take count packets,
       cr_next_offset_packet = (if more then Some (saturating_add offset_packet (of_nat count)) else None),
       cr_truncated = more\<rparr>)"

definition fit_capture_read ::
  "(capture_read_result \<Rightarrow> bool) \<Rightarrow> packet_summary list \<Rightarrow> u64 \<Rightarrow> bool \<Rightarrow> string \<Rightarrow> capture_read_result res" where
  "fit_capture_read framed packets offset_packet more_beyond reason =
     (case largest_fitting (length packets) (\<lambda>count. framed (read_candidate packets offset_packet more_beyond count)) of
        None \<Rightarrow> err ResourceLimit reason
      | Some count \<Rightarrow> Ok (read_candidate packets offset_packet more_beyond count))"

definition read_capture_result ::
  "packet_codec \<Rightarrow> (capture_read_result \<Rightarrow> bool) \<Rightarrow> pcap_record list \<Rightarrow> u64 \<Rightarrow> u32 \<Rightarrow> bool \<Rightarrow> capture_read_result res" where
  "read_capture_result codec framed records offset_packet max_packets include_payload =
     (let start = min (unat offset_packet) (length records);
          end_at = min (start + unat max_packets) (length records)
      in fit_capture_read framed
           (map (packet_summary_of codec include_payload) (take (end_at - start) (drop start records)))
           offset_packet (end_at < length records)
           ''network.capture read result exceeds the protocol frame limit'')"


text \<open>
  What the packet and capture formats of the network tool promise: addresses and flags are read and
  written without loss, a capture stream is read back as its records however it was cut off, and the
  pages of a capture read list every packet once.
\<close>

section \<open>Bytes\<close>

lemma le_value_digits: "le_value (map (\<lambda>i. char_of (n div 256 ^ i)) [0..<k]) = n mod 256 ^ k" for n :: nat
proof (induction k arbitrary: n)
  case 0
  show ?case by (simp add: le_value_def)
next
  case (Suc k)
  have "map (\<lambda>i. char_of (n div 256 ^ i)) [0..<Suc k]
      = (char_of n :: char) # map (\<lambda>i. char_of (n div 256 div 256 ^ i)) [0..<k]"
    by (simp add: upt_conv_Cons map_Suc_upt[symmetric] div_mult2_eq del: upt_Suc)
  then have "le_value (map (\<lambda>i. char_of (n div 256 ^ i)) [0..<Suc k])
      = n mod 256 + 256 * le_value (map (\<lambda>i. char_of (n div 256 div 256 ^ i)) [0..<k])"
    by (simp add: le_value_def)
  also have "\<dots> = n mod 256 + 256 * (n div 256 mod 256 ^ k)" by (simp only: Suc.IH)
  also have "\<dots> = n mod 256 ^ Suc k" by (simp add: mod_mult2_eq)
  finally show ?case .
qed

lemma length_to_le_bytes [simp]: "length (to_le_bytes k n) = k"
  by (simp add: to_le_bytes_def)

lemma from_to_le_bytes: "n < 2 ^ 32 \<Longrightarrow> unat (from_le_bytes (to_le_bytes 4 n)) = n"
  by (simp add: from_le_bytes_def to_le_bytes_def le_value_digits unat_of_nat)

lemma from_to_le_bytes_word [simp]: "from_le_bytes (to_le_bytes 4 (unat w)) = w"
  by (rule word_unat_eq_iff[THEN iffD2]) (rule from_to_le_bytes, use unsigned_less[of w] in simp)

section \<open>Capture streams\<close>

text \<open>A stream as the writer of a capture lays it out.\<close>

definition record_bytes :: "pcap_record \<Rightarrow> string" where
  "record_bytes r = pcap_record_header (pr_seconds r) (pr_microseconds r) (of_nat (length (pr_bytes r))) (pr_original_len r)
     @ pr_bytes r"

definition pcap_stream :: "u32 \<Rightarrow> pcap_record list \<Rightarrow> string" where
  "pcap_stream link_type records = pcap_file_header link_type @ concat (map record_bytes records)"

definition numbered :: "nat \<Rightarrow> pcap_record list \<Rightarrow> bool" where
  "numbered index records \<longleftrightarrow>
     (\<forall>i<length records. pr_index (records ! i) = of_nat (index + i) \<and> length (pr_bytes (records ! i)) < 2 ^ 32)"

lemma numbered_Cons: "numbered index (r # rs) \<longleftrightarrow>
  pr_index r = of_nat index \<and> length (pr_bytes r) < 2 ^ 32 \<and> numbered (index + 1) rs"
  by (auto simp: numbered_def All_less_Suc2 less_Suc_eq_0_disj nth_Cons split: nat.splits)

lemma length_file_header [simp]: "length (pcap_file_header link_type) = 24"
  by (simp add: pcap_file_header_def)

lemma length_record_header [simp]: "length (pcap_record_header s m c l) = 16"
  by (simp add: pcap_record_header_def)

lemma record_header_nonempty [simp]: "pcap_record_header s m c l \<noteq> []"
  using length_record_header[of s m c l] by (metis list.size(3) zero_neq_numeral)

lemma header_magic: "unat (from_le_bytes (slice 0 4 (pcap_file_header link_type @ rest))) = PCAP_MAGIC_MICROSECOND"
  using from_to_le_bytes[of PCAP_MAGIC_MICROSECOND] by (simp add: slice_def pcap_file_header_def)

lemma header_parts:
  "from_le_bytes (slice 0 4 (pcap_record_header s m c l @ rest)) = s"
  "from_le_bytes (slice 4 8 (pcap_record_header s m c l @ rest)) = m"
  "from_le_bytes (slice 8 12 (pcap_record_header s m c l @ rest)) = c"
  "from_le_bytes (slice 12 16 (pcap_record_header s m c l @ rest)) = l"
  by (simp_all add: slice_def pcap_record_header_def)

lemma slice_take: "j \<le> n \<Longrightarrow> slice i j (take n b) = slice i j b"
  by (simp add: slice_def drop_take min_def)

lemma read_record:
  assumes "pr_index r = of_nat index" "length (pr_bytes r) < 2 ^ 32"
  shows "read_records index (record_bytes r @ rest) = rbind (read_records (index + 1) rest) (\<lambda>rs. Ok (r # rs))"
proof -
  let ?b = "record_bytes r @ rest"
  have count: "unat (of_nat (length (pr_bytes r)) :: u32) = length (pr_bytes r)"
    using assms(2) by (simp add: unat_of_nat)
  have len: "unat (from_le_bytes (slice 8 12 ?b)) = length (pr_bytes r)"
    by (simp add: record_bytes_def header_parts count)
  have whole: "\<lparr>pr_index = of_nat index, pr_seconds = from_le_bytes (slice 0 4 ?b),
      pr_microseconds = from_le_bytes (slice 4 8 ?b), pr_original_len = from_le_bytes (slice 12 16 ?b),
      pr_bytes = pr_bytes r\<rparr> = r"
    using assms(1) by (cases r) (simp add: record_bytes_def header_parts)
  have "\<not> ?b = []" "\<not> length ?b < 16" "drop 16 ?b = pr_bytes r @ rest"
    by (auto simp: record_bytes_def)
  then show ?thesis
    by (subst read_records.simps) (simp only: if_False Let_def len, simp add: whole)
qed

lemma read_torn_record:
  assumes "0 < m" "m < length (record_bytes r)" "length (pr_bytes r) < 2 ^ 32"
  shows "\<exists>e. read_records index (take m (record_bytes r)) = Err e"
proof (cases "m < 16")
  case True
  with assms show ?thesis
    by (subst read_records.simps) (auto simp: damaged_def)
next
  case False
  then have "slice 8 12 (take m (record_bytes r)) = slice 8 12 (record_bytes r)" by (simp add: slice_take)
  then have "unat (from_le_bytes (slice 8 12 (take m (record_bytes r)))) = length (pr_bytes r)"
    using assms(3) by (simp add: record_bytes_def header_parts unat_of_nat)
  moreover have "length (drop 16 (take m (record_bytes r))) < length (pr_bytes r)"
    using assms False by (simp add: record_bytes_def)
  ultimately show ?thesis
    using False assms(1,2) by (subst read_records.simps) (auto simp: damaged_def Let_def)
qed

lemma read_cut_records:
  assumes "numbered index records"
  shows "read_records index (take m (concat (map record_bytes records))) = Ok rs
    \<longleftrightarrow> (\<exists>k \<le> length records. take m (concat (map record_bytes records)) = concat (map record_bytes (take k records))
           \<and> rs = take k records)"
  using assms
proof (induction records arbitrary: index m rs)
  case Nil
  show ?case by (subst read_records.simps) auto
next
  case (Cons r records)
  let ?n = "length (record_bytes r)"
  have n: "0 < ?n" by (simp add: record_bytes_def)
  from Cons.prems have r: "pr_index r = of_nat index" "length (pr_bytes r) < 2 ^ 32" and more: "numbered (index + 1) records"
    by (simp_all add: numbered_Cons)
  consider "m = 0" | "0 < m" "m < ?n" | "?n \<le> m" by linarith
  then show ?case
  proof cases
    case 1
    have "concat (map record_bytes (take k (r # records))) = [] \<longleftrightarrow> k = 0" if "k \<le> length (r # records)" for k
      using n by (cases k) auto
    then show ?thesis
      using 1 by (subst read_records.simps) auto
  next
    case 2
    have "take m (concat (map record_bytes (r # records))) \<noteq> concat (map record_bytes (take k (r # records)))" for k
    proof
      assume "take m (concat (map record_bytes (r # records))) = concat (map record_bytes (take k (r # records)))"
      then have "length (take m (concat (map record_bytes (r # records)))) = length (concat (map record_bytes (take k (r # records))))"
        by (rule arg_cong)
      with 2 show False by (cases k) auto
    qed
    with read_torn_record[OF 2 r(2), of index] 2 show ?thesis by auto
  next
    case 3
    let ?rest = "take (m - ?n) (concat (map record_bytes records))"
    have cut: "take m (concat (map record_bytes (r # records))) = record_bytes r @ ?rest" using 3 by simp
    have "read_records index (take m (concat (map record_bytes (r # records)))) = Ok rs
        \<longleftrightarrow> (\<exists>rs'. read_records (index + 1) ?rest = Ok rs' \<and> rs = r # rs')"
      unfolding cut read_record[OF r] by (auto simp: rbind_eq_Ok_iff)
    also have "\<dots> \<longleftrightarrow> (\<exists>k \<le> length records. ?rest = concat (map record_bytes (take k records)) \<and> rs = r # take k records)"
      using Cons.IH[OF more] by auto
    also have "\<dots> \<longleftrightarrow> (\<exists>k \<le> length (r # records). record_bytes r @ ?rest = concat (map record_bytes (take k (r # records)))
        \<and> rs = take k (r # records))"
      (is "?a \<longleftrightarrow> ?b")
    proof
      assume ?a
      then obtain k where "k \<le> length records" "?rest = concat (map record_bytes (take k records))" "rs = r # take k records"
        by blast
      then show ?b by (intro exI[of _ "Suc k"]) simp
    next
      assume ?b
      then obtain k where k: "k \<le> length (r # records)"
        "record_bytes r @ ?rest = concat (map record_bytes (take k (r # records)))" "rs = take k (r # records)"
        by blast
      with n obtain k' where "k = Suc k'" by (cases k) auto
      with k show ?a by auto
    qed
    finally show ?thesis unfolding cut .
  qed
qed

text \<open>
  C35: a capture is read back as written, and a capture that was cut off is read only where the cut falls
  between two records: then it gives the records before the cut, in any other place it is damaged.
\<close>

theorem capture_read_back:
  assumes "numbered 0 records"
  shows "read_pcap (take m (pcap_stream link_type records)) = Ok rs
    \<longleftrightarrow> (\<exists>k \<le> length records. take m (pcap_stream link_type records) = pcap_stream link_type (take k records)
           \<and> rs = take k records)"
proof (cases "m < 24")
  case True
  then have "length (take m (pcap_stream link_type records)) < 24" by simp
  moreover have "24 \<le> length (pcap_stream link_type (take k records))" for k by (simp add: pcap_stream_def)
  ultimately have "take m (pcap_stream link_type records) \<noteq> pcap_stream link_type (take k records)" for k
    by (metis not_le)
  with True show ?thesis by (simp add: read_pcap_def damaged_def pcap_stream_def)
next
  case False
  then have "take m (pcap_stream link_type records)
      = pcap_file_header link_type @ take (m - 24) (concat (map record_bytes records))"
    by (simp add: pcap_stream_def)
  then show ?thesis
    using read_cut_records[OF assms] by (simp add: read_pcap_def header_magic pcap_stream_def)
qed


text \<open>
  Addresses and flags in both directions, the exactness of the bisection that fits a result to one frame,
  and the pages a client reads a capture in.
\<close>

section \<open>The bisection\<close>

lemma middle_bounds: "low < high \<Longrightarrow> low < low + (high - low + 1) div 2 \<and> low + (high - low + 1) div 2 \<le> (high :: nat)"
  by linarith

lemma bisect_step:
  "bisect framed low high =
     (if low < high
      then if framed (low + (high - low + 1) div 2) then bisect framed (low + (high - low + 1) div 2) high
           else bisect framed low (low + (high - low + 1) div 2 - 1)
      else low)"
  by (subst bisect.simps) (simp only: Let_def)

lemma bisect_result:
  assumes "low \<le> high"
  shows "low \<le> bisect framed low high \<and> bisect framed low high \<le> high
    \<and> (framed low \<longrightarrow> framed (bisect framed low high))"
  using assms
proof (induction framed low high rule: bisect.induct)
  case (1 framed low high)
  let ?middle = "low + (high - low + 1) div 2"
  consider "low < high" "framed ?middle" | "low < high" "\<not> framed ?middle" | "\<not> low < high" by blast
  then show ?case
  proof cases
    case 1
    then have "bisect framed low high = bisect framed ?middle high" by (simp add: bisect_step[of framed low high])
    with 1 "1.IH"(1)[OF 1(1) refl 1(2)] middle_bounds[OF 1(1)] show ?thesis by auto
  next
    case 2
    then have "bisect framed low high = bisect framed low (?middle - 1)" by (simp add: bisect_step[of framed low high])
    moreover have "low \<le> ?middle - 1" "?middle - 1 \<le> high" using middle_bounds[OF 2(1)] by linarith+
    ultimately show ?thesis using "1.IH"(2)[OF 2(1) refl 2(2)] by (metis le_trans)
  next
    case 3
    then have "bisect framed low high = low" by (subst bisect_step) (simp only: if_False)
    with "1.prems" 3 show ?thesis by simp
  qed
qed

lemma bisect_largest:
  assumes fewer: "\<And>i j. i \<le> j \<Longrightarrow> framed j \<Longrightarrow> framed i" and "low \<le> n" "n \<le> high" "framed n"
  shows "n \<le> bisect framed low high"
  using assms
proof (induction framed low high rule: bisect.induct)
  case (1 framed low high)
  let ?middle = "low + (high - low + 1) div 2"
  consider "low < high" "framed ?middle" "?middle \<le> n" | "low < high" "framed ?middle" "n < ?middle"
    | "low < high" "\<not> framed ?middle" | "\<not> low < high" by linarith
  then show ?case
  proof cases
    case 1
    then have "bisect framed low high = bisect framed ?middle high" by (simp add: bisect_step[of framed low high])
    with "1.IH"(1)[OF 1(1) refl 1(2) "1.prems"(1) 1(3) "1.prems"(3,4)] show ?thesis by simp
  next
    case 2
    then have "bisect framed low high = bisect framed ?middle high" by (simp add: bisect_step[of framed low high])
    with bisect_result[of ?middle high framed] middle_bounds[OF 2(1)] 2(3) show ?thesis by linarith
  next
    case 3
    then have "n \<le> ?middle - 1" using "1.prems"(1)[OF _ "1.prems"(4)] by (cases "n < ?middle") auto
    moreover have "bisect framed low high = bisect framed low (?middle - 1)"
      using 3 by (simp add: bisect_step[of framed low high])
    ultimately show ?thesis using "1.IH"(2)[OF 3(1) refl 3(2) "1.prems"(1,2) _ "1.prems"(4)] by simp
  next
    case 4
    then have "bisect framed low high = low" by (subst bisect_step) (simp only: if_False)
    with "1.prems" 4 show ?thesis by simp
  qed
qed

lemma bisect_positive:
  assumes "0 < high" "framed 1"
  shows "0 < bisect framed 0 high"
  using assms
proof (induction high rule: less_induct)
  case (less high)
  let ?middle = "0 + (high - 0 + 1) div 2"
  show ?case
  proof (cases "framed ?middle")
    case True
    then have "bisect framed 0 high = bisect framed ?middle high"
      using less.prems(1) by (subst bisect_step) (simp only: if_True)
    with bisect_result[of ?middle high framed] middle_bounds[OF less.prems(1)] show ?thesis by linarith
  next
    case False
    then have "?middle \<noteq> 1" using less.prems(2) by metis
    then have "0 < ?middle - 1" "?middle - 1 < high" using less.prems(1) by linarith+
    moreover have "bisect framed 0 high = bisect framed 0 (?middle - 1)"
      using False less.prems(1) by (subst bisect_step) (simp only: if_True if_False)
    ultimately show ?thesis using less.IH[of "?middle - 1"] less.prems(2) by simp
  qed
qed

lemma largest_fitting_spec:
  assumes "largest_fitting upper framed = Some n"
  shows "n \<le> upper \<and> framed n"
  using assms bisect_result[of 0 upper framed] by (auto simp: largest_fitting_def split: if_splits)

section \<open>Reading a capture page by page\<close>

text \<open>The pages a client sees that follows \<open>next_offset_packet\<close>, at most \<open>n\<close> of them.\<close>

fun capture_pages ::
  "packet_codec \<Rightarrow> (capture_read_result \<Rightarrow> bool) \<Rightarrow> pcap_record list \<Rightarrow> u32 \<Rightarrow> bool \<Rightarrow> nat \<Rightarrow> u64 \<Rightarrow>
   packet_summary list list option" where
  "capture_pages codec framed records max_packets include_payload 0 offset = None"
| "capture_pages codec framed records max_packets include_payload (Suc n) offset =
     (case read_capture_result codec framed records offset max_packets include_payload of
        Err _ \<Rightarrow> None
      | Ok r \<Rightarrow> (case cr_next_offset_packet r of
          None \<Rightarrow> Some [cr_packets r]
        | Some next \<Rightarrow> map_option ((#) (cr_packets r))
            (capture_pages codec framed records max_packets include_payload n next)))"

text \<open>A result of at most one packet of the capture fits into a frame.\<close>

definition single_packets_fit ::
  "packet_codec \<Rightarrow> (capture_read_result \<Rightarrow> bool) \<Rightarrow> pcap_record list \<Rightarrow> bool \<Rightarrow> bool" where
  "single_packets_fit codec framed records include_payload \<longleftrightarrow>
     (\<forall>r. length (cr_packets r) \<le> 1 \<longrightarrow>
          set (cr_packets r) \<subseteq> packet_summary_of codec include_payload ` set records \<longrightarrow> framed r)"

lemma page_read:
  assumes fit: "single_packets_fit codec framed records include_payload" and some: "max_packets \<noteq> 0"
    and offset: "unat offset \<le> length records" and small: "length records < 2 ^ 64"
  shows "\<exists>c. unat offset + c \<le> length records \<and> (unat offset < length records \<longrightarrow> 0 < c)
    \<and> read_capture_result codec framed records offset max_packets include_payload
      = Ok \<lparr>cr_packets = map (packet_summary_of codec include_payload) (take c (drop (unat offset) records)),
            cr_next_offset_packet = (if unat offset + c < length records then Some (of_nat (unat offset + c)) else None),
            cr_truncated = (unat offset + c < length records)\<rparr>"
proof -
  let ?start = "unat offset" and ?stop_at = "min (unat offset + unat max_packets) (length records)"
  let ?packets = "map (packet_summary_of codec include_payload) (take (?stop_at - ?start) (drop ?start records))"
  let ?candidate = "read_candidate ?packets offset (?stop_at < length records)"
  have total: "length ?packets = ?stop_at - ?start" using offset by simp
  have members: "set (take i ?packets) \<subseteq> packet_summary_of codec include_payload ` set records" for i
    by (auto dest!: in_set_takeD in_set_dropD)
  have frames: "framed (?candidate i)" if "i \<le> 1" for i
  proof -
    have packets: "cr_packets (?candidate i) = take i ?packets" by (simp only: read_candidate_def Let_def) simp
    show ?thesis
      using fit[unfolded single_packets_fit_def, rule_format, of "?candidate i"] members[of i] that
      unfolding packets by simp
  qed
  define c where "c = bisect (\<lambda>i. framed (?candidate i)) 0 (length ?packets)"
  have c: "c \<le> ?stop_at - ?start"
    using bisect_result[of 0 "length ?packets" "\<lambda>i. framed (?candidate i)"] total by (simp add: c_def)
  have "0 < c" if "?start < length records"
  proof -
    have "0 < unat max_packets" using some by (simp add: unat_gt_0)
    then have "0 < length ?packets" using that total by simp
    then show ?thesis unfolding c_def using frames[of 1] by (intro bisect_positive) simp_all
  qed
  moreover have "read_capture_result codec framed records offset max_packets include_payload = Ok (?candidate c)"
    using offset frames[of 0]
    by (simp add: read_capture_result_def fit_capture_read_def largest_fitting_def Let_def min_absorb1 c_def)
  moreover have "?candidate c = \<lparr>cr_packets = map (packet_summary_of codec include_payload) (take c (drop ?start records)),
      cr_next_offset_packet = (if ?start + c < length records then Some (of_nat (?start + c)) else None),
      cr_truncated = (?start + c < length records)\<rparr>"
  proof -
    have "c < length ?packets \<or> ?stop_at < length records \<longleftrightarrow> ?start + c < length records"
      using c offset unfolding total by linarith
    moreover have "saturating_add offset (of_nat c) = of_nat (?start + c)" if "?start + c < length records"
      using that small by (simp add: saturating_add_def unat_of_nat)
    moreover have "take c ?packets = map (packet_summary_of codec include_payload) (take c (drop ?start records))"
      using c by (simp add: take_map min_absorb1)
    ultimately show ?thesis by (simp add: read_candidate_def Let_def)
  qed
  ultimately show ?thesis using c offset by (intro exI[of _ c]) auto
qed

lemma pages_from:
  assumes "single_packets_fit codec framed records include_payload" "max_packets \<noteq> 0" "length records < 2 ^ 64"
    and "unat offset \<le> length records" "length records - unat offset < n"
  shows "\<exists>pages. capture_pages codec framed records max_packets include_payload n offset = Some pages
    \<and> concat pages = map (packet_summary_of codec include_payload) (drop (unat offset) records)"
  using assms(4,5)
proof (induction n arbitrary: offset)
  case 0
  then show ?case by simp
next
  case (Suc n)
  from page_read[OF assms(1,2) Suc.prems(1) assms(3)] obtain c where c: "unat offset + c \<le> length records"
    "unat offset < length records \<longrightarrow> 0 < c"
    "read_capture_result codec framed records offset max_packets include_payload
      = Ok \<lparr>cr_packets = map (packet_summary_of codec include_payload) (take c (drop (unat offset) records)),
            cr_next_offset_packet = (if unat offset + c < length records then Some (of_nat (unat offset + c)) else None),
            cr_truncated = (unat offset + c < length records)\<rparr>"
    by blast
  show ?case
  proof (cases "unat offset + c < length records")
    case True
    let ?next = "of_nat (unat offset + c) :: u64"
    have after: "unat ?next = unat offset + c" using True assms(3) by (simp only: unat_of_nat) simp
    have "length records - unat ?next < n" using Suc.prems(2) True c(2) unfolding after by linarith
    with Suc.IH[of ?next] True obtain pages where
      "capture_pages codec framed records max_packets include_payload n ?next = Some pages"
      "concat pages = map (packet_summary_of codec include_payload) (drop (unat offset + c) records)"
      unfolding after by auto
    moreover have "take c (drop (unat offset) records) @ drop (unat offset + c) records = drop (unat offset) records"
      by (metis add.commute append_take_drop_id drop_drop)
    ultimately show ?thesis
      using True by (simp add: c(3) del: of_nat_add) (metis map_append)
  next
    case False
    with c(1) have "take c (drop (unat offset) records) = drop (unat offset) records" by simp
    with False show ?thesis by (simp add: c(3))
  qed
qed

text \<open>
  C36: a client that reads a capture from its start and follows the continuation of every page gets the
  summary of every packet exactly once, in the order of the capture, and the last page says it is the
  last; whatever the size of a page, as long as a frame holds one packet.
\<close>

theorem capture_pages_complete:
  assumes "single_packets_fit codec framed records include_payload" and "max_packets \<noteq> 0"
    and "length records < 2 ^ 64"
  shows "\<exists>pages. capture_pages codec framed records max_packets include_payload (length records + 1) 0 = Some pages
    \<and> concat pages = map (packet_summary_of codec include_payload) records"
  using pages_from[OF assms, of 0 "length records + 1"] by simp

end
