(* ===== verification/Network_Inspect.thy ===== *)
theory Network_Inspect
  imports Network_Capture Admission Runtime_State
begin

text \<open>
  \<open>network.inspect\<close> (\<open>rust/crates/runtime/src/network.rs\<close>): which provider answers for a family of facts,
  and how the settled families become one result that fits into a frame. \<open>framed\<close> says whether the JSON
  text of a result leaves room for the envelope.
\<close>

section \<open>Families and their providers\<close>

datatype network_family = FamilyInterfaces | FamilyRoutes | FamilyDns | FamilySockets

datatype network_family_source = SourceDaemon | SourceAppFramework | SourceShizukuSupplement

datatype network_family_plan = PlanSource network_family_source | PlanUnavailable string

datatype network_scope = ScopeInterfaces | ScopeRoutes | ScopeDns | ScopeSockets | ScopeAll

record network_source_plan =
  np_interfaces :: network_family_plan
  np_routes :: network_family_plan
  np_dns :: network_family_plan
  np_sockets :: network_family_plan
  np_supplement_generation :: "u64 option"

fun plan_family :: "network_source_plan \<Rightarrow> network_family \<Rightarrow> network_family_plan" where
  "plan_family plan FamilyInterfaces = np_interfaces plan"
| "plan_family plan FamilyRoutes = np_routes plan"
| "plan_family plan FamilyDns = np_dns plan"
| "plan_family plan FamilySockets = np_sockets plan"

fun scope_families :: "network_scope \<Rightarrow> network_family list" where
  "scope_families ScopeInterfaces = [FamilyInterfaces]"
| "scope_families ScopeRoutes = [FamilyRoutes]"
| "scope_families ScopeDns = [FamilyDns]"
| "scope_families ScopeSockets = [FamilySockets]"
| "scope_families ScopeAll = [FamilyInterfaces, FamilyRoutes, FamilyDns, FamilySockets]"

definition network_source_plan_of :: "capability_snapshot \<Rightarrow> provider_token \<Rightarrow> network_source_plan" where
  "network_source_plan_of capability provider =
     (if provider = TokenMagiskNative
      then \<lparr>np_interfaces = PlanSource SourceDaemon, np_routes = PlanSource SourceDaemon,
            np_dns = PlanSource SourceDaemon, np_sockets = PlanSource SourceDaemon, np_supplement_generation = None\<rparr>
      else
        let companion = cc_app_execution_surface (cs_context capability) = Available;
            supplement = (case resolve_execution capability (RouteNetwork ReadOnlyRouteSupplement) of
              Ok executor \<Rightarrow> Some (ae_capability_generation executor) | Err _ \<Rightarrow> None);
            app_family = (if companion then PlanSource SourceAppFramework else PlanUnavailable ''COMPANION_UNAVAILABLE'');
            supplement_family = (if supplement \<noteq> None then PlanSource SourceShizukuSupplement
                                 else PlanUnavailable ''SHIZUKU_UNAVAILABLE'')
        in \<lparr>np_interfaces = app_family,
            np_routes = (case supplement_family of PlanSource _ \<Rightarrow> supplement_family | PlanUnavailable _ \<Rightarrow> app_family),
            np_dns = app_family, np_sockets = supplement_family, np_supplement_generation = supplement\<rparr>)"

section \<open>Entries (contract)\<close>

record interface_address =
  if_address :: string
  if_prefix_length :: "u8 option"

record interface_entry =
  ie_name :: string
  ie_index :: "u32 option"
  ie_up :: "bool option"
  ie_mtu :: "u32 option"
  ie_addresses :: "interface_address list"

record route_entry =
  re_destination :: string
  re_gateway :: "string option"
  re_interface :: "string option"
  re_metric :: "u64 option"

record dns_entry =
  ds_server :: string

datatype socket_protocol = SocketTcp | SocketUdp | SocketOther

record socket_entry =
  se_protocol :: socket_protocol
  se_local_address :: string
  se_local_port :: "u16 option"
  se_remote_address :: "string option"
  se_remote_port :: "u16 option"
  se_state :: "string option"
  se_uid :: "u32 option"

record network_family_availability =
  fa_interfaces :: "availability option"
  fa_routes :: "availability option"
  fa_dns :: "availability option"
  fa_sockets :: "availability option"

record network_family_truncated =
  ft_interfaces :: "bool option"
  ft_routes :: "bool option"
  ft_dns :: "bool option"
  ft_sockets :: "bool option"

record network_inspect_result =
  ni_interfaces :: "interface_entry list option"
  ni_routes :: "route_entry list option"
  ni_dns :: "dns_entry list option"
  ni_sockets :: "socket_entry list option"
  ni_availability :: network_family_availability
  ni_truncated :: network_family_truncated

section \<open>The settlement and its budget\<close>

record 'e established =
  ed_entries :: "'e list"
  ed_truncated :: bool

record network_inspect_settlement =
  st_interfaces :: "interface_entry established option"
  st_routes :: "route_entry established option"
  st_dns :: "dns_entry established option"
  st_sockets :: "socket_entry established option"

text \<open>The array of four counts, indexed by a family, is a function of the family.\<close>

record inspect_data =
  id_plan :: network_source_plan
  id_settled :: network_inspect_settlement
  id_counts :: "network_family \<Rightarrow> nat"

definition slot_count :: "'e established option \<Rightarrow> nat" where
  "slot_count slot = (case slot of None \<Rightarrow> 0 | Some e \<Rightarrow> length (ed_entries e))"

fun entry_count :: "network_inspect_settlement \<Rightarrow> network_family \<Rightarrow> nat" where
  "entry_count s FamilyInterfaces = slot_count (st_interfaces s)"
| "entry_count s FamilyRoutes = slot_count (st_routes s)"
| "entry_count s FamilyDns = slot_count (st_dns s)"
| "entry_count s FamilySockets = slot_count (st_sockets s)"

fun is_established :: "network_inspect_settlement \<Rightarrow> network_family \<Rightarrow> bool" where
  "is_established s FamilyInterfaces = (st_interfaces s \<noteq> None)"
| "is_established s FamilyRoutes = (st_routes s \<noteq> None)"
| "is_established s FamilyDns = (st_dns s \<noteq> None)"
| "is_established s FamilySockets = (st_sockets s \<noteq> None)"

definition slot_truncated :: "'e established option \<Rightarrow> bool" where
  "slot_truncated slot = (case slot of None \<Rightarrow> False | Some e \<Rightarrow> ed_truncated e)"

fun source_truncated :: "network_inspect_settlement \<Rightarrow> network_family \<Rightarrow> bool" where
  "source_truncated s FamilyInterfaces = slot_truncated (st_interfaces s)"
| "source_truncated s FamilyRoutes = slot_truncated (st_routes s)"
| "source_truncated s FamilyDns = slot_truncated (st_dns s)"
| "source_truncated s FamilySockets = slot_truncated (st_sockets s)"

definition inspect_data_new :: "network_source_plan \<Rightarrow> network_inspect_settlement \<Rightarrow> u32 \<Rightarrow> inspect_data" where
  "inspect_data_new plan settlement max_entries =
     \<lparr>id_plan = plan, id_settled = settlement,
      id_counts = (\<lambda>family. min (entry_count settlement family) (unat max_entries))\<rparr>"

definition is_present :: "inspect_data \<Rightarrow> network_family \<Rightarrow> bool" where
  "is_present d family \<longleftrightarrow>
     (case plan_family (id_plan d) family of PlanSource _ \<Rightarrow> is_established (id_settled d) family | PlanUnavailable _ \<Rightarrow> False)"

section \<open>Building the result\<close>

definition sliced :: "bool \<Rightarrow> 'e established option \<Rightarrow> nat \<Rightarrow> 'e list option" where
  "sliced present entries count =
     (if \<not> present then None else map_option (\<lambda>slot. take (min count (length (ed_entries slot))) (ed_entries slot)) entries)"

definition family_availability :: "inspect_data \<Rightarrow> network_family \<Rightarrow> availability" where
  "family_availability d family =
     (case plan_family (id_plan d) family of
        PlanUnavailable reason \<Rightarrow> \<lparr>av_state = Unavailable, av_reason = Some reason\<rparr>
      | PlanSource _ \<Rightarrow>
          if is_established (id_settled d) family then \<lparr>av_state = Available, av_reason = None\<rparr>
          else \<lparr>av_state = Unknown, av_reason = Some ''SOURCE_UNRESOLVED''\<rparr>)"

definition empty_result :: network_inspect_result where
  "empty_result = \<lparr>ni_interfaces = None, ni_routes = None, ni_dns = None, ni_sockets = None,
     ni_availability = \<lparr>fa_interfaces = None, fa_routes = None, fa_dns = None, fa_sockets = None\<rparr>,
     ni_truncated = \<lparr>ft_interfaces = None, ft_routes = None, ft_dns = None, ft_sockets = None\<rparr>\<rparr>"

definition add_family ::
  "inspect_data \<Rightarrow> (network_family \<Rightarrow> nat) \<Rightarrow> network_inspect_result \<Rightarrow> network_family \<Rightarrow> network_inspect_result" where
  "add_family d counts r family =
     (let availability = family_availability d family;
          available = av_state availability = Available;
          truncated = (if available
            then Some (source_truncated (id_settled d) family \<or> counts family < entry_count (id_settled d) family) else None);
          s = id_settled d
      in case family of
        FamilyInterfaces \<Rightarrow> r\<lparr>ni_interfaces := sliced available (st_interfaces s) (counts family),
          ni_availability := (ni_availability r)\<lparr>fa_interfaces := Some availability\<rparr>,
          ni_truncated := (ni_truncated r)\<lparr>ft_interfaces := truncated\<rparr>\<rparr>
      | FamilyRoutes \<Rightarrow> r\<lparr>ni_routes := sliced available (st_routes s) (counts family),
          ni_availability := (ni_availability r)\<lparr>fa_routes := Some availability\<rparr>,
          ni_truncated := (ni_truncated r)\<lparr>ft_routes := truncated\<rparr>\<rparr>
      | FamilyDns \<Rightarrow> r\<lparr>ni_dns := sliced available (st_dns s) (counts family),
          ni_availability := (ni_availability r)\<lparr>fa_dns := Some availability\<rparr>,
          ni_truncated := (ni_truncated r)\<lparr>ft_dns := truncated\<rparr>\<rparr>
      | FamilySockets \<Rightarrow> r\<lparr>ni_sockets := sliced available (st_sockets s) (counts family),
          ni_availability := (ni_availability r)\<lparr>fa_sockets := Some availability\<rparr>,
          ni_truncated := (ni_truncated r)\<lparr>ft_sockets := truncated\<rparr>\<rparr>)"

definition inspect_build :: "inspect_data \<Rightarrow> (network_family \<Rightarrow> nat) \<Rightarrow> network_scope \<Rightarrow> network_inspect_result" where
  "inspect_build d counts scope = foldl (add_family d counts) empty_result (scope_families scope)"

section \<open>Fitting it to a frame\<close>

definition shorten_family ::
  "(network_inspect_result \<Rightarrow> bool) \<Rightarrow> inspect_data \<Rightarrow> network_scope \<Rightarrow> (network_family \<Rightarrow> nat) \<times> bool \<Rightarrow>
   network_family \<Rightarrow> (network_family \<Rightarrow> nat) \<times> bool" where
  "shorten_family framed d scope = (\<lambda>(counts, progressed) family.
     if \<not> is_present d family \<or> counts family = 0 then (counts, progressed)
     else case largest_fitting (counts family) (\<lambda>count. framed (inspect_build d (counts(family := count)) scope)) of
        None \<Rightarrow> (counts, progressed)
      | Some fitted \<Rightarrow> if fitted < counts family then (counts(family := fitted), True) else (counts, progressed))"

definition shorten_pass ::
  "(network_inspect_result \<Rightarrow> bool) \<Rightarrow> inspect_data \<Rightarrow> network_scope \<Rightarrow> (network_family \<Rightarrow> nat) \<Rightarrow>
   (network_family \<Rightarrow> nat) \<times> bool" where
  "shorten_pass framed d scope counts = foldl (shorten_family framed d scope) (counts, False) (scope_families scope)"

definition count_sum :: "(network_family \<Rightarrow> nat) \<Rightarrow> nat" where
  "count_sum counts = counts FamilyInterfaces + counts FamilyRoutes + counts FamilyDns + counts FamilySockets"

lemma count_sum_update: "n < counts family \<Longrightarrow> count_sum (counts(family := n)) < count_sum counts"
  by (cases family) (simp_all add: count_sum_def)

text \<open>Passing on: what was progress before stays so, and new progress has lowered the sum.\<close>

lemma shorten_family_sum:
  assumes "shorten_family framed d scope (counts, progressed) family = (counts', progressed')"
  shows "counts' \<le> counts \<and> count_sum counts' + (if progressed' \<and> \<not> progressed then 1 else 0) \<le> count_sum counts
    \<and> (progressed \<longrightarrow> progressed')"
  using assms
  by (auto simp: shorten_family_def le_fun_def split: if_splits option.splits
      dest: count_sum_update[THEN less_imp_le] count_sum_update)

lemma shorten_families_sum:
  "foldl (shorten_family framed d scope) (counts, progressed) families = (counts', progressed') \<Longrightarrow>
     counts' \<le> counts \<and> count_sum counts' + (if progressed' \<and> \<not> progressed then 1 else 0) \<le> count_sum counts
     \<and> (progressed \<longrightarrow> progressed')"
proof (induction families arbitrary: counts progressed)
  case Nil
  then show ?case by simp
next
  case (Cons family families)
  obtain counts1 progressed1 where one: "shorten_family framed d scope (counts, progressed) family = (counts1, progressed1)"
    by fastforce
  with Cons.prems have "foldl (shorten_family framed d scope) (counts1, progressed1) families = (counts', progressed')" by simp
  from Cons.IH[OF this] shorten_family_sum[OF one] show ?case
    by (cases progressed; cases progressed1; cases progressed') (auto intro: order_trans)
qed

lemma shorten_pass_less:
  "shorten_pass framed d scope counts = (counts', progressed) \<Longrightarrow>
     counts' \<le> counts \<and> (progressed \<longrightarrow> count_sum counts' < count_sum counts)"
  unfolding shorten_pass_def by (drule shorten_families_sum) auto

function inspect_fit ::
  "(network_inspect_result \<Rightarrow> bool) \<Rightarrow> inspect_data \<Rightarrow> network_scope \<Rightarrow> (network_family \<Rightarrow> nat) \<Rightarrow> network_inspect_result res" where
  "inspect_fit framed d scope counts =
     (if framed (inspect_build d counts scope) then Ok (inspect_build d counts scope)
      else case shorten_pass framed d scope counts of (counts', progressed) \<Rightarrow>
        if \<not> progressed then err ResourceLimit ''network.inspect result exceeds the protocol frame limit''
        else inspect_fit framed d scope counts')"
  by pat_completeness auto
termination
  by (relation "measure (\<lambda>(_, _, _, counts). count_sum counts)")
    (auto dest!: shorten_pass_less[OF sym])

declare inspect_fit.simps [simp del]


text \<open>
  What an answer of \<open>network.inspect\<close> says about the settlement it was built from, and when fitting it
  to a frame gives up.
\<close>

section \<open>One family of a result\<close>

datatype inspect_entry =
  EntryInterface interface_entry
| EntryRoute route_entry
| EntryDns dns_entry
| EntrySocket socket_entry

fun family_entries :: "network_inspect_result \<Rightarrow> network_family \<Rightarrow> inspect_entry list option" where
  "family_entries r FamilyInterfaces = map_option (map EntryInterface) (ni_interfaces r)"
| "family_entries r FamilyRoutes = map_option (map EntryRoute) (ni_routes r)"
| "family_entries r FamilyDns = map_option (map EntryDns) (ni_dns r)"
| "family_entries r FamilySockets = map_option (map EntrySocket) (ni_sockets r)"

fun family_state :: "network_inspect_result \<Rightarrow> network_family \<Rightarrow> availability option" where
  "family_state r FamilyInterfaces = fa_interfaces (ni_availability r)"
| "family_state r FamilyRoutes = fa_routes (ni_availability r)"
| "family_state r FamilyDns = fa_dns (ni_availability r)"
| "family_state r FamilySockets = fa_sockets (ni_availability r)"

fun family_truncated :: "network_inspect_result \<Rightarrow> network_family \<Rightarrow> bool option" where
  "family_truncated r FamilyInterfaces = ft_interfaces (ni_truncated r)"
| "family_truncated r FamilyRoutes = ft_routes (ni_truncated r)"
| "family_truncated r FamilyDns = ft_dns (ni_truncated r)"
| "family_truncated r FamilySockets = ft_sockets (ni_truncated r)"

definition slot_entries :: "'e established option \<Rightarrow> 'e list" where
  "slot_entries slot = (case slot of None \<Rightarrow> [] | Some e \<Rightarrow> ed_entries e)"

fun settled_entries :: "network_inspect_settlement \<Rightarrow> network_family \<Rightarrow> inspect_entry list" where
  "settled_entries s FamilyInterfaces = map EntryInterface (slot_entries (st_interfaces s))"
| "settled_entries s FamilyRoutes = map EntryRoute (slot_entries (st_routes s))"
| "settled_entries s FamilyDns = map EntryDns (slot_entries (st_dns s))"
| "settled_entries s FamilySockets = map EntrySocket (slot_entries (st_sockets s))"

lemma length_settled_entries: "length (settled_entries s family) = entry_count s family"
  by (cases family) (simp_all add: slot_entries_def slot_count_def split: option.split)

lemma available_iff: "av_state (family_availability d family) = Available \<longleftrightarrow> is_present d family"
  by (auto simp: family_availability_def is_present_def split: network_family_plan.split)

lemma sliced_entries:
  "map_option (map f) (sliced present slot n)
     = (if present \<and> slot \<noteq> None then Some (take n (map f (slot_entries slot))) else None)"
  by (cases slot) (auto simp: sliced_def slot_entries_def take_map min_def)

lemma present_established: "is_present d family \<Longrightarrow> is_established (id_settled d) family"
  by (auto simp: is_present_def split: network_family_plan.splits)

lemmas build_simps = inspect_build_def add_family_def empty_result_def Let_def available_iff sliced_entries

lemma build_entries:
  "family_entries (inspect_build d counts scope) family =
     (if family \<in> set (scope_families scope) \<and> is_present d family
      then Some (take (counts family) (settled_entries (id_settled d) family)) else None)"
  using present_established[of d family]
  by (cases scope; cases family) (auto simp: build_simps)

lemma build_state:
  "family_state (inspect_build d counts scope) family =
     (if family \<in> set (scope_families scope) then Some (family_availability d family) else None)"
  by (cases scope; cases family) (simp_all add: build_simps)

lemma build_truncated:
  "family_truncated (inspect_build d counts scope) family =
     (if family \<in> set (scope_families scope) \<and> is_present d family
      then Some (source_truncated (id_settled d) family \<or> counts family < entry_count (id_settled d) family) else None)"
  by (cases scope; cases family) (simp_all add: build_simps)

section \<open>Sound answers\<close>

lemma fit_builds:
  "inspect_fit framed d scope counts = Ok r \<Longrightarrow>
     \<exists>counts' \<le> counts. r = inspect_build d counts' scope \<and> framed r"
proof (induction framed d scope counts rule: inspect_fit.induct)
  case (1 framed d scope counts)
  show ?case
  proof (cases "framed (inspect_build d counts scope)")
    case True
    with "1.prems" show ?thesis by (subst (asm) inspect_fit.simps) auto
  next
    case False
    obtain counts1 progressed where pass: "shorten_pass framed d scope counts = (counts1, progressed)" by fastforce
    with False "1.prems" have progressed and fit: "inspect_fit framed d scope counts1 = Ok r"
      by (subst (asm) inspect_fit.simps, auto split: if_splits)+
    with "1.IH"[OF False pass[symmetric]] obtain counts' where "counts' \<le> counts1" "r = inspect_build d counts' scope" "framed r"
      by auto
    with shorten_pass_less[OF pass] show ?thesis using order_trans by blast
  qed
qed

text \<open>
  C37: an answer of \<open>network.inspect\<close> fits its frame and is true to the settlement: a family that was not
  asked for has no key, an asked one has its state, and exactly the families whose provider answered have
  their entries, the first ones in the provider's order, at most \<open>max_entries\<close> of them, called truncated
  when the provider or the answer left entries out.
\<close>

theorem inspect_answer_true:
  assumes "inspect_fit framed d scope (id_counts d) = Ok r" and "d = inspect_data_new plan settled max_entries"
  shows "framed r \<and> (\<forall>family.
    family_state r family = (if family \<in> set (scope_families scope) then Some (family_availability d family) else None)
    \<and> (if family \<in> set (scope_families scope) \<and> is_present d family
       then \<exists>n \<le> unat max_entries. family_entries r family = Some (take n (settled_entries settled family))
          \<and> family_truncated r family
            = Some (source_truncated settled family \<or> n < length (settled_entries settled family))
       else family_entries r family = None \<and> family_truncated r family = None))"
proof -
  obtain counts where "counts \<le> id_counts d" and r: "r = inspect_build d counts scope" "framed r"
    using fit_builds[OF assms(1)] by blast
  then have "counts family \<le> unat max_entries" for family
    using assms(2) by (auto simp: inspect_data_new_def le_fun_def intro: order_trans)
  moreover have "id_settled d = settled" using assms(2) by (simp add: inspect_data_new_def)
  ultimately show ?thesis
    using r by (auto simp: build_state build_entries build_truncated length_settled_entries)
qed

section \<open>Giving up\<close>

definition no_family_suffices ::
  "(network_inspect_result \<Rightarrow> bool) \<Rightarrow> inspect_data \<Rightarrow> network_scope \<Rightarrow> (network_family \<Rightarrow> nat) \<Rightarrow> bool" where
  "no_family_suffices framed d scope counts \<longleftrightarrow> (\<forall>family n. \<not> framed (inspect_build d (counts(family := n)) scope))"

lemma shorten_family_stuck:
  assumes "no_family_suffices framed d scope counts"
  shows "shorten_family framed d scope (counts, progressed) family = (counts, progressed)"
  using assms by (simp add: shorten_family_def largest_fitting_def no_family_suffices_def)

lemma shorten_families_stuck:
  assumes "no_family_suffices framed d scope counts"
  shows "foldl (shorten_family framed d scope) (counts, progressed) families = (counts, progressed)"
  by (induction families) (simp_all add: shorten_family_stuck[OF assms])

text \<open>
  C38: when no single family can be shortened enough, the request is refused, although the answer would fit
  with entries of two families left out: the loop shortens one family at a time and drops a family's
  shortening that does not suffice alone.
\<close>

theorem inspect_gives_up:
  assumes "no_family_suffices framed d scope counts"
  shows "inspect_fit framed d scope counts = err ResourceLimit ''network.inspect result exceeds the protocol frame limit''"
proof -
  have "\<not> framed (inspect_build d counts scope)"
    using assms[unfolded no_family_suffices_def, rule_format, of FamilyDns "counts FamilyDns"] by simp
  moreover have "shorten_pass framed d scope counts = (counts, False)"
    unfolding shorten_pass_def by (rule shorten_families_stuck[OF assms])
  ultimately show ?thesis by (subst inspect_fit.simps) simp
qed

section \<open>A sample\<close>

text \<open>Two families of four entries each, in a frame for three entries.\<close>

definition sample_inspect :: inspect_data where
  "sample_inspect = inspect_data_new
     \<lparr>np_interfaces = PlanUnavailable ''COMPANION_UNAVAILABLE'', np_routes = PlanSource SourceDaemon,
      np_dns = PlanSource SourceDaemon, np_sockets = PlanSource SourceDaemon, np_supplement_generation = None\<rparr>
     \<lparr>st_interfaces = None,
      st_routes = Some \<lparr>ed_entries = replicate 4 \<lparr>re_destination = ''0.0.0.0/0'', re_gateway = None, re_interface = None, re_metric = None\<rparr>,
        ed_truncated = False\<rparr>,
      st_dns = Some \<lparr>ed_entries = replicate 4 \<lparr>ds_server = ''1.1.1.1''\<rparr>, ed_truncated = False\<rparr>,
      st_sockets = None\<rparr> 10"

definition shown :: "network_inspect_result \<Rightarrow> network_family \<Rightarrow> nat" where
  "shown r family = (case family_entries r family of None \<Rightarrow> 0 | Some es \<Rightarrow> length es)"

definition frame_of_three :: "network_inspect_result \<Rightarrow> bool" where
  "frame_of_three r \<longleftrightarrow> shown r FamilyRoutes + shown r FamilyDns \<le> 3"

lemma shown_build:
  "shown (inspect_build d counts scope) family =
     (if family \<in> set (scope_families scope) \<and> is_present d family
      then min (entry_count (id_settled d) family) (counts family) else 0)"
  by (simp add: shown_def build_entries length_settled_entries)

lemma sample_inspect_shown:
  "shown (inspect_build sample_inspect counts scope) FamilyRoutes
     = (if FamilyRoutes \<in> set (scope_families scope) then min (counts FamilyRoutes) 4 else 0)"
  "shown (inspect_build sample_inspect counts scope) FamilyDns
     = (if FamilyDns \<in> set (scope_families scope) then min (counts FamilyDns) 4 else 0)"
  unfolding shown_build
  by (simp_all add: is_present_def sample_inspect_def inspect_data_new_def slot_count_def min.commute)

lemma sample_inspect_counts:
  "id_counts sample_inspect FamilyRoutes = 4" "id_counts sample_inspect FamilyDns = 4"
  by (simp_all add: sample_inspect_def inspect_data_new_def slot_count_def)

theorem inspect_gives_up_witness:
  "inspect_fit frame_of_three sample_inspect ScopeAll (id_counts sample_inspect)
     = err ResourceLimit ''network.inspect result exceeds the protocol frame limit''
   \<and> frame_of_three (inspect_build sample_inspect (\<lambda>_. 1) ScopeAll)"
proof -
  have "\<not> frame_of_three (inspect_build sample_inspect ((id_counts sample_inspect)(family := n)) ScopeAll)" for family n
    by (cases family) (simp_all add: frame_of_three_def sample_inspect_shown sample_inspect_counts)
  then have "no_family_suffices frame_of_three sample_inspect ScopeAll (id_counts sample_inspect)"
    by (simp add: no_family_suffices_def)
  from inspect_gives_up[OF this] show ?thesis
    by (simp add: frame_of_three_def sample_inspect_shown)
qed

theorem inspect_answer_true_witness:
  "\<exists>r. inspect_fit frame_of_three sample_inspect ScopeDns (id_counts sample_inspect) = Ok r \<and> frame_of_three r
     \<and> family_state r FamilyRoutes = None"
proof -
  have "largest_fitting 4 (\<lambda>n. min n 4 \<le> (3 :: nat)) = Some 3"
    by (simp add: largest_fitting_def bisect.simps)
  then have "\<exists>r. inspect_fit frame_of_three sample_inspect ScopeDns (id_counts sample_inspect) = Ok r"
    by (subst inspect_fit.simps, subst inspect_fit.simps)
      (simp add: shorten_pass_def shorten_family_def frame_of_three_def sample_inspect_shown sample_inspect_counts,
       simp add: is_present_def sample_inspect_def inspect_data_new_def)
  then obtain r where r: "inspect_fit frame_of_three sample_inspect ScopeDns (id_counts sample_inspect) = Ok r" by blast
  have "frame_of_three r" "family_state r FamilyRoutes = None"
    using conjunct1[OF inspect_answer_true[OF r sample_inspect_def]]
      conjunct1[OF spec[OF conjunct2[OF inspect_answer_true[OF r sample_inspect_def]], of FamilyRoutes]]
    by simp_all
  with r show ?thesis by blast
qed

end
