(* ===== verification/Network_Call.thy ===== *)
theory Network_Call
  imports Network_Inspect Automation_Validate Capability Task_Sections Sync_Sections
begin

text \<open>
  Calls of the network tool: their inputs, the bounds every one of them is held to, the route that
  admits it and the local-network authority (\<open>rust/crates/runtime/src/network.rs\<close>).
\<close>

section \<open>Inputs (contract)\<close>

record network_inspect_input =
  ni_scope :: network_scope
  ni_max_entries :: u32

datatype capture_read_source = ReadCaptureRef string | ReadFile file_target

record capture_start_input =
  ct_interface :: string
  ct_filter :: "string option"
  ct_max_packets :: u64
  ct_max_bytes :: u64
  ct_max_duration_ms :: u64
  ct_persist_to :: "file_target option"

datatype network_capture_input =
  CaptureStart capture_start_input
| CaptureStop uuid
| CaptureRead capture_read_source u64 u32 bool

datatype packet_decode_source =
  DecodeRaw string
| DecodePacketRef string
| DecodeCapture string u64

datatype packet_source = PacketRaw string | PacketRef string

datatype network_packet_input =
  PacketDecode packet_decode_source
| PacketBuild "ethernet_build option" network_build transport_build "string option"
| PacketInject string packet_source u32 u64

datatype network_call =
  NetworkInspect network_inspect_input
| NetworkCapture network_capture_input
| NetworkPacket network_packet_input
| NetworkDiagnose network_diagnose_input

section \<open>Bounds\<close>

abbreviation NETWORK_MAX_SCOPE_ENTRIES :: u32 where "NETWORK_MAX_SCOPE_ENTRIES \<equiv> 5000"
abbreviation NETWORK_MAX_CAPTURE_PACKETS :: u64 where "NETWORK_MAX_CAPTURE_PACKETS \<equiv> 1000000"
abbreviation NETWORK_MAX_CAPTURE_BYTES :: u64 where "NETWORK_MAX_CAPTURE_BYTES \<equiv> 268435456"
abbreviation NETWORK_MAX_CAPTURE_DURATION_MS :: u64 where "NETWORK_MAX_CAPTURE_DURATION_MS \<equiv> 3600000"
abbreviation NETWORK_MAX_READ_PACKETS :: u32 where "NETWORK_MAX_READ_PACKETS \<equiv> 5000"
abbreviation NETWORK_MAX_INJECT_COUNT :: u32 where "NETWORK_MAX_INJECT_COUNT \<equiv> 100"
abbreviation NETWORK_MAX_INJECT_INTERVAL_MS :: u64 where "NETWORK_MAX_INJECT_INTERVAL_MS \<equiv> 60000"

definition require_name :: "string \<Rightarrow> string \<Rightarrow> unit res" where
  "require_name text reason = (if text = [] \<or> NUL \<in> set text then err_invalid reason else Ok ())"

definition require_ref :: "string \<Rightarrow> string \<Rightarrow> string \<Rightarrow> unit res" where
  "require_ref text kind reason =
     (if \<not> starts_with (''dbref:'' @ kind @ '':'') text then err_invalid reason else Ok ())"

definition diagnose_timeout_in_bounds :: "u64 \<Rightarrow> bool" where
  "diagnose_timeout_in_bounds timeout_ms \<longleftrightarrow> 100 \<le> timeout_ms \<and> timeout_ms \<le> 60000"

definition require_packet_bytes :: "nat \<Rightarrow> string \<Rightarrow> unit res" where
  "require_packet_bytes len reason =
     (if \<not> (1 \<le> len \<and> len \<le> NETWORK_MAX_PACKET_BYTES) then err_invalid reason else Ok ())"

fun validate_capture_input :: "network_capture_input \<Rightarrow> unit res" where
  "validate_capture_input (CaptureStart i) =
     rbind (require_name (ct_interface i) ''network.capture start interface is out of bounds'') (\<lambda>_.
     rbind (case ct_filter i of
              Some capture_filter \<Rightarrow> require_name capture_filter ''network.capture start filter is out of bounds''
            | None \<Rightarrow> Ok ()) (\<lambda>_.
     if \<not> (1 \<le> ct_max_packets i \<and> ct_max_packets i \<le> NETWORK_MAX_CAPTURE_PACKETS)
       then err_invalid ''network.capture start max_packets is out of bounds''
     else if \<not> (1 \<le> ct_max_bytes i \<and> ct_max_bytes i \<le> NETWORK_MAX_CAPTURE_BYTES)
       then err_invalid ''network.capture start max_bytes is out of bounds''
     else if \<not> (1 \<le> ct_max_duration_ms i \<and> ct_max_duration_ms i \<le> NETWORK_MAX_CAPTURE_DURATION_MS)
       then err_invalid ''network.capture start max_duration_ms is out of bounds''
     else Ok ()))"
| "validate_capture_input (CaptureStop _) = Ok ()"
| "validate_capture_input (CaptureRead source _ max_packets _) =
     (if \<not> (1 \<le> max_packets \<and> max_packets \<le> NETWORK_MAX_READ_PACKETS)
      then err_invalid ''network.capture read max_packets is out of bounds''
      else case source of
        ReadCaptureRef capture_ref \<Rightarrow> require_ref capture_ref ''capture'' ''network.capture read capture_ref is invalid''
      | ReadFile _ \<Rightarrow> Ok ())"

definition validate_build ::
  "ethernet_build option \<Rightarrow> network_build \<Rightarrow> transport_build \<Rightarrow> string option \<Rightarrow> unit res" where
  "validate_build ethernet network transport payload_base64 =
     rbind (case ethernet of
              Some e \<Rightarrow>
                rbind (parse_mac (eb_src_mac e) ''network.packet build src_mac is invalid'') (\<lambda>_.
                rbind (parse_mac (eb_dst_mac e) ''network.packet build dst_mac is invalid'') (\<lambda>_. Ok ()))
            | None \<Rightarrow> Ok ()) (\<lambda>_.
     rbind (case network of
              BuildIpv4 src dst _ _ _ \<Rightarrow>
                rbind (parse_ipv4 src ''network.packet build src is invalid'') (\<lambda>_.
                rbind (parse_ipv4 dst ''network.packet build dst is invalid'') (\<lambda>_. Ok ()))
            | BuildIpv6 src dst _ \<Rightarrow>
                rbind (parse_ipv6 src ''network.packet build src is invalid'') (\<lambda>_.
                rbind (parse_ipv6 dst ''network.packet build dst is invalid'') (\<lambda>_. Ok ()))) (\<lambda>_.
     rbind (case transport of
              BuildTcp _ _ _ _ flags _ \<Rightarrow> rbind (tcp_flag_mask flags) (\<lambda>_. Ok ())
            | _ \<Rightarrow> Ok ()) (\<lambda>_.
     case payload_base64 of
       None \<Rightarrow> Ok ()
     | Some encoded \<Rightarrow>
         rbind (decode_base64 encoded ''network.packet build payload_base64 is invalid'') (\<lambda>payload.
         if NETWORK_MAX_PACKET_BYTES < length payload then err_invalid ''network.packet build payload is out of bounds''
         else Ok ()))))"

fun validate_packet_input :: "network_packet_input \<Rightarrow> unit res" where
  "validate_packet_input (PacketDecode source) =
     (case source of
        DecodeRaw raw_base64 \<Rightarrow>
          rbind (decode_base64 raw_base64 ''network.packet decode raw_base64 is invalid'') (\<lambda>b.
          require_packet_bytes (length b) ''network.packet decode packet length is out of bounds'')
      | DecodePacketRef packet_ref \<Rightarrow> require_ref packet_ref ''packet'' ''network.packet decode packet_ref is invalid''
      | DecodeCapture capture_ref _ \<Rightarrow>
          require_ref capture_ref ''capture'' ''network.packet decode capture_ref is invalid'')"
| "validate_packet_input (PacketBuild ethernet network transport payload_base64) =
     validate_build ethernet network transport payload_base64"
| "validate_packet_input (PacketInject interface packet count interval_ms) =
     rbind (require_name interface ''network.packet inject interface is out of bounds'') (\<lambda>_.
     if \<not> (1 \<le> count \<and> count \<le> NETWORK_MAX_INJECT_COUNT)
       then err_invalid ''network.packet inject count is out of bounds''
     else if NETWORK_MAX_INJECT_INTERVAL_MS < interval_ms
       then err_invalid ''network.packet inject interval_ms is out of bounds''
     else case packet of
       PacketRaw raw_base64 \<Rightarrow>
         rbind (decode_base64 raw_base64 ''network.packet inject raw_base64 is invalid'') (\<lambda>b.
         require_packet_bytes (length b) ''network.packet inject packet length is out of bounds'')
     | PacketRef packet_ref \<Rightarrow> require_ref packet_ref ''packet'' ''network.packet inject packet_ref is invalid'')"

fun validate_diagnose_input :: "network_diagnose_input \<Rightarrow> unit res" where
  "validate_diagnose_input Connectivity = Ok ()"
| "validate_diagnose_input (Dns name _) = require_name name ''network.diagnose name is out of bounds''"
| "validate_diagnose_input (Tcp host port timeout_ms) =
     rbind (require_name host ''network.diagnose host is out of bounds'') (\<lambda>_.
     if port = 0 \<or> \<not> diagnose_timeout_in_bounds timeout_ms
     then err_invalid ''network.diagnose tcp parameters are out of bounds'' else Ok ())"
| "validate_diagnose_input (Tls host port server_name timeout_ms) =
     rbind (require_name host ''network.diagnose host is out of bounds'') (\<lambda>_.
     rbind (case server_name of
              Some server_name \<Rightarrow> require_name server_name ''network.diagnose server_name is out of bounds''
            | None \<Rightarrow> Ok ()) (\<lambda>_.
     if port = 0 \<or> \<not> diagnose_timeout_in_bounds timeout_ms
     then err_invalid ''network.diagnose tls parameters are out of bounds'' else Ok ()))"
| "validate_diagnose_input (NetworkRouteTest destination_ip) =
     require_name destination_ip ''network.diagnose destination_ip is out of bounds''"

fun validate_network_input :: "network_call \<Rightarrow> unit res" where
  "validate_network_input (NetworkInspect i) =
     (if \<not> (1 \<le> ni_max_entries i \<and> ni_max_entries i \<le> NETWORK_MAX_SCOPE_ENTRIES)
      then err_invalid ''network.inspect max_entries is out of bounds'' else Ok ())"
| "validate_network_input (NetworkCapture input) = validate_capture_input input"
| "validate_network_input (NetworkPacket input) = validate_packet_input input"
| "validate_network_input (NetworkDiagnose input) = validate_diagnose_input input"

section \<open>The route\<close>

fun network_action :: "network_call \<Rightarrow> string" where
  "network_action (NetworkInspect _) = ''inspect''"
| "network_action (NetworkCapture _) = ''capture''"
| "network_action (NetworkPacket _) = ''packet''"
| "network_action (NetworkDiagnose _) = ''diagnose''"

fun network_route_of :: "network_call \<Rightarrow> network_route" where
  "network_route_of (NetworkInspect _) = InspectOrDiagnose"
| "network_route_of (NetworkDiagnose _) = InspectOrDiagnose"
| "network_route_of (NetworkCapture (CaptureRead _ _ _ _)) = InspectOrDiagnose"
| "network_route_of (NetworkPacket (PacketDecode _)) = InspectOrDiagnose"
| "network_route_of (NetworkPacket (PacketBuild _ _ _ _)) = InspectOrDiagnose"
| "network_route_of (NetworkCapture _) = Capture"
| "network_route_of (NetworkPacket (PacketInject _ _ _ _)) = Inject"

definition network_executor_request :: "capability_snapshot \<Rightarrow> network_call \<Rightarrow> executor_request res" where
  "network_executor_request capability call =
     rbind (validate_network_input call) (\<lambda>_.
     if cc_readiness (cs_context capability) \<noteq> Ready
     then err CapabilityUnavailable ''Runtime is not ready for network execution''
     else rbind (resolve_execution capability (RouteNetwork (network_route_of call))) (\<lambda>_.
       Ok (RouteNetwork (network_route_of call))))"

section \<open>The local network\<close>

text \<open>\<open>is_private\<close>, \<open>is_link_local\<close> and the segments of the standard library's addresses.\<close>

definition ipv4_is_private :: "nat list \<Rightarrow> bool" where
  "ipv4_is_private a \<longleftrightarrow>
     a ! 0 = 10 \<or> (a ! 0 = 172 \<and> 16 \<le> a ! 1 \<and> a ! 1 \<le> 31) \<or> (a ! 0 = 192 \<and> a ! 1 = 168)"

definition ipv4_is_link_local :: "nat list \<Rightarrow> bool" where
  "ipv4_is_link_local a \<longleftrightarrow> a ! 0 = 169 \<and> a ! 1 = 254"

definition is_lan_address :: "ip_address \<Rightarrow> bool" where
  "is_lan_address address =
     (case address of
        IpV4 a \<Rightarrow> ipv4_is_private a \<or> ipv4_is_link_local a
      | IpV6 gs \<Rightarrow> (of_nat (gs ! 0) :: u16) AND 0xffc0 = 0xfe80 \<or> (of_nat (gs ! 0) :: u16) AND 0xfe00 = 0xfc00)"

fun lan_target :: "network_call \<Rightarrow> string option" where
  "lan_target (NetworkDiagnose (Tcp host _ _)) = Some host"
| "lan_target (NetworkDiagnose (Tls host _ _ _)) = Some host"
| "lan_target (NetworkDiagnose (NetworkRouteTest destination_ip)) = Some destination_ip"
| "lan_target _ = None"

definition targets_local_network :: "network_call \<Rightarrow> bool" where
  "targets_local_network call =
     (case lan_target call of
        None \<Rightarrow> False
      | Some target \<Rightarrow> (case parse_ip_text target of None \<Rightarrow> False | Some a \<Rightarrow> is_lan_address a))"

definition require_local_network_authority ::
  "capability_snapshot \<Rightarrow> executor_request \<Rightarrow> network_call \<Rightarrow> unit res" where
  "require_local_network_authority capability route call =
     rbind (resolve_execution capability route) (\<lambda>executor.
     if ae_provider executor \<noteq> AppNative \<or> \<not> targets_local_network call then Ok ()
     else rbind (derive_capabilities (cs_grants capability) (cs_context capability)) (\<lambda>derived.
       if av_state (network_local derived) = Available then Ok ()
       else err CapabilityUnavailable ''Android 17 local-network access is not available to the App executor''))"

section \<open>Admission\<close>

fun is_network_task :: "network_call \<Rightarrow> bool" where
  "is_network_task (NetworkCapture (CaptureStart _)) = True"
| "is_network_task _ = False"

definition network_settlement_bound_bytes :: u64 where
  "network_settlement_bound_bytes = 262144"

text \<open>
  What \<open>handle_network_public\<close> hands to the Runtime core for a call other than a stop: a Task for a
  capture, a synchronous execution for the rest. \<open>new_execution_id\<close> and \<open>new_task_id\<close> are the answers of
  the random source.
\<close>

datatype 'p network_admission = AdmitTask "'p task_admission" | AdmitSynchronous "'p synchronous_admission"

definition network_admission ::
  "(network_call \<Rightarrow> 'p) \<Rightarrow> capability_snapshot res \<Rightarrow> uuid res \<Rightarrow> uuid res \<Rightarrow> request_id \<Rightarrow> string \<Rightarrow>
   network_call \<Rightarrow> string \<Rightarrow> u64 \<Rightarrow> 'p network_admission res" where
  "network_admission payload_of capability new_execution_id new_task_id request_id payload_sha256 call timestamp now_ms =
     rbind capability (\<lambda>capability.
     rbind (network_executor_request capability call) (\<lambda>route.
     rbind (require_local_network_authority capability route call) (\<lambda>_.
     rbind new_execution_id (\<lambda>execution_id.
     if is_network_task call
     then rbind new_task_id (\<lambda>task_id.
       Ok (AdmitTask \<lparr>ta_request_id = request_id, ta_payload_sha256 = payload_sha256, ta_task_id = task_id,
         ta_execution_id = execution_id, ta_tool = ToolNetwork, ta_action = network_action call, ta_route = route,
         ta_payload = payload_of call, ta_created_at = timestamp,
         ta_settlement_bound_bytes = network_settlement_bound_bytes, ta_now_ms = now_ms\<rparr>))
     else Ok (AdmitSynchronous \<lparr>sa_request_id = request_id, sa_payload_sha256 = payload_sha256,
         sa_execution_id = execution_id, sa_operation = ''network.'' @ network_action call, sa_route = route,
         sa_payload = payload_of call, sa_settlement_bound_bytes = network_settlement_bound_bytes,
         sa_now_ms = now_ms\<rparr>)))))"

end
