(* ===== verification/Network_Execute.thy ===== *)
theory Network_Execute
  imports Network_Call
begin

text \<open>
  The execution of an admitted network call (\<open>execute_network\<close> and what it calls in
  \<open>rust/crates/runtime/src/network.rs\<close>), the stop of a capture and the probes both hosts share. The host's
  primitives, the artifact store, the claim, the current capabilities, JSON and the sockets are
  parameters that act on an opaque world \<open>'w\<close>.
\<close>

section \<open>What a host is asked and answers\<close>

datatype primitive_request =
  PrimInspect network_source_plan network_scope u32
| PrimDiagnose network_diagnose_input network_source_plan
| PrimCaptureStart uuid string "string option" u64 u64 u64 "file_target option"
| PrimCaptureStop uuid
| PrimCaptureFileBytes file_target
| PrimPacketInject string string u32 u64

datatype diagnostic_outcome =
  DiagSuccess | DiagNotFound | DiagRefused | DiagTimeout | DiagUnreachable | DiagDnsError | DiagTlsError | DiagNoRoute

datatype network_diagnose_result =
  DiagnosedConnectivity diagnostic_outcome u64 "bool option" "bool option" "bool option"
| DiagnosedDns diagnostic_outcome u64 string dns_record_type "string list"
| DiagnosedTcp diagnostic_outcome u64 string u16 "string option"
| DiagnosedTls diagnostic_outcome u64 string u16 string "string option" bool
| DiagnosedRoute diagnostic_outcome u64 string "string option" "string option"

record capture_settlement =
  cm_cancelled :: bool
  cm_packets_captured :: u64
  cm_bytes_captured :: u64
  cm_capture_ref :: "string option"
  cm_destination :: "file_target option"
  cm_cleanup_verified :: bool

record packet_inject_result =
  pj_requested_packets :: u64
  pj_accepted_packets :: u64
  pj_bytes_accepted :: u64

datatype primitive_outcome =
  OutInspect network_inspect_settlement
| OutDiagnose network_diagnose_result
| OutCaptureSettled capture_settlement
| OutCaptureStopRequested
| OutCaptureFileBytes string
| OutPacketInjected packet_inject_result

record primitive_settlement =
  ps_outcome :: primitive_outcome
  ps_cleanup_verified :: bool

record capture_result =
  cp_capture_id :: uuid
  cp_packets_captured :: u64
  cp_bytes_captured :: u64
  cp_capture_ref :: "string option"
  cp_destination :: "file_target option"

record packet_build_result =
  pb_packet_ref :: string
  pb_length :: u64
  pb_sha256 :: string

text \<open>The typed results that are encoded as JSON.\<close>

datatype network_value =
  ValueDecoded packet_decode_result
| ValueBuilt packet_build_result
| ValueRead capture_read_result
| ValueInspected network_inspect_result
| ValueDiagnosed network_diagnose_result
| ValueInjected packet_inject_result
| ValueStopRequested

datatype 'o network_payload = PayloadNetwork network_call | OtherPayload 'o

type_synonym ('w, 'a) network_step = "'w \<Rightarrow> 'w \<times> (execution_failure, 'a) result"

text \<open>
  \<open>nw_publish\<close> is \<open>claim.publish\<close> around \<open>publish_as\<close>, which answers the reference and the digest;
  \<open>nw_run\<close> answers \<open>None\<close> when the primitive's thread is lost. \<open>nw_encode\<close> is \<open>serde_json::to_value\<close>;
  \<open>nw_typed_len\<close>, \<open>nw_value_len\<close> and \<open>nw_terminal_len\<close> are the lengths of JSON texts, where there are any.
\<close>

record ('w, 'j, 'o) network_ports =
  nw_codec :: packet_codec
  nw_open :: "string \<Rightarrow> 'w \<Rightarrow> 'w \<times> string res"
  nw_publish :: "string \<Rightarrow> string \<Rightarrow> 'w \<Rightarrow> 'w \<times> (string \<times> string) res"
  nw_current :: "'w \<Rightarrow> 'w \<times> capability_snapshot res"
  nw_checkpoint :: "'w \<Rightarrow> 'w \<times> unit res"
  nw_cleanup_is_verified :: "'w \<Rightarrow> bool"
  nw_run :: "'o network_payload admitted_execution \<Rightarrow> primitive_request \<Rightarrow> 'w \<Rightarrow>
    'w \<times> (execution_failure, primitive_settlement) result option"
  nw_encode :: "network_value \<Rightarrow> 'j option"
  nw_typed_len :: "network_value \<Rightarrow> nat option"
  nw_value_len :: "'j \<Rightarrow> nat option"
  nw_terminal_len :: "capture_result task_terminal_result \<Rightarrow> nat option"

abbreviation MAX_INLINE_ENVELOPE_OVERHEAD :: nat where "MAX_INLINE_ENVELOPE_OVERHEAD \<equiv> 1024"
abbreviation UI_ENVELOPE_LIMIT_BYTES :: nat where "UI_ENVELOPE_LIMIT_BYTES \<equiv> 262144"

definition text_fits :: "nat option \<Rightarrow> bool" where
  "text_fits len = (case len of None \<Rightarrow> False | Some n \<Rightarrow> n + MAX_INLINE_ENVELOPE_OVERHEAD \<le> UI_ENVELOPE_LIMIT_BYTES)"

definition encoding_failure :: domain_error where
  "encoding_failure = domain_error_new InternalError ''network result encoding failed''"

definition encode_result :: "('w, 'j, 'o) network_ports \<Rightarrow> network_value \<Rightarrow> 'j res" where
  "encode_result ports v = ok_or (nw_encode ports v) encoding_failure"

definition encoded_len :: "nat option \<Rightarrow> u64 res" where
  "encoded_len len = rbind (ok_or len encoding_failure) (\<lambda>n. Ok (of_nat n))"

definition clean_failure :: "domain_error \<Rightarrow> execution_failure" where
  "clean_failure e = \<lparr>ef_error = e, ef_cleanup_verified = True\<rparr>"

definition clean :: "'a res \<Rightarrow> (execution_failure, 'a) result" where
  "clean = map_err clean_failure"

definition nbind :: "('w, 'a) network_step \<Rightarrow> ('a \<Rightarrow> ('w, 'b) network_step) \<Rightarrow> ('w, 'b) network_step" where
  "nbind m f w = (case m w of (w, Err e) \<Rightarrow> (w, Err e) | (w, Ok x) \<Rightarrow> f x w)"

definition npure :: "(execution_failure, 'a) result \<Rightarrow> ('w, 'a) network_step" where
  "npure r w = (w, r)"

definition cleanly :: "('w \<Rightarrow> 'w \<times> 'a res) \<Rightarrow> ('w, 'a) network_step" where
  "cleanly m w = (case m w of (w, r) \<Rightarrow> (w, clean r))"

section \<open>Primitives\<close>

definition match_primitive ::
  "('w, 'j, 'o) network_ports \<Rightarrow> network_call \<Rightarrow> 'o network_payload admitted_execution \<Rightarrow> network_source_plan \<Rightarrow>
   ('w, primitive_request) network_step" where
  "match_primitive ports call execution plan =
     (case call of
        NetworkInspect i \<Rightarrow> npure (Ok (PrimInspect plan (ni_scope i) (ni_max_entries i)))
      | NetworkDiagnose input \<Rightarrow> npure (Ok (PrimDiagnose input plan))
      | NetworkCapture (CaptureStart i) \<Rightarrow>
          (case ax_task_id execution of
             None \<Rightarrow> npure (clean (err InternalError ''network capture start requires a Task identity''))
           | Some capture_id \<Rightarrow> npure (Ok (PrimCaptureStart capture_id (ct_interface i) (ct_filter i) (ct_max_packets i)
               (ct_max_bytes i) (ct_max_duration_ms i) (ct_persist_to i))))
      | NetworkCapture (CaptureStop capture_id) \<Rightarrow> npure (Ok (PrimCaptureStop capture_id))
      | NetworkCapture (CaptureRead (ReadFile target) _ _ _) \<Rightarrow> npure (Ok (PrimCaptureFileBytes target))
      | NetworkPacket (PacketInject interface packet count interval_ms) \<Rightarrow>
          nbind (case packet of
                   PacketRaw raw_base64 \<Rightarrow>
                     npure (clean (decode_base64 raw_base64 ''network.packet inject raw_base64 is invalid''))
                 | PacketRef packet_ref \<Rightarrow> cleanly (nw_open ports packet_ref)) (\<lambda>packet.
          nbind (npure (clean (require_packet_bytes (length packet)
                   ''network.packet inject packet length is out of bounds''))) (\<lambda>_.
          npure (Ok (PrimPacketInject interface packet count interval_ms))))
      | _ \<Rightarrow> npure (clean (err InternalError ''network request has no host primitive'')))"

fun runs_inline :: "network_call \<Rightarrow> bool" where
  "runs_inline (NetworkPacket (PacketDecode _)) = True"
| "runs_inline (NetworkPacket (PacketBuild _ _ _ _)) = True"
| "runs_inline (NetworkCapture (CaptureRead (ReadCaptureRef _) _ _ _)) = True"
| "runs_inline _ = False"

fun is_capture_cancellation :: "primitive_outcome \<Rightarrow> bool" where
  "is_capture_cancellation (OutCaptureSettled s) = cm_cancelled s"
| "is_capture_cancellation _ = False"

definition run_network_blocking ::
  "('w, 'j, 'o) network_ports \<Rightarrow> 'o network_payload admitted_execution \<Rightarrow> primitive_request \<Rightarrow>
   ('w, primitive_settlement) network_step" where
  "run_network_blocking ports execution request w =
     (case nw_run ports execution request w of
        (w, None) \<Rightarrow> (w, Err \<lparr>ef_error = domain_error_new InternalError ''network primitive did not report a settlement'',
                            ef_cleanup_verified = False\<rparr>)
      | (w, Some r) \<Rightarrow> (w, r))"

section \<open>Executor and completion\<close>

definition network_executor_is_current ::
  "capability_snapshot \<Rightarrow> 'p admitted_execution \<Rightarrow> provider_token \<Rightarrow> bool" where
  "network_executor_is_current current execution provider =
     (let executor = ax_executor execution; facts = cs_resolver_facts current in
      if cc_readiness (cs_context current) \<noteq> Ready \<or> cc_host (cs_context current) \<noteq> er_host executor
         \<or> fence_of (cs_fence current) \<noteq> er_fence executor
      then False
      else case provider of
        TokenAppNative \<Rightarrow>
          cc_app_execution_surface (cs_context current) = Available \<and> rf_app_native facts = Available
          \<and> er_capability_generation executor = af_host_generation (cs_fence current)
      | TokenShizuku \<Rightarrow>
          rf_shizuku facts = Available \<and> er_capability_generation executor = gen_shizuku (rf_generations facts)
      | TokenMagiskNative \<Rightarrow>
          cc_host (cs_context current) = MagiskBackend \<and> rf_magisk_native facts = Available
          \<and> er_capability_generation executor = gen_magisk_native (rf_generations facts)
      | _ \<Rightarrow> False)"

type_synonym 'j network_completion = "(capture_result, 'j) execution_completion"

definition network_completion :: "'p admitted_execution \<Rightarrow> (capture_result, 'j) execution_outcome \<Rightarrow> bool \<Rightarrow> 'j network_completion" where
  "network_completion execution outcome cleanup_verified =
     \<lparr>ec_fence = execution_fence execution,
      ec_capability_generation = er_capability_generation (ax_executor execution),
      ec_outcome = outcome, ec_cleanup_verified = cleanup_verified\<rparr>"

definition network_cancellation ::
  "('w, 'j, 'o) network_ports \<Rightarrow> 'o network_payload admitted_execution \<Rightarrow> bool \<Rightarrow> 'w \<Rightarrow> 'j network_completion" where
  "network_cancellation ports execution cleanup_verified w =
     network_completion execution
       (OutcomeCancelled \<lparr>pe_code = Cancelled, pe_operation = ''network.capture'', pe_retryable = False,
          pe_message = None, pe_capability = None, pe_details = None\<rparr> RESERVE_FLOOR_BYTES)
       (cleanup_verified \<and> nw_cleanup_is_verified ports w)"

section \<open>Inline calls\<close>

definition open_decode_source ::
  "('w, 'j, 'o) network_ports \<Rightarrow> packet_decode_source \<Rightarrow> ('w, string) network_step" where
  "open_decode_source ports source =
     (case source of
        DecodeRaw raw_base64 \<Rightarrow>
          npure (clean (decode_base64 raw_base64 ''network.packet decode raw_base64 is invalid''))
      | DecodePacketRef packet_ref \<Rightarrow> cleanly (nw_open ports packet_ref)
      | DecodeCapture capture_ref index \<Rightarrow>
          nbind (cleanly (nw_open ports capture_ref)) (\<lambda>b.
          nbind (npure (clean (read_pcap b))) (\<lambda>records.
          npure (clean (ok_or (map_option pr_bytes (List.find (\<lambda>r. pr_index r = index) records))
            (domain_error_new NotFound ''capture packet index is not present''))))))"

definition inline_value ::
  "('w, 'j, 'o) network_ports \<Rightarrow> network_call \<Rightarrow> ('w, 'j) network_step" where
  "inline_value ports call =
     (case call of
        NetworkPacket (PacketDecode source) \<Rightarrow>
          nbind (open_decode_source ports source) (\<lambda>b.
          nbind (npure (clean (require_packet_bytes (length b)
                   ''network.packet decode packet length is out of bounds''))) (\<lambda>_.
          npure (clean (encode_result ports (ValueDecoded (decode_packet (nw_codec ports) b))))))
      | NetworkPacket (PacketBuild ethernet network transport payload_base64) \<Rightarrow>
          nbind (npure (clean (build_packet (nw_codec ports) ethernet network transport payload_base64))) (\<lambda>buffer.
          nbind (cleanly (nw_publish ports ''packet'' buffer)) (\<lambda>(artifact_ref, sha256).
          npure (clean (encode_result ports
            (ValueBuilt \<lparr>pb_packet_ref = artifact_ref, pb_length = of_nat (length buffer), pb_sha256 = sha256\<rparr>)))))
      | NetworkCapture (CaptureRead (ReadCaptureRef capture_ref) offset_packet max_packets include_payload) \<Rightarrow>
          nbind (cleanly (nw_open ports capture_ref)) (\<lambda>b.
          nbind (npure (clean (read_pcap b))) (\<lambda>records.
          npure (clean
            (rbind (read_capture_result (nw_codec ports) (\<lambda>r. text_fits (nw_typed_len ports (ValueRead r)))
                      records offset_packet max_packets include_payload) (\<lambda>result.
             encode_result ports (ValueRead result))))))
      | _ \<Rightarrow> npure (clean (err InternalError ''network request has no inline handler'')))"

definition execute_inline_network ::
  "('w, 'j, 'o) network_ports \<Rightarrow> 'o network_payload admitted_execution \<Rightarrow> network_call \<Rightarrow>
   ('w, 'j network_completion) network_step" where
  "execute_inline_network ports execution call =
     nbind (inline_value ports call) (\<lambda>v.
     nbind (npure (clean (encoded_len (nw_value_len ports v)))) (\<lambda>encoded_bytes.
     if \<not> text_fits (nw_value_len ports v)
     then npure (clean (err ResourceLimit ''network result exceeds the protocol frame limit''))
     else npure (Ok (network_completion execution (OutcomeSynchronousCompleted v encoded_bytes) True))))"

section \<open>The result of a primitive\<close>

definition assemble_inspect ::
  "('w, 'j, 'o) network_ports \<Rightarrow> network_call \<Rightarrow> network_source_plan \<Rightarrow> network_inspect_settlement \<Rightarrow>
   network_inspect_result res" where
  "assemble_inspect ports call plan settlement =
     (case call of
        NetworkInspect i \<Rightarrow>
          (let d = inspect_data_new plan settlement (ni_max_entries i) in
           inspect_fit (\<lambda>r. text_fits (nw_typed_len ports (ValueInspected r))) d (ni_scope i) (id_counts d))
      | _ \<Rightarrow> err_invalid ''network.inspect was not requested'')"

definition capture_result_of :: "uuid \<Rightarrow> capture_settlement \<Rightarrow> capture_result" where
  "capture_result_of capture_id s =
     \<lparr>cp_capture_id = capture_id, cp_packets_captured = cm_packets_captured s,
      cp_bytes_captured = cm_bytes_captured s, cp_capture_ref = cm_capture_ref s, cp_destination = cm_destination s\<rparr>"

definition outcome_value ::
  "('w, 'j, 'o) network_ports \<Rightarrow> primitive_outcome \<Rightarrow> network_call \<Rightarrow> network_source_plan \<Rightarrow> 'j res" where
  "outcome_value ports outcome call plan =
     (case outcome of
        OutInspect settlement \<Rightarrow>
          rbind (assemble_inspect ports call plan settlement) (\<lambda>r. encode_result ports (ValueInspected r))
      | OutDiagnose result \<Rightarrow> encode_result ports (ValueDiagnosed result)
      | OutPacketInjected result \<Rightarrow> encode_result ports (ValueInjected result)
      | OutCaptureFileBytes b \<Rightarrow>
          (case call of
             NetworkCapture (CaptureRead _ offset_packet max_packets include_payload) \<Rightarrow>
               rbind (read_pcap b) (\<lambda>records.
               rbind (read_capture_result (nw_codec ports) (\<lambda>r. text_fits (nw_typed_len ports (ValueRead r)))
                        records offset_packet max_packets include_payload) (\<lambda>result.
               encode_result ports (ValueRead result)))
           | _ \<Rightarrow> err_invalid ''network.capture read was not requested'')
      | _ \<Rightarrow> encode_result ports ValueStopRequested)"

definition network_outcome ::
  "('w, 'j, 'o) network_ports \<Rightarrow> primitive_outcome \<Rightarrow> network_call \<Rightarrow> 'o network_payload admitted_execution \<Rightarrow>
   network_source_plan \<Rightarrow> (capture_result, 'j) execution_outcome res" where
  "network_outcome ports outcome call execution plan =
     (case outcome of
        OutCaptureSettled s \<Rightarrow>
          (case ax_task_id execution of
             None \<Rightarrow> err InternalError ''network capture settlement requires a Task identity''
           | Some capture_id \<Rightarrow>
               (let terminal = ResultTool (capture_result_of capture_id s) in
                rbind (encoded_len (nw_terminal_len ports terminal)) (\<lambda>encoded_bytes.
                Ok (OutcomeCompleted terminal encoded_bytes))))
      | _ \<Rightarrow>
          rbind (outcome_value ports outcome call plan) (\<lambda>v.
          rbind (encoded_len (nw_value_len ports v)) (\<lambda>encoded_bytes.
          Ok (OutcomeSynchronousCompleted v encoded_bytes))))"

fun network_outcome_bytes :: "('r, 'j) execution_outcome \<Rightarrow> u64" where
  "network_outcome_bytes (OutcomeCompleted _ n) = n"
| "network_outcome_bytes (OutcomeSynchronousCompleted _ n) = n"
| "network_outcome_bytes (OutcomeFailed _ n) = n"
| "network_outcome_bytes (OutcomeCancelled _ n) = n"

definition network_outcome_fits :: "('r, 'j) execution_outcome \<Rightarrow> bool" where
  "network_outcome_fits outcome \<longleftrightarrow> text_fits (Some (unat (network_outcome_bytes outcome)))"

definition settle_primitive ::
  "('w, 'j, 'o) network_ports \<Rightarrow> 'o network_payload admitted_execution \<Rightarrow> network_call \<Rightarrow> network_source_plan \<Rightarrow>
   primitive_settlement \<Rightarrow> 'w \<Rightarrow> (execution_failure, 'j network_completion) result" where
  "settle_primitive ports execution call plan settlement w =
     (if is_capture_cancellation (ps_outcome settlement)
      then Ok (network_cancellation ports execution (ps_cleanup_verified settlement) w)
      else
        let cleanup_verified = ps_cleanup_verified settlement \<and> nw_cleanup_is_verified ports w in
        if \<not> cleanup_verified
        then Err \<lparr>ef_error = domain_error_new IoError ''network primitive cleanup is unverified'',
                  ef_cleanup_verified = False\<rparr>
        else case network_outcome ports (ps_outcome settlement) call execution plan of
          Err e \<Rightarrow>
            if de_code e = Cancelled then Ok (network_cancellation ports execution cleanup_verified w)
            else Err \<lparr>ef_error = e, ef_cleanup_verified = cleanup_verified\<rparr>
        | Ok outcome \<Rightarrow>
            if \<not> network_outcome_fits outcome
            then Err \<lparr>ef_error = domain_error_new ResourceLimit ''network result exceeds the protocol frame limit'',
                      ef_cleanup_verified = cleanup_verified\<rparr>
            else Ok (network_completion execution outcome cleanup_verified))"

definition execute_primitive ::
  "('w, 'j, 'o) network_ports \<Rightarrow> 'o network_payload admitted_execution \<Rightarrow> network_call \<Rightarrow> network_source_plan \<Rightarrow>
   ('w, 'j network_completion) network_step" where
  "execute_primitive ports execution call plan =
     nbind (match_primitive ports call execution plan) (\<lambda>request w.
     case run_network_blocking ports execution request w of
       (w, Ok settlement) \<Rightarrow> (w, settle_primitive ports execution call plan settlement w)
     | (w, Err failure) \<Rightarrow>
         (w, if de_code (ef_error failure) = Cancelled
             then Ok (network_cancellation ports execution (ef_cleanup_verified failure) w)
             else Err failure))"

definition execute_network ::
  "('w, 'j, 'o) network_ports \<Rightarrow> 'o network_payload admitted_execution \<Rightarrow> ('w, 'j network_completion) network_step" where
  "execute_network ports execution =
     (case ax_payload execution of
        OtherPayload _ \<Rightarrow> npure (clean (err Unsupported ''native network surface received a non-network request''))
      | PayloadNetwork call \<Rightarrow>
          nbind (npure (clean (validate_network_input call))) (\<lambda>_.
          nbind (cleanly (nw_current ports)) (\<lambda>current.
          if \<not> network_executor_is_current current execution (er_provider (ax_executor execution))
          then npure (clean (err StaleAuthority ''network executor fence or generation is stale''))
          else nbind (cleanly (nw_checkpoint ports)) (\<lambda>_.
            if runs_inline call then execute_inline_network ports execution call
            else execute_primitive ports execution call
              (network_source_plan_of current (er_provider (ax_executor execution)))))))"


text \<open>
  Stopping a capture, which waits for its Task to settle, and the probes of \<open>network.diagnose\<close> both
  hosts run in their own process (\<open>rust/crates/runtime/src/network.rs\<close>).
\<close>

section \<open>Stopping a capture\<close>

datatype call_failure = FailureRefused domain_error | FailureSettled public_error

record ('w, 'j, 'o) stop_ports =
  so_get_task :: "uuid \<Rightarrow> u64 \<Rightarrow> 'w \<Rightarrow> 'w \<times> capture_result task_snapshot res"
  so_capability :: "'w \<Rightarrow> 'w \<times> capability_snapshot res"
  so_new_uuid :: "'w \<Rightarrow> 'w \<times> uuid res"
  so_run_synchronous :: "'o network_payload synchronous_admission \<Rightarrow> string \<Rightarrow> u64 \<Rightarrow> 'w \<Rightarrow> 'w \<times> (public_error, 'j) result"
  so_encode :: "capture_result \<Rightarrow> 'j option"
  so_instant :: "'w \<Rightarrow> nat"
  so_sleep :: "nat \<Rightarrow> 'w \<Rightarrow> 'w"

abbreviation NETWORK_CAPTURE_STOP_WAIT_MS :: nat where "NETWORK_CAPTURE_STOP_WAIT_MS \<equiv> 10000"
abbreviation CAPTURE_POLL_MS :: nat where "CAPTURE_POLL_MS \<equiv> 50"

definition capture_task ::
  "('w, 'j, 'o) stop_ports \<Rightarrow> uuid \<Rightarrow> u64 \<Rightarrow> 'w \<Rightarrow> 'w \<times> capture_result task_snapshot res" where
  "capture_task ports capture_id now_ms w =
     (case so_get_task ports capture_id now_ms w of
        (w, Err e) \<Rightarrow> (w, Err e)
      | (w, Ok s) \<Rightarrow>
          if ts_tool s \<noteq> ToolNetwork \<or> ts_action s \<noteq> ''capture''
          then (w, err NotFound ''capture identity is not a capture Task'') else (w, Ok s))"

definition capture_stop_failure :: "'r task_snapshot \<Rightarrow> domain_error" where
  "capture_stop_failure s =
     (case ts_error s of
        Some e \<Rightarrow> domain_error_new (pe_code e) ''network capture has no retained result''
      | None \<Rightarrow> domain_error_new CaptureFailed ''network capture has no retained result'')"

text \<open>A Task of the network tool can only hold a capture's result as \<open>ResultTool\<close>.\<close>

definition retained_capture_result ::
  "('w, 'j, 'o) stop_ports \<Rightarrow> capture_result task_snapshot \<Rightarrow> 'j option res" where
  "retained_capture_result ports s =
     (case ts_result s of
        Some (ResultTool result) \<Rightarrow>
          rbind (ok_or (so_encode ports result) (domain_error_new InternalError ''capture result encoding failed''))
            (\<lambda>v. Ok (Some v))
      | Some _ \<Rightarrow> Err (capture_stop_failure s)
      | None \<Rightarrow> Ok None)"

fun task_is_terminal :: "task_state \<Rightarrow> bool" where
  "task_is_terminal TaskCompleted = True"
| "task_is_terminal TaskFailed = True"
| "task_is_terminal TaskCancelled = True"
| "task_is_terminal TaskInterrupted = True"
| "task_is_terminal _ = False"

text \<open>
  One reading of the Task: \<open>Some\<close> answer ends the stop. The wait reads at most \<open>n\<close> times; \<open>None\<close> means
  that it has not returned by then.
\<close>

definition read_capture_task ::
  "('w, 'j, 'o) stop_ports \<Rightarrow> uuid \<Rightarrow> u64 \<Rightarrow> 'w \<Rightarrow> 'w \<times> (call_failure, 'j) result option" where
  "read_capture_task ports capture_id now_ms w =
     (case capture_task ports capture_id now_ms w of
        (w, Err e) \<Rightarrow> (w, Some (Err (FailureRefused e)))
      | (w, Ok s) \<Rightarrow>
          (case retained_capture_result ports s of
             Err e \<Rightarrow> (w, Some (Err (FailureRefused e)))
           | Ok (Some v) \<Rightarrow> (w, Some (Ok v))
           | Ok None \<Rightarrow>
               if task_is_terminal (ts_state s) then (w, Some (Err (FailureRefused (capture_stop_failure s))))
               else (w, None)))"

fun await_capture ::
  "('w, 'j, 'o) stop_ports \<Rightarrow> uuid \<Rightarrow> u64 \<Rightarrow> nat \<Rightarrow> nat \<Rightarrow> 'w \<Rightarrow> ('w \<times> (call_failure, 'j) result) option" where
  "await_capture ports capture_id now_ms deadline 0 w = None"
| "await_capture ports capture_id now_ms deadline (Suc n) w =
     (case read_capture_task ports capture_id now_ms w of
        (w, Some r) \<Rightarrow> Some (w, r)
      | (w, None) \<Rightarrow>
          if deadline \<le> so_instant ports w
          then Some (w, Err (FailureRefused (domain_error_new Timeout ''network capture did not settle inside the stop bound'')))
          else await_capture ports capture_id now_ms deadline n (so_sleep ports CAPTURE_POLL_MS w))"

text \<open>The readings that a wait of 10,000 ms in steps of 50 ms has at most.\<close>

abbreviation STOP_READINGS :: nat where "STOP_READINGS \<equiv> 201"

definition stop_admission ::
  "request_id \<Rightarrow> string \<Rightarrow> uuid \<Rightarrow> executor_request \<Rightarrow> network_call \<Rightarrow> u64 \<Rightarrow> 'o network_payload synchronous_admission" where
  "stop_admission request_id payload_sha256 execution_id route call now_ms =
     \<lparr>sa_request_id = request_id, sa_payload_sha256 = payload_sha256, sa_execution_id = execution_id,
      sa_operation = ''network.'' @ network_action call, sa_route = route, sa_payload = PayloadNetwork call,
      sa_settlement_bound_bytes = network_settlement_bound_bytes, sa_now_ms = now_ms\<rparr>"

definition request_stop ::
  "('w, 'j, 'o) stop_ports \<Rightarrow> request_id \<Rightarrow> string \<Rightarrow> uuid \<Rightarrow> string \<Rightarrow> u64 \<Rightarrow> 'w \<Rightarrow> 'w \<times> (call_failure, unit) result" where
  "request_stop ports request_id payload_sha256 capture_id timestamp now_ms w =
     (case so_capability ports w of
        (w, Err e) \<Rightarrow> (w, Err (FailureRefused e))
      | (w, Ok capability) \<Rightarrow>
          (let call = NetworkCapture (CaptureStop capture_id) in
           case network_executor_request capability call of
             Err e \<Rightarrow> (w, Err (FailureRefused e))
           | Ok route \<Rightarrow>
               (case so_new_uuid ports w of
                  (w, Err e) \<Rightarrow> (w, Err (FailureRefused e))
                | (w, Ok execution_id) \<Rightarrow>
                    (case so_run_synchronous ports (stop_admission request_id payload_sha256 execution_id route call now_ms)
                            timestamp now_ms w of
                       (w, Err e) \<Rightarrow> (w, Err (FailureSettled e))
                     | (w, Ok _) \<Rightarrow> (w, Ok ())))))"

definition stop_capture ::
  "('w, 'j, 'o) stop_ports \<Rightarrow> request_id \<Rightarrow> string \<Rightarrow> uuid \<Rightarrow> string \<Rightarrow> u64 \<Rightarrow> nat \<Rightarrow> 'w \<Rightarrow>
   ('w \<times> (call_failure, 'j) result) option" where
  "stop_capture ports request_id payload_sha256 capture_id timestamp now_ms readings w =
     (case read_capture_task ports capture_id now_ms w of
        (w, Some r) \<Rightarrow> Some (w, r)
      | (w, None) \<Rightarrow>
          (case request_stop ports request_id payload_sha256 capture_id timestamp now_ms w of
             (w, Err e) \<Rightarrow> Some (w, Err e)
           | (w, Ok _) \<Rightarrow>
               await_capture ports capture_id now_ms (so_instant ports w + NETWORK_CAPTURE_STOP_WAIT_MS) readings w))"

section \<open>The wait ends\<close>

definition stop_clock :: "('w, 'j, 'o) stop_ports \<Rightarrow> bool" where
  "stop_clock ports \<longleftrightarrow>
     (\<forall>n w. so_instant ports w + n \<le> so_instant ports (so_sleep ports n w))
     \<and> (\<forall>i now w. so_instant ports w \<le> so_instant ports (fst (so_get_task ports i now w)))"

lemma read_capture_task_instant:
  "stop_clock ports \<Longrightarrow> read_capture_task ports i now w = (w', r) \<Longrightarrow> so_instant ports w \<le> so_instant ports w'"
  unfolding stop_clock_def read_capture_task_def capture_task_def
  by (cases "so_get_task ports i now w")
    (auto split: sum.splits if_splits option.splits dest!: spec[of _ i] spec[of _ now] spec[of _ w])

lemma await_capture_returns:
  assumes "stop_clock ports" "deadline \<le> so_instant ports w + n * CAPTURE_POLL_MS"
  shows "await_capture ports i now deadline (Suc n) w \<noteq> None"
  using assms(2)
proof (induction n arbitrary: w)
  case 0
  obtain w' r where read: "read_capture_task ports i now w = (w', r)" by fastforce
  with read_capture_task_instant[OF assms(1) read] 0 show ?case by (auto split: option.split)
next
  case (Suc n)
  obtain w' r where read: "read_capture_task ports i now w = (w', r)" by fastforce
  have "so_instant ports w \<le> so_instant ports w'" by (rule read_capture_task_instant[OF assms(1) read])
  moreover have "so_instant ports w' + CAPTURE_POLL_MS \<le> so_instant ports (so_sleep ports CAPTURE_POLL_MS w')"
    using assms(1) by (simp only: stop_clock_def)
  ultimately have "deadline \<le> so_instant ports (so_sleep ports CAPTURE_POLL_MS w') + n * CAPTURE_POLL_MS"
    using Suc.prems by simp
  from Suc.IH[OF this] show ?case
    unfolding await_capture.simps(2)[of ports i now deadline "Suc n"] by (auto simp: read split: option.split simp del: await_capture.simps)
qed

text \<open>
  stopping a capture returns: whatever its Task and the host answer, after at most 201 readings of the
  Task it has the result, an error, or the 10,000 ms are over.
\<close>

lemma capture_stop_returns:
  assumes "stop_clock ports"
  shows "stop_capture ports request_id payload_sha256 capture_id timestamp now_ms STOP_READINGS w \<noteq> None"
proof -
  have "await_capture ports capture_id now_ms (so_instant ports w' + NETWORK_CAPTURE_STOP_WAIT_MS) (Suc 200) w' \<noteq> None" for w'
    by (rule await_capture_returns[OF assms]) simp
  then show ?thesis
    by (auto simp: stop_capture_def split: prod.split option.split sum.split simp del: await_capture.simps)
qed

section \<open>Probes\<close>

datatype io_error_kind = KindConnectionRefused | KindTimedOut | KindWouldBlock | KindOther

record ('w, 'a, 's) probe_ports =
  pp_instant :: "'w \<Rightarrow> nat"
  pp_resolve :: "string \<Rightarrow> u16 \<Rightarrow> 'w \<Rightarrow> 'w \<times> 'a list option"
  pp_connect :: "'a \<Rightarrow> nat \<Rightarrow> 'w \<Rightarrow> 'w \<times> (io_error_kind, 's) result"
  pp_ip :: "'a \<Rightarrow> ip_address"
  pp_peer_ip :: "'s \<Rightarrow> string option"
  pp_handshake :: "'s \<Rightarrow> string \<Rightarrow> nat \<Rightarrow> 'w \<Rightarrow> 'w \<times> (io_error_kind, unit) result option"
  pp_server_name :: "string \<Rightarrow> bool"

fun connect_failure :: "io_error_kind \<Rightarrow> diagnostic_outcome" where
  "connect_failure KindConnectionRefused = DiagRefused"
| "connect_failure KindTimedOut = DiagTimeout"
| "connect_failure KindWouldBlock = DiagTimeout"
| "connect_failure KindOther = DiagUnreachable"

fun tls_failure :: "io_error_kind \<Rightarrow> diagnostic_outcome" where
  "tls_failure KindTimedOut = DiagTimeout"
| "tls_failure KindWouldBlock = DiagTimeout"
| "tls_failure _ = DiagTlsError"

definition get_or_insert :: "'e option \<Rightarrow> 'e \<Rightarrow> 'e option" where
  "get_or_insert failure e = (case failure of None \<Rightarrow> Some e | Some _ \<Rightarrow> failure)"

fun connect_candidates ::
  "('w, 'a, 's) probe_ports \<Rightarrow> nat \<Rightarrow> diagnostic_outcome option \<Rightarrow> 'a list \<Rightarrow> 'w \<Rightarrow> 'w \<times> (diagnostic_outcome, 's) result" where
  "connect_candidates ports deadline failure [] w =
     (w, Err (case failure of None \<Rightarrow> DiagUnreachable | Some e \<Rightarrow> e))"
| "connect_candidates ports deadline failure (address # addresses) w =
     (let remaining = deadline - pp_instant ports w in
      if remaining = 0 then (w, Err (the (get_or_insert failure DiagTimeout)))
      else case pp_connect ports address remaining w of
        (w, Ok stream) \<Rightarrow> (w, Ok stream)
      | (w, Err e) \<Rightarrow>
          connect_candidates ports deadline (get_or_insert failure (connect_failure e)) addresses w)"

definition connect_first ::
  "('w, 'a, 's) probe_ports \<Rightarrow> string \<Rightarrow> u16 \<Rightarrow> nat \<Rightarrow> 'w \<Rightarrow> 'w \<times> (diagnostic_outcome, 's) result" where
  "connect_first ports host port timeout w =
     (let deadline = pp_instant ports w + timeout in
      case pp_resolve ports host port w of
        (w, None) \<Rightarrow> (w, Err DiagDnsError)
      | (w, Some addresses) \<Rightarrow> connect_candidates ports deadline None addresses w)"

definition elapsed_ms :: "('w, 'a, 's) probe_ports \<Rightarrow> nat \<Rightarrow> 'w \<Rightarrow> u64" where
  "elapsed_ms ports started w = of_nat (min (pp_instant ports w - started) (2 ^ 64 - 1))"

definition network_tcp_probe ::
  "('w, 'a, 's) probe_ports \<Rightarrow> string \<Rightarrow> u16 \<Rightarrow> u64 \<Rightarrow> 'w \<Rightarrow> 'w \<times> network_diagnose_result" where
  "network_tcp_probe ports host port timeout_ms w =
     (let started = pp_instant ports w in
      case connect_first ports host port (unat timeout_ms) w of
        (w, Ok stream) \<Rightarrow>
          (w, DiagnosedTcp DiagSuccess (elapsed_ms ports started w) host port (pp_peer_ip ports stream))
      | (w, Err outcome) \<Rightarrow> (w, DiagnosedTcp outcome (elapsed_ms ports started w) host port None))"

text \<open>\<open>pp_handshake\<close> answers \<open>None\<close> when the connection cannot be set up for the name at all.\<close>

definition network_tls_probe ::
  "('w, 'a, 's) probe_ports \<Rightarrow> string \<Rightarrow> u16 \<Rightarrow> string option \<Rightarrow> u64 \<Rightarrow> 'w \<Rightarrow> 'w \<times> network_diagnose_result res" where
  "network_tls_probe ports host port server_name timeout_ms w =
     (let started = pp_instant ports w;
          name = (case server_name of None \<Rightarrow> host | Some name \<Rightarrow> name);
          answer = (\<lambda>w outcome remote_ip certificate_verified.
            (w, Ok (DiagnosedTls outcome (elapsed_ms ports started w) host port name remote_ip certificate_verified)))
      in if \<not> pp_server_name ports name then (w, err_invalid ''network.diagnose tls server name is invalid'')
         else case connect_first ports host port (unat timeout_ms) w of
           (w, Err outcome) \<Rightarrow> answer w outcome None False
         | (w, Ok socket) \<Rightarrow>
             (case pp_handshake ports socket name (unat timeout_ms) w of
                (w, None) \<Rightarrow> (w, err_invalid ''network.diagnose tls server name is invalid'')
              | (w, Some (Ok _)) \<Rightarrow> answer w DiagSuccess (pp_peer_ip ports socket) True
              | (w, Some (Err e)) \<Rightarrow> answer w (tls_failure e) (pp_peer_ip ports socket) False))"

fun ip_text :: "ip_address \<Rightarrow> string" where
  "ip_text (IpV4 a) = show_ipv4 a"
| "ip_text (IpV6 gs) = show_ipv6 gs"

fun wanted_record :: "dns_record_type \<Rightarrow> ip_address \<Rightarrow> bool" where
  "wanted_record DnsA (IpV4 _) = True"
| "wanted_record DnsAaaa (IpV6 _) = True"
| "wanted_record _ _ = False"

definition distinct_addresses :: "dns_record_type \<Rightarrow> ip_address list \<Rightarrow> string list" where
  "distinct_addresses record_type all =
     foldl (\<lambda>addresses a. if wanted_record record_type a \<and> ip_text a \<notin> set addresses
                          then addresses @ [ip_text a] else addresses) [] all"

definition network_dns_probe ::
  "('w, 'a, 's) probe_ports \<Rightarrow> string \<Rightarrow> dns_record_type \<Rightarrow> 'w \<Rightarrow> 'w \<times> network_diagnose_result" where
  "network_dns_probe ports name record_type w =
     (let started = pp_instant ports w in
      case pp_resolve ports name 0 w of
        (w, None) \<Rightarrow> (w, DiagnosedDns DiagDnsError (elapsed_ms ports started w) name record_type [])
      | (w, Some all) \<Rightarrow>
          (let addresses = distinct_addresses record_type (map (pp_ip ports) all) in
           (w, DiagnosedDns (if addresses = [] then DiagNotFound else DiagSuccess) (elapsed_ms ports started w)
                 name record_type addresses)))"

end
