(* ===== verification/Network_Properties.thy ===== *)
theory Network_Properties
  imports Network_Execute Network_Inspect
begin

text \<open>
  What holds of an admitted network call: which calls need the local-network authority, that a host is
  only asked within the bounds of the contract, that a settlement claims no cleanup it was not told of,
  and that a probe keeps its time.
\<close>

section \<open>Requests to the host\<close>

definition name_ok :: "string \<Rightarrow> bool" where
  "name_ok text \<longleftrightarrow> text \<noteq> [] \<and> NUL \<notin> set text"

fun request_in_bounds :: "primitive_request \<Rightarrow> bool" where
  "request_in_bounds (PrimInspect _ _ max_entries) \<longleftrightarrow> 1 \<le> max_entries \<and> max_entries \<le> 5000"
| "request_in_bounds (PrimDiagnose input _) \<longleftrightarrow>
     (case input of
        Connectivity \<Rightarrow> True
      | Dns name _ \<Rightarrow> name_ok name
      | Tcp host port timeout_ms \<Rightarrow> name_ok host \<and> port \<noteq> 0 \<and> 100 \<le> timeout_ms \<and> timeout_ms \<le> 60000
      | Tls host port server_name timeout_ms \<Rightarrow>
          name_ok host \<and> port \<noteq> 0 \<and> pred_option name_ok server_name \<and> 100 \<le> timeout_ms \<and> timeout_ms \<le> 60000
      | NetworkRouteTest destination_ip \<Rightarrow> name_ok destination_ip)"
| "request_in_bounds (PrimCaptureStart _ interface capture_filter max_packets max_bytes max_duration_ms _) \<longleftrightarrow>
     name_ok interface \<and> pred_option name_ok capture_filter \<and> 1 \<le> max_packets \<and> max_packets \<le> 1000000
     \<and> 1 \<le> max_bytes \<and> max_bytes \<le> 268435456 \<and> 1 \<le> max_duration_ms \<and> max_duration_ms \<le> 3600000"
| "request_in_bounds (PrimCaptureStop _) \<longleftrightarrow> True"
| "request_in_bounds (PrimCaptureFileBytes _) \<longleftrightarrow> True"
| "request_in_bounds (PrimPacketInject interface packet count interval_ms) \<longleftrightarrow>
     name_ok interface \<and> 1 \<le> length packet \<and> length packet \<le> 131072 \<and> 1 \<le> count \<and> count \<le> 100 \<and> interval_ms \<le> 60000"

lemma require_name_Ok: "require_name text reason = Ok u \<longleftrightarrow> name_ok text"
  by (simp add: require_name_def name_ok_def)

lemma require_packet_bytes_Ok: "require_packet_bytes n reason = Ok u \<longleftrightarrow> 1 \<le> n \<and> n \<le> 131072"
  by (simp add: require_packet_bytes_def)

lemma clean_Ok: "clean r = Ok x \<longleftrightarrow> r = Ok x"
  by (simp add: clean_def)

lemma nbind_Ok: "nbind m f w = (w', Ok y) \<longleftrightarrow> (\<exists>v x. m w = (v, Ok x) \<and> f x v = (w', Ok y))"
  by (auto simp: nbind_def split: prod.split sum.split)

lemmas bounds_simps = require_name_Ok require_packet_bytes_Ok clean_Ok nbind_Ok npure_def rbind_eq_Ok_iff
  diagnose_timeout_in_bounds_def

lemma diagnose_in_bounds: "validate_diagnose_input input = Ok u \<Longrightarrow> request_in_bounds (PrimDiagnose input plan)"
  by (cases input) (auto simp: bounds_simps split: if_splits option.splits)

lemma capture_in_bounds:
  "validate_capture_input (CaptureStart i) = Ok u \<Longrightarrow>
     request_in_bounds (PrimCaptureStart capture_id (ct_interface i) (ct_filter i) (ct_max_packets i) (ct_max_bytes i)
       (ct_max_duration_ms i) (ct_persist_to i))"
  by (auto simp: bounds_simps split: if_splits option.splits)

text \<open>
  C40: what a host is asked to do is within the bounds of the contract: the packets, bytes and milliseconds
  of a capture, the bytes, copies and pauses of an injection (of stored packets too, whose length is only
  known when they are opened), the entries of an inspection and the name, port and time of a probe.
\<close>

theorem host_asked_in_bounds:
  assumes "validate_network_input call = Ok u"
    and "match_primitive ports call execution plan w = (w', Ok request)"
  shows "request_in_bounds request"
proof (cases call)
  case (NetworkInspect i)
  with assms show ?thesis by (auto simp: match_primitive_def npure_def split: if_splits)
next
  case (NetworkCapture input)
  show ?thesis
  proof (cases input)
    case (CaptureStart i)
    with assms NetworkCapture capture_in_bounds[of i u] show ?thesis
      by (auto simp: match_primitive_def npure_def clean_def simp del: request_in_bounds.simps validate_capture_input.simps
          split: option.splits)
  next
    case (CaptureStop i)
    with assms NetworkCapture show ?thesis by (auto simp: match_primitive_def npure_def)
  next
    case (CaptureRead source offset max_packets include_payload)
    with assms NetworkCapture show ?thesis
      by (cases source) (auto simp: match_primitive_def npure_def clean_def)
  qed
next
  case (NetworkPacket input)
  show ?thesis
  proof (cases input)
    case (PacketInject interface packet count interval_ms)
    with assms NetworkPacket show ?thesis
      by (auto simp: match_primitive_def bounds_simps split: if_splits)
  qed (use assms NetworkPacket in \<open>auto simp: match_primitive_def npure_def clean_def\<close>)
next
  case (NetworkDiagnose input)
  with assms diagnose_in_bounds[of input u plan] show ?thesis
    by (auto simp: match_primitive_def npure_def simp del: request_in_bounds.simps)
qed

section \<open>Settlements\<close>

fun is_cancelled_outcome :: "('r, 'j) execution_outcome \<Rightarrow> bool" where
  "is_cancelled_outcome (OutcomeCancelled _ _) = True"
| "is_cancelled_outcome _ = False"

text \<open>
  A completion is honest when it carries the executor's fence and generation, and only a cancellation
  leaves the cleanup open or can exceed the frame.
\<close>

definition honest_completion :: "'p admitted_execution \<Rightarrow> 'j network_completion \<Rightarrow> bool" where
  "honest_completion execution c \<longleftrightarrow>
     ec_fence c = execution_fence execution
     \<and> ec_capability_generation c = er_capability_generation (ax_executor execution)
     \<and> (\<not> is_cancelled_outcome (ec_outcome c) \<longrightarrow> ec_cleanup_verified c \<and> network_outcome_fits (ec_outcome c))"

lemma cancellation_honest: "honest_completion execution (network_cancellation ports execution b w)"
  by (simp add: honest_completion_def network_cancellation_def network_completion_def)

lemma settle_primitive_honest:
  "settle_primitive ports execution call plan s w = Ok c \<Longrightarrow> honest_completion execution c"
  by (auto simp: settle_primitive_def Let_def cancellation_honest honest_completion_def network_completion_def
      split: if_splits sum.splits dest!: sym[of "network_cancellation _ _ _ _"])
    (simp_all add: network_cancellation_def network_completion_def)

lemma execute_primitive_honest:
  "execute_primitive ports execution call plan w = (w', Ok c) \<Longrightarrow> honest_completion execution c"
proof -
  assume "execute_primitive ports execution call plan w = (w', Ok c)"
  then obtain v request where run: "(case run_network_blocking ports execution request v of
      (w, Ok settlement) \<Rightarrow> (w, settle_primitive ports execution call plan settlement w)
    | (w, Err failure) \<Rightarrow>
        (w, if de_code (ef_error failure) = Cancelled
            then Ok (network_cancellation ports execution (ef_cleanup_verified failure) w)
            else Err failure)) = (w', Ok c)"
    by (auto simp: execute_primitive_def nbind_Ok)
  obtain u r where "run_network_blocking ports execution request v = (u, r)" by fastforce
  with run show "honest_completion execution c"
    by (auto simp: cancellation_honest dest: settle_primitive_honest split: sum.splits if_splits)
qed

lemma execute_inline_honest:
  assumes "execute_inline_network ports execution call w = (w', Ok c)"
  shows "honest_completion execution c"
proof -
  obtain v n where v: "encoded_len (nw_value_len ports v) = Ok n" "text_fits (nw_value_len ports v)"
    "c = network_completion execution (OutcomeSynchronousCompleted v n) True"
    using assms by (auto simp: execute_inline_network_def bounds_simps split: if_splits)
  then obtain len where len: "nw_value_len ports v = Some len" "n = of_nat len"
    by (auto simp: encoded_len_def rbind_eq_Ok_iff)
  have "len < 2 ^ 64" using v(2) len by (simp add: text_fits_def)
  then have "network_outcome_fits (OutcomeSynchronousCompleted v n)"
    using v(2) len by (simp add: network_outcome_fits_def text_fits_def unat_of_nat)
  with v(3) show ?thesis by (simp add: honest_completion_def network_completion_def)
qed

text \<open>
  an execution of the network tool that reports success carries the fence and generation of its
  executor, its result fits the frame, and primitive and claim both have vouched for the cleanup; a
  cancelled one may leave the cleanup open, and says so.
\<close>

lemma network_settlement_honest:
  assumes "execute_network ports execution w = (w', Ok c)"
  shows "honest_completion execution c"
proof (cases "ax_payload execution")
  case (PayloadNetwork call)
  with assms obtain v current where
    "(if runs_inline call then execute_inline_network ports execution call
      else execute_primitive ports execution call
        (network_source_plan_of current (er_provider (ax_executor execution)))) v = (w', Ok c)"
    by (auto simp: execute_network_def nbind_Ok clean_def npure_def split: if_splits)
  then show ?thesis
    using execute_inline_honest execute_primitive_honest by (auto split: if_splits)
next
  case (OtherPayload x)
  with assms show ?thesis by (simp add: execute_network_def npure_def clean_def)
qed

section \<open>The local network\<close>


lemma replicate_five: "replicate 5 x = [x, x, x, x, x]"
  by (simp add: numeral_eq_Suc)

lemma mapped_text: "parse_ip_text ''::ffff:192.168.1.1'' = Some (IpV6 [0, 0, 0, 0, 0, 65535, 49320, 257])"
  by (simp add: parse_ip_text_def parse_ipv4_text_def parse_ipv6_text_def read_ipv4_def read_groups.simps
      read_separated_def read_number_def number_value_def radix_digit_def hex_digit_value_def is_ascii_digit_def
      less_eq_char_def starts_with_def replicate_five)

text \<open>
  the address 192.168.1.1 written as an IPv4-mapped IPv6 address passes without any local-network
  authority: whatever the grants, a probe of \<open>::ffff:192.168.1.1\<close> is only asked for an executor.
\<close>

lemma mapped_address_unchecked:
  "require_local_network_authority capability route (NetworkDiagnose (Tcp ''::ffff:192.168.1.1'' port timeout_ms))
     = rbind (resolve_execution capability route) (\<lambda>_. Ok ())"
  by (simp add: require_local_network_authority_def targets_local_network_def mapped_text is_lan_address_def)

section \<open>Probes\<close>

text \<open>A connection attempt that keeps the time it is given.\<close>

definition connects_in_time :: "('w, 'a, 's) probe_ports \<Rightarrow> bool" where
  "connects_in_time ports \<longleftrightarrow>
     (\<forall>a remaining w. pp_instant ports (fst (pp_connect ports a remaining w)) \<le> pp_instant ports w + remaining)"

lemma connect_candidates_in_time:
  assumes "connects_in_time ports" "pp_instant ports w \<le> deadline"
  shows "pp_instant ports (fst (connect_candidates ports deadline failure addresses w)) \<le> deadline"
  using assms(2)
proof (induction addresses arbitrary: failure w)
  case Nil
  then show ?case by simp
next
  case (Cons a addresses)
  obtain v r where c: "pp_connect ports a (deadline - pp_instant ports w) w = (v, r)" by fastforce
  with assms(1)[unfolded connects_in_time_def, rule_format, of a "deadline - pp_instant ports w" w] Cons.prems
  have "pp_instant ports v \<le> deadline" by simp
  with Cons c show ?case by (auto simp: Let_def split: sum.split)
qed

text \<open>
  connecting keeps the probe's budget over all the addresses a name has: when the name is resolved in
  time and a single attempt keeps the time it is given, the whole search ends by the deadline.
\<close>

lemma probe_keeps_budget:
  assumes "connects_in_time ports" "pp_resolve ports host port w = (v, Some addresses)"
    and "pp_instant ports v \<le> pp_instant ports w + timeout"
  shows "pp_instant ports (fst (connect_first ports host port timeout w)) \<le> pp_instant ports w + timeout"
  using connect_candidates_in_time[OF assms(1,3)] assms(2) by (simp add: connect_first_def Let_def)

end
