(* ===== verification/Network_Events.thy ===== *)
theory Network_Events
  imports Runtime_State
begin

text \<open>
  The event plane that tells the Automation engine of a new default network
  (\<open>rust/crates/runtime/src/network.rs\<close>, \<open>NetworkDefaultEventPlane\<close>): one subscription at a time, fed by
  a source that can be replaced. A source is started and stopped outside the lock of the plane, so the
  operations are split into their critical sections and the calls between them. Sources (\<open>'s\<close>) and
  channels (\<open>'c\<close>, tokio's bounded \<open>mpsc\<close>) are opaque; what a \<open>try_send\<close> answers is an argument.
\<close>

section \<open>Events and registrations\<close>

abbreviation NETWORK_EVENT_FACT_BYTES :: nat where "NETWORK_EVENT_FACT_BYTES \<equiv> 128"

record network_event =
  ne_network_id :: "string option"
  ne_transport :: "string option"

definition event_fact_valid :: "string option \<Rightarrow> bool" where
  "event_fact_valid announced \<longleftrightarrow>
     (case announced of None \<Rightarrow> True | Some f \<Rightarrow> f \<noteq> [] \<and> length f \<le> NETWORK_EVENT_FACT_BYTES)"

definition network_event_validate :: "network_event \<Rightarrow> unit res" where
  "network_event_validate e =
     (if event_fact_valid (ne_network_id e) \<and> event_fact_valid (ne_transport e) then Ok ()
      else err_invalid ''network default-change fact is out of bounds'')"

record event_registration =
  nr_fence :: admission_fence
  nr_subscription_generation :: u64
  nr_source_generation :: u64

datatype event_delivery = Baseline | Unchanged | Delivered | DroppedSaturated | IgnoredStale

datatype send_outcome = SendOk | SendFull | SendClosed

datatype ('s, 'c) cleanup_continuation =
  ContinueUnsubscribe
| ContinueReplace 'c admission_fence 's

record ('s, 'c) event_cleanup =
  nc_registration :: event_registration
  nc_source :: 's
  nc_continuation :: "('s, 'c) cleanup_continuation"

record ('s, 'c) event_active =
  na_registration :: event_registration
  na_source :: 's
  na_sender :: 'c
  na_baseline :: "network_event option"
  na_saturation_dropped :: u64

datatype ('s, 'c) event_slot =
  SlotVacant
| SlotActive "('s, 'c) event_active"
| SlotTransitioning
| SlotCleanupBlocked "('s, 'c) event_cleanup"

record ('s, 'c) event_plane =
  np_subscription_generation :: u64
  np_source_generation :: u64
  np_slot :: "('s, 'c) event_slot"
  np_pending_saturation :: u64

definition event_plane_default :: "('s, 'c) event_plane" where
  "event_plane_default = \<lparr>np_subscription_generation = 0, np_source_generation = 0, np_slot = SlotVacant,
     np_pending_saturation = 0\<rparr>"

definition next_generation :: "u64 \<Rightarrow> u64 res" where
  "next_generation current =
     ok_or (checked_add current 1) (domain_error_new ResourceLimit ''network event generation exhausted'')"

definition subscription_exists :: domain_error where
  "subscription_exists = domain_error_new AlreadyExists ''network event subscription already exists''"

definition stale_subscription :: domain_error where
  "stale_subscription = domain_error_new StaleAuthority ''network event subscription is stale''"

section \<open>The critical sections\<close>

definition flush_saturation :: "u64 \<Rightarrow> ('s, 'c) event_plane \<Rightarrow> ('s, 'c) event_plane" where
  "flush_saturation dropped p = p\<lparr>np_pending_saturation := saturating_add (np_pending_saturation p) dropped\<rparr>"

text \<open>\<open>NetworkDefaultEventIngress::observe\<close>, by whoever still holds an ingress.\<close>

definition observe_event ::
  "event_registration \<Rightarrow> network_event \<Rightarrow> send_outcome \<Rightarrow> ('s, 'c) event_plane \<Rightarrow>
   ('s, 'c) event_plane \<times> event_delivery res" where
  "observe_event registration observed sent p =
     (case np_slot p of
        SlotActive active \<Rightarrow>
          if na_registration active \<noteq> registration then (p, Ok IgnoredStale)
          else (case network_event_validate observed of
            Err e \<Rightarrow> (p, Err e)
          | Ok _ \<Rightarrow>
              let seen = active\<lparr>na_baseline := Some observed\<rparr>
              in if na_baseline active = None then (p\<lparr>np_slot := SlotActive seen\<rparr>, Ok Baseline)
                 else if na_baseline active = Some observed then (p, Ok Unchanged)
                 else (case sent of
                   SendOk \<Rightarrow>
                     (let recovered = na_saturation_dropped active;
                          p = p\<lparr>np_slot := SlotActive (seen\<lparr>na_saturation_dropped := 0\<rparr>)\<rparr>
                      in (if recovered > 0 then flush_saturation recovered p else p, Ok Delivered))
                 | SendFull \<Rightarrow>
                     (p\<lparr>np_slot := SlotActive (seen\<lparr>na_saturation_dropped :=
                        saturating_add (na_saturation_dropped active) 1\<rparr>)\<rparr>, Ok DroppedSaturated)
                 | SendClosed \<Rightarrow> (p\<lparr>np_slot := SlotActive seen\<rparr>, Ok IgnoredStale)))
      | _ \<Rightarrow> (p, Ok IgnoredStale))"

definition activate ::
  "event_registration \<Rightarrow> 's \<Rightarrow> 'c \<Rightarrow> ('s, 'c) event_slot" where
  "activate registration source sender =
     SlotActive \<lparr>na_registration = registration, na_source = source, na_sender = sender, na_baseline = None,
       na_saturation_dropped = 0\<rparr>"

text \<open>\<open>subscribe\<close> up to the start of the source, with the sender of its new channel.\<close>

definition subscribe_section ::
  "admission_fence \<Rightarrow> 's \<Rightarrow> 'c \<Rightarrow> ('s, 'c) event_plane \<Rightarrow> ('s, 'c) event_plane \<times> event_registration res" where
  "subscribe_section fence source sender p =
     (if af_host_generation fence = 0 then (p, err_invalid ''network event fence is invalid'')
      else if np_slot p \<noteq> SlotVacant then (p, Err subscription_exists)
      else case next_generation (np_subscription_generation p) of
        Err e \<Rightarrow> (p, Err e)
      | Ok subscription_generation \<Rightarrow>
          case next_generation (np_source_generation p) of
            Err e \<Rightarrow> (p, Err e)
          | Ok source_generation \<Rightarrow>
              let registration = \<lparr>nr_fence = fence, nr_subscription_generation = subscription_generation,
                    nr_source_generation = source_generation\<rparr>
              in (p\<lparr>np_subscription_generation := subscription_generation, np_source_generation := source_generation,
                     np_slot := activate registration source sender\<rparr>,
                  Ok registration))"

text \<open>The first sections of \<open>unsubscribe\<close>, \<open>replace_source\<close> and \<open>retry_cleanup\<close>: what is to be cleaned up, if anything.\<close>

definition unsubscribe_section ::
  "u64 \<Rightarrow> ('s, 'c) event_plane \<Rightarrow> ('s, 'c) event_plane \<times> ('s, 'c) event_cleanup option res" where
  "unsubscribe_section generation p =
     (case np_slot p of
        SlotActive active \<Rightarrow>
          if nr_subscription_generation (na_registration active) = generation
          then ((flush_saturation (na_saturation_dropped active) p)\<lparr>np_slot := SlotTransitioning\<rparr>,
                Ok (Some \<lparr>nc_registration = na_registration active, nc_source = na_source active,
                      nc_continuation = ContinueUnsubscribe\<rparr>))
          else (p, Err stale_subscription)
      | SlotCleanupBlocked cleanup \<Rightarrow>
          if nr_subscription_generation (nc_registration cleanup) = generation
          then (p\<lparr>np_slot := SlotTransitioning\<rparr>, Ok (Some (cleanup\<lparr>nc_continuation := ContinueUnsubscribe\<rparr>)))
          else (p, Err stale_subscription)
      | SlotVacant \<Rightarrow> (p, Ok None)
      | SlotTransitioning \<Rightarrow> (p, Err stale_subscription))"

definition replace_section ::
  "u64 \<Rightarrow> 's \<Rightarrow> ('s, 'c) event_plane \<Rightarrow> ('s, 'c) event_plane \<times> ('s, 'c) event_cleanup option res" where
  "replace_section generation replacement p =
     (case np_slot p of
        SlotActive active \<Rightarrow>
          if nr_subscription_generation (na_registration active) = generation
          then ((flush_saturation (na_saturation_dropped active) p)\<lparr>np_slot := SlotTransitioning\<rparr>,
                Ok (Some \<lparr>nc_registration = na_registration active, nc_source = na_source active,
                      nc_continuation = ContinueReplace (na_sender active) (nr_fence (na_registration active)) replacement\<rparr>))
          else (p, Err stale_subscription)
      | _ \<Rightarrow> (p, Err stale_subscription))"

definition retry_section ::
  "('s, 'c) event_plane \<Rightarrow> ('s, 'c) event_plane \<times> ('s, 'c) event_cleanup option res" where
  "retry_section p =
     (case np_slot p of
        SlotCleanupBlocked cleanup \<Rightarrow> (p\<lparr>np_slot := SlotTransitioning\<rparr>, Ok (Some cleanup))
      | _ \<Rightarrow> (p, Ok None))"

text \<open>
  \<open>finish_cleanup\<close> after its source answered the stop, with the first section of \<open>start_replacement\<close>:
  the registration the replacement is to be started with, if there is one.
\<close>

definition cleanup_section ::
  "('s, 'c) event_cleanup \<Rightarrow> unit res \<Rightarrow> ('s, 'c) event_plane \<Rightarrow>
   ('s, 'c) event_plane \<times> event_registration option res" where
  "cleanup_section cleanup stopped p =
     (case stopped of
        Err e \<Rightarrow> (p\<lparr>np_slot := SlotCleanupBlocked cleanup\<rparr>, Err e)
      | Ok _ \<Rightarrow>
          case nc_continuation cleanup of
            ContinueUnsubscribe \<Rightarrow> (p\<lparr>np_slot := SlotVacant\<rparr>, Ok None)
          | ContinueReplace sender fence source \<Rightarrow>
              case next_generation (np_source_generation p) of
                Err e \<Rightarrow> (p, Err e)
              | Ok source_generation \<Rightarrow>
                  let registration = \<lparr>nr_fence = fence,
                        nr_subscription_generation = nr_subscription_generation (nc_registration cleanup),
                        nr_source_generation = source_generation\<rparr>
                  in (p\<lparr>np_source_generation := source_generation, np_slot := activate registration source sender\<rparr>,
                      Ok (Some registration)))"

definition active_subscription_generation :: "('s, 'c) event_plane \<Rightarrow> u64 option" where
  "active_subscription_generation p =
     (case np_slot p of
        SlotActive active \<Rightarrow> Some (nr_subscription_generation (na_registration active)) | _ \<Rightarrow> None)"

definition saturation_dropped :: "('s, 'c) event_plane \<Rightarrow> u64" where
  "saturation_dropped p =
     saturating_add (np_pending_saturation p)
       (case np_slot p of SlotActive active \<Rightarrow> na_saturation_dropped active | _ \<Rightarrow> 0)"

definition take_saturation_diagnostic :: "('s, 'c) event_plane \<Rightarrow> ('s, 'c) event_plane \<times> u64 option" where
  "take_saturation_diagnostic p =
     (if np_pending_saturation p > 0 then (p\<lparr>np_pending_saturation := 0\<rparr>, Some (np_pending_saturation p))
      else (p, None))"

section \<open>The operations of one thread\<close>

text \<open>
  The operations as one thread runs them when no other comes between: \<open>stop\<close> and \<open>start\<close> are the
  answers of the sources.
\<close>

definition event_unsubscribe ::
  "('s \<Rightarrow> event_registration \<Rightarrow> unit res) \<Rightarrow> u64 \<Rightarrow> ('s, 'c) event_plane \<Rightarrow> ('s, 'c) event_plane \<times> unit res" where
  "event_unsubscribe stop generation p =
     (case unsubscribe_section generation p of
        (p, Err e) \<Rightarrow> (p, Err e)
      | (p, Ok None) \<Rightarrow> (p, Ok ())
      | (p, Ok (Some cleanup)) \<Rightarrow>
          (case cleanup_section cleanup (stop (nc_source cleanup) (nc_registration cleanup)) p of
             (p, Err e) \<Rightarrow> (p, Err e) | (p, Ok _) \<Rightarrow> (p, Ok ())))"

text \<open>A source that does not start is unsubscribed again.\<close>

definition after_start ::
  "('s \<Rightarrow> event_registration \<Rightarrow> unit res) \<Rightarrow> unit res \<Rightarrow> event_registration \<Rightarrow> ('s, 'c) event_plane \<Rightarrow>
   ('s, 'c) event_plane \<times> unit res" where
  "after_start stop started registration p =
     (case started of
        Ok _ \<Rightarrow> (p, Ok ())
      | Err start_error \<Rightarrow>
          case event_unsubscribe stop (nr_subscription_generation registration) p of
            (p, Ok _) \<Rightarrow> (p, Err start_error)
          | (p, Err cleanup_error) \<Rightarrow> (p, Err cleanup_error))"

record event_subscription =
  es_generation :: u64
  es_closed :: bool

definition event_subscribe ::
  "('s \<Rightarrow> event_registration \<Rightarrow> unit res) \<Rightarrow> ('s \<Rightarrow> event_registration \<Rightarrow> unit res) \<Rightarrow> admission_fence \<Rightarrow> 's \<Rightarrow> 'c \<Rightarrow>
   ('s, 'c) event_plane \<Rightarrow> ('s, 'c) event_plane \<times> event_subscription res" where
  "event_subscribe start stop fence source sender p =
     (case subscribe_section fence source sender p of
        (p, Err e) \<Rightarrow> (p, Err e)
      | (p, Ok registration) \<Rightarrow>
          case after_start stop (start source registration) registration p of
            (p, Err e) \<Rightarrow> (p, Err e)
          | (p, Ok _) \<Rightarrow>
              (p, Ok \<lparr>es_generation = nr_subscription_generation registration, es_closed = False\<rparr>))"

text \<open>\<open>replace_source\<close> and \<open>retry_cleanup\<close> from their first section on.\<close>

definition finish_event_cleanup ::
  "('s \<Rightarrow> event_registration \<Rightarrow> unit res) \<Rightarrow> ('s \<Rightarrow> event_registration \<Rightarrow> unit res) \<Rightarrow> ('s, 'c) event_cleanup \<Rightarrow>
   ('s, 'c) event_plane \<Rightarrow> ('s, 'c) event_plane \<times> unit res" where
  "finish_event_cleanup start stop cleanup p =
     (case cleanup_section cleanup (stop (nc_source cleanup) (nc_registration cleanup)) p of
        (p, Err e) \<Rightarrow> (p, Err e)
      | (p, Ok None) \<Rightarrow> (p, Ok ())
      | (p, Ok (Some registration)) \<Rightarrow>
          (case nc_continuation cleanup of
             ContinueUnsubscribe \<Rightarrow> (p, Ok ())
           | ContinueReplace sender fence source \<Rightarrow>
               after_start stop (start source registration) registration p))"

text \<open>
  \<open>close\<close>, which dropping a subscription calls too. The first call marks the subscription closed whatever
  its section answers; \<open>Some cleanup\<close> is left to be finished.
\<close>

definition close_section ::
  "event_subscription \<Rightarrow> ('s, 'c) event_plane \<Rightarrow>
   event_subscription \<times> ('s, 'c) event_plane \<times> ('s, 'c) event_cleanup option res" where
  "close_section subscription p =
     (if es_closed subscription then (subscription, p, Ok None)
      else case unsubscribe_section (es_generation subscription) p of (p, r) \<Rightarrow>
        (subscription\<lparr>es_closed := True\<rparr>, p, r))"

section \<open>The source over the Android application\<close>

record event_control =
  nt_executor :: executor_record
  nt_primitive :: string
  nt_subscription_generation :: u64
  nt_source_generation :: u64

text \<open>\<open>dispatch_control\<close> up to the dispatch: the control it sends under the capability of the moment.\<close>

definition dispatch_control ::
  "capability_snapshot res \<Rightarrow> string \<Rightarrow> event_registration \<Rightarrow> event_control res" where
  "dispatch_control capability primitive registration =
     rbind capability (\<lambda>capability.
     if cs_fence capability \<noteq> nr_fence registration
     then err StaleAuthority ''network event source fence is stale''
     else if cc_app_execution_surface (cs_context capability) \<noteq> Available
     then err CapabilityUnavailable ''Android network callback source is unavailable''
     else let capability_generation = gen_app_framework (rf_generations (cs_resolver_facts capability))
          in if capability_generation = 0
             then err CapabilityUnavailable ''Android network callback generation is unavailable''
             else Ok \<lparr>nt_executor = \<lparr>er_host = cc_host (cs_context capability), er_provider = TokenAppFramework,
                        er_execution_class = ClassAndroidFramework, er_capability_generation = capability_generation,
                        er_fence = fence_of (nr_fence registration)\<rparr>,
                      nt_primitive = primitive,
                      nt_subscription_generation = nr_subscription_generation registration,
                      nt_source_generation = nr_source_generation registration\<rparr>)"

section \<open>Any interleaving\<close>

text \<open>
  The plane, the cleanups whose sources are being stopped, and what the observations and the diagnostics
  have counted so far: the events that were dropped because the channel was full, and those a diagnostic
  has reported. The cleanup whose source answers is named by its place.
\<close>

datatype ('s, 'c) plane_op =
  PlaneSubscribe admission_fence 's 'c
| PlaneObserve event_registration network_event send_outcome
| PlaneUnsubscribe u64
| PlaneReplace u64 's
| PlaneRetry
| PlaneStopped nat "unit res"
| PlaneDiagnostic

record ('s, 'c) plane_system =
  ps_plane :: "('s, 'c) event_plane"
  ps_cleanups :: "('s, 'c) event_cleanup list"
  ps_dropped :: nat
  ps_reported :: nat

definition plane_system_default :: "('s, 'c) plane_system" where
  "plane_system_default = \<lparr>ps_plane = event_plane_default, ps_cleanups = [], ps_dropped = 0, ps_reported = 0\<rparr>"

definition begin_cleanup ::
  "('s, 'c) plane_system \<Rightarrow> ('s, 'c) event_plane \<times> ('s, 'c) event_cleanup option res \<Rightarrow> ('s, 'c) plane_system" where
  "begin_cleanup s taken =
     (case taken of
        (p, Ok (Some cleanup)) \<Rightarrow> s\<lparr>ps_plane := p, ps_cleanups := ps_cleanups s @ [cleanup]\<rparr>
      | (p, _) \<Rightarrow> s\<lparr>ps_plane := p\<rparr>)"

fun plane_step :: "('s, 'c) plane_op \<Rightarrow> ('s, 'c) plane_system \<Rightarrow> ('s, 'c) plane_system" where
  "plane_step (PlaneSubscribe fence source sender) s =
     s\<lparr>ps_plane := fst (subscribe_section fence source sender (ps_plane s))\<rparr>"
| "plane_step (PlaneObserve registration observed sent) s =
     (case observe_event registration observed sent (ps_plane s) of (p, delivery) \<Rightarrow>
        s\<lparr>ps_plane := p, ps_dropped := ps_dropped s + (if delivery = Ok DroppedSaturated then 1 else 0)\<rparr>)"
| "plane_step (PlaneUnsubscribe generation) s = begin_cleanup s (unsubscribe_section generation (ps_plane s))"
| "plane_step (PlaneReplace generation source) s = begin_cleanup s (replace_section generation source (ps_plane s))"
| "plane_step PlaneRetry s = begin_cleanup s (retry_section (ps_plane s))"
| "plane_step (PlaneStopped i stopped) s =
     (if i < length (ps_cleanups s)
      then s\<lparr>ps_plane := fst (cleanup_section (ps_cleanups s ! i) stopped (ps_plane s)),
             ps_cleanups := take i (ps_cleanups s) @ drop (Suc i) (ps_cleanups s)\<rparr>
      else s)"
| "plane_step PlaneDiagnostic s =
     (case take_saturation_diagnostic (ps_plane s) of (p, diagnostic) \<Rightarrow>
        s\<lparr>ps_plane := p,
          ps_reported := ps_reported s + (case diagnostic of None \<Rightarrow> 0 | Some n \<Rightarrow> unat n)\<rparr>)"

definition plane_run :: "('s, 'c) plane_op list \<Rightarrow> ('s, 'c) plane_system \<Rightarrow> ('s, 'c) plane_system" where
  "plane_run ops s = fold plane_step ops s"

section \<open>Retired registrations\<close>

definition active_with :: "event_registration \<Rightarrow> ('s, 'c) event_plane \<Rightarrow> bool" where
  "active_with registration p \<longleftrightarrow>
     (case np_slot p of SlotActive active \<Rightarrow> na_registration active = registration | _ \<Rightarrow> False)"

text \<open>An issued registration that is not the active one.\<close>

definition retired :: "event_registration \<Rightarrow> ('s, 'c) event_plane \<Rightarrow> bool" where
  "retired registration p \<longleftrightarrow>
     nr_source_generation registration \<le> np_source_generation p \<and> \<not> active_with registration p"

lemma next_generation_Ok: "next_generation g = Ok g' \<longleftrightarrow> checked_add g 1 = Some g'"
  by (cases "checked_add g 1") (simp_all add: next_generation_def)

lemma next_generation_greater: "next_generation g = Ok g' \<Longrightarrow> g < g'"
  using unat_checked_add[of g 1 g'] by (simp add: next_generation_Ok word_less_nat_alt)

lemma retired_observe: "retired r p \<Longrightarrow> retired r (fst (observe_event q e sent p))"
  by (auto simp: observe_event_def retired_def active_with_def flush_saturation_def Let_def
      split: event_slot.split sum.split send_outcome.split)

lemma retired_subscribe:
  assumes "retired r p"
  shows "retired r (fst (subscribe_section fence source sender p))"
proof -
  have "nr_source_generation r < g" if "next_generation (np_source_generation p) = Ok g" for g
    by (rule le_less_trans[OF conjunct1[OF assms[unfolded retired_def]] next_generation_greater[OF that]])
  with assms show ?thesis
    by (fastforce simp: subscribe_section_def retired_def active_with_def activate_def Let_def
        intro: less_imp_le split: sum.split)
qed

lemma retired_cleanup:
  assumes "retired r p"
  shows "retired r (fst (cleanup_section c stopped p))"
proof -
  have "nr_source_generation r < g" if "next_generation (np_source_generation p) = Ok g" for g
    by (rule le_less_trans[OF conjunct1[OF assms[unfolded retired_def]] next_generation_greater[OF that]])
  with assms show ?thesis
    by (fastforce simp: cleanup_section_def retired_def active_with_def activate_def Let_def
        intro: less_imp_le split: sum.split cleanup_continuation.split)
qed

lemma retired_taken:
  assumes "retired r p"
  shows "retired r (fst (unsubscribe_section g p))" "retired r (fst (replace_section g source p))"
    "retired r (fst (retry_section p))" "retired r (fst (take_saturation_diagnostic p))"
  using assms
  by (auto simp: unsubscribe_section_def replace_section_def retry_section_def take_saturation_diagnostic_def
      retired_def active_with_def flush_saturation_def split: event_slot.splits)

lemma begin_cleanup_plane [simp]: "ps_plane (begin_cleanup s taken) = fst taken"
  by (simp add: begin_cleanup_def split_beta split: sum.split option.split)

lemma retired_step: "retired r (ps_plane s) \<Longrightarrow> retired r (ps_plane (plane_step op s))"
  by (cases op)
    (simp_all add: retired_subscribe retired_taken retired_cleanup retired_observe split_beta)

lemma retired_run: "retired r (ps_plane s) \<Longrightarrow> retired r (ps_plane (plane_run ops s))"
  by (induction ops arbitrary: s) (simp_all add: plane_run_def retired_step)

text \<open>
  a callback that outlived its registration is harmless forever. Once a registration was issued and
  is no longer the active one, no later subscription, replacement, cleanup or retry, in any
  interleaving, makes it count again: what its ingress observes is ignored, sends nothing and
  changes nothing.
\<close>

lemma retired_callback_ignored:
  assumes "nr_source_generation registration \<le> np_source_generation (ps_plane s)"
    and "\<not> active_with registration (ps_plane s)"
  shows "observe_event registration observed sent (ps_plane (plane_run ops s))
    = (ps_plane (plane_run ops s), Ok IgnoredStale)"
proof -
  have "retired registration (ps_plane (plane_run ops s))"
    by (rule retired_run) (use assms in \<open>simp add: retired_def\<close>)
  then show ?thesis by (auto simp: observe_event_def retired_def active_with_def split: event_slot.splits)
qed

section \<open>Dropped events\<close>

definition slot_dropped :: "('s, 'c) event_slot \<Rightarrow> nat" where
  "slot_dropped slot = (case slot of SlotActive active \<Rightarrow> unat (na_saturation_dropped active) | _ \<Rightarrow> 0)"

text \<open>While a source is being stopped the slot is in transition, and only then.\<close>

definition one_transition :: "('s, 'c) plane_system \<Rightarrow> bool" where
  "one_transition s \<longleftrightarrow>
     (case np_slot (ps_plane s) of SlotTransitioning \<Rightarrow> length (ps_cleanups s) \<le> 1 | _ \<Rightarrow> ps_cleanups s = [])"

definition drops_accounted :: "('s, 'c) plane_system \<Rightarrow> bool" where
  "drops_accounted s \<longleftrightarrow>
     ps_dropped s = ps_reported s + unat (np_pending_saturation (ps_plane s)) + slot_dropped (np_slot (ps_plane s))"

lemma unat_saturating_add_small:
  "unat a + unat b < 2 ^ LENGTH('a) \<Longrightarrow> unat (saturating_add a b) = unat a + unat b" for a b :: "'a::len word"
  by (simp add: saturating_add_def unat_word_ariths)

lemma drop_front: "length xs \<le> 1 \<Longrightarrow> i < length xs \<Longrightarrow> take i xs @ drop (Suc i) xs = []"
  by (cases xs) auto

lemma one_transition_step:
  assumes "one_transition s"
  shows "one_transition (plane_step op s)"
proof (cases op)
  case (PlaneSubscribe fence source sender)
  with assms show ?thesis
    by (auto simp: one_transition_def subscribe_section_def Let_def activate_def split: sum.split event_slot.splits)
next
  case (PlaneObserve r e sent)
  with assms show ?thesis
    by (auto simp: one_transition_def observe_event_def Let_def flush_saturation_def split_beta
        split: sum.splits event_slot.splits send_outcome.splits)
next
  case (PlaneUnsubscribe g)
  with assms show ?thesis
    by (auto simp: one_transition_def begin_cleanup_def unsubscribe_section_def split: event_slot.splits)
next
  case (PlaneReplace g source)
  with assms show ?thesis
    by (auto simp: one_transition_def begin_cleanup_def replace_section_def split: event_slot.splits)
next
  case PlaneRetry
  with assms show ?thesis
    by (auto simp: one_transition_def begin_cleanup_def retry_section_def split: event_slot.splits)
next
  case (PlaneStopped i stopped)
  show ?thesis
  proof (cases "i < length (ps_cleanups s)")
    case True
    with assms have "length (ps_cleanups s) \<le> 1" by (auto simp: one_transition_def split: event_slot.splits)
    from drop_front[OF this True] show ?thesis
      unfolding PlaneStopped plane_step.simps if_P[OF True] by (simp only:) (simp add: one_transition_def split: event_slot.split)
  next
    case False
    with assms PlaneStopped show ?thesis by simp
  qed
next
  case PlaneDiagnostic
  with assms show ?thesis
    by (cases "np_slot (ps_plane s)")
      (auto simp: one_transition_def take_saturation_diagnostic_def split_beta)
qed

lemma drops_step:
  assumes ok: "one_transition s" "drops_accounted s" and small: "ps_dropped (plane_step op s) < 2 ^ 64"
  shows "drops_accounted (plane_step op s)"
proof -
  let ?p = "ps_plane s"
  have grows: "ps_dropped s \<le> ps_dropped (plane_step op s)"
    by (cases op) (simp_all add: begin_cleanup_def split_beta split: sum.split option.split)
  have sum: "unat (np_pending_saturation ?p) + slot_dropped (np_slot ?p) < 2 ^ 64"
    using ok(2) small grows by (simp add: drops_accounted_def)
  have flush: "unat (np_pending_saturation (flush_saturation (na_saturation_dropped active) ?p))
      = unat (np_pending_saturation ?p) + unat (na_saturation_dropped active)" if "np_slot ?p = SlotActive active" for active
    using sum that by (simp add: flush_saturation_def slot_dropped_def unat_saturating_add_small)
  show ?thesis
  proof (cases op)
    case (PlaneSubscribe fence source sender)
    with ok show ?thesis
      by (auto simp: drops_accounted_def subscribe_section_def Let_def activate_def slot_dropped_def
          split: sum.split event_slot.splits)
  next
    case (PlaneObserve r e sent)
    have full: "unat (saturating_add (na_saturation_dropped active) 1) = unat (na_saturation_dropped active) + 1"
      if "np_slot ?p = SlotActive active" "observe_event r e sent ?p = (q, Ok DroppedSaturated)" for active q
    proof -
      have "unat (np_pending_saturation ?p) + unat (na_saturation_dropped active) + 1 < 2 ^ 64"
        using ok(2) small that PlaneObserve by (simp add: drops_accounted_def slot_dropped_def)
      then show ?thesis by (simp add: unat_saturating_add_small)
    qed
    show ?thesis
    proof (cases "np_slot ?p")
      case (SlotActive active)
      show ?thesis
        using ok(2) full[OF SlotActive] flush[OF SlotActive] PlaneObserve SlotActive
        by (auto simp: drops_accounted_def observe_event_def Let_def slot_dropped_def flush_saturation_def word_gt_0
            split: sum.splits send_outcome.splits if_splits)
    qed (use ok(2) PlaneObserve in \<open>auto simp: drops_accounted_def observe_event_def\<close>)
  next
    case (PlaneUnsubscribe g)
    with ok flush show ?thesis
      by (auto simp: drops_accounted_def begin_cleanup_def unsubscribe_section_def slot_dropped_def split: event_slot.splits)
  next
    case (PlaneReplace g source)
    with ok flush show ?thesis
      by (auto simp: drops_accounted_def begin_cleanup_def replace_section_def slot_dropped_def split: event_slot.splits)
  next
    case PlaneRetry
    with ok show ?thesis
      by (auto simp: drops_accounted_def begin_cleanup_def retry_section_def slot_dropped_def split: event_slot.splits)
  next
    case (PlaneStopped i stopped)
    show ?thesis
    proof (cases "i < length (ps_cleanups s)")
      case True
      with ok(1) have "np_slot ?p = SlotTransitioning" by (auto simp: one_transition_def split: event_slot.splits)
      with ok(2) True PlaneStopped show ?thesis
        by (auto simp: drops_accounted_def cleanup_section_def slot_dropped_def activate_def Let_def
            split: sum.splits cleanup_continuation.splits)
    next
      case False
      with ok(2) PlaneStopped show ?thesis by simp
    qed
  next
    case PlaneDiagnostic
    with ok(2) show ?thesis
      by (auto simp: drops_accounted_def take_saturation_diagnostic_def word_gt_0)
  qed
qed

lemma plane_run_snoc: "plane_run (ops @ [op]) s = plane_step op (plane_run ops s)"
  by (simp add: plane_run_def)

lemma one_transition_run: "one_transition (plane_run ops plane_system_default)"
  by (induction ops rule: rev_induct)
    (simp_all add: plane_run_snoc one_transition_step, simp add: plane_run_def one_transition_def
      plane_system_default_def event_plane_default_def)

lemma drops_run:
  "ps_dropped (plane_run ops plane_system_default) < 2 ^ 64 \<Longrightarrow> drops_accounted (plane_run ops plane_system_default)"
proof (induction ops rule: rev_induct)
  case Nil
  show ?case by (simp add: plane_run_def drops_accounted_def plane_system_default_def event_plane_default_def slot_dropped_def)
next
  case (snoc op ops)
  let ?s = "plane_run ops plane_system_default"
  have "ps_dropped ?s \<le> ps_dropped (plane_step op ?s)"
    by (cases op) (simp_all add: begin_cleanup_def split_beta split: sum.split option.split)
  with snoc show ?case
    by (auto simp: plane_run_snoc intro!: drops_step one_transition_run)
qed

text \<open>
  C33: no event that the full channel dropped is forgotten. Through subscriptions, replacements and
  cleanups in any interleaving, the events dropped so far are those the diagnostics reported and
  those \<open>saturation_dropped\<close> still counts, until there were 2^64 of them.
\<close>

theorem dropped_events_accounted:
  assumes "ps_dropped (plane_run ops plane_system_default) < 2 ^ 64"
  shows "ps_dropped (plane_run ops plane_system_default)
    = ps_reported (plane_run ops plane_system_default) + unat (saturation_dropped (ps_plane (plane_run ops plane_system_default)))"
proof -
  have a: "drops_accounted (plane_run ops plane_system_default)" by (rule drops_run[OF assms])
  with assms show ?thesis
    by (auto simp: drops_accounted_def saturation_dropped_def slot_dropped_def unat_saturating_add_small
        split: event_slot.splits)
qed

section \<open>Closing during a replacement\<close>


section \<open>A sample\<close>

definition plane_sample_fence :: admission_fence where
  "plane_sample_fence = \<lparr>af_runtime_epoch = UuidV4 ''e'', af_host_generation = 1, af_runtime_instance_id = UuidV4 ''i''\<rparr>"

abbreviation plane_event :: "string \<Rightarrow> network_event" where
  "plane_event i \<equiv> \<lparr>ne_network_id = Some i, ne_transport = None\<rparr>"

abbreviation plane_registration :: "u64 \<Rightarrow> event_registration" where
  "plane_registration g \<equiv> \<lparr>nr_fence = plane_sample_fence, nr_subscription_generation = 1, nr_source_generation = g\<rparr>"

definition plane_sample :: "(string, nat) plane_op list" where
  "plane_sample = [PlaneSubscribe plane_sample_fence ''old'' 0,
     PlaneObserve (plane_registration 1) (plane_event ''a'') SendOk,
     PlaneObserve (plane_registration 1) (plane_event ''b'') SendFull,
     PlaneReplace 1 ''new'', PlaneStopped 0 (Ok ())]"

lemma plane_sample_run:
  "plane_run plane_sample plane_system_default =
     \<lparr>ps_plane = \<lparr>np_subscription_generation = 1, np_source_generation = 2,
        np_slot = activate (plane_registration 2) ''new'' 0, np_pending_saturation = 1\<rparr>,
      ps_cleanups = [], ps_dropped = 1, ps_reported = 0\<rparr>"
  by (simp add: plane_run_def plane_sample_def plane_system_default_def event_plane_default_def subscribe_section_def
      plane_sample_fence_def next_generation_def checked_add_def Let_def activate_def observe_event_def
      network_event_validate_def event_fact_valid_def replace_section_def begin_cleanup_def flush_saturation_def
      cleanup_section_def saturating_add_def)

lemma retired_callback_ignored_witness:
  "observe_event (plane_registration 1) (plane_event ''c'') SendOk
     (ps_plane (plane_run [PlaneUnsubscribe 1] (plane_run plane_sample plane_system_default)))
   = (ps_plane (plane_run [PlaneUnsubscribe 1] (plane_run plane_sample plane_system_default)), Ok IgnoredStale)"
  by (rule retired_callback_ignored) (simp_all add: plane_sample_run active_with_def activate_def)

theorem dropped_events_accounted_witness:
  "ps_dropped (plane_run plane_sample plane_system_default) = 1
   \<and> unat (saturation_dropped (ps_plane (plane_run plane_sample plane_system_default))) = 1"
  using dropped_events_accounted[of plane_sample] by (simp add: plane_sample_run)


end
