(* ===== verification/Network_Samples.thy ===== *)
theory Network_Samples
  imports Network_Properties Network_Events Core_Samples
begin

text \<open>Concrete captures, hosts and calls on which the theorems about the network tool hold.\<close>

section \<open>A capture\<close>

definition sample_packet :: "u64 \<Rightarrow> string \<Rightarrow> pcap_record" where
  "sample_packet index b = \<lparr>pr_index = index, pr_seconds = 1, pr_microseconds = 2, pr_original_len = 9, pr_bytes = b\<rparr>"

abbreviation sample_records :: "pcap_record list" where
  "sample_records \<equiv> [sample_packet 0 ''a'', sample_packet 1 ''bc'']"

theorem capture_read_back_witness:
  "read_pcap (take 24 (pcap_stream 1 [sample_packet 0 ''a''])) = Ok []
   \<and> is_ok (read_pcap (take 25 (pcap_stream 1 [sample_packet 0 ''a'']))) = False"
proof -
  let ?p = "sample_packet 0 ''a''"
  let ?s = "pcap_stream 1 [?p]"
  have numbered: "numbered 0 [?p]" by (simp add: numbered_def sample_packet_def)
  have len: "length (pcap_stream 1 []) = 24" "length ?s = 41"
    by (simp_all add: pcap_stream_def record_bytes_def sample_packet_def)
  have "take 24 ?s = pcap_stream 1 []" by (simp add: pcap_stream_def)
  then have "read_pcap (take 24 ?s) = Ok []"
    using capture_read_back[OF numbered, of 24 1 "[]"] by auto
  moreover have "read_pcap (take 25 ?s) \<noteq> Ok rs" for rs
  proof
    assume "read_pcap (take 25 ?s) = Ok rs"
    then obtain k where "k \<le> length [?p]" "take 25 ?s = pcap_stream 1 (take k [?p])"
      using capture_read_back[OF numbered, of 25 1 rs] by blast
    then have "length (take 25 ?s) = length (pcap_stream 1 []) \<or> length (take 25 ?s) = length ?s"
      by (cases k) auto
    with len show False by simp
  qed
  ultimately show ?thesis by (auto simp: is_ok_iff)
qed

definition no_codec :: packet_codec where
  "no_codec = \<lparr>pc_from_ethernet = (\<lambda>_. None), pc_from_ip = (\<lambda>_. None), pc_ipv4_new = (\<lambda>_ _ _ _. True),
     pc_write = (\<lambda>_ _ _ _. None), pc_rfc3339_millis = (\<lambda>_. None)\<rparr>"

theorem capture_pages_complete_witness:
  "\<exists>pages. capture_pages no_codec (\<lambda>r. length (cr_packets r) \<le> 1) sample_records 2 False 3 0 = Some pages
     \<and> concat pages = map (packet_summary_of no_codec False) sample_records"
  using capture_pages_complete[of no_codec "\<lambda>r. length (cr_packets r) \<le> 1" sample_records False 2]
  by (simp add: single_packets_fit_def numeral_3_eq_3 del: capture_pages.simps)

section \<open>A clock\<close>

text \<open>A host whose world is its clock, and a capture that never settles.\<close>

definition waiting_capture :: "capture_result task_snapshot" where
  "waiting_capture = \<lparr>ts_task_id = UuidV4 ''c'', ts_state = TaskRunning, ts_tool = ToolNetwork, ts_action = ''capture'',
     ts_created_at = ''t'', ts_started_at = None, ts_ended_at = None, ts_cancel_requested = False,
     ts_waiting_reason = None, ts_execution_class = None, ts_result = None, ts_error = None\<rparr>"

definition clock_ports :: "(nat, unit, unit) stop_ports" where
  "clock_ports = \<lparr>so_get_task = (\<lambda>_ _ w. (w + 1, Ok waiting_capture)), so_capability = (\<lambda>w. (w, sample_ready)),
     so_new_uuid = (\<lambda>w. (w, Ok (UuidV4 ''x''))), so_run_synchronous = (\<lambda>_ _ _ w. (w + 3, Ok ())),
     so_encode = (\<lambda>_. Some ()), so_instant = (\<lambda>w. w), so_sleep = (\<lambda>n w. w + n)\<rparr>"

lemma capture_stop_returns_witness:
  "stop_capture clock_ports (UuidV4 ''r'') sample_digest (UuidV4 ''c'') ''t'' 7 STOP_READINGS 0 \<noteq> None"
  by (rule capture_stop_returns) (simp add: stop_clock_def clock_ports_def)

definition slow_probe :: "(nat, nat, unit) probe_ports" where
  "slow_probe = \<lparr>pp_instant = (\<lambda>w. w), pp_resolve = (\<lambda>_ _ w. (w + 10, Some [1, 2, 3])),
     pp_connect = (\<lambda>a remaining w. (w + min 400 remaining, Err KindTimedOut)), pp_ip = (\<lambda>a. IpV4 [1, 1, 1, a]),
     pp_peer_ip = (\<lambda>_. None), pp_handshake = (\<lambda>_ _ _ w. (w, None)), pp_server_name = (\<lambda>_. True)\<rparr>"

lemma probe_keeps_budget_witness:
  "pp_instant slow_probe (fst (connect_first slow_probe ''h'' 80 1000 0)) \<le> 1000"
  using probe_keeps_budget[of slow_probe "''h''" 80 0 10 "[1, 2, 3]" 1000]
  by (simp add: connects_in_time_def slow_probe_def)

section \<open>Calls\<close>

abbreviation lan_call :: network_call where
  "lan_call \<equiv> NetworkDiagnose (Tcp ''10.0.0.1'' 80 1000)"

lemma lan_call_target: "parse_ip_text ''10.0.0.1'' = Some (IpV4 [10, 0, 0, 1])"
  by (simp add: parse_ip_text_def parse_ipv4_text_def read_ipv4_def read_separated_def read_number_def number_value_def
      radix_digit_def hex_digit_value_def is_ascii_digit_def less_eq_char_def)

definition lan_snapshot :: capability_snapshot where
  "lan_snapshot = sample_snapshot\<lparr>cs_context := (cs_context sample_snapshot)\<lparr>cc_app_execution_surface := Available\<rparr>\<rparr>"

lemma lan_executor: "resolve_execution lan_snapshot (RouteNetwork InspectOrDiagnose) =
   Ok \<lparr>ae_host = ApkRuntime, ae_provider = AppNative, ae_execution_class = provider_execution_class AppNative,
       ae_capability_generation = af_host_generation sample_fence, ae_fence = sample_fence\<rparr>"
  by (simp add: resolve_execution_def lan_snapshot_def sample_snapshot_def sample_context_def resolve_executor_def
      choose_executor_def available_def uniform_facts_def sample_fence_def Let_def)

lemma lan_derived: "\<exists>derived. derive_capabilities (cs_grants lan_snapshot) (cs_context lan_snapshot) = Ok derived
   \<and> av_state (network_local derived) = Available"
  by (simp add: derive_capabilities_def lan_snapshot_def sample_snapshot_def sample_context_def Let_def
      uniform_grants_def all_required_def any_sufficient_def)

lemma lan_admitted: "\<exists>a. network_admission PayloadNetwork (Ok lan_snapshot) (Ok (UuidV4 ''x'')) (Ok (UuidV4 ''t''))
   (UuidV4 ''r'') sample_digest lan_call ''t'' 7 = Ok a"
proof -
  have "validate_network_input lan_call = Ok ()"
    by (simp add: require_name_def NUL_def diagnose_timeout_in_bounds_def)
  moreover have "cc_readiness (cs_context lan_snapshot) = Ready"
    by (simp add: lan_snapshot_def sample_snapshot_def sample_context_def)
  moreover obtain derived where "derive_capabilities (cs_grants lan_snapshot) (cs_context lan_snapshot) = Ok derived"
    "av_state (network_local derived) = Available"
    using lan_derived by blast
  ultimately show ?thesis
    by (simp add: network_admission_def network_executor_request_def require_local_network_authority_def lan_executor
        del: validate_network_input.simps)
qed


section \<open>Executions\<close>

definition idle_ports :: "(unit, unit, unit) network_ports" where
  "idle_ports = \<lparr>nw_codec = no_codec, nw_open = (\<lambda>_ w. (w, Ok ''packet'')), nw_publish = (\<lambda>_ _ w. (w, Ok ([], []))),
     nw_current = (\<lambda>w. (w, Ok lan_snapshot)), nw_checkpoint = (\<lambda>w. (w, Ok ())), nw_cleanup_is_verified = (\<lambda>_. True),
     nw_run = (\<lambda>_ _ w. (w, Some (Ok \<lparr>ps_outcome = OutDiagnose (DiagnosedTcp DiagSuccess 1 ''h'' 80 None),
       ps_cleanup_verified = True\<rparr>))),
     nw_encode = (\<lambda>_. Some ()), nw_typed_len = (\<lambda>_. Some 10), nw_value_len = (\<lambda>_. Some 10),
     nw_terminal_len = (\<lambda>_. Some 10)\<rparr>"

definition lan_execution :: "unit network_payload admitted_execution" where
  "lan_execution = \<lparr>ax_execution_id = UuidV4 ''x'', ax_task_id = None,
     ax_executor = \<lparr>er_host = ApkRuntime, er_provider = TokenAppNative, er_execution_class = provider_execution_class AppNative,
       er_capability_generation = 1, er_fence = fence_of sample_fence\<rparr>,
     ax_payload = PayloadNetwork (NetworkPacket (PacketInject ''wlan0'' (PacketRef ''dbref:packet:1'') 3 10))\<rparr>"

theorem host_asked_in_bounds_witness:
  "request_in_bounds (PrimPacketInject ''wlan0'' ''packet'' 3 10)"
proof (rule host_asked_in_bounds)
  show "validate_network_input (NetworkPacket (PacketInject ''wlan0'' (PacketRef ''dbref:packet:1'') 3 10)) = Ok ()"
    by (simp add: require_name_def NUL_def require_ref_def starts_with_def)
  show "match_primitive idle_ports (NetworkPacket (PacketInject ''wlan0'' (PacketRef ''dbref:packet:1'') 3 10)) lan_execution
      (network_source_plan_of lan_snapshot TokenAppNative) () = ((), Ok (PrimPacketInject ''wlan0'' ''packet'' 3 10))"
    by (simp add: match_primitive_def idle_ports_def nbind_def cleanly_def clean_def npure_def require_packet_bytes_def)
qed

lemma network_settlement_honest_witness:
  "\<exists>c. execute_network idle_ports (lan_execution\<lparr>ax_payload := PayloadNetwork lan_call\<rparr>) () = ((), Ok c)
     \<and> honest_completion (lan_execution\<lparr>ax_payload := PayloadNetwork lan_call\<rparr>) c"
proof -
  let ?x = "lan_execution\<lparr>ax_payload := PayloadNetwork lan_call\<rparr>"
  have "validate_network_input lan_call = Ok ()"
    by (simp add: require_name_def NUL_def diagnose_timeout_in_bounds_def)
  moreover have "network_executor_is_current lan_snapshot ?x (er_provider (ax_executor ?x))"
    by (simp add: network_executor_is_current_def lan_snapshot_def sample_snapshot_def sample_context_def lan_execution_def
        uniform_facts_def sample_fence_def Let_def)
  ultimately have "\<exists>c. execute_network idle_ports ?x () = ((), Ok c)"
    by (simp add: execute_network_def idle_ports_def nbind_def cleanly_def clean_def npure_def execute_primitive_def
        match_primitive_def run_network_blocking_def settle_primitive_def network_outcome_def outcome_value_def
        encode_result_def encoded_len_def network_outcome_fits_def text_fits_def Let_def del: validate_network_input.simps)
  then obtain c where c: "execute_network idle_ports ?x () = ((), Ok c)" by blast
  with network_settlement_honest[OF c] show ?thesis by blast
qed

end
